(* ===== verification/Prelude.thy ===== *)
theory Prelude
  imports "HOL-Library.Word"
begin

unbundle bit_operations_syntax

text \<open>
  Shared ground of the development: the names of Go's machine types, the outcome of a Go
  call (a value, an error value or a run-time panic), bounds-checked slice operations, and
  the byte-order codecs of \<^verbatim>\<open>encoding/binary\<close> with their inverse laws. Everything here is about
  the language and its standard library; the program's own parts are in the other theories.

  Conventions. A \<^verbatim>\<open>[]byte\<close> is a list of 8-bit words whose capacity is its length, so a slice
  expression past the length panics. A Go \<^verbatim>\<open>int\<close> (64 bits) that is a length, an offset or a
  widened 8, 16 or 32-bit field is a \<open>nat\<close>: the sums and products the code forms of them
  stay far below \<open>2 ^ 63\<close>. Fixed-width arithmetic that can wrap stays on words.
\<close>

type_synonym u8 = "8 word"
type_synonym u16 = "16 word"
type_synonym u32 = "32 word"
type_synonym u64 = "64 word"
type_synonym bytes = "u8 list"

named_theorems outcome_simps \<open>how the outcome combinators and bounds checks compute\<close>
named_theorems codec_simps \<open>lengths and inverses of the byte-order codecs\<close>

section \<open>Outcomes\<close>

text \<open>
  The sentinel errors of \<^verbatim>\<open>internal/casc/errors.go\<close>; \<open>ErrOther\<close> is any error that wraps none of
  them (an error of the standard library or one made by \<^verbatim>\<open>fmt.Errorf\<close> without \<^verbatim>\<open>%w\<close>).
\<close>

datatype cerr =
    ErrFileNotFound
  | ErrInvalidParameter
  | ErrInvalidHandle
  | ErrBadFormat
  | ErrFileCorrupt
  | ErrNotSupported
  | ErrEncrypted
  | ErrAlreadyExists
  | ErrInsufficientBuffer
  | ErrCancelled
  | ErrEndOfFile
  | ErrOther

datatype 'a outcome = Ret 'a | Fail cerr | Panic

fun bnd :: "'a outcome \<Rightarrow> ('a \<Rightarrow> 'b outcome) \<Rightarrow> 'b outcome" where
  "bnd (Ret x) f = f x"
| "bnd (Fail e) f = Fail e"
| "bnd Panic f = Panic"

text \<open>A call is safe when it ends in a value or an error value, never in a panic.\<close>

definition safe :: "'a outcome \<Rightarrow> bool" where
  "safe r \<longleftrightarrow> r \<noteq> Panic"

lemma safe_simps [simp, outcome_simps]:
  "safe (Ret x)" "safe (Fail e)" "\<not> safe Panic"
  by (simp_all add: safe_def)

lemma safe_bnd [outcome_simps]:
  "safe (bnd m f) \<longleftrightarrow> safe m \<and> (\<forall>x. m = Ret x \<longrightarrow> safe (f x))"
  by (cases m) auto

lemma safe_bndI [intro]:
  "safe m \<Longrightarrow> (\<And>x. m = Ret x \<Longrightarrow> safe (f x)) \<Longrightarrow> safe (bnd m f)"
  by (simp add: safe_bnd)

lemma bnd_eq_Ret [outcome_simps]:
  "bnd m f = Ret y \<longleftrightarrow> (\<exists>x. m = Ret x \<and> f x = Ret y)"
  by (cases m) auto

lemma bnd_eq_Panic [outcome_simps]:
  "bnd m f = Panic \<longleftrightarrow> m = Panic \<or> (\<exists>x. m = Ret x \<and> f x = Panic)"
  by (cases m) auto

lemma bnd_eq_Fail [outcome_simps]:
  "bnd m f = Fail e \<longleftrightarrow> m = Fail e \<or> (\<exists>x. m = Ret x \<and> f x = Fail e)"
  by (cases m) auto

lemma bnd_assoc: "bnd (bnd m f) g = bnd m (\<lambda>x. bnd (f x) g)"
  by (cases m) auto

lemma bnd_cong [fundef_cong]:
  "m = m' \<Longrightarrow> (\<And>x. m' = Ret x \<Longrightarrow> f x = f' x) \<Longrightarrow> bnd m f = bnd m' f'"
  by (cases m') auto

text \<open>An early return: the error when the guard holds, otherwise the rest of the body.\<close>

definition guard :: "bool \<Rightarrow> cerr \<Rightarrow> 'a outcome \<Rightarrow> 'a outcome" where
  "guard bad e rest = (if bad then Fail e else rest)"

lemma guard_simps [simp, outcome_simps]:
  "guard True e r = Fail e" "guard False e r = r"
  by (simp_all add: guard_def)

lemma guard_cong [fundef_cong]:
  "b = b' \<Longrightarrow> e = e' \<Longrightarrow> (\<not> b' \<Longrightarrow> r = r') \<Longrightarrow> guard b e r = guard b' e' r'"
  by (simp add: guard_def)

lemma safe_guard [outcome_simps]: "safe (guard b e r) \<longleftrightarrow> (\<not> b \<longrightarrow> safe r)"
  by (simp add: guard_def)

lemma guard_eq_Ret [outcome_simps]: "guard b e r = Ret y \<longleftrightarrow> \<not> b \<and> r = Ret y"
  by (simp add: guard_def)

text \<open>Go's \<^verbatim>\<open>for\<close> over a list whose body may fail: the first failure ends the loop.\<close>

fun mapM :: "('a \<Rightarrow> 'b outcome) \<Rightarrow> 'a list \<Rightarrow> 'b list outcome" where
  "mapM f [] = Ret []"
| "mapM f (x # xs) = bnd (f x) (\<lambda>y. bnd (mapM f xs) (\<lambda>ys. Ret (y # ys)))"

lemma mapM_cong [fundef_cong]:
  "xs = ys \<Longrightarrow> (\<And>x. x \<in> set ys \<Longrightarrow> f x = g x) \<Longrightarrow> mapM f xs = mapM g ys"
proof (induction ys arbitrary: xs)
  case (Cons y ys)
  then show ?case by (auto intro: bnd_cong)
qed simp

lemma mapM_all_Ret:
  "(\<And>x. x \<in> set xs \<Longrightarrow> f x = Ret (g x)) \<Longrightarrow> mapM f xs = Ret (map g xs)"
  by (induction xs) auto

lemma safe_mapM: "(\<And>x. x \<in> set xs \<Longrightarrow> safe (f x)) \<Longrightarrow> safe (mapM f xs)"
  by (induction xs) (auto simp: safe_bnd)

lemma mapM_total: "(\<And>x. x \<in> set xs \<Longrightarrow> \<exists>y. f x = Ret y) \<Longrightarrow> \<exists>ys. mapM f xs = Ret ys"
proof (induction xs)
  case (Cons x xs)
  then obtain y ys where "f x = Ret y" "mapM f xs = Ret ys" by fastforce
  then show ?case by simp
qed simp

lemma mapM_Ret_length: "mapM f xs = Ret ys \<Longrightarrow> length ys = length xs"
  by (induction xs arbitrary: ys) (auto simp: bnd_eq_Ret)

lemma mapM_Ret_nth:
  "mapM f xs = Ret ys \<Longrightarrow> i < length xs \<Longrightarrow> f (xs ! i) = Ret (ys ! i)"
  by (induction xs arbitrary: ys i) (auto simp: bnd_eq_Ret nth_Cons split: nat.splits)

text \<open>The same loop over a state that each turn updates.\<close>

fun foldM :: "('s \<Rightarrow> 'a \<Rightarrow> 's outcome) \<Rightarrow> 's \<Rightarrow> 'a list \<Rightarrow> 's outcome" where
  "foldM f s [] = Ret s"
| "foldM f s (x # xs) = bnd (f s x) (\<lambda>s'. foldM f s' xs)"

lemma safe_foldM: "(\<And>s x. x \<in> set xs \<Longrightarrow> safe (f s x)) \<Longrightarrow> safe (foldM f s xs)"
  by (induction xs arbitrary: s) (auto simp: safe_bnd)

text \<open>\<^verbatim>\<open>c && m\<close> where \<open>m\<close> may panic: it is evaluated only when \<open>c\<close> holds.\<close>

definition go_and :: "bool \<Rightarrow> bool outcome \<Rightarrow> bool outcome" where
  "go_and c m = (if c then m else Ret False)"

lemma go_and_simps [simp]: "go_and True m = m" "go_and False m = Ret False" "go_and c (Ret b) = Ret (c \<and> b)"
  by (simp_all add: go_and_def)

lemma safe_go_and [outcome_simps]: "safe (go_and c m) \<longleftrightarrow> (c \<longrightarrow> safe m)"
  by (simp add: go_and_def)

section \<open>Slices\<close>

text \<open>\<^verbatim>\<open>xs[i]\<close>, \<^verbatim>\<open>xs[i:j]\<close> and \<^verbatim>\<open>xs[i:]\<close>, with Go's bounds checks.\<close>

definition at :: "'a list \<Rightarrow> nat \<Rightarrow> 'a outcome" where
  "at xs i = (if i < length xs then Ret (xs ! i) else Panic)"

definition subslice :: "'a list \<Rightarrow> nat \<Rightarrow> nat \<Rightarrow> 'a list outcome" where
  "subslice xs i j = (if i \<le> j \<and> j \<le> length xs then Ret (take (j - i) (drop i xs)) else Panic)"

definition subslice_from :: "'a list \<Rightarrow> nat \<Rightarrow> 'a list outcome" where
  "subslice_from xs i = (if i \<le> length xs then Ret (drop i xs) else Panic)"

lemma one_le_length [simp]: "Suc 0 \<le> length xs \<longleftrightarrow> xs \<noteq> []"
  by (cases xs) simp_all

lemma at_Ret [simp, outcome_simps]: "i < length xs \<Longrightarrow> at xs i = Ret (xs ! i)"
  by (simp add: at_def)

lemma subslice_Ret [simp, outcome_simps]:
  "i \<le> j \<Longrightarrow> j \<le> length xs \<Longrightarrow> subslice xs i j = Ret (take (j - i) (drop i xs))"
  by (simp add: subslice_def)

lemma subslice_from_Ret [simp, outcome_simps]:
  "i \<le> length xs \<Longrightarrow> subslice_from xs i = Ret (drop i xs)"
  by (simp add: subslice_from_def)

lemma safe_at: "safe (at xs i) \<longleftrightarrow> i < length xs"
  by (simp add: at_def)

lemma safe_subslice: "safe (subslice xs i j) \<longleftrightarrow> i \<le> j \<and> j \<le> length xs"
  by (simp add: subslice_def)

lemma safe_subslice_from: "safe (subslice_from xs i) \<longleftrightarrow> i \<le> length xs"
  by (simp add: subslice_from_def)

lemmas safe_subslices = safe_at safe_subslice safe_subslice_from

lemma subslice_eq_Ret [outcome_simps]:
  "subslice xs i j = Ret ys \<longleftrightarrow> i \<le> j \<and> j \<le> length xs \<and> ys = take (j - i) (drop i xs)"
  by (auto simp: subslice_def)

lemma at_eq_Ret [outcome_simps]: "at xs i = Ret y \<longleftrightarrow> i < length xs \<and> y = xs ! i"
  by (auto simp: at_def)

lemma subslice_from_eq_Ret [outcome_simps]:
  "subslice_from xs i = Ret ys \<longleftrightarrow> i \<le> length xs \<and> ys = drop i xs"
  by (auto simp: subslice_from_def)

lemma subslice_length: "subslice xs i j = Ret ys \<Longrightarrow> length ys = j - i"
  by (auto simp: subslice_eq_Ret)

lemma length_concat_const:
  "(\<And>x. x \<in> set xs \<Longrightarrow> length (f x) = k) \<Longrightarrow> length (concat (map f xs)) = k * length xs"
  by (induction xs) simp_all

lemma drop_concat_const:
  assumes "\<And>x. x \<in> set xs \<Longrightarrow> length (f x) = k"
  shows "i \<le> length xs \<Longrightarrow> drop (i * k) (concat (map f xs)) = concat (map f (drop i xs))"
  using assms
proof (induction i arbitrary: xs)
  case (Suc i)
  then obtain y ys where xs: "xs = y # ys" by (cases xs) auto
  then have "drop (i * k) (concat (map f ys)) = concat (map f (drop i ys))"
    using Suc by simp
  then show ?case using Suc.prems(2) [of y] by (simp add: xs)
qed simp

lemma drop_concat_nth:
  assumes "\<And>x. x \<in> set xs \<Longrightarrow> length (f x) = k" "i < length xs"
  shows "drop (i * k) (concat (map f xs)) = f (xs ! i) @ concat (map f (drop (Suc i) xs))"
  using assms drop_concat_const [of xs f k i] by (simp add: Cons_nth_drop_Suc [symmetric])

text \<open>\<^verbatim>\<open>b[i] == x && b[i+1] == y && ..\<close>\<close>

fun bytes_are :: "'a list \<Rightarrow> nat \<Rightarrow> 'a list \<Rightarrow> bool outcome" where
  "bytes_are b i [] = Ret True"
| "bytes_are b i (c # cs) = bnd (at b i) (\<lambda>x. go_and (x = c) (bytes_are b (i + 1) cs))"

lemma bytes_are_Ret: "i + length cs \<le> length b \<Longrightarrow> bytes_are b i cs = Ret (take (length cs) (drop i b) = cs)"
proof (induction cs arbitrary: i)
  case (Cons c cs)
  then have "drop i b = b ! i # drop (i + 1) b" by (simp add: Cons_nth_drop_Suc)
  then show ?case using Cons by simp
qed simp

text \<open>Integer division by zero panics.\<close>

definition go_div :: "nat \<Rightarrow> nat \<Rightarrow> nat outcome" where
  "go_div a b = (if b = 0 then Panic else Ret (a div b))"

text \<open>\<^verbatim>\<open>copy(a[:], s)\<close> into a zeroed array of \<open>n\<close> bytes.\<close>

definition fit :: "nat \<Rightarrow> bytes \<Rightarrow> bytes" where
  "fit n bs = take n (bs @ replicate n 0)"

lemma length_fit [simp]: "length (fit n bs) = n"
  by (simp add: fit_def)

lemma fit_id [simp]: "length bs = n \<Longrightarrow> fit n bs = bs"
  by (simp add: fit_def)

text \<open>\<^verbatim>\<open>bytes.IndexByte(s, 0)\<close>: the position of the first zero byte.\<close>

fun index_zero :: "bytes \<Rightarrow> nat option" where
  "index_zero [] = None"
| "index_zero (b # bs) = (if b = 0 then Some 0 else map_option Suc (index_zero bs))"

lemma index_zero_append: "0 \<notin> set name \<Longrightarrow> index_zero (name @ 0 # rest) = Some (length name)"
  by (induction name) auto

lemma index_zero_lt: "index_zero bs = Some n \<Longrightarrow> n < length bs"
  by (induction bs arbitrary: n) (auto split: if_splits)

lemma index_zero_take: "index_zero bs = Some n \<Longrightarrow> 0 \<notin> set (take n bs)"
  by (induction bs arbitrary: n) (auto split: if_splits)

section \<open>Byte order\<close>

text \<open>
  \<open>be_val\<close> and \<open>le_val\<close> read a byte string as a number, \<open>be_bytes\<close> and \<open>le_bytes\<close> write the
  low \<open>n\<close> bytes of one. The calls of \<^verbatim>\<open>binary.LittleEndian\<close> and the program's own big-endian
  helpers are stated over them.
\<close>

fun le_val :: "bytes \<Rightarrow> nat" where
  "le_val [] = 0"
| "le_val (b # bs) = unat b + 256 * le_val bs"

definition be_val :: "bytes \<Rightarrow> nat" where
  "be_val bs = le_val (rev bs)"

fun le_bytes :: "nat \<Rightarrow> nat \<Rightarrow> bytes" where
  "le_bytes 0 v = []"
| "le_bytes (Suc n) v = word_of_nat v # le_bytes n (v div 256)"

definition be_bytes :: "nat \<Rightarrow> nat \<Rightarrow> bytes" where
  "be_bytes n v = rev (le_bytes n v)"

lemma le_bytes_numeral:
  "le_bytes (numeral k) v = word_of_nat v # le_bytes (pred_numeral k) (v div 256)"
  by (simp only: numeral_eq_Suc [of k] le_bytes.simps)

lemma length_le_bytes [simp, codec_simps]: "length (le_bytes n v) = n"
  by (induction n arbitrary: v) auto

lemma length_be_bytes [simp, codec_simps]: "length (be_bytes n v) = n"
  by (simp add: be_bytes_def)

lemma unat_u8_lt: "unat (b :: u8) < 256"
  using unsigned_less [of b] by simp

lemma le_val_lt: "le_val bs < 256 ^ length bs"
proof (induction bs)
  case (Cons b bs)
  have "unat b + 256 * le_val bs < 256 * Suc (le_val bs)"
    using unat_u8_lt [of b] by simp
  also have "\<dots> \<le> 256 * 256 ^ length bs"
    using Cons by (simp only: mult_le_mono2 Suc_le_eq)
  finally show ?case by simp
qed simp

lemma be_val_lt: "be_val bs < 256 ^ length bs"
  using le_val_lt [of "rev bs"] by (simp add: be_val_def)

lemma le_val_le_bytes [codec_simps]: "le_val (le_bytes n v) = v mod 256 ^ n"
proof (induction n arbitrary: v)
  case (Suc n)
  have "unat (word_of_nat v :: u8) = v mod 256"
    by (simp add: unat_of_nat)
  then show ?case
    by (simp add: Suc mod_mult2_eq)
qed simp

lemma be_val_be_bytes [codec_simps]: "be_val (be_bytes n v) = v mod 256 ^ n"
  by (simp add: be_val_def be_bytes_def le_val_le_bytes)

lemma le_bytes_le_val [codec_simps]: "length bs = n \<Longrightarrow> le_bytes n (le_val bs) = bs"
proof (induction bs arbitrary: n)
  case (Cons b bs)
  then obtain m where n: "n = Suc m" and m: "length bs = m" by auto
  have q: "(unat b + 256 * le_val bs) div 256 = le_val bs"
    using unat_u8_lt [of b] by simp
  have "unat (word_of_nat (unat b + 256 * le_val bs) :: u8) = unat b"
    by (subst unat_of_nat) (simp add: unat_u8_lt)
  then have "(word_of_nat (unat b + 256 * le_val bs) :: u8) = b"
    by (rule unsigned_word_eqI)
  with q show ?case using Cons.IH [OF m] n by simp
qed simp

lemma be_bytes_be_val [codec_simps]: "length bs = n \<Longrightarrow> be_bytes n (be_val bs) = bs"
  by (simp add: be_val_def be_bytes_def le_bytes_le_val)

lemma be_val_snoc: "be_val (bs @ [b]) = 256 * be_val bs + unat b"
  by (simp add: be_val_def)

lemma be_val_Nil [simp]: "be_val [] = 0"
  by (simp add: be_val_def)

text \<open>\<^verbatim>\<open>binary.LittleEndian.UintN(b)\<close> panics on a short slice and reads the first bytes of a long one.\<close>

definition LE16 :: "bytes \<Rightarrow> u16 outcome" where
  "LE16 b = (if length b < 2 then Panic else Ret (word_of_nat (le_val (take 2 b))))"

definition LE32 :: "bytes \<Rightarrow> u32 outcome" where
  "LE32 b = (if length b < 4 then Panic else Ret (word_of_nat (le_val (take 4 b))))"

definition LE64 :: "bytes \<Rightarrow> u64 outcome" where
  "LE64 b = (if length b < 8 then Panic else Ret (word_of_nat (le_val (take 8 b))))"

text \<open>\<^verbatim>\<open>binary.LittleEndian.UintN(xs[i:j])\<close>: the slice expression and the read together.\<close>

definition rdLE16 :: "bytes \<Rightarrow> nat \<Rightarrow> nat \<Rightarrow> u16 outcome" where
  "rdLE16 xs i j = bnd (subslice xs i j) LE16"

definition rdLE32 :: "bytes \<Rightarrow> nat \<Rightarrow> nat \<Rightarrow> u32 outcome" where
  "rdLE32 xs i j = bnd (subslice xs i j) LE32"

definition rdLE64 :: "bytes \<Rightarrow> nat \<Rightarrow> nat \<Rightarrow> u64 outcome" where
  "rdLE64 xs i j = bnd (subslice xs i j) LE64"

lemma rdLE16_Ret [simp, outcome_simps]:
  "i + 2 \<le> j \<Longrightarrow> j \<le> length xs \<Longrightarrow>
   rdLE16 xs i j = Ret (word_of_nat (le_val (take 2 (drop i xs))))"
  by (auto simp: rdLE16_def LE16_def)

lemma rdLE32_Ret [simp, outcome_simps]:
  "i + 4 \<le> j \<Longrightarrow> j \<le> length xs \<Longrightarrow>
   rdLE32 xs i j = Ret (word_of_nat (le_val (take 4 (drop i xs))))"
  by (auto simp: rdLE32_def LE32_def)

lemma rdLE64_Ret [simp, outcome_simps]:
  "i + 8 \<le> j \<Longrightarrow> j \<le> length xs \<Longrightarrow>
   rdLE64 xs i j = Ret (word_of_nat (le_val (take 8 (drop i xs))))"
  by (auto simp: rdLE64_def LE64_def)

text \<open>\<^verbatim>\<open>binary.LittleEndian.PutUintN\<close>: the bytes written.\<close>

definition putLE16 :: "u16 \<Rightarrow> bytes" where
  "putLE16 v = le_bytes 2 (unat v)"

definition putLE32 :: "u32 \<Rightarrow> bytes" where
  "putLE32 v = le_bytes 4 (unat v)"

definition putLE64 :: "u64 \<Rightarrow> bytes" where
  "putLE64 v = le_bytes 8 (unat v)"

lemma length_putLE [simp, codec_simps]:
  "length (putLE16 v16) = 2" "length (putLE32 v32) = 4" "length (putLE64 v64) = 8"
  by (simp_all add: putLE16_def putLE32_def putLE64_def)

lemma le_val_putLE [simp, codec_simps]:
  "le_val (putLE16 v16) = unat v16" "le_val (putLE32 v32) = unat v32"
  "le_val (putLE64 v64) = unat v64"
  using unsigned_less [of v16, where ?'a = nat] unsigned_less [of v32, where ?'a = nat]
    unsigned_less [of v64, where ?'a = nat]
  by (simp_all add: putLE16_def putLE32_def putLE64_def le_val_le_bytes)

lemma LE_put [simp, codec_simps]:
  "LE16 (putLE16 v16 @ r) = Ret v16" "LE32 (putLE32 v32 @ r) = Ret v32"
  "LE64 (putLE64 v64 @ r) = Ret v64"
  by (simp_all add: LE16_def LE32_def LE64_def)

text \<open>\<^verbatim>\<open>copy(buf[i:], bs)\<close> or a run of byte stores at \<open>i\<close>, inside the buffer.\<close>

definition put_at :: "nat \<Rightarrow> 'a list \<Rightarrow> 'a list \<Rightarrow> 'a list" where
  "put_at i bs buf = take i buf @ bs @ drop (i + length bs) buf"

lemma length_put_at [simp]: "i + length bs \<le> length buf \<Longrightarrow> length (put_at i bs buf) = length buf"
  by (simp add: put_at_def)

lemma put_at_mid: "length pre = i \<Longrightarrow> length mid = length bs \<Longrightarrow>
   put_at i bs (pre @ mid @ post) = pre @ bs @ post"
  by (simp add: put_at_def)

end
