(* ===== verification/CascBase.thy ===== *)
theory CascBase
  imports Prelude
begin

text \<open>
  \<^verbatim>\<open>internal/casc\<close>: the constants and the in-memory entry every part shares, and the
  variable-length integer helpers of \<^verbatim>\<open>binary.go\<close>. Each helper is written with the shifts and
  ORs of the code and shown to read the big-endian (or little-endian) value of its bytes.
  \<^verbatim>\<open>readBE\<close>, \<^verbatim>\<open>beUintN\<close>, \<^verbatim>\<open>writeBE\<close> and \<^verbatim>\<open>putBEUint*\<close> of the packages that keep their own copy are
  here too, once.
\<close>

unbundle bit_operations_syntax

section \<open>Constants and the entry record\<close>

definition MD5HashSize :: nat where "MD5HashSize = 16"
definition IndexCount :: nat where "IndexCount = 16"
definition EKeySize :: nat where "EKeySize = 9"
definition InvalidID :: u32 where "InvalidID = 0xFFFFFFFF"
definition MagicEncoding :: u16 where "MagicEncoding = 0x4E45"
definition MagicInstall :: u16 where "MagicInstall = 0x4E49"
definition BLTESignature :: u32 where "BLTESignature = 0x45544C42"
definition CEFlagHasCKey :: u16 where "CEFlagHasCKey = 4"
definition CEFlagHasEKey :: u16 where "CEFlagHasEKey = 8"

text \<open>\<open>CKey\<close> and \<open>EKey\<close> are \<^verbatim>\<open>[16]byte\<close>: byte strings of length 16.\<close>

type_synonym key = bytes

definition key_ok :: "key \<Rightarrow> bool" where
  "key_ok k \<longleftrightarrow> length k = MD5HashSize"

definition zero_key :: key where
  "zero_key = replicate MD5HashSize 0"

lemma key_ok_zero [simp]: "key_ok zero_key"
  by (simp add: key_ok_def zero_key_def)

lemma key_ok_fit [simp]: "key_ok (fit 16 bs)"
  by (simp add: key_ok_def MD5HashSize_def)

record CKeyEntry =
  ce_CKey :: key
  ce_EKey :: key
  ce_StorageOffs :: u64
  ce_TagBitMask :: u64
  ce_FileNameHash :: u64
  ce_ContentSize :: u64
  ce_EncodedSize :: u64
  ce_ArchiveIndex :: u32
  ce_ArchiveOffs :: u32
  ce_FileDataID :: u32
  ce_LocaleFlags :: u32
  ce_ContentFlags :: u32
  ce_SpanCount :: u16
  ce_Flags :: u16

text \<open>The zero value a composite literal starts from.\<close>

definition zero_entry :: CKeyEntry where
  "zero_entry = \<lparr>ce_CKey = zero_key, ce_EKey = zero_key, ce_StorageOffs = 0, ce_TagBitMask = 0,
     ce_FileNameHash = 0, ce_ContentSize = 0, ce_EncodedSize = 0, ce_ArchiveIndex = 0,
     ce_ArchiveOffs = 0, ce_FileDataID = 0, ce_LocaleFlags = 0, ce_ContentFlags = 0,
     ce_SpanCount = 0, ce_Flags = 0\<rparr>"

section \<open>Reading big-endian integers\<close>

definition BEUint16 :: "bytes \<Rightarrow> u16 outcome" where
  "BEUint16 b = bnd (at b 1) (\<lambda>_.
     Ret (push_bit 8 (ucast (b ! 0)) OR ucast (b ! 1)))"

definition BEUint24 :: "bytes \<Rightarrow> u32 outcome" where
  "BEUint24 b = bnd (at b 2) (\<lambda>_.
     Ret (push_bit 16 (ucast (b ! 0)) OR push_bit 8 (ucast (b ! 1)) OR ucast (b ! 2)))"

definition BEUint32 :: "bytes \<Rightarrow> u32 outcome" where
  "BEUint32 b = bnd (at b 3) (\<lambda>_.
     Ret (push_bit 24 (ucast (b ! 0)) OR push_bit 16 (ucast (b ! 1)) OR
          push_bit 8 (ucast (b ! 2)) OR ucast (b ! 3)))"

definition BEUint40 :: "bytes \<Rightarrow> u64 outcome" where
  "BEUint40 b = bnd (at b 4) (\<lambda>_.
     Ret (push_bit 32 (ucast (b ! 0)) OR push_bit 24 (ucast (b ! 1)) OR
          push_bit 16 (ucast (b ! 2)) OR push_bit 8 (ucast (b ! 3)) OR ucast (b ! 4)))"

definition BEUint48 :: "bytes \<Rightarrow> u64 outcome" where
  "BEUint48 b = bnd (at b 5) (\<lambda>_.
     Ret (push_bit 40 (ucast (b ! 0)) OR push_bit 32 (ucast (b ! 1)) OR
          push_bit 24 (ucast (b ! 2)) OR push_bit 16 (ucast (b ! 3)) OR
          push_bit 8 (ucast (b ! 4)) OR ucast (b ! 5)))"

definition LEUint32 :: "bytes \<Rightarrow> u32 outcome" where
  "LEUint32 b = bnd (at b 3) (\<lambda>_.
     Ret (ucast (b ! 0) OR push_bit 8 (ucast (b ! 1)) OR
          push_bit 16 (ucast (b ! 2)) OR push_bit 24 (ucast (b ! 3))))"

text \<open>The loop \<^verbatim>\<open>v = (v << 8) | uint64(x)\<close> of \<^verbatim>\<open>readBE\<close> and \<^verbatim>\<open>beUintN\<close>.\<close>

fun readBE_from :: "u64 \<Rightarrow> bytes \<Rightarrow> u64" where
  "readBE_from v [] = v"
| "readBE_from v (x # xs) = readBE_from (push_bit 8 v OR ucast x) xs"

definition readBE :: "bytes \<Rightarrow> u64" where
  "readBE b = readBE_from 0 b"

subsection \<open>One step of shift-and-or is one digit in base 256\<close>

lemma shl8_or:
  fixes v :: "'a::len word"
  shows "push_bit 8 v OR ucast (b :: u8) = 256 * v + ucast b"
proof -
  have "push_bit 8 v AND ucast b = 0"
    by (rule bit_eqI) (auto simp: bit_simps dest: bit_imp_le_length)
  then have "push_bit 8 v OR ucast b = push_bit 8 v + ucast b"
    by (simp add: disjunctive_add_eq_or)
  then show ?thesis by (simp add: push_bit_eq_mult mult.commute)
qed

lemma word_of_nat_digit:
  "(word_of_nat (256 * n + unat (b :: u8)) :: 'a::len word) = 256 * word_of_nat n + ucast b"
  by simp

lemma readBE_from_eq: "readBE_from (word_of_nat n) bs = word_of_nat (n * 256 ^ length bs + be_val bs)"
proof (induction bs arbitrary: n)
  case (Cons b bs)
  have "readBE_from (word_of_nat n) (b # bs) = readBE_from (word_of_nat (256 * n + unat b)) bs"
    by (simp only: readBE_from.simps shl8_or word_of_nat_digit)
  also have "\<dots> = word_of_nat ((256 * n + unat b) * 256 ^ length bs + be_val bs)"
    by (rule Cons.IH)
  also have "be_val (b # bs) = unat b * 256 ^ length bs + be_val bs"
  proof (induction bs rule: rev_induct)
    case (snoc c cs)
    then show ?case
      using be_val_snoc [of "b # cs" c] be_val_snoc [of cs c] by (simp add: algebra_simps)
  qed (simp add: be_val_def)
  then have "(256 * n + unat b) * 256 ^ length bs + be_val bs =
      n * 256 ^ length (b # bs) + be_val (b # bs)"
    by (simp add: algebra_simps)
  finally show ?case .
qed simp

lemma readBE_eq: "readBE bs = word_of_nat (be_val bs)"
  using readBE_from_eq [of 0 bs] by (simp add: readBE_def)

subsection \<open>The fixed-width readers read the value of their bytes\<close>

lemma take_map_nth: "n \<le> length b \<Longrightarrow> take n b = map ((!) b) [0..<n]"
  by (rule nth_equalityI) auto

lemma take_nths:
  "2 \<le> length b \<Longrightarrow> take 2 b = [b ! 0, b ! 1]"
  "3 \<le> length b \<Longrightarrow> take 3 b = [b ! 0, b ! 1, b ! 2]"
  "4 \<le> length b \<Longrightarrow> take 4 b = [b ! 0, b ! 1, b ! 2, b ! 3]"
  "5 \<le> length b \<Longrightarrow> take 5 b = [b ! 0, b ! 1, b ! 2, b ! 3, b ! 4]"
  "6 \<le> length b \<Longrightarrow> take 6 b = [b ! 0, b ! 1, b ! 2, b ! 3, b ! 4, b ! 5]"
  by (simp_all add: take_map_nth upt_rec) (simp_all add: numeral_eq_Suc)

lemma be_val_shifts:
  "word_of_nat (be_val [a, b]) = push_bit 8 (ucast a) OR (ucast b :: 'a::len word)"
  "word_of_nat (be_val [a, b, c]) =
     push_bit 16 (ucast a) OR push_bit 8 (ucast b) OR (ucast c :: 'a word)"
  "word_of_nat (be_val [a, b, c, d]) =
     push_bit 24 (ucast a) OR push_bit 16 (ucast b) OR push_bit 8 (ucast c) OR (ucast d :: 'a word)"
  "word_of_nat (be_val [a, b, c, d, e]) =
     push_bit 32 (ucast a) OR push_bit 24 (ucast b) OR push_bit 16 (ucast c) OR
     push_bit 8 (ucast d) OR (ucast e :: 'a word)"
  "word_of_nat (be_val [a, b, c, d, e, f]) =
     push_bit 40 (ucast a) OR push_bit 32 (ucast b) OR push_bit 24 (ucast c) OR
     push_bit 16 (ucast d) OR push_bit 8 (ucast e) OR (ucast f :: 'a word)"
proof -
  have step: "word_of_nat (be_val (bs @ [x])) = push_bit 8 (word_of_nat (be_val bs)) OR (ucast x :: 'a word)"
    for bs x by (simp only: be_val_snoc word_of_nat_digit shl8_or)
  have one: "word_of_nat (be_val [x]) = (ucast x :: 'a word)" for x
    by (simp add: be_val_def)
  note r = step [of "[a]" b] step [of "[a, b]" c] step [of "[a, b, c]" d]
    step [of "[a, b, c, d]" e] step [of "[a, b, c, d, e]" f]
  show "word_of_nat (be_val [a, b]) = push_bit 8 (ucast a) OR (ucast b :: 'a word)"
    using r by (simp add: one)
  show "word_of_nat (be_val [a, b, c]) =
     push_bit 16 (ucast a) OR push_bit 8 (ucast b) OR (ucast c :: 'a word)"
    using r by (simp add: one push_bit_or or.assoc)
  show "word_of_nat (be_val [a, b, c, d]) =
     push_bit 24 (ucast a) OR push_bit 16 (ucast b) OR push_bit 8 (ucast c) OR (ucast d :: 'a word)"
    using r by (simp add: one push_bit_or or.assoc)
  show "word_of_nat (be_val [a, b, c, d, e]) =
     push_bit 32 (ucast a) OR push_bit 24 (ucast b) OR push_bit 16 (ucast c) OR
     push_bit 8 (ucast d) OR (ucast e :: 'a word)"
    using r by (simp add: one push_bit_or or.assoc)
  show "word_of_nat (be_val [a, b, c, d, e, f]) =
     push_bit 40 (ucast a) OR push_bit 32 (ucast b) OR push_bit 24 (ucast c) OR
     push_bit 16 (ucast d) OR push_bit 8 (ucast e) OR (ucast f :: 'a word)"
    using r by (simp add: one push_bit_or or.assoc)
qed

lemma BEUint_eq [outcome_simps]:
  "BEUint16 b = (if length b < 2 then Panic else Ret (word_of_nat (be_val (take 2 b))))"
  "BEUint24 b = (if length b < 3 then Panic else Ret (word_of_nat (be_val (take 3 b))))"
  "BEUint32 b = (if length b < 4 then Panic else Ret (word_of_nat (be_val (take 4 b))))"
  "BEUint40 b = (if length b < 5 then Panic else Ret (word_of_nat (be_val (take 5 b))))"
  "BEUint48 b = (if length b < 6 then Panic else Ret (word_of_nat (be_val (take 6 b))))"
  by (auto simp: BEUint16_def BEUint24_def BEUint32_def BEUint40_def BEUint48_def at_def
      take_nths be_val_shifts)

lemma LEUint32_eq: "LEUint32 b = LE32 b"
proof -
  have "le_val (take 4 b) = be_val [b ! 3, b ! 2, b ! 1, b ! 0]" if "4 \<le> length b"
    using that by (simp add: be_val_def take_nths)
  then show ?thesis
    by (auto simp: LEUint32_def LE32_def at_def be_val_shifts ac_simps)
qed

text \<open>The slice expression and the read together.\<close>

definition rdBE16 :: "bytes \<Rightarrow> nat \<Rightarrow> nat \<Rightarrow> u16 outcome" where
  "rdBE16 xs i j = bnd (subslice xs i j) BEUint16"

definition rdBE24 :: "bytes \<Rightarrow> nat \<Rightarrow> nat \<Rightarrow> u32 outcome" where
  "rdBE24 xs i j = bnd (subslice xs i j) BEUint24"

definition rdBE32 :: "bytes \<Rightarrow> nat \<Rightarrow> nat \<Rightarrow> u32 outcome" where
  "rdBE32 xs i j = bnd (subslice xs i j) BEUint32"

lemma rdBE_Ret [simp, outcome_simps]:
  "i + 2 \<le> j \<Longrightarrow> j \<le> length xs \<Longrightarrow> rdBE16 xs i j = Ret (word_of_nat (be_val (take 2 (drop i xs))))"
  "i + 3 \<le> j \<Longrightarrow> j \<le> length xs \<Longrightarrow> rdBE24 xs i j = Ret (word_of_nat (be_val (take 3 (drop i xs))))"
  "i + 4 \<le> j \<Longrightarrow> j \<le> length xs \<Longrightarrow> rdBE32 xs i j = Ret (word_of_nat (be_val (take 4 (drop i xs))))"
  by (auto simp: rdBE16_def rdBE24_def rdBE32_def BEUint_eq)

section \<open>Writing big-endian integers\<close>

text \<open>
  \<^verbatim>\<open>putBEUint16\<close>, \<^verbatim>\<open>putBEUint32\<close> and \<^verbatim>\<open>putBEUint40\<close> of \<^verbatim>\<open>encoding/writer.go\<close> (and their copies in
  \<^verbatim>\<open>cdn\<close> and \<^verbatim>\<open>tvfs\<close>) store the bytes of \<open>v\<close> one by one; the model is the bytes stored.
\<close>

definition putBEUint16 :: "u16 \<Rightarrow> bytes" where
  "putBEUint16 v = [ucast (drop_bit 8 v), ucast v]"

definition putBEUint32 :: "u32 \<Rightarrow> bytes" where
  "putBEUint32 v = [ucast (drop_bit 24 v), ucast (drop_bit 16 v), ucast (drop_bit 8 v), ucast v]"

definition putBEUint40 :: "u64 \<Rightarrow> bytes" where
  "putBEUint40 v = [ucast (drop_bit 32 v), ucast (drop_bit 24 v), ucast (drop_bit 16 v),
     ucast (drop_bit 8 v), ucast v]"

definition PutLEUint32 :: "u32 \<Rightarrow> bytes" where
  "PutLEUint32 v = [ucast v, ucast (drop_bit 8 v), ucast (drop_bit 16 v), ucast (drop_bit 24 v)]"

text \<open>\<^verbatim>\<open>writeBE\<close>: from the last byte of the buffer to the first, \<^verbatim>\<open>b[i] = byte(v); v >>= 8\<close>.\<close>

fun writeBE_loop :: "nat \<Rightarrow> u64 \<Rightarrow> bytes \<Rightarrow> bytes" where
  "writeBE_loop 0 v acc = acc"
| "writeBE_loop (Suc i) v acc = writeBE_loop i (drop_bit 8 v) (ucast v # acc)"

definition writeBE :: "nat \<Rightarrow> u64 \<Rightarrow> bytes" where
  "writeBE n v = writeBE_loop n v []"

text \<open>\<^verbatim>\<open>putBEUintN\<close>: \<^verbatim>\<open>b[n-1-i] = byte(v >> (8 * i))\<close> for \<open>i < n\<close>.\<close>

definition putBEUintN :: "u64 \<Rightarrow> nat \<Rightarrow> bytes" where
  "putBEUintN v n = rev (map (\<lambda>i. ucast (drop_bit (8 * i) v)) [0..<n])"

lemma ucast_u8: "(ucast v :: u8) = word_of_nat (unat v)" for v :: "'a::len word"
  by simp

lemma ucast_drop_bit_u8:
  "(ucast (drop_bit n v) :: u8) = word_of_nat (unat v div 2 ^ n)" for v :: "'a::len word"
  by (subst ucast_u8, subst unat_drop_bit_eq, subst drop_bit_eq_div) (rule refl)

lemma putBE_eq [codec_simps]:
  "putBEUint16 v16 = be_bytes 2 (unat v16)"
  "putBEUint32 v32 = be_bytes 4 (unat v32)"
  "putBEUint40 v64 = be_bytes 5 (unat v64)"
  "PutLEUint32 v32 = putLE32 v32"
  by (simp_all only: putBEUint16_def putBEUint32_def putBEUint40_def PutLEUint32_def putLE32_def
      be_bytes_def)
    (simp_all add: le_bytes_numeral ucast_drop_bit_u8 flip: div_mult2_eq)

lemma length_putBE [simp, codec_simps]:
  "length (putBEUint16 v16) = 2" "length (putBEUint32 v32) = 4" "length (putBEUint40 v64) = 5"
  by (simp_all add: putBE_eq)

lemma be_bytes_Suc: "be_bytes (Suc n) v = be_bytes n (v div 256) @ [word_of_nat v]"
  by (simp add: be_bytes_def)

lemma writeBE_loop_eq: "writeBE_loop n v acc = be_bytes n (unat v) @ acc"
proof (induction n arbitrary: v acc)
  case (Suc n)
  have "unat (drop_bit 8 v) = unat v div 256"
    by (subst unat_drop_bit_eq, subst drop_bit_eq_div) simp
  then show ?case by (simp add: Suc be_bytes_Suc)
qed (simp add: be_bytes_def)

lemma writeBE_eq [codec_simps]: "writeBE n v = be_bytes n (unat v)"
  by (simp add: writeBE_def writeBE_loop_eq)

lemma le_bytes_map: "le_bytes n x = map (\<lambda>i. word_of_nat (x div 256 ^ i)) [0..<n]"
proof (induction n arbitrary: x)
  case (Suc n)
  have "map (\<lambda>i. word_of_nat (x div 256 ^ i) :: u8) [0..<Suc n] =
      word_of_nat x # map (\<lambda>i. word_of_nat (x div 256 ^ Suc i)) [0..<n]"
    by (simp only: map_upt_Suc) simp
  then show ?case by (simp add: Suc div_mult2_eq)
qed simp

lemma putBEUintN_eq [codec_simps]: "putBEUintN v n = be_bytes n (unat v)"
proof -
  have "(ucast (drop_bit (8 * i) v) :: u8) = word_of_nat (unat v div 256 ^ i)" for i
    by (simp add: ucast_drop_bit_u8 power_mult)
  then show ?thesis by (simp add: putBEUintN_def be_bytes_def le_bytes_map)
qed

text \<open>
  What the readers return on what the writers wrote. A value that does not fit its field
  comes back reduced.
\<close>

lemma unat_bounds:
  "unat (w16 :: u16) < 65536" "unat (w32 :: u32) < 4294967296"
  "unat (w64 :: u64) < 18446744073709551616"
  using unsigned_less [of w16, where ?'a = nat] unsigned_less [of w32, where ?'a = nat]
    unsigned_less [of w64, where ?'a = nat] by simp_all

lemma BE_put [simp, codec_simps]:
  "BEUint16 (putBEUint16 v16 @ r) = Ret v16"
  "BEUint32 (putBEUint32 v32 @ r) = Ret v32"
  by (simp_all add: BEUint_eq putBE_eq be_val_be_bytes unat_bounds)

lemma readBE_be_bytes:
  "readBE (be_bytes n v) = word_of_nat (v mod 256 ^ n)"
  by (simp add: readBE_eq be_val_be_bytes)

lemma readBE_be_bytes_fit: "unat v < 256 ^ n \<Longrightarrow> readBE (be_bytes n (unat v)) = v"
  by (simp add: readBE_be_bytes)

text \<open>Widening to 64 bits keeps the value.\<close>

lemma unat_ucast_64 [simp]:
  "unat (ucast (x8 :: u8) :: u64) = unat x8" "unat (ucast (x16 :: u16) :: u64) = unat x16"
  "unat (ucast (x32 :: u32) :: u64) = unat x32"
  using unat_u8_lt [of x8] unat_bounds(1) [of x16] unat_bounds(2) [of x32]
  by (simp_all add: unsigned_ucast_eq take_bit_nat_eq_self)

lemma ucast_ucast_32_64 [simp]: "(ucast (ucast (x :: u32) :: u64) :: u32) = x"
proof -
  have "unat (ucast (ucast x :: u64) :: u32) = unat x"
    using unat_bounds(2) [of x] by (simp only: unsigned_ucast_eq [of "ucast x :: u64"] unat_ucast_64)
      (simp add: take_bit_nat_eq_self)
  then show ?thesis by (rule unsigned_word_eqI)
qed

lemma unat_word_of_nat: "n < 2 ^ LENGTH('a) \<Longrightarrow> unat (word_of_nat n :: 'a::len word) = n"
  by (simp add: unat_of_nat)

lemma ucast_word_of_nat_64_32: "(ucast (word_of_nat m :: u64) :: u32) = word_of_nat m"
  by (rule bit_word_eqI) (simp add: bit_simps)

end
