(* ===== verification/Compress.thy ===== *)
theory Compress
  imports CascBase
begin

text \<open>
  \<^verbatim>\<open>internal/compress\<close>, and the standard-library transforms the program calls. The transforms
  themselves (\<^verbatim>\<open>crypto/md5\<close>, \<^verbatim>\<open>compress/zlib\<close>, \<^verbatim>\<open>compress/bzip2\<close>, \<^verbatim>\<open>crypto/aes\<close> in counter mode) are
  parameters of the model, the fields of a \<open>codecs\<close> record. What the program relies on is the
  named hypothesis \<open>codecs_ok\<close>: an MD5 sum has 16 bytes, deflating never fails and starts with
  the zlib method byte, and inflating what was deflated gives the input back.
\<close>

unbundle bit_operations_syntax

record codecs =
  md5 :: "bytes \<Rightarrow> bytes"
  zlib_read :: "bytes \<Rightarrow> bytes outcome"
  zlib_write :: "bytes \<Rightarrow> bytes outcome"
  bzip2_read :: "bytes \<Rightarrow> bytes outcome"
  aes_ctr :: "key \<Rightarrow> bytes \<Rightarrow> bytes \<Rightarrow> bytes"

definition codecs_ok :: "codecs \<Rightarrow> bool" where
  "codecs_ok C \<longleftrightarrow>
     (\<forall>x. length (md5 C x) = 16) \<and>
     (\<forall>x. length x < 2 ^ 62 \<longrightarrow>
        (\<exists>z. zlib_write C x = Ret (0x78 # z) \<and> zlib_read C (0x78 # z) = Ret x))"

text \<open>The standard-library readers report their own errors, and do not panic.\<close>

definition codecs_safe :: "codecs \<Rightarrow> bool" where
  "codecs_safe C \<longleftrightarrow> (\<forall>x. safe (zlib_read C x) \<and> safe (zlib_write C x) \<and> safe (bzip2_read C x))"

definition Inflate :: "codecs \<Rightarrow> bytes \<Rightarrow> nat \<Rightarrow> bytes outcome" where
  "Inflate C inp expected = zlib_read C inp"

definition Deflate :: "codecs \<Rightarrow> bytes \<Rightarrow> bytes outcome" where
  "Deflate C inp = zlib_write C inp"

definition Unbzip2 :: "codecs \<Rightarrow> bytes \<Rightarrow> nat \<Rightarrow> bytes outcome" where
  "Unbzip2 C inp expected = bzip2_read C inp"

section \<open>The LZMA hook\<close>

text \<open>The package variable \<^verbatim>\<open>lzmaDecoder\<close>: \<open>None\<close> until \<^verbatim>\<open>SetLZMADecoder\<close> installs one.\<close>

type_synonym lzma_hook = "(bytes \<Rightarrow> nat \<Rightarrow> bytes outcome) option"

definition SetLZMADecoder :: "lzma_hook \<Rightarrow> lzma_hook \<Rightarrow> lzma_hook" where
  "SetLZMADecoder d lzmaDecoder = d"

definition LZMARegistered :: "lzma_hook \<Rightarrow> bool" where
  "LZMARegistered lzmaDecoder = (case lzmaDecoder of None \<Rightarrow> False | Some _ \<Rightarrow> True)"

text \<open>\<^verbatim>\<open>ErrLZMAUnsupported\<close> and the decoder's wrapped errors are not sentinels of \<^verbatim>\<open>casc\<close>.\<close>

definition Unlzma :: "lzma_hook \<Rightarrow> bytes \<Rightarrow> nat \<Rightarrow> bytes outcome" where
  "Unlzma lzmaDecoder inp expected =
     (case lzmaDecoder of None \<Rightarrow> Fail ErrOther | Some d \<Rightarrow> d inp expected)"

definition LooksLikeLZMA :: "bytes \<Rightarrow> bool outcome" where
  "LooksLikeLZMA b =
     bnd (go_and (6 \<le> length b) (bytes_are b 0 [0xFD, 0x37, 0x7A, 0x58, 0x5A, 0])) (\<lambda>xz.
     if xz then Ret True else
     bnd (go_and (13 \<le> length b) (bnd (at b 0) (\<lambda>b0. Ret (unat b0 < 5 * 9 * 9)))) (\<lambda>lzma1.
     if lzma1 then
       bnd (at b 1) (\<lambda>b1. bnd (at b 2) (\<lambda>b2. bnd (at b 3) (\<lambda>b3. bnd (at b 4) (\<lambda>b4.
       let dict = (ucast b1 OR push_bit 8 (ucast b2) OR push_bit 16 (ucast b3) OR push_bit 24 (ucast b4) :: u32) in
       Ret (4096 \<le> dict \<and> dict \<le> push_bit 30 1)))))
     else Ret False))"

lemma safe_LooksLikeLZMA: "safe (LooksLikeLZMA b)"
  by (auto simp: LooksLikeLZMA_def safe_bnd safe_go_and bytes_are_Ret safe_at go_and_def Let_def)

lemma LZMA_hook_simps [simp]:
  "LZMARegistered None = False" "LZMARegistered (Some d) = True"
  "Unlzma (Some d) inp n = d inp n" "LZMARegistered (SetLZMADecoder None h) = False"
  by (simp_all add: LZMARegistered_def Unlzma_def SetLZMADecoder_def)

text \<open>
  The LZMA1 test also accepts ordinary zlib streams: the method byte 0x78 is below 225, so
  the next four bytes decide. A stream that starts 78 9C 4B 4C 04 is taken for LZMA.
\<close>

lemma LooksLikeLZMA_zlib: "LooksLikeLZMA (0x78 # 0x9C # 0x4B # 0x4C # 0x04 # replicate 8 0) = Ret True"
  by code_simp

section \<open>A codec that meets the hypotheses\<close>

text \<open>
  Used by witnesses only. Runs of zeros deflate to eleven bytes, everything else is stored.
\<close>

definition run_write :: "bytes \<Rightarrow> bytes outcome" where
  "run_write x = (if list_all (\<lambda>b. b = 0) x then Ret (0x78 # 0x9C # 0 # le_bytes 8 (length x))
     else Ret (0x78 # 0x9C # 1 # x))"

definition run_read :: "bytes \<Rightarrow> bytes outcome" where
  "run_read z = (if length z < 3 then Fail ErrOther
     else if z ! 2 = 0 then Ret (replicate (le_val (drop 3 z)) 0)
     else Ret (drop 3 z))"

definition run_codecs :: codecs where
  "run_codecs = \<lparr>md5 = (\<lambda>x. fit 16 (rev x)), zlib_read = run_read, zlib_write = run_write,
     bzip2_read = (\<lambda>x. Fail ErrOther), aes_ctr = (\<lambda>k iv x. x)\<rparr>"

lemma run_codecs_ok: "codecs_ok run_codecs"
proof -
  have "replicate (length x mod 256 ^ 8) 0 = x" if "length x < 2 ^ 62" "list_all (\<lambda>b. b = 0) x" for x :: bytes
    using that by (auto simp: list_all_iff intro!: replicate_eqI [symmetric])
  then show ?thesis
    by (auto simp: codecs_ok_def run_codecs_def run_write_def run_read_def le_val_le_bytes)
qed

lemma run_codecs_safe: "codecs_safe run_codecs"
  by (simp add: codecs_safe_def run_codecs_def run_write_def run_read_def)

end
