(* ===== verification/Decrypt.thy ===== *)
theory Decrypt
  imports Compress
begin

text \<open>
  \<^verbatim>\<open>internal/decrypt\<close>: the key registry, the encrypted-frame format and the Salsa20 stream
  cipher of \<^verbatim>\<open>salsa20.go\<close>. Shown here: the registry is a map with a length check, Salsa20 is its
  own inverse and keeps the length, its block counter counts, a well-formed frame decrypts to
  its plaintext, and no frame panics.
\<close>

unbundle bit_operations_syntax

section \<open>Key registry\<close>

type_synonym KeyRegistry = "u64 \<rightharpoonup> bytes"

definition NewKeyRegistry :: KeyRegistry where
  "NewKeyRegistry = Map.empty"

definition registry_Add :: "KeyRegistry \<Rightarrow> u64 \<Rightarrow> bytes \<Rightarrow> KeyRegistry outcome" where
  "registry_Add r name key = guard (length key \<noteq> 16) ErrInvalidParameter (Ret (r(name \<mapsto> key)))"

definition registry_Find :: "KeyRegistry \<Rightarrow> u64 \<Rightarrow> bytes option" where
  "registry_Find r name = r name"

definition registry_ok :: "KeyRegistry \<Rightarrow> bool" where
  "registry_ok r \<longleftrightarrow> (\<forall>name key. r name = Some key \<longrightarrow> length key = 16)"

lemma registry_ok_New [simp]: "registry_ok NewKeyRegistry"
  by (simp add: registry_ok_def NewKeyRegistry_def)

lemma registry_ok_Add: "registry_ok r \<Longrightarrow> registry_Add r name key = Ret r' \<Longrightarrow> registry_ok r'"
  by (auto simp: registry_ok_def registry_Add_def guard_eq_Ret split: if_splits)

lemma registry_Find_Add:
  "registry_Add r name key = Ret r' \<Longrightarrow>
   registry_Find r' n = (if n = name then Some key else registry_Find r n)"
  by (auto simp: registry_Find_def registry_Add_def guard_eq_Ret)

section \<open>Salsa20\<close>

definition rol32 :: "u32 \<Rightarrow> nat \<Rightarrow> u32" where
  "rol32 x n = push_bit n x OR drop_bit (32 - n) x"

text \<open>The assignment \<^verbatim>\<open>x[t] ^= rol32(x[a]+x[b], n)\<close> and the 32 of them in one loop body.\<close>

fun salsa_step :: "nat \<times> nat \<times> nat \<times> nat \<Rightarrow> u32 list \<Rightarrow> u32 list" where
  "salsa_step (t, a, b, n) x = x[t := x ! t XOR rol32 (x ! a + x ! b) n]"

definition salsa_round :: "(nat \<times> nat \<times> nat \<times> nat) list" where
  "salsa_round =
    [(4, 0, 12, 7), (8, 4, 0, 9), (12, 8, 4, 13), (0, 12, 8, 18),
     (9, 5, 1, 7), (13, 9, 5, 9), (1, 13, 9, 13), (5, 1, 13, 18),
     (14, 10, 6, 7), (2, 14, 10, 9), (6, 2, 14, 13), (10, 6, 2, 18),
     (3, 15, 11, 7), (7, 3, 15, 9), (11, 7, 3, 13), (15, 11, 7, 18),
     (1, 0, 3, 7), (2, 1, 0, 9), (3, 2, 1, 13), (0, 3, 2, 18),
     (6, 5, 4, 7), (7, 6, 5, 9), (4, 7, 6, 13), (5, 4, 7, 18),
     (11, 10, 9, 7), (8, 11, 10, 9), (9, 8, 11, 13), (10, 9, 8, 18),
     (12, 15, 14, 7), (13, 12, 15, 9), (14, 13, 12, 13), (15, 14, 13, 18)]"

definition salsa20Block :: "u32 list \<Rightarrow> bytes" where
  "salsa20Block state =
     (let x = (fold salsa_step salsa_round ^^ 10) state
      in concat (map putLE32 (map2 (+) x state)))"

text \<open>\<^verbatim>\<open>binary.LittleEndian.Uint32(b[i:i+4])\<close> on a buffer known to be long enough.\<close>

definition u32_at :: "bytes \<Rightarrow> nat \<Rightarrow> u32" where
  "u32_at b i = word_of_nat (le_val (take 4 (drop i b)))"

definition sigma :: bytes where
  "sigma = [0x65, 0x78, 0x70, 0x61, 0x6E, 0x64, 0x20, 0x33, 0x32, 0x2D, 0x62, 0x79, 0x74, 0x65, 0x20, 0x6B]"

definition tau :: bytes where
  "tau = [0x65, 0x78, 0x70, 0x61, 0x6E, 0x64, 0x20, 0x31, 0x36, 0x2D, 0x62, 0x79, 0x74, 0x65, 0x20, 0x6B]"

definition salsa_init :: "bytes \<Rightarrow> bytes \<Rightarrow> u32 list" where
  "salsa_init key nonce =
     (let (consts, keyIndex) = (if length key = 16 then (tau, 0) else (sigma, 16))
      in [u32_at consts 0, u32_at key 0, u32_at key 4, u32_at key 8, u32_at key 12,
          u32_at consts 4, u32_at nonce 0, u32_at nonce 4, 0, 0,
          u32_at consts 8, u32_at key keyIndex, u32_at key (keyIndex + 4),
          u32_at key (keyIndex + 8), u32_at key (keyIndex + 12), u32_at consts 12])"

text \<open>\<^verbatim>\<open>state[8]++; if state[8] == 0 { state[9]++ }\<close>\<close>

definition bump_counter :: "u32 list \<Rightarrow> u32 list" where
  "bump_counter state =
     (let s = state[8 := state ! 8 + 1]
      in if s ! 8 = 0 then s[9 := s ! 9 + 1] else s)"

function salsa_loop :: "u32 list \<Rightarrow> bytes \<Rightarrow> bytes" where
  "salsa_loop state src =
     (if src = [] then []
      else map2 (XOR) (take 64 src) (take (length (take 64 src)) (salsa20Block state)) @
           salsa_loop (bump_counter state) (drop 64 src))"
  by pat_completeness auto
termination
  by (relation "measure (\<lambda>(state, src). length src)") auto

declare salsa_loop.simps [simp del]

text \<open>\<open>dst\<close> is as long as \<open>src\<close> at the only call; the two panics left are on bad key and nonce sizes.\<close>

definition salsa20XOR :: "bytes \<Rightarrow> bytes \<Rightarrow> bytes \<Rightarrow> bytes outcome" where
  "salsa20XOR src key nonce =
     (if length nonce \<noteq> 8 then Panic
      else if length key \<noteq> 16 \<and> length key \<noteq> 32 then Panic
      else Ret (salsa_loop (salsa_init key nonce) src))"

lemma length_salsa_step [simp]: "length (salsa_step q x) = length x"
  by (cases q) simp

lemma length_fold_salsa [simp]: "length (fold salsa_step qs x) = length x"
  by (induction qs arbitrary: x) simp_all

lemma length_rounds [simp]: "length ((fold salsa_step qs ^^ n) x) = length x"
  by (induction n) simp_all

lemma length_salsa20Block: "length (salsa20Block state) = 4 * length state"
  by (simp only: salsa20Block_def Let_def, subst length_concat_const [where k = 4]) simp_all

lemma length_bump_counter [simp]: "length (bump_counter s) = length s"
  by (simp add: bump_counter_def Let_def)

lemma length_salsa_init [simp]: "length (salsa_init key nonce) = 16"
  by (simp add: salsa_init_def split: prod.split)

lemma length_salsa_loop: "length s = 16 \<Longrightarrow> length (salsa_loop s src) = length src"
proof (induction s src rule: salsa_loop.induct)
  case (1 s src)
  then show ?case by (subst salsa_loop.simps) (auto simp: length_salsa20Block)
qed

lemma map2_xor_twice:
  "length ks = length xs \<Longrightarrow> map2 (XOR) (map2 (XOR) xs ks) ks = (xs :: bytes)"
  by (rule nth_equalityI) (auto simp: xor.assoc)

lemma salsa_loop_involution: "length s = 16 \<Longrightarrow> salsa_loop s (salsa_loop s src) = src"
proof (induction s src rule: salsa_loop.induct)
  case (1 s src)
  show ?case
  proof (cases "src = []")
    case False
    let ?n = "length (take 64 src)" and ?b = "salsa20Block s"
    let ?x = "map2 (XOR) (take 64 src) (take ?n ?b)"
    let ?r = "salsa_loop (bump_counter s) (drop 64 src)"
    have b: "length ?b = 64" using "1.prems" by (simp add: length_salsa20Block)
    have lx: "length ?x = ?n" using b by simp
    have out: "salsa_loop s src = ?x @ ?r"
      using False by (subst salsa_loop.simps) simp
    have rlen: "length ?r = length src - 64"
      using "1.prems" by (simp add: length_salsa_loop)
    have "?r = []" if "length src < 64"
      using rlen that by simp
    then have tk: "take 64 (?x @ ?r) = ?x" and dr: "drop 64 (?x @ ?r) = ?r"
      using lx by (cases "length src < 64"; simp)+
    have "0 < length ?x" using False lx by simp
    then have ne: "(?x @ ?r = []) = False" by auto
    have "salsa_loop s (?x @ ?r) = map2 (XOR) ?x (take ?n ?b) @ salsa_loop (bump_counter s) ?r"
      by (subst salsa_loop.simps) (simp only: ne if_False tk dr lx)
    also have "map2 (XOR) ?x (take ?n ?b) = take 64 src"
      using b by (intro map2_xor_twice) simp
    also have "salsa_loop (bump_counter s) ?r = drop 64 src"
      using "1.IH" [OF False] "1.prems" by simp
    finally show ?thesis by (simp add: out)
  qed (simp add: salsa_loop.simps)
qed

text \<open>The block counter: after \<open>n\<close> blocks, words 8 and 9 hold \<open>n\<close> as a 64-bit number.\<close>

definition counter_of :: "u32 list \<Rightarrow> nat" where
  "counter_of s = unat (s ! 8) + 2 ^ 32 * unat (s ! 9)"

lemma counter_bump:
  assumes "length s = 16"
  shows "counter_of (bump_counter s) = (counter_of s + 1) mod 2 ^ 64"
proof (cases "s ! 8 + 1 = 0")
  case True
  then have "s ! 8 = - 1" by (simp add: eq_neg_iff_add_eq_0)
  then have "unat (s ! 8) = 2 ^ 32 - 1"
    by (simp add: unsigned_minus_1_eq_mask mask_eq_exp_minus_1)
  then show ?thesis
    using assms True mod_mult_mult1 [of "4294967296 :: nat" "Suc (unat (s ! 9))" 4294967296]
    by (auto simp: counter_of_def bump_counter_def Let_def unat_word_ariths)
next
  case False
  then have "unat (s ! 8 + 1) = unat (s ! 8) + 1"
    by (metis unatSuc Suc_eq_plus1 add.commute)
  then show ?thesis
    using assms False unat_bounds(2) [of "s ! 8 + 1"] unat_bounds(2) [of "s ! 9"]
    by (simp add: counter_of_def bump_counter_def Let_def)
qed

lemma salsa20XOR_involution:
  "salsa20XOR src key nonce = Ret c \<Longrightarrow> salsa20XOR c key nonce = Ret src"
  by (auto simp: salsa20XOR_def salsa_loop_involution split: if_splits)

lemma salsa20XOR_length: "salsa20XOR src key nonce = Ret c \<Longrightarrow> length c = length src"
  by (auto simp: salsa20XOR_def length_salsa_loop split: if_splits)

section \<open>Encrypted frames\<close>

text \<open>The IV in a 16-byte array, its first four bytes XORed with the frame index.\<close>

definition frame_iv :: "bytes \<Rightarrow> nat \<Rightarrow> bytes" where
  "frame_iv ivb frameIndex =
     (let iv = fit 16 ivb
      in map2 (XOR) (take 4 iv) (le_bytes 4 frameIndex) @ drop 4 iv)"

definition DecryptFrame :: "codecs \<Rightarrow> KeyRegistry \<Rightarrow> bytes \<Rightarrow> nat \<Rightarrow> bytes outcome" where
  "DecryptFrame C r inp frameIndex =
     guard (length inp < 1) ErrFileCorrupt (
     bnd (at inp 0) (\<lambda>b0.
     let keyNameSize = unat b0 in
     guard (keyNameSize \<noteq> 0 \<and> keyNameSize \<noteq> 8) ErrNotSupported (
     bnd (subslice_from inp 1) (\<lambda>inp.
     guard (length inp < keyNameSize + 1) ErrFileCorrupt (
     bnd (if keyNameSize = 8 then rdLE64 inp 0 8 else Ret 0) (\<lambda>keyName.
     bnd (subslice_from inp keyNameSize) (\<lambda>inp.
     bnd (at inp 0) (\<lambda>b1.
     let ivSize = unat b1 in
     guard (ivSize \<noteq> 4 \<and> ivSize \<noteq> 8) ErrNotSupported (
     bnd (subslice_from inp 1) (\<lambda>inp.
     guard (length inp < ivSize + 1) ErrFileCorrupt (
     bnd (subslice inp 0 ivSize) (\<lambda>ivb.
     bnd (subslice_from inp ivSize) (\<lambda>inp.
     bnd (at inp 0) (\<lambda>encType.
     bnd (subslice_from inp 1) (\<lambda>inp.
     let iv = frame_iv ivb frameIndex in
     case registry_Find r keyName of
       None \<Rightarrow> Fail ErrEncrypted
     | Some key \<Rightarrow>
         if encType = 0x53 then salsa20XOR inp key (take 8 iv)
         else if encType = 0x41 then Ret (aes_ctr C key iv inp)
         else Fail ErrNotSupported)))))))))))))))"

lemma length_frame_iv [simp]: "length (frame_iv ivb n) = 16"
  by (simp add: frame_iv_def Let_def)

lemma safe_DecryptFrame:
  assumes "registry_ok r"
  shows "safe (DecryptFrame C r inp i)"
proof -
  have "safe (salsa20XOR x key (take 8 (frame_iv ivb i)))" if "r n = Some key" for n x key ivb
    using assms that by (simp add: salsa20XOR_def registry_ok_def)
  then show ?thesis
    by (auto simp: DecryptFrame_def Let_def safe_bnd safe_guard safe_subslices registry_Find_def
        outcome_simps split: option.split)
qed

text \<open>
  The wire format of an encrypted frame body (after the \<^verbatim>\<open>E\<close> mode byte) with an 8-byte key name:
  what a CASC encoder emits for a Salsa20-encrypted block.
\<close>

definition salsa_frame :: "u64 \<Rightarrow> bytes \<Rightarrow> bytes \<Rightarrow> bytes" where
  "salsa_frame keyName ivb cipher =
     8 # putLE64 keyName @ word_of_nat (length ivb) # ivb @ 0x53 # cipher"

lemma salsa_frame_decrypts:
  assumes "registry_Find r keyName = Some key" "length ivb = 4 \<or> length ivb = 8"
    and "salsa20XOR plain key (take 8 (frame_iv ivb i)) = Ret cipher"
  shows "DecryptFrame C r (salsa_frame keyName ivb cipher) i = Ret plain"
proof -
  have "unat (word_of_nat (length ivb) :: u8) = length ivb"
    using assms(2) by (auto simp: unat_of_nat)
  then show ?thesis
    using assms(1,2) salsa20XOR_involution [OF assms(3)]
    by (auto simp: DecryptFrame_def salsa_frame_def Let_def nth_append)
qed

end
