(* ===== verification/Blte.thy ===== *)
theory Blte
  imports Decrypt
begin

text \<open>
  \<^verbatim>\<open>internal/datafile\<close>: BLTE streams. \<^verbatim>\<open>blte.go\<close> parses the header and decodes one frame at a
  time; \<^verbatim>\<open>encoder.go\<close> splits content into chunks, transforms each into a frame and writes the
  header. Shown here: neither panics, the decoder's recursion through encrypted frames is
  bounded, and each encoded frame decodes to its chunk.
\<close>

unbundle bit_operations_syntax

record Frame =
  fr_Index :: nat
  fr_EncodedSize :: u32
  fr_ContentSize :: u32
  fr_FrameHash :: bytes

record blte_Header =
  bh_HeaderSize :: u32
  bh_FrameCount :: u32
  bh_Frames :: "Frame list"
  bh_DataOffset :: nat

definition zero_frame_hash :: bytes where
  "zero_frame_hash = replicate 16 0"

section \<open>The header\<close>

definition read_frame :: "bytes \<Rightarrow> nat \<Rightarrow> Frame outcome" where
  "read_frame data i =
     (let off = 12 + i * 24 in
      bnd (rdBE32 data off (off + 4)) (\<lambda>enc.
      bnd (rdBE32 data (off + 4) (off + 8)) (\<lambda>content.
      bnd (subslice data (off + 8) (off + 24)) (\<lambda>hash.
      Ret \<lparr>fr_Index = i, fr_EncodedSize = enc, fr_ContentSize = content, fr_FrameHash = fit 16 hash\<rparr>))))"

definition blte_ParseHeader :: "bytes \<Rightarrow> blte_Header outcome" where
  "blte_ParseHeader data =
     guard (length data < 8) ErrBadFormat (
     bnd (rdLE32 data 0 4) (\<lambda>magic.
     guard (magic \<noteq> BLTESignature) ErrBadFormat (
     bnd (rdBE32 data 4 8) (\<lambda>headerSize.
     if headerSize = 0 then
       Ret \<lparr>bh_HeaderSize = 0, bh_FrameCount = 1,
         bh_Frames = [\<lparr>fr_Index = 0, fr_EncodedSize = 0, fr_ContentSize = 0, fr_FrameHash = zero_frame_hash\<rparr>],
         bh_DataOffset = 8\<rparr>
     else
       guard (headerSize < 12 \<or> length data < unat headerSize) ErrBadFormat (
       bnd (at data 8) (\<lambda>flags.
       guard (flags \<noteq> 0x0F) ErrBadFormat (
       bnd (rdBE24 data 9 12) (\<lambda>frameCount.
       guard (unat headerSize < 12 + unat frameCount * 24) ErrBadFormat (
       bnd (mapM (read_frame data) [0..<unat frameCount]) (\<lambda>frames.
       Ret \<lparr>bh_HeaderSize = headerSize, bh_FrameCount = frameCount, bh_Frames = frames,
         bh_DataOffset = unat headerSize\<rparr>))))))))))"

section \<open>Frame decoding\<close>

text \<open>\<^verbatim>\<open>Decrypt\<close> is \<open>None\<close> when the field is nil.\<close>

record FrameDecoder =
  fd_Decrypt :: "(bytes \<Rightarrow> nat \<Rightarrow> bytes outcome) option"
  fd_VerifyHashes :: bool
  fd_OvercomeEncrypted :: bool

definition zeroFrame :: "Frame \<Rightarrow> bytes" where
  "zeroFrame fr = replicate (unat (fr_ContentSize fr)) 0"

definition decompressZ :: "codecs \<Rightarrow> lzma_hook \<Rightarrow> bytes \<Rightarrow> nat \<Rightarrow> bytes outcome" where
  "decompressZ C lzma body expected =
     bnd (go_and (2 \<le> length body) (bytes_are body 0 [0x42, 0x5A])) (\<lambda>bz.
     if bz then Unbzip2 C body expected else
     bnd (go_and (LZMARegistered lzma) (LooksLikeLZMA body)) (\<lambda>lz.
     if lz then Unlzma lzma body expected else Inflate C body expected))"

text \<open>Zero padding up to the declared content size.\<close>

definition pad_to :: "nat \<Rightarrow> bytes \<Rightarrow> bytes" where
  "pad_to expected out =
     (if 0 < expected \<and> length out < expected then out @ replicate (expected - length out) 0 else out)"

function decodeStep :: "codecs \<Rightarrow> lzma_hook \<Rightarrow> FrameDecoder \<Rightarrow> Frame \<Rightarrow> bytes \<Rightarrow> nat \<Rightarrow> bytes outcome" where
  "decodeStep C lzma d fr encoded depth =
     (if 4 < depth then Fail ErrFileCorrupt
      else if encoded = [] then Fail ErrBadFormat
      else
        bnd (at encoded 0) (\<lambda>mode. bnd (subslice_from encoded 1) (\<lambda>body.
        if mode = 0x4E then Ret body
        else if mode = 0x5A then
          let expected = unat (fr_ContentSize fr) in
          bnd (decompressZ C lzma body expected) (\<lambda>out. Ret (pad_to expected out))
        else if mode = 0x45 then
          (case fd_Decrypt d of
             None \<Rightarrow> if fd_OvercomeEncrypted d then Ret (zeroFrame fr) else Fail ErrEncrypted
           | Some dec \<Rightarrow>
               (case dec body (fr_Index fr) of
                  Panic \<Rightarrow> Panic
                | Fail e \<Rightarrow>
                    if fd_OvercomeEncrypted d \<and> e = ErrEncrypted then Ret (zeroFrame fr) else Fail e
                | Ret decrypted \<Rightarrow> decodeStep C lzma d fr decrypted (depth + 1)))
        else if mode = 0x46 then Fail ErrNotSupported
        else Fail ErrNotSupported)))"
  by pat_completeness auto
termination
  by (relation "measure (\<lambda>(C, lzma, d, fr, encoded, depth). 5 - depth)") auto

declare decodeStep.simps [simp del]

definition blte_Decode :: "codecs \<Rightarrow> lzma_hook \<Rightarrow> FrameDecoder \<Rightarrow> Frame \<Rightarrow> bytes \<Rightarrow> bytes outcome" where
  "blte_Decode C lzma d fr encoded =
     (if fd_VerifyHashes d \<and> fr_FrameHash fr \<noteq> zero_frame_hash \<and> md5 C encoded \<noteq> fr_FrameHash fr
      then Fail ErrFileCorrupt
      else decodeStep C lzma d fr encoded 0)"

section \<open>Encoding\<close>

definition EncodeRaw :: u8 where "EncodeRaw = 0x4E"
definition EncodeZlib :: u8 where "EncodeZlib = 0x5A"

record EncodeOptions =
  eo_Mode :: u8
  eo_FrameSize :: int
  eo_SingleFrameNoHeader :: bool

definition defaultFrameSize :: nat where
  "defaultFrameSize = 256 * 1024"

definition encodeFrame :: "codecs \<Rightarrow> u8 \<Rightarrow> bytes \<Rightarrow> bytes outcome" where
  "encodeFrame C mode chunk =
     (if mode = EncodeRaw then Ret (0x4E # chunk)
      else if mode = EncodeZlib then
        (case Deflate C chunk of
           Fail e \<Rightarrow> Fail e
         | Panic \<Rightarrow> Panic
         | Ret zb \<Rightarrow> if length chunk \<le> length zb then Ret (0x4E # chunk) else Ret (0x5A # zb))
      else Fail ErrNotSupported)"

text \<open>The loop that cuts content into frame-size pieces; empty content is one empty piece.\<close>

function chunks_loop :: "nat \<Rightarrow> bytes \<Rightarrow> bytes list" where
  "chunks_loop n content =
     (if content = [] \<or> n = 0 then [] else take n content # chunks_loop n (drop n content))"
  by pat_completeness auto
termination
  by (relation "measure (\<lambda>(n, content). length content)") auto

declare chunks_loop.simps [simp del]

definition split_chunks :: "nat \<Rightarrow> bytes \<Rightarrow> bytes list" where
  "split_chunks n content = (if content = [] then [[]] else chunks_loop n content)"

record encFrame =
  ef_body :: bytes
  ef_contentSize :: u32
  ef_hash :: bytes

definition encode_chunk :: "codecs \<Rightarrow> u8 \<Rightarrow> bytes \<Rightarrow> encFrame outcome" where
  "encode_chunk C mode c =
     bnd (encodeFrame C mode c) (\<lambda>body.
     Ret \<lparr>ef_body = body, ef_contentSize = word_of_nat (length c), ef_hash = md5 C body\<rparr>)"

text \<open>One row of the frame table: encoded size, content size (both big-endian), hash.\<close>

definition frame_entry :: "encFrame \<Rightarrow> bytes" where
  "frame_entry f =
     be_bytes 4 (length (ef_body f)) @ be_bytes 4 (unat (ef_contentSize f)) @ fit 16 (ef_hash f)"

definition frames_bytes :: "encFrame list \<Rightarrow> bytes" where
  "frames_bytes frames =
     (let headerSize = 12 + length frames * 24
      in putLE32 BLTESignature @ be_bytes 4 headerSize @ [0x0F] @ be_bytes 3 (length frames) @
         concat (map frame_entry frames) @ concat (map ef_body frames))"

definition single_bytes :: "bytes \<Rightarrow> bytes" where
  "single_bytes body = putLE32 BLTESignature @ [0, 0, 0, 0] @ body"

text \<open>A frame size of zero or less selects the default.\<close>

definition opt_frameSize :: "EncodeOptions \<Rightarrow> nat" where
  "opt_frameSize opts = (if eo_FrameSize opts \<le> 0 then defaultFrameSize else nat (eo_FrameSize opts))"

lemma opt_frameSize_pos [simp]: "0 < opt_frameSize opts" "opt_frameSize opts \<noteq> 0"
  by (simp_all add: opt_frameSize_def defaultFrameSize_def)

text \<open>The stream, the content key and the encoded key.\<close>

definition blte_Encode :: "codecs \<Rightarrow> bytes \<Rightarrow> EncodeOptions \<Rightarrow> (bytes \<times> key \<times> key) outcome" where
  "blte_Encode C content opts =
     (let mode = (if eo_Mode opts = 0 then EncodeZlib else eo_Mode opts) in
      guard (mode \<noteq> EncodeRaw \<and> mode \<noteq> EncodeZlib) ErrNotSupported (
      let ckey = md5 C content in
      if eo_SingleFrameNoHeader opts then
        bnd (encodeFrame C mode content) (\<lambda>body.
        let out = single_bytes body in Ret (out, ckey, md5 C out))
      else
        bnd (mapM (encode_chunk C mode) (split_chunks (opt_frameSize opts) content)) (\<lambda>frames.
        let out = frames_bytes frames in Ret (out, ckey, md5 C out))))"

section \<open>Safety and termination\<close>

lemma safe_read_frame: "12 + (i + 1) * 24 \<le> length data \<Longrightarrow> safe (read_frame data i)"
  by (simp add: read_frame_def Let_def safe_bnd)

lemma safe_blte_ParseHeader: "safe (blte_ParseHeader data)"
proof -
  have "safe (mapM (read_frame data) [0..<n])" if "12 + n * 24 \<le> length data" for n
    using that by (intro safe_mapM safe_read_frame) auto
  then show ?thesis
    by (auto simp: blte_ParseHeader_def outcome_simps word_less_nat_alt)
qed

text \<open>A frame decoder whose decrypt callback, if any, does not panic.\<close>

definition decoder_safe :: "FrameDecoder \<Rightarrow> bool" where
  "decoder_safe d \<longleftrightarrow> (\<forall>dec x i. fd_Decrypt d = Some dec \<longrightarrow> safe (dec x i))"

definition lzma_safe :: "lzma_hook \<Rightarrow> bool" where
  "lzma_safe h \<longleftrightarrow> (\<forall>d x n. h = Some d \<longrightarrow> safe (d x n))"

lemma safe_decompressZ: "codecs_safe C \<Longrightarrow> lzma_safe lzma \<Longrightarrow> safe (decompressZ C lzma body n)"
  by (auto simp: decompressZ_def Unbzip2_def Inflate_def codecs_safe_def lzma_safe_def safe_bnd safe_go_and
      bytes_are_Ret safe_at safe_LooksLikeLZMA Unlzma_def split: option.split)

lemma safe_decodeStep:
  "codecs_safe C \<Longrightarrow> lzma_safe lzma \<Longrightarrow> decoder_safe d \<Longrightarrow> safe (decodeStep C lzma d fr encoded depth)"
proof (induction C lzma d fr encoded depth rule: decodeStep.induct)
  case (1 C lzma d fr encoded depth)
  show ?case
  proof (cases "4 < depth \<or> encoded = []")
    case True
    then show ?thesis by (subst decodeStep.simps) auto
  next
    case False
    then obtain mode body where e: "encoded = mode # body" by (cases encoded) auto
    have "safe (dec body (fr_Index fr))" if "fd_Decrypt d = Some dec" for dec
      using that "1.prems"(3) by (simp add: decoder_safe_def)
    moreover have "safe (decodeStep C lzma d fr decrypted (depth + 1))"
      if "mode = 0x45" "fd_Decrypt d = Some dec" "dec body (fr_Index fr) = Ret decrypted" for dec decrypted
      using "1.IH" [of mode body dec decrypted] "1.prems" that False e by simp
    ultimately show ?thesis
      using False e safe_decompressZ "1.prems"
      by (subst decodeStep.simps) (auto simp: Let_def safe_bnd split: outcome.split option.split)
  qed
qed

lemma safe_blte_Decode:
  "codecs_safe C \<Longrightarrow> lzma_safe lzma \<Longrightarrow> decoder_safe d \<Longrightarrow> safe (blte_Decode C lzma d fr encoded)"
  by (simp add: blte_Decode_def safe_decodeStep)

section \<open>Frames round-trip\<close>

lemma decodeStep_raw: "decodeStep C lzma d fr (0x4E # body) depth = (if 4 < depth then Fail ErrFileCorrupt else Ret body)"
  by (subst decodeStep.simps) simp

lemma decodeStep_zlib:
  assumes "zlib_read C (0x78 # z) = Ret c" "\<not> LZMARegistered lzma" "depth \<le> 4"
  shows "decodeStep C lzma d fr (0x5A # 0x78 # z) depth = Ret (pad_to (unat (fr_ContentSize fr)) c)"
  using assms by (subst decodeStep.simps) (simp add: Let_def decompressZ_def Inflate_def go_and_def)

lemma pad_to_id [simp]: "n \<le> length c \<Longrightarrow> pad_to n c = c"
  by (simp add: pad_to_def)

lemma encodeFrame_cases:
  assumes "encodeFrame C mode c = Ret body" "codecs_ok C" "length c < 2 ^ 62"
  obtains "body = 0x4E # c"
  | z where "body = 0x5A # 0x78 # z" "zlib_read C (0x78 # z) = Ret c" "length z + 1 < length c"
proof -
  obtain z where z: "zlib_write C c = Ret (0x78 # z)" "zlib_read C (0x78 # z) = Ret c"
    using assms(2,3) by (auto simp: codecs_ok_def)
  then show ?thesis
    using assms(1) that by (auto simp: encodeFrame_def Deflate_def split: if_splits)
qed

text \<open>An encoded frame is never longer than its chunk and the mode byte.\<close>

lemma encodeFrame_length:
  assumes "encodeFrame C mode c = Ret body" "codecs_ok C" "length c < 2 ^ 62"
  shows "length body \<le> length c + 1" "body \<noteq> []"
  using encodeFrame_cases [OF assms] by (force, force)

lemma decodeStep_encodeFrame:
  assumes "encodeFrame C mode c = Ret body" "codecs_ok C" "length c < 2 ^ 62"
    and "\<not> LZMARegistered lzma" "unat (fr_ContentSize fr) \<le> length c"
  shows "decodeStep C lzma d fr body 0 = Ret c"
  using encodeFrame_cases [OF assms(1-3)]
proof cases
  case 1
  then show ?thesis by (simp add: decodeStep_raw)
next
  case (2 z)
  then show ?thesis using assms(4,5) by (simp add: decodeStep_zlib)
qed

lemma encodeFrame_total:
  assumes "codecs_ok C" "length c < 2 ^ 62" "mode = EncodeRaw \<or> mode = EncodeZlib"
  shows "\<exists>body. encodeFrame C mode c = Ret body"
proof -
  obtain z where "zlib_write C c = Ret (0x78 # z)"
    using assms(1,2) by (auto simp: codecs_ok_def)
  then show ?thesis using assms(3)
    by (auto simp: encodeFrame_def Deflate_def EncodeRaw_def EncodeZlib_def)
qed

section \<open>Encoding succeeds\<close>

lemma chunks_loop_member: "c \<in> set (chunks_loop n content) \<Longrightarrow> length c \<le> length content"
proof (induction n content rule: chunks_loop.induct)
  case (1 n content)
  then show ?case by (subst (asm) (2) chunks_loop.simps) (fastforce split: if_splits)
qed

text \<open>With either mode (or the zero value, which selects zlib) there is always a result.\<close>

lemma blte_Encode_total:
  assumes "codecs_ok C" "length content < 2 ^ 62" "eo_Mode opts \<in> {0, EncodeRaw, EncodeZlib}"
  shows "\<exists>blte ckey ekey. blte_Encode C content opts = Ret (blte, ckey, ekey)"
proof -
  define mode where "mode = (if eo_Mode opts = 0 then EncodeZlib else eo_Mode opts)"
  have mode: "mode = EncodeRaw \<or> mode = EncodeZlib" using assms(3) by (auto simp: mode_def)
  obtain body where body: "encodeFrame C mode content = Ret body"
    using encodeFrame_total [OF assms(1,2) mode] by auto
  have "\<exists>fs. mapM (encode_chunk C mode) (split_chunks (opt_frameSize opts) content) = Ret fs"
  proof (rule mapM_total)
    fix c assume "c \<in> set (split_chunks (opt_frameSize opts) content)"
    then have "length c < 2 ^ 62"
      using assms(2) chunks_loop_member by (fastforce simp: split_chunks_def split: if_splits)
    then show "\<exists>f. encode_chunk C mode c = Ret f"
      using encodeFrame_total [OF assms(1) _ mode] by (auto simp: encode_chunk_def bnd_eq_Ret)
  qed
  then obtain fs where fs: "mapM (encode_chunk C mode) (split_chunks (opt_frameSize opts) content) = Ret fs" ..
  have ok: "(mode \<noteq> EncodeRaw \<and> mode \<noteq> EncodeZlib) = False" using mode by blast
  show ?thesis
    unfolding blte_Encode_def Let_def mode_def [symmetric] ok by (simp add: body fs)
qed

section \<open>Chunks\<close>

lemma concat_chunks_loop: "n \<noteq> 0 \<Longrightarrow> concat (chunks_loop n content) = content"
proof (induction n content rule: chunks_loop.induct)
  case (1 n content)
  then show ?case by (subst chunks_loop.simps) auto
qed

lemma concat_split_chunks: "n \<noteq> 0 \<Longrightarrow> concat (split_chunks n content) = content"
  by (simp add: split_chunks_def concat_chunks_loop)

lemma chunks_loop_length: "c \<in> set (chunks_loop n content) \<Longrightarrow> length c \<le> n \<and> c \<noteq> []"
proof (induction n content rule: chunks_loop.induct)
  case (1 n content)
  then show ?case by (subst (asm) (2) chunks_loop.simps) (auto split: if_splits)
qed

lemma split_chunks_length: "c \<in> set (split_chunks n content) \<Longrightarrow> length c \<le> n"
  using chunks_loop_length by (auto simp: split_chunks_def split: if_splits)

text \<open>The number of frames is the content length over the frame size, rounded up.\<close>

lemma length_chunks_loop: "n \<noteq> 0 \<Longrightarrow> length (chunks_loop n content) = (length content + n - 1) div n"
proof (induction n content rule: chunks_loop.induct)
  case (1 n content)
  show ?case
  proof (cases "content = []")
    case True
    then show ?thesis using "1.prems" by (subst chunks_loop.simps) simp
  next
    case False
    then have "length (chunks_loop n content) = Suc ((length content - n + n - 1) div n)"
      using "1.IH" "1.prems" by (subst chunks_loop.simps) simp
    also have "\<dots> = (length content + n - 1) div n"
    proof (cases "length content \<le> n")
      case True
      obtain k where k: "length content = Suc k" using False by (cases content) auto
      have "(length content + n - 1) div n = 1"
        using True "1.prems" k by (intro div_nat_eqI) simp_all
      then show ?thesis using True "1.prems" by simp
    next
      case le: False
      have eq: "length content + n - 1 = (length content - n + n - 1) + n"
        using le "1.prems" by linarith
      show ?thesis
        unfolding eq using "1.prems" by (subst div_add_self2) simp_all
    qed
    finally show ?thesis .
  qed
qed

section \<open>The header round-trips\<close>

text \<open>The row \<^verbatim>\<open>ParseHeader\<close> is meant to see for frame \<open>i\<close>.\<close>

definition frame_row :: "nat \<Rightarrow> encFrame \<Rightarrow> Frame" where
  "frame_row i f = \<lparr>fr_Index = i, fr_EncodedSize = word_of_nat (length (ef_body f)),
     fr_ContentSize = ef_contentSize f, fr_FrameHash = ef_hash f\<rparr>"

definition frame_rows :: "encFrame list \<Rightarrow> Frame list" where
  "frame_rows frames = map (\<lambda>i. frame_row i (frames ! i)) [0..<length frames]"

definition enc_frame_ok :: "encFrame \<Rightarrow> bool" where
  "enc_frame_ok f \<longleftrightarrow> length (ef_hash f) = 16 \<and> length (ef_body f) < 2 ^ 32"

lemma length_frame_entry [simp]: "length (frame_entry f) = 24"
  by (simp add: frame_entry_def)

lemma take4_be32 [simp]: "take 4 (be_bytes 4 v @ r) = be_bytes 4 v" "drop 4 (be_bytes 4 v @ r) = r"
  by simp_all

lemma word32_be_val [simp]:
  "v < 2 ^ 32 \<Longrightarrow> word_of_nat (be_val (be_bytes 4 v)) = (word_of_nat v :: u32)"
  by (simp add: be_val_be_bytes)

lemma read_frame_entry:
  assumes "drop (12 + i * 24) data = frame_entry f @ r" "enc_frame_ok f"
  shows "read_frame data i = Ret (frame_row i f)"
proof -
  define off where "off = 12 + i * 24"
  have d: "drop off data = frame_entry f @ r" using assms(1) by (simp add: off_def)
  have len: "off + 24 \<le> length data"
    using arg_cong [OF d, of length] by simp
  have d0: "take 4 (drop off data) = be_bytes 4 (length (ef_body f))"
    by (simp add: d frame_entry_def)
  have "drop (off + k) data = drop k (frame_entry f @ r)" for k
    by (simp only: d add.commute [of off] drop_drop [symmetric])
  then have d4: "take 4 (drop (off + 4) data) = be_bytes 4 (unat (ef_contentSize f))"
    and d8: "take 16 (drop (off + 8) data) = ef_hash f"
    using assms(2) by (simp_all add: frame_entry_def enc_frame_ok_def)
  show ?thesis
    using len assms(2) d8 unfolding read_frame_def Let_def off_def [symmetric]
    by (simp add: d0 d4 rdBE_Ret(3) frame_row_def enc_frame_ok_def unat_bounds)
qed

text \<open>The whole table: \<^verbatim>\<open>ParseHeader\<close> on what \<^verbatim>\<open>Encode\<close> assembled.\<close>

lemma length_frame_rows [simp]: "length (frame_rows frames) = length frames"
  by (simp add: frame_rows_def)

lemma blte_ParseHeader_frames_bytes:
  assumes "frames \<noteq> []" "length frames < 2 ^ 24" "\<forall>f\<in>set frames. enc_frame_ok f"
  shows "blte_ParseHeader (frames_bytes frames) =
    Ret \<lparr>bh_HeaderSize = word_of_nat (12 + length frames * 24),
         bh_FrameCount = word_of_nat (length frames), bh_Frames = frame_rows frames,
         bh_DataOffset = 12 + length frames * 24\<rparr>"
proof -
  let ?n = "length frames"
  let ?data = "frames_bytes frames"
  let ?body = "concat (map frame_entry frames) @ concat (map ef_body frames)"
  have n: "0 < ?n" using assms(1) by simp
  have entries: "length (concat (map frame_entry frames)) = 24 * ?n"
    by (rule length_concat_const) simp
  have data: "?data = putLE32 BLTESignature @ be_bytes 4 (12 + ?n * 24) @ [0x0F] @ be_bytes 3 ?n @ ?body"
    by (simp add: frames_bytes_def Let_def)
  have len: "12 + ?n * 24 \<le> length ?data"
    by (simp add: data entries)
  have rows: "mapM (read_frame ?data) [0..<?n] = Ret (frame_rows frames)"
    unfolding frame_rows_def
  proof (rule mapM_all_Ret)
    fix i assume i: "i \<in> set [0..<?n]"
    then have "drop (i * 24) ?body = frame_entry (frames ! i) @
        concat (map frame_entry (drop (Suc i) frames)) @ concat (map ef_body frames)"
      by (simp add: drop_append entries drop_concat_nth)
    moreover have "drop (12 + i * 24) ?data = drop (i * 24) (drop 12 ?data)"
      by (simp only: drop_drop add.commute)
    moreover have "drop 12 ?data = ?body" by (simp add: data)
    ultimately have "drop (12 + i * 24) ?data = frame_entry (frames ! i) @
        concat (map frame_entry (drop (Suc i) frames)) @ concat (map ef_body frames)"
      by (simp only:)
    then show "read_frame ?data i = Ret (frame_row i (frames ! i))"
      using assms(3) i by (intro read_frame_entry) auto
  qed
  have magic: "rdLE32 ?data 0 4 = Ret BLTESignature"
    using len by (simp add: data)
  have size: "rdBE32 ?data 4 8 = Ret (word_of_nat (12 + ?n * 24))"
    using len assms(2) by (simp add: data rdBE_Ret(3) be_val_be_bytes)
  have flags: "at ?data 8 = Ret 0x0F"
    using len by (simp add: data nth_append)
  have count: "rdBE24 ?data 9 12 = Ret (word_of_nat ?n)"
    using len assms(2) by (simp add: data rdBE_Ret(2) be_val_be_bytes)
  have u: "unat (word_of_nat (12 + ?n * 24) :: u32) = 12 + ?n * 24" "unat (word_of_nat ?n :: u32) = ?n"
    using assms(2) by (intro unat_word_of_nat; simp)+
  have nz: "(word_of_nat (12 + ?n * 24) :: u32) \<noteq> 0" "\<not> (word_of_nat (12 + ?n * 24) :: u32) < 12"
    using u(1) by (metis add_is_0 unat_0 zero_neq_numeral,
        simp add: word_less_nat_alt del: of_nat_add of_nat_mult)
  show ?thesis
    unfolding blte_ParseHeader_def magic size flags count bnd.simps if_not_P [OF nz(1)] u rows
    using len nz by (simp add: u rows del: of_nat_add of_nat_mult)
qed

lemma blte_ParseHeader_single:
  "blte_ParseHeader (single_bytes body) =
     Ret \<lparr>bh_HeaderSize = 0, bh_FrameCount = 1,
         bh_Frames = [\<lparr>fr_Index = 0, fr_EncodedSize = 0, fr_ContentSize = 0, fr_FrameHash = zero_frame_hash\<rparr>],
         bh_DataOffset = 8\<rparr>"
  by (simp add: blte_ParseHeader_def single_bytes_def rdBE_Ret(3) be_val_def numeral_eq_Suc)

end
