(* ===== verification/Jenkins.thy ===== *)
theory Jenkins
  imports CascBase
begin

text \<open>
  \<^verbatim>\<open>internal/hashes/jenkins.go\<close>: Bob Jenkins's lookup3 hashes. The block loop keeps the code's
  32-bit \<^verbatim>\<open>length\<close> counter; the last block follows the fall-through cases of the switch from the
  highest to the lowest byte. Shown here: \<^verbatim>\<open>rot\<close> is the bit rotation, \<^verbatim>\<open>mix\<close> is reversible (by an
  explicit inverse), the one-result hash is the first result of the two-result one, the loop
  leaves exactly the last block, and the published test vectors.
\<close>

unbundle bit_operations_syntax

definition rot :: "u32 \<Rightarrow> nat \<Rightarrow> u32" where
  "rot x k = push_bit k x OR drop_bit (32 - k) x"

type_synonym hstate = "u32 \<times> u32 \<times> u32"

definition mix :: "u32 \<Rightarrow> u32 \<Rightarrow> u32 \<Rightarrow> hstate" where
  "mix a b c =
    (let a = a - c; a = a XOR rot c 4; c = c + b;
         b = b - a; b = b XOR rot a 6; a = a + c;
         c = c - b; c = c XOR rot b 8; b = b + a;
         a = a - c; a = a XOR rot c 16; c = c + b;
         b = b - a; b = b XOR rot a 19; a = a + c;
         c = c - b; c = c XOR rot b 4; b = b + a
     in (a, b, c))"

definition final :: "u32 \<Rightarrow> u32 \<Rightarrow> u32 \<Rightarrow> u32 \<times> u32" where
  "final a b c =
    (let c = c XOR b; c = c - rot b 14;
         a = a XOR c; a = a - rot c 11;
         b = b XOR a; b = b - rot a 25;
         c = c XOR b; c = c - rot b 16;
         a = a XOR c; a = a - rot c 4;
         b = b XOR a; b = b - rot a 14;
         c = c XOR b; c = c - rot b 24
     in (b, c))"

text \<open>\<^verbatim>\<open>uint32(k[i]) | uint32(k[i+1])<<8 | uint32(k[i+2])<<16 | uint32(k[i+3])<<24\<close>\<close>

definition le4 :: "bytes \<Rightarrow> nat \<Rightarrow> u32" where
  "le4 k i = ucast (k ! i) OR push_bit 8 (ucast (k ! (i + 1))) OR
     push_bit 16 (ucast (k ! (i + 2))) OR push_bit 24 (ucast (k ! (i + 3)))"

fun hl_block :: "hstate \<Rightarrow> bytes \<Rightarrow> hstate" where
  "hl_block (a, b, c) k = mix (a + le4 k 0) (b + le4 k 4) (c + le4 k 8)"

declare hl_block.simps [simp del]

text \<open>The loop \<^verbatim>\<open>for length > 12\<close>: the state, the bytes left to count and the slice left to read.\<close>

function hl_blocks :: "u32 \<Rightarrow> hstate \<Rightarrow> bytes \<Rightarrow> hstate \<times> u32 \<times> bytes" where
  "hl_blocks len s k =
     (if 12 < len
      then hl_blocks (len - 12) (hl_block s k) (drop 12 k)
      else (s, len, k))"
  by pat_completeness auto
termination
proof (relation "measure (\<lambda>(len, s, k). unat len)")
  fix len :: u32 and s :: hstate and k :: bytes
  assume "12 < len"
  then have "unat (len - 12) = unat len - 12"
    by (subst unat_sub) (simp_all add: order_less_imp_le)
  moreover have "12 < unat len"
    using \<open>12 < len\<close> by (simp add: word_less_nat_alt)
  ultimately show "((len - 12, hl_block s k, drop 12 k), len, s, k)
    \<in> measure (\<lambda>(len, s, k). unat len)"
    by simp
qed simp

declare hl_blocks.simps [simp del]

text \<open>The switch on the last block: \<^verbatim>\<open>case n\<close> adds byte \<open>n - 1\<close> and falls through.\<close>

definition hl_last :: "u32 \<Rightarrow> u32 \<Rightarrow> u32 \<Rightarrow> u32 \<Rightarrow> bytes \<Rightarrow> hstate" where
  "hl_last len a b c k =
    (let c = (if 12 \<le> len then c + push_bit 24 (ucast (k ! 11)) else c);
         c = (if 11 \<le> len then c + push_bit 16 (ucast (k ! 10)) else c);
         c = (if 10 \<le> len then c + push_bit 8 (ucast (k ! 9)) else c);
         c = (if 9 \<le> len then c + ucast (k ! 8) else c);
         b = (if 8 \<le> len then b + push_bit 24 (ucast (k ! 7)) else b);
         b = (if 7 \<le> len then b + push_bit 16 (ucast (k ! 6)) else b);
         b = (if 6 \<le> len then b + push_bit 8 (ucast (k ! 5)) else b);
         b = (if 5 \<le> len then b + ucast (k ! 4) else b);
         a = (if 4 \<le> len then a + push_bit 24 (ucast (k ! 3)) else a);
         a = (if 3 \<le> len then a + push_bit 16 (ucast (k ! 2)) else a);
         a = (if 2 \<le> len then a + push_bit 8 (ucast (k ! 1)) else a);
         a = (if 1 \<le> len then a + ucast (k ! 0) else a)
     in (a, b, c))"

text \<open>The last block and \<^verbatim>\<open>final\<close>; an empty last block skips both. The results are \<open>(c, b)\<close>.\<close>

fun hl_final :: "hstate \<Rightarrow> u32 \<times> u32" where
  "hl_final (a, b, c) = prod.swap (final a b c)"

fun hl_finish :: "hstate \<times> u32 \<times> bytes \<Rightarrow> u32 \<times> u32" where
  "hl_finish ((a, b, c), len, k) =
     (if len = 0 then (c, b)
      else hl_final (hl_last len a b c k))"

definition HashLittle :: "bytes \<Rightarrow> u32 \<Rightarrow> u32" where
  "HashLittle key initval =
     (let len = word_of_nat (length key);
          a = 0xdeadbeef + len + initval
      in fst (hl_finish (hl_blocks len (a, a, a) key)))"

definition HashLittle2 :: "bytes \<Rightarrow> u32 \<Rightarrow> u32 \<Rightarrow> u32 \<times> u32" where
  "HashLittle2 key initpc initpb =
     (let len = word_of_nat (length key);
          a = 0xdeadbeef + len + initpc;
          c = a + initpb
      in hl_finish (hl_blocks len (a, a, c) key))"

definition HashFileName :: "bytes \<Rightarrow> u64" where
  "HashFileName name = (case HashLittle2 name 0 0 of (pc, pb) \<Rightarrow>
     ucast pc OR push_bit 32 (ucast pb))"

section \<open>Reversibility of the mixing step\<close>

definition unmix :: "u32 \<Rightarrow> u32 \<Rightarrow> u32 \<Rightarrow> hstate" where
  "unmix a b c =
    (let b = b - a; c = c XOR rot b 4; c = c + b;
         a = a - c; b = b XOR rot a 19; b = b + a;
         c = c - b; a = a XOR rot c 16; a = a + c;
         b = b - a; c = c XOR rot b 8; c = c + b;
         a = a - c; b = b XOR rot a 6; b = b + a;
         c = c - b; a = a XOR rot c 4; a = a + c
     in (a, b, c))"

lemma xor_cancel [simp]: "(x XOR y) XOR y = x" for x y :: u32
  by (simp add: xor.assoc)

fun unmix_state :: "hstate \<Rightarrow> hstate" where
  "unmix_state (a, b, c) = unmix a b c"

fun mix_state :: "hstate \<Rightarrow> hstate" where
  "mix_state (a, b, c) = mix a b c"

lemma unmix_mix: "unmix_state (mix a b c) = (a, b, c)"
  by (simp only: mix_def unmix_def Let_def unmix_state.simps add_diff_cancel_right'
      diff_add_cancel xor_cancel)

lemma mix_unmix: "mix_state (unmix a b c) = (a, b, c)"
  by (simp only: mix_def unmix_def Let_def mix_state.simps add_diff_cancel_right'
      diff_add_cancel xor_cancel)

lemma bij_mix_state: "bij mix_state"
proof (rule o_bij [where g = unmix_state])
  show "unmix_state \<circ> mix_state = id"
    by (auto simp: fun_eq_iff unmix_mix simp del: unmix_state.simps)
  show "mix_state \<circ> unmix_state = id"
    by (auto simp: fun_eq_iff mix_unmix simp del: mix_state.simps)
qed

lemma rot_eq_rotl:
  assumes "0 < k" "k < 32"
  shows "rot x k = word_rotl k x"
proof (rule bit_word_eqI)
  fix n assume "n < LENGTH(32)"
  then have n: "n < 32" by simp
  show "bit (rot x k) n = bit (word_rotl k x) n"
  proof (cases "k \<le> n")
    case True
    then have "(n + 32 - k) mod 32 = n - k" "\<not> n + 32 - k < 32" "\<not> bit x (32 - k + n)"
      using assms n by (auto simp: mod_if dest: bit_imp_le_length)
    then show ?thesis using True n by (simp add: rot_def bit_simps)
  next
    case False
    then have "(n + 32 - k) mod 32 = 32 - k + n" using assms by simp
    then show ?thesis using False n assms by (simp add: rot_def bit_simps)
  qed
qed

section \<open>The block loop\<close>

lemma hl_blocks_len: "fst (snd (hl_blocks len s k)) \<le> 12"
  by (induction len s k rule: hl_blocks.induct) (subst hl_blocks.simps, simp add: not_less)

text \<open>The bytes the loop leaves are the last block: never more than 12 of the key, none skipped.\<close>

lemma hl_blocks_rest:
  "unat len = length k \<Longrightarrow> hl_blocks len s k = (s', len', k') \<Longrightarrow>
   unat len' = length k' \<and> (\<exists>n. k' = drop (12 * n) k)"
proof (induction len s k rule: hl_blocks.induct)
  case (1 len s k)
  show ?case
  proof (cases "12 < len")
    case True
    have "unat (len - 12) = unat len - 12"
      using True by (subst unat_sub) (simp_all add: order_less_imp_le)
    then have "unat (len - 12) = length (drop 12 k)"
      using "1.prems"(1) by simp
    moreover have "hl_blocks (len - 12) (hl_block s k) (drop 12 k) = (s', len', k')"
      using "1.prems"(2) True by (simp add: hl_blocks.simps [of len])
    ultimately obtain n where "unat len' = length k'" "k' = drop (12 * n) (drop 12 k)"
      using "1.IH" [OF True] by blast
    then have "unat len' = length k' \<and> k' = drop (12 * Suc n) k"
      by (simp add: add.commute)
    then show ?thesis by blast
  next
    case False
    then have "s' = s" "len' = len" "k' = k"
      using "1.prems"(2) by (simp_all add: hl_blocks.simps [of len])
    then show ?thesis using "1.prems"(1) by (auto intro: exI [of _ 0])
  qed
qed

lemma HashLittle_eq_HashLittle2: "HashLittle key initval = fst (HashLittle2 key initval 0)"
  by (simp add: HashLittle_def HashLittle2_def Let_def)

section \<open>Reference values\<close>

text \<open>The key of the self-test of Jenkins's \<^verbatim>\<open>lookup3.c\<close>: ``Four score and seven years ago''.\<close>

definition four_score :: bytes where
  "four_score = [0x46, 0x6F, 0x75, 0x72, 0x20, 0x73, 0x63, 0x6F, 0x72, 0x65, 0x20, 0x61, 0x6E, 0x64,
     0x20, 0x73, 0x65, 0x76, 0x65, 0x6E, 0x20, 0x79, 0x65, 0x61, 0x72, 0x73, 0x20, 0x61, 0x67, 0x6F]"

lemma four_score_0: "HashLittle four_score 0 = 0x17770551"
  by code_simp

lemma four_score_1: "HashLittle four_score 1 = 0xCD628161"
  by code_simp

theorem HashLittle_reference_values:
  "HashLittle four_score 0 = 0x17770551 \<and> HashLittle four_score 1 = 0xCD628161 \<and>
   HashLittle [] 0 = 0xDEADBEEF"
  using four_score_0 four_score_1 by (simp add: HashLittle_def Let_def hl_blocks.simps hl_finish.simps)

theorem HashLittle_is_HashLittle2:
  "HashLittle key initval = fst (HashLittle2 key initval 0) \<and> bij mix_state"
  by (simp add: HashLittle_eq_HashLittle2 bij_mix_state)

end
