(* ===== verification/GoSort.thy ===== *)
theory GoSort
  imports CascBase "HOL-Library.Multiset"
begin

text \<open>
  \<^verbatim>\<open>sort.Slice(xs, less)\<close> as the writers use it. The library promises a permutation of the
  slice in which no later element is less than an earlier one; the order of elements that
  compare equal is left open. The model is the stable insertion sort, which keeps the promise
  for every strict weak order (locale \<open>slice_order\<close>); where elements that compare equal are
  equal it is the only list that does, so nothing the theorems say depends on the choice.
\<close>

fun insert_by :: "('a \<Rightarrow> 'a \<Rightarrow> bool) \<Rightarrow> 'a \<Rightarrow> 'a list \<Rightarrow> 'a list" where
  "insert_by lt x [] = [x]"
| "insert_by lt x (y # ys) = (if lt y x then y # insert_by lt x ys else x # y # ys)"

definition sort_slice :: "('a \<Rightarrow> 'a \<Rightarrow> bool) \<Rightarrow> 'a list \<Rightarrow> 'a list" where
  "sort_slice lt xs = foldr (insert_by lt) xs []"

lemma sort_slice_simps [simp]:
  "sort_slice lt [] = []" "sort_slice lt (x # xs) = insert_by lt x (sort_slice lt xs)"
  by (simp_all add: sort_slice_def)

lemma mset_insert_by [simp]: "mset (insert_by lt x ys) = add_mset x (mset ys)"
  by (induction ys) auto

lemma mset_sort_slice [simp]: "mset (sort_slice lt xs) = mset xs"
  by (induction xs) auto

lemma set_sort_slice [simp]: "set (sort_slice lt xs) = set xs"
  by (metis mset_sort_slice set_mset_mset)

lemma length_sort_slice [simp]: "length (sort_slice lt xs) = length xs"
  by (metis mset_sort_slice size_mset)

lemma distinct_sort_slice [simp]: "distinct (map f (sort_slice lt xs)) = distinct (map f xs)"
  by (metis mset_map mset_sort_slice mset_eq_imp_distinct_iff)

text \<open>A slice in the order of \<open>lt\<close>: no later element is less than an earlier one.\<close>

definition in_order :: "('a \<Rightarrow> 'a \<Rightarrow> bool) \<Rightarrow> 'a list \<Rightarrow> bool" where
  "in_order lt = sorted_wrt (\<lambda>x y. \<not> lt y x)"

lemma in_order_simps [simp]:
  "in_order lt []" "in_order lt (x # xs) \<longleftrightarrow> (\<forall>y\<in>set xs. \<not> lt y x) \<and> in_order lt xs"
  by (simp_all add: in_order_def)

locale slice_order =
  fixes lt :: "'a \<Rightarrow> 'a \<Rightarrow> bool"
  assumes less_asym: "lt x y \<Longrightarrow> \<not> lt y x"
    and less_negtrans: "\<not> lt x y \<Longrightarrow> \<not> lt y z \<Longrightarrow> \<not> lt x z"
begin

lemma in_order_insert_by: "in_order lt ys \<Longrightarrow> in_order lt (insert_by lt x ys)"
proof (induction ys)
  case (Cons y ys)
  have set_ins: "set (insert_by lt x zs) = insert x (set zs)" for zs
    by (metis mset_insert_by set_mset_add_mset_insert set_mset_mset)
  show ?case
  proof (cases "lt y x")
    case True
    then show ?thesis using Cons less_asym by (auto simp: set_ins)
  next
    case False
    then have "\<not> lt z x" if "z \<in> set ys" for z
      using that Cons.prems less_negtrans by auto
    then show ?thesis using Cons.prems False by auto
  qed
qed simp

lemma sort_slice_in_order: "in_order lt (sort_slice lt xs)"
  by (induction xs) (auto intro: in_order_insert_by)

lemma in_order_unique:
  assumes "in_order lt xs" "in_order lt ys" "mset xs = mset ys"
    and "\<And>x y. x \<in> set xs \<Longrightarrow> y \<in> set xs \<Longrightarrow> \<not> lt x y \<Longrightarrow> \<not> lt y x \<Longrightarrow> x = y"
  shows "xs = ys"
  using assms
proof (induction xs arbitrary: ys)
  case (Cons x xs)
  then obtain y zs where ys: "ys = y # zs" by (cases ys) auto
  have sets: "set (x # xs) = set ys"
    using Cons.prems(3) by (metis set_mset_mset)
  have "\<not> lt y x"
    using Cons.prems(1,4) sets ys less_asym [of x x] by (cases "y = x") auto
  moreover have "\<not> lt x y"
  proof (cases "y = x")
    case False
    moreover have "x \<in> set ys" using sets by auto
    ultimately show ?thesis using Cons.prems(2) ys by auto
  qed (use less_asym [of x x] in auto)
  ultimately have xy: "x = y"
    using Cons.prems(4) [of x y] sets ys by auto
  have "xs = zs"
    using Cons.prems ys xy by (intro Cons.IH) auto
  with ys xy show ?case by simp
qed simp

lemma sort_slice_unique:
  assumes "in_order lt ys" "mset ys = mset xs"
    and "\<And>x y. x \<in> set xs \<Longrightarrow> y \<in> set xs \<Longrightarrow> \<not> lt x y \<Longrightarrow> \<not> lt y x \<Longrightarrow> x = y"
  shows "ys = sort_slice lt xs"
proof -
  have "sort_slice lt xs = ys"
    using assms sort_slice_in_order [of xs] by (intro in_order_unique) auto
  then show ?thesis by simp
qed

end

section \<open>Lexicographic key order\<close>

text \<open>
  \<^verbatim>\<open>ekeyLess(a, b, n)\<close> of \<^verbatim>\<open>index/writer.go\<close> (and \<^verbatim>\<open>ckeyLess\<close> of \<^verbatim>\<open>encoding/writer.go\<close>, which is
  \<open>n = 16\<close>): the first of \<open>n\<close> bytes that differs decides.
\<close>

fun first_diff :: "nat list \<Rightarrow> key \<Rightarrow> key \<Rightarrow> bool" where
  "first_diff [] a b = False"
| "first_diff (i # is) a b = (if a ! i \<noteq> b ! i then a ! i < b ! i else first_diff is a b)"

definition ekeyLess :: "key \<Rightarrow> key \<Rightarrow> nat \<Rightarrow> bool" where
  "ekeyLess a b n = first_diff [0..<n] a b"

lemma first_diff_asym: "first_diff is a b \<Longrightarrow> \<not> first_diff is b a"
  by (induction "is") (auto split: if_splits)

lemma first_diff_negtrans: "\<not> first_diff is a b \<Longrightarrow> \<not> first_diff is b c \<Longrightarrow> \<not> first_diff is a c"
  by (induction "is") (auto split: if_splits)

lemma first_diff_total:
  "\<not> first_diff is a b \<Longrightarrow> \<not> first_diff is b a \<Longrightarrow> i \<in> set is \<Longrightarrow> a ! i = b ! i"
  by (induction "is") (auto split: if_splits)

lemma ekeyLess_total:
  assumes "\<not> ekeyLess a b n" "\<not> ekeyLess b a n"
  shows "n \<le> length a \<Longrightarrow> n \<le> length b \<Longrightarrow> take n a = take n b"
  using first_diff_total [of "[0..<n]" a b] assms
  by (intro nth_equalityI) (auto simp: ekeyLess_def)

text \<open>Any slice sorted by a key read from its elements meets the contract of \<^verbatim>\<open>sort.Slice\<close>.\<close>

lemma slice_order_ekeyLess: "slice_order (\<lambda>x y. ekeyLess (f x) (f y) n)"
  by unfold_locales (auto simp: ekeyLess_def dest: first_diff_asym first_diff_negtrans)

lemma slice_order_linear: "slice_order (\<lambda>x y. (f x :: 'k::linorder) < f y)"
  by unfold_locales auto

end
