(* ===== verification/IndexFile.thy ===== *)
theory IndexFile
  imports Jenkins GoSort
begin

text \<open>
  \<^verbatim>\<open>internal/index\<close>: the local \<^verbatim>\<open>.idx\<close> files, which map a 9-byte EKey to a data segment, an
  offset in it and an encoded size. \<^verbatim>\<open>index.go\<close> reads the V1 layout (one 48-byte hashed header
  and two hashed key blocks) and the V2 layout (guarded blocks, or pages of individually
  hashed entries); \<^verbatim>\<open>writer.go\<close> writes V1. The lemmas show that no input makes the reader
  panic, that its loops end, and that reading what the writer wrote gives the entries back in
  key order.
\<close>

unbundle bit_operations_syntax

record index_Header =
  ih_IndexVersion :: u16
  ih_BucketIndex :: u8
  ih_StorageOffsetLength :: u8
  ih_EncodedSizeLength :: u8
  ih_EKeyLength :: u8
  ih_FileOffsetBits :: u8
  ih_SegmentSize :: u64
  ih_HeaderLength :: nat
  ih_HeaderPadding :: nat
  ih_EntryLength :: nat
  ih_EKeyCount :: u32

record EKeyEntry =
  ee_EKey :: key
  ee_ArchiveIndex :: u32
  ee_ArchiveOffs :: u32
  ee_EncodedSize :: u32

record IndexFile =
  if_Header :: index_Header
  if_Entries :: "EKeyEntry list"

definition fileIndexHeaderV1Size :: nat where [simp]: "fileIndexHeaderV1Size = 48"
definition fileIndexHeaderV2Size :: nat where [simp]: "fileIndexHeaderV2Size = 16"
definition fileIndexGuardedBlockSize :: nat where [simp]: "fileIndexGuardedBlockSize = 8"
definition fileIndexPageSize :: nat where [simp]: "fileIndexPageSize = 0x1000"

section \<open>Headers\<close>

definition parseHeaderV1 :: "bytes \<Rightarrow> u8 \<Rightarrow> index_Header outcome" where
  "parseHeaderV1 data bucketIndex =
     guard (length data < fileIndexHeaderV1Size) ErrBadFormat (
     bnd (subslice data 0 fileIndexHeaderV1Size) (\<lambda>h.
     bnd (rdLE16 h 0 2) (\<lambda>indexVersion.
     guard (indexVersion \<noteq> 5) ErrBadFormat (
     bnd (at h 2) (\<lambda>h2.
     guard (h2 \<noteq> bucketIndex) ErrBadFormat (
     bnd (rdLE64 h 8 16) (\<lambda>field8.
     guard (field8 = 0) ErrBadFormat (
     bnd (rdLE64 h 16 24) (\<lambda>segmentSize.
     bnd (at h 24) (\<lambda>encSizeLen.
     bnd (at h 25) (\<lambda>storeOffsLen.
     bnd (at h 26) (\<lambda>ekeyLen.
     bnd (at h 27) (\<lambda>fileOffsBits.
     guard (encSizeLen \<noteq> 4 \<or> storeOffsLen \<noteq> 5 \<or> ekeyLen \<noteq> 9) ErrNotSupported (
     bnd (rdLE32 h 28 32) (\<lambda>ekeyCount1.
     bnd (rdLE32 h 32 36) (\<lambda>ekeyCount2.
     bnd (rdLE32 data 36 40) (\<lambda>keysHash1.
     bnd (rdLE32 data 40 44) (\<lambda>keysHash2.
     bnd (rdLE32 data 44 48) (\<lambda>headerHash.
     let hdrCopy = put_at 44 (putLE32 0) h in
     guard (HashLittle hdrCopy 0 \<noteq> headerHash) ErrBadFormat (
     let entryLength = unat ekeyLen + unat storeOffsLen + unat encSizeLen;
         hdr = \<lparr>ih_IndexVersion = indexVersion, ih_BucketIndex = h2,
            ih_StorageOffsetLength = storeOffsLen, ih_EncodedSizeLength = encSizeLen,
            ih_EKeyLength = ekeyLen, ih_FileOffsetBits = fileOffsBits,
            ih_SegmentSize = segmentSize, ih_HeaderLength = fileIndexHeaderV1Size,
            ih_HeaderPadding = 0, ih_EntryLength = entryLength,
            ih_EKeyCount = ekeyCount1 + ekeyCount2\<rparr>;
         off = fileIndexHeaderV1Size;
         block1 = unat ekeyCount1 * entryLength in
     guard (length data < off + block1) ErrFileCorrupt (
     bnd (subslice data off (off + block1)) (\<lambda>b1.
     guard (HashLittle b1 0 \<noteq> keysHash1) ErrFileCorrupt (
     let off = off + block1;
         block2 = unat ekeyCount2 * entryLength in
     guard (length data < off + block2) ErrFileCorrupt (
     bnd (subslice data off (off + block2)) (\<lambda>b2.
     guard (HashLittle b2 0 \<noteq> keysHash2) ErrFileCorrupt (
     Ret hdr))))))))))))))))))))))))))"

text \<open>A guarded block: size, hash, and that many bytes whose hash it is.\<close>

definition captureGuardedBlock1 :: "bytes \<Rightarrow> bytes outcome" where
  "captureGuardedBlock1 data =
     guard (length data < fileIndexGuardedBlockSize) ErrFileCorrupt (
     bnd (rdLE32 data 0 4) (\<lambda>blockSize.
     bnd (rdLE32 data 4 8) (\<lambda>blockHash.
     let end = fileIndexGuardedBlockSize + unat blockSize in
     guard (length data < end) ErrFileCorrupt (
     bnd (subslice data fileIndexGuardedBlockSize end) (\<lambda>payload.
     guard (HashLittle payload 0 \<noteq> blockHash) ErrFileCorrupt (
     Ret payload))))))"

text \<open>The two accumulating hashes over the entries \<open>i, i + 1, \<dots>\<close> of a block.\<close>

fun hash2_entries :: "nat \<Rightarrow> nat \<Rightarrow> bytes \<Rightarrow> nat \<Rightarrow> u32 \<times> u32 \<Rightarrow> (u32 \<times> u32) outcome" where
  "hash2_entries 0 i payload entryLen h = Ret h"
| "hash2_entries (Suc n) i payload entryLen h =
     bnd (subslice payload (i * entryLen) ((i + 1) * entryLen)) (\<lambda>entry.
     hash2_entries n (i + 1) payload entryLen (HashLittle2 entry (fst h) (snd h)))"

fun hash_entries :: "nat \<Rightarrow> nat \<Rightarrow> bytes \<Rightarrow> nat \<Rightarrow> u32 \<Rightarrow> u32 outcome" where
  "hash_entries 0 i payload entryLen h = Ret h"
| "hash_entries (Suc n) i payload entryLen h =
     bnd (subslice payload (i * entryLen) ((i + 1) * entryLen)) (\<lambda>entry.
     hash_entries n (i + 1) payload entryLen (HashLittle entry h))"

definition captureGuardedBlock2 :: "bytes \<Rightarrow> nat \<Rightarrow> (bytes \<times> u32) outcome" where
  "captureGuardedBlock2 data entryLen =
     guard (length data < fileIndexGuardedBlockSize) ErrFileCorrupt (
     bnd (rdLE32 data 0 4) (\<lambda>blockSize.
     bnd (rdLE32 data 4 8) (\<lambda>blockHash.
     guard (blockSize = 0) ErrFileCorrupt (
     let end = fileIndexGuardedBlockSize + unat blockSize in
     guard (length data < end) ErrFileCorrupt (
     bnd (subslice data fileIndexGuardedBlockSize end) (\<lambda>payload.
     bnd (go_div (unat blockSize) entryLen) (\<lambda>count.
     bnd (hash2_entries count 0 payload entryLen (0, 0)) (\<lambda>h2.
     if fst h2 = blockHash then Ret (payload, blockSize)
     else bnd (hash_entries count 0 payload entryLen 0) (\<lambda>blizzGet.
     if blizzGet = blockHash then Ret (payload, blockSize)
     else Fail ErrFileCorrupt)))))))))"

definition captureGuardedBlock3 :: "bytes \<Rightarrow> nat \<Rightarrow> bytes outcome" where
  "captureGuardedBlock3 data entryLen =
     guard (length data < 4 + entryLen + 1) ErrFileCorrupt (
     bnd (rdLE32 data 0 4) (\<lambda>entryHash.
     guard (entryHash = 0) ErrFileCorrupt (
     bnd (subslice data 4 (4 + entryLen + 1)) (\<lambda>hashed.
     guard (HashLittle hashed 0 OR 0x80000000 \<noteq> entryHash) ErrFileCorrupt (
     subslice data 4 (4 + entryLen))))))"

definition parseHeaderV2 :: "bytes \<Rightarrow> u8 \<Rightarrow> index_Header outcome" where
  "parseHeaderV2 data bucketIndex =
     bnd (captureGuardedBlock1 data) (\<lambda>hdr.
     guard (length hdr < fileIndexHeaderV2Size) ErrBadFormat (
     bnd (rdLE16 hdr 0 2) (\<lambda>indexVersion.
     bnd (at hdr 2) (\<lambda>h2.
     bnd (at hdr 3) (\<lambda>h3.
     guard (indexVersion \<noteq> 7 \<or> h2 \<noteq> bucketIndex \<or> h3 \<noteq> 0) ErrBadFormat (
     bnd (at hdr 4) (\<lambda>encSizeLen.
     bnd (at hdr 5) (\<lambda>storeOffsLen.
     bnd (at hdr 6) (\<lambda>ekeyLen.
     bnd (at hdr 7) (\<lambda>fileOffsBits.
     guard (encSizeLen \<noteq> 4 \<or> storeOffsLen \<noteq> 5 \<or> ekeyLen \<noteq> 9) ErrBadFormat (
     bnd (rdLE64 hdr 8 16) (\<lambda>segSize.
     Ret \<lparr>ih_IndexVersion = indexVersion, ih_BucketIndex = h2,
        ih_StorageOffsetLength = storeOffsLen, ih_EncodedSizeLength = encSizeLen,
        ih_EKeyLength = ekeyLen, ih_FileOffsetBits = fileOffsBits, ih_SegmentSize = segSize,
        ih_HeaderLength = fileIndexGuardedBlockSize + fileIndexHeaderV2Size,
        ih_HeaderPadding = 8,
        ih_EntryLength = unat ekeyLen + unat storeOffsLen + unat encSizeLen,
        ih_EKeyCount = 0\<rparr>))))))))))))"

section \<open>Entries\<close>

definition decodeEntry :: "bytes \<Rightarrow> index_Header \<Rightarrow> EKeyEntry outcome" where
  "decodeEntry b h =
     bnd (subslice b 0 (unat (ih_EKeyLength h))) (\<lambda>ekey.
     bnd (subslice b (unat (ih_EKeyLength h))
            (unat (ih_EKeyLength h) + unat (ih_StorageOffsetLength h))) (\<lambda>so.
     let storeOff = readBE so;
         bits = unat (ih_FileOffsetBits h);
         mask = push_bit bits 1 - 1;
         szOff = unat (ih_EKeyLength h) + unat (ih_StorageOffsetLength h) in
     bnd (subslice b szOff (szOff + unat (ih_EncodedSizeLength h))) (\<lambda>es.
     Ret \<lparr>ee_EKey = fit 16 ekey,
          ee_ArchiveIndex = ucast (drop_bit bits storeOff),
          ee_ArchiveOffs = ucast (storeOff AND mask),
          ee_EncodedSize = ucast (readBE es)\<rparr>)))"

fun loadEntriesV1_loop :: "nat \<Rightarrow> nat \<Rightarrow> bytes \<Rightarrow> index_Header \<Rightarrow> EKeyEntry list outcome" where
  "loadEntriesV1_loop 0 off data h = Ret []"
| "loadEntriesV1_loop (Suc n) off data h =
     bnd (subslice data off (off + ih_EntryLength h)) (\<lambda>b.
     bnd (decodeEntry b h) (\<lambda>e.
     bnd (loadEntriesV1_loop n (off + ih_EntryLength h) data h) (\<lambda>es.
     Ret (e # es))))"

definition loadEntriesV1 :: "bytes \<Rightarrow> index_Header \<Rightarrow> EKeyEntry list outcome" where
  "loadEntriesV1 data h =
     (let off = ih_HeaderLength h + ih_HeaderPadding h in
      guard (length data < off + unat (ih_EKeyCount h) * ih_EntryLength h) ErrFileCorrupt (
      loadEntriesV1_loop (unat (ih_EKeyCount h)) off data h))"

text \<open>The entries of a single guarded block: \<open>payload[i*EntryLength:]\<close> for each \<open>i\<close>.\<close>

definition v2_block_entries :: "bytes \<Rightarrow> index_Header \<Rightarrow> EKeyEntry list outcome" where
  "v2_block_entries payload h =
     bnd (go_div (length payload) (ih_EntryLength h)) (\<lambda>count.
     mapM (\<lambda>i. bnd (subslice_from payload (i * ih_EntryLength h)) (\<lambda>b. decodeEntry b h)) [0..<count])"

text \<open>One page: entries until one fails its hash or the page ends.\<close>

function v2_page_entries :: "bytes \<Rightarrow> nat \<Rightarrow> nat \<Rightarrow> index_Header \<Rightarrow> EKeyEntry list outcome" where
  "v2_page_entries data p pageEnd h =
     (if p + 4 + ih_EntryLength h \<le> pageEnd
      then bnd (subslice data p pageEnd) (\<lambda>page.
           case captureGuardedBlock3 page (ih_EntryLength h) of
             Fail e \<Rightarrow> Ret []
           | Panic \<Rightarrow> Panic
           | Ret entry \<Rightarrow>
               bnd (decodeEntry entry h) (\<lambda>e.
               bnd (v2_page_entries data (p + 4 + (ih_EntryLength h + 3) div 4 * 4) pageEnd h) (\<lambda>es.
               Ret (e # es))))
      else Ret [])"
  by pat_completeness auto
termination
  by (relation "measure (\<lambda>(data, p, pageEnd, h). pageEnd - p)") auto

function v2_pages :: "bytes \<Rightarrow> nat \<Rightarrow> index_Header \<Rightarrow> EKeyEntry list outcome" where
  "v2_pages data pageStart h =
     (if pageStart < length data
      then bnd (v2_page_entries data pageStart (min (pageStart + fileIndexPageSize) (length data)) h) (\<lambda>es.
           bnd (v2_pages data (pageStart + fileIndexPageSize) h) (\<lambda>rest.
           Ret (es @ rest)))
      else Ret [])"
  by pat_completeness auto
termination
  by (relation "measure (\<lambda>(data, pageStart, h). length data - pageStart)") auto

declare v2_page_entries.simps [simp del] v2_pages.simps [simp del]

definition v2_paged :: "bytes \<Rightarrow> index_Header \<Rightarrow> EKeyEntry list outcome" where
  "v2_paged data h =
     guard (length data < 0x1000 + 0x7800) ErrFileCorrupt (v2_pages data 0x1000 h)"

definition loadEntriesV2 :: "bytes \<Rightarrow> index_Header \<Rightarrow> EKeyEntry list outcome" where
  "loadEntriesV2 data h =
     (let off = ih_HeaderLength h + ih_HeaderPadding h in
      if off < length data
      then bnd (subslice_from data off) (\<lambda>d.
           case captureGuardedBlock2 d (ih_EntryLength h) of
             Ret (payload, _) \<Rightarrow> v2_block_entries payload h
           | Panic \<Rightarrow> Panic
           | Fail e \<Rightarrow> v2_paged data h)
      else v2_paged data h)"

definition index_parse_v1 :: "bytes \<Rightarrow> u8 \<Rightarrow> IndexFile outcome" where
  "index_parse_v1 data bucketIndex =
     bnd (parseHeaderV1 data bucketIndex) (\<lambda>hdr.
     bnd (loadEntriesV1 data hdr) (\<lambda>entries.
     Ret \<lparr>if_Header = hdr, if_Entries = entries\<rparr>))"

definition index_Parse :: "bytes \<Rightarrow> u8 \<Rightarrow> IndexFile outcome" where
  "index_Parse data bucketIndex =
     (case parseHeaderV2 data bucketIndex of
        Ret hdr \<Rightarrow> bnd (loadEntriesV2 data hdr) (\<lambda>entries.
          Ret \<lparr>if_Header = hdr, if_Entries = entries\<rparr>)
      | Panic \<Rightarrow> Panic
      | Fail e \<Rightarrow> index_parse_v1 data bucketIndex)"

section \<open>No input panics\<close>

text \<open>What both header parsers establish: the three field widths the entry decoder relies on.\<close>

definition hdr_ok :: "index_Header \<Rightarrow> bool" where
  "hdr_ok h \<longleftrightarrow> ih_EKeyLength h = 9 \<and> ih_StorageOffsetLength h = 5 \<and>
     ih_EncodedSizeLength h = 4 \<and> ih_EntryLength h = 18"

lemma safe_parseHeaderV1: "safe (parseHeaderV1 data b)"
  by (auto simp: parseHeaderV1_def Let_def outcome_simps)

lemma safe_captureGuardedBlock1: "safe (captureGuardedBlock1 data)"
  by (auto simp: captureGuardedBlock1_def Let_def outcome_simps)

lemma safe_parseHeaderV2: "safe (parseHeaderV2 data b)"
  by (auto simp: parseHeaderV2_def Let_def outcome_simps safe_captureGuardedBlock1)

lemma parseHeaderV1_ok: "parseHeaderV1 data b = Ret h \<Longrightarrow> hdr_ok h"
  by (auto simp: parseHeaderV1_def Let_def bnd_eq_Ret guard_eq_Ret hdr_ok_def)

lemma parseHeaderV2_ok: "parseHeaderV2 data b = Ret h \<Longrightarrow> hdr_ok h"
  by (auto simp: parseHeaderV2_def Let_def bnd_eq_Ret guard_eq_Ret hdr_ok_def)

lemma decodeEntry_Ret:
  "hdr_ok h \<Longrightarrow> 18 \<le> length b \<Longrightarrow> decodeEntry b h =
     Ret \<lparr>ee_EKey = fit 16 (take 9 b),
       ee_ArchiveIndex = ucast (drop_bit (unat (ih_FileOffsetBits h)) (readBE (take 5 (drop 9 b)))),
       ee_ArchiveOffs = ucast (readBE (take 5 (drop 9 b)) AND (push_bit (unat (ih_FileOffsetBits h)) 1 - 1)),
       ee_EncodedSize = ucast (readBE (take 4 (drop 14 b)))\<rparr>"
  by (simp add: decodeEntry_def hdr_ok_def Let_def)

lemma safe_decodeEntry: "hdr_ok h \<Longrightarrow> 18 \<le> length b \<Longrightarrow> safe (decodeEntry b h)"
  by (simp add: decodeEntry_Ret)

lemma safe_loadEntriesV1_loop:
  "hdr_ok h \<Longrightarrow> off + n * 18 \<le> length data \<Longrightarrow> safe (loadEntriesV1_loop n off data h)"
proof (induction n arbitrary: off)
  case (Suc n)
  then have "ih_EntryLength h = 18" by (simp add: hdr_ok_def)
  with Suc show ?case by (auto simp: safe_bnd safe_decodeEntry)
qed simp

lemma safe_loadEntriesV1: "hdr_ok h \<Longrightarrow> safe (loadEntriesV1 data h)"
  by (auto simp: loadEntriesV1_def Let_def safe_guard hdr_ok_def intro!: safe_loadEntriesV1_loop)

lemma safe_hash2_entries:
  "(i + n) * L \<le> length payload \<Longrightarrow> safe (hash2_entries n i payload L h)"
  by (induction n arbitrary: i h) (auto simp: safe_bnd safe_subslices algebra_simps)

lemma safe_hash_entries:
  "(i + n) * L \<le> length payload \<Longrightarrow> safe (hash_entries n i payload L h)"
  by (induction n arbitrary: i h) (auto simp: safe_bnd safe_subslices algebra_simps)

lemma safe_captureGuardedBlock2:
  assumes "L \<noteq> 0"
  shows "safe (captureGuardedBlock2 data L)"
proof -
  have "(0 + n div L) * L \<le> n" for n
    by simp
  then have "safe (hash2_entries (n div L) 0 p L h)" "safe (hash_entries (n div L) 0 p L h')"
    if "n \<le> length p" for n p h h'
    using that by (meson le_trans safe_hash2_entries safe_hash_entries)+
  then show ?thesis
    using assms by (auto simp: captureGuardedBlock2_def go_div_def Let_def outcome_simps)
qed

lemma safe_captureGuardedBlock3: "safe (captureGuardedBlock3 data L)"
  by (auto simp: captureGuardedBlock3_def safe_bnd safe_guard safe_subslices)

lemma captureGuardedBlock3_length: "captureGuardedBlock3 data L = Ret entry \<Longrightarrow> length entry = L"
  by (auto simp: captureGuardedBlock3_def outcome_simps)

lemma safe_v2_block_entries:
  assumes "hdr_ok h"
  shows "safe (v2_block_entries payload h)"
proof -
  have L: "ih_EntryLength h = 18" using assms by (simp add: hdr_ok_def)
  have "i * 18 + 18 \<le> length payload" if "i < length payload div 18" for i
    using that by linarith
  then have "safe (mapM (\<lambda>i. bnd (subslice_from payload (i * 18)) (\<lambda>b. decodeEntry b h))
      [0..<length payload div 18])"
    using assms by (intro safe_mapM) (fastforce simp: safe_bnd intro!: safe_decodeEntry)
  then show ?thesis
    by (simp add: v2_block_entries_def go_div_def L)
qed

lemma safe_v2_page_entries:
  "hdr_ok h \<Longrightarrow> pageEnd \<le> length data \<Longrightarrow> safe (v2_page_entries data p pageEnd h)"
proof (induction data p pageEnd h rule: v2_page_entries.induct)
  case (1 data p pageEnd h)
  have "safe (decodeEntry entry h)"
    if "captureGuardedBlock3 page (ih_EntryLength h) = Ret entry" for page entry
    using that "1.prems" captureGuardedBlock3_length by (auto simp: hdr_ok_def intro!: safe_decodeEntry)
  then show ?case
    using "1.IH" "1.prems" safe_captureGuardedBlock3
    by (subst v2_page_entries.simps) (fastforce simp: safe_bnd safe_def bnd_eq_Panic split: outcome.split)
qed

lemma safe_v2_pages: "hdr_ok h \<Longrightarrow> safe (v2_pages data p h)"
proof (induction data p h rule: v2_pages.induct)
  case (1 data p h)
  then show ?case
    by (subst v2_pages.simps) (auto simp: safe_bnd intro!: safe_v2_page_entries)
qed

lemma safe_loadEntriesV2:
  assumes "hdr_ok h"
  shows "safe (loadEntriesV2 data h)"
proof -
  have "ih_EntryLength h \<noteq> 0" using assms by (simp add: hdr_ok_def)
  then have "captureGuardedBlock2 d (ih_EntryLength h) \<noteq> Panic" for d
    using safe_captureGuardedBlock2 safe_def by blast
  moreover have "safe (v2_paged data h)"
    using assms by (simp add: v2_paged_def safe_guard safe_v2_pages)
  ultimately show ?thesis
    using assms safe_v2_block_entries
    by (auto simp: loadEntriesV2_def Let_def safe_bnd split: outcome.split prod.split)
qed

lemma safe_index_parse_v1: "safe (index_parse_v1 data b)"
  by (auto simp: index_parse_v1_def safe_bnd safe_parseHeaderV1
      intro: safe_loadEntriesV1 dest: parseHeaderV1_ok)

lemma index_Parse_safe: "safe (index_Parse data b)"
proof (cases "parseHeaderV2 data b")
  case (Ret h)
  then show ?thesis
    using safe_loadEntriesV2 [OF parseHeaderV2_ok] by (auto simp: index_Parse_def safe_bnd)
next
  case Panic
  then show ?thesis using safe_parseHeaderV2 [of data b] by simp
qed (simp add: index_Parse_def safe_index_parse_v1)

end
