(* ===== verification/Archive.thy ===== *)
theory Archive
  imports Blte IndexFile Jenkins
begin

text \<open>
  \<^verbatim>\<open>internal/archive\<close>: the data.NNN segment files. \<^verbatim>\<open>writer.go\<close> appends BLTE spans behind a
  30-byte header and hands out the index entry of each; \<^verbatim>\<open>archive.go\<close> reads an entry back and
  decodes it. The directory is a map from segment numbers to file contents. Shown here: what
  the decoder returns on what \<^verbatim>\<open>datafile.Encode\<close> produced, the header's checksum law, and that
  every entry a writer ever returned stays readable.
\<close>

unbundle bit_operations_syntax

definition EncodedHeaderSize :: nat where "EncodedHeaderSize = 30"
definition DefaultSegmentSize :: u64 where "DefaultSegmentSize = 0x40000000"
definition jenkinsInitval :: u32 where "jenkinsInitval = 0x3D6BE971"

definition encodedOffsetTable :: "u32 list" where
  "encodedOffsetTable =
     [0x049396B8, 0x72A82A9B, 0xEE626CCA, 0x9917754F,
      0x15DE40B1, 0xF5A8A9B6, 0x421EAC7E, 0xA9D55C9A,
      0x317FD40C, 0x04FAF80D, 0x3D6BE971, 0x52933CFD,
      0x27F64B7D, 0xC6F5C11B, 0xD5757E3A, 0x6C388745]"

section \<open>Decoding a span\<close>

definition stripEncodedHeader :: "bytes \<Rightarrow> bytes outcome" where
  "stripEncodedHeader span =
     guard (length span < 4) ErrBadFormat (
     bnd (rdLE32 span 0 4) (\<lambda>sig.
     if sig = BLTESignature then Ret span
     else
       guard (length span < EncodedHeaderSize + 4) ErrBadFormat (
       bnd (rdLE32 span EncodedHeaderSize (EncodedHeaderSize + 4)) (\<lambda>sig2.
       guard (sig2 \<noteq> BLTESignature) ErrBadFormat (
       subslice_from span EncodedHeaderSize)))))"

record DecodeOptions =
  do_OvercomeEncrypted :: bool

text \<open>\<open>None\<close> for \<^verbatim>\<open>keys\<close> is the nil registry.\<close>

definition span_decoder :: "codecs \<Rightarrow> KeyRegistry option \<Rightarrow> DecodeOptions \<Rightarrow> FrameDecoder" where
  "span_decoder C keys opts =
     \<lparr>fd_Decrypt = map_option (DecryptFrame C) keys,
      fd_VerifyHashes = True,
      fd_OvercomeEncrypted = do_OvercomeEncrypted opts\<rparr>"

text \<open>\<^verbatim>\<open>totalContentSize\<close> and the \<^verbatim>\<open>make\<close> it sizes, which panics above the runtime's limit.\<close>

definition totalContentSize :: "Frame list \<Rightarrow> nat" where
  "totalContentSize frames = sum_list (map (\<lambda>f. unat (fr_ContentSize f)) frames)"

definition max_alloc :: nat where
  "max_alloc = 2 ^ 48"

definition make_cap :: "nat \<Rightarrow> unit outcome" where
  "make_cap n = (if n \<le> max_alloc then Ret () else Panic)"

text \<open>The loop over the frame table; the result is what is appended to \<^verbatim>\<open>out\<close>.\<close>

fun decode_frames :: "codecs \<Rightarrow> lzma_hook \<Rightarrow> FrameDecoder \<Rightarrow> bytes \<Rightarrow> nat \<Rightarrow> Frame list \<Rightarrow> bytes outcome" where
  "decode_frames C lzma d body cursor [] = Ret []"
| "decode_frames C lzma d body cursor (fr # frs) =
     (let endp = cursor + unat (fr_EncodedSize fr) in
      guard (length body < endp) ErrFileCorrupt (
      bnd (subslice body cursor endp) (\<lambda>enc.
      bnd (blte_Decode C lzma d fr enc) (\<lambda>decoded.
      bnd (decode_frames C lzma d body endp frs) (\<lambda>rest.
      Ret (decoded @ rest))))))"

definition DecodeSpanWithOptions ::
  "codecs \<Rightarrow> lzma_hook \<Rightarrow> bytes \<Rightarrow> KeyRegistry option \<Rightarrow> DecodeOptions \<Rightarrow> bytes outcome" where
  "DecodeSpanWithOptions C lzma span keys opts =
     bnd (stripEncodedHeader span) (\<lambda>body.
     bnd (blte_ParseHeader body) (\<lambda>hdr.
     let d = span_decoder C keys opts in
     if bh_HeaderSize hdr = 0 then
       bnd (at (bh_Frames hdr) 0) (\<lambda>fr.
       bnd (subslice_from body (bh_DataOffset hdr)) (\<lambda>rest.
       blte_Decode C lzma d
         (fr\<lparr>fr_EncodedSize := word_of_nat (length body - bh_DataOffset hdr)\<rparr>) rest))
     else
       bnd (make_cap (totalContentSize (bh_Frames hdr))) (\<lambda>_.
       decode_frames C lzma d body (bh_DataOffset hdr) (bh_Frames hdr))))"

definition DecodeSpan :: "codecs \<Rightarrow> lzma_hook \<Rightarrow> bytes \<Rightarrow> KeyRegistry option \<Rightarrow> bytes outcome" where
  "DecodeSpan C lzma span keys =
     DecodeSpanWithOptions C lzma span keys \<lparr>do_OvercomeEncrypted = False\<rparr>"

section \<open>The span header\<close>

text \<open>The checksum loop: byte \<open>i\<close> is folded into lane \<open>i mod 4\<close>.\<close>

fun fold_lanes :: "nat \<Rightarrow> bytes \<Rightarrow> bytes \<Rightarrow> bytes" where
  "fold_lanes i [] hashed = hashed"
| "fold_lanes i (b # bs) hashed =
     fold_lanes (i + 1) bs (hashed[i mod 4 := hashed ! (i mod 4) XOR b])"

definition encoded_offset :: "u64 \<Rightarrow> u32" where
  "encoded_offset headerOffset =
     (let signatureOffset = ucast headerOffset + word_of_nat EncodedHeaderSize
      in encodedOffsetTable ! unat (signatureOffset AND 0x0F) XOR signatureOffset)"

definition buildEncodedHeader :: "key \<Rightarrow> u32 \<Rightarrow> u64 \<Rightarrow> bytes" where
  "buildEncodedHeader ekey blteSize headerOffset =
     (let h22 = rev ekey @ putLE32 blteSize @ [0, 0];
          h26 = h22 @ putLE32 (HashLittle h22 jenkinsInitval);
          eob = putLE32 (encoded_offset headerOffset);
          hashed = fold_lanes 0 h26 [0, 0, 0, 0]
      in h26 @ map (\<lambda>j. let i = 26 + j in hashed ! (i mod 4) XOR eob ! (i mod 4)) [0..<4])"

section \<open>The writer\<close>

text \<open>
  The directory: the content of data.NNN for each NNN that exists (the program deletes none).
  A file handle is its position in the segment it was opened on, or closed. The operating
  system may refuse any call: an \<open>io_faults\<close> says which calls of one operation fail, and after
  how many bytes a failing write stops.
\<close>

type_synonym disk = "u32 \<Rightarrow> bytes option"

definition seg_content :: "disk \<Rightarrow> u32 \<Rightarrow> bytes" where
  "seg_content dk i = (case dk i of None \<Rightarrow> [] | Some file \<Rightarrow> file)"

datatype handle = AtPos nat | ClosedHandle

record io_faults =
  io_close :: bool
  io_open :: bool
  io_seek :: bool
  io_write1 :: "nat option"
  io_write2 :: "nat option"

definition no_faults :: io_faults where
  "no_faults = \<lparr>io_close = False, io_open = False, io_seek = False, io_write1 = None, io_write2 = None\<rparr>"

record Writer =
  w_segmentSize :: u64
  w_segmentIndex :: u32
  w_segmentFile :: "handle option"
  w_segmentOffs :: u64
  w_closed :: bool

definition NewWriter :: "u64 \<Rightarrow> Writer" where
  "NewWriter segmentSize =
     \<lparr>w_segmentSize = (if segmentSize = 0 then DefaultSegmentSize else segmentSize),
      w_segmentIndex = 0, w_segmentFile = None, w_segmentOffs = 0, w_closed = False\<rparr>"

definition writer_Close :: "io_faults \<Rightarrow> Writer \<Rightarrow> unit outcome \<times> Writer" where
  "writer_Close io w =
     (case w_segmentFile w of
        None \<Rightarrow> (Ret (), w\<lparr>w_closed := True\<rparr>)
      | Some h \<Rightarrow>
          (if io_close io \<or> h = ClosedHandle then Fail ErrOther else Ret (),
           w\<lparr>w_closed := True, w_segmentFile := None\<rparr>))"

text \<open>\<^verbatim>\<open>f.Write\<close> at the handle's position: a gap left by a seek reads as zeros.\<close>

definition write_file :: "nat \<Rightarrow> bytes \<Rightarrow> bytes \<Rightarrow> bytes" where
  "write_file pos bs file =
     take pos (file @ replicate (pos - length file) 0) @ bs @ drop (pos + length bs) file"

definition seg_write :: "nat option \<Rightarrow> bytes \<Rightarrow> Writer \<Rightarrow> disk \<Rightarrow> unit outcome \<times> Writer \<times> disk" where
  "seg_write fault bs w dk =
     (case w_segmentFile w of
        Some (AtPos pos) \<Rightarrow>
          let done_bytes = (case fault of None \<Rightarrow> bs | Some k \<Rightarrow> take k bs);
              i = w_segmentIndex w
          in (if fault = None then Ret () else Fail ErrOther,
              w\<lparr>w_segmentFile := Some (AtPos (pos + length done_bytes))\<rparr>,
              dk(i := Some (write_file pos done_bytes (seg_content dk i))))
      | _ \<Rightarrow> (Fail ErrOther, w, dk))"

text \<open>\<^verbatim>\<open>os.OpenFile\<close> with \<^verbatim>\<open>O_CREATE\<close>, then a seek to the end of the file.\<close>

definition openSegment :: "io_faults \<Rightarrow> Writer \<Rightarrow> disk \<Rightarrow> unit outcome \<times> Writer \<times> disk" where
  "openSegment io w dk =
     (if io_open io then (Fail ErrOther, w, dk)
      else
        let file = seg_content dk (w_segmentIndex w);
            dk' = dk(w_segmentIndex w := Some file)
        in if io_seek io then (Fail ErrOther, w, dk')
           else (Ret (),
                 w\<lparr>w_segmentFile := Some (AtPos (length file)), w_segmentOffs := word_of_nat (length file)\<rparr>,
                 dk'))"

text \<open>The rollover branch: \<open>Ret\<close> when no rollover is due or the old segment was closed.\<close>

definition rollover :: "io_faults \<Rightarrow> u64 \<Rightarrow> Writer \<Rightarrow> unit outcome \<times> Writer" where
  "rollover io totalLen w =
     (if w_segmentFile w \<noteq> None \<and> w_segmentSize w < w_segmentOffs w + totalLen then
        if io_close io \<or> w_segmentFile w = Some ClosedHandle then
          (Fail ErrOther, w\<lparr>w_segmentFile := Some ClosedHandle\<rparr>)
        else (Ret (), w\<lparr>w_segmentFile := None, w_segmentIndex := w_segmentIndex w + 1, w_segmentOffs := 0\<rparr>)
      else (Ret (), w))"

definition span_entry :: "Writer \<Rightarrow> key \<Rightarrow> u64 \<Rightarrow> EKeyEntry" where
  "span_entry w ekey totalLen =
     \<lparr>ee_EKey = ekey, ee_ArchiveIndex = w_segmentIndex w, ee_ArchiveOffs = ucast (w_segmentOffs w),
      ee_EncodedSize = ucast totalLen\<rparr>"

text \<open>The two writes and the entry, once the segment is open.\<close>

definition append_span ::
  "io_faults \<Rightarrow> bytes \<Rightarrow> key \<Rightarrow> u64 \<Rightarrow> Writer \<Rightarrow> disk \<Rightarrow> EKeyEntry outcome \<times> Writer \<times> disk" where
  "append_span io blte ekey totalLen w dk =
     (let header = buildEncodedHeader ekey (word_of_nat (length blte)) (w_segmentOffs w) in
      case seg_write (io_write1 io) header w dk of
        (Ret _, w1, dk1) \<Rightarrow>
          (case seg_write (io_write2 io) blte w1 dk1 of
             (Ret _, w2, dk2) \<Rightarrow>
               (Ret (span_entry w2 ekey totalLen),
                w2\<lparr>w_segmentOffs := w_segmentOffs w2 + totalLen\<rparr>, dk2)
           | (Fail e, w2, dk2) \<Rightarrow> (Fail e, w2, dk2)
           | (Panic, w2, dk2) \<Rightarrow> (Panic, w2, dk2))
      | (Fail e, w1, dk1) \<Rightarrow> (Fail e, w1, dk1)
      | (Panic, w1, dk1) \<Rightarrow> (Panic, w1, dk1))"

definition WriteSpan ::
  "io_faults \<Rightarrow> bytes \<Rightarrow> key \<Rightarrow> Writer \<Rightarrow> disk \<Rightarrow> EKeyEntry outcome \<times> Writer \<times> disk" where
  "WriteSpan io blte ekey w dk =
     (if w_closed w then (Fail ErrInvalidHandle, w, dk)
      else if length blte < 8 then (Fail ErrBadFormat, w, dk)
      else
        let totalLen = word_of_nat (EncodedHeaderSize + length blte) in
        if w_segmentSize w < totalLen then (Fail ErrNotSupported, w, dk)
        else
          (case rollover io totalLen w of
             (Ret _, w1) \<Rightarrow>
               (if w_segmentFile w1 = None then
                  (case openSegment io w1 dk of
                     (Ret _, w2, dk2) \<Rightarrow> append_span io blte ekey totalLen w2 dk2
                   | (Fail e, w2, dk2) \<Rightarrow> (Fail e, w2, dk2)
                   | (Panic, w2, dk2) \<Rightarrow> (Panic, w2, dk2))
                else append_span io blte ekey totalLen w1 dk)
           | (Fail e, w1) \<Rightarrow> (Fail e, w1, dk)
           | (Panic, w1) \<Rightarrow> (Panic, w1, dk)))"

section \<open>The pool of readers\<close>

text \<open>The open handles by segment number; \<open>None\<close> is the nil map of a closed pool.\<close>

record Pool =
  pool_files :: "u32 list option"

definition NewPool :: Pool where
  "NewPool = \<lparr>pool_files = Some []\<rparr>"

definition pool_Close :: "(u32 \<Rightarrow> bool) \<Rightarrow> Pool \<Rightarrow> unit outcome \<times> Pool" where
  "pool_Close close_fails p =
     (if (case pool_files p of None \<Rightarrow> False | Some fs \<Rightarrow> list_ex close_fails fs)
      then Fail ErrOther else Ret (),
      p\<lparr>pool_files := None\<rparr>)"

definition pool_open :: "disk \<Rightarrow> u32 \<Rightarrow> Pool \<Rightarrow> bytes outcome \<times> Pool" where
  "pool_open dk archiveIndex p =
     (case pool_files p of
        None \<Rightarrow> (Fail ErrInvalidHandle, p)
      | Some fs \<Rightarrow>
          if archiveIndex \<in> set fs then (Ret (seg_content dk archiveIndex), p)
          else
            (case dk archiveIndex of
               None \<Rightarrow> (Fail ErrOther, p)
             | Some file \<Rightarrow> (Ret file, p\<lparr>pool_files := Some (archiveIndex # fs)\<rparr>)))"

text \<open>\<^verbatim>\<open>f.ReadAt(buf, off)\<close> with an \<open>n\<close>-byte buffer: end of file unless all \<open>n\<close> bytes are there.\<close>

definition read_at :: "bytes \<Rightarrow> nat \<Rightarrow> nat \<Rightarrow> bytes outcome" where
  "read_at file off n =
     (if n = 0 \<or> off + n \<le> length file then Ret (take n (drop off file)) else Fail ErrEndOfFile)"

definition ReadSpanWithOptions ::
  "codecs \<Rightarrow> lzma_hook \<Rightarrow> disk \<Rightarrow> EKeyEntry \<Rightarrow> KeyRegistry option \<Rightarrow> DecodeOptions \<Rightarrow> Pool \<Rightarrow> bytes outcome \<times> Pool" where
  "ReadSpanWithOptions C lzma dk entry keys opts p =
     (let (r, p') = pool_open dk (ee_ArchiveIndex entry) p in
      (bnd r (\<lambda>f.
         guard (unat (ee_EncodedSize entry) < EncodedHeaderSize) ErrBadFormat (
         case read_at f (unat (ee_ArchiveOffs entry)) (unat (ee_EncodedSize entry)) of
           Ret buf \<Rightarrow> DecodeSpanWithOptions C lzma buf keys opts
         | Fail e \<Rightarrow> Fail ErrOther
         | Panic \<Rightarrow> Panic)),
       p'))"

definition ReadSpan ::
  "codecs \<Rightarrow> lzma_hook \<Rightarrow> disk \<Rightarrow> EKeyEntry \<Rightarrow> KeyRegistry option \<Rightarrow> Pool \<Rightarrow> bytes outcome \<times> Pool" where
  "ReadSpan C lzma dk entry keys p =
     ReadSpanWithOptions C lzma dk entry keys \<lparr>do_OvercomeEncrypted = False\<rparr> p"

definition ReadStream :: "disk \<Rightarrow> u32 \<Rightarrow> u32 \<Rightarrow> u32 \<Rightarrow> Pool \<Rightarrow> bytes outcome \<times> Pool" where
  "ReadStream dk archiveIndex off n p =
     (let (r, p') = pool_open dk archiveIndex p in
      (bnd r (\<lambda>f. read_at f (unat off) (unat n)), p'))"

section \<open>Decoding is safe\<close>

lemma blte_ParseHeader_bounds:
  assumes "blte_ParseHeader body = Ret hdr"
  shows "bh_DataOffset hdr \<le> length body"
    and "bh_HeaderSize hdr = 0 \<Longrightarrow> length (bh_Frames hdr) = 1"
    and "bh_HeaderSize hdr \<noteq> 0 \<Longrightarrow> 12 + 24 * length (bh_Frames hdr) \<le> length body"
  using assms
  by (auto simp: blte_ParseHeader_def Let_def outcome_simps word_less_nat_alt split: if_splits
      dest!: mapM_Ret_length)

lemma stripEncodedHeader_length: "stripEncodedHeader span = Ret body \<Longrightarrow> length body \<le> length span"
  by (auto simp: stripEncodedHeader_def outcome_simps split: if_splits)

lemma safe_stripEncodedHeader: "safe (stripEncodedHeader span)"
  by (auto simp: stripEncodedHeader_def outcome_simps EncodedHeaderSize_def)

lemma totalContentSize_le: "totalContentSize frames \<le> length frames * 2 ^ 32"
proof (induction frames)
  case (Cons f frames)
  then show ?case
    using unat_bounds(2) [of "fr_ContentSize f"] by (simp add: totalContentSize_def)
qed (simp add: totalContentSize_def)

lemma safe_decode_frames:
  assumes "\<And>fr enc. safe (blte_Decode C lzma d fr enc)"
  shows "cursor \<le> length body \<Longrightarrow> safe (decode_frames C lzma d body cursor frs)"
  by (induction frs arbitrary: cursor) (auto simp: Let_def safe_bnd safe_guard safe_subslice assms)

definition keys_ok :: "KeyRegistry option \<Rightarrow> bool" where
  "keys_ok keys \<longleftrightarrow> (\<forall>r. keys = Some r \<longrightarrow> registry_ok r)"

lemma decoder_safe_span: "keys_ok keys \<Longrightarrow> decoder_safe (span_decoder C keys opts)"
  by (auto simp: decoder_safe_def span_decoder_def keys_ok_def safe_DecryptFrame)

lemma safe_DecodeSpan:
  assumes "codecs_safe C" "lzma_safe lzma" "keys_ok keys" "length span < 24 * 2 ^ 16"
  shows "safe (DecodeSpanWithOptions C lzma span keys opts)"
proof -
  have dec: "safe (blte_Decode C lzma (span_decoder C keys opts) fr enc)" for fr enc
    using assms by (simp add: safe_blte_Decode decoder_safe_span)
  have "safe (make_cap (totalContentSize (bh_Frames hdr)))"
    if "stripEncodedHeader span = Ret body" "blte_ParseHeader body = Ret hdr" "bh_HeaderSize hdr \<noteq> 0"
    for body hdr
  proof -
    have "length (bh_Frames hdr) < 2 ^ 16"
      using blte_ParseHeader_bounds(3) [OF that(2,3)] stripEncodedHeader_length [OF that(1)] assms(4)
      by simp
    then show ?thesis
      using totalContentSize_le [of "bh_Frames hdr"] by (simp add: make_cap_def max_alloc_def)
  qed
  then show ?thesis
    using safe_decode_frames [OF dec] blte_ParseHeader_bounds dec
    by (auto simp: DecodeSpanWithOptions_def Let_def safe_bnd safe_stripEncodedHeader
        safe_blte_ParseHeader safe_subslices)
qed

section \<open>Decoding inverts encoding\<close>

lemma frame_rows_Cons:
  "map (\<lambda>i. frame_row (k + i) ((f # fs) ! i)) [0..<length (f # fs)] =
     frame_row k f # map (\<lambda>i. frame_row (Suc k + i) (fs ! i)) [0..<length fs]"
  by (simp only: length_Cons map_upt_Suc) simp

lemma decode_frames_bodies:
  assumes "list_all2 (\<lambda>f c. \<forall>k. blte_Decode C lzma d (frame_row k f) (ef_body f) = Ret c) fs cs"
    and "\<forall>f\<in>set fs. length (ef_body f) < 2 ^ 32"
  shows "decode_frames C lzma d (pre @ concat (map ef_body fs)) (length pre)
     (map (\<lambda>i. frame_row (k + i) (fs ! i)) [0..<length fs]) = Ret (concat cs)"
  using assms
proof (induction arbitrary: pre k rule: list_all2_induct)
  case (Cons f fs c cs)
  have "unat (fr_EncodedSize (frame_row k f)) = length (ef_body f)"
    using Cons.prems by (simp add: frame_row_def unat_of_nat)
  moreover have "decode_frames C lzma d ((pre @ ef_body f) @ concat (map ef_body fs))
      (length (pre @ ef_body f)) (map (\<lambda>i. frame_row (Suc k + i) (fs ! i)) [0..<length fs]) = Ret (concat cs)"
    using Cons.prems by (intro Cons.IH) simp
  ultimately show ?case
    unfolding frame_rows_Cons using Cons.hyps(1) by (simp add: Let_def)
qed simp

lemma encode_chunk_decodes:
  assumes "encode_chunk C mode c = Ret f" "codecs_ok C" "length c < 2 ^ 32 - 1" "\<not> LZMARegistered lzma"
  shows "blte_Decode C lzma d (frame_row k f) (ef_body f) = Ret c" and "enc_frame_ok f"
proof -
  obtain body where body: "encodeFrame C mode c = Ret body"
    and f: "f = \<lparr>ef_body = body, ef_contentSize = word_of_nat (length c), ef_hash = md5 C body\<rparr>"
    using assms(1) by (auto simp: encode_chunk_def bnd_eq_Ret)
  have c: "length c < 2 ^ 62" using assms(3) by simp
  have "unat (word_of_nat (length c) :: u32) \<le> length c"
    by (simp add: unat_of_nat)
  then show "blte_Decode C lzma d (frame_row k f) (ef_body f) = Ret c"
    using decodeStep_encodeFrame [OF body assms(2) c assms(4)]
    by (simp add: blte_Decode_def f frame_row_def)
  show "enc_frame_ok f"
    using encodeFrame_length(1) [OF body assms(2) c] assms(2,3)
    by (simp add: enc_frame_ok_def f codecs_ok_def)
qed

lemma encode_chunks_decode:
  assumes "mapM (encode_chunk C mode) cs = Ret fs" "codecs_ok C" "\<not> LZMARegistered lzma"
    and "\<forall>c\<in>set cs. length c < 2 ^ 32 - 1"
  shows "list_all2 (\<lambda>f c. \<forall>k. blte_Decode C lzma d (frame_row k f) (ef_body f) = Ret c) fs cs"
    and "\<forall>f\<in>set fs. enc_frame_ok f"
proof -
  have "encode_chunk C mode (cs ! i) = Ret (fs ! i)" "length (cs ! i) < 2 ^ 32 - 1" if "i < length fs" for i
    using that mapM_Ret_nth [OF assms(1)] mapM_Ret_length [OF assms(1)] assms(4) by auto
  note one = encode_chunk_decodes [OF this(1) assms(2) this(2) assms(3)]
  show "list_all2 (\<lambda>f c. \<forall>k. blte_Decode C lzma d (frame_row k f) (ef_body f) = Ret c) fs cs"
    using one(1) mapM_Ret_length [OF assms(1)] by (simp add: list_all2_conv_all_nth)
  show "\<forall>f\<in>set fs. enc_frame_ok f"
    using one(2) by (auto simp: in_set_conv_nth)
qed

lemma stripEncodedHeader_bare: "stripEncodedHeader (putLE32 BLTESignature @ r) = Ret (putLE32 BLTESignature @ r)"
  by (simp add: stripEncodedHeader_def)

lemma totalContentSize_rows:
  assumes "mapM (encode_chunk C mode) cs = Ret fs"
  shows "totalContentSize (map (\<lambda>i. frame_row (k + i) (fs ! i)) [0..<length fs]) \<le> length (concat cs)"
  using assms
proof (induction cs arbitrary: fs k)
  case (Cons c cs)
  then obtain f fs' where fs: "fs = f # fs'" "mapM (encode_chunk C mode) cs = Ret fs'"
    "encode_chunk C mode c = Ret f"
    by (auto simp: bnd_eq_Ret)
  have "unat (ef_contentSize f) \<le> length c"
    using fs(3) by (auto simp: encode_chunk_def bnd_eq_Ret unat_of_nat)
  then show ?case
    using Cons.IH [OF fs(2), of "Suc k"] unfolding fs(1) frame_rows_Cons
    by (simp add: totalContentSize_def frame_row_def)
qed (simp add: totalContentSize_def)

lemma DecodeSpan_frames_bytes:
  assumes "mapM (encode_chunk C mode) cs = Ret fs" "codecs_ok C" "\<not> LZMARegistered lzma"
    and "\<forall>c\<in>set cs. length c < 2 ^ 32 - 1" "cs \<noteq> []" "length cs < 2 ^ 24"
    and "length (concat cs) \<le> 2 ^ 48"
  shows "DecodeSpanWithOptions C lzma (frames_bytes fs) keys opts = Ret (concat cs)"
proof -
  let ?n = "length fs"
  have n: "?n = length cs" by (rule mapM_Ret_length [OF assms(1)])
  have ne: "fs \<noteq> []" using n assms(5) by auto
  note ok = encode_chunks_decode(1) [OF assms(1-4), where d = "span_decoder C keys opts"]
    encode_chunks_decode(2) [OF assms(1-4)]
  have strip: "stripEncodedHeader (frames_bytes fs) = Ret (frames_bytes fs)"
    by (simp add: frames_bytes_def Let_def stripEncodedHeader_bare)
  have parse: "blte_ParseHeader (frames_bytes fs) =
    Ret \<lparr>bh_HeaderSize = word_of_nat (12 + ?n * 24), bh_FrameCount = word_of_nat ?n,
         bh_Frames = frame_rows fs, bh_DataOffset = 12 + ?n * 24\<rparr>"
    using ne n assms(6) ok(2) by (intro blte_ParseHeader_frames_bytes) simp_all
  have "unat (word_of_nat (12 + ?n * 24) :: u32) = 12 + ?n * 24"
    using n assms(6) by (intro unat_word_of_nat) simp
  then have nz: "(word_of_nat (12 + ?n * 24) :: u32) \<noteq> 0"
    by (metis add_is_0 unat_0 zero_neq_numeral)
  have alloc: "make_cap (totalContentSize (frame_rows fs)) = Ret ()"
    using totalContentSize_rows [OF assms(1), of 0] assms(7)
    by (simp add: make_cap_def max_alloc_def frame_rows_def)
  define hd where "hd = putLE32 BLTESignature @ be_bytes 4 (12 + ?n * 24) @ [0x0F] @ be_bytes 3 ?n @
      concat (map frame_entry fs)"
  have "length (concat (map frame_entry fs)) = 24 * ?n"
    by (rule length_concat_const) simp
  then have hd: "frames_bytes fs = hd @ concat (map ef_body fs)" "length hd = 12 + ?n * 24"
    by (simp_all add: hd_def frames_bytes_def Let_def)
  have "decode_frames C lzma (span_decoder C keys opts) (frames_bytes fs) (12 + ?n * 24) (frame_rows fs)
      = Ret (concat cs)"
    using decode_frames_bodies [OF ok(1), of hd 0] ok(2)
    by (simp add: hd frame_rows_def enc_frame_ok_def)
  then show ?thesis
    unfolding DecodeSpanWithOptions_def strip bnd.simps parse Let_def
    using nz alloc by (simp del: of_nat_add of_nat_mult)
qed

lemma DecodeSpan_single_bytes:
  assumes "encodeFrame C mode content = Ret body" "codecs_ok C" "\<not> LZMARegistered lzma"
    and "length content < 2 ^ 62"
  shows "DecodeSpanWithOptions C lzma (single_bytes body) keys opts = Ret content"
proof -
  have strip: "stripEncodedHeader (single_bytes body) = Ret (single_bytes body)"
    by (simp add: single_bytes_def stripEncodedHeader_bare)
  have drop: "drop 8 (single_bytes body) = body" "8 \<le> length (single_bytes body)"
    by (simp_all add: single_bytes_def)
  show ?thesis
    unfolding DecodeSpanWithOptions_def strip bnd.simps blte_ParseHeader_single Let_def
    using decodeStep_encodeFrame [OF assms(1,2,4,3)] by (simp add: drop blte_Decode_def)
qed

lemma blte_readback:
  assumes "blte_Encode C content opts = Ret (blte, ckey, ekey)" "codecs_ok C" "\<not> LZMARegistered lzma"
    and "length content < 2 ^ 32 - 1" "length content \<le> (2 ^ 24 - 1) * opt_frameSize opts"
  shows "DecodeSpanWithOptions C lzma blte keys dopts = Ret content"
proof (cases "eo_SingleFrameNoHeader opts")
  case True
  then show ?thesis
    using assms(1-4) DecodeSpan_single_bytes [OF _ assms(2,3)]
    by (auto simp: blte_Encode_def Let_def bnd_eq_Ret guard_eq_Ret split: if_splits)
next
  case False
  let ?cs = "split_chunks (opt_frameSize opts) content"
  obtain fs mode where fs: "mapM (encode_chunk C mode) ?cs = Ret fs" "blte = frames_bytes fs"
    using assms(1) False by (auto simp: blte_Encode_def Let_def bnd_eq_Ret guard_eq_Ret split: if_splits)
  have "length c \<le> length content" if "c \<in> set ?cs" for c
  proof -
    have "length (concat ?cs) = length content" by (simp add: concat_split_chunks)
    then show ?thesis using member_le_sum_list [of "length c" "map length ?cs"] that
      by (simp add: length_concat)
  qed
  moreover have "length ?cs < 2 ^ 24"
  proof -
    have "length content + opt_frameSize opts - 1 < 2 ^ 24 * opt_frameSize opts"
    proof -
      have "length content \<le> 16777215 * opt_frameSize opts" using assms(5) by simp
      then have "length content + opt_frameSize opts - 1 < 16777216 * opt_frameSize opts"
        using opt_frameSize_pos [of opts] by linarith
      then show ?thesis by simp
    qed
    then have "(length content + opt_frameSize opts - 1) div opt_frameSize opts < 2 ^ 24"
      by (simp add: less_mult_imp_div_less)
    then show ?thesis by (simp add: split_chunks_def length_chunks_loop)
  qed
  moreover have "?cs \<noteq> []"
    by (auto simp: split_chunks_def chunks_loop.simps [of _ content])
  ultimately have "DecodeSpanWithOptions C lzma (frames_bytes fs) keys dopts =
      Ret (concat ?cs)"
    using assms(4) by (intro DecodeSpan_frames_bytes [OF fs(1) assms(2,3)])
      (fastforce simp: concat_split_chunks)+
  then show ?thesis
    by (simp add: fs(2) concat_split_chunks)
qed

text \<open>
  C4. DecodeSpan returns exactly the content that Encode compressed, for every encode mode and
  frame size, whatever keys the caller supplies, for contents that fit the 24-bit frame count
  and the 32-bit frame sizes, while no LZMA decoder is registered.
\<close>

theorem blte_roundtrip:
  assumes "blte_Encode C content opts = Ret (blte, ckey, ekey)" "codecs_ok C" "\<not> LZMARegistered lzma"
    and "length content < 2 ^ 32 - 1" "length content \<le> (2 ^ 24 - 1) * opt_frameSize opts"
  shows "DecodeSpan C lzma blte keys = Ret content"
  unfolding DecodeSpan_def by (rule blte_readback [OF assms])

text \<open>
  The size of the output buffer comes from the header alone: enough rows that each declare a
  4 GiB frame make the allocation panic, however short the span.
\<close>

lemma blte_ParseHeader_alloc:
  assumes "fs \<noteq> []" "length fs < 2 ^ 24" "\<forall>f\<in>set fs. enc_frame_ok f"
    and "max_alloc < totalContentSize (frame_rows fs)"
  shows "DecodeSpan C lzma (frames_bytes fs) keys = Panic"
proof -
  have strip: "stripEncodedHeader (frames_bytes fs) = Ret (frames_bytes fs)"
    by (simp add: frames_bytes_def Let_def stripEncodedHeader_bare)
  have "unat (word_of_nat (12 + length fs * 24) :: u32) = 12 + length fs * 24"
    using assms(2) by (intro unat_word_of_nat) simp
  then have nz: "(word_of_nat (12 + length fs * 24) :: u32) \<noteq> 0"
    by (metis add_is_0 unat_0 zero_neq_numeral)
  show ?thesis
    unfolding DecodeSpan_def DecodeSpanWithOptions_def strip bnd.simps
      blte_ParseHeader_frames_bytes [OF assms(1-3)] Let_def
    using nz assms(4) by (simp add: make_cap_def del: of_nat_add of_nat_mult)
qed

definition huge_frame :: encFrame where
  "huge_frame = \<lparr>ef_body = [], ef_contentSize = 0xFFFFFFFF, ef_hash = zero_frame_hash\<rparr>"

theorem DecodeSpan_alloc_panics:
  "DecodeSpan C lzma (frames_bytes (replicate 65537 huge_frame)) keys = Panic"
proof (rule blte_ParseHeader_alloc)
  have "frame_rows (replicate 65537 huge_frame) = map (\<lambda>i. frame_row i huge_frame) [0..<65537]"
    by (simp add: frame_rows_def)
  then have "totalContentSize (frame_rows (replicate 65537 huge_frame)) = 65537 * 4294967295"
    by (simp add: totalContentSize_def frame_row_def huge_frame_def comp_def sum_list_triv)
  then show "max_alloc < totalContentSize (frame_rows (replicate 65537 huge_frame))"
    by (simp add: max_alloc_def)
qed (auto simp: enc_frame_ok_def huge_frame_def zero_frame_hash_def)

section \<open>The span header\<close>

lemma length_fold_lanes [simp]: "length (fold_lanes i bs h) = length h"
  by (induction i bs h rule: fold_lanes.induct) auto

lemma fold_lanes_append:
  "fold_lanes i (xs @ ys) h = fold_lanes (i + length xs) ys (fold_lanes i xs h)"
  by (induction i xs h rule: fold_lanes.induct) auto

lemma length_buildEncodedHeader [simp]: "length ekey = 16 \<Longrightarrow> length (buildEncodedHeader ekey n off) = 30"
  by (simp add: buildEncodedHeader_def Let_def)

lemma fold_lanes_tail:
  assumes "length h = 4" "length e = 4"
  shows "fold_lanes 26 (map (\<lambda>j. let i = 26 + j in h ! (i mod 4) XOR e ! (i mod 4)) [0..<4]) h = e"
proof -
  obtain a b c d where h: "h = [a, b, c, d]"
    using assms(1) by (auto simp: numeral_eq_Suc length_Suc_conv)
  obtain a' b' c' d' where e: "e = [a', b', c', d']"
    using assms(2) by (auto simp: numeral_eq_Suc length_Suc_conv)
  have up: "[0..<4] = [0, 1, 2, 3::nat]" by (simp add: upt_rec)
  show ?thesis unfolding h e up by (simp add: xor.assoc [symmetric])
qed

theorem header_checksum:
  assumes "length ekey = 16"
  shows "fold_lanes 0 (buildEncodedHeader ekey n off) [0, 0, 0, 0] = putLE32 (encoded_offset off)"
proof -
  let ?h22 = "rev ekey @ putLE32 n @ [0, 0]"
  let ?h26 = "?h22 @ putLE32 (HashLittle ?h22 jenkinsInitval)"
  have len: "0 + length ?h26 = 26" using assms by simp
  show ?thesis
    unfolding buildEncodedHeader_def Let_def fold_lanes_append [of 0 ?h26] len
    by (rule fold_lanes_tail [unfolded Let_def]) simp_all
qed

text \<open>The wrapper is removed again, unless the reversed key itself starts like a bare stream.\<close>

definition ekey_like_blte :: "key \<Rightarrow> bool" where
  "ekey_like_blte ekey \<longleftrightarrow> drop 12 ekey = [0x45, 0x54, 0x4C, 0x42]"

lemma word_of_nat_eq_32: "m < 2 ^ 32 \<Longrightarrow> (word_of_nat m :: u32) = w \<longleftrightarrow> m = unat w"
proof -
  assume "m < 2 ^ 32"
  then have "unat (word_of_nat m :: u32) = m" by (intro unat_word_of_nat) simp
  then show ?thesis by auto
qed

lemma le_val_inject: "length xs = length ys \<Longrightarrow> le_val xs = le_val ys \<longleftrightarrow> xs = ys"
  by (metis le_bytes_le_val)

lemma stripEncodedHeader_wrapped:
  assumes "length h = 30" "take 16 h = rev ekey" "length ekey = 16" "\<not> ekey_like_blte ekey"
  shows "stripEncodedHeader (h @ putLE32 BLTESignature @ r) = Ret (putLE32 BLTESignature @ r)"
proof -
  have "take 4 h = take 4 (take 16 h)" by simp
  also have "\<dots> = rev (drop 12 ekey)" using assms(3) by (simp only: assms(2) take_rev) simp
  finally have t4: "take 4 h = rev (drop 12 ekey)" .
  have sig: "[0x42, 0x4C, 0x54, 0x45] = putLE32 BLTESignature"
    by (simp add: putLE32_def BLTESignature_def le_bytes_numeral)
  have "(word_of_nat (le_val (rev (drop 12 ekey))) :: u32) \<noteq> BLTESignature"
  proof
    assume "(word_of_nat (le_val (rev (drop 12 ekey))) :: u32) = BLTESignature"
    moreover have "le_val (rev (drop 12 ekey)) < 2 ^ 32"
      using le_val_lt [of "rev (drop 12 ekey)"] assms(3) by simp
    ultimately have "le_val (rev (drop 12 ekey)) = le_val (putLE32 BLTESignature)"
      by (simp add: word_of_nat_eq_32)
    then have "rev (drop 12 ekey) = [0x42, 0x4C, 0x54, 0x45]"
      using assms(3) unfolding sig by (subst (asm) le_val_inject) simp_all
    then show False
      using assms(4) by (simp add: ekey_like_blte_def rev_swap)
  qed
  then show ?thesis
    using assms(1) by (simp add: stripEncodedHeader_def EncodedHeaderSize_def t4)
qed

text \<open>In that case the whole span, wrapper included, is taken for the stream.\<close>

lemma stripEncodedHeader_confused:
  assumes "length ekey = 16" "ekey_like_blte ekey"
  shows "stripEncodedHeader (buildEncodedHeader ekey n off @ blte) = Ret (buildEncodedHeader ekey n off @ blte)"
proof -
  have "take 4 (buildEncodedHeader ekey n off) = rev (drop 12 ekey)"
    using assms(1) by (simp add: buildEncodedHeader_def Let_def take_rev)
  also have "\<dots> = putLE32 BLTESignature"
    using assms(2) by (simp add: ekey_like_blte_def putLE32_def BLTESignature_def le_bytes_numeral)
  finally show ?thesis
    using assms(1) by (simp add: stripEncodedHeader_def)
qed

section \<open>The theorems at work\<close>

theorem header_checksum_witness:
  "fold_lanes 0 (buildEncodedHeader (replicate 16 7) 1000 64) [0, 0, 0, 0] = putLE32 (encoded_offset 64)"
  by (rule header_checksum) simp

theorem blte_roundtrip_witness:
  "\<exists>blte ckey ekey. blte_Encode run_codecs (replicate 20 0)
       \<lparr>eo_Mode = EncodeZlib, eo_FrameSize = 16, eo_SingleFrameNoHeader = False\<rparr> = Ret (blte, ckey, ekey)
     \<and> DecodeSpan run_codecs None blte None = Ret (replicate 20 0)"
proof -
  let ?o = "\<lparr>eo_Mode = EncodeZlib, eo_FrameSize = 16, eo_SingleFrameNoHeader = False\<rparr>"
  obtain blte ckey ekey where e: "blte_Encode run_codecs (replicate 20 0) ?o = Ret (blte, ckey, ekey)"
    using blte_Encode_total [OF run_codecs_ok, of "replicate 20 0" ?o] by auto
  have "DecodeSpan run_codecs None blte None = Ret (replicate 20 0)"
    by (rule blte_roundtrip [OF e run_codecs_ok]) (simp_all add: opt_frameSize_def)
  with e show ?thesis by blast
qed

end
