(* ===== verification/ArchiveStore.thy ===== *)
theory ArchiveStore
  imports Archive
begin

text \<open>
  The archive writer and the reader pool together, as a store: a writer only ever appends, so
  the entry of every span it wrote keeps reading back. The argument is made once, for any
  append-only log, and instantiated with \<^verbatim>\<open>WriteSpan\<close> on the data.NNN files.
\<close>

unbundle bit_operations_syntax

section \<open>Append-only logs\<close>

text \<open>Appending a list of items, up to the first refusal.\<close>

fun put_all :: "('k \<Rightarrow> 's \<Rightarrow> ('e \<times> 's) option) \<Rightarrow> 'k list \<Rightarrow> 's \<Rightarrow> ('e list \<times> 's) option" where
  "put_all put [] s = Some ([], s)"
| "put_all put (k # ks) s =
     (case put k s of
        None \<Rightarrow> None
      | Some (e, s') \<Rightarrow>
          (case put_all put ks s' of None \<Rightarrow> None | Some (es, t) \<Rightarrow> Some (e # es, t)))"

lemma put_all_Cons:
  assumes "put_all put (k # ks) s = Some (es, t)"
  obtains e s' es' where "put k s = Some (e, s')" "put_all put ks s' = Some (es', t)" "es = e # es'"
  using assms by (auto split: option.splits)

text \<open>
  \<open>put\<close> appends an item and returns its handle, \<open>get\<close> reads a handle. \<open>fits\<close> says the state has
  not outgrown what a handle can address.
\<close>

locale append_log =
  fixes put :: "'k \<Rightarrow> 's \<Rightarrow> ('e \<times> 's) option"
    and get :: "'s \<Rightarrow> 'e \<Rightarrow> 'v option"
    and item :: "'k \<Rightarrow> 'v"
    and valid :: "'k \<Rightarrow> bool"
    and good :: "'s \<Rightarrow> bool"
    and fits :: "'s \<Rightarrow> bool"
  assumes put_good: "good s \<Longrightarrow> valid k \<Longrightarrow> put k s = Some (e, s') \<Longrightarrow> good s'"
    and put_fits: "good s \<Longrightarrow> valid k \<Longrightarrow> put k s = Some (e, s') \<Longrightarrow> fits s' \<Longrightarrow> fits s"
    and put_get: "good s \<Longrightarrow> valid k \<Longrightarrow> put k s = Some (e, s') \<Longrightarrow> fits s' \<Longrightarrow> get s' e = Some (item k)"
    and put_keeps: "good s \<Longrightarrow> valid k \<Longrightarrow> put k s = Some (e, s') \<Longrightarrow> get s e0 = Some v \<Longrightarrow> get s' e0 = Some v"
begin

lemma put_all_fits:
  "good s \<Longrightarrow> list_all valid ks \<Longrightarrow> put_all put ks s = Some (es, t) \<Longrightarrow> fits t \<Longrightarrow> fits s"
proof (induction ks arbitrary: s es)
  case (Cons k ks)
  from Cons.prems(3) show ?case
    by (rule put_all_Cons) (use Cons in \<open>auto intro: put_good put_fits\<close>)
qed simp

lemma put_all_good:
  "good s \<Longrightarrow> list_all valid ks \<Longrightarrow> put_all put ks s = Some (es, t) \<Longrightarrow> good t"
proof (induction ks arbitrary: s es)
  case (Cons k ks)
  from Cons.prems(3) show ?case
    by (rule put_all_Cons) (use Cons in \<open>auto intro: put_good\<close>)
qed simp

lemma put_all_keeps:
  "good s \<Longrightarrow> list_all valid ks \<Longrightarrow> put_all put ks s = Some (es, t) \<Longrightarrow> get s e0 = Some v \<Longrightarrow>
   get t e0 = Some v"
proof (induction ks arbitrary: s es)
  case (Cons k ks)
  from Cons.prems(3) show ?case
    by (rule put_all_Cons) (use Cons in \<open>auto intro: put_good put_keeps\<close>)
qed simp

lemma put_all_get:
  "good s \<Longrightarrow> list_all valid ks \<Longrightarrow> put_all put ks s = Some (es, t) \<Longrightarrow> fits t \<Longrightarrow>
   list_all2 (\<lambda>k e. get t e = Some (item k)) ks es"
proof (induction ks arbitrary: s es)
  case (Cons k ks)
  from Cons.prems(3) obtain e s' es' where
    step: "put k s = Some (e, s')" "put_all put ks s' = Some (es', t)" "es = e # es'"
    by (rule put_all_Cons)
  have k: "valid k" "list_all valid ks" using Cons.prems(2) by auto
  have good: "good s'" using Cons.prems(1) k(1) step(1) by (rule put_good)
  have "fits s'" using good k(2) step(2) Cons.prems(4) by (rule put_all_fits)
  with Cons.prems(1) k(1) step(1) have "get s' e = Some (item k)" by (rule put_get)
  with good k(2) step(2) have "get t e = Some (item k)" by (rule put_all_keeps)
  then show ?case using Cons.IH [OF good k(2) step(2) Cons.prems(4)] step(3) by simp
qed simp

end

section \<open>One write\<close>

text \<open>An open segment's handle stands at the end of its file, where the next span goes.\<close>

definition writer_ok :: "Writer \<Rightarrow> disk \<Rightarrow> bool" where
  "writer_ok w dk \<longleftrightarrow>
     (\<forall>pos. w_segmentFile w = Some (AtPos pos) \<longrightarrow>
        (\<exists>old. dk (w_segmentIndex w) = Some old \<and> length old = pos \<and>
           w_segmentOffs w = word_of_nat pos))"

definition span_of :: "bytes \<Rightarrow> key \<Rightarrow> nat \<Rightarrow> bytes" where
  "span_of blte ekey off = buildEncodedHeader ekey (word_of_nat (length blte)) (word_of_nat off) @ blte"

lemma length_span_of [simp]: "length ekey = 16 \<Longrightarrow> length (span_of blte ekey off) = 30 + length blte"
  by (simp add: span_of_def)

lemma write_file_end [simp]: "write_file (length old) bs old = old @ bs"
  by (simp add: write_file_def)

lemma seg_content_upd [simp]: "seg_content (dk(i := Some f)) i = f"
  by (simp add: seg_content_def)

text \<open>The handle stands at the end of \<open>old\<close>, the content of its segment.\<close>

definition at_end :: "Writer \<Rightarrow> disk \<Rightarrow> bytes \<Rightarrow> bool" where
  "at_end w dk old \<longleftrightarrow>
     w_segmentFile w = Some (AtPos (length old)) \<and> dk (w_segmentIndex w) = Some old \<and>
     w_segmentOffs w = word_of_nat (length old)"

lemma append_span_end:
  assumes "at_end w dk old"
  shows "append_span no_faults blte ekey n w dk =
    (Ret (span_entry w ekey n),
     w\<lparr>w_segmentFile := Some (AtPos (length (old @ span_of blte ekey (length old)))),
       w_segmentOffs := word_of_nat (length old) + n\<rparr>,
     dk(w_segmentIndex w := Some (old @ span_of blte ekey (length old))))"
proof -
  have "write_file (length old + length h) blte (old @ h) = (old @ h) @ blte" for h
    by (simp add: write_file_def)
  then show ?thesis
    using assms by (simp add: at_end_def append_span_def seg_write_def Let_def no_faults_def seg_content_def
        span_of_def span_entry_def)
qed

lemma at_end_openSegment:
  assumes "openSegment no_faults w dk = (Ret u, w2, dk2)"
  defines "old \<equiv> seg_content dk (w_segmentIndex w)"
  shows "at_end w2 dk2 old" "dk2 = dk(w_segmentIndex w := Some old)"
    "w_segmentIndex w2 = w_segmentIndex w" "w_segmentSize w2 = w_segmentSize w" "w_closed w2 = w_closed w"
  using assms(1) by (auto simp: openSegment_def no_faults_def Let_def at_end_def old_def)

lemma at_end_upd: "at_end w dk old \<Longrightarrow> dk(w_segmentIndex w := Some old) = dk"
  by (auto simp: at_end_def fun_upd_idem)

definition span_fits :: "Writer \<Rightarrow> bytes \<Rightarrow> bool" where
  "span_fits w blte \<longleftrightarrow> w_segmentOffs w + word_of_nat (30 + length blte) \<le> w_segmentSize w"

text \<open>The segment the span goes to.\<close>

definition next_index :: "Writer \<Rightarrow> bytes \<Rightarrow> u32" where
  "next_index w blte =
     (if w_segmentFile w \<noteq> None \<and> \<not> span_fits w blte then w_segmentIndex w + 1 else w_segmentIndex w)"

lemma WriteSpan_appends:
  assumes "WriteSpan no_faults blte ekey w dk = (Ret e, w', dk')" "writer_ok w dk"
  obtains w2 old where
    "at_end w2 (dk(w_segmentIndex w2 := Some old)) old" "old = seg_content dk (w_segmentIndex w2)"
    "append_span no_faults blte ekey (word_of_nat (30 + length blte)) w2 (dk(w_segmentIndex w2 := Some old))
       = (Ret e, w', dk')"
    "w_segmentSize w2 = w_segmentSize w" "w_closed w2 = w_closed w"
    "w_segmentIndex w2 = next_index w blte"
proof -
  let ?n = "word_of_nat (30 + length blte) :: u64"
  from assms(1) obtain w1 where roll: "rollover no_faults ?n w = (Ret (), w1)"
    and rest: "(if w_segmentFile w1 = None then
                  (case openSegment no_faults w1 dk of
                     (Ret _, w2, dk2) \<Rightarrow> append_span no_faults blte ekey ?n w2 dk2
                   | (Fail e, w2, dk2) \<Rightarrow> (Fail e, w2, dk2)
                   | (Panic, w2, dk2) \<Rightarrow> (Panic, w2, dk2))
                else append_span no_faults blte ekey ?n w1 dk) = (Ret e, w', dk')"
    by (auto simp: WriteSpan_def Let_def EncodedHeaderSize_def simp del: of_nat_add
        split: if_splits outcome.splits prod.splits)
  have w1: "w_segmentSize w1 = w_segmentSize w" "w_closed w1 = w_closed w"
    "w_segmentFile w1 = None \<and> w_segmentIndex w1 = next_index w blte \<or>
     w1 = w \<and> w_segmentFile w \<noteq> None \<and> next_index w blte = w_segmentIndex w"
    using roll by (auto simp: rollover_def span_fits_def next_index_def simp del: of_nat_add split: if_splits)
  show thesis
  proof (cases "w_segmentFile w1")
    case None
    then obtain w2 dk2 where o: "openSegment no_faults w1 dk = (Ret (), w2, dk2)"
      and app: "append_span no_faults blte ekey ?n w2 dk2 = (Ret e, w', dk')"
      using rest by (auto split: outcome.splits prod.splits)
    show ?thesis
      using None at_end_openSegment [OF o] app w1 by (intro that [of w2]) auto
  next
    case (Some h)
    then have w: "w1 = w" "w_segmentFile w = Some h" "next_index w blte = w_segmentIndex w"
      using w1(3) by auto
    then have app: "append_span no_faults blte ekey ?n w dk = (Ret e, w', dk')"
      using rest by simp
    then obtain pos where "h = AtPos pos"
      using w(2) by (cases h) (auto simp: append_span_def seg_write_def Let_def)
    then obtain old where old: "at_end w dk old"
      using assms(2) w(2) by (auto simp: writer_ok_def at_end_def)
    show ?thesis
    proof (rule that)
      show "old = seg_content dk (w_segmentIndex w)"
        using old by (simp add: at_end_def seg_content_def)
    qed (use old app w in \<open>simp_all only: at_end_upd\<close>)
  qed
qed

lemma WriteSpan_Ret:
  assumes "WriteSpan no_faults blte ekey w dk = (Ret e, w', dk')" "writer_ok w dk"
  obtains old where "old = seg_content dk (w_segmentIndex w')"
    "dk' = dk(w_segmentIndex w' := Some (old @ span_of blte ekey (length old)))"
    "e = \<lparr>ee_EKey = ekey, ee_ArchiveIndex = w_segmentIndex w', ee_ArchiveOffs = word_of_nat (length old),
          ee_EncodedSize = word_of_nat (30 + length blte)\<rparr>"
    "w_segmentFile w' = Some (AtPos (length (old @ span_of blte ekey (length old))))"
    "w_segmentOffs w' = word_of_nat (length old) + word_of_nat (30 + length blte)"
    "w_segmentSize w' = w_segmentSize w"
    "w_segmentIndex w' = next_index w blte"
proof -
  from WriteSpan_appends [OF assms] obtain w2 old where
    w2: "at_end w2 (dk(w_segmentIndex w2 := Some old)) old" "old = seg_content dk (w_segmentIndex w2)"
    and app: "append_span no_faults blte ekey (word_of_nat (30 + length blte)) w2
       (dk(w_segmentIndex w2 := Some old)) = (Ret e, w', dk')"
    and size: "w_segmentSize w2 = w_segmentSize w"
    and idx: "w_segmentIndex w2 = next_index w blte"
    by (rule WriteSpan_appends [OF assms])
  note e = app [unfolded append_span_end [OF w2(1)]]
  have i: "w_segmentIndex w' = w_segmentIndex w2" using e by auto
  have offs: "w_segmentOffs w2 = word_of_nat (length old)" using w2(1) by (simp add: at_end_def)
  show thesis
  proof (rule that)
    show "old = seg_content dk (w_segmentIndex w')" using w2(2) i by simp
    show "e = \<lparr>ee_EKey = ekey, ee_ArchiveIndex = w_segmentIndex w', ee_ArchiveOffs = word_of_nat (length old),
          ee_EncodedSize = word_of_nat (30 + length blte)\<rparr>"
      using e by (auto simp: span_entry_def offs ucast_word_of_nat_64_32 simp del: of_nat_add)
  qed (use e size idx in auto)
qed

section \<open>The writer is an append-only log\<close>

definition store_put :: "bytes \<times> key \<Rightarrow> Writer \<times> disk \<Rightarrow> (EKeyEntry \<times> Writer \<times> disk) option" where
  "store_put k s =
     (case WriteSpan no_faults (fst k) (snd k) (fst s) (snd s) of
        (Ret e, w, dk) \<Rightarrow> Some (e, w, dk)
      | _ \<Rightarrow> None)"

text \<open>The bytes an entry addresses, and the encoded key and stream they hold.\<close>

definition entry_span :: "disk \<Rightarrow> EKeyEntry \<Rightarrow> bytes outcome" where
  "entry_span dk e =
     read_at (seg_content dk (ee_ArchiveIndex e)) (unat (ee_ArchiveOffs e)) (unat (ee_EncodedSize e))"

definition store_get :: "Writer \<times> disk \<Rightarrow> EKeyEntry \<Rightarrow> (bytes \<times> key) option" where
  "store_get s e =
     (case entry_span (snd s) e of
        Ret buf \<Rightarrow> if length buf < 38 then None else Some (drop 30 buf, rev (take 16 buf))
      | _ \<Rightarrow> None)"

definition span_ok :: "bytes \<times> key \<Rightarrow> bool" where
  "span_ok k \<longleftrightarrow> length (snd k) = 16"

text \<open>Every segment is within the reach of a 32-bit offset.\<close>

definition segments_fit :: "Writer \<times> disk \<Rightarrow> bool" where
  "segments_fit s \<longleftrightarrow> (\<forall>i. length (seg_content (snd s) i) < 2 ^ 32)"

lemma take16_span_of: "length ekey = 16 \<Longrightarrow> take 16 (span_of blte ekey off) = rev ekey"
  by (simp add: span_of_def buildEncodedHeader_def Let_def)

lemma drop30_span_of: "length ekey = 16 \<Longrightarrow> drop 30 (span_of blte ekey off) = blte"
  by (simp add: span_of_def)

lemma WriteSpan_min: "WriteSpan io blte ekey w dk = (Ret e, s) \<Longrightarrow> 8 \<le> length blte"
  by (auto simp: WriteSpan_def split: if_splits)

lemma seg_content_upd_other: "seg_content (dk(i := Some f)) j = (if j = i then f else seg_content dk j)"
  by (simp add: seg_content_def)

lemma store_put_cases:
  assumes "store_put k s = Some (e, s')" "writer_ok (fst s) (snd s)"
  obtains old where "old = seg_content (snd s) (w_segmentIndex (fst s'))"
    "snd s' = (snd s)(w_segmentIndex (fst s') := Some (old @ span_of (fst k) (snd k) (length old)))"
    "e = \<lparr>ee_EKey = snd k, ee_ArchiveIndex = w_segmentIndex (fst s'),
          ee_ArchiveOffs = word_of_nat (length old), ee_EncodedSize = word_of_nat (30 + length (fst k))\<rparr>"
    "w_segmentFile (fst s') = Some (AtPos (length (old @ span_of (fst k) (snd k) (length old))))"
    "w_segmentOffs (fst s') = word_of_nat (length old) + word_of_nat (30 + length (fst k))"
    "8 \<le> length (fst k)"
proof -
  have W: "WriteSpan no_faults (fst k) (snd k) (fst s) (snd s) = (Ret e, fst s', snd s')"
    using assms(1) by (auto simp: store_put_def split: prod.splits outcome.splits)
  show thesis
    by (rule WriteSpan_Ret [OF W assms(2)], rule that) (assumption | rule WriteSpan_min [OF W])+
qed

interpretation archive: append_log store_put store_get id span_ok "\<lambda>s. writer_ok (fst s) (snd s)" segments_fit
proof
  fix s k e s'
  assume ok: "writer_ok (fst s) (snd s)" and k: "span_ok k" and put: "store_put k s = Some (e, s')"
  show "writer_ok (fst s') (snd s')"
    using put ok by (rule store_put_cases) (use k in \<open>auto simp: writer_ok_def span_ok_def\<close>)
next
  fix s k e s'
  assume ok: "writer_ok (fst s) (snd s)" and put: "store_put k s = Some (e, s')" and fits: "segments_fit s'"
  show "segments_fit s"
    using put ok
  proof (rule store_put_cases)
    fix old
    assume S: "old = seg_content (snd s) (w_segmentIndex (fst s'))"
      "snd s' = (snd s)(w_segmentIndex (fst s') := Some (old @ span_of (fst k) (snd k) (length old)))"
    have "length (seg_content (snd s) i) \<le> length (seg_content (snd s') i)" for i
      unfolding S(2) by (simp add: seg_content_upd_other S(1))
    then show ?thesis
      using fits unfolding segments_fit_def by (blast intro: le_less_trans)
  qed
next
  fix s k e s'
  assume ok: "writer_ok (fst s) (snd s)" and k: "span_ok k" and put: "store_put k s = Some (e, s')"
    and fits: "segments_fit s'"
  show "store_get s' e = Some (id k)"
    using put ok
  proof (rule store_put_cases)
    fix old
    assume S: "snd s' = (snd s)(w_segmentIndex (fst s') := Some (old @ span_of (fst k) (snd k) (length old)))"
      "e = \<lparr>ee_EKey = snd k, ee_ArchiveIndex = w_segmentIndex (fst s'),
          ee_ArchiveOffs = word_of_nat (length old), ee_EncodedSize = word_of_nat (30 + length (fst k))\<rparr>"
      "8 \<le> length (fst k)"
    have k16: "length (snd k) = 16" using k by (simp add: span_ok_def)
    have "length old + (30 + length (fst k)) < 2 ^ 32"
      using fits k16 unfolding segments_fit_def S(1) by (auto dest!: spec [of _ "w_segmentIndex (fst s')"])
    then have u: "unat (word_of_nat (length old) :: u32) = length old"
      "unat (word_of_nat (30 + length (fst k)) :: u32) = 30 + length (fst k)"
      by (intro unat_word_of_nat; simp)+
    have "entry_span (snd s') e = Ret (span_of (fst k) (snd k) (length old))"
      unfolding entry_span_def S(1,2) using k16 u by (simp add: read_at_def del: of_nat_add)
    then show ?thesis
      using k16 S(3) by (simp add: store_get_def take16_span_of drop30_span_of)
  qed
next
  fix s k e s' e0 v
  assume ok: "writer_ok (fst s) (snd s)" and put: "store_put k s = Some (e, s')"
    and get: "store_get s e0 = Some v"
  show "store_get s' e0 = Some v"
    using put ok
  proof (rule store_put_cases)
    fix old
    assume S: "old = seg_content (snd s) (w_segmentIndex (fst s'))"
      "snd s' = (snd s)(w_segmentIndex (fst s') := Some (old @ span_of (fst k) (snd k) (length old)))"
    obtain buf where buf: "entry_span (snd s) e0 = Ret buf" "\<not> length buf < 38"
        "v = (drop 30 buf, rev (take 16 buf))"
      using get by (auto simp: store_get_def split: outcome.splits if_splits)
    then have "entry_span (snd s') e0 = Ret buf"
      unfolding entry_span_def S(2)
      by (auto simp: read_at_def seg_content_upd_other S(1) split: if_splits)
    then show ?thesis using buf by (simp add: store_get_def)
  qed
qed

section \<open>What was written reads back\<close>

text \<open>A stream that starts with the signature, under a key that does not look like one.\<close>

definition item_ok :: "bytes \<times> key \<Rightarrow> bool" where
  "item_ok k \<longleftrightarrow> length (snd k) = 16 \<and> \<not> ekey_like_blte (snd k) \<and>
     (\<exists>r. fst k = putLE32 BLTESignature @ r)"

lemma ReadSpan_stored:
  assumes "store_get s e = Some k" "item_ok k" "pool_files p \<noteq> None"
  shows "fst (ReadSpanWithOptions C lzma (snd s) e keys dopts p) = DecodeSpanWithOptions C lzma (fst k) keys dopts"
proof -
  let ?file = "seg_content (snd s) (ee_ArchiveIndex e)"
  obtain buf where buf: "entry_span (snd s) e = Ret buf" "\<not> length buf < 38"
      "k = (drop 30 buf, rev (take 16 buf))"
    using assms(1) by (auto simp: store_get_def split: outcome.splits if_splits)
  then have len: "38 \<le> length ?file" "38 \<le> unat (ee_EncodedSize e)"
    by (auto simp: entry_span_def read_at_def split: if_splits)
  then have "snd s (ee_ArchiveIndex e) = Some ?file"
    by (cases "snd s (ee_ArchiveIndex e)") (auto simp: seg_content_def)
  then obtain p' where opened: "pool_open (snd s) (ee_ArchiveIndex e) p = (Ret ?file, p')"
    using assms(3) by (cases "pool_open (snd s) (ee_ArchiveIndex e) p")
      (auto simp: pool_open_def split: if_splits option.splits)
  obtain r where r: "drop 30 buf = putLE32 BLTESignature @ r"
    using assms(2) buf(3) by (auto simp: item_ok_def)
  have "stripEncodedHeader (take 30 buf @ putLE32 BLTESignature @ r) = Ret (putLE32 BLTESignature @ r)"
    using assms(2) buf(2,3) by (intro stripEncodedHeader_wrapped [where ekey = "snd k"])
      (auto simp: item_ok_def)
  then have "stripEncodedHeader buf = Ret (drop 30 buf)"
    using r append_take_drop_id [of 30 buf] by metis
  then have "DecodeSpanWithOptions C lzma buf keys dopts = DecodeSpanWithOptions C lzma (fst k) keys dopts"
    by (simp add: DecodeSpanWithOptions_def buf(3) r stripEncodedHeader_bare)
  then show ?thesis
    using opened buf(1) len
    by (simp add: ReadSpanWithOptions_def entry_span_def EncodedHeaderSize_def)
qed

lemma writer_ok_new: "writer_ok (NewWriter n) dk"
  by (simp add: writer_ok_def NewWriter_def)

lemma blte_Encode_item:
  assumes "blte_Encode C content opts = Ret (blte, ckey, ekey)" "codecs_ok C"
  shows "length ekey = 16" "\<exists>r. blte = putLE32 BLTESignature @ r"
  using assms by (auto simp: blte_Encode_def Let_def bnd_eq_Ret guard_eq_Ret codecs_ok_def
      frames_bytes_def single_bytes_def split: if_splits)

text \<open>The stream and key of each content, as \<^verbatim>\<open>Encode\<close> makes them.\<close>

definition encode_item :: "codecs \<Rightarrow> EncodeOptions \<Rightarrow> bytes \<Rightarrow> (bytes \<times> key) outcome" where
  "encode_item C opts content =
     bnd (blte_Encode C content opts) (\<lambda>r. Ret (fst r, snd (snd r)))"

lemma archive_stored:
  assumes "mapM (encode_item C opts) contents = Ret items" "codecs_ok C" "\<not> LZMARegistered lzma"
    and "\<forall>c\<in>set contents. length c < 2 ^ 32 - 1 \<and> length c \<le> (2 ^ 24 - 1) * opt_frameSize opts"
    and "\<forall>k\<in>set items. \<not> ekey_like_blte (snd k)"
    and "put_all store_put items (NewWriter n, dk0) = Some (es, w, dk)" "segments_fit (w, dk)"
    and "pool_files p \<noteq> None"
  shows "list_all2 (\<lambda>c e. fst (ReadSpanWithOptions C lzma dk e keys dopts p) = Ret c) contents es"
proof -
  have len: "length items = length contents" by (rule mapM_Ret_length [OF assms(1)])
  have item: "item_ok (items ! i) \<and> DecodeSpanWithOptions C lzma (fst (items ! i)) keys dopts = Ret (contents ! i)"
    if lt: "i < length contents" for i
  proof -
    obtain blte ckey ekey where enc: "blte_Encode C (contents ! i) opts = Ret (blte, ckey, ekey)"
        and it: "items ! i = (blte, ekey)"
      using mapM_Ret_nth [OF assms(1) lt] by (auto simp: encode_item_def bnd_eq_Ret)
    have "items ! i \<in> set items" "contents ! i \<in> set contents" using lt len by auto
    then show ?thesis
      using blte_readback [OF enc assms(2,3)] blte_Encode_item [OF enc assms(2)] assms(4,5)
      by (auto simp: item_ok_def it)
  qed
  have "list_all span_ok items"
    using item len by (auto simp: list_all_length span_ok_def item_ok_def)
  then have "list_all2 (\<lambda>k e. store_get (w, dk) e = Some (id k)) items es"
    using assms(6,7) by (intro archive.put_all_get) (auto simp: writer_ok_new)
  then show ?thesis
    using item len ReadSpan_stored [OF _ _ assms(8), of "(w, dk)"]
    by (auto simp: list_all2_conv_all_nth)
qed

text \<open>
  C3. Contents encoded by datafile.Encode and appended one after the other with WriteSpan, to
  any directory, are each returned by ReadSpan from the entry WriteSpan gave for them, after
  all the writes, as long as no segment grew past the reach of a 32-bit offset, no encoded key
  imitates the BLTE signature, the contents fit the 24-bit frame count and stay below four
  gigabytes, and no LZMA decoder is registered.
\<close>

theorem archive_readback:
  assumes "mapM (encode_item C opts) contents = Ret items" "codecs_ok C" "\<not> LZMARegistered lzma"
    and "\<forall>c\<in>set contents. length c < 2 ^ 32 - 1 \<and> length c \<le> (2 ^ 24 - 1) * opt_frameSize opts"
    and "\<forall>k\<in>set items. \<not> ekey_like_blte (snd k)"
    and "put_all store_put items (NewWriter n, dk0) = Some (es, w, dk)" "segments_fit (w, dk)"
    and "pool_files p \<noteq> None"
  shows "list_all2 (\<lambda>c e. fst (ReadSpan C lzma dk e keys p) = Ret c) contents es"
  unfolding ReadSpan_def by (rule archive_stored [OF assms])

section \<open>Segment sizes\<close>

text \<open>
  The states a writer goes through on a directory that starts empty, without operating-system
  failures. The number counts the successful writes.
\<close>

inductive writer_run :: "u64 \<Rightarrow> nat \<Rightarrow> Writer \<Rightarrow> disk \<Rightarrow> bool" for cap where
  run_new: "writer_run cap 0 (NewWriter cap) (\<lambda>_. None)"
| run_write: "writer_run cap n w dk \<Longrightarrow> length ekey = 16 \<Longrightarrow> length blte < 2 ^ 63 \<Longrightarrow>
    WriteSpan no_faults blte ekey w dk = (Ret e, w', dk') \<Longrightarrow> writer_run cap (Suc n) w' dk'"
| run_refused: "writer_run cap n w dk \<Longrightarrow>
    WriteSpan no_faults blte ekey w dk = (Fail err, w', dk') \<Longrightarrow> writer_run cap n w' dk'"
| run_close: "writer_run cap n w dk \<Longrightarrow> writer_Close no_faults w = (r, w') \<Longrightarrow> writer_run cap n w' dk"

lemma WriteSpan_Fail:
  assumes "WriteSpan no_faults blte ekey w dk = (Fail err, w', dk')" "writer_ok w dk"
    and "w_segmentFile w \<noteq> Some ClosedHandle"
  shows "w' = w \<and> dk' = dk"
proof (rule ccontr)
  assume neq: "\<not> (w' = w \<and> dk' = dk)"
  let ?n = "word_of_nat (30 + length blte) :: u64"
  from neq assms(1) obtain r w1 where roll: "rollover no_faults ?n w = (r, w1)"
    and rest: "(case r of Ret _ \<Rightarrow> if w_segmentFile w1 = None then
                  (case openSegment no_faults w1 dk of
                     (Ret _, w2, dk2) \<Rightarrow> append_span no_faults blte ekey ?n w2 dk2
                   | (Fail e, w2, dk2) \<Rightarrow> (Fail e, w2, dk2)
                   | (Panic, w2, dk2) \<Rightarrow> (Panic, w2, dk2))
                else append_span no_faults blte ekey ?n w1 dk
              | Fail e \<Rightarrow> (Fail e, w1, dk) | Panic \<Rightarrow> (Panic, w1, dk)) = (Fail err, w', dk')"
    by (auto simp: WriteSpan_def Let_def EncodedHeaderSize_def simp del: of_nat_add
        split: if_splits outcome.splits prod.splits)
  have w1: "r = Ret ()" "w_segmentFile w1 = None \<or> w1 = w"
    using roll assms(3) by (auto simp: rollover_def no_faults_def split: if_splits)
  show False
  proof (cases "w_segmentFile w1")
    case None
    obtain w2 dk2 where o: "openSegment no_faults w1 dk = (Ret (), w2, dk2)"
      by (auto simp: openSegment_def no_faults_def Let_def)
    then show False
      using rest w1(1) None append_span_end [OF at_end_openSegment(1) [OF o]] by simp
  next
    case (Some h)
    then obtain old where "at_end w dk old"
      using assms(2,3) w1(2) by (cases h) (auto simp: writer_ok_def at_end_def)
    then show False
      using rest w1 Some append_span_end by auto
  qed
qed

definition seg_cap :: "u64 \<Rightarrow> nat" where
  "seg_cap cap = unat (if cap = 0 then DefaultSegmentSize else cap)"

definition run_inv :: "u64 \<Rightarrow> nat \<Rightarrow> Writer \<Rightarrow> disk \<Rightarrow> bool" where
  "run_inv cap n w dk \<longleftrightarrow>
     writer_ok w dk \<and> w_segmentFile w \<noteq> Some ClosedHandle \<and> unat (w_segmentSize w) = seg_cap cap \<and>
     unat (w_segmentIndex w) \<le> n \<and>
     (\<forall>i. length (seg_content dk i) \<le> seg_cap cap) \<and>
     (\<forall>i. w_segmentIndex w < i \<longrightarrow> seg_content dk i = []) \<and>
     (w_segmentFile w = None \<longrightarrow> w_closed w \<or> seg_content dk (w_segmentIndex w) = [])"

lemma run_inv_new: "run_inv cap 0 (NewWriter cap) (\<lambda>_. None)"
  by (simp add: run_inv_def writer_ok_new) (simp add: NewWriter_def seg_cap_def seg_content_def)

lemma WriteSpan_checks:
  "WriteSpan io blte ekey w dk = (Ret e, s) \<Longrightarrow>
   \<not> w_closed w \<and> word_of_nat (30 + length blte) \<le> w_segmentSize w"
  by (auto simp: WriteSpan_def Let_def EncodedHeaderSize_def not_less simp del: of_nat_add split: if_splits)

lemma span_fits_unat:
  assumes "span_fits w blte" "w_segmentOffs w = word_of_nat k" "k \<le> c" "30 + length blte \<le> c"
    and "c < 2 ^ 63" "unat (w_segmentSize w) = c"
  shows "k + (30 + length blte) \<le> c"
proof -
  have "(word_of_nat k + word_of_nat (30 + length blte) :: u64) = word_of_nat (k + (30 + length blte))"
    by simp
  moreover have "unat (word_of_nat (k + (30 + length blte)) :: u64) = k + (30 + length blte)"
    using assms(3-5) by (intro unat_word_of_nat) simp
  ultimately show ?thesis
    using assms(1,2,6) by (simp add: span_fits_def word_le_nat_alt del: of_nat_add)
qed

lemma run_inv_write:
  assumes inv: "run_inv cap n w dk" and n: "Suc n < 2 ^ 32" and cap: "seg_cap cap < 2 ^ 63"
    and k: "length ekey = 16" "length blte < 2 ^ 63"
    and W: "WriteSpan no_faults blte ekey w dk = (Ret e, w', dk')"
  shows "run_inv cap (Suc n) w' dk'"
proof -
  let ?c = "seg_cap cap"
  let ?i = "w_segmentIndex w"
  have ok: "writer_ok w dk" "w_segmentFile w \<noteq> Some ClosedHandle" "unat (w_segmentSize w) = ?c"
    "unat ?i \<le> n" "\<And>i. length (seg_content dk i) \<le> ?c" "\<And>i. ?i < i \<Longrightarrow> seg_content dk i = []"
    "w_segmentFile w = None \<Longrightarrow> w_closed w \<or> seg_content dk ?i = []"
    using inv unfolding run_inv_def by blast+
  have len: "30 + length blte \<le> ?c"
  proof -
    have "unat (word_of_nat (30 + length blte) :: u64) = 30 + length blte"
      using k(2) by (intro unat_word_of_nat) simp
    then show ?thesis
      using WriteSpan_checks [OF W] ok(3) by (simp add: word_le_nat_alt del: of_nat_add)
  qed
  have succ: "unat (?i + 1) = Suc (unat ?i)" "?i < ?i + 1"
  proof -
    have "unat (word_of_nat (Suc (unat ?i)) :: u32) = Suc (unat ?i)"
      using ok(4) n by (intro unat_word_of_nat) simp
    then show u: "unat (?i + 1) = Suc (unat ?i)" by (simp add: add.commute)
    then show "?i < ?i + 1" by (simp add: word_less_nat_alt)
  qed
  show ?thesis
  proof (rule WriteSpan_Ret [OF W ok(1)])
    fix old
    assume R: "old = seg_content dk (w_segmentIndex w')"
      "dk' = dk(w_segmentIndex w' := Some (old @ span_of blte ekey (length old)))"
      "w_segmentFile w' = Some (AtPos (length (old @ span_of blte ekey (length old))))"
      "w_segmentOffs w' = word_of_nat (length old) + word_of_nat (30 + length blte)"
      "w_segmentSize w' = w_segmentSize w" "w_segmentIndex w' = next_index w blte"
    have bound: "length old + (30 + length blte) \<le> ?c"
    proof (cases "w_segmentFile w = None \<or> \<not> span_fits w blte")
      case True
      then have "old = []"
        using ok(6,7) succ(2) WriteSpan_checks [OF W] by (auto simp: R(1,6) next_index_def)
      then show ?thesis using len by simp
    next
      case False
      then obtain f where "at_end w dk f" and i: "w_segmentIndex w' = ?i"
        using ok(1,2) unfolding writer_ok_def at_end_def R(6) next_index_def
        by (metis handle.exhaust option.exhaust)
      then have "w_segmentOffs w = word_of_nat (length old)"
        by (simp add: R(1) i at_end_def seg_content_def)
      then show ?thesis
        using False ok(5) len cap ok(3) by (intro span_fits_unat [of w]) (simp_all add: R(1))
    qed
    have idx: "?i \<le> w_segmentIndex w'" "unat (w_segmentIndex w') \<le> Suc n"
      using succ ok(4) by (auto simp: R(6) next_index_def)
    show ?thesis
      unfolding run_inv_def
    proof (intro conjI)
      show "writer_ok w' dk'" using k(1) R by (simp add: writer_ok_def)
      show "\<forall>i. length (seg_content dk' i) \<le> ?c"
        using ok(5) bound k(1) by (simp add: R(2) seg_content_upd_other)
      show "\<forall>i. w_segmentIndex w' < i \<longrightarrow> seg_content dk' i = []"
        using ok(6) idx(1) by (auto simp: R(2) seg_content_upd_other)
    qed (use R ok(3) idx(2) in auto)
  qed
qed

lemma run_inv_close:
  assumes "run_inv cap n w dk" "writer_Close no_faults w = (r, w')"
  shows "run_inv cap n w' dk"
  using assms by (auto simp: run_inv_def writer_Close_def writer_ok_def split: option.splits)

lemma writer_run_inv: "writer_run cap n w dk \<Longrightarrow> n < 2 ^ 32 \<Longrightarrow> seg_cap cap < 2 ^ 63 \<Longrightarrow> run_inv cap n w dk"
proof (induction rule: writer_run.induct)
  case run_new
  then show ?case using run_inv_new by simp
next
  case (run_write n w dk ekey blte e w' dk')
  then show ?case using run_inv_write [of cap n w dk ekey blte] by simp
next
  case (run_refused n w dk blte ekey err w' dk')
  then have "run_inv cap n w dk" by simp
  then show ?case
    using WriteSpan_Fail [OF run_refused(2)] by (simp add: run_inv_def)
next
  case (run_close n w dk r w')
  then show ?case using run_inv_close by simp
qed

text \<open>
  C7. On a directory that starts empty and without I/O failures, no sequence of writes, refused
  writes and closes makes a data.NNN segment larger than the configured segment size.
\<close>

theorem segments_bounded:
  assumes "writer_run cap n w dk" "n < 2 ^ 32" "seg_cap cap < 2 ^ 63"
  shows "length (seg_content dk i) \<le> seg_cap cap"
  using writer_run_inv [OF assms] by (simp add: run_inv_def)

section \<open>Where the bound and the entries fail\<close>

text \<open>The first write of a new writer goes behind whatever data.000 holds.\<close>

lemma WriteSpan_new:
  fixes dk :: disk
  assumes "8 \<le> length blte" "30 + length blte \<le> seg_cap cap" "length ekey = 16"
  defines "old \<equiv> seg_content dk 0"
  shows "\<exists>e w. WriteSpan no_faults blte ekey (NewWriter cap) dk =
    (Ret e, w, dk(0 \<mapsto> old @ span_of blte ekey (length old)))"
proof -
  have "seg_cap cap < 2 ^ 64"
    using unsigned_less [of "if cap = 0 then DefaultSegmentSize else cap", where ?'a = nat]
    by (simp add: seg_cap_def)
  then have "unat (word_of_nat (30 + length blte) :: u64) = 30 + length blte"
    using assms(2) by (intro unat_word_of_nat) simp
  then have n: "\<not> w_segmentSize (NewWriter cap) < word_of_nat (30 + length blte)"
    using assms(2) by (simp add: NewWriter_def seg_cap_def word_less_nat_alt del: of_nat_add)
  have w: "\<not> w_closed (NewWriter cap)" "w_segmentFile (NewWriter cap) = None"
    "w_segmentIndex (NewWriter cap) = 0" "\<not> length blte < 8"
    using assms(1) by (simp_all add: NewWriter_def)
  obtain w2 dk2 where o: "openSegment no_faults (NewWriter cap) dk = (Ret (), w2, dk2)"
    by (auto simp: openSegment_def no_faults_def Let_def)
  have "at_end w2 dk2 old" "dk2 = dk(0 \<mapsto> old)" "w_segmentIndex w2 = 0"
    using at_end_openSegment(1-3) [OF o] w(3) by (simp_all add: old_def)
  then show ?thesis
    unfolding WriteSpan_def Let_def EncodedHeaderSize_def
    using w n o by (simp add: rollover_def append_span_end del: of_nat_add)
qed

lemma no_disk [simp]: "seg_content (\<lambda>_. None) i = []"
  by (simp add: seg_content_def)

theorem reopened_segment_overflows:
  assumes "8 \<le> length blte" "30 + length blte \<le> seg_cap cap" "length ekey = 16"
  shows "\<exists>e w. WriteSpan no_faults blte ekey (NewWriter cap) [0 \<mapsto> old] =
    (Ret e, w, [0 \<mapsto> old @ span_of blte ekey (length old)])"
  using WriteSpan_new [OF assms, of "[0 \<mapsto> old]"] by (simp add: seg_content_def)

theorem reopened_segment_overflows_witness:
  "seg_cap 40 = 40 \<and> (\<exists>e w. WriteSpan no_faults (replicate 8 1) (replicate 16 2) (NewWriter 40) [0 \<mapsto> replicate 39 0] =
    (Ret e, w, [0 \<mapsto> replicate 39 0 @ span_of (replicate 8 1) (replicate 16 2) (length (replicate 39 (0 :: u8)))]))"
  using reopened_segment_overflows [of "replicate 8 1" 40 "replicate 16 2" "replicate 39 0"]
  by (simp add: seg_cap_def)

text \<open>
  When the write of the stream itself is refused, the header is already in the file but
  \<^verbatim>\<open>segmentOffs\<close> has not moved: the entry of the next span points at the wrong header.
\<close>

definition stream_refused :: io_faults where
  "stream_refused = no_faults\<lparr>io_write2 := Some 0\<rparr>"

lemma small_span:
  assumes "30 + length blte \<le> 2 ^ 29"
  shows "\<not> DefaultSegmentSize < word_of_nat (30 + length blte)"
proof -
  have "unat (word_of_nat (30 + length blte) :: u64) = 30 + length blte"
    using assms by (intro unat_word_of_nat) simp
  then show ?thesis
    using assms by (simp add: DefaultSegmentSize_def word_less_nat_alt del: of_nat_add)
qed

lemma stream_refused_state:
  assumes "8 \<le> length blte" "30 + length blte \<le> 2 ^ 29" "length ekey = 16"
  defines "h \<equiv> buildEncodedHeader ekey (word_of_nat (length blte)) 0"
  shows "WriteSpan stream_refused blte ekey (NewWriter 0) (\<lambda>_. None) =
    (Fail ErrOther, (NewWriter 0)\<lparr>w_segmentFile := Some (AtPos 30)\<rparr>, [0 \<mapsto> h])"
  using assms(1,3) small_span [OF assms(2)]
  by (simp add: WriteSpan_def Let_def EncodedHeaderSize_def NewWriter_def rollover_def openSegment_def
      append_span_def seg_write_def stream_refused_def no_faults_def seg_content_def write_file_def h_def
      del: of_nat_add)

theorem failed_write_shifts_entries:
  assumes "8 \<le> length blte1" "30 + length blte1 \<le> 2 ^ 29" "length ekey1 = 16"
    and "8 \<le> length blte2" "30 + length blte2 \<le> 2 ^ 29" "length ekey2 = 16"
    and "WriteSpan stream_refused blte1 ekey1 (NewWriter 0) (\<lambda>_. None) = (r1, w1, dk1)"
  shows "\<exists>w2 e. WriteSpan no_faults blte2 ekey2 w1 dk1 = (Ret e, w2,
      [0 \<mapsto> buildEncodedHeader ekey1 (word_of_nat (length blte1)) 0 @ span_of blte2 ekey2 0])
    \<and> ee_ArchiveIndex e = 0 \<and> ee_ArchiveOffs e = 0"
proof -
  define h where "h = buildEncodedHeader ekey1 (word_of_nat (length blte1)) 0"
  have h: "length h = 30" using assms(3) by (simp add: h_def)
  have w1: "w1 = (NewWriter 0)\<lparr>w_segmentFile := Some (AtPos 30)\<rparr>" "dk1 = [0 \<mapsto> h]"
    using assms(7) stream_refused_state [OF assms(1-3)] by (simp_all add: h_def)
  show ?thesis
    using assms(4,6) small_span [OF assms(5)] h
    unfolding h_def [symmetric] w1
    by (simp add: WriteSpan_def Let_def EncodedHeaderSize_def NewWriter_def rollover_def
      append_span_def seg_write_def no_faults_def seg_content_def write_file_def span_of_def span_entry_def
      del: of_nat_add)
qed

theorem failed_write_shifts_entries_witness:
  "\<exists>r1 w1 dk1. WriteSpan stream_refused (replicate 8 1) (replicate 16 2) (NewWriter 0) (\<lambda>_. None) = (r1, w1, dk1) \<and>
    (\<exists>w2 e. WriteSpan no_faults (replicate 9 3) (replicate 16 4) w1 dk1 = (Ret e, w2,
      [0 \<mapsto> buildEncodedHeader (replicate 16 2) (word_of_nat (length (replicate 8 (1 :: u8)))) 0 @
        span_of (replicate 9 3) (replicate 16 4) 0])
    \<and> ee_ArchiveIndex e = 0 \<and> ee_ArchiveOffs e = 0)"
proof -
  obtain r1 w1 dk1 where W: "WriteSpan stream_refused (replicate 8 1) (replicate 16 2) (NewWriter 0) (\<lambda>_. None) = (r1, w1, dk1)"
    by (metis prod.exhaust)
  then show ?thesis
    using failed_write_shifts_entries [OF _ _ _ _ _ _ W, of "replicate 9 3" "replicate 16 4"] by simp
qed

section \<open>The theorems at work\<close>

text \<open>One content through \<^verbatim>\<open>Encode\<close>, \<^verbatim>\<open>WriteSpan\<close> and \<^verbatim>\<open>ReadSpan\<close>.\<close>

definition raw_single :: EncodeOptions where
  "raw_single = \<lparr>eo_Mode = EncodeRaw, eo_FrameSize = 0, eo_SingleFrameNoHeader = True\<rparr>"

lemma four_zeros: "replicate 4 (0 :: u8) = [0, 0, 0, 0]"
  by (simp add: numeral_eq_Suc)

lemma raw_single_item:
  "encode_item run_codecs raw_single [1, 2, 3] =
     Ret ([0x42, 0x4C, 0x54, 0x45, 0, 0, 0, 0, 0x4E, 1, 2, 3],
          [3, 2, 1, 0x4E, 0, 0, 0, 0, 0x45, 0x54, 0x4C, 0x42, 0, 0, 0, 0])"
  by (simp add: encode_item_def blte_Encode_def Let_def raw_single_def EncodeRaw_def EncodeZlib_def
      encodeFrame_def single_bytes_def putLE32_def BLTESignature_def le_bytes_numeral run_codecs_def
      fit_def four_zeros)

theorem archive_readback_witness:
  "\<exists>items es w dk. mapM (encode_item run_codecs raw_single) [[1, 2, 3]] = Ret items
     \<and> put_all store_put items (NewWriter 0, \<lambda>_. None) = Some (es, w, dk)
     \<and> list_all2 (\<lambda>c e. fst (ReadSpan run_codecs None dk e None NewPool) = Ret c) [[1, 2, 3]] es"
proof -
  let ?b = "[0x42, 0x4C, 0x54, 0x45, 0, 0, 0, 0, 0x4E, 1, 2, 3] :: bytes"
  let ?k = "[3, 2, 1, 0x4E, 0, 0, 0, 0, 0x45, 0x54, 0x4C, 0x42, 0, 0, 0, 0] :: bytes"
  have items: "mapM (encode_item run_codecs raw_single) [[1, 2, 3]] = Ret [(?b, ?k)]"
    by (simp add: raw_single_item)
  obtain e w where W: "WriteSpan no_faults ?b ?k (NewWriter 0) (\<lambda>_. None) = (Ret e, w, [0 \<mapsto> span_of ?b ?k 0])"
    using WriteSpan_new [of ?b 0 ?k "\<lambda>_. None"] by (auto simp: seg_cap_def DefaultSegmentSize_def)
  have put: "put_all store_put [(?b, ?k)] (NewWriter 0, \<lambda>_. None) = Some ([e], w, [0 \<mapsto> span_of ?b ?k 0])"
    by (simp add: store_put_def W)
  have "segments_fit (w, [0 \<mapsto> span_of ?b ?k 0])"
    by (simp add: segments_fit_def seg_content_def)
  then have "list_all2 (\<lambda>c e. fst (ReadSpan run_codecs None [0 \<mapsto> span_of ?b ?k 0] e None NewPool) = Ret c)
      [[1, 2, 3]] [e]"
    using run_codecs_ok put
    by (intro archive_readback [OF items]) (simp_all add: ekey_like_blte_def NewPool_def
        opt_frameSize_def raw_single_def defaultFrameSize_def)
  then show ?thesis using items put by blast
qed

theorem segments_bounded_witness:
  "\<exists>w dk. writer_run 100 1 w dk \<and> length (seg_content dk 0) = 38 \<and> length (seg_content dk 0) \<le> seg_cap 100"
proof -
  obtain e w where W: "WriteSpan no_faults (replicate 8 1) (replicate 16 2) (NewWriter 100) (\<lambda>_. None) =
      (Ret e, w, [0 \<mapsto> span_of (replicate 8 1) (replicate 16 2) 0])"
    using WriteSpan_new [of "replicate 8 1" 100 "replicate 16 2" "\<lambda>_. None"] by (auto simp: seg_cap_def)
  have run: "writer_run 100 (Suc 0) w [0 \<mapsto> span_of (replicate 8 1) (replicate 16 2) 0]"
    by (rule run_write [OF run_new _ _ W]) simp_all
  show ?thesis
    using run segments_bounded [OF run, of 0] by (force simp: seg_cap_def)
qed

end
