(* ===== verification/GoText.thy ===== *)
theory GoText
  imports Prelude
begin

text \<open>
  The text functions of Go's standard library that the program's line-based formats use, on
  byte strings: \<^verbatim>\<open>bufio.Scanner\<close> with its maximal token size, \<^verbatim>\<open>strings.TrimSpace\<close> with the
  Unicode spaces in their UTF-8 form, \<^verbatim>\<open>strings.Fields\<close>, \<^verbatim>\<open>strings.IndexByte\<close> and \<^verbatim>\<open>encoding/hex\<close>.
\<close>

unbundle bit_operations_syntax

section \<open>Lines\<close>

text \<open>
  \<^verbatim>\<open>ScanLines\<close> drops the newline and one carriage return before it. A line that fills the
  scanner's buffer before its newline is seen stops the scan with an error; the lines before
  it have been delivered. The flag is \<^verbatim>\<open>sc.Err() != nil\<close>.
\<close>

definition drop_cr :: "bytes \<Rightarrow> bytes" where
  "drop_cr line = (if line \<noteq> [] \<and> last line = 13 then butlast line else line)"

function scan_lines :: "nat \<Rightarrow> bytes \<Rightarrow> bytes list \<times> bool" where
  "scan_lines maxlen data =
     (if data = [] then ([], False)
      else
        let line = takeWhile (\<lambda>b. b \<noteq> 10) data; rest = dropWhile (\<lambda>b. b \<noteq> 10) data in
        if maxlen \<le> length line then ([], True)
        else
          let (ls, err) = scan_lines maxlen (tl rest) in (drop_cr line # ls, err))"
  by pat_completeness auto
termination
proof (relation "measure (\<lambda>(m, data). length data)", goal_cases)
  case (2 maxlen data line rest)
  have "length (dropWhile (\<lambda>b. b \<noteq> 10) data) \<le> length data" by (rule length_dropWhile_le)
  then have "length (tl (dropWhile (\<lambda>b. b \<noteq> 10) data)) < length data"
  proof -
    assume "length (dropWhile (\<lambda>b. b \<noteq> 10) data) \<le> length data"
    moreover have "0 < length data" using 2(1) by simp
    ultimately show ?thesis unfolding length_tl by linarith
  qed
  then show ?case using 2 by simp
qed simp

declare scan_lines.simps [simp del]

text \<open>Text made of lines with a newline after each scans back to the lines.\<close>

definition plain_line :: "nat \<Rightarrow> bytes \<Rightarrow> bool" where
  "plain_line maxlen line \<longleftrightarrow> 10 \<notin> set line \<and> length line < maxlen \<and> (line = [] \<or> last line \<noteq> 13)"

lemma scan_lines_join:
  "\<forall>l\<in>set ls. plain_line maxlen l \<Longrightarrow> scan_lines maxlen (concat (map (\<lambda>l. l @ [10]) ls)) = (ls, False)"
proof (induction ls)
  case (Cons l ls)
  have l: "\<forall>b\<in>set l. b \<noteq> 10" "length l < maxlen" "drop_cr l = l"
    using Cons.prems by (auto simp: plain_line_def drop_cr_def)
  show ?case
    using l Cons by (subst scan_lines.simps) (auto simp: takeWhile_append2 dropWhile_append2)
qed (simp add: scan_lines.simps)

section \<open>White space\<close>

definition ascii_space :: "u8 \<Rightarrow> bool" where
  "ascii_space b \<longleftrightarrow> b \<in> {9, 10, 11, 12, 13, 32}"

text \<open>The length of the white-space character a string starts with, 0 if it starts with none.\<close>

fun space_prefix :: "bytes \<Rightarrow> nat" where
  "space_prefix (a # b # c # r) =
     (if ascii_space a then 1
      else if a = 0xC2 \<and> (b = 0x85 \<or> b = 0xA0) then 2
      else if a = 0xE1 \<and> b = 0x9A \<and> c = 0x80 then 3
      else if a = 0xE2 \<and> b = 0x80 \<and> (0x80 \<le> c \<and> c \<le> 0x8A \<or> c = 0xA8 \<or> c = 0xA9 \<or> c = 0xAF) then 3
      else if a = 0xE2 \<and> b = 0x81 \<and> c = 0x9F then 3
      else if a = 0xE3 \<and> b = 0x80 \<and> c = 0x80 then 3
      else 0)"
| "space_prefix (a # r) =
     (if ascii_space a then 1
      else if a = 0xC2 \<and> (r = [0x85] \<or> r = [0xA0]) then 2
      else 0)"
| "space_prefix [] = 0"

text \<open>The same for the end of a string, read backwards.\<close>

fun space_suffix :: "bytes \<Rightarrow> nat" where
  "space_suffix (c # b # a # r) =
     (if ascii_space c then 1
      else if b = 0xC2 \<and> (c = 0x85 \<or> c = 0xA0) then 2
      else if a = 0xE1 \<and> b = 0x9A \<and> c = 0x80 then 3
      else if a = 0xE2 \<and> b = 0x80 \<and> (0x80 \<le> c \<and> c \<le> 0x8A \<or> c = 0xA8 \<or> c = 0xA9 \<or> c = 0xAF) then 3
      else if a = 0xE2 \<and> b = 0x81 \<and> c = 0x9F then 3
      else if a = 0xE3 \<and> b = 0x80 \<and> c = 0x80 then 3
      else 0)"
| "space_suffix (c # r) =
     (if ascii_space c then 1
      else if r = [0xC2] \<and> (c = 0x85 \<or> c = 0xA0) then 2
      else 0)"
| "space_suffix [] = 0"

function trim_with :: "(bytes \<Rightarrow> nat) \<Rightarrow> bytes \<Rightarrow> bytes" where
  "trim_with f s = (if s = [] \<or> f s = 0 then s else trim_with f (drop (f s) s))"
  by pat_completeness auto
termination
  by (relation "measure (\<lambda>(f, s). length s)") auto

declare trim_with.simps [simp del]

definition TrimSpace :: "bytes \<Rightarrow> bytes" where
  "TrimSpace s = rev (trim_with space_suffix (rev (trim_with space_prefix s)))"

text \<open>A string whose ends are plain ASCII, and not white space, is left as it is.\<close>

definition plain_byte :: "u8 \<Rightarrow> bool" where
  "plain_byte b \<longleftrightarrow> b < 0x80 \<and> \<not> ascii_space b"

lemma space_prefix_plain: "plain_byte a \<Longrightarrow> space_prefix (a # r) = 0"
  by (cases "(a # r)" rule: space_prefix.cases) (auto simp: plain_byte_def)

lemma space_suffix_plain: "plain_byte a \<Longrightarrow> space_suffix (a # r) = 0"
  by (cases "(a # r)" rule: space_suffix.cases) (auto simp: plain_byte_def)

lemma TrimSpace_plain:
  assumes "s = [] \<or> plain_byte (hd s) \<and> plain_byte (last s)"
  shows "TrimSpace s = s"
proof (cases "s = []")
  case True
  then show ?thesis by (simp add: TrimSpace_def trim_with.simps)
next
  case False
  then obtain a t b u where "s = a # t" "rev s = b # u" and ab: "plain_byte a" "plain_byte b"
    using assms by (metis hd_rev list.exhaust_sel rev_is_Nil_conv)
  then have "trim_with space_prefix s = s" "trim_with space_suffix (rev s) = rev s"
    by (simp_all add: trim_with.simps space_prefix_plain space_suffix_plain)
  then show ?thesis by (simp add: TrimSpace_def)
qed

section \<open>Searching and hexadecimal\<close>

fun index_byte :: "u8 \<Rightarrow> bytes \<Rightarrow> nat option" where
  "index_byte c [] = None"
| "index_byte c (b # bs) = (if b = c then Some 0 else map_option Suc (index_byte c bs))"

lemma index_byte_append: "c \<notin> set xs \<Longrightarrow> index_byte c (xs @ c # r) = Some (length xs)"
  by (induction xs) auto

lemma index_byte_None: "index_byte c xs = None \<longleftrightarrow> c \<notin> set xs"
  by (induction xs) auto

lemma index_byte_lt: "index_byte c xs = Some i \<Longrightarrow> i < length xs"
  by (induction xs arbitrary: i) (auto split: if_splits)

definition hex_digit :: "nat \<Rightarrow> u8" where
  "hex_digit n = (if n < 10 then word_of_nat (0x30 + n) else word_of_nat (0x61 + (n - 10)))"

definition hex_val :: "u8 \<Rightarrow> nat option" where
  "hex_val c =
     (if 0x30 \<le> c \<and> c \<le> 0x39 then Some (unat c - 0x30)
      else if 0x61 \<le> c \<and> c \<le> 0x66 then Some (unat c - 0x61 + 10)
      else if 0x41 \<le> c \<and> c \<le> 0x46 then Some (unat c - 0x41 + 10)
      else None)"

text \<open>\<^verbatim>\<open>hex.EncodeToString\<close> and \<^verbatim>\<open>hex.DecodeString\<close> (\<open>None\<close> is the error).\<close>

fun hex_encode :: "bytes \<Rightarrow> bytes" where
  "hex_encode [] = []"
| "hex_encode (b # bs) = hex_digit (unat b div 16) # hex_digit (unat b mod 16) # hex_encode bs"

fun hex_decode :: "bytes \<Rightarrow> bytes option" where
  "hex_decode [] = Some []"
| "hex_decode [c] = None"
| "hex_decode (c # d # r) =
     (case (hex_val c, hex_val d) of
        (Some h, Some l) \<Rightarrow> map_option (\<lambda>bs. word_of_nat (16 * h + l) # bs) (hex_decode r)
      | _ \<Rightarrow> None)"

lemma hex_val_digit [simp]: "n < 16 \<Longrightarrow> hex_val (hex_digit n) = Some n"
proof -
  have "list_all (\<lambda>n. hex_val (hex_digit n) = Some n) [0..<16]" by code_simp
  then show "n < 16 \<Longrightarrow> hex_val (hex_digit n) = Some n" by (simp add: list_all_iff)
qed

lemma length_hex_encode [simp]: "length (hex_encode bs) = 2 * length bs"
  by (induction bs) auto

lemma hex_decode_encode [simp]: "hex_decode (hex_encode bs) = Some bs"
proof (induction bs)
  case (Cons b bs)
  have "unat b div 16 < 16" using unat_u8_lt [of b] by simp
  moreover have "word_of_nat (16 * (unat b div 16) + unat b mod 16) = b"
    by (simp only: mult_div_mod_eq) simp
  ultimately show ?case using Cons by simp
qed simp

lemma hex_digit_plain: "n < 16 \<Longrightarrow> plain_byte (hex_digit n) \<and> hex_digit n \<noteq> 0x7C"
proof -
  have "list_all (\<lambda>n. plain_byte (hex_digit n) \<and> hex_digit n \<noteq> 0x7C) [0..<16]" by code_simp
  then show "n < 16 \<Longrightarrow> plain_byte (hex_digit n) \<and> hex_digit n \<noteq> 0x7C" by (simp add: list_all_iff)
qed

lemma hex_encode_plain: "c \<in> set (hex_encode bs) \<Longrightarrow> plain_byte c \<and> c \<noteq> 0x7C"
proof (induction bs)
  case (Cons b bs)
  have "unat b div 16 < 16" using unat_u8_lt [of b] by simp
  then show ?case using Cons hex_digit_plain [of "unat b div 16"] hex_digit_plain [of "unat b mod 16"] by auto
qed simp

section \<open>Fields, literals and joining\<close>

text \<open>\<^verbatim>\<open>strings.Fields\<close>: the runs of bytes between white-space characters.\<close>

fun take_token :: "bytes \<Rightarrow> bytes \<times> bytes" where
  "take_token [] = ([], [])"
| "take_token (b # bs) =
     (if space_prefix (b # bs) \<noteq> 0 then ([], b # bs)
      else let (t, r) = take_token bs in (b # t, r))"

lemma take_token_length: "length (snd (take_token s)) \<le> length s"
  by (induction s) (auto split: prod.split simp: Let_def)

lemma trim_with_le: "length (trim_with f s) \<le> length s"
proof (induction f s rule: trim_with.induct)
  case (1 f s)
  then show ?case by (subst trim_with.simps) (auto intro: le_trans)
qed

lemma trim_with_stop: "trim_with f s \<noteq> [] \<Longrightarrow> f (trim_with f s) = 0"
proof (induction f s rule: trim_with.induct)
  case (1 f s)
  show ?case
  proof (cases "s = [] \<or> f s = 0")
    case True
    then show ?thesis using "1.prems" by (subst trim_with.simps) (simp add: trim_with.simps)
  next
    case False
    then have "trim_with f s = trim_with f (drop (f s) s)" by (subst trim_with.simps) simp
    then show ?thesis using 1 False by simp
  qed
qed

function Fields :: "bytes \<Rightarrow> bytes list" where
  "Fields s =
     (let s' = trim_with space_prefix s in
      if s' = [] then []
      else let (t, r) = take_token s' in t # Fields r)"
  by pat_completeness auto
termination
proof (relation "measure length", goal_cases)
  case (2 s s' p t r)
  then have ne: "trim_with space_prefix s \<noteq> []" and p: "(t, r) = take_token (trim_with space_prefix s)"
    by auto
  obtain b bs where c: "trim_with space_prefix s = b # bs" using ne by (cases "trim_with space_prefix s") auto
  have "space_prefix (b # bs) = 0" using trim_with_stop [OF ne] c by simp
  then have "length r \<le> length bs"
    using p c take_token_length [of bs] by (auto simp: Let_def split: prod.splits)
  moreover have "length (b # bs) \<le> length s" using trim_with_le [of space_prefix s] c by simp
  ultimately show ?case by simp
qed simp

declare Fields.simps [simp del]

text \<open>A literal string of the source, as bytes.\<close>

definition lit :: "string \<Rightarrow> bytes" where
  "lit s = map of_char s"

text \<open>\<^verbatim>\<open>strings.Join\<close>.\<close>

fun join :: "bytes \<Rightarrow> bytes list \<Rightarrow> bytes" where
  "join sep [] = []"
| "join sep [x] = x"
| "join sep (x # y # xs) = x @ sep @ join sep (y # xs)"

lemma join_Cons: "xs \<noteq> [] \<Longrightarrow> join sep (x # xs) = x @ sep @ join sep xs"
  by (cases xs) auto

lemma set_join: "set (join sep xs) \<subseteq> (\<Union>x\<in>set xs. set x) \<union> set sep"
  by (induction sep xs rule: join.induct) auto

definition token :: "bytes \<Rightarrow> bool" where
  "token t \<longleftrightarrow> t \<noteq> [] \<and> (\<forall>b\<in>set t. plain_byte b)"

lemma take_token_plain:
  "\<forall>b\<in>set t. plain_byte b \<Longrightarrow> s = [] \<or> space_prefix s \<noteq> 0 \<Longrightarrow> take_token (t @ s) = (t, s)"
proof (induction t)
  case Nil
  then show ?case by (cases s) auto
qed (simp add: space_prefix_plain)

lemma space_prefix_blank: "space_prefix (0x20 # r) = 1"
  by (cases "(0x20 :: u8) # r" rule: space_prefix.cases) (auto simp: ascii_space_def)

lemma trim_token: "token t \<Longrightarrow> trim_with space_prefix (t @ s) = t @ s"
  by (cases t) (simp_all add: token_def trim_with.simps space_prefix_plain)

lemma Fields_blank: "Fields (0x20 # s) = Fields s"
proof -
  have "trim_with space_prefix (0x20 # s) = trim_with space_prefix s"
    by (subst trim_with.simps) (simp add: space_prefix_blank)
  then show ?thesis by (subst (1 2) Fields.simps) simp
qed

lemma Fields_join: "\<forall>t\<in>set ts. token t \<Longrightarrow> Fields (join [0x20] ts) = ts"
proof (induction ts)
  case Nil
  then show ?case by (simp add: Fields.simps trim_with.simps)
next
  case (Cons t ts)
  then have t: "token t" "t \<noteq> []" "\<forall>b\<in>set t. plain_byte b" by (auto simp: token_def)
  show ?case
  proof (cases "ts = []")
    case True
    then show ?thesis
      using t take_token_plain [of t "[]"] trim_token [of t "[]"]
      by (subst Fields.simps) (simp add: Fields.simps trim_with.simps)
  next
    case False
    let ?r = "join [0x20] ts"
    have "Fields (t @ 0x20 # ?r) = t # Fields (0x20 # ?r)"
      using t take_token_plain [of t "0x20 # ?r"] trim_token [of t "0x20 # ?r"]
      by (subst Fields.simps) (simp add: space_prefix_blank)
    then show ?thesis using Cons False by (simp add: join_Cons Fields_blank)
  qed
qed

section \<open>Decimal numbers\<close>

text \<open>\<^verbatim>\<open>strconv.FormatUint(n, 10)\<close> and the verb \<^verbatim>\<open>%d\<close>.\<close>

fun dec :: "nat \<Rightarrow> bytes" where
  "dec n = (if n < 10 then [word_of_nat (0x30 + n)] else dec (n div 10) @ [word_of_nat (0x30 + n mod 10)])"

declare dec.simps [simp del]

lemma plain_digit: "n < 10 \<Longrightarrow> plain_byte (word_of_nat (0x30 + n))"
proof -
  have "list_all (\<lambda>n. plain_byte (word_of_nat (0x30 + n))) [0..<10]" by code_simp
  then show "n < 10 \<Longrightarrow> plain_byte (word_of_nat (0x30 + n))" by (simp add: list_all_iff)
qed

lemma dec_token: "token (dec n)"
proof (induction n rule: dec.induct)
  case (1 n)
  then show ?case
    using plain_digit [of n] plain_digit [of "n mod 10"]
    by (subst dec.simps) (auto simp: token_def)
qed

lemma hex_token: "bs \<noteq> [] \<Longrightarrow> token (hex_encode bs)"
  using hex_encode_plain [of _ bs] by (cases bs) (auto simp: token_def)

section \<open>Case and substrings\<close>

text \<open>
  \<^verbatim>\<open>strings.ToUpper\<close> and \<^verbatim>\<open>strings.ToLower\<close>. A string of ASCII bytes is mapped byte by byte;
  for any other string the library consults its Unicode tables, the argument \<open>uni\<close>.
\<close>

definition ascii :: "bytes \<Rightarrow> bool" where
  "ascii s \<longleftrightarrow> list_all (\<lambda>b. b < 0x80) s"

definition upper_byte :: "u8 \<Rightarrow> u8" where
  "upper_byte c = (if 0x61 \<le> c \<and> c \<le> 0x7A then c - 32 else c)"

definition lower_byte :: "u8 \<Rightarrow> u8" where
  "lower_byte c = (if 0x41 \<le> c \<and> c \<le> 0x5A then c + 32 else c)"

definition ToUpper :: "(bytes \<Rightarrow> bytes) \<Rightarrow> bytes \<Rightarrow> bytes" where
  "ToUpper uni s = (if ascii s then map upper_byte s else uni s)"

definition ToLower :: "(bytes \<Rightarrow> bytes) \<Rightarrow> bytes \<Rightarrow> bytes" where
  "ToLower uni s = (if ascii s then map lower_byte s else uni s)"

text \<open>\<^verbatim>\<open>strings.Contains\<close>.\<close>

fun contains :: "bytes \<Rightarrow> bytes \<Rightarrow> bool" where
  "contains [] sub \<longleftrightarrow> sub = []"
| "contains (b # bs) sub \<longleftrightarrow> take (length sub) (b # bs) = sub \<or> contains bs sub"

end
