(* ===== verification/Csv.thy ===== *)
theory Csv
  imports GoText
begin

text \<open>
  \<^verbatim>\<open>internal/csv\<close>: the pipe-separated tables of \<^verbatim>\<open>.build.info\<close> and of the Overwatch root. A table
  laid out line by line reads back cell by cell.
\<close>

record csv_File =
  cf_Headers :: "bytes list"
  cf_Rows :: "bytes list list"

section \<open>Parsing\<close>

text \<open>The loop of \<^verbatim>\<open>splitLine\<close>; the first list is \<^verbatim>\<open>s[start:i]\<close>.\<close>

fun split_from :: "u8 \<Rightarrow> bytes \<Rightarrow> bytes \<Rightarrow> bytes list" where
  "split_from sep cur [] = [cur]"
| "split_from sep cur (b # bs) =
     (if b = sep then cur # split_from sep [] bs else split_from sep (cur @ [b]) bs)"

definition splitLine :: "bytes \<Rightarrow> u8 \<Rightarrow> bytes list" where
  "splitLine s sep = split_from sep [] s"

text \<open>A header cell is cut at its \<^verbatim>\<open>!\<close>.\<close>

definition header_name :: "bytes \<Rightarrow> bytes" where
  "header_name h = TrimSpace (case index_byte 0x21 h of Some idx \<Rightarrow> take idx h | None \<Rightarrow> h)"

text \<open>The loop over the lines; the flag is \<^verbatim>\<open>first\<close>.\<close>

fun csv_lines :: "u8 \<Rightarrow> bytes list \<Rightarrow> bool \<Rightarrow> csv_File \<Rightarrow> csv_File" where
  "csv_lines sep [] first out = out"
| "csv_lines sep (line # ls) first out =
     (if line = [] then csv_lines sep ls first out
      else if first then csv_lines sep ls False (out\<lparr>cf_Headers := map header_name (splitLine line sep)\<rparr>)
      else csv_lines sep ls False (out\<lparr>cf_Rows := cf_Rows out @ [splitLine line sep]\<rparr>))"

definition csv_max_line :: nat where
  "csv_max_line = 16 * 1024 * 1024"

definition csv_ParseSep :: "bytes \<Rightarrow> u8 \<Rightarrow> csv_File outcome" where
  "csv_ParseSep data sep =
     (let (ls, err) = scan_lines csv_max_line data;
          out = csv_lines sep ls True \<lparr>cf_Headers = [], cf_Rows = []\<rparr> in
      if err then Fail ErrOther else Ret out)"

definition csv_Parse :: "bytes \<Rightarrow> csv_File outcome" where
  "csv_Parse data = csv_ParseSep data 0x7C"

section \<open>Reading cells\<close>

text \<open>\<open>None\<close> is \<^verbatim>\<open>-1\<close>.\<close>

fun column_of :: "bytes list \<Rightarrow> bytes \<Rightarrow> nat option" where
  "column_of [] name = None"
| "column_of (h # hs) name = (if h = name then Some 0 else map_option Suc (column_of hs name))"

definition csv_Column :: "csv_File \<Rightarrow> bytes \<Rightarrow> nat option" where
  "csv_Column f name = column_of (cf_Headers f) name"

definition csv_Get :: "csv_File \<Rightarrow> int \<Rightarrow> bytes \<Rightarrow> bytes outcome" where
  "csv_Get f row col =
     (case csv_Column f col of
        None \<Rightarrow> Ret []
      | Some c \<Rightarrow>
          if row < 0 \<or> int (length (cf_Rows f)) \<le> row then Ret []
          else bnd (at (cf_Rows f) (nat row)) (\<lambda>r. if length r \<le> c then Ret [] else at r c))"

lemma safe_csv_Get: "safe (csv_Get f row col)"
  by (auto simp: csv_Get_def outcome_simps safe_at split: option.split)

section \<open>Tables read back\<close>

text \<open>A cell holds neither the separator nor a newline; the last one of a row no carriage return.\<close>

definition cell_ok :: "u8 \<Rightarrow> bytes \<Rightarrow> bool" where
  "cell_ok sep c \<longleftrightarrow> sep \<notin> set c \<and> 10 \<notin> set c \<and> 13 \<notin> set c"

definition row_ok :: "u8 \<Rightarrow> bytes list \<Rightarrow> bool" where
  "row_ok sep row \<longleftrightarrow> row \<noteq> [] \<and> row \<noteq> [[]] \<and> (\<forall>c\<in>set row. cell_ok sep c) \<and> length (join [sep] row) < csv_max_line"

definition csv_text :: "u8 \<Rightarrow> bytes list list \<Rightarrow> bytes" where
  "csv_text sep rows = concat (map (\<lambda>row. join [sep] row @ [10]) rows)"

lemma split_from_cell: "sep \<notin> set c \<Longrightarrow> split_from sep cur (c @ s) = split_from sep (cur @ c) s"
  by (induction c arbitrary: cur) auto

lemma split_from_join:
  assumes "\<forall>c\<in>set (row :: bytes list). sep \<notin> set c" "row \<noteq> []"
  shows "split_from sep [] (join [sep] row) = row"
  using assms
proof (induction "[sep]" row rule: join.induct)
  case (2 x)
  then show ?case using split_from_cell [of sep x "[]" "[]"] by simp
next
  case (3 x y xs)
  then show ?case using split_from_cell [of sep x "[]" "sep # join [sep] (y # xs)"] by simp
qed simp

lemma splitLine_join: "row_ok sep row \<Longrightarrow> splitLine (join [sep] row) sep = row"
  by (simp add: splitLine_def row_ok_def cell_ok_def split_from_join)

lemma row_line:
  assumes "row_ok sep row" "sep \<noteq> 10" "sep \<noteq> 13"
  shows "plain_line csv_max_line (join [sep] row)" "join [sep] row \<noteq> []"
proof -
  have "10 \<notin> set (join [sep] row)" "13 \<notin> set (join [sep] row)"
    using assms set_join [of "[sep]" row] by (auto simp: row_ok_def cell_ok_def)
  then show "plain_line csv_max_line (join [sep] row)"
    using assms(1) by (auto simp: plain_line_def row_ok_def dest: last_in_set)
  have "join [sep] row = [] \<Longrightarrow> row = [] \<or> row = [[]]" for row :: "bytes list"
    by (induction "[sep]" row rule: join.induct) auto
  then show "join [sep] row \<noteq> []" using assms(1) by (auto simp: row_ok_def)
qed

lemma csv_lines_rows:
  "\<forall>r\<in>set rows. row_ok sep r \<Longrightarrow> sep \<noteq> 10 \<Longrightarrow> sep \<noteq> 13 \<Longrightarrow>
   csv_lines sep (map (join [sep]) rows) False out = out\<lparr>cf_Rows := cf_Rows out @ rows\<rparr>"
  by (induction rows arbitrary: out) (simp_all add: row_line(2) splitLine_join)

lemma csv_ParseSep_text:
  assumes "row_ok sep hdr" "\<forall>r\<in>set rows. row_ok sep r" "sep \<noteq> 10" "sep \<noteq> 13"
  shows "csv_ParseSep (csv_text sep (hdr # rows)) sep =
    Ret \<lparr>cf_Headers = map header_name hdr, cf_Rows = rows\<rparr>"
proof -
  have "\<forall>l\<in>set (map (join [sep]) (hdr # rows)). plain_line csv_max_line l"
    using assms row_line(1) by auto
  then have "scan_lines csv_max_line (csv_text sep (hdr # rows)) = (map (join [sep]) (hdr # rows), False)"
    using scan_lines_join [of "map (join [sep]) (hdr # rows)" csv_max_line] by (simp add: csv_text_def comp_def)
  then show ?thesis
    using assms by (simp add: csv_ParseSep_def row_line(2) splitLine_join csv_lines_rows)
qed

lemma column_of_nth:
  "distinct hs \<Longrightarrow> c < length hs \<Longrightarrow> column_of hs (hs ! c) = Some c"
  by (induction hs arbitrary: c) (auto simp: nth_Cons split: nat.splits)

lemma column_of_lt: "column_of hs name = Some c \<Longrightarrow> c < length hs"
  by (induction hs arbitrary: c) (auto split: if_splits)

text \<open>A table written row by row is parsed, and every cell is read under its column's name.\<close>

theorem csv_table_readback:
  assumes "row_ok 0x7C hdr" "\<forall>r\<in>set rows. row_ok 0x7C r" "distinct (map header_name hdr)"
    and "i < length rows" "c < length hdr" "c < length (rows ! i)"
  shows "\<exists>f. csv_Parse (csv_text 0x7C (hdr # rows)) = Ret f
    \<and> csv_Get f (int i) (header_name (hdr ! c)) = Ret (rows ! i ! c)"
proof -
  have "column_of (map header_name hdr) (header_name (hdr ! c)) = Some c"
    using column_of_nth [OF assms(3), of c] assms(5) by simp
  then show ?thesis
    using assms by (simp add: csv_Parse_def csv_ParseSep_text csv_Get_def csv_Column_def)
qed

end
