(* ===== verification/BuildCfg.thy ===== *)
theory BuildCfg
  imports Csv CascBase
begin

text \<open>
  \<^verbatim>\<open>internal/buildcfg\<close>: build and CDN configurations as \<^verbatim>\<open>name = value ...\<close> lines, and the
  \<^verbatim>\<open>.build.info\<close> table. Shown here: the order list holds exactly the names of the map, a written
  configuration parses back to itself, and the keys put into it are looked up again.
\<close>

section \<open>Configurations\<close>

record Config =
  bc_entries :: "bytes \<Rightarrow> bytes list option"
  bc_order :: "bytes list"

definition bc_New :: Config where
  "bc_New = \<lparr>bc_entries = (\<lambda>_. None), bc_order = []\<rparr>"

definition bc_Get :: "Config \<Rightarrow> bytes \<Rightarrow> bytes" where
  "bc_Get c name = (case bc_entries c name of Some (v # vs) \<Rightarrow> v | _ \<Rightarrow> [])"

text \<open>A missing name reads as the nil slice.\<close>

definition bc_All :: "Config \<Rightarrow> bytes \<Rightarrow> bytes list" where
  "bc_All c name = (case bc_entries c name of Some vs \<Rightarrow> vs | None \<Rightarrow> [])"

record bc_CKeyEntry =
  bk_CKey :: key
  bk_EKey :: key
  bk_HasEKey :: bool
  bk_ContentSize :: u64

definition decodeKey16 :: "bytes \<Rightarrow> key outcome" where
  "decodeKey16 s =
     guard (length s \<noteq> 32) ErrOther (
     case hex_decode s of None \<Rightarrow> Fail ErrOther | Some b \<Rightarrow> Ret (fit 16 b))"

definition bc_LookupCKey :: "Config \<Rightarrow> bytes \<Rightarrow> bc_CKeyEntry outcome" where
  "bc_LookupCKey c name =
     (case bc_All c name of
        [] \<Rightarrow> Fail ErrFileNotFound
      | v # vs \<Rightarrow>
          bnd (decodeKey16 v) (\<lambda>ck.
          let out = \<lparr>bk_CKey = ck, bk_EKey = zero_key, bk_HasEKey = False, bk_ContentSize = 0\<rparr> in
          case vs of
            [] \<Rightarrow> Ret out
          | w # _ \<Rightarrow>
              (case decodeKey16 w of
                 Ret ek \<Rightarrow> Ret (out\<lparr>bk_EKey := ek, bk_HasEKey := True\<rparr>)
               | Fail _ \<Rightarrow> Ret out
               | Panic \<Rightarrow> Panic)))"

definition bc_Archives :: "Config \<Rightarrow> key list outcome" where
  "bc_Archives c = mapM decodeKey16 (bc_All c (lit ''archives''))"

section \<open>Parsing\<close>

text \<open>A name's first line gives its place in the order, its last line its values.\<close>

definition bc_put :: "Config \<Rightarrow> bytes \<Rightarrow> bytes list \<Rightarrow> Config" where
  "bc_put c name values =
     \<lparr>bc_entries = (bc_entries c)(name \<mapsto> values),
      bc_order = (if bc_entries c name = None then bc_order c @ [name] else bc_order c)\<rparr>"

definition bc_line :: "Config \<Rightarrow> bytes \<Rightarrow> Config" where
  "bc_line c text =
     (let line = TrimSpace text in
      if line = [] \<or> hd line = 0x23 then c
      else
        case index_byte 0x3D line of
          None \<Rightarrow> c
        | Some eq \<Rightarrow>
            let name = TrimSpace (take eq line); rest = TrimSpace (drop (eq + 1) line) in
            if name = [] then c else bc_put c name (Fields rest))"

definition bc_max_line :: nat where
  "bc_max_line = 4 * 1024 * 1024"

definition bc_Parse :: "bytes \<Rightarrow> Config outcome" where
  "bc_Parse data =
     (let (ls, err) = scan_lines bc_max_line data in
      if err then Fail ErrOther else Ret (foldl bc_line bc_New ls))"

section \<open>Building and writing\<close>

definition bc_Set :: "Config \<Rightarrow> bytes \<Rightarrow> bytes list \<Rightarrow> Config" where
  "bc_Set c name values = bc_put c name values"

definition bc_SetKey :: "Config \<Rightarrow> bytes \<Rightarrow> key \<Rightarrow> Config" where
  "bc_SetKey c name k = bc_Set c name [hex_encode k]"

definition bc_SetKeyPair :: "Config \<Rightarrow> bytes \<Rightarrow> key \<Rightarrow> key \<Rightarrow> Config" where
  "bc_SetKeyPair c name ckey ekey = bc_Set c name [hex_encode ckey, hex_encode ekey]"

definition bc_SetSizePair :: "Config \<Rightarrow> bytes \<Rightarrow> u64 \<Rightarrow> u64 \<Rightarrow> Config" where
  "bc_SetSizePair c name contentSize encodedSize = bc_Set c name [dec (unat contentSize), dec (unat encodedSize)]"

definition bc_SetArchives :: "Config \<Rightarrow> key list \<Rightarrow> Config" where
  "bc_SetArchives c hashes = bc_Set c (lit ''archives'') (map hex_encode hashes)"

definition bc_line_text :: "Config \<Rightarrow> bytes \<Rightarrow> bytes" where
  "bc_line_text c name = name @ lit '' = '' @ join [0x20] (bc_All c name)"

definition bc_EncodeText :: "Config \<Rightarrow> bytes" where
  "bc_EncodeText c = concat (map (\<lambda>name. bc_line_text c name @ [10]) (bc_order c))"

section \<open>The \<^verbatim>\<open>.build.info\<close> table\<close>

record BuildInfoRow =
  bi_Region :: bytes
  bi_BuildKey :: bytes
  bi_CDNKey :: bytes
  bi_InstallKey :: bytes
  bi_IMSize :: bytes
  bi_CDNPath :: bytes
  bi_CDNHosts :: bytes
  bi_CDNServers :: bytes
  bi_Tags :: bytes
  bi_Armadillo :: bytes
  bi_LastActivated :: bytes
  bi_Version :: bytes
  bi_KeyRing :: bytes
  bi_Product :: bytes
  bi_UID :: bytes
  bi_BuildComplete :: bytes
  bi_BuildToken :: bytes

definition buildInfoColumns :: "bytes list" where
  "buildInfoColumns = map lit [
     ''Branch!STRING:0'',
     ''Active!DEC:1'',
     ''Build Key!HEX:16'',
     ''CDN Key!HEX:16'',
     ''Install Key!HEX:16'',
     ''IM Size!DEC:4'',
     ''CDN Path!STRING:0'',
     ''CDN Hosts!STRING:0'',
     ''CDN Servers!STRING:0'',
     ''Tags!STRING:0'',
     ''Armadillo!STRING:0'',
     ''Last Activated!STRING:0'',
     ''Build Complete!DEC:1'',
     ''Last Played!STRING:0'',
     ''Product!STRING:0'',
     ''Version!STRING:0'']"

definition buildInfo_fields :: "BuildInfoRow \<Rightarrow> bytes list" where
  "buildInfo_fields r = [bi_Region r, lit ''1'', bi_BuildKey r, bi_CDNKey r, bi_InstallKey r, bi_IMSize r,
     bi_CDNPath r, bi_CDNHosts r, bi_CDNServers r, bi_Tags r, bi_Armadillo r, bi_LastActivated r,
     bi_BuildComplete r, [], bi_Product r, bi_Version r]"

definition EncodeBuildInfo :: "BuildInfoRow list \<Rightarrow> bytes" where
  "EncodeBuildInfo rows =
     join [0x7C] buildInfoColumns @ [10] @
     concat (map (\<lambda>r. join [0x7C] (buildInfo_fields r) @ [10]) rows)"

section \<open>The order list\<close>

text \<open>The order list names every entry once.\<close>

definition bc_wf :: "Config \<Rightarrow> bool" where
  "bc_wf c \<longleftrightarrow> distinct (bc_order c) \<and> set (bc_order c) = dom (bc_entries c)"

lemma bc_wf_New [simp]: "bc_wf bc_New"
  by (simp add: bc_wf_def bc_New_def)

lemma bc_wf_put: "bc_wf c \<Longrightarrow> bc_wf (bc_put c name values)"
  by (auto simp: bc_wf_def bc_put_def)

lemma bc_wf_line: "bc_wf c \<Longrightarrow> bc_wf (bc_line c text)"
  by (auto simp: bc_line_def Let_def bc_wf_put split: option.split)

lemma bc_Parse_wf: "bc_Parse data = Ret c \<Longrightarrow> bc_wf c"
proof -
  have "bc_wf (foldl bc_line bc_New ls)" for ls
    by (induction ls rule: rev_induct) (auto intro: bc_wf_line)
  then show "bc_Parse data = Ret c \<Longrightarrow> bc_wf c"
    by (auto simp: bc_Parse_def split: prod.splits if_splits)
qed

section \<open>Configurations read back\<close>

definition name_ok :: "bytes \<Rightarrow> bool" where
  "name_ok name \<longleftrightarrow> token name \<and> 0x3D \<notin> set name \<and> hd name \<noteq> 0x23"

definition config_ok :: "Config \<Rightarrow> bool" where
  "config_ok c \<longleftrightarrow> bc_wf c \<and> (\<forall>name\<in>set (bc_order c).
     name_ok name \<and> (\<forall>v\<in>set (bc_All c name). token v) \<and> length (bc_line_text c name) < bc_max_line)"

lemma plain_byte_not [simp]:
  "\<not> plain_byte 0x20" "\<not> plain_byte 0x0A" "\<not> plain_byte 0x0D"
  by (simp_all add: plain_byte_def ascii_space_def)

lemma token_ends: "token t \<Longrightarrow> plain_byte (hd t) \<and> plain_byte (last t)"
  by (auto simp: token_def)

lemma join_ends:
  assumes "\<forall>t\<in>set ts. token t" "ts \<noteq> []"
  shows "join [0x20] ts \<noteq> []" "plain_byte (hd (join [0x20] ts))" "plain_byte (last (join [0x20] ts))"
proof -
  have "join [0x20] ts \<noteq> [] \<and> plain_byte (hd (join [0x20] ts)) \<and> plain_byte (last (join [0x20] ts))"
    using assms
  proof (induction ts)
    case (Cons t ts)
    then show ?case
      using token_ends [of t] by (cases "ts = []") (auto simp: token_def join_Cons hd_append)
  qed simp
  then show "join [0x20] ts \<noteq> []" "plain_byte (hd (join [0x20] ts))" "plain_byte (last (join [0x20] ts))"
    by auto
qed

lemma TrimSpace_token: "token t \<Longrightarrow> TrimSpace t = t"
  by (intro TrimSpace_plain) (simp add: token_ends)

lemma TrimSpace_lead: "TrimSpace (0x20 # s) = TrimSpace s"
proof -
  have "trim_with space_prefix (0x20 # s) = trim_with space_prefix s"
    by (subst trim_with.simps) (simp add: space_prefix_blank)
  then show ?thesis by (simp add: TrimSpace_def)
qed

lemma space_suffix_blank: "space_suffix (0x20 # r) = 1"
  by (cases "(0x20 :: u8) # r" rule: space_suffix.cases) (auto simp: ascii_space_def)

lemma TrimSpace_trail: "plain_byte (hd s) \<Longrightarrow> s \<noteq> [] \<Longrightarrow> TrimSpace (s @ [0x20]) = TrimSpace s"
proof -
  assume s: "plain_byte (hd s)" "s \<noteq> []"
  then have "trim_with space_prefix (s @ [0x20]) = s @ [0x20]" "trim_with space_prefix s = s"
    by (cases s; simp add: trim_with.simps space_prefix_plain)+
  moreover have "trim_with space_suffix (0x20 # rev s) = trim_with space_suffix (rev s)"
    by (subst trim_with.simps) (simp add: space_suffix_blank)
  ultimately show ?thesis by (simp add: TrimSpace_def)
qed

lemma lit_eq: "lit '' = '' = [0x20, 0x3D, 0x20]"
  by (simp add: lit_def)

lemma bc_line_of_text:
  assumes "name_ok name" "\<forall>v\<in>set vs. token v"
  shows "bc_line c (name @ lit '' = '' @ join [0x20] vs) = bc_put c name vs"
proof -
  have n: "token name" "0x3D \<notin> set name" "hd name \<noteq> 0x23" "name \<noteq> []"
    using assms(1) by (auto simp: name_ok_def token_def)
  have tn: "TrimSpace (name @ [0x20]) = name"
    using n token_ends [of name] TrimSpace_trail [of name] TrimSpace_token [of name] by simp
  have ix: "index_byte 0x3D ((name @ [0x20]) @ 0x3D # r) = Some (length name + 1)" for r
    using n index_byte_append [of "0x3D" "name @ [0x20]"] by simp
  show ?thesis
  proof (cases "vs = []")
    case True
    let ?line = "name @ [0x20, 0x3D]"
    have "TrimSpace (?line @ [0x20]) = ?line"
    proof -
      have "TrimSpace (?line @ [0x20]) = TrimSpace ?line"
        using n token_ends [of name] by (intro TrimSpace_trail) auto
      also have "\<dots> = ?line"
        using n token_ends [of name] by (intro TrimSpace_plain) (auto simp: plain_byte_def ascii_space_def)
      finally show ?thesis .
    qed
    moreover have "TrimSpace [] = []" by (rule TrimSpace_plain) simp
    ultimately show ?thesis
      using n tn ix [of "[]"] True
      by (simp add: bc_line_def lit_eq Let_def Fields.simps trim_with.simps)
  next
    case False
    let ?j = "join [0x20] vs"
    let ?line = "name @ [0x20, 0x3D, 0x20] @ ?j"
    note j = join_ends [OF assms(2) False]
    have "TrimSpace ?line = ?line"
      using n j token_ends [of name] by (intro TrimSpace_plain) auto
    moreover have "TrimSpace (0x20 # ?j) = ?j"
      using j by (simp add: TrimSpace_lead TrimSpace_plain)
    ultimately show ?thesis
      using n tn ix [of "0x20 # ?j"] Fields_join [OF assms(2)]
      by (simp add: bc_line_def lit_eq Let_def)
  qed
qed

lemma token_no_newline: "token t \<Longrightarrow> 10 \<notin> set t \<and> 13 \<notin> set t"
  by (auto simp: token_def plain_byte_def ascii_space_def)

lemma bc_line_plain:
  assumes "name_ok name" "\<forall>v\<in>set (bc_All c name). token v" "length (bc_line_text c name) < bc_max_line"
  shows "plain_line bc_max_line (bc_line_text c name)"
proof -
  have "10 \<notin> set (bc_line_text c name)" "13 \<notin> set (bc_line_text c name)"
    using assms set_join [of "[0x20]" "bc_All c name"] token_no_newline
    by (fastforce simp: bc_line_text_def lit_eq name_ok_def)+
  then show ?thesis
    using assms(3) by (auto simp: plain_line_def dest: last_in_set)
qed

lemma foldl_puts:
  assumes "distinct (ns @ ms)" "dom m = set ns"
  shows "foldl (\<lambda>c' n. bc_put c' n (f n)) \<lparr>bc_entries = m, bc_order = ns\<rparr> ms =
    \<lparr>bc_entries = (\<lambda>n. if n \<in> set ms then Some (f n) else m n), bc_order = ns @ ms\<rparr>"
  using assms
proof (induction ms arbitrary: ns m)
  case (Cons x ms)
  have new: "m x = None" using Cons.prems by auto
  have "foldl (\<lambda>c' n. bc_put c' n (f n)) \<lparr>bc_entries = m(x \<mapsto> f x), bc_order = ns @ [x]\<rparr> ms =
    \<lparr>bc_entries = (\<lambda>n. if n \<in> set ms then Some (f n) else (m(x \<mapsto> f x)) n), bc_order = (ns @ [x]) @ ms\<rparr>"
  proof (rule Cons.IH)
    show "dom (m(x \<mapsto> f x)) = set (ns @ [x])" using Cons.prems(2) by (simp only: dom_fun_upd) simp
  qed (use Cons.prems(1) in simp)
  then show ?case using new by (auto simp: bc_put_def fun_eq_iff)
qed simp

text \<open>A configuration written as text parses back to itself.\<close>

lemma config_readback:
  assumes "config_ok c"
  shows "bc_Parse (bc_EncodeText c) = Ret c"
proof -
  have ok: "name_ok n" "\<forall>v\<in>set (bc_All c n). token v" "length (bc_line_text c n) < bc_max_line"
    if "n \<in> set (bc_order c)" for n using assms that by (auto simp: config_ok_def)
  have "scan_lines bc_max_line (concat (map (\<lambda>l. l @ [10]) (map (bc_line_text c) (bc_order c)))) =
      (map (bc_line_text c) (bc_order c), False)"
    using ok bc_line_plain by (intro scan_lines_join) auto
  then have sl: "scan_lines bc_max_line (bc_EncodeText c) = (map (bc_line_text c) (bc_order c), False)"
    by (simp add: bc_EncodeText_def comp_def)
  have "foldl bc_line b (map (bc_line_text c) ns) = foldl (\<lambda>c' n. bc_put c' n (bc_All c n)) b ns"
    if "set ns \<subseteq> set (bc_order c)" for b ns
    using that
  proof (induction ns arbitrary: b)
    case (Cons n ns)
    then have "bc_line b (bc_line_text c n) = bc_put b n (bc_All c n)"
      using bc_line_of_text [OF ok(1,2)] by (simp add: bc_line_text_def)
    then show ?case using Cons by simp
  qed simp
  moreover have wf: "distinct (bc_order c)" "set (bc_order c) = dom (bc_entries c)"
    using assms by (auto simp: config_ok_def bc_wf_def)
  moreover have "(\<lambda>n. if n \<in> set (bc_order c) then Some (bc_All c n) else None) = bc_entries c"
    unfolding wf(2) by (auto simp: fun_eq_iff bc_All_def split: option.splits)
  ultimately have "foldl bc_line bc_New (map (bc_line_text c) (bc_order c)) = c"
    using foldl_puts [of "[]" "bc_order c" "\<lambda>_. None" "bc_All c"] by (simp add: bc_New_def)
  then show ?thesis by (simp add: bc_Parse_def sl)
qed

text \<open>
  C15. A configuration written as text parses back to itself, names in order and values
  unchanged, when names and values are plain tokens and lines stay below 4 MiB.
\<close>

theorem config_roundtrip:
  assumes "config_ok c"
  shows "bc_Parse (bc_EncodeText c) = Ret c"
  by (rule config_readback [OF assms])

theorem config_roundtrip_witness:
  "bc_Parse (bc_EncodeText (bc_SetKeyPair bc_New (lit ''root'') zero_key zero_key)) =
    Ret (bc_SetKeyPair bc_New (lit ''root'') zero_key zero_key)"
proof (rule config_roundtrip)
  have "token (hex_encode zero_key)" by (rule hex_token) (simp add: zero_key_def MD5HashSize_def)
  moreover have "length (hex_encode zero_key) = 32" by (simp add: zero_key_def MD5HashSize_def)
  moreover have "name_ok (lit ''root'')"
    by (simp add: name_ok_def token_def lit_def plain_byte_def ascii_space_def)
  ultimately show "config_ok (bc_SetKeyPair bc_New (lit ''root'') zero_key zero_key)"
    by (simp add: config_ok_def bc_SetKeyPair_def bc_Set_def bc_wf_put bc_max_line_def bc_line_text_def
      lit_eq bc_put_def bc_All_def bc_New_def bc_wf_def) (simp add: lit_def)
qed

section \<open>Keys read back\<close>

lemma decodeKey16_hex: "key_ok k \<Longrightarrow> decodeKey16 (hex_encode k) = Ret k"
  by (simp add: decodeKey16_def key_ok_def MD5HashSize_def)

lemma bc_All_put: "bc_All (bc_put c name vs) other = (if other = name then vs else bc_All c other)"
  by (simp add: bc_All_def bc_put_def)

text \<open>Keys put into a configuration are looked up again.\<close>

lemma config_keys:
  assumes "key_ok ck" "key_ok ek"
  shows "bc_LookupCKey (bc_SetKeyPair c name ck ek) name =
      Ret \<lparr>bk_CKey = ck, bk_EKey = ek, bk_HasEKey = True, bk_ContentSize = 0\<rparr>"
    and "bc_LookupCKey (bc_SetKey c name ck) name =
      Ret \<lparr>bk_CKey = ck, bk_EKey = zero_key, bk_HasEKey = False, bk_ContentSize = 0\<rparr>"
  using assms
  by (simp_all add: bc_LookupCKey_def bc_SetKeyPair_def bc_SetKey_def bc_Set_def bc_All_put decodeKey16_hex)

lemma config_other: "other \<noteq> name \<Longrightarrow> bc_LookupCKey (bc_put c name vs) other = bc_LookupCKey c other"
  by (simp add: bc_LookupCKey_def bc_All_put)

lemma config_archives: "\<forall>h\<in>set hashes. key_ok h \<Longrightarrow> bc_Archives (bc_SetArchives c hashes) = Ret hashes"
proof -
  have "\<forall>h\<in>set hs. key_ok h \<Longrightarrow> mapM decodeKey16 (map hex_encode hs) = Ret hs" for hs
    by (induction hs) (auto simp: decodeKey16_hex)
  then show "\<forall>h\<in>set hashes. key_ok h \<Longrightarrow> bc_Archives (bc_SetArchives c hashes) = Ret hashes"
    by (simp add: bc_Archives_def bc_SetArchives_def bc_Set_def bc_All_put)
qed

section \<open>The table reads back\<close>

lemma EncodeBuildInfo_text: "EncodeBuildInfo rows = csv_text 0x7C (buildInfoColumns # map buildInfo_fields rows)"
  by (simp add: EncodeBuildInfo_def csv_text_def comp_def)

definition buildInfo_table :: "BuildInfoRow list \<Rightarrow> csv_File" where
  "buildInfo_table rows = \<lparr>cf_Headers = map header_name buildInfoColumns, cf_Rows = map buildInfo_fields rows\<rparr>"

lemma build_info_parsed:
  assumes "\<forall>r\<in>set rows. row_ok 0x7C (buildInfo_fields r)"
  shows "csv_Parse (EncodeBuildInfo rows) = Ret (buildInfo_table rows)"
proof -
  have "buildInfoColumns \<noteq> [] \<and> buildInfoColumns \<noteq> [[]] \<and> list_all (cell_ok 0x7C) buildInfoColumns \<and>
      length (join [0x7C] buildInfoColumns) < 1000" by code_simp
  then have "row_ok 0x7C buildInfoColumns" by (simp add: row_ok_def list_all_iff csv_max_line_def)
  then show ?thesis
    using assms by (simp add: csv_Parse_def EncodeBuildInfo_text csv_ParseSep_text buildInfo_table_def)
qed

text \<open>A row is read back under the column names the storage asks for.\<close>

lemma build_info_columns:
  assumes "i < length rows"
  shows "csv_Get (buildInfo_table rows) (int i) (lit ''Build Key'') = Ret (bi_BuildKey (rows ! i))"
    and "csv_Get (buildInfo_table rows) (int i) (lit ''CDN Key'') = Ret (bi_CDNKey (rows ! i))"
    and "csv_Get (buildInfo_table rows) (int i) (lit ''CDN Path'') = Ret (bi_CDNPath (rows ! i))"
    and "csv_Get (buildInfo_table rows) (int i) (lit ''CDN Hosts'') = Ret (bi_CDNHosts (rows ! i))"
    and "csv_Get (buildInfo_table rows) (int i) (lit ''Active'') = Ret (lit ''1'')"
    and "csv_Get (buildInfo_table rows) (int i) (lit ''Version'') = Ret (bi_Version (rows ! i))"
proof -
  have c: "map header_name buildInfoColumns = map lit [''Branch'', ''Active'', ''Build Key'', ''CDN Key'',
      ''Install Key'', ''IM Size'', ''CDN Path'', ''CDN Hosts'', ''CDN Servers'', ''Tags'', ''Armadillo'',
      ''Last Activated'', ''Build Complete'', ''Last Played'', ''Product'', ''Version'']"
    by code_simp
  have "column_of (map header_name buildInfoColumns) (lit ''Build Key'') = Some 2"
    "column_of (map header_name buildInfoColumns) (lit ''CDN Key'') = Some 3"
    "column_of (map header_name buildInfoColumns) (lit ''CDN Path'') = Some 6"
    "column_of (map header_name buildInfoColumns) (lit ''CDN Hosts'') = Some 7"
    "column_of (map header_name buildInfoColumns) (lit ''Active'') = Some 1"
    "column_of (map header_name buildInfoColumns) (lit ''Version'') = Some 15"
    unfolding c by code_simp+
  then show "csv_Get (buildInfo_table rows) (int i) (lit ''Build Key'') = Ret (bi_BuildKey (rows ! i))"
    "csv_Get (buildInfo_table rows) (int i) (lit ''CDN Key'') = Ret (bi_CDNKey (rows ! i))"
    "csv_Get (buildInfo_table rows) (int i) (lit ''CDN Path'') = Ret (bi_CDNPath (rows ! i))"
    "csv_Get (buildInfo_table rows) (int i) (lit ''CDN Hosts'') = Ret (bi_CDNHosts (rows ! i))"
    "csv_Get (buildInfo_table rows) (int i) (lit ''Active'') = Ret (lit ''1'')"
    "csv_Get (buildInfo_table rows) (int i) (lit ''Version'') = Ret (bi_Version (rows ! i))"
    using assms by (simp_all add: csv_Get_def csv_Column_def buildInfo_fields_def buildInfo_table_def)
qed

end
