(* ===== verification/Listfile.thy ===== *)
theory Listfile
  imports GoText Jenkins
begin

text \<open>
  \<^verbatim>\<open>internal/listfile\<close>: names by their 64-bit Jenkins hash. Names are compared after
  \<^verbatim>\<open>HashFileName\<close> has made them upper case with backslashes, so a lookup is independent of case
  and of the slash used.
\<close>

record List =
  lf_byHash :: "u64 \<Rightarrow> bytes option"

definition lf_New :: List where
  "lf_New = \<lparr>lf_byHash = (\<lambda>_. None)\<rparr>"

text \<open>The byte loop of \<^verbatim>\<open>HashFileName\<close>.\<close>

definition norm_byte :: "u8 \<Rightarrow> u8" where
  "norm_byte c = (if c = 0x2F then 0x5C else if 0x61 \<le> c \<and> c \<le> 0x7A then c - 32 else c)"

definition lf_HashFileName :: "bytes \<Rightarrow> u64" where
  "lf_HashFileName name = HashFileName (map norm_byte name)"

definition lf_Add :: "bytes \<Rightarrow> List \<Rightarrow> List" where
  "lf_Add name l = l\<lparr>lf_byHash := (lf_byHash l)(lf_HashFileName name \<mapsto> name)\<rparr>"

definition lf_Lookup :: "List \<Rightarrow> u64 \<Rightarrow> bytes" where
  "lf_Lookup l hash = (case lf_byHash l hash of None \<Rightarrow> [] | Some name \<Rightarrow> name)"

definition lf_LookupName :: "List \<Rightarrow> bytes \<Rightarrow> bytes" where
  "lf_LookupName l name = lf_Lookup l (lf_HashFileName name)"

text \<open>\<^verbatim>\<open>Load\<close>: comment lines start with \<^verbatim>\<open>#\<close> or \<^verbatim>\<open>;\<close>; a line of 8 MiB or more is an error.\<close>

definition lf_line :: "List \<Rightarrow> bytes \<Rightarrow> List" where
  "lf_line l text =
     (let line = TrimSpace text in
      if line = [] \<or> hd line = 0x23 \<or> hd line = 0x3B then l else lf_Add line l)"

definition lf_max_line :: nat where
  "lf_max_line = 8 * 1024 * 1024"

definition lf_Load :: "bytes \<Rightarrow> List outcome" where
  "lf_Load data =
     (let (lines, err) = scan_lines lf_max_line data in
      if err then Fail ErrOther else Ret (foldl lf_line lf_New lines))"

section \<open>Names up to case and slashes\<close>

lemma norm_byte_idem [simp]: "norm_byte (norm_byte c) = norm_byte c"
proof (cases "0x61 \<le> c \<and> c \<le> 0x7A")
  case True
  then have "0x61 \<le> unat c" "unat c \<le> 0x7A" "unat (c - 32) = unat c - 32"
    by (simp_all add: word_le_nat_alt unat_sub)
  then have "\<not> 0x61 \<le> c - 32" "c - 32 \<noteq> 0x2F" "c \<noteq> 0x2F"
    by (auto simp: word_le_nat_alt dest: arg_cong [where f = unat])
  then show ?thesis using True by (simp add: norm_byte_def)
qed (auto simp: norm_byte_def)

text \<open>Names equal up to case and slashes have equal hashes.\<close>

lemma lf_HashFileName_norm: "map norm_byte a = map norm_byte b \<Longrightarrow> lf_HashFileName a = lf_HashFileName b"
  by (simp add: lf_HashFileName_def)

lemma lf_HashFileName_idem: "lf_HashFileName (map norm_byte a) = lf_HashFileName a"
  by (simp add: lf_HashFileName_def comp_def)

lemma lf_LookupName_Add:
  "lf_LookupName (lf_Add name l) other =
     (if lf_HashFileName other = lf_HashFileName name then name else lf_LookupName l other)"
  by (simp add: lf_LookupName_def lf_Lookup_def lf_Add_def)

section \<open>Loading\<close>

text \<open>A name that stands on a line of its own, and is not a comment.\<close>

definition name_line :: "bytes \<Rightarrow> bool" where
  "name_line name \<longleftrightarrow> name \<noteq> [] \<and> plain_byte (hd name) \<and> plain_byte (last name) \<and>
     10 \<notin> set name \<and> length name < lf_max_line \<and> hd name \<noteq> 0x23 \<and> hd name \<noteq> 0x3B"

lemma name_line_plain: "name_line name \<Longrightarrow> plain_line lf_max_line name"
  by (auto simp: name_line_def plain_line_def plain_byte_def ascii_space_def)

lemma lf_line_name: "name_line name \<Longrightarrow> lf_line l name = lf_Add name l"
  by (simp add: lf_line_def name_line_def TrimSpace_plain Let_def)

lemma lf_lines_names: "\<forall>n\<in>set names. name_line n \<Longrightarrow> foldl lf_line l names = foldl (\<lambda>l n. lf_Add n l) l names"
  by (induction names arbitrary: l) (auto simp: lf_line_name)

lemma lf_adds_lookup:
  assumes "distinct (map lf_HashFileName names)" "name \<in> set names"
  shows "lf_LookupName (foldl (\<lambda>l n. lf_Add n l) l names) name = name"
  using assms
  by (induction names rule: rev_induct) (auto simp: lf_LookupName_Add image_iff)

theorem listfile_load_lookup:
  assumes "\<forall>n\<in>set names. name_line n" "distinct (map lf_HashFileName names)"
    and "name \<in> set names" "map norm_byte other = map norm_byte name"
  shows "\<exists>l. lf_Load (concat (map (\<lambda>n. n @ [10]) names)) = Ret l \<and> lf_LookupName l other = name"
proof -
  have "scan_lines lf_max_line (concat (map (\<lambda>n. n @ [10]) names)) = (names, False)"
    using assms(1) name_line_plain by (intro scan_lines_join) blast
  moreover have "lf_LookupName (foldl lf_line lf_New names) name = name"
    using assms(1-3) by (simp add: lf_lines_names lf_adds_lookup)
  ultimately show ?thesis
    using lf_HashFileName_norm [OF assms(4)] by (simp add: lf_Load_def lf_LookupName_def)
qed

theorem listfile_load_lookup_witness:
  "\<exists>l. lf_Load (concat (map (\<lambda>n. n @ [10]) [[0x61, 0x2F, 0x62], [0x63]])) = Ret l
     \<and> lf_LookupName l [0x41, 0x5C, 0x42] = [0x61, 0x2F, 0x62]"
proof (rule listfile_load_lookup)
  show "distinct (map lf_HashFileName [[0x61, 0x2F, 0x62], [0x63]])" by code_simp
qed (simp_all add: name_line_def plain_byte_def ascii_space_def lf_max_line_def norm_byte_def word_less_nat_alt
    word_le_nat_alt)

end
