(* ===== verification/RootInstall.thy ===== *)
theory RootInstall
  imports CascBase Listfile
begin

text \<open>
  \<^verbatim>\<open>internal/root/install\<close>: the INSTALL manifest, a list of names with their content keys, and
  tags that each mark a subset of the entries in a bitmap. Shown here: parsing is safe, and an
  encoded manifest reads back as its tags and entries, each found again under its name.
\<close>

definition fileInstallHeaderSize :: nat where "fileInstallHeaderSize = 10"

record install_Tag =
  it_Name :: bytes
  it_Type :: u16
  it_Bitmap :: bytes

record install_Handler =
  in_Version :: u8
  in_HashSize :: u8
  in_TagCount :: u16
  in_EntryCount :: u32
  in_Tags :: "install_Tag list"
  in_files :: "bytes \<Rightarrow> CKeyEntry option"
  in_byHash :: "u64 \<Rightarrow> CKeyEntry option"
  in_all :: "(bytes \<times> CKeyEntry) list"

section \<open>The parser\<close>

text \<open>The loop over the tags: \<open>n\<close> tags from \<open>off\<close>, and where the entries start.\<close>

fun install_tags :: "bytes \<Rightarrow> nat \<Rightarrow> nat \<Rightarrow> nat \<Rightarrow> (install_Tag list \<times> nat) outcome" where
  "install_tags data bitmapLen off 0 = Ret ([], off)"
| "install_tags data bitmapLen off (Suc n) =
     bnd (subslice_from data off) (\<lambda>s.
     case index_zero s of
       None \<Rightarrow> Fail ErrBadFormat
     | Some nameEnd \<Rightarrow>
         bnd (subslice data off (off + nameEnd)) (\<lambda>name.
         let off1 = off + nameEnd + 1 in
         guard (length data < off1 + 2 + bitmapLen) ErrBadFormat (
         bnd (rdBE16 data off1 (off1 + 2)) (\<lambda>tagType.
         bnd (subslice data (off1 + 2) (off1 + 2 + bitmapLen)) (\<lambda>bm.
         bnd (install_tags data bitmapLen (off1 + 2 + bitmapLen) n) (\<lambda>(ts, end_off).
         Ret (\<lparr>it_Name = name, it_Type = tagType, it_Bitmap = bm\<rparr> # ts, end_off)))))))"

definition install_entry :: "bytes \<Rightarrow> bytes \<Rightarrow> u32 \<Rightarrow> CKeyEntry" where
  "install_entry name ck fsize =
     zero_entry\<lparr>ce_CKey := ck, ce_FileNameHash := lf_HashFileName name, ce_ContentSize := ucast fsize,
       ce_FileDataID := InvalidID, ce_Flags := CEFlagHasCKey\<rparr>"

text \<open>The loop over the entries, which stops early when the data runs out.\<close>

fun install_entries :: "bytes \<Rightarrow> nat \<Rightarrow> nat \<Rightarrow> nat \<Rightarrow> (bytes \<times> CKeyEntry) list outcome" where
  "install_entries data hashSize off 0 = Ret []"
| "install_entries data hashSize off (Suc n) =
     (if length data \<le> off then Ret []
      else
        bnd (subslice_from data off) (\<lambda>s.
        case index_zero s of
          None \<Rightarrow> Fail ErrBadFormat
        | Some nameEnd \<Rightarrow>
            bnd (subslice data off (off + nameEnd)) (\<lambda>name.
            let off1 = off + nameEnd + 1 in
            guard (length data < off1 + hashSize + 4) ErrBadFormat (
            bnd (subslice data off1 (off1 + hashSize)) (\<lambda>ck.
            bnd (rdBE32 data (off1 + hashSize) (off1 + hashSize + 4)) (\<lambda>fsize.
            bnd (install_entries data hashSize (off1 + hashSize + 4) n) (\<lambda>rest.
            Ret ((name, install_entry name (fit 16 ck) fsize) # rest))))))))"

text \<open>The two maps the loop fills; a later entry replaces an earlier one.\<close>

definition by_name :: "(bytes \<times> CKeyEntry) list \<Rightarrow> bytes \<Rightarrow> CKeyEntry option" where
  "by_name es = foldl (\<lambda>m (name, e). m(name \<mapsto> e)) (\<lambda>_. None) es"

definition by_hash :: "(bytes \<times> CKeyEntry) list \<Rightarrow> u64 \<Rightarrow> CKeyEntry option" where
  "by_hash es = foldl (\<lambda>m (name, e). m(ce_FileNameHash e \<mapsto> e)) (\<lambda>_. None) es"

definition install_Parse :: "bytes \<Rightarrow> install_Handler outcome" where
  "install_Parse data =
     guard (length data < fileInstallHeaderSize) ErrBadFormat (
     bnd (rdLE16 data 0 2) (\<lambda>magic.
     guard (magic \<noteq> MagicInstall) ErrBadFormat (
     bnd (at data 2) (\<lambda>version.
     guard (version \<noteq> 1) ErrNotSupported (
     bnd (at data 3) (\<lambda>hashSize.
     guard (hashSize = 0 \<or> MD5HashSize < unat hashSize) ErrBadFormat (
     bnd (rdBE16 data 4 6) (\<lambda>tagCount.
     bnd (rdBE32 data 6 10) (\<lambda>entryCount.
     let bitmapLen = unat ((entryCount + 7) div 8) in
     bnd (install_tags data bitmapLen fileInstallHeaderSize (unat tagCount)) (\<lambda>(tags, off).
     bnd (install_entries data (unat hashSize) off (unat entryCount)) (\<lambda>es.
     Ret \<lparr>in_Version = 1, in_HashSize = hashSize, in_TagCount = tagCount, in_EntryCount = entryCount,
          in_Tags = tags, in_files = by_name es, in_byHash = by_hash es, in_all = es\<rparr>)))))))))))"

definition install_Probe :: "bytes \<Rightarrow> install_Handler outcome" where
  "install_Probe data =
     guard (length data < fileInstallHeaderSize) ErrBadFormat (
     bnd (rdLE16 data 0 2) (\<lambda>magic.
     guard (magic \<noteq> MagicInstall) ErrBadFormat (
     install_Parse data)))"

definition install_LookupByName :: "install_Handler \<Rightarrow> bytes \<Rightarrow> CKeyEntry option" where
  "install_LookupByName h name =
     (case in_files h name of
        Some e \<Rightarrow> Some e
      | None \<Rightarrow> in_byHash h (lf_HashFileName name))"

section \<open>The writer\<close>

record install_Entry =
  ie_Name :: bytes
  ie_CKey :: key
  ie_ContentSize :: u32

definition install_tag_bytes :: "nat \<Rightarrow> install_Tag \<Rightarrow> bytes" where
  "install_tag_bytes bitmapLen t =
     it_Name t @ [0] @ be_bytes 2 (unat (it_Type t)) @ fit bitmapLen (it_Bitmap t)"

definition install_entry_bytes :: "nat \<Rightarrow> install_Entry \<Rightarrow> bytes" where
  "install_entry_bytes hashSize e =
     ie_Name e @ [0] @ take hashSize (ie_CKey e) @ be_bytes 4 (unat (ie_ContentSize e))"

definition install_Encode :: "install_Entry list \<Rightarrow> install_Tag list \<Rightarrow> u8 \<Rightarrow> bytes outcome" where
  "install_Encode entries tags optHashSize =
     (let hashSize = (if optHashSize = 0 then 16 else optHashSize) in
      guard (MD5HashSize < unat hashSize) ErrInvalidParameter (
      let bitmapLen = (length entries + 7) div 8 in
      Ret (putLE16 MagicInstall @ [1, hashSize] @ be_bytes 2 (length tags) @ be_bytes 4 (length entries) @
           concat (map (install_tag_bytes bitmapLen) tags) @
           concat (map (install_entry_bytes (unat hashSize)) entries))))"

section \<open>Safety\<close>

lemma safe_install_tags: "off \<le> length data \<Longrightarrow> safe (install_tags data bl off n)"
  by (induction n arbitrary: off)
    (auto simp: outcome_simps Let_def dest: index_zero_lt split: option.split)

lemma install_tags_end: "off \<le> length data \<Longrightarrow> install_tags data bl off n = Ret (ts, e) \<Longrightarrow> e \<le> length data"
  by (induction n arbitrary: off ts)
    (fastforce simp: outcome_simps Let_def split: option.splits)+

lemma safe_install_entries: "safe (install_entries data hs off n)"
proof (induction n arbitrary: off)
  case (Suc n)
  then show ?case
    by (auto simp: outcome_simps Let_def dest: index_zero_lt split: option.split)
qed simp

lemma install_Parse_safe: "safe (install_Parse data)"
  by (auto simp: install_Parse_def outcome_simps fileInstallHeaderSize_def Let_def
      safe_install_tags safe_install_entries)

section \<open>Manifests read back\<close>

text \<open>What a tag or entry becomes on the way: bitmaps are cut or padded, keys cut to the hash size.\<close>

definition read_tag :: "nat \<Rightarrow> install_Tag \<Rightarrow> install_Tag" where
  "read_tag bitmapLen t = t\<lparr>it_Bitmap := fit bitmapLen (it_Bitmap t)\<rparr>"

definition read_entry :: "nat \<Rightarrow> install_Entry \<Rightarrow> bytes \<times> CKeyEntry" where
  "read_entry hashSize e =
     (ie_Name e, install_entry (ie_Name e) (fit 16 (take hashSize (ie_CKey e))) (ie_ContentSize e))"

lemma word16_be [simp]: "word_of_nat (be_val (be_bytes 2 (unat w))) = (w :: u16)"
  by (simp add: be_val_be_bytes unat_bounds)

lemma word32_be [simp]: "word_of_nat (be_val (be_bytes 4 (unat w))) = (w :: u32)"
  by (simp add: be_val_be_bytes unat_bounds)

lemma install_tags_step:
  assumes "0 \<notin> set (it_Name t)"
  shows "install_tags (pre @ install_tag_bytes bl t @ r) bl (length pre) (Suc n) =
    bnd (install_tags (pre @ install_tag_bytes bl t @ r) bl (length (pre @ install_tag_bytes bl t)) n)
      (\<lambda>(ts, e). Ret (read_tag bl t # ts, e))"
  using assms
  by (cases t) (simp add: install_tag_bytes_def index_zero_append rdBE_Ret Let_def read_tag_def ac_simps)

lemma install_tags_bytes:
  assumes "\<forall>t\<in>set ts. 0 \<notin> set (it_Name t)"
  shows "install_tags (pre @ concat (map (install_tag_bytes bl) ts) @ post) bl (length pre) (length ts) =
    Ret (map (read_tag bl) ts, length pre + length (concat (map (install_tag_bytes bl) ts)))"
  using assms
proof (induction ts arbitrary: pre)
  case (Cons t ts)
  have "install_tags ((pre @ install_tag_bytes bl t) @ concat (map (install_tag_bytes bl) ts) @ post) bl
      (length (pre @ install_tag_bytes bl t)) (length ts) =
      Ret (map (read_tag bl) ts, length (pre @ install_tag_bytes bl t) +
        length (concat (map (install_tag_bytes bl) ts)))"
    using Cons.prems by (intro Cons.IH) simp
  then show ?case
    using Cons.prems by (simp add: install_tags_step del: install_tags.simps(2))
qed simp

lemma install_entries_step:
  assumes "0 \<notin> set (ie_Name e)" "length (ie_CKey e) = 16" "hs \<le> 16"
  shows "install_entries (pre @ install_entry_bytes hs e @ r) hs (length pre) (Suc n) =
    bnd (install_entries (pre @ install_entry_bytes hs e @ r) hs (length (pre @ install_entry_bytes hs e)) n)
      (\<lambda>es. Ret (read_entry hs e # es))"
  using assms
  by (simp add: install_entry_bytes_def index_zero_append rdBE_Ret Let_def read_entry_def min_def ac_simps)

lemma install_entries_bytes:
  assumes "\<forall>e\<in>set es. 0 \<notin> set (ie_Name e) \<and> length (ie_CKey e) = 16" "hs \<le> 16"
  shows "install_entries (pre @ concat (map (install_entry_bytes hs) es)) hs (length pre) (length es) =
    Ret (map (read_entry hs) es)"
  using assms(1)
proof (induction es arbitrary: pre)
  case (Cons e es)
  have "install_entries ((pre @ install_entry_bytes hs e) @ concat (map (install_entry_bytes hs) es)) hs
      (length (pre @ install_entry_bytes hs e)) (length es) = Ret (map (read_entry hs) es)"
    using Cons.prems by (intro Cons.IH) simp
  then show ?case
    using Cons.prems assms(2) by (simp add: install_entries_step del: install_entries.simps(2))
qed simp

lemma by_name_iff:
  "distinct (map fst es) \<Longrightarrow> (name, e) \<in> set es \<Longrightarrow> by_name es name = Some e"
proof (induction es rule: rev_induct)
  case (snoc x es)
  have "by_name (es @ [x]) = (by_name es)(fst x \<mapsto> snd x)"
    by (simp add: by_name_def split: prod.split)
  then show ?case using snoc by (force simp: image_iff)
qed simp

lemma install_readback:
  assumes "install_Encode entries tags optHashSize = Ret data"
    and "\<forall>t\<in>set tags. 0 \<notin> set (it_Name t)"
    and "\<forall>e\<in>set entries. 0 \<notin> set (ie_Name e) \<and> length (ie_CKey e) = 16"
    and "length tags < 2 ^ 16" "length entries < 2 ^ 32 - 7"
  defines "hashSize \<equiv> (if optHashSize = 0 then 16 else unat optHashSize)"
  shows "\<exists>h. install_Parse data = Ret h
    \<and> in_Tags h = map (read_tag ((length entries + 7) div 8)) tags
    \<and> in_all h = map (read_entry hashSize) entries
    \<and> in_byHash h = by_hash (map (read_entry hashSize) entries)
    \<and> (distinct (map ie_Name entries) \<longrightarrow>
        (\<forall>e\<in>set entries. install_LookupByName h (ie_Name e) = Some (snd (read_entry hashSize e))))"
proof -
  define hs where "hs = (if optHashSize = 0 then 16 else optHashSize :: u8)"
  define bl where "bl = (length entries + 7) div 8"
  have hsu: "unat hs = hashSize" "unat hs \<le> 16" "hs \<noteq> 0"
    and data: "data = (putLE16 MagicInstall @ [1, hs] @ be_bytes 2 (length tags) @ be_bytes 4 (length entries)) @
        concat (map (install_tag_bytes bl) tags) @ concat (map (install_entry_bytes hashSize) entries)"
    using assms(1) by (auto simp: install_Encode_def Let_def guard_eq_Ret hs_def hashSize_def bl_def
        MD5HashSize_def split: if_splits)
  let ?hd = "putLE16 MagicInstall @ [1, hs] @ be_bytes 2 (length tags) @ be_bytes 4 (length entries)"
  have hd: "length ?hd = 10" by simp
  have f: "rdLE16 data 0 2 = Ret MagicInstall" "at data 2 = Ret 1" "at data 3 = Ret hs"
    "rdBE16 data 4 6 = Ret (word_of_nat (length tags))" "rdBE32 data 6 10 = Ret (word_of_nat (length entries))"
    using assms(4,5) by (simp_all add: data nth_append rdBE_Ret be_val_be_bytes)
  have u: "unat (word_of_nat (length tags) :: u16) = length tags"
    "unat (word_of_nat (length entries) :: u32) = length entries"
    using assms(4,5) by (intro unat_word_of_nat; simp)+
  have bl: "unat ((word_of_nat (length entries) + 7 :: u32) div 8) = bl"
  proof -
    have "unat (word_of_nat (length entries + 7) :: u32) = length entries + 7"
      using assms(5) by (intro unat_word_of_nat) simp
    then show ?thesis by (simp add: bl_def unat_div)
  qed
  have tags: "install_tags data bl 10 (length tags) =
      Ret (map (read_tag bl) tags, 10 + length (concat (map (install_tag_bytes bl) tags)))"
    using install_tags_bytes [OF assms(2), of ?hd bl "concat (map (install_entry_bytes hashSize) entries)"]
    unfolding data hd .
  have es: "install_entries data hashSize (10 + length (concat (map (install_tag_bytes bl) tags)))
      (length entries) = Ret (map (read_entry hashSize) entries)"
    using install_entries_bytes [OF assms(3), of hashSize "?hd @ concat (map (install_tag_bytes bl) tags)"]
      hsu hd by (simp add: data)
  have len: "\<not> length data < 10" by (simp add: data)
  obtain h where h: "install_Parse data = Ret h" "in_Tags h = map (read_tag bl) tags"
      "in_all h = map (read_entry hashSize) entries" "in_files h = by_name (map (read_entry hashSize) entries)"
      "in_byHash h = by_hash (map (read_entry hashSize) entries)"
    using len hsu tags es
    by (simp add: install_Parse_def f u bl hsu fileInstallHeaderSize_def MD5HashSize_def)
  have "install_LookupByName h (ie_Name e) = Some (snd (read_entry hashSize e))"
    if "distinct (map ie_Name entries)" "e \<in> set entries" for e
  proof -
    have "by_name (map (read_entry hashSize) entries) (ie_Name e) = Some (snd (read_entry hashSize e))"
    proof (rule by_name_iff)
      show "distinct (map fst (map (read_entry hashSize) entries))"
        using that(1) by (simp add: comp_def read_entry_def)
      show "(ie_Name e, snd (read_entry hashSize e)) \<in> set (map (read_entry hashSize) entries)"
        using that(2) by (force simp: read_entry_def)
    qed
    then show ?thesis by (simp add: install_LookupByName_def h(4))
  qed
  then show ?thesis using h by (auto simp: bl_def)
qed

text \<open>
  C11. An INSTALL manifest written by Encode parses back to its tags (bitmaps padded to one bit
  per entry) and its entries in order (keys cut to the hash size), when names are free of NUL
  bytes, keys have 16 bytes, and there are fewer than 2^16 tags and 2^32 - 7 entries; if
  moreover the names are distinct, every entry is found by its name.
\<close>

theorem install_roundtrip:
  assumes "install_Encode entries tags optHashSize = Ret data"
    and "\<forall>t\<in>set tags. 0 \<notin> set (it_Name t)"
    and "\<forall>e\<in>set entries. 0 \<notin> set (ie_Name e) \<and> length (ie_CKey e) = 16"
    and "length tags < 2 ^ 16" "length entries < 2 ^ 32 - 7"
  defines "hashSize \<equiv> (if optHashSize = 0 then 16 else unat optHashSize)"
  shows "\<exists>h. install_Parse data = Ret h
    \<and> in_Tags h = map (read_tag ((length entries + 7) div 8)) tags
    \<and> in_all h = map (read_entry hashSize) entries
    \<and> (distinct (map ie_Name entries) \<longrightarrow>
        (\<forall>e\<in>set entries. install_LookupByName h (ie_Name e) = Some (snd (read_entry hashSize e))))"
  unfolding hashSize_def using install_readback [OF assms(1-5)] by blast

section \<open>The theorem at work\<close>

theorem install_roundtrip_witness:
  "\<exists>data h. install_Encode [\<lparr>ie_Name = [0x61], ie_CKey = replicate 16 1, ie_ContentSize = 5\<rparr>]
        [\<lparr>it_Name = [0x62], it_Type = 1, it_Bitmap = [0x80]\<rparr>] 0 = Ret data
     \<and> install_Parse data = Ret h
     \<and> install_LookupByName h [0x61] = Some (install_entry [0x61] (replicate 16 1) 5)"
proof -
  let ?e = "\<lparr>ie_Name = [0x61], ie_CKey = replicate 16 1, ie_ContentSize = 5\<rparr>"
  let ?t = "\<lparr>it_Name = [0x62], it_Type = 1, it_Bitmap = [0x80]\<rparr>"
  obtain data where e: "install_Encode [?e] [?t] 0 = Ret data"
    by (simp add: install_Encode_def MD5HashSize_def)
  have "\<exists>h. install_Parse data = Ret h
    \<and> in_Tags h = map (read_tag ((length [?e] + 7) div 8)) [?t]
    \<and> in_all h = map (read_entry (if (0 :: u8) = 0 then 16 else unat (0 :: u8))) [?e]
    \<and> (distinct (map ie_Name [?e]) \<longrightarrow>
        (\<forall>e\<in>set [?e]. install_LookupByName h (ie_Name e) =
           Some (snd (read_entry (if (0 :: u8) = 0 then 16 else unat (0 :: u8)) e))))"
    by (rule install_roundtrip [OF e]) simp_all
  with e show ?thesis by (auto simp: read_entry_def)
qed

end
