(* ===== verification/RootBase.thy ===== *)
theory RootBase
  imports CascBase Listfile
begin

text \<open>
  \<^verbatim>\<open>internal/root\<close>: the registry of probes that recognises a root manifest, and what the roots
  that index their entries by name hash have in common, as the locale \<open>hashed_root\<close>.
\<close>

section \<open>Detection\<close>

text \<open>\<^verbatim>\<open>Detect\<close> returns the first handler whose probe accepts; a probe that panics takes it down.\<close>

fun Detect :: "(bytes \<Rightarrow> 'h outcome) list \<Rightarrow> bytes \<Rightarrow> 'h outcome" where
  "Detect [] data = Fail ErrNotSupported"
| "Detect (p # ps) data =
     (case p data of
        Ret h \<Rightarrow> Ret h
      | Fail _ \<Rightarrow> Detect ps data
      | Panic \<Rightarrow> Panic)"

definition Register :: "'p \<Rightarrow> 'p list \<Rightarrow> 'p list" where
  "Register p registry = registry @ [p]"

lemma Detect_append:
  "Detect (ps @ qs) data =
     (case Detect ps data of Fail e \<Rightarrow> Detect qs data | r \<Rightarrow> r)"
  by (induction ps) (auto split: outcome.split)

lemma Detect_Ret_iff:
  "Detect ps data = Ret h \<longleftrightarrow>
     (\<exists>qs p rs. ps = qs @ p # rs \<and> p data = Ret h \<and> (\<forall>q\<in>set qs. \<exists>e. q data = Fail e))"
proof
  show "Detect ps data = Ret h \<Longrightarrow>
     \<exists>qs p rs. ps = qs @ p # rs \<and> p data = Ret h \<and> (\<forall>q\<in>set qs. \<exists>e. q data = Fail e)"
  proof (induction ps)
    case (Cons p ps)
    show ?case
    proof (cases "p data")
      case (Ret x)
      then show ?thesis using Cons.prems by (intro exI [of _ "[]"]) auto
    next
      case (Fail e)
      then obtain qs q rs where "ps = qs @ q # rs" "q data = Ret h" "\<forall>q\<in>set qs. \<exists>e. q data = Fail e"
        using Cons by auto
      then show ?thesis using Fail by (intro exI [of _ "p # qs"]) auto
    qed (use Cons.prems in simp)
  qed simp
  have "\<forall>q\<in>set qs. \<exists>e. q data = Fail e \<Longrightarrow> Detect (qs @ rs) data = Detect rs data" for qs rs
    by (induction qs) auto
  then show "\<exists>qs p rs. ps = qs @ p # rs \<and> p data = Ret h \<and> (\<forall>q\<in>set qs. \<exists>e. q data = Fail e) \<Longrightarrow>
     Detect ps data = Ret h" by fastforce
qed

lemma Detect_Panic_iff:
  "Detect ps data = Panic \<longleftrightarrow>
     (\<exists>qs p rs. ps = qs @ p # rs \<and> p data = Panic \<and> (\<forall>q\<in>set qs. \<exists>e. q data = Fail e))"
proof
  show "Detect ps data = Panic \<Longrightarrow>
     \<exists>qs p rs. ps = qs @ p # rs \<and> p data = Panic \<and> (\<forall>q\<in>set qs. \<exists>e. q data = Fail e)"
  proof (induction ps)
    case (Cons p ps)
    show ?case
    proof (cases "p data")
      case (Fail e)
      then obtain qs q rs where "ps = qs @ q # rs" "q data = Panic" "\<forall>q\<in>set qs. \<exists>e. q data = Fail e"
        using Cons by auto
      then show ?thesis using Fail by (intro exI [of _ "p # qs"]) auto
    next
      case Panic
      then show ?thesis by (intro exI [of _ "[]"]) auto
    qed (use Cons.prems in simp)
  qed simp
  have "\<forall>q\<in>set qs. \<exists>e. q data = Fail e \<Longrightarrow> Detect (qs @ rs) data = Detect rs data" for qs rs
    by (induction qs) auto
  then show "\<exists>qs p rs. ps = qs @ p # rs \<and> p data = Panic \<and> (\<forall>q\<in>set qs. \<exists>e. q data = Fail e) \<Longrightarrow>
     Detect ps data = Panic" by fastforce
qed

section \<open>Entries under the hash of their name\<close>

text \<open>The entry literal of the roots that know a name and a content key.\<close>

definition named_entry :: "bytes \<Rightarrow> key \<Rightarrow> CKeyEntry" where
  "named_entry name ck =
     zero_entry\<lparr>ce_CKey := ck, ce_FileNameHash := lf_HashFileName name, ce_FileDataID := InvalidID,
       ce_Flags := CEFlagHasCKey\<rparr>"

locale hashed_root =
  fixes empty :: "'h"
    and put :: "bytes \<Rightarrow> key \<Rightarrow> 'h \<Rightarrow> 'h"
    and lookup :: "'h \<Rightarrow> bytes \<Rightarrow> CKeyEntry option"
  assumes lookup_empty: "lookup empty name = None"
    and lookup_put: "lookup (put name ck h) other =
      (if lf_HashFileName other = lf_HashFileName name then Some (named_entry name ck) else lookup h other)"
begin

text \<open>An entry is found under every spelling of its name.\<close>

lemma lookup_puts:
  assumes "distinct (map (\<lambda>(n, c). lf_HashFileName n) es)" "(name, ck) \<in> set es"
    and "map norm_byte other = map norm_byte name"
  shows "lookup (foldl (\<lambda>h (n, c). put n c h) empty es) other = Some (named_entry name ck)"
  using assms(1,2)
proof (induction es rule: rev_induct)
  case (snoc e es)
  obtain n c where e: "e = (n, c)" by (cases e)
  show ?case
  proof (cases "e = (name, ck)")
    case True
    then show ?thesis using lf_HashFileName_norm [OF assms(3)] by (simp add: lookup_put)
  next
    case False
    then have "(name, ck) \<in> set es" using snoc.prems(2) by auto
    moreover from this have "lf_HashFileName name \<noteq> lf_HashFileName n"
      using snoc.prems(1) e by (force simp: image_iff)
    ultimately show ?thesis
      using snoc lf_HashFileName_norm [OF assms(3)] by (simp add: e lookup_put)
  qed
qed simp

lemma lookup_puts_None:
  "lf_HashFileName other \<notin> set (map (\<lambda>(n, c). lf_HashFileName n) es) \<Longrightarrow>
   lookup (foldl (\<lambda>h (n, c). put n c h) empty es) other = None"
  by (induction es rule: rev_induct) (auto simp: lookup_empty lookup_put)

end

end
