(* ===== verification/RootText.thy ===== *)
theory RootText
  imports RootBase Csv
begin

text \<open>
  The two roots that are plain text. \<^verbatim>\<open>internal/root/text\<close>: lines \<^verbatim>\<open>name|hex\<close>. \<^verbatim>\<open>internal/root/overwatch\<close>:
  a pipe-separated table with a name column and a key column. Both interpret \<open>hashed_root\<close>.
\<close>

section \<open>The text root\<close>

record text_Handler =
  tx_byHash :: "u64 \<Rightarrow> (bytes \<times> CKeyEntry) option"

definition text_New :: text_Handler where
  "text_New = \<lparr>tx_byHash = (\<lambda>_. None)\<rparr>"

definition text_put :: "bytes \<Rightarrow> key \<Rightarrow> text_Handler \<Rightarrow> text_Handler" where
  "text_put name ck h = h\<lparr>tx_byHash := (tx_byHash h)(lf_HashFileName name \<mapsto> (name, named_entry name ck))\<rparr>"

definition looksLikeText :: "bytes \<Rightarrow> bool" where
  "looksLikeText b \<longleftrightarrow> list_all (\<lambda>c. c = 0x09 \<or> c = 0x0D \<or> c = 0x0A \<or> 0x20 \<le> c) b"

text \<open>One turn of the loop over the lines.\<close>

definition text_line :: "text_Handler \<Rightarrow> bytes \<Rightarrow> text_Handler outcome" where
  "text_line h text =
     (let line = TrimSpace text in
      if line = [] then Ret h
      else
        bnd (at line 0) (\<lambda>c.
        if c = 0x23 then Ret h
        else
          case index_byte 0x7C line of
            None \<Rightarrow> Ret h
          | Some bar \<Rightarrow>
              bnd (subslice line 0 bar) (\<lambda>l. bnd (subslice_from line (bar + 1)) (\<lambda>r.
              let name = TrimSpace l; hexStr = TrimSpace r in
              if length hexStr \<noteq> 32 then Ret h
              else case hex_decode hexStr of None \<Rightarrow> Ret h | Some md5b \<Rightarrow> Ret (text_put name (fit 16 md5b) h)))))"

definition text_max_line :: nat where
  "text_max_line = 16 * 1024 * 1024"

definition text_Parse :: "bytes \<Rightarrow> text_Handler outcome" where
  "text_Parse data =
     (let (ls, err) = scan_lines text_max_line data in
      bnd (foldM text_line text_New ls) (\<lambda>h. if err then Fail ErrOther else Ret h))"

definition text_Probe :: "bytes \<Rightarrow> text_Handler outcome" where
  "text_Probe data =
     bnd (if 1024 < length data then subslice data 0 1024 else Ret data) (\<lambda>head.
     guard (\<not> looksLikeText head) ErrBadFormat (
     guard (0x7C \<notin> set head) ErrBadFormat (
     text_Parse data)))"

lemma text_Probe_head:
  "text_Probe data = (if looksLikeText (take 1024 data) \<and> 0x7C \<in> set (take 1024 data) then text_Parse data else Fail ErrBadFormat)"
  by (simp add: text_Probe_def guard_def)

definition text_LookupByName :: "text_Handler \<Rightarrow> bytes \<Rightarrow> CKeyEntry option" where
  "text_LookupByName h name = map_option snd (tx_byHash h (lf_HashFileName name))"

interpretation tx: hashed_root text_New text_put text_LookupByName
  by unfold_locales (auto simp: text_New_def text_put_def text_LookupByName_def)

lemma safe_text_line: "safe (text_line h text)"
  by (auto simp: text_line_def Let_def safe_bnd safe_subslices dest: index_byte_lt split: option.split)

lemma safe_text_Probe: "safe (text_Probe data)"
  by (auto simp: text_Probe_head text_Parse_def safe_bnd safe_foldM safe_text_line split: prod.split)

subsection \<open>Lines are found again\<close>

definition text_name :: "bytes \<Rightarrow> bool" where
  "text_name name \<longleftrightarrow> name \<noteq> [] \<and> plain_byte (hd name) \<and> plain_byte (last name) \<and> hd name \<noteq> 0x23 \<and>
     0x7C \<notin> set name \<and> 10 \<notin> set name \<and> 13 \<notin> set name \<and> length name + 33 < text_max_line"

definition text_entry_line :: "bytes \<times> key \<Rightarrow> bytes" where
  "text_entry_line = (\<lambda>(name, ck). name @ 0x7C # hex_encode ck)"

lemma hex_encode_ends:
  assumes "key_ok ck"
  shows "hex_encode ck \<noteq> []" "plain_byte (hd (hex_encode ck))" "plain_byte (last (hex_encode ck))"
    "10 \<notin> set (hex_encode ck)" "13 \<notin> set (hex_encode ck)" "length (hex_encode ck) = 32"
proof -
  have ne: "ck \<noteq> []" "length ck = 16" using assms by (auto simp: key_ok_def MD5HashSize_def)
  then have "token (hex_encode ck)" by (simp add: hex_token)
  then show "hex_encode ck \<noteq> []" "plain_byte (hd (hex_encode ck))" "plain_byte (last (hex_encode ck))"
      "10 \<notin> set (hex_encode ck)" "13 \<notin> set (hex_encode ck)" "length (hex_encode ck) = 32"
    using ne by (auto simp: token_def plain_byte_def ascii_space_def)
qed

lemma text_line_entry:
  assumes "text_name name" "key_ok ck"
  shows "text_line h (text_entry_line (name, ck)) = Ret (text_put name ck h)"
proof -
  note n = assms(1) [unfolded text_name_def] and x = hex_encode_ends [OF assms(2)]
  have "TrimSpace (name @ 0x7C # hex_encode ck) = name @ 0x7C # hex_encode ck"
    using n x by (intro TrimSpace_plain) auto
  moreover have "TrimSpace name = name" "TrimSpace (hex_encode ck) = hex_encode ck"
    using n x by (intro TrimSpace_plain; simp)+
  ultimately show ?thesis
    using n x assms(2) hd_append2 [of name "0x7C # hex_encode ck"] hd_conv_nth [of "name @ 0x7C # hex_encode ck"]
    by (simp add: text_line_def text_entry_line_def index_byte_append Let_def key_ok_def MD5HashSize_def)
qed

lemma text_entry_plain:
  "text_name name \<Longrightarrow> key_ok ck \<Longrightarrow> plain_line text_max_line (text_entry_line (name, ck))"
  using hex_encode_ends [of ck]
  by (auto simp: plain_line_def text_entry_line_def text_name_def dest: last_in_set)

lemma text_lines_entries:
  "\<forall>(n, c)\<in>set es. text_name n \<and> key_ok c \<Longrightarrow>
   foldM text_line h (map text_entry_line es) = Ret (foldl (\<lambda>h (n, c). text_put n c h) h es)"
  by (induction es arbitrary: h) (auto simp: text_line_entry)

text \<open>
  C16. A text root with one name|hex entry per line parses, and each entry is found under every
  spelling of its name that differs in case or slashes only. This holds when the hashes of the
  names are distinct and each name is a line of its own: not empty, no leading #, no |, no line
  break, no white space or non-ASCII byte at its ends, and below 16 MiB.
\<close>

theorem text_root_lookup:
  assumes "\<forall>(n, c)\<in>set es. text_name n \<and> key_ok c"
    and "distinct (map (\<lambda>(n, c). lf_HashFileName n) es)"
    and "(name, ck) \<in> set es" "map norm_byte other = map norm_byte name"
  shows "\<exists>h. text_Parse (concat (map (\<lambda>e. text_entry_line e @ [10]) es)) = Ret h
    \<and> text_LookupByName h other = Some (named_entry name ck)"
proof -
  have "scan_lines text_max_line (concat (map (\<lambda>l. l @ [10]) (map text_entry_line es))) =
      (map text_entry_line es, False)"
    using assms(1) text_entry_plain by (intro scan_lines_join) auto
  then have "text_Parse (concat (map (\<lambda>e. text_entry_line e @ [10]) es)) =
      Ret (foldl (\<lambda>h (n, c). text_put n c h) text_New es)"
    using text_lines_entries [OF assms(1)] by (simp add: text_Parse_def comp_def)
  then show ?thesis using tx.lookup_puts [OF assms(2-4)] by simp
qed

theorem text_root_lookup_witness:
  "\<exists>h. text_Parse (concat (map (\<lambda>e. text_entry_line e @ [10]) [([0x61, 0x2F], zero_key), ([0x62], zero_key)])) = Ret h
    \<and> text_LookupByName h [0x41, 0x5C] = Some (named_entry [0x61, 0x2F] zero_key)"
proof (rule text_root_lookup)
  show "distinct (map (\<lambda>(n, c). lf_HashFileName n) [([0x61, 0x2F], zero_key), ([0x62], zero_key)])" by code_simp
qed (simp_all add: text_name_def plain_byte_def ascii_space_def text_max_line_def norm_byte_def word_less_nat_alt
    word_le_nat_alt)

section \<open>The Overwatch root\<close>

record ow_Handler =
  ow_byHash :: "u64 \<Rightarrow> (bytes \<times> CKeyEntry) option"
  ow_all :: "(bytes \<times> CKeyEntry) list"

definition ow_New :: ow_Handler where
  "ow_New = \<lparr>ow_byHash = (\<lambda>_. None), ow_all = []\<rparr>"

definition ow_put :: "bytes \<Rightarrow> key \<Rightarrow> ow_Handler \<Rightarrow> ow_Handler" where
  "ow_put name ck h =
     \<lparr>ow_byHash = (ow_byHash h)(lf_HashFileName name \<mapsto> (name, named_entry name ck)),
      ow_all = ow_all h @ [(name, named_entry name ck)]\<rparr>"

definition looksLikeASCII :: "bytes \<Rightarrow> bool" where
  "looksLikeASCII b \<longleftrightarrow>
     list_all (\<lambda>c. c = 0x09 \<or> c = 0x0D \<or> c = 0x0A \<or> 0x20 \<le> c \<and> c < 0x7F) (take 4096 b)"

text \<open>The loop over the header cells: the last name column and the first key column win.\<close>

fun ow_columns :: "(bytes \<Rightarrow> bytes) \<Rightarrow> nat \<Rightarrow> bytes list \<Rightarrow> nat option \<times> nat option \<Rightarrow> nat option \<times> nat option" where
  "ow_columns uni i [] cols = cols"
| "ow_columns uni i (h # hs) (nameCol, keyCol) =
     (let u = ToUpper uni (TrimSpace h) in
      ow_columns uni (i + 1) hs
        (if u = lit ''FILENAME'' then (Some i, keyCol)
         else if u \<in> {lit ''MD5'', lit ''CKEY'', lit ''CONTENTHASH'', lit ''CONTENT_KEY''} \<and> keyCol = None
         then (nameCol, Some i)
         else (nameCol, keyCol)))"

definition ow_row :: "nat \<Rightarrow> nat \<Rightarrow> ow_Handler \<Rightarrow> bytes list \<Rightarrow> ow_Handler outcome" where
  "ow_row nameCol keyCol h row =
     (if length row \<le> nameCol \<or> length row \<le> keyCol then Ret h
      else
        bnd (at row nameCol) (\<lambda>nameCell. bnd (at row keyCol) (\<lambda>keyCell.
        let name = TrimSpace nameCell; hexCK = TrimSpace keyCell in
        if length hexCK \<noteq> 32 \<or> name = [] then Ret h
        else case hex_decode hexCK of None \<Rightarrow> Ret h | Some raw \<Rightarrow> Ret (ow_put name (fit 16 raw) h))))"

definition ow_Parse :: "(bytes \<Rightarrow> bytes) \<Rightarrow> bytes \<Rightarrow> ow_Handler outcome" where
  "ow_Parse uni data =
     bnd (csv_Parse data) (\<lambda>f.
     case ow_columns uni 0 (cf_Headers f) (None, None) of
       (Some nameCol, Some keyCol) \<Rightarrow>
         bnd (foldM (ow_row nameCol keyCol) ow_New (cf_Rows f)) (\<lambda>h.
         guard (ow_all h = []) ErrBadFormat (Ret h))
     | _ \<Rightarrow> Fail ErrBadFormat)"

definition ow_Probe :: "(bytes \<Rightarrow> bytes) \<Rightarrow> bytes \<Rightarrow> ow_Handler outcome" where
  "ow_Probe uni data =
     guard (\<not> looksLikeASCII data) ErrBadFormat (
     case index_byte 0x0A data of
       None \<Rightarrow> Fail ErrBadFormat
     | Some nl \<Rightarrow>
         guard (4096 < nl) ErrBadFormat (
         bnd (subslice data 0 nl) (\<lambda>line.
         let hdr = ToUpper uni line in
         guard (\<not> contains hdr (lit ''FILENAME'') \<or> \<not> contains hdr (lit ''MD5'')) ErrBadFormat (
         ow_Parse uni data))))"

definition ow_LookupByName :: "ow_Handler \<Rightarrow> bytes \<Rightarrow> CKeyEntry option" where
  "ow_LookupByName h name = map_option snd (ow_byHash h (lf_HashFileName name))"

interpretation ow: hashed_root ow_New ow_put ow_LookupByName
  by unfold_locales (auto simp: ow_New_def ow_put_def ow_LookupByName_def)

lemma safe_ow_row: "safe (ow_row nameCol keyCol h row)"
  by (auto simp: ow_row_def Let_def safe_bnd safe_at split: option.split)

lemma safe_ow_Probe: "safe (ow_Probe uni data)"
proof -
  have "safe (csv_Parse data)"
    by (auto simp: csv_Parse_def csv_ParseSep_def split: prod.split)
  then have "safe (ow_Parse uni data)"
    by (auto simp: ow_Parse_def safe_bnd safe_guard safe_foldM safe_ow_row split: prod.split option.split)
  then show ?thesis
    by (auto simp: ow_Probe_def Let_def safe_bnd safe_guard safe_subslice dest: index_byte_lt split: option.split)
qed

subsection \<open>Rows are found again\<close>

definition ow_row_ok :: "nat \<Rightarrow> nat \<Rightarrow> bytes list \<Rightarrow> bytes \<times> key \<Rightarrow> bool" where
  "ow_row_ok nameCol keyCol row = (\<lambda>(name, ck). row_ok 0x7C row \<and> nameCol < length row \<and> keyCol < length row \<and>
     row ! nameCol = name \<and> row ! keyCol = hex_encode ck \<and> key_ok ck \<and>
     name \<noteq> [] \<and> plain_byte (hd name) \<and> plain_byte (last name))"

lemma ow_row_entry:
  assumes "ow_row_ok nc kc row (name, ck)"
  shows "ow_row nc kc h row = Ret (ow_put name ck h)"
proof -
  have x: "key_ok ck" using assms by (simp add: ow_row_ok_def)
  have "TrimSpace name = name" "TrimSpace (hex_encode ck) = hex_encode ck"
    using assms hex_encode_ends [OF x] by (intro TrimSpace_plain; simp add: ow_row_ok_def)+
  then show ?thesis
    using assms hex_encode_ends [OF x] by (simp add: ow_row_ok_def ow_row_def key_ok_def MD5HashSize_def)
qed

lemma ow_rows_entries:
  "list_all2 (ow_row_ok nc kc) rows es \<Longrightarrow>
   foldM (ow_row nc kc) h rows = Ret (foldl (\<lambda>h (n, c). ow_put n c h) h es)"
  by (induction rows es arbitrary: h rule: list_all2_induct) (auto simp: ow_row_entry)

lemma ow_all_puts: "ow_all (foldl (\<lambda>h (n, c). ow_put n c h) h es) = ow_all h @ map (\<lambda>(n, c). (n, named_entry n c)) es"
  by (induction es arbitrary: h) (auto simp: ow_put_def)

text \<open>
  An Overwatch table whose header has a name and a key column parses, lists its rows in order,
  and finds each under every spelling of its name.
\<close>

theorem ow_root_lookup:
  assumes "row_ok 0x7C hdr" "ow_columns uni 0 (map header_name hdr) (None, None) = (Some nc, Some kc)"
    and "list_all2 (ow_row_ok nc kc) rows es"
    and "distinct (map (\<lambda>(n, c). lf_HashFileName n) es)"
    and "(name, ck) \<in> set es" "map norm_byte other = map norm_byte name"
  shows "\<exists>h. ow_Parse uni (csv_text 0x7C (hdr # rows)) = Ret h
    \<and> ow_all h = map (\<lambda>(n, c). (n, named_entry n c)) es
    \<and> ow_LookupByName h other = Some (named_entry name ck)"
proof -
  have "\<forall>r\<in>set rows. row_ok 0x7C r"
    using assms(3) by (induction rule: list_all2_induct) (auto simp: ow_row_ok_def split: prod.splits)
  then have "csv_Parse (csv_text 0x7C (hdr # rows)) = Ret \<lparr>cf_Headers = map header_name hdr, cf_Rows = rows\<rparr>"
    using assms(1) by (simp add: csv_Parse_def csv_ParseSep_text)
  moreover have "es \<noteq> []" using assms(5) by auto
  ultimately show ?thesis
    using assms(2) ow.lookup_puts [OF assms(4-6)]
    by (simp add: ow_Parse_def ow_rows_entries [OF assms(3)] ow_all_puts ow_New_def)
qed

end
