(* ===== verification/RootWow.thy ===== *)
theory RootWow
  imports RootBase GoSort
begin

text \<open>
  \<^verbatim>\<open>internal/root/wow\<close>: the World of Warcraft root, groups of delta-coded file ids with content
  keys and optional name hashes. Shown here: parsing is safe and ends, and a written root reads
  back under every id and hash, except in the range of counts where the parser takes the version
  2 header for a version 3 one.
\<close>

unbundle bit_operations_syntax

definition wowMagic :: u32 where "wowMagic = 0x4D465354"
definition cflagNoNameHash :: u32 where "cflagNoNameHash = 0x10000000"

datatype wow_format = formatV1 | formatV2 | formatV3

record wow_Handler =
  wh_byID :: "u32 \<Rightarrow> CKeyEntry option"
  wh_byHash :: "u64 \<Rightarrow> CKeyEntry option"
  wh_all :: "(u32 \<times> CKeyEntry) list"
  wh_fmt :: wow_format

definition wow_New :: "wow_format \<Rightarrow> wow_Handler" where
  "wow_New f = \<lparr>wh_byID = (\<lambda>_. None), wh_byHash = (\<lambda>_. None), wh_all = [], wh_fmt = f\<rparr>"

section \<open>Groups\<close>

definition wow_entry :: "key \<Rightarrow> u64 \<Rightarrow> u32 \<Rightarrow> u32 \<Rightarrow> u32 \<Rightarrow> CKeyEntry" where
  "wow_entry ck hash fdid locale content =
     zero_entry\<lparr>ce_CKey := ck, ce_FileNameHash := hash, ce_FileDataID := fdid,
       ce_LocaleFlags := locale, ce_ContentFlags := content, ce_Flags := CEFlagHasCKey\<rparr>"

definition wow_put :: "u32 \<Rightarrow> u64 \<Rightarrow> CKeyEntry \<Rightarrow> wow_Handler \<Rightarrow> wow_Handler" where
  "wow_put fdid hash e h =
     h\<lparr>wh_byID := (wh_byID h)(fdid \<mapsto> e),
       wh_byHash := (if hash \<noteq> 0 then (wh_byHash h)(hash \<mapsto> e) else wh_byHash h),
       wh_all := wh_all h @ [(fdid, e)]\<rparr>"

text \<open>
  The loops of \<^verbatim>\<open>addV1\<close> and \<^verbatim>\<open>addV2\<close> from index \<open>i\<close> on, \<open>k\<close> turns left. The index into the id
  array is the 32-bit product \<^verbatim>\<open>i*4\<close>.
\<close>

fun addV1 :: "bytes \<Rightarrow> bytes \<Rightarrow> u32 \<Rightarrow> u32 \<Rightarrow> nat \<Rightarrow> nat \<Rightarrow> u32 \<Rightarrow> wow_Handler \<Rightarrow> wow_Handler outcome" where
  "addV1 fdids entries locale content 0 i fdid h = Ret h"
| "addV1 fdids entries locale content (Suc k) i fdid h =
     bnd (subslice_from fdids (unat (word_of_nat i * 4 :: u32))) (\<lambda>s.
     bnd (LE32 s) (\<lambda>delta.
     let fdid = fdid + delta; off = i * 24 in
     bnd (subslice entries off (off + 16)) (\<lambda>ck.
     bnd (rdLE64 entries (off + 16) (off + 24)) (\<lambda>hash.
     addV1 fdids entries locale content k (i + 1) (fdid + 1)
       (wow_put fdid hash (wow_entry ck hash fdid locale content) h)))))"

text \<open>\<open>None\<close> is the nil slice of hashes.\<close>

fun addV2 :: "bytes \<Rightarrow> bytes \<Rightarrow> bytes option \<Rightarrow> u32 \<Rightarrow> u32 \<Rightarrow> nat \<Rightarrow> nat \<Rightarrow> u32 \<Rightarrow> wow_Handler \<Rightarrow> wow_Handler outcome" where
  "addV2 fdids ckeys hashes locale content 0 i fdid h = Ret h"
| "addV2 fdids ckeys hashes locale content (Suc k) i fdid h =
     bnd (subslice_from fdids (unat (word_of_nat i * 4 :: u32))) (\<lambda>s.
     bnd (LE32 s) (\<lambda>delta.
     let fdid = fdid + delta in
     bnd (subslice ckeys (i * 16) (i * 16 + 16)) (\<lambda>ck.
     bnd (case hashes of None \<Rightarrow> Ret 0 | Some hs \<Rightarrow> rdLE64 hs (i * 8) (i * 8 + 8)) (\<lambda>hash.
     addV2 fdids ckeys hashes locale content k (i + 1) (fdid + 1)
       (wow_put fdid hash (wow_entry ck hash fdid locale content) h)))))"

text \<open>The number of files, the content and locale flags, and the length of a group header.\<close>

definition wow_group_header :: "bytes \<Rightarrow> nat \<Rightarrow> (u32 \<times> u32 \<times> u32 \<times> nat) outcome" where
  "wow_group_header data groupHeaderVersion =
     (if groupHeaderVersion = 2 then
        guard (length data < 17) ErrBadFormat (
        bnd (rdLE32 data 0 4) (\<lambda>numFiles.
        bnd (rdLE32 data 4 8) (\<lambda>localeFlags.
        bnd (rdLE32 data 8 12) (\<lambda>cf1.
        bnd (rdLE32 data 12 16) (\<lambda>cf2.
        bnd (at data 16) (\<lambda>cf3.
        Ret (numFiles, cf1 OR cf2 OR push_bit 17 (ucast cf3), localeFlags, 17)))))))
      else
        guard (length data < 12) ErrBadFormat (
        bnd (rdLE32 data 0 4) (\<lambda>numFiles.
        bnd (rdLE32 data 4 8) (\<lambda>contentFlags.
        bnd (rdLE32 data 8 12) (\<lambda>localeFlags.
        Ret (numFiles, contentFlags, localeFlags, 12))))))"

definition parseGroup :: "wow_Handler \<Rightarrow> bytes \<Rightarrow> nat \<Rightarrow> (wow_Handler \<times> nat) outcome" where
  "parseGroup h data groupHeaderVersion =
     bnd (wow_group_header data groupHeaderVersion) (\<lambda>(numFiles, contentFlags, localeFlags, hdrLen).
     if numFiles = 0 then Ret (h, hdrLen)
     else
       guard (word_of_nat (length data) < numFiles) ErrBadFormat (
       let n = unat numFiles; off = hdrLen; fdidBytes = n * 4 in
       guard (length data < off + fdidBytes) ErrBadFormat (
       bnd (subslice data off (off + fdidBytes)) (\<lambda>fdids.
       let off = off + fdidBytes in
       case wh_fmt h of
         formatV1 \<Rightarrow>
           (let need = n * 24 in
            guard (length data < off + need) ErrBadFormat (
            bnd (subslice data off (off + need)) (\<lambda>entries.
            bnd (addV1 fdids entries localeFlags contentFlags n 0 0 h) (\<lambda>h'.
            Ret (h', off + need)))))
       | _ \<Rightarrow>
           (let ckeyBytes = n * MD5HashSize in
            guard (length data < off + ckeyBytes) ErrBadFormat (
            bnd (subslice data off (off + ckeyBytes)) (\<lambda>ckeys.
            let off = off + ckeyBytes in
            if contentFlags AND cflagNoNameHash = 0 then
              (let hashBytes = n * 8 in
               guard (length data < off + hashBytes) ErrBadFormat (
               bnd (subslice data off (off + hashBytes)) (\<lambda>hashes.
               bnd (addV2 fdids ckeys (Some hashes) localeFlags contentFlags n 0 0 h) (\<lambda>h'.
               Ret (h', off + hashBytes)))))
            else
              bnd (addV2 fdids ckeys None localeFlags contentFlags n 0 0 h) (\<lambda>h'. Ret (h', off)))))))))"

text \<open>The loop over the groups ends because a group header has at least twelve bytes.\<close>

function wow_groups :: "bytes \<Rightarrow> nat \<Rightarrow> nat \<Rightarrow> wow_Handler \<Rightarrow> wow_Handler outcome" where
  "wow_groups data groupHeaderVersion off h =
     (if off < length data then
        bnd (subslice_from data off) (\<lambda>s.
        bnd (parseGroup h s groupHeaderVersion) (\<lambda>(h', consumed).
        if consumed = 0 then Ret h' else wow_groups data groupHeaderVersion (off + consumed) h'))
      else Ret h)"
  by pat_completeness auto
termination
  by (relation "measure (\<lambda>(data, v, off, h). length data - off)") auto

declare wow_groups.simps [simp del]

section \<open>The file header\<close>

definition wow_is_v3 :: "u32 \<Rightarrow> u32 \<Rightarrow> u32 \<Rightarrow> bool" where
  "wow_is_v3 sizeOfHeader totalFiles withHash \<longleftrightarrow>
     20 \<le> sizeOfHeader \<and> sizeOfHeader \<le> 0x100 \<and> withHash \<le> totalFiles"

text \<open>The format, the group header version and where the groups start.\<close>

definition wow_header :: "bytes \<Rightarrow> (wow_format \<times> nat \<times> nat) outcome" where
  "wow_header data =
     (let v2 =
        guard (length data < 12) ErrBadFormat (
        bnd (rdLE32 data 4 8) (\<lambda>totalFiles.
        bnd (rdLE32 data 8 12) (\<lambda>withHash.
        guard (totalFiles < withHash) ErrBadFormat (Ret (formatV2, 0, 12))))) in
      if length data < 4 then Ret (formatV1, 0, 0)
      else
        bnd (rdLE32 data 0 4) (\<lambda>magic.
        if magic \<noteq> wowMagic then Ret (formatV1, 0, 0)
        else if 20 \<le> length data then
          bnd (rdLE32 data 4 8) (\<lambda>sizeOfHeader.
          bnd (rdLE32 data 8 12) (\<lambda>version.
          bnd (rdLE32 data 12 16) (\<lambda>totalFiles.
          bnd (rdLE32 data 16 20) (\<lambda>withHash.
          if wow_is_v3 sizeOfHeader totalFiles withHash
          then Ret (formatV3, if version = 2 then 2 else 0, unat sizeOfHeader)
          else v2))))
        else v2))"

definition wow_Parse :: "bytes \<Rightarrow> wow_Handler outcome" where
  "wow_Parse data =
     bnd (wow_header data) (\<lambda>(f, groupHeaderVersion, off).
     wow_groups data groupHeaderVersion off (wow_New f))"

definition wow_Probe :: "bytes \<Rightarrow> wow_Handler outcome" where
  "wow_Probe data =
     (if 4 \<le> length data then
        bnd (rdLE32 data 0 4) (\<lambda>magic. if magic = wowMagic then wow_Parse data else Fail ErrBadFormat)
      else Fail ErrBadFormat)"

definition wow_LookupByName :: "wow_Handler \<Rightarrow> bytes \<Rightarrow> CKeyEntry option" where
  "wow_LookupByName h name = wh_byHash h (lf_HashFileName name)"

definition wow_LookupByFileDataID :: "wow_Handler \<Rightarrow> u32 \<Rightarrow> CKeyEntry option" where
  "wow_LookupByFileDataID h fdid = wh_byID h fdid"

section \<open>The writer\<close>

record wow_WriteEntry =
  we_FileDataID :: u32
  we_CKey :: key
  we_FileNameHash :: u64

record wow_WriteOptions =
  wo_LocaleFlags :: u32
  wo_ContentFlags :: u32

fun wow_has_dup :: "wow_WriteEntry list \<Rightarrow> bool" where
  "wow_has_dup (x # y # r) \<longleftrightarrow> we_FileDataID y = we_FileDataID x \<or> wow_has_dup (y # r)"
| "wow_has_dup _ \<longleftrightarrow> False"

text \<open>The deltas of the sorted ids; \<^verbatim>\<open>prevPost\<close> is one past the id before.\<close>

fun wow_deltas :: "u32 \<Rightarrow> wow_WriteEntry list \<Rightarrow> bytes" where
  "wow_deltas prevPost [] = []"
| "wow_deltas prevPost (e # es) = putLE32 (we_FileDataID e - prevPost) @ wow_deltas (we_FileDataID e + 1) es"

definition wow_sort :: "wow_WriteEntry list \<Rightarrow> wow_WriteEntry list" where
  "wow_sort = sort_slice (\<lambda>x y. we_FileDataID x < we_FileDataID y)"

definition wow_Encode :: "wow_WriteEntry list \<Rightarrow> wow_WriteOptions \<Rightarrow> bytes outcome" where
  "wow_Encode entries opts =
     guard (entries = []) ErrInvalidParameter (
     let localeFlags = (if wo_LocaleFlags opts = 0 then 0xFFFFFFFF else wo_LocaleFlags opts);
         cp = wow_sort entries in
     guard (wow_has_dup cp) ErrInvalidParameter (
     let hasHash = list_ex (\<lambda>e. we_FileNameHash e \<noteq> 0) cp;
         contentFlags = (if hasHash then wo_ContentFlags opts AND NOT cflagNoNameHash
                         else wo_ContentFlags opts OR cflagNoNameHash);
         totalFiles = word_of_nat (length cp) :: u32;
         withHash = (if hasHash then totalFiles else 0) in
     Ret (putLE32 wowMagic @ putLE32 totalFiles @ putLE32 withHash @
          putLE32 totalFiles @ putLE32 contentFlags @ putLE32 localeFlags @
          wow_deltas 0 cp @
          concat (map we_CKey cp) @
          (if hasHash then concat (map (\<lambda>e. putLE64 (we_FileNameHash e)) cp) else []))))"

section \<open>Safety\<close>

lemma word_times_4:
  "i < n \<Longrightarrow> unat (word_of_nat i * 4 :: u32) + 4 \<le> n * 4"
proof -
  assume "i < n"
  have "(word_of_nat i * 4 :: u32) = word_of_nat (i * 4)" by simp
  then have "unat (word_of_nat i * 4 :: u32) = (i * 4) mod 2 ^ 32" by (simp only: unat_of_nat) simp
  then show ?thesis using \<open>i < n\<close> mod_less_eq_dividend [of "i * 4" "2 ^ 32"] by linarith
qed

lemma word_times_4_small: "i < 2 ^ 30 \<Longrightarrow> unat (word_of_nat i * 4 :: u32) = i * 4"
proof -
  assume "i < 2 ^ 30"
  moreover have "(word_of_nat i * 4 :: u32) = word_of_nat (i * 4)" by simp
  ultimately show ?thesis by (simp only: unat_of_nat) simp
qed

lemma safe_addV1:
  "length fdids = n * 4 \<Longrightarrow> length entries = n * 24 \<Longrightarrow> i + k \<le> n \<Longrightarrow>
   safe (addV1 fdids entries locale content k i fdid h)"
proof (induction k arbitrary: i fdid h)
  case (Suc k)
  then show ?case using word_times_4 [of i n]
    by (auto simp: outcome_simps LE32_def Let_def safe_subslices simp del: of_nat_Suc)
qed simp

lemma safe_addV2:
  "length fdids = n * 4 \<Longrightarrow> length ckeys = n * 16 \<Longrightarrow> (\<forall>hs. hashes = Some hs \<longrightarrow> length hs = n * 8) \<Longrightarrow>
   i + k \<le> n \<Longrightarrow> safe (addV2 fdids ckeys hashes locale content k i fdid h)"
proof (induction k arbitrary: i fdid h)
  case (Suc k)
  then show ?case using word_times_4 [of i n]
    by (auto simp: outcome_simps LE32_def Let_def safe_subslices simp del: of_nat_Suc split: option.split)
qed simp

lemma safe_wow_group_header: "safe (wow_group_header data v)"
  by (auto simp: wow_group_header_def outcome_simps)

lemma wow_group_header_len:
  "wow_group_header data v = Ret (nf, cf, lf, hdr) \<Longrightarrow> hdr \<le> length data \<and> 12 \<le> hdr"
  by (auto simp: wow_group_header_def outcome_simps split: if_splits)

lemma safe_parseGroup: "safe (parseGroup h data v)"
  unfolding parseGroup_def
  by (intro safe_bndI safe_wow_group_header)
    (auto simp: outcome_simps Let_def MD5HashSize_def safe_addV1 [where n = "unat x" for x]
      safe_addV2 [where n = "unat x" for x] split: wow_format.split)

lemma safe_wow_groups: "safe (wow_groups data v off h)"
proof (induction data v off h rule: wow_groups.induct)
  case (1 data v off h)
  then show ?case
    by (subst wow_groups.simps) (auto simp: outcome_simps safe_parseGroup)
qed

text \<open>Parsing any byte string as a WoW root ends in a value or an error, never in a panic.\<close>

lemma wow_Parse_safe: "safe (wow_Parse data)"
proof -
  have "safe (wow_header data)"
    by (auto simp: wow_header_def outcome_simps Let_def)
  then show ?thesis
    by (auto simp: wow_Parse_def outcome_simps safe_wow_groups)
qed

section \<open>Roots read back\<close>

definition wow_read :: "u32 \<Rightarrow> u32 \<Rightarrow> wow_WriteEntry \<Rightarrow> CKeyEntry" where
  "wow_read locale content e =
     wow_entry (we_CKey e) (we_FileNameHash e) (we_FileDataID e) locale content"

definition wow_puts :: "u32 \<Rightarrow> u32 \<Rightarrow> wow_WriteEntry list \<Rightarrow> wow_Handler \<Rightarrow> wow_Handler" where
  "wow_puts locale content es h =
     foldl (\<lambda>h e. wow_put (we_FileDataID e) (we_FileNameHash e) (wow_read locale content e) h) h es"

lemma length_wow_deltas [simp]: "length (wow_deltas p es) = 4 * length es"
  by (induction es arbitrary: p) auto

lemma addV2_entries:
  assumes "length P = i * 4" "length Q = i * 16" "length R = i * 8" "i + length es < 2 ^ 30"
    and "\<forall>e\<in>set es. key_ok (we_CKey e)" "\<not> has \<longrightarrow> (\<forall>e\<in>set es. we_FileNameHash e = 0)"
  shows "addV2 (P @ wow_deltas prev es) (Q @ concat (map we_CKey es))
      (if has then Some (R @ concat (map (\<lambda>e. putLE64 (we_FileNameHash e)) es)) else None)
      locale content (length es) i prev h = Ret (wow_puts locale content es h)"
  using assms
proof (induction es arbitrary: P Q R i prev h)
  case (Cons e es)
  let ?P = "P @ putLE32 (we_FileDataID e - prev)" and ?Q = "Q @ we_CKey e"
    and ?R = "R @ putLE64 (we_FileNameHash e)"
  have k: "length (we_CKey e) = 16" using Cons.prems(5) by (simp add: key_ok_def MD5HashSize_def)
  have i: "unat (word_of_nat i * 4 :: u32) = i * 4" using Cons.prems(4) by (intro word_times_4_small) simp
  have "addV2 (?P @ wow_deltas (we_FileDataID e + 1) es) (?Q @ concat (map we_CKey es))
      (if has then Some (?R @ concat (map (\<lambda>e. putLE64 (we_FileNameHash e)) es)) else None)
      locale content (length es) (Suc i) (we_FileDataID e + 1)
      (wow_put (we_FileDataID e) (we_FileNameHash e) (wow_read locale content e) h) =
      Ret (wow_puts locale content es (wow_put (we_FileDataID e) (we_FileNameHash e) (wow_read locale content e) h))"
    using Cons.prems k by (intro Cons.IH) auto
  then show ?case
    using Cons.prems k
    by (cases has) (simp_all add: i Let_def wow_puts_def wow_read_def codec_simps)
qed (simp add: wow_puts_def)

text \<open>The shape of the written root.\<close>

definition wow_flags :: "wow_WriteEntry list \<Rightarrow> wow_WriteOptions \<Rightarrow> u32" where
  "wow_flags entries opts =
     (if list_ex (\<lambda>e. we_FileNameHash e \<noteq> 0) entries then wo_ContentFlags opts AND NOT cflagNoNameHash
      else wo_ContentFlags opts OR cflagNoNameHash)"

definition wow_locale :: "wow_WriteOptions \<Rightarrow> u32" where
  "wow_locale opts = (if wo_LocaleFlags opts = 0 then 0xFFFFFFFF else wo_LocaleFlags opts)"

lemma wow_flags_bit:
  "wow_flags entries opts AND cflagNoNameHash = 0 \<longleftrightarrow> list_ex (\<lambda>e. we_FileNameHash e \<noteq> 0) entries"
proof -
  have "(x OR cflagNoNameHash) AND cflagNoNameHash = cflagNoNameHash" for x
    by (rule bit_word_eqI) (auto simp: bit_simps)
  moreover have "(x AND NOT cflagNoNameHash) AND cflagNoNameHash = 0" for x
    by (rule bit_word_eqI) (auto simp: bit_simps)
  ultimately show ?thesis by (simp add: wow_flags_def cflagNoNameHash_def)
qed

lemma list_ex_wow_sort [simp]: "list_ex P (wow_sort es) = list_ex P es"
  by (simp add: list_ex_iff wow_sort_def)

lemma wow_sort_simps [simp]:
  "length (wow_sort es) = length es" "set (wow_sort es) = set es"
  by (simp_all add: wow_sort_def)

lemma wow_sorted_distinct:
  assumes "\<not> wow_has_dup (wow_sort entries)"
  shows "distinct (map we_FileDataID entries)"
proof -
  have strict: "in_order (\<lambda>x y. we_FileDataID x < we_FileDataID y) es \<Longrightarrow> \<not> wow_has_dup es \<Longrightarrow>
      sorted_wrt (\<lambda>x y. we_FileDataID x < we_FileDataID y) es" for es
  proof (induction es rule: wow_has_dup.induct)
    case (1 x y r)
    then have "we_FileDataID x < we_FileDataID y"
      "sorted_wrt (\<lambda>x y. we_FileDataID x < we_FileDataID y) (y # r)" by auto
    then show ?case by (auto intro: order.strict_trans)
  qed auto
  have "sorted_wrt (\<lambda>x y. we_FileDataID x < we_FileDataID y) (wow_sort entries)"
    using assms strict [OF slice_order.sort_slice_in_order [OF slice_order_linear]]
    by (simp add: wow_sort_def)
  then have "distinct (map we_FileDataID (wow_sort entries))"
    by (induction "wow_sort entries") (auto simp: sorted_wrt_map strict_sorted_iff simp flip: sorted_wrt_map)
  then show ?thesis by (simp add: wow_sort_def)
qed

definition wow_group_bytes :: "wow_WriteEntry list \<Rightarrow> wow_WriteOptions \<Rightarrow> bytes" where
  "wow_group_bytes entries opts =
     putLE32 (word_of_nat (length entries)) @ putLE32 (wow_flags entries opts) @ putLE32 (wow_locale opts) @
     wow_deltas 0 (wow_sort entries) @ concat (map we_CKey (wow_sort entries)) @
     (if list_ex (\<lambda>e. we_FileNameHash e \<noteq> 0) entries
      then concat (map (\<lambda>e. putLE64 (we_FileNameHash e)) (wow_sort entries)) else [])"

lemma wow_Encode_eq:
  assumes "wow_Encode entries opts = Ret data"
  shows "data = putLE32 wowMagic @ putLE32 (word_of_nat (length entries)) @
      putLE32 (if list_ex (\<lambda>e. we_FileNameHash e \<noteq> 0) entries then word_of_nat (length entries) else 0) @
      wow_group_bytes entries opts"
    and "entries \<noteq> []" "\<not> wow_has_dup (wow_sort entries)"
  using assms
  by (auto simp: wow_Encode_def Let_def guard_eq_Ret wow_group_bytes_def wow_flags_def wow_locale_def
      split: if_splits)

lemma length_wow_group_bytes:
  assumes "\<forall>e\<in>set entries. key_ok (we_CKey e)"
  shows "length (wow_group_bytes entries opts) =
    12 + 20 * length entries + (if list_ex (\<lambda>e. we_FileNameHash e \<noteq> 0) entries then 8 * length entries else 0)"
proof -
  have "length (concat (map we_CKey (wow_sort entries))) = 16 * length (wow_sort entries)"
    using assms by (intro length_concat_const) (simp add: key_ok_def MD5HashSize_def)
  moreover have "length (concat (map (\<lambda>e. putLE64 (we_FileNameHash e)) (wow_sort entries))) = 8 * length (wow_sort entries)"
    by (intro length_concat_const) simp
  ultimately show ?thesis by (simp add: wow_group_bytes_def)
qed

lemma parseGroup_bytes:
  assumes "\<forall>e\<in>set entries. key_ok (we_CKey e)" "entries \<noteq> []" "length entries < 2 ^ 24" "wh_fmt h = formatV2"
  shows "parseGroup h (wow_group_bytes entries opts) 0 =
    Ret (wow_puts (wow_locale opts) (wow_flags entries opts) (wow_sort entries) h, length (wow_group_bytes entries opts))"
proof -
  define cp where "cp = wow_sort entries"
  define hs where "hs = list_ex (\<lambda>e. we_FileNameHash e \<noteq> 0) entries"
  define D where "D = wow_deltas 0 cp"
  define K where "K = concat (map we_CKey cp)"
  define H where "H = concat (map (\<lambda>e. putLE64 (we_FileNameHash e)) cp)"
  let ?n = "length entries" and ?g = "wow_group_bytes entries opts"
  let ?fl = "wow_flags entries opts" and ?lo = "wow_locale opts"
  have g: "?g = putLE32 (word_of_nat ?n) @ putLE32 ?fl @ putLE32 ?lo @ D @ K @ (if hs then H else [])"
    by (simp add: wow_group_bytes_def D_def K_def H_def hs_def cp_def)
  have len: "length D = ?n * 4" "length K = ?n * 16" "length H = ?n * 8"
    using assms(1) length_concat_const [of cp we_CKey 16] length_concat_const [of cp "\<lambda>e. putLE64 (we_FileNameHash e)" 8]
    by (simp_all add: D_def K_def H_def cp_def key_ok_def MD5HashSize_def)
  have lg: "length ?g = 12 + 20 * ?n + (if hs then 8 * ?n else 0)"
    using length_wow_group_bytes [OF assms(1)] by (simp add: hs_def)
  have u: "unat (word_of_nat ?n :: u32) = ?n" using assms(3) by (intro unat_word_of_nat) simp
  then have nz: "(word_of_nat ?n :: u32) \<noteq> 0" using assms(2) by (metis length_0_conv unsigned_0)
  have small: "\<not> (word_of_nat (length ?g) :: u32) < word_of_nat ?n"
  proof -
    have "unat (word_of_nat (length ?g) :: u32) = length ?g"
      using assms(3) lg by (intro unat_word_of_nat) (auto split: if_splits)
    then show ?thesis using u lg by (simp add: word_less_nat_alt)
  qed
  have hdr: "wow_group_header ?g 0 = Ret (word_of_nat ?n, ?fl, ?lo, 12)"
    using lg by (simp add: wow_group_header_def) (simp add: g)
  have parts: "subslice ?g 12 (12 + ?n * 4) = Ret D" "subslice ?g (12 + ?n * 4) (12 + ?n * 4 + ?n * 16) = Ret K"
    "hs \<Longrightarrow> subslice ?g (12 + ?n * 4 + ?n * 16) (12 + ?n * 4 + ?n * 16 + ?n * 8) = Ret H"
    using lg len by (simp_all add: g)
  have add: "addV2 D K (if hs then Some H else None) ?lo ?fl ?n 0 0 h = Ret (wow_puts ?lo ?fl cp h)"
  proof -
    have "\<not> hs \<longrightarrow> (\<forall>e\<in>set cp. we_FileNameHash e = 0)" "length cp = ?n" "\<forall>e\<in>set cp. key_ok (we_CKey e)"
      using assms(1) by (auto simp: hs_def cp_def list_ex_iff)
    then show ?thesis
      using addV2_entries [of "[]" 0 "[]" "[]" cp hs 0 ?lo ?fl h] assms(3)
      by (cases hs) (simp_all add: D_def K_def H_def)
  qed
  show ?thesis
  proof (cases hs)
    case True
    then have "?fl AND cflagNoNameHash = 0" by (simp add: wow_flags_bit hs_def)
    then show ?thesis
      using True nz small parts add lg len assms(4)
      by (simp add: parseGroup_def hdr u Let_def MD5HashSize_def cp_def)
  next
    case False
    then have "?fl AND cflagNoNameHash \<noteq> 0" by (simp add: wow_flags_bit hs_def)
    then show ?thesis
      using False nz small parts add lg len assms(4)
      by (simp add: parseGroup_def hdr u Let_def MD5HashSize_def cp_def)
  qed
qed

lemma wow_puts_byID:
  "e \<in> set es \<Longrightarrow> distinct (map we_FileDataID es) \<Longrightarrow>
   wh_byID (wow_puts lo fl es h) (we_FileDataID e) = Some (wow_read lo fl e)"
proof (induction es rule: rev_induct)
  case (snoc x es)
  then show ?case by (auto simp: wow_puts_def wow_put_def image_iff)
qed simp

lemma wow_puts_byID_None:
  "fdid \<notin> we_FileDataID ` set es \<Longrightarrow> wh_byID (wow_puts lo fl es h) fdid = wh_byID h fdid"
  by (induction es rule: rev_induct) (auto simp: wow_puts_def wow_put_def)

lemma wow_puts_byHash:
  assumes "e \<in> set es" "we_FileNameHash e \<noteq> 0"
    and "\<forall>e'\<in>set es. we_FileNameHash e' = we_FileNameHash e \<longrightarrow> e' = e"
  shows "wh_byHash (wow_puts lo fl es h) (we_FileNameHash e) = Some (wow_read lo fl e)"
  using assms
proof (induction es rule: rev_induct)
  case (snoc x es)
  then show ?case by (auto simp: wow_puts_def wow_put_def)
qed simp

lemma wow_puts_simps [simp]:
  "wh_fmt (wow_puts lo fl es h) = wh_fmt h"
  "wh_all (wow_puts lo fl es h) = wh_all h @ map (\<lambda>e. (we_FileDataID e, wow_read lo fl e)) es"
  by (induction es arbitrary: h; simp add: wow_puts_def wow_put_def)+

text \<open>
  The counts for which the version 2 header passes for a version 3 one: its file count lies in
  the range of header sizes and the flags of its group, read as a count, are no larger.
\<close>

definition wow_shadowed :: "wow_WriteEntry list \<Rightarrow> wow_WriteOptions \<Rightarrow> bool" where
  "wow_shadowed entries opts \<longleftrightarrow>
     20 \<le> length entries \<and> length entries \<le> 256 \<and> unat (wow_flags entries opts) \<le> length entries"

lemma wow_header_written:
  assumes "wow_Encode entries opts = Ret data" "\<forall>e\<in>set entries. key_ok (we_CKey e)" "length entries < 2 ^ 24"
  shows "wow_header data =
    (if wow_shadowed entries opts
     then Ret (formatV3, 0, length entries) else Ret (formatV2, 0, 12))"
proof -
  let ?n = "length entries" and ?hs = "list_ex (\<lambda>e. we_FileNameHash e \<noteq> 0) entries"
  let ?wh = "(if ?hs then word_of_nat ?n else 0) :: u32"
  note d = wow_Encode_eq [OF assms(1)]
  have len: "20 \<le> length data" using length_wow_group_bytes [OF assms(2)] d(2) by (cases entries) (auto simp: d(1))
  have f: "rdLE32 data 0 4 = Ret wowMagic" "rdLE32 data 4 8 = Ret (word_of_nat ?n)" "rdLE32 data 8 12 = Ret ?wh"
    "rdLE32 data 12 16 = Ret (word_of_nat ?n)" "rdLE32 data 16 20 = Ret (wow_flags entries opts)"
    using len by (simp_all add: d(1)) (simp_all add: wow_group_bytes_def)
  have u: "unat (word_of_nat ?n :: u32) = ?n" using assms(3) by (intro unat_word_of_nat) simp
  have v3: "wow_is_v3 (word_of_nat ?n) (word_of_nat ?n) (wow_flags entries opts) = wow_shadowed entries opts"
    using u by (simp add: wow_is_v3_def wow_shadowed_def word_le_nat_alt)
  have v: "?wh \<noteq> 2" if "20 \<le> ?n"
  proof
    assume w: "?wh = 2"
    then have "unat ?wh = 2" by simp
    then show False using u that by (auto split: if_splits)
  qed
  have "\<not> word_of_nat ?n < ?wh" by simp
  then show ?thesis
    using len v v3 u by (auto simp: wow_header_def Let_def f wow_shadowed_def simp del: if_split_asm)
qed

text \<open>
  C14. A WoW root of fewer than 2^24 entries written by Encode parses, as version 2, to its
  entries in id order, unless the header is taken for a version 3 one. Every entry is found
  under its id, no other id is, and an entry whose name hash is not zero and not shared with
  another entry is found under every name of that hash.
\<close>

theorem wow_roundtrip:
  assumes "wow_Encode entries opts = Ret data"
    and "\<forall>e\<in>set entries. key_ok (we_CKey e)" "length entries < 2 ^ 24"
    and "\<not> wow_shadowed entries opts"
  defines "found \<equiv> wow_read (wow_locale opts) (wow_flags entries opts)"
  shows "\<exists>h. wow_Parse data = Ret h \<and> wh_fmt h = formatV2
    \<and> wh_all h = map (\<lambda>e. (we_FileDataID e, found e)) (wow_sort entries)
    \<and> (\<forall>e\<in>set entries. wow_LookupByFileDataID h (we_FileDataID e) = Some (found e))
    \<and> (\<forall>fdid. fdid \<notin> we_FileDataID ` set entries \<longrightarrow> wow_LookupByFileDataID h fdid = None)
    \<and> (\<forall>e\<in>set entries. \<forall>name. we_FileNameHash e = lf_HashFileName name \<and> lf_HashFileName name \<noteq> 0 \<and>
          (\<forall>e'\<in>set entries. we_FileNameHash e' = we_FileNameHash e \<longrightarrow> e' = e) \<longrightarrow>
          wow_LookupByName h name = Some (found e))"
proof -
  let ?g = "wow_group_bytes entries opts" and ?cp = "wow_sort entries"
  let ?h = "wow_puts (wow_locale opts) (wow_flags entries opts) ?cp (wow_New formatV2)"
  note d = wow_Encode_eq [OF assms(1)]
  have lg: "12 \<le> length ?g" using length_wow_group_bytes [OF assms(2)] by simp
  have "parseGroup (wow_New formatV2) ?g 0 = Ret (?h, length ?g)"
    using assms(2,3) d(2) by (intro parseGroup_bytes) (simp_all add: wow_New_def)
  then have "wow_groups data 0 12 (wow_New formatV2) = Ret ?h"
    using lg by (subst wow_groups.simps) (auto simp: d(1) wow_groups.simps)
  then have p: "wow_Parse data = Ret ?h"
    using wow_header_written [OF assms(1-3)] assms(4) by (simp add: wow_Parse_def)
  have dist: "distinct (map we_FileDataID ?cp)"
    using wow_sorted_distinct [OF d(3)] by (simp add: wow_sort_def)
  have id: "wow_LookupByFileDataID ?h (we_FileDataID e) = Some (found e)" if "e \<in> set entries" for e
    using that dist by (simp add: wow_LookupByFileDataID_def wow_puts_byID found_def)
  have none: "wow_LookupByFileDataID ?h fdid = None" if "fdid \<notin> we_FileDataID ` set entries" for fdid
    using that by (simp add: wow_LookupByFileDataID_def wow_puts_byID_None wow_New_def)
  have name: "wow_LookupByName ?h name = Some (found e)"
    if "e \<in> set entries" "we_FileNameHash e = lf_HashFileName name" "lf_HashFileName name \<noteq> 0"
      "\<forall>e'\<in>set entries. we_FileNameHash e' = we_FileNameHash e \<longrightarrow> e' = e" for e name
  proof -
    have "we_FileNameHash e \<noteq> 0" using that(2,3) by metis
    then have "wh_byHash ?h (we_FileNameHash e) = Some (found e)"
      unfolding found_def by (rule wow_puts_byHash [of e ?cp, unfolded wow_sort_simps, OF that(1) _ that(4)])
    then show ?thesis using that(2) by (simp add: wow_LookupByName_def)
  qed
  have "wh_fmt ?h = formatV2" "wh_all ?h = map (\<lambda>e. (we_FileDataID e, found e)) ?cp"
    by (simp_all add: wow_New_def found_def)
  then show ?thesis
    using p id none name by (intro exI [of _ ?h] conjI ballI allI impI; (elim conjE)?; assumption?) blast+
qed

theorem wow_roundtrip_witness:
  "\<exists>h. wow_Parse (case wow_Encode [\<lparr>we_FileDataID = 7, we_CKey = zero_key, we_FileNameHash = 0\<rparr>,
        \<lparr>we_FileDataID = 3, we_CKey = zero_key, we_FileNameHash = 0\<rparr>] \<lparr>wo_LocaleFlags = 0, wo_ContentFlags = 0\<rparr> of
      Ret data \<Rightarrow> data | _ \<Rightarrow> []) = Ret h \<and> wow_LookupByFileDataID h 4 = None"
proof -
  let ?es = "[\<lparr>we_FileDataID = 7, we_CKey = zero_key, we_FileNameHash = 0\<rparr>,
        \<lparr>we_FileDataID = 3, we_CKey = zero_key, we_FileNameHash = 0\<rparr>]"
  let ?o = "\<lparr>wo_LocaleFlags = 0, wo_ContentFlags = 0\<rparr>"
  have "\<exists>data. wow_Encode ?es ?o = Ret data" by (simp add: wow_Encode_def wow_sort_def Let_def)
  then obtain data where e: "wow_Encode ?es ?o = Ret data" by blast
  show ?thesis using wow_roundtrip [OF e] by (fastforce simp: e wow_shadowed_def)
qed

text \<open>
  Twenty entries with name hashes and no content flags: the file count passes for a header
  length of twenty bytes, the locale mask is read as a count, and the root does not parse.
\<close>

theorem wow_twenty_entries_misread:
  assumes "wow_Encode entries \<lparr>wo_LocaleFlags = 0, wo_ContentFlags = 0\<rparr> = Ret data"
    and "\<forall>e\<in>set entries. key_ok (we_CKey e)" "length entries = 20"
    and "\<exists>e\<in>set entries. we_FileNameHash e \<noteq> 0"
  shows "wow_Parse data = Fail ErrBadFormat"
proof -
  let ?o = "\<lparr>wo_LocaleFlags = 0, wo_ContentFlags = 0\<rparr>"
  have fl: "wow_flags entries ?o = 0" using assms(4) by (auto simp: wow_flags_def list_ex_iff)
  note d = wow_Encode_eq [OF assms(1)]
  have lg: "length (wow_group_bytes entries ?o) = 572"
    using length_wow_group_bytes [OF assms(2), of ?o] assms(3,4) by (auto simp: list_ex_iff)
  have hd: "wow_header data = Ret (formatV3, 0, 20)"
    using wow_header_written [OF assms(1,2)] assms(3) fl by (simp add: wow_shadowed_def)
  have "wow_group_header (drop 20 data) 0 = Ret (0xFFFFFFFF, x, y, 12)"
    if "rdLE32 (drop 20 data) 4 8 = Ret x" "rdLE32 (drop 20 data) 8 12 = Ret y" for x y
    using that lg by (simp add: wow_group_header_def d(1)) (simp add: wow_group_bytes_def wow_locale_def)
  moreover obtain x y where "rdLE32 (drop 20 data) 4 8 = Ret x" "rdLE32 (drop 20 data) 8 12 = Ret y"
    using lg by (simp add: d(1))
  ultimately have "parseGroup (wow_New formatV3) (drop 20 data) 0 = Fail ErrBadFormat"
    using lg by (simp add: parseGroup_def d(1))
  then show ?thesis
    using lg by (simp add: wow_Parse_def hd) (subst wow_groups.simps, simp add: d(1))
qed

definition wow_sample :: "wow_WriteEntry list" where
  "wow_sample = map (\<lambda>i. \<lparr>we_FileDataID = word_of_nat i, we_CKey = zero_key, we_FileNameHash = 1\<rparr>) [0..<20]"

theorem wow_twenty_entries_misread_witness:
  "\<exists>data. wow_Encode wow_sample \<lparr>wo_LocaleFlags = 0, wo_ContentFlags = 0\<rparr> = Ret data \<and>
     wow_Parse data = Fail ErrBadFormat"
proof -
  have "\<not> wow_has_dup (wow_sort wow_sample) \<and> wow_sample \<noteq> []" by code_simp
  then have "\<exists>data. wow_Encode wow_sample \<lparr>wo_LocaleFlags = 0, wo_ContentFlags = 0\<rparr> = Ret data"
    by (simp add: wow_Encode_def Let_def)
  then obtain data where e: "wow_Encode wow_sample \<lparr>wo_LocaleFlags = 0, wo_ContentFlags = 0\<rparr> = Ret data" ..
  have "wow_Parse data = Fail ErrBadFormat"
    using e by (rule wow_twenty_entries_misread) (auto simp: wow_sample_def intro: exI [of _ 0])
  with e show ?thesis by blast
qed

end
