(* ===== verification/RootTvfs.thy ===== *)
theory RootTvfs
  imports RootBase
begin

text \<open>
  \<^verbatim>\<open>internal/root/tvfs\<close>: a path table whose entries nest as folders, a table of spans and a table of
  encoded keys. Shown here: the walk ends on every input, parsing is safe below four gigabytes, a
  written root reads back, and a nested tree is flattened to its full paths.
\<close>

unbundle bit_operations_syntax

definition tvfsMagic :: u32 where "tvfsMagic = 0x53465654"
definition FlagWriteSupport :: u32 where "FlagWriteSupport = 2"
definition FlagLowercaseManifest :: u32 where "FlagLowercaseManifest = 8"
definition pteSepPre :: u8 where "pteSepPre = 1"
definition pteSepPost :: u8 where "pteSepPost = 2"
definition pteNodeValue :: u8 where "pteNodeValue = 4"
definition folderNodeBit :: u32 where "folderNodeBit = 0x80000000"
definition folderSizeMask :: u32 where "folderSizeMask = 0x7FFFFFFF"

record tvfs_header =
  th_formatVersion :: u8
  th_ekeySize :: u8
  th_patchKeySize :: u8
  th_headerSize :: u8
  th_flags :: u32
  th_pathTableOffset :: u32
  th_pathTableSize :: u32
  th_vfsTableOffset :: u32
  th_vfsTableSize :: u32
  th_cftTableOffset :: u32
  th_cftTableSize :: u32
  th_maxDepth :: u16
  th_estTableOffset :: u32
  th_estTableSize :: u32
  th_cftOffsSize :: nat
  th_estOffsSize :: nat

record tvfs_Handler =
  tv_hdr :: tvfs_header
  tv_files :: "bytes \<Rightarrow> CKeyEntry option"
  tv_all :: "(bytes \<times> CKeyEntry) list"

section \<open>The header\<close>

definition offsetFieldSize :: "u32 \<Rightarrow> nat" where
  "offsetFieldSize tableSize =
     (if 0xFFFFFF < tableSize then 4
      else if 0xFFFF < tableSize then 3
      else if 0xFF < tableSize then 2
      else 1)"

definition tvfs_parseHeader :: "bytes \<Rightarrow> tvfs_header outcome" where
  "tvfs_parseHeader data =
     guard (length data < 38) ErrBadFormat (
     bnd (rdLE32 data 0 4) (\<lambda>magic.
     guard (magic \<noteq> tvfsMagic) ErrBadFormat (
     bnd (at data 4) (\<lambda>formatVersion.
     bnd (at data 5) (\<lambda>headerSize.
     bnd (at data 6) (\<lambda>ekeySize.
     bnd (at data 7) (\<lambda>patchKeySize.
     guard (formatVersion \<noteq> 1 \<or> ekeySize \<noteq> 9 \<or> patchKeySize \<noteq> 9) ErrNotSupported (
     bnd (rdLE32 data 8 12) (\<lambda>flags.
     bnd (rdBE32 data 12 16) (\<lambda>pathOff.
     bnd (rdBE32 data 16 20) (\<lambda>pathSize.
     bnd (rdBE32 data 20 24) (\<lambda>vfsOff.
     bnd (rdBE32 data 24 28) (\<lambda>vfsSize.
     bnd (rdBE32 data 28 32) (\<lambda>cftOff.
     bnd (rdBE32 data 32 36) (\<lambda>cftSize.
     bnd (rdBE16 data 36 38) (\<lambda>maxDepth.
     bnd (if flags AND FlagWriteSupport \<noteq> 0 \<and> 46 \<le> length data
          then bnd (rdBE32 data 38 42) (\<lambda>eo. bnd (rdBE32 data 42 46) (\<lambda>es. Ret (eo, es)))
          else Ret (0, 0)) (\<lambda>(estOff, estSize).
     guard (length data < unat pathOff + unat pathSize \<or> length data < unat vfsOff + unat vfsSize \<or>
            length data < unat cftOff + unat cftSize) ErrBadFormat (
     Ret \<lparr>th_formatVersion = formatVersion, th_ekeySize = ekeySize, th_patchKeySize = patchKeySize,
          th_headerSize = headerSize, th_flags = flags, th_pathTableOffset = pathOff,
          th_pathTableSize = pathSize, th_vfsTableOffset = vfsOff, th_vfsTableSize = vfsSize,
          th_cftTableOffset = cftOff, th_cftTableSize = cftSize, th_maxDepth = maxDepth,
          th_estTableOffset = estOff, th_estTableSize = estSize,
          th_cftOffsSize = offsetFieldSize cftSize, th_estOffsSize = offsetFieldSize estSize\<rparr>))))))))))))))))))"

section \<open>Path entries\<close>

record tvfs_pathEntry =
  pe_name :: bytes
  pe_flags :: u8
  pe_value :: u32

text \<open>The four steps of \<^verbatim>\<open>parsePathEntry\<close>, each on what the one before left.\<close>

definition pe_sep_pre :: "bytes \<Rightarrow> (u8 \<times> bytes) outcome" where
  "pe_sep_pre buf =
     bnd (at buf 0) (\<lambda>b.
     if b = 0 then bnd (subslice_from buf 1) (\<lambda>rest. Ret (pteSepPre, rest)) else Ret (0, buf))"

definition pe_read_name :: "bytes \<Rightarrow> (bytes \<times> bytes) outcome" where
  "pe_read_name buf =
     bnd (go_and (buf \<noteq> []) (bnd (at buf 0) (\<lambda>b. Ret (b \<noteq> 0xFF)))) (\<lambda>named.
     if named then
       bnd (at buf 0) (\<lambda>b.
       bnd (subslice_from buf 1) (\<lambda>buf.
       let nLen = unat b in
       guard (length buf < nLen) ErrBadFormat (
       bnd (subslice buf 0 nLen) (\<lambda>name.
       bnd (subslice_from buf nLen) (\<lambda>rest. Ret (name, rest))))))
     else Ret ([], buf))"

definition pe_sep_post :: "u8 \<Rightarrow> bytes \<Rightarrow> (u8 \<times> bytes) outcome" where
  "pe_sep_post flags buf =
     bnd (go_and (buf \<noteq> []) (bnd (at buf 0) (\<lambda>b. Ret (b = 0)))) (\<lambda>sep.
     if sep then bnd (subslice_from buf 1) (\<lambda>rest. Ret (flags OR pteSepPost, rest)) else Ret (flags, buf))"

definition pe_read_value :: "bytes \<Rightarrow> u8 \<Rightarrow> bytes \<Rightarrow> (tvfs_pathEntry \<times> bytes) outcome" where
  "pe_read_value name flags buf =
     (if buf \<noteq> [] then
        bnd (at buf 0) (\<lambda>b.
        if b = 0xFF then
          guard (length buf < 5) ErrBadFormat (
          bnd (rdBE32 buf 1 5) (\<lambda>v.
          bnd (subslice_from buf 5) (\<lambda>rest.
          Ret (\<lparr>pe_name = name, pe_flags = flags OR pteNodeValue, pe_value = v\<rparr>, rest))))
        else Ret (\<lparr>pe_name = name, pe_flags = flags OR pteSepPost, pe_value = 0\<rparr>, buf))
      else Ret (\<lparr>pe_name = name, pe_flags = flags, pe_value = 0\<rparr>, buf))"

definition parsePathEntry :: "bytes \<Rightarrow> (tvfs_pathEntry \<times> bytes) outcome" where
  "parsePathEntry buf =
     guard (buf = []) ErrBadFormat (
     bnd (pe_sep_pre buf) (\<lambda>(flags, buf).
     bnd (pe_read_name buf) (\<lambda>(name, buf).
     bnd (pe_sep_post flags buf) (\<lambda>(flags, buf).
     pe_read_value name flags buf))))"

text \<open>What the steps come to, byte by byte.\<close>

lemma pe_sep_pre_Cons: "pe_sep_pre (b # bs) = Ret (if b = 0 then (pteSepPre, bs) else (0, b # bs))"
  by (simp add: pe_sep_pre_def)

lemma pe_read_name_simps [simp]:
  "pe_read_name [] = Ret ([], [])"
  "pe_read_name (b # bs) =
     (if b = 0xFF then Ret ([], b # bs)
      else guard (length bs < unat b) ErrBadFormat (Ret (take (unat b) bs, drop (unat b) bs)))"
  by (simp_all add: pe_read_name_def guard_def Let_def)

lemma pe_sep_post_simps [simp]:
  "pe_sep_post fl [] = Ret (fl, [])"
  "pe_sep_post fl (b # bs) = Ret (if b = 0 then (fl OR pteSepPost, bs) else (fl, b # bs))"
  by (simp_all add: pe_sep_post_def)

text \<open>\<^verbatim>\<open>readVarBE\<close>, on 32 bits.\<close>

fun readVarBE_from :: "u32 \<Rightarrow> bytes \<Rightarrow> u32" where
  "readVarBE_from v [] = v"
| "readVarBE_from v (b # bs) = readVarBE_from (push_bit 8 v OR ucast b) bs"

definition readVarBE :: "bytes \<Rightarrow> nat \<Rightarrow> u32 outcome" where
  "readVarBE b n = bnd (subslice b 0 n) (\<lambda>bs. Ret (readVarBE_from 0 bs))"

definition resolveVfs :: "tvfs_header \<Rightarrow> bytes \<Rightarrow> u32 \<Rightarrow> CKeyEntry outcome" where
  "resolveVfs h data vfsOffset =
     guard (unat (th_vfsTableSize h) \<le> unat vfsOffset) ErrBadFormat (
     bnd (subslice_from data (unat (th_vfsTableOffset h))) (\<lambda>t.
     bnd (subslice_from t (unat vfsOffset)) (\<lambda>vfs.
     guard (vfs = []) ErrBadFormat (
     bnd (at vfs 0) (\<lambda>spanCount.
     guard (unat spanCount < 1 \<or> 224 < unat spanCount) ErrBadFormat (
     bnd (subslice_from vfs 1) (\<lambda>vfs.
     let itemSize = 4 + 4 + th_cftOffsSize h in
     guard (length vfs < itemSize) ErrBadFormat (
     bnd (rdBE32 vfs 4 8) (\<lambda>contentSize.
     bnd (subslice vfs 8 (8 + th_cftOffsSize h)) (\<lambda>ob.
     bnd (readVarBE ob (th_cftOffsSize h)) (\<lambda>cftOff.
     guard (unat (th_cftTableSize h) \<le> unat cftOff) ErrBadFormat (
     bnd (subslice_from data (unat (th_cftTableOffset h))) (\<lambda>c.
     bnd (subslice_from c (unat cftOff)) (\<lambda>cft.
     guard (length cft < unat (th_ekeySize h)) ErrBadFormat (
     bnd (subslice cft 0 (unat (th_ekeySize h))) (\<lambda>ek.
     Ret (zero_entry\<lparr>ce_EKey := fit 16 ek, ce_ContentSize := ucast contentSize, ce_FileDataID := InvalidID,
       ce_Flags := CEFlagHasEKey, ce_SpanCount := ucast spanCount\<rparr>)))))))))))))))))"

section \<open>The walk\<close>

definition tvfs_path :: "bytes \<Rightarrow> tvfs_pathEntry \<Rightarrow> bytes" where
  "tvfs_path prefix e =
     prefix @ (if pe_flags e AND pteSepPre \<noteq> 0 then [0x2F] else []) @ pe_name e @
     (if pe_flags e AND pteSepPost \<noteq> 0 then [0x2F] else [])"

definition tvfs_put :: "bytes \<Rightarrow> CKeyEntry \<Rightarrow> tvfs_Handler \<Rightarrow> tvfs_Handler" where
  "tvfs_put name e h = h\<lparr>tv_files := (tv_files h)(name \<mapsto> e), tv_all := tv_all h @ [(name, e)]\<rparr>"

definition tvfs_final :: "(bytes \<Rightarrow> bytes) \<Rightarrow> tvfs_header \<Rightarrow> bytes \<Rightarrow> bytes" where
  "tvfs_final uni hdr path = (if th_flags hdr AND FlagLowercaseManifest \<noteq> 0 then ToLower uni path else path)"

lemma pe_read_name_le: "pe_read_name buf = Ret (n, r) \<Longrightarrow> length r \<le> length buf"
  by (cases buf) (auto simp: guard_def split: if_splits)

lemma pe_sep_post_le: "pe_sep_post fl buf = Ret (f, r) \<Longrightarrow> length r \<le> length buf"
  by (cases buf) (auto split: if_splits)

lemma pe_read_value_le: "pe_read_value n fl buf = Ret (e, r) \<Longrightarrow> length r \<le> length buf"
  by (auto simp: pe_read_value_def outcome_simps split: if_splits)

text \<open>A path entry takes at least one byte, so the walk ends.\<close>

lemma parsePathEntry_shrinks:
  assumes "parsePathEntry buf = Ret (e, rest)"
  shows "length rest < length buf"
proof -
  obtain b bs where buf: "buf = b # bs" using assms by (cases buf) (auto simp: parsePathEntry_def)
  obtain f1 b1 n b2 f3 b3
    where st: "pe_sep_pre buf = Ret (f1, b1)" "pe_read_name b1 = Ret (n, b2)" "pe_sep_post f1 b2 = Ret (f3, b3)"
      "pe_read_value n f3 b3 = Ret (e, rest)"
    using assms by (auto simp: parsePathEntry_def outcome_simps)
  note le = pe_read_name_le [OF st(2)] pe_sep_post_le [OF st(3)] pe_read_value_le [OF st(4)]
  consider "b = 0" | "b = 0xFF" | "b \<noteq> 0" "b \<noteq> 0xFF" by blast
  then show ?thesis
  proof cases
    case 1
    then have "length b1 < length buf" using st(1) by (simp add: buf pe_sep_pre_Cons)
    then show ?thesis using le by linarith
  next
    case 2
    then have "b3 = buf" using st(1-3) by (auto simp: buf pe_sep_pre_Cons)
    then show ?thesis using 2 st(4) by (auto simp: buf pe_read_value_def outcome_simps)
  next
    case 3
    then have "length b2 < length buf" using st(1,2) by (auto simp: buf pe_sep_pre_Cons guard_def split: if_splits)
    then show ?thesis using le by linarith
  qed
qed

function tvfs_walk :: "(bytes \<Rightarrow> bytes) \<Rightarrow> bytes \<Rightarrow> bytes \<Rightarrow> bytes \<Rightarrow> tvfs_Handler \<Rightarrow> tvfs_Handler outcome" where
  "tvfs_walk uni data region prefix h =
     (if region = [] then Ret h
      else
        case parsePathEntry region of
          Panic \<Rightarrow> Panic
        | Fail e \<Rightarrow> Fail e
        | Ret (entry, region') \<Rightarrow>
            let path = tvfs_path prefix entry in
            if pe_flags entry AND pteNodeValue = 0 then tvfs_walk uni data region' prefix h
            else if pe_value entry AND folderNodeBit \<noteq> 0 then
              (let size = unat (pe_value entry AND folderSizeMask) in
               if size < 4 \<or> length region' < size - 4 then Fail ErrBadFormat
               else
                 bnd (subslice region' 0 (size - 4)) (\<lambda>sub.
                 bnd (tvfs_walk uni data sub path h) (\<lambda>h'.
                 bnd (subslice_from region' (size - 4)) (\<lambda>rest.
                 tvfs_walk uni data rest prefix h'))))
            else
              case resolveVfs (tv_hdr h) data (pe_value entry) of
                Panic \<Rightarrow> Panic
              | Fail _ \<Rightarrow> tvfs_walk uni data region' prefix h
              | Ret ckey \<Rightarrow>
                  tvfs_walk uni data region' prefix (tvfs_put (tvfs_final uni (tv_hdr h) path) ckey h))"
  by pat_completeness auto
termination
  by (relation "measure (\<lambda>(uni, data, region, prefix, h). length region)")
    (auto simp: subslice_eq_Ret subslice_from_eq_Ret dest!: parsePathEntry_shrinks)

declare tvfs_walk.simps [simp del]

definition tvfs_parseRoot :: "(bytes \<Rightarrow> bytes) \<Rightarrow> bytes \<Rightarrow> tvfs_Handler \<Rightarrow> tvfs_Handler outcome" where
  "tvfs_parseRoot uni data h =
     (let off = th_pathTableOffset (tv_hdr h) in
      bnd (subslice data (unat off) (unat (off + th_pathTableSize (tv_hdr h)))) (\<lambda>pt.
      bnd (go_and (5 \<le> length pt) (bnd (at pt 0) (\<lambda>b. Ret (b = 0xFF)))) (\<lambda>node.
      if node then
        bnd (rdBE32 pt 1 5) (\<lambda>nv.
        guard (nv AND folderNodeBit = 0) ErrBadFormat (
        let size = unat (nv AND folderSizeMask) in
        guard (size < 4 \<or> length pt < 1 + size) ErrBadFormat (
        bnd (subslice pt 5 (1 + size)) (\<lambda>body. tvfs_walk uni data body [] h))))
      else tvfs_walk uni data pt [] h)))"

definition tvfs_Parse :: "(bytes \<Rightarrow> bytes) \<Rightarrow> bytes \<Rightarrow> tvfs_Handler outcome" where
  "tvfs_Parse uni data =
     bnd (tvfs_parseHeader data) (\<lambda>hdr.
     tvfs_parseRoot uni data \<lparr>tv_hdr = hdr, tv_files = (\<lambda>_. None), tv_all = []\<rparr>)"

definition tvfs_Probe :: "(bytes \<Rightarrow> bytes) \<Rightarrow> bytes \<Rightarrow> tvfs_Handler outcome" where
  "tvfs_Probe uni data =
     guard (length data < 4) ErrBadFormat (
     bnd (rdLE32 data 0 4) (\<lambda>magic.
     guard (magic \<noteq> tvfsMagic) ErrBadFormat (
     tvfs_Parse uni data)))"

definition tvfs_LookupByName :: "(bytes \<Rightarrow> bytes) \<Rightarrow> tvfs_Handler \<Rightarrow> bytes \<Rightarrow> CKeyEntry option" where
  "tvfs_LookupByName uni h name =
     tv_files h (if th_flags (tv_hdr h) AND FlagLowercaseManifest \<noteq> 0 then ToLower uni name else name)"

section \<open>The writer\<close>

record tvfs_WriteEntry =
  te_Name :: bytes
  te_EKey :: key
  te_ContentSize :: u32

text \<open>\<^verbatim>\<open>putBE32w\<close> and \<^verbatim>\<open>writeVarBE\<close>.\<close>

definition putBE32w :: "u32 \<Rightarrow> bytes" where
  "putBE32w v = [ucast (drop_bit 24 v), ucast (drop_bit 16 v), ucast (drop_bit 8 v), ucast v]"

definition writeVarBE :: "u32 \<Rightarrow> nat \<Rightarrow> bytes" where
  "writeVarBE v n = rev (map (\<lambda>i. ucast (drop_bit (8 * i) v)) [0..<n])"

text \<open>The loops over the entries, from index \<open>i\<close> on.\<close>

fun tvfs_path_bytes :: "nat \<Rightarrow> nat \<Rightarrow> tvfs_WriteEntry list \<Rightarrow> bytes" where
  "tvfs_path_bytes vfsItemSize i [] = []"
| "tvfs_path_bytes vfsItemSize i (e # es) =
     word_of_nat (length (te_Name e)) # te_Name e @ [0xFF] @ putBE32w (word_of_nat (i * vfsItemSize)) @
     tvfs_path_bytes vfsItemSize (i + 1) es"

fun tvfs_vfs_bytes :: "nat \<Rightarrow> nat \<Rightarrow> tvfs_WriteEntry list \<Rightarrow> bytes" where
  "tvfs_vfs_bytes cftOffsSize i [] = []"
| "tvfs_vfs_bytes cftOffsSize i (e # es) =
     [1, 0, 0, 0, 0] @ putBE32w (te_ContentSize e) @ writeVarBE (word_of_nat (i * 9)) cftOffsSize @
     tvfs_vfs_bytes cftOffsSize (i + 1) es"

definition tvfs_Encode :: "tvfs_WriteEntry list \<Rightarrow> bool \<Rightarrow> bytes outcome" where
  "tvfs_Encode entries lowercase =
     guard (list_ex (\<lambda>e. te_Name e = [] \<or> 0xFE < length (te_Name e)) entries) ErrInvalidParameter (
     let pathBodySize = sum_list (map (\<lambda>e. 1 + length (te_Name e) + 5) entries);
         pathTableSize = 5 + pathBodySize;
         cftTableSize = 9 * length entries;
         cftOffsSize = offsetFieldSize (word_of_nat cftTableSize);
         vfsItemSize = 1 + 4 + 4 + cftOffsSize;
         vfsTableSize = vfsItemSize * length entries;
         pathTableOffset = 38 :: u32;
         vfsTableOffset = pathTableOffset + word_of_nat pathTableSize;
         cftTableOffset = vfsTableOffset + word_of_nat vfsTableSize in
     Ret (putLE32 tvfsMagic @ [1, 38, 9, 9] @ putLE32 (if lowercase then FlagLowercaseManifest else 0) @
          putBE32w pathTableOffset @ putBE32w (word_of_nat pathTableSize) @
          putBE32w vfsTableOffset @ putBE32w (word_of_nat vfsTableSize) @
          putBE32w cftTableOffset @ putBE32w (word_of_nat cftTableSize) @ [0, 1] @
          [0xFF] @ putBE32w (folderNodeBit OR word_of_nat (4 + pathBodySize)) @
          tvfs_path_bytes vfsItemSize 0 entries @
          tvfs_vfs_bytes cftOffsSize 0 entries @
          concat (map (\<lambda>e. take 9 (te_EKey e)) entries)))"

section \<open>Safety\<close>

text \<open>What the header check of the tables guarantees.\<close>

definition tvfs_tables_ok :: "tvfs_header \<Rightarrow> bytes \<Rightarrow> bool" where
  "tvfs_tables_ok h data \<longleftrightarrow>
     unat (th_pathTableOffset h) + unat (th_pathTableSize h) \<le> length data \<and>
     unat (th_vfsTableOffset h) + unat (th_vfsTableSize h) \<le> length data \<and>
     unat (th_cftTableOffset h) + unat (th_cftTableSize h) \<le> length data"

lemma safe_tvfs_parseHeader: "safe (tvfs_parseHeader data)"
  by (auto simp: tvfs_parseHeader_def outcome_simps)

lemma tvfs_parseHeader_tables: "tvfs_parseHeader data = Ret h \<Longrightarrow> tvfs_tables_ok h data"
  by (auto simp: tvfs_parseHeader_def outcome_simps tvfs_tables_ok_def split: if_splits)

lemma safe_parsePathEntry: "safe (parsePathEntry buf)"
  by (auto simp: parsePathEntry_def pe_sep_pre_def pe_read_name_def pe_sep_post_def pe_read_value_def outcome_simps
      safe_subslices go_and_def Let_def split: prod.split)

lemma safe_resolveVfs: "tvfs_tables_ok h data \<Longrightarrow> safe (resolveVfs h data v)"
  by (auto simp: resolveVfs_def readVarBE_def outcome_simps Let_def safe_subslices tvfs_tables_ok_def)

lemma tvfs_put_hdr [simp]: "tv_hdr (tvfs_put n e h) = tv_hdr h"
  by (simp add: tvfs_put_def)

text \<open>One turn of the walk, after a path entry has been read.\<close>

lemma tvfs_walk_step:
  assumes "parsePathEntry region = Ret (e, r)"
  shows "tvfs_walk uni data region prefix h =
    (let path = tvfs_path prefix e in
     if pe_flags e AND pteNodeValue = 0 then tvfs_walk uni data r prefix h
     else if pe_value e AND folderNodeBit \<noteq> 0 then
       (let size = unat (pe_value e AND folderSizeMask) in
        if size < 4 \<or> length r < size - 4 then Fail ErrBadFormat
        else bnd (tvfs_walk uni data (take (size - 4) r) path h) (\<lambda>h'. tvfs_walk uni data (drop (size - 4) r) prefix h'))
     else
       case resolveVfs (tv_hdr h) data (pe_value e) of
         Panic \<Rightarrow> Panic
       | Fail _ \<Rightarrow> tvfs_walk uni data r prefix h
       | Ret ckey \<Rightarrow> tvfs_walk uni data r prefix (tvfs_put (tvfs_final uni (tv_hdr h) path) ckey h))"
proof -
  have "region \<noteq> []" using parsePathEntry_shrinks [OF assms] by auto
  then show ?thesis by (subst tvfs_walk.simps) (simp add: assms Let_def)
qed

lemma tvfs_walk_Nil [simp]: "tvfs_walk uni data [] prefix h = Ret h"
  by (subst tvfs_walk.simps) simp

lemma tvfs_walk_err: "region \<noteq> [] \<Longrightarrow> \<nexists>x. parsePathEntry region = Ret x \<Longrightarrow> \<exists>e. tvfs_walk uni data region prefix h = Fail e"
  using safe_parsePathEntry [of region]
  by (subst tvfs_walk.simps) (auto split: outcome.split)

lemma tvfs_walk_hdr: "tvfs_walk uni data region prefix h = Ret h' \<Longrightarrow> tv_hdr h' = tv_hdr h"
proof (induction "length region" arbitrary: region prefix h h' rule: less_induct)
  case less
  show ?case
  proof (cases "\<exists>e r. parsePathEntry region = Ret (e, r)")
    case True
    then obtain e r where pe: "parsePathEntry region = Ret (e, r)" by blast
    note lt = parsePathEntry_shrinks [OF pe]
    have IH: "tvfs_walk uni data s pre g = Ret g' \<Longrightarrow> length s \<le> length r \<Longrightarrow> tv_hdr g' = tv_hdr g" for s pre g g'
      using less.hyps [of s pre g g'] lt by simp
    show ?thesis
      using less.prems unfolding tvfs_walk_step [OF pe]
      by (auto simp: Let_def bnd_eq_Ret dest!: IH split: if_splits outcome.splits)
  next
    case False
    then show ?thesis using less.prems tvfs_walk_err [of region uni data prefix h] by (cases "region = []") auto
  qed
qed

lemma safe_tvfs_walk: "tvfs_tables_ok (tv_hdr h) data \<Longrightarrow> safe (tvfs_walk uni data region prefix h)"
proof (induction "length region" arbitrary: region prefix h rule: less_induct)
  case less
  show ?case
  proof (cases "\<exists>e r. parsePathEntry region = Ret (e, r)")
    case True
    then obtain e r where pe: "parsePathEntry region = Ret (e, r)" by blast
    note lt = parsePathEntry_shrinks [OF pe]
    have IH: "tv_hdr g = tv_hdr h \<Longrightarrow> length s \<le> length r \<Longrightarrow> safe (tvfs_walk uni data s pre g)" for s pre g
      using less.hyps [of s g pre] less.prems lt by simp
    show ?thesis
      using safe_resolveVfs [OF less.prems, of "pe_value e"] unfolding tvfs_walk_step [OF pe]
      by (auto simp: Let_def safe_bnd IH tvfs_walk_hdr split: outcome.split)
  next
    case False
    then show ?thesis using tvfs_walk_err [of region uni data prefix h] by (cases "region = []") auto
  qed
qed

text \<open>
  Parsing any byte string shorter than four gigabytes as a TVFS root ends in a value or an error,
  never in a panic.
\<close>

lemma tvfs_Parse_safe:
  assumes "length data < 2 ^ 32"
  shows "safe (tvfs_Parse uni data)"
proof -
  have "safe (tvfs_parseRoot uni data h)" if t: "tvfs_tables_ok (tv_hdr h) data" for h
  proof -
    let ?o = "th_pathTableOffset (tv_hdr h)" and ?s = "th_pathTableSize (tv_hdr h)"
    have le: "unat ?o + unat ?s \<le> length data" using t by (simp add: tvfs_tables_ok_def)
    then have "unat (?o + ?s) = unat ?o + unat ?s"
      using assms by (simp add: unat_word_ariths)
    then show ?thesis
      using le t by (auto simp: tvfs_parseRoot_def Let_def outcome_simps safe_tvfs_walk safe_at go_and_def
        split: if_splits)
  qed
  then show ?thesis
    using tvfs_parseHeader_tables [of data] safe_tvfs_parseHeader [of data]
    by (auto simp: tvfs_Parse_def outcome_simps)
qed

section \<open>Trees are flattened to their paths\<close>

text \<open>
  What a path table means: a tree of folders whose leaves carry offsets into the span table. Its
  bytes put a separator after a folder's name and the folder's length before its children.
\<close>

datatype tvfs_node = Leaf bytes u32 | Folder bytes "tvfs_node list"

definition name_bytes :: "bytes \<Rightarrow> bytes" where
  "name_bytes name = word_of_nat (length name) # name"

fun nodes_bytes :: "tvfs_node list \<Rightarrow> bytes" where
  "nodes_bytes [] = []"
| "nodes_bytes (Leaf name v # ts) = name_bytes name @ 0xFF # putBE32w v @ nodes_bytes ts"
| "nodes_bytes (Folder name cs # ts) =
     name_bytes name @ 0 # 0xFF # putBE32w (folderNodeBit OR word_of_nat (4 + length (nodes_bytes cs))) @
     nodes_bytes cs @ nodes_bytes ts"

fun nodes_paths :: "bytes \<Rightarrow> tvfs_node list \<Rightarrow> (bytes \<times> u32) list" where
  "nodes_paths prefix [] = []"
| "nodes_paths prefix (Leaf name v # ts) = (prefix @ name, v) # nodes_paths prefix ts"
| "nodes_paths prefix (Folder name cs # ts) = nodes_paths (prefix @ name @ [0x2F]) cs @ nodes_paths prefix ts"

definition node_name_ok :: "bytes \<Rightarrow> bool" where
  "node_name_ok name \<longleftrightarrow> name \<noteq> [] \<and> length name \<le> 0xFE"

fun nodes_ok :: "tvfs_node list \<Rightarrow> bool" where
  "nodes_ok [] \<longleftrightarrow> True"
| "nodes_ok (Leaf name v # ts) \<longleftrightarrow> node_name_ok name \<and> v AND folderNodeBit = 0 \<and> nodes_ok ts"
| "nodes_ok (Folder name cs # ts) \<longleftrightarrow>
     node_name_ok name \<and> 4 + length (nodes_bytes cs) < 2 ^ 31 \<and> nodes_ok cs \<and> nodes_ok ts"

text \<open>A leaf is entered when its offset resolves, and left out when it does not.\<close>

definition tvfs_enter :: "(bytes \<Rightarrow> bytes) \<Rightarrow> bytes \<Rightarrow> tvfs_Handler \<Rightarrow> bytes \<times> u32 \<Rightarrow> tvfs_Handler" where
  "tvfs_enter uni data h = (\<lambda>(path, v). case resolveVfs (tv_hdr h) data v of
     Ret ckey \<Rightarrow> tvfs_put (tvfs_final uni (tv_hdr h) path) ckey h | _ \<Rightarrow> h)"

lemma putBE32w_eq: "putBE32w v = be_bytes 4 (unat v)"
  using putBE_eq(2) [of v] by (simp add: putBE32w_def putBEUint32_def)

lemma length_putBE32w [simp]: "length (putBE32w v) = 4"
  by (simp add: putBE32w_eq)

lemma be_val_putBE32w [simp]: "word_of_nat (be_val (putBE32w v)) = v"
  using unat_bounds(2) [of v] by (simp add: putBE32w_eq be_val_be_bytes)

lemma name_length:
  assumes "node_name_ok name"
  shows "(word_of_nat (length name) :: u8) \<noteq> 0" "(word_of_nat (length name) :: u8) \<noteq> 0xFF"
    "unat (word_of_nat (length name) :: u8) = length name"
proof -
  have u: "unat (word_of_nat (length name) :: u8) = length name"
    using assms by (intro unat_word_of_nat) (simp add: node_name_ok_def)
  show "unat (word_of_nat (length name) :: u8) = length name" by (rule u)
  show "(word_of_nat (length name) :: u8) \<noteq> 0" "(word_of_nat (length name) :: u8) \<noteq> 0xFF"
    using u assms by (auto simp: node_name_ok_def dest: arg_cong [where f = unat])
qed

lemma parse_leaf:
  "node_name_ok name \<Longrightarrow> parsePathEntry (name_bytes name @ 0xFF # putBE32w v @ r) =
    Ret (\<lparr>pe_name = name, pe_flags = pteNodeValue, pe_value = v\<rparr>, r)"
  by (simp add: parsePathEntry_def pe_sep_pre_Cons pe_read_value_def
      name_bytes_def name_length Let_def rdBE_Ret)

lemma parse_folder:
  "node_name_ok name \<Longrightarrow> parsePathEntry (name_bytes name @ 0 # 0xFF # putBE32w v @ r) =
    Ret (\<lparr>pe_name = name, pe_flags = pteSepPost OR pteNodeValue, pe_value = v\<rparr>, r)"
  by (simp add: parsePathEntry_def pe_sep_pre_Cons pe_read_value_def
      name_bytes_def name_length Let_def rdBE_Ret)

lemma bit_folderNodeBit [simp]: "bit folderNodeBit k \<longleftrightarrow> k = 31"
proof -
  have b: "folderNodeBit = push_bit 31 1" by (simp add: folderNodeBit_def push_bit_eq_mult)
  show ?thesis unfolding b bit_push_bit_iff bit_1_iff by (auto simp: possible_bit_def)
qed

lemma not_folder: "n < 2 ^ 31 \<Longrightarrow> (word_of_nat n :: u32) AND folderNodeBit = 0"
proof -
  assume n: "n < 2 ^ 31"
  have "\<not> bit n 31" using n by (simp add: bit_iff_odd)
  then show ?thesis by (intro bit_word_eqI) (auto simp: bit_simps)
qed

lemma folder_value:
  assumes "n < 2 ^ 31"
  shows "(folderNodeBit OR word_of_nat n :: u32) AND folderNodeBit \<noteq> 0"
    and "unat ((folderNodeBit OR word_of_nat n :: u32) AND folderSizeMask) = n"
proof -
  have "(folderNodeBit OR word_of_nat n :: u32) AND folderNodeBit = folderNodeBit"
    by (rule bit_word_eqI) (auto simp: bit_simps)
  then show "(folderNodeBit OR word_of_nat n :: u32) AND folderNodeBit \<noteq> 0" by (simp add: folderNodeBit_def)
  have m: "folderSizeMask = mask 31" by (simp add: folderSizeMask_def mask_eq_exp_minus_1)
  have "(folderNodeBit OR word_of_nat n :: u32) AND folderSizeMask = take_bit 31 (word_of_nat n)"
    unfolding m by (rule bit_word_eqI) (auto simp: bit_simps)
  also have "\<dots> = word_of_nat n"
    using assms by (simp add: take_bit_of_nat take_bit_nat_eq_self)
  finally show "unat ((folderNodeBit OR word_of_nat n :: u32) AND folderSizeMask) = n"
    using assms by (simp add: unat_word_of_nat)
qed

lemma tvfs_enter_hdr: "tv_hdr (foldl (tvfs_enter uni data) h ps) = tv_hdr h"
  by (induction ps arbitrary: h) (auto simp: tvfs_enter_def split: prod.split outcome.split)

text \<open>
  Walking the bytes of a tree enters exactly its leaves, each under its full path, in order.
\<close>

lemma tvfs_walk_flat:
  assumes "nodes_ok ts" "tvfs_tables_ok (tv_hdr h) data"
  shows "tvfs_walk uni data (nodes_bytes ts) prefix h =
    Ret (foldl (tvfs_enter uni data) h (nodes_paths prefix ts))"
  using assms
proof (induction prefix ts arbitrary: h rule: nodes_paths.induct)
  case (2 prefix name v ts)
  have "pteNodeValue AND pteNodeValue \<noteq> 0" "pteNodeValue AND pteSepPre = 0" "pteNodeValue AND pteSepPost = 0"
    by (simp_all add: pteNodeValue_def pteSepPre_def pteSepPost_def)
  moreover have "safe (resolveVfs (tv_hdr h) data v)" using 2 safe_resolveVfs by blast
  ultimately show ?case
    using 2 by (auto simp: tvfs_walk_step [OF parse_leaf] tvfs_path_def tvfs_enter_def split: outcome.split)
next
  case (3 prefix name cs ts)
  let ?v = "folderNodeBit OR word_of_nat (4 + length (nodes_bytes cs)) :: u32"
  have fl: "(pteSepPost OR pteNodeValue) AND pteNodeValue \<noteq> 0" "(pteSepPost OR pteNodeValue) AND pteSepPre = 0"
      "(pteSepPost OR pteNodeValue) AND pteSepPost \<noteq> 0"
    by (simp_all add: pteNodeValue_def pteSepPre_def pteSepPost_def)
  have sz: "4 + length (nodes_bytes cs) < 2 ^ 31" and ok: "node_name_ok name" "nodes_ok cs" "nodes_ok ts"
    using "3.prems"(1) by auto
  note v = folder_value [OF sz]
  show ?case
    using v fl ok "3.IH" "3.prems"(2)
    by (simp add: tvfs_walk_step [OF parse_folder] tvfs_path_def tvfs_enter_hdr Let_def del: of_nat_add)
qed simp

text \<open>
  C13. Walking the bytes of a tree of folders enters exactly the leaves whose offsets resolve,
  each under its full path, in order: the recursive parser refines the flattening of the tree.
\<close>

theorem tvfs_walk_tree:
  assumes "nodes_ok ts" "tvfs_tables_ok (tv_hdr h) data"
  shows "tvfs_walk uni data (nodes_bytes ts) prefix h =
    Ret (foldl (tvfs_enter uni data) h (nodes_paths prefix ts))"
  by (rule tvfs_walk_flat [OF assms])

theorem tvfs_walk_tree_witness:
  "\<exists>h. tvfs_walk id (replicate 64 0) (nodes_bytes [Folder [0x61] [Leaf [0x62] 0], Leaf [0x63] 9]) []
      \<lparr>tv_hdr = \<lparr>th_formatVersion = 1, th_ekeySize = 9, th_patchKeySize = 9, th_headerSize = 38, th_flags = 0,
        th_pathTableOffset = 38, th_pathTableSize = 0, th_vfsTableOffset = 40, th_vfsTableSize = 20,
        th_cftTableOffset = 60, th_cftTableSize = 4, th_maxDepth = 1, th_estTableOffset = 0, th_estTableSize = 0,
        th_cftOffsSize = 1, th_estOffsSize = 1\<rparr>, tv_files = (\<lambda>_. None), tv_all = []\<rparr> = Ret h"
  by (rule exI, rule tvfs_walk_tree) (simp_all add: node_name_ok_def tvfs_tables_ok_def name_bytes_def folderNodeBit_def)

section \<open>Written roots read back\<close>

definition tvfs_read :: "tvfs_WriteEntry \<Rightarrow> CKeyEntry" where
  "tvfs_read e = zero_entry\<lparr>ce_EKey := fit 16 (take 9 (te_EKey e)), ce_ContentSize := ucast (te_ContentSize e),
     ce_FileDataID := InvalidID, ce_Flags := CEFlagHasEKey, ce_SpanCount := 1\<rparr>"

lemma offsetFieldSize_fits: "unat v < 256 ^ offsetFieldSize v"
  using unat_bounds(2) [of v] by (auto simp: offsetFieldSize_def word_less_nat_alt)

lemma writeVarBE_eq: "writeVarBE v n = be_bytes n (unat v)"
proof -
  have "(ucast (drop_bit (8 * i) v) :: u8) = word_of_nat (unat v div 256 ^ i)" for i
    by (simp add: ucast_drop_bit_u8 power_mult)
  then show ?thesis by (simp add: writeVarBE_def be_bytes_def le_bytes_map)
qed

lemma be_val_Cons: "be_val (b # bs) = unat b * 256 ^ length bs + be_val bs"
proof (induction bs rule: rev_induct)
  case (snoc c cs)
  then show ?case using be_val_snoc [of "b # cs" c] be_val_snoc [of cs c] by (simp add: algebra_simps)
qed (simp add: be_val_def)

lemma readVarBE_from_eq: "readVarBE_from (word_of_nat n) bs = word_of_nat (n * 256 ^ length bs + be_val bs)"
proof (induction bs arbitrary: n)
  case (Cons b bs)
  have "readVarBE_from (word_of_nat n) (b # bs) = readVarBE_from (word_of_nat (256 * n + unat b)) bs"
    by (simp only: readVarBE_from.simps shl8_or word_of_nat_digit)
  also have "\<dots> = word_of_nat ((256 * n + unat b) * 256 ^ length bs + be_val bs)" by (rule Cons.IH)
  also have "(256 * n + unat b) * 256 ^ length bs + be_val bs = n * 256 ^ length (b # bs) + be_val (b # bs)"
    by (simp add: be_val_Cons algebra_simps)
  finally show ?case .
qed simp

lemma readVarBE_written: "unat v < 256 ^ n \<Longrightarrow> readVarBE (writeVarBE v n) n = Ret v"
  using readVarBE_from_eq [of 0 "be_bytes n (unat v)"]
  by (simp add: readVarBE_def writeVarBE_eq be_val_be_bytes)

definition tvfs_item :: "nat \<Rightarrow> nat \<Rightarrow> tvfs_WriteEntry \<Rightarrow> bytes" where
  "tvfs_item c i e = [1, 0, 0, 0, 0] @ putBE32w (te_ContentSize e) @ writeVarBE (word_of_nat (i * 9)) c"

lemma length_writeVarBE [simp]: "length (writeVarBE v n) = n"
  by (simp add: writeVarBE_eq)

lemma length_tvfs_vfs_bytes [simp]: "length (tvfs_vfs_bytes c i es) = (9 + c) * length es"
  by (induction es arbitrary: i) auto

lemma vfs_drop:
  "i < length es \<Longrightarrow> \<exists>r. drop (i * (9 + c)) (tvfs_vfs_bytes c j es) = tvfs_item c (j + i) (es ! i) @ r"
proof (induction es arbitrary: i j)
  case (Cons e es)
  have item: "tvfs_vfs_bytes c j (e # es) = tvfs_item c j e @ tvfs_vfs_bytes c (Suc j) es"
    by (simp add: tvfs_item_def)
  have len: "length (tvfs_item c j e) = 9 + c" by (simp add: tvfs_item_def)
  show ?case
  proof (cases i)
    case 0
    show ?thesis unfolding 0 item mult_0 drop_0 add_0_right nth_Cons_0 by blast
  next
    case (Suc k)
    then obtain r where "drop (k * (9 + c)) (tvfs_vfs_bytes c (Suc j) es) = tvfs_item c (Suc j + k) (es ! k) @ r"
      using Cons.IH [of k "Suc j"] Cons.prems by auto
    then show ?thesis using Suc len by (simp only: item) simp
  qed
qed simp

lemma tvfs_resolve:
  assumes "data = pre @ tvfs_vfs_bytes c 0 es @ concat (map (\<lambda>e. take 9 (te_EKey e)) es)"
    and "\<forall>e\<in>set es. key_ok (te_EKey e)" "i < length es" "length data < 2 ^ 31"
    and "c = offsetFieldSize (word_of_nat (9 * length es))"
    and "unat (th_vfsTableOffset h) = length pre" "unat (th_vfsTableSize h) = (9 + c) * length es"
    and "unat (th_cftTableOffset h) = length pre + (9 + c) * length es" "unat (th_cftTableSize h) = 9 * length es"
    and "th_cftOffsSize h = c" "th_ekeySize h = 9"
  shows "resolveVfs h data (word_of_nat (i * (9 + c))) = Ret (tvfs_read (es ! i))"
proof -
  let ?n = "length es" and ?C = "concat (map (\<lambda>e. take 9 (te_EKey e)) es)"
  have k9: "length (take 9 (te_EKey e)) = 9" if "e \<in> set es" for e
    using assms(2) that by (simp add: key_ok_def MD5HashSize_def)
  have lC: "length ?C = 9 * ?n" using k9 by (intro length_concat_const)
  have ld: "length data = length pre + (9 + c) * ?n + 9 * ?n" using lC by (simp add: assms(1))
  have in_le: "i * (9 + c) < (9 + c) * ?n" using assms(3) by (simp add: mult.commute)
  obtain r where r: "drop (i * (9 + c)) (tvfs_vfs_bytes c 0 es) = tvfs_item c i (es ! i) @ r"
    using vfs_drop [OF assms(3), of c 0] by auto
  have ui: "unat (word_of_nat (i * (9 + c)) :: u32) = i * (9 + c)"
  proof (rule unat_word_of_nat)
    have "length data < 2147483648" using assms(4) by simp
    then have "i * (9 + c) < 4294967296" using in_le ld by linarith
    then show "i * (9 + c) < 2 ^ LENGTH(32)" by simp
  qed
  have u9: "unat (word_of_nat (i * 9) :: u32) = i * 9"
    using assms(3,4) ld by (intro unat_word_of_nat) simp
  have un: "unat (word_of_nat (9 * ?n) :: u32) = 9 * ?n"
    using assms(4) ld by (intro unat_word_of_nat) simp
  have fits: "unat (word_of_nat (i * 9) :: u32) < 256 ^ c"
    using offsetFieldSize_fits [of "word_of_nat (9 * ?n)"] assms(3,5) u9 un by simp
  have vfs: "drop (i * (9 + c)) (drop (length pre) data) = tvfs_item c i (es ! i) @ r @ ?C"
    using in_le r by (simp add: assms(1))
  have cft: "drop (i * 9) (drop (length pre + (9 + c) * ?n) data) =
      take 9 (te_EKey (es ! i)) @ concat (map (\<lambda>e. take 9 (te_EKey e)) (drop (Suc i) es))"
    using drop_concat_nth [of es "\<lambda>e. take 9 (te_EKey e)" 9 i] k9 assms(3) by (simp add: assms(1))
  have ek: "length (take 9 (te_EKey (es ! i))) = 9" using k9 assms(3) by simp
  have le: "length pre \<le> length data" "length pre + (9 + c) * ?n \<le> length data"
    "i * 9 \<le> length data - (length pre + (9 + c) * ?n)"
    using ld assms(3) by simp_all
  have "i * (9 + c) \<le> length data - length pre" using ld in_le by linarith
  have slices: "subslice_from data (length pre) = Ret (drop (length pre) data)"
    "subslice_from (drop (length pre) data) (i * (9 + c)) = Ret (tvfs_item c i (es ! i) @ r @ ?C)"
    "subslice_from data (length pre + (9 + c) * ?n) = Ret (drop (length pre + (9 + c) * ?n) data)"
    "subslice_from (drop (length pre + (9 + c) * ?n) data) (i * 9) =
      Ret (take 9 (te_EKey (es ! i)) @ concat (map (\<lambda>e. take 9 (te_EKey e)) (drop (Suc i) es)))"
    using le \<open>i * (9 + c) \<le> length data - length pre\<close> vfs cft by simp_all
  have item: "tvfs_item c i (es ! i) @ r @ ?C =
      1 # ([0, 0, 0, 0] @ putBE32w (te_ContentSize (es ! i)) @ writeVarBE (word_of_nat (i * 9)) c @ r @ ?C)"
    by (simp add: tvfs_item_def)
  have g1: "\<not> (9 + c) * ?n \<le> i * (9 + c)" using in_le by linarith
  show ?thesis
    using g1 assms(3) ek
    by (simp add: resolveVfs_def assms(6-11) ui u9 slices item rdBE_Ret readVarBE_written [OF fits]
        Let_def tvfs_read_def del: of_nat_mult of_nat_add)
qed

fun tvfs_leaves :: "nat \<Rightarrow> nat \<Rightarrow> tvfs_WriteEntry list \<Rightarrow> tvfs_node list" where
  "tvfs_leaves vs i [] = []"
| "tvfs_leaves vs i (e # es) = Leaf (te_Name e) (word_of_nat (i * vs)) # tvfs_leaves vs (i + 1) es"

lemma tvfs_path_bytes_eq: "tvfs_path_bytes vs i es = nodes_bytes (tvfs_leaves vs i es)"
  by (induction es arbitrary: i) (auto simp: name_bytes_def)

lemma length_tvfs_path_bytes: "length (tvfs_path_bytes vs i es) = sum_list (map (\<lambda>e. 1 + length (te_Name e) + 5) es)"
  by (induction es arbitrary: i) auto

lemma tvfs_leaves_ok:
  "\<forall>e\<in>set es. node_name_ok (te_Name e) \<Longrightarrow> (i + length es) * vs \<le> 2 ^ 31 \<Longrightarrow> 0 < vs \<Longrightarrow> nodes_ok (tvfs_leaves vs i es)"
proof (induction es arbitrary: i)
  case (Cons e es)
  have "i * vs < (i + length (e # es)) * vs"
    using Cons.prems(3) by (intro mult_strict_right_mono) simp_all
  then have "i * vs < 2 ^ 31" using Cons.prems(2) by linarith
  then show ?case using Cons not_folder [of "i * vs"] by simp
qed simp

definition tvfs_puts :: "(bytes \<Rightarrow> bytes) \<Rightarrow> tvfs_WriteEntry list \<Rightarrow> tvfs_Handler \<Rightarrow> tvfs_Handler" where
  "tvfs_puts uni es h = foldl (\<lambda>h e. tvfs_put (tvfs_final uni (tv_hdr h) (te_Name e)) (tvfs_read e) h) h es"

lemma tvfs_enter_leaves:
  assumes "\<forall>k<length es. resolveVfs (tv_hdr h) data (word_of_nat ((i + k) * vs)) = Ret (tvfs_read (es ! k))"
  shows "foldl (tvfs_enter uni data) h (nodes_paths [] (tvfs_leaves vs i es)) = tvfs_puts uni es h"
  using assms
proof (induction es arbitrary: i h)
  case (Cons e es)
  have "resolveVfs (tv_hdr h) data (word_of_nat (i * vs)) = Ret (tvfs_read e)" using Cons.prems by auto
  then have first: "tvfs_enter uni data h (te_Name e, word_of_nat (i * vs)) =
      tvfs_put (tvfs_final uni (tv_hdr h) (te_Name e)) (tvfs_read e) h" by (simp add: tvfs_enter_def)
  have "\<forall>k<length es. resolveVfs (tv_hdr h) data (word_of_nat ((Suc i + k) * vs)) = Ret (tvfs_read (es ! k))"
  proof (intro allI impI)
    fix k assume "k < length es"
    then show "resolveVfs (tv_hdr h) data (word_of_nat ((Suc i + k) * vs)) = Ret (tvfs_read (es ! k))"
      using Cons.prems [rule_format, of "Suc k"] by (simp del: of_nat_mult of_nat_add)
  qed
  then show ?case
    using Cons.IH [of "tvfs_enter uni data h (te_Name e, word_of_nat (i * vs))" "Suc i"] first
    by (simp add: tvfs_puts_def del: of_nat_mult of_nat_add)
qed (simp add: tvfs_puts_def)

lemma tvfs_puts_all: "tv_all (tvfs_puts uni es h) = tv_all h @ map (\<lambda>e. (tvfs_final uni (tv_hdr h) (te_Name e), tvfs_read e)) es"
  by (induction es arbitrary: h) (auto simp: tvfs_puts_def tvfs_put_def)

lemma tvfs_puts_hdr [simp]: "tv_hdr (tvfs_puts uni es h) = tv_hdr h"
  by (induction es arbitrary: h) (auto simp: tvfs_puts_def)

lemma tvfs_puts_files:
  assumes "e \<in> set es" "distinct (map (\<lambda>e. tvfs_final uni (tv_hdr h) (te_Name e)) es)"
  shows "tv_files (tvfs_puts uni es h) (tvfs_final uni (tv_hdr h) (te_Name e)) = Some (tvfs_read e)"
  using assms
proof (induction es rule: rev_induct)
  case (snoc x es)
  have "tvfs_puts uni (es @ [x]) h = tvfs_put (tvfs_final uni (tv_hdr h) (te_Name x)) (tvfs_read x) (tvfs_puts uni es h)"
    using tvfs_puts_hdr [of uni es h] by (simp add: tvfs_puts_def)
  then show ?case using snoc by (auto simp: tvfs_put_def image_iff)
qed simp

text \<open>The header of a written root, and where its tables lie.\<close>

definition tvfs_layout :: "nat \<Rightarrow> nat \<Rightarrow> nat \<Rightarrow> nat \<Rightarrow> bool \<Rightarrow> tvfs_header" where
  "tvfs_layout ps vs cs c lowercase =
     \<lparr>th_formatVersion = 1, th_ekeySize = 9, th_patchKeySize = 9, th_headerSize = 38,
      th_flags = (if lowercase then FlagLowercaseManifest else 0),
      th_pathTableOffset = 38, th_pathTableSize = word_of_nat ps,
      th_vfsTableOffset = word_of_nat (38 + ps), th_vfsTableSize = word_of_nat vs,
      th_cftTableOffset = word_of_nat (38 + ps + vs), th_cftTableSize = word_of_nat cs,
      th_maxDepth = 1, th_estTableOffset = 0, th_estTableSize = 0, th_cftOffsSize = c, th_estOffsSize = 1\<rparr>"

definition tvfs_head_bytes :: "nat \<Rightarrow> nat \<Rightarrow> nat \<Rightarrow> bool \<Rightarrow> bytes" where
  "tvfs_head_bytes ps vs cs lowercase =
     putLE32 tvfsMagic @ [1, 38, 9, 9] @ putLE32 (if lowercase then FlagLowercaseManifest else 0) @
     putBE32w 38 @ putBE32w (word_of_nat ps) @ putBE32w (word_of_nat (38 + ps)) @ putBE32w (word_of_nat vs) @
     putBE32w (word_of_nat (38 + ps + vs)) @ putBE32w (word_of_nat cs) @ [0, 1]"

lemma length_tvfs_head_bytes [simp]: "length (tvfs_head_bytes ps vs cs l) = 38"
  by (simp add: tvfs_head_bytes_def)

lemma tvfs_parseHeader_head:
  assumes "length r = ps + vs + cs" "38 + ps + vs + cs < 2 ^ 31" "c = offsetFieldSize (word_of_nat cs)"
  shows "tvfs_parseHeader (tvfs_head_bytes ps vs cs l @ r) = Ret (tvfs_layout ps vs cs c l)"
proof -
  let ?d = "tvfs_head_bytes ps vs cs l @ r"
  have len: "length ?d = 38 + ps + vs + cs" using assms(1) by simp
  have one: "be_val [0, 1] = 1" by (simp add: be_val_def)
  have f: "rdLE32 ?d 0 4 = Ret tvfsMagic" "at ?d 4 = Ret 1" "at ?d 5 = Ret 38" "at ?d 6 = Ret 9" "at ?d 7 = Ret 9"
    "rdLE32 ?d 8 12 = Ret (if l then FlagLowercaseManifest else 0)" "rdBE32 ?d 12 16 = Ret 38"
    "rdBE32 ?d 16 20 = Ret (word_of_nat ps)" "rdBE32 ?d 20 24 = Ret (word_of_nat (38 + ps))"
    "rdBE32 ?d 24 28 = Ret (word_of_nat vs)" "rdBE32 ?d 28 32 = Ret (word_of_nat (38 + ps + vs))"
    "rdBE32 ?d 32 36 = Ret (word_of_nat cs)" "rdBE16 ?d 36 38 = Ret 1"
    using one by (simp_all add: tvfs_head_bytes_def nth_append rdBE_Ret del: of_nat_add)
  have u: "unat (word_of_nat ps :: u32) = ps" "unat (word_of_nat vs :: u32) = vs" "unat (word_of_nat cs :: u32) = cs"
    "unat (word_of_nat (38 + ps) :: u32) = 38 + ps" "unat (word_of_nat (38 + ps + vs) :: u32) = 38 + ps + vs"
    using assms(2) by (intro unat_word_of_nat; simp)+
  have fl: "(if l then FlagLowercaseManifest else 0) AND FlagWriteSupport = 0"
    by (simp add: FlagLowercaseManifest_def FlagWriteSupport_def)
  show ?thesis
    unfolding tvfs_parseHeader_def f bnd.simps len u
    by (simp add: fl u tvfs_layout_def assms(3) offsetFieldSize_def [of 0] del: of_nat_add)
qed

text \<open>
  C12. A TVFS root written by Encode parses to its entries in order, each found under its name,
  when the image stays below two gigabytes and no two names agree after the manifest's
  lower-casing.
\<close>

theorem tvfs_roundtrip:
  fixes uni :: "bytes \<Rightarrow> bytes"
  assumes "tvfs_Encode entries lowercase = Ret data" "length data < 2 ^ 31"
    and "\<forall>e\<in>set entries. key_ok (te_EKey e)"
  defines "stored \<equiv> (\<lambda>name. if lowercase then ToLower uni name else name)"
  assumes "distinct (map (\<lambda>e. stored (te_Name e)) entries)"
  shows "\<exists>h. tvfs_Parse uni data = Ret h
    \<and> tv_all h = map (\<lambda>e. (stored (te_Name e), tvfs_read e)) entries
    \<and> (\<forall>e\<in>set entries. tvfs_LookupByName uni h (te_Name e) = Some (tvfs_read e))"
proof -
  define n where "n = length entries"
  define body where "body = sum_list (map (\<lambda>e. 1 + length (te_Name e) + 5) entries)"
  define c where "c = offsetFieldSize (word_of_nat (9 * n))"
  define V where "V = tvfs_vfs_bytes c 0 entries"
  define C where "C = concat (map (\<lambda>e. take 9 (te_EKey e)) entries)"
  define B where "B = nodes_bytes (tvfs_leaves (9 + c) 0 entries)"
  define H where "H = tvfs_head_bytes (5 + body) ((9 + c) * n) (9 * n) lowercase"
  define W where "W = 0xFF # putBE32w (folderNodeBit OR word_of_nat (4 + body))"
  have names: "\<forall>e\<in>set entries. node_name_ok (te_Name e)"
    using assms(1) by (auto simp: tvfs_Encode_def Let_def guard_eq_Ret list_ex_iff node_name_ok_def)
  have d: "data = H @ W @ B @ V @ C"
    using assms(1)
    by (simp add: tvfs_Encode_def Let_def guard_eq_Ret H_def W_def B_def V_def C_def tvfs_head_bytes_def n_def body_def
        c_def tvfs_path_bytes_eq add_ac)
  have lens: "length H = 38" "length W = 5" "length B = body" "length V = (9 + c) * n" "length C = 9 * n"
    using length_tvfs_path_bytes [of "9 + c" 0 entries] assms(3)
      length_concat_const [of entries "\<lambda>e. take 9 (te_EKey e)" 9]
    by (simp_all add: H_def W_def B_def V_def C_def n_def body_def tvfs_path_bytes_eq key_ok_def MD5HashSize_def)
  have small: "38 + (5 + body) + (9 + c) * n + 9 * n < 2 ^ 31"
    using assms(2) lens by (simp add: d)
  let ?hdr = "tvfs_layout (5 + body) ((9 + c) * n) (9 * n) c lowercase"
  let ?h0 = "\<lparr>tv_hdr = ?hdr, tv_files = (\<lambda>_. None), tv_all = []\<rparr>"
  have hdr: "tvfs_parseHeader data = Ret ?hdr"
    unfolding d H_def using lens small by (intro tvfs_parseHeader_head) (simp_all add: c_def)
  have u: "unat (word_of_nat (38 + (5 + body)) :: u32) = 38 + (5 + body)"
    "unat (word_of_nat ((9 + c) * n) :: u32) = (9 + c) * n" "unat (word_of_nat (9 * n) :: u32) = 9 * n"
    "unat (word_of_nat (38 + (5 + body) + (9 + c) * n) :: u32) = 38 + (5 + body) + (9 + c) * n"
    using small by (intro unat_word_of_nat; simp)+
  have res: "\<forall>k<length entries. resolveVfs ?hdr data (word_of_nat ((0 + k) * (9 + c))) = Ret (tvfs_read (entries ! k))"
  proof (intro allI impI)
    fix k assume "k < length entries"
    then show "resolveVfs ?hdr data (word_of_nat ((0 + k) * (9 + c))) = Ret (tvfs_read (entries ! k))"
      unfolding add_0 using assms(2,3) lens u
      by (intro tvfs_resolve [where pre = "H @ W @ B" and c = c])
        (simp_all add: d V_def C_def c_def n_def tvfs_layout_def del: of_nat_add of_nat_mult)
  qed
  have "tvfs_walk uni data B [] ?h0 = Ret (tvfs_puts uni entries ?h0)"
  proof -
    have "nodes_ok (tvfs_leaves (9 + c) 0 entries)"
      using names small by (intro tvfs_leaves_ok) (simp_all add: n_def mult.commute)
    moreover have "tvfs_tables_ok (tv_hdr ?h0) data" using tvfs_parseHeader_tables [OF hdr] by simp
    ultimately show ?thesis
      using tvfs_walk_flat [of "tvfs_leaves (9 + c) 0 entries" ?h0 data uni "[]"] res
        tvfs_enter_leaves [of entries ?h0 data 0 "9 + c" uni] by (simp add: B_def)
  qed
  moreover have "tvfs_parseRoot uni data ?h0 = tvfs_walk uni data B [] ?h0"
  proof -
    have pt: "subslice data 38 (38 + (5 + body)) = Ret (W @ B)" using lens small by (simp add: d)
    have "4 + body < 2 ^ 31" using small by simp
    note fv = folder_value [OF this]
    have "(38 :: u32) + word_of_nat (5 + body) = word_of_nat (38 + (5 + body))" by simp
    then have up: "unat ((38 :: u32) + word_of_nat (5 + body)) = 38 + (5 + body)" using u(1) by metis
    have nv: "rdBE32 (W @ B) 1 5 = Ret (folderNodeBit OR word_of_nat (4 + body))"
      by (simp add: W_def rdBE_Ret del: of_nat_add)
    have body: "subslice (W @ B) 5 (1 + (4 + body)) = Ret B" using lens by simp
    show ?thesis
      unfolding tvfs_parseRoot_def Let_def tvfs_layout_def tvfs_Handler.select_convs tvfs_header.select_convs up
      using pt nv body lens fv by (simp add: W_def del: of_nat_add)
  qed
  ultimately have p: "tvfs_Parse uni data = Ret (tvfs_puts uni entries ?h0)"
    by (simp add: tvfs_Parse_def hdr)
  have fl: "tvfs_final uni ?hdr name = stored name" for name
    by (simp add: tvfs_final_def tvfs_layout_def stored_def FlagLowercaseManifest_def)
  have lk: "tvfs_LookupByName uni g name = tv_files g (stored name)" if "tv_hdr g = ?hdr" for g name
    using that by (simp add: tvfs_LookupByName_def tvfs_layout_def FlagLowercaseManifest_def stored_def)
  have "tvfs_LookupByName uni (tvfs_puts uni entries ?h0) (te_Name e) = Some (tvfs_read e)" if "e \<in> set entries" for e
    using tvfs_puts_files [OF that, of uni ?h0] assms(5) by (simp add: fl lk)
  then show ?thesis using p by (simp add: tvfs_puts_all fl)
qed

theorem tvfs_roundtrip_witness:
  "\<exists>h. tvfs_Parse id (case tvfs_Encode [\<lparr>te_Name = [0x61], te_EKey = zero_key, te_ContentSize = 5\<rparr>,
        \<lparr>te_Name = [0x62], te_EKey = zero_key, te_ContentSize = 6\<rparr>] True of Ret data \<Rightarrow> data | _ \<Rightarrow> []) = Ret h
    \<and> length (tv_all h) = 2"
proof -
  let ?es = "[\<lparr>te_Name = [0x61], te_EKey = zero_key, te_ContentSize = 5\<rparr>,
        \<lparr>te_Name = [0x62], te_EKey = zero_key, te_ContentSize = 6\<rparr>]"
  have ex: "\<exists>data. tvfs_Encode ?es True = Ret data \<and> length data < 1000"
    by (simp add: tvfs_Encode_def Let_def putBE32w_def offsetFieldSize_def writeVarBE_def zero_key_def MD5HashSize_def)
  then obtain data where e: "tvfs_Encode ?es True = Ret data" "length data < 1000" by blast
  have "\<exists>h. tvfs_Parse id data = Ret h
    \<and> tv_all h = map (\<lambda>e. (if True then ToLower id (te_Name e) else te_Name e, tvfs_read e)) ?es
    \<and> (\<forall>e\<in>set ?es. tvfs_LookupByName id h (te_Name e) = Some (tvfs_read e))"
    using e by (intro tvfs_roundtrip) (auto simp: ToLower_def ascii_def lower_byte_def)
  then show ?thesis using e by fastforce
qed

end
