(* ===== verification/RootDiablo3.thy ===== *)
theory RootDiablo3
  imports RootBase
begin

text \<open>
  \<^verbatim>\<open>internal/root/diablo3\<close>: directory blobs with asset entries, indexed asset entries and named
  entries, and the walk into the blobs the named entries point to. Shown here: parsing is safe, a
  blob reads back, and the two maps always agree with the list of entries.
\<close>

definition rootSignature :: u32 where "rootSignature = 0x8007D0C4"
definition subdirSignature :: u32 where "subdirSignature = 0xEAF1FE87"

record AssetEntry =
  ae_CKey :: key
  ae_FileIndex :: u32

record AssetIdxEntry =
  ai_CKey :: key
  ai_FileIndex :: u32
  ai_SubIndex :: u32

record NamedEntry =
  ne_CKey :: key
  ne_Name :: bytes

record Directory =
  dr_Signature :: u32
  dr_Assets :: "AssetEntry list"
  dr_AssetIdx :: "AssetIdxEntry list"
  dr_Named :: "NamedEntry list"

record d3_Handler =
  d3_root :: Directory
  d3_files :: "bytes \<Rightarrow> CKeyEntry option"
  d3_byHash :: "u64 \<Rightarrow> CKeyEntry option"
  d3_all :: "(bytes \<times> CKeyEntry) list"

section \<open>One directory blob\<close>

text \<open>The three loops, each returning where it stopped.\<close>

fun d3_assets :: "bytes \<Rightarrow> nat \<Rightarrow> nat \<Rightarrow> AssetEntry list outcome" where
  "d3_assets data off 0 = Ret []"
| "d3_assets data off (Suc n) =
     bnd (subslice data off (off + 16)) (\<lambda>ck.
     bnd (rdLE32 data (off + 16) (off + 20)) (\<lambda>fi.
     bnd (d3_assets data (off + 20) n) (\<lambda>rest. Ret (\<lparr>ae_CKey = ck, ae_FileIndex = fi\<rparr> # rest))))"

fun d3_assetIdx :: "bytes \<Rightarrow> nat \<Rightarrow> nat \<Rightarrow> AssetIdxEntry list outcome" where
  "d3_assetIdx data off 0 = Ret []"
| "d3_assetIdx data off (Suc n) =
     bnd (subslice data off (off + 16)) (\<lambda>ck.
     bnd (rdLE32 data (off + 16) (off + 20)) (\<lambda>fi.
     bnd (rdLE32 data (off + 20) (off + 24)) (\<lambda>si.
     bnd (d3_assetIdx data (off + 24) n) (\<lambda>rest.
     Ret (\<lparr>ai_CKey = ck, ai_FileIndex = fi, ai_SubIndex = si\<rparr> # rest)))))"

fun d3_named :: "bytes \<Rightarrow> nat \<Rightarrow> nat \<Rightarrow> NamedEntry list outcome" where
  "d3_named data off 0 = Ret []"
| "d3_named data off (Suc n) =
     guard (length data < off + 16) ErrBadFormat (
     bnd (subslice data off (off + 16)) (\<lambda>ck.
     bnd (subslice_from data (off + 16)) (\<lambda>s.
     case index_zero s of
       None \<Rightarrow> Fail ErrBadFormat
     | Some e \<Rightarrow>
         bnd (subslice data (off + 16) (off + 16 + e)) (\<lambda>name.
         bnd (d3_named data (off + 16 + e + 1) n) (\<lambda>rest. Ret (\<lparr>ne_CKey = ck, ne_Name = name\<rparr> # rest))))))"

text \<open>The asset sections of a subdirectory blob: the two lists and the offset after them.\<close>

definition d3_sections :: "bytes \<Rightarrow> nat \<Rightarrow> (AssetEntry list \<times> AssetIdxEntry list \<times> nat) outcome" where
  "d3_sections data off =
     guard (length data < off + 4) ErrBadFormat (
     bnd (rdLE32 data off (off + 4)) (\<lambda>w.
     let n = unat w; off = off + 4 in
     guard (length data < off + n * 20) ErrBadFormat (
     bnd (d3_assets data off n) (\<lambda>assets.
     let off = off + n * 20 in
     guard (length data < off + 4) ErrBadFormat (
     bnd (rdLE32 data off (off + 4)) (\<lambda>w.
     let n = unat w; off = off + 4 in
     guard (length data < off + n * 24) ErrBadFormat (
     bnd (d3_assetIdx data off n) (\<lambda>assetIdx.
     Ret (assets, assetIdx, off + n * 24)))))))))"

definition d3_parseDirectory :: "bytes \<Rightarrow> Directory outcome" where
  "d3_parseDirectory data =
     guard (length data < 4) ErrBadFormat (
     bnd (rdLE32 data 0 4) (\<lambda>sig.
     guard (sig \<noteq> rootSignature \<and> sig \<noteq> subdirSignature) ErrBadFormat (
     bnd (if sig = subdirSignature then d3_sections data 4 else Ret ([], [], 4)) (\<lambda>(assets, assetIdx, off).
     guard (length data < off + 4) ErrBadFormat (
     bnd (rdLE32 data off (off + 4)) (\<lambda>n.
     bnd (d3_named data (off + 4) (unat n)) (\<lambda>named.
     Ret \<lparr>dr_Signature = sig, dr_Assets = assets, dr_AssetIdx = assetIdx, dr_Named = named\<rparr>)))))))"

section \<open>The handler\<close>

definition d3_add :: "bytes \<Rightarrow> key \<Rightarrow> d3_Handler \<Rightarrow> d3_Handler" where
  "d3_add name ck h =
     (let hash = lf_HashFileName name; entry = named_entry name ck in
      h\<lparr>d3_files := (d3_files h)(name \<mapsto> entry), d3_byHash := (d3_byHash h)(hash \<mapsto> entry),
        d3_all := d3_all h @ [(name, entry)]\<rparr>)"

definition d3_New :: "Directory \<Rightarrow> d3_Handler" where
  "d3_New dir = \<lparr>d3_root = dir, d3_files = (\<lambda>_. None), d3_byHash = (\<lambda>_. None), d3_all = []\<rparr>"

definition d3_Parse :: "bytes \<Rightarrow> d3_Handler outcome" where
  "d3_Parse data =
     bnd (d3_parseDirectory data) (\<lambda>dir.
     Ret (foldl (\<lambda>h ne. d3_add (ne_Name ne) (ne_CKey ne) h) (d3_New dir) (dr_Named dir)))"

definition d3_Probe :: "bytes \<Rightarrow> d3_Handler outcome" where
  "d3_Probe data =
     guard (length data < 4) ErrBadFormat (
     bnd (rdLE32 data 0 4) (\<lambda>sig.
     guard (sig \<noteq> rootSignature \<and> sig \<noteq> subdirSignature) ErrBadFormat (
     d3_Parse data)))"

text \<open>The names and keys one subdirectory contributes, in the order the code adds them.\<close>

definition d3_children :: "bytes \<Rightarrow> Directory \<Rightarrow> (bytes \<times> key) list" where
  "d3_children parent sub =
     map (\<lambda>c. (parent @ [0x2F] @ ne_Name c, ne_CKey c)) (dr_Named sub) @
     map (\<lambda>a. (parent @ lit ''/Asset'' @ dec (unat (ae_FileIndex a)), ae_CKey a)) (dr_Assets sub) @
     map (\<lambda>a. (parent @ lit ''/Asset'' @ dec (unat (ai_FileIndex a)) @ lit ''_'' @ dec (unat (ai_SubIndex a)),
       ai_CKey a)) (dr_AssetIdx sub)"

definition d3_adds :: "(bytes \<times> key) list \<Rightarrow> d3_Handler \<Rightarrow> d3_Handler" where
  "d3_adds es h = foldl (\<lambda>h (name, ck). d3_add name ck h) h es"

text \<open>
  The loop of \<^verbatim>\<open>LoadSubdirectories\<close> over the root's named entries; \<open>read\<close> is the loader. A blob that
  cannot be read, or is no directory, is skipped.
\<close>

definition d3_blob :: "(key \<Rightarrow> bytes outcome) \<Rightarrow> NamedEntry \<Rightarrow> d3_Handler \<Rightarrow> d3_Handler outcome" where
  "d3_blob read ne h =
     (case read (ne_CKey ne) of
        Panic \<Rightarrow> Panic
      | Fail _ \<Rightarrow> Ret h
      | Ret blob \<Rightarrow>
          if length blob < 4 then Ret h
          else
            bnd (rdLE32 blob 0 4) (\<lambda>sig.
            if sig \<noteq> subdirSignature \<and> sig \<noteq> rootSignature then Ret h
            else
              case d3_parseDirectory blob of
                Panic \<Rightarrow> Panic
              | Fail _ \<Rightarrow> Ret h
              | Ret sub \<Rightarrow> Ret (d3_adds (d3_children (ne_Name ne) sub) h)))"

fun d3_subdirs :: "(key \<Rightarrow> bytes outcome) \<Rightarrow> NamedEntry list \<Rightarrow> d3_Handler \<Rightarrow> d3_Handler outcome" where
  "d3_subdirs read [] h = Ret h"
| "d3_subdirs read (ne # nes) h = bnd (d3_blob read ne h) (d3_subdirs read nes)"

definition d3_LoadSubdirectories :: "(key \<Rightarrow> bytes outcome) \<Rightarrow> d3_Handler \<Rightarrow> d3_Handler outcome" where
  "d3_LoadSubdirectories read h = d3_subdirs read (dr_Named (d3_root h)) h"

definition d3_LookupByName :: "d3_Handler \<Rightarrow> bytes \<Rightarrow> CKeyEntry option" where
  "d3_LookupByName h name =
     (case d3_files h name of Some e \<Rightarrow> Some e | None \<Rightarrow> d3_byHash h (lf_HashFileName name))"

section \<open>Safety\<close>

lemma safe_d3_assets: "off + n * 20 \<le> length data \<Longrightarrow> safe (d3_assets data off n)"
proof (induction n arbitrary: off)
  case (Suc n)
  then have "(off + 20) + n * 20 \<le> length data" by simp
  then have "safe (d3_assets data (off + 20) n)" by (rule Suc.IH)
  then show ?case using Suc.prems by (simp add: safe_bnd)
qed simp

lemma safe_d3_assetIdx: "off + n * 24 \<le> length data \<Longrightarrow> safe (d3_assetIdx data off n)"
proof (induction n arbitrary: off)
  case (Suc n)
  then have "(off + 24) + n * 24 \<le> length data" by simp
  then have "safe (d3_assetIdx data (off + 24) n)" by (rule Suc.IH)
  then show ?case using Suc.prems by (simp add: safe_bnd)
qed simp

lemma safe_d3_named: "safe (d3_named data off n)"
  by (induction n arbitrary: off)
    (auto simp: outcome_simps dest: index_zero_lt split: option.split)

lemma safe_d3_sections: "safe (d3_sections data off)"
  by (auto simp: d3_sections_def outcome_simps Let_def safe_d3_assets safe_d3_assetIdx)

lemma safe_d3_parseDirectory: "safe (d3_parseDirectory data)"
  by (auto simp: d3_parseDirectory_def outcome_simps safe_d3_sections safe_d3_named)

text \<open>
  Parsing a Diablo III root and walking into its subdirectories ends in a value or an error, with
  any bytes in the blobs, and the walk itself never fails when the loader does not panic.
\<close>

theorem d3_safe:
  assumes "\<forall>k. safe (read k)"
  shows "safe (d3_Parse data) \<and> (\<exists>h'. d3_LoadSubdirectories read h = Ret h')"
proof -
  have blob: "\<exists>h'. d3_blob read ne h = Ret h'" for ne h
    using assms safe_d3_parseDirectory
    by (auto simp: d3_blob_def split: outcome.split) (metis safe_simps(3))+
  have "\<exists>h'. d3_subdirs read nes h = Ret h'" for nes
  proof (induction nes arbitrary: h)
    case (Cons ne nes)
    then show ?case using blob [of ne h] by auto
  qed simp
  moreover have "safe (d3_Parse data)" by (auto simp: d3_Parse_def outcome_simps safe_d3_parseDirectory)
  ultimately show ?thesis by (simp add: d3_LoadSubdirectories_def)
qed

theorem d3_safe_witness:
  "safe (d3_Parse [1]) \<and> (\<exists>h'. d3_LoadSubdirectories (\<lambda>k. Fail ErrFileNotFound) (d3_New
     \<lparr>dr_Signature = rootSignature, dr_Assets = [], dr_AssetIdx = [],
      dr_Named = [\<lparr>ne_CKey = zero_key, ne_Name = [0x61]\<rparr>]\<rparr>) = Ret h')"
  by (rule d3_safe) simp

section \<open>The maps agree with the list\<close>

text \<open>Both maps are the last entries of the list under a name and under a hash.\<close>

definition d3_wf :: "d3_Handler \<Rightarrow> bool" where
  "d3_wf h \<longleftrightarrow> d3_files h = map_of (rev (d3_all h)) \<and>
     d3_byHash h = map_of (rev (map (\<lambda>(n, e). (lf_HashFileName n, e)) (d3_all h)))"

lemma d3_wf_New [simp]: "d3_wf (d3_New dir)"
  by (simp add: d3_wf_def d3_New_def)

lemma d3_wf_add: "d3_wf h \<Longrightarrow> d3_wf (d3_add name ck h)"
  by (simp add: d3_wf_def d3_add_def Let_def)

lemma d3_wf_adds: "d3_wf h \<Longrightarrow> d3_wf (d3_adds es h)"
  by (induction es arbitrary: h) (auto simp: d3_adds_def d3_wf_add)

lemma d3_named_adds:
  "foldl (\<lambda>h ne. d3_add (ne_Name ne) (ne_CKey ne) h) h nes = d3_adds (map (\<lambda>ne. (ne_Name ne, ne_CKey ne)) nes) h"
  by (induction nes arbitrary: h) (auto simp: d3_adds_def)

lemma d3_Parse_adds:
  "d3_Parse data = bnd (d3_parseDirectory data) (\<lambda>dir.
     Ret (d3_adds (map (\<lambda>ne. (ne_Name ne, ne_CKey ne)) (dr_Named dir)) (d3_New dir)))"
  by (simp only: d3_Parse_def d3_named_adds)

lemma d3_blob_adds: "d3_blob read ne h = Ret h' \<Longrightarrow> \<exists>es. h' = d3_adds es h"
proof -
  have "h = d3_adds [] h" by (simp add: d3_adds_def)
  then show "d3_blob read ne h = Ret h' \<Longrightarrow> \<exists>es. h' = d3_adds es h"
    by (auto simp: d3_blob_def outcome_simps split: outcome.splits if_splits)
qed

lemma d3_adds_append: "d3_adds fs (d3_adds es h) = d3_adds (es @ fs) h"
  by (simp add: d3_adds_def)

lemma d3_subdirs_adds: "d3_subdirs read nes h = Ret h' \<Longrightarrow> \<exists>es. h' = d3_adds es h"
proof (induction nes arbitrary: h)
  case Nil
  then show ?case by (intro exI [of _ "[]"]) (simp add: d3_adds_def)
next
  case (Cons ne nes)
  then obtain g where "d3_blob read ne h = Ret g" "d3_subdirs read nes g = Ret h'"
    by (auto simp: outcome_simps)
  then show ?case using Cons.IH d3_blob_adds by (metis d3_adds_append)
qed

lemma d3_adds_all: "d3_all (d3_adds es h) = d3_all h @ map (\<lambda>(n, c). (n, named_entry n c)) es"
  by (induction es arbitrary: h) (auto simp: d3_adds_def d3_add_def Let_def)

text \<open>
  C30. After parsing a Diablo III root, and after any walk into its subdirectories, the name
  map and the hash map agree with the list of entries, and the walk only appends to that list.
\<close>

theorem d3_maps_agree:
  assumes "d3_Parse data = Ret h" "d3_LoadSubdirectories read h = Ret h'"
  shows "d3_wf h \<and> d3_wf h' \<and> (\<exists>es. d3_all h' = d3_all h @ map (\<lambda>(n, c). (n, named_entry n c)) es)"
proof -
  have "d3_wf h" using assms(1) by (auto simp: d3_Parse_adds outcome_simps d3_wf_adds)
  moreover obtain es where "h' = d3_adds es h"
    using assms(2) d3_subdirs_adds [of read "dr_Named (d3_root h)" h h'] by (auto simp: d3_LoadSubdirectories_def)
  ultimately show ?thesis using d3_wf_adds [of h es] d3_adds_all [of es h] by auto
qed

section \<open>Blobs read back\<close>

text \<open>The bytes of a directory, as the format has them.\<close>

definition d3_named_bytes :: "NamedEntry \<Rightarrow> bytes" where
  "d3_named_bytes ne = ne_CKey ne @ ne_Name ne @ [0]"

definition d3_dir_bytes :: "Directory \<Rightarrow> bytes" where
  "d3_dir_bytes d =
     putLE32 (dr_Signature d) @
     (if dr_Signature d = subdirSignature then
        putLE32 (word_of_nat (length (dr_Assets d))) @
        concat (map (\<lambda>a. ae_CKey a @ putLE32 (ae_FileIndex a)) (dr_Assets d)) @
        putLE32 (word_of_nat (length (dr_AssetIdx d))) @
        concat (map (\<lambda>a. ai_CKey a @ putLE32 (ai_FileIndex a) @ putLE32 (ai_SubIndex a)) (dr_AssetIdx d))
      else []) @
     putLE32 (word_of_nat (length (dr_Named d))) @ concat (map d3_named_bytes (dr_Named d))"

definition d3_dir_ok :: "Directory \<Rightarrow> bool" where
  "d3_dir_ok d \<longleftrightarrow> dr_Signature d \<in> {rootSignature, subdirSignature} \<and>
     (dr_Signature d = rootSignature \<longrightarrow> dr_Assets d = [] \<and> dr_AssetIdx d = []) \<and>
     length (dr_Assets d) < 2 ^ 32 \<and> length (dr_AssetIdx d) < 2 ^ 32 \<and> length (dr_Named d) < 2 ^ 32 \<and>
     (\<forall>a\<in>set (dr_Assets d). key_ok (ae_CKey a)) \<and> (\<forall>a\<in>set (dr_AssetIdx d). key_ok (ai_CKey a)) \<and>
     (\<forall>ne\<in>set (dr_Named d). key_ok (ne_CKey ne) \<and> 0 \<notin> set (ne_Name ne))"

lemma d3_assets_bytes:
  "\<forall>a\<in>set as. key_ok (ae_CKey a) \<Longrightarrow>
   d3_assets (pre @ concat (map (\<lambda>a. ae_CKey a @ putLE32 (ae_FileIndex a)) as) @ post) (length pre) (length as) = Ret as"
proof (induction as arbitrary: pre)
  case (Cons a as)
  have "d3_assets ((pre @ ae_CKey a @ putLE32 (ae_FileIndex a)) @
      concat (map (\<lambda>a. ae_CKey a @ putLE32 (ae_FileIndex a)) as) @ post)
      (length (pre @ ae_CKey a @ putLE32 (ae_FileIndex a))) (length as) = Ret as"
    using Cons.prems by (intro Cons.IH) simp
  then show ?case using Cons.prems by (cases a) (simp add: key_ok_def MD5HashSize_def ac_simps)
qed simp

lemma d3_assetIdx_bytes:
  "\<forall>a\<in>set as. key_ok (ai_CKey a) \<Longrightarrow>
   d3_assetIdx (pre @ concat (map (\<lambda>a. ai_CKey a @ putLE32 (ai_FileIndex a) @ putLE32 (ai_SubIndex a)) as) @ post)
     (length pre) (length as) = Ret as"
proof (induction as arbitrary: pre)
  case (Cons a as)
  have "d3_assetIdx ((pre @ ai_CKey a @ putLE32 (ai_FileIndex a) @ putLE32 (ai_SubIndex a)) @
      concat (map (\<lambda>a. ai_CKey a @ putLE32 (ai_FileIndex a) @ putLE32 (ai_SubIndex a)) as) @ post)
      (length (pre @ ai_CKey a @ putLE32 (ai_FileIndex a) @ putLE32 (ai_SubIndex a))) (length as) = Ret as"
    using Cons.prems by (intro Cons.IH) simp
  then show ?case using Cons.prems by (cases a) (simp add: key_ok_def MD5HashSize_def ac_simps)
qed simp

lemma d3_named_bytes_eq: "d3_named_bytes \<lparr>ne_CKey = k, ne_Name = n\<rparr> = k @ n @ [0]"
  by (simp add: d3_named_bytes_def)

lemma d3_named_list_bytes:
  "\<forall>ne\<in>set nes. key_ok (ne_CKey ne) \<and> 0 \<notin> set (ne_Name ne) \<Longrightarrow>
   d3_named (pre @ concat (map d3_named_bytes nes)) (length pre) (length nes) = Ret nes"
proof (induction nes arbitrary: pre)
  case (Cons ne nes)
  have "d3_named ((pre @ d3_named_bytes ne) @ concat (map d3_named_bytes nes)) (length (pre @ d3_named_bytes ne))
      (length nes) = Ret nes"
    using Cons.prems by (intro Cons.IH) simp
  then show ?case using Cons.prems
    by (cases ne) (simp add: d3_named_bytes_eq index_zero_append key_ok_def MD5HashSize_def ac_simps)
qed simp

text \<open>
  The bytes of a directory, root or subdirectory, parse back to it.
\<close>

theorem d3_directory_readback:
  assumes "d3_dir_ok d"
  shows "d3_parseDirectory (d3_dir_bytes d) = Ret d"
proof -
  obtain sig xs ys nes where d: "d = \<lparr>dr_Signature = sig, dr_Assets = xs, dr_AssetIdx = ys, dr_Named = nes\<rparr>"
    by (cases d)
  define A where "A = concat (map (\<lambda>a. ae_CKey a @ putLE32 (ae_FileIndex a)) xs)"
  define I where "I = concat (map (\<lambda>a. ai_CKey a @ putLE32 (ai_FileIndex a) @ putLE32 (ai_SubIndex a)) ys)"
  define N where "N = concat (map d3_named_bytes nes)"
  have ok: "\<forall>a\<in>set xs. key_ok (ae_CKey a)" "\<forall>a\<in>set ys. key_ok (ai_CKey a)"
    "\<forall>ne\<in>set nes. key_ok (ne_CKey ne) \<and> 0 \<notin> set (ne_Name ne)"
    using assms by (auto simp: d3_dir_ok_def d)
  have lens: "length A = length xs * 20" "length I = length ys * 24"
    using ok length_concat_const [of xs "\<lambda>a. ae_CKey a @ putLE32 (ae_FileIndex a)" 20]
      length_concat_const [of ys "\<lambda>a. ai_CKey a @ putLE32 (ai_FileIndex a) @ putLE32 (ai_SubIndex a)" 24]
    by (simp_all add: A_def I_def key_ok_def MD5HashSize_def)
  have u: "unat (word_of_nat (length xs) :: u32) = length xs" "unat (word_of_nat (length ys) :: u32) = length ys"
    "unat (word_of_nat (length nes) :: u32) = length nes"
    using assms by (intro unat_word_of_nat; simp add: d3_dir_ok_def d)+
  let ?n = "putLE32 (word_of_nat (length nes))" and ?a = "putLE32 (word_of_nat (length xs))"
    and ?i = "putLE32 (word_of_nat (length ys))"
  show ?thesis
  proof (cases "sig = subdirSignature")
    case True
    let ?d = "putLE32 sig @ ?a @ A @ ?i @ I @ ?n @ N"
    have b: "d3_dir_bytes d = ?d" using True by (simp add: d3_dir_bytes_def d A_def I_def N_def)
    have 1: "d3_assets ?d 8 (length xs) = Ret xs"
      using d3_assets_bytes [OF ok(1), of "putLE32 sig @ ?a" "?i @ I @ ?n @ N"] by (simp add: A_def)
    have 2: "d3_assetIdx ?d (12 + length xs * 20) (length ys) = Ret ys"
      using d3_assetIdx_bytes [OF ok(2), of "putLE32 sig @ ?a @ A @ ?i" "?n @ N"] lens by (simp add: I_def add_ac)
    have 3: "d3_named ?d (16 + length xs * 20 + length ys * 24) (length nes) = Ret nes"
      using d3_named_list_bytes [OF ok(3), of "putLE32 sig @ ?a @ A @ ?i @ I @ ?n"] lens by (simp add: N_def add_ac)
    have sec: "d3_sections ?d 4 = Ret (xs, ys, 12 + length xs * 20 + length ys * 24)"
      using 1 2 lens by (simp add: d3_sections_def u Let_def add_ac)
    show ?thesis
      unfolding b d3_parseDirectory_def using True sec 3 lens by (simp add: d u add_ac)
  next
    case False
    then have s: "sig = rootSignature" "xs = []" "ys = []" using assms by (auto simp: d3_dir_ok_def d)
    have b: "d3_dir_bytes d = putLE32 sig @ ?n @ N" using False by (simp add: d3_dir_bytes_def d N_def)
    have "d3_named (putLE32 sig @ ?n @ N) 8 (length nes) = Ret nes"
      using d3_named_list_bytes [OF ok(3), of "putLE32 sig @ ?n"] by (simp add: N_def)
    then show ?thesis
      unfolding b d3_parseDirectory_def using False s by (simp add: d u)
  qed
qed

theorem d3_directory_readback_witness:
  "d3_parseDirectory (d3_dir_bytes \<lparr>dr_Signature = subdirSignature,
      dr_Assets = [\<lparr>ae_CKey = zero_key, ae_FileIndex = 4\<rparr>], dr_AssetIdx = [],
      dr_Named = [\<lparr>ne_CKey = zero_key, ne_Name = [0x61, 0x62]\<rparr>]\<rparr>) =
   Ret \<lparr>dr_Signature = subdirSignature, dr_Assets = [\<lparr>ae_CKey = zero_key, ae_FileIndex = 4\<rparr>], dr_AssetIdx = [],
      dr_Named = [\<lparr>ne_CKey = zero_key, ne_Name = [0x61, 0x62]\<rparr>]\<rparr>"
  by (rule d3_directory_readback) (simp add: d3_dir_ok_def rootSignature_def subdirSignature_def)

theorem d3_maps_agree_witness:
  "\<exists>h h'. d3_Parse (d3_dir_bytes \<lparr>dr_Signature = rootSignature, dr_Assets = [], dr_AssetIdx = [],
      dr_Named = [\<lparr>ne_CKey = zero_key, ne_Name = [0x61]\<rparr>]\<rparr>) = Ret h \<and>
    d3_LoadSubdirectories (\<lambda>k. Fail ErrOther) h = Ret h' \<and> d3_wf h'"
proof -
  let ?d = "\<lparr>dr_Signature = rootSignature, dr_Assets = [], dr_AssetIdx = [],
      dr_Named = [\<lparr>ne_CKey = zero_key, ne_Name = [0x61]\<rparr>]\<rparr>"
  have "\<exists>h. d3_Parse (d3_dir_bytes ?d) = Ret h"
    using d3_named_list_bytes [of "[\<lparr>ne_CKey = zero_key, ne_Name = [0x61]\<rparr>]" "putLE32 rootSignature @ putLE32 1"]
    by (simp add: d3_Parse_def d3_dir_bytes_def d3_parseDirectory_def rootSignature_def subdirSignature_def)
  then obtain h where h: "d3_Parse (d3_dir_bytes ?d) = Ret h" ..
  have "d3_subdirs (\<lambda>k. Fail ErrOther) nes h = Ret h" for nes
    by (induction nes) (simp_all add: d3_blob_def)
  then have "d3_LoadSubdirectories (\<lambda>k. Fail ErrOther) h = Ret h" by (simp add: d3_LoadSubdirectories_def)
  then show ?thesis using h d3_maps_agree [OF h] by blast
qed

end
