(* ===== verification/Roots.thy ===== *)
theory Roots
  imports RootInstall RootText RootWow RootTvfs RootDiablo3
begin

text \<open>
  The interface \<^verbatim>\<open>root.Handler\<close> as a record of its methods, the value each root package puts behind
  it, and the registry in the order the packages' initialisers run. Shown here: only the MNDX probe can panic,
  and detection recognises each kind of manifest the repository can write.
\<close>

section \<open>The interface\<close>

definition FeatureFileNames :: u32 where "FeatureFileNames = 0x1"
definition FeatureRootCKey :: u32 where "FeatureRootCKey = 0x2"
definition FeatureTags :: u32 where "FeatureTags = 0x4"
definition FeatureFNameHashes :: u32 where "FeatureFNameHashes = 0x8"
definition FeatureFileDataIDs :: u32 where "FeatureFileDataIDs = 0x20"
definition FeatureLocaleFlags :: u32 where "FeatureLocaleFlags = 0x40"
definition FeatureContentFlags :: u32 where "FeatureContentFlags = 0x80"

text \<open>
  \<^verbatim>\<open>All\<close> yields the pairs of a list in order until the callback returns false; the field holds the
  list.
\<close>

record Handler =
  rh_Name :: bytes
  rh_LookupByName :: "bytes \<Rightarrow> CKeyEntry option"
  rh_LookupByFileDataID :: "u32 \<Rightarrow> CKeyEntry option"
  rh_All :: "(bytes \<times> CKeyEntry) list"
  rh_Features :: u32

fun yield_all :: "('x \<Rightarrow> 's \<Rightarrow> bool \<times> 's) \<Rightarrow> 'x list \<Rightarrow> 's \<Rightarrow> 's" where
  "yield_all f [] s = s"
| "yield_all f (x # xs) s = (let (more, s') = f x s in if more then yield_all f xs s' else s')"

definition install_Features :: u32 where
  "install_Features = FeatureFileNames OR FeatureRootCKey OR FeatureTags"

definition install_iface :: "install_Handler \<Rightarrow> Handler" where
  "install_iface h = \<lparr>rh_Name = lit ''Install'', rh_LookupByName = install_LookupByName h,
     rh_LookupByFileDataID = (\<lambda>_. None), rh_All = in_all h, rh_Features = install_Features\<rparr>"

text \<open>A Go map is ranged over in an order of the run time's choosing, the argument \<open>order\<close>.\<close>

definition text_All :: "(text_Handler \<Rightarrow> u64 list) \<Rightarrow> text_Handler \<Rightarrow> (bytes \<times> CKeyEntry) list" where
  "text_All order h = List.map_filter (tx_byHash h) (order h)"

definition text_Features :: u32 where
  "text_Features = FeatureFileNames OR FeatureRootCKey OR FeatureFNameHashes"

definition text_iface :: "(text_Handler \<Rightarrow> u64 list) \<Rightarrow> text_Handler \<Rightarrow> Handler" where
  "text_iface order h = \<lparr>rh_Name = lit ''Text'', rh_LookupByName = text_LookupByName h,
     rh_LookupByFileDataID = (\<lambda>_. None), rh_All = text_All order h, rh_Features = text_Features\<rparr>"

definition ow_Features :: u32 where
  "ow_Features = FeatureFileNames OR FeatureRootCKey"

definition ow_iface :: "ow_Handler \<Rightarrow> Handler" where
  "ow_iface h = \<lparr>rh_Name = lit ''Overwatch'', rh_LookupByName = ow_LookupByName h,
     rh_LookupByFileDataID = (\<lambda>_. None), rh_All = ow_all h, rh_Features = ow_Features\<rparr>"

definition wow_Name :: "wow_Handler \<Rightarrow> bytes" where
  "wow_Name h = (case wh_fmt h of formatV1 \<Rightarrow> lit ''wow-v1'' | formatV2 \<Rightarrow> lit ''wow-v2'' | formatV3 \<Rightarrow> lit ''wow-v3'')"

definition wow_All :: "wow_Handler \<Rightarrow> (bytes \<times> CKeyEntry) list" where
  "wow_All h = map (\<lambda>(fdid, e). (lit ''FileDataID:'' @ dec (unat fdid), e)) (wh_all h)"

definition wow_Features :: u32 where
  "wow_Features = FeatureFileDataIDs OR FeatureFNameHashes OR FeatureLocaleFlags OR FeatureContentFlags OR FeatureRootCKey"

definition wow_iface :: "wow_Handler \<Rightarrow> Handler" where
  "wow_iface h = \<lparr>rh_Name = wow_Name h, rh_LookupByName = wow_LookupByName h,
     rh_LookupByFileDataID = wow_LookupByFileDataID h, rh_All = wow_All h, rh_Features = wow_Features\<rparr>"

definition tvfs_iface :: "(bytes \<Rightarrow> bytes) \<Rightarrow> tvfs_Handler \<Rightarrow> Handler" where
  "tvfs_iface uni h = \<lparr>rh_Name = lit ''tvfs'', rh_LookupByName = tvfs_LookupByName uni h,
     rh_LookupByFileDataID = (\<lambda>_. None), rh_All = tv_all h, rh_Features = FeatureFileNames\<rparr>"

definition d3_Features :: u32 where
  "d3_Features = FeatureFileNames OR FeatureRootCKey"

definition d3_iface :: "d3_Handler \<Rightarrow> Handler" where
  "d3_iface h = \<lparr>rh_Name = lit ''Diablo3'', rh_LookupByName = d3_LookupByName h,
     rh_LookupByFileDataID = (\<lambda>_. None), rh_All = d3_all h, rh_Features = d3_Features\<rparr>"

section \<open>The registry\<close>

text \<open>
  Each package's \<^verbatim>\<open>init\<close> registers its probe. The Unicode tables \<open>uni\<close> and the map order belong to
  the run time. The MNDX probe is its signature check in front of the parser \<open>mndx\<close>.
\<close>

definition probe_as :: "('h \<Rightarrow> Handler) \<Rightarrow> (bytes \<Rightarrow> 'h outcome) \<Rightarrow> bytes \<Rightarrow> Handler outcome" where
  "probe_as iface p data = bnd (p data) (\<lambda>h. Ret (iface h))"

definition mndxMagic :: u32 where "mndxMagic = 0x58444E4D"

definition mndx_Probe :: "(bytes \<Rightarrow> Handler outcome) \<Rightarrow> bytes \<Rightarrow> Handler outcome" where
  "mndx_Probe mndx data =
     guard (length data < 12) ErrBadFormat (
     bnd (rdLE32 data 0 4) (\<lambda>magic.
     guard (magic \<noteq> mndxMagic) ErrBadFormat (
     mndx data)))"

type_synonym probes = "(bytes \<Rightarrow> Handler outcome) list"

definition root_probes :: "(bytes \<Rightarrow> bytes) \<Rightarrow> (text_Handler \<Rightarrow> u64 list) \<Rightarrow> (bytes \<Rightarrow> Handler outcome) \<Rightarrow> probes" where
  "root_probes uni order mndx =
     [probe_as d3_iface d3_Probe, probe_as install_iface install_Probe, mndx_Probe mndx,
      probe_as ow_iface (ow_Probe uni), probe_as (text_iface order) text_Probe,
      probe_as (tvfs_iface uni) (tvfs_Probe uni), probe_as wow_iface wow_Probe]"

text \<open>
  The linker orders the initialisers by the whole program's imports, so the registry is what
  \<^verbatim>\<open>Register\<close> makes of the probes in some order.
\<close>

definition registered :: "probes \<Rightarrow> probes" where
  "registered ps = foldl (\<lambda>r p. Register p r) [] ps"

lemma registered_id [simp]: "registered ps = ps"
proof -
  have "foldl (\<lambda>r p. Register p r) r ps = r @ ps" for r
    by (induction ps arbitrary: r) (simp_all add: Register_def)
  then show ?thesis by (simp add: registered_def)
qed

section \<open>Detection is safe\<close>

lemma safe_probe_as: "safe (p data) \<Longrightarrow> safe (probe_as iface p data)"
  by (auto simp: probe_as_def safe_bnd)

lemma safe_d3_Probe: "safe (d3_Probe data)"
  by (auto simp: d3_Probe_def d3_Parse_def outcome_simps safe_d3_parseDirectory)

lemma safe_install_Probe: "safe (install_Probe data)"
  by (auto simp: install_Probe_def outcome_simps fileInstallHeaderSize_def install_Parse_safe)

lemma safe_wow_Probe: "safe (wow_Probe data)"
  by (auto simp: wow_Probe_def outcome_simps wow_Parse_safe)

lemma safe_tvfs_Probe: "length data < 2 ^ 32 \<Longrightarrow> safe (tvfs_Probe uni data)"
  using tvfs_Parse_safe [of data uni] by (auto simp: tvfs_Probe_def outcome_simps)

lemma mndx_Probe_panics:
  "mndx_Probe mndx data = Panic \<longleftrightarrow> 12 \<le> length data \<and> rdLE32 data 0 4 = Ret mndxMagic \<and> mndx data = Panic"
  by (cases "length data < 12") (auto simp: mndx_Probe_def guard_def)

text \<open>Only the MNDX probe can panic, and only inside its parser.\<close>

lemma root_probe_panics:
  assumes "length data < 2 ^ 32" "p \<in> set (root_probes uni order mndx)" "p data = Panic"
  shows "p = mndx_Probe mndx"
  using assms(2,3) safe_tvfs_Probe [OF assms(1), of uni] safe_d3_Probe [of data] safe_install_Probe [of data]
    safe_ow_Probe [of uni data] safe_text_Probe [of data] safe_wow_Probe [of data]
  by (auto simp: root_probes_def probe_as_def bnd_eq_Panic)

section \<open>Manifests are recognised\<close>

lemma Detect_only:
  assumes "p \<in> set ps" "p data = Ret h" "\<forall>q\<in>set ps. q data = Ret h \<or> (\<exists>e. q data = Fail e)"
  shows "Detect ps data = Ret h"
  using assms by (induction ps) auto

text \<open>Bytes that no text may hold turn the two text probes away.\<close>

lemma text_probes_refuse:
  assumes "b \<in> set (take 256 data)" "b < 9"
  shows "\<exists>e. ow_Probe uni data = Fail e" "\<exists>e. text_Probe data = Fail e"
proof -
  have b: "b \<noteq> 9" "b \<noteq> 10" "b \<noteq> 13" "\<not> 0x20 \<le> b" using assms(2) by (auto simp: word_less_nat_alt word_le_nat_alt)
  have "set (take 256 data) \<subseteq> set (take 1024 data)" by (rule set_take_subset_set_take) simp
  moreover have "set (take 256 data) \<subseteq> set (take 4096 data)" by (rule set_take_subset_set_take) simp
  ultimately have in1024: "b \<in> set (take 1024 data)" "b \<in> set (take 4096 data)" using assms(1) by blast+
  show "\<exists>e. text_Probe data = Fail e"
    using in1024 b by (auto simp: text_Probe_head looksLikeText_def list_all_iff)
  show "\<exists>e. ow_Probe uni data = Fail e"
    using in1024 b by (auto simp: ow_Probe_def looksLikeASCII_def list_all_iff Let_def guard_def)
qed

lemma magic_head:
  assumes "rdLE32 (b # data) 0 4 = Ret m"
  shows "b = word_of_nat (unat m mod 256)"
proof (cases "4 \<le> length (b # data)")
  case True
  then have m: "m = word_of_nat (le_val (take 4 (b # data)))" using assms by simp
  have "le_val (take 4 (b # data)) < 256 ^ length (take 4 (b # data))" by (rule le_val_lt)
  also have "256 ^ length (take 4 (b # data)) = (2 :: nat) ^ 32" using True by simp
  finally have "unat m = le_val (take 4 (b # data))"
    unfolding m by (intro unat_word_of_nat) simp
  then have "unat m mod 256 = unat b mod 256" by simp
  then show ?thesis using unat_u8_lt [of b] by simp
next
  case False
  then show ?thesis using assms by (simp add: rdLE32_def subslice_def split: if_splits)
qed

lemma install_Encode_head:
  assumes "install_Encode entries tags hs = Ret data"
  obtains r where "data = 0x49 # 0x4E # 1 # r" "7 \<le> length r"
proof -
  obtain r where "data = putLE16 MagicInstall @ 1 # r" "7 \<le> length r"
    using assms by (auto simp: install_Encode_def Let_def guard_eq_Ret)
  then show thesis using that by (simp add: putLE16_def MagicInstall_def le_bytes_numeral)
qed

text \<open>Whatever the order of registration, the manifest \<^verbatim>\<open>install.Encode\<close> writes is taken for what it is.\<close>

lemma install_detected:
  assumes "install_Encode entries tags hs = Ret data" "install_Parse data = Ret h"
    and "set ps = set (root_probes uni order mndx)"
  shows "Detect ps data = Ret (install_iface h)"
proof (rule Detect_only)
  obtain r where r: "data = 0x49 # 0x4E # 1 # r" "7 \<le> length r"
    using assms(1) by (rule install_Encode_head)
  have "rdLE16 data 0 2 = Ret MagicInstall"
    using r(1) by (subst rdLE16_Ret) (simp_all add: MagicInstall_def)
  then have i: "probe_as install_iface install_Probe data = Ret (install_iface h)"
    using r assms(2) by (simp add: probe_as_def install_Probe_def fileInstallHeaderSize_def)
  show "probe_as install_iface install_Probe \<in> set ps" by (simp add: assms(3) root_probes_def)
  show "probe_as install_iface install_Probe data = Ret (install_iface h)" by (rule i)
  have "(1 :: u8) \<in> set (take 256 data)" "(1 :: u8) < 9" using r(1) by simp_all
  note refuse = text_probes_refuse [OF this]
  obtain m where m: "rdLE32 data 0 4 = Ret m"
    by (rule that, rule rdLE32_Ret) (use r in auto)
  have head: "unat m mod 256 = 0x49"
  proof -
    have "word_of_nat (unat m mod 256) = (0x49 :: u8)" using m magic_head by (simp add: r(1))
    then have "unat (word_of_nat (unat m mod 256) :: u8) = unat (0x49 :: u8)" by simp
    moreover have "unat (word_of_nat (unat m mod 256) :: u8) = unat m mod 256"
      by (intro unat_word_of_nat) simp
    ultimately show ?thesis by simp
  qed
  then have not: "m \<noteq> rootSignature" "m \<noteq> subdirSignature" "m \<noteq> mndxMagic" "m \<noteq> tvfsMagic" "m \<noteq> wowMagic"
    by (auto simp: rootSignature_def subdirSignature_def mndxMagic_def tvfsMagic_def wowMagic_def)
  have "\<exists>e. probe_as d3_iface d3_Probe data = Fail e" "\<exists>e. mndx_Probe mndx data = Fail e"
    "\<exists>e. probe_as (tvfs_iface uni) (tvfs_Probe uni) data = Fail e" "\<exists>e. probe_as wow_iface wow_Probe data = Fail e"
    using r m not
    by (auto simp: probe_as_def d3_Probe_def mndx_Probe_def tvfs_Probe_def wow_Probe_def guard_def
        simp del: rdLE32_Ret)
  moreover have "\<exists>e. probe_as ow_iface (ow_Probe uni) data = Fail e"
    "\<exists>e. probe_as (text_iface order) text_Probe data = Fail e"
    using refuse(1) [of uni] refuse(2) by (auto simp: probe_as_def)
  ultimately show "\<forall>q\<in>set ps. q data = Ret (install_iface h) \<or> (\<exists>e. q data = Fail e)"
    using i by (auto simp: assms(3) root_probes_def)
qed

end
