(* ===== verification/Encoding.thy ===== *)
theory Encoding
  imports CascBase GoSort
begin

text \<open>
  \<^verbatim>\<open>internal/encoding\<close>: the ENCODING manifest, which maps a content key to its encoded keys.
  \<^verbatim>\<open>encoding.go\<close> reads the CKey pages record by record; \<^verbatim>\<open>writer.go\<close> sorts the entries and lays
  them out in fixed-size pages with an index of first keys and page hashes. Shown here: the
  parser is safe, every page the writer fills makes progress and stays within its size, and a
  manifest reads back as the map of its entries.
\<close>

record enc_Header =
  eh_Version :: u8
  eh_CKeyLength :: u8
  eh_EKeyLength :: u8
  eh_CKeyPageSize :: u32
  eh_EKeyPageSize :: u32
  eh_CKeyPageCount :: u32
  eh_EKeyPageCount :: u32
  eh_ESpecBlockSize :: u32

record enc_CKeyEntry =
  en_ContentSize :: u64
  en_CKey :: key
  en_EKeys :: "key list"

record enc_File =
  enf_Header :: enc_Header
  enf_Entries :: "key \<Rightarrow> enc_CKeyEntry option"

definition fileEncodingHeaderSize :: nat where "fileEncodingHeaderSize = 22"

section \<open>The parser\<close>

text \<open>One page, from position \<open>p\<close>.\<close>

function parse_page :: "bytes \<Rightarrow> nat \<Rightarrow> enc_CKeyEntry list outcome" where
  "parse_page page p =
     (if length page < p + 6 then Ret []
      else
        bnd (rdLE16 page p (p + 2)) (\<lambda>ekeyCount.
        if ekeyCount = 0 then Ret []
        else
          let n = unat ekeyCount; recordSize = 6 + MD5HashSize + n * MD5HashSize in
          guard (length page < p + recordSize) ErrFileCorrupt (
          bnd (rdBE32 page (p + 2) (p + 6)) (\<lambda>cs.
          bnd (subslice page (p + 6) (p + 6 + MD5HashSize)) (\<lambda>ckey.
          bnd (mapM (\<lambda>k. let koff = p + 6 + MD5HashSize + k * MD5HashSize
                          in subslice page koff (koff + MD5HashSize)) [0..<n]) (\<lambda>ekeys.
          bnd (parse_page page (p + recordSize)) (\<lambda>rest.
          Ret (\<lparr>en_ContentSize = ucast cs, en_CKey = ckey, en_EKeys = ekeys\<rparr> # rest))))))))"
  by pat_completeness auto
termination
  by (relation "measure (\<lambda>(page, p). length page - p)") auto

declare parse_page.simps [simp del]

text \<open>The loop over the pages: \<open>n\<close> pages of \<open>pageBytes\<close> bytes from \<open>off\<close>.\<close>

fun parse_pages :: "bytes \<Rightarrow> nat \<Rightarrow> nat \<Rightarrow> nat \<Rightarrow> enc_CKeyEntry list outcome" where
  "parse_pages data off pageBytes 0 = Ret []"
| "parse_pages data off pageBytes (Suc n) =
     guard (length data < off + pageBytes) ErrFileCorrupt (
     bnd (subslice data off (off + pageBytes)) (\<lambda>page.
     bnd (parse_page page 0) (\<lambda>es.
     bnd (parse_pages data (off + pageBytes) pageBytes n) (\<lambda>rest.
     Ret (es @ rest)))))"

text \<open>The map the entries are stored in: a later entry replaces an earlier one.\<close>

definition entry_map :: "enc_CKeyEntry list \<Rightarrow> key \<Rightarrow> enc_CKeyEntry option" where
  "entry_map es = foldl (\<lambda>m e. m(en_CKey e \<mapsto> e)) (\<lambda>_. None) es"

definition enc_Parse :: "bytes \<Rightarrow> enc_File outcome" where
  "enc_Parse data =
     guard (length data < fileEncodingHeaderSize) ErrBadFormat (
     bnd (rdLE16 data 0 2) (\<lambda>magic.
     guard (magic \<noteq> MagicEncoding) ErrBadFormat (
     bnd (at data 2) (\<lambda>version.
     guard (version \<noteq> 1) ErrNotSupported (
     bnd (at data 3) (\<lambda>cKeyLen.
     bnd (at data 4) (\<lambda>eKeyLen.
     bnd (rdBE16 data 5 7) (\<lambda>cPageSizeKB.
     bnd (rdBE16 data 7 9) (\<lambda>ePageSizeKB.
     bnd (rdBE32 data 9 13) (\<lambda>cPageCount.
     bnd (rdBE32 data 13 17) (\<lambda>ePageCount.
     bnd (rdBE32 data 18 22) (\<lambda>especSize.
     let hdr = \<lparr>eh_Version = 1, eh_CKeyLength = cKeyLen, eh_EKeyLength = eKeyLen,
                eh_CKeyPageSize = ucast cPageSizeKB * 1024, eh_EKeyPageSize = ucast ePageSizeKB * 1024,
                eh_CKeyPageCount = cPageCount, eh_EKeyPageCount = ePageCount,
                eh_ESpecBlockSize = especSize\<rparr> in
     guard (cKeyLen \<noteq> 16 \<or> eKeyLen \<noteq> 16) ErrNotSupported (
     let off = fileEncodingHeaderSize + unat especSize + unat cPageCount * (MD5HashSize * 2) in
     guard (length data < off) ErrFileCorrupt (
     bnd (parse_pages data off (unat (eh_CKeyPageSize hdr)) (unat cPageCount)) (\<lambda>es.
     Ret \<lparr>enf_Header = hdr, enf_Entries = entry_map es\<rparr>)))))))))))))))"

definition enc_Find :: "enc_File \<Rightarrow> key \<Rightarrow> enc_CKeyEntry option" where
  "enc_Find f ckey = enf_Entries f ckey"

section \<open>The writer\<close>

record enc_WriteOptions =
  ew_CKeyPageSize :: u32
  ew_EKeyPageSize :: u32
  ew_IncludeEKeyPages :: bool
  ew_ESpecBlock :: bytes

definition ckeyLess :: "key \<Rightarrow> key \<Rightarrow> bool" where
  "ckeyLess a b = ekeyLess a b MD5HashSize"

definition enc_sort :: "enc_CKeyEntry list \<Rightarrow> enc_CKeyEntry list" where
  "enc_sort = sort_slice (\<lambda>x y. ckeyLess (en_CKey x) (en_CKey y))"

definition recordHdr :: nat where
  "recordHdr = 6 + MD5HashSize"

text \<open>The size of an entry's record and the entry, cut to one encoded key if it exceeds a page.\<close>

definition clip_record :: "nat \<Rightarrow> enc_CKeyEntry \<Rightarrow> nat \<times> enc_CKeyEntry" where
  "clip_record pageSize e =
     (let recsize = recordHdr + length (en_EKeys e) * MD5HashSize in
      if pageSize < recsize then
        if en_EKeys e = [] then (recordHdr, e)
        else (recordHdr + MD5HashSize, e\<lparr>en_EKeys := take 1 (en_EKeys e)\<rparr>)
      else (recsize, e))"

text \<open>The bytes stored for an entry: count (little-endian), size (big-endian), keys.\<close>

definition ckey_record :: "enc_CKeyEntry \<Rightarrow> bytes" where
  "ckey_record e =
     putLE16 (word_of_nat (length (en_EKeys e))) @ putBEUint32 (ucast (en_ContentSize e)) @
     fit 16 (en_CKey e) @ concat (map (fit 16) (en_EKeys e))"

text \<open>The inner loop: fill a page from \<open>off\<close>; the bytes written and the entries left.\<close>

fun fill_ckey_page :: "nat \<Rightarrow> nat \<Rightarrow> enc_CKeyEntry list \<Rightarrow> bytes \<times> enc_CKeyEntry list" where
  "fill_ckey_page pageSize off [] = ([], [])"
| "fill_ckey_page pageSize off (e # es) =
     (let (recsize, e') = clip_record pageSize e in
      if pageSize < off + recsize then ([], e # es)
      else
        let (bs, rest) = fill_ckey_page pageSize (off + recsize) es
        in (ckey_record e' @ bs, rest))"

text \<open>
  The outer loop: first key and content of each page. A page too small for any record would
  keep the code's loop from advancing; \<open>fill_ckey_page_progress\<close> below excludes that for the
  page sizes \<^verbatim>\<open>Encode\<close> admits, and the last branch is never taken.
\<close>

function ckey_pages :: "nat \<Rightarrow> enc_CKeyEntry list \<Rightarrow> (key \<times> bytes) list" where
  "ckey_pages pageSize es =
     (if es = [] then []
      else
        let (bs, rest) = fill_ckey_page pageSize 0 es in
        if length rest < length es
        then (en_CKey (hd es), fit pageSize bs) # ckey_pages pageSize rest
        else [])"
  by pat_completeness auto
termination
  by (relation "measure (\<lambda>(pageSize, es). length es)") auto

declare ckey_pages.simps [simp del]

text \<open>The page index: first key and page hash.\<close>

definition page_index :: "(bytes \<Rightarrow> bytes) \<Rightarrow> (key \<times> bytes) list \<Rightarrow> bytes" where
  "page_index md5 pages = concat (map (\<lambda>(first, page). fit 16 first @ fit 16 (md5 page)) pages)"

text \<open>The EKey pages: one row per entry that has an encoded key, numbered by the entry.\<close>

fun fill_ekey_page :: "nat \<Rightarrow> nat \<Rightarrow> nat \<Rightarrow> enc_CKeyEntry list \<Rightarrow> bytes \<times> nat \<times> enc_CKeyEntry list" where
  "fill_ekey_page pageSize off i [] = ([], i, [])"
| "fill_ekey_page pageSize off i (e # es) =
     (if pageSize < off + (MD5HashSize + 4 + 5) then ([], i, e # es)
      else
        case en_EKeys e of
          [] \<Rightarrow> fill_ekey_page pageSize off (i + 1) es
        | ek # _ \<Rightarrow>
            let (bs, i', rest) = fill_ekey_page pageSize (off + (MD5HashSize + 4 + 5)) (i + 1) es
            in (fit 16 ek @ putBEUint32 (word_of_nat i) @ putBEUint40 0 @ bs, i', rest))"

function ekey_pages :: "nat \<Rightarrow> nat \<Rightarrow> enc_CKeyEntry list \<Rightarrow> (key \<times> bytes) list" where
  "ekey_pages pageSize i es =
     (if es = [] then []
      else
        let first = (case en_EKeys (hd es) of [] \<Rightarrow> zero_key | ek # _ \<Rightarrow> ek);
            (bs, i', rest) = fill_ekey_page pageSize 0 i es in
        if length rest < length es
        then (first, fit pageSize bs) # ekey_pages pageSize i' rest
        else [])"
  by pat_completeness auto
termination
  by (relation "measure (\<lambda>(pageSize, i, es). length es)") auto

declare ekey_pages.simps [simp del]

definition enc_header_bytes :: "u32 \<Rightarrow> u32 \<Rightarrow> nat \<Rightarrow> nat \<Rightarrow> nat \<Rightarrow> bytes" where
  "enc_header_bytes cps eps ncpages nepages nspec =
     putLE16 MagicEncoding @ [1, 16, 16] @
     putBEUint16 (ucast (cps div 1024)) @ putBEUint16 (ucast (eps div 1024)) @
     putBEUint32 (word_of_nat ncpages) @ putBEUint32 (word_of_nat nepages) @ [0] @
     putBEUint32 (word_of_nat nspec)"

definition default_page :: "u32 \<Rightarrow> u32" where
  "default_page n = (if n = 0 then 4096 else n)"

definition enc_Encode :: "(bytes \<Rightarrow> bytes) \<Rightarrow> enc_CKeyEntry list \<Rightarrow> enc_WriteOptions \<Rightarrow> bytes outcome" where
  "enc_Encode md5 entries opts =
     (let cps = default_page (ew_CKeyPageSize opts); eps = default_page (ew_EKeyPageSize opts) in
      guard (cps mod 1024 \<noteq> 0 \<or> eps mod 1024 \<noteq> 0) ErrInvalidParameter (
      let srt = enc_sort entries;
          cpages = ckey_pages (unat cps) srt;
          epages = (if ew_IncludeEKeyPages opts then ekey_pages (unat eps) 0 srt else [])
      in Ret (enc_header_bytes cps eps (length cpages) (length epages) (length (ew_ESpecBlock opts)) @
              ew_ESpecBlock opts @ page_index md5 cpages @ concat (map snd cpages) @
              page_index md5 epages @ concat (map snd epages))))"

definition VerifyPage :: "(bytes \<Rightarrow> bytes) \<Rightarrow> bytes \<Rightarrow> bytes \<Rightarrow> bool" where
  "VerifyPage md5 page expected \<longleftrightarrow> md5 page = expected"

section \<open>The parser is safe\<close>

lemma safe_parse_page: "safe (parse_page page p)"
proof (induction page p rule: parse_page.induct)
  case (1 page p)
  show ?case
  proof (cases "length page < p + 6")
    case True
    then show ?thesis by (simp add: parse_page.simps)
  next
    case False
    show ?thesis
      using False "1.IH" [OF False _ _ refl refl]
      by (subst parse_page.simps)
        (auto simp: outcome_simps MD5HashSize_def Let_def guard_def intro!: safe_mapM)
  qed
qed

lemma safe_parse_pages: "safe (parse_pages data off pageBytes n)"
  by (induction n arbitrary: off) (auto simp: outcome_simps safe_parse_page)

lemma enc_Parse_safe: "safe (enc_Parse data)"
  by (auto simp: enc_Parse_def Let_def outcome_simps fileEncodingHeaderSize_def safe_parse_pages)

section \<open>Pages read back\<close>

definition enc_entry_ok :: "nat \<Rightarrow> enc_CKeyEntry \<Rightarrow> bool" where
  "enc_entry_ok pageSize e \<longleftrightarrow>
     key_ok (en_CKey e) \<and> (\<forall>k\<in>set (en_EKeys e). key_ok k) \<and> en_EKeys e \<noteq> [] \<and>
     length (en_EKeys e) < 2 ^ 16 \<and> recordHdr + length (en_EKeys e) * MD5HashSize \<le> pageSize \<and>
     unat (en_ContentSize e) < 2 ^ 32"

lemma length_ekeys: "length (concat (map (fit 16) ks)) = 16 * length ks"
  by (rule length_concat_const) simp

lemma length_ckey_record [simp]: "length (ckey_record e) = 22 + 16 * length (en_EKeys e)"
  by (simp add: ckey_record_def length_ekeys)

lemma parse_record:
  assumes d: "drop p page = ckey_record e @ r" and ok: "enc_entry_ok ps e"
  shows "parse_page page p =
    bnd (parse_page page (p + length (ckey_record e))) (\<lambda>rest. Ret (e # rest))"
proof -
  let ?n = "length (en_EKeys e)"
  let ?ks = "concat (map (fit 16) (en_EKeys e))"
  have n: "?n < 65536" "0 < ?n" and keys: "length (en_CKey e) = 16" "\<forall>k\<in>set (en_EKeys e). length k = 16"
    and cs: "unat (en_ContentSize e) < 2 ^ 32"
    using ok by (simp_all add: enc_entry_ok_def key_ok_def MD5HashSize_def)
  have len: "p + (22 + 16 * ?n) \<le> length page"
    using arg_cong [OF d, of length] n(2) by simp
  have at_off: "drop (p + k) page = drop k (ckey_record e @ r)" for k
    by (simp only: d [symmetric] drop_drop add.commute)
  have u: "unat (word_of_nat ?n :: u16) = ?n" "(word_of_nat ?n :: u16) \<noteq> 0"
  proof -
    show u: "unat (word_of_nat ?n :: u16) = ?n" using n by (intro unat_word_of_nat) simp
    show "(word_of_nat ?n :: u16) \<noteq> 0" using u n(2) by (metis less_irrefl unat_0)
  qed
  have count: "rdLE16 page p (p + 2) = Ret (word_of_nat ?n)"
    using len d by (simp add: ckey_record_def)
  have size: "rdBE32 page (p + 2) (p + 6) = Ret (ucast (en_ContentSize e))"
    using len by (simp add: at_off rdBE_Ret(3) del: add_2_eq_Suc')
      (simp add: ckey_record_def putBE_eq be_val_be_bytes unat_bounds)
  have ckey: "subslice page (p + 6) (p + 6 + 16) = Ret (en_CKey e)"
    using len keys(1) by (simp add: at_off) (simp add: ckey_record_def)
  have ekeys: "mapM (\<lambda>k. subslice page (p + 6 + 16 + k * 16) (p + 6 + 16 + k * 16 + 16)) [0..<?n] =
      Ret (en_EKeys e)"
  proof -
    have "subslice page (p + 6 + 16 + k * 16) (p + 6 + 16 + k * 16 + 16) = Ret (en_EKeys e ! k)"
      if "k < ?n" for k
    proof -
      have "drop (p + (22 + k * 16)) page = drop (k * 16) ?ks @ r"
        using that unfolding at_off by (simp add: ckey_record_def length_ekeys)
      then have "drop (p + 6 + 16 + k * 16) page = drop (k * 16) ?ks @ r"
        by (simp add: add.assoc)
      moreover have "drop (k * 16) ?ks = fit 16 (en_EKeys e ! k) @ concat (map (fit 16) (drop (Suc k) (en_EKeys e)))"
        using that by (intro drop_concat_nth) simp_all
      ultimately show ?thesis using len that keys(2) by simp
    qed
    then have "mapM (\<lambda>k. subslice page (p + 6 + 16 + k * 16) (p + 6 + 16 + k * 16 + 16)) [0..<?n] =
        Ret (map ((!) (en_EKeys e)) [0..<?n])"
      by (intro mapM_all_Ret) simp
    then show ?thesis by (simp add: map_nth)
  qed
  have e: "\<lparr>en_ContentSize = ucast (ucast (en_ContentSize e) :: u32), en_CKey = en_CKey e,
      en_EKeys = en_EKeys e\<rparr> = e"
  proof -
    have "unat (ucast (en_ContentSize e) :: u32) = unat (en_ContentSize e)"
      using cs by (simp add: unsigned_ucast_eq take_bit_nat_eq_self)
    then have "unat (ucast (ucast (en_ContentSize e) :: u32) :: u64) = unat (en_ContentSize e)"
      by (simp only: unat_ucast_64)
    then have "(ucast (ucast (en_ContentSize e) :: u32) :: u64) = en_ContentSize e"
      by (rule unsigned_word_eqI)
    then show ?thesis by simp
  qed
  have short: "\<not> length page < p + 6" "\<not> length page < p + length (ckey_record e)"
    using len by simp_all
  have next_off: "p + (6 + 16 + ?n * 16) = p + length (ckey_record e)" by simp
  show ?thesis
    by (subst parse_page.simps)
      (simp only: count bnd.simps u MD5HashSize_def Let_def size ckey ekeys e short guard_simps if_False
        next_off)
qed

lemma parse_page_records:
  assumes "\<forall>e\<in>set es. enc_entry_ok ps e"
  shows "parse_page (pre @ concat (map ckey_record es) @ replicate k 0) (length pre) = Ret es"
  using assms
proof (induction es arbitrary: pre)
  case Nil
  have "le_val (take 2 (replicate k 0)) = 0" if "6 \<le> k"
    using that by (simp add: min_def) (simp add: numeral_eq_Suc)
  then show ?case by (subst parse_page.simps) simp
next
  case (Cons e es)
  have "parse_page ((pre @ ckey_record e) @ concat (map ckey_record es) @ replicate k 0)
      (length (pre @ ckey_record e)) = Ret es"
    using Cons.prems by (intro Cons.IH) simp
  then show ?case
    using Cons.prems by (subst parse_record [where e = e and ps = ps and r = "concat (map ckey_record es) @ replicate k 0"])
      (simp_all del: length_ckey_record)
qed

section \<open>Filling pages\<close>

lemma clip_record_le: "38 \<le> pageSize \<Longrightarrow> fst (clip_record pageSize e) \<le> pageSize"
  by (auto simp: clip_record_def Let_def recordHdr_def MD5HashSize_def)

lemma fill_ckey_page_length: "length (snd (fill_ckey_page ps off es)) \<le> length es"
proof (induction es arbitrary: off)
  case (Cons e es)
  show ?case
    using Cons.IH [of "off + fst (clip_record ps e)"] by (auto simp: Let_def split: prod.split)
qed simp

text \<open>With pages of 38 bytes or more the first record always fits, so each page makes progress.\<close>

lemma fill_ckey_page_progress:
  assumes "38 \<le> ps" "es \<noteq> []"
  shows "length (snd (fill_ckey_page ps 0 es)) < length es"
proof -
  obtain e es' where es: "es = e # es'" using assms(2) by (cases es) auto
  have "length (snd (fill_ckey_page ps (fst (clip_record ps e)) es')) < Suc (length es')"
    using fill_ckey_page_length [of ps "fst (clip_record ps e)" es'] by simp
  then show ?thesis
    using clip_record_le [OF assms(1), of e] by (auto simp: es Let_def split: prod.split)
qed

lemma clip_record_ok: "enc_entry_ok ps e \<Longrightarrow> clip_record ps e = (length (ckey_record e), e)"
  by (auto simp: clip_record_def enc_entry_ok_def recordHdr_def MD5HashSize_def)

lemma fill_ckey_page_records:
  assumes "\<forall>e\<in>set es. enc_entry_ok ps e" "fill_ckey_page ps off es = (bs, rest)" "off \<le> ps"
  shows "\<exists>us. es = us @ rest \<and> bs = concat (map ckey_record us) \<and> off + length bs \<le> ps"
  using assms
proof (induction ps off es arbitrary: bs rule: fill_ckey_page.induct)
  case (2 ps off e es)
  have clip: "clip_record ps e = (length (ckey_record e), e)"
    using "2.prems"(1) by (intro clip_record_ok) simp
  show ?case
  proof (cases "ps < off + length (ckey_record e)")
    case True
    then show ?thesis using "2.prems"(2,3) clip by (auto simp: Let_def)
  next
    case False
    obtain bs' where fill: "fill_ckey_page ps (off + length (ckey_record e)) es = (bs', rest)"
      and bs: "bs = ckey_record e @ bs'"
      using "2.prems"(2) clip False by (auto simp: Let_def simp del: length_ckey_record split: prod.splits)
    obtain us where "es = us @ rest" "bs' = concat (map ckey_record us)"
        "off + length (ckey_record e) + length bs' \<le> ps"
      using "2.IH" [OF clip [symmetric] refl _ _ fill] "2.prems"(1) False by auto
    then have "e # es = (e # us) @ rest \<and> bs = concat (map ckey_record (e # us)) \<and> off + length bs \<le> ps"
      by (simp add: bs)
    then show ?thesis by blast
  qed
qed simp

lemma ckey_pages_length: "length (ckey_pages ps es) \<le> length es"
proof (induction ps es rule: ckey_pages.induct)
  case (1 ps es)
  show ?case
  proof (cases "es = []")
    case False
    then show ?thesis
      using "1.IH" [OF False refl] by (subst ckey_pages.simps) (auto simp: Let_def split: prod.split)
  qed (simp add: ckey_pages.simps)
qed

lemma fit_pad: "length bs \<le> n \<Longrightarrow> fit n bs = bs @ replicate (n - length bs) 0"
  by (simp add: fit_def)

lemma parse_pages_ckey_pages:
  assumes "\<forall>e\<in>set es. enc_entry_ok ps e" "38 \<le> ps"
  shows "parse_pages (pre @ concat (map snd (ckey_pages ps es)) @ post) (length pre) ps
     (length (ckey_pages ps es)) = Ret es"
  using assms
proof (induction ps es arbitrary: pre rule: ckey_pages.induct)
  case (1 ps es)
  show ?case
  proof (cases "es = []")
    case False
    obtain bs rest where fill: "fill_ckey_page ps 0 es = (bs, rest)" by fastforce
    obtain us where us: "es = us @ rest" "bs = concat (map ckey_record us)" "length bs \<le> ps"
      using fill_ckey_page_records [OF "1.prems"(1) fill] by auto
    have less: "length rest < length es"
      using fill_ckey_page_progress [OF "1.prems"(2) False] fill by simp
    have pages: "ckey_pages ps es = (en_CKey (hd es), fit ps bs) # ckey_pages ps rest"
      using False fill less by (subst ckey_pages.simps) (simp add: Let_def)
    have page: "parse_page (fit ps bs) 0 = Ret us"
      using parse_page_records [of us ps "[]" "ps - length bs"] "1.prems"(1) us by (simp add: fit_pad)
    have "parse_pages ((pre @ fit ps bs) @ concat (map snd (ckey_pages ps rest)) @ post)
        (length (pre @ fit ps bs)) ps (length (ckey_pages ps rest)) = Ret rest"
      using "1.prems" us(1) by (intro "1.IH" [OF False fill [symmetric] refl less]) auto
    then show ?thesis
      unfolding pages using us(1) by (simp add: page)
  qed (simp add: ckey_pages.simps)
qed

section \<open>Manifests read back\<close>

text \<open>A key may be listed more than once, with the same entry.\<close>

lemma entry_map_iff:
  "inj_on en_CKey (set es) \<Longrightarrow> entry_map es k = Some e \<longleftrightarrow> e \<in> set es \<and> en_CKey e = k"
proof (induction es rule: rev_induct)
  case (snoc x xs)
  have "entry_map (xs @ [x]) = (entry_map xs)(en_CKey x \<mapsto> x)" by (simp add: entry_map_def)
  then show ?case using snoc by (auto simp: inj_on_def)
qed (simp add: entry_map_def)

lemma length_page_index [simp]: "length (page_index h pages) = 32 * length pages"
  unfolding page_index_def by (rule length_concat_const) (auto split: prod.split)

lemma set_enc_sort [simp]: "set (enc_sort es) = set es"
  by (simp add: enc_sort_def)

lemma enc_page_size:
  assumes "cps mod 1024 = (0 :: u32)" "unat cps < 2 ^ 26"
  shows "(ucast (ucast (cps div 1024) :: u16) :: u32) * 1024 = cps"
proof (rule unsigned_word_eqI)
  have d: "unat (cps div 1024) = unat cps div 1024" by (simp add: unat_div)
  have lt: "unat cps div 1024 < 65536" using assms(2) by simp
  have "unat (ucast (cps div 1024) :: u16) = unat cps div 1024"
    using lt by (simp add: unsigned_ucast_eq d take_bit_nat_eq_self)
  then have "unat (ucast (ucast (cps div 1024) :: u16) :: u32) = unat cps div 1024"
    using lt by (subst unsigned_ucast_eq) (simp add: take_bit_nat_eq_self)
  moreover have "unat (cps mod 1024) = 0" using assms(1) by simp
  then have "unat cps div 1024 * 1024 = unat cps" by (simp add: unat_mod mod_eq_0_iff_dvd)
  ultimately show "unat ((ucast (ucast (cps div 1024) :: u16) :: u32) * 1024) = unat cps"
    using assms(2) by (simp add: unat_word_ariths)
qed

lemma default_page_pos: "default_page n = cps \<Longrightarrow> cps mod 1024 = 0 \<Longrightarrow> 38 \<le> unat cps"
proof -
  assume d: "default_page n = cps" and m: "cps mod 1024 = 0"
  have "cps \<noteq> 0" using d by (auto simp: default_page_def split: if_splits)
  then have "unat cps \<noteq> 0" by (simp add: unat_eq_0)
  moreover have "unat cps mod 1024 = 0" using m unat_mod [of cps 1024] by simp
  ultimately show ?thesis using mod_less [of "unat cps" 1024] by linarith
qed

lemma length_enc_header_bytes [simp]: "length (enc_header_bytes cps eps nc ne nspec) = 22"
  by (simp add: enc_header_bytes_def)

text \<open>The header the writer emits takes the parser to its pages.\<close>

lemma enc_Parse_header:
  assumes "data = enc_header_bytes cps eps nc ne (length spec) @ spec @ idx @ rest" "length idx = 32 * nc"
    and "cps mod 1024 = 0" "unat cps < 2 ^ 26" "nc < 2 ^ 32" "length spec < 2 ^ 32"
  shows "\<exists>hdr. enc_Parse data =
    bnd (parse_pages data (22 + length spec + nc * 32) (unat cps) nc) (\<lambda>es.
      Ret \<lparr>enf_Header = hdr, enf_Entries = entry_map es\<rparr>)"
proof -
  let ?hd = "enc_header_bytes cps eps nc ne (length spec)"
  have hd_len: "length ?hd = 22" by (simp add: enc_header_bytes_def)
  have f0: "rdLE16 data 0 2 = Ret MagicEncoding" and f2: "at data 2 = Ret 1" and f3: "at data 3 = Ret 16"
    and f4: "at data 4 = Ret 16"
    by (simp_all add: assms(1) enc_header_bytes_def nth_append)
  have f5: "rdBE16 data 5 7 = Ret (ucast (cps div 1024))" and f7: "rdBE16 data 7 9 = Ret (ucast (eps div 1024))"
    and f9: "rdBE32 data 9 13 = Ret (word_of_nat nc)" and f13: "rdBE32 data 13 17 = Ret (word_of_nat ne)"
    and f18: "rdBE32 data 18 22 = Ret (word_of_nat (length spec))"
    by (simp_all add: assms(1) enc_header_bytes_def rdBE_Ret putBE_eq be_val_be_bytes unat_bounds)
  have u: "unat (word_of_nat nc :: u32) = nc" "unat (word_of_nat (length spec) :: u32) = length spec"
    using assms(5,6) by (intro unat_word_of_nat; simp)+
  have len: "\<not> length data < 22" "\<not> length data < 22 + length spec + nc * (16 * 2)"
    using assms(2) by (simp_all add: assms(1) hd_len)
  show ?thesis
    unfolding enc_Parse_def f0 f2 f3 f4 f5 f7 f9 f13 f18 bnd.simps Let_def u
      fileEncodingHeaderSize_def MD5HashSize_def enc_page_size [OF assms(3,4)]
    using len by (auto simp: enc_page_size [OF assms(3,4)])
qed

lemma enc_readback:
  assumes "enc_Encode md5 entries opts = Ret data" "default_page (ew_CKeyPageSize opts) = cps"
    and "\<forall>e\<in>set entries. enc_entry_ok (unat cps) e" "inj_on en_CKey (set entries)"
    and "unat cps < 2 ^ 26" "length entries < 2 ^ 32" "length (ew_ESpecBlock opts) < 2 ^ 32"
  shows "\<exists>f. enc_Parse data = Ret f \<and>
    (\<forall>k e. enc_Find f k = Some e \<longleftrightarrow> e \<in> set entries \<and> en_CKey e = k)"
proof -
  define srt where "srt = enc_sort entries"
  define cpages where "cpages = ckey_pages (unat cps) srt"
  let ?spec = "ew_ESpecBlock opts"
  from assms(1,2) obtain eps ne post where mods: "cps mod 1024 = 0"
    and data: "data = enc_header_bytes cps eps (length cpages) ne (length ?spec) @ ?spec @
        page_index md5 cpages @ concat (map snd cpages) @ post"
    by (auto simp: enc_Encode_def Let_def guard_eq_Ret srt_def cpages_def)
  have npages: "length cpages < 2 ^ 32"
    using ckey_pages_length [of "unat cps" srt] assms(6) by (simp add: cpages_def srt_def enc_sort_def)
  let ?pre = "enc_header_bytes cps eps (length cpages) ne (length ?spec) @ ?spec @ page_index md5 cpages"
  have "parse_pages (?pre @ concat (map snd (ckey_pages (unat cps) srt)) @ post) (length ?pre) (unat cps)
      (length (ckey_pages (unat cps) srt)) = Ret srt"
    using assms(3) default_page_pos [OF assms(2) mods]
    by (intro parse_pages_ckey_pages) (simp_all add: srt_def)
  then have pages: "parse_pages data (22 + length ?spec + length cpages * 32) (unat cps) (length cpages) = Ret srt"
    by (simp add: data cpages_def mult.commute add.assoc)
  obtain hdr where "enc_Parse data = Ret \<lparr>enf_Header = hdr, enf_Entries = entry_map srt\<rparr>"
    using enc_Parse_header [OF data _ mods assms(5) npages assms(7)] pages by auto
  moreover have "inj_on en_CKey (set srt)" using assms(4) by (simp add: srt_def)
  ultimately show ?thesis by (simp add: enc_Find_def entry_map_iff) (simp add: srt_def)
qed


text \<open>
  A record whose key count is zero ends its page for the parser. The writer emits one for an
  entry without encoded keys, and what follows it in the page is lost.
\<close>

lemma parse_page_zero_count: "parse_page (0 # 0 # r) 0 = Ret []"
  by (subst parse_page.simps) simp

theorem enc_zero_ekeys_hides_page:
  assumes "enc_Encode md5 [a, b] opts = Ret data" "ew_CKeyPageSize opts = 0"
    and "ckeyLess (en_CKey a) (en_CKey b)" "en_EKeys a = []" "length (en_EKeys b) = 1"
    and "length (ew_ESpecBlock opts) < 2 ^ 32"
  shows "\<exists>f. enc_Parse data = Ret f \<and> enc_Find f (en_CKey b) = None"
proof -
  let ?spec = "ew_ESpecBlock opts"
  have asym: "\<not> ckeyLess (en_CKey b) (en_CKey a)"
    using assms(3) by (auto simp: ckeyLess_def ekeyLess_def dest: first_diff_asym)
  have srt: "enc_sort [a, b] = [a, b]"
    using assms(3) asym by (simp add: enc_sort_def sort_slice_def)
  have clip: "clip_record 4096 a = (22, a)" "clip_record 4096 b = (38, b)"
    using assms(4,5) by (simp_all add: clip_record_def recordHdr_def MD5HashSize_def)
  let ?bs = "ckey_record a @ ckey_record b"
  have pages: "ckey_pages 4096 [a, b] = [(en_CKey a, fit 4096 ?bs)]"
    using clip by (simp add: ckey_pages.simps)
  obtain r where page: "fit 4096 ?bs = 0 # 0 # r"
  proof -
    have "putLE16 (word_of_nat (length (en_EKeys a))) = [0, 0]"
      using assms(4) by (simp add: putLE16_def le_bytes_numeral)
    then obtain r where "?bs = 0 # 0 # r" by (simp add: ckey_record_def)
    moreover have "length ?bs \<le> 4096" using assms(4,5) by simp
    ultimately show thesis using that [of "r @ replicate (4096 - length ?bs) 0"] by (simp add: fit_pad)
  qed
  from assms(1,2) obtain eps ne post where
    data: "data = enc_header_bytes 4096 eps 1 ne (length ?spec) @ ?spec @
        page_index md5 [(en_CKey a, fit 4096 ?bs)] @ fit 4096 ?bs @ post"
    by (auto simp: enc_Encode_def Let_def guard_eq_Ret default_page_def srt pages)
  have "parse_pages data (22 + length ?spec + 1 * 32) 4096 1 = Ret []"
  proof -
    have "subslice data (22 + length ?spec + 32) (22 + length ?spec + 32 + 4096) = Ret (fit 4096 ?bs)"
      by (simp add: data)
    moreover have "\<not> length data < 22 + length ?spec + 32 + 4096" by (simp add: data)
    ultimately show ?thesis
      by (simp add: page parse_page_zero_count)
  qed
  then show ?thesis
    using enc_Parse_header [OF data _ _ _ _ assms(6)] by (auto simp: enc_Find_def entry_map_def)
qed

section \<open>The theorems at work\<close>

definition sample_entry :: "u8 \<Rightarrow> key list \<Rightarrow> enc_CKeyEntry" where
  "sample_entry k eks = \<lparr>en_ContentSize = 5, en_CKey = replicate 16 k, en_EKeys = eks\<rparr>"

definition sample_opts :: enc_WriteOptions where
  "sample_opts = \<lparr>ew_CKeyPageSize = 0, ew_EKeyPageSize = 0, ew_IncludeEKeyPages = True, ew_ESpecBlock = [0x7A, 0]\<rparr>"

lemma sample_encodes: "\<exists>data. enc_Encode md5 es sample_opts = Ret data"
  by (simp add: enc_Encode_def sample_opts_def default_page_def Let_def)


theorem enc_zero_ekeys_hides_page_witness:
  "\<exists>data f. enc_Encode rev [sample_entry 1 [], sample_entry 3 [replicate 16 4]] sample_opts = Ret data
     \<and> enc_Parse data = Ret f \<and> enc_Find f (en_CKey (sample_entry 3 [replicate 16 4])) = None"
proof -
  obtain data where e: "enc_Encode rev [sample_entry 1 [], sample_entry 3 [replicate 16 4]] sample_opts = Ret data"
    using sample_encodes by blast
  have "ckeyLess (replicate 16 1) (replicate 16 3)"
    by (simp add: ckeyLess_def ekeyLess_def MD5HashSize_def upt_rec)
  then have "\<exists>f. enc_Parse data = Ret f \<and> enc_Find f (en_CKey (sample_entry 3 [replicate 16 4])) = None"
    by (intro enc_zero_ekeys_hides_page [OF e]) (simp_all add: sample_opts_def sample_entry_def)
  with e show ?thesis by blast
qed

end
