(* ===== verification/CdnIndex.thy ===== *)
theory CdnIndex
  imports CascBase GoText
begin

text \<open>
  \<^verbatim>\<open>internal/cdn/archive_index.go\<close> and \<^verbatim>\<open>archive_set.go\<close>: the index of a CDN archive (pages of
  records, each followed by a page hash, and a footer that describes the record layout), and
  the merged set of all archives by trimmed key. Shown here: parsing is safe, an index reads
  back as its entries, and the first archive to list a key keeps it.
\<close>

unbundle bit_operations_syntax

definition archiveFooterLen :: nat where "archiveFooterLen = 36"

record ArchiveIndexFooter =
  af_TocHash :: bytes
  af_Version :: u8
  af_PageSizeKB :: u8
  af_OffsetBytes :: u8
  af_SizeBytes :: u8
  af_EKeyLength :: u8
  af_FooterHashBytes :: u8
  af_ElementCount :: u32
  af_FooterHash :: bytes
  af_PageLength :: nat
  af_ItemLength :: nat
  af_FooterLength :: nat

record ArchiveIndexEntry =
  ae_EKey :: key
  ae_Offset :: u64
  ae_EncodedSize :: u64

record ArchiveIndex =
  ai_Footer :: ArchiveIndexFooter
  ai_Entries :: "ArchiveIndexEntry list"

section \<open>The parser\<close>

definition cdn_beUintN :: "bytes \<Rightarrow> u64" where
  "cdn_beUintN b = readBE_from 0 b"

text \<open>The records of one page, from position \<open>p\<close>; a zero key ends them.\<close>

function page_records :: "nat \<Rightarrow> nat \<Rightarrow> nat \<Rightarrow> bytes \<Rightarrow> nat \<Rightarrow> ArchiveIndexEntry list outcome" where
  "page_records ekl sb ob page p =
     (let itemLen = ekl + ob + sb in
      if length page < p + itemLen \<or> itemLen = 0 then Ret []
      else
        bnd (subslice page p (p + itemLen)) (\<lambda>rec.
        bnd (subslice rec 0 ekl) (\<lambda>ek.
        if fit 16 ek = zero_key then Ret []
        else
          bnd (subslice rec ekl (ekl + sb)) (\<lambda>esize.
          bnd (subslice rec (ekl + sb) (ekl + sb + ob)) (\<lambda>off.
          bnd (page_records ekl sb ob page (p + itemLen)) (\<lambda>rest.
          Ret (\<lparr>ae_EKey = fit 16 ek, ae_Offset = cdn_beUintN off, ae_EncodedSize = cdn_beUintN esize\<rparr>
               # rest)))))))"
  by pat_completeness auto
termination
  by (relation "measure (\<lambda>(ekl, sb, ob, page, p). length page - p)") auto

declare page_records.simps [simp del]

definition zero_tail :: "bytes \<Rightarrow> bytes" where
  "zero_tail f = take 28 f @ replicate 8 0"

definition ParseArchiveIndex :: "(bytes \<Rightarrow> bytes) \<Rightarrow> bytes \<Rightarrow> ArchiveIndex outcome" where
  "ParseArchiveIndex md5 data =
     guard (length data < archiveFooterLen) ErrBadFormat (
     bnd (subslice_from data (length data - archiveFooterLen)) (\<lambda>f.
     bnd (rdLE32 f 24 28) (\<lambda>elementCount.
     bnd (subslice f 28 36) (\<lambda>hash.
     let pageKB = f ! 19; ob = f ! 20; sb = f ! 21; ekl = f ! 22; hb = f ! 23 in
     guard (f ! 16 \<noteq> 1 \<or> f ! 17 \<noteq> 0 \<or> f ! 18 \<noteq> 0 \<or> hb \<noteq> 8) ErrBadFormat (
     guard (pageKB = 0 \<or> ekl = 0 \<or> MD5HashSize < unat ekl) ErrBadFormat (
     guard (ob = 0 \<or> 8 < ob \<or> sb = 0 \<or> 8 < sb) ErrBadFormat (
     let footer = \<lparr>af_TocHash = take 16 f, af_Version = 1, af_PageSizeKB = pageKB, af_OffsetBytes = ob,
           af_SizeBytes = sb, af_EKeyLength = ekl, af_FooterHashBytes = hb, af_ElementCount = elementCount,
           af_FooterHash = fit 16 hash, af_PageLength = unat pageKB * 1024,
           af_ItemLength = unat ekl + unat ob + unat sb, af_FooterLength = archiveFooterLen\<rparr> in
     guard (take 8 (md5 (drop 16 (zero_tail f))) \<noteq> hash) ErrFileCorrupt (
     let bodyLen = length data - archiveFooterLen;
         pageStride = af_PageLength footer + MD5HashSize;
         pageCount = bodyLen div pageStride in
     bnd (mapM (\<lambda>p. bnd (subslice data (p * pageStride) (p * pageStride + af_PageLength footer))
            (\<lambda>page. page_records (unat ekl) (unat sb) (unat ob) page 0)) [0..<pageCount]) (\<lambda>ess.
     Ret \<lparr>ai_Footer = footer, ai_Entries = concat ess\<rparr>)))))))))"

section \<open>The writer\<close>

definition cdn_putBEUintN :: "u64 \<Rightarrow> nat \<Rightarrow> bytes" where
  "cdn_putBEUintN v n = putBEUintN v n"

definition item_bytes :: "nat \<Rightarrow> nat \<Rightarrow> nat \<Rightarrow> ArchiveIndexEntry \<Rightarrow> bytes outcome" where
  "item_bytes ekl sb ob e =
     bnd (subslice (ae_EKey e) 0 ekl) (\<lambda>k.
     Ret (k @ cdn_putBEUintN (ae_EncodedSize e) sb @ cdn_putBEUintN (ae_Offset e) ob))"

text \<open>One page: its records, zero padding, and the hash of the whole page.\<close>

definition index_page ::
  "(bytes \<Rightarrow> bytes) \<Rightarrow> nat \<Rightarrow> nat \<Rightarrow> nat \<Rightarrow> nat \<Rightarrow> ArchiveIndexEntry list \<Rightarrow> bytes outcome" where
  "index_page md5 pageLen ekl sb ob es =
     bnd (mapM (item_bytes ekl sb ob) es) (\<lambda>items.
     let page = fit pageLen (concat items) in Ret (page @ fit 16 (md5 page)))"

definition footer_head :: "ArchiveIndexFooter \<Rightarrow> nat \<Rightarrow> bytes" where
  "footer_head footer n =
     fit 16 (af_TocHash footer) @
     [1, 0, 0, af_PageSizeKB footer, af_OffsetBytes footer, af_SizeBytes footer, af_EKeyLength footer, 8] @
     putLE32 (word_of_nat n)"

definition EncodeArchiveIndex ::
  "(bytes \<Rightarrow> bytes) \<Rightarrow> ArchiveIndexFooter \<Rightarrow> ArchiveIndexEntry list \<Rightarrow> bytes outcome" where
  "EncodeArchiveIndex md5 footer entries =
     (let pageLen = unat (af_PageSizeKB footer) * 1024;
          ekl = unat (af_EKeyLength footer); ob = unat (af_OffsetBytes footer); sb = unat (af_SizeBytes footer);
          itemLen = ekl + ob + sb in
      bnd (go_div pageLen itemLen) (\<lambda>itemsPerPage.
      bnd (go_div (length entries + itemsPerPage - 1) itemsPerPage) (\<lambda>n.
      let pageCount = (if n = 0 then 1 else n) in
      bnd (mapM (\<lambda>p. index_page md5 pageLen ekl sb ob
             (take itemsPerPage (drop (p * itemsPerPage) entries))) [0..<pageCount]) (\<lambda>pages.
      let fh = footer_head footer (length entries) in
      Ret (concat pages @ fh @ take 8 (fit 16 (md5 (drop 16 (fh @ replicate 8 0)))))))))"

section \<open>The set of archives\<close>

record ArchiveLocation =
  al_ArchiveHashHex :: bytes
  al_Offset :: u64
  al_EncodedSize :: u64

text \<open>By the first nine bytes of the key.\<close>

type_synonym ArchiveSet = "bytes \<Rightarrow> ArchiveLocation option"

definition NewArchiveSet :: ArchiveSet where
  "NewArchiveSet = (\<lambda>_. None)"

definition archiveKey :: "key \<Rightarrow> bytes" where
  "archiveKey e = take EKeySize e"

definition set_add1 :: "bytes \<Rightarrow> ArchiveSet \<Rightarrow> ArchiveIndexEntry \<Rightarrow> ArchiveSet" where
  "set_add1 hexHash s e =
     (let k = archiveKey (ae_EKey e) in
      if s k \<noteq> None then s
      else s(k \<mapsto> \<lparr>al_ArchiveHashHex = hexHash, al_Offset = ae_Offset e, al_EncodedSize = ae_EncodedSize e\<rparr>))"

definition aset_Add :: "bytes \<Rightarrow> ArchiveIndex \<Rightarrow> ArchiveSet \<Rightarrow> ArchiveSet" where
  "aset_Add archiveHash idx s = foldl (set_add1 (hex_encode archiveHash)) s (ai_Entries idx)"

definition aset_Lookup :: "ArchiveSet \<Rightarrow> key \<Rightarrow> ArchiveLocation option" where
  "aset_Lookup s e = s (archiveKey e)"

section \<open>Safety\<close>

lemma safe_page_records: "safe (page_records ekl sb ob page p)"
proof (induction ekl sb ob page p rule: page_records.induct)
  case (1 ekl sb ob page p)
  show ?case
    by (subst page_records.simps) (auto simp: Let_def outcome_simps safe_bnd intro!: "1.IH" [OF refl])
qed

lemma ParseArchiveIndex_safe: "safe (ParseArchiveIndex md5 data)"
proof -
  have "safe (mapM (\<lambda>p. bnd (subslice data (p * stride) (p * stride + pl))
      (\<lambda>page. page_records ekl sb ob page 0)) [0..<(length data - 36) div stride])"
    if "stride = pl + 16" for stride pl ekl sb ob
  proof (intro safe_mapM)
    fix p assume "p \<in> set [0..<(length data - 36) div stride]"
    then have "Suc p \<le> (length data - 36) div stride" by simp
    then have "Suc p * stride \<le> (length data - 36) div stride * stride" by (rule mult_le_mono1)
    also have "\<dots> \<le> length data - 36" by simp
    finally have "p * stride + pl \<le> length data" using that by simp
    then show "safe (bnd (subslice data (p * stride) (p * stride + pl)) (\<lambda>page. page_records ekl sb ob page 0))"
      by (simp add: safe_bnd safe_page_records)
  qed
  then show ?thesis
    by (auto simp: ParseArchiveIndex_def Let_def outcome_simps archiveFooterLen_def MD5HashSize_def)
qed

section \<open>Indexes read back\<close>

lemma concat_chunks_upt: "concat (map (\<lambda>p. take k (drop (p * k) xs)) [0..<n]) = take (n * k) xs"
proof (induction n)
  case (Suc n)
  have "take (Suc n * k) xs = take (n * k) xs @ take k (drop (n * k) xs)"
    using take_add [of "n * k" k xs] by (simp add: add.commute)
  then show ?case using Suc by simp
qed simp

definition item_of :: "nat \<Rightarrow> nat \<Rightarrow> nat \<Rightarrow> ArchiveIndexEntry \<Rightarrow> bytes" where
  "item_of ekl sb ob e =
     take ekl (ae_EKey e) @ be_bytes sb (unat (ae_EncodedSize e)) @ be_bytes ob (unat (ae_Offset e))"

definition aitem_ok :: "nat \<Rightarrow> nat \<Rightarrow> nat \<Rightarrow> ArchiveIndexEntry \<Rightarrow> bool" where
  "aitem_ok ekl sb ob e \<longleftrightarrow>
     length (ae_EKey e) = 16 \<and> fit 16 (take ekl (ae_EKey e)) \<noteq> zero_key \<and>
     unat (ae_EncodedSize e) < 256 ^ sb \<and> unat (ae_Offset e) < 256 ^ ob"

definition read_item :: "nat \<Rightarrow> ArchiveIndexEntry \<Rightarrow> ArchiveIndexEntry" where
  "read_item ekl e = e\<lparr>ae_EKey := fit 16 (take ekl (ae_EKey e))\<rparr>"

lemma item_bytes_of: "aitem_ok ekl sb ob e \<Longrightarrow> ekl \<le> 16 \<Longrightarrow> item_bytes ekl sb ob e = Ret (item_of ekl sb ob e)"
  by (simp add: item_bytes_def item_of_def aitem_ok_def cdn_putBEUintN_def putBEUintN_eq)

lemma length_item_of: "aitem_ok ekl sb ob e \<Longrightarrow> ekl \<le> 16 \<Longrightarrow> length (item_of ekl sb ob e) = ekl + sb + ob"
  by (simp add: item_of_def aitem_ok_def)

lemma page_records_step:
  assumes "aitem_ok ekl sb ob e" "0 < ekl" "ekl \<le> 16"
  shows "page_records ekl sb ob (pre @ item_of ekl sb ob e @ r) (length pre) =
    bnd (page_records ekl sb ob (pre @ item_of ekl sb ob e @ r) (length (pre @ item_of ekl sb ob e)))
      (\<lambda>es. Ret (read_item ekl e # es))"
proof -
  let ?i = "item_of ekl sb ob e"
  have len: "length ?i = ekl + sb + ob" using assms by (simp add: length_item_of)
  have e: "length (ae_EKey e) = 16" "fit 16 (take ekl (ae_EKey e)) \<noteq> zero_key"
    "unat (ae_EncodedSize e) < 256 ^ sb" "unat (ae_Offset e) < 256 ^ ob"
    using assms(1) by (simp_all add: aitem_ok_def)
  have s0: "subslice (pre @ ?i @ r) (length pre) (length (pre @ ?i)) = Ret ?i"
    by simp
  have s1: "subslice ?i 0 ekl = Ret (take ekl (ae_EKey e))"
    using len assms(3) e(1) by (simp add: item_of_def)
  have s2: "subslice ?i ekl (ekl + sb) = Ret (be_bytes sb (unat (ae_EncodedSize e)))"
    using len assms(3) e(1) by (simp add: item_of_def)
  have s3: "subslice ?i (ekl + sb) (ekl + sb + ob) = Ret (be_bytes ob (unat (ae_Offset e)))"
    using len assms(3) e(1) by (simp add: item_of_def)
  have val: "cdn_beUintN (be_bytes sb (unat (ae_EncodedSize e))) = ae_EncodedSize e"
    "cdn_beUintN (be_bytes ob (unat (ae_Offset e))) = ae_Offset e"
    using readBE_be_bytes_fit [OF e(3)] readBE_be_bytes_fit [OF e(4)]
    by (simp_all add: cdn_beUintN_def readBE_def)
  have off: "length pre + (ekl + ob + sb) = length (pre @ ?i)" using len by simp
  have c: "\<not> (length (pre @ ?i @ r) < length (pre @ ?i) \<or> ekl + ob + sb = 0)"
    using len assms(2) by simp
  have R: "read_item ekl e = \<lparr>ae_EKey = fit 16 (take ekl (ae_EKey e)), ae_Offset = ae_Offset e,
      ae_EncodedSize = ae_EncodedSize e\<rparr>"
    by (cases e) (simp add: read_item_def)
  show ?thesis
    by (subst page_records.simps)
      (simp only: Let_def if_not_P [OF c] if_not_P [OF e(2)] s0 s1 s2 s3 bnd.simps val off R)
qed

lemma page_records_items:
  assumes "\<forall>e\<in>set es. aitem_ok ekl sb ob e" "0 < ekl" "ekl \<le> 16"
  shows "page_records ekl sb ob (pre @ concat (map (item_of ekl sb ob) es) @ replicate k 0) (length pre) =
    Ret (map (read_item ekl) es)"
  using assms(1)
proof (induction es arbitrary: pre)
  case Nil
  have "fit 16 (replicate ekl 0) = zero_key"
    using assms(3) by (simp add: fit_def zero_key_def MD5HashSize_def min_def flip: replicate_add)
  then show ?case
    using assms(2,3) by (subst page_records.simps) (auto simp: Let_def min_def)
next
  case (Cons e es)
  have "page_records ekl sb ob ((pre @ item_of ekl sb ob e) @ concat (map (item_of ekl sb ob) es) @ replicate k 0)
      (length (pre @ item_of ekl sb ob e)) = Ret (map (read_item ekl) es)"
    using Cons.prems by (intro Cons.IH) simp
  then show ?case
    using Cons.prems assms(2,3) by (simp add: page_records_step)
qed

lemma index_page_items:
  assumes "\<forall>e\<in>set es. aitem_ok ekl sb ob e" "ekl \<le> 16" "length es * (ekl + ob + sb) \<le> pl"
    and "\<And>x. length (md5 x) = 16"
  shows "index_page md5 pl ekl sb ob es =
    Ret ((concat (map (item_of ekl sb ob) es) @ replicate (pl - length es * (ekl + ob + sb)) 0) @
      md5 (concat (map (item_of ekl sb ob) es) @ replicate (pl - length es * (ekl + ob + sb)) 0))"
proof -
  have "mapM (item_bytes ekl sb ob) es = Ret (map (item_of ekl sb ob) es)"
    using assms(1,2) by (intro mapM_all_Ret item_bytes_of) auto
  moreover have "length (concat (map (item_of ekl sb ob) es)) = (ekl + ob + sb) * length es"
    using assms(1,2) by (intro length_concat_const) (simp add: length_item_of)
  ultimately show ?thesis
    using assms(3,4) by (simp add: index_page_def fit_def Let_def mult.commute)
qed

definition footer_ok :: "ArchiveIndexFooter \<Rightarrow> bool" where
  "footer_ok f \<longleftrightarrow>
     af_PageSizeKB f \<noteq> 0 \<and> af_EKeyLength f \<noteq> 0 \<and> unat (af_EKeyLength f) \<le> 16 \<and>
     af_OffsetBytes f \<noteq> 0 \<and> af_OffsetBytes f \<le> 8 \<and> af_SizeBytes f \<noteq> 0 \<and> af_SizeBytes f \<le> 8"

lemma length_footer_head [simp]: "length (footer_head f n) = 28"
  by (simp add: footer_head_def)

lemma footer_head_nth:
  "(footer_head f n @ r) ! 16 = 1" "(footer_head f n @ r) ! 17 = 0" "(footer_head f n @ r) ! 18 = 0"
  "(footer_head f n @ r) ! 19 = af_PageSizeKB f" "(footer_head f n @ r) ! 20 = af_OffsetBytes f"
  "(footer_head f n @ r) ! 21 = af_SizeBytes f" "(footer_head f n @ r) ! 22 = af_EKeyLength f"
  "(footer_head f n @ r) ! 23 = 8"
  by (simp_all add: footer_head_def nth_append)

lemma u8_eq_0: "(w :: u8) = 0 \<longleftrightarrow> unat w = 0"
  by (simp add: unat_eq_0)

text \<open>The parser on any pages followed by a footer the writer made.\<close>

lemma ParseArchiveIndex_footer:
  assumes "footer_ok f" "\<And>x. length (md5 x) = 16"
    and "data = concat pages @ footer_head f n @ take 8 (md5 (drop 16 (footer_head f n @ replicate 8 0)))"
    and "\<forall>p\<in>set pages. length p = unat (af_PageSizeKB f) * 1024 + 16"
    and "\<And>i. i < length pages \<Longrightarrow> page_records (unat (af_EKeyLength f)) (unat (af_SizeBytes f))
      (unat (af_OffsetBytes f)) (take (unat (af_PageSizeKB f) * 1024) (pages ! i)) 0 = Ret (ess i)"
  shows "\<exists>idx. ParseArchiveIndex md5 data = Ret idx \<and> ai_Entries idx = concat (map ess [0..<length pages])"
proof -
  let ?fh = "footer_head f n" and ?pl = "unat (af_PageSizeKB f) * 1024"
  let ?h = "take 8 (md5 (drop 16 (?fh @ replicate 8 0)))"
  define F where "F = ?fh @ ?h"
  have lens: "length (concat pages) = (?pl + 16) * length pages" "length ?h = 8" "length F = 36"
    using length_concat_const [of pages "\<lambda>p. p" "?pl + 16"] assms(2,4) by (simp_all add: F_def)
  have data: "data = concat pages @ F" by (simp add: assms(3) F_def)
  have f: "subslice_from data (length data - 36) = Ret F" using lens by (simp add: data)
  have tail: "subslice F 28 36 = Ret (take 8 (drop 28 F))" using lens(3) by (simp add: subslice_def)
  have ec: "rdLE32 F 24 28 = Ret (word_of_nat n)"
    using lens by (simp add: F_def footer_head_def)
  have pages: "mapM (\<lambda>p. bnd (subslice data (p * (?pl + 16)) (p * (?pl + 16) + ?pl))
      (\<lambda>page. page_records (unat (af_EKeyLength f)) (unat (af_SizeBytes f)) (unat (af_OffsetBytes f)) page 0))
      [0..<length pages] = Ret (map ess [0..<length pages])"
  proof (rule mapM_all_Ret)
    fix i assume "i \<in> set [0..<length pages]"
    then have i: "i < length pages" by simp
    have "drop (i * (?pl + 16)) (concat (map (\<lambda>p. p) pages)) = pages ! i @ concat (map (\<lambda>p. p) (drop (Suc i) pages))"
      using assms(4) i by (intro drop_concat_nth) auto
    moreover have "i * (?pl + 16) + (?pl + 16) \<le> length (concat pages)"
    proof -
      have "Suc i * (?pl + 16) \<le> length pages * (?pl + 16)" using i by (intro mult_le_mono1) simp
      then show ?thesis by (simp add: lens algebra_simps)
    qed
    moreover have "length (pages ! i) = ?pl + 16" using assms(4) i by simp
    ultimately have "subslice data (i * (?pl + 16)) (i * (?pl + 16) + ?pl) = Ret (take ?pl (pages ! i))"
      by (simp add: data)
    then show "bnd (subslice data (i * (?pl + 16)) (i * (?pl + 16) + ?pl))
      (\<lambda>page. page_records (unat (af_EKeyLength f)) (unat (af_SizeBytes f)) (unat (af_OffsetBytes f)) page 0)
      = Ret (ess i)"
      using assms(5) [OF i] by simp
  qed
  have count: "(length data - 36) div (?pl + 16) = length pages"
    using lens by (simp add: data)
  have hash: "take 8 (md5 (drop 16 (zero_tail F))) = take 8 (drop 28 F)"
    by (simp add: zero_tail_def F_def)
  have ok: "af_PageSizeKB f \<noteq> 0" "af_EKeyLength f \<noteq> 0" "\<not> 16 < unat (af_EKeyLength f)"
    "af_OffsetBytes f \<noteq> 0" "\<not> 8 < af_OffsetBytes f" "af_SizeBytes f \<noteq> 0" "\<not> 8 < af_SizeBytes f"
    using assms(1) by (auto simp: footer_ok_def)
  have nths: "F ! 16 = 1" "F ! 17 = 0" "F ! 18 = 0" "F ! 19 = af_PageSizeKB f" "F ! 20 = af_OffsetBytes f"
    "F ! 21 = af_SizeBytes f" "F ! 22 = af_EKeyLength f" "F ! 23 = 8"
    unfolding F_def by (rule footer_head_nth)+
  have long: "\<not> length data < 36" by (simp add: data lens)
  show ?thesis
    unfolding ParseArchiveIndex_def archiveFooterLen_def MD5HashSize_def Let_def f ec tail bnd.simps nths
    by (simp add: long ok hash count pages)
qed

lemma archive_index_readback:
  assumes "EncodeArchiveIndex md5 f entries = Ret data" "footer_ok f" "\<And>x. length (md5 x) = 16"
    and "\<forall>e\<in>set entries. aitem_ok (unat (af_EKeyLength f)) (unat (af_SizeBytes f)) (unat (af_OffsetBytes f)) e"
  shows "\<exists>idx. ParseArchiveIndex md5 data = Ret idx \<and>
    ai_Entries idx = map (read_item (unat (af_EKeyLength f))) entries"
proof -
  define pl where "pl = unat (af_PageSizeKB f) * 1024"
  define ekl where "ekl = unat (af_EKeyLength f)"
  define ob where "ob = unat (af_OffsetBytes f)"
  define sb where "sb = unat (af_SizeBytes f)"
  define il where "il = ekl + ob + sb"
  define k where "k = pl div il"
  define n where "n = (length entries + k - 1) div k"
  define N where "N = (if n = 0 then 1 else n)"
  define chunk where "chunk p = take k (drop (p * k) entries)" for p
  define page where "page p = concat (map (item_of ekl sb ob) (chunk p)) @ replicate (pl - length (chunk p) * il) 0" for p
  have ekl: "0 < ekl" "ekl \<le> 16" and items: "\<forall>e\<in>set entries. aitem_ok ekl sb ob e"
    using assms(2,4) by (simp_all add: ekl_def ob_def sb_def footer_ok_def unat_gt_0)
  have k0: "k \<noteq> 0"
    using assms(1) ekl(1) by (auto simp: EncodeArchiveIndex_def Let_def go_div_def bnd_eq_Ret k_def pl_def
        il_def ekl_def ob_def sb_def split: if_splits)
  have chunk_len: "length (chunk p) * il \<le> pl" for p
  proof -
    have "length (chunk p) * il \<le> k * il" by (intro mult_le_mono1) (simp add: chunk_def)
    also have "\<dots> \<le> pl" by (simp add: k_def)
    finally show ?thesis .
  qed
  have chunk_ok: "\<forall>e\<in>set (chunk p). aitem_ok ekl sb ob e" for p
    using items by (auto simp: chunk_def dest!: in_set_takeD in_set_dropD)
  have ipage: "index_page md5 pl ekl sb ob (chunk p) = Ret (page p @ md5 (page p))" for p
    using index_page_items [OF chunk_ok ekl(2) _ assms(3)] chunk_len by (simp add: page_def il_def)
  have page_len: "length (page p) = pl" for p
  proof -
    have "length (concat (map (item_of ekl sb ob) (chunk p))) = il * length (chunk p)"
      using chunk_ok ekl(2) by (intro length_concat_const) (simp add: length_item_of il_def)
    then show ?thesis using chunk_len [of p] by (simp add: page_def mult.commute)
  qed
  have "EncodeArchiveIndex md5 f entries =
      Ret (concat (map (\<lambda>p. page p @ md5 (page p)) [0..<N]) @ footer_head f (length entries) @
        take 8 (fit 16 (md5 (drop 16 (footer_head f (length entries) @ replicate 8 0)))))"
  proof -
    have "mapM (\<lambda>p. index_page md5 pl ekl sb ob (chunk p)) [0..<N] =
        Ret (map (\<lambda>p. page p @ md5 (page p)) [0..<N])"
      by (intro mapM_all_Ret ipage)
    moreover have "go_div pl il = Ret k" "go_div (length entries + k - 1) k = Ret n"
      using ekl(1) k0 by (simp_all add: go_div_def il_def k_def n_def)
    ultimately show ?thesis
      unfolding EncodeArchiveIndex_def Let_def pl_def [symmetric] ekl_def [symmetric] ob_def [symmetric]
        sb_def [symmetric] il_def [symmetric]
      by (simp add: chunk_def N_def)
  qed
  then have data: "data = concat (map (\<lambda>p. page p @ md5 (page p)) [0..<N]) @ footer_head f (length entries) @
      take 8 (md5 (drop 16 (footer_head f (length entries) @ replicate 8 0)))"
    using assms(1,3) by simp
  have recs: "page_records ekl sb ob (page p) 0 = Ret (map (read_item ekl) (chunk p))" for p
    using page_records_items [OF chunk_ok ekl, of "[]" p "pl - length (chunk p) * il"] by (simp add: page_def)
  have "\<exists>idx. ParseArchiveIndex md5 data = Ret idx \<and>
      ai_Entries idx = concat (map (\<lambda>p. map (read_item ekl) (chunk p)) [0..<length (map (\<lambda>p. page p @ md5 (page p)) [0..<N])])"
    using assms(2,3) data page_len recs
    by (intro ParseArchiveIndex_footer) (auto simp: pl_def ekl_def ob_def sb_def)
  moreover have "length entries \<le> N * k"
  proof -
    have "length entries + k - 1 < (n + 1) * k"
      using k0 dividend_less_times_div [of k "length entries + k - 1"] by (simp add: n_def algebra_simps)
    then have "length entries \<le> n * k" using k0 by simp
    then show ?thesis by (auto simp: N_def)
  qed
  then have "concat (map (\<lambda>p. map (read_item ekl) (chunk p)) [0..<N]) = map (read_item ekl) entries"
    using concat_chunks_upt [of k "map (read_item ekl) entries" N]
    by (simp add: chunk_def take_map drop_map)
  ultimately show ?thesis by (simp add: ekl_def)
qed

text \<open>
  C9. ParseArchiveIndex accepts what EncodeArchiveIndex wrote, footer hash included, and
  returns the entries in order with keys cut to the footer's key length, across any number of
  pages. This holds when the footer has a page size, a key length of 1 to 16 and field widths
  of 1 to 8 bytes, every size and offset fits its field, and no key is zero once cut.
\<close>

theorem archive_index_roundtrip:
  assumes "EncodeArchiveIndex md5 f entries = Ret data" "footer_ok f" "\<And>x. length (md5 x) = 16"
    and "\<forall>e\<in>set entries. aitem_ok (unat (af_EKeyLength f)) (unat (af_SizeBytes f)) (unat (af_OffsetBytes f)) e"
  shows "\<exists>idx. ParseArchiveIndex md5 data = Ret idx \<and>
    ai_Entries idx = map (read_item (unat (af_EKeyLength f))) entries"
  by (rule archive_index_readback [OF assms])

section \<open>The first archive keeps a key\<close>

lemma set_add1_other: "archiveKey (ae_EKey e) \<noteq> k \<Longrightarrow> set_add1 h s e k = s k"
  by (simp add: set_add1_def Let_def)

lemma set_adds_keep: "s k = Some loc \<Longrightarrow> foldl (set_add1 h) s es k = Some loc"
proof (induction es arbitrary: s)
  case (Cons e es)
  have "set_add1 h s e k = Some loc" using Cons.prems by (auto simp: set_add1_def Let_def)
  then show ?case using Cons.IH by simp
qed simp

lemma set_adds_new:
  "s k = None \<Longrightarrow> foldl (set_add1 h) s es k =
     (case find (\<lambda>e. archiveKey (ae_EKey e) = k) es of
        None \<Rightarrow> None
      | Some e \<Rightarrow> Some \<lparr>al_ArchiveHashHex = h, al_Offset = ae_Offset e, al_EncodedSize = ae_EncodedSize e\<rparr>)"
proof (induction es arbitrary: s)
  case (Cons e es)
  show ?case
  proof (cases "archiveKey (ae_EKey e) = k")
    case True
    then have "set_add1 h s e k = Some \<lparr>al_ArchiveHashHex = h, al_Offset = ae_Offset e,
        al_EncodedSize = ae_EncodedSize e\<rparr>"
      using Cons.prems by (simp add: set_add1_def Let_def)
    then show ?thesis using True by (simp add: set_adds_keep)
  next
    case False
    then show ?thesis using Cons by (simp add: set_add1_other)
  qed
qed simp

theorem archive_set_lookup:
  "aset_Lookup (aset_Add h idx s) ek =
     (case aset_Lookup s ek of
        Some loc \<Rightarrow> Some loc
      | None \<Rightarrow>
          map_option (\<lambda>e. \<lparr>al_ArchiveHashHex = hex_encode h, al_Offset = ae_Offset e,
              al_EncodedSize = ae_EncodedSize e\<rparr>)
            (find (\<lambda>e. archiveKey (ae_EKey e) = archiveKey ek) (ai_Entries idx)))"
  by (simp add: aset_Lookup_def aset_Add_def set_adds_keep set_adds_new split: option.split)

section \<open>The theorems at work\<close>

lemma EncodeArchiveIndex_total:
  assumes "footer_ok f" "\<forall>e\<in>set entries. length (ae_EKey e) = 16"
  shows "\<exists>data. EncodeArchiveIndex md5 f entries = Ret data"
proof -
  let ?pl = "unat (af_PageSizeKB f) * 1024"
  let ?il = "unat (af_EKeyLength f) + unat (af_OffsetBytes f) + unat (af_SizeBytes f)"
  have il: "0 < ?il" "?il \<le> 32" "1024 \<le> ?pl"
    using assms(1) by (auto simp: footer_ok_def u8_eq_0 word_le_nat_alt)
  then have "1 \<le> ?pl div ?il" by (subst less_eq_div_iff_mult_less_eq) simp_all
  then have k: "?pl div ?il \<noteq> 0" by simp
  have page: "\<exists>b. index_page md5 ?pl (unat (af_EKeyLength f)) (unat (af_SizeBytes f)) (unat (af_OffsetBytes f))
      (take k (drop n entries)) = Ret b" for k n
  proof -
    have "\<exists>bs. mapM (item_bytes (unat (af_EKeyLength f)) (unat (af_SizeBytes f)) (unat (af_OffsetBytes f)))
        (take k (drop n entries)) = Ret bs"
      using assms by (intro mapM_total) (auto simp: item_bytes_def footer_ok_def dest!: in_set_takeD in_set_dropD)
    then show ?thesis by (auto simp: index_page_def Let_def)
  qed
  let ?N = "(let n = (length entries + ?pl div ?il - 1) div (?pl div ?il) in if n = 0 then 1 else n)"
  have "\<exists>pages. mapM (\<lambda>p. index_page md5 ?pl (unat (af_EKeyLength f)) (unat (af_SizeBytes f))
      (unat (af_OffsetBytes f)) (take (?pl div ?il) (drop (p * (?pl div ?il)) entries))) [0..<?N] = Ret pages"
    by (rule mapM_total) (rule page)
  then obtain pages where "mapM (\<lambda>p. index_page md5 ?pl (unat (af_EKeyLength f)) (unat (af_SizeBytes f))
      (unat (af_OffsetBytes f)) (take (?pl div ?il) (drop (p * (?pl div ?il)) entries))) [0..<?N] = Ret pages" ..
  then show ?thesis
    using il(1) k by (simp add: EncodeArchiveIndex_def Let_def go_div_def)
qed

definition sample_footer :: ArchiveIndexFooter where
  "sample_footer = \<lparr>af_TocHash = replicate 16 0, af_Version = 1, af_PageSizeKB = 4, af_OffsetBytes = 4,
     af_SizeBytes = 4, af_EKeyLength = 16, af_FooterHashBytes = 8, af_ElementCount = 0,
     af_FooterHash = replicate 16 0, af_PageLength = 0, af_ItemLength = 0, af_FooterLength = 0\<rparr>"

theorem archive_index_roundtrip_witness:
  "\<exists>data idx. EncodeArchiveIndex (fit 16) sample_footer
        [\<lparr>ae_EKey = replicate 16 1, ae_Offset = 7, ae_EncodedSize = 9\<rparr>] = Ret data
     \<and> ParseArchiveIndex (fit 16) data = Ret idx
     \<and> ai_Entries idx = [\<lparr>ae_EKey = replicate 16 1, ae_Offset = 7, ae_EncodedSize = 9\<rparr>]"
proof -
  let ?e = "\<lparr>ae_EKey = replicate 16 1, ae_Offset = 7, ae_EncodedSize = 9\<rparr>"
  have ok: "footer_ok sample_footer" by (simp add: footer_ok_def sample_footer_def word_le_nat_alt)
  then obtain data where e: "EncodeArchiveIndex (fit 16) sample_footer [?e] = Ret data"
    using EncodeArchiveIndex_total [of sample_footer "[?e]"] by auto
  have "\<exists>idx. ParseArchiveIndex (fit 16) data = Ret idx \<and>
      ai_Entries idx = map (read_item (unat (af_EKeyLength sample_footer))) [?e]"
    by (rule archive_index_roundtrip [OF e ok])
      (simp_all add: aitem_ok_def sample_footer_def zero_key_def MD5HashSize_def replicate_eq_replicate)
  with e show ?thesis by (auto simp: read_item_def sample_footer_def)
qed

end
