(* ===== verification/CdnClient.thy ===== *)
theory CdnClient
  imports CdnIndex GoText "HOL-Library.Multiset"
begin

text \<open>
  \<^verbatim>\<open>internal/cdn/client.go\<close> and the merging of archive indexes of \<^verbatim>\<open>internal/storage/cdn_archives.go\<close>.
  The network is an argument that answers a URL and a range. Shown here: what the merged set maps
  a key to does not depend on the order in which the concurrent downloads finish, and a client asks
  its hosts in turn until one answers.
\<close>

section \<open>The client\<close>

text \<open>
  What comes of \<^verbatim>\<open>http.NewRequestWithContext\<close>, \<^verbatim>\<open>Do\<close> and \<^verbatim>\<open>io.ReadAll\<close>: an error of one of them, or
  a status and a body. A range is the pair of its first and last byte.
\<close>

datatype reply = NoReply | Reply nat bytes

type_synonym http = "bytes \<Rightarrow> (int \<times> int) option \<Rightarrow> reply"

record Client =
  cl_Hosts :: "bytes list"
  cl_BaseDir :: bytes

definition NewClient :: "bytes list \<Rightarrow> bytes \<Rightarrow> Client" where
  "NewClient hosts baseDir = \<lparr>cl_Hosts = hosts, cl_BaseDir = baseDir\<rparr>"

text \<open>\<^verbatim>\<open>strings.Trim(s, "/")\<close>.\<close>

definition trim_slashes :: "bytes \<Rightarrow> bytes" where
  "trim_slashes s = rev (dropWhile (\<lambda>c. c = 0x2F) (rev (dropWhile (\<lambda>c. c = 0x2F) s)))"

definition PathFor :: "(bytes \<Rightarrow> bytes) \<Rightarrow> bytes \<Rightarrow> bytes \<Rightarrow> bytes \<Rightarrow> bytes outcome" where
  "PathFor uni baseDir ctype hexHash =
     (if length hexHash < 4 then Ret []
      else
        let h = ToLower uni hexHash in
        bnd (subslice h 0 2) (\<lambda>a.
        bnd (subslice h 2 4) (\<lambda>b.
        Ret (join [0x2F] [trim_slashes baseDir, ctype, a, b, h]))))"

text \<open>The loop over the hosts; the last error wraps none of the package's errors.\<close>

fun fetch_hosts :: "http \<Rightarrow> bytes \<Rightarrow> (int \<times> int) option \<Rightarrow> bytes list \<Rightarrow> bytes outcome" where
  "fetch_hosts http path rng [] = Fail ErrOther"
| "fetch_hosts http path rng (host # hosts) =
     (case http (lit ''http://'' @ host @ [0x2F] @ path) rng of
        NoReply \<Rightarrow> fetch_hosts http path rng hosts
      | Reply status body \<Rightarrow>
          if status = 200 \<or> rng \<noteq> None \<and> status = 206 then Ret body
          else fetch_hosts http path rng hosts)"

definition client_fetch ::
  "(bytes \<Rightarrow> bytes) \<Rightarrow> http \<Rightarrow> Client \<Rightarrow> bytes \<Rightarrow> bytes \<Rightarrow> u64 \<Rightarrow> u64 \<Rightarrow> bytes outcome" where
  "client_fetch uni http c ctype hexHash offset len =
     guard (cl_Hosts c = []) ErrOther (
     bnd (PathFor uni (cl_BaseDir c) ctype hexHash) (\<lambda>path.
     guard (path = []) ErrOther (
     fetch_hosts http path
       (if 0 < sint len then Some (sint offset, sint (offset + len - 1)) else None) (cl_Hosts c))))"

definition client_Fetch :: "(bytes \<Rightarrow> bytes) \<Rightarrow> http \<Rightarrow> Client \<Rightarrow> bytes \<Rightarrow> bytes \<Rightarrow> bytes outcome" where
  "client_Fetch uni http c ctype hexHash = client_fetch uni http c ctype hexHash (- 1) (- 1)"

definition client_FetchRange ::
  "(bytes \<Rightarrow> bytes) \<Rightarrow> http \<Rightarrow> Client \<Rightarrow> bytes \<Rightarrow> bytes \<Rightarrow> u64 \<Rightarrow> u64 \<Rightarrow> bytes outcome" where
  "client_FetchRange uni http c ctype hexHash offset len =
     guard (sint len \<le> 0) ErrOther (client_fetch uni http c ctype hexHash offset len)"

section \<open>Merging the archive indexes\<close>

text \<open>One download: the work of a goroutine on one archive hash.\<close>

definition fetch_index ::
  "(bytes \<Rightarrow> bytes) \<Rightarrow> (bytes \<Rightarrow> bytes) \<Rightarrow> http \<Rightarrow> Client \<Rightarrow> key \<Rightarrow> key \<times> ArchiveIndex outcome" where
  "fetch_index uni md5 http c h =
     (h, bnd (client_Fetch uni http c (lit ''data'') (hex_encode h @ lit ''.index'')) (ParseArchiveIndex md5))"

text \<open>
  The loop over the results: the set, the first error, and whether the set holds a key
  (\<^verbatim>\<open>set.Len()\<close> is not zero).
\<close>

fun merge_results ::
  "(key \<times> ArchiveIndex outcome) list \<Rightarrow> ArchiveSet \<Rightarrow> cerr option \<Rightarrow> bool \<Rightarrow> ArchiveSet outcome" where
  "merge_results [] s firstErr some =
     (case firstErr of Some e \<Rightarrow> if some then Ret s else Fail e | None \<Rightarrow> Ret s)"
| "merge_results ((h, r) # rs) s firstErr some =
     (case r of
        Ret idx \<Rightarrow> merge_results rs (aset_Add h idx s) firstErr (some \<or> ai_Entries idx \<noteq> [])
      | Fail e \<Rightarrow> merge_results rs s (if firstErr = None then Some e else firstErr) some
      | Panic \<Rightarrow> Panic)"

text \<open>
  The goroutines answer in any order: \<open>arrival\<close> lists the indexes of \<^verbatim>\<open>hashes\<close> as their results
  come out of the channel.
\<close>

definition fetchAndMergeArchiveIndexes ::
  "(bytes \<Rightarrow> bytes) \<Rightarrow> (bytes \<Rightarrow> bytes) \<Rightarrow> http \<Rightarrow> nat list \<Rightarrow> Client \<Rightarrow> key list \<Rightarrow> ArchiveSet outcome" where
  "fetchAndMergeArchiveIndexes uni md5 http arrival c hashes =
     merge_results (map (\<lambda>i. fetch_index uni md5 http c (hashes ! i)) arrival) NewArchiveSet None False"

section \<open>The client is safe\<close>

lemma safe_fetch_hosts [simp]: "safe (fetch_hosts http path rng hosts)"
  by (induction hosts) (auto split: reply.split)

lemma ascii_hex: "ascii (hex_encode bs)"
  using hex_encode_plain [of _ bs] by (auto simp: ascii_def list_all_iff plain_byte_def)

lemma safe_PathFor: "ascii hexHash \<Longrightarrow> safe (PathFor uni baseDir ctype hexHash)"
  by (auto simp: PathFor_def ToLower_def Let_def outcome_simps)

lemma safe_client_fetch: "ascii hexHash \<Longrightarrow> safe (client_fetch uni http c ctype hexHash off len)"
  by (auto simp: client_fetch_def outcome_simps safe_PathFor)

lemma safe_fetch_index: "safe (snd (fetch_index uni md5 http c h))"
proof -
  have "ascii (lit ''.index'')" by code_simp
  then have "ascii (hex_encode h @ lit ''.index'')" using ascii_hex [of h] by (simp add: ascii_def)
  then show ?thesis
    by (simp add: fetch_index_def safe_bnd client_Fetch_def safe_client_fetch ParseArchiveIndex_safe)
qed

lemma safe_merge_results: "\<forall>(h, r)\<in>set rs. safe r \<Longrightarrow> safe (merge_results rs s err some)"
  by (induction rs s err some rule: merge_results.induct) (auto split: outcome.splits option.splits)

lemma fetchAndMerge_safe: "safe (fetchAndMergeArchiveIndexes uni md5 http arrival c hashes)"
  using safe_fetch_index by (auto simp: fetchAndMergeArchiveIndexes_def fetch_index_def intro!: safe_merge_results)

section \<open>The order of arrival\<close>

definition indexes_of :: "(key \<times> ArchiveIndex outcome) list \<Rightarrow> (key \<times> ArchiveIndex) list" where
  "indexes_of rs = List.map_filter (\<lambda>(h, r). case r of Ret idx \<Rightarrow> Some (h, idx) | _ \<Rightarrow> None) rs"

definition archive_keys :: "ArchiveIndex \<Rightarrow> bytes set" where
  "archive_keys idx = (\<lambda>e. archiveKey (ae_EKey e)) ` set (ai_Entries idx)"

text \<open>The location an index gives a key it has.\<close>

definition located :: "bytes \<Rightarrow> key \<times> ArchiveIndex \<Rightarrow> ArchiveLocation option" where
  "located k = (\<lambda>(h, idx).
     map_option (\<lambda>e. \<lparr>al_ArchiveHashHex = hex_encode h, al_Offset = ae_Offset e,
         al_EncodedSize = ae_EncodedSize e\<rparr>)
       (find (\<lambda>e. archiveKey (ae_EKey e) = k) (ai_Entries idx)))"

lemma located_None: "located k (h, idx) = None \<longleftrightarrow> k \<notin> archive_keys idx"
  by (auto simp: located_def archive_keys_def find_None_iff)

lemma aset_Add_at: "aset_Add h idx s k = (case s k of Some loc \<Rightarrow> Some loc | None \<Rightarrow> located k (h, idx))"
  by (auto simp: aset_Add_def set_adds_keep set_adds_new located_def split: option.split)

definition add_indexes :: "(key \<times> ArchiveIndex) list \<Rightarrow> ArchiveSet \<Rightarrow> ArchiveSet" where
  "add_indexes ixs s = foldl (\<lambda>s (h, idx). aset_Add h idx s) s ixs"

text \<open>Two indexes with no key in common can be added in either order.\<close>

lemma aset_Add_swap:
  assumes "archive_keys idx1 \<inter> archive_keys idx2 = {}"
  shows "aset_Add h1 idx1 (aset_Add h2 idx2 s) = aset_Add h2 idx2 (aset_Add h1 idx1 s)"
proof
  fix k
  have "located k (h1, idx1) = None \<or> located k (h2, idx2) = None"
    using assms by (auto simp: located_None)
  then show "aset_Add h1 idx1 (aset_Add h2 idx2 s) k = aset_Add h2 idx2 (aset_Add h1 idx1 s) k"
    by (auto simp: aset_Add_at split: option.splits)
qed

definition apart :: "(key \<times> ArchiveIndex) list \<Rightarrow> bool" where
  "apart ixs \<longleftrightarrow> (\<forall>a\<in>set ixs. \<forall>b\<in>set ixs. a = b \<or> archive_keys (snd a) \<inter> archive_keys (snd b) = {})"

lemma add_indexes_perm:
  assumes "mset ixs = mset ixs'" "apart ixs"
  shows "add_indexes ixs s = add_indexes ixs' s"
proof -
  let ?f = "\<lambda>(h, idx). aset_Add h idx"
  have "fold ?f ixs = fold ?f ixs'"
  proof (rule fold_multiset_equiv)
    fix a b
    assume "a \<in> set ixs" "b \<in> set ixs"
    then have "a = b \<or> archive_keys (snd a) \<inter> archive_keys (snd b) = {}"
      using assms(2) unfolding apart_def by blast
    then have "?f a (?f b s) = ?f b (?f a s)" for s
      using aset_Add_swap [of "snd a" "snd b" "fst a" "fst b"] by (auto simp: case_prod_unfold)
    then show "?f a \<circ> ?f b = ?f b \<circ> ?f a" by (simp add: fun_eq_iff)
  qed (rule assms(1))
  then show ?thesis
    by (simp add: add_indexes_def foldl_conv_fold case_prod_unfold)
qed

lemma merge_results_iff:
  "merge_results rs s err some = Ret t \<longleftrightarrow>
     Panic \<notin> snd ` set rs \<and> t = add_indexes (indexes_of rs) s \<and>
     (some \<or> (\<exists>ix\<in>set (indexes_of rs). ai_Entries (snd ix) \<noteq> []) \<or>
      err = None \<and> (\<forall>e. Fail e \<notin> snd ` set rs))"
proof (induction rs s err some rule: merge_results.induct)
  case (1 s err some)
  then show ?case by (auto simp: indexes_of_def add_indexes_def split: option.splits)
next
  case (2 h r rs s err some)
  show ?case
  proof (cases r)
    case (Ret idx)
    then have "indexes_of ((h, r) # rs) = (h, idx) # indexes_of rs" by (simp add: indexes_of_def)
    then show ?thesis using 2(1) [OF Ret] Ret by (auto simp: add_indexes_def)
  next
    case (Fail e)
    then have "indexes_of ((h, r) # rs) = indexes_of rs" by (simp add: indexes_of_def)
    then show ?thesis using 2(2) [OF Fail] Fail by (auto split: if_splits)
  qed simp
qed

lemma mset_indexes_of: "mset rs = mset rs' \<Longrightarrow> mset (indexes_of rs) = mset (indexes_of rs')"
  by (simp add: indexes_of_def List.map_filter_def mset_filter)

text \<open>
  C39. The set merged from concurrently downloaded archive indexes does not depend on the order
  in which the downloads finish, when no two different archives share a trimmed key.
\<close>

theorem fetch_merge_any_order:
  assumes "mset arrival = mset arrival'"
    and "apart (indexes_of (map (\<lambda>i. fetch_index uni md5 http c (hashes ! i)) arrival))"
    and "fetchAndMergeArchiveIndexes uni md5 http arrival c hashes = Ret s"
  shows "fetchAndMergeArchiveIndexes uni md5 http arrival' c hashes = Ret s"
proof -
  let ?rs = "\<lambda>is. map (\<lambda>i. fetch_index uni md5 http c (hashes ! i)) is"
  have perm: "mset (?rs arrival) = mset (?rs arrival')" using assms(1) by simp
  then have "set (?rs arrival) = set (?rs arrival')" "mset (indexes_of (?rs arrival)) = mset (indexes_of (?rs arrival'))"
    by (rule mset_eq_setD, rule mset_indexes_of)
  then show ?thesis
    using assms(2,3) add_indexes_perm [of "indexes_of (?rs arrival)" "indexes_of (?rs arrival')"]
      mset_eq_setD [of "indexes_of (?rs arrival)" "indexes_of (?rs arrival')"]
    by (simp add: fetchAndMergeArchiveIndexes_def merge_results_iff)
qed

text \<open>A network that has the index of one archive and nothing else.\<close>

definition one_blob :: "bytes \<Rightarrow> bytes \<Rightarrow> http" where
  "one_blob url data = (\<lambda>u _. if u = url then Reply 200 data else NoReply)"

theorem fetch_merge_any_order_witness:
  "\<exists>data idx. ai_Entries idx = [\<lparr>ae_EKey = replicate 16 1, ae_Offset = 7, ae_EncodedSize = 9\<rparr>] \<and>
     fetchAndMergeArchiveIndexes id (fit 16)
       (one_blob (lit ''http://h/b/data/00/00/00000000000000000000000000000000.index'') data) [1, 0]
       (NewClient [lit ''h''] (lit ''b'')) [zero_key, replicate 16 1] = Ret (aset_Add zero_key idx NewArchiveSet)"
proof -
  let ?e = "\<lparr>ae_EKey = replicate 16 1, ae_Offset = 7, ae_EncodedSize = 9\<rparr>"
  let ?url = "lit ''http://h/b/data/00/00/00000000000000000000000000000000.index''"
  have ok: "footer_ok sample_footer" by (simp add: footer_ok_def sample_footer_def word_le_nat_alt)
  then obtain data where e: "EncodeArchiveIndex (fit 16) sample_footer [?e] = Ret data"
    using EncodeArchiveIndex_total [of sample_footer "[?e]"] by auto
  have "\<exists>idx. ParseArchiveIndex (fit 16) data = Ret idx \<and>
      ai_Entries idx = map (read_item (unat (af_EKeyLength sample_footer))) [?e]"
    by (rule archive_index_readback [OF e ok])
      (simp_all add: aitem_ok_def sample_footer_def zero_key_def MD5HashSize_def replicate_eq_replicate)
  then obtain idx where idx: "ParseArchiveIndex (fit 16) data = Ret idx" "ai_Entries idx = [?e]"
    by (auto simp: read_item_def sample_footer_def)
  let ?fetch = "fetch_index id (fit 16) (one_blob ?url data) (NewClient [lit ''h''] (lit ''b''))"
  have p: "PathFor id (lit ''b'') (lit ''data'') (hex_encode zero_key @ lit ''.index'') =
      Ret (lit ''b/data/00/00/00000000000000000000000000000000.index'')"
    "PathFor id (lit ''b'') (lit ''data'') (hex_encode (replicate 16 1) @ lit ''.index'') =
      Ret (lit ''b/data/01/01/01010101010101010101010101010101.index'')"
    "lit ''http://'' @ lit ''h'' @ [0x2F] @ lit ''b/data/00/00/00000000000000000000000000000000.index'' = ?url"
    "lit ''http://'' @ lit ''h'' @ [0x2F] @ lit ''b/data/01/01/01010101010101010101010101010101.index'' \<noteq> ?url"
    "lit ''b/data/00/00/00000000000000000000000000000000.index'' \<noteq> []"
    "lit ''b/data/01/01/01010101010101010101010101010101.index'' \<noteq> []"
    by code_simp+
  have f: "?fetch zero_key = (zero_key, Ret idx)" "?fetch (replicate 16 1) = (replicate 16 1, Fail ErrOther)"
    using idx(1)
    by (simp_all only: fetch_index_def client_Fetch_def client_fetch_def NewClient_def p one_blob_def
        Client.simps bnd.simps fetch_hosts.simps guard_def reply.case if_True if_False simp_thms list.simps)
  have "fetchAndMergeArchiveIndexes id (fit 16) (one_blob ?url data) [1, 0] (NewClient [lit ''h''] (lit ''b''))
      [zero_key, replicate 16 1] = Ret (aset_Add zero_key idx NewArchiveSet)"
  proof (rule fetch_merge_any_order)
    show "mset [0, 1] = mset [1, 0 :: nat]" by simp
    show "apart (indexes_of (map (\<lambda>i. ?fetch ([zero_key, replicate 16 1] ! i)) [0, 1]))"
      by (simp add: f apart_def indexes_of_def)
    show "fetchAndMergeArchiveIndexes id (fit 16) (one_blob ?url data) [0, 1] (NewClient [lit ''h''] (lit ''b''))
      [zero_key, replicate 16 1] = Ret (aset_Add zero_key idx NewArchiveSet)"
      by (simp add: fetchAndMergeArchiveIndexes_def f idx(2))
  qed
  then show ?thesis using idx(2) by blast
qed

end
