(* ===== verification/GoGlob.thy ===== *)
theory GoGlob
  imports GoText
begin

text \<open>
  \<^verbatim>\<open>path/filepath.Match\<close> and \<^verbatim>\<open>filepath.Glob\<close> of the standard library, as they are on Unix: the whole
  path is a pattern, so a directory with a metacharacter in its name is not itself. Shown here: a
  directory without metacharacters is listed as it is.
\<close>

section \<open>Runes\<close>

text \<open>\<^verbatim>\<open>utf8.DecodeRuneInString\<close>: the code point and its width; malformed bytes are U+FFFD of width 1.\<close>

definition cont_in :: "u8 \<Rightarrow> u8 \<Rightarrow> u8 \<Rightarrow> bool" where
  "cont_in lo hi c \<longleftrightarrow> lo \<le> c \<and> c \<le> hi"

definition low6 :: "u8 \<Rightarrow> nat" where
  "low6 c = unat c - 0x80"

definition DecodeRune :: "bytes \<Rightarrow> nat \<times> nat" where
  "DecodeRune s =
     (case s of
        [] \<Rightarrow> (0xFFFD, 0)
      | b # r \<Rightarrow>
          if b < 0x80 then (unat b, 1)
          else if cont_in 0xC2 0xDF b then
            (case r of
               c # _ \<Rightarrow> if cont_in 0x80 0xBF c then ((unat b - 0xC0) * 64 + low6 c, 2) else (0xFFFD, 1)
             | _ \<Rightarrow> (0xFFFD, 1))
          else if cont_in 0xE0 0xEF b then
            (case r of
               c # d # _ \<Rightarrow>
                 if cont_in (if b = 0xE0 then 0xA0 else 0x80) (if b = 0xED then 0x9F else 0xBF) c \<and> cont_in 0x80 0xBF d
                 then ((unat b - 0xE0) * 4096 + low6 c * 64 + low6 d, 3) else (0xFFFD, 1)
             | _ \<Rightarrow> (0xFFFD, 1))
          else if cont_in 0xF0 0xF4 b then
            (case r of
               c # d # e # _ \<Rightarrow>
                 if cont_in (if b = 0xF0 then 0x90 else 0x80) (if b = 0xF4 then 0x8F else 0xBF) c \<and>
                    cont_in 0x80 0xBF d \<and> cont_in 0x80 0xBF e
                 then ((unat b - 0xF0) * 262144 + low6 c * 4096 + low6 d * 64 + low6 e, 4) else (0xFFFD, 1)
             | _ \<Rightarrow> (0xFFFD, 1))
          else (0xFFFD, 1))"

lemma DecodeRune_width: "s \<noteq> [] \<Longrightarrow> 1 \<le> snd (DecodeRune s)"
  by (auto simp: DecodeRune_def split: list.split)

section \<open>Match\<close>

text \<open>The results: \<open>None\<close> is \<^verbatim>\<open>ErrBadPattern\<close>.\<close>

definition getEsc :: "bytes \<Rightarrow> (nat \<times> bytes) option" where
  "getEsc chunk =
     (case chunk of
        [] \<Rightarrow> None
      | c # r \<Rightarrow>
          if c = 0x2D \<or> c = 0x5D then None
          else
            let body = (if c = 0x5C then r else chunk) in
            if body = [] then None
            else
              let (x, n) = DecodeRune body; rest = drop n body in
              if x = 0xFFFD \<and> n = 1 \<or> rest = [] then None else Some (x, rest))"

lemma getEsc_shrinks: "getEsc chunk = Some (x, rest) \<Longrightarrow> length rest < length chunk"
  using DecodeRune_width [of chunk] DecodeRune_width [of "tl chunk"]
  by (cases chunk) (auto simp: getEsc_def Let_def split: if_splits prod.splits)

text \<open>The ranges of a character class, up to its closing bracket.\<close>

function match_class :: "nat \<Rightarrow> bool \<Rightarrow> nat \<Rightarrow> bytes \<Rightarrow> (bool \<times> bytes) option" where
  "match_class r m nrange chunk =
     (if chunk \<noteq> [] \<and> hd chunk = 0x5D \<and> 0 < nrange then Some (m, tl chunk)
      else
        case getEsc chunk of
          None \<Rightarrow> None
        | Some (lo, c1) \<Rightarrow>
            (case (if hd c1 = 0x2D then getEsc (tl c1) else Some (lo, c1)) of
               None \<Rightarrow> None
             | Some (hi, c2) \<Rightarrow> match_class r (m \<or> lo \<le> r \<and> r \<le> hi) (nrange + 1) c2))"
  by pat_completeness auto
termination
  by (relation "measure (\<lambda>(r, m, nrange, chunk). length chunk)")
    (auto dest!: getEsc_shrinks split: if_splits)

declare match_class.simps [simp del]

lemma match_class_shrinks: "match_class r m nrange chunk = Some (b, rest) \<Longrightarrow> length rest < length chunk"
proof (induction r m nrange chunk rule: match_class.induct)
  case (1 r m nrange chunk)
  show ?case
  proof (cases "chunk \<noteq> [] \<and> hd chunk = 0x5D \<and> 0 < nrange")
    case True
    then show ?thesis using "1.prems" by (subst (asm) match_class.simps) auto
  next
    case False
    then obtain lo c1 hi c2 where e: "getEsc chunk = Some (lo, c1)"
      "(if hd c1 = 0x2D then getEsc (tl c1) else Some (lo, c1)) = Some (hi, c2)"
      "match_class r (m \<or> lo \<le> r \<and> r \<le> hi) (nrange + 1) c2 = Some (b, rest)"
      using "1.prems" by (subst (asm) match_class.simps) (auto split: option.splits if_splits)
    have "length rest < length c2" by (rule "1.IH" [OF False e(1) refl e(2) refl e(3)])
    moreover have "length c2 \<le> length c1" using e(2) by (auto dest!: getEsc_shrinks split: if_splits)
    ultimately show ?thesis using getEsc_shrinks [OF e(1)] by linarith
  qed
qed

text \<open>
  \<^verbatim>\<open>matchChunk\<close>: \<open>Some (Some rest)\<close> is a match, \<open>Some None\<close> none. Once the match has failed the chunk is
  only checked for its syntax.
\<close>

function matchChunk :: "bytes \<Rightarrow> bytes \<Rightarrow> bool \<Rightarrow> bytes option option" where
  "matchChunk chunk s failed0 =
     (if chunk = [] then Some (if failed0 then None else Some s)
      else
        let failed = failed0 \<or> s = []; c = hd chunk in
        if c = 0x5B then
          let (r, n) = (if failed then (0, 0) else DecodeRune s);
              negated = (tl chunk \<noteq> [] \<and> hd (tl chunk) = 0x5E);
              body = (if negated then tl (tl chunk) else tl chunk) in
          case match_class r False 0 body of
            None \<Rightarrow> None
          | Some (m, rest) \<Rightarrow> matchChunk rest (drop n s) (failed \<or> m = negated)
        else if c = 0x3F then
          (if failed then matchChunk (tl chunk) s True
           else matchChunk (tl chunk) (drop (snd (DecodeRune s)) s) (hd s = 0x2F))
        else
          let lit_part = (if c = 0x5C then tl chunk else chunk) in
          if lit_part = [] then None
          else matchChunk (tl lit_part) (if failed then s else tl s) (failed \<or> hd lit_part \<noteq> hd s))"
  by pat_completeness auto
termination
proof (relation "measure (\<lambda>(chunk, s, failed0). length chunk)", goal_cases)
  case (2 chunk s failed0 failed c x r n negated body a m rest)
  then have "length rest < length body" by (auto dest: match_class_shrinks)
  moreover have "length body \<le> length chunk" using 2 by simp
  ultimately show ?case by simp
next
  case (5 chunk s failed0 failed c lit_part)
  then have "length (tl lit_part) < length chunk" by (cases chunk) (auto simp: less_Suc_eq_le)
  then show ?case by simp
qed auto

declare matchChunk.simps [simp del]

fun scan_to :: "bool \<Rightarrow> bytes \<Rightarrow> bytes \<times> bytes" where
  "scan_to inrange [] = ([], [])"
| "scan_to inrange [c] = (if c = 0x2A \<and> \<not> inrange then ([], [c]) else ([c], []))"
| "scan_to inrange (c # d # r) =
     (if c = 0x5C then (let (a, b) = scan_to inrange r in (c # d # a, b))
      else if c = 0x2A \<and> \<not> inrange then ([], c # d # r)
      else
        let (a, b) = scan_to (if c = 0x5B then True else if c = 0x5D then False else inrange) (d # r) in (c # a, b))"

definition scanChunk :: "bytes \<Rightarrow> bool \<times> bytes \<times> bytes" where
  "scanChunk pattern =
     (let p = dropWhile (\<lambda>c. c = 0x2A) pattern; (chunk, rest) = scan_to False p in
      (pattern \<noteq> [] \<and> hd pattern = 0x2A, chunk, rest))"

lemma scan_to_append: "scan_to inrange p = (a, b) \<Longrightarrow> p = a @ b"
  by (induction inrange p arbitrary: a rule: scan_to.induct) (auto simp: Let_def split: if_splits prod.splits)

lemma scan_to_some: "scan_to inrange (c # r) = (a, b) \<Longrightarrow> c \<noteq> 0x2A \<Longrightarrow> a \<noteq> []"
  by (cases r) (auto simp: Let_def split: if_splits prod.splits)

lemma scanChunk_rest:
  assumes "scanChunk pattern = (star, chunk, rest)" "pattern \<noteq> []"
  shows "length rest < length pattern"
proof -
  obtain c r where p: "pattern = c # r" using assms(2) by (cases pattern) auto
  have s: "scan_to False (dropWhile (\<lambda>c. c = 0x2A) pattern) = (chunk, rest)"
    using assms(1) by (auto simp: scanChunk_def Let_def split: prod.splits)
  have le: "length rest \<le> length (dropWhile (\<lambda>c. c = 0x2A) pattern)" using scan_to_append [OF s] by simp
  show ?thesis
  proof (cases "c = 0x2A")
    case True
    then show ?thesis using le length_dropWhile_le [of "\<lambda>c. c = 0x2A" r] by (simp add: p)
  next
    case False
    then show ?thesis using s scan_to_append [OF s] scan_to_some [of False c r] by (auto simp: p)
  qed
qed

text \<open>The loop that lets a star take one byte after the other.\<close>

fun star_loop :: "bool \<Rightarrow> bytes \<Rightarrow> bytes \<Rightarrow> bytes option option" where
  "star_loop is_last chunk [] = Some None"
| "star_loop is_last chunk (c # cs) =
     (if c = 0x2F then Some None
      else
        case matchChunk chunk cs False of
          None \<Rightarrow> None
        | Some None \<Rightarrow> star_loop is_last chunk cs
        | Some (Some t) \<Rightarrow> if is_last \<and> t \<noteq> [] then star_loop is_last chunk cs else Some (Some t))"

text \<open>The check of what is left of the pattern after a mismatch.\<close>

function syntax_ok :: "bytes \<Rightarrow> bool" where
  "syntax_ok pattern =
     (if pattern = [] then True
      else
        case scanChunk pattern of (star, chunk, rest) \<Rightarrow>
          matchChunk chunk [] False \<noteq> None \<and> syntax_ok rest)"
  by pat_completeness auto
termination
  by (relation "measure length") (auto dest!: scanChunk_rest [OF sym])

declare syntax_ok.simps [simp del]

function Match :: "bytes \<Rightarrow> bytes \<Rightarrow> bool option" where
  "Match pattern name =
     (if pattern = [] then Some (name = [])
      else
        case scanChunk pattern of (star, chunk, rest) \<Rightarrow>
          if star \<and> chunk = [] then Some (0x2F \<notin> set name)
          else
            case matchChunk chunk name False of
              None \<Rightarrow> None
            | Some r \<Rightarrow>
                if (case r of Some t \<Rightarrow> t = [] \<or> rest \<noteq> [] | None \<Rightarrow> False) then Match rest (the r)
                else if star then
                  (case star_loop (rest = []) chunk name of
                     None \<Rightarrow> None
                   | Some (Some t) \<Rightarrow> Match rest t
                   | Some None \<Rightarrow> if syntax_ok rest then Some False else None)
                else if syntax_ok rest then Some False else None)"
  by pat_completeness auto
termination
  by (relation "measure (\<lambda>(pattern, name). length pattern)") (auto dest!: scanChunk_rest [OF sym])

declare Match.simps [simp del]

section \<open>Glob\<close>

text \<open>
  A path is the list of its elements below the root. The file system is given by \<^verbatim>\<open>os.Lstat\<close>, \<^verbatim>\<open>os.Stat\<close>
  (is there a directory?) and \<^verbatim>\<open>Readdirnames\<close>. A directory that has no metacharacter is looked up, and from
  the first element that has one on the elements are matched against the listings. The pattern up to each
  such element has to be well-formed by itself. (Go also gives up after 10,000 nested elements, which no
  operating system's path has.)
\<close>

definition hasMeta :: "bytes \<Rightarrow> bool" where
  "hasMeta s \<longleftrightarrow> list_ex (\<lambda>c. c = 0x2A \<or> c = 0x3F \<or> c = 0x5B \<or> c = 0x5C) s"

definition path_text :: "bytes list \<Rightarrow> bytes" where
  "path_text p = (if p = [] then [0x2F] else concat (map (\<lambda>c. 0x2F # c) p))"

fun matching :: "bytes \<Rightarrow> bytes list \<Rightarrow> bytes list option" where
  "matching pattern [] = Some []"
| "matching pattern (n # ns) =
     (case Match pattern n of
        None \<Rightarrow> None
      | Some b \<Rightarrow> map_option (\<lambda>ms. if b then n # ms else ms) (matching pattern ns))"

definition glob_dir :: "(bytes list \<Rightarrow> bool) \<Rightarrow> (bytes list \<Rightarrow> bytes list) \<Rightarrow> bytes list \<Rightarrow> bytes \<Rightarrow> bytes list list option" where
  "glob_dir is_dir names d pattern =
     (if is_dir d then map_option (map (\<lambda>n. d @ [n])) (matching pattern (names d)) else Some [])"

fun glob_dirs ::
  "(bytes list \<Rightarrow> bool) \<Rightarrow> (bytes list \<Rightarrow> bytes list) \<Rightarrow> bytes list list \<Rightarrow> bytes \<Rightarrow> bytes list list option" where
  "glob_dirs is_dir names [] pattern = Some []"
| "glob_dirs is_dir names (d # ds) pattern =
     (case glob_dir is_dir names d pattern of
        None \<Rightarrow> None
      | Some ms \<Rightarrow> map_option (\<lambda>ms'. ms @ ms') (glob_dirs is_dir names ds pattern))"

function Glob ::
  "(bytes list \<Rightarrow> bool) \<Rightarrow> (bytes list \<Rightarrow> bool) \<Rightarrow> (bytes list \<Rightarrow> bytes list) \<Rightarrow> bytes list \<Rightarrow> bytes list list option" where
  "Glob exists is_dir names p =
     (if Match (path_text p) [] = None then None
      else if \<not> hasMeta (path_text p) \<or> p = [] then Some (if exists p then [p] else [])
      else if \<not> hasMeta (path_text (butlast p)) then glob_dir is_dir names (butlast p) (last p)
      else
        case Glob exists is_dir names (butlast p) of
          None \<Rightarrow> None
        | Some ds \<Rightarrow> glob_dirs is_dir names ds (last p))"
  by pat_completeness auto
termination
  by (relation "measure (\<lambda>(exists, is_dir, names, p). length p)") auto

declare Glob.simps [simp del]

section \<open>Directories without metacharacters\<close>

definition plain_path :: "bytes list \<Rightarrow> bool" where
  "plain_path p \<longleftrightarrow> (\<forall>c\<in>set p. \<not> hasMeta c)"

lemma hasMeta_simps [simp]:
  "\<not> hasMeta []" "hasMeta (c # s) \<longleftrightarrow> (c = 0x2A \<or> c = 0x3F \<or> c = 0x5B \<or> c = 0x5C) \<or> hasMeta s"
  "hasMeta (s @ t) \<longleftrightarrow> hasMeta s \<or> hasMeta t"
  by (simp_all add: hasMeta_def)

lemma hasMeta_path_text: "hasMeta (path_text p) \<longleftrightarrow> \<not> plain_path p"
proof -
  have "hasMeta (concat (map (\<lambda>c. 0x2F # c) p)) \<longleftrightarrow> \<not> plain_path p"
    by (induction p) (auto simp: plain_path_def)
  then show ?thesis by (auto simp: path_text_def plain_path_def)
qed

text \<open>Literal bytes pass through the scanner and the matcher one by one.\<close>

lemma scan_to_plain: "c \<noteq> 0x2A \<Longrightarrow> c \<noteq> 0x5B \<Longrightarrow> c \<noteq> 0x5C \<Longrightarrow> scan_to False (c # r) = map_prod ((#) c) id (scan_to False r)"
  by (cases r) (simp_all split: prod.split)

lemma scan_to_literal: "\<not> hasMeta u \<Longrightarrow> scan_to False (u @ q) = map_prod ((@) u) id (scan_to False q)"
  by (cases "scan_to False q"; induction u) (simp_all add: scan_to_plain)

lemma matchChunk_Nil [simp]: "matchChunk [] s failed = Some (if failed then None else Some s)"
  by (simp add: matchChunk.simps)

lemma matchChunk_plain:
  "c \<noteq> 0x3F \<Longrightarrow> c \<noteq> 0x5B \<Longrightarrow> c \<noteq> 0x5C \<Longrightarrow>
   matchChunk (c # r) s failed = (if failed \<or> s = [] \<or> c \<noteq> hd s then matchChunk r (if failed then s else tl s) True else matchChunk r (tl s) False)"
  by (subst matchChunk.simps) (auto simp: Let_def)

lemma matchChunk_failed: "matchChunk chunk s True = matchChunk chunk [] True"
proof -
  have "failed \<Longrightarrow> matchChunk chunk s failed = matchChunk chunk [] True" for failed
  proof (induction chunk s failed rule: matchChunk.induct)
    case (1 chunk s failed0)
    then show ?case
      by (subst (1 2) matchChunk.simps) (auto simp: Let_def split: option.split)
  qed
  then show ?thesis by simp
qed

lemma matchChunk_failed_literal: "\<not> hasMeta u \<Longrightarrow> matchChunk (u @ q) s True = matchChunk q [] True"
proof (induction u)
  case Nil
  then show ?case using matchChunk_failed [of q s] by simp
qed (simp add: matchChunk_plain)

lemma matchChunk_literal:
  "\<not> hasMeta u \<Longrightarrow> matchChunk (u @ q) s False =
     (if take (length u) s = u then matchChunk q (drop (length u) s) False else matchChunk q [] True)"
proof (induction u arbitrary: s)
  case (Cons c u)
  then show ?case by (cases s) (auto simp: matchChunk_plain matchChunk_failed_literal)
qed simp

text \<open>The class of the digits.\<close>

definition digit_class :: bytes where
  "digit_class = lit ''[0-9]''"

definition is_digit :: "u8 \<Rightarrow> bool" where
  "is_digit c \<longleftrightarrow> 0x30 \<le> c \<and> c \<le> 0x39"

lemma getEsc_ascii: "c < 0x80 \<Longrightarrow> c \<noteq> 0x2D \<Longrightarrow> c \<noteq> 0x5D \<Longrightarrow> c \<noteq> 0x5C \<Longrightarrow> getEsc (c # d # r) = Some (unat c, d # r)"
  by (auto simp: getEsc_def DecodeRune_def word_less_nat_alt)

lemma match_class_digits: "match_class r False 0 (0x30 # 0x2D # 0x39 # 0x5D # q) = Some (0x30 \<le> r \<and> r \<le> 0x39, q)"
  by (simp add: match_class.simps [of r False] match_class.simps [of r "48 \<le> r \<and> r \<le> 57"] getEsc_ascii)

lemma DecodeRune_digit:
  assumes "DecodeRune (c # s) = (x, n)"
  shows "0x30 \<le> x \<and> x \<le> 0x39 \<longleftrightarrow> is_digit c" "is_digit c \<Longrightarrow> n = 1"
proof -
  have "0x80 \<le> x" if "\<not> c < 0x80"
    using assms that
    by (auto simp: DecodeRune_def cont_in_def low6_def word_less_nat_alt word_le_nat_alt
        word_unat_eq_iff split: list.splits if_splits)
  moreover have "x = unat c \<and> n = 1" if "c < 0x80" using assms that by (simp add: DecodeRune_def)
  ultimately show "0x30 \<le> x \<and> x \<le> 0x39 \<longleftrightarrow> is_digit c" "is_digit c \<Longrightarrow> n = 1"
    by (cases "c < 0x80"; force simp: is_digit_def word_le_nat_alt word_less_nat_alt)+
qed

lemma matchChunk_digits:
  "matchChunk (digit_class @ q) s failed =
     (if failed \<or> s = [] then matchChunk q s True
      else if is_digit (hd s) then matchChunk q (tl s) False
      else matchChunk q (drop (snd (DecodeRune s)) s) True)"
proof (cases "failed \<or> s = []")
  case True
  then show ?thesis by (subst matchChunk.simps) (auto simp: digit_class_def lit_def match_class_digits)
next
  case False
  then obtain c r where s: "s = c # r" by (cases s) auto
  obtain x n where x: "DecodeRune s = (x, n)" by fastforce
  show ?thesis
    using False DecodeRune_digit [of c r x n] x
    by (subst matchChunk.simps) (auto simp: digit_class_def lit_def match_class_digits s)
qed

text \<open>The pattern of the segments.\<close>

definition segment_pattern :: bytes where
  "segment_pattern = lit ''data.[0-9][0-9][0-9]''"

definition segment_name :: "bytes \<Rightarrow> bool" where
  "segment_name n \<longleftrightarrow> take 5 n = lit ''data.'' \<and> length n = 8 \<and> list_all is_digit (drop 5 n)"

lemma segment_pattern_parts: "segment_pattern = lit ''data.'' @ digit_class @ digit_class @ digit_class"
  by (simp add: segment_pattern_def digit_class_def lit_def)

lemma data_plain: "\<not> hasMeta (lit ''data.'')" "length (lit ''data.'') = 5"
  by (simp_all add: lit_def)

lemma scan_segment_pattern: "\<not> hasMeta u \<Longrightarrow> scan_to False (u @ segment_pattern) = (u @ segment_pattern, [])"
  by (simp add: scan_to_literal) (simp add: segment_pattern_def lit_def)

lemma match_digits:
  "matchChunk (digit_class @ digit_class @ digit_class) s False =
     Some (if 3 \<le> length s \<and> list_all is_digit (take 3 s) then Some (drop 3 s) else None)"
proof -
  have "matchChunk digit_class s f = matchChunk (digit_class @ []) s f" for s f by simp
  note last = this [unfolded matchChunk_digits]
  have t: "3 \<le> length s \<longleftrightarrow> s \<noteq> [] \<and> tl s \<noteq> [] \<and> tl (tl s) \<noteq> []"
    by (cases s; cases "tl s"; cases "tl (tl s)") auto
  show ?thesis
    by (cases s; cases "tl s"; cases "tl (tl s)") (auto simp: matchChunk_digits last numeral_3_eq_3)
qed

text \<open>No name makes the pattern malformed, and it matches the names of the segments.\<close>

lemma match_failed_digits: "matchChunk (digit_class @ digit_class @ digit_class) [] True = Some None"
  using matchChunk_digits [of "[]" "[]" True] by (simp add: matchChunk_digits)

lemma Match_segment: "Match segment_pattern n = Some (segment_name n)"
proof -
  have star: "scanChunk segment_pattern = (False, segment_pattern, [])"
    using scan_segment_pattern [of "[]"] by (simp add: scanChunk_def segment_pattern_def lit_def)
  have ne: "segment_pattern \<noteq> []" by (simp add: segment_pattern_def lit_def)
  have m: "matchChunk segment_pattern n False =
      Some (if take 5 n = lit ''data.'' \<and> 8 \<le> length n \<and> list_all is_digit (take 3 (drop 5 n)) then Some (drop 8 n) else None)"
    unfolding segment_pattern_parts matchChunk_literal [OF data_plain(1)] data_plain(2)
    by (auto simp: match_digits match_failed_digits)
  show ?thesis
  proof (cases "take 5 n = lit ''data.'' \<and> 8 \<le> length n \<and> list_all is_digit (take 3 (drop 5 n))")
    case True
    then have "segment_name n \<longleftrightarrow> drop 8 n = []" by (auto simp: segment_name_def)
    then show ?thesis
      using m True by (subst Match.simps) (simp add: star ne Match.simps [of "[]"] syntax_ok.simps [of "[]"])
  next
    case False
    then have "\<not> segment_name n" by (auto simp: segment_name_def)
    moreover have "matchChunk segment_pattern n False = Some None" using m False by simp
    ultimately show ?thesis by (subst Match.simps) (simp add: star ne syntax_ok.simps [of "[]"])
  qed
qed

lemma matching_segments: "matching segment_pattern ns = Some (filter segment_name ns)"
  by (induction ns) (simp_all add: Match_segment)

lemma Match_under_plain:
  assumes "\<not> hasMeta u"
  shows "Match (u @ segment_pattern) [] \<noteq> None"
proof (cases "u = []")
  case True
  then show ?thesis by (simp add: Match_segment)
next
  case False
  have "hd (u @ segment_pattern) \<noteq> 0x2A" "dropWhile (\<lambda>c. c = 0x2A) (u @ segment_pattern) = u @ segment_pattern"
    using False assms by (cases u; simp)+
  then have "scanChunk (u @ segment_pattern) = (False, u @ segment_pattern, [])"
    using scan_segment_pattern [OF assms] by (simp add: scanChunk_def)
  moreover have "matchChunk (u @ segment_pattern) [] False = Some None"
    using matchChunk_literal [OF assms, of segment_pattern "[]"] False
      matchChunk_failed_literal [OF data_plain(1), of "digit_class @ digit_class @ digit_class" "[]"]
    by (simp add: segment_pattern_parts match_failed_digits)
  ultimately show ?thesis using False by (subst Match.simps) (simp add: syntax_ok.simps [of "[]"])
qed

text \<open>In a directory without metacharacters the segments are found by their names.\<close>

lemma Glob_plain:
  assumes "plain_path d"
  shows "Glob exists is_dir names (d @ [segment_pattern]) =
    Some (if is_dir d then map (\<lambda>n. d @ [n]) (filter segment_name (names d)) else [])"
proof -
  let ?u = "concat (map (\<lambda>c. 0x2F # c) d) @ [0x2F]"
  have t: "path_text (d @ [segment_pattern]) = ?u @ segment_pattern" by (simp add: path_text_def)
  have "\<not> hasMeta ?u" using assms by (induction d) (auto simp: plain_path_def)
  then have "Match (path_text (d @ [segment_pattern])) [] \<noteq> None" unfolding t by (rule Match_under_plain)
  moreover have "\<not> plain_path (d @ [segment_pattern])"
    by (simp add: plain_path_def segment_pattern_def lit_def)
  ultimately show ?thesis
    using assms by (subst Glob.simps) (simp add: hasMeta_path_text glob_dir_def matching_segments)
qed

text \<open>Below a pattern that matches nothing there is nothing.\<close>

definition no_match :: "bytes list list option \<Rightarrow> bool" where
  "no_match r \<longleftrightarrow> r = None \<or> r = Some []"

lemma Glob_below:
  assumes "\<not> plain_path p" "no_match (Glob exists is_dir names p)"
  shows "no_match (Glob exists is_dir names (p @ qs))"
proof (induction qs rule: rev_induct)
  case (snoc n qs)
  have "\<not> plain_path (p @ qs)" "\<not> plain_path (p @ qs @ [n])" using assms(1) by (auto simp: plain_path_def)
  moreover have "butlast (p @ qs @ [n]) = p @ qs" using butlast_append [of "p @ qs" "[n]"] by simp
  ultimately show ?case
    using snoc by (subst Glob.simps) (auto simp: hasMeta_path_text no_match_def butlast_append)
qed (use assms(2) in simp)

end
