(* ===== verification/CascStorage.thy ===== *)
theory CascStorage
  imports ArchiveStore Roots BuildCfg IndexFile Encoding CdnClient Listfile GoGlob
begin

text \<open>
  \<^verbatim>\<open>internal/storage\<close>: the mounted storage, from \<^verbatim>\<open>Open\<close> over the lookup of an encoded key in the
  local indexes to the CDN fallback with its cache. The operating system is an explicit \<open>fsys\<close>, the
  network and the run time are arguments.
\<close>

section \<open>Files and paths\<close>

text \<open>
  A path is the list of the names below the root directory. \<^verbatim>\<open>filepath.Join\<close> splits its arguments at
  slashes and resolves dots; paths here are absolute, as the storage directory is taken to be. A
  directory the caller names is a string, \<^verbatim>\<open>filepath.Dir\<close> of which depends on its spelling: a trailing
  slash keeps the last name.
\<close>

type_synonym path = "bytes list"

definition path_step :: "path \<Rightarrow> bytes \<Rightarrow> path" where
  "path_step p name =
     (if name = [] \<or> name = lit ''.'' then p
      else if name = lit ''..'' then butlast p
      else p @ [name])"

definition Join :: "path \<Rightarrow> bytes list \<Rightarrow> path" where
  "Join p parts = foldl path_step p (concat (map (\<lambda>s. splitLine s 0x2F) parts))"

definition Clean :: "bytes \<Rightarrow> path" where
  "Clean dir = Join [] [dir]"

definition Dir :: "bytes \<Rightarrow> path" where
  "Dir dir = foldl path_step [] (butlast (splitLine dir 0x2F))"

text \<open>
  What opening a file gives: it does not exist, cannot be opened, opens but cannot be read, or has
  a content. The data.NNN segments of a directory are kept apart, as the disk the archive layer
  works on; \<open>fs_list\<close> is the sorted listing of the other names, with a flag for directories.
\<close>

datatype fnode = NoFile | NoOpen | NoRead | Content bytes

record fsys =
  fs_stat :: "path \<Rightarrow> bool option"
  fs_list :: "path \<Rightarrow> (bytes \<times> bool) list option"
  fs_file :: "path \<Rightarrow> fnode"
  fs_segs :: "path \<Rightarrow> disk"

definition read_file :: "fsys \<Rightarrow> path \<Rightarrow> bytes outcome" where
  "read_file fs p = (case fs_file fs p of Content b \<Rightarrow> Ret b | _ \<Rightarrow> Fail ErrOther)"

text \<open>\<^verbatim>\<open>x, err := f()\<close> where an error only means that \<open>x\<close> is not used.\<close>

definition attempt :: "'a outcome \<Rightarrow> 'a option outcome" where
  "attempt r = (case r of Ret x \<Rightarrow> Ret (Some x) | Fail _ \<Rightarrow> Ret None | Panic \<Rightarrow> Panic)"

lemma attempt_simps [simp]:
  "attempt (Ret x) = Ret (Some x)" "attempt (Fail e) = Ret None" "attempt Panic = Panic"
  by (simp_all add: attempt_def)

lemma safe_attempt [simp]: "safe (attempt r) \<longleftrightarrow> safe r"
  by (cases r) simp_all

section \<open>The state\<close>

text \<open>\<open>None\<close> for \<open>so_CacheDir\<close> is the empty string; the listfile is the text its reader delivers.\<close>

record Options =
  so_LocaleMask :: u32
  so_ListfileReader :: "bytes option"
  so_Online :: bool
  so_CacheDir :: "path option"
  so_OvercomeEncrypted :: bool

record Storage =
  st_Path :: path
  st_BuildInfo :: "csv_File option"
  st_Indexes :: "IndexFile list"
  st_Encoding :: "enc_File option"
  st_Root :: "Handler option"
  st_Listfile :: "List option"
  st_Keys :: KeyRegistry
  st_BuildConfig :: "Config option"
  st_CDNConfig :: "Config option"
  st_CDN :: "Client option"
  st_CDNArchives :: "ArchiveSet option"
  st_EncodingCKey :: "bc_CKeyEntry option"
  st_RootCKey :: "bc_CKeyEntry option"
  st_InstallCKey :: "bc_CKeyEntry option"
  st_DownloadCKey :: "bc_CKeyEntry option"
  st_SizeCKey :: "bc_CKeyEntry option"
  st_opts :: Options
  st_dataDir :: path
  st_pool :: "Pool option"
  st_ekeys :: "(bytes \<Rightarrow> EKeyEntry option) option"

text \<open>What is fixed while the program runs.\<close>

record runtime =
  rt_codecs :: codecs
  rt_lzma :: lzma_hook
  rt_uni :: "bytes \<Rightarrow> bytes"
  rt_probes :: probes

section \<open>The key map\<close>

definition EKeyOf :: "key \<Rightarrow> bytes" where
  "EKeyOf e = take EKeySize e"

definition add_ekey :: "(bytes \<Rightarrow> EKeyEntry option) \<Rightarrow> EKeyEntry \<Rightarrow> bytes \<Rightarrow> EKeyEntry option" where
  "add_ekey m e = (let k = EKeyOf (ee_EKey e) in if m k = None then m(k \<mapsto> e) else m)"

definition buildEKeyMap :: "Storage \<Rightarrow> Storage" where
  "buildEKeyMap s =
     (if st_Indexes s = [] then s\<lparr>st_ekeys := None\<rparr>
      else s\<lparr>st_ekeys := Some (foldl (\<lambda>m idx. foldl add_ekey m (if_Entries idx)) (\<lambda>_. None) (st_Indexes s))\<rparr>)"

definition FindByEKey :: "Storage \<Rightarrow> key \<Rightarrow> EKeyEntry option" where
  "FindByEKey s e = (case st_ekeys s of None \<Rightarrow> None | Some m \<Rightarrow> m (EKeyOf e))"

section \<open>The archive pool\<close>

text \<open>
  What a directory lists: its other names, and the segments it holds. Segment numbers from 1000 on
  have more digits; their files are no directories and the pattern below does not match them.
\<close>

definition segment_file :: "nat \<Rightarrow> bytes" where
  "segment_file i =
     lit ''data.'' @ [word_of_nat (48 + i div 100), word_of_nat (48 + i div 10 mod 10), word_of_nat (48 + i mod 10)]"

definition Readdirnames :: "fsys \<Rightarrow> path \<Rightarrow> bytes list" where
  "Readdirnames fs d =
     map fst (case fs_list fs d of None \<Rightarrow> [] | Some es \<Rightarrow> es) @
     map segment_file (filter (\<lambda>i. fs_segs fs d (word_of_nat i) \<noteq> None) [0..<1000])"

text \<open>
  \<^verbatim>\<open>filepath.Glob\<close> with the pattern data.[0-9][0-9][0-9] below the directory, whose own path is part
  of the pattern.
\<close>

definition has_segments :: "fsys \<Rightarrow> path \<Rightarrow> bool" where
  "has_segments fs p =
     (case Glob (\<lambda>q. fs_stat fs q \<noteq> None) (\<lambda>q. fs_stat fs q = Some True) (Readdirnames fs) (Join p [segment_pattern]) of
        Some (_ # _) \<Rightarrow> True
      | _ \<Rightarrow> False)"

definition locateDataDir :: "fsys \<Rightarrow> path \<Rightarrow> path outcome" where
  "locateDataDir fs root =
     (case find (has_segments fs) [Join root [lit ''Data'', lit ''data''], Join root [lit ''data''], root] of
        Some p \<Rightarrow> Ret p
      | None \<Rightarrow> Fail ErrFileNotFound)"

lemma segment_file_name: "i < 1000 \<Longrightarrow> segment_name (segment_file i)"
proof -
  assume i: "i < 1000"
  have "is_digit (word_of_nat (48 + d))" if "d < 10" for d
  proof -
    have "unat (word_of_nat (48 + d) :: u8) = 48 + d" using that by (intro unat_word_of_nat) simp
    then show ?thesis using that by (simp add: is_digit_def word_le_nat_alt)
  qed
  then show ?thesis using i by (simp add: segment_name_def segment_file_def lit_def del: of_nat_add)
qed

lemma Join_segments: "Join p [segment_pattern] = p @ [segment_pattern]"
  by (simp add: Join_def splitLine_def segment_pattern_def lit_def path_step_def)

text \<open>A directory without metacharacters that holds a segment is found.\<close>

lemma has_segments_plain:
  assumes "plain_path p" "fs_stat fs p = Some True" "fs_segs fs p (word_of_nat i) \<noteq> None" "i < 1000"
  shows "has_segments fs p"
proof -
  have "segment_file i \<in> set (filter segment_name (Readdirnames fs p))"
    using assms(3,4) segment_file_name by (auto simp: Readdirnames_def)
  then obtain n ns where "filter segment_name (Readdirnames fs p) = n # ns"
    by (cases "filter segment_name (Readdirnames fs p)") auto
  then show ?thesis using assms(1,2) by (simp add: has_segments_def Join_segments Glob_plain)
qed

text \<open>The name of a directory is not a pattern for itself when it has a metacharacter: \<^verbatim>\<open>[a]\<close> stands for \<^verbatim>\<open>a\<close>.\<close>

definition bracket_fs :: fsys where
  "bracket_fs = \<lparr>fs_stat = [[] \<mapsto> True, [lit ''[a]''] \<mapsto> True], fs_list = [[] \<mapsto> [(lit ''[a]'', True)]],
     fs_file = (\<lambda>_. NoFile), fs_segs = (\<lambda>p i. if p = [lit ''[a]''] \<and> i = 0 then Some [] else None)\<rparr>"

lemma bracket_dir_not_found: "locateDataDir bracket_fs [lit ''[a]''] = Fail ErrFileNotFound"
proof -
  let ?g = "Glob (\<lambda>q. fs_stat bracket_fs q \<noteq> None) (\<lambda>q. fs_stat bracket_fs q = Some True) (Readdirnames bracket_fs)"
  have meta: "\<not> plain_path [lit ''[a]'']" by (simp add: plain_path_def lit_def)
  have "Readdirnames bracket_fs [] = [lit ''[a]'']" by (simp add: Readdirnames_def bracket_fs_def)
  moreover have "Match (lit ''[a]'') (lit ''[a]'') = Some False" by code_simp
  ultimately have "no_match (?g [lit ''[a]''])"
    using meta by (subst Glob.simps)
      (simp add: hasMeta_path_text glob_dir_def no_match_def plain_path_def bracket_fs_def)
  then have none: "no_match (?g ([lit ''[a]''] @ qs))" for qs by (rule Glob_below [OF meta])
  have "\<not> has_segments bracket_fs (lit ''[a]'' # qs)" for qs
    using none [of "qs @ [segment_pattern]"]
    by (simp only: has_segments_def Join_segments no_match_def append_Cons append_Nil)
      (elim disjE, simp_all)
  moreover have "Join [lit ''[a]''] [lit ''Data'', lit ''data''] = [lit ''[a]'', lit ''Data'', lit ''data'']"
    "Join [lit ''[a]''] [lit ''data''] = [lit ''[a]'', lit ''data'']"
    by (simp_all add: Join_def splitLine_def lit_def path_step_def)
  ultimately show ?thesis by (simp add: locateDataDir_def)
qed

definition archivePool :: "fsys \<Rightarrow> Storage \<Rightarrow> Pool outcome \<times> Storage" where
  "archivePool fs s =
     (case st_pool s of
        Some p \<Rightarrow> (Ret p, s)
      | None \<Rightarrow>
          (case locateDataDir fs (st_Path s) of
             Ret dir \<Rightarrow> (Ret NewPool, s\<lparr>st_pool := Some NewPool, st_dataDir := dir\<rparr>)
           | Fail e \<Rightarrow> (Fail e, s)
           | Panic \<Rightarrow> (Panic, s)))"

section \<open>The cache\<close>

definition cachePath :: "path \<Rightarrow> bytes \<Rightarrow> path" where
  "cachePath root hexKey =
     (if length hexKey < 4 then Join root [hexKey]
      else Join root [take 2 hexKey, take 2 (drop 2 hexKey), hexKey])"

definition cacheRead :: "fsys \<Rightarrow> Storage \<Rightarrow> bytes \<Rightarrow> bytes outcome" where
  "cacheRead fs s hexKey =
     (case so_CacheDir (st_opts s) of
        None \<Rightarrow> Fail ErrOther
      | Some dir \<Rightarrow> read_file fs (cachePath dir hexKey))"

text \<open>
  The system calls of one write, any of which may fail. The temporary file and the directories a
  failed write leaves behind have names no lookup uses and are not recorded.
\<close>

record cache_faults =
  ca_mkdir :: bool
  ca_temp :: bool
  ca_write :: bool
  ca_close :: bool
  ca_rename :: bool

definition no_cache_faults :: cache_faults where
  "no_cache_faults = \<lparr>ca_mkdir = False, ca_temp = False, ca_write = False, ca_close = False, ca_rename = False\<rparr>"

definition cacheWrite :: "cache_faults \<Rightarrow> Storage \<Rightarrow> bytes \<Rightarrow> bytes \<Rightarrow> fsys \<Rightarrow> unit outcome \<times> fsys" where
  "cacheWrite io s hexKey blob fs =
     (case so_CacheDir (st_opts s) of
        None \<Rightarrow> (Ret (), fs)
      | Some dir \<Rightarrow>
          if ca_mkdir io \<or> ca_temp io \<or> ca_write io \<or> ca_close io \<or> ca_rename io then (Fail ErrOther, fs)
          else (Ret (), fs\<lparr>fs_file := (fs_file fs)(cachePath dir hexKey := Content blob)\<rparr>))"

text \<open>\<^verbatim>\<open>ekeyHex\<close> writes the digits itself.\<close>

fun ekeyHex :: "key \<Rightarrow> bytes" where
  "ekeyHex [] = []"
| "ekeyHex (b # bs) =
     (let hexdigits = lit ''0123456789abcdef'' in
      hexdigits ! unat (drop_bit 4 b) # hexdigits ! unat (b AND 0x0F) # ekeyHex bs)"

section \<open>Reading by encoded key\<close>

definition decode_opts :: "Storage \<Rightarrow> DecodeOptions" where
  "decode_opts s = \<lparr>do_OvercomeEncrypted = so_OvercomeEncrypted (st_opts s)\<rparr>"

definition decode_blob :: "runtime \<Rightarrow> Storage \<Rightarrow> bytes \<Rightarrow> bytes outcome" where
  "decode_blob rt s body = DecodeSpanWithOptions (rt_codecs rt) (rt_lzma rt) body (Some (st_Keys s)) (decode_opts s)"

definition fetchByEKeyViaArchives ::
  "runtime \<Rightarrow> http \<Rightarrow> cache_faults \<Rightarrow> key \<Rightarrow> Storage \<Rightarrow> fsys \<Rightarrow> bytes outcome \<times> fsys" where
  "fetchByEKeyViaArchives rt http io e s fs =
     (case st_CDN s of
        None \<Rightarrow> (Fail ErrFileNotFound, fs)
      | Some c \<Rightarrow>
          (case Option.bind (st_CDNArchives s) (\<lambda>archives. aset_Lookup archives e) of
             Some loc \<Rightarrow>
               (bnd (client_FetchRange (rt_uni rt) http c (lit ''data'') (al_ArchiveHashHex loc)
                      (al_Offset loc) (al_EncodedSize loc)) (decode_blob rt s), fs)
           | None \<Rightarrow>
               (case cacheRead fs s (ekeyHex e) of
                  Ret cached \<Rightarrow> (decode_blob rt s cached, fs)
                | _ \<Rightarrow>
                    (case client_Fetch (rt_uni rt) http c (lit ''data'') (ekeyHex e) of
                       Ret body \<Rightarrow> (decode_blob rt s body, snd (cacheWrite io s (ekeyHex e) body fs))
                     | Fail err \<Rightarrow> (Fail err, fs)
                     | Panic \<Rightarrow> (Panic, fs)))))"

definition ReadByEKeyContext ::
  "runtime \<Rightarrow> http \<Rightarrow> cache_faults \<Rightarrow> key \<Rightarrow> Storage \<Rightarrow> fsys \<Rightarrow> bytes outcome \<times> Storage \<times> fsys" where
  "ReadByEKeyContext rt http io e s fs =
     (let fallback = (\<lambda>s. let (r, fs') = fetchByEKeyViaArchives rt http io e s fs in (r, s, fs')) in
      case FindByEKey s e of
        Some entry \<Rightarrow>
          (case archivePool fs s of
             (Ret pool, s') \<Rightarrow>
               let (r, pool') = ReadSpanWithOptions (rt_codecs rt) (rt_lzma rt) (fs_segs fs (st_dataDir s'))
                     entry (Some (st_Keys s')) (decode_opts s') pool
               in (r, s'\<lparr>st_pool := Some pool'\<rparr>, fs)
           | (_, s') \<Rightarrow> fallback s')
      | None \<Rightarrow> fallback s)"

section \<open>ENCODING and ROOT\<close>

definition LoadEncoding ::
  "runtime \<Rightarrow> http \<Rightarrow> cache_faults \<Rightarrow> Storage \<Rightarrow> fsys \<Rightarrow> unit outcome \<times> Storage \<times> fsys" where
  "LoadEncoding rt http io s fs =
     (case st_EncodingCKey s of
        None \<Rightarrow> (Fail ErrFileNotFound, s, fs)
      | Some ck \<Rightarrow>
          if \<not> bk_HasEKey ck then (Fail ErrFileNotFound, s, fs)
          else
            let (r, s', fs') = ReadByEKeyContext rt http io (bk_EKey ck) s fs in
            (case bnd r enc_Parse of
               Ret enc \<Rightarrow> (Ret (), s'\<lparr>st_Encoding := Some enc\<rparr>, fs')
             | Fail e \<Rightarrow> (Fail e, s', fs')
             | Panic \<Rightarrow> (Panic, s', fs')))"

definition LoadRoot ::
  "runtime \<Rightarrow> http \<Rightarrow> cache_faults \<Rightarrow> Storage \<Rightarrow> fsys \<Rightarrow> unit outcome \<times> Storage \<times> fsys" where
  "LoadRoot rt http io s fs =
     (case (st_RootCKey s, st_Encoding s) of
        (Some rk, Some enc) \<Rightarrow>
          (case enc_Find enc (bk_CKey rk) of
             None \<Rightarrow> (Fail ErrFileNotFound, s, fs)
           | Some encEntry \<Rightarrow>
               (case en_EKeys encEntry of
                  [] \<Rightarrow> (Fail ErrFileNotFound, s, fs)
                | ek # _ \<Rightarrow>
                    let (r, s', fs') = ReadByEKeyContext rt http io ek s fs in
                    (case bnd r (Detect (registered (rt_probes rt))) of
                       Ret h \<Rightarrow> (Ret (), s'\<lparr>st_Root := Some h\<rparr>, fs')
                     | Fail e \<Rightarrow> (Fail e, s', fs')
                     | Panic \<Rightarrow> (Panic, s', fs'))))
      | _ \<Rightarrow> (Fail ErrFileNotFound, s, fs))"

definition LoadAll ::
  "runtime \<Rightarrow> http \<Rightarrow> cache_faults \<Rightarrow> Storage \<Rightarrow> fsys \<Rightarrow> unit outcome \<times> Storage \<times> fsys" where
  "LoadAll rt http io s fs =
     (case LoadEncoding rt http io s fs of
        (Ret _, s1, fs1) \<Rightarrow>
          (case LoadRoot rt http io s1 fs1 of
             (Fail e, s2, fs2) \<Rightarrow> (if e = ErrNotSupported then Ret () else Fail e, s2, fs2)
           | r \<Rightarrow> r)
      | r \<Rightarrow> r)"

definition storage_Init ::
  "runtime \<Rightarrow> http \<Rightarrow> cache_faults \<Rightarrow> Storage \<Rightarrow> fsys \<Rightarrow> unit outcome \<times> Storage \<times> fsys" where
  "storage_Init rt http io s fs = LoadAll rt http io (buildEKeyMap s) fs"

section \<open>Configuration files\<close>

definition firstColumnValue :: "csv_File \<Rightarrow> bytes \<Rightarrow> bytes outcome" where
  "firstColumnValue f name =
     foldr (\<lambda>row rest. bnd (csv_Get f (int row) name) (\<lambda>v. if v \<noteq> [] then Ret v else rest))
       [0..<length (cf_Rows f)] (Ret [])"

fun config_from :: "fsys \<Rightarrow> path list \<Rightarrow> Config outcome" where
  "config_from fs [] = Fail ErrOther"
| "config_from fs (p # ps) =
     (case fs_file fs p of
        Content b \<Rightarrow> bc_Parse b
      | NoRead \<Rightarrow> Fail ErrOther
      | _ \<Rightarrow> config_from fs ps)"

definition readConfigFile :: "fsys \<Rightarrow> bytes \<Rightarrow> bytes \<Rightarrow> Config outcome" where
  "readConfigFile fs root hash =
     guard (length hash < 4) ErrOther (
     bnd (subslice hash 0 2) (\<lambda>aa. bnd (subslice hash 2 4) (\<lambda>bb.
     let rel = [lit ''config'', aa, bb, hash] in
     config_from fs [Join (Clean root) (lit ''Data'' # rel), Join (Clean root) (lit ''data'' # rel),
       Join (Dir root) (lit ''Data'' # rel)])))"

text \<open>\<open>None\<close> is \<^verbatim>\<open>os.ErrNotExist\<close>.\<close>

fun build_info_from :: "fsys \<Rightarrow> path list \<Rightarrow> csv_File option outcome" where
  "build_info_from fs [] = Ret None"
| "build_info_from fs (p # ps) =
     (case fs_file fs p of
        NoFile \<Rightarrow> build_info_from fs ps
      | Content b \<Rightarrow> bnd (csv_Parse b) (\<lambda>f. Ret (Some f))
      | _ \<Rightarrow> Fail ErrOther)"

definition loadBuildInfo :: "fsys \<Rightarrow> bytes \<Rightarrow> csv_File option outcome" where
  "loadBuildInfo fs dir =
     build_info_from fs [Join (Clean dir) [lit ''.build.info''], Join (Dir dir) [lit ''.build.info'']]"

definition initCDNClient :: "Storage \<Rightarrow> csv_File \<Rightarrow> Storage outcome" where
  "initCDNClient s bi =
     bnd (firstColumnValue bi (lit ''CDN Hosts'')) (\<lambda>hosts.
     bnd (firstColumnValue bi (lit ''CDN Path'')) (\<lambda>path.
     Ret (if hosts = [] \<or> path = [] \<or> Fields hosts = [] then s
          else s\<lparr>st_CDN := Some (NewClient (Fields hosts) path)\<rparr>)))"

definition loadCDNArchiveIndexes :: "runtime \<Rightarrow> http \<Rightarrow> nat list \<Rightarrow> Storage \<Rightarrow> Storage outcome" where
  "loadCDNArchiveIndexes rt http arrival s =
     (case (st_CDN s, st_CDNConfig s) of
        (Some c, Some cfg) \<Rightarrow>
          bnd (bc_Archives cfg) (\<lambda>hashes.
          if hashes = [] then Ret s
          else
            bnd (fetchAndMergeArchiveIndexes (rt_uni rt) (md5 (rt_codecs rt)) http arrival c hashes) (\<lambda>set.
            Ret (s\<lparr>st_CDNArchives := Some set\<rparr>)))
      | _ \<Rightarrow> Ret s)"

definition resolve_keys :: "Config \<Rightarrow> Storage \<Rightarrow> Storage outcome" where
  "resolve_keys cfg s =
     bnd (attempt (bc_LookupCKey cfg (lit ''encoding''))) (\<lambda>ek.
     bnd (attempt (bc_LookupCKey cfg (lit ''root''))) (\<lambda>rk.
     bnd (attempt (bc_LookupCKey cfg (lit ''install''))) (\<lambda>ik.
     bnd (attempt (bc_LookupCKey cfg (lit ''download''))) (\<lambda>dk.
     bnd (attempt (bc_LookupCKey cfg (lit ''size''))) (\<lambda>sk.
     Ret (s\<lparr>st_BuildConfig := Some cfg, st_EncodingCKey := ek, st_RootCKey := rk, st_InstallCKey := ik,
       st_DownloadCKey := dk, st_SizeCKey := sk\<rparr>))))))"

definition load_build_config :: "fsys \<Rightarrow> bytes \<Rightarrow> bytes \<Rightarrow> Storage \<Rightarrow> Storage outcome" where
  "load_build_config fs dir bk s =
     (if bk = [] then Ret s
      else
        bnd (attempt (readConfigFile fs dir bk)) (\<lambda>c.
        case c of None \<Rightarrow> Ret s | Some cfg \<Rightarrow> resolve_keys cfg s))"

definition load_cdn_config :: "fsys \<Rightarrow> bytes \<Rightarrow> bytes \<Rightarrow> Storage \<Rightarrow> Storage outcome" where
  "load_cdn_config fs dir ck s =
     (if ck = [] then Ret s
      else
        bnd (attempt (readConfigFile fs dir ck)) (\<lambda>c.
        Ret (case c of None \<Rightarrow> s | Some cfg \<Rightarrow> s\<lparr>st_CDNConfig := Some cfg\<rparr>)))"

definition go_online :: "runtime \<Rightarrow> http \<Rightarrow> nat list \<Rightarrow> csv_File \<Rightarrow> Storage \<Rightarrow> Storage outcome" where
  "go_online rt http arrival bi s =
     (if so_Online (st_opts s) then
        bnd (initCDNClient s bi) (\<lambda>s'.
        bnd (attempt (loadCDNArchiveIndexes rt http arrival s')) (\<lambda>r.
        Ret (case r of None \<Rightarrow> s' | Some s'' \<Rightarrow> s'')))
      else Ret s)"

definition loadConfigs :: "runtime \<Rightarrow> http \<Rightarrow> nat list \<Rightarrow> fsys \<Rightarrow> bytes \<Rightarrow> Storage \<Rightarrow> Storage outcome" where
  "loadConfigs rt http arrival fs dir s =
     (case st_BuildInfo s of
        None \<Rightarrow> Ret s
      | Some bi \<Rightarrow>
          bnd (firstColumnValue bi (lit ''Build Key'')) (\<lambda>bk.
          bnd (firstColumnValue bi (lit ''CDN Key'')) (\<lambda>ck.
          bnd (load_build_config fs dir bk s) (\<lambda>s1.
          bnd (load_cdn_config fs dir ck s1) (\<lambda>s2.
          go_online rt http arrival bi s2)))))"

section \<open>Local indexes\<close>

text \<open>
  \<^verbatim>\<open>fmt.Sscanf(name, "%2x", &bucket)\<close>: white space without a newline, then one or two hexadecimal
  digits.
\<close>

definition scan_bucket :: "bytes \<Rightarrow> u8 option" where
  "scan_bucket name =
     (let rest = trim_with space_prefix name;
          digits = takeWhile (\<lambda>c. hex_val c \<noteq> None) (take 2 rest) in
      if 0x0A \<in> set (take (length name - length rest) name) then None
      else
        case map (\<lambda>c. the (hex_val c)) digits of
          [] \<Rightarrow> None
        | [h] \<Rightarrow> Some (word_of_nat h)
        | h # l # _ \<Rightarrow> Some (word_of_nat (16 * h + l)))"

definition is_idx :: "bytes \<Rightarrow> bool" where
  "is_idx name \<longleftrightarrow> 4 \<le> length name \<and> drop (length name - 4) name = lit ''.idx''"

fun load_idx_files :: "fsys \<Rightarrow> path \<Rightarrow> (bytes \<times> bool) list \<Rightarrow> IndexFile list outcome" where
  "load_idx_files fs p [] = Ret []"
| "load_idx_files fs p ((name, isDir) # es) =
     (if isDir \<or> \<not> is_idx name then load_idx_files fs p es
      else
        bnd (read_file fs (Join p [name])) (\<lambda>data.
        case scan_bucket name of
          None \<Rightarrow> load_idx_files fs p es
        | Some bucket \<Rightarrow>
            bnd (attempt (index_Parse data bucket)) (\<lambda>idx.
            case idx of
              None \<Rightarrow> load_idx_files fs p es
            | Some i \<Rightarrow> bnd (load_idx_files fs p es) (\<lambda>is. Ret (i # is)))))"

fun indexes_from :: "fsys \<Rightarrow> path list \<Rightarrow> IndexFile list outcome" where
  "indexes_from fs [] = Ret []"
| "indexes_from fs (p # ps) =
     (case fs_list fs p of
        None \<Rightarrow> indexes_from fs ps
      | Some es \<Rightarrow> bnd (load_idx_files fs p es) (\<lambda>idxs. if idxs \<noteq> [] then Ret idxs else indexes_from fs ps))"

definition loadLocalIndexes :: "fsys \<Rightarrow> path \<Rightarrow> IndexFile list outcome" where
  "loadLocalIndexes fs dir =
     indexes_from fs [Join dir [lit ''Data'', lit ''data''], Join dir [lit ''Data'', lit ''indices''],
       Join dir [lit ''data'']]"

section \<open>Opening and closing\<close>

definition new_storage :: "path \<Rightarrow> Options \<Rightarrow> Storage" where
  "new_storage dir opts =
     \<lparr>st_Path = dir, st_BuildInfo = None, st_Indexes = [], st_Encoding = None, st_Root = None,
      st_Listfile = None, st_Keys = NewKeyRegistry, st_BuildConfig = None, st_CDNConfig = None,
      st_CDN = None, st_CDNArchives = None, st_EncodingCKey = None, st_RootCKey = None,
      st_InstallCKey = None, st_DownloadCKey = None, st_SizeCKey = None, st_opts = opts,
      st_dataDir = [], st_pool = None, st_ekeys = None\<rparr>"

definition storage_Open ::
  "runtime \<Rightarrow> http \<Rightarrow> nat list \<Rightarrow> cache_faults \<Rightarrow> bytes \<Rightarrow> Options \<Rightarrow> fsys \<Rightarrow> (Storage \<times> fsys) outcome" where
  "storage_Open rt http arrival io dir opts fs =
     guard (fs_stat fs (Clean dir) \<noteq> Some True) ErrOther (
     bnd (case so_ListfileReader opts of
            None \<Rightarrow> Ret None
          | Some text \<Rightarrow> bnd (lf_Load text) (\<lambda>l. Ret (Some l))) (\<lambda>lf.
     bnd (loadBuildInfo fs dir) (\<lambda>bi.
     bnd (loadLocalIndexes fs (Clean dir)) (\<lambda>idxs.
     let s = buildEKeyMap ((new_storage (Clean dir) opts)\<lparr>st_Listfile := lf, st_BuildInfo := bi, st_Indexes := idxs\<rparr>) in
     bnd (loadConfigs rt http arrival fs dir s) (\<lambda>s1.
     case LoadAll rt http io s1 fs of
       (Panic, _) \<Rightarrow> Panic
     | (_, s2, fs2) \<Rightarrow> Ret (s2, fs2))))))"

definition storage_Close :: "(u32 \<Rightarrow> bool) \<Rightarrow> Storage \<Rightarrow> unit outcome \<times> Storage" where
  "storage_Close close_fails s =
     ((case st_pool s of None \<Rightarrow> Ret () | Some p \<Rightarrow> fst (pool_Close close_fails p)),
      s\<lparr>st_pool := None, st_Indexes := [], st_Encoding := None, st_Root := None, st_ekeys := None\<rparr>)"

definition AddEncryptionKey :: "u64 \<Rightarrow> bytes \<Rightarrow> Storage \<Rightarrow> unit outcome \<times> Storage" where
  "AddEncryptionKey name k s =
     (case registry_Add (st_Keys s) name k of
        Ret r \<Rightarrow> (Ret (), s\<lparr>st_Keys := r\<rparr>)
      | Fail e \<Rightarrow> (Fail e, s)
      | Panic \<Rightarrow> (Panic, s))"

definition SetRoot :: "Handler \<Rightarrow> Storage \<Rightarrow> Storage" where
  "SetRoot r s = s\<lparr>st_Root := Some r\<rparr>"

definition SetEncoding :: "enc_File \<Rightarrow> Storage \<Rightarrow> Storage" where
  "SetEncoding e s = s\<lparr>st_Encoding := Some e\<rparr>"

definition FindByName :: "Storage \<Rightarrow> bytes \<Rightarrow> CKeyEntry outcome" where
  "FindByName s name =
     (case st_Root s of
        None \<Rightarrow> Fail ErrNotSupported
      | Some r \<Rightarrow>
          (case rh_LookupByName r name of
             None \<Rightarrow> Fail ErrFileNotFound
           | Some rEntry \<Rightarrow>
               (case st_Encoding s of
                  None \<Rightarrow> Ret rEntry
                | Some enc \<Rightarrow>
                    (case enc_Find enc (ce_CKey rEntry) of
                       None \<Rightarrow> Ret rEntry
                     | Some encEntry \<Rightarrow>
                         let out = rEntry\<lparr>ce_ContentSize := en_ContentSize encEntry\<rparr> in
                         Ret (case en_EKeys encEntry of
                                [] \<Rightarrow> out
                              | ek # _ \<Rightarrow> out\<lparr>ce_EKey := ek, ce_Flags := ce_Flags out OR CEFlagHasEKey\<rparr>)))))"

end
