(* ===== verification/CdnDownload.thy ===== *)
theory CdnDownload
  imports CascBase
begin

text \<open>
  \<^verbatim>\<open>internal/cdn/download.go\<close> and \<^verbatim>\<open>download_writer.go\<close>: the DOWNLOAD manifest in its three
  versions. Entries have a fixed width that the header decides; tags follow them. Shown here:
  parsing is safe from 11 bytes on (and what happens at 10), a manifest reads back as its
  entries and tags, and which options the header cannot record.
\<close>

unbundle bit_operations_syntax

definition downloadMagic :: u16 where "downloadMagic = 0x4C44"

record DownloadHeader =
  dh_Version :: u8
  dh_EKeyLength :: u8
  dh_EntryHasChecksum :: bool
  dh_EntryCount :: u32
  dh_TagCount :: u16
  dh_FlagByteSize :: u8
  dh_BasePriority :: u8
  dh_HeaderLength :: nat
  dh_EntryLength :: nat

record DownloadEntry =
  de_EKey :: key
  de_EncodedSize :: u64
  de_Priority :: u8
  de_Checksum :: u32
  de_Flags :: u64

record DownloadTag =
  dt_Name :: bytes
  dt_Type :: u16
  dt_Bitmap :: bytes

record DownloadManifest =
  dm_Header :: DownloadHeader
  dm_Entries :: "DownloadEntry list"
  dm_Tags :: "DownloadTag list"

section \<open>The parser\<close>

text \<open>The package's own copies of two big-endian readers.\<close>

definition beUint5 :: "bytes \<Rightarrow> u64 outcome" where
  "beUint5 b = bnd (at b 4) (\<lambda>_.
     Ret (push_bit 32 (ucast (b ! 0)) OR push_bit 24 (ucast (b ! 1)) OR
          push_bit 16 (ucast (b ! 2)) OR push_bit 8 (ucast (b ! 3)) OR ucast (b ! 4)))"

definition beUintN :: "bytes \<Rightarrow> u64" where
  "beUintN b = readBE_from 0 b"

lemma beUint5_eq: "beUint5 b = BEUint40 b"
  by (simp add: beUint5_def BEUint40_def)

lemma beUintN_eq: "beUintN b = readBE b"
  by (simp add: beUintN_def readBE_def)

definition download_entry :: "bytes \<Rightarrow> DownloadHeader \<Rightarrow> nat \<Rightarrow> nat \<Rightarrow> DownloadEntry outcome" where
  "download_entry data hdr off i =
     (let o0 = off + i * dh_EntryLength hdr;
          o1 = o0 + unat (dh_EKeyLength hdr);
          o2 = o1 + 5;
          o3 = o2 + 1;
          o4 = (if dh_EntryHasChecksum hdr then o3 + 4 else o3) in
      bnd (subslice data o0 o1) (\<lambda>ekey.
      bnd (bnd (subslice data o1 o2) beUint5) (\<lambda>encSize.
      bnd (at data o2) (\<lambda>priority.
      bnd (if dh_EntryHasChecksum hdr then rdBE32 data o3 (o3 + 4) else Ret 0) (\<lambda>checksum.
      bnd (if 0 < dh_FlagByteSize hdr
           then bnd (subslice data o4 (o4 + unat (dh_FlagByteSize hdr))) (\<lambda>b. Ret (beUintN b))
           else Ret 0) (\<lambda>flags.
      Ret \<lparr>de_EKey = fit 16 ekey, de_EncodedSize = encSize, de_Priority = priority,
           de_Checksum = checksum, de_Flags = flags\<rparr>))))))"

text \<open>The loop over the tags; a bitmap may be cut short by the end of the data.\<close>

fun download_tags :: "bytes \<Rightarrow> nat \<Rightarrow> nat \<Rightarrow> nat \<Rightarrow> DownloadTag list outcome" where
  "download_tags data bitmapLen off 0 = Ret []"
| "download_tags data bitmapLen off (Suc n) =
     bnd (subslice_from data off) (\<lambda>s.
     case index_zero s of
       None \<Rightarrow> Fail ErrBadFormat
     | Some nameEnd \<Rightarrow>
         bnd (subslice data off (off + nameEnd)) (\<lambda>name.
         let off1 = off + nameEnd + 1 in
         guard (length data < off1 + 2) ErrBadFormat (
         bnd (rdBE16 data off1 (off1 + 2)) (\<lambda>typ.
         let bm = min bitmapLen (length data - (off1 + 2)) in
         bnd (subslice data (off1 + 2) (off1 + 2 + bm)) (\<lambda>buf.
         bnd (download_tags data bitmapLen (off1 + 2 + bm) n) (\<lambda>ts.
         Ret (\<lparr>dt_Name = name, dt_Type = typ, dt_Bitmap = buf\<rparr> # ts)))))))"

text \<open>The version-dependent fields: flag size, base priority and where the entries start.\<close>

definition download_v23 :: "bytes \<Rightarrow> u8 \<Rightarrow> (u8 \<times> u8 \<times> nat) outcome" where
  "download_v23 data version =
     bnd (if 2 \<le> version
          then guard (length data < 11 + 1) ErrBadFormat (bnd (at data 11) (\<lambda>f. Ret (f, 12)))
          else Ret (0, 11)) (\<lambda>(flagSize, off).
     if 3 \<le> version
     then guard (length data < off + 4) ErrBadFormat (bnd (at data off) (\<lambda>p. Ret (flagSize, p, off + 4)))
     else Ret (flagSize, 0, off))"

definition download_entry_length :: "u8 \<Rightarrow> u8 \<Rightarrow> bool \<Rightarrow> nat" where
  "download_entry_length eKeyLen flagSize checksum =
     unat eKeyLen + 5 + 1 + unat flagSize + (if checksum then 4 else 0)"

definition ParseDownload :: "bytes \<Rightarrow> DownloadManifest outcome" where
  "ParseDownload data =
     guard (length data < 10) ErrBadFormat (
     bnd (rdLE16 data 0 2) (\<lambda>magic.
     guard (magic \<noteq> downloadMagic) ErrBadFormat (
     bnd (at data 2) (\<lambda>version.
     guard (version < 1 \<or> 3 < version) ErrNotSupported (
     bnd (at data 3) (\<lambda>eKeyLen.
     bnd (at data 4) (\<lambda>hasChecksum.
     bnd (rdBE32 data 5 9) (\<lambda>entryCount.
     bnd (rdBE16 data 9 11) (\<lambda>tagCount.
     guard (eKeyLen = 0 \<or> MD5HashSize < unat eKeyLen) ErrBadFormat (
     bnd (download_v23 data version) (\<lambda>(flagSize, basePriority, off).
     let hdr = \<lparr>dh_Version = version, dh_EKeyLength = eKeyLen, dh_EntryHasChecksum = hasChecksum \<noteq> 0,
                dh_EntryCount = entryCount, dh_TagCount = tagCount, dh_FlagByteSize = flagSize,
                dh_BasePriority = basePriority, dh_HeaderLength = off,
                dh_EntryLength = download_entry_length eKeyLen flagSize (hasChecksum \<noteq> 0)\<rparr>;
         entriesBytes = unat entryCount * dh_EntryLength hdr in
     guard (length data < off + entriesBytes) ErrBadFormat (
     bnd (mapM (download_entry data hdr off) [0..<unat entryCount]) (\<lambda>es.
     let bitmapLen = unat ((entryCount + 7) div 8) in
     bnd (download_tags data bitmapLen (off + entriesBytes) (unat tagCount)) (\<lambda>ts.
     Ret \<lparr>dm_Header = hdr, dm_Entries = es, dm_Tags = ts\<rparr>))))))))))))))"

section \<open>The writer\<close>

record WriteDownloadOptions =
  wd_Version :: u8
  wd_EKeyLength :: u8
  wd_FlagByteSize :: u8
  wd_EntryHasChecksum :: bool
  wd_BasePriority :: u8

definition putBEUint5 :: "u64 \<Rightarrow> bytes" where
  "putBEUint5 v = [ucast (drop_bit 32 v), ucast (drop_bit 24 v), ucast (drop_bit 16 v),
     ucast (drop_bit 8 v), ucast v]"

lemma putBEUint5_eq: "putBEUint5 v = be_bytes 5 (unat v)"
  by (simp add: putBEUint5_def putBE_eq(3) [symmetric] putBEUint40_def)

definition copyBitmap :: "nat \<Rightarrow> bytes \<Rightarrow> bytes" where
  "copyBitmap n src = take n src @ replicate (n - length src) 0"

definition download_entry_bytes :: "nat \<Rightarrow> bool \<Rightarrow> nat \<Rightarrow> DownloadEntry \<Rightarrow> bytes" where
  "download_entry_bytes eKeyLen checksum flagSize e =
     take eKeyLen (de_EKey e) @ putBEUint5 (de_EncodedSize e) @ [de_Priority e] @
     (if checksum then putBEUint32 (de_Checksum e) else []) @
     (if 0 < flagSize then putBEUintN (de_Flags e) flagSize else [])"

definition download_tag_bytes :: "nat \<Rightarrow> DownloadTag \<Rightarrow> bytes" where
  "download_tag_bytes bitmapLen t =
     dt_Name t @ [0] @ putBEUint16 (dt_Type t) @ copyBitmap bitmapLen (dt_Bitmap t)"

definition download_header_bytes :: "u8 \<Rightarrow> u8 \<Rightarrow> WriteDownloadOptions \<Rightarrow> nat \<Rightarrow> nat \<Rightarrow> bytes" where
  "download_header_bytes version eKeyLen opts nentries ntags =
     putLE16 downloadMagic @ [version, eKeyLen, if wd_EntryHasChecksum opts then 1 else 0] @
     putBEUint32 (word_of_nat nentries) @ putBEUint16 (word_of_nat ntags) @
     (if 2 \<le> version then [wd_FlagByteSize opts] else []) @
     (if 3 \<le> version then [wd_BasePriority opts, 0, 0, 0] else [])"

definition wd_version :: "WriteDownloadOptions \<Rightarrow> u8" where
  "wd_version opts = (if wd_Version opts = 0 then 3 else wd_Version opts)"

definition wd_keylen :: "WriteDownloadOptions \<Rightarrow> u8" where
  "wd_keylen opts = (if wd_EKeyLength opts = 0 then 16 else wd_EKeyLength opts)"

definition EncodeDownload ::
  "DownloadEntry list \<Rightarrow> DownloadTag list \<Rightarrow> WriteDownloadOptions \<Rightarrow> bytes outcome" where
  "EncodeDownload entries tags opts =
     (let version = wd_version opts; eKeyLen = wd_keylen opts in
      guard (version < 1 \<or> 3 < version) ErrNotSupported (
      guard (MD5HashSize < unat eKeyLen) ErrInvalidParameter (
      let bitmapLen = (length entries + 7) div 8 in
      Ret (download_header_bytes version eKeyLen opts (length entries) (length tags) @
           concat (map (download_entry_bytes (unat eKeyLen) (wd_EntryHasChecksum opts)
             (unat (wd_FlagByteSize opts))) entries) @
           concat (map (download_tag_bytes bitmapLen) tags)))))"

section \<open>Safety\<close>

lemma safe_download_tags: "off \<le> length data \<Longrightarrow> safe (download_tags data bl off n)"
  by (induction n arbitrary: off)
    (auto simp: outcome_simps Let_def dest: index_zero_lt split: option.split)

lemma safe_download_entry:
  assumes "dh_EntryLength hdr = download_entry_length (dh_EKeyLength hdr) (dh_FlagByteSize hdr) (dh_EntryHasChecksum hdr)"
    and "off + (i + 1) * dh_EntryLength hdr \<le> length data"
  shows "safe (download_entry data hdr off i)"
  using assms
  by (auto simp: download_entry_def download_entry_length_def Let_def outcome_simps beUint5_eq BEUint_eq
      safe_bnd)

theorem ParseDownload_safe:
  assumes "length data \<noteq> 10"
  shows "safe (ParseDownload data)"
proof -
  have "safe (mapM (download_entry data hdr off) [0..<n])"
    if "dh_EntryLength hdr = download_entry_length (dh_EKeyLength hdr) (dh_FlagByteSize hdr) (dh_EntryHasChecksum hdr)"
      "\<not> length data < off + n * dh_EntryLength hdr" for hdr off n
  proof (intro safe_mapM safe_download_entry that(1))
    fix i assume "i \<in> set [0..<n]"
    then have "(i + 1) * dh_EntryLength hdr \<le> n * dh_EntryLength hdr" by (intro mult_le_mono1) simp
    then show "off + (i + 1) * dh_EntryLength hdr \<le> length data" using that(2) by linarith
  qed
  then show ?thesis
    using assms
    by (auto simp: ParseDownload_def download_v23_def outcome_simps Let_def safe_download_tags
        split: if_splits)
qed

theorem ParseDownload_ten_bytes_panics:
  "ParseDownload [0x44, 0x4C, 1, 16, 0, 0, 0, 0, 0, 0] = Panic"
  by code_simp

section \<open>Manifests read back\<close>

definition download_entry_ok :: "bool \<Rightarrow> nat \<Rightarrow> DownloadEntry \<Rightarrow> bool" where
  "download_entry_ok checksum flagSize e \<longleftrightarrow>
     length (de_EKey e) = 16 \<and> unat (de_EncodedSize e) < 2 ^ 40 \<and>
     unat (de_Flags e) < 256 ^ flagSize \<and> (\<not> checksum \<longrightarrow> de_Checksum e = 0)"

definition read_download_entry :: "nat \<Rightarrow> DownloadEntry \<Rightarrow> DownloadEntry" where
  "read_download_entry eKeyLen e = e\<lparr>de_EKey := fit 16 (take eKeyLen (de_EKey e))\<rparr>"

definition read_download_tag :: "nat \<Rightarrow> DownloadTag \<Rightarrow> DownloadTag" where
  "read_download_tag bitmapLen t = t\<lparr>dt_Bitmap := copyBitmap bitmapLen (dt_Bitmap t)\<rparr>"

lemma length_copyBitmap [simp]: "length (copyBitmap n src) = n"
  by (simp add: copyBitmap_def)

lemma length_download_entry_bytes:
  assumes "length (de_EKey e) = 16" "unat k \<le> 16"
  shows "length (download_entry_bytes (unat k) c (unat f) e) = download_entry_length k f c"
  using assms by (simp add: download_entry_bytes_def download_entry_length_def putBEUint5_eq
      putBEUintN_eq putBE_eq)

lemma flag_byte_pos: "(0 :: u8) < f \<longleftrightarrow> 0 < unat f"
  by (simp add: word_less_nat_alt)

lemma download_entry_read:
  assumes d: "drop (off + i * dh_EntryLength hdr) data =
      download_entry_bytes (unat (dh_EKeyLength hdr)) (dh_EntryHasChecksum hdr) (unat (dh_FlagByteSize hdr)) e @ r"
    and ok: "download_entry_ok (dh_EntryHasChecksum hdr) (unat (dh_FlagByteSize hdr)) e"
    and k: "unat (dh_EKeyLength hdr) \<le> 16" "0 < unat (dh_EKeyLength hdr)"
  shows "download_entry data hdr off i = Ret (read_download_entry (unat (dh_EKeyLength hdr)) e)"
proof -
  define o0 where "o0 = off + i * dh_EntryLength hdr"
  define K where "K = unat (dh_EKeyLength hdr)"
  define F where "F = unat (dh_FlagByteSize hdr)"
  define c where "c = dh_EntryHasChecksum hdr"
  let ?csum = "if c then be_bytes 4 (unat (de_Checksum e)) else []"
  let ?flags = "be_bytes F (unat (de_Flags e))"
  have e: "length (de_EKey e) = 16" "unat (de_EncodedSize e) < 2 ^ 40" "unat (de_Flags e) < 256 ^ F"
    "\<not> c \<Longrightarrow> de_Checksum e = 0"
    using ok by (auto simp: download_entry_ok_def F_def c_def)
  have KF: "K \<le> 16" "0 < K" "0 < dh_FlagByteSize hdr \<longleftrightarrow> 0 < F"
    using k by (simp_all add: K_def F_def flag_byte_pos)
  have d0: "drop o0 data = take K (de_EKey e) @ be_bytes 5 (unat (de_EncodedSize e)) @ [de_Priority e] @
      ?csum @ ?flags @ r"
    using d by (simp add: o0_def K_def F_def c_def download_entry_bytes_def putBEUint5_eq putBE_eq
        putBEUintN_eq be_bytes_def)
  have len: "o0 + K + 6 + length ?csum + F \<le> length data"
    using arg_cong [OF d0, of length] e(1) KF by simp
  have at_off: "drop (o0 + j) data = drop j (take K (de_EKey e) @ be_bytes 5 (unat (de_EncodedSize e)) @
      [de_Priority e] @ ?csum @ ?flags @ r)" for j
    by (simp only: d0 [symmetric] drop_drop add.commute)
  have r0: "subslice data o0 (o0 + K) = Ret (take K (de_EKey e))"
    using len e(1) KF d0 by simp
  have r1: "bnd (subslice data (o0 + K) (o0 + K + 5)) beUint5 = Ret (de_EncodedSize e)"
    using len e(1,2) KF by (simp add: at_off beUint5_eq BEUint_eq be_val_be_bytes)
  have r2: "at data (o0 + K + 5) = Ret (de_Priority e)"
  proof -
    have "drop (o0 + (K + 5)) data = de_Priority e # ?csum @ ?flags @ r"
      unfolding at_off using e(1) KF by simp
    then have "data ! (o0 + (K + 5)) = de_Priority e"
      using len by (metis hd_drop_conv_nth list.sel(1) add_lessD1 add.assoc drop_eq_Nil2 linorder_not_le
          list.distinct(1))
    then show ?thesis using len by (simp add: add.assoc)
  qed
  have r3: "(if c then rdBE32 data (o0 + K + 5 + 1) (o0 + K + 5 + 1 + 4) else Ret 0) = Ret (de_Checksum e)"
  proof (cases c)
    case True
    have "drop (o0 + (K + 6)) data = be_bytes 4 (unat (de_Checksum e)) @ ?flags @ r"
      unfolding at_off using e(1) KF True by simp
    then have "drop (6 + (o0 + K)) data = be_bytes 4 (unat (de_Checksum e)) @ ?flags @ r"
      by (simp add: ac_simps)
    then show ?thesis
      using len True by (simp add: rdBE_Ret be_val_be_bytes unat_bounds)
  qed (simp add: e(4))
  have r4: "(if 0 < F then bnd (subslice data (o0 + K + 5 + 1 + length ?csum)
        (o0 + K + 5 + 1 + length ?csum + F)) (\<lambda>b. Ret (beUintN b)) else Ret 0) = Ret (de_Flags e)"
  proof (cases "0 < F")
    case True
    have "drop (o0 + (K + 6 + length ?csum)) data = ?flags @ r"
      unfolding at_off using e(1) KF by simp
    then have "drop (o0 + K + 5 + 1 + length ?csum) data = ?flags @ r"
      by (auto simp: ac_simps)
    then show ?thesis
      using len True e(3) by (simp add: beUintN_eq readBE_be_bytes_fit)
  next
    case False
    then show ?thesis using e(3) by (simp add: unat_eq_0)
  qed
  have o4: "(if c then o0 + K + 5 + 1 + 4 else o0 + K + 5 + 1) = o0 + K + 5 + 1 + length ?csum" by simp
  have "download_entry data hdr off i = Ret \<lparr>de_EKey = fit 16 (take K (de_EKey e)),
      de_EncodedSize = de_EncodedSize e, de_Priority = de_Priority e, de_Checksum = de_Checksum e,
      de_Flags = de_Flags e\<rparr>"
    unfolding download_entry_def Let_def o0_def [symmetric] K_def [symmetric] c_def [symmetric] o4
      KF(3) F_def [symmetric] r0 r1 r2 r3 r4 bnd.simps by simp
  then show ?thesis by (cases e) (simp add: read_download_entry_def K_def)
qed

lemma download_tags_step:
  assumes "0 \<notin> set (dt_Name t)"
  shows "download_tags (pre @ download_tag_bytes bl t @ r) bl (length pre) (Suc n) =
    bnd (download_tags (pre @ download_tag_bytes bl t @ r) bl (length (pre @ download_tag_bytes bl t)) n)
      (\<lambda>ts. Ret (read_download_tag bl t # ts))"
  using assms
  by (cases t) (simp add: download_tag_bytes_def index_zero_append rdBE_Ret Let_def read_download_tag_def
      putBE_eq be_val_be_bytes unat_bounds min_def ac_simps)

lemma download_tags_bytes:
  assumes "\<forall>t\<in>set ts. 0 \<notin> set (dt_Name t)"
  shows "download_tags (pre @ concat (map (download_tag_bytes bl) ts)) bl (length pre) (length ts) =
    Ret (map (read_download_tag bl) ts)"
  using assms
proof (induction ts arbitrary: pre)
  case (Cons t ts)
  have "download_tags ((pre @ download_tag_bytes bl t) @ concat (map (download_tag_bytes bl) ts)) bl
      (length (pre @ download_tag_bytes bl t)) (length ts) = Ret (map (read_download_tag bl) ts)"
    using Cons.prems by (intro Cons.IH) simp
  then show ?case
    using Cons.prems by (simp add: download_tags_step del: download_tags.simps(2))
qed simp

lemma version_cases:
  assumes "\<not> (v < 1 \<or> 3 < v)"
  obtains "v = (1 :: u8)" | "v = 2" | "v = 3"
proof -
  have "unat v = unat (1 :: u8) \<or> unat v = unat (2 :: u8) \<or> unat v = unat (3 :: u8)"
    using assms by (auto simp: word_less_nat_alt)
  then show thesis
    using that by (blast intro: unsigned_word_eqI)
qed

text \<open>The fields of an encoded header.\<close>

lemma download_header_read:
  assumes "data = download_header_bytes v k opts n m @ r" "\<not> (v < 1 \<or> 3 < v)"
  shows "rdLE16 data 0 2 = Ret downloadMagic" "at data 2 = Ret v" "at data 3 = Ret k"
    "at data 4 = Ret (if wd_EntryHasChecksum opts then 1 else 0)"
    "rdBE32 data 5 9 = Ret (word_of_nat n)" "rdBE16 data 9 11 = Ret (word_of_nat m)"
    "download_v23 data v = Ret (if 2 \<le> v then wd_FlagByteSize opts else 0,
       if 3 \<le> v then wd_BasePriority opts else 0, length (download_header_bytes v k opts n m))"
    "11 \<le> length data"
proof -
  have sh: "\<exists>tl. data = putLE16 downloadMagic @ [v, k, if wd_EntryHasChecksum opts then 1 else 0] @
      be_bytes 4 (unat (word_of_nat n :: u32)) @ be_bytes 2 (unat (word_of_nat m :: u16)) @ tl"
    by (simp add: assms(1) download_header_bytes_def putBE_eq)
  then show "rdLE16 data 0 2 = Ret downloadMagic" "at data 2 = Ret v" "at data 3 = Ret k"
    "at data 4 = Ret (if wd_EntryHasChecksum opts then 1 else 0)"
    "rdBE32 data 5 9 = Ret (word_of_nat n)" "rdBE16 data 9 11 = Ret (word_of_nat m)" "11 \<le> length data"
    by (auto simp: nth_append rdBE_Ret be_val_be_bytes unat_bounds)
  show "download_v23 data v = Ret (if 2 \<le> v then wd_FlagByteSize opts else 0,
       if 3 \<le> v then wd_BasePriority opts else 0, length (download_header_bytes v k opts n m))"
    using assms(2) by (cases rule: version_cases)
      (simp_all add: assms(1) download_header_bytes_def download_v23_def putBE_eq nth_append)
qed

text \<open>
  C10. For every version, key length, flag width and checksum option, ParseDownload returns the
  entries EncodeDownload wrote, with their keys cut to the key length, and the tags, with their
  bitmaps padded to one bit per entry. This holds when version 1 is used without flags, sizes
  are below 2^40, flags fit their width, checksums are zero where the option leaves them out,
  tag names are free of NUL bytes, and there are fewer than 2^16 tags and 2^32 - 7 entries.
\<close>

theorem download_roundtrip:
  assumes "EncodeDownload entries tags opts = Ret data"
    and "wd_version opts = 1 \<Longrightarrow> wd_FlagByteSize opts = 0"
    and "\<forall>e\<in>set entries. download_entry_ok (wd_EntryHasChecksum opts) (unat (wd_FlagByteSize opts)) e"
    and "\<forall>t\<in>set tags. 0 \<notin> set (dt_Name t)"
    and "length tags < 2 ^ 16" "length entries < 2 ^ 32 - 7"
  shows "\<exists>m. ParseDownload data = Ret m
    \<and> dm_Entries m = map (read_download_entry (unat (wd_keylen opts))) entries
    \<and> dm_Tags m = map (read_download_tag ((length entries + 7) div 8)) tags
    \<and> dh_Version (dm_Header m) = wd_version opts
    \<and> dh_FlagByteSize (dm_Header m) = (if wd_version opts = 1 then 0 else wd_FlagByteSize opts)"
proof -
  let ?v = "wd_version opts" and ?k = "wd_keylen opts" and ?c = "wd_EntryHasChecksum opts"
  let ?f = "wd_FlagByteSize opts" and ?n = "length entries" and ?m = "length tags"
  define bl where "bl = (?n + 7) div 8"
  define H where "H = download_header_bytes ?v ?k opts ?n ?m"
  let ?eb = "download_entry_bytes (unat ?k) ?c (unat ?f)"
  let ?E = "concat (map ?eb entries)" and ?T = "concat (map (download_tag_bytes bl) tags)"
  have v: "\<not> (?v < 1 \<or> 3 < ?v)" and k: "unat ?k \<le> 16" and data: "data = H @ ?E @ ?T"
    using assms(1) by (auto simp: EncodeDownload_def Let_def guard_eq_Ret MD5HashSize_def H_def bl_def)
  have k0: "?k \<noteq> 0" by (simp add: wd_keylen_def)
  then have k1: "0 < unat ?k" by (simp add: unat_gt_0)
  note hd = download_header_read [OF data [unfolded H_def] v, folded H_def]
  have flag: "(if 2 \<le> ?v then ?f else 0) = ?f"
    using v assms(2) by (cases rule: version_cases) auto
  let ?L = "download_entry_length ?k ?f ?c"
  define hdr where "hdr = \<lparr>dh_Version = ?v, dh_EKeyLength = ?k, dh_EntryHasChecksum = ?c,
      dh_EntryCount = word_of_nat ?n, dh_TagCount = word_of_nat ?m, dh_FlagByteSize = ?f,
      dh_BasePriority = (if 3 \<le> ?v then wd_BasePriority opts else 0), dh_HeaderLength = length H,
      dh_EntryLength = ?L\<rparr>"
  have u: "unat (word_of_nat ?n :: u32) = ?n" "unat (word_of_nat ?m :: u16) = ?m"
    using assms(5,6) by (intro unat_word_of_nat; simp)+
  have bl: "unat ((word_of_nat ?n + 7 :: u32) div 8) = bl"
  proof -
    have "unat (word_of_nat (?n + 7) :: u32) = ?n + 7" using assms(6) by (intro unat_word_of_nat) simp
    then show ?thesis by (simp add: bl_def unat_div)
  qed
  have elen: "length (?eb e) = ?L" if "e \<in> set entries" for e
    using assms(3) that k by (intro length_download_entry_bytes) (auto simp: download_entry_ok_def)
  have E: "length ?E = ?n * ?L"
    using elen by (subst length_concat_const [where k = ?L]) auto
  have entries: "mapM (download_entry data hdr (length H)) [0..<?n] =
      Ret (map (\<lambda>i. read_download_entry (unat ?k) (entries ! i)) [0..<?n])"
  proof (rule mapM_all_Ret)
    fix i assume i: "i \<in> set [0..<?n]"
    then have "drop (i * ?L) ?E = ?eb (entries ! i) @ concat (map ?eb (drop (Suc i) entries))"
      using elen by (intro drop_concat_nth) auto
    moreover have "i * ?L \<le> length ?E" using i by (simp add: E)
    ultimately have "drop (length H + i * ?L) data =
        ?eb (entries ! i) @ concat (map ?eb (drop (Suc i) entries)) @ ?T"
      by (simp add: data)
    then show "download_entry data hdr (length H) i = Ret (read_download_entry (unat ?k) (entries ! i))"
      using download_entry_read [of "length H" i hdr data "entries ! i"] assms(3) k k1 i
      by (simp add: hdr_def)
  qed
  have tags: "download_tags data bl (length H + ?n * ?L) ?m = Ret (map (read_download_tag bl) tags)"
    using download_tags_bytes [OF assms(4), of "H @ ?E" bl] by (simp add: data E)
  have len: "\<not> length data < 10" "\<not> length data < length H + ?n * ?L"
    using hd(8) by (simp_all add: data E)
  have c: "((if ?c then 1 else 0 :: u8) \<noteq> 0) = ?c" by simp
  have "ParseDownload data = Ret \<lparr>dm_Header = hdr,
      dm_Entries = map (\<lambda>i. read_download_entry (unat ?k) (entries ! i)) [0..<?n],
      dm_Tags = map (read_download_tag bl) tags\<rparr>"
    unfolding ParseDownload_def hd(1-7) bnd.simps prod.case flag c Let_def hdr_def [symmetric]
    using len k k0 v entries tags
    by (simp add: hdr_def [symmetric] u bl MD5HashSize_def) (simp add: hdr_def)
  moreover have "map (\<lambda>i. read_download_entry (unat ?k) (entries ! i)) [0..<?n] =
      map (read_download_entry (unat ?k)) entries"
    by (rule nth_equalityI) simp_all
  ultimately show ?thesis
    using assms(2) by (simp add: hdr_def bl_def)
qed

text \<open>
  Version 1 has no field for the flag width, yet the writer still emits the flags: the second
  entry's key is read from the first entry's flag byte.
\<close>

definition v1_sample :: "u8 \<Rightarrow> u64 \<Rightarrow> DownloadEntry" where
  "v1_sample k flags = \<lparr>de_EKey = k # replicate 15 0, de_EncodedSize = 0, de_Priority = 0,
     de_Checksum = 0, de_Flags = flags\<rparr>"

definition v1_opts :: WriteDownloadOptions where
  "v1_opts = \<lparr>wd_Version = 1, wd_EKeyLength = 1, wd_FlagByteSize = 1, wd_EntryHasChecksum = False,
     wd_BasePriority = 0\<rparr>"

lemma v1_sample_encode:
  "EncodeDownload [v1_sample 1 7, v1_sample 2 9] [] v1_opts =
   Ret ([0x44, 0x4C, 1, 1, 0, 0, 0, 0, 2, 0, 0] @ [1, 0, 0, 0, 0, 0, 0, 7] @ [2, 0, 0, 0, 0, 0, 0, 9])"
  by (simp add: EncodeDownload_def download_entry_bytes_def v1_sample_def putBEUint5_def putBEUintN_def
      v1_opts_def wd_version_def wd_keylen_def download_header_bytes_def downloadMagic_def MD5HashSize_def
      putLE16_def le_bytes_numeral putBEUint32_def putBEUint16_def word_le_nat_alt)

theorem download_v1_flags_misread:
  "bnd (EncodeDownload [v1_sample 1 7, v1_sample 2 9] [] v1_opts)
     (\<lambda>data. bnd (ParseDownload data) (\<lambda>m. Ret (map (\<lambda>e. hd (de_EKey e)) (dm_Entries m)))) =
   Ret [1, 7]"
  unfolding v1_sample_encode bnd.simps
  by (simp add: ParseDownload_def downloadMagic_def download_v23_def download_entry_length_def
      MD5HashSize_def download_entry_def upt_rec Let_def beUint5_def fit_def rdBE_Ret be_val_def
      word_le_nat_alt)

section \<open>The theorems at work\<close>

theorem ParseDownload_safe_witness: "safe (ParseDownload (replicate 11 0x44))"
  by (rule ParseDownload_safe) simp

definition v3_opts :: WriteDownloadOptions where
  "v3_opts = \<lparr>wd_Version = 0, wd_EKeyLength = 9, wd_FlagByteSize = 1, wd_EntryHasChecksum = False,
     wd_BasePriority = 2\<rparr>"

theorem download_roundtrip_witness:
  "\<exists>data m. EncodeDownload [v1_sample 1 7, v1_sample 2 9] [\<lparr>dt_Name = [0x61], dt_Type = 1, dt_Bitmap = [0xC0]\<rparr>] v3_opts
       = Ret data
     \<and> ParseDownload data = Ret m
     \<and> dm_Entries m = map (read_download_entry 9) [v1_sample 1 7, v1_sample 2 9]"
proof -
  let ?t = "\<lparr>dt_Name = [0x61], dt_Type = 1, dt_Bitmap = [0xC0]\<rparr>"
  obtain data where e: "EncodeDownload [v1_sample 1 7, v1_sample 2 9] [?t] v3_opts = Ret data"
    by (simp add: EncodeDownload_def Let_def v3_opts_def wd_version_def wd_keylen_def word_less_nat_alt
        MD5HashSize_def)
  have "\<exists>m. ParseDownload data = Ret m
    \<and> dm_Entries m = map (read_download_entry (unat (wd_keylen v3_opts))) [v1_sample 1 7, v1_sample 2 9]
    \<and> dm_Tags m = map (read_download_tag ((length [v1_sample 1 7, v1_sample 2 9] + 7) div 8)) [?t]
    \<and> dh_Version (dm_Header m) = wd_version v3_opts
    \<and> dh_FlagByteSize (dm_Header m) = (if wd_version v3_opts = 1 then 0 else wd_FlagByteSize v3_opts)"
    by (rule download_roundtrip [OF e])
      (simp_all add: v3_opts_def wd_version_def v1_sample_def download_entry_ok_def)
  with e show ?thesis by (auto simp: v3_opts_def wd_keylen_def)
qed

end
