(* ===== verification/Cmf.thy ===== *)
theory Cmf
  imports CascBase GoText
begin

text \<open>
  \<^verbatim>\<open>internal/root/overwatch/cmf.go\<close>: content manifest files (three header variants, an encrypted payload,
  the asset list), the registry of key providers, and APM files. SHA-1 and AES in CBC mode belong to the
  standard library and are the fields of \<open>cmf_crypto\<close>. The package's own \<^verbatim>\<open>ErrEncrypted\<close> wraps no sentinel
  of \<^verbatim>\<open>casc\<close>; it is \<open>ErrOther\<close> like the package's other errors. Fields of type \<^verbatim>\<open>int32\<close> are words read with
  \<open>sint\<close>.
\<close>

unbundle bit_operations_syntax

section \<open>The header\<close>

definition overwatchVersion122PTR :: u32 where "overwatchVersion122PTR = 47161"
definition overwatchVersion148PTR :: u32 where "overwatchVersion148PTR = 68309"
definition cmfEncryptedMagicBE :: u32 where "cmfEncryptedMagicBE = 0x636D66"
definition cmfHashEntry100Size :: nat where "cmfHashEntry100Size = 8 + 4 + 16"
definition cmfHashEntry135Size :: nat where "cmfHashEntry135Size = 8 + 4 + 1 + 16"
definition apmEntryV2Size :: nat where "apmEntryV2Size = 24"

record CMFHeader =
  ch_BuildVersion :: u32
  ch_Unk04 :: u32
  ch_Unk08 :: u32
  ch_Unk0C :: u32
  ch_Unk10 :: u32
  ch_Unk14 :: u32
  ch_Unk18 :: u32
  ch_DataPatchRecordCount :: u32
  ch_DataCount :: u32
  ch_EntryPatchRecordCount :: u32
  ch_EntryCount :: u32
  ch_Magic :: u32

definition IsEncrypted :: "CMFHeader \<Rightarrow> bool" where
  "IsEncrypted h \<longleftrightarrow> drop_bit 8 (ch_Magic h) = cmfEncryptedMagicBE"

definition cmf_Version :: "CMFHeader \<Rightarrow> u8" where
  "cmf_Version h = (if IsEncrypted h then ucast (ch_Magic h AND 0xFF) else ucast (drop_bit 24 (ch_Magic h) AND 0xFF))"

definition read_v148 :: "bytes \<Rightarrow> CMFHeader outcome" where
  "read_v148 buf =
     bnd (rdLE32 buf 0 4) (\<lambda>build. bnd (rdLE32 buf 4 8) (\<lambda>u04. bnd (rdLE32 buf 8 12) (\<lambda>u08. bnd (rdLE32 buf 12 16) (\<lambda>u0C.
     bnd (rdLE32 buf 16 20) (\<lambda>u10. bnd (rdLE32 buf 20 24) (\<lambda>u14. bnd (rdLE32 buf 24 28) (\<lambda>u18. bnd (rdLE32 buf 28 32) (\<lambda>dpatch.
     bnd (rdLE32 buf 32 36) (\<lambda>dcount. bnd (rdLE32 buf 36 40) (\<lambda>epatch. bnd (rdLE32 buf 40 44) (\<lambda>ecount. bnd (rdLE32 buf 44 48) (\<lambda>magic.
     Ret \<lparr>ch_BuildVersion = build, ch_Unk04 = u04, ch_Unk08 = u08, ch_Unk0C = u0C, ch_Unk10 = u10, ch_Unk14 = u14, ch_Unk18 = u18,
       ch_DataPatchRecordCount = dpatch, ch_DataCount = dcount, ch_EntryPatchRecordCount = epatch, ch_EntryCount = ecount,
       ch_Magic = magic\<rparr>))))))))))))"

definition read_v122 :: "bytes \<Rightarrow> CMFHeader outcome" where
  "read_v122 buf =
     bnd (rdLE32 buf 0 4) (\<lambda>build. bnd (rdLE32 buf 4 8) (\<lambda>u04. bnd (rdLE32 buf 8 12) (\<lambda>u08. bnd (rdLE32 buf 12 16) (\<lambda>u0C.
     bnd (rdLE32 buf 16 20) (\<lambda>u10. bnd (rdLE32 buf 20 24) (\<lambda>u14. bnd (rdLE32 buf 24 28) (\<lambda>dcount. bnd (rdLE32 buf 28 32) (\<lambda>u18.
     bnd (rdLE32 buf 32 36) (\<lambda>ecount. bnd (rdLE32 buf 36 40) (\<lambda>magic.
     Ret \<lparr>ch_BuildVersion = build, ch_Unk04 = u04, ch_Unk08 = u08, ch_Unk0C = u0C, ch_Unk10 = u10, ch_Unk14 = u14, ch_Unk18 = u18,
       ch_DataPatchRecordCount = 0, ch_DataCount = dcount, ch_EntryPatchRecordCount = 0, ch_EntryCount = ecount, ch_Magic = magic\<rparr>))))))))))"

definition read_v100 :: "bytes \<Rightarrow> CMFHeader outcome" where
  "read_v100 buf =
     bnd (rdLE32 buf 0 4) (\<lambda>build. bnd (rdLE32 buf 4 8) (\<lambda>u04. bnd (rdLE32 buf 8 12) (\<lambda>u08. bnd (rdLE32 buf 12 16) (\<lambda>u10.
     bnd (rdLE32 buf 16 20) (\<lambda>u14. bnd (rdLE32 buf 20 24) (\<lambda>dcount. bnd (rdLE32 buf 24 28) (\<lambda>u18. bnd (rdLE32 buf 28 32) (\<lambda>ecount.
     bnd (rdLE32 buf 32 36) (\<lambda>magic.
     Ret \<lparr>ch_BuildVersion = build, ch_Unk04 = u04, ch_Unk08 = u08, ch_Unk0C = 0, ch_Unk10 = u10, ch_Unk14 = u14, ch_Unk18 = u18,
       ch_DataPatchRecordCount = 0, ch_DataCount = dcount, ch_EntryPatchRecordCount = 0, ch_EntryCount = ecount, ch_Magic = magic\<rparr>)))))))))"

text \<open>The header and the number of bytes it takes.\<close>

definition readHeader :: "bytes \<Rightarrow> (CMFHeader \<times> nat) outcome" where
  "readHeader buf =
     guard (length buf < 4) ErrOther (
     bnd (rdLE32 buf 0 4) (\<lambda>build.
     if overwatchVersion148PTR < build then guard (length buf < 48) ErrOther (bnd (read_v148 buf) (\<lambda>h. Ret (h, 48)))
     else if overwatchVersion122PTR < build then guard (length buf < 40) ErrOther (bnd (read_v122 buf) (\<lambda>h. Ret (h, 40)))
     else guard (length buf < 36) ErrOther (bnd (read_v100 buf) (\<lambda>h. Ret (h, 36)))))"

section \<open>Key providers\<close>

type_synonym KeyProvider = "CMFHeader \<Rightarrow> bytes \<Rightarrow> (bytes \<times> bytes) outcome"

record cmf_KeyRegistry =
  kr_providers :: "u32 \<Rightarrow> KeyProvider option"

definition cmf_NewKeyRegistry :: cmf_KeyRegistry where
  "cmf_NewKeyRegistry = \<lparr>kr_providers = (\<lambda>_. None)\<rparr>"

definition kr_Register :: "u32 \<Rightarrow> KeyProvider \<Rightarrow> cmf_KeyRegistry \<Rightarrow> cmf_KeyRegistry" where
  "kr_Register build p r = r\<lparr>kr_providers := (kr_providers r)(build \<mapsto> p)\<rparr>"

text \<open>The registry pointer may be nil.\<close>

definition kr_Find :: "cmf_KeyRegistry option \<Rightarrow> u32 \<Rightarrow> KeyProvider option" where
  "kr_Find r build = (case r of None \<Rightarrow> None | Some r \<Rightarrow> kr_providers r build)"

record cmf_crypto =
  sha1 :: "bytes \<Rightarrow> bytes"
  aes_cbc :: "bytes \<Rightarrow> bytes \<Rightarrow> bytes \<Rightarrow> bytes"

text \<open>\<^verbatim>\<open>aes.NewCipher\<close> accepts keys of 16, 24 or 32 bytes; \<^verbatim>\<open>NewCBCDecrypter\<close> panics on an IV that is not a block.\<close>

definition aesCBCDecryptInPlace :: "cmf_crypto \<Rightarrow> bytes \<Rightarrow> bytes \<Rightarrow> bytes \<Rightarrow> bytes outcome" where
  "aesCBCDecryptInPlace X buf k iv =
     guard (length buf mod 16 \<noteq> 0) ErrOther (
     guard (length k \<noteq> 16 \<and> length k \<noteq> 24 \<and> length k \<noteq> 32) ErrOther (
     if length iv \<noteq> 16 then Panic else Ret (aes_cbc X k iv buf)))"

section \<open>Content manifests\<close>

record CMFAsset =
  ca_GUID :: bytes
  ca_Size :: u32
  ca_CKey :: key

record CMF =
  cm_Header :: CMFHeader
  cm_Assets :: "CMFAsset list"

definition cmf_decrypt :: "cmf_crypto \<Rightarrow> CMFHeader \<Rightarrow> bytes \<Rightarrow> bytes \<Rightarrow> cmf_KeyRegistry option \<Rightarrow> bytes outcome" where
  "cmf_decrypt X hdr body plainName keys =
     (if IsEncrypted hdr then
        case kr_Find keys (ch_BuildVersion hdr) of
          None \<Rightarrow> Fail ErrOther
        | Some prov \<Rightarrow> bnd (prov hdr (sha1 X plainName)) (\<lambda>(k, iv). aesCBCDecryptInPlace X body k iv)
      else Ret body)"

text \<open>One row of the hash list at offset \<open>o\<close>; the newer form has a byte before the key.\<close>

definition read_asset :: "nat \<Rightarrow> bytes \<Rightarrow> nat \<Rightarrow> CMFAsset outcome" where
  "read_asset skip body k =
     bnd (subslice body k (k + 8)) (\<lambda>guid.
     bnd (rdLE32 body (k + 8) (k + 12)) (\<lambda>sz.
     bnd (subslice body (k + 12 + skip) (k + 28 + skip)) (\<lambda>ck.
     Ret \<lparr>ca_GUID = guid, ca_Size = sz, ca_CKey = ck\<rparr>)))"

definition cmf_assets :: "CMFHeader \<Rightarrow> bytes \<Rightarrow> CMFAsset list outcome" where
  "cmf_assets hdr body =
     (let n = nat (sint (ch_DataCount hdr)) in
      if 57230 \<le> ch_BuildVersion hdr then
        guard (length body < n * cmfHashEntry135Size) ErrOther (
        mapM (\<lambda>i. read_asset 1 body (i * cmfHashEntry135Size)) [0..<n])
      else
        guard (length body < n * cmfHashEntry100Size) ErrOther (
        mapM (\<lambda>i. read_asset 0 body (i * cmfHashEntry100Size)) [0..<n]))"

definition LoadCMF :: "cmf_crypto \<Rightarrow> bytes \<Rightarrow> bytes \<Rightarrow> cmf_KeyRegistry option \<Rightarrow> CMF outcome" where
  "LoadCMF X data plainName keys =
     bnd (readHeader data) (\<lambda>(hdr, hdrSize).
     bnd (subslice_from data hdrSize) (\<lambda>stored.
     bnd (cmf_decrypt X hdr stored plainName keys) (\<lambda>body.
     guard (sint (ch_EntryCount hdr) < 0) ErrOther (
     let skip = nat (sint (ch_EntryCount hdr)) * apmEntryV2Size in
     guard (length body < skip) ErrOther (
     bnd (subslice_from body skip) (\<lambda>body.
     guard (sint (ch_DataCount hdr) < 0) ErrOther (
     bnd (cmf_assets hdr body) (\<lambda>assets.
     Ret \<lparr>cm_Header = hdr, cm_Assets = assets\<rparr>))))))))"

section \<open>Application package manifests\<close>

record APMHeader =
  ah_BuildNumber :: u64
  ah_PackageCount :: u32
  ah_EntryCount :: u32
  ah_Magic :: u32

record APMEntry =
  ap_Index :: u32
  ap_HashA :: u64
  ap_HashB :: u64
  ap_Padding :: u32

record APM =
  apm_Header :: APMHeader
  apm_Entries :: "APMEntry list"

definition read_apm_entry :: "bytes \<Rightarrow> nat \<Rightarrow> APMEntry outcome" where
  "read_apm_entry body k =
     bnd (rdLE32 body k (k + 4)) (\<lambda>idx.
     bnd (rdLE64 body (k + 4) (k + 12)) (\<lambda>a.
     bnd (rdLE64 body (k + 12) (k + 20)) (\<lambda>b.
     bnd (rdLE32 body (k + 20) (k + 24)) (\<lambda>pad.
     Ret \<lparr>ap_Index = idx, ap_HashA = a, ap_HashB = b, ap_Padding = pad\<rparr>))))"

definition LoadAPM :: "bytes \<Rightarrow> APM outcome" where
  "LoadAPM data =
     guard (length data < 36) ErrOther (
     bnd (rdLE64 data 0 8) (\<lambda>build.
     bnd (rdLE32 data 20 24) (\<lambda>packages.
     bnd (rdLE32 data 28 32) (\<lambda>entries.
     bnd (rdLE32 data 32 36) (\<lambda>magic.
     bnd (subslice_from data 36) (\<lambda>body.
     guard (length body < unat entries * apmEntryV2Size) ErrOther (
     bnd (mapM (\<lambda>i. read_apm_entry body (i * apmEntryV2Size)) [0..<unat entries]) (\<lambda>es.
     Ret \<lparr>apm_Header = \<lparr>ah_BuildNumber = build, ah_PackageCount = packages, ah_EntryCount = entries, ah_Magic = magic\<rparr>,
          apm_Entries = es\<rparr>))))))))"

text \<open>\<^verbatim>\<open>%016X\<close>: sixteen upper-case hexadecimal digits, the most significant byte first.\<close>

definition AssetFileName :: "bytes \<Rightarrow> CMFAsset \<Rightarrow> bytes outcome" where
  "AssetFileName plainCmfName asset =
     bnd (LE64 (ca_GUID asset)) (\<lambda>id.
     Ret (lit ''ContentManifestFiles/'' @ plainCmfName @ lit ''/'' @ map upper_byte (hex_encode (be_bytes 8 (unat id)))))"

section \<open>Reading back what a manifest is written as\<close>

text \<open>The bytes of a header in each of the three layouts, and of a row of the asset list.\<close>

definition cmf_header_bytes :: "CMFHeader \<Rightarrow> bytes" where
  "cmf_header_bytes h = concat (map putLE32
     (if overwatchVersion148PTR < ch_BuildVersion h then
        [ch_BuildVersion h, ch_Unk04 h, ch_Unk08 h, ch_Unk0C h, ch_Unk10 h, ch_Unk14 h, ch_Unk18 h,
         ch_DataPatchRecordCount h, ch_DataCount h, ch_EntryPatchRecordCount h, ch_EntryCount h, ch_Magic h]
      else if overwatchVersion122PTR < ch_BuildVersion h then
        [ch_BuildVersion h, ch_Unk04 h, ch_Unk08 h, ch_Unk0C h, ch_Unk10 h, ch_Unk14 h, ch_DataCount h, ch_Unk18 h,
         ch_EntryCount h, ch_Magic h]
      else
        [ch_BuildVersion h, ch_Unk04 h, ch_Unk08 h, ch_Unk10 h, ch_Unk14 h, ch_DataCount h, ch_Unk18 h, ch_EntryCount h,
         ch_Magic h]))"

text \<open>The older layouts have no place for some of the fields.\<close>

definition cmf_header_ok :: "CMFHeader \<Rightarrow> bool" where
  "cmf_header_ok h \<longleftrightarrow>
     (ch_BuildVersion h \<le> overwatchVersion148PTR \<longrightarrow> ch_DataPatchRecordCount h = 0 \<and> ch_EntryPatchRecordCount h = 0) \<and>
     (ch_BuildVersion h \<le> overwatchVersion122PTR \<longrightarrow> ch_Unk0C h = 0)"

definition asset_bytes :: "u32 \<Rightarrow> u8 \<times> CMFAsset \<Rightarrow> bytes" where
  "asset_bytes build = (\<lambda>(c, a). ca_GUID a @ putLE32 (ca_Size a) @ (if 57230 \<le> build then [c] else []) @ ca_CKey a)"

definition asset_ok :: "CMFAsset \<Rightarrow> bool" where
  "asset_ok a \<longleftrightarrow> length (ca_GUID a) = 8 \<and> key_ok (ca_CKey a)"

lemma readHeader_bytes:
  assumes "cmf_header_ok h"
  shows "readHeader (cmf_header_bytes h @ rest) = Ret (h, length (cmf_header_bytes h))"
proof -
  consider (a) "overwatchVersion148PTR < ch_BuildVersion h"
    | (b) "\<not> overwatchVersion148PTR < ch_BuildVersion h" "overwatchVersion122PTR < ch_BuildVersion h"
    | (c) "\<not> overwatchVersion148PTR < ch_BuildVersion h" "\<not> overwatchVersion122PTR < ch_BuildVersion h"
    by blast
  then show ?thesis
  proof cases
    case a
    then show ?thesis by (simp add: readHeader_def cmf_header_bytes_def read_v148_def)
  next
    case b
    then show ?thesis using assms
      by (simp add: readHeader_def cmf_header_bytes_def read_v122_def cmf_header_ok_def)
  next
    case c
    then show ?thesis using assms
      by (simp add: readHeader_def cmf_header_bytes_def read_v100_def cmf_header_ok_def)
  qed
qed

lemma length_asset_bytes:
  "asset_ok (snd ca) \<Longrightarrow> length (asset_bytes build ca) = (if 57230 \<le> build then cmfHashEntry135Size else cmfHashEntry100Size)"
  by (cases ca) (simp add: asset_bytes_def asset_ok_def key_ok_def MD5HashSize_def cmfHashEntry135Size_def cmfHashEntry100Size_def)

lemma read_asset_bytes:
  assumes "asset_ok a" "drop k body = asset_bytes build (c, a) @ rest" "k \<le> length body"
  shows "read_asset (if 57230 \<le> build then 1 else 0) body k = Ret a"
proof -
  have len: "length body = k + length (asset_bytes build (c, a)) + length rest"
    using assms(3) arg_cong [OF assms(2), of length] by simp
  have d: "drop (k + j) body = drop j (asset_bytes build (c, a) @ rest)" for j
    using assms(2) by (metis drop_drop add.commute)
  show ?thesis
    using assms(1) len length_asset_bytes [of "(c, a)" build] d [of 8] d [of 12] d [of 13] assms(2)
    by (auto simp: add.commute [of _ k] read_asset_def asset_bytes_def asset_ok_def key_ok_def MD5HashSize_def cmfHashEntry135Size_def cmfHashEntry100Size_def)
qed

lemma cmf_assets_bytes:
  assumes "\<forall>ca \<in> set cas. asset_ok (snd ca)" "sint (ch_DataCount hdr) = int (length cas)"
  shows "cmf_assets hdr (concat (map (asset_bytes (ch_BuildVersion hdr)) cas) @ rest) = Ret (map snd cas)"
proof -
  let ?b = "ch_BuildVersion hdr"
  let ?sz = "if 57230 \<le> ?b then cmfHashEntry135Size else cmfHashEntry100Size"
  let ?rows = "concat (map (asset_bytes ?b) cas)"
  let ?body = "?rows @ rest"
  have len: "length (asset_bytes ?b ca) = ?sz" if "ca \<in> set cas" for ca
    using assms(1) that length_asset_bytes by blast
  have total: "length ?rows = ?sz * length cas"
    using length_concat_const [of cas "asset_bytes ?b" ?sz] len by blast
  have row: "read_asset (if 57230 \<le> ?b then 1 else 0) ?body (i * ?sz) = Ret (snd (cas ! i))" if "i < length cas" for i
  proof -
    have "i * ?sz \<le> length ?rows" using that total by simp
    moreover have "drop (i * ?sz) ?rows = asset_bytes ?b (cas ! i) @ concat (map (asset_bytes ?b) (drop (Suc i) cas))"
      using drop_concat_nth [of cas "asset_bytes ?b" ?sz i] len that by blast
    ultimately show ?thesis
      using read_asset_bytes [of "snd (cas ! i)" "i * ?sz" ?body ?b "fst (cas ! i)"] assms(1) that by simp
  qed
  have "mapM (\<lambda>i. read_asset (if 57230 \<le> ?b then 1 else 0) ?body (i * ?sz)) [0..<length cas] = Ret (map (\<lambda>i. snd (cas ! i)) [0..<length cas])"
    by (rule mapM_all_Ret) (use row in simp)
  moreover have "map (\<lambda>i. snd (cas ! i)) [0..<length cas] = map snd cas"
    by (rule nth_equalityI) simp_all
  ultimately show ?thesis
    using total assms(2) by (simp add: cmf_assets_def Let_def split: if_splits)
qed

text \<open>What the stored body must be for a given payload: the payload itself, or bytes that decrypt to it.\<close>

definition stored_as :: "cmf_crypto \<Rightarrow> cmf_KeyRegistry option \<Rightarrow> bytes \<Rightarrow> CMFHeader \<Rightarrow> bytes \<Rightarrow> bytes \<Rightarrow> bool" where
  "stored_as X keys plainName h payload stored \<longleftrightarrow>
     (if IsEncrypted h then
        (case kr_Find keys (ch_BuildVersion h) of None \<Rightarrow> False
         | Some prov \<Rightarrow> (case prov h (sha1 X plainName) of
             Ret (k, iv) \<Rightarrow> length k \<in> {16, 24, 32} \<and> length iv = 16 \<and> length stored mod 16 = 0 \<and> aes_cbc X k iv stored = payload
           | _ \<Rightarrow> False))
      else stored = payload)"

lemma cmf_decrypt_stored:
  "stored_as X keys plainName h payload stored \<Longrightarrow> cmf_decrypt X h stored plainName keys = Ret payload"
  by (auto simp: stored_as_def cmf_decrypt_def aesCBCDecryptInPlace_def
      split: if_splits option.splits outcome.splits)

text \<open>
  C27. A content manifest of any of the three header layouts, stored in plain or as bytes that
  decrypt to it under the key its provider gives, loads to its header and its assets in order,
  whatever follows them.
\<close>

theorem LoadCMF_readback:
  assumes "cmf_header_ok h" "0 \<le> sint (ch_EntryCount h)" "length apm = nat (sint (ch_EntryCount h)) * apmEntryV2Size"
    and "\<forall>ca \<in> set cas. asset_ok (snd ca)" "sint (ch_DataCount h) = int (length cas)"
    and "stored_as X keys plainName h (apm @ concat (map (asset_bytes (ch_BuildVersion h)) cas) @ rest) stored"
  shows "LoadCMF X (cmf_header_bytes h @ stored) plainName keys = Ret \<lparr>cm_Header = h, cm_Assets = map snd cas\<rparr>"
  using assms readHeader_bytes [OF assms(1), of stored] cmf_decrypt_stored [OF assms(6)]
    cmf_assets_bytes [OF assms(4,5), of rest]
  by (simp add: LoadCMF_def)

section \<open>Total and well-typed\<close>

lemma safe_readHeader: "safe (readHeader buf)"
  by (auto simp: readHeader_def read_v148_def read_v122_def read_v100_def safe_guard)

lemma readHeader_size: "readHeader buf = Ret (h, n) \<Longrightarrow> n \<le> length buf"
  by (auto simp: readHeader_def outcome_simps split: if_splits)

lemma readHeader_build: "readHeader buf = Ret (h, n) \<Longrightarrow> ch_BuildVersion h = word_of_nat (le_val (take 4 buf))"
  by (auto simp: readHeader_def read_v148_def read_v122_def read_v100_def outcome_simps split: if_splits)

lemma safe_read_asset: "k + 28 + skip \<le> length body \<Longrightarrow> safe (read_asset skip body k)"
  by (simp add: read_asset_def)

lemma row_end: "i < n \<Longrightarrow> n * sz \<le> len \<Longrightarrow> i * sz + sz \<le> (len :: nat)"
  using mult_le_mono1 [of "Suc i" n sz] by simp

lemma safe_cmf_assets: "safe (cmf_assets hdr body)"
  using row_end [of _ "nat (sint (ch_DataCount hdr))" 29 "length body"]
    row_end [of _ "nat (sint (ch_DataCount hdr))" 28 "length body"]
  by (auto simp: cmf_assets_def Let_def safe_guard cmfHashEntry135Size_def cmfHashEntry100Size_def
      intro!: safe_mapM safe_read_asset)

lemma safe_cmf_decrypt:
  assumes "\<And>prov. IsEncrypted hdr \<Longrightarrow> kr_Find keys (ch_BuildVersion hdr) = Some prov \<Longrightarrow>
      safe (prov hdr (sha1 X name)) \<and> (\<forall>k iv. prov hdr (sha1 X name) = Ret (k, iv) \<longrightarrow> length iv = 16)"
  shows "safe (cmf_decrypt X hdr body name keys)"
  using assms
  by (fastforce simp: cmf_decrypt_def aesCBCDecryptInPlace_def safe_bnd guard_def split: option.splits)

lemma safe_skip:
  "(\<And>b. safe (f b)) \<Longrightarrow> safe (guard c ErrOther (let skip = s in
     guard (length body < skip) ErrOther (bnd (subslice_from body skip) f)))"
  by (simp add: safe_guard safe_bnd Let_def safe_subslice_from)

lemma safe_asset_rows: "safe (guard c ErrOther (bnd (cmf_assets hdr body) (\<lambda>assets. Ret (f assets))))"
  by (simp add: safe_guard safe_bnd safe_cmf_assets)

lemma LoadCMF_safe_if:
  assumes "\<And>hdr n prov. readHeader data = Ret (hdr, n) \<Longrightarrow> IsEncrypted hdr \<Longrightarrow> kr_Find keys (ch_BuildVersion hdr) = Some prov \<Longrightarrow>
      safe (prov hdr (sha1 X name)) \<and> (\<forall>k iv. prov hdr (sha1 X name) = Ret (k, iv) \<longrightarrow> length iv = 16)"
  shows "safe (LoadCMF X data name keys)"
  unfolding LoadCMF_def
proof (rule safe_bndI [OF safe_readHeader], clarify)
  fix hdr n assume h: "readHeader data = Ret (hdr, n)"
  have "safe (cmf_decrypt X hdr body name keys)" for body
    by (rule safe_cmf_decrypt) (rule assms [OF h])
  then show "safe (bnd (subslice_from data n) (\<lambda>stored. bnd (cmf_decrypt X hdr stored name keys) (\<lambda>body.
      guard (sint (ch_EntryCount hdr) < 0) ErrOther (let skip = nat (sint (ch_EntryCount hdr)) * apmEntryV2Size in
      guard (length body < skip) ErrOther (bnd (subslice_from body skip) (\<lambda>body.
      guard (sint (ch_DataCount hdr) < 0) ErrOther (bnd (cmf_assets hdr body) (\<lambda>assets.
      Ret \<lparr>cm_Header = hdr, cm_Assets = assets\<rparr>))))))))"
    using readHeader_size [OF h] by (intro safe_bndI safe_skip safe_asset_rows) (simp_all add: safe_subslice_from)
qed

lemma read_asset_ok: "read_asset skip body k = Ret a \<Longrightarrow> asset_ok a"
  by (auto simp: read_asset_def outcome_simps asset_ok_def key_ok_def MD5HashSize_def)

lemma mapM_Ret_all: "mapM f xs = Ret ys \<Longrightarrow> (\<And>x y. f x = Ret y \<Longrightarrow> P y) \<Longrightarrow> \<forall>y \<in> set ys. P y"
  by (induction xs arbitrary: ys) (auto simp: bnd_eq_Ret)

lemma cmf_assets_shape:
  assumes "cmf_assets hdr body = Ret as"
  shows "length as = nat (sint (ch_DataCount hdr))" "\<forall>a \<in> set as. asset_ok a"
proof -
  let ?n = "nat (sint (ch_DataCount hdr))"
  obtain skip sz where m: "mapM (\<lambda>i. read_asset skip body (i * sz)) [0..<?n] = Ret as"
    using assms by (auto simp: cmf_assets_def Let_def outcome_simps split: if_splits)
  show "length as = ?n" using mapM_Ret_length [OF m] by simp
  show "\<forall>a \<in> set as. asset_ok a" by (rule mapM_Ret_all [OF m]) (rule read_asset_ok)
qed

text \<open>
  C28. Every loaded content manifest is well-formed: its assets have GUIDs of 8 bytes and keys
  of 16, there are as many as the header counts, neither count is negative, and the build is
  the file's first word.
\<close>

theorem LoadCMF_typed:
  assumes "LoadCMF X data name keys = Ret c"
  shows "(\<forall>a \<in> set (cm_Assets c). asset_ok a) \<and> length (cm_Assets c) = nat (sint (ch_DataCount (cm_Header c))) \<and>
    0 \<le> sint (ch_DataCount (cm_Header c)) \<and> 0 \<le> sint (ch_EntryCount (cm_Header c)) \<and>
    ch_BuildVersion (cm_Header c) = word_of_nat (le_val (take 4 data))"
  using assms cmf_assets_shape readHeader_build
  by (auto simp: LoadCMF_def bnd_eq_Ret guard_eq_Ret Let_def split: prod.splits)

section \<open>Application package manifests: safety and reading back\<close>

lemma LoadAPM_safe: "safe (LoadAPM data)"
proof -
  have "safe (mapM (\<lambda>i. read_apm_entry body (i * apmEntryV2Size)) [0..<n])" if "n * apmEntryV2Size \<le> length body" for n body
    using row_end [of _ n apmEntryV2Size "length body"] that
    by (auto simp: read_apm_entry_def apmEntryV2Size_def intro!: safe_mapM)
  then show ?thesis by (auto simp: LoadAPM_def safe_guard)
qed

definition apm_bytes :: "bytes \<Rightarrow> bytes \<Rightarrow> APM \<Rightarrow> bytes" where
  "apm_bytes gapA gapB p =
     putLE64 (ah_BuildNumber (apm_Header p)) @ gapA @ putLE32 (ah_PackageCount (apm_Header p)) @ gapB @
     putLE32 (ah_EntryCount (apm_Header p)) @ putLE32 (ah_Magic (apm_Header p)) @
     concat (map (\<lambda>e. putLE32 (ap_Index e) @ putLE64 (ap_HashA e) @ putLE64 (ap_HashB e) @ putLE32 (ap_Padding e)) (apm_Entries p))"

lemma LoadAPM_readback:
  assumes "length gapA = 12" "length gapB = 4" "length (apm_Entries p) = unat (ah_EntryCount (apm_Header p))"
  shows "LoadAPM (apm_bytes gapA gapB p @ rest) = Ret p"
proof -
  let ?f = "\<lambda>e. putLE32 (ap_Index e) @ putLE64 (ap_HashA e) @ putLE64 (ap_HashB e) @ putLE32 (ap_Padding e)"
  let ?es = "apm_Entries p" and ?body = "concat (map ?f (apm_Entries p)) @ rest"
  have total: "length (concat (map ?f ?es)) = 24 * length ?es"
    by (rule length_concat_const) simp
  have row: "read_apm_entry ?body (i * 24) = Ret (?es ! i)" if "i < length ?es" for i
  proof -
    define e where "e = ?es ! i"
    define tl where "tl = concat (map ?f (drop (Suc i) ?es)) @ rest"
    have d: "drop (i * 24) ?body = ?f e @ tl"
      using drop_concat_nth [of ?es ?f 24 i] total that by (simp add: e_def tl_def)
    have len: "i * 24 + 24 \<le> length ?body" using total that by simp
    have "read_apm_entry body (i * 24) = Ret e" if "drop (i * 24) body = ?f e @ tl" "i * 24 + 24 \<le> length body" for body
    proof -
      have "drop (i * 24 + j) body = drop j (?f e @ tl)" for j
        unfolding that(1) [symmetric] by (simp add: add.commute)
      from this [of 4] this [of 12] this [of 20] that show ?thesis by (simp add: read_apm_entry_def)
    qed
    from this [OF d len]
    show ?thesis by (simp add: e_def)
  qed
  have "mapM (\<lambda>i. read_apm_entry ?body (i * 24)) [0..<length ?es] = Ret (map (\<lambda>i. ?es ! i) [0..<length ?es])"
    by (rule mapM_all_Ret) (use row in simp)
  then have "mapM (\<lambda>i. read_apm_entry ?body (i * 24)) [0..<length ?es] = Ret ?es"
    by (simp add: map_nth)
  then show ?thesis
    using assms total by (simp add: LoadAPM_def apm_bytes_def apmEntryV2Size_def)
qed

section \<open>The theorems at concrete inputs\<close>

text \<open>An encrypted manifest of build 70000 with one asset, its body padded to whole blocks; the cipher flips every byte.\<close>

definition flip_crypto :: cmf_crypto where
  "flip_crypto = \<lparr>sha1 = fit 20, aes_cbc = (\<lambda>k iv. map (\<lambda>b. NOT b))\<rparr>"

definition sample_header :: CMFHeader where
  "sample_header = \<lparr>ch_BuildVersion = 70000, ch_Unk04 = 1, ch_Unk08 = 2, ch_Unk0C = 3, ch_Unk10 = 4, ch_Unk14 = 5, ch_Unk18 = 6,
     ch_DataPatchRecordCount = 7, ch_DataCount = 1, ch_EntryPatchRecordCount = 8, ch_EntryCount = 1, ch_Magic = 0x636D6619\<rparr>"

definition sample_asset :: CMFAsset where
  "sample_asset = \<lparr>ca_GUID = replicate 8 9, ca_Size = 77, ca_CKey = replicate 16 10\<rparr>"

definition sample_keys :: cmf_KeyRegistry where
  "sample_keys = kr_Register 70000 (\<lambda>h d. Ret (replicate 32 1, replicate 16 2)) cmf_NewKeyRegistry"

definition sample_payload :: bytes where
  "sample_payload = replicate 24 0 @ concat (map (asset_bytes 70000) [(5, sample_asset)]) @ replicate 11 0"

lemma sample_stored:
  "stored_as flip_crypto (Some sample_keys) [97] sample_header sample_payload (map (\<lambda>b. NOT b) sample_payload)"
proof -
  have "length sample_payload = 64"
    by (simp add: sample_payload_def asset_bytes_def sample_asset_def)
  moreover have "IsEncrypted sample_header"
    by (simp add: IsEncrypted_def sample_header_def cmfEncryptedMagicBE_def drop_bit_eq_div)
  moreover have "ch_BuildVersion sample_header = 70000" by (simp add: sample_header_def)
  ultimately show ?thesis
    by (simp add: stored_as_def flip_crypto_def sample_keys_def kr_Find_def kr_Register_def cmf_NewKeyRegistry_def comp_def)
qed

theorem LoadCMF_readback_witness:
  "LoadCMF flip_crypto (cmf_header_bytes sample_header @ map (\<lambda>b. NOT b) sample_payload) [97] (Some sample_keys) =
     Ret \<lparr>cm_Header = sample_header, cm_Assets = [sample_asset]\<rparr>"
  using LoadCMF_readback [of sample_header "replicate 24 0" "[(5, sample_asset)]" flip_crypto "Some sample_keys" "[97]"
      "replicate 11 0"] sample_stored
  by (simp add: sample_payload_def cmf_header_ok_def sample_header_def overwatchVersion148PTR_def overwatchVersion122PTR_def
      apmEntryV2Size_def asset_ok_def sample_asset_def key_ok_def MD5HashSize_def)

theorem LoadCMF_typed_witness:
  "\<exists>data c. LoadCMF flip_crypto data [97] (Some sample_keys) = Ret c \<and> cm_Assets c \<noteq> [] \<and> (\<forall>a \<in> set (cm_Assets c). asset_ok a)"
proof -
  have "cmf_header_ok sample_header" "asset_ok sample_asset"
    by (simp_all add: cmf_header_ok_def sample_header_def overwatchVersion148PTR_def overwatchVersion122PTR_def
        asset_ok_def sample_asset_def key_ok_def MD5HashSize_def)
  then have "LoadCMF flip_crypto (cmf_header_bytes sample_header @ map (\<lambda>b. NOT b) sample_payload) [97] (Some sample_keys) =
     Ret \<lparr>cm_Header = sample_header, cm_Assets = [sample_asset]\<rparr>" (is "?l = Ret ?c")
    using readHeader_bytes [of sample_header] cmf_decrypt_stored [OF sample_stored]
      cmf_assets_bytes [of "[(5, sample_asset)]" sample_header "replicate 11 0"]
    by (simp add: LoadCMF_def sample_payload_def sample_header_def apmEntryV2Size_def)
  then show ?thesis using LoadCMF_typed [of flip_crypto _ "[97]" "Some sample_keys" ?c] by fastforce
qed

end
