(* ===== verification/CmfRuntime.thy ===== *)
theory CmfRuntime
  imports Cmf "HOL-Library.Signed_Division"
begin

text \<open>
  \<^verbatim>\<open>internal/root/overwatch/cmfkeys/runtime.go\<close>: the helpers the generated key recipes call, and the
  constructs of Go the recipes are written in: indexing by an unsigned or a signed 32-bit integer, the
  remainder by a variable, and the loop that fills a buffer byte by byte. An \<^verbatim>\<open>int32\<close> or \<^verbatim>\<open>int64\<close> is a
  word read with \<open>sint\<close>. The second half holds the facts by which the recipes are shown not to panic.
\<close>

unbundle bit_operations_syntax

named_theorems recipe_safe \<open>why the steps of a recipe do not panic\<close>

section \<open>Helpers\<close>

definition sha1DigestSize :: nat where "sha1DigestSize = 20"

text \<open>Go's remainder truncates towards zero, as \<open>smod\<close> does.\<close>

definition constrain :: "u64 \<Rightarrow> u32" where
  "constrain v = (let r = sint v smod 0xFFFFFFFF in word_of_int (if r < 0 then r + 0xFFFFFFFF else r))"

definition signedMod :: "u64 \<Rightarrow> u64 \<Rightarrow> u32 outcome" where
  "signedMod p1 p2 =
     (let a = ucast p1 :: u32; b = ucast p2 :: u32 in
      if b = 0 then Panic
      else let r = word_of_int (sint a smod sint b) :: u32 in
           Ret (if sint r < 0 then r + b else r))"

definition nonEncryptedMagic :: "CMFHeader \<Rightarrow> u32" where
  "nonEncryptedMagic hdr = 0x00666D63 OR push_bit 24 (ucast (cmf_Version hdr))"

definition maxInt32 :: "u32 \<Rightarrow> u32 \<Rightarrow> u32" where
  "maxInt32 a b = (if sint b < sint a then a else b)"

type_synonym keyFunc = "CMFHeader \<Rightarrow> bytes \<Rightarrow> nat \<Rightarrow> bytes outcome"
type_synonym ivFunc = "CMFHeader \<Rightarrow> bytes \<Rightarrow> bytes \<Rightarrow> nat \<Rightarrow> bytes outcome"

section \<open>Go constructs of the recipes\<close>

text \<open>Conversions between the integer types; \<open>n32\<close> is \<^verbatim>\<open>uint32\<close> of an \<^verbatim>\<open>int\<close> that is not negative.\<close>

abbreviation w8 :: "'a::len word \<Rightarrow> u8" where "w8 \<equiv> ucast"
abbreviation w16 :: "'a::len word \<Rightarrow> u16" where "w16 \<equiv> ucast"
abbreviation w32 :: "'a::len word \<Rightarrow> u32" where "w32 \<equiv> ucast"
abbreviation w64 :: "u32 \<Rightarrow> u64" where "w64 \<equiv> ucast"
abbreviation s64 :: "u32 \<Rightarrow> u64" where "s64 \<equiv> scast"
abbreviation n32 :: "nat \<Rightarrow> u32" where "n32 \<equiv> word_of_nat"

definition idx :: "bytes \<Rightarrow> u32 \<Rightarrow> u8 outcome" where
  "idx xs w = at xs (unat w)"

definition idx_signed :: "bytes \<Rightarrow> u32 \<Rightarrow> u8 outcome" where
  "idx_signed xs w = (if sint w < 0 then Panic else at xs (nat (sint w)))"

definition rem32 :: "u32 \<Rightarrow> u32 \<Rightarrow> u32 outcome" where
  "rem32 a b = (if b = 0 then Panic else Ret (a mod b))"

text \<open>
  \<^verbatim>\<open>for i := 0; i != length; i++\<close> over a buffer of \<open>n\<close> bytes, which the callers pass zeroed: the body computes
  the byte stored at \<open>i\<close> and the new values of the variables it changes.
\<close>

fun fill :: "(nat \<Rightarrow> 's \<Rightarrow> (u8 \<times> 's) outcome) \<Rightarrow> nat \<Rightarrow> nat \<Rightarrow> 's \<Rightarrow> bytes outcome" where
  "fill body i 0 s = Ret []"
| "fill body i (Suc n) s = bnd (body i s) (\<lambda>(b, s'). bnd (fill body (Suc i) n s') (\<lambda>bs. Ret (b # bs)))"

section \<open>What the helpers compute\<close>

lemma word_of_int_uint: "0 \<le> k \<Longrightarrow> k < 2 ^ LENGTH('a) \<Longrightarrow> uint (word_of_int k :: 'a::len word) = k"
  by (simp add: unsigned_of_int take_bit_int_eq_self)

lemma word_of_int_sint:
  "- (2 ^ (LENGTH('a) - 1)) \<le> k \<Longrightarrow> k < 2 ^ (LENGTH('a) - 1) \<Longrightarrow> sint (word_of_int k :: 'a::len word) = k"
  by (simp add: signed_of_int signed_take_bit_int_eq_self)

lemma smod_wrapped: "0 < m \<Longrightarrow> (if a smod m < 0 then a smod m + m else a smod m) = a mod m" for a m :: int
proof -
  assume m: "0 < m"
  have "a smod m = (if 0 \<le> a then a mod m else - ((- a) mod m))"
    using m by (auto simp: signed_modulo_int_def sgn_if)
  moreover have "a mod m = (if (- a) mod m = 0 then 0 else m - (- a) mod m)"
    using m by (metis add.inverse_inverse zmod_zminus1_eq_if)
  moreover define r where "r = (- a) mod m"
  moreover have "0 \<le> r" "r < m" "0 \<le> a mod m" using m by (simp_all add: r_def)
  ultimately show ?thesis by auto
qed

lemma constrain_mod: "constrain v = word_of_int (sint v mod 0xFFFFFFFF)"
  using smod_wrapped [of "0xFFFFFFFF" "sint v"] by (simp add: constrain_def Let_def)

lemma signedMod_mod:
  assumes "0 < sint (ucast p2 :: u32)"
  shows "signedMod p1 p2 = Ret (word_of_int (sint (ucast p1 :: u32) mod sint (ucast p2 :: u32)))"
proof -
  define a where "a = (ucast p1 :: u32)"
  define b where "b = (ucast p2 :: u32)"
  have b: "0 < sint b" using assms by (simp add: b_def)
  have rng: "- (2 ^ 31) \<le> sint b" "sint b < 2 ^ 31"
    using sint_ge [of b] sint_lt [of b] by simp_all
  have "\<bar>sint a smod sint b\<bar> < sint b"
    using b smod_wrapped [of "sint b" "sint a"] smod_int_range [of "sint b" "sint a"] by auto
  then have "sint (word_of_int (sint a smod sint b) :: u32) = sint a smod sint b"
    using rng by (intro word_of_int_sint) auto
  moreover have "word_of_int (sint a smod sint b) + b = word_of_int (sint a smod sint b + sint b)"
    by (simp only: of_int_add of_int_sint scast_id)
  moreover have "b \<noteq> 0" using b by auto
  moreover have "sint a mod sint b = (if sint a smod sint b < 0 then sint a smod sint b + sint b else sint a smod sint b)"
    using smod_wrapped [OF b, of "sint a"] by simp
  ultimately show ?thesis
    by (simp add: signedMod_def Let_def a_def [symmetric] b_def [symmetric] split del: if_split split: if_split_asm)
qed

text \<open>
  C29. constrain returns the residue of its signed argument modulo 2^32 - 1, below that
  modulus, and signedMod with a second argument that is positive as an int32 returns the
  residue of the first as an int32, between zero and the modulus.
\<close>

theorem runtime_ranges:
  assumes "0 < sint (ucast p2 :: u32)"
  shows "constrain v < 0xFFFFFFFF \<and> uint (constrain v) = sint v mod 0xFFFFFFFF \<and>
    (\<exists>r. signedMod p1 p2 = Ret r \<and> 0 \<le> sint r \<and> sint r < sint (ucast p2 :: u32) \<and>
         sint r = sint (ucast p1 :: u32) mod sint (ucast p2 :: u32))"
proof -
  let ?b = "sint (ucast p2 :: u32)" and ?m = "sint v mod 0xFFFFFFFF"
  have "0 \<le> ?m" "?m < 0xFFFFFFFF" by simp_all
  then have c: "uint (constrain v) = ?m" by (simp add: constrain_mod word_of_int_uint)
  moreover have "constrain v < 0xFFFFFFFF" using c by (simp add: word_less_def)
  moreover have "sint (word_of_int (sint (ucast p1 :: u32) mod ?b) :: u32) = sint (ucast p1 :: u32) mod ?b"
    using assms sint_lt [of "ucast p2 :: u32"] pos_mod_bound [OF assms, of "sint (ucast p1 :: u32)"]
      pos_mod_sign [OF assms, of "sint (ucast p1 :: u32)"]
    by (intro word_of_int_sint) (simp_all del: pos_mod_bound pos_mod_sign)
  ultimately show ?thesis using assms signedMod_mod [OF assms] by simp
qed

text \<open>Minus one is wrapped to the largest value, and minus 7 modulo 512 is 505.\<close>

theorem runtime_ranges_witness:
  "uint (constrain (- 1)) = 0xFFFFFFFE \<and> (\<exists>r. signedMod (- 7) 512 = Ret r \<and> sint r = 505)"
proof -
  have "0 < sint (ucast (512 :: u64) :: u32)" by simp
  from runtime_ranges [OF this, of "- 1" "- 7"] show ?thesis by auto
qed

section \<open>Recipes that end in a value\<close>

text \<open>
  A run over \<open>n\<close> bytes gives \<open>n\<close> bytes. The rules evaluate each step of a recipe: the table has 512 bytes,
  the digest 20, an index is masked or reduced below that, and the build number is not zero.
\<close>

definition gives :: "nat \<Rightarrow> bytes outcome \<Rightarrow> bool" where
  "gives n r \<longleftrightarrow> (\<exists>bs. r = Ret bs \<and> length bs = n)"

definition total :: "'a outcome \<Rightarrow> bool" where
  "total r \<longleftrightarrow> (\<exists>x. r = Ret x)"

lemma total_Ret [recipe_safe]: "total (Ret x)"
  by (simp add: total_def)

lemma total_if [recipe_safe]: "total (if c then x else y) \<longleftrightarrow> (c \<longrightarrow> total x) \<and> (\<not> c \<longrightarrow> total y)"
  by simp

lemma total_bnd_if [recipe_safe]:
  "total (bnd (if c then x else y) f) \<longleftrightarrow> (c \<longrightarrow> total (bnd x f)) \<and> (\<not> c \<longrightarrow> total (bnd y f))"
  by simp

lemma gives_fill [recipe_safe]:
  "(\<And>j t. total (body j t)) \<Longrightarrow> gives n (fill body i n s)"
proof (induction n arbitrary: i s)
  case (Suc n)
  obtain b s' where "body i s = Ret (b, s')" using Suc.prems [of i s] by (auto simp: total_def)
  then show ?case using Suc.IH [OF Suc.prems, of "Suc i" s'] by (auto simp: gives_def)
qed (simp add: gives_def)

definition smod_val :: "int \<Rightarrow> u32 \<Rightarrow> u32" where
  "smod_val k a = word_of_int (sint a mod k)"

lemma sint_smod_val: "0 < k \<Longrightarrow> k < 2 ^ 31 \<Longrightarrow> sint (smod_val k a) = sint a mod k"
  using pos_mod_bound [of k "sint a"] pos_mod_sign [of k "sint a"]
  by (simp add: smod_val_def word_of_int_sint del: pos_mod_bound pos_mod_sign)

lemma signedMod_consts [recipe_safe]:
  "signedMod p 512 = Ret (smod_val 512 (ucast p))" "signedMod p 61 = Ret (smod_val 61 (ucast p))"
  "signedMod p 20 = Ret (smod_val 20 (ucast p))" "signedMod p 3 = Ret (smod_val 3 (ucast p))"
  by (simp_all add: signedMod_mod smod_val_def)

lemma total_bnd_signedMod [recipe_safe]:
  "b \<noteq> 0 \<Longrightarrow> (\<And>x. total (f x)) \<Longrightarrow> total (bnd (signedMod p (w64 b)) f)"
  by (simp add: signedMod_def Let_def)

lemma total_bnd_rem32 [recipe_safe]: "b \<noteq> 0 \<Longrightarrow> (\<And>x. total (f x)) \<Longrightarrow> total (bnd (rem32 a b) f)"
  by (simp add: rem32_def)

lemma unat_mod_less: "0 < k \<Longrightarrow> unat (w mod word_of_nat k :: u32) < k" if "k < 2 ^ 32"
  using that by (simp add: unat_mod unat_word_of_nat)

lemma idx_mod [recipe_safe]:
  "length xs = 512 \<Longrightarrow> idx xs (w mod 512) = Ret (xs ! unat (w mod 512))"
  "length xs = 20 \<Longrightarrow> idx xs (w mod 20) = Ret (xs ! unat (w mod 20))"
  using unat_mod_less [of 512 w] unat_mod_less [of 20 w] by (simp_all add: idx_def)

lemma unat_and_511: "unat (w AND 511 :: u32) < 512"
proof -
  have "w AND 511 = w AND mask 9" by (simp add: mask_eq_exp_minus_1)
  then show ?thesis using unat_mod_less [of 512 w] by (simp flip: take_bit_eq_mask add: take_bit_eq_mod)
qed

lemma idx_and [recipe_safe]:
  "length xs = 512 \<Longrightarrow> idx xs (w AND 511) = Ret (xs ! unat (w AND 511))"
  using unat_and_511 [of w] by (simp add: idx_def)

lemma idx_signed_val [recipe_safe]:
  "length xs = 512 \<Longrightarrow> idx_signed xs (smod_val 512 a) = Ret (xs ! nat (sint a mod 512))"
  "length xs = 20 \<Longrightarrow> idx_signed xs (smod_val 20 a) = Ret (xs ! nat (sint a mod 20))"
  by (simp_all add: idx_signed_def sint_smod_val)

lemma idx_smod_val [recipe_safe]:
  "length xs = 512 \<Longrightarrow> idx xs (smod_val 512 a) = Ret (xs ! nat (sint a mod 512))"
proof -
  have "unat (smod_val 512 a) = nat (sint a mod 512)"
    by (simp add: smod_val_def word_of_int_uint flip: nat_uint_eq)
  then show "length xs = 512 \<Longrightarrow> ?thesis" by (simp add: idx_def)
qed

lemma idx_digest [recipe_safe]:
  "length xs = 20 \<Longrightarrow> unat k < 20 \<Longrightarrow> idx xs k = Ret (xs ! unat k)"
  by (simp add: idx_def)

lemma idx_table [recipe_safe]:
  "length xs = 512 \<Longrightarrow> unat k < 512 \<Longrightarrow> idx xs k = Ret (xs ! unat k)"
  by (simp add: idx_def)

definition key_total :: "keyFunc \<Rightarrow> bool" where
  "key_total f \<longleftrightarrow> (\<forall>hdr kt. ch_BuildVersion hdr \<noteq> 0 \<longrightarrow> length kt = 512 \<longrightarrow> gives 32 (f hdr kt 32))"

definition iv_total :: "ivFunc \<Rightarrow> bool" where
  "iv_total f \<longleftrightarrow> (\<forall>hdr kt dg. ch_BuildVersion hdr \<noteq> 0 \<longrightarrow> length kt = 512 \<longrightarrow> length dg = 20 \<longrightarrow> gives 16 (f hdr kt dg 16))"

end
