(* ===== verification/CmfIvRecipes.thy ===== *)
theory CmfIvRecipes
  imports CmfRuntime
begin

text \<open>
  \<^verbatim>\<open>internal/root/overwatch/cmfkeys/keyfuncs_generated.go\<close>, the map \<^verbatim>\<open>builtinIVFuncs\<close>: one definition for each
  build's IV recipe, statement by statement, and after it the fact that the recipe fills its 16 bytes
  without a panic when the table has 512 bytes, the digest 20 and the build number is not zero. The recipe
  of build 39103 reads the table at an index that is neither masked nor reduced; the facts about it are at
  the end.
\<close>

unbundle bit_operations_syntax

named_theorems iv_totals \<open>the recipes that always end in a value\<close>

definition iv_35328 :: ivFunc where
  "iv_35328 hdr kt dg len =
     (let kidx = constrain (w64 (ch_BuildVersion hdr * n32 len)) in
     let increment = kidx mod 61 in
     fill (\<lambda>i kidx.
     bnd (idx kt (kidx mod 512)) (\<lambda>c.
     let kidx = kidx + increment in
     bnd (idx dg ((kidx - n32 i) mod 20)) (\<lambda>b2.
     let c = c XOR b2 in
     Ret (c, kidx)))) 0 len kidx)"

lemma iv_35328_total [iv_totals]: "iv_total iv_35328"
  by (simp add: iv_total_def iv_35328_def recipe_safe Let_def case_prod_unfold)

definition iv_35455 :: ivFunc where
  "iv_35455 hdr kt dg len =
     bnd (idx kt (ch_DataCount hdr AND 511)) (\<lambda>b1.
     let kidx = w32 b1 in
     fill (\<lambda>i kidx.
     bnd (idx dg (ch_EntryCount hdr mod 20)) (\<lambda>b2.
     let kidx = kidx + (ch_EntryCount hdr + w32 b2) in
     bnd (idx dg (kidx mod 20)) (\<lambda>c.
     Ret (c, kidx)))) 0 len kidx)"

lemma iv_35455_total [iv_totals]: "iv_total iv_35455"
  by (simp add: iv_total_def iv_35455_def recipe_safe Let_def case_prod_unfold)

definition iv_35780 :: ivFunc where
  "iv_35780 hdr kt dg len =
     bnd (idx kt (ch_DataCount hdr AND 511)) (\<lambda>b1.
     let kidx = w32 b1 in
     fill (\<lambda>i kidx.
     bnd (idx dg (ch_EntryCount hdr mod 20)) (\<lambda>b2.
     let kidx = kidx + (ch_EntryCount hdr + w32 b2) in
     bnd (idx dg (kidx mod 20)) (\<lambda>c.
     Ret (c, kidx)))) 0 len kidx)"

lemma iv_35780_total [iv_totals]: "iv_total iv_35780"
  by (simp add: iv_total_def iv_35780_def recipe_safe Let_def case_prod_unfold)

definition iv_36473 :: ivFunc where
  "iv_36473 hdr kt dg len =
     bnd (idx kt (ch_BuildVersion hdr AND 511)) (\<lambda>b1.
     let kidx = w32 b1 in
     let increment = kidx mod 29 in
     fill (\<lambda>i kidx.
     bnd (idx kt (kidx mod 512)) (\<lambda>c.
     let kidx = kidx + increment in
     bnd (idx dg ((kidx + ch_EntryCount hdr) mod 20)) (\<lambda>b3.
     let c = c XOR w8 ((w32 b3 + 1) mod 0xFF) in
     Ret (c, kidx)))) 0 len kidx)"

lemma iv_36473_total [iv_totals]: "iv_total iv_36473"
  by (simp add: iv_total_def iv_36473_def recipe_safe Let_def case_prod_unfold)

definition iv_36859 :: ivFunc where
  "iv_36859 hdr kt dg len =
     bnd (idx kt (ch_DataCount hdr AND 511)) (\<lambda>b1.
     let kidx = w32 b1 in
     fill (\<lambda>i kidx.
     bnd (idx kt (kidx mod 512)) (\<lambda>c.
     let sw = kidx mod 3 in
     bnd (if sw = 0 then Ret (kidx + 103)
       else if sw = 1 then rem32 (4 * kidx) (ch_BuildVersion hdr)
       else if sw = 2 then Ret (kidx - 1)
       else Ret kidx) (\<lambda>kidx.
     bnd (idx dg ((kidx + ch_BuildVersion hdr) mod 20)) (\<lambda>b4.
     let c = c XOR b4 in
     Ret (c, kidx))))) 0 len kidx)"

lemma iv_36859_total [iv_totals]: "iv_total iv_36859"
  by (simp add: iv_total_def iv_36859_def recipe_safe Let_def case_prod_unfold)

definition iv_37104 :: ivFunc where
  "iv_37104 hdr kt dg len =
     bnd (idx dg 7) (\<lambda>b1.
     bnd (idx kt ((13 * w32 b1) AND 511)) (\<lambda>b2.
     let kidx = w32 b2 in
     fill (\<lambda>i kidx.
     bnd (idx dg (ch_EntryCount hdr mod 20)) (\<lambda>b3.
     let kidx = kidx + (ch_EntryCount hdr + w32 b3) in
     bnd (idx dg (kidx mod 20)) (\<lambda>c.
     Ret (c, kidx)))) 0 len kidx))"

lemma iv_37104_total [iv_totals]: "iv_total iv_37104"
  by (simp add: iv_total_def iv_37104_def recipe_safe Let_def case_prod_unfold)

definition iv_37130 :: ivFunc where
  "iv_37130 hdr kt dg len =
     bnd (idx kt (ch_DataCount hdr AND 511)) (\<lambda>b1.
     let kidx = w32 b1 in
     fill (\<lambda>i kidx.
     bnd (idx kt (kidx mod 512)) (\<lambda>c.
     let sw = kidx mod 3 in
     bnd (if sw = 0 then Ret (kidx + 103)
       else if sw = 1 then rem32 (4 * kidx) (ch_BuildVersion hdr)
       else if sw = 2 then Ret (kidx - 1)
       else Ret kidx) (\<lambda>kidx.
     bnd (idx dg ((kidx + ch_BuildVersion hdr) mod 20)) (\<lambda>b4.
     let c = c XOR b4 in
     Ret (c, kidx))))) 0 len kidx)"

lemma iv_37130_total [iv_totals]: "iv_total iv_37130"
  by (simp add: iv_total_def iv_37130_def recipe_safe Let_def case_prod_unfold)

definition iv_37218 :: ivFunc where
  "iv_37218 hdr kt dg len =
     bnd (idx dg 7) (\<lambda>b1.
     let kidx = w32 b1 + w32 (w16 (ch_DataCount hdr AND 511)) in
     fill (\<lambda>i kidx.
     bnd (idx kt (kidx mod 512)) (\<lambda>c.
     let sw = kidx mod 3 in
     bnd (if sw = 0 then Ret (kidx + 103)
       else if sw = 1 then rem32 (4 * kidx) (ch_BuildVersion hdr)
       else if sw = 2 then Ret (kidx - 1)
       else Ret kidx) (\<lambda>kidx.
     bnd (idx dg ((kidx + ch_BuildVersion hdr) mod 20)) (\<lambda>b4.
     let c = c XOR b4 in
     Ret (c, kidx))))) 0 len kidx)"

lemma iv_37218_total [iv_totals]: "iv_total iv_37218"
  by (simp add: iv_total_def iv_37218_def recipe_safe Let_def case_prod_unfold)

definition iv_37254 :: ivFunc where
  "iv_37254 hdr kt dg len =
     (let kidx = constrain (w64 (ch_BuildVersion hdr * n32 len)) in
     let increment = kidx mod 29 in
     fill (\<lambda>i kidx.
     bnd (idx kt (kidx mod 512)) (\<lambda>c.
     let kidx = kidx + increment in
     bnd (idx dg ((kidx + ch_EntryCount hdr) mod 20)) (\<lambda>b2.
     let c = c XOR w8 ((w32 b2 + 1) mod 0xFF) in
     Ret (c, kidx)))) 0 len kidx)"

lemma iv_37254_total [iv_totals]: "iv_total iv_37254"
  by (simp add: iv_total_def iv_37254_def recipe_safe Let_def case_prod_unfold)

definition iv_37275 :: ivFunc where
  "iv_37275 hdr kt dg len =
     (let kidx = constrain (w64 (ch_BuildVersion hdr * n32 len)) in
     let increment = kidx mod 13 in
     fill (\<lambda>i kidx.
     bnd (idx kt (kidx mod 512)) (\<lambda>c.
     let kidx = kidx + increment in
     bnd (idx dg ((kidx + 0x14666D63) mod 20)) (\<lambda>b2.
     let c = c XOR b2 in
     Ret (c, kidx)))) 0 len kidx)"

lemma iv_37275_total [iv_totals]: "iv_total iv_37275"
  by (simp add: iv_total_def iv_37275_def recipe_safe Let_def case_prod_unfold)

definition iv_37415 :: ivFunc where
  "iv_37415 hdr kt dg len =
     (let kidx = constrain (w64 (ch_BuildVersion hdr * n32 len)) in
     let increment = (ch_BuildVersion hdr * ch_DataCount hdr) mod 7 in
     fill (\<lambda>i kidx.
     bnd (idx kt (kidx mod 512)) (\<lambda>c.
     let kidx = kidx + increment in
     bnd (idx dg ((kidx - 73) mod 20)) (\<lambda>b2.
     let c = c XOR b2 in
     Ret (c, kidx)))) 0 len kidx)"

lemma iv_37415_total [iv_totals]: "iv_total iv_37415"
  by (simp add: iv_total_def iv_37415_def recipe_safe Let_def case_prod_unfold)

definition iv_37456 :: ivFunc where
  "iv_37456 hdr kt dg len =
     bnd (idx dg 7) (\<lambda>b1.
     let kidx = w32 b1 + w32 (w16 (ch_DataCount hdr AND 511)) in
     bnd (idx dg (ch_EntryCount hdr mod 20)) (\<lambda>b2.
     let increment = ch_EntryCount hdr + w32 b2 in
     fill (\<lambda>i kidx.
     let kidx = kidx + increment in
     bnd (idx dg (kidx mod 20)) (\<lambda>c.
     Ret (c, kidx))) 0 len kidx))"

lemma iv_37456_total [iv_totals]: "iv_total iv_37456"
  by (simp add: iv_total_def iv_37456_def recipe_safe Let_def case_prod_unfold)

definition iv_37636 :: ivFunc where
  "iv_37636 hdr kt dg len =
     bnd (idx kt 0) (\<lambda>b1.
     bnd (idx dg 7) (\<lambda>b2.
     bnd (idx kt ((w32 b1 * w32 b2) AND 511)) (\<lambda>b3.
     let kidx = w32 b3 in
     fill (\<lambda>i kidx.
     bnd (idx kt (kidx mod 512)) (\<lambda>c.
     let sw = kidx mod 3 in
     bnd (if sw = 0 then Ret (kidx + 103)
       else if sw = 1 then rem32 (4 * kidx) (ch_BuildVersion hdr)
       else if sw = 2 then Ret (kidx - 1)
       else Ret kidx) (\<lambda>kidx.
     bnd (idx dg ((kidx + ch_BuildVersion hdr) mod 20)) (\<lambda>b6.
     let c = c XOR b6 in
     Ret (c, kidx))))) 0 len kidx)))"

lemma iv_37636_total [iv_totals]: "iv_total iv_37636"
  by (simp add: iv_total_def iv_37636_def recipe_safe Let_def case_prod_unfold)

definition iv_37646 :: ivFunc where
  "iv_37646 hdr kt dg len =
     (let kidx = constrain (w64 (ch_BuildVersion hdr * n32 len)) in
     let increment = (ch_BuildVersion hdr * ch_DataCount hdr) mod 7 in
     fill (\<lambda>i kidx.
     bnd (idx kt (kidx mod 512)) (\<lambda>c.
     let kidx = kidx + increment in
     bnd (idx dg ((kidx - 73) mod 20)) (\<lambda>b2.
     let c = c XOR b2 in
     Ret (c, kidx)))) 0 len kidx)"

lemma iv_37646_total [iv_totals]: "iv_total iv_37646"
  by (simp add: iv_total_def iv_37646_def recipe_safe Let_def case_prod_unfold)

definition iv_37664 :: ivFunc where
  "iv_37664 hdr kt dg len =
     bnd (idx kt 0) (\<lambda>b1.
     bnd (idx dg 7) (\<lambda>b2.
     bnd (idx kt ((w32 b1 * w32 b2) AND 511)) (\<lambda>b3.
     let kidx = w32 b3 in
     fill (\<lambda>i kidx.
     bnd (idx kt (kidx mod 512)) (\<lambda>c.
     let kidx = kidx + 3 in
     bnd (idx dg ((kidx - n32 i) mod 20)) (\<lambda>b5.
     let c = c XOR b5 in
     Ret (c, kidx)))) 0 len kidx)))"

lemma iv_37664_total [iv_totals]: "iv_total iv_37664"
  by (simp add: iv_total_def iv_37664_def recipe_safe Let_def case_prod_unfold)

definition iv_37703 :: ivFunc where
  "iv_37703 hdr kt dg len =
     fill (\<lambda>i u.
     let c = 0 in
     Ret (c, u)) 0 len ()"

lemma iv_37703_total [iv_totals]: "iv_total iv_37703"
  by (simp add: iv_total_def iv_37703_def recipe_safe Let_def case_prod_unfold)

definition iv_37734 :: ivFunc where
  "iv_37734 hdr kt dg len =
     bnd (idx dg 5) (\<lambda>b1.
     let kidx = constrain (w64 (2 * w32 b1)) in
     let increment = (ch_BuildVersion hdr * ch_DataCount hdr) mod 7 in
     fill (\<lambda>i kidx.
     bnd (idx kt (kidx mod 512)) (\<lambda>c.
     let kidx = kidx + increment in
     bnd (idx dg ((kidx - 73) mod 20)) (\<lambda>b3.
     let c = c XOR b3 in
     Ret (c, kidx)))) 0 len kidx)"

lemma iv_37734_total [iv_totals]: "iv_total iv_37734"
  by (simp add: iv_total_def iv_37734_def recipe_safe Let_def case_prod_unfold)

definition iv_37755 :: ivFunc where
  "iv_37755 hdr kt dg len =
     bnd (idx kt 0) (\<lambda>b1.
     bnd (idx dg 7) (\<lambda>b2.
     bnd (idx kt ((w32 b1 * w32 b2) AND 511)) (\<lambda>b3.
     let kidx = w32 b3 in
     fill (\<lambda>i kidx.
     bnd (idx kt (kidx mod 512)) (\<lambda>c.
     let kidx = ch_BuildVersion hdr - kidx in
     bnd (idx dg ((kidx + n32 i) mod 20)) (\<lambda>b5.
     let c = c XOR b5 in
     Ret (c, kidx)))) 0 len kidx)))"

lemma iv_37755_total [iv_totals]: "iv_total iv_37755"
  by (simp add: iv_total_def iv_37755_def recipe_safe Let_def case_prod_unfold)

definition iv_37793 :: ivFunc where
  "iv_37793 hdr kt dg len =
     (let kidx = constrain (w64 (n32 len * ch_BuildVersion hdr)) in
     let increment = kidx mod 29 in
     fill (\<lambda>i kidx.
     bnd (idx kt (kidx mod 512)) (\<lambda>c.
     let kidx = kidx + increment in
     bnd (idx dg ((kidx + ch_EntryCount hdr) mod 20)) (\<lambda>b2.
     let c = c XOR w8 ((w32 b2 + 1) mod 0xFF) in
     Ret (c, kidx)))) 0 len kidx)"

lemma iv_37793_total [iv_totals]: "iv_total iv_37793"
  by (simp add: iv_total_def iv_37793_def recipe_safe Let_def case_prod_unfold)

definition iv_37865 :: ivFunc where
  "iv_37865 hdr kt dg len =
     bnd (idx kt (ch_DataCount hdr AND 511)) (\<lambda>b1.
     let kidx = w32 b1 in
     fill (\<lambda>i kidx.
     bnd (idx kt (kidx mod 512)) (\<lambda>c.
     let kidx = ch_BuildVersion hdr - kidx in
     bnd (idx dg ((n32 i + kidx) mod 20)) (\<lambda>b3.
     let c = c XOR b3 in
     Ret (c, kidx)))) 0 len kidx)"

lemma iv_37865_total [iv_totals]: "iv_total iv_37865"
  by (simp add: iv_total_def iv_37865_def recipe_safe Let_def case_prod_unfold)

definition iv_37962 :: ivFunc where
  "iv_37962 hdr kt dg len =
     bnd (idx dg 13) (\<lambda>b1.
     bnd (idx kt (((2 * w32 b1) - n32 len) mod 512)) (\<lambda>b2.
     let kidx = w32 b2 in
     bnd (idx dg (ch_EntryCount hdr mod 20)) (\<lambda>b3.
     let increment = ch_EntryCount hdr + w32 b3 in
     fill (\<lambda>i kidx.
     let kidx = kidx + increment in
     bnd (idx dg (kidx mod 20)) (\<lambda>c.
     Ret (c, kidx))) 0 len kidx)))"

lemma iv_37962_total [iv_totals]: "iv_total iv_37962"
  by (simp add: iv_total_def iv_37962_def recipe_safe Let_def case_prod_unfold)

definition iv_38044 :: ivFunc where
  "iv_38044 hdr kt dg len =
     (let kidx = constrain (w64 (n32 len * ch_BuildVersion hdr)) in
     let increment = kidx mod 29 in
     fill (\<lambda>i kidx.
     bnd (idx kt (kidx mod 512)) (\<lambda>c.
     let kidx = kidx + increment in
     bnd (idx dg ((kidx + ch_EntryCount hdr) mod 20)) (\<lambda>b2.
     let c = c XOR w8 ((w32 b2 + 1) mod 0xFF) in
     Ret (c, kidx)))) 0 len kidx)"

lemma iv_38044_total [iv_totals]: "iv_total iv_38044"
  by (simp add: iv_total_def iv_38044_def recipe_safe Let_def case_prod_unfold)

definition iv_38058 :: ivFunc where
  "iv_38058 hdr kt dg len =
     bnd (idx dg 7) (\<lambda>b1.
     let kidx = w32 b1 + w32 (w16 (ch_DataCount hdr AND 511)) in
     bnd (idx dg (ch_EntryCount hdr mod 20)) (\<lambda>b2.
     let increment = ch_EntryCount hdr + w32 b2 in
     let digestIdx = ch_BuildVersion hdr in
     fill (\<lambda>i (kidx, digestIdx).
     bnd (idx kt (kidx mod 512)) (\<lambda>c.
     let kidx = kidx + increment in
     bnd (idx dg (digestIdx mod 20)) (\<lambda>b4.
     let c = c XOR b4 in
     let digestIdx = digestIdx + 1 in
     Ret (c, (kidx, digestIdx))))) 0 len (kidx, digestIdx)))"

lemma iv_38058_total [iv_totals]: "iv_total iv_38058"
  by (simp add: iv_total_def iv_38058_def recipe_safe Let_def case_prod_unfold)

definition iv_38125 :: ivFunc where
  "iv_38125 hdr kt dg len =
     bnd (idx kt (ch_BuildVersion hdr AND 511)) (\<lambda>b1.
     let kidx = w32 b1 in
     fill (\<lambda>i kidx.
     bnd (idx kt (kidx mod 512)) (\<lambda>c.
     let kidx = kidx - 43 in
     bnd (idx dg ((kidx + ch_DataCount hdr) mod 20)) (\<lambda>b3.
     let c = c XOR w8 (w32 b3 mod 0xFF) in
     Ret (c, kidx)))) 0 len kidx)"

lemma iv_38125_total [iv_totals]: "iv_total iv_38125"
  by (simp add: iv_total_def iv_38125_def recipe_safe Let_def case_prod_unfold)

definition iv_38170 :: ivFunc where
  "iv_38170 hdr kt dg len =
     bnd (idx dg 7) (\<lambda>b1.
     let kidx = (w32 b1 + w32 (w16 (ch_DataCount hdr))) AND 511 in
     fill (\<lambda>i kidx.
     bnd (idx kt (kidx mod 512)) (\<lambda>c.
     let kidx = kidx + 3 in
     bnd (idx dg ((kidx - n32 i) mod 20)) (\<lambda>b3.
     let c = c XOR b3 in
     Ret (c, kidx)))) 0 len kidx)"

lemma iv_38170_total [iv_totals]: "iv_total iv_38170"
  by (simp add: iv_total_def iv_38170_def recipe_safe Let_def case_prod_unfold)

definition iv_38248 :: ivFunc where
  "iv_38248 hdr kt dg len =
     (let kidx = constrain (w64 (n32 len * ch_BuildVersion hdr)) in
     bnd (idx dg (ch_EntryCount hdr mod 20)) (\<lambda>b1.
     let increment = ch_EntryCount hdr + w32 b1 in
     fill (\<lambda>i kidx.
     let kidx = kidx + increment in
     bnd (idx dg (kidx mod 20)) (\<lambda>c.
     Ret (c, kidx))) 0 len kidx))"

lemma iv_38248_total [iv_totals]: "iv_total iv_38248"
  by (simp add: iv_total_def iv_38248_def recipe_safe Let_def case_prod_unfold)

definition iv_38459 :: ivFunc where
  "iv_38459 hdr kt dg len =
     bnd (idx dg 13) (\<lambda>b1.
     bnd (idx kt (((2 * w32 b1) - n32 len) mod 512)) (\<lambda>b2.
     let kidx = w32 b2 in
     fill (\<lambda>i u.
     bnd (idx kt (kidx mod 512)) (\<lambda>c.
     bnd (idx dg ((n32 i + kidx) mod 20)) (\<lambda>c.
     Ret (c, u)))) 0 len ()))"

lemma iv_38459_total [iv_totals]: "iv_total iv_38459"
  by (simp add: iv_total_def iv_38459_def recipe_safe Let_def case_prod_unfold)

definition iv_38765 :: ivFunc where
  "iv_38765 hdr kt dg len =
     bnd (idx dg 7) (\<lambda>b1.
     let kidx = constrain (w64 (w32 b1 + w32 (w16 (ch_DataCount hdr)))) AND 511 in
     bnd (idx dg (ch_EntryCount hdr mod 20)) (\<lambda>b2.
     let increment = ch_EntryCount hdr + w32 b2 in
     fill (\<lambda>i kidx.
     let kidx = kidx + increment in
     bnd (idx dg (kidx mod 20)) (\<lambda>c.
     Ret (c, kidx))) 0 len kidx))"

lemma iv_38765_total [iv_totals]: "iv_total iv_38765"
  by (simp add: iv_total_def iv_38765_def recipe_safe Let_def case_prod_unfold)

definition iv_38882 :: ivFunc where
  "iv_38882 hdr kt dg len =
     bnd (idx dg 7) (\<lambda>b1.
     bnd (idx kt 0) (\<lambda>b2.
     bnd (idx kt ((w32 b1 * w32 b2) AND 511)) (\<lambda>b3.
     let kidx = w32 b3 in
     let increment = kidx mod 29 in
     fill (\<lambda>i kidx.
     bnd (idx kt (kidx mod 512)) (\<lambda>c.
     let kidx = kidx + increment in
     bnd (idx dg ((kidx + ch_EntryCount hdr) mod 20)) (\<lambda>b5.
     let c = c XOR w8 ((w32 b5 + 1) AND 0xFF) in
     Ret (c, kidx)))) 0 len kidx)))"

lemma iv_38882_total [iv_totals]: "iv_total iv_38882"
  by (simp add: iv_total_def iv_38882_def recipe_safe Let_def case_prod_unfold)

definition iv_39023 :: ivFunc where
  "iv_39023 hdr kt dg len =
     bnd (idx dg 5) (\<lambda>b1.
     let kidx = 2 * w32 b1 in
     bnd (idx dg 6) (\<lambda>b2.
     let increment = (if 0 < (w32 b2 AND 1) then 37 else kidx mod 61) in
     fill (\<lambda>i kidx.
     bnd (idx kt (kidx mod 512)) (\<lambda>c.
     let kidx = kidx + increment in
     bnd (idx dg ((kidx - n32 i) mod 20)) (\<lambda>b4.
     let c = c XOR b4 in
     Ret (c, kidx)))) 0 len kidx))"

lemma iv_39023_total [iv_totals]: "iv_total iv_39023"
  by (simp add: iv_total_def iv_39023_def recipe_safe Let_def case_prod_unfold)

definition iv_39028 :: ivFunc where
  "iv_39028 hdr kt dg len =
     bnd (idx kt (ch_BuildVersion hdr AND 511)) (\<lambda>b1.
     let kidx = w32 b1 in
     fill (\<lambda>i kidx.
     bnd (idx kt (kidx mod 512)) (\<lambda>c.
     let kidx = kidx + 3 in
     bnd (idx dg ((kidx - n32 i) mod 20)) (\<lambda>b3.
     let c = c XOR b3 in
     Ret (c, kidx)))) 0 len kidx)"

lemma iv_39028_total [iv_totals]: "iv_total iv_39028"
  by (simp add: iv_total_def iv_39028_def recipe_safe Let_def case_prod_unfold)

definition iv_39083 :: ivFunc where
  "iv_39083 hdr kt dg len =
     bnd (idx kt (ch_DataCount hdr AND 511)) (\<lambda>b1.
     let kidx = w32 b1 in
     fill (\<lambda>i kidx.
     bnd (idx kt (kidx mod 512)) (\<lambda>c.
     let kidx = kidx + 3 in
     bnd (idx dg ((kidx - n32 i) mod 20)) (\<lambda>b3.
     let c = c XOR b3 in
     Ret (c, kidx)))) 0 len kidx)"

lemma iv_39083_total [iv_totals]: "iv_total iv_39083"
  by (simp add: iv_total_def iv_39083_def recipe_safe Let_def case_prod_unfold)

definition iv_39103 :: ivFunc where
  "iv_39103 hdr kt dg len =
     bnd (idx dg 13) (\<lambda>b1.
     bnd (idx kt ((2 * w32 b1) - n32 len)) (\<lambda>b2.
     let kidx = w32 b2 in
     let ividx = ch_BuildVersion hdr in
     bnd (idx dg (ch_EntryCount hdr mod 20)) (\<lambda>b3.
     let increment = ch_EntryCount hdr + w32 b3 in
     fill (\<lambda>i (kidx, ividx).
     bnd (idx kt (kidx mod 512)) (\<lambda>c.
     let kidx = kidx + increment in
     bnd (idx dg (ividx mod 20)) (\<lambda>b5.
     let c = c XOR b5 in
     let ividx = ividx + 1 in
     Ret (c, (kidx, ividx))))) 0 len (kidx, ividx))))"

definition iv_39241 :: ivFunc where
  "iv_39241 hdr kt dg len =
     bnd (idx dg 7) (\<lambda>b1.
     let kidx = ch_DataCount hdr + (w32 b1 AND 511) in
     let increment = ch_BuildVersion hdr + (ch_DataCount hdr mod 7) in
     fill (\<lambda>i kidx.
     bnd (idx kt (kidx mod 512)) (\<lambda>c.
     let kidx = kidx + increment in
     bnd (idx dg ((kidx - 73) mod 20)) (\<lambda>b3.
     let c = c XOR b3 in
     Ret (c, kidx)))) 0 len kidx)"

lemma iv_39241_total [iv_totals]: "iv_total iv_39241"
  by (simp add: iv_total_def iv_39241_def recipe_safe Let_def case_prod_unfold)

definition iv_39362 :: ivFunc where
  "iv_39362 hdr kt dg len =
     bnd (idx dg 13) (\<lambda>b1.
     bnd (idx kt (((2 * w32 b1) - n32 len) mod 512)) (\<lambda>b2.
     let kidx = w32 b2 in
     let increment = (ch_BuildVersion hdr * ch_DataCount hdr) mod 7 in
     fill (\<lambda>i kidx.
     bnd (idx kt (kidx mod 512)) (\<lambda>c.
     let kidx = kidx + increment in
     bnd (idx dg ((kidx - 73) mod 20)) (\<lambda>b4.
     let c = c XOR b4 in
     Ret (c, kidx)))) 0 len kidx))"

lemma iv_39362_total [iv_totals]: "iv_total iv_39362"
  by (simp add: iv_total_def iv_39362_def recipe_safe Let_def case_prod_unfold)

definition iv_39425 :: ivFunc where
  "iv_39425 hdr kt dg len =
     bnd (idx dg 13) (\<lambda>b1.
     bnd (idx kt (((2 * w32 b1) - n32 len) mod 512)) (\<lambda>b2.
     let kidx = w32 b2 in
     bnd (idx dg (ch_EntryCount hdr mod 20)) (\<lambda>b3.
     let increment = ch_EntryCount hdr + w32 b3 in
     fill (\<lambda>i kidx.
     let kidx = kidx + increment in
     bnd (idx dg (kidx mod 20)) (\<lambda>c.
     Ret (c, kidx))) 0 len kidx)))"

lemma iv_39425_total [iv_totals]: "iv_total iv_39425"
  by (simp add: iv_total_def iv_39425_def recipe_safe Let_def case_prod_unfold)

definition iv_39484 :: ivFunc where
  "iv_39484 hdr kt dg len =
     bnd (idx dg 7) (\<lambda>b1.
     bnd (idx kt 0) (\<lambda>b2.
     bnd (idx kt ((w32 b1 * w32 b2) AND 511)) (\<lambda>b3.
     let kidx = w32 b3 in
     fill (\<lambda>i kidx.
     bnd (idx kt (kidx mod 512)) (\<lambda>c.
     let sw = kidx mod 3 in
     bnd (if sw = 0 then Ret (kidx + 103)
       else if sw = 1 then rem32 (4 * kidx) (ch_BuildVersion hdr)
       else if sw = 2 then Ret (kidx - 1)
       else Ret kidx) (\<lambda>kidx.
     bnd (idx dg ((kidx + ch_BuildVersion hdr) mod 20)) (\<lambda>b6.
     let c = c XOR b6 in
     Ret (c, kidx))))) 0 len kidx)))"

lemma iv_39484_total [iv_totals]: "iv_total iv_39484"
  by (simp add: iv_total_def iv_39484_def recipe_safe Let_def case_prod_unfold)

definition iv_39823 :: ivFunc where
  "iv_39823 hdr kt dg len =
     (let kidx = ch_BuildVersion hdr * n32 len in
     fill (\<lambda>i kidx.
     bnd (idx kt (kidx mod 512)) (\<lambda>c.
     let kidx = ch_BuildVersion hdr - kidx in
     bnd (idx dg ((n32 i + kidx) mod 20)) (\<lambda>b2.
     let c = c XOR b2 in
     Ret (c, kidx)))) 0 len kidx)"

lemma iv_39823_total [iv_totals]: "iv_total iv_39823"
  by (simp add: iv_total_def iv_39823_def recipe_safe Let_def case_prod_unfold)

definition iv_39935 :: ivFunc where
  "iv_39935 hdr kt dg len =
     (let kidx = ch_BuildVersion hdr * n32 len in
     fill (\<lambda>i kidx.
     bnd (idx kt (kidx mod 512)) (\<lambda>c.
     let sw = kidx mod 3 in
     bnd (if sw = 0 then Ret (kidx + 103)
       else if sw = 1 then rem32 (4 * kidx) (ch_BuildVersion hdr)
       else if sw = 2 then Ret (kidx - 1)
       else Ret kidx) (\<lambda>kidx.
     bnd (idx dg ((kidx + ch_BuildVersion hdr) mod 20)) (\<lambda>b3.
     let c = c XOR b3 in
     Ret (c, kidx))))) 0 len kidx)"

lemma iv_39935_total [iv_totals]: "iv_total iv_39935"
  by (simp add: iv_total_def iv_39935_def recipe_safe Let_def case_prod_unfold)

definition iv_39974 :: ivFunc where
  "iv_39974 hdr kt dg len =
     bnd (idx dg 7) (\<lambda>b1.
     bnd (idx kt 0) (\<lambda>b2.
     bnd (idx kt ((w32 b1 * w32 b2) AND 511)) (\<lambda>b3.
     let kidx = w32 b3 in
     fill (\<lambda>i kidx.
     bnd (idx kt (kidx mod 512)) (\<lambda>c.
     let kidx = kidx + 3 in
     bnd (idx dg ((kidx - n32 i) mod 20)) (\<lambda>b5.
     let c = c XOR b5 in
     Ret (c, kidx)))) 0 len kidx)))"

lemma iv_39974_total [iv_totals]: "iv_total iv_39974"
  by (simp add: iv_total_def iv_39974_def recipe_safe Let_def case_prod_unfold)

definition iv_40407 :: ivFunc where
  "iv_40407 hdr kt dg len =
     bnd (idx kt (ch_BuildVersion hdr AND 511)) (\<lambda>b1.
     let kidx = w32 b1 in
     let increment = (ch_BuildVersion hdr * ch_DataCount hdr) mod 7 in
     fill (\<lambda>i kidx.
     bnd (idx kt (kidx mod 512)) (\<lambda>c.
     let kidx = kidx + increment in
     bnd (idx dg ((kidx - 73) mod 20)) (\<lambda>b3.
     let c = c XOR b3 in
     Ret (c, kidx)))) 0 len kidx)"

lemma iv_40407_total [iv_totals]: "iv_total iv_40407"
  by (simp add: iv_total_def iv_40407_def recipe_safe Let_def case_prod_unfold)

definition iv_40570 :: ivFunc where
  "iv_40570 hdr kt dg len =
     bnd (idx dg 5) (\<lambda>b1.
     let kidx = 2 * w32 b1 in
     fill (\<lambda>i kidx.
     bnd (idx kt (kidx mod 512)) (\<lambda>c.
     let kidx = kidx - (ch_BuildVersion hdr AND 511) in
     bnd (idx dg ((kidx + ch_BuildVersion hdr) mod 20)) (\<lambda>b3.
     let c = c XOR b3 in
     Ret (c, kidx)))) 0 len kidx)"

lemma iv_40570_total [iv_totals]: "iv_total iv_40570"
  by (simp add: iv_total_def iv_40570_def recipe_safe Let_def case_prod_unfold)

definition iv_40763 :: ivFunc where
  "iv_40763 hdr kt dg len =
     bnd (idx kt (ch_DataCount hdr AND 511)) (\<lambda>b1.
     let kidx = w32 b1 in
     let increment = kidx mod 29 in
     fill (\<lambda>i kidx.
     bnd (idx kt (kidx mod 512)) (\<lambda>c.
     let kidx = kidx + increment in
     bnd (idx dg ((kidx + ch_EntryCount hdr) mod 20)) (\<lambda>b3.
     let c = c XOR w8 (w32 b3 + 1) in
     Ret (c, kidx)))) 0 len kidx)"

lemma iv_40763_total [iv_totals]: "iv_total iv_40763"
  by (simp add: iv_total_def iv_40763_def recipe_safe Let_def case_prod_unfold)

definition iv_40990 :: ivFunc where
  "iv_40990 hdr kt dg len =
     bnd (idx dg 5) (\<lambda>b1.
     let kidx = 2 * w32 b1 in
     let increment = (ch_BuildVersion hdr * ch_DataCount hdr) mod 7 in
     fill (\<lambda>i kidx.
     bnd (idx kt (kidx mod 512)) (\<lambda>c.
     let kidx = kidx + increment in
     bnd (idx dg ((kidx - 73) mod 20)) (\<lambda>b3.
     let c = c XOR w8 (w32 b3 + 1) in
     Ret (c, kidx)))) 0 len kidx)"

lemma iv_40990_total [iv_totals]: "iv_total iv_40990"
  by (simp add: iv_total_def iv_40990_def recipe_safe Let_def case_prod_unfold)

definition iv_41350 :: ivFunc where
  "iv_41350 hdr kt dg len =
     bnd (idx dg 13) (\<lambda>b1.
     bnd (signedMod (s64 ((2 * w32 b1) - n32 len)) 512) (\<lambda>keytableIndex.
     bnd (idx kt keytableIndex) (\<lambda>b3.
     let kidx = w32 b3 in
     bnd (idx dg (ch_EntryCount hdr mod 20)) (\<lambda>b4.
     let increment = ch_EntryCount hdr + w32 b4 in
     fill (\<lambda>i kidx.
     let kidx = kidx + increment in
     bnd (idx dg (kidx mod 20)) (\<lambda>c.
     Ret (c, kidx))) 0 len kidx))))"

lemma iv_41350_total [iv_totals]: "iv_total iv_41350"
  by (simp add: iv_total_def iv_41350_def recipe_safe Let_def case_prod_unfold)

definition iv_41713 :: ivFunc where
  "iv_41713 hdr kt dg len =
     (let kidx = n32 len * ch_BuildVersion hdr in
     bnd (idx dg (ch_EntryCount hdr mod 20)) (\<lambda>b1.
     let increment = ch_EntryCount hdr + w32 b1 in
     fill (\<lambda>i kidx.
     let kidx = kidx + increment in
     bnd (idx dg (kidx mod 20)) (\<lambda>c.
     Ret (c, kidx))) 0 len kidx))"

lemma iv_41713_total [iv_totals]: "iv_total iv_41713"
  by (simp add: iv_total_def iv_41713_def recipe_safe Let_def case_prod_unfold)

definition iv_42076 :: ivFunc where
  "iv_42076 hdr kt dg len =
     bnd (idx dg 7) (\<lambda>b1.
     let kidx = (w32 b1 + ch_DataCount hdr) AND 511 in
     bnd (idx dg (ch_EntryCount hdr mod 20)) (\<lambda>b2.
     let increment = ch_EntryCount hdr + w32 b2 in
     fill (\<lambda>i kidx.
     let kidx = kidx + increment in
     bnd (idx dg (kidx mod 20)) (\<lambda>c.
     Ret (c, kidx))) 0 len kidx))"

lemma iv_42076_total [iv_totals]: "iv_total iv_42076"
  by (simp add: iv_total_def iv_42076_def recipe_safe Let_def case_prod_unfold)

definition iv_42210 :: ivFunc where
  "iv_42210 hdr kt dg len =
     (let kidx = n32 len * ch_BuildVersion hdr in
     fill (\<lambda>i kidx.
     bnd (signedMod (w64 kidx) 512) (\<lambda>m1.
     bnd (idx_signed kt m1) (\<lambda>c.
     let kidx = kidx + (ch_BuildVersion hdr - kidx) in
     bnd (signedMod (w64 (n32 i + kidx)) 20) (\<lambda>m3.
     bnd (idx_signed dg m3) (\<lambda>b4.
     let c = c XOR b4 in
     Ret (c, kidx)))))) 0 len kidx)"

lemma iv_42210_total [iv_totals]: "iv_total iv_42210"
  by (simp add: iv_total_def iv_42210_def recipe_safe Let_def case_prod_unfold)

definition iv_42539 :: ivFunc where
  "iv_42539 hdr kt dg len =
     (let kidx = n32 len * ch_BuildVersion hdr in
     fill (\<lambda>i kidx.
     bnd (signedMod (w64 kidx) 512) (\<lambda>m1.
     bnd (idx_signed kt m1) (\<lambda>c.
     let kidx = kidx - 43 in
     bnd (signedMod (w64 (kidx + ch_BuildVersion hdr)) 20) (\<lambda>m3.
     bnd (idx_signed dg m3) (\<lambda>b4.
     let c = c XOR b4 in
     Ret (c, kidx)))))) 0 len kidx)"

lemma iv_42539_total [iv_totals]: "iv_total iv_42539"
  by (simp add: iv_total_def iv_42539_def recipe_safe Let_def case_prod_unfold)

definition iv_42563 :: ivFunc where
  "iv_42563 hdr kt dg len =
     bnd (idx kt (ch_BuildVersion hdr AND 511)) (\<lambda>b1.
     let kidx = w32 b1 in
     fill (\<lambda>i kidx.
     bnd (signedMod (w64 kidx) 512) (\<lambda>m2.
     bnd (idx_signed kt m2) (\<lambda>c.
     let kidx = kidx + ((ch_BuildVersion hdr * ch_DataCount hdr) mod 7) in
     bnd (signedMod (w64 (kidx - 73)) 20) (\<lambda>m4.
     bnd (idx_signed dg m4) (\<lambda>b5.
     let c = c XOR b5 in
     Ret (c, kidx)))))) 0 len kidx)"

lemma iv_42563_total [iv_totals]: "iv_total iv_42563"
  by (simp add: iv_total_def iv_42563_def recipe_safe Let_def case_prod_unfold)

definition iv_42665 :: ivFunc where
  "iv_42665 hdr kt dg len =
     (let kidx = n32 len * ch_BuildVersion hdr in
     let increment = kidx mod 13 in
     fill (\<lambda>i kidx.
     bnd (signedMod (w64 kidx) 512) (\<lambda>m1.
     bnd (idx_signed kt m1) (\<lambda>c.
     let kidx = kidx + increment in
     bnd (signedMod (w64 (kidx + 0x15666D63)) 20) (\<lambda>m3.
     bnd (idx_signed dg m3) (\<lambda>b4.
     let c = c XOR b4 in
     Ret (c, kidx)))))) 0 len kidx)"

lemma iv_42665_total [iv_totals]: "iv_total iv_42665"
  by (simp add: iv_total_def iv_42665_def recipe_safe Let_def case_prod_unfold)

definition iv_42936 :: ivFunc where
  "iv_42936 hdr kt dg len =
     bnd (idx dg 5) (\<lambda>b1.
     let kidx = 2 * w32 b1 in
     fill (\<lambda>i kidx.
     bnd (signedMod (w64 kidx) 512) (\<lambda>m2.
     bnd (idx_signed kt m2) (\<lambda>c.
     let kidx = ch_BuildVersion hdr - kidx in
     bnd (signedMod (w64 (kidx + n32 i)) 20) (\<lambda>m4.
     bnd (idx_signed dg m4) (\<lambda>b5.
     let c = c XOR b5 in
     Ret (c, kidx)))))) 0 len kidx)"

lemma iv_42936_total [iv_totals]: "iv_total iv_42936"
  by (simp add: iv_total_def iv_42936_def recipe_safe Let_def case_prod_unfold)

definition iv_43036 :: ivFunc where
  "iv_43036 hdr kt dg len =
     (let kidx = n32 len * ch_BuildVersion hdr in
     let increment = (ch_BuildVersion hdr * ch_DataCount hdr) mod 7 in
     fill (\<lambda>i kidx.
     bnd (signedMod (w64 kidx) 512) (\<lambda>m1.
     bnd (idx_signed kt m1) (\<lambda>c.
     let kidx = kidx + increment in
     bnd (signedMod (w64 (kidx - 73)) 20) (\<lambda>m3.
     bnd (idx_signed dg m3) (\<lambda>b4.
     let c = c XOR b4 in
     Ret (c, kidx)))))) 0 len kidx)"

lemma iv_43036_total [iv_totals]: "iv_total iv_43036"
  by (simp add: iv_total_def iv_43036_def recipe_safe Let_def case_prod_unfold)

definition iv_43435 :: ivFunc where
  "iv_43435 hdr kt dg len =
     (let kidx = n32 len * ch_BuildVersion hdr in
     let increment = kidx mod 13 in
     fill (\<lambda>i kidx.
     bnd (signedMod (w64 kidx) 512) (\<lambda>m1.
     bnd (idx_signed kt m1) (\<lambda>c.
     let kidx = kidx + increment in
     bnd (signedMod (w64 (kidx + 0x15666D63)) 20) (\<lambda>m3.
     bnd (idx_signed dg m3) (\<lambda>b4.
     let c = c XOR b4 in
     Ret (c, kidx)))))) 0 len kidx)"

lemma iv_43435_total [iv_totals]: "iv_total iv_43435"
  by (simp add: iv_total_def iv_43435_def recipe_safe Let_def case_prod_unfold)

definition iv_43515 :: ivFunc where
  "iv_43515 hdr kt dg len =
     bnd (idx kt (ch_BuildVersion hdr AND 511)) (\<lambda>b1.
     let kidx = w32 b1 in
     fill (\<lambda>i kidx.
     bnd (signedMod (w64 kidx) 512) (\<lambda>m2.
     bnd (idx_signed kt m2) (\<lambda>c.
     let kidx = kidx - 0x2B in
     bnd (signedMod (w64 (kidx + ch_DataCount hdr)) 20) (\<lambda>m4.
     bnd (idx_signed dg m4) (\<lambda>b5.
     let c = c XOR b5 in
     Ret (c, kidx)))))) 0 len kidx)"

lemma iv_43515_total [iv_totals]: "iv_total iv_43515"
  by (simp add: iv_total_def iv_43515_def recipe_safe Let_def case_prod_unfold)

definition iv_43605 :: ivFunc where
  "iv_43605 hdr kt dg len =
     bnd (idx kt (ch_DataCount hdr AND 511)) (\<lambda>b1.
     let kidx = w32 b1 in
     bnd (signedMod (w64 (ch_EntryCount hdr)) 20) (\<lambda>m2.
     bnd (idx_signed dg m2) (\<lambda>b3.
     let increment = ch_EntryCount hdr + w32 b3 in
     fill (\<lambda>i kidx.
     let kidx = kidx + increment in
     bnd (signedMod (w64 kidx) 20) (\<lambda>m4.
     bnd (idx_signed dg m4) (\<lambda>b5.
     let c = 0 XOR b5 in
     Ret (c, kidx)))) 0 len kidx)))"

lemma iv_43605_total [iv_totals]: "iv_total iv_43605"
  by (simp add: iv_total_def iv_43605_def recipe_safe Let_def case_prod_unfold)

definition iv_44022 :: ivFunc where
  "iv_44022 hdr kt dg len =
     bnd (idx dg 7) (\<lambda>b1.
     let kidx = (w32 b1 + ch_DataCount hdr) AND 511 in
     fill (\<lambda>i kidx.
     bnd (signedMod (w64 kidx) 512) (\<lambda>m2.
     bnd (idx_signed kt m2) (\<lambda>c.
     let kidx = kidx + 3 in
     bnd (signedMod (w64 (kidx - n32 i)) 20) (\<lambda>m4.
     bnd (idx_signed dg m4) (\<lambda>b5.
     let c = c XOR b5 in
     Ret (c, kidx)))))) 0 len kidx)"

lemma iv_44022_total [iv_totals]: "iv_total iv_44022"
  by (simp add: iv_total_def iv_44022_def recipe_safe Let_def case_prod_unfold)

definition iv_44916 :: ivFunc where
  "iv_44916 hdr kt dg len =
     bnd (idx dg 7) (\<lambda>b1.
     bnd (idx kt 0) (\<lambda>b2.
     bnd (idx kt ((w32 b1 * w32 b2) AND 511)) (\<lambda>b3.
     let kidx = w32 b3 in
     fill (\<lambda>i kidx.
     bnd (signedMod (w64 kidx) 512) (\<lambda>m4.
     bnd (idx_signed kt m4) (\<lambda>c.
     let kidx = ch_BuildVersion hdr - kidx in
     bnd (signedMod (w64 (kidx + n32 i)) 20) (\<lambda>m6.
     bnd (idx_signed dg m6) (\<lambda>b7.
     let c = c XOR b7 in
     Ret (c, kidx)))))) 0 len kidx)))"

lemma iv_44916_total [iv_totals]: "iv_total iv_44916"
  by (simp add: iv_total_def iv_44916_def recipe_safe Let_def case_prod_unfold)

definition iv_45214 :: ivFunc where
  "iv_45214 hdr kt dg len =
     bnd (idx dg 13) (\<lambda>b1.
     bnd (signedMod (w64 ((2 * w32 b1) - n32 len)) 512) (\<lambda>m2.
     bnd (idx_signed kt m2) (\<lambda>b3.
     let kidx = w32 b3 in
     let increment = (ch_BuildVersion hdr * ch_DataCount hdr) mod 7 in
     fill (\<lambda>i kidx.
     bnd (signedMod (w64 kidx) 512) (\<lambda>m4.
     bnd (idx_signed kt m4) (\<lambda>c.
     let kidx = kidx + increment in
     bnd (signedMod (w64 (kidx - 73)) 20) (\<lambda>m6.
     bnd (idx_signed dg m6) (\<lambda>b7.
     let c = c XOR b7 in
     Ret (c, kidx)))))) 0 len kidx)))"

lemma iv_45214_total [iv_totals]: "iv_total iv_45214"
  by (simp add: iv_total_def iv_45214_def recipe_safe Let_def case_prod_unfold)

definition iv_45420 :: ivFunc where
  "iv_45420 hdr kt dg len =
     bnd (idx kt 0) (\<lambda>b1.
     bnd (idx dg 7) (\<lambda>b2.
     bnd (idx kt ((w32 b1 * w32 b2) AND 511)) (\<lambda>b3.
     let kidx = w32 b3 in
     bnd (idx dg (ch_EntryCount hdr mod 20)) (\<lambda>b4.
     let increment = ch_EntryCount hdr + w32 b4 in
     fill (\<lambda>i kidx.
     let kidx = kidx + increment in
     bnd (signedMod (w64 kidx) 20) (\<lambda>m5.
     bnd (idx_signed dg m5) (\<lambda>b6.
     let c = 0 XOR b6 in
     Ret (c, kidx)))) 0 len kidx))))"

lemma iv_45420_total [iv_totals]: "iv_total iv_45420"
  by (simp add: iv_total_def iv_45420_def recipe_safe Let_def case_prod_unfold)

definition iv_45752 :: ivFunc where
  "iv_45752 hdr kt dg len =
     (let kidx = n32 len * ch_BuildVersion hdr in
     fill (\<lambda>i kidx.
     bnd (signedMod (w64 kidx) 512) (\<lambda>m1.
     bnd (idx_signed kt m1) (\<lambda>c.
     let kidx = ch_BuildVersion hdr - kidx in
     bnd (signedMod (w64 (n32 i + kidx)) 20) (\<lambda>m3.
     bnd (idx_signed dg m3) (\<lambda>b4.
     let c = c XOR b4 in
     Ret (c, kidx)))))) 0 len kidx)"

lemma iv_45752_total [iv_totals]: "iv_total iv_45752"
  by (simp add: iv_total_def iv_45752_def recipe_safe Let_def case_prod_unfold)

definition iv_46137 :: ivFunc where
  "iv_46137 hdr kt dg len =
     (let kidx = n32 len * ch_BuildVersion hdr in
     fill (\<lambda>i kidx.
     bnd (signedMod (w64 kidx) 512) (\<lambda>m1.
     bnd (idx_signed kt m1) (\<lambda>c.
     let kidx = ch_BuildVersion hdr - kidx in
     bnd (signedMod (w64 (n32 i + kidx)) 20) (\<lambda>m3.
     bnd (idx_signed dg m3) (\<lambda>b4.
     let c = c XOR b4 in
     Ret (c, kidx)))))) 0 len kidx)"

lemma iv_46137_total [iv_totals]: "iv_total iv_46137"
  by (simp add: iv_total_def iv_46137_def recipe_safe Let_def case_prod_unfold)

definition iv_46510 :: ivFunc where
  "iv_46510 hdr kt dg len =
     bnd (idx dg 1) (\<lambda>b1.
     let kidx = 2 * w32 b1 in
     let increment = (ch_BuildVersion hdr * ch_DataCount hdr) mod 7 in
     fill (\<lambda>i kidx.
     bnd (signedMod (w64 kidx) 512) (\<lambda>m2.
     bnd (idx_signed kt m2) (\<lambda>c.
     let kidx = kidx + increment in
     bnd (signedMod (w64 (kidx - 73)) 20) (\<lambda>m4.
     bnd (idx_signed dg m4) (\<lambda>b5.
     let c = c XOR b5 in
     Ret (c, kidx)))))) 0 len kidx)"

lemma iv_46510_total [iv_totals]: "iv_total iv_46510"
  by (simp add: iv_total_def iv_46510_def recipe_safe Let_def case_prod_unfold)

definition iv_46823 :: ivFunc where
  "iv_46823 hdr kt dg len =
     (let kidx = n32 len * ch_BuildVersion hdr in
     let increment = kidx mod 13 in
     fill (\<lambda>i kidx.
     bnd (signedMod (w64 kidx) 512) (\<lambda>m1.
     bnd (idx_signed kt m1) (\<lambda>c.
     let kidx = kidx + increment in
     bnd (signedMod (w64 (kidx + 0x16666D63)) 20) (\<lambda>m3.
     bnd (idx_signed dg m3) (\<lambda>b4.
     let c = c XOR b4 in
     Ret (c, kidx)))))) 0 len kidx)"

lemma iv_46823_total [iv_totals]: "iv_total iv_46823"
  by (simp add: iv_total_def iv_46823_def recipe_safe Let_def case_prod_unfold)

definition iv_46836 :: ivFunc where
  "iv_46836 hdr kt dg len =
     bnd (idx dg 7) (\<lambda>b1.
     let kidx = (w32 b1 + w32 (w16 (ch_DataCount hdr))) AND 511 in
     bnd (signedMod (w64 (ch_EntryCount hdr)) 20) (\<lambda>m2.
     bnd (idx_signed dg m2) (\<lambda>b3.
     let increment = ch_EntryCount hdr + w32 b3 in
     fill (\<lambda>i kidx.
     bnd (signedMod (w64 kidx) 512) (\<lambda>m4.
     bnd (idx_signed kt m4) (\<lambda>c.
     let kidx = kidx + increment in
     bnd (signedMod (w64 (ch_BuildVersion hdr + n32 i)) 20) (\<lambda>m6.
     bnd (idx_signed dg m6) (\<lambda>b7.
     let c = c XOR b7 in
     Ret (c, kidx)))))) 0 len kidx)))"

lemma iv_46836_total [iv_totals]: "iv_total iv_46836"
  by (simp add: iv_total_def iv_46836_def recipe_safe Let_def case_prod_unfold)

definition iv_47161 :: ivFunc where
  "iv_47161 hdr kt dg len =
     bnd (idx kt (ch_DataCount hdr AND 511)) (\<lambda>b1.
     let kidx = w32 b1 in
     let increment = (ch_BuildVersion hdr * ch_DataCount hdr) mod 7 in
     fill (\<lambda>i kidx.
     bnd (signedMod (w64 kidx) 512) (\<lambda>m2.
     bnd (idx_signed kt m2) (\<lambda>c.
     let kidx = kidx + increment in
     bnd (signedMod (w64 (kidx - 73)) 20) (\<lambda>m4.
     bnd (idx_signed dg m4) (\<lambda>b5.
     let c = c XOR b5 in
     Ret (c, kidx)))))) 0 len kidx)"

lemma iv_47161_total [iv_totals]: "iv_total iv_47161"
  by (simp add: iv_total_def iv_47161_def recipe_safe Let_def case_prod_unfold)

definition iv_47452 :: ivFunc where
  "iv_47452 hdr kt dg len =
     bnd (idx dg 7) (\<lambda>b1.
     let kidx = (w32 b1 + w32 (w16 (ch_DataCount hdr))) AND 511 in
     bnd (signedMod (w64 (ch_EntryCount hdr)) 20) (\<lambda>m2.
     bnd (idx_signed dg m2) (\<lambda>b3.
     let increment = ch_EntryCount hdr + w32 b3 in
     fill (\<lambda>i kidx.
     bnd (signedMod (w64 kidx) 512) (\<lambda>m4.
     bnd (idx_signed kt m4) (\<lambda>c.
     let kidx = kidx + increment in
     bnd (signedMod (w64 (ch_BuildVersion hdr + n32 i)) 20) (\<lambda>m6.
     bnd (idx_signed dg m6) (\<lambda>b7.
     let c = c XOR b7 in
     Ret (c, kidx)))))) 0 len kidx)))"

lemma iv_47452_total [iv_totals]: "iv_total iv_47452"
  by (simp add: iv_total_def iv_47452_def recipe_safe Let_def case_prod_unfold)

definition iv_47946 :: ivFunc where
  "iv_47946 hdr kt dg len =
     bnd (idx kt (ch_BuildVersion hdr AND 511)) (\<lambda>b1.
     let kidx = w32 b1 in
     let increment = kidx mod 29 in
     fill (\<lambda>i kidx.
     bnd (signedMod (w64 kidx) 512) (\<lambda>m2.
     bnd (idx_signed kt m2) (\<lambda>c.
     let kidx = kidx + increment in
     bnd (signedMod (w64 (kidx + ch_EntryCount hdr)) 20) (\<lambda>m4.
     bnd (idx_signed dg m4) (\<lambda>b5.
     let c = c XOR b5 in
     Ret (c, kidx)))))) 0 len kidx)"

lemma iv_47946_total [iv_totals]: "iv_total iv_47946"
  by (simp add: iv_total_def iv_47946_def recipe_safe Let_def case_prod_unfold)

definition iv_49154 :: ivFunc where
  "iv_49154 hdr kt dg len =
     (let kidx = n32 len * ch_BuildVersion hdr in
     bnd (idx dg 6) (\<lambda>b1.
     let increment = (if (w32 b1 AND 1) = 0 then 37 else kidx mod 61) in
     fill (\<lambda>i kidx.
     bnd (signedMod (w64 kidx) 512) (\<lambda>m2.
     bnd (idx_signed kt m2) (\<lambda>c.
     let kidx = kidx + increment in
     bnd (signedMod (w64 (kidx - n32 i)) 20) (\<lambda>m4.
     bnd (idx_signed dg m4) (\<lambda>b5.
     let c = c XOR b5 in
     Ret (c, kidx)))))) 0 len kidx))"

lemma iv_49154_total [iv_totals]: "iv_total iv_49154"
  by (simp add: iv_total_def iv_49154_def recipe_safe Let_def case_prod_unfold)

definition iv_49656 :: ivFunc where
  "iv_49656 hdr kt dg len =
     bnd (idx dg 5) (\<lambda>b1.
     let kidx = 2 * w32 b1 in
     fill (\<lambda>i kidx.
     bnd (signedMod (w64 kidx) 512) (\<lambda>m2.
     bnd (idx_signed kt m2) (\<lambda>c.
     let kidx = kidx - 504 in
     bnd (signedMod (w64 (kidx + ch_BuildVersion hdr)) 20) (\<lambda>m4.
     bnd (idx_signed dg m4) (\<lambda>b5.
     let c = c XOR b5 in
     Ret (c, kidx)))))) 0 len kidx)"

lemma iv_49656_total [iv_totals]: "iv_total iv_49656"
  by (simp add: iv_total_def iv_49656_def recipe_safe Let_def case_prod_unfold)

definition iv_50148 :: ivFunc where
  "iv_50148 hdr kt dg len =
     (let kidx = n32 len * ch_BuildVersion hdr in
     fill (\<lambda>i kidx.
     bnd (signedMod (w64 kidx) 512) (\<lambda>m1.
     bnd (idx_signed kt m1) (\<lambda>c.
     let kidx = kidx - 0x2B in
     Ret (c, kidx)))) 0 len kidx)"

lemma iv_50148_total [iv_totals]: "iv_total iv_50148"
  by (simp add: iv_total_def iv_50148_def recipe_safe Let_def case_prod_unfold)

definition iv_50483 :: ivFunc where
  "iv_50483 hdr kt dg len =
     bnd (idx dg 7) (\<lambda>b1.
     let kidx = (ch_DataCount hdr + w32 b1) AND 511 in
     let increment = (ch_BuildVersion hdr * ch_DataCount hdr) mod 7 in
     fill (\<lambda>i kidx.
     bnd (signedMod (w64 kidx) 512) (\<lambda>m2.
     bnd (idx_signed kt m2) (\<lambda>c.
     let kidx = kidx + increment in
     bnd (signedMod (w64 (kidx - 0x49)) 20) (\<lambda>m4.
     bnd (idx_signed dg m4) (\<lambda>b5.
     let c = c XOR b5 in
     Ret (c, kidx)))))) 0 len kidx)"

lemma iv_50483_total [iv_totals]: "iv_total iv_50483"
  by (simp add: iv_total_def iv_50483_def recipe_safe Let_def case_prod_unfold)

definition iv_51575 :: ivFunc where
  "iv_51575 hdr kt dg len =
     bnd (idx dg 7) (\<lambda>b1.
     let kidx = (w32 b1 + w32 (w16 (ch_DataCount hdr))) AND 511 in
     let increment = kidx mod 13 in
     fill (\<lambda>i kidx.
     bnd (signedMod (w64 kidx) 512) (\<lambda>m2.
     bnd (idx_signed kt m2) (\<lambda>c.
     let kidx = kidx + increment in
     bnd (signedMod (w64 (kidx + 0x16666D63)) 20) (\<lambda>m4.
     bnd (idx_signed dg m4) (\<lambda>b5.
     let c = c XOR b5 in
     Ret (c, kidx)))))) 0 len kidx)"

lemma iv_51575_total [iv_totals]: "iv_total iv_51575"
  by (simp add: iv_total_def iv_51575_def recipe_safe Let_def case_prod_unfold)

definition iv_51948 :: ivFunc where
  "iv_51948 hdr kt dg len =
     bnd (idx dg 7) (\<lambda>b1.
     bnd (signedMod (w64 ((2 * w32 b1) - n32 len)) 512) (\<lambda>m2.
     bnd (idx_signed kt m2) (\<lambda>b3.
     let kidx = w32 b3 in
     bnd (idx dg 6) (\<lambda>b4.
     let increment = (if (w32 b4 AND 1) = 1 then 37 else kidx mod 61) in
     fill (\<lambda>i kidx.
     bnd (signedMod (w64 kidx) 512) (\<lambda>m5.
     bnd (idx_signed kt m5) (\<lambda>c.
     let kidx = kidx + increment in
     bnd (signedMod (w64 (kidx - n32 i)) 20) (\<lambda>m7.
     bnd (idx_signed dg m7) (\<lambda>b8.
     let c = c XOR b8 in
     Ret (c, kidx)))))) 0 len kidx))))"

lemma iv_51948_total [iv_totals]: "iv_total iv_51948"
  by (simp add: iv_total_def iv_51948_def recipe_safe Let_def case_prod_unfold)

definition iv_52717 :: ivFunc where
  "iv_52717 hdr kt dg len =
     (let kidx = n32 len * ch_BuildVersion hdr in
     fill (\<lambda>i kidx.
     bnd (signedMod (w64 kidx) 512) (\<lambda>m1.
     bnd (idx_signed kt m1) (\<lambda>c.
     bnd (signedMod (w64 kidx) 3) (\<lambda>m3.
     bnd (if m3 = 0 then Ret (kidx + 103)
       else if m3 = 1 then rem32 (4 * kidx) (ch_BuildVersion hdr)
       else if m3 = 2 then Ret (kidx - 1)
       else Ret kidx) (\<lambda>kidx.
     bnd (signedMod (w64 (kidx + ch_BuildVersion hdr)) 20) (\<lambda>m5.
     bnd (idx_signed dg m5) (\<lambda>b6.
     let c = c XOR b6 in
     Ret (c, kidx)))))))) 0 len kidx)"

lemma iv_52717_total [iv_totals]: "iv_total iv_52717"
  by (simp add: iv_total_def iv_52717_def recipe_safe Let_def case_prod_unfold)

definition iv_52926 :: ivFunc where
  "iv_52926 hdr kt dg len =
     bnd (idx dg 7) (\<lambda>b1.
     let kidx = (w32 b1 + w32 (w16 (ch_DataCount hdr))) AND 511 in
     fill (\<lambda>i kidx.
     bnd (signedMod (w64 kidx) 512) (\<lambda>m2.
     bnd (idx_signed kt m2) (\<lambda>c.
     bnd (signedMod (w64 kidx) 3) (\<lambda>m4.
     bnd (if m4 = 0 then Ret (kidx + 103)
       else if m4 = 1 then rem32 (4 * kidx) (ch_BuildVersion hdr)
       else if m4 = 2 then Ret (kidx - 1)
       else Ret kidx) (\<lambda>kidx.
     bnd (signedMod (w64 (kidx + ch_BuildVersion hdr)) 20) (\<lambda>m6.
     bnd (idx_signed dg m6) (\<lambda>b7.
     let c = c XOR b7 in
     Ret (c, kidx)))))))) 0 len kidx)"

lemma iv_52926_total [iv_totals]: "iv_total iv_52926"
  by (simp add: iv_total_def iv_52926_def recipe_safe Let_def case_prod_unfold)

definition iv_53537 :: ivFunc where
  "iv_53537 hdr kt dg len =
     bnd (idx dg 13) (\<lambda>b1.
     bnd (signedMod (w64 ((w32 b1 * 2) - n32 len)) 512) (\<lambda>m2.
     bnd (idx_signed kt m2) (\<lambda>b3.
     let kidx = w32 b3 in
     fill (\<lambda>i kidx.
     bnd (signedMod (w64 kidx) 512) (\<lambda>m4.
     bnd (idx_signed kt m4) (\<lambda>c.
     let kidx = kidx + 3 in
     bnd (signedMod (w64 (kidx - n32 i)) 20) (\<lambda>m6.
     bnd (idx_signed dg m6) (\<lambda>b7.
     let c = c XOR b7 in
     Ret (c, kidx)))))) 0 len kidx)))"

lemma iv_53537_total [iv_totals]: "iv_total iv_53537"
  by (simp add: iv_total_def iv_53537_def recipe_safe Let_def case_prod_unfold)

definition iv_54011 :: ivFunc where
  "iv_54011 hdr kt dg len =
     bnd (idx dg 7) (\<lambda>b1.
     let kidx = (w32 b1 + ch_DataCount hdr) AND 511 in
     fill (\<lambda>i kidx.
     bnd (idx dg (ch_EntryCount hdr mod 20)) (\<lambda>b2.
     let kidx = kidx + (ch_EntryCount hdr + w32 b2) in
     bnd (signedMod (w64 kidx) 20) (\<lambda>m3.
     bnd (idx_signed dg m3) (\<lambda>c.
     Ret (c, kidx))))) 0 len kidx)"

lemma iv_54011_total [iv_totals]: "iv_total iv_54011"
  by (simp add: iv_total_def iv_54011_def recipe_safe Let_def case_prod_unfold)

definition iv_54052 :: ivFunc where
  "iv_54052 hdr kt dg len =
     bnd (idx dg 5) (\<lambda>b1.
     let kidx = 2 * w32 b1 in
     fill (\<lambda>i kidx.
     bnd (signedMod (w64 kidx) 512) (\<lambda>m2.
     bnd (idx_signed kt m2) (\<lambda>c.
     bnd (idx dg (ch_EntryCount hdr mod 20)) (\<lambda>b4.
     let kidx = kidx + (ch_EntryCount hdr + w32 b4) in
     bnd (signedMod (w64 (n32 i + ch_BuildVersion hdr)) 20) (\<lambda>m5.
     bnd (idx_signed dg m5) (\<lambda>b6.
     let c = c XOR b6 in
     Ret (c, kidx))))))) 0 len kidx)"

lemma iv_54052_total [iv_totals]: "iv_total iv_54052"
  by (simp add: iv_total_def iv_54052_def recipe_safe Let_def case_prod_unfold)

definition iv_54255 :: ivFunc where
  "iv_54255 hdr kt dg len =
     bnd (idx dg 5) (\<lambda>b1.
     let kidx = 2 * w32 b1 in
     fill (\<lambda>i kidx.
     bnd (signedMod (w64 kidx) 512) (\<lambda>m2.
     bnd (idx_signed kt m2) (\<lambda>c.
     let kidx = ch_BuildVersion hdr - kidx in
     bnd (signedMod (w64 (n32 i + kidx)) 20) (\<lambda>m4.
     bnd (idx_signed dg m4) (\<lambda>b5.
     let c = c XOR b5 in
     Ret (c, kidx)))))) 0 len kidx)"

lemma iv_54255_total [iv_totals]: "iv_total iv_54255"
  by (simp add: iv_total_def iv_54255_def recipe_safe Let_def case_prod_unfold)

definition iv_54983 :: ivFunc where
  "iv_54983 hdr kt dg len =
     bnd (idx dg 5) (\<lambda>b1.
     let kidx = 2 * w32 b1 in
     fill (\<lambda>i kidx.
     bnd (signedMod (w64 kidx) 512) (\<lambda>m2.
     bnd (idx_signed kt m2) (\<lambda>c.
     bnd (signedMod (w64 kidx) 3) (\<lambda>m4.
     bnd (if m4 = 0 then Ret (kidx + 103)
       else if m4 = 1 then signedMod (w64 (4 * kidx)) (w64 (ch_BuildVersion hdr))
       else if m4 = 2 then Ret (kidx - 1)
       else Ret kidx) (\<lambda>kidx.
     bnd (signedMod (w64 (ch_BuildVersion hdr + kidx)) 20) (\<lambda>m6.
     bnd (idx_signed dg m6) (\<lambda>b7.
     let c = c XOR b7 in
     Ret (c, kidx)))))))) 0 len kidx)"

lemma iv_54983_total [iv_totals]: "iv_total iv_54983"
  by (simp add: iv_total_def iv_54983_def recipe_safe Let_def case_prod_unfold)

definition iv_55290 :: ivFunc where
  "iv_55290 hdr kt dg len =
     bnd (idx dg 7) (\<lambda>b1.
     bnd (idx kt 0) (\<lambda>b2.
     bnd (idx kt ((w32 b1 * w32 b2) AND 511)) (\<lambda>b3.
     let kidx = w32 b3 in
     let increment = (ch_BuildVersion hdr * ch_DataCount hdr) mod 7 in
     fill (\<lambda>i kidx.
     bnd (signedMod (w64 kidx) 512) (\<lambda>m4.
     bnd (idx_signed kt m4) (\<lambda>c.
     let kidx = kidx + increment in
     bnd (signedMod (w64 (kidx - 0x49)) 20) (\<lambda>m6.
     bnd (idx_signed dg m6) (\<lambda>b7.
     let c = c XOR b7 in
     Ret (c, kidx)))))) 0 len kidx)))"

lemma iv_55290_total [iv_totals]: "iv_total iv_55290"
  by (simp add: iv_total_def iv_55290_def recipe_safe Let_def case_prod_unfold)

definition iv_55918 :: ivFunc where
  "iv_55918 hdr kt dg len =
     bnd (idx kt (ch_DataCount hdr AND 511)) (\<lambda>b1.
     let kidx = w32 b1 in
     fill (\<lambda>i kidx.
     bnd (signedMod (w64 kidx) 512) (\<lambda>m2.
     bnd (idx_signed kt m2) (\<lambda>c.
     bnd (signedMod (w64 kidx) 3) (\<lambda>m4.
     bnd (if m4 = 0 then Ret (kidx + 103)
       else if m4 = 1 then signedMod (w64 (4 * kidx)) (w64 (ch_BuildVersion hdr))
       else if m4 = 2 then Ret (kidx - 1)
       else Ret kidx) (\<lambda>kidx.
     bnd (signedMod (w64 (ch_BuildVersion hdr + kidx)) 20) (\<lambda>m6.
     bnd (idx_signed dg m6) (\<lambda>b7.
     let c = c XOR b7 in
     Ret (c, kidx)))))))) 0 len kidx)"

lemma iv_55918_total [iv_totals]: "iv_total iv_55918"
  by (simp add: iv_total_def iv_55918_def recipe_safe Let_def case_prod_unfold)

definition iv_56957 :: ivFunc where
  "iv_56957 hdr kt dg len =
     bnd (idx dg 5) (\<lambda>b1.
     let kidx = 2 * w32 b1 in
     fill (\<lambda>i kidx.
     bnd (signedMod (w64 kidx) 512) (\<lambda>m2.
     bnd (idx_signed kt m2) (\<lambda>c.
     let kidx = kidx - 43 in
     bnd (signedMod (w64 (kidx + ch_DataCount hdr)) 20) (\<lambda>m4.
     bnd (idx_signed dg m4) (\<lambda>b5.
     let c = c XOR b5 in
     Ret (c, kidx)))))) 0 len kidx)"

lemma iv_56957_total [iv_totals]: "iv_total iv_56957"
  by (simp add: iv_total_def iv_56957_def recipe_safe Let_def case_prod_unfold)

definition iv_57230 :: ivFunc where
  "iv_57230 hdr kt dg len =
     bnd (idx dg 5) (\<lambda>b1.
     let kidx = 2 * w32 b1 in
     bnd (idx dg 5) (\<lambda>b2.
     let increment = (2 * w32 b2) mod 29 in
     fill (\<lambda>i kidx.
     bnd (signedMod (w64 kidx) 512) (\<lambda>m3.
     bnd (idx_signed kt m3) (\<lambda>c.
     let kidx = kidx + increment in
     bnd (signedMod (w64 (kidx + ch_EntryCount hdr)) 20) (\<lambda>m5.
     bnd (idx_signed dg m5) (\<lambda>b6.
     let c = c XOR w8 (w32 b6 + 1) in
     Ret (c, kidx)))))) 0 len kidx))"

lemma iv_57230_total [iv_totals]: "iv_total iv_57230"
  by (simp add: iv_total_def iv_57230_def recipe_safe Let_def case_prod_unfold)

definition iv_57796 :: ivFunc where
  "iv_57796 hdr kt dg len =
     bnd (idx dg 7) (\<lambda>b1.
     bnd (idx kt 0) (\<lambda>b2.
     bnd (idx kt ((w32 b1 * w32 b2) AND 511)) (\<lambda>b3.
     let kidx = w32 b3 in
     fill (\<lambda>i kidx.
     bnd (signedMod (w64 kidx) 512) (\<lambda>m4.
     bnd (idx_signed kt m4) (\<lambda>c.
     let kidx = kidx - 452 in
     bnd (signedMod (w64 (kidx + ch_BuildVersion hdr)) 20) (\<lambda>m6.
     bnd (idx_signed dg m6) (\<lambda>b7.
     let c = c XOR b7 in
     Ret (c, kidx)))))) 0 len kidx)))"

lemma iv_57796_total [iv_totals]: "iv_total iv_57796"
  by (simp add: iv_total_def iv_57796_def recipe_safe Let_def case_prod_unfold)

definition iv_57979 :: ivFunc where
  "iv_57979 hdr kt dg len =
     bnd (idx dg 5) (\<lambda>b1.
     let kidx = 2 * w32 b1 in
     fill (\<lambda>i kidx.
     bnd (signedMod (w64 kidx) 512) (\<lambda>m2.
     bnd (idx_signed kt m2) (\<lambda>c.
     bnd (idx dg (ch_EntryCount hdr mod 20)) (\<lambda>b4.
     let kidx = kidx + (ch_EntryCount hdr + w32 b4) in
     bnd (idx dg ((ch_BuildVersion hdr + n32 i) mod 20)) (\<lambda>b5.
     let c = c XOR b5 in
     Ret (c, kidx)))))) 0 len kidx)"

lemma iv_57979_total [iv_totals]: "iv_total iv_57979"
  by (simp add: iv_total_def iv_57979_def recipe_safe Let_def case_prod_unfold)

definition iv_58155 :: ivFunc where
  "iv_58155 hdr kt dg len =
     bnd (idx dg 7) (\<lambda>b1.
     let kidx = (w32 b1 + ch_DataCount hdr) AND 511 in
     bnd (signedMod (w64 (ch_EntryCount hdr)) 20) (\<lambda>m2.
     bnd (idx_signed dg m2) (\<lambda>b3.
     let increment = ch_EntryCount hdr + w32 b3 in
     let digestIdx = ch_BuildVersion hdr in
     fill (\<lambda>i (kidx, digestIdx).
     bnd (signedMod (w64 kidx) 512) (\<lambda>m4.
     bnd (idx_signed kt m4) (\<lambda>c.
     let kidx = kidx + increment in
     bnd (signedMod (w64 digestIdx) 20) (\<lambda>m6.
     bnd (idx_signed dg m6) (\<lambda>b7.
     let c = c XOR b7 in
     let digestIdx = digestIdx + 1 in
     Ret (c, (kidx, digestIdx))))))) 0 len (kidx, digestIdx))))"

lemma iv_58155_total [iv_totals]: "iv_total iv_58155"
  by (simp add: iv_total_def iv_58155_def recipe_safe Let_def case_prod_unfold)

definition iv_58625 :: ivFunc where
  "iv_58625 hdr kt dg len =
     (let kidx = n32 len * ch_BuildVersion hdr in
     let okidx = kidx in
     fill (\<lambda>i kidx.
     bnd (signedMod (w64 kidx) 512) (\<lambda>m1.
     bnd (idx_signed kt m1) (\<lambda>c.
     bnd (idx dg 6) (\<lambda>b3.
     let kidx = (if (w32 b3 AND 1) \<noteq> 0 then kidx + 37
       else kidx + (okidx AND 61)) in
     bnd (signedMod (w64 (kidx - n32 i)) 20) (\<lambda>m4.
     bnd (idx_signed dg m4) (\<lambda>b5.
     let c = c XOR b5 in
     Ret (c, kidx))))))) 0 len kidx)"

lemma iv_58625_total [iv_totals]: "iv_total iv_58625"
  by (simp add: iv_total_def iv_58625_def recipe_safe Let_def case_prod_unfold)

definition iv_59008 :: ivFunc where
  "iv_59008 hdr kt dg len =
     bnd (idx dg 5) (\<lambda>b1.
     let kidx = 2 * w32 b1 in
     fill (\<lambda>i kidx.
     bnd (signedMod (w64 kidx) 512) (\<lambda>m2.
     bnd (idx_signed kt m2) (\<lambda>c.
     let kidx = kidx + ((ch_BuildVersion hdr * ch_DataCount hdr) mod 7) in
     bnd (signedMod (w64 (kidx - 73)) 20) (\<lambda>m4.
     bnd (idx_signed dg m4) (\<lambda>b5.
     let c = c XOR b5 in
     Ret (c, kidx)))))) 0 len kidx)"

lemma iv_59008_total [iv_totals]: "iv_total iv_59008"
  by (simp add: iv_total_def iv_59008_def recipe_safe Let_def case_prod_unfold)

definition iv_59573 :: ivFunc where
  "iv_59573 hdr kt dg len =
     bnd (idx kt (ch_BuildVersion hdr AND 511)) (\<lambda>b1.
     let increment = w32 b1 in
     let kidx = increment in
     fill (\<lambda>i kidx.
     bnd (signedMod (w64 kidx) 512) (\<lambda>m2.
     bnd (idx_signed kt m2) (\<lambda>c.
     let kidx = kidx + (increment mod 29) in
     bnd (signedMod (w64 (kidx + ch_EntryCount hdr)) 20) (\<lambda>m4.
     bnd (idx_signed dg m4) (\<lambda>b5.
     let c = c XOR w8 (w32 b5 + 1) in
     Ret (c, kidx)))))) 0 len kidx)"

lemma iv_59573_total [iv_totals]: "iv_total iv_59573"
  by (simp add: iv_total_def iv_59573_def recipe_safe Let_def case_prod_unfold)

definition iv_60038 :: ivFunc where
  "iv_60038 hdr kt dg len =
     bnd (idx dg 7) (\<lambda>b1.
     let kidx = (w32 b1 + ch_DataCount hdr) AND 511 in
     fill (\<lambda>i kidx.
     bnd (signedMod (w64 kidx) 512) (\<lambda>m2.
     bnd (idx_signed kt m2) (\<lambda>c.
     let kidx = kidx + 3 in
     bnd (signedMod (w64 (kidx - n32 i)) 20) (\<lambda>m4.
     bnd (idx_signed dg m4) (\<lambda>b5.
     let c = c XOR b5 in
     Ret (c, kidx)))))) 0 len kidx)"

lemma iv_60038_total [iv_totals]: "iv_total iv_60038"
  by (simp add: iv_total_def iv_60038_def recipe_safe Let_def case_prod_unfold)

definition iv_60360 :: ivFunc where
  "iv_60360 hdr kt dg len =
     bnd (idx dg 7) (\<lambda>b1.
     let kidx = (w32 b1 + ch_DataCount hdr) AND 511 in
     fill (\<lambda>i kidx.
     bnd (signedMod (w64 kidx) 512) (\<lambda>m2.
     bnd (idx_signed kt m2) (\<lambda>c.
     let kidx = ch_BuildVersion hdr - kidx in
     bnd (signedMod (w64 (kidx + n32 i)) 20) (\<lambda>m4.
     bnd (idx_signed dg m4) (\<lambda>b5.
     let c = c XOR b5 in
     Ret (c, kidx)))))) 0 len kidx)"

lemma iv_60360_total [iv_totals]: "iv_total iv_60360"
  by (simp add: iv_total_def iv_60360_def recipe_safe Let_def case_prod_unfold)

definition iv_60547 :: ivFunc where
  "iv_60547 hdr kt dg len =
     bnd (idx dg 7) (\<lambda>b1.
     bnd (idx kt 0) (\<lambda>b2.
     bnd (idx kt ((w32 b1 * w32 b2) AND 511)) (\<lambda>b3.
     let kidx = w32 b3 in
     fill (\<lambda>i kidx.
     bnd (signedMod (w64 kidx) 512) (\<lambda>m4.
     bnd (idx_signed kt m4) (\<lambda>c.
     let kidx = ch_BuildVersion hdr - kidx in
     bnd (signedMod (w64 (kidx + n32 i)) 20) (\<lambda>m6.
     bnd (idx_signed dg m6) (\<lambda>b7.
     let c = c XOR b7 in
     Ret (c, kidx)))))) 0 len kidx)))"

lemma iv_60547_total [iv_totals]: "iv_total iv_60547"
  by (simp add: iv_total_def iv_60547_def recipe_safe Let_def case_prod_unfold)

definition iv_60993 :: ivFunc where
  "iv_60993 hdr kt dg len =
     bnd (idx kt (ch_DataCount hdr AND 511)) (\<lambda>b1.
     let kidx = w32 b1 in
     fill (\<lambda>i kidx.
     bnd (signedMod (w64 kidx) 512) (\<lambda>m2.
     bnd (idx_signed kt m2) (\<lambda>c.
     bnd (signedMod (w64 (ch_EntryCount hdr)) 20) (\<lambda>m4.
     bnd (idx_signed dg m4) (\<lambda>b5.
     let kidx = kidx + (ch_EntryCount hdr + w32 b5) in
     bnd (signedMod (w64 (ch_BuildVersion hdr + n32 i)) 20) (\<lambda>m6.
     bnd (idx_signed dg m6) (\<lambda>b7.
     let c = c XOR b7 in
     Ret (c, kidx)))))))) 0 len kidx)"

lemma iv_60993_total [iv_totals]: "iv_total iv_60993"
  by (simp add: iv_total_def iv_60993_def recipe_safe Let_def case_prod_unfold)

definition iv_61542 :: ivFunc where
  "iv_61542 hdr kt dg len =
     bnd (idx dg 5) (\<lambda>b1.
     let okidx = 2 * w32 b1 in
     let kidx = okidx in
     fill (\<lambda>i kidx.
     bnd (signedMod (w64 kidx) 512) (\<lambda>m2.
     bnd (idx_signed kt m2) (\<lambda>c.
     let kidx = kidx + (okidx mod 29) in
     bnd (signedMod (w64 (kidx + ch_EntryCount hdr)) 20) (\<lambda>m4.
     bnd (idx_signed dg m4) (\<lambda>b5.
     let c = c XOR w8 (w32 b5 + 1) in
     Ret (c, kidx)))))) 0 len kidx)"

lemma iv_61542_total [iv_totals]: "iv_total iv_61542"
  by (simp add: iv_total_def iv_61542_def recipe_safe Let_def case_prod_unfold)

definition iv_62065 :: ivFunc where
  "iv_62065 hdr kt dg len =
     bnd (idx kt (ch_BuildVersion hdr AND 511)) (\<lambda>b1.
     let kidx = w32 b1 in
     fill (\<lambda>i kidx.
     bnd (signedMod (w64 kidx) 512) (\<lambda>m2.
     bnd (idx_signed kt m2) (\<lambda>c.
     let kidx = ch_BuildVersion hdr - kidx in
     bnd (signedMod (w64 (kidx + n32 i)) 20) (\<lambda>m4.
     bnd (idx_signed dg m4) (\<lambda>b5.
     let c = c XOR b5 in
     Ret (c, kidx)))))) 0 len kidx)"

lemma iv_62065_total [iv_totals]: "iv_total iv_62065"
  by (simp add: iv_total_def iv_62065_def recipe_safe Let_def case_prod_unfold)

definition iv_62591 :: ivFunc where
  "iv_62591 hdr kt dg len =
     bnd (idx dg 7) (\<lambda>b1.
     bnd (idx kt 0) (\<lambda>b2.
     bnd (idx kt ((w32 b1 * w32 b2) AND 511)) (\<lambda>b3.
     let kidx = w32 b3 in
     fill (\<lambda>i kidx.
     bnd (signedMod (w64 kidx) 512) (\<lambda>m4.
     bnd (idx_signed kt m4) (\<lambda>c.
     bnd (signedMod (w64 (ch_EntryCount hdr)) 20) (\<lambda>m6.
     bnd (idx_signed dg m6) (\<lambda>b7.
     let kidx = kidx + (ch_EntryCount hdr + w32 b7) in
     bnd (signedMod (w64 kidx) 20) (\<lambda>m8.
     bnd (idx_signed dg m8) (\<lambda>c.
     Ret (c, kidx)))))))) 0 len kidx)))"

lemma iv_62591_total [iv_totals]: "iv_total iv_62591"
  by (simp add: iv_total_def iv_62591_def recipe_safe Let_def case_prod_unfold)

definition iv_62906 :: ivFunc where
  "iv_62906 hdr kt dg len =
     bnd (idx dg 7) (\<lambda>b1.
     bnd (idx kt 0) (\<lambda>b2.
     bnd (idx kt ((w32 b1 * w32 b2) AND 511)) (\<lambda>b3.
     let okidx = w32 b3 in
     let kidx = okidx in
     fill (\<lambda>i kidx.
     bnd (signedMod (w64 kidx) 512) (\<lambda>m4.
     bnd (idx_signed kt m4) (\<lambda>c.
     let kidx = kidx + (okidx mod 29) in
     bnd (signedMod (w64 (kidx + ch_EntryCount hdr)) 20) (\<lambda>m6.
     bnd (idx_signed dg m6) (\<lambda>b7.
     let c = c XOR w8 (w32 b7 + 1) in
     Ret (c, kidx)))))) 0 len kidx)))"

lemma iv_62906_total [iv_totals]: "iv_total iv_62906"
  by (simp add: iv_total_def iv_62906_def recipe_safe Let_def case_prod_unfold)

definition iv_63372 :: ivFunc where
  "iv_63372 hdr kt dg len =
     bnd (idx dg 13) (\<lambda>b1.
     bnd (signedMod (w64 ((2 * w32 b1) - n32 len)) 512) (\<lambda>m2.
     bnd (idx_signed kt m2) (\<lambda>b3.
     let kidx = w32 b3 in
     fill (\<lambda>i kidx.
     bnd (signedMod (w64 kidx) 512) (\<lambda>m4.
     bnd (idx_signed kt m4) (\<lambda>c.
     bnd (signedMod (w64 (ch_EntryCount hdr)) 20) (\<lambda>m6.
     bnd (idx_signed dg m6) (\<lambda>b7.
     let kidx = kidx + (ch_EntryCount hdr + w32 b7) in
     bnd (signedMod (w64 kidx) 20) (\<lambda>m8.
     bnd (idx_signed dg m8) (\<lambda>c.
     Ret (c, kidx)))))))) 0 len kidx)))"

lemma iv_63372_total [iv_totals]: "iv_total iv_63372"
  by (simp add: iv_total_def iv_63372_def recipe_safe Let_def case_prod_unfold)

definition iv_63568 :: ivFunc where
  "iv_63568 hdr kt dg len =
     bnd (idx dg 13) (\<lambda>b1.
     bnd (signedMod (w64 ((2 * w32 b1) - n32 len)) 512) (\<lambda>m2.
     bnd (idx_signed kt m2) (\<lambda>b3.
     let kidx = w32 b3 in
     fill (\<lambda>i kidx.
     bnd (signedMod (w64 kidx) 512) (\<lambda>m4.
     bnd (idx_signed kt m4) (\<lambda>c.
     let kidx = kidx - 43 in
     bnd (signedMod (w64 (kidx + ch_DataCount hdr)) 20) (\<lambda>m6.
     bnd (idx_signed dg m6) (\<lambda>b7.
     let c = c XOR b7 in
     Ret (c, kidx)))))) 0 len kidx)))"

lemma iv_63568_total [iv_totals]: "iv_total iv_63568"
  by (simp add: iv_total_def iv_63568_def recipe_safe Let_def case_prod_unfold)

definition iv_63778 :: ivFunc where
  "iv_63778 hdr kt dg len =
     bnd (idx dg 13) (\<lambda>b1.
     bnd (signedMod (w64 ((2 * w32 b1) - n32 len)) 512) (\<lambda>m2.
     bnd (idx_signed kt m2) (\<lambda>b3.
     let kidx = w32 b3 in
     fill (\<lambda>i kidx.
     bnd (signedMod (w64 kidx) 512) (\<lambda>m4.
     bnd (idx_signed kt m4) (\<lambda>c.
     let kidx = kidx + 3 in
     bnd (signedMod (w64 (kidx - n32 i)) 20) (\<lambda>m6.
     bnd (idx_signed dg m6) (\<lambda>b7.
     let c = c XOR b7 in
     Ret (c, kidx)))))) 0 len kidx)))"

lemma iv_63778_total [iv_totals]: "iv_total iv_63778"
  by (simp add: iv_total_def iv_63778_def recipe_safe Let_def case_prod_unfold)

definition iv_63869 :: ivFunc where
  "iv_63869 hdr kt dg len =
     bnd (idx dg 13) (\<lambda>b1.
     bnd (signedMod (w64 ((2 * w32 b1) - n32 len)) 512) (\<lambda>m2.
     bnd (idx_signed kt m2) (\<lambda>b3.
     let kidx = w32 b3 in
     fill (\<lambda>i kidx.
     bnd (signedMod (w64 kidx) 512) (\<lambda>m4.
     bnd (idx_signed kt m4) (\<lambda>c.
     let kidx = ch_BuildVersion hdr - kidx in
     bnd (signedMod (w64 (kidx + n32 i)) 20) (\<lambda>m6.
     bnd (idx_signed dg m6) (\<lambda>b7.
     let c = c XOR b7 in
     Ret (c, kidx)))))) 0 len kidx)))"

lemma iv_63869_total [iv_totals]: "iv_total iv_63869"
  by (simp add: iv_total_def iv_63869_def recipe_safe Let_def case_prod_unfold)

definition iv_64346 :: ivFunc where
  "iv_64346 hdr kt dg len =
     bnd (idx kt (ch_DataCount hdr AND 511)) (\<lambda>b1.
     let okidx = w32 b1 in
     let kidx = okidx in
     fill (\<lambda>i kidx.
     bnd (signedMod (w64 kidx) 512) (\<lambda>m2.
     bnd (idx_signed kt m2) (\<lambda>c.
     let kidx = kidx + (okidx mod 13) in
     bnd (signedMod (w64 (kidx + nonEncryptedMagic hdr)) 20) (\<lambda>m4.
     bnd (idx_signed dg m4) (\<lambda>b5.
     let c = c XOR b5 in
     Ret (c, kidx)))))) 0 len kidx)"

lemma iv_64346_total [iv_totals]: "iv_total iv_64346"
  by (simp add: iv_total_def iv_64346_def recipe_safe Let_def case_prod_unfold)

definition iv_64719 :: ivFunc where
  "iv_64719 hdr kt dg len =
     bnd (idx dg 7) (\<lambda>b1.
     bnd (idx kt 0) (\<lambda>b2.
     bnd (idx kt ((w32 b1 * w32 b2) AND 511)) (\<lambda>b3.
     let okidx = w32 b3 in
     let kidx = okidx in
     fill (\<lambda>i kidx.
     bnd (signedMod (w64 kidx) 512) (\<lambda>m4.
     bnd (idx_signed kt m4) (\<lambda>c.
     bnd (idx dg 6) (\<lambda>b6.
     let kidx = (if (w32 b6 AND 1) \<noteq> 0 then kidx + 37
       else kidx + (okidx mod 61)) in
     bnd (signedMod (w64 (kidx - n32 i)) 20) (\<lambda>m7.
     bnd (idx_signed dg m7) (\<lambda>b8.
     let c = c XOR b8 in
     Ret (c, kidx))))))) 0 len kidx)))"

lemma iv_64719_total [iv_totals]: "iv_total iv_64719"
  by (simp add: iv_total_def iv_64719_def recipe_safe Let_def case_prod_unfold)

definition iv_65302 :: ivFunc where
  "iv_65302 hdr kt dg len =
     bnd (idx dg 7) (\<lambda>b1.
     let okidx = (w32 b1 + w32 (w16 (ch_DataCount hdr))) AND 511 in
     let kidx = okidx in
     fill (\<lambda>i kidx.
     bnd (signedMod (w64 kidx) 512) (\<lambda>m2.
     bnd (idx_signed kt m2) (\<lambda>c.
     bnd (idx dg 6) (\<lambda>b4.
     let kidx = (if (w32 b4 AND 1) \<noteq> 0 then kidx + 37
       else kidx + (okidx mod 61)) in
     bnd (signedMod (w64 (kidx - n32 i)) 20) (\<lambda>m5.
     bnd (idx_signed dg m5) (\<lambda>b6.
     let c = c XOR b6 in
     Ret (c, kidx))))))) 0 len kidx)"

lemma iv_65302_total [iv_totals]: "iv_total iv_65302"
  by (simp add: iv_total_def iv_65302_def recipe_safe Let_def case_prod_unfold)

definition iv_65513 :: ivFunc where
  "iv_65513 hdr kt dg len =
     (let okidx = ch_BuildVersion hdr * n32 len in
     let kidx = okidx in
     fill (\<lambda>i kidx.
     bnd (signedMod (w64 kidx) 512) (\<lambda>m1.
     bnd (idx_signed kt m1) (\<lambda>c.
     let kidx = kidx + (okidx mod 29) in
     bnd (signedMod (w64 (kidx + ch_EntryCount hdr)) 20) (\<lambda>m3.
     bnd (idx_signed dg m3) (\<lambda>b4.
     let c = c XOR w8 (w32 b4 + 1) in
     Ret (c, kidx)))))) 0 len kidx)"

lemma iv_65513_total [iv_totals]: "iv_total iv_65513"
  by (simp add: iv_total_def iv_65513_def recipe_safe Let_def case_prod_unfold)

definition iv_66302 :: ivFunc where
  "iv_66302 hdr kt dg len =
     bnd (idx dg 5) (\<lambda>b1.
     let okidx = 2 * w32 b1 in
     let kidx = okidx in
     fill (\<lambda>i kidx.
     bnd (signedMod (w64 kidx) 512) (\<lambda>m2.
     bnd (idx_signed kt m2) (\<lambda>c.
     bnd (signedMod (w64 kidx) 3) (\<lambda>m4.
     bnd (if m4 = 0 then Ret (kidx + 103)
       else if m4 = 1 then signedMod (w64 (kidx * 4)) (w64 (ch_BuildVersion hdr))
       else if m4 = 2 then Ret (kidx - 1)
       else Ret kidx) (\<lambda>kidx.
     bnd (signedMod (w64 (kidx + ch_BuildVersion hdr)) 20) (\<lambda>m6.
     bnd (idx_signed dg m6) (\<lambda>b7.
     let c = c XOR b7 in
     Ret (c, kidx)))))))) 0 len kidx)"

lemma iv_66302_total [iv_totals]: "iv_total iv_66302"
  by (simp add: iv_total_def iv_66302_def recipe_safe Let_def case_prod_unfold)

definition iv_66607 :: ivFunc where
  "iv_66607 hdr kt dg len =
     bnd (idx kt (ch_DataCount hdr AND 511)) (\<lambda>b1.
     let okidx = w32 b1 in
     let kidx = okidx in
     fill (\<lambda>i kidx.
     bnd (signedMod (w64 kidx) 512) (\<lambda>m2.
     bnd (idx_signed kt m2) (\<lambda>c.
     let kidx = kidx - (ch_BuildVersion hdr AND 511) in
     bnd (signedMod (w64 (kidx + ch_BuildVersion hdr)) 20) (\<lambda>m4.
     bnd (idx_signed dg m4) (\<lambda>b5.
     let c = c XOR b5 in
     Ret (c, kidx)))))) 0 len kidx)"

lemma iv_66607_total [iv_totals]: "iv_total iv_66607"
  by (simp add: iv_total_def iv_66607_def recipe_safe Let_def case_prod_unfold)

definition iv_67071 :: ivFunc where
  "iv_67071 hdr kt dg len =
     bnd (idx dg 7) (\<lambda>b1.
     bnd (idx kt 0) (\<lambda>b2.
     bnd (idx kt ((w32 b1 * w32 b2) AND 511)) (\<lambda>b3.
     let okidx = w32 b3 in
     let kidx = okidx in
     fill (\<lambda>i kidx.
     bnd (signedMod (w64 kidx) 512) (\<lambda>m4.
     bnd (idx_signed kt m4) (\<lambda>c.
     let kidx = kidx + ((ch_BuildVersion hdr * ch_DataCount hdr) mod 7) in
     bnd (signedMod (w64 (kidx - 73)) 20) (\<lambda>m6.
     bnd (idx_signed dg m6) (\<lambda>b7.
     let c = c XOR b7 in
     Ret (c, kidx)))))) 0 len kidx)))"

lemma iv_67071_total [iv_totals]: "iv_total iv_67071"
  by (simp add: iv_total_def iv_67071_def recipe_safe Let_def case_prod_unfold)

definition iv_67664 :: ivFunc where
  "iv_67664 hdr kt dg len =
     bnd (idx kt (ch_DataCount hdr AND 511)) (\<lambda>b1.
     let kidx = w32 b1 in
     fill (\<lambda>i kidx.
     bnd (signedMod (w64 kidx) 512) (\<lambda>m2.
     bnd (idx_signed kt m2) (\<lambda>c.
     let kidx = ch_BuildVersion hdr - kidx in
     bnd (signedMod (w64 (kidx + n32 i)) 20) (\<lambda>m4.
     bnd (idx_signed dg m4) (\<lambda>b5.
     let c = c XOR b5 in
     Ret (c, kidx)))))) 0 len kidx)"

lemma iv_67664_total [iv_totals]: "iv_total iv_67664"
  by (simp add: iv_total_def iv_67664_def recipe_safe Let_def case_prod_unfold)

definition iv_68126 :: ivFunc where
  "iv_68126 hdr kt dg len =
     bnd (idx kt (ch_DataCount hdr AND 511)) (\<lambda>b1.
     let okidx = w32 b1 in
     let kidx = okidx in
     fill (\<lambda>i kidx.
     bnd (signedMod (w64 kidx) 512) (\<lambda>m2.
     bnd (idx_signed kt m2) (\<lambda>c.
     let kidx = ch_BuildVersion hdr - kidx in
     bnd (signedMod (w64 (kidx + n32 i)) 20) (\<lambda>m4.
     bnd (idx_signed dg m4) (\<lambda>b5.
     let c = c XOR b5 in
     Ret (c, kidx)))))) 0 len kidx)"

lemma iv_68126_total [iv_totals]: "iv_total iv_68126"
  by (simp add: iv_total_def iv_68126_def recipe_safe Let_def case_prod_unfold)

definition iv_68780 :: ivFunc where
  "iv_68780 hdr kt dg len =
     bnd (idx dg 5) (\<lambda>b1.
     let okidx = 2 * w32 b1 in
     let kidx = okidx in
     fill (\<lambda>i kidx.
     bnd (signedMod (w64 kidx) 512) (\<lambda>m2.
     bnd (idx_signed kt m2) (\<lambda>c.
     let kidx = kidx + (okidx mod 29) in
     bnd (signedMod (w64 (kidx + ch_DataCount hdr)) 20) (\<lambda>m4.
     bnd (idx_signed dg m4) (\<lambda>b5.
     let c = c XOR w8 (w32 b5 + 1) in
     Ret (c, kidx)))))) 0 len kidx)"

lemma iv_68780_total [iv_totals]: "iv_total iv_68780"
  by (simp add: iv_total_def iv_68780_def recipe_safe Let_def case_prod_unfold)

definition iv_69340 :: ivFunc where
  "iv_69340 hdr kt dg len =
     bnd (idx dg 5) (\<lambda>b1.
     let okidx = 2 * w32 b1 in
     let kidx = okidx in
     fill (\<lambda>i kidx.
     bnd (signedMod (w64 kidx) 512) (\<lambda>m2.
     bnd (idx_signed kt m2) (\<lambda>c.
     let kidx = kidx + (okidx mod 13) in
     bnd (signedMod (w64 (kidx + nonEncryptedMagic hdr)) 20) (\<lambda>m4.
     bnd (idx_signed dg m4) (\<lambda>b5.
     let c = c XOR b5 in
     Ret (c, kidx)))))) 0 len kidx)"

lemma iv_69340_total [iv_totals]: "iv_total iv_69340"
  by (simp add: iv_total_def iv_69340_def recipe_safe Let_def case_prod_unfold)

definition iv_69939 :: ivFunc where
  "iv_69939 hdr kt dg len =
     bnd (idx kt (ch_DataCount hdr AND 511)) (\<lambda>b1.
     let okidx = w32 b1 in
     let kidx = okidx in
     fill (\<lambda>i kidx.
     bnd (signedMod (w64 kidx) 512) (\<lambda>m2.
     bnd (idx_signed kt m2) (\<lambda>c.
     bnd (idx dg (ch_DataCount hdr mod 20)) (\<lambda>b4.
     let kidx = kidx + ((ch_DataCount hdr + w32 b4) mod 17) in
     bnd (signedMod (w64 kidx) 20) (\<lambda>m5.
     bnd (idx_signed dg m5) (\<lambda>c.
     Ret (c, kidx))))))) 0 len kidx)"

lemma iv_69939_total [iv_totals]: "iv_total iv_69939"
  by (simp add: iv_total_def iv_69939_def recipe_safe Let_def case_prod_unfold)

definition iv_70250 :: ivFunc where
  "iv_70250 hdr kt dg len =
     bnd (idx dg 5) (\<lambda>b1.
     let okidx = 2 * w32 b1 in
     let kidx = okidx in
     fill (\<lambda>i kidx.
     bnd (signedMod (w64 kidx) 512) (\<lambda>m2.
     bnd (idx_signed kt m2) (\<lambda>c.
     let kidx = kidx + ((ch_BuildVersion hdr * ch_DataCount hdr) mod 7) in
     bnd (signedMod (w64 (kidx - 73)) 20) (\<lambda>m4.
     bnd (idx_signed dg m4) (\<lambda>b5.
     let c = c XOR b5 in
     Ret (c, kidx)))))) 0 len kidx)"

lemma iv_70250_total [iv_totals]: "iv_total iv_70250"
  by (simp add: iv_total_def iv_70250_def recipe_safe Let_def case_prod_unfold)

definition iv_70665 :: ivFunc where
  "iv_70665 hdr kt dg len =
     (let okidx = n32 len * ch_BuildVersion hdr in
     let kidx = okidx in
     fill (\<lambda>i kidx.
     bnd (signedMod (w64 kidx) 512) (\<lambda>m1.
     bnd (idx_signed kt m1) (\<lambda>c.
     bnd (signedMod (w64 (ch_DataCount hdr)) 20) (\<lambda>m3.
     bnd (idx_signed dg m3) (\<lambda>b4.
     let kidx = kidx + ((ch_DataCount hdr + w32 b4) mod 17) in
     bnd (signedMod (w64 kidx) 20) (\<lambda>m5.
     bnd (idx_signed dg m5) (\<lambda>c.
     Ret (c, kidx)))))))) 0 len kidx)"

lemma iv_70665_total [iv_totals]: "iv_total iv_70665"
  by (simp add: iv_total_def iv_70665_def recipe_safe Let_def case_prod_unfold)

definition iv_71213 :: ivFunc where
  "iv_71213 hdr kt dg len =
     bnd (idx kt (ch_DataCount hdr AND 511)) (\<lambda>b1.
     let kidx = w32 b1 in
     fill (\<lambda>i kidx.
     bnd (signedMod (w64 kidx) 512) (\<lambda>m2.
     bnd (idx_signed kt m2) (\<lambda>c.
     let kidx = kidx - 43 in
     bnd (signedMod (w64 (kidx + ch_DataCount hdr)) 20) (\<lambda>m4.
     bnd (idx_signed dg m4) (\<lambda>b5.
     let c = c XOR b5 in
     Ret (c, kidx)))))) 0 len kidx)"

lemma iv_71213_total [iv_totals]: "iv_total iv_71213"
  by (simp add: iv_total_def iv_71213_def recipe_safe Let_def case_prod_unfold)

definition iv_71620 :: ivFunc where
  "iv_71620 hdr kt dg len =
     bnd (idx kt (ch_BuildVersion hdr AND 511)) (\<lambda>b1.
     let okidx = w32 b1 in
     let kidx = okidx in
     fill (\<lambda>i kidx.
     bnd (signedMod (w64 kidx) 512) (\<lambda>m2.
     bnd (idx_signed kt m2) (\<lambda>c.
     let kidx = kidx - 43 in
     bnd (signedMod (w64 (kidx + ch_DataCount hdr)) 20) (\<lambda>m4.
     bnd (idx_signed dg m4) (\<lambda>b5.
     let c = c XOR b5 in
     Ret (c, kidx)))))) 0 len kidx)"

lemma iv_71620_total [iv_totals]: "iv_total iv_71620"
  by (simp add: iv_total_def iv_71620_def recipe_safe Let_def case_prod_unfold)

definition iv_72127 :: ivFunc where
  "iv_72127 hdr kt dg len =
     bnd (signedMod (w64 (7 + ch_DataCount hdr)) 20) (\<lambda>m1.
     bnd (idx_signed dg m1) (\<lambda>b2.
     let kidx = w32 b2 AND 511 in
     fill (\<lambda>i kidx.
     bnd (signedMod (w64 kidx) 512) (\<lambda>m3.
     bnd (idx_signed kt m3) (\<lambda>c.
     let kidx = kidx + 3 in
     bnd (signedMod (w64 (kidx - n32 i)) 20) (\<lambda>m5.
     bnd (idx_signed dg m5) (\<lambda>b6.
     let c = c XOR b6 in
     Ret (c, kidx)))))) 0 len kidx))"

lemma iv_72127_total [iv_totals]: "iv_total iv_72127"
  by (simp add: iv_total_def iv_72127_def recipe_safe Let_def case_prod_unfold)

definition iv_73258 :: ivFunc where
  "iv_73258 hdr kt dg len =
     bnd (idx kt (ch_BuildVersion hdr AND 511)) (\<lambda>b1.
     let okidx = w32 b1 in
     let kidx = okidx in
     fill (\<lambda>i kidx.
     bnd (signedMod (w64 kidx) 512) (\<lambda>m2.
     bnd (idx_signed kt m2) (\<lambda>c.
     bnd (signedMod (w64 (ch_DataCount hdr)) 20) (\<lambda>m4.
     bnd (idx_signed dg m4) (\<lambda>b5.
     let kidx = kidx + (ch_DataCount hdr + w32 b5) in
     bnd (signedMod (w64 (ch_BuildVersion hdr + n32 i)) 20) (\<lambda>m6.
     bnd (idx_signed dg m6) (\<lambda>b7.
     let c = c XOR b7 in
     Ret (c, kidx)))))))) 0 len kidx)"

lemma iv_73258_total [iv_totals]: "iv_total iv_73258"
  by (simp add: iv_total_def iv_73258_def recipe_safe Let_def case_prod_unfold)

definition iv_73677 :: ivFunc where
  "iv_73677 hdr kt dg len =
     bnd (idx kt (ch_DataCount hdr AND 511)) (\<lambda>b1.
     let okidx = w32 b1 in
     let kidx = okidx in
     fill (\<lambda>i kidx.
     bnd (signedMod (w64 kidx) 512) (\<lambda>m2.
     bnd (idx_signed kt m2) (\<lambda>c.
     let kidx = kidx - 43 in
     bnd (signedMod (w64 (kidx + ch_DataCount hdr)) 20) (\<lambda>m4.
     bnd (idx_signed dg m4) (\<lambda>b5.
     let c = c XOR b5 in
     Ret (c, kidx)))))) 0 len kidx)"

lemma iv_73677_total [iv_totals]: "iv_total iv_73677"
  by (simp add: iv_total_def iv_73677_def recipe_safe Let_def case_prod_unfold)

definition iv_74102 :: ivFunc where
  "iv_74102 hdr kt dg len =
     (let okidx = n32 len * ch_BuildVersion hdr in
     let kidx = okidx in
     fill (\<lambda>i kidx.
     bnd (signedMod (w64 kidx) 512) (\<lambda>m1.
     bnd (idx_signed kt m1) (\<lambda>c.
     bnd (idx dg 6) (\<lambda>b3.
     let kidx = (if (w32 b3 AND 1) \<noteq> 0 then kidx + 37
       else kidx + (okidx mod 61)) in
     bnd (signedMod (w64 (kidx - n32 i)) 20) (\<lambda>m4.
     bnd (idx_signed dg m4) (\<lambda>b5.
     let c = c XOR b5 in
     Ret (c, kidx))))))) 0 len kidx)"

lemma iv_74102_total [iv_totals]: "iv_total iv_74102"
  by (simp add: iv_total_def iv_74102_def recipe_safe Let_def case_prod_unfold)

definition iv_75428 :: ivFunc where
  "iv_75428 hdr kt dg len =
     bnd (idx kt (ch_BuildVersion hdr AND 511)) (\<lambda>b1.
     let kidx = w32 b1 in
     fill (\<lambda>i kidx.
     bnd (signedMod (w64 kidx) 512) (\<lambda>m2.
     bnd (idx_signed kt m2) (\<lambda>c.
     bnd (signedMod (w64 (ch_DataCount hdr)) 20) (\<lambda>m4.
     bnd (idx_signed dg m4) (\<lambda>b5.
     let kidx = kidx + ((ch_DataCount hdr + w32 b5) mod 17) in
     bnd (signedMod (w64 kidx) 20) (\<lambda>m6.
     bnd (idx_signed dg m6) (\<lambda>c.
     Ret (c, kidx)))))))) 0 len kidx)"

lemma iv_75428_total [iv_totals]: "iv_total iv_75428"
  by (simp add: iv_total_def iv_75428_def recipe_safe Let_def case_prod_unfold)

definition iv_76333 :: ivFunc where
  "iv_76333 hdr kt dg len =
     bnd (idx dg 5) (\<lambda>b1.
     let okidx = 2 * w32 b1 in
     let kidx = okidx in
     fill (\<lambda>i kidx.
     bnd (signedMod (w64 kidx) 512) (\<lambda>m2.
     bnd (idx_signed kt m2) (\<lambda>c.
     let kidx = kidx + 3 in
     bnd (signedMod (w64 (kidx - 73)) 20) (\<lambda>m4.
     bnd (idx_signed dg m4) (\<lambda>b5.
     let c = c XOR b5 in
     Ret (c, kidx)))))) 0 len kidx)"

lemma iv_76333_total [iv_totals]: "iv_total iv_76333"
  by (simp add: iv_total_def iv_76333_def recipe_safe Let_def case_prod_unfold)

definition iv_77262 :: ivFunc where
  "iv_77262 hdr kt dg len =
     bnd (idx kt (ch_BuildVersion hdr AND 511)) (\<lambda>b1.
     let okidx = w32 b1 in
     let kidx = okidx in
     fill (\<lambda>i kidx.
     bnd (signedMod (w64 kidx) 512) (\<lambda>m2.
     bnd (idx_signed kt m2) (\<lambda>c.
     bnd (signedMod (w64 (ch_DataCount hdr)) 20) (\<lambda>m4.
     bnd (idx_signed dg m4) (\<lambda>b5.
     let kidx = kidx + (ch_DataCount hdr + w32 b5) in
     bnd (signedMod (w64 (ch_BuildVersion hdr + n32 i)) 20) (\<lambda>m6.
     bnd (idx_signed dg m6) (\<lambda>b7.
     let c = c XOR b7 in
     Ret (c, kidx)))))))) 0 len kidx)"

lemma iv_77262_total [iv_totals]: "iv_total iv_77262"
  by (simp add: iv_total_def iv_77262_def recipe_safe Let_def case_prod_unfold)

definition iv_78040 :: ivFunc where
  "iv_78040 hdr kt dg len =
     bnd (idx dg 7) (\<lambda>b1.
     bnd (idx kt 0) (\<lambda>b2.
     bnd (idx kt ((w32 b1 * w32 b2) AND 511)) (\<lambda>b3.
     let okidx = w32 b3 in
     let kidx = okidx in
     fill (\<lambda>i kidx.
     bnd (signedMod (w64 kidx) 512) (\<lambda>m4.
     bnd (idx_signed kt m4) (\<lambda>c.
     bnd (idx dg 6) (\<lambda>b6.
     let kidx = (if (w32 b6 AND 1) \<noteq> 0 then kidx + 37
       else kidx + (okidx mod 61)) in
     bnd (signedMod (w64 (kidx - n32 i)) 20) (\<lambda>m7.
     bnd (idx_signed dg m7) (\<lambda>b8.
     let c = c XOR b8 in
     Ret (c, kidx))))))) 0 len kidx)))"

lemma iv_78040_total [iv_totals]: "iv_total iv_78040"
  by (simp add: iv_total_def iv_78040_def recipe_safe Let_def case_prod_unfold)

definition iv_78777 :: ivFunc where
  "iv_78777 hdr kt dg len =
     bnd (idx dg 7) (\<lambda>b1.
     let okidx = (w32 b1 + ch_DataCount hdr) AND 511 in
     let kidx = okidx in
     fill (\<lambda>i kidx.
     bnd (signedMod (w64 kidx) 512) (\<lambda>m2.
     bnd (idx_signed kt m2) (\<lambda>c.
     bnd (idx dg 3) (\<lambda>b4.
     let kidx = (if (w32 b4 AND 1) \<noteq> 0 then kidx + 37
       else kidx + (okidx mod 61)) in
     bnd (signedMod (w64 (kidx - n32 i)) 20) (\<lambda>m5.
     bnd (idx_signed dg m5) (\<lambda>b6.
     let c = c XOR b6 in
     Ret (c, kidx))))))) 0 len kidx)"

lemma iv_78777_total [iv_totals]: "iv_total iv_78777"
  by (simp add: iv_total_def iv_78777_def recipe_safe Let_def case_prod_unfold)

definition iv_79605 :: ivFunc where
  "iv_79605 hdr kt dg len =
     bnd (idx dg 13) (\<lambda>b1.
     bnd (idx kt (((2 * w32 b1) - n32 len) AND 511)) (\<lambda>b2.
     let okidx = w32 b2 in
     let kidx = okidx in
     fill (\<lambda>i kidx.
     bnd (signedMod (w64 kidx) 512) (\<lambda>m3.
     bnd (idx_signed kt m3) (\<lambda>c.
     bnd (signedMod (w64 (ch_DataCount hdr)) 20) (\<lambda>m5.
     bnd (idx_signed dg m5) (\<lambda>b6.
     let kidx = kidx + (ch_DataCount hdr + w32 b6) in
     bnd (signedMod (w64 (ch_BuildVersion hdr + n32 i)) 20) (\<lambda>m7.
     bnd (idx_signed dg m7) (\<lambda>b8.
     let c = c XOR b8 in
     Ret (c, kidx)))))))) 0 len kidx))"

lemma iv_79605_total [iv_totals]: "iv_total iv_79605"
  by (simp add: iv_total_def iv_79605_def recipe_safe Let_def case_prod_unfold)

definition iv_80111 :: ivFunc where
  "iv_80111 hdr kt dg len =
     bnd (idx kt (ch_BuildVersion hdr AND 511)) (\<lambda>b1.
     let okidx = w32 b1 in
     let kidx = okidx in
     fill (\<lambda>i kidx.
     bnd (signedMod (w64 kidx) 512) (\<lambda>m2.
     bnd (idx_signed kt m2) (\<lambda>c.
     bnd (signedMod (w64 (ch_DataCount hdr)) 20) (\<lambda>m4.
     bnd (idx_signed dg m4) (\<lambda>b5.
     let kidx = kidx + (ch_DataCount hdr + w32 b5) in
     bnd (signedMod (w64 (ch_BuildVersion hdr + n32 i)) 20) (\<lambda>m6.
     bnd (idx_signed dg m6) (\<lambda>b7.
     let c = c XOR b7 in
     Ret (c, kidx)))))))) 0 len kidx)"

lemma iv_80111_total [iv_totals]: "iv_total iv_80111"
  by (simp add: iv_total_def iv_80111_def recipe_safe Let_def case_prod_unfold)

definition iv_80550 :: ivFunc where
  "iv_80550 hdr kt dg len =
     bnd (idx dg 13) (\<lambda>b1.
     bnd (idx kt (((2 * w32 b1) - n32 len) AND 511)) (\<lambda>b2.
     let okidx = w32 b2 in
     let kidx = okidx in
     fill (\<lambda>i kidx.
     bnd (signedMod (w64 kidx) 512) (\<lambda>m3.
     bnd (idx_signed kt m3) (\<lambda>c.
     let kidx = kidx + (okidx mod 29) in
     bnd (signedMod (w64 (kidx + ch_DataCount hdr)) 20) (\<lambda>m5.
     bnd (idx_signed dg m5) (\<lambda>b6.
     let c = c XOR w8 (w32 b6 + 1) in
     Ret (c, kidx)))))) 0 len kidx))"

lemma iv_80550_total [iv_totals]: "iv_total iv_80550"
  by (simp add: iv_total_def iv_80550_def recipe_safe Let_def case_prod_unfold)

definition iv_81410 :: ivFunc where
  "iv_81410 hdr kt dg len =
     (let kidx = n32 len * ch_BuildVersion hdr in
     fill (\<lambda>i kidx.
     bnd (signedMod (w64 kidx) 512) (\<lambda>m1.
     bnd (idx_signed kt m1) (\<lambda>c.
     let kidx = kidx - 43 in
     bnd (signedMod (w64 (kidx + ch_DataCount hdr)) 20) (\<lambda>m3.
     bnd (idx_signed dg m3) (\<lambda>b4.
     let c = c XOR b4 in
     Ret (c, kidx)))))) 0 len kidx)"

lemma iv_81410_total [iv_totals]: "iv_total iv_81410"
  by (simp add: iv_total_def iv_81410_def recipe_safe Let_def case_prod_unfold)

definition iv_82693 :: ivFunc where
  "iv_82693 hdr kt dg len =
     bnd (idx kt (ch_DataCount hdr AND 511)) (\<lambda>b1.
     let okidx = w32 b1 in
     let kidx = okidx in
     fill (\<lambda>i kidx.
     bnd (signedMod (w64 kidx) 512) (\<lambda>m2.
     bnd (idx_signed kt m2) (\<lambda>c.
     bnd (idx dg 3) (\<lambda>b4.
     let kidx = (if (w32 b4 AND 1) \<noteq> 0 then kidx + 37
       else kidx + (okidx mod 61)) in
     bnd (signedMod (w64 (kidx - n32 i)) 20) (\<lambda>m5.
     bnd (idx_signed dg m5) (\<lambda>b6.
     let c = c XOR b6 in
     Ret (c, kidx))))))) 0 len kidx)"

lemma iv_82693_total [iv_totals]: "iv_total iv_82693"
  by (simp add: iv_total_def iv_82693_def recipe_safe Let_def case_prod_unfold)

definition iv_82920 :: ivFunc where
  "iv_82920 hdr kt dg len =
     bnd (idx dg 5) (\<lambda>b1.
     let okidx = 2 * w32 b1 in
     let kidx = okidx in
     fill (\<lambda>i kidx.
     bnd (signedMod (w64 kidx) 512) (\<lambda>m2.
     bnd (idx_signed kt m2) (\<lambda>c.
     let kidx = kidx - (ch_BuildVersion hdr AND 511) in
     bnd (signedMod (w64 (kidx + ch_BuildVersion hdr)) 20) (\<lambda>m4.
     bnd (idx_signed dg m4) (\<lambda>b5.
     let c = c XOR b5 in
     Ret (c, kidx)))))) 0 len kidx)"

lemma iv_82920_total [iv_totals]: "iv_total iv_82920"
  by (simp add: iv_total_def iv_82920_def recipe_safe Let_def case_prod_unfold)

definition iv_83050 :: ivFunc where
  "iv_83050 hdr kt dg len =
     bnd (idx kt (ch_DataCount hdr AND 511)) (\<lambda>b1.
     let okidx = w32 b1 in
     let kidx = okidx in
     fill (\<lambda>i kidx.
     bnd (signedMod (w64 kidx) 512) (\<lambda>m2.
     bnd (idx_signed kt m2) (\<lambda>c.
     let kidx = kidx + 3 in
     bnd (signedMod (w64 (kidx - n32 i)) 20) (\<lambda>m4.
     bnd (idx_signed dg m4) (\<lambda>b5.
     let c = c XOR b5 in
     Ret (c, kidx)))))) 0 len kidx)"

lemma iv_83050_total [iv_totals]: "iv_total iv_83050"
  by (simp add: iv_total_def iv_83050_def recipe_safe Let_def case_prod_unfold)

definition iv_83584 :: ivFunc where
  "iv_83584 hdr kt dg len =
     bnd (idx dg 7) (\<lambda>b1.
     bnd (idx kt 0) (\<lambda>b2.
     bnd (idx kt ((w32 b1 * w32 b2) AND 511)) (\<lambda>b3.
     let okidx = w32 b3 in
     let kidx = okidx in
     fill (\<lambda>i kidx.
     bnd (signedMod (w64 kidx) 512) (\<lambda>m4.
     bnd (idx_signed kt m4) (\<lambda>c.
     bnd (idx dg 3) (\<lambda>b6.
     let kidx = (if (w32 b6 AND 1) \<noteq> 0 then kidx + 37
       else kidx + (okidx mod 61)) in
     bnd (signedMod (w64 (kidx - n32 i)) 20) (\<lambda>m7.
     bnd (idx_signed dg m7) (\<lambda>b8.
     let c = c XOR b8 in
     Ret (c, kidx))))))) 0 len kidx)))"

lemma iv_83584_total [iv_totals]: "iv_total iv_83584"
  by (simp add: iv_total_def iv_83584_def recipe_safe Let_def case_prod_unfold)

definition iv_84186 :: ivFunc where
  "iv_84186 hdr kt dg len =
     bnd (idx dg 7) (\<lambda>b1.
     bnd (idx kt 0) (\<lambda>b2.
     bnd (idx kt ((w32 b1 * w32 b2) AND 511)) (\<lambda>b3.
     let okidx = w32 b3 in
     let kidx = okidx in
     fill (\<lambda>i kidx.
     bnd (signedMod (w64 kidx) 512) (\<lambda>m4.
     bnd (idx_signed kt m4) (\<lambda>c.
     let kidx = ch_BuildVersion hdr - kidx in
     bnd (signedMod (w64 (kidx + n32 i)) 20) (\<lambda>m6.
     bnd (idx_signed dg m6) (\<lambda>b7.
     let c = c XOR b7 in
     Ret (c, kidx)))))) 0 len kidx)))"

lemma iv_84186_total [iv_totals]: "iv_total iv_84186"
  by (simp add: iv_total_def iv_84186_def recipe_safe Let_def case_prod_unfold)

definition iv_84997 :: ivFunc where
  "iv_84997 hdr kt dg len =
     bnd (idx kt (ch_BuildVersion hdr AND 511)) (\<lambda>b1.
     let okidx = w32 b1 in
     let kidx = okidx in
     fill (\<lambda>i kidx.
     bnd (signedMod (w64 kidx) 512) (\<lambda>m2.
     bnd (idx_signed kt m2) (\<lambda>c.
     let kidx = kidx + 3 in
     bnd (signedMod (w64 (kidx - n32 i)) 20) (\<lambda>m4.
     bnd (idx_signed dg m4) (\<lambda>b5.
     let c = c XOR b5 in
     Ret (c, kidx)))))) 0 len kidx)"

lemma iv_84997_total [iv_totals]: "iv_total iv_84997"
  by (simp add: iv_total_def iv_84997_def recipe_safe Let_def case_prod_unfold)

definition iv_85660 :: ivFunc where
  "iv_85660 hdr kt dg len =
     bnd (idx dg 13) (\<lambda>b1.
     bnd (idx kt (((2 * w32 b1) - n32 len) AND 511)) (\<lambda>b2.
     let okidx = w32 b2 in
     let kidx = okidx in
     fill (\<lambda>i kidx.
     bnd (signedMod (w64 kidx) 512) (\<lambda>m3.
     bnd (idx_signed kt m3) (\<lambda>c.
     let kidx = ch_BuildVersion hdr - kidx in
     bnd (signedMod (w64 (kidx + n32 i)) 20) (\<lambda>m5.
     bnd (idx_signed dg m5) (\<lambda>b6.
     let c = c XOR b6 in
     Ret (c, kidx)))))) 0 len kidx))"

lemma iv_85660_total [iv_totals]: "iv_total iv_85660"
  by (simp add: iv_total_def iv_85660_def recipe_safe Let_def case_prod_unfold)

definition iv_86739 :: ivFunc where
  "iv_86739 hdr kt dg len =
     bnd (idx kt (ch_DataCount hdr AND 511)) (\<lambda>b1.
     let okidx = w32 b1 in
     let kidx = okidx in
     fill (\<lambda>i kidx.
     bnd (signedMod (w64 kidx) 512) (\<lambda>m2.
     bnd (idx_signed kt m2) (\<lambda>c.
     let kidx = kidx + 3 in
     bnd (signedMod (w64 (kidx - 73)) 20) (\<lambda>m4.
     bnd (idx_signed dg m4) (\<lambda>b5.
     let c = c XOR b5 in
     Ret (c, kidx)))))) 0 len kidx)"

lemma iv_86739_total [iv_totals]: "iv_total iv_86739"
  by (simp add: iv_total_def iv_86739_def recipe_safe Let_def case_prod_unfold)

definition iv_87506 :: ivFunc where
  "iv_87506 hdr kt dg len =
     bnd (idx dg 7) (\<lambda>b1.
     let okidx = (w32 b1 + ch_DataCount hdr) AND 511 in
     let kidx = okidx in
     fill (\<lambda>i kidx.
     bnd (signedMod (w64 kidx) 512) (\<lambda>m2.
     bnd (idx_signed kt m2) (\<lambda>c.
     bnd (signedMod (w64 (ch_DataCount hdr)) 20) (\<lambda>m4.
     bnd (idx_signed dg m4) (\<lambda>b5.
     let kidx = kidx + ((ch_DataCount hdr + w32 b5) mod 17) in
     bnd (signedMod (w64 kidx) 20) (\<lambda>m6.
     bnd (idx_signed dg m6) (\<lambda>c.
     Ret (c, kidx)))))))) 0 len kidx)"

lemma iv_87506_total [iv_totals]: "iv_total iv_87506"
  by (simp add: iv_total_def iv_87506_def recipe_safe Let_def case_prod_unfold)

definition iv_88423 :: ivFunc where
  "iv_88423 hdr kt dg len =
     bnd (idx dg 7) (\<lambda>b1.
     let okidx = (w32 b1 + ch_DataCount hdr) AND 511 in
     let kidx = okidx in
     fill (\<lambda>i kidx.
     bnd (signedMod (w64 kidx) 512) (\<lambda>m2.
     bnd (idx_signed kt m2) (\<lambda>c.
     bnd (signedMod (w64 kidx) 3) (\<lambda>m4.
     bnd (if m4 = 0 then Ret (kidx + 103)
       else if m4 = 1 then signedMod (w64 (kidx * 4)) (w64 (ch_BuildVersion hdr))
       else if m4 = 2 then Ret (kidx - 1)
       else Ret kidx) (\<lambda>kidx.
     bnd (signedMod (w64 (kidx + ch_BuildVersion hdr)) 20) (\<lambda>m6.
     bnd (idx_signed dg m6) (\<lambda>b7.
     let c = c XOR b7 in
     Ret (c, kidx)))))))) 0 len kidx)"

lemma iv_88423_total [iv_totals]: "iv_total iv_88423"
  by (simp add: iv_total_def iv_88423_def recipe_safe Let_def case_prod_unfold)

definition iv_88742 :: ivFunc where
  "iv_88742 hdr kt dg len =
     bnd (idx kt (ch_BuildVersion hdr AND 511)) (\<lambda>b1.
     let okidx = w32 b1 in
     let kidx = okidx in
     fill (\<lambda>i kidx.
     bnd (signedMod (w64 kidx) 512) (\<lambda>m2.
     bnd (idx_signed kt m2) (\<lambda>c.
     bnd (signedMod (w64 kidx) 3) (\<lambda>m4.
     bnd (if m4 = 0 then Ret (kidx + 103)
       else if m4 = 1 then signedMod (w64 (kidx * 4)) (w64 (ch_BuildVersion hdr))
       else if m4 = 2 then Ret (kidx - 1)
       else Ret kidx) (\<lambda>kidx.
     bnd (signedMod (w64 (kidx + ch_BuildVersion hdr)) 20) (\<lambda>m6.
     bnd (idx_signed dg m6) (\<lambda>b7.
     let c = c XOR b7 in
     Ret (c, kidx)))))))) 0 len kidx)"

lemma iv_88742_total [iv_totals]: "iv_total iv_88742"
  by (simp add: iv_total_def iv_88742_def recipe_safe Let_def case_prod_unfold)

definition iv_89353 :: ivFunc where
  "iv_89353 hdr kt dg len =
     bnd (idx dg 5) (\<lambda>b1.
     let okidx = 2 * w32 b1 in
     let kidx = okidx in
     fill (\<lambda>i kidx.
     bnd (signedMod (w64 kidx) 512) (\<lambda>m2.
     bnd (idx_signed kt m2) (\<lambda>c.
     let kidx = kidx + 3 in
     bnd (signedMod (w64 (kidx - n32 i)) 20) (\<lambda>m4.
     bnd (idx_signed dg m4) (\<lambda>b5.
     let c = c XOR b5 in
     Ret (c, kidx)))))) 0 len kidx)"

lemma iv_89353_total [iv_totals]: "iv_total iv_89353"
  by (simp add: iv_total_def iv_89353_def recipe_safe Let_def case_prod_unfold)

definition iv_90193 :: ivFunc where
  "iv_90193 hdr kt dg len =
     bnd (idx dg 5) (\<lambda>b1.
     let okidx = 2 * w32 b1 in
     let kidx = okidx in
     fill (\<lambda>i kidx.
     bnd (signedMod (w64 kidx) 512) (\<lambda>m2.
     bnd (idx_signed kt m2) (\<lambda>c.
     let kidx = kidx + ((ch_BuildVersion hdr * ch_DataCount hdr) mod 7) in
     bnd (signedMod (w64 (kidx - 73)) 20) (\<lambda>m4.
     bnd (idx_signed dg m4) (\<lambda>b5.
     let c = c XOR b5 in
     Ret (c, kidx)))))) 0 len kidx)"

lemma iv_90193_total [iv_totals]: "iv_total iv_90193"
  by (simp add: iv_total_def iv_90193_def recipe_safe Let_def case_prod_unfold)

definition iv_90774 :: ivFunc where
  "iv_90774 hdr kt dg len =
     bnd (idx dg 5) (\<lambda>b1.
     let okidx = 2 * w32 b1 in
     let kidx = okidx in
     fill (\<lambda>i kidx.
     bnd (signedMod (w64 kidx) 512) (\<lambda>m2.
     bnd (idx_signed kt m2) (\<lambda>c.
     let kidx = kidx - (ch_BuildVersion hdr AND 511) in
     bnd (signedMod (w64 (kidx + ch_BuildVersion hdr)) 20) (\<lambda>m4.
     bnd (idx_signed dg m4) (\<lambda>b5.
     let c = c XOR b5 in
     Ret (c, kidx)))))) 0 len kidx)"

lemma iv_90774_total [iv_totals]: "iv_total iv_90774"
  by (simp add: iv_total_def iv_90774_def recipe_safe Let_def case_prod_unfold)

definition iv_92111 :: ivFunc where
  "iv_92111 hdr kt dg len =
     bnd (idx dg 5) (\<lambda>b1.
     let okidx = 2 * w32 b1 in
     let kidx = okidx in
     fill (\<lambda>i kidx.
     bnd (signedMod (w64 kidx) 512) (\<lambda>m2.
     bnd (idx_signed kt m2) (\<lambda>c.
     let kidx = kidx + (okidx mod 29) in
     bnd (signedMod (w64 (kidx + ch_DataCount hdr)) 20) (\<lambda>m4.
     bnd (idx_signed dg m4) (\<lambda>b5.
     let c = c XOR w8 (w32 b5 + 1) in
     Ret (c, kidx)))))) 0 len kidx)"

lemma iv_92111_total [iv_totals]: "iv_total iv_92111"
  by (simp add: iv_total_def iv_92111_def recipe_safe Let_def case_prod_unfold)

definition iv_93519 :: ivFunc where
  "iv_93519 hdr kt dg len =
     bnd (idx dg 7) (\<lambda>b1.
     let okidx = (w32 b1 + ch_DataCount hdr) AND 511 in
     let kidx = okidx in
     fill (\<lambda>i kidx.
     bnd (signedMod (w64 kidx) 512) (\<lambda>m2.
     bnd (idx_signed kt m2) (\<lambda>c.
     let kidx = kidx + (okidx mod 29) in
     bnd (signedMod (w64 (kidx + ch_DataCount hdr)) 20) (\<lambda>m4.
     bnd (idx_signed dg m4) (\<lambda>b5.
     let c = c XOR w8 (w32 b5 + 1) in
     Ret (c, kidx)))))) 0 len kidx)"

lemma iv_93519_total [iv_totals]: "iv_total iv_93519"
  by (simp add: iv_total_def iv_93519_def recipe_safe Let_def case_prod_unfold)

definition iv_94717 :: ivFunc where
  "iv_94717 hdr kt dg len =
     (let okidx = n32 len * ch_BuildVersion hdr in
     let kidx = okidx in
     fill (\<lambda>i kidx.
     bnd (signedMod (w64 kidx) 512) (\<lambda>m1.
     bnd (idx_signed kt m1) (\<lambda>c.
     let kidx = kidx + (okidx mod 13) in
     bnd (signedMod (w64 (kidx - 73)) 20) (\<lambda>m3.
     bnd (idx_signed dg m3) (\<lambda>b4.
     let c = c XOR b4 in
     Ret (c, kidx)))))) 0 len kidx)"

lemma iv_94717_total [iv_totals]: "iv_total iv_94717"
  by (simp add: iv_total_def iv_94717_def recipe_safe Let_def case_prod_unfold)

definition iv_96081 :: ivFunc where
  "iv_96081 hdr kt dg len =
     bnd (idx dg 7) (\<lambda>b1.
     let okidx = (w32 b1 + ch_DataCount hdr) AND 511 in
     let kidx = okidx in
     fill (\<lambda>i kidx.
     bnd (signedMod (w64 kidx) 512) (\<lambda>m2.
     bnd (idx_signed kt m2) (\<lambda>c.
     let kidx = kidx + (okidx mod 13) in
     bnd (signedMod (w64 (kidx - 73)) 20) (\<lambda>m4.
     bnd (idx_signed dg m4) (\<lambda>b5.
     let c = c XOR b5 in
     Ret (c, kidx)))))) 0 len kidx)"

lemma iv_96081_total [iv_totals]: "iv_total iv_96081"
  by (simp add: iv_total_def iv_96081_def recipe_safe Let_def case_prod_unfold)

definition iv_96894 :: ivFunc where
  "iv_96894 hdr kt dg len =
     (let okidx = n32 len * ch_BuildVersion hdr in
     let kidx = okidx in
     fill (\<lambda>i kidx.
     bnd (signedMod (w64 kidx) 512) (\<lambda>m1.
     bnd (idx_signed kt m1) (\<lambda>c.
     bnd (idx dg 3) (\<lambda>b3.
     let kidx = (if (w32 b3 AND 1) \<noteq> 0 then kidx + 37
       else kidx + (okidx mod 61)) in
     bnd (signedMod (w64 (kidx - n32 i)) 20) (\<lambda>m4.
     bnd (idx_signed dg m4) (\<lambda>b5.
     let c = c XOR b5 in
     Ret (c, kidx))))))) 0 len kidx)"

lemma iv_96894_total [iv_totals]: "iv_total iv_96894"
  by (simp add: iv_total_def iv_96894_def recipe_safe Let_def case_prod_unfold)

definition iv_98315 :: ivFunc where
  "iv_98315 hdr kt dg len =
     (let okidx = n32 len * ch_BuildVersion hdr in
     let kidx = okidx in
     fill (\<lambda>i kidx.
     bnd (signedMod (w64 kidx) 512) (\<lambda>m1.
     bnd (idx_signed kt m1) (\<lambda>c.
     let kidx = kidx + (okidx mod 29) in
     bnd (signedMod (w64 (kidx + ch_DataCount hdr)) 20) (\<lambda>m3.
     bnd (idx_signed dg m3) (\<lambda>b4.
     let c = c XOR w8 (w32 b4 + 1) in
     Ret (c, kidx)))))) 0 len kidx)"

lemma iv_98315_total [iv_totals]: "iv_total iv_98315"
  by (simp add: iv_total_def iv_98315_def recipe_safe Let_def case_prod_unfold)

definition iv_98576 :: ivFunc where
  "iv_98576 hdr kt dg len =
     bnd (idx kt (ch_DataCount hdr AND 511)) (\<lambda>b1.
     let okidx = w32 b1 in
     let kidx = okidx in
     fill (\<lambda>i kidx.
     bnd (signedMod (w64 kidx) 512) (\<lambda>m2.
     bnd (idx_signed kt m2) (\<lambda>c.
     bnd (signedMod (w64 kidx) 3) (\<lambda>m4.
     bnd (if m4 = 0 then Ret (kidx + 103)
       else if m4 = 1 then signedMod (w64 (kidx * 4)) (w64 (ch_BuildVersion hdr))
       else if m4 = 2 then Ret (kidx - 1)
       else Ret kidx) (\<lambda>kidx.
     bnd (signedMod (w64 (kidx + ch_BuildVersion hdr)) 20) (\<lambda>m6.
     bnd (idx_signed dg m6) (\<lambda>b7.
     let c = c XOR b7 in
     Ret (c, kidx)))))))) 0 len kidx)"

lemma iv_98576_total [iv_totals]: "iv_total iv_98576"
  by (simp add: iv_total_def iv_98576_def recipe_safe Let_def case_prod_unfold)

definition iv_98845 :: ivFunc where
  "iv_98845 hdr kt dg len =
     bnd (idx dg 5) (\<lambda>b1.
     let okidx = 2 * w32 b1 in
     let kidx = okidx in
     fill (\<lambda>i kidx.
     bnd (signedMod (w64 kidx) 512) (\<lambda>m2.
     bnd (idx_signed kt m2) (\<lambda>c.
     let kidx = kidx - 43 in
     bnd (signedMod (w64 (kidx + ch_DataCount hdr)) 20) (\<lambda>m4.
     bnd (idx_signed dg m4) (\<lambda>b5.
     let c = c XOR b5 in
     Ret (c, kidx)))))) 0 len kidx)"

lemma iv_98845_total [iv_totals]: "iv_total iv_98845"
  by (simp add: iv_total_def iv_98845_def recipe_safe Let_def case_prod_unfold)

definition iv_99843 :: ivFunc where
  "iv_99843 hdr kt dg len =
     bnd (idx kt (ch_DataCount hdr AND 511)) (\<lambda>b1.
     let okidx = w32 b1 in
     let kidx = okidx in
     fill (\<lambda>i kidx.
     bnd (signedMod (w64 kidx) 512) (\<lambda>m2.
     bnd (idx_signed kt m2) (\<lambda>c.
     let kidx = kidx + (okidx mod 13) in
     bnd (signedMod (w64 (kidx - 73)) 20) (\<lambda>m4.
     bnd (idx_signed dg m4) (\<lambda>b5.
     let c = c XOR b5 in
     Ret (c, kidx)))))) 0 len kidx)"

lemma iv_99843_total [iv_totals]: "iv_total iv_99843"
  by (simp add: iv_total_def iv_99843_def recipe_safe Let_def case_prod_unfold)

definition iv_100672 :: ivFunc where
  "iv_100672 hdr kt dg len =
     bnd (idx dg 5) (\<lambda>b1.
     let okidx = 2 * w32 b1 in
     let kidx = okidx in
     fill (\<lambda>i kidx.
     bnd (signedMod (w64 kidx) 512) (\<lambda>m2.
     bnd (idx_signed kt m2) (\<lambda>c.
     let kidx = kidx + 3 in
     bnd (signedMod (w64 (kidx - n32 i)) 20) (\<lambda>m4.
     bnd (idx_signed dg m4) (\<lambda>b5.
     let c = c XOR b5 in
     Ret (c, kidx)))))) 0 len kidx)"

lemma iv_100672_total [iv_totals]: "iv_total iv_100672"
  by (simp add: iv_total_def iv_100672_def recipe_safe Let_def case_prod_unfold)

definition iv_101600 :: ivFunc where
  "iv_101600 hdr kt dg len =
     bnd (idx kt (ch_DataCount hdr AND 511)) (\<lambda>b1.
     let okidx = w32 b1 in
     let kidx = okidx in
     fill (\<lambda>i kidx.
     bnd (signedMod (w64 kidx) 512) (\<lambda>m2.
     bnd (idx_signed kt m2) (\<lambda>c.
     let kidx = kidx + ((ch_BuildVersion hdr * ch_DataCount hdr) mod 7) in
     bnd (signedMod (w64 (kidx - 73)) 20) (\<lambda>m4.
     bnd (idx_signed dg m4) (\<lambda>b5.
     let c = c XOR b5 in
     Ret (c, kidx)))))) 0 len kidx)"

lemma iv_101600_total [iv_totals]: "iv_total iv_101600"
  by (simp add: iv_total_def iv_101600_def recipe_safe Let_def case_prod_unfold)

definition iv_102337 :: ivFunc where
  "iv_102337 hdr kt dg len =
     bnd (idx dg 7) (\<lambda>b1.
     bnd (idx kt 0) (\<lambda>b2.
     bnd (idx kt ((w32 b1 * w32 b2) AND 511)) (\<lambda>b3.
     let okidx = w32 b3 in
     let kidx = okidx in
     fill (\<lambda>i kidx.
     bnd (signedMod (w64 kidx) 512) (\<lambda>m4.
     bnd (idx_signed kt m4) (\<lambda>c.
     let kidx = kidx + ((ch_BuildVersion hdr * ch_DataCount hdr) mod 7) in
     bnd (signedMod (w64 (kidx - 73)) 20) (\<lambda>m6.
     bnd (idx_signed dg m6) (\<lambda>b7.
     let c = c XOR b7 in
     Ret (c, kidx)))))) 0 len kidx)))"

lemma iv_102337_total [iv_totals]: "iv_total iv_102337"
  by (simp add: iv_total_def iv_102337_def recipe_safe Let_def case_prod_unfold)

definition iv_102773 :: ivFunc where
  "iv_102773 hdr kt dg len =
     bnd (idx dg 7) (\<lambda>b1.
     let okidx = (w32 b1 + ch_DataCount hdr) AND 511 in
     let kidx = okidx in
     fill (\<lambda>i kidx.
     bnd (signedMod (w64 kidx) 512) (\<lambda>m2.
     bnd (idx_signed kt m2) (\<lambda>c.
     let kidx = kidx + 3 in
     bnd (signedMod (w64 (kidx - n32 i)) 20) (\<lambda>m4.
     bnd (idx_signed dg m4) (\<lambda>b5.
     let c = c XOR b5 in
     Ret (c, kidx)))))) 0 len kidx)"

lemma iv_102773_total [iv_totals]: "iv_total iv_102773"
  by (simp add: iv_total_def iv_102773_def recipe_safe Let_def case_prod_unfold)

definition iv_104319 :: ivFunc where
  "iv_104319 hdr kt dg len =
     bnd (idx dg 5) (\<lambda>b1.
     let okidx = 2 * w32 b1 in
     let kidx = okidx in
     fill (\<lambda>i kidx.
     bnd (signedMod (w64 kidx) 512) (\<lambda>m2.
     bnd (idx_signed kt m2) (\<lambda>c.
     bnd (idx dg 6) (\<lambda>b4.
     let kidx = (if (w32 b4 AND 1) \<noteq> 0 then kidx + 37
       else kidx + (okidx mod 61)) in
     bnd (signedMod (w64 (kidx - n32 i)) 20) (\<lambda>m5.
     bnd (idx_signed dg m5) (\<lambda>b6.
     let c = c XOR b6 in
     Ret (c, kidx))))))) 0 len kidx)"

lemma iv_104319_total [iv_totals]: "iv_total iv_104319"
  by (simp add: iv_total_def iv_104319_def recipe_safe Let_def case_prod_unfold)

definition iv_105760 :: ivFunc where
  "iv_105760 hdr kt dg len =
     bnd (idx dg 7) (\<lambda>b1.
     bnd (idx kt 0) (\<lambda>b2.
     bnd (idx kt ((w32 b1 * w32 b2) AND 511)) (\<lambda>b3.
     let okidx = w32 b3 in
     let kidx = okidx in
     fill (\<lambda>i kidx.
     bnd (signedMod (w64 kidx) 512) (\<lambda>m4.
     bnd (idx_signed kt m4) (\<lambda>c.
     bnd (idx dg 6) (\<lambda>b6.
     let kidx = (if (w32 b6 AND 1) \<noteq> 0 then kidx + 37
       else kidx + (okidx mod 61)) in
     bnd (signedMod (w64 (kidx - n32 i)) 20) (\<lambda>m7.
     bnd (idx_signed dg m7) (\<lambda>b8.
     let c = c XOR b8 in
     Ret (c, kidx))))))) 0 len kidx)))"

lemma iv_105760_total [iv_totals]: "iv_total iv_105760"
  by (simp add: iv_total_def iv_105760_def recipe_safe Let_def case_prod_unfold)

definition iv_106110 :: ivFunc where
  "iv_106110 hdr kt dg len =
     bnd (idx dg 7) (\<lambda>b1.
     bnd (idx kt 0) (\<lambda>b2.
     bnd (idx kt ((w32 b1 * w32 b2) AND 511)) (\<lambda>b3.
     let okidx = w32 b3 in
     let kidx = okidx in
     fill (\<lambda>i kidx.
     bnd (signedMod (w64 kidx) 512) (\<lambda>m4.
     bnd (idx_signed kt m4) (\<lambda>c.
     let kidx = kidx + ((ch_BuildVersion hdr * ch_DataCount hdr) mod 7) in
     bnd (signedMod (w64 (kidx - 73)) 20) (\<lambda>m6.
     bnd (idx_signed dg m6) (\<lambda>b7.
     let c = c XOR b7 in
     Ret (c, kidx)))))) 0 len kidx)))"

lemma iv_106110_total [iv_totals]: "iv_total iv_106110"
  by (simp add: iv_total_def iv_106110_def recipe_safe Let_def case_prod_unfold)

definition iv_106400 :: ivFunc where
  "iv_106400 hdr kt dg len =
     (let okidx = n32 len * ch_BuildVersion hdr in
     let kidx = okidx in
     fill (\<lambda>i kidx.
     bnd (signedMod (w64 kidx) 512) (\<lambda>m1.
     bnd (idx_signed kt m1) (\<lambda>c.
     let kidx = kidx + (okidx mod 29) in
     bnd (signedMod (w64 (kidx + ch_DataCount hdr)) 20) (\<lambda>m3.
     bnd (idx_signed dg m3) (\<lambda>b4.
     let c = c XOR w8 (w32 b4 + 1) in
     Ret (c, kidx)))))) 0 len kidx)"

lemma iv_106400_total [iv_totals]: "iv_total iv_106400"
  by (simp add: iv_total_def iv_106400_def recipe_safe Let_def case_prod_unfold)

definition iv_107076 :: ivFunc where
  "iv_107076 hdr kt dg len =
     bnd (idx dg 7) (\<lambda>b1.
     bnd (idx kt 0) (\<lambda>b2.
     bnd (idx kt ((w32 b1 * w32 b2) AND 511)) (\<lambda>b3.
     let okidx = w32 b3 in
     let kidx = okidx in
     fill (\<lambda>i kidx.
     bnd (signedMod (w64 kidx) 512) (\<lambda>m4.
     bnd (idx_signed kt m4) (\<lambda>c.
     let kidx = kidx - (ch_BuildVersion hdr AND 511) in
     bnd (signedMod (w64 (kidx + ch_BuildVersion hdr)) 20) (\<lambda>m6.
     bnd (idx_signed dg m6) (\<lambda>b7.
     let c = c XOR b7 in
     Ret (c, kidx)))))) 0 len kidx)))"

lemma iv_107076_total [iv_totals]: "iv_total iv_107076"
  by (simp add: iv_total_def iv_107076_def recipe_safe Let_def case_prod_unfold)

definition iv_107804 :: ivFunc where
  "iv_107804 hdr kt dg len =
     bnd (idx dg 7) (\<lambda>b1.
     bnd (idx kt 0) (\<lambda>b2.
     bnd (idx kt ((w32 b1 * w32 b2) AND 511)) (\<lambda>b3.
     let okidx = w32 b3 in
     let kidx = okidx in
     fill (\<lambda>i kidx.
     bnd (signedMod (w64 kidx) 512) (\<lambda>m4.
     bnd (idx_signed kt m4) (\<lambda>c.
     let kidx = kidx + ((ch_BuildVersion hdr * ch_DataCount hdr) mod 7) in
     bnd (signedMod (w64 (kidx - 73)) 20) (\<lambda>m6.
     bnd (idx_signed dg m6) (\<lambda>b7.
     let c = c XOR b7 in
     Ret (c, kidx)))))) 0 len kidx)))"

lemma iv_107804_total [iv_totals]: "iv_total iv_107804"
  by (simp add: iv_total_def iv_107804_def recipe_safe Let_def case_prod_unfold)

definition iv_108097 :: ivFunc where
  "iv_108097 hdr kt dg len =
     bnd (idx kt (ch_BuildVersion hdr AND 511)) (\<lambda>b1.
     let okidx = w32 b1 in
     let kidx = okidx in
     fill (\<lambda>i kidx.
     bnd (signedMod (w64 kidx) 512) (\<lambda>m2.
     bnd (idx_signed kt m2) (\<lambda>c.
     let kidx = kidx + 3 in
     bnd (signedMod (w64 (kidx - n32 i)) 20) (\<lambda>m4.
     bnd (idx_signed dg m4) (\<lambda>b5.
     let c = c XOR b5 in
     Ret (c, kidx)))))) 0 len kidx)"

lemma iv_108097_total [iv_totals]: "iv_total iv_108097"
  by (simp add: iv_total_def iv_108097_def recipe_safe Let_def case_prod_unfold)

definition iv_109168 :: ivFunc where
  "iv_109168 hdr kt dg len =
     bnd (idx kt (ch_BuildVersion hdr AND 511)) (\<lambda>b1.
     let okidx = w32 b1 in
     let kidx = okidx in
     fill (\<lambda>i kidx.
     bnd (signedMod (w64 kidx) 512) (\<lambda>m2.
     bnd (idx_signed kt m2) (\<lambda>c.
     let kidx = kidx + ((ch_BuildVersion hdr * ch_DataCount hdr) mod 7) in
     bnd (signedMod (w64 (kidx - 73)) 20) (\<lambda>m4.
     bnd (idx_signed dg m4) (\<lambda>b5.
     let c = c XOR b5 in
     Ret (c, kidx)))))) 0 len kidx)"

lemma iv_109168_total [iv_totals]: "iv_total iv_109168"
  by (simp add: iv_total_def iv_109168_def recipe_safe Let_def case_prod_unfold)

definition iv_109670 :: ivFunc where
  "iv_109670 hdr kt dg len =
     bnd (idx dg 13) (\<lambda>b1.
     bnd (idx kt (((2 * w32 b1) - n32 len) AND 511)) (\<lambda>b2.
     let okidx = w32 b2 in
     let kidx = okidx in
     fill (\<lambda>i kidx.
     bnd (signedMod (w64 kidx) 512) (\<lambda>m3.
     bnd (idx_signed kt m3) (\<lambda>c.
     let kidx = kidx + 3 in
     bnd (signedMod (w64 (kidx - n32 i)) 20) (\<lambda>m5.
     bnd (idx_signed dg m5) (\<lambda>b6.
     let c = c XOR b6 in
     Ret (c, kidx)))))) 0 len kidx))"

lemma iv_109670_total [iv_totals]: "iv_total iv_109670"
  by (simp add: iv_total_def iv_109670_def recipe_safe Let_def case_prod_unfold)

definition iv_109691 :: ivFunc where
  "iv_109691 hdr kt dg len =
     bnd (idx dg 13) (\<lambda>b1.
     bnd (idx kt (((2 * w32 b1) - n32 len) AND 511)) (\<lambda>b2.
     let okidx = w32 b2 in
     let kidx = okidx in
     fill (\<lambda>i kidx.
     bnd (signedMod (w64 kidx) 512) (\<lambda>m3.
     bnd (idx_signed kt m3) (\<lambda>c.
     let kidx = kidx - 43 in
     bnd (signedMod (w64 (kidx + ch_DataCount hdr)) 20) (\<lambda>m5.
     bnd (idx_signed dg m5) (\<lambda>b6.
     let c = c XOR b6 in
     Ret (c, kidx)))))) 0 len kidx))"

lemma iv_109691_total [iv_totals]: "iv_total iv_109691"
  by (simp add: iv_total_def iv_109691_def recipe_safe Let_def case_prod_unfold)

definition iv_109912 :: ivFunc where
  "iv_109912 hdr kt dg len =
     bnd (idx dg 5) (\<lambda>b1.
     let okidx = 2 * w32 b1 in
     let kidx = okidx in
     fill (\<lambda>i kidx.
     bnd (signedMod (w64 kidx) 512) (\<lambda>m2.
     bnd (idx_signed kt m2) (\<lambda>c.
     let kidx = kidx + 3 in
     bnd (signedMod (w64 (kidx - n32 i)) 20) (\<lambda>m4.
     bnd (idx_signed dg m4) (\<lambda>b5.
     let c = c XOR b5 in
     Ret (c, kidx)))))) 0 len kidx)"

lemma iv_109912_total [iv_totals]: "iv_total iv_109912"
  by (simp add: iv_total_def iv_109912_def recipe_safe Let_def case_prod_unfold)

definition iv_110340 :: ivFunc where
  "iv_110340 hdr kt dg len =
     bnd (idx dg 7) (\<lambda>b1.
     let okidx = (w32 b1 + ch_DataCount hdr) AND 511 in
     let kidx = okidx in
     fill (\<lambda>i kidx.
     bnd (signedMod (w64 kidx) 512) (\<lambda>m2.
     bnd (idx_signed kt m2) (\<lambda>c.
     let kidx = kidx - 43 in
     bnd (signedMod (w64 (kidx + ch_DataCount hdr)) 20) (\<lambda>m4.
     bnd (idx_signed dg m4) (\<lambda>b5.
     let c = c XOR b5 in
     Ret (c, kidx)))))) 0 len kidx)"

lemma iv_110340_total [iv_totals]: "iv_total iv_110340"
  by (simp add: iv_total_def iv_110340_def recipe_safe Let_def case_prod_unfold)

definition iv_111387 :: ivFunc where
  "iv_111387 hdr kt dg len =
     bnd (idx kt (ch_BuildVersion hdr AND 511)) (\<lambda>b1.
     let okidx = w32 b1 in
     let kidx = okidx in
     fill (\<lambda>i kidx.
     bnd (signedMod (w64 kidx) 512) (\<lambda>m2.
     bnd (idx_signed kt m2) (\<lambda>c.
     bnd (signedMod (w64 (ch_DataCount hdr)) 20) (\<lambda>m4.
     bnd (idx_signed dg m4) (\<lambda>b5.
     let kidx = kidx + ((ch_DataCount hdr + w32 b5) mod 17) in
     bnd (signedMod (w64 kidx) 20) (\<lambda>m6.
     bnd (idx_signed dg m6) (\<lambda>c.
     Ret (c, kidx)))))))) 0 len kidx)"

lemma iv_111387_total [iv_totals]: "iv_total iv_111387"
  by (simp add: iv_total_def iv_111387_def recipe_safe Let_def case_prod_unfold)

definition iv_111774 :: ivFunc where
  "iv_111774 hdr kt dg len =
     bnd (idx dg 5) (\<lambda>b1.
     let okidx = 2 * w32 b1 in
     let kidx = okidx in
     fill (\<lambda>i kidx.
     bnd (signedMod (w64 kidx) 512) (\<lambda>m2.
     bnd (idx_signed kt m2) (\<lambda>c.
     let kidx = ch_BuildVersion hdr - kidx in
     bnd (signedMod (w64 (kidx + n32 i)) 20) (\<lambda>m4.
     bnd (idx_signed dg m4) (\<lambda>b5.
     let c = c XOR b5 in
     Ret (c, kidx)))))) 0 len kidx)"

lemma iv_111774_total [iv_totals]: "iv_total iv_111774"
  by (simp add: iv_total_def iv_111774_def recipe_safe Let_def case_prod_unfold)

definition iv_112214 :: ivFunc where
  "iv_112214 hdr kt dg len =
     bnd (idx dg 7) (\<lambda>b1.
     bnd (idx kt 0) (\<lambda>b2.
     bnd (idx kt ((w32 b1 * w32 b2) AND 511)) (\<lambda>b3.
     let okidx = w32 b3 in
     let kidx = okidx in
     fill (\<lambda>i kidx.
     bnd (signedMod (w64 kidx) 512) (\<lambda>m4.
     bnd (idx_signed kt m4) (\<lambda>c.
     let kidx = ch_BuildVersion hdr - kidx in
     bnd (signedMod (w64 (kidx + n32 i)) 20) (\<lambda>m6.
     bnd (idx_signed dg m6) (\<lambda>b7.
     let c = c XOR b7 in
     Ret (c, kidx)))))) 0 len kidx)))"

lemma iv_112214_total [iv_totals]: "iv_total iv_112214"
  by (simp add: iv_total_def iv_112214_def recipe_safe Let_def case_prod_unfold)

definition iv_112724 :: ivFunc where
  "iv_112724 hdr kt dg len =
     bnd (idx kt (ch_BuildVersion hdr AND 511)) (\<lambda>b1.
     let okidx = w32 b1 in
     let kidx = okidx in
     fill (\<lambda>i kidx.
     bnd (signedMod (w64 kidx) 512) (\<lambda>m2.
     bnd (idx_signed kt m2) (\<lambda>c.
     let kidx = kidx + (okidx mod 13) in
     bnd (signedMod (w64 (kidx - 73)) 20) (\<lambda>m4.
     bnd (idx_signed dg m4) (\<lambda>b5.
     let c = c XOR b5 in
     Ret (c, kidx)))))) 0 len kidx)"

lemma iv_112724_total [iv_totals]: "iv_total iv_112724"
  by (simp add: iv_total_def iv_112724_def recipe_safe Let_def case_prod_unfold)

definition iv_113596 :: ivFunc where
  "iv_113596 hdr kt dg len =
     (let okidx = n32 len * ch_BuildVersion hdr in
     let kidx = okidx in
     fill (\<lambda>i kidx.
     bnd (signedMod (w64 kidx) 512) (\<lambda>m1.
     bnd (idx_signed kt m1) (\<lambda>c.
     let kidx = kidx - 43 in
     bnd (signedMod (w64 (kidx + ch_DataCount hdr)) 20) (\<lambda>m3.
     bnd (idx_signed dg m3) (\<lambda>b4.
     let c = c XOR b4 in
     Ret (c, kidx)))))) 0 len kidx)"

lemma iv_113596_total [iv_totals]: "iv_total iv_113596"
  by (simp add: iv_total_def iv_113596_def recipe_safe Let_def case_prod_unfold)

definition iv_114357 :: ivFunc where
  "iv_114357 hdr kt dg len =
     bnd (idx dg 5) (\<lambda>b1.
     let okidx = 2 * w32 b1 in
     let kidx = okidx in
     fill (\<lambda>i kidx.
     bnd (signedMod (w64 kidx) 512) (\<lambda>m2.
     bnd (idx_signed kt m2) (\<lambda>c.
     bnd (signedMod (w64 (ch_DataCount hdr)) 20) (\<lambda>m4.
     bnd (idx_signed dg m4) (\<lambda>b5.
     let kidx = kidx + ((ch_DataCount hdr + w32 b5) mod 17) in
     bnd (signedMod (w64 kidx) 20) (\<lambda>m6.
     bnd (idx_signed dg m6) (\<lambda>c.
     Ret (c, kidx)))))))) 0 len kidx)"

lemma iv_114357_total [iv_totals]: "iv_total iv_114357"
  by (simp add: iv_total_def iv_114357_def recipe_safe Let_def case_prod_unfold)

definition iv_114579 :: ivFunc where
  "iv_114579 hdr kt dg len =
     bnd (idx kt (ch_BuildVersion hdr AND 511)) (\<lambda>b1.
     let okidx = w32 b1 in
     let kidx = okidx in
     fill (\<lambda>i kidx.
     bnd (signedMod (w64 kidx) 512) (\<lambda>m2.
     bnd (idx_signed kt m2) (\<lambda>c.
     let kidx = ch_BuildVersion hdr - kidx in
     bnd (signedMod (w64 (kidx + n32 i)) 20) (\<lambda>m4.
     bnd (idx_signed dg m4) (\<lambda>b5.
     let c = c XOR b5 in
     Ret (c, kidx)))))) 0 len kidx)"

lemma iv_114579_total [iv_totals]: "iv_total iv_114579"
  by (simp add: iv_total_def iv_114579_def recipe_safe Let_def case_prod_unfold)

definition iv_115001 :: ivFunc where
  "iv_115001 hdr kt dg len =
     bnd (idx dg 5) (\<lambda>b1.
     let okidx = 2 * w32 b1 in
     let kidx = okidx in
     fill (\<lambda>i kidx.
     bnd (signedMod (w64 kidx) 512) (\<lambda>m2.
     bnd (idx_signed kt m2) (\<lambda>c.
     let kidx = kidx + (okidx mod 13) in
     bnd (signedMod (w64 (kidx - 73)) 20) (\<lambda>m4.
     bnd (idx_signed dg m4) (\<lambda>b5.
     let c = c XOR b5 in
     Ret (c, kidx)))))) 0 len kidx)"

lemma iv_115001_total [iv_totals]: "iv_total iv_115001"
  by (simp add: iv_total_def iv_115001_def recipe_safe Let_def case_prod_unfold)

text \<open>The index of build 39103's recipe is twice a digest byte less 16: below zero for the bytes 0 to 7.\<close>

lemma unat_twice: "unat (2 * w32 (b :: u8)) = 2 * unat b"
proof -
  have b: "unat b < 256" by (rule unat_u8_lt)
  then have "unat (w32 b) = unat b" by (simp add: unsigned_ucast_eq take_bit_nat_eq_self_iff)
  with b show ?thesis by (simp add: unat_word_ariths)
qed

lemma unat_diff_16: "unat (w - 16 :: u32) = (if 16 \<le> unat w then unat w - 16 else 2 ^ 32 + unat w - 16)"
  using unat_sub_if' [of w 16] by simp

lemma iv_39103_panics:
  assumes "length kt = 512" "length dg = 20" "unat (dg ! 13) < 8"
  shows "iv_39103 hdr kt dg 16 = Panic"
proof -
  have "idx kt (2 * w32 (dg ! 13) - 16) = Panic"
    using assms by (simp add: idx_def at_def unat_diff_16 unat_twice)
  then show ?thesis using assms by (simp add: iv_39103_def idx_def)
qed

lemma iv_39103_gives:
  assumes "length kt = 512" "length dg = 20" "8 \<le> unat (dg ! 13)"
  shows "gives 16 (iv_39103 hdr kt dg 16)"
proof -
  have "unat (2 * w32 (dg ! 13) - 16) < 512"
    using assms unat_u8_lt [of "dg ! 13"] by (simp add: unat_diff_16 unat_twice)
  then show ?thesis
    using assms by (simp add: iv_39103_def recipe_safe Let_def case_prod_unfold)
qed


definition iv_recipes :: "(u32 \<times> ivFunc) list" where
  "iv_recipes = [
     (35328, iv_35328), (35455, iv_35455), (35780, iv_35780), (36473, iv_36473), (36859, iv_36859), (37104, iv_37104),
     (37130, iv_37130), (37218, iv_37218), (37254, iv_37254), (37275, iv_37275), (37415, iv_37415), (37456, iv_37456),
     (37636, iv_37636), (37646, iv_37646), (37664, iv_37664), (37703, iv_37703), (37734, iv_37734), (37755, iv_37755),
     (37793, iv_37793), (37865, iv_37865), (37962, iv_37962), (38044, iv_38044), (38058, iv_38058), (38125, iv_38125),
     (38170, iv_38170), (38248, iv_38248), (38459, iv_38459), (38765, iv_38765), (38882, iv_38882), (39023, iv_39023),
     (39028, iv_39028), (39083, iv_39083), (39103, iv_39103), (39241, iv_39241), (39362, iv_39362), (39425, iv_39425),
     (39484, iv_39484), (39823, iv_39823), (39935, iv_39935), (39974, iv_39974), (40407, iv_40407), (40570, iv_40570),
     (40763, iv_40763), (40990, iv_40990), (41350, iv_41350), (41713, iv_41713), (42076, iv_42076), (42210, iv_42210),
     (42539, iv_42539), (42563, iv_42563), (42665, iv_42665), (42936, iv_42936), (43036, iv_43036), (43435, iv_43435),
     (43515, iv_43515), (43605, iv_43605), (44022, iv_44022), (44916, iv_44916), (45214, iv_45214), (45420, iv_45420),
     (45752, iv_45752), (46137, iv_46137), (46510, iv_46510), (46823, iv_46823), (46836, iv_46836), (47161, iv_47161),
     (47452, iv_47452), (47946, iv_47946), (49154, iv_49154), (49656, iv_49656), (50148, iv_50148), (50483, iv_50483),
     (51575, iv_51575), (51948, iv_51948), (52717, iv_52717), (52926, iv_52926), (53537, iv_53537), (54011, iv_54011),
     (54052, iv_54052), (54255, iv_54255), (54983, iv_54983), (55290, iv_55290), (55918, iv_55918), (56957, iv_56957),
     (57230, iv_57230), (57796, iv_57796), (57979, iv_57979), (58155, iv_58155), (58625, iv_58625), (59008, iv_59008),
     (59573, iv_59573), (60038, iv_60038), (60360, iv_60360), (60547, iv_60547), (60993, iv_60993), (61542, iv_61542),
     (62065, iv_62065), (62591, iv_62591), (62906, iv_62906), (63372, iv_63372), (63568, iv_63568), (63778, iv_63778),
     (63869, iv_63869), (64346, iv_64346), (64719, iv_64719), (65302, iv_65302), (65513, iv_65513), (66302, iv_66302),
     (66607, iv_66607), (67071, iv_67071), (67664, iv_67664), (68126, iv_68126), (68780, iv_68780), (69340, iv_69340),
     (69939, iv_69939), (70250, iv_70250), (70665, iv_70665), (71213, iv_71213), (71620, iv_71620), (72127, iv_72127),
     (73258, iv_73258), (73677, iv_73677), (74102, iv_74102), (75428, iv_75428), (76333, iv_76333), (77262, iv_77262),
     (78040, iv_78040), (78777, iv_78777), (79605, iv_79605), (80111, iv_80111), (80550, iv_80550), (81410, iv_81410),
     (82693, iv_82693), (82920, iv_82920), (83050, iv_83050), (83584, iv_83584), (84186, iv_84186), (84997, iv_84997),
     (85660, iv_85660), (86739, iv_86739), (87506, iv_87506), (88423, iv_88423), (88742, iv_88742), (89353, iv_89353),
     (90193, iv_90193), (90774, iv_90774), (92111, iv_92111), (93519, iv_93519), (94717, iv_94717), (96081, iv_96081),
     (96894, iv_96894), (98315, iv_98315), (98576, iv_98576), (98845, iv_98845), (99843, iv_99843),
     (100672, iv_100672), (101600, iv_101600), (102337, iv_102337), (102773, iv_102773), (104319, iv_104319),
     (105760, iv_105760), (106110, iv_106110), (106400, iv_106400), (107076, iv_107076), (107804, iv_107804),
     (108097, iv_108097), (109168, iv_109168), (109670, iv_109670), (109691, iv_109691), (109912, iv_109912),
     (110340, iv_110340), (111387, iv_111387), (111774, iv_111774), (112214, iv_112214), (112724, iv_112724),
     (113596, iv_113596), (114357, iv_114357), (114579, iv_114579), (115001, iv_115001)]"

definition builtinIVFuncs :: "u32 \<Rightarrow> ivFunc option" where
  "builtinIVFuncs = map_of iv_recipes"

lemma iv_recipes_total: "\<forall>(b, f) \<in> set iv_recipes. b \<noteq> 39103 \<longrightarrow> iv_total f"
  by (simp add: iv_recipes_def iv_totals)

end
