(* ===== verification/CmfKeyRecipes.thy ===== *)
theory CmfKeyRecipes
  imports CmfRuntime
begin

text \<open>
  \<^verbatim>\<open>internal/root/overwatch/cmfkeys/keyfuncs_generated.go\<close>, the map \<^verbatim>\<open>builtinKeyFuncs\<close>: one definition for each
  build's key recipe, statement by statement, and after it the fact that the recipe fills its 32 bytes
  without a panic when the table has 512 bytes and the build number is not zero.
\<close>

unbundle bit_operations_syntax

named_theorems key_totals \<open>the recipes that always end in a value\<close>

definition key_35328 :: keyFunc where
  "key_35328 hdr kt len =
     bnd (idx kt (ch_DataCount hdr AND 511)) (\<lambda>b1.
     let kidx = w32 b1 in
     let increment = (3 :: u32) in
     fill (\<lambda>i kidx.
     bnd (idx kt (kidx mod 512)) (\<lambda>c.
     let kidx = kidx + increment in
     Ret (c, kidx))) 0 len kidx)"

lemma key_35328_total [key_totals]: "key_total key_35328"
  by (simp add: key_total_def key_35328_def recipe_safe Let_def case_prod_unfold)

definition key_35455 :: keyFunc where
  "key_35455 hdr kt len =
     (let kidx = (193 :: u32) in
     let increment = (319 :: u32) in
     fill (\<lambda>i kidx.
     bnd (idx kt (kidx mod 512)) (\<lambda>c.
     let kidx = kidx - increment in
     Ret (c, kidx))) 0 len kidx)"

lemma key_35455_total [key_totals]: "key_total key_35455"
  by (simp add: key_total_def key_35455_def recipe_safe Let_def case_prod_unfold)

definition key_35780 :: keyFunc where
  "key_35780 hdr kt len =
     (let kidx = (193 :: u32) in
     let increment = (319 :: u32) in
     fill (\<lambda>i kidx.
     bnd (idx kt (kidx mod 512)) (\<lambda>c.
     let kidx = kidx - increment in
     Ret (c, kidx))) 0 len kidx)"

lemma key_35780_total [key_totals]: "key_total key_35780"
  by (simp add: key_total_def key_35780_def recipe_safe Let_def case_prod_unfold)

definition key_36473 :: keyFunc where
  "key_36473 hdr kt len =
     (let kidx = constrain (w64 (ch_BuildVersion hdr * n32 len)) in
     let increment = ch_BuildVersion hdr in
     fill (\<lambda>i kidx.
     bnd (idx kt (kidx mod 512)) (\<lambda>c.
     let kidx = increment - kidx in
     Ret (c, kidx))) 0 len kidx)"

lemma key_36473_total [key_totals]: "key_total key_36473"
  by (simp add: key_total_def key_36473_def recipe_safe Let_def case_prod_unfold)

definition key_36859 :: keyFunc where
  "key_36859 hdr kt len =
     (let kidx = (31 :: u32) in
     let increment = (393 :: u32) in
     fill (\<lambda>i kidx.
     bnd (idx kt (kidx mod 512)) (\<lambda>c.
     let kidx = kidx - increment in
     Ret (c, kidx))) 0 len kidx)"

lemma key_36859_total [key_totals]: "key_total key_36859"
  by (simp add: key_total_def key_36859_def recipe_safe Let_def case_prod_unfold)

definition key_37104 :: keyFunc where
  "key_37104 hdr kt len =
     bnd (idx kt (n32 len + 256)) (\<lambda>b1.
     let kidx = w32 b1 in
     let increment = (ch_BuildVersion hdr * ch_DataCount hdr) mod 7 in
     fill (\<lambda>i kidx.
     bnd (idx kt (kidx mod 512)) (\<lambda>c.
     let kidx = kidx + increment in
     Ret (c, kidx))) 0 len kidx)"

lemma key_37104_total [key_totals]: "key_total key_37104"
  by (simp add: key_total_def key_37104_def recipe_safe Let_def case_prod_unfold)

definition key_37130 :: keyFunc where
  "key_37130 hdr kt len =
     (let kidx = (130 :: u32) in
     let increment = (266 :: u32) in
     fill (\<lambda>i kidx.
     bnd (idx kt (kidx mod 512)) (\<lambda>c.
     let kidx = kidx - increment in
     Ret (c, kidx))) 0 len kidx)"

lemma key_37130_total [key_totals]: "key_total key_37130"
  by (simp add: key_total_def key_37130_def recipe_safe Let_def case_prod_unfold)

definition key_37218 :: keyFunc where
  "key_37218 hdr kt len =
     (let kidx = constrain (w64 (ch_BuildVersion hdr * n32 len)) in
     let increment = kidx mod 61 in
     fill (\<lambda>i kidx.
     bnd (idx kt (kidx mod 512)) (\<lambda>c.
     let kidx = kidx + increment in
     Ret (c, kidx))) 0 len kidx)"

lemma key_37218_total [key_totals]: "key_total key_37218"
  by (simp add: key_total_def key_37218_def recipe_safe Let_def case_prod_unfold)

definition key_37254 :: keyFunc where
  "key_37254 hdr kt len =
     bnd (idx kt (n32 len + 256)) (\<lambda>b1.
     let kidx = w32 b1 in
     let increment = (3 :: u32) in
     fill (\<lambda>i kidx.
     bnd (idx kt (kidx mod 512)) (\<lambda>c.
     let kidx = kidx + increment in
     Ret (c, kidx))) 0 len kidx)"

lemma key_37254_total [key_totals]: "key_total key_37254"
  by (simp add: key_total_def key_37254_def recipe_safe Let_def case_prod_unfold)

definition key_37275 :: keyFunc where
  "key_37275 hdr kt len =
     bnd (idx kt (ch_BuildVersion hdr AND 511)) (\<lambda>b1.
     let kidx = w32 b1 in
     let increment = (3 :: u32) in
     fill (\<lambda>i kidx.
     bnd (idx kt (kidx mod 512)) (\<lambda>c.
     let kidx = kidx + increment in
     Ret (c, kidx))) 0 len kidx)"

lemma key_37275_total [key_totals]: "key_total key_37275"
  by (simp add: key_total_def key_37275_def recipe_safe Let_def case_prod_unfold)

definition key_37415 :: keyFunc where
  "key_37415 hdr kt len =
     bnd (idx kt (ch_BuildVersion hdr AND 511)) (\<lambda>b1.
     let kidx = w32 b1 in
     let increment = (3 :: u32) in
     fill (\<lambda>i kidx.
     bnd (idx kt (kidx mod 512)) (\<lambda>c.
     let kidx = kidx + increment in
     Ret (c, kidx))) 0 len kidx)"

lemma key_37415_total [key_totals]: "key_total key_37415"
  by (simp add: key_total_def key_37415_def recipe_safe Let_def case_prod_unfold)

definition key_37456 :: keyFunc where
  "key_37456 hdr kt len =
     bnd (idx kt (ch_DataCount hdr AND 511)) (\<lambda>b1.
     let kidx = w32 b1 in
     let increment = kidx mod 61 in
     fill (\<lambda>i kidx.
     bnd (idx kt (kidx mod 512)) (\<lambda>c.
     let kidx = kidx + increment in
     Ret (c, kidx))) 0 len kidx)"

lemma key_37456_total [key_totals]: "key_total key_37456"
  by (simp add: key_total_def key_37456_def recipe_safe Let_def case_prod_unfold)

definition key_37636 :: keyFunc where
  "key_37636 hdr kt len =
     bnd (idx kt (ch_DataCount hdr AND 511)) (\<lambda>b1.
     let kidx = w32 b1 in
     let increment = (ch_BuildVersion hdr * ch_DataCount hdr) mod 7 in
     fill (\<lambda>i kidx.
     bnd (idx kt (kidx mod 512)) (\<lambda>c.
     let kidx = kidx + increment in
     Ret (c, kidx))) 0 len kidx)"

lemma key_37636_total [key_totals]: "key_total key_37636"
  by (simp add: key_total_def key_37636_def recipe_safe Let_def case_prod_unfold)

definition key_37646 :: keyFunc where
  "key_37646 hdr kt len =
     bnd (idx kt (ch_DataCount hdr AND 511)) (\<lambda>b1.
     let kidx = w32 b1 in
     let increment = (3 :: u32) in
     fill (\<lambda>i kidx.
     bnd (idx kt (kidx mod 512)) (\<lambda>c.
     let kidx = kidx + increment in
     Ret (c, kidx))) 0 len kidx)"

lemma key_37646_total [key_totals]: "key_total key_37646"
  by (simp add: key_total_def key_37646_def recipe_safe Let_def case_prod_unfold)

definition key_37664 :: keyFunc where
  "key_37664 hdr kt len =
     bnd (idx kt (n32 len + 256)) (\<lambda>b1.
     let kidx = w32 b1 in
     let increment = (ch_BuildVersion hdr * ch_DataCount hdr) mod 7 in
     fill (\<lambda>i kidx.
     bnd (idx kt (kidx mod 512)) (\<lambda>c.
     let kidx = kidx + increment in
     Ret (c, kidx))) 0 len kidx)"

lemma key_37664_total [key_totals]: "key_total key_37664"
  by (simp add: key_total_def key_37664_def recipe_safe Let_def case_prod_unfold)

definition key_37703 :: keyFunc where
  "key_37703 hdr kt len =
     (let kidx = constrain (w64 (n32 len * ch_BuildVersion hdr)) in
     fill (\<lambda>i kidx.
     bnd (idx kt (kidx mod 512)) (\<lambda>c.
     let kidx = kidx + ch_EntryCount hdr in
     Ret (c, kidx))) 0 len kidx)"

lemma key_37703_total [key_totals]: "key_total key_37703"
  by (simp add: key_total_def key_37703_def recipe_safe Let_def case_prod_unfold)

definition key_37734 :: keyFunc where
  "key_37734 hdr kt len =
     bnd (idx kt (n32 len + 256)) (\<lambda>b1.
     let kidx = w32 b1 in
     fill (\<lambda>i kidx.
     bnd (idx kt (kidx mod 512)) (\<lambda>c.
     let sw = kidx mod 3 in
     bnd (if sw = 0 then Ret (kidx + 103)
       else if sw = 1 then rem32 (4 * kidx) (ch_BuildVersion hdr)
       else if sw = 2 then Ret (kidx - 1)
       else Ret kidx) (\<lambda>kidx.
     Ret (c, kidx)))) 0 len kidx)"

lemma key_37734_total [key_totals]: "key_total key_37734"
  by (simp add: key_total_def key_37734_def recipe_safe Let_def case_prod_unfold)

definition key_37755 :: keyFunc where
  "key_37755 hdr kt len =
     bnd (idx kt (ch_BuildVersion hdr AND 511)) (\<lambda>b1.
     let kidx = w32 b1 in
     let increment = (ch_BuildVersion hdr * ch_DataCount hdr) mod 7 in
     fill (\<lambda>i kidx.
     bnd (idx kt (kidx mod 512)) (\<lambda>c.
     let kidx = kidx + increment in
     Ret (c, kidx))) 0 len kidx)"

lemma key_37755_total [key_totals]: "key_total key_37755"
  by (simp add: key_total_def key_37755_def recipe_safe Let_def case_prod_unfold)

definition key_37793 :: keyFunc where
  "key_37793 hdr kt len =
     (let kidx = constrain (w64 (n32 len * ch_BuildVersion hdr)) in
     fill (\<lambda>i kidx.
     bnd (idx kt (kidx mod 512)) (\<lambda>c.
     let kidx = kidx + 3 in
     Ret (c, kidx))) 0 len kidx)"

lemma key_37793_total [key_totals]: "key_total key_37793"
  by (simp add: key_total_def key_37793_def recipe_safe Let_def case_prod_unfold)

definition key_37865 :: keyFunc where
  "key_37865 hdr kt len =
     bnd (idx kt (ch_BuildVersion hdr AND 511)) (\<lambda>b1.
     let kidx = w32 b1 in
     fill (\<lambda>i kidx.
     bnd (idx kt (kidx mod 512)) (\<lambda>c.
     let kidx = kidx - 489 in
     Ret (c, kidx))) 0 len kidx)"

lemma key_37865_total [key_totals]: "key_total key_37865"
  by (simp add: key_total_def key_37865_def recipe_safe Let_def case_prod_unfold)

definition key_37962 :: keyFunc where
  "key_37962 hdr kt len =
     bnd (idx kt 0) (\<lambda>b1.
     bnd (idx kt ((n32 len * w32 b1) mod 512)) (\<lambda>b2.
     let kidx = w32 b2 in
     fill (\<lambda>i kidx.
     bnd (idx kt (kidx mod 512)) (\<lambda>c.
     let kidx = kidx + ch_EntryCount hdr in
     Ret (c, kidx))) 0 len kidx))"

lemma key_37962_total [key_totals]: "key_total key_37962"
  by (simp add: key_total_def key_37962_def recipe_safe Let_def case_prod_unfold)

definition key_38044 :: keyFunc where
  "key_38044 hdr kt len =
     bnd (idx kt (n32 len + 256)) (\<lambda>b1.
     let kidx = w32 b1 in
     fill (\<lambda>i kidx.
     bnd (idx kt (kidx mod 512)) (\<lambda>c.
     let kidx = kidx + 3 in
     Ret (c, kidx))) 0 len kidx)"

lemma key_38044_total [key_totals]: "key_total key_38044"
  by (simp add: key_total_def key_38044_def recipe_safe Let_def case_prod_unfold)

definition key_38058 :: keyFunc where
  "key_38058 hdr kt len =
     (let kidx = constrain (w64 (ch_BuildVersion hdr * n32 len)) in
     let increment = kidx mod 61 in
     fill (\<lambda>i kidx.
     bnd (idx kt (kidx mod 512)) (\<lambda>c.
     let kidx = kidx + increment in
     Ret (c, kidx))) 0 len kidx)"

lemma key_38058_total [key_totals]: "key_total key_38058"
  by (simp add: key_total_def key_38058_def recipe_safe Let_def case_prod_unfold)

definition key_38125 :: keyFunc where
  "key_38125 hdr kt len =
     bnd (idx kt (ch_BuildVersion hdr AND 511)) (\<lambda>b1.
     let kidx = w32 b1 in
     fill (\<lambda>i kidx.
     bnd (idx kt (kidx mod 512)) (\<lambda>c.
     let kidx = kidx - ch_BuildVersion hdr in
     Ret (c, kidx))) 0 len kidx)"

lemma key_38125_total [key_totals]: "key_total key_38125"
  by (simp add: key_total_def key_38125_def recipe_safe Let_def case_prod_unfold)

definition key_38170 :: keyFunc where
  "key_38170 hdr kt len =
     bnd (idx kt (ch_BuildVersion hdr AND 511)) (\<lambda>b1.
     let kidx = w32 b1 in
     let increment = kidx mod 61 in
     fill (\<lambda>i kidx.
     bnd (idx kt (kidx mod 512)) (\<lambda>c.
     let kidx = kidx + increment in
     Ret (c, kidx))) 0 len kidx)"

lemma key_38170_total [key_totals]: "key_total key_38170"
  by (simp add: key_total_def key_38170_def recipe_safe Let_def case_prod_unfold)

definition key_38248 :: keyFunc where
  "key_38248 hdr kt len =
     (let kidx = constrain (w64 (n32 len * ch_BuildVersion hdr)) in
     fill (\<lambda>i kidx.
     bnd (idx kt (kidx mod 512)) (\<lambda>c.
     let kidx = kidx + 3 in
     Ret (c, kidx))) 0 len kidx)"

lemma key_38248_total [key_totals]: "key_total key_38248"
  by (simp add: key_total_def key_38248_def recipe_safe Let_def case_prod_unfold)

definition key_38459 :: keyFunc where
  "key_38459 hdr kt len =
     bnd (idx kt (n32 len + 256)) (\<lambda>b1.
     let kidx = w32 b1 in
     fill (\<lambda>i kidx.
     bnd (idx kt (kidx mod 512)) (\<lambda>c.
     let kidx = kidx + ch_EntryCount hdr in
     Ret (c, kidx))) 0 len kidx)"

lemma key_38459_total [key_totals]: "key_total key_38459"
  by (simp add: key_total_def key_38459_def recipe_safe Let_def case_prod_unfold)

definition key_38765 :: keyFunc where
  "key_38765 hdr kt len =
     bnd (idx kt (ch_BuildVersion hdr AND 511)) (\<lambda>b1.
     let kidx = w32 b1 in
     let increment = kidx mod 61 in
     fill (\<lambda>i kidx.
     bnd (idx kt (kidx mod 512)) (\<lambda>c.
     let kidx = kidx + increment in
     Ret (c, kidx))) 0 len kidx)"

lemma key_38765_total [key_totals]: "key_total key_38765"
  by (simp add: key_total_def key_38765_def recipe_safe Let_def case_prod_unfold)

definition key_38882 :: keyFunc where
  "key_38882 hdr kt len =
     bnd (idx kt 0) (\<lambda>b1.
     bnd (idx kt ((n32 len * w32 b1) mod 512)) (\<lambda>b2.
     let kidx = w32 b2 in
     let increment = (ch_BuildVersion hdr * ch_DataCount hdr) mod 7 in
     fill (\<lambda>i kidx.
     bnd (idx kt (kidx mod 512)) (\<lambda>c.
     let kidx = kidx + increment in
     Ret (c, kidx))) 0 len kidx))"

lemma key_38882_total [key_totals]: "key_total key_38882"
  by (simp add: key_total_def key_38882_def recipe_safe Let_def case_prod_unfold)

definition key_39023 :: keyFunc where
  "key_39023 hdr kt len =
     (let kidx = constrain (w64 (n32 len * ch_BuildVersion hdr)) in
     fill (\<lambda>i kidx.
     bnd (idx kt (kidx mod 512)) (\<lambda>c.
     let sw = kidx mod 3 in
     bnd (if sw = 0 then Ret (kidx + 103)
       else if sw = 1 then rem32 (4 * kidx) (ch_BuildVersion hdr)
       else if sw = 2 then Ret (kidx - 1)
       else Ret kidx) (\<lambda>kidx.
     Ret (c, kidx)))) 0 len kidx)"

lemma key_39023_total [key_totals]: "key_total key_39023"
  by (simp add: key_total_def key_39023_def recipe_safe Let_def case_prod_unfold)

definition key_39028 :: keyFunc where
  "key_39028 hdr kt len =
     (let kidx = constrain (w64 (n32 len * ch_BuildVersion hdr)) in
     fill (\<lambda>i kidx.
     bnd (idx kt (kidx mod 512)) (\<lambda>c.
     let kidx = constrain (w64 (ch_BuildVersion hdr - kidx)) in
     Ret (c, kidx))) 0 len kidx)"

lemma key_39028_total [key_totals]: "key_total key_39028"
  by (simp add: key_total_def key_39028_def recipe_safe Let_def case_prod_unfold)

definition key_39083 :: keyFunc where
  "key_39083 hdr kt len =
     (let kidx = constrain (w64 (n32 len * ch_BuildVersion hdr)) in
     let decrement = ch_BuildVersion hdr AND 511 in
     fill (\<lambda>i kidx.
     bnd (idx kt (kidx mod 512)) (\<lambda>c.
     let kidx = kidx - decrement in
     Ret (c, kidx))) 0 len kidx)"

lemma key_39083_total [key_totals]: "key_total key_39083"
  by (simp add: key_total_def key_39083_def recipe_safe Let_def case_prod_unfold)

definition key_39103 :: keyFunc where
  "key_39103 hdr kt len =
     (let kidx = constrain (w64 (n32 len * ch_BuildVersion hdr)) in
     fill (\<lambda>i kidx.
     bnd (idx kt (kidx mod 512)) (\<lambda>c.
     let kidx = kidx + ch_EntryCount hdr in
     Ret (c, kidx))) 0 len kidx)"

lemma key_39103_total [key_totals]: "key_total key_39103"
  by (simp add: key_total_def key_39103_def recipe_safe Let_def case_prod_unfold)

definition key_39241 :: keyFunc where
  "key_39241 hdr kt len =
     bnd (idx kt (ch_DataCount hdr AND 511)) (\<lambda>b1.
     let kidx = w32 b1 in
     let increment = kidx mod 61 in
     fill (\<lambda>i kidx.
     bnd (idx kt (kidx mod 512)) (\<lambda>c.
     let kidx = kidx + increment in
     Ret (c, kidx))) 0 len kidx)"

lemma key_39241_total [key_totals]: "key_total key_39241"
  by (simp add: key_total_def key_39241_def recipe_safe Let_def case_prod_unfold)

definition key_39362 :: keyFunc where
  "key_39362 hdr kt len =
     bnd (idx kt 0) (\<lambda>b1.
     bnd (idx kt ((n32 len * w32 b1) mod 512)) (\<lambda>b2.
     let kidx = w32 b2 in
     fill (\<lambda>i kidx.
     bnd (idx kt (kidx mod 512)) (\<lambda>c.
     let kidx = kidx + ch_EntryCount hdr in
     Ret (c, kidx))) 0 len kidx))"

lemma key_39362_total [key_totals]: "key_total key_39362"
  by (simp add: key_total_def key_39362_def recipe_safe Let_def case_prod_unfold)

definition key_39425 :: keyFunc where
  "key_39425 hdr kt len =
     bnd (idx kt (ch_BuildVersion hdr AND 511)) (\<lambda>b1.
     let kidx = w32 b1 in
     fill (\<lambda>i kidx.
     bnd (idx kt (kidx mod 512)) (\<lambda>c.
     let kidx = kidx + ch_EntryCount hdr in
     Ret (c, kidx))) 0 len kidx)"

lemma key_39425_total [key_totals]: "key_total key_39425"
  by (simp add: key_total_def key_39425_def recipe_safe Let_def case_prod_unfold)

definition key_39484 :: keyFunc where
  "key_39484 hdr kt len =
     bnd (idx kt (n32 len + 256)) (\<lambda>b1.
     let kidx = w32 b1 in
     let increment = (ch_BuildVersion hdr * ch_DataCount hdr) mod 7 in
     fill (\<lambda>i kidx.
     bnd (idx kt (kidx mod 512)) (\<lambda>c.
     let kidx = kidx + increment in
     Ret (c, kidx))) 0 len kidx)"

lemma key_39484_total [key_totals]: "key_total key_39484"
  by (simp add: key_total_def key_39484_def recipe_safe Let_def case_prod_unfold)

definition key_39823 :: keyFunc where
  "key_39823 hdr kt len =
     (let kidx = ch_BuildVersion hdr * n32 len in
     fill (\<lambda>i kidx.
     bnd (idx kt (kidx mod 512)) (\<lambda>c.
     let kidx = kidx + 3 in
     Ret (c, kidx))) 0 len kidx)"

lemma key_39823_total [key_totals]: "key_total key_39823"
  by (simp add: key_total_def key_39823_def recipe_safe Let_def case_prod_unfold)

definition key_39935 :: keyFunc where
  "key_39935 hdr kt len =
     bnd (idx kt (ch_BuildVersion hdr AND 511)) (\<lambda>b1.
     let kidx = w32 b1 in
     fill (\<lambda>i kidx.
     bnd (idx kt (kidx mod 512)) (\<lambda>c.
     let kidx = kidx + 3 in
     Ret (c, kidx))) 0 len kidx)"

lemma key_39935_total [key_totals]: "key_total key_39935"
  by (simp add: key_total_def key_39935_def recipe_safe Let_def case_prod_unfold)

definition key_39974 :: keyFunc where
  "key_39974 hdr kt len =
     bnd (idx kt (n32 len + 256)) (\<lambda>b1.
     let kidx = w32 b1 in
     let increment = (ch_BuildVersion hdr * ch_DataCount hdr) mod 7 in
     fill (\<lambda>i kidx.
     bnd (idx kt (kidx mod 512)) (\<lambda>c.
     let kidx = kidx + increment in
     Ret (c, kidx))) 0 len kidx)"

lemma key_39974_total [key_totals]: "key_total key_39974"
  by (simp add: key_total_def key_39974_def recipe_safe Let_def case_prod_unfold)

definition key_40407 :: keyFunc where
  "key_40407 hdr kt len =
     bnd (idx kt 0) (\<lambda>b1.
     bnd (idx kt ((w32 b1 * n32 len) mod 512)) (\<lambda>b2.
     let kidx = w32 b2 in
     fill (\<lambda>i kidx.
     bnd (idx kt (kidx mod 512)) (\<lambda>c.
     let kidx = ch_BuildVersion hdr - kidx in
     Ret (c, kidx))) 0 len kidx))"

lemma key_40407_total [key_totals]: "key_total key_40407"
  by (simp add: key_total_def key_40407_def recipe_safe Let_def case_prod_unfold)

definition key_40570 :: keyFunc where
  "key_40570 hdr kt len =
     bnd (idx kt (ch_BuildVersion hdr AND 511)) (\<lambda>b1.
     let kidx = w32 b1 in
     fill (\<lambda>i kidx.
     bnd (idx kt (kidx mod 512)) (\<lambda>c.
     let sw = kidx mod 3 in
     bnd (if sw = 0 then Ret (kidx + 103)
       else if sw = 1 then rem32 (4 * kidx) (ch_BuildVersion hdr)
       else if sw = 2 then Ret (kidx - 1)
       else Ret kidx) (\<lambda>kidx.
     Ret (c, kidx)))) 0 len kidx)"

lemma key_40570_total [key_totals]: "key_total key_40570"
  by (simp add: key_total_def key_40570_def recipe_safe Let_def case_prod_unfold)

definition key_40763 :: keyFunc where
  "key_40763 hdr kt len =
     (let kidx = n32 len * ch_BuildVersion hdr in
     fill (\<lambda>i kidx.
     bnd (idx kt (kidx mod 512)) (\<lambda>c.
     let kidx = kidx - (ch_BuildVersion hdr AND 511) in
     Ret (c, kidx))) 0 len kidx)"

lemma key_40763_total [key_totals]: "key_total key_40763"
  by (simp add: key_total_def key_40763_def recipe_safe Let_def case_prod_unfold)

definition key_40990 :: keyFunc where
  "key_40990 hdr kt len =
     bnd (idx kt (ch_BuildVersion hdr AND 511)) (\<lambda>b1.
     let kidx = w32 b1 in
     fill (\<lambda>i kidx.
     bnd (idx kt (kidx mod 512)) (\<lambda>c.
     let sw = kidx mod 3 in
     bnd (if sw = 0 then Ret (kidx + 103)
       else if sw = 1 then rem32 (4 * kidx) (ch_BuildVersion hdr)
       else if sw = 2 then Ret (kidx - 1)
       else Ret kidx) (\<lambda>kidx.
     Ret (c, kidx)))) 0 len kidx)"

lemma key_40990_total [key_totals]: "key_total key_40990"
  by (simp add: key_total_def key_40990_def recipe_safe Let_def case_prod_unfold)

definition key_41350 :: keyFunc where
  "key_41350 hdr kt len =
     bnd (idx kt (ch_BuildVersion hdr AND 511)) (\<lambda>b1.
     let kidx = w32 b1 in
     fill (\<lambda>i kidx.
     bnd (idx kt (kidx mod 512)) (\<lambda>c.
     let kidx = kidx + ch_EntryCount hdr in
     Ret (c, kidx))) 0 len kidx)"

lemma key_41350_total [key_totals]: "key_total key_41350"
  by (simp add: key_total_def key_41350_def recipe_safe Let_def case_prod_unfold)

definition key_41713 :: keyFunc where
  "key_41713 hdr kt len =
     (let kidx = n32 len * ch_BuildVersion hdr in
     fill (\<lambda>i kidx.
     bnd (idx kt (kidx mod 512)) (\<lambda>c.
     let kidx = kidx + 3 in
     Ret (c, kidx))) 0 len kidx)"

lemma key_41713_total [key_totals]: "key_total key_41713"
  by (simp add: key_total_def key_41713_def recipe_safe Let_def case_prod_unfold)

definition key_42076 :: keyFunc where
  "key_42076 hdr kt len =
     bnd (idx kt (ch_DataCount hdr AND 511)) (\<lambda>b1.
     let kidx = w32 b1 in
     let increment = kidx mod 61 in
     fill (\<lambda>i kidx.
     bnd (idx kt (kidx mod 512)) (\<lambda>c.
     let kidx = kidx + increment in
     Ret (c, kidx))) 0 len kidx)"

lemma key_42076_total [key_totals]: "key_total key_42076"
  by (simp add: key_total_def key_42076_def recipe_safe Let_def case_prod_unfold)

definition key_42210 :: keyFunc where
  "key_42210 hdr kt len =
     bnd (idx kt (ch_BuildVersion hdr AND 511)) (\<lambda>b1.
     let kidx = w32 b1 in
     fill (\<lambda>i kidx.
     bnd (signedMod (w64 kidx) 512) (\<lambda>m2.
     bnd (idx_signed kt m2) (\<lambda>c.
     let kidx = kidx + 3 in
     Ret (c, kidx)))) 0 len kidx)"

lemma key_42210_total [key_totals]: "key_total key_42210"
  by (simp add: key_total_def key_42210_def recipe_safe Let_def case_prod_unfold)

definition key_42539 :: keyFunc where
  "key_42539 hdr kt len =
     bnd (idx kt (n32 len + 256)) (\<lambda>b1.
     let kidx = w32 b1 in
     fill (\<lambda>i kidx.
     bnd (signedMod (w64 kidx) 512) (\<lambda>m2.
     bnd (idx_signed kt m2) (\<lambda>c.
     let kidx = kidx + 3 in
     Ret (c, kidx)))) 0 len kidx)"

lemma key_42539_total [key_totals]: "key_total key_42539"
  by (simp add: key_total_def key_42539_def recipe_safe Let_def case_prod_unfold)

definition key_42563 :: keyFunc where
  "key_42563 hdr kt len =
     (let kidx = ch_BuildVersion hdr * n32 len in
     fill (\<lambda>i kidx.
     bnd (signedMod (w64 kidx) 512) (\<lambda>m1.
     bnd (idx_signed kt m1) (\<lambda>c.
     let kidx = ch_BuildVersion hdr - kidx in
     Ret (c, kidx)))) 0 len kidx)"

lemma key_42563_total [key_totals]: "key_total key_42563"
  by (simp add: key_total_def key_42563_def recipe_safe Let_def case_prod_unfold)

definition key_42665 :: keyFunc where
  "key_42665 hdr kt len =
     bnd (idx kt (ch_BuildVersion hdr AND 511)) (\<lambda>b1.
     let kidx = w32 b1 in
     fill (\<lambda>i kidx.
     bnd (signedMod (w64 kidx) 512) (\<lambda>m2.
     bnd (idx_signed kt m2) (\<lambda>c.
     let kidx = kidx + 3 in
     Ret (c, kidx)))) 0 len kidx)"

lemma key_42665_total [key_totals]: "key_total key_42665"
  by (simp add: key_total_def key_42665_def recipe_safe Let_def case_prod_unfold)

definition key_42936 :: keyFunc where
  "key_42936 hdr kt len =
     bnd (idx kt (ch_DataCount hdr AND 511)) (\<lambda>b1.
     let kidx = w32 b1 in
     fill (\<lambda>i kidx.
     bnd (signedMod (w64 kidx) 512) (\<lambda>m2.
     bnd (idx_signed kt m2) (\<lambda>c.
     bnd (signedMod (w64 kidx) 3) (\<lambda>m4.
     bnd (if m4 = 0 then Ret (kidx + 103)
       else if m4 = 1 then signedMod (w64 (kidx * 4)) (w64 (ch_BuildVersion hdr))
       else if m4 = 2 then Ret (kidx - 1)
       else Ret kidx) (\<lambda>kidx.
     Ret (c, kidx)))))) 0 len kidx)"

lemma key_42936_total [key_totals]: "key_total key_42936"
  by (simp add: key_total_def key_42936_def recipe_safe Let_def case_prod_unfold)

definition key_43036 :: keyFunc where
  "key_43036 hdr kt len =
     bnd (idx kt (ch_DataCount hdr AND 511)) (\<lambda>b1.
     let kidx = w32 b1 in
     fill (\<lambda>i kidx.
     bnd (signedMod (w64 kidx) 512) (\<lambda>m2.
     bnd (idx_signed kt m2) (\<lambda>c.
     let kidx = kidx + 3 in
     Ret (c, kidx)))) 0 len kidx)"

lemma key_43036_total [key_totals]: "key_total key_43036"
  by (simp add: key_total_def key_43036_def recipe_safe Let_def case_prod_unfold)

definition key_43435 :: keyFunc where
  "key_43435 hdr kt len =
     bnd (idx kt (ch_BuildVersion hdr AND 511)) (\<lambda>b1.
     let kidx = w32 b1 in
     fill (\<lambda>i kidx.
     bnd (signedMod (w64 kidx) 512) (\<lambda>m2.
     bnd (idx_signed kt m2) (\<lambda>c.
     let kidx = kidx + 3 in
     Ret (c, kidx)))) 0 len kidx)"

lemma key_43435_total [key_totals]: "key_total key_43435"
  by (simp add: key_total_def key_43435_def recipe_safe Let_def case_prod_unfold)

definition key_43515 :: keyFunc where
  "key_43515 hdr kt len =
     bnd (idx kt (ch_BuildVersion hdr AND 511)) (\<lambda>b1.
     let kidx = w32 b1 in
     fill (\<lambda>i kidx.
     bnd (signedMod (w64 kidx) 512) (\<lambda>m2.
     bnd (idx_signed kt m2) (\<lambda>c.
     let kidx = ch_BuildVersion hdr - kidx in
     Ret (c, kidx)))) 0 len kidx)"

lemma key_43515_total [key_totals]: "key_total key_43515"
  by (simp add: key_total_def key_43515_def recipe_safe Let_def case_prod_unfold)

definition key_43605 :: keyFunc where
  "key_43605 hdr kt len =
     bnd (idx kt (ch_BuildVersion hdr AND 511)) (\<lambda>b1.
     let kidx = w32 b1 in
     fill (\<lambda>i kidx.
     bnd (signedMod (w64 kidx) 512) (\<lambda>m2.
     bnd (idx_signed kt m2) (\<lambda>c.
     let kidx = kidx - 0x55 in
     Ret (c, kidx)))) 0 len kidx)"

lemma key_43605_total [key_totals]: "key_total key_43605"
  by (simp add: key_total_def key_43605_def recipe_safe Let_def case_prod_unfold)

definition key_44022 :: keyFunc where
  "key_44022 hdr kt len =
     bnd (idx kt 0) (\<lambda>b1.
     bnd (signedMod (w64 (n32 len * w32 b1)) 512) (\<lambda>m2.
     bnd (idx_signed kt m2) (\<lambda>b3.
     let kidx = w32 b3 in
     bnd (signedMod (w64 kidx) 61) (\<lambda>increment.
     fill (\<lambda>i kidx.
     bnd (signedMod (w64 kidx) 512) (\<lambda>m5.
     bnd (idx_signed kt m5) (\<lambda>c.
     let kidx = kidx + increment in
     Ret (c, kidx)))) 0 len kidx))))"

lemma key_44022_total [key_totals]: "key_total key_44022"
  by (simp add: key_total_def key_44022_def recipe_safe Let_def case_prod_unfold)

definition key_44916 :: keyFunc where
  "key_44916 hdr kt len =
     bnd (idx kt (ch_DataCount hdr AND 511)) (\<lambda>b1.
     let kidx = w32 b1 in
     let increment = (ch_BuildVersion hdr * ch_DataCount hdr) mod 7 in
     fill (\<lambda>i kidx.
     bnd (signedMod (w64 kidx) 512) (\<lambda>m2.
     bnd (idx_signed kt m2) (\<lambda>c.
     let kidx = kidx + increment in
     Ret (c, kidx)))) 0 len kidx)"

lemma key_44916_total [key_totals]: "key_total key_44916"
  by (simp add: key_total_def key_44916_def recipe_safe Let_def case_prod_unfold)

definition key_45214 :: keyFunc where
  "key_45214 hdr kt len =
     bnd (idx kt (n32 len + 256)) (\<lambda>b1.
     let kidx = w32 b1 in
     fill (\<lambda>i kidx.
     bnd (signedMod (w64 kidx) 512) (\<lambda>m2.
     bnd (idx_signed kt m2) (\<lambda>c.
     let kidx = kidx + ch_EntryCount hdr in
     Ret (c, kidx)))) 0 len kidx)"

lemma key_45214_total [key_totals]: "key_total key_45214"
  by (simp add: key_total_def key_45214_def recipe_safe Let_def case_prod_unfold)

definition key_45420 :: keyFunc where
  "key_45420 hdr kt len =
     bnd (idx kt (ch_BuildVersion hdr AND 511)) (\<lambda>b1.
     let kidx = w32 b1 in
     let increment = (ch_BuildVersion hdr * ch_DataCount hdr) mod 7 in
     fill (\<lambda>i kidx.
     bnd (signedMod (w64 kidx) 512) (\<lambda>m2.
     bnd (idx_signed kt m2) (\<lambda>c.
     let kidx = kidx + increment in
     Ret (c, kidx)))) 0 len kidx)"

lemma key_45420_total [key_totals]: "key_total key_45420"
  by (simp add: key_total_def key_45420_def recipe_safe Let_def case_prod_unfold)

definition key_45752 :: keyFunc where
  "key_45752 hdr kt len =
     bnd (idx kt 0) (\<lambda>b1.
     bnd (signedMod (w64 (n32 len * w32 b1)) 512) (\<lambda>m2.
     bnd (idx_signed kt m2) (\<lambda>b3.
     let kidx = w32 b3 in
     fill (\<lambda>i kidx.
     bnd (signedMod (w64 kidx) 512) (\<lambda>m4.
     bnd (idx_signed kt m4) (\<lambda>c.
     let kidx = kidx + 3 in
     Ret (c, kidx)))) 0 len kidx)))"

lemma key_45752_total [key_totals]: "key_total key_45752"
  by (simp add: key_total_def key_45752_def recipe_safe Let_def case_prod_unfold)

definition key_46137 :: keyFunc where
  "key_46137 hdr kt len =
     bnd (idx kt 0) (\<lambda>b1.
     bnd (signedMod (w64 (n32 len * w32 b1)) 512) (\<lambda>m2.
     bnd (idx_signed kt m2) (\<lambda>b3.
     let kidx = w32 b3 in
     fill (\<lambda>i kidx.
     bnd (signedMod (w64 kidx) 512) (\<lambda>m4.
     bnd (idx_signed kt m4) (\<lambda>c.
     let kidx = kidx + 3 in
     Ret (c, kidx)))) 0 len kidx)))"

lemma key_46137_total [key_totals]: "key_total key_46137"
  by (simp add: key_total_def key_46137_def recipe_safe Let_def case_prod_unfold)

definition key_46510 :: keyFunc where
  "key_46510 hdr kt len =
     bnd (idx kt 0) (\<lambda>b1.
     bnd (signedMod (w64 (n32 len * w32 b1)) 512) (\<lambda>m2.
     bnd (idx_signed kt m2) (\<lambda>b3.
     let kidx = w32 b3 in
     fill (\<lambda>i kidx.
     bnd (signedMod (w64 kidx) 512) (\<lambda>m4.
     bnd (idx_signed kt m4) (\<lambda>c.
     bnd (signedMod (w64 kidx) 3) (\<lambda>m6.
     bnd (if m6 = 0 then Ret (kidx + 103)
       else if m6 = 1 then signedMod (w64 (4 * kidx)) (w64 (ch_BuildVersion hdr))
       else if m6 = 2 then Ret (kidx - 1)
       else Ret kidx) (\<lambda>kidx.
     Ret (c, kidx)))))) 0 len kidx)))"

lemma key_46510_total [key_totals]: "key_total key_46510"
  by (simp add: key_total_def key_46510_def recipe_safe Let_def case_prod_unfold)

definition key_46823 :: keyFunc where
  "key_46823 hdr kt len =
     (let kidx = n32 len * ch_BuildVersion hdr in
     fill (\<lambda>i kidx.
     bnd (signedMod (w64 kidx) 512) (\<lambda>m1.
     bnd (idx_signed kt m1) (\<lambda>c.
     let kidx = kidx + 3 in
     Ret (c, kidx)))) 0 len kidx)"

lemma key_46823_total [key_totals]: "key_total key_46823"
  by (simp add: key_total_def key_46823_def recipe_safe Let_def case_prod_unfold)

definition key_46836 :: keyFunc where
  "key_46836 hdr kt len =
     bnd (idx kt (ch_DataCount hdr AND 511)) (\<lambda>b1.
     let kidx = w32 b1 in
     let increment = kidx mod 61 in
     fill (\<lambda>i kidx.
     bnd (signedMod (w64 kidx) 512) (\<lambda>m2.
     bnd (idx_signed kt m2) (\<lambda>c.
     let kidx = kidx + increment in
     Ret (c, kidx)))) 0 len kidx)"

lemma key_46836_total [key_totals]: "key_total key_46836"
  by (simp add: key_total_def key_46836_def recipe_safe Let_def case_prod_unfold)

definition key_47161 :: keyFunc where
  "key_47161 hdr kt len =
     bnd (idx kt (ch_DataCount hdr AND 511)) (\<lambda>b1.
     let kidx = w32 b1 in
     fill (\<lambda>i kidx.
     bnd (signedMod (w64 kidx) 512) (\<lambda>m2.
     bnd (idx_signed kt m2) (\<lambda>c.
     let kidx = kidx - 57 in
     Ret (c, kidx)))) 0 len kidx)"

lemma key_47161_total [key_totals]: "key_total key_47161"
  by (simp add: key_total_def key_47161_def recipe_safe Let_def case_prod_unfold)

definition key_47452 :: keyFunc where
  "key_47452 hdr kt len =
     bnd (idx kt 0) (\<lambda>b1.
     bnd (signedMod (w64 (n32 len * w32 b1)) 512) (\<lambda>m2.
     bnd (idx_signed kt m2) (\<lambda>b3.
     let kidx = w32 b3 in
     let increment = kidx mod 61 in
     fill (\<lambda>i kidx.
     bnd (signedMod (w64 kidx) 512) (\<lambda>m4.
     bnd (idx_signed kt m4) (\<lambda>c.
     let kidx = kidx + increment in
     Ret (c, kidx)))) 0 len kidx)))"

lemma key_47452_total [key_totals]: "key_total key_47452"
  by (simp add: key_total_def key_47452_def recipe_safe Let_def case_prod_unfold)

definition key_47946 :: keyFunc where
  "key_47946 hdr kt len =
     bnd (idx kt (ch_DataCount hdr AND 511)) (\<lambda>b1.
     let kidx = w32 b1 in
     fill (\<lambda>i kidx.
     bnd (signedMod (w64 kidx) 512) (\<lambda>m2.
     bnd (idx_signed kt m2) (\<lambda>c.
     let kidx = ch_BuildVersion hdr - kidx in
     Ret (c, kidx)))) 0 len kidx)"

lemma key_47946_total [key_totals]: "key_total key_47946"
  by (simp add: key_total_def key_47946_def recipe_safe Let_def case_prod_unfold)

definition key_49154 :: keyFunc where
  "key_49154 hdr kt len =
     bnd (idx kt (n32 len + 256)) (\<lambda>b1.
     let kidx = w32 b1 in
     fill (\<lambda>i kidx.
     bnd (signedMod (w64 kidx) 512) (\<lambda>m2.
     bnd (idx_signed kt m2) (\<lambda>c.
     let kidx = kidx + 3 in
     Ret (c, kidx)))) 0 len kidx)"

lemma key_49154_total [key_totals]: "key_total key_49154"
  by (simp add: key_total_def key_49154_def recipe_safe Let_def case_prod_unfold)

definition key_49656 :: keyFunc where
  "key_49656 hdr kt len =
     bnd (idx kt (ch_DataCount hdr AND 511)) (\<lambda>b1.
     let kidx = w32 b1 in
     fill (\<lambda>i kidx.
     bnd (signedMod (w64 kidx) 512) (\<lambda>m2.
     bnd (idx_signed kt m2) (\<lambda>c.
     bnd (signedMod (w64 kidx) 3) (\<lambda>m4.
     bnd (if m4 = 0 then Ret (kidx + 103)
       else if m4 = 1 then signedMod (w64 (4 * kidx)) (w64 (ch_BuildVersion hdr))
       else if m4 = 2 then Ret (kidx - 1)
       else Ret kidx) (\<lambda>kidx.
     Ret (c, kidx)))))) 0 len kidx)"

lemma key_49656_total [key_totals]: "key_total key_49656"
  by (simp add: key_total_def key_49656_def recipe_safe Let_def case_prod_unfold)

definition key_50148 :: keyFunc where
  "key_50148 hdr kt len =
     (let kidx = n32 len * ch_BuildVersion hdr in
     fill (\<lambda>i kidx.
     bnd (signedMod (w64 kidx) 512) (\<lambda>m1.
     bnd (idx_signed kt m1) (\<lambda>c.
     let kidx = kidx + 3 in
     Ret (c, kidx)))) 0 len kidx)"

lemma key_50148_total [key_totals]: "key_total key_50148"
  by (simp add: key_total_def key_50148_def recipe_safe Let_def case_prod_unfold)

definition key_50483 :: keyFunc where
  "key_50483 hdr kt len =
     (let kidx = ch_BuildVersion hdr * n32 len in
     let increment = kidx mod 61 in
     fill (\<lambda>i kidx.
     bnd (signedMod (w64 kidx) 512) (\<lambda>m1.
     bnd (idx_signed kt m1) (\<lambda>c.
     let kidx = kidx + increment in
     Ret (c, kidx)))) 0 len kidx)"

lemma key_50483_total [key_totals]: "key_total key_50483"
  by (simp add: key_total_def key_50483_def recipe_safe Let_def case_prod_unfold)

definition key_51575 :: keyFunc where
  "key_51575 hdr kt len =
     bnd (idx kt (ch_BuildVersion hdr AND 511)) (\<lambda>b1.
     let kidx = w32 b1 in
     let increment = kidx mod 61 in
     fill (\<lambda>i kidx.
     bnd (signedMod (w64 kidx) 512) (\<lambda>m2.
     bnd (idx_signed kt m2) (\<lambda>c.
     let kidx = kidx + increment in
     Ret (c, kidx)))) 0 len kidx)"

lemma key_51575_total [key_totals]: "key_total key_51575"
  by (simp add: key_total_def key_51575_def recipe_safe Let_def case_prod_unfold)

definition key_51948 :: keyFunc where
  "key_51948 hdr kt len =
     (let kidx = ch_BuildVersion hdr * n32 len in
     fill (\<lambda>i kidx.
     bnd (signedMod (w64 kidx) 512) (\<lambda>m1.
     bnd (idx_signed kt m1) (\<lambda>c.
     let kidx = kidx + ch_EntryCount hdr in
     Ret (c, kidx)))) 0 len kidx)"

lemma key_51948_total [key_totals]: "key_total key_51948"
  by (simp add: key_total_def key_51948_def recipe_safe Let_def case_prod_unfold)

definition key_52717 :: keyFunc where
  "key_52717 hdr kt len =
     bnd (idx kt 0) (\<lambda>b1.
     bnd (signedMod (w64 (n32 len * w32 b1)) 512) (\<lambda>m2.
     bnd (idx_signed kt m2) (\<lambda>b3.
     let kidx = w32 b3 in
     fill (\<lambda>i kidx.
     bnd (signedMod (w64 kidx) 512) (\<lambda>m4.
     bnd (idx_signed kt m4) (\<lambda>c.
     let kidx = kidx + 3 in
     Ret (c, kidx)))) 0 len kidx)))"

lemma key_52717_total [key_totals]: "key_total key_52717"
  by (simp add: key_total_def key_52717_def recipe_safe Let_def case_prod_unfold)

definition key_52926 :: keyFunc where
  "key_52926 hdr kt len =
     bnd (idx kt (ch_DataCount hdr AND 511)) (\<lambda>b1.
     let kidx = w32 b1 in
     let increment = kidx mod 61 in
     fill (\<lambda>i kidx.
     bnd (signedMod (w64 kidx) 512) (\<lambda>m2.
     bnd (idx_signed kt m2) (\<lambda>c.
     let kidx = kidx + increment in
     Ret (c, kidx)))) 0 len kidx)"

lemma key_52926_total [key_totals]: "key_total key_52926"
  by (simp add: key_total_def key_52926_def recipe_safe Let_def case_prod_unfold)

definition key_53537 :: keyFunc where
  "key_53537 hdr kt len =
     bnd (idx kt 0) (\<lambda>b1.
     bnd (signedMod (w64 (n32 len * w32 b1)) 512) (\<lambda>m2.
     bnd (idx_signed kt m2) (\<lambda>b3.
     let kidx = w32 b3 in
     fill (\<lambda>i kidx.
     bnd (signedMod (w64 kidx) 512) (\<lambda>m4.
     bnd (idx_signed kt m4) (\<lambda>c.
     let kidx = kidx + ch_EntryCount hdr in
     Ret (c, kidx)))) 0 len kidx)))"

lemma key_53537_total [key_totals]: "key_total key_53537"
  by (simp add: key_total_def key_53537_def recipe_safe Let_def case_prod_unfold)

definition key_54011 :: keyFunc where
  "key_54011 hdr kt len =
     bnd (idx kt (ch_DataCount hdr AND 511)) (\<lambda>b1.
     let kidx = w32 b1 in
     let increment = kidx mod 61 in
     fill (\<lambda>i kidx.
     bnd (signedMod (w64 kidx) 512) (\<lambda>m2.
     bnd (idx_signed kt m2) (\<lambda>c.
     let kidx = kidx + increment in
     Ret (c, kidx)))) 0 len kidx)"

lemma key_54011_total [key_totals]: "key_total key_54011"
  by (simp add: key_total_def key_54011_def recipe_safe Let_def case_prod_unfold)

definition key_54052 :: keyFunc where
  "key_54052 hdr kt len =
     bnd (idx kt 0) (\<lambda>b1.
     bnd (signedMod (w64 (n32 len * w32 b1)) 512) (\<lambda>m2.
     bnd (idx_signed kt m2) (\<lambda>b3.
     let kidx = w32 b3 in
     fill (\<lambda>i kidx.
     bnd (signedMod (w64 kidx) 512) (\<lambda>m4.
     bnd (idx_signed kt m4) (\<lambda>c.
     bnd (signedMod (w64 kidx) 3) (\<lambda>m6.
     bnd (if m6 = 0 then Ret (kidx + 103)
       else if m6 = 1 then signedMod (w64 (4 * kidx)) (w64 (ch_BuildVersion hdr))
       else if m6 = 2 then Ret (kidx - 1)
       else Ret kidx) (\<lambda>kidx.
     Ret (c, kidx)))))) 0 len kidx)))"

lemma key_54052_total [key_totals]: "key_total key_54052"
  by (simp add: key_total_def key_54052_def recipe_safe Let_def case_prod_unfold)

definition key_54255 :: keyFunc where
  "key_54255 hdr kt len =
     bnd (idx kt (ch_BuildVersion hdr AND 511)) (\<lambda>b1.
     let kidx = w32 b1 in
     fill (\<lambda>i kidx.
     bnd (signedMod (w64 kidx) 512) (\<lambda>m2.
     bnd (idx_signed kt m2) (\<lambda>c.
     bnd (signedMod (w64 kidx) 3) (\<lambda>m4.
     bnd (if m4 = 0 then Ret (kidx + 103)
       else if m4 = 1 then signedMod (w64 (4 * kidx)) (w64 (ch_BuildVersion hdr))
       else if m4 = 2 then Ret (kidx - 1)
       else Ret kidx) (\<lambda>kidx.
     Ret (c, kidx)))))) 0 len kidx)"

lemma key_54255_total [key_totals]: "key_total key_54255"
  by (simp add: key_total_def key_54255_def recipe_safe Let_def case_prod_unfold)

definition key_54983 :: keyFunc where
  "key_54983 hdr kt len =
     (let kidx = ch_BuildVersion hdr * n32 len in
     fill (\<lambda>i kidx.
     bnd (signedMod (w64 kidx) 512) (\<lambda>m1.
     bnd (idx_signed kt m1) (\<lambda>c.
     bnd (signedMod (w64 kidx) 3) (\<lambda>m3.
     bnd (if m3 = 0 then Ret (kidx + 103)
       else if m3 = 1 then signedMod (w64 (4 * kidx)) (w64 (ch_BuildVersion hdr))
       else if m3 = 2 then Ret (kidx - 1)
       else Ret kidx) (\<lambda>kidx.
     Ret (c, kidx)))))) 0 len kidx)"

lemma key_54983_total [key_totals]: "key_total key_54983"
  by (simp add: key_total_def key_54983_def recipe_safe Let_def case_prod_unfold)

definition key_55290 :: keyFunc where
  "key_55290 hdr kt len =
     bnd (idx kt (ch_BuildVersion hdr AND 511)) (\<lambda>b1.
     let kidx = w32 b1 in
     let increment = (ch_BuildVersion hdr * ch_DataCount hdr) mod 7 in
     fill (\<lambda>i kidx.
     bnd (signedMod (w64 kidx) 512) (\<lambda>m2.
     bnd (idx_signed kt m2) (\<lambda>c.
     let kidx = kidx + increment in
     Ret (c, kidx)))) 0 len kidx)"

lemma key_55290_total [key_totals]: "key_total key_55290"
  by (simp add: key_total_def key_55290_def recipe_safe Let_def case_prod_unfold)

definition key_55918 :: keyFunc where
  "key_55918 hdr kt len =
     (let kidx = ch_BuildVersion hdr * n32 len in
     fill (\<lambda>i kidx.
     bnd (signedMod (w64 kidx) 512) (\<lambda>m1.
     bnd (idx_signed kt m1) (\<lambda>c.
     let kidx = kidx - 0x6E in
     Ret (c, kidx)))) 0 len kidx)"

lemma key_55918_total [key_totals]: "key_total key_55918"
  by (simp add: key_total_def key_55918_def recipe_safe Let_def case_prod_unfold)

definition key_56957 :: keyFunc where
  "key_56957 hdr kt len =
     bnd (idx kt 0) (\<lambda>b1.
     bnd (signedMod (w64 (n32 len * w32 b1)) 512) (\<lambda>m2.
     bnd (idx_signed kt m2) (\<lambda>b3.
     let kidx = w32 b3 in
     fill (\<lambda>i kidx.
     bnd (signedMod (w64 kidx) 512) (\<lambda>m4.
     bnd (idx_signed kt m4) (\<lambda>c.
     bnd (signedMod (w64 kidx) 3) (\<lambda>m6.
     bnd (if m6 = 0 then Ret (kidx + 103)
       else if m6 = 1 then signedMod (w64 (4 * kidx)) (w64 (ch_BuildVersion hdr))
       else if m6 = 2 then Ret (kidx - 1)
       else Ret kidx) (\<lambda>kidx.
     Ret (c, kidx)))))) 0 len kidx)))"

lemma key_56957_total [key_totals]: "key_total key_56957"
  by (simp add: key_total_def key_56957_def recipe_safe Let_def case_prod_unfold)

definition key_57230 :: keyFunc where
  "key_57230 hdr kt len =
     bnd (idx kt 398) (\<lambda>b1.
     let kidx = w32 b1 in
     fill (\<lambda>i kidx.
     bnd (signedMod (w64 kidx) 512) (\<lambda>m2.
     bnd (idx_signed kt m2) (\<lambda>c.
     bnd (signedMod (w64 kidx) 3) (\<lambda>m4.
     bnd (if m4 = 0 then Ret (kidx + 103)
       else if m4 = 1 then signedMod (w64 (4 * kidx)) (w64 (ch_BuildVersion hdr))
       else if m4 = 2 then Ret (kidx - 1)
       else Ret kidx) (\<lambda>kidx.
     Ret (c, kidx)))))) 0 len kidx)"

lemma key_57230_total [key_totals]: "key_total key_57230"
  by (simp add: key_total_def key_57230_def recipe_safe Let_def case_prod_unfold)

definition key_57796 :: keyFunc where
  "key_57796 hdr kt len =
     bnd (idx kt (ch_DataCount hdr AND 511)) (\<lambda>b1.
     let kidx = w32 b1 in
     fill (\<lambda>i kidx.
     bnd (signedMod (w64 kidx) 512) (\<lambda>m2.
     bnd (idx_signed kt m2) (\<lambda>c.
     let kidx = kidx + ((ch_BuildVersion hdr * ch_DataCount hdr) mod 7) in
     Ret (c, kidx)))) 0 len kidx)"

lemma key_57796_total [key_totals]: "key_total key_57796"
  by (simp add: key_total_def key_57796_def recipe_safe Let_def case_prod_unfold)

definition key_57979 :: keyFunc where
  "key_57979 hdr kt len =
     bnd (idx kt (n32 len + 256)) (\<lambda>b1.
     let kidx = w32 b1 in
     fill (\<lambda>i kidx.
     bnd (signedMod (w64 kidx) 512) (\<lambda>m2.
     bnd (idx_signed kt m2) (\<lambda>c.
     bnd (signedMod (w64 kidx) 3) (\<lambda>m4.
     bnd (if m4 = 0 then Ret (kidx + 103)
       else if m4 = 1 then rem32 (4 * kidx) (ch_BuildVersion hdr)
       else if m4 = 2 then Ret (kidx - 1)
       else Ret kidx) (\<lambda>kidx.
     Ret (c, kidx)))))) 0 len kidx)"

lemma key_57979_total [key_totals]: "key_total key_57979"
  by (simp add: key_total_def key_57979_def recipe_safe Let_def case_prod_unfold)

definition key_58155 :: keyFunc where
  "key_58155 hdr kt len =
     bnd (idx kt (ch_BuildVersion hdr AND 511)) (\<lambda>b1.
     let kidx = w32 b1 in
     let increment = kidx mod 61 in
     fill (\<lambda>i kidx.
     bnd (signedMod (w64 kidx) 512) (\<lambda>m2.
     bnd (idx_signed kt m2) (\<lambda>c.
     let kidx = kidx + increment in
     Ret (c, kidx)))) 0 len kidx)"

lemma key_58155_total [key_totals]: "key_total key_58155"
  by (simp add: key_total_def key_58155_def recipe_safe Let_def case_prod_unfold)

definition key_58625 :: keyFunc where
  "key_58625 hdr kt len =
     bnd (idx kt (ch_BuildVersion hdr AND 511)) (\<lambda>b1.
     let kidx = w32 b1 in
     fill (\<lambda>i kidx.
     bnd (signedMod (w64 kidx) 512) (\<lambda>m2.
     bnd (idx_signed kt m2) (\<lambda>c.
     let kidx = kidx + 3 in
     Ret (c, kidx)))) 0 len kidx)"

lemma key_58625_total [key_totals]: "key_total key_58625"
  by (simp add: key_total_def key_58625_def recipe_safe Let_def case_prod_unfold)

definition key_59008 :: keyFunc where
  "key_59008 hdr kt len =
     (let kidx = ch_BuildVersion hdr * n32 len in
     fill (\<lambda>i kidx.
     bnd (signedMod (w64 kidx) 512) (\<lambda>m1.
     bnd (idx_signed kt m1) (\<lambda>c.
     bnd (signedMod (w64 kidx) 3) (\<lambda>m3.
     bnd (if m3 = 0 then Ret (kidx + 103)
       else if m3 = 1 then signedMod (w64 (4 * kidx)) (w64 (ch_BuildVersion hdr))
       else if m3 = 2 then Ret (kidx - 1)
       else Ret kidx) (\<lambda>kidx.
     Ret (c, kidx)))))) 0 len kidx)"

lemma key_59008_total [key_totals]: "key_total key_59008"
  by (simp add: key_total_def key_59008_def recipe_safe Let_def case_prod_unfold)

definition key_59573 :: keyFunc where
  "key_59573 hdr kt len =
     (let kidx = ch_BuildVersion hdr * n32 len in
     fill (\<lambda>i kidx.
     bnd (signedMod (w64 kidx) 512) (\<lambda>m1.
     bnd (idx_signed kt m1) (\<lambda>c.
     let kidx = ch_BuildVersion hdr - kidx in
     Ret (c, kidx)))) 0 len kidx)"

lemma key_59573_total [key_totals]: "key_total key_59573"
  by (simp add: key_total_def key_59573_def recipe_safe Let_def case_prod_unfold)

definition key_60038 :: keyFunc where
  "key_60038 hdr kt len =
     (let kidx = ch_BuildVersion hdr * n32 len in
     let increment = kidx mod 61 in
     fill (\<lambda>i kidx.
     bnd (signedMod (w64 kidx) 512) (\<lambda>m1.
     bnd (idx_signed kt m1) (\<lambda>c.
     let kidx = kidx + increment in
     Ret (c, kidx)))) 0 len kidx)"

lemma key_60038_total [key_totals]: "key_total key_60038"
  by (simp add: key_total_def key_60038_def recipe_safe Let_def case_prod_unfold)

definition key_60360 :: keyFunc where
  "key_60360 hdr kt len =
     bnd (idx kt (ch_BuildVersion hdr AND 511)) (\<lambda>b1.
     let kidx = w32 b1 in
     let increment = kidx mod 61 in
     fill (\<lambda>i kidx.
     bnd (signedMod (w64 kidx) 512) (\<lambda>m2.
     bnd (idx_signed kt m2) (\<lambda>c.
     let kidx = kidx + increment in
     Ret (c, kidx)))) 0 len kidx)"

lemma key_60360_total [key_totals]: "key_total key_60360"
  by (simp add: key_total_def key_60360_def recipe_safe Let_def case_prod_unfold)

definition key_60547 :: keyFunc where
  "key_60547 hdr kt len =
     bnd (idx kt 0) (\<lambda>b1.
     bnd (signedMod (w64 (n32 len * w32 b1)) 512) (\<lambda>m2.
     bnd (idx_signed kt m2) (\<lambda>b3.
     let kidx = w32 b3 in
     fill (\<lambda>i kidx.
     bnd (signedMod (w64 kidx) 512) (\<lambda>m4.
     bnd (idx_signed kt m4) (\<lambda>c.
     let kidx = kidx + ((ch_BuildVersion hdr * ch_DataCount hdr) mod 7) in
     Ret (c, kidx)))) 0 len kidx)))"

lemma key_60547_total [key_totals]: "key_total key_60547"
  by (simp add: key_total_def key_60547_def recipe_safe Let_def case_prod_unfold)

definition key_60993 :: keyFunc where
  "key_60993 hdr kt len =
     (let kidx = n32 len in
     fill (\<lambda>i kidx.
     bnd (signedMod (w64 kidx) 512) (\<lambda>m1.
     bnd (idx_signed kt m1) (\<lambda>c.
     let kidx = kidx - (ch_BuildVersion hdr AND 511) in
     Ret (c, kidx)))) 0 len kidx)"

lemma key_60993_total [key_totals]: "key_total key_60993"
  by (simp add: key_total_def key_60993_def recipe_safe Let_def case_prod_unfold)

definition key_61542 :: keyFunc where
  "key_61542 hdr kt len =
     bnd (idx kt 0) (\<lambda>b1.
     bnd (signedMod (w64 (n32 len * w32 b1)) 512) (\<lambda>m2.
     bnd (idx_signed kt m2) (\<lambda>b3.
     let kidx = w32 b3 in
     fill (\<lambda>i kidx.
     bnd (signedMod (w64 kidx) 512) (\<lambda>m4.
     bnd (idx_signed kt m4) (\<lambda>c.
     bnd (signedMod (w64 kidx) 3) (\<lambda>m6.
     bnd (if m6 = 0 then Ret (kidx + 103)
       else if m6 = 1 then signedMod (w64 (kidx * 4)) (w64 (ch_BuildVersion hdr))
       else if m6 = 2 then Ret (kidx - 1)
       else Ret kidx) (\<lambda>kidx.
     Ret (c, kidx)))))) 0 len kidx)))"

lemma key_61542_total [key_totals]: "key_total key_61542"
  by (simp add: key_total_def key_61542_def recipe_safe Let_def case_prod_unfold)

definition key_62065 :: keyFunc where
  "key_62065 hdr kt len =
     bnd (idx kt (ch_BuildVersion hdr AND 511)) (\<lambda>b1.
     let kidx = w32 b1 in
     fill (\<lambda>i kidx.
     bnd (signedMod (w64 kidx) 512) (\<lambda>m2.
     bnd (idx_signed kt m2) (\<lambda>c.
     let kidx = ch_BuildVersion hdr - kidx in
     Ret (c, kidx)))) 0 len kidx)"

lemma key_62065_total [key_totals]: "key_total key_62065"
  by (simp add: key_total_def key_62065_def recipe_safe Let_def case_prod_unfold)

definition key_62591 :: keyFunc where
  "key_62591 hdr kt len =
     bnd (idx kt (ch_DataCount hdr AND 511)) (\<lambda>b1.
     let kidx = w32 b1 in
     fill (\<lambda>i kidx.
     bnd (signedMod (w64 kidx) 512) (\<lambda>m2.
     bnd (idx_signed kt m2) (\<lambda>c.
     let kidx = kidx + ((ch_BuildVersion hdr * ch_DataCount hdr) mod 7) in
     Ret (c, kidx)))) 0 len kidx)"

lemma key_62591_total [key_totals]: "key_total key_62591"
  by (simp add: key_total_def key_62591_def recipe_safe Let_def case_prod_unfold)

definition key_62906 :: keyFunc where
  "key_62906 hdr kt len =
     bnd (idx kt (ch_DataCount hdr AND 511)) (\<lambda>b1.
     let kidx = w32 b1 in
     fill (\<lambda>i kidx.
     bnd (signedMod (w64 kidx) 512) (\<lambda>m2.
     bnd (idx_signed kt m2) (\<lambda>c.
     let kidx = kidx + ((ch_BuildVersion hdr * ch_DataCount hdr) mod 7) in
     Ret (c, kidx)))) 0 len kidx)"

lemma key_62906_total [key_totals]: "key_total key_62906"
  by (simp add: key_total_def key_62906_def recipe_safe Let_def case_prod_unfold)

definition key_63372 :: keyFunc where
  "key_63372 hdr kt len =
     bnd (idx kt 0) (\<lambda>b1.
     bnd (signedMod (w64 (n32 len * w32 b1)) 512) (\<lambda>m2.
     bnd (idx_signed kt m2) (\<lambda>b3.
     let kidx = w32 b3 in
     fill (\<lambda>i kidx.
     bnd (signedMod (w64 kidx) 512) (\<lambda>m4.
     bnd (idx_signed kt m4) (\<lambda>c.
     let kidx = kidx + ch_EntryCount hdr in
     Ret (c, kidx)))) 0 len kidx)))"

lemma key_63372_total [key_totals]: "key_total key_63372"
  by (simp add: key_total_def key_63372_def recipe_safe Let_def case_prod_unfold)

definition key_63568 :: keyFunc where
  "key_63568 hdr kt len =
     (let kidx = ch_BuildVersion hdr * n32 len in
     fill (\<lambda>i kidx.
     bnd (signedMod (w64 kidx) 512) (\<lambda>m1.
     bnd (idx_signed kt m1) (\<lambda>c.
     let kidx = kidx + ch_EntryCount hdr in
     Ret (c, kidx)))) 0 len kidx)"

lemma key_63568_total [key_totals]: "key_total key_63568"
  by (simp add: key_total_def key_63568_def recipe_safe Let_def case_prod_unfold)

definition key_63778 :: keyFunc where
  "key_63778 hdr kt len =
     (let kidx = ch_BuildVersion hdr * n32 len in
     fill (\<lambda>i kidx.
     bnd (signedMod (w64 kidx) 512) (\<lambda>m1.
     bnd (idx_signed kt m1) (\<lambda>c.
     let kidx = kidx + ch_EntryCount hdr in
     Ret (c, kidx)))) 0 len kidx)"

lemma key_63778_total [key_totals]: "key_total key_63778"
  by (simp add: key_total_def key_63778_def recipe_safe Let_def case_prod_unfold)

definition key_63869 :: keyFunc where
  "key_63869 hdr kt len =
     bnd (idx kt (n32 len + 256)) (\<lambda>b1.
     let kidx = w32 b1 in
     fill (\<lambda>i kidx.
     bnd (signedMod (w64 kidx) 512) (\<lambda>m2.
     bnd (idx_signed kt m2) (\<lambda>c.
     let kidx = kidx + ch_EntryCount hdr in
     Ret (c, kidx)))) 0 len kidx)"

lemma key_63869_total [key_totals]: "key_total key_63869"
  by (simp add: key_total_def key_63869_def recipe_safe Let_def case_prod_unfold)

definition key_64346 :: keyFunc where
  "key_64346 hdr kt len =
     bnd (idx kt (ch_DataCount hdr AND 511)) (\<lambda>b1.
     let kidx = w32 b1 in
     fill (\<lambda>i kidx.
     bnd (signedMod (w64 kidx) 512) (\<lambda>m2.
     bnd (idx_signed kt m2) (\<lambda>c.
     let kidx = kidx - (ch_BuildVersion hdr AND 511) in
     Ret (c, kidx)))) 0 len kidx)"

lemma key_64346_total [key_totals]: "key_total key_64346"
  by (simp add: key_total_def key_64346_def recipe_safe Let_def case_prod_unfold)

definition key_64719 :: keyFunc where
  "key_64719 hdr kt len =
     bnd (idx kt (n32 len + 256)) (\<lambda>b1.
     let kidx = w32 b1 in
     fill (\<lambda>i kidx.
     bnd (signedMod (w64 kidx) 512) (\<lambda>m2.
     bnd (idx_signed kt m2) (\<lambda>c.
     let kidx = kidx + ((ch_BuildVersion hdr * ch_DataCount hdr) mod 7) in
     Ret (c, kidx)))) 0 len kidx)"

lemma key_64719_total [key_totals]: "key_total key_64719"
  by (simp add: key_total_def key_64719_def recipe_safe Let_def case_prod_unfold)

definition key_65302 :: keyFunc where
  "key_65302 hdr kt len =
     bnd (idx kt 0) (\<lambda>b1.
     bnd (signedMod (w64 (n32 len * w32 b1)) 512) (\<lambda>m2.
     bnd (idx_signed kt m2) (\<lambda>b3.
     let okidx = w32 b3 in
     let kidx = okidx in
     fill (\<lambda>i kidx.
     bnd (signedMod (w64 kidx) 512) (\<lambda>m4.
     bnd (idx_signed kt m4) (\<lambda>c.
     bnd (signedMod (w64 okidx) 61) (\<lambda>m6.
     let kidx = kidx + m6 in
     Ret (c, kidx))))) 0 len kidx)))"

lemma key_65302_total [key_totals]: "key_total key_65302"
  by (simp add: key_total_def key_65302_def recipe_safe Let_def case_prod_unfold)

definition key_65513 :: keyFunc where
  "key_65513 hdr kt len =
     (let kidx = ch_BuildVersion hdr * n32 len in
     fill (\<lambda>i kidx.
     bnd (signedMod (w64 kidx) 512) (\<lambda>m1.
     bnd (idx_signed kt m1) (\<lambda>c.
     let kidx = kidx + 3 in
     Ret (c, kidx)))) 0 len kidx)"

lemma key_65513_total [key_totals]: "key_total key_65513"
  by (simp add: key_total_def key_65513_def recipe_safe Let_def case_prod_unfold)

definition key_66302 :: keyFunc where
  "key_66302 hdr kt len =
     bnd (signedMod (w64 (ch_BuildVersion hdr * n32 len)) 512) (\<lambda>m1.
     bnd (idx_signed kt m1) (\<lambda>b2.
     let okidx = w32 b2 in
     let kidx = okidx in
     fill (\<lambda>i kidx.
     bnd (signedMod (w64 kidx) 512) (\<lambda>m3.
     bnd (idx_signed kt m3) (\<lambda>c.
     bnd (signedMod (w64 kidx) 3) (\<lambda>m5.
     bnd (if m5 = 0 then Ret (kidx + 103)
       else if m5 = 1 then signedMod (w64 (kidx * 4)) (w64 (ch_BuildVersion hdr))
       else if m5 = 2 then Ret (kidx - 1)
       else Ret kidx) (\<lambda>kidx.
     Ret (c, kidx)))))) 0 len kidx))"

lemma key_66302_total [key_totals]: "key_total key_66302"
  by (simp add: key_total_def key_66302_def recipe_safe Let_def case_prod_unfold)

definition key_66607 :: keyFunc where
  "key_66607 hdr kt len =
     bnd (idx kt 0) (\<lambda>b1.
     bnd (signedMod (w64 (n32 len * w32 b1)) 512) (\<lambda>m2.
     bnd (idx_signed kt m2) (\<lambda>b3.
     let okidx = w32 b3 in
     let kidx = okidx in
     fill (\<lambda>i kidx.
     bnd (signedMod (w64 kidx) 512) (\<lambda>m4.
     bnd (idx_signed kt m4) (\<lambda>c.
     let kidx = kidx - (ch_BuildVersion hdr AND 511) in
     Ret (c, kidx)))) 0 len kidx)))"

lemma key_66607_total [key_totals]: "key_total key_66607"
  by (simp add: key_total_def key_66607_def recipe_safe Let_def case_prod_unfold)

definition key_67071 :: keyFunc where
  "key_67071 hdr kt len =
     bnd (idx kt (ch_DataCount hdr AND 511)) (\<lambda>b1.
     let okidx = w32 b1 in
     let kidx = okidx in
     fill (\<lambda>i kidx.
     bnd (signedMod (w64 kidx) 512) (\<lambda>m2.
     bnd (idx_signed kt m2) (\<lambda>c.
     let kidx = kidx + ((ch_BuildVersion hdr * ch_DataCount hdr) mod 7) in
     Ret (c, kidx)))) 0 len kidx)"

lemma key_67071_total [key_totals]: "key_total key_67071"
  by (simp add: key_total_def key_67071_def recipe_safe Let_def case_prod_unfold)

definition key_67664 :: keyFunc where
  "key_67664 hdr kt len =
     bnd (idx kt (n32 len + 256)) (\<lambda>b1.
     let kidx = w32 b1 in
     fill (\<lambda>i kidx.
     bnd (signedMod (w64 kidx) 512) (\<lambda>m2.
     bnd (idx_signed kt m2) (\<lambda>c.
     let kidx = kidx - (ch_BuildVersion hdr AND 511) in
     Ret (c, kidx)))) 0 len kidx)"

lemma key_67664_total [key_totals]: "key_total key_67664"
  by (simp add: key_total_def key_67664_def recipe_safe Let_def case_prod_unfold)

definition key_68126 :: keyFunc where
  "key_68126 hdr kt len =
     bnd (idx kt (ch_DataCount hdr AND 511)) (\<lambda>b1.
     let okidx = w32 b1 in
     let kidx = okidx in
     fill (\<lambda>i kidx.
     bnd (signedMod (w64 kidx) 512) (\<lambda>m2.
     bnd (idx_signed kt m2) (\<lambda>c.
     let kidx = kidx - (ch_BuildVersion hdr AND 511) in
     Ret (c, kidx)))) 0 len kidx)"

lemma key_68126_total [key_totals]: "key_total key_68126"
  by (simp add: key_total_def key_68126_def recipe_safe Let_def case_prod_unfold)

definition key_68780 :: keyFunc where
  "key_68780 hdr kt len =
     bnd (idx kt (ch_BuildVersion hdr AND 511)) (\<lambda>b1.
     let okidx = w32 b1 in
     let kidx = okidx in
     fill (\<lambda>i kidx.
     bnd (signedMod (w64 kidx) 512) (\<lambda>m2.
     bnd (idx_signed kt m2) (\<lambda>c.
     bnd (signedMod (w64 kidx) 3) (\<lambda>m4.
     bnd (if m4 = 0 then Ret (kidx + 103)
       else if m4 = 1 then signedMod (w64 (kidx * 4)) (w64 (ch_BuildVersion hdr))
       else if m4 = 2 then Ret (kidx - 1)
       else Ret kidx) (\<lambda>kidx.
     Ret (c, kidx)))))) 0 len kidx)"

lemma key_68780_total [key_totals]: "key_total key_68780"
  by (simp add: key_total_def key_68780_def recipe_safe Let_def case_prod_unfold)

definition key_69340 :: keyFunc where
  "key_69340 hdr kt len =
     bnd (idx kt (ch_BuildVersion hdr AND 511)) (\<lambda>b1.
     let okidx = w32 b1 in
     let kidx = okidx in
     fill (\<lambda>i kidx.
     bnd (signedMod (w64 kidx) 512) (\<lambda>m2.
     bnd (idx_signed kt m2) (\<lambda>c.
     bnd (signedMod (w64 kidx) 3) (\<lambda>m4.
     bnd (if m4 = 0 then Ret (kidx + 103)
       else if m4 = 1 then signedMod (w64 (kidx * 4)) (w64 (ch_BuildVersion hdr))
       else if m4 = 2 then Ret (kidx - 1)
       else Ret kidx) (\<lambda>kidx.
     Ret (c, kidx)))))) 0 len kidx)"

lemma key_69340_total [key_totals]: "key_total key_69340"
  by (simp add: key_total_def key_69340_def recipe_safe Let_def case_prod_unfold)

definition key_69939 :: keyFunc where
  "key_69939 hdr kt len =
     bnd (idx kt (n32 len + 256)) (\<lambda>b1.
     let okidx = w32 b1 in
     let kidx = okidx in
     fill (\<lambda>i kidx.
     bnd (signedMod (w64 kidx) 512) (\<lambda>m2.
     bnd (idx_signed kt m2) (\<lambda>c.
     let kidx = kidx - (ch_BuildVersion hdr AND 511) in
     Ret (c, kidx)))) 0 len kidx)"

lemma key_69939_total [key_totals]: "key_total key_69939"
  by (simp add: key_total_def key_69939_def recipe_safe Let_def case_prod_unfold)

definition key_70250 :: keyFunc where
  "key_70250 hdr kt len =
     bnd (idx kt (ch_BuildVersion hdr AND 511)) (\<lambda>b1.
     let okidx = w32 b1 in
     let kidx = okidx in
     fill (\<lambda>i kidx.
     bnd (signedMod (w64 kidx) 512) (\<lambda>m2.
     bnd (idx_signed kt m2) (\<lambda>c.
     bnd (signedMod (w64 kidx) 3) (\<lambda>m4.
     bnd (if m4 = 0 then Ret (kidx + 103)
       else if m4 = 1 then signedMod (w64 (kidx * 4)) (w64 (ch_BuildVersion hdr))
       else if m4 = 2 then Ret (kidx - 1)
       else Ret kidx) (\<lambda>kidx.
     Ret (c, kidx)))))) 0 len kidx)"

lemma key_70250_total [key_totals]: "key_total key_70250"
  by (simp add: key_total_def key_70250_def recipe_safe Let_def case_prod_unfold)

definition key_70665 :: keyFunc where
  "key_70665 hdr kt len =
     bnd (idx kt (ch_BuildVersion hdr AND 511)) (\<lambda>b1.
     let okidx = w32 b1 in
     let kidx = okidx in
     fill (\<lambda>i kidx.
     bnd (signedMod (w64 kidx) 512) (\<lambda>m2.
     bnd (idx_signed kt m2) (\<lambda>c.
     let kidx = kidx + 3 in
     Ret (c, kidx)))) 0 len kidx)"

lemma key_70665_total [key_totals]: "key_total key_70665"
  by (simp add: key_total_def key_70665_def recipe_safe Let_def case_prod_unfold)

definition key_71213 :: keyFunc where
  "key_71213 hdr kt len =
     (let kidx = n32 len * ch_BuildVersion hdr in
     fill (\<lambda>i kidx.
     bnd (signedMod (w64 kidx) 512) (\<lambda>m1.
     bnd (idx_signed kt m1) (\<lambda>c.
     let kidx = kidx - (ch_BuildVersion hdr AND 511) in
     Ret (c, kidx)))) 0 len kidx)"

lemma key_71213_total [key_totals]: "key_total key_71213"
  by (simp add: key_total_def key_71213_def recipe_safe Let_def case_prod_unfold)

definition key_71620 :: keyFunc where
  "key_71620 hdr kt len =
     bnd (idx kt (ch_BuildVersion hdr AND 511)) (\<lambda>b1.
     let okidx = w32 b1 in
     let kidx = okidx in
     fill (\<lambda>i kidx.
     bnd (signedMod (w64 kidx) 512) (\<lambda>m2.
     bnd (idx_signed kt m2) (\<lambda>c.
     let kidx = ch_BuildVersion hdr - kidx in
     Ret (c, kidx)))) 0 len kidx)"

lemma key_71620_total [key_totals]: "key_total key_71620"
  by (simp add: key_total_def key_71620_def recipe_safe Let_def case_prod_unfold)

definition key_72127 :: keyFunc where
  "key_72127 hdr kt len =
     bnd (idx kt 0) (\<lambda>b1.
     bnd (idx kt ((n32 len * w32 b1) AND 511)) (\<lambda>b2.
     let okidx = w32 b2 in
     let kidx = okidx in
     fill (\<lambda>i kidx.
     bnd (signedMod (w64 kidx) 512) (\<lambda>m3.
     bnd (idx_signed kt m3) (\<lambda>c.
     let kidx = kidx + (okidx mod 61) in
     Ret (c, kidx)))) 0 len kidx))"

lemma key_72127_total [key_totals]: "key_total key_72127"
  by (simp add: key_total_def key_72127_def recipe_safe Let_def case_prod_unfold)

definition key_73258 :: keyFunc where
  "key_73258 hdr kt len =
     (let okidx = n32 len * ch_BuildVersion hdr in
     let kidx = okidx in
     fill (\<lambda>i kidx.
     bnd (signedMod (w64 kidx) 512) (\<lambda>m1.
     bnd (idx_signed kt m1) (\<lambda>c.
     let kidx = ch_BuildVersion hdr - kidx in
     Ret (c, kidx)))) 0 len kidx)"

lemma key_73258_total [key_totals]: "key_total key_73258"
  by (simp add: key_total_def key_73258_def recipe_safe Let_def case_prod_unfold)

definition key_73677 :: keyFunc where
  "key_73677 hdr kt len =
     bnd (idx kt 0) (\<lambda>b1.
     bnd (idx kt ((n32 len * w32 b1) AND 511)) (\<lambda>b2.
     let okidx = w32 b2 in
     let kidx = okidx in
     fill (\<lambda>i kidx.
     bnd (signedMod (w64 kidx) 512) (\<lambda>m3.
     bnd (idx_signed kt m3) (\<lambda>c.
     let kidx = kidx - (ch_BuildVersion hdr AND 511) in
     Ret (c, kidx)))) 0 len kidx))"

lemma key_73677_total [key_totals]: "key_total key_73677"
  by (simp add: key_total_def key_73677_def recipe_safe Let_def case_prod_unfold)

definition key_74102 :: keyFunc where
  "key_74102 hdr kt len =
     bnd (idx kt 0) (\<lambda>b1.
     bnd (idx kt ((n32 len * w32 b1) AND 511)) (\<lambda>b2.
     let okidx = w32 b2 in
     let kidx = okidx in
     fill (\<lambda>i kidx.
     bnd (signedMod (w64 kidx) 512) (\<lambda>m3.
     bnd (idx_signed kt m3) (\<lambda>c.
     let kidx = kidx + 3 in
     Ret (c, kidx)))) 0 len kidx))"

lemma key_74102_total [key_totals]: "key_total key_74102"
  by (simp add: key_total_def key_74102_def recipe_safe Let_def case_prod_unfold)

definition key_75428 :: keyFunc where
  "key_75428 hdr kt len =
     (let kidx = n32 len * ch_BuildVersion hdr in
     fill (\<lambda>i kidx.
     bnd (signedMod (w64 kidx) 512) (\<lambda>m1.
     bnd (idx_signed kt m1) (\<lambda>c.
     let kidx = ch_BuildVersion hdr - kidx in
     Ret (c, kidx)))) 0 len kidx)"

lemma key_75428_total [key_totals]: "key_total key_75428"
  by (simp add: key_total_def key_75428_def recipe_safe Let_def case_prod_unfold)

definition key_76333 :: keyFunc where
  "key_76333 hdr kt len =
     (let okidx = n32 len * ch_BuildVersion hdr in
     let kidx = okidx in
     fill (\<lambda>i kidx.
     bnd (signedMod (w64 kidx) 512) (\<lambda>m1.
     bnd (idx_signed kt m1) (\<lambda>c.
     bnd (signedMod (w64 kidx) 3) (\<lambda>m3.
     bnd (if m3 = 0 then Ret (kidx + 103)
       else if m3 = 1 then signedMod (w64 (kidx * 4)) (w64 (ch_BuildVersion hdr))
       else if m3 = 2 then Ret (kidx - 1)
       else Ret kidx) (\<lambda>kidx.
     Ret (c, kidx)))))) 0 len kidx)"

lemma key_76333_total [key_totals]: "key_total key_76333"
  by (simp add: key_total_def key_76333_def recipe_safe Let_def case_prod_unfold)

definition key_77262 :: keyFunc where
  "key_77262 hdr kt len =
     bnd (idx kt 0) (\<lambda>b1.
     bnd (idx kt ((n32 len * w32 b1) AND 511)) (\<lambda>b2.
     let okidx = w32 b2 in
     let kidx = okidx in
     fill (\<lambda>i kidx.
     bnd (signedMod (w64 kidx) 512) (\<lambda>m3.
     bnd (idx_signed kt m3) (\<lambda>c.
     let kidx = ch_BuildVersion hdr - kidx in
     Ret (c, kidx)))) 0 len kidx))"

lemma key_77262_total [key_totals]: "key_total key_77262"
  by (simp add: key_total_def key_77262_def recipe_safe Let_def case_prod_unfold)

definition key_78040 :: keyFunc where
  "key_78040 hdr kt len =
     bnd (idx kt (ch_BuildVersion hdr AND 511)) (\<lambda>b1.
     let okidx = w32 b1 in
     let kidx = okidx in
     fill (\<lambda>i kidx.
     bnd (signedMod (w64 kidx) 512) (\<lambda>m2.
     bnd (idx_signed kt m2) (\<lambda>c.
     let kidx = kidx + ((ch_BuildVersion hdr * ch_DataCount hdr) mod 7) in
     Ret (c, kidx)))) 0 len kidx)"

lemma key_78040_total [key_totals]: "key_total key_78040"
  by (simp add: key_total_def key_78040_def recipe_safe Let_def case_prod_unfold)

definition key_78777 :: keyFunc where
  "key_78777 hdr kt len =
     bnd (idx kt 0) (\<lambda>b1.
     bnd (idx kt ((n32 len * w32 b1) AND 511)) (\<lambda>b2.
     let okidx = w32 b2 in
     let kidx = okidx in
     fill (\<lambda>i kidx.
     bnd (signedMod (w64 kidx) 512) (\<lambda>m3.
     bnd (idx_signed kt m3) (\<lambda>c.
     let kidx = kidx + (okidx mod 61) in
     Ret (c, kidx)))) 0 len kidx))"

lemma key_78777_total [key_totals]: "key_total key_78777"
  by (simp add: key_total_def key_78777_def recipe_safe Let_def case_prod_unfold)

definition key_79605 :: keyFunc where
  "key_79605 hdr kt len =
     bnd (idx kt (ch_BuildVersion hdr AND 511)) (\<lambda>b1.
     let okidx = w32 b1 in
     let kidx = okidx in
     fill (\<lambda>i kidx.
     bnd (signedMod (w64 kidx) 512) (\<lambda>m2.
     bnd (idx_signed kt m2) (\<lambda>c.
     let kidx = kidx + ch_DataCount hdr in
     Ret (c, kidx)))) 0 len kidx)"

lemma key_79605_total [key_totals]: "key_total key_79605"
  by (simp add: key_total_def key_79605_def recipe_safe Let_def case_prod_unfold)

definition key_80111 :: keyFunc where
  "key_80111 hdr kt len =
     bnd (idx kt (ch_DataCount hdr AND 511)) (\<lambda>b1.
     let okidx = w32 b1 in
     let kidx = okidx in
     fill (\<lambda>i kidx.
     bnd (signedMod (w64 kidx) 512) (\<lambda>m2.
     bnd (idx_signed kt m2) (\<lambda>c.
     let kidx = ch_BuildVersion hdr - kidx in
     Ret (c, kidx)))) 0 len kidx)"

lemma key_80111_total [key_totals]: "key_total key_80111"
  by (simp add: key_total_def key_80111_def recipe_safe Let_def case_prod_unfold)

definition key_80550 :: keyFunc where
  "key_80550 hdr kt len =
     bnd (idx kt (ch_BuildVersion hdr AND 511)) (\<lambda>b1.
     let okidx = w32 b1 in
     let kidx = okidx in
     fill (\<lambda>i kidx.
     bnd (signedMod (w64 kidx) 512) (\<lambda>m2.
     bnd (idx_signed kt m2) (\<lambda>c.
     let kidx = kidx + ch_DataCount hdr in
     Ret (c, kidx)))) 0 len kidx)"

lemma key_80550_total [key_totals]: "key_total key_80550"
  by (simp add: key_total_def key_80550_def recipe_safe Let_def case_prod_unfold)

definition key_81410 :: keyFunc where
  "key_81410 hdr kt len =
     bnd (idx kt (ch_BuildVersion hdr AND 511)) (\<lambda>b1.
     let kidx = w32 b1 in
     fill (\<lambda>i kidx.
     bnd (signedMod (w64 kidx) 512) (\<lambda>m2.
     bnd (idx_signed kt m2) (\<lambda>c.
     let kidx = kidx + 3 in
     Ret (c, kidx)))) 0 len kidx)"

lemma key_81410_total [key_totals]: "key_total key_81410"
  by (simp add: key_total_def key_81410_def recipe_safe Let_def case_prod_unfold)

definition key_82693 :: keyFunc where
  "key_82693 hdr kt len =
     (let okidx = n32 len * ch_BuildVersion hdr in
     let kidx = okidx in
     fill (\<lambda>i kidx.
     bnd (signedMod (w64 kidx) 512) (\<lambda>m1.
     bnd (idx_signed kt m1) (\<lambda>c.
     let kidx = kidx - (ch_BuildVersion hdr AND 511) in
     Ret (c, kidx)))) 0 len kidx)"

lemma key_82693_total [key_totals]: "key_total key_82693"
  by (simp add: key_total_def key_82693_def recipe_safe Let_def case_prod_unfold)

definition key_82920 :: keyFunc where
  "key_82920 hdr kt len =
     bnd (idx kt (ch_BuildVersion hdr AND 511)) (\<lambda>b1.
     let okidx = w32 b1 in
     let kidx = okidx in
     fill (\<lambda>i kidx.
     bnd (signedMod (w64 kidx) 512) (\<lambda>m2.
     bnd (idx_signed kt m2) (\<lambda>c.
     bnd (signedMod (w64 kidx) 3) (\<lambda>m4.
     bnd (if m4 = 0 then Ret (kidx + 103)
       else if m4 = 1 then signedMod (w64 (kidx * 4)) (w64 (ch_BuildVersion hdr))
       else if m4 = 2 then Ret (kidx - 1)
       else Ret kidx) (\<lambda>kidx.
     Ret (c, kidx)))))) 0 len kidx)"

lemma key_82920_total [key_totals]: "key_total key_82920"
  by (simp add: key_total_def key_82920_def recipe_safe Let_def case_prod_unfold)

definition key_83050 :: keyFunc where
  "key_83050 hdr kt len =
     bnd (idx kt (ch_BuildVersion hdr AND 511)) (\<lambda>b1.
     let okidx = w32 b1 in
     let kidx = okidx in
     fill (\<lambda>i kidx.
     bnd (signedMod (w64 kidx) 512) (\<lambda>m2.
     bnd (idx_signed kt m2) (\<lambda>c.
     let kidx = kidx - (ch_BuildVersion hdr AND 511) in
     Ret (c, kidx)))) 0 len kidx)"

lemma key_83050_total [key_totals]: "key_total key_83050"
  by (simp add: key_total_def key_83050_def recipe_safe Let_def case_prod_unfold)

definition key_83584 :: keyFunc where
  "key_83584 hdr kt len =
     bnd (idx kt (n32 len + 256)) (\<lambda>b1.
     let okidx = w32 b1 in
     let kidx = okidx in
     fill (\<lambda>i kidx.
     bnd (signedMod (w64 kidx) 512) (\<lambda>m2.
     bnd (idx_signed kt m2) (\<lambda>c.
     let kidx = kidx + ((ch_BuildVersion hdr * ch_DataCount hdr) mod 7) in
     Ret (c, kidx)))) 0 len kidx)"

lemma key_83584_total [key_totals]: "key_total key_83584"
  by (simp add: key_total_def key_83584_def recipe_safe Let_def case_prod_unfold)

definition key_84186 :: keyFunc where
  "key_84186 hdr kt len =
     bnd (idx kt (ch_DataCount hdr AND 511)) (\<lambda>b1.
     let okidx = w32 b1 in
     let kidx = okidx in
     fill (\<lambda>i kidx.
     bnd (signedMod (w64 kidx) 512) (\<lambda>m2.
     bnd (idx_signed kt m2) (\<lambda>c.
     let kidx = kidx + ((ch_BuildVersion hdr * ch_DataCount hdr) mod 7) in
     Ret (c, kidx)))) 0 len kidx)"

lemma key_84186_total [key_totals]: "key_total key_84186"
  by (simp add: key_total_def key_84186_def recipe_safe Let_def case_prod_unfold)

definition key_84997 :: keyFunc where
  "key_84997 hdr kt len =
     bnd (idx kt 0) (\<lambda>b1.
     bnd (idx kt ((n32 len * w32 b1) AND 511)) (\<lambda>b2.
     let okidx = w32 b2 in
     let kidx = okidx in
     fill (\<lambda>i kidx.
     bnd (signedMod (w64 kidx) 512) (\<lambda>m3.
     bnd (idx_signed kt m3) (\<lambda>c.
     let kidx = ch_BuildVersion hdr - kidx in
     Ret (c, kidx)))) 0 len kidx))"

lemma key_84997_total [key_totals]: "key_total key_84997"
  by (simp add: key_total_def key_84997_def recipe_safe Let_def case_prod_unfold)

definition key_85660 :: keyFunc where
  "key_85660 hdr kt len =
     bnd (idx kt (ch_BuildVersion hdr AND 511)) (\<lambda>b1.
     let okidx = w32 b1 in
     let kidx = okidx in
     fill (\<lambda>i kidx.
     bnd (signedMod (w64 kidx) 512) (\<lambda>m2.
     bnd (idx_signed kt m2) (\<lambda>c.
     let kidx = kidx + ch_DataCount hdr in
     Ret (c, kidx)))) 0 len kidx)"

lemma key_85660_total [key_totals]: "key_total key_85660"
  by (simp add: key_total_def key_85660_def recipe_safe Let_def case_prod_unfold)

definition key_86739 :: keyFunc where
  "key_86739 hdr kt len =
     bnd (idx kt (n32 len + 256)) (\<lambda>b1.
     let okidx = w32 b1 in
     let kidx = okidx in
     fill (\<lambda>i kidx.
     bnd (signedMod (w64 kidx) 512) (\<lambda>m2.
     bnd (idx_signed kt m2) (\<lambda>c.
     let kidx = kidx - (ch_BuildVersion hdr AND 511) in
     Ret (c, kidx)))) 0 len kidx)"

lemma key_86739_total [key_totals]: "key_total key_86739"
  by (simp add: key_total_def key_86739_def recipe_safe Let_def case_prod_unfold)

definition key_87506 :: keyFunc where
  "key_87506 hdr kt len =
     bnd (idx kt (ch_DataCount hdr AND 511)) (\<lambda>b1.
     let okidx = w32 b1 in
     let kidx = okidx in
     fill (\<lambda>i kidx.
     bnd (signedMod (w64 kidx) 512) (\<lambda>m2.
     bnd (idx_signed kt m2) (\<lambda>c.
     let kidx = kidx + (okidx mod 61) in
     Ret (c, kidx)))) 0 len kidx)"

lemma key_87506_total [key_totals]: "key_total key_87506"
  by (simp add: key_total_def key_87506_def recipe_safe Let_def case_prod_unfold)

definition key_88423 :: keyFunc where
  "key_88423 hdr kt len =
     (let okidx = n32 len * ch_BuildVersion hdr in
     let kidx = okidx in
     fill (\<lambda>i kidx.
     bnd (signedMod (w64 kidx) 512) (\<lambda>m1.
     bnd (idx_signed kt m1) (\<lambda>c.
     let kidx = kidx + (okidx mod 61) in
     Ret (c, kidx)))) 0 len kidx)"

lemma key_88423_total [key_totals]: "key_total key_88423"
  by (simp add: key_total_def key_88423_def recipe_safe Let_def case_prod_unfold)

definition key_88742 :: keyFunc where
  "key_88742 hdr kt len =
     bnd (idx kt 0) (\<lambda>b1.
     bnd (idx kt ((n32 len * w32 b1) AND 511)) (\<lambda>b2.
     let okidx = w32 b2 in
     let kidx = okidx in
     fill (\<lambda>i kidx.
     bnd (signedMod (w64 kidx) 512) (\<lambda>m3.
     bnd (idx_signed kt m3) (\<lambda>c.
     let kidx = ch_BuildVersion hdr - kidx in
     Ret (c, kidx)))) 0 len kidx))"

lemma key_88742_total [key_totals]: "key_total key_88742"
  by (simp add: key_total_def key_88742_def recipe_safe Let_def case_prod_unfold)

definition key_89353 :: keyFunc where
  "key_89353 hdr kt len =
     (let okidx = n32 len * ch_BuildVersion hdr in
     let kidx = okidx in
     fill (\<lambda>i kidx.
     bnd (signedMod (w64 kidx) 512) (\<lambda>m1.
     bnd (idx_signed kt m1) (\<lambda>c.
     bnd (signedMod (w64 kidx) 3) (\<lambda>m3.
     bnd (if m3 = 0 then Ret (kidx + 103)
       else if m3 = 1 then signedMod (w64 (kidx * 4)) (w64 (ch_BuildVersion hdr))
       else if m3 = 2 then Ret (kidx - 1)
       else Ret kidx) (\<lambda>kidx.
     Ret (c, kidx)))))) 0 len kidx)"

lemma key_89353_total [key_totals]: "key_total key_89353"
  by (simp add: key_total_def key_89353_def recipe_safe Let_def case_prod_unfold)

definition key_90193 :: keyFunc where
  "key_90193 hdr kt len =
     (let okidx = n32 len * ch_BuildVersion hdr in
     let kidx = okidx in
     fill (\<lambda>i kidx.
     bnd (signedMod (w64 kidx) 512) (\<lambda>m1.
     bnd (idx_signed kt m1) (\<lambda>c.
     bnd (signedMod (w64 kidx) 3) (\<lambda>m3.
     bnd (if m3 = 0 then Ret (kidx + 103)
       else if m3 = 1 then signedMod (w64 (kidx * 4)) (w64 (ch_BuildVersion hdr))
       else if m3 = 2 then Ret (kidx - 1)
       else Ret kidx) (\<lambda>kidx.
     Ret (c, kidx)))))) 0 len kidx)"

lemma key_90193_total [key_totals]: "key_total key_90193"
  by (simp add: key_total_def key_90193_def recipe_safe Let_def case_prod_unfold)

definition key_90774 :: keyFunc where
  "key_90774 hdr kt len =
     bnd (idx kt (n32 len + 256)) (\<lambda>b1.
     let okidx = w32 b1 in
     let kidx = okidx in
     fill (\<lambda>i kidx.
     bnd (signedMod (w64 kidx) 512) (\<lambda>m2.
     bnd (idx_signed kt m2) (\<lambda>c.
     bnd (signedMod (w64 kidx) 3) (\<lambda>m4.
     bnd (if m4 = 0 then Ret (kidx + 103)
       else if m4 = 1 then signedMod (w64 (kidx * 4)) (w64 (ch_BuildVersion hdr))
       else if m4 = 2 then Ret (kidx - 1)
       else Ret kidx) (\<lambda>kidx.
     Ret (c, kidx)))))) 0 len kidx)"

lemma key_90774_total [key_totals]: "key_total key_90774"
  by (simp add: key_total_def key_90774_def recipe_safe Let_def case_prod_unfold)

definition key_92111 :: keyFunc where
  "key_92111 hdr kt len =
     bnd (idx kt (ch_DataCount hdr AND 511)) (\<lambda>b1.
     let okidx = w32 b1 in
     let kidx = okidx in
     fill (\<lambda>i kidx.
     bnd (signedMod (w64 kidx) 512) (\<lambda>m2.
     bnd (idx_signed kt m2) (\<lambda>c.
     bnd (signedMod (w64 kidx) 3) (\<lambda>m4.
     bnd (if m4 = 0 then Ret (kidx + 103)
       else if m4 = 1 then signedMod (w64 (kidx * 4)) (w64 (ch_BuildVersion hdr))
       else if m4 = 2 then Ret (kidx - 1)
       else Ret kidx) (\<lambda>kidx.
     Ret (c, kidx)))))) 0 len kidx)"

lemma key_92111_total [key_totals]: "key_total key_92111"
  by (simp add: key_total_def key_92111_def recipe_safe Let_def case_prod_unfold)

definition key_93519 :: keyFunc where
  "key_93519 hdr kt len =
     bnd (idx kt (n32 len + 256)) (\<lambda>b1.
     let okidx = w32 b1 in
     let kidx = okidx in
     fill (\<lambda>i kidx.
     bnd (signedMod (w64 kidx) 512) (\<lambda>m2.
     bnd (idx_signed kt m2) (\<lambda>c.
     let kidx = kidx + (okidx mod 61) in
     Ret (c, kidx)))) 0 len kidx)"

lemma key_93519_total [key_totals]: "key_total key_93519"
  by (simp add: key_total_def key_93519_def recipe_safe Let_def case_prod_unfold)

definition key_94717 :: keyFunc where
  "key_94717 hdr kt len =
     bnd (idx kt 0) (\<lambda>b1.
     bnd (idx kt ((n32 len * w32 b1) AND 511)) (\<lambda>b2.
     let okidx = w32 b2 in
     let kidx = okidx in
     fill (\<lambda>i kidx.
     bnd (signedMod (w64 kidx) 512) (\<lambda>m3.
     bnd (idx_signed kt m3) (\<lambda>c.
     let kidx = kidx - (ch_BuildVersion hdr AND 511) in
     Ret (c, kidx)))) 0 len kidx))"

lemma key_94717_total [key_totals]: "key_total key_94717"
  by (simp add: key_total_def key_94717_def recipe_safe Let_def case_prod_unfold)

definition key_96081 :: keyFunc where
  "key_96081 hdr kt len =
     bnd (idx kt (ch_DataCount hdr AND 511)) (\<lambda>b1.
     let okidx = w32 b1 in
     let kidx = okidx in
     fill (\<lambda>i kidx.
     bnd (signedMod (w64 kidx) 512) (\<lambda>m2.
     bnd (idx_signed kt m2) (\<lambda>c.
     let kidx = kidx + (okidx mod 61) in
     Ret (c, kidx)))) 0 len kidx)"

lemma key_96081_total [key_totals]: "key_total key_96081"
  by (simp add: key_total_def key_96081_def recipe_safe Let_def case_prod_unfold)

definition key_96894 :: keyFunc where
  "key_96894 hdr kt len =
     bnd (idx kt (n32 len + 256)) (\<lambda>b1.
     let okidx = w32 b1 in
     let kidx = okidx in
     fill (\<lambda>i kidx.
     bnd (signedMod (w64 kidx) 512) (\<lambda>m2.
     bnd (idx_signed kt m2) (\<lambda>c.
     let kidx = kidx + 3 in
     Ret (c, kidx)))) 0 len kidx)"

lemma key_96894_total [key_totals]: "key_total key_96894"
  by (simp add: key_total_def key_96894_def recipe_safe Let_def case_prod_unfold)

definition key_98315 :: keyFunc where
  "key_98315 hdr kt len =
     bnd (idx kt (ch_BuildVersion hdr AND 511)) (\<lambda>b1.
     let okidx = w32 b1 in
     let kidx = okidx in
     fill (\<lambda>i kidx.
     bnd (signedMod (w64 kidx) 512) (\<lambda>m2.
     bnd (idx_signed kt m2) (\<lambda>c.
     let kidx = kidx + 3 in
     Ret (c, kidx)))) 0 len kidx)"

lemma key_98315_total [key_totals]: "key_total key_98315"
  by (simp add: key_total_def key_98315_def recipe_safe Let_def case_prod_unfold)

definition key_98576 :: keyFunc where
  "key_98576 hdr kt len =
     bnd (idx kt (ch_DataCount hdr AND 511)) (\<lambda>b1.
     let okidx = w32 b1 in
     let kidx = okidx in
     fill (\<lambda>i kidx.
     bnd (signedMod (w64 kidx) 512) (\<lambda>m2.
     bnd (idx_signed kt m2) (\<lambda>c.
     let kidx = kidx - (ch_BuildVersion hdr AND 511) in
     Ret (c, kidx)))) 0 len kidx)"

lemma key_98576_total [key_totals]: "key_total key_98576"
  by (simp add: key_total_def key_98576_def recipe_safe Let_def case_prod_unfold)

definition key_98845 :: keyFunc where
  "key_98845 hdr kt len =
     bnd (idx kt (ch_BuildVersion hdr AND 511)) (\<lambda>b1.
     let okidx = w32 b1 in
     let kidx = okidx in
     fill (\<lambda>i kidx.
     bnd (signedMod (w64 kidx) 512) (\<lambda>m2.
     bnd (idx_signed kt m2) (\<lambda>c.
     bnd (signedMod (w64 kidx) 3) (\<lambda>m4.
     bnd (if m4 = 0 then Ret (kidx + 103)
       else if m4 = 1 then signedMod (w64 (kidx * 4)) (w64 (ch_BuildVersion hdr))
       else if m4 = 2 then Ret (kidx - 1)
       else Ret kidx) (\<lambda>kidx.
     Ret (c, kidx)))))) 0 len kidx)"

lemma key_98845_total [key_totals]: "key_total key_98845"
  by (simp add: key_total_def key_98845_def recipe_safe Let_def case_prod_unfold)

definition key_99843 :: keyFunc where
  "key_99843 hdr kt len =
     (let okidx = n32 len * ch_BuildVersion hdr in
     let kidx = okidx in
     fill (\<lambda>i kidx.
     bnd (signedMod (w64 kidx) 512) (\<lambda>m1.
     bnd (idx_signed kt m1) (\<lambda>c.
     let kidx = kidx - (ch_BuildVersion hdr AND 511) in
     Ret (c, kidx)))) 0 len kidx)"

lemma key_99843_total [key_totals]: "key_total key_99843"
  by (simp add: key_total_def key_99843_def recipe_safe Let_def case_prod_unfold)

definition key_100672 :: keyFunc where
  "key_100672 hdr kt len =
     bnd (idx kt 0) (\<lambda>b1.
     bnd (idx kt ((n32 len * w32 b1) AND 511)) (\<lambda>b2.
     let okidx = w32 b2 in
     let kidx = okidx in
     fill (\<lambda>i kidx.
     bnd (signedMod (w64 kidx) 512) (\<lambda>m3.
     bnd (idx_signed kt m3) (\<lambda>c.
     bnd (signedMod (w64 kidx) 3) (\<lambda>m5.
     bnd (if m5 = 0 then Ret (kidx + 103)
       else if m5 = 1 then signedMod (w64 (kidx * 4)) (w64 (ch_BuildVersion hdr))
       else if m5 = 2 then Ret (kidx - 1)
       else Ret kidx) (\<lambda>kidx.
     Ret (c, kidx)))))) 0 len kidx))"

lemma key_100672_total [key_totals]: "key_total key_100672"
  by (simp add: key_total_def key_100672_def recipe_safe Let_def case_prod_unfold)

definition key_101600 :: keyFunc where
  "key_101600 hdr kt len =
     bnd (idx kt 0) (\<lambda>b1.
     bnd (idx kt (w32 b1 AND 511)) (\<lambda>b2.
     let okidx = w32 b2 in
     let kidx = okidx in
     fill (\<lambda>i kidx.
     bnd (signedMod (w64 kidx) 512) (\<lambda>m3.
     bnd (idx_signed kt m3) (\<lambda>c.
     let kidx = kidx - (ch_BuildVersion hdr AND 511) in
     Ret (c, kidx)))) 0 len kidx))"

lemma key_101600_total [key_totals]: "key_total key_101600"
  by (simp add: key_total_def key_101600_def recipe_safe Let_def case_prod_unfold)

definition key_102337 :: keyFunc where
  "key_102337 hdr kt len =
     bnd (idx kt 0) (\<lambda>b1.
     bnd (idx kt ((n32 len * w32 b1) AND 511)) (\<lambda>b2.
     let okidx = w32 b2 in
     let kidx = okidx in
     fill (\<lambda>i kidx.
     bnd (signedMod (w64 kidx) 512) (\<lambda>m3.
     bnd (idx_signed kt m3) (\<lambda>c.
     let kidx = kidx + ((ch_BuildVersion hdr * ch_DataCount hdr) mod 7) in
     Ret (c, kidx)))) 0 len kidx))"

lemma key_102337_total [key_totals]: "key_total key_102337"
  by (simp add: key_total_def key_102337_def recipe_safe Let_def case_prod_unfold)

definition key_102773 :: keyFunc where
  "key_102773 hdr kt len =
     (let okidx = n32 len * ch_BuildVersion hdr in
     let kidx = okidx in
     fill (\<lambda>i kidx.
     bnd (signedMod (w64 kidx) 512) (\<lambda>m1.
     bnd (idx_signed kt m1) (\<lambda>c.
     let kidx = kidx + (okidx mod 61) in
     Ret (c, kidx)))) 0 len kidx)"

lemma key_102773_total [key_totals]: "key_total key_102773"
  by (simp add: key_total_def key_102773_def recipe_safe Let_def case_prod_unfold)

definition key_104319 :: keyFunc where
  "key_104319 hdr kt len =
     bnd (idx kt (n32 len + 256)) (\<lambda>b1.
     let okidx = w32 b1 in
     let kidx = okidx in
     fill (\<lambda>i kidx.
     bnd (signedMod (w64 kidx) 512) (\<lambda>m2.
     bnd (idx_signed kt m2) (\<lambda>c.
     bnd (signedMod (w64 kidx) 3) (\<lambda>m4.
     bnd (if m4 = 0 then Ret (kidx + 103)
       else if m4 = 1 then signedMod (w64 (kidx * 4)) (w64 (ch_BuildVersion hdr))
       else if m4 = 2 then Ret (kidx - 1)
       else Ret kidx) (\<lambda>kidx.
     Ret (c, kidx)))))) 0 len kidx)"

lemma key_104319_total [key_totals]: "key_total key_104319"
  by (simp add: key_total_def key_104319_def recipe_safe Let_def case_prod_unfold)

definition key_105760 :: keyFunc where
  "key_105760 hdr kt len =
     bnd (idx kt (n32 len + 256)) (\<lambda>b1.
     let okidx = w32 b1 in
     let kidx = okidx in
     fill (\<lambda>i kidx.
     bnd (signedMod (w64 kidx) 512) (\<lambda>m2.
     bnd (idx_signed kt m2) (\<lambda>c.
     let kidx = kidx + ((ch_BuildVersion hdr * ch_DataCount hdr) mod 7) in
     Ret (c, kidx)))) 0 len kidx)"

lemma key_105760_total [key_totals]: "key_total key_105760"
  by (simp add: key_total_def key_105760_def recipe_safe Let_def case_prod_unfold)

definition key_106110 :: keyFunc where
  "key_106110 hdr kt len =
     bnd (idx kt (ch_BuildVersion hdr AND 511)) (\<lambda>b1.
     let okidx = w32 b1 in
     let kidx = okidx in
     fill (\<lambda>i kidx.
     bnd (signedMod (w64 kidx) 512) (\<lambda>m2.
     bnd (idx_signed kt m2) (\<lambda>c.
     let kidx = kidx + ((ch_BuildVersion hdr * ch_DataCount hdr) mod 7) in
     Ret (c, kidx)))) 0 len kidx)"

lemma key_106110_total [key_totals]: "key_total key_106110"
  by (simp add: key_total_def key_106110_def recipe_safe Let_def case_prod_unfold)

definition key_106400 :: keyFunc where
  "key_106400 hdr kt len =
     bnd (idx kt (ch_BuildVersion hdr AND 511)) (\<lambda>b1.
     let okidx = w32 b1 in
     let kidx = okidx in
     fill (\<lambda>i kidx.
     bnd (signedMod (w64 kidx) 512) (\<lambda>m2.
     bnd (idx_signed kt m2) (\<lambda>c.
     let kidx = kidx + 3 in
     Ret (c, kidx)))) 0 len kidx)"

lemma key_106400_total [key_totals]: "key_total key_106400"
  by (simp add: key_total_def key_106400_def recipe_safe Let_def case_prod_unfold)

definition key_107076 :: keyFunc where
  "key_107076 hdr kt len =
     bnd (idx kt (ch_DataCount hdr AND 511)) (\<lambda>b1.
     let okidx = w32 b1 in
     let kidx = okidx in
     fill (\<lambda>i kidx.
     bnd (signedMod (w64 kidx) 512) (\<lambda>m2.
     bnd (idx_signed kt m2) (\<lambda>c.
     let kidx = kidx + ((ch_BuildVersion hdr * ch_DataCount hdr) mod 7) in
     Ret (c, kidx)))) 0 len kidx)"

lemma key_107076_total [key_totals]: "key_total key_107076"
  by (simp add: key_total_def key_107076_def recipe_safe Let_def case_prod_unfold)

definition key_107804 :: keyFunc where
  "key_107804 hdr kt len =
     bnd (idx kt (n32 len + 256)) (\<lambda>b1.
     let okidx = w32 b1 in
     let kidx = okidx in
     fill (\<lambda>i kidx.
     bnd (signedMod (w64 kidx) 512) (\<lambda>m2.
     bnd (idx_signed kt m2) (\<lambda>c.
     let kidx = kidx + ((ch_BuildVersion hdr * ch_DataCount hdr) mod 7) in
     Ret (c, kidx)))) 0 len kidx)"

lemma key_107804_total [key_totals]: "key_total key_107804"
  by (simp add: key_total_def key_107804_def recipe_safe Let_def case_prod_unfold)

definition key_108097 :: keyFunc where
  "key_108097 hdr kt len =
     bnd (idx kt 0) (\<lambda>b1.
     bnd (idx kt ((n32 len * w32 b1) AND 511)) (\<lambda>b2.
     let okidx = w32 b2 in
     let kidx = okidx in
     fill (\<lambda>i kidx.
     bnd (signedMod (w64 kidx) 512) (\<lambda>m3.
     bnd (idx_signed kt m3) (\<lambda>c.
     let kidx = ch_BuildVersion hdr - kidx in
     Ret (c, kidx)))) 0 len kidx))"

lemma key_108097_total [key_totals]: "key_total key_108097"
  by (simp add: key_total_def key_108097_def recipe_safe Let_def case_prod_unfold)

definition key_109168 :: keyFunc where
  "key_109168 hdr kt len =
     (let okidx = n32 len * ch_BuildVersion hdr in
     let kidx = okidx in
     fill (\<lambda>i kidx.
     bnd (signedMod (w64 kidx) 512) (\<lambda>m1.
     bnd (idx_signed kt m1) (\<lambda>c.
     let kidx = ch_BuildVersion hdr - kidx in
     Ret (c, kidx)))) 0 len kidx)"

lemma key_109168_total [key_totals]: "key_total key_109168"
  by (simp add: key_total_def key_109168_def recipe_safe Let_def case_prod_unfold)

definition key_109670 :: keyFunc where
  "key_109670 hdr kt len =
     bnd (idx kt (ch_BuildVersion hdr AND 511)) (\<lambda>b1.
     let okidx = w32 b1 in
     let kidx = okidx in
     fill (\<lambda>i kidx.
     bnd (signedMod (w64 kidx) 512) (\<lambda>m2.
     bnd (idx_signed kt m2) (\<lambda>c.
     let kidx = kidx + ch_DataCount hdr in
     Ret (c, kidx)))) 0 len kidx)"

lemma key_109670_total [key_totals]: "key_total key_109670"
  by (simp add: key_total_def key_109670_def recipe_safe Let_def case_prod_unfold)

definition key_109691 :: keyFunc where
  "key_109691 hdr kt len =
     bnd (idx kt (ch_DataCount hdr AND 511)) (\<lambda>b1.
     let okidx = w32 b1 in
     let kidx = okidx in
     fill (\<lambda>i kidx.
     bnd (signedMod (w64 kidx) 512) (\<lambda>m2.
     bnd (idx_signed kt m2) (\<lambda>c.
     let kidx = kidx + ch_DataCount hdr in
     Ret (c, kidx)))) 0 len kidx)"

lemma key_109691_total [key_totals]: "key_total key_109691"
  by (simp add: key_total_def key_109691_def recipe_safe Let_def case_prod_unfold)

definition key_109912 :: keyFunc where
  "key_109912 hdr kt len =
     bnd (idx kt 0) (\<lambda>b1.
     bnd (idx kt ((n32 len * w32 b1) AND 511)) (\<lambda>b2.
     let okidx = w32 b2 in
     let kidx = okidx in
     fill (\<lambda>i kidx.
     bnd (signedMod (w64 kidx) 512) (\<lambda>m3.
     bnd (idx_signed kt m3) (\<lambda>c.
     bnd (signedMod (w64 kidx) 3) (\<lambda>m5.
     bnd (if m5 = 0 then Ret (kidx + 103)
       else if m5 = 1 then signedMod (w64 (kidx * 4)) (w64 (ch_BuildVersion hdr))
       else if m5 = 2 then Ret (kidx - 1)
       else Ret kidx) (\<lambda>kidx.
     Ret (c, kidx)))))) 0 len kidx))"

lemma key_109912_total [key_totals]: "key_total key_109912"
  by (simp add: key_total_def key_109912_def recipe_safe Let_def case_prod_unfold)

definition key_110340 :: keyFunc where
  "key_110340 hdr kt len =
     bnd (idx kt (ch_BuildVersion hdr AND 511)) (\<lambda>b1.
     let okidx = w32 b1 in
     let kidx = okidx in
     fill (\<lambda>i kidx.
     bnd (signedMod (w64 kidx) 512) (\<lambda>m2.
     bnd (idx_signed kt m2) (\<lambda>c.
     let kidx = kidx + (okidx mod 61) in
     Ret (c, kidx)))) 0 len kidx)"

lemma key_110340_total [key_totals]: "key_total key_110340"
  by (simp add: key_total_def key_110340_def recipe_safe Let_def case_prod_unfold)

definition key_111387 :: keyFunc where
  "key_111387 hdr kt len =
     bnd (idx kt 0) (\<lambda>b1.
     bnd (idx kt ((n32 len * w32 b1) AND 511)) (\<lambda>b2.
     let okidx = w32 b2 in
     let kidx = okidx in
     fill (\<lambda>i kidx.
     bnd (signedMod (w64 kidx) 512) (\<lambda>m3.
     bnd (idx_signed kt m3) (\<lambda>c.
     let kidx = ch_BuildVersion hdr - kidx in
     Ret (c, kidx)))) 0 len kidx))"

lemma key_111387_total [key_totals]: "key_total key_111387"
  by (simp add: key_total_def key_111387_def recipe_safe Let_def case_prod_unfold)

definition key_111774 :: keyFunc where
  "key_111774 hdr kt len =
     bnd (idx kt (n32 len + 256)) (\<lambda>b1.
     let okidx = w32 b1 in
     let kidx = okidx in
     fill (\<lambda>i kidx.
     bnd (signedMod (w64 kidx) 512) (\<lambda>m2.
     bnd (idx_signed kt m2) (\<lambda>c.
     bnd (signedMod (w64 kidx) 3) (\<lambda>m4.
     bnd (if m4 = 0 then Ret (kidx + 103)
       else if m4 = 1 then signedMod (w64 (kidx * 4)) (w64 (ch_BuildVersion hdr))
       else if m4 = 2 then Ret (kidx - 1)
       else Ret kidx) (\<lambda>kidx.
     Ret (c, kidx)))))) 0 len kidx)"

lemma key_111774_total [key_totals]: "key_total key_111774"
  by (simp add: key_total_def key_111774_def recipe_safe Let_def case_prod_unfold)

definition key_112214 :: keyFunc where
  "key_112214 hdr kt len =
     bnd (idx kt (n32 len + 256)) (\<lambda>b1.
     let okidx = w32 b1 in
     let kidx = okidx in
     fill (\<lambda>i kidx.
     bnd (signedMod (w64 kidx) 512) (\<lambda>m2.
     bnd (idx_signed kt m2) (\<lambda>c.
     let kidx = kidx + ((ch_BuildVersion hdr * ch_DataCount hdr) mod 7) in
     Ret (c, kidx)))) 0 len kidx)"

lemma key_112214_total [key_totals]: "key_total key_112214"
  by (simp add: key_total_def key_112214_def recipe_safe Let_def case_prod_unfold)

definition key_112724 :: keyFunc where
  "key_112724 hdr kt len =
     bnd (idx kt (n32 len + 256)) (\<lambda>b1.
     let okidx = w32 b1 in
     let kidx = okidx in
     fill (\<lambda>i kidx.
     bnd (signedMod (w64 kidx) 512) (\<lambda>m2.
     bnd (idx_signed kt m2) (\<lambda>c.
     let kidx = ch_BuildVersion hdr - kidx in
     Ret (c, kidx)))) 0 len kidx)"

lemma key_112724_total [key_totals]: "key_total key_112724"
  by (simp add: key_total_def key_112724_def recipe_safe Let_def case_prod_unfold)

definition key_113596 :: keyFunc where
  "key_113596 hdr kt len =
     bnd (idx kt (ch_DataCount hdr AND 511)) (\<lambda>b1.
     let okidx = w32 b1 in
     let kidx = okidx in
     fill (\<lambda>i kidx.
     bnd (signedMod (w64 kidx) 512) (\<lambda>m2.
     bnd (idx_signed kt m2) (\<lambda>c.
     let kidx = kidx + 3 in
     Ret (c, kidx)))) 0 len kidx)"

lemma key_113596_total [key_totals]: "key_total key_113596"
  by (simp add: key_total_def key_113596_def recipe_safe Let_def case_prod_unfold)

definition key_114357 :: keyFunc where
  "key_114357 hdr kt len =
     bnd (idx kt 0) (\<lambda>b1.
     bnd (idx kt ((n32 len * w32 b1) AND 511)) (\<lambda>b2.
     let okidx = w32 b2 in
     let kidx = okidx in
     fill (\<lambda>i kidx.
     bnd (signedMod (w64 kidx) 512) (\<lambda>m3.
     bnd (idx_signed kt m3) (\<lambda>c.
     bnd (signedMod (w64 kidx) 3) (\<lambda>m5.
     bnd (if m5 = 0 then Ret (kidx + 103)
       else if m5 = 1 then signedMod (w64 (kidx * 4)) (w64 (ch_BuildVersion hdr))
       else if m5 = 2 then Ret (kidx - 1)
       else Ret kidx) (\<lambda>kidx.
     Ret (c, kidx)))))) 0 len kidx))"

lemma key_114357_total [key_totals]: "key_total key_114357"
  by (simp add: key_total_def key_114357_def recipe_safe Let_def case_prod_unfold)

definition key_114579 :: keyFunc where
  "key_114579 hdr kt len =
     bnd (idx kt (n32 len + 256)) (\<lambda>b1.
     let okidx = w32 b1 in
     let kidx = okidx in
     fill (\<lambda>i kidx.
     bnd (signedMod (w64 kidx) 512) (\<lambda>m2.
     bnd (idx_signed kt m2) (\<lambda>c.
     let kidx = ch_BuildVersion hdr - kidx in
     Ret (c, kidx)))) 0 len kidx)"

lemma key_114579_total [key_totals]: "key_total key_114579"
  by (simp add: key_total_def key_114579_def recipe_safe Let_def case_prod_unfold)

definition key_115001 :: keyFunc where
  "key_115001 hdr kt len =
     bnd (idx kt (ch_DataCount hdr AND 511)) (\<lambda>b1.
     let okidx = w32 b1 in
     let kidx = okidx in
     fill (\<lambda>i kidx.
     bnd (signedMod (w64 kidx) 512) (\<lambda>m2.
     bnd (idx_signed kt m2) (\<lambda>c.
     bnd (signedMod (w64 kidx) 3) (\<lambda>m4.
     bnd (if m4 = 0 then Ret (kidx + 103)
       else if m4 = 1 then signedMod (w64 (kidx * 4)) (w64 (ch_BuildVersion hdr))
       else if m4 = 2 then Ret (kidx - 1)
       else Ret kidx) (\<lambda>kidx.
     Ret (c, kidx)))))) 0 len kidx)"

lemma key_115001_total [key_totals]: "key_total key_115001"
  by (simp add: key_total_def key_115001_def recipe_safe Let_def case_prod_unfold)


definition key_recipes :: "(u32 \<times> keyFunc) list" where
  "key_recipes = [
     (35328, key_35328), (35455, key_35455), (35780, key_35780), (36473, key_36473), (36859, key_36859),
     (37104, key_37104), (37130, key_37130), (37218, key_37218), (37254, key_37254), (37275, key_37275),
     (37415, key_37415), (37456, key_37456), (37636, key_37636), (37646, key_37646), (37664, key_37664),
     (37703, key_37703), (37734, key_37734), (37755, key_37755), (37793, key_37793), (37865, key_37865),
     (37962, key_37962), (38044, key_38044), (38058, key_38058), (38125, key_38125), (38170, key_38170),
     (38248, key_38248), (38459, key_38459), (38765, key_38765), (38882, key_38882), (39023, key_39023),
     (39028, key_39028), (39083, key_39083), (39103, key_39103), (39241, key_39241), (39362, key_39362),
     (39425, key_39425), (39484, key_39484), (39823, key_39823), (39935, key_39935), (39974, key_39974),
     (40407, key_40407), (40570, key_40570), (40763, key_40763), (40990, key_40990), (41350, key_41350),
     (41713, key_41713), (42076, key_42076), (42210, key_42210), (42539, key_42539), (42563, key_42563),
     (42665, key_42665), (42936, key_42936), (43036, key_43036), (43435, key_43435), (43515, key_43515),
     (43605, key_43605), (44022, key_44022), (44916, key_44916), (45214, key_45214), (45420, key_45420),
     (45752, key_45752), (46137, key_46137), (46510, key_46510), (46823, key_46823), (46836, key_46836),
     (47161, key_47161), (47452, key_47452), (47946, key_47946), (49154, key_49154), (49656, key_49656),
     (50148, key_50148), (50483, key_50483), (51575, key_51575), (51948, key_51948), (52717, key_52717),
     (52926, key_52926), (53537, key_53537), (54011, key_54011), (54052, key_54052), (54255, key_54255),
     (54983, key_54983), (55290, key_55290), (55918, key_55918), (56957, key_56957), (57230, key_57230),
     (57796, key_57796), (57979, key_57979), (58155, key_58155), (58625, key_58625), (59008, key_59008),
     (59573, key_59573), (60038, key_60038), (60360, key_60360), (60547, key_60547), (60993, key_60993),
     (61542, key_61542), (62065, key_62065), (62591, key_62591), (62906, key_62906), (63372, key_63372),
     (63568, key_63568), (63778, key_63778), (63869, key_63869), (64346, key_64346), (64719, key_64719),
     (65302, key_65302), (65513, key_65513), (66302, key_66302), (66607, key_66607), (67071, key_67071),
     (67664, key_67664), (68126, key_68126), (68780, key_68780), (69340, key_69340), (69939, key_69939),
     (70250, key_70250), (70665, key_70665), (71213, key_71213), (71620, key_71620), (72127, key_72127),
     (73258, key_73258), (73677, key_73677), (74102, key_74102), (75428, key_75428), (76333, key_76333),
     (77262, key_77262), (78040, key_78040), (78777, key_78777), (79605, key_79605), (80111, key_80111),
     (80550, key_80550), (81410, key_81410), (82693, key_82693), (82920, key_82920), (83050, key_83050),
     (83584, key_83584), (84186, key_84186), (84997, key_84997), (85660, key_85660), (86739, key_86739),
     (87506, key_87506), (88423, key_88423), (88742, key_88742), (89353, key_89353), (90193, key_90193),
     (90774, key_90774), (92111, key_92111), (93519, key_93519), (94717, key_94717), (96081, key_96081),
     (96894, key_96894), (98315, key_98315), (98576, key_98576), (98845, key_98845), (99843, key_99843),
     (100672, key_100672), (101600, key_101600), (102337, key_102337), (102773, key_102773), (104319, key_104319),
     (105760, key_105760), (106110, key_106110), (106400, key_106400), (107076, key_107076), (107804, key_107804),
     (108097, key_108097), (109168, key_109168), (109670, key_109670), (109691, key_109691), (109912, key_109912),
     (110340, key_110340), (111387, key_111387), (111774, key_111774), (112214, key_112214), (112724, key_112724),
     (113596, key_113596), (114357, key_114357), (114579, key_114579), (115001, key_115001)]"

definition builtinKeyFuncs :: "u32 \<Rightarrow> keyFunc option" where
  "builtinKeyFuncs = map_of key_recipes"

lemma key_recipes_total: "\<forall>(b, f) \<in> set key_recipes. key_total f"
  by (simp add: key_recipes_def key_totals)

end
