(* ===== verification/CmfTables.thy ===== *)
theory CmfTables
  imports CmfRuntime
begin

text \<open>
  \<^verbatim>\<open>internal/root/overwatch/cmfkeys/keytables_generated.go\<close>: the 512-byte table of each build. A row of sixteen
  bytes of the source is one numeral, its first byte the most significant.
\<close>

named_theorems table_lengths \<open>the tables have 512 bytes\<close>

definition rows :: "nat list \<Rightarrow> bytes" where
  "rows ns = concat (map (be_bytes 16) ns)"

lemma length_rows: "length (rows ns) = 16 * length ns"
  by (induction ns) (simp_all add: rows_def)

definition builtinKeytableCount :: nat where "builtinKeytableCount = 179"

definition table_35328 :: bytes where
  "table_35328 = rows [
     0xABD17AF5D895039507BFD051A38D54D2, 0xB7B9B3C7F39577B586ABE083F969D505,
     0xEFB639ED3AEB35992859FEA9B4C23A32, 0x35B4C3C2AE19FCB7DE9441ECD8DC21C8,
     0x5F1326DE5DCF10F6690C6BD67AB9380C, 0x33036A29FCCB44BE23D6BBB754703DE5,
     0x9FF2C7C3218B68219B0FC280DD195BEB, 0x2A5575810DA028BB520BA734844699EB,
     0x7AA1D1BD27C320C65D8CA3D4879F9061, 0xDC9D2D3EF337B0A91397DDF67927FAC7,
     0xF36FC5F0FA52F182E0EF998418BBAD26, 0x9FA4E4A8E073A0133B14A5BA64C3C568,
     0xF5BF4F94A0ACC829B8C3421809CF4857, 0x69ED7884B94A5B1FE80855559540BC71,
     0x4F2290D419611F67367FBDF17675E199, 0xB09F5471658ECB61C0F7E3A9ABE8D23E,
     0x48D42DF85632CFFC7777203E9278F04F, 0xB79074F041F93826D337D610751A7512,
     0xD939641C376D4B1CA8FF295C9F6E6826, 0xCA3E06A6CBE62713D212B2FFF74A4A19,
     0x680285BEE210FA97FE1B4A1FA8DD7F69, 0x2253C03BFA8077C210495908623B625F,
     0xE54FEFDCC3564ACB629C2791EAD94783, 0x55BD802A670A4F131FE56A0670603CC2,
     0x4A032A3BC280CBC92E9F7F871BD18BA7, 0xEED86A6185817540028923D6BCC3B338,
     0x619A5041F4D5B084D4CF1387F78F1C1F, 0xABA1CC1783308A6EDE865FC4CC5585F6,
     0x8A60A34BF9C1A68E3175C2ADCF52CE29, 0x1DBE0750D120A5B24E791CBCEAB401BB,
     0x3F557547AAE773F7783BC1633DD509B4, 0x6A4501D75CDA8E93F845DC5B91DF8B41]"

lemma length_table_35328 [table_lengths]: "length table_35328 = 512"
  by (simp add: table_35328_def length_rows)

definition table_35455 :: bytes where
  "table_35455 = rows [
     0x808A26FC2ECC67EC9DEC33ECCAA88638, 0x543F9ED35AC4DC67A5E0B5068DD7ED5F,
     0x4CE9F32805192EAF551585348282EAC3, 0xD634C074D2DE408A56047A507F6568F2,
     0x000C6FEB1120E8DE039EF45409F5C11A, 0x4A8C90D62B39D64A8B0A777C406CEDD1,
     0x19E04048406BF92548D5CC992195909B, 0x81D6D94DB4F2AD65E92181337D993F96,
     0xEE6615BB6E2DE8E7687AA2478B65C438, 0xC1DE17753F9A4F4F4C26DD45267D469D,
     0x9254DE2239DA7A504678804A122E2C4D, 0x5F508AB32D7D74558CF769C06C3E9738,
     0xED20422CA300FFB7330FF7B284747C31, 0xC30B61CF68858A59271A6D5A21B51D4B,
     0x74D95D86240303613E26064CEAC8B195, 0x03EEA76387766C87AFDCFB8C1AFC9AF0,
     0xFF20470BECE153814BCDCE3C80C31F57, 0xFCDB639D5E533FAC45A7B013E24D8B0F,
     0xB1C3673F80D0FFE67A13EE8774C331CF, 0x85F146523D5B1EB67CBB575823019DC1,
     0x39D0C5D7022E53BDAB22757880AEAD42, 0xEDBB74F4093F603E54F8A112A4E2E114,
     0xD72E789FB2338008FA76AB1CEE8E1F04, 0xD201AF9A0EF1C51F260F11F423D61FB5,
     0x79F75D54C685E0DE085A624B7B04B61A, 0x3A65EBC2D21EAE98300EB78A7AE25A89,
     0x9C9D574DB06897B5734263A138F7BE50, 0xF3FF29E95A0B88941939D2EEEF82E083,
     0xCAFB39D9FF2B1FC9243FABAEA7599258, 0x78B3B15228F1504A495395DF0F2AF4AF,
     0x00896DA7EAA89798053501AFB433F6CF, 0xC77F18C3273FC03615E2293199124406]"

lemma length_table_35455 [table_lengths]: "length table_35455 = 512"
  by (simp add: table_35455_def length_rows)

definition table_35780 :: bytes where
  "table_35780 = rows [
     0x808A26FC2ECC67EC9DEC33ECCAA88638, 0x543F9ED35AC4DC67A5E0B5068DD7ED5F,
     0x4CE9F32805192EAF551585348282EAC3, 0xD634C074D2DE408A56047A507F6568F2,
     0x000C6FEB1120E8DE039EF45409F5C11A, 0x4A8C90D62B39D64A8B0A777C406CEDD1,
     0x19E04048406BF92548D5CC992195909B, 0x81D6D94DB4F2AD65E92181337D993F96,
     0xEE6615BB6E2DE8E7687AA2478B65C438, 0xC1DE17753F9A4F4F4C26DD45267D469D,
     0x9254DE2239DA7A504678804A122E2C4D, 0x5F508AB32D7D74558CF769C06C3E9738,
     0xED20422CA300FFB7330FF7B284747C31, 0xC30B61CF68858A59271A6D5A21B51D4B,
     0x74D95D86240303613E26064CEAC8B195, 0x03EEA76387766C87AFDCFB8C1AFC9AF0,
     0xFF20470BECE153814BCDCE3C80C31F57, 0xFCDB639D5E533FAC45A7B013E24D8B0F,
     0xB1C3673F80D0FFE67A13EE8774C331CF, 0x85F146523D5B1EB67CBB575823019DC1,
     0x39D0C5D7022E53BDAB22757880AEAD42, 0xEDBB74F4093F603E54F8A112A4E2E114,
     0xD72E789FB2338008FA76AB1CEE8E1F04, 0xD201AF9A0EF1C51F260F11F423D61FB5,
     0x79F75D54C685E0DE085A624B7B04B61A, 0x3A65EBC2D21EAE98300EB78A7AE25A89,
     0x9C9D574DB06897B5734263A138F7BE50, 0xF3FF29E95A0B88941939D2EEEF82E083,
     0xCAFB39D9FF2B1FC9243FABAEA7599258, 0x78B3B15228F1504A495395DF0F2AF4AF,
     0x00896DA7EAA89798053501AFB433F6CF, 0xC77F18C3273FC03615E2293199124406]"

lemma length_table_35780 [table_lengths]: "length table_35780 = 512"
  by (simp add: table_35780_def length_rows)

definition table_36473 :: bytes where
  "table_36473 = rows [
     0x9E8C4EAEE9C9801C7927CD2869FB9773, 0xA2967174653DD6802426B93DE659FDE3,
     0x98158A8306928201871919F959DEFC91, 0xDC897229F0017504DE57C5DE24949CE1,
     0x85DB6636D5FA52807FF8DA70A41C408C, 0x2EDAD4E34789E95442064C4EA8A400CF,
     0xB3E36669B726E766AB72FA59C2E2BEFF, 0xC58ACF8695DD451E9E6538C4F2D5303D,
     0x563B4C1FAA8CF2795628D239D9A1AE2C, 0x378919ABC630AA0B56EDDF2E3D130158,
     0xB58A923731CB6C3B995B8D9D55FFC2A5, 0x3A33D3F110D3BADE91166AFC7B70A632,
     0x61398E592401F63A379DEE34067C2C08, 0xFAA2306A1AFF1404AACD2E8997B98EDA,
     0x27CFC076A8C28CF6F26FB6A41DB08AFE, 0xCAC5B7CA794A575B3D2CD87D7BED8964,
     0xBC27EE8E1C72E080F038C088B059A5E0, 0x0D7F0D605C61A8057738E0C596B7F87C,
     0x172C9DFD8F7FC2297AE79035BAFD336F, 0xC3D8E64140674BAE8892AE6EBD753785,
     0xA8E0D59D10B278BAEBBC7DBC81E7ED68, 0x39813B4CA551932EAE771D70D6370FCC,
     0xDCAF136BDD5032AF0C646E18C1569529, 0x8A7E3DC902D61FF83C51B03681D28455,
     0xEA02B383F180004353F7081514CFE3EA, 0x8C94080636A0D0721E8DEC67B3D42C5F,
     0x1AC15D45255584992633D548C59D27EE, 0x29CD80C33267AE5F6097187406453A6B,
     0x82F940BC31A73E8BA5ACAB2B977A5762, 0x0DAEE002E8FE61D0DBC56C5E43DA6DC5,
     0x6838E041A5F9AAD9545DA2D8B1CF02E3, 0xF1436BB06E9835AE33A46E3E2E025BED]"

lemma length_table_36473 [table_lengths]: "length table_36473 = 512"
  by (simp add: table_36473_def length_rows)

definition table_36859 :: bytes where
  "table_36859 = rows [
     0xAB6BD4C18EB5DEE3E7E00C0B0ED29D88, 0x6FD96E7A0A170975351C9565DD02E206,
     0x49BFE6AD68B26E532D64685918986E63, 0x28659EAF5071970E35EA348D249326E6,
     0xD54BD9A450442B1E3E5F0CFEA348E930, 0x5F515E439B12137D8F7583FBB4E10338,
     0xCC6BCBFC86652B2D73EC169BA5326E35, 0x6CA9E4F596253931EC335F4E81FE4A25,
     0xCFA705B73FCC3668BD587EA42B1C2BDC, 0x4734DDFEE5173A84DEAE2043FD427B74,
     0xE9FB7D8503281FE6D92607D12F3AAF9D, 0xECB942701E357A08E19325B52734ED04,
     0x89A487C6CD2A51B5CB5A708C20F4D990, 0xCAC120C5DD68180361F1E2E053E082DF,
     0x315C8A6D7367BDF0CE0D4FC2BF2A2F02, 0xF816ECF36834D1D90BA6D042AD110A1A,
     0x96039546B863CEA1BE61051306BD973A, 0x3BC36F76F2E8FC123772CE72CCB9B32D,
     0x872F211B13E9C43480E4181B327F0595, 0x5085413F2AD3DC6072012462E0D43A75,
     0x35D3CEF81E2E169949194BFA537504FE, 0x4EDD3C7979EBEF765810175576A9236B,
     0x93B367CF45DFF8BF98F6D33E84D0F494, 0xC5D52238BB61F3C44E5F602CC98CD3BC,
     0x9DE8D9988EE2E27D901F15600F47B379, 0xF92C75DA347DE6E1BBD9BBB0892E74D7,
     0xA452EC8DFCBDA7C0B47CA93E683495E2, 0x65370E0F32489C4EF4D7C204CF7B4EA9,
     0x206CA4F0DEC48C1FD2BA6377DD2CE2BD, 0xC9199F0041C5CF3993137493E4AAEFC2,
     0xDE74E3A55EAB44739B46D549E6BDB495, 0xF9F36475810F22C58A86FEC3784B744B]"

lemma length_table_36859 [table_lengths]: "length table_36859 = 512"
  by (simp add: table_36859_def length_rows)

definition table_37104 :: bytes where
  "table_37104 = rows [
     0x0D95080BF380E12E040BF91A5B5EF560, 0xB3C62F918F3BED2B3DE5B20676387EAB,
     0xDF70953A6DE513183D542B132C4F621B, 0x925FDBC3F1A521AC756CE292383A5A8C,
     0xFE40D1AB824DF2005D0CD1B876530EAF, 0x90D5056693F10D5FFA9345275FEF4766,
     0x5F8DCA513815C7795180632DDF68231C, 0xEC3E37DE76B25A8C1259FD1311209DB9,
     0x2467EF501210CEE3178ACB0DCFFA3979, 0xAC70E504CAF9283024782F3F2996728C,
     0xDE1EDD106E959C3929F94448FFF30DD3, 0x8D207D422D6E319FCAA6C233EC31B637,
     0x4D1FA43C1A90EEE59CE95BEF552DE49C, 0x9E3877570D16204657A6044EE5B30907,
     0x91D9ABB08F8118AA9EBEE4BC68DDFD85, 0x6A1A316C60EFE7BBE5EB5729F23865F4,
     0x0E9CBD5510D38604DFE022270941BB3B, 0xF746D97ABE0DC37577CA2390AAF216C3,
     0x2D75C939C00678DD91D71AF097E39E12, 0xA5B8DEF68E5A1601B0A93905FB6CD593,
     0xBC86813E1553D488B65AF268D68011C8, 0x71C5E5CA5683E1928636FF403458ADC7,
     0xBE6C200A7264E5D7F6B77F8FA8B4BC27, 0xC26B25D4F620BCA9B34407FBFFA3DA75,
     0x65058E7110ADAD2787CEFEDCD8BD74BF, 0x439915268EAD50439BB82F664B38C444,
     0x71BD848AC3220D2EEC355F61EF637CBD, 0xEDEF37A831ACBCB00CAC52A46DE38443,
     0x3CF68EC0574EC988AC71367C8B8146E0, 0xC049E5006A86D3441068699248FB2A46,
     0x964189F0CE5D0A80A53480DB82C1928C, 0x0C59156C17F058560853E5CE2AB83C28]"

lemma length_table_37104 [table_lengths]: "length table_37104 = 512"
  by (simp add: table_37104_def length_rows)

definition table_37130 :: bytes where
  "table_37130 = rows [
     0x00801FABACFCFA6FE691E71AA8AA23E3, 0x7C675920DF2BB01DF29A6E8B53310F44,
     0x9DA7B01BBCA5EE322B1327874B09EA03, 0x4664E39636D00288AAB2980242FA07EE,
     0x2CEABE8C1F6B4111C69369EF98D2DD1F, 0x5C60DF098B69572343A0DD50565AB996,
     0x0F6E63114F394B93B666CACAC2D56F82, 0x0E71D92961044DDC4E289F3FDB4AC215,
     0x6A0FEBB9C828867BFDBAF64D35DC5AC8, 0xDC9F13200159FE302BDD773DE4C991D6,
     0xDB04941F020D14628AC018C4F778C932, 0x5FB97A8DB76593C770A053CF5183C979,
     0xB149C347DFBAE5B6AF3389A5D67848A6, 0x59D70C40F835580E6CD1FB4CB4BB98B8,
     0x075E6F69B074A4DBC21969541E1CFC60, 0xC7C092A5A6812337C1BC86F632915394,
     0xCC3F62A7B94D589FFD82820B6CC7692C, 0x5CCB27902FD450074A5DB280688E9D34,
     0xF6EAF6758BF7EF24EFE78E099D7E9311, 0x3397A32DFEEBCF0BECF33FFB5CD9A7B1,
     0xA6C812AAD99E04DEF35112DD5225EB92, 0x283CE657203A4DF9B22A92B4B355DDCA,
     0x8ACD6AC7C8120A8C15B42319A5049299, 0xFCB7E4DE06C29321910742F9559ACA7B,
     0x788655E6B7A452FB2D97FEE36204F59F, 0x41D479F4580194F804858AA69A4DD5AB,
     0x30ED9520D69180FCADC961C091D870F9, 0xCF0BDA7696A308CDBB6DBBD9585B4A92,
     0xCB72E28CC17E03C3CFA31124F5F34A91, 0xD1E15C796E99E55588016193DACFC678,
     0x5D6D8C31ECFB5FBAAB0B3DB3CAFED96A, 0x6CD48BDE0BB3D9611F3D0F945C93D99C]"

lemma length_table_37130 [table_lengths]: "length table_37130 = 512"
  by (simp add: table_37130_def length_rows)

definition table_37218 :: bytes where
  "table_37218 = rows [
     0x9DCD121D6698EE2F98E9449A3C6B874C, 0xFD95231A3DA5A0FF9565170C13AB4CA0,
     0x6380207DD46BC44DA6303186EF58489F, 0x83812483019E5430529C3A1C21894698,
     0xFF781755F9C27B5872B17B0C8EFB7B7E, 0xF71F984C19BDAFB0EF40C660952D9B1A,
     0x035B35C8C4A0EC1EAEBD6C329B8338BB, 0x6C60730CAC4C8F751850CA2904758C58,
     0x2AB88A30526AD5BD2EA7CD7C430573C2, 0x1C8BC5BAD4CFF153B0E4C63B2A4B1F49,
     0x2833F3C022E9F94A9FC47A95B91F07FA, 0x5463831F48F315E9D1D4914632E72744,
     0x72CA4C71037F36DA1CCBBD5DF24A243B, 0xB6731C0F2A6388C9DF309A169449871E,
     0xA446D3B2F3B3E396018122D654FDBB4D, 0x3505CE2F503A77A606A932BA7BAE1CD1,
     0xF9F7C9F2E983DEC33CFFDEDB01C4430C, 0x5485D5C5D40F8B9646E71C0C2DDFADC6,
     0xEEA53B06D709BC9F81A6A67509EFD0FD, 0xC6FBD1CECFD907D50F777B8DF591F073,
     0x4E593F65E8AC3B68E5D1064FD260915F, 0x9589D81B1C287D58E34AD73998B02779,
     0xF1F0983347491DD7C9C54A03C42C2581, 0x653174759D5C3FDF70D488DDEB7F463B,
     0xDB10DF9A6BD73E768645F406293E3016, 0x8A386136632A4B9890931C342520F75D,
     0x2FE3B99715218A145168C4AA66BFD37B, 0xD85F5A15A2FA43DA9B6CF056E342C627,
     0x4A1522EFEE90A1EE4E9D60B9AF12448E, 0x4F7714A2AF9C118894F2A11803498EC6,
     0x25BF2577CA1243368D3A47ADD37794AC, 0xEE5A1D9D508AF29269BD96196C28FC04]"

lemma length_table_37218 [table_lengths]: "length table_37218 = 512"
  by (simp add: table_37218_def length_rows)

definition table_37254 :: bytes where
  "table_37254 = rows [
     0x09FA853CBF30C4CF496F6B6BC03DD84D, 0x79410CFBDA039F8599AB6BC83CC18F48,
     0x758233462E1DC0E88CEC5A9E9DE3BD5D, 0x855917303E8ED4643EE24EE30D66CEAA,
     0x4EF6BBEDD8253F30A7F8531B229B65FB, 0x29330F1A007439BED77A3DC82521252F,
     0xA9CE20CB4C5782EB7D72B57F2849FC82, 0xADC375AFBB689E5790776843BF9E7CE6,
     0x7338E9F592559D8F32F2AAE383DD6BCA, 0x6ADCA15D1C1473CE7BB51C4CB9EE12C4,
     0x0F54111A2F4806A68250F7A3A34199BE, 0x9E8350C120CC98A2F2689A487802F42C,
     0x69163882896719707F8B0530093252B9, 0xF94754DBA41112A81587D8FA611E8C21,
     0x772A336E7A88336FAD397A00DDA6C38A, 0x35ED9FF5484CEDB1A8CFFF65931D31B0,
     0xCFCD6EDE8390785A2F6DA019951F103B, 0xDF437C955A23146E8B5FCABAACFD548A,
     0xAC4E6D32B3769EDAACB565B36835D913, 0x69664A409CC01146DE5D9F1080B3CBE3,
     0xE941BDE8F441FA7D73AE40E1623F9EDB, 0xDC1F453751151BF607643A456B460EFA,
     0x76AC9E727A79F0F7D176B59482FDBB13, 0xF0DA22CAB7C16922C4A55763CEDF6EBB,
     0x5668C2210C90CBC9F7F5228FDF739C85, 0x56E87A6375F1D04EB8024252C1EDE8A3,
     0x02EA122D26C184C951B05659F8154439, 0x385CB7188298C79BABF61F3F3453C636,
     0x831D2376C6316B84764EFA4C32EA8AB1, 0xB42D20DB384DE5BD8D89E6C394F7330F,
     0x6A75F83A06F705D1A3EE5392ADD47EC4, 0x6C7E42878B46354C0B71D32DE0485159]"

lemma length_table_37254 [table_lengths]: "length table_37254 = 512"
  by (simp add: table_37254_def length_rows)

definition table_37275 :: bytes where
  "table_37275 = rows [
     0x1D3FF3B014026B8ABBB9154AE3CE3801, 0xA8DBF03622E2DACB02AEDC893051AFAE,
     0xBC2E128B4DEDC3AC97DCA95563762920, 0x688A670275093A55CA1494C7FE4C29D0,
     0x14AF60785B48B0A1E0FAD3E79AE12412, 0x03E502DF0A33354A46A399EC53265B55,
     0xD294163EEFFE8A466938964D5914ABFB, 0xCB002BCCFF577A1FD11077A4D5E683C8,
     0x05D90C2492B8C5194D06911E8462A16F, 0xEECA0B5631881F2B1EC33AE8D401A19A,
     0xFFFE1EBC9BC99BC56EE3FE99F3AE1D78, 0xA0189425F3745D08A7949F62A7CFEF0D,
     0xD5067EF1CE796429EC23543D74FF982E, 0xCF64C04445826A9F589E04D3E55586F1,
     0xCD2D1D4C2F0C38DB05492C5DF895E237, 0xBDC1110153238C82C30D25780E5DAB66,
     0x7DA24917C3B23ADDA4AC42BCB054AAD5, 0x3219DD59A33F827F7404826DDAF38041,
     0xC5144F892E1A6CC44989AADF28880371, 0x9BA37E0703641D9873399D65EB019863,
     0xBFD8DE0B372600425A4572774F0D738C, 0xD0980454E25E9DF0B3CD69595C459C4A,
     0xE557938F0AA14BD1190D9B20BECCAF98, 0x576DA078BDD8377F29063D61326BB603,
     0x171062AA9C56059C2B63B2C0EE81724B, 0xB6375106B75F107E79F8DC5D65DDF9B9,
     0xED35B08AFE40EE6B0A9DF01B4B68B483, 0xF5ECBE523F93C0160D0C9C56FC0E7972,
     0x32D7D69B7126637CE97144A736F6FF74, 0xD68CCFCBB9E78A21034D4FF9731D1C9D,
     0xDCA8881B9B188DB3528E7C6B65F3BCB2, 0xBC1656127B315A996BEA15D14BAD9E0F]"

lemma length_table_37275 [table_lengths]: "length table_37275 = 512"
  by (simp add: table_37275_def length_rows)

definition table_37415 :: bytes where
  "table_37415 = rows [
     0x236E8F250EE05AC50AEFABCE4B569F7A, 0xA15A96F5764D15715951156D282266C6,
     0x9ADAC1EA09FF819FFB55C55C7BB6BF72, 0xA4315F1D5A33D6E7624BC1F0D7257360,
     0xEDFE4ADE82D7F1B5ED9E217ABA487B62, 0x4C0E857B346E456A80E0B3D4168D0001,
     0xEAEDD15F42DF37A97BDCC8101EC34D35, 0xED9B6D58CB9981CA1C9ECE0140115B38,
     0x41ED7863E4D78E2D70EFD34BF951937C, 0x918D4F93B36AFE8609E99753F5E8FBB1,
     0x6450662D96F93BFB11FCF366CE40A04C, 0x5934C35C0690D77448F29735B4C1AEEA,
     0xF88DCC1F25D07D0B8D6E1873812F9AA3, 0x313E6B2F5DEF0640284985AD5F71B6F2,
     0x0245288F5688BA5E6B07E8DE8A3A5D0A, 0x50D389E4B7D865912D47651DD804B253,
     0xB3571F96E6A3EC8AC1433DA85A7FE528, 0x755D874D0D6FA253E2990D9C262F9D06,
     0x0B6262F5A89C6FE5208D288D5386E753, 0xDCDC63F144939C67651E2A35E6C79E0D,
     0xEF29303F0769C8E43DA765A42594CD82, 0x14CB694CCD8BE3A58447F1B242246EAC,
     0xAFE5F9DC435F89ABA465932AF5C6BACE, 0x3EF3EAF217AA7D5C3B1BFC85D0E3BF55,
     0x2CC2E754D6137DDDB5E56165A11F5098, 0xFB11DC9426839B02E273F7C1349C4177,
     0x2881B48B98FA450E2F196EEADA20E05C, 0x891318E5CFC894B248CC16B7B600436F,
     0x6152D99222C7C5A10A2F3301CCA3DE0B, 0x296AD44C7B06DB4F2D2653D7A9ED58E9,
     0x54F4013244C1B876F46AC046443EEA2E, 0xA4855FEF57D577B64D99A26D83B5A02A]"

lemma length_table_37415 [table_lengths]: "length table_37415 = 512"
  by (simp add: table_37415_def length_rows)

definition table_37456 :: bytes where
  "table_37456 = rows [
     0xB9F431D5FCDFA615CF19E88C5ACA080B, 0xA22C791917D480EA8D1C5A6022046AFD,
     0x70AC567FA77F8323DFCF12A33D5A18B1, 0x2DDA84D295A1CAED174F120877B84C71,
     0xA35A74842A57C782899516457D145232, 0x5FF34CB2958BCB6013E502F403B5C972,
     0xF9F1C16BD010E6814EAC8F885546CFDC, 0x1D042E813C079A1A79EF464C73765F0B,
     0xB2A5C03DBD1F41E2FA975321639574F4, 0xDC2F7F59510F4A9461D57E0E477D3323,
     0xB2126E1F07082C5277416FB579C6AF7B, 0x819FFF6B8A0BF82B4867B6F3167F1B7C,
     0x76633F1D4E3C698126BAC7467AFC534B, 0x4F0CD8DDCC0F930B6DD76C69DB615CB0,
     0x78474738DC1FE43F41771D91EA859E8A, 0x0A867CB87BA1C2D83F3958EE88F74868,
     0xF0B9B6EF39EEDBF2782D4CEAADC3CC8D, 0xA0D344D5C4A76FA189D9DCFCB4D5B0DB,
     0x4CFD98F91FC8A0C116A71FFB07C4DF00, 0x1D95ACE22583AE8F4EAFC81CDB9732F9,
     0x25E0424CD169576E67E23357FFB28C35, 0x97460AED948F4EE0392283DD8049AD1F,
     0xE4C1376C786A8F6B287A9A9A6F56B677, 0x5FC65D7B3DFFDC7CE280F18B9D02F329,
     0x54531C1919B134E305F2B3E4682279F8, 0xE906C1C51457B2F9A2F465ACEAE413F4,
     0x515039FB9FCED8BE596FB695B09E79CE, 0x79AE488677254C836BE2F0B302323A7F,
     0x4B6E81DE9CA6BA85F6D943DA203478AD, 0xD1DBBD6FFD91A18A325ABE574D92E3FC,
     0x3D2D6962AA86D6A0BF37D96A4A44D8A2, 0x8FA7C97E6D7892780A4FBD5EC3525A2A]"

lemma length_table_37456 [table_lengths]: "length table_37456 = 512"
  by (simp add: table_37456_def length_rows)

definition table_37636 :: bytes where
  "table_37636 = rows [
     0x8391E7ECF85B2E6275B40F31369286D9, 0x1B3D544AAA58F0DCCE5A48972DDFB9D7,
     0xAABE5EC69858BA751BFF9DED5E00BAFA, 0x897C9DCAE8C176290DC022BA97281383,
     0x31C46FF5E87ACCB187ABB8C6746A4EC6, 0x95F5497F1FA49893155D65AECC19CEF3,
     0x08FE4B05CEEFF45B88655F28C55AA294, 0xA21580E592BAE9124306B535080E9C43,
     0x60363DA0D133A2CCB97B98B20ADEA8F3, 0x12CB45EAABE3B66235EA5D7F1AFECC0E,
     0x18919867DB2045FD2410B8416057A9F0, 0x6E12E3958CA7C5D743234A8C9DB64C91,
     0xDEE15058472927AD0598E47B391FECCC, 0x770F369136BCB9BFA5BFCC0C4BA31972,
     0x35DBB4F22BBF149B34D2C3DEA80E7381, 0xFDCDE5C20B8ADE544F3D3DEC02A28E87,
     0x61EDCF9919E693DABDE0ACA021A12832, 0x0A6194157EDEEB434E7F9A57CCFFDBB9,
     0x1090125BC0A7F36D6947A85E503618D0, 0xB0257BF066253CD028D11CFA7E71B3F2,
     0x0BD07380195FA1BEFABE0F940581FC5C, 0x77244DCB3BFA548E164CCDA7272C40EB,
     0xDAA98AA066735A25C625B8A962A47EE1, 0x2114442D9EF90A7172BA89579134C7C1,
     0x87C3A7B057F920CDE355EF32966D2535, 0x1006D397EA09BA47BF1F31D139F5AD0B,
     0xA689DE096E373F010FC1B1988044AC6F, 0x45D6CD9370B7E7B71EDF581A342DB0E3,
     0x628C3E187B9514F6E471F5613E18952B, 0x3BB175236C276E7DF4ACE13CC04482F2,
     0x23A1F27CD3B33DDD272273C0557DE1FD, 0xE48A9C1B302BE387FC73B268E5FD3A7D]"

lemma length_table_37636 [table_lengths]: "length table_37636 = 512"
  by (simp add: table_37636_def length_rows)

definition table_37646 :: bytes where
  "table_37646 = rows [
     0x4D3C160E5869A0AFD413383DCCAAD194, 0x6D7DF93D6113B76A0505FCFDED9EE32A,
     0xEC3E547322A87CAC8BAB2E28AC266424, 0x0B7040EEC54A1152D848B5BC994B6818,
     0xA67D4BF3737C51672FE791FD55953EEF, 0x8E25946C31D792267AE8F10D45CE41EA,
     0x6585C3561A57FC2F1BF2EA9391CB8AB3, 0x7DF11A975FC15CD681ED023D31D2648E,
     0x9FE39F9A34C588F9DE5015BFC62814EA, 0x9EB3D6C1565BFC1A6A4EDA9B9013C7C8,
     0x8953BF918D1536E3B25BEF3559469D66, 0x415D329D357DD0784F7D49BF022EE8DB,
     0x63F8A585B016568537BA64E7EC920783, 0x343B8404308C8B75020C02408E3BDC34,
     0x0F7B04429399D1D4C11F2D494D32BD14, 0x49FAF1DEF9D3ADAF0F2220C1309BAE97,
     0x431A326F45FDA73E9BA290962EDE98A7, 0xB753322A075A0B9C911E9ACBC8DE78C8,
     0xBD1CCAEC49744594D89E249FC35C84B1, 0x0C12C34EBD72B11C8126163C1ADF0487,
     0x491B3B7466293C51D6F4972B9C4ADF9C, 0xAF4E601A498F374B38041D006E967FC9,
     0x77A5F88967799117C0C7EA898E6BAA0A, 0x8BEF0154A90FC805C376F28B78A37DA4,
     0xAB644BD12D06C8540BA9363C02F1A0F5, 0xDF54A97E1AE88476444680D9FFC2A45B,
     0x03F40B80593FF7DFAFC8E63281838DB1, 0xE8BEAD032E2357D9900BDBF6B8DE97A3,
     0xF0C08531CE63AB2EFEB32355DB71126A, 0xD5F12D0B3C03D61D6860039F73A29B35,
     0x00D86D30D6774C5FA539B90642A2A424, 0xD9E2E96E160BF525CBE38396A16EAC4D]"

lemma length_table_37646 [table_lengths]: "length table_37646 = 512"
  by (simp add: table_37646_def length_rows)

definition table_37664 :: bytes where
  "table_37664 = rows [
     0x925BDD63ABD91D8470ADF607BFD81A8C, 0xAD1400D49DE303C60AA6CEB4F6E648CD,
     0x7E5C3B729C4D76D64E823F52A244C482, 0xAFDCFFCFC6060751AD4B479A8E9B6E28,
     0xCF431800A7D9A7FB481055F77A9CA18B, 0x38CA26FD1C557944211BA46A0703429C,
     0x6831094A79B67419FE059FAB0BFDB711, 0xA67435D95AE70DE10E4C6759A452CC07,
     0x66ED536FD42117BD3182DEC248982CF7, 0xC24441B08208E2C6A9297C7FFEF5C320,
     0x462384980EB7445905511195A1BEB215, 0x494F0CD88392557B765B5414AB3FFFE2,
     0xEF9CB1D18DDD8F6929E72566D6BC4306, 0xA83E2CA64E71E9DA90C8AD9A15182065,
     0xF379D088FBA4E1C2B0343E5FF6D0AD9C, 0x525800C84708E97AB69FF56CEF3B0D10,
     0x9B88FC6C516CA0A2026C5BCE23A17390, 0xDE9DD6F01E40B09F49BC247F4F8D3768,
     0x7711974C78E43A9A014ACCFEF60011F4, 0xBFAEC91626CF91ADD319B1A85BE86FB9,
     0x11348A0BD26139C0C69B508B99B3AB64, 0x9F5C72F24C25A44D6FAFCF844F630BCB,
     0x97F85F11E2E192166A1C4A4B1BC3674E, 0xE462D16550BD09A1771BF98203941436,
     0x48E8018EF9242A775F6F27886F373421, 0x75BF60FC7CDF4ABE071D13F4C3F75AAB,
     0xDE41432E53FEFA516E281EF71F9690FC, 0xAC074FD9AEC0519FAB792B02529FEE8A,
     0xEF38F7FD02BCCDA09056065334034ECE, 0x351A68BAEF01455B3E0DB182E5712CEB,
     0xD1F16054A6C22EE8CE450504B21388EA, 0x6F0BEFCDE47043FB6E227160C7890FCA]"

lemma length_table_37664 [table_lengths]: "length table_37664 = 512"
  by (simp add: table_37664_def length_rows)

definition table_37703 :: bytes where
  "table_37703 = rows [
     0x623A4ADEF13A80F1FE4BBBBD4C27909C, 0xB429D2C78B11EA5385A8323838BB56B7,
     0x52D3D6BFC0751BA2D9EF293C3D8AC4CC, 0x2F6D8C34A532DC1E12C8898DB403DA11,
     0x179FDC4930EB950E0EC095ADF7722202, 0xA33115415D5B9A45EB4B7E7886A1D3F2,
     0x1D39C8767C17ECC35B389EF7CE05638B, 0x6A53DECC2563C94C49DB607DB644CFE3,
     0xB253B1BF03E665261E23B3234FFE3ED9, 0xBBE41373562E83B8026B1C4E8D9C8622,
     0x1B52430E1DC0C27B15E54EE868A992C5, 0x862E1F3ED2B652CCA6B4424221D69674,
     0x60B8F421D0D307B795D9E8F88DBE2666, 0x6B7EE6C09333F718C1F9B45FC677B421,
     0x77498C1C103F6AC6F9AC16461B2E398B, 0xB7EACF206C4EB0955BF912573C400855,
     0x2A35C2172F8392CD109F7C982346A6F3, 0x914433CF9AE0044A17C46AA3F1452266,
     0x0DF74AD90CD2E244D0F4D28E0259F8B6, 0x22D71207A2444563445D540B0AD09471,
     0x25BFA4674FC8B5AF5FF3429704E274EF, 0xEA357F7505F9065423EF8D1C84F00F67,
     0x1E2F05A4DA4495BFAA1B38EFE01860A8, 0x82C0E48E890D1148B5714E334CF9E6D7,
     0x1CEF7331645F3D6A97B101B2107B24B7, 0x188676CD6B4B6C7B43046F94FC3D36EE,
     0x3A32F9DE007029B4A7DAD3C72D79C3BB, 0x5B13FEA436F4219B62856A0F65B4006C,
     0x4868A14907845AD4942B79B9465CD32D, 0x3E34A8156124426247F9389D6026CC23,
     0x2CDD4D23695B1B7D8655DE04D4D644F8, 0x74A79C92E9E72333B3B1712D6D730BB9]"

lemma length_table_37703 [table_lengths]: "length table_37703 = 512"
  by (simp add: table_37703_def length_rows)

definition table_37734 :: bytes where
  "table_37734 = rows [
     0x34941F12BFD7D994CA8C0521D4A15C40, 0x94BF9974CB5BEE08DC71B3AE5D8A3D28,
     0x14DCD2F3E5FA255C1C4FF73D2A2AE59B, 0xD13CEFB91BE9B08988AAFC76689BD9E4,
     0xCB9BD83EA748EF3F48CEBEC3D43776A7, 0xD65F3EFEB2D11F8D630DA5574744A3F2,
     0x13C995F3A7985F8D7F5BB477E8958C65, 0x0F897CC614A4EB9C50F297064073B624,
     0x4A197841DC65EA934D5A394EE73316BD, 0x51C77F178F5F9C7F4C9E49420D6A7E4C,
     0xD3D5AB47483A0F615099C6091B01A484, 0x83BD366CF234FBCD81CA8D782AEA334E,
     0xFA8A6419C5813FAAB225644D5FFFA306, 0x4C33F4FCAF395889AA2C60A25E51E323,
     0x8F99CC34C769F4FDD3AA795F46466B38, 0x1C0D9EFD50A41B70228FFDB62BFC6E9B,
     0x7ED76ED2B18FA0B39D27B5BCE4DA2355, 0xD18D5B80F2B0CC00F01CF0AEA0A81202,
     0x16BE1CC7389320BEBFBCC02CDCAE5A60, 0xE0D2DC092D0ECB6F745921584A23D779,
     0x7882FCA090084157CA15AB98F0D3F92D, 0x64F1A890C33D072EB873C96D5F4E2101,
     0x092FA0167C34C158AD66237F61C6E0CB, 0xDEDBE0ED1017EC1CC33EDBCA65862191,
     0x517ACF3A762860063D264374F6E744FE, 0x5A9F872CC26AD850A9C3C95D03A53EDC,
     0x61B4A8BC3FBD44322E8D6FDACBC8AEF1, 0xD4E1033E74467B040907B9F791D3229E,
     0xC460C192A5411C0BB4A5ECD2BD3F5911, 0x318E957FDF820E8F52280926E488E1AD,
     0x9F1D8EB3C14D11317F55AD80B9E7597B, 0x10161607180937691560094F58C13133]"

lemma length_table_37734 [table_lengths]: "length table_37734 = 512"
  by (simp add: table_37734_def length_rows)

definition table_37755 :: bytes where
  "table_37755 = rows [
     0xB1576757E4293D857C8B710205825BD9, 0xE5B51273582AD6AB7B81224C970B1C31,
     0xFAC4B6E7253C3D7A59BC48F55CA2D89A, 0xDB09E48DFAA8C79F96409E93875AA123,
     0xE2C0061394E85C92549968D832BD07A2, 0xD94ECB0BE5F0BF7919339B2EEA315CA0,
     0xA09E6728B06E8F429508CBD457690D88, 0x2F2427A961020043827F156708067468,
     0x758645D9900854819E8F285D9043D9D9, 0x455EC1CFA7173B378E7F9E8BB76F8311,
     0x0045BF4ED5E773F200DABE56525E1C28, 0x4F7D7C0FC530AB8038541000E28C8891,
     0x128B36056EAC660B9F366149EC118BE0, 0x98A60EB011F09A20B7A2FAEDA4B1D354,
     0xCFF487755A6514A845C8A3C48B72EEBB, 0xA6F7BD9B8A655A9AD914AF0D88B0FE58,
     0x3D46A7D32DF6D8E3ABC08B0433707D47, 0x5A0043D4E123DB8A42AB7D9D939CC3AE,
     0xF14394689AA1C13148A5D13713EB9DBD, 0xD13CAD9FCA9E8421D944081691B52279,
     0x8217A8C2C32CEA08381704E20C4E94D2, 0x106F31FFB1FAC7EB76BB08CC0FFC7FFE,
     0x363779046673D025648AB372A41959DF, 0x604D22880294039EECAE7E599EA77FFC,
     0xB4B2DAAC03E65B679B8B885BAEF8BBC9, 0x98F9F2E0F5761A08D3BD914BC63E016A,
     0xCF671B8E91A9FD41A6FA4EC8E8E6C4E3, 0xAA74CE23BA1FB4B52035048DA81FD086,
     0x70FFC54AC11E8E34E63FEEF26037B42D, 0xF24F8182FD469A6B65AEB0AB6C05471D,
     0x2D513A2A5DB661FFDDFD8D3B82D545B5, 0x8D0CCEC2E31220FF34282D43445D06B7]"

lemma length_table_37755 [table_lengths]: "length table_37755 = 512"
  by (simp add: table_37755_def length_rows)

definition table_37793 :: bytes where
  "table_37793 = rows [
     0x0951370CA1CB533C24A62B8CD624AC2C, 0x44ADD308C70279909CAF66C9FED2DFFB,
     0x40454B6A18DF82C2209A772B4894ABC8, 0x8394A1C4269EBF2F362EDD37EB87F084,
     0xFBE8D548C1E92F8301368633B93ADB34, 0x91A0CA64A4696CC7D73C6FA752B90DDC,
     0xC32465F9573B68E2273C430EFC3318CB, 0x3260E7CAD82712D097F07C23924D5289,
     0x26687D6575353B6815965CA8A58E2610, 0x779B3EC7E71C46EF44DE651729390B1D,
     0x0CE709894D0E657815AEAB8C5EA4F8DE, 0x36E92A3291EDBD1517D73D653EB332CF,
     0xEDADE592E7E485A5E60C7851ED47EDA2, 0x8183B05E0B719EF9655F0BA242CF8E17,
     0x5DA18F54CA3DB6363E594F8041CD676E, 0xFCB12EC5228220A92F0A4DD5313928EF,
     0x65F7C3501D4EAFEDCB789CDF45E526E9, 0x4C806E26848EE985356E78969A6B35EB,
     0x845D1BCF687FEC3561FAE2928A59A96D, 0xEA42D0A37B6070197159DD9563DB8FB8,
     0x0C7C4C31C346D0A36628D1ABD987E434, 0x8DDF8C9F29205A365B4743BD3715C677,
     0xFBCA7AF83FE98D0ED376AA1FCB41C941, 0xC69E6358E708845A38CAAEE40FDD6321,
     0xFD14BE4F4B27540B364DA5A469FA10C4, 0xFD88BC65D623DE81C529E32A4DBC5B9C,
     0x597DE6775E140587711FBDA348BC6D97, 0xB21EF5E63BDF60A1AA8CF27B40BF4B31,
     0xC1CF751FC94A292A954CE61C5145F2CB, 0x0970EDF0C1BD87177DB44179AD0D55DF,
     0xCD5BE5528DFED2501763A8D26CE8C2F8, 0x364343E1056BEA3633CAC76C02540833]"

lemma length_table_37793 [table_lengths]: "length table_37793 = 512"
  by (simp add: table_37793_def length_rows)

definition table_37865 :: bytes where
  "table_37865 = rows [
     0x2902181DA1A3434FDCF75A9E868DA9F8, 0x7FFE835C1F08C9351626E464B7143493,
     0x6476F1DE8F38DBC7BA2BC27FD33CFA19, 0xA4017E19089BD6A302E1C9F088E298ED,
     0xA39BFC2822B337FAAA997975A0829453, 0x7C66DFC883C3D115AFDF6AA79AE21D61,
     0xF8F734BA70A59C88C2643A1D1D887A78, 0x0F4F54F0634B554F2256DDBDC9890DA7,
     0xD2E7E9C32B16D2A838077C56A3244F53, 0x921FEFD5C3E553F121577562343750F2,
     0xC3DE1A67410E13AC31E8068974AF33F6, 0xC27868751FD2A0E1EFCD7D185DA49B3A,
     0x7951AB7F65C9CA78401227E0EA24A141, 0x60214907811808B682DF0D3355B6C426,
     0x9AB1A0EFA9A166EFAB8E5B30694F0EFB, 0xAC3AC712E08397D946E56F20EF2679EC,
     0x4B76B7C5E53282E3B382ACA4DB2A3035, 0x581ADC41D887880B860AEA801F4647C5,
     0xC1E50288CAA809FEEE0CA29D61DE5387, 0xCCC3866D91ED4661CA74F2530D6FF23D,
     0xB60FCC269066FDAFEE96F41132AE027B, 0x26084D3C525F4E7BEAAE7CA763ED0588,
     0xED840E70500BD7F4832AFCC901D8C51C, 0x4F0B50941F5CD01C8B5027F69AE94E2C,
     0xF732727B46E37802ED3170A2027571C5, 0x6545837D1EB59D5A2A9D4CD4F82DDAAF,
     0xCD2470B578ADD61943F5495DFD79A81A, 0xD15D96D693391BB661104DE69905BAEA,
     0xEAAD3D615BE37D1B8C47D97D82FB5C49, 0xE35EFDF15B2E9773DA4CA4BF0A95A5AA,
     0xDB70526EBCE5EF144E4B1DE9CE261FDB, 0x021D8138F3CDFFB46A5E19D46BA6B9A1]"

lemma length_table_37865 [table_lengths]: "length table_37865 = 512"
  by (simp add: table_37865_def length_rows)

definition table_37962 :: bytes where
  "table_37962 = rows [
     0xB85D2314A5F052F8833E91BC204C3E68, 0x120D7414C49CD88A05514B9EC501780D,
     0x3BA21743F248E1CA0016F9A0DFC3FB9B, 0x5F7AD2448158AA7FE5CBD152205DF4F9,
     0xC367B76901A535C91DEC0ADA8169F009, 0x7923A4A9DFECAADD31D4ADEFF81F9D12,
     0x8C2B9AAA78797704CAABEC35FDB607E0, 0x0823CEE1325AF955643F16989DF151EB,
     0x012FE6F9ED9D6EA21CEDCC65326270A3, 0x3F297750CE74D2AECDAD70BD8CB54D12,
     0xF3F81F25599143DB731F4C23B20C9A2B, 0x77C4E169393E703EEF78D57D28511886,
     0xBA5DF75EF8FD3C05D83D9ACCDCA29F77, 0x2B3FF0453DA22EF12C19DCB1B566FD36,
     0x17F5B58ECA2AAE9AA0A974811F6C6A47, 0x58D8BF2AA9E407B09AE1EE4C94E7E0C5,
     0xE8694E86EB5497629A772FBE4B9DD007, 0x7C1446DAD1D6321B77A9488B8908A8F0,
     0xB7B84F1DEE108D18EAF6B6381160C0BF, 0xC75693794F1E5BF1AD96286FC30A72C4,
     0xD6A4BE1D894173CFB6EDB37AE6ED180A, 0x2B589782AB74182171E95A03CC0EC223,
     0x0B2FB94D2AA0E595B4DCC35B021FC17B, 0x4D05A88E9414836469E90C5884692D36,
     0x389AC66067B062E6A66FD2C6010442F7, 0x1D846AC34F35C99A0E3ED06DA09E7897,
     0xD83E2A19D2E0628EC0AB4F3DF5ACB982, 0x256C27213014DBB18553FDC3C141C02F,
     0x7A038F47EC7645A3ED8780FD68641AF8, 0x6B9C1527EAE8C31D80953B95F058B81A,
     0xDFFD3E4E7DF32FD74B52DB7A4F226050, 0xA51BFA349983B6C5566FAD992610DA3E]"

lemma length_table_37962 [table_lengths]: "length table_37962 = 512"
  by (simp add: table_37962_def length_rows)

definition table_38044 :: bytes where
  "table_38044 = rows [
     0xFB924FA47C92127DF46B9517351E2C6E, 0xF5F8811DFA679479C5ADBE5BE2D8934A,
     0x805A1BCCB4980ABB638508EEC0C7448A, 0x785CFF16294351E248876528C36D1D94,
     0xE5B6B6BD0F155D5887CA22360AE9151C, 0x28DF5A5BA88320A818B273855461AF11,
     0x0626930307A3ADABEBA81FEA9A184E35, 0xCACF02BCF297BAC566D20EAC7907143E,
     0xFB249EDDBEF36261D087B4A7E32AC7A8, 0xAD643776A7628D4A2C274A8C3BE01735,
     0xCB7921030789D36438DAC3584FCFFCFC, 0x3BC1066D1507A76F960C41A1C997FFA3,
     0x2E92F91B86690A600A96DC5FB60B06E1, 0x27B6F9D5DEC69E1DFCBB695D4A610D98,
     0x796E90175D2E3075AFE7E2C2E6268083, 0xAB8E95920D93F28F83778CCCF16DF0C6,
     0xFD78CFFBBCE95D085D22E759B4399190, 0x5D0E55EB2CC7BC84664A41D152A01D44,
     0x86CE04158C4D223B354AA8C88E86C349, 0xB00768A7A47C3C72FD5C26C0335B2F96,
     0xD7DE4E81F01FEB433FC25D339C81CE45, 0xC93C9B2CC9DCE8C7814956EB22EA9126,
     0xB556371DB55F995AB585BDD20187FECF, 0x709059BAC38B61258766CE4C947D9524,
     0xF614CE9270B9ABB6661E62209121284B, 0x8538DC0F5C6CC24D2D60098A66D57C01,
     0xE6EFDF622077ADF7F1ABB805DBA159DA, 0xDC3595D1791243B69A04E029954D2751,
     0xDB9E38A453C3BBCFBCB5B54EC62219D3, 0x5BA43D67AAB808E934C07A4FBB99A42A,
     0x36E03238B349C49E0DDE5E49131817D1, 0x3114C3882FF4605A5BDE8349A4F203F6]"

lemma length_table_38044 [table_lengths]: "length table_38044 = 512"
  by (simp add: table_38044_def length_rows)

definition table_38058 :: bytes where
  "table_38058 = rows [
     0xD685F6426104731B4C69349DDFFB07F4, 0xE6D094CD7EBB78CA231CFAAA999FAA1F,
     0xD886DE0AC0A30A93520A18464182DB62, 0x31AB74CE7241BAD25050A07ECE7C0CB9,
     0x459B5F960BFA6F3F9ED59415BE361480, 0xABC776636D69D2346FB03747E2A2A82F,
     0x7400677F20C72FADDC94C6A39F373896, 0xEFD69430B120525AB95FF05F99908A8F,
     0xA4CF6953BB8431F06F8150DB34BB6126, 0x06C4DAAFA8B108161360A3833488AA1C,
     0xD4C5D312BE1B9DE8D11CDB33C3A1161B, 0x90B0A53AA4D25637FFCF10DBC3ACBACB,
     0x7FA828329573ACD1AB50F09877DCDE87, 0xF116EACB0315A5D4C9DF43F6189B96C8,
     0xA29B1948CA711BE9E0DBE0C0270E86A6, 0x8DFB2D8F0017F747D4A5A57B76C5974A,
     0x4B5A77E98D05C44B6F8C028634353666, 0xCE11D86A42A85148C3665BF7D758B096,
     0x277CC32EEAE10D22BB5CBA6304FE64CB, 0x52384A6F9ED8B79CAD84E0237C4E3B2A,
     0x6468B13CA264C22876D407E8D18EFBEA, 0x4BE29D6E5C32A4D1D30E65DEB3A5AEC6,
     0x6522AB8EB6D7D71482A5689AC3D6CEF8, 0x29A47362A7371F104BC2E1F99F00865B,
     0xF04087E3EB6F6B3B174700C468BC02C0, 0x5D7CD6239C28216BE840B5FD21E45F59,
     0x05A5BF0B71F359A3A4B4F57BFDCF65A8, 0x4DF1E730D9ECAD939D6C54E04F3599ED,
     0x33F2483CFE16C509A07BA08EC31A9904, 0xDD41FAC740161E4217C65AB20ED58093,
     0xA3435F37A5BB5BB8FD7E8B816D425C2E, 0x5CA9A53B5DEE2AF822773163BDD1F025]"

lemma length_table_38058 [table_lengths]: "length table_38058 = 512"
  by (simp add: table_38058_def length_rows)

definition table_38125 :: bytes where
  "table_38125 = rows [
     0x38BDA89E49C2BD0F219E447A8ED2224E, 0x3675EC4991EB73173C021D149B18DF23,
     0xD57041120C989B3E635B67265F4C9525, 0x462407484EEF826DBADACD0AEAF04360,
     0x24EADD39860E2CB2E1B359A2B64BC69F, 0xB618F2FCEEA242724C82CAC26D55EF05,
     0x2D0C6B6651FCB3C992B319DEAA4E3D26, 0xE31A2CA1A07B5FF4F5F843611031DE45,
     0xEEA4A9929E89661C4F520321A5817C66, 0x4A28F4222CC6BC0CFF261519BC88C960,
     0x5271891BFDB059377BE7D5CD784B76F7, 0x5681642264A7FA181350540371D258E4,
     0x7EA686445E946D86D2CC10C8E3F423A5, 0x53263568D46705C1694D688F6B8D7F23,
     0xB83A858A193617CEC8BA1D842FBD4ECF, 0x103B163513D231150E680C27E568431A,
     0x6A45430863F86FB77D56D04887AFE8DE, 0xAE578687662CC2D2BAFB479964D68A9D,
     0xFD595C5D9AC7B8B4B25D1639026B581E, 0x7C35C92ABBF0CE1D031516E4768E1FE9,
     0xC3875DC03A4F7124F6A3BAA611DC2E84, 0x52FF1A5F2222790A71D175D53DA15C53,
     0x766D5F32CCB6011FD2549FB3B69D1F1D, 0x28BD10E14C564F12FB1AA55CAA04843C,
     0xB1565CD7B4DF9CECD122583488034461, 0x216AD2B5DEBD733CBBC6603394718637,
     0xC2F55033E05CBD4DE5A1F009F0EC341A, 0xABA22A08F4A866AD07B45900A42A4A02,
     0x1547969CFE21A1B2D8E19339D17C657A, 0xB1462025CBD8ECF12D3C02430DC8F0A0,
     0xEFDA8150AD567B5C00132AE572BC6ADE, 0x31B906E54487E914D6D2A17A8032C719]"

lemma length_table_38125 [table_lengths]: "length table_38125 = 512"
  by (simp add: table_38125_def length_rows)

definition table_38170 :: bytes where
  "table_38170 = rows [
     0x783FEC15EBDAF2B062D70DCD15066294, 0xA3256E170C6F80CBEA6D881E28A59DD5,
     0x330C0CC33D1F260F657C43EA1FAE1F14, 0xE86BEE04EE62B7DADF8C9C342F9377D6,
     0xAE8C133A744EB426BA89A253A933CF50, 0x519EC401B67C777B9B3190A51BF01D29,
     0xEE3538E79F13D5102CF395E4B0AAD076, 0x643ADB5A37F4EB8E817B24358130D743,
     0x5B0CADCB7850FDAFE051B2B44A72C03B, 0xF8A35A38495E0425C8B8A5A4300F7E47,
     0xFFA2199AD069C598D8ACE3B7229692F1, 0x0E009F23CD4B5AA8C5362B772157EC9A,
     0x48C4ED13130609E208563898A5509B68, 0x3DA49A18CE998369E93DC9E84260F810,
     0xA8BB49E26A855B42365D07FAEDFE59DB, 0x80117FE07BF34A28DAF98C7B4A3342B3,
     0xFCC8B04F74B83DFEED651B9D89B26894, 0x48863D169FE64C80B96AA6DAA18A7D8D,
     0xB63B7D8138EEEB95BF574ACBE68A342A, 0xAB05E5B823F262550DDEF0811CF3AFE3,
     0x0465BDA4A1A252003854E48DFB614C52, 0xCB1EAE22B6B77740A4A4AAC893A9DBF7,
     0xF3F361B7AA580A42C229121BC6E1D627, 0xF8B7834C6DBDB2C2A1CE29FCE5E2C5E0,
     0x6D39268C16B469A8EAE1C7450E0DF4DB, 0x9CAC3EB90D08758E5F8AC518A8D534B2,
     0x00C3275649A29E464825FE27138A7C64, 0x9425CDA9ECDBE64B398DAE1F312C5F37,
     0xE60824C643DDF8485D871A20BD12FE57, 0x7E121D91907C90FB803DCA37F9DA7A75,
     0xC6302B6261CAE1A9B803B1F5BDA176A0, 0x77DEEADCEC80692752C2343317DC1E97]"

lemma length_table_38170 [table_lengths]: "length table_38170 = 512"
  by (simp add: table_38170_def length_rows)

definition table_38248 :: bytes where
  "table_38248 = rows [
     0xDEC2B8911EFA66CBE9450AF60E6F9AF3, 0x41ECA6C784055BD36B7B4CA4551826F3,
     0xBAA8419A7EAA99E3A41131ED3ADF44CC, 0x283CB7FE954FCDA9667E581199C82593,
     0x3ED0CF9BEAF2B11E694A7273DD4D3956, 0xD42588662F411C93503C0680B016B110,
     0xE8FDE26AC7FE513854BDF35A61BBF17E, 0x5B739EB779FBAC4401D05990B5E0ADC0,
     0x71525C3CCF6ED6460BE9158CD644B640, 0x8AFB379D7E810003B3660860B2DC938F,
     0x391362AEBB3359A3D3AE1C23DB1704C2, 0x8464F01AF77C0FA173EE9B724250131C,
     0xC0EC01995BE4506A801F8DAB1F15B186, 0x45120B3DD073D8F4C083664ED6D8EEA1,
     0xABB228AA77C1DC8D12981A5D5469606F, 0x95992139D5DCDDF42C38E0D630711CEF,
     0x079EF851BB0F0E46C99561DAA0BF6DE6, 0x6E23474E19E3387427C1EACE176839A0,
     0xBF3CF96FCAE374BBC86F43798A60DEFB, 0xE4A103D6B7740CCFF440C6A3735FD32A,
     0x1EBCF6F6CC624F38A060657834966014, 0xA47513870F70879674A9F3E950F225BE,
     0x18BD59F3806A15FBC2D135BB39A920C5, 0x3DC912BB3055E6472F380BDA36ED05B1,
     0x9F27B7FA844220DC452338686B1FF7AD, 0x31C52E0500364C74295C5860CE0EAE2E,
     0x51BDBA2A0871DA4E7629D11C93C4B905, 0xEF4E2B0AC91F9D16DDF3F94AAEE5D690,
     0xFCAAF3BFA0EBFD50B022A24D38827494, 0x4C2E3EC21C8C05646C73153A8DF17759,
     0xAEFCFB4101C0B8279B38B38F55776815, 0x9134EEDA4C828BC6F4549A73E6BFF195]"

lemma length_table_38248 [table_lengths]: "length table_38248 = 512"
  by (simp add: table_38248_def length_rows)

definition table_38459 :: bytes where
  "table_38459 = rows [
     0xA9D9351646F4842A2ED69D012FBD2EAD, 0xE01CD763D8699A8EC00D657F7244EB8E,
     0x6612BCC05E9F293CD5FF8A1B405052DE, 0xC1A529E4D2778E8BB3BF7B0939BB26AC,
     0x44622A000097711D56E6F0EF1824C1B1, 0x7B37F9BBE321E7C7BB8F98BFB9D1AFA9,
     0xD804B4EC308D13CAC0F3EF096C2C2CD8, 0x9C2036C092AEEB78C6F579D993352D19,
     0xC5E129C176A28508512F52237B270A6E, 0xF245B760B9E0BA57CC595938301BA339,
     0x8AD6382D4AE89C6CEFC87D0BD5F6FF5D, 0x20CEA7A94A3360DBBCC41F8E2C27BA7A,
     0xBB5C662C811330D0C48ACC1855A632BB, 0x100DA030EE9D771AC7CC9C7EE49BFD94,
     0x9EFD8B091B270C8538286A588CB6245A, 0xD007E89AE7205DCED46401F9CFD372A0,
     0x4C6A338089BC525526E871A483125419, 0x53B9F5256C8D38635AD7F3E9146833D4,
     0x9CE1F45B2E229A0873EFE686C5A0766E, 0x0D4A13F4B26DB2E8BBC310AABF03037A,
     0x6249319A3DA7EC7DCC4AC28AB96568BC, 0x09960D6AAC0C49349DD8F6C118EBD380,
     0x38C2C8912767C747CD74F40938A41B35, 0xDD97BF7A40EC8BC0A3F8FE1A7A544551,
     0x15D79BCE23B433905B63D2F9CEF09AC1, 0x79FDCF53501C43706DF2BF45D0FAE8CA,
     0xA849C62ABDBA78375B82CC9D5557449A, 0xDEAAF7B9152CA4324CFDE2C2E3BE7230,
     0x971BDDDFA88D8F358F23E8A89E84E178, 0x87D67D57F90032E785AA8417BECD5577,
     0x57986BB5F020997D05B521744503057A, 0x871B81FA9098FBA82AD9BD4C21C5A5DE]"

lemma length_table_38459 [table_lengths]: "length table_38459 = 512"
  by (simp add: table_38459_def length_rows)

definition table_38765 :: bytes where
  "table_38765 = rows [
     0xD7080FC014868A64C38E5113A40C7DA7, 0xC8A96006D97A946B3F39D3B4AD893A6B,
     0xBF048963ECF279323BF65558F2E8BC4D, 0xE3CB091704A4E125DC5487EA97940C0B,
     0x98045935F0C054C2FD9D9DB6CA3FE8EC, 0x64C798B786208EA6FAC309C78E31CD1A,
     0x3AF5EF0BDAB17E84446CBAD38AFEA5AA, 0x8E1E714922551D3F16B0CDF5A36568C4,
     0x5E8482B2FEA8E9291572BAEFAD508272, 0x7954269D625CE8F91857C89A0022DFCF,
     0xA01495B4ECD6B21B4BF6A1EF86C17382, 0xB7F042D1C0CAE63A97D5E092C7F1CF39,
     0xA8F8D832D5A66E6AECD742292EAA340B, 0x432A810F5237EC6D8D8BC493649C5FB7,
     0x5B47A5A0F05435CC2BF35F6D69D4A988, 0x29EC303AFDED4166D055A23962BD21AA,
     0xEB0354D31500A5EA4AF91923EEE44718, 0x7753D5603CD08E0EAA64E75AE14EB49B,
     0x9F1DFD4824876ADFE7B50C3C9E1E14EB, 0x879AC43885D5F8BD904680AA6A3F659B,
     0xBDBD0002AEF7A55BCB0882A71D79BF33, 0x5264190F25D32913BF69A4B5BA9E3CDC,
     0xCA35A1F7414BEFA8B3B0AD1010A8F0ED, 0xEFE1CBEC2C19D955D26A0E1DD14DE592,
     0x735E10D36DA53737B326AA14B2390BFB, 0xB2CB48B3A22547AB3A13379F2EC5F46F,
     0xCB00DEDCD6A1F8C9558279116706E4DE, 0x162B8C0EAE7A37AEF1BEAF548E0817E2,
     0x7B1B5EFEB5E8849F14311B42C63E09DE, 0xE951B4830F38F302165E371B25FE6FF2,
     0xF3DB5E4FD7D7FC5115A0BC0E1697478C, 0x0AF52B76232A043272B116D4AC966B0B]"

lemma length_table_38765 [table_lengths]: "length table_38765 = 512"
  by (simp add: table_38765_def length_rows)

definition table_38882 :: bytes where
  "table_38882 = rows [
     0x62BEC08DF6E5CC266657D508C6C2FD3E, 0xE7129F1BC778498DF57FBA4B77A3C7AB,
     0xA36D2A8556EA079AB23B531C65838761, 0x2DC36E8450566F4CCD2E68E70BB480E5,
     0xEA6CE8B92482C6F68AA5FF81166E876F, 0x68293C9F18B5AB9E1A5C9ECC89D109E9,
     0x23BDFD02ABAA3AEAEF436F2A3A76851F, 0x6B04A79FB06118FFB84C45FABCBA5B90,
     0x13EA2F3902B9620C07AE64580E21092A, 0xAA2A3F0249ED5D53C437445F1FB66D8B,
     0x2A4DF49872813A0ECA068E1114EA4870, 0xC90844FCCCC854ED5D99C5A1016F7F7E,
     0x55596B2090A833BD2017D5150BB8DA49, 0x1BCED9D8C6968606DA8EAF4021384B4A,
     0x3BD61BC01E0092FBC1684B7EF07E35EA, 0xDDEAEA52753A42F2E2F58FEE8FF442C1,
     0x1980F8E9E7C3999F039BA717DD8DAD9C, 0x9B7FE1105C4D089E8FD38C37E81A9EAF,
     0xE70C9BB185276697E4DB2014D2BF90D1, 0x4572A2E959EAEC3105B6E9801FDEA834,
     0xEF3DD9D7F73BC23CAD3D48B89AD4010B, 0xF7B8546FC880C7725CF2D9B904C49D37,
     0x7663B847CD0E9487367C9DBD9F506217, 0xBA08AD6BD2234585DE0A28EB92ECC35A,
     0xEB65FE7D2341C53428493C1FA2209FEA, 0x932252EE9A923298A9DF591AD1BE683F,
     0xE9E145E52539145ABC3878DA39940D69, 0x137A89C62D9028233767B736C2CF402F,
     0xDE10C8DA3E19A09E22F8554A4A20D8DD, 0xE0214A6118FCE418917C2B975EC8EAF8,
     0x3887633FDF5DD19195E4633CBE1BA248, 0x6AD9673C2CD6F03CEF84D4367F38268B]"

lemma length_table_38882 [table_lengths]: "length table_38882 = 512"
  by (simp add: table_38882_def length_rows)

definition table_39023 :: bytes where
  "table_39023 = rows [
     0xB961D026CAC9E1A96EA5EA1581578821, 0x4926B7C1917D9CEE3FBC4C60E3566B36,
     0x4D233468D9376C1D6E80B846E3A7C308, 0x407486405557F837545C20E09AD903BC,
     0x816F9B18D5F30116CA37AB80A4483444, 0x77C0A513C548D5B829844932F25012EB,
     0xB3FC08D4B79C8AA591C12B502242C4DF, 0x43FB646604E291335A76611E7FB4BBFF,
     0x496AE27EB749BD2F641D19097432F5D6, 0x9FB9279C968CE76D6E11978497786D94,
     0x4DBE49F74A49A9AED09F82BCA7F78C03, 0xBD477F0A5361E1531FF7D4117B69B464,
     0x0EF790799C5291BB2BB2E3C2015F3232, 0x5DA8AAB163CC48AED15ADD7236392390,
     0x10AD8FF3E7CB9011BF123D521B7EE118, 0x2D82A271947DAA2994DEBFC610BF985A,
     0x6F27BDFAC7EEB617669704BEFD9A6C6C, 0xE357B85E239165FB443768ECE959760D,
     0x493C1D22EB7293B0AE821DC580215487, 0x7FE79A3543E3017DF02EADE57CBF8C41,
     0x0CEC7672F58E39A923661416697D5666, 0xB4399AE43D3D7088C4CAEAFF0967EDF0,
     0x389F9E50A02A850D718653AFD2E5E059, 0x4FDC2246B39DF7655922B94458913ECD,
     0x3FA1D65027D61DE209E6FA374039A4AA, 0xC9719D2150F7A006E33C24AE440A499D,
     0xD3CD53FC066D90760BAEE15642D387EC, 0x9C6DCCA6B97CE0C72B9447B154B84C6D,
     0x4653AE0F125535DE6EDEABD279CA1505, 0x0452DD1248349E8820632CC89CD112D1,
     0x84300424252F32C2A0FB20D480CD9FBF, 0x783BFE1DEC493D796FF3BB95F545DCF4]"

lemma length_table_39023 [table_lengths]: "length table_39023 = 512"
  by (simp add: table_39023_def length_rows)

definition table_39028 :: bytes where
  "table_39028 = rows [
     0x21C355599408C770FB094DD7B0711D48, 0xB5C81AB5E2C72FA40E59979F94A64326,
     0x6AB9A918E4C86429938A4C8B4FA350C7, 0x362634A8C48816F242436D740559C1F1,
     0x9622BAC0050706220FBBD3C9C0DEE799, 0xF7BE8232095DECD27DC2739C871F7D75,
     0xFD4C793598A620376827E17B44BF5098, 0xED1B156CAD31140E4B81F2EE8EF33A07,
     0xF30366C70ACDCC7BD9B8C14B1768D08D, 0xC75F28CAC3C4ACA2FF75E8F50FD8E63A,
     0x40F38C0AEDBC97DE136D04753FFE7108, 0xC02887119CC175438E24CBEE794585D5,
     0x34F26B75E73DD8206F8613F94E6D66DA, 0x4057CFA3A44DAC9CA0A725D6C74FC7D6,
     0x7D2321A5A33462D0630BCF1AE395ED0C, 0x12D0D41A148F154449E169F92D0C470E,
     0x8363A595190777106A5A8C3534BC3576, 0x0C2C0EFB42208C93E802259A66900A2F,
     0x9DB75C40988286F9EA45F9C131C23916, 0xFDE761E9B988D34D485D3312836CDF92,
     0x26E51742D24CC783C90E7D609ACF775A, 0x12B586B4CEA2C9BDED94A4A58480BCCB,
     0x549F55CAA00418635612C19CF7F75765, 0xF97ADE7EC9E5FD651E030F558DBA16BE,
     0xF4259FA01610AB91FAFDB3C0707A89D0, 0x655263D233A1D2D8FD2F4EC919DD86E9,
     0x7B9ACD828B0033A53F0D1CB771AAFEF6, 0x09E31B716B9535FB4D3F0400091736D9,
     0x8046394B32510E52D7924620238A2EAC, 0xF0EDBBFE4E58D7E950A34C6DB4E54158,
     0x33DDDFEEAE96FACE7A23C33F228568BC, 0x360B9D4E04629DCDC35E9FDEB2DDCAF7]"

lemma length_table_39028 [table_lengths]: "length table_39028 = 512"
  by (simp add: table_39028_def length_rows)

definition table_39083 :: bytes where
  "table_39083 = rows [
     0x167A474E717B995774B8D8BA67003F7D, 0xED88C16A708FA02C67191FE0AEDFB25A,
     0xEE7C54406CEE0D2613BB3F90C45E667F, 0xC6048B98C0719960E93328C01EB325D4,
     0xD28B43E8287A500845D3C2C1DE3BD2FF, 0x267F2EF3B139A582973220C48EDEA0CC,
     0x673D162C858ECAE444C8076DF5AF9B67, 0xE9BA9016F8E0F94918B63BC8107B0CF2,
     0x0F003AC3D819DDC03929AD5FDB9531F7, 0x44C3848E51FA94875AF29CA9695328D7,
     0xA0F8F48D04B4C7C4E8F0916E160EAF6B, 0x2EB785885895C021E913565B88A17271,
     0xCB543728BBCF2DD868B815F330B445A5, 0x955669967439E29AA455D18D025B9125,
     0xFC4AB3E09E727300CA0341BF5D198F4E, 0x59A440235012DEB14BC36C8A2CF8CF5E,
     0xED0C7DBE68E8CC46DCA1C737CA36627F, 0x5BBD1AAEAC8C32FE7AD572D47C989AB4,
     0xBB0CA223456B2AFCAEE6F28506219833, 0x59D5061B4BA961CD663556D822EF7EAB,
     0x1C58E998B5E085ECCB3AA86D8796A884, 0xA26CDD4F065CE40347AF19004B2BE41A,
     0x60682A70C54868A741E2E2C351F4ED58, 0xCF63446B3CC81846CC895D013C426F3B,
     0xDEAACC5109CCF9741086B896D569D342, 0xB14BD9058E1577C20950A66FD0C2B6A6,
     0xC6C60270ADBA3B6789F5FC93E852CC0C, 0x621C14106F6D1D98B6DF823F01331667,
     0xF6FE8B8F579B7D7B002EE2EC856093D9, 0x211D95FE411E14B03FD1555E1EA9C086,
     0x93AD365D23BA8330784C2F2914BE4AEF, 0xDE54AEB997AA9B8AE9E0ABCE220D0CE2]"

lemma length_table_39083 [table_lengths]: "length table_39083 = 512"
  by (simp add: table_39083_def length_rows)

definition table_39103 :: bytes where
  "table_39103 = rows [
     0xE3BA8DCCA5C526BB5AC52DDE20731DC3, 0xA5885205D687EDD31D8D3A649BDD3D04,
     0x7ABA6B3EB35499D29293E1F680C0C4FF, 0x1062AAF9FDBBC5E9A6D25223B4A73D73,
     0xC90AFF167940894786FC9F79BABC2194, 0x528F23E6655F3EC47258169DFF3B18D2,
     0x9ED047A2D98D235FFA986A1B2A61E798, 0x61A30A8A6E57FC381A6062ED19D46134,
     0x9402F3058C2F1F71CC27A290F85B48E1, 0x62F4AADCE9143D502BA800B53B673009,
     0x6F1E0D53EFCF7245D7E472C5733721F4, 0xB112FAB5D0699F23C724393D3AFE657D,
     0xBAA8DE713B4D6123DAB062832B8F472C, 0x45DEC81B6BB83841D4FDD978B9074668,
     0x441412F7DDF091F96592C3248A25D6E7, 0x5AC926C4D37B762D7E35E7E3070061DA,
     0xF71592DCF9AC2E8E8C0136F5C1E95802, 0x1D0245723DC88F02F431CA0C11CEFD80,
     0x07262F3535F2E0E83DC58F246955F2C5, 0x5FE8C8BCA222B1A8ECB75E45EA29D344,
     0x55CB417AC825079022C9B20438E245EB, 0x251642DD01BCD2FC6E6B8DB5A450E64B,
     0xCB5A3BD83405DDD229C6E28930AC9C8D, 0xF224AD3B079542349BEEC3AAFB88C446,
     0x1517D2AFA7727DBE5F3850038442B24C, 0xCEC53831EDBFE211D55FEB18545F0850,
     0x6204EFB3AE2554B8E56630FD72574CE4, 0x43A6FE3B685457F69C54635EB4384AAD,
     0xE8AF5D493A9E642A3649CF8E24D067E3, 0x8ED9E1D8DA137DA37EBB5B0C073E0126,
     0x930CD647E4D1BDAA8D0FFDA4C7119315, 0x3EC79649EB3F0934A19DD1283C3BDEBC]"

lemma length_table_39103 [table_lengths]: "length table_39103 = 512"
  by (simp add: table_39103_def length_rows)

definition table_39241 :: bytes where
  "table_39241 = rows [
     0x0A045A81EA386516EE53526EABCF50CB, 0x9EEC0226901AB2E3AFA77963E10E5FDB,
     0x6EA8218BF6861A95C3F7C0DAB3A1EBBA, 0xAD39D9A809211CB8C75DF4D803CF5D67,
     0xDDB28DEE839129057C211DB50DE2E670, 0xD83DC9AE5231312FB0B29B82B338DCD0,
     0xD66412CFB1BA8D961AFF67A67891D3DC, 0xA41D0339A83D1F472DFD9F1084CD4B78,
     0x9A8886AD97C97154A7BF4FC00FCFD238, 0x754D7ABB6F783B1CA54E55A67A320869,
     0x8BD2901753DD4C90C551A811C6265EE0, 0x6154CCB1D7745A2531CC3B5F7C9F5867,
     0x342593B6437FE89DBBD0A525DB7CD80C, 0x5C96BECBD5F907FEBB1D9D546AA17BA2,
     0x6BFD7B5BE49B7F3856BAEC1B69E040CB, 0xDAC57C39B023BD95128B181903D9DA3E,
     0x64F59A03E5028424F65EFD1300123B0C, 0x9C24938D75BB9078B6906EA25518414A,
     0x6D067F3C50C1F4400287C1C80F13C890, 0xAB8AE0F6E203A5745870AC929CB0C18E,
     0x70E134CD60357E9DB0B761D6EC1B73F4, 0xD198128AA294759AACBD2713BA8CBC65,
     0x7242D267B32EA9F9DF6A0D0DAE251E04, 0x78AC73C7A3E4EBDA02F65244F8F9BEB6,
     0x985BD5DB09745854DFFE5CD5EF8789F3, 0xFF7ADE480C5696FF340C4AD1EB5EA060,
     0x68E1E5F641F717C0BBB008CE9AFCA1EB, 0x0B5BD5C1344E2E1469A739905A5691BE,
     0xDE61A9832B8E9DD19BE1AD574561681A, 0x6288EEA8738B017D3BF92F52A40AF28C,
     0x71E24C3572F23029140294670BCAD8FD, 0x49688546B277595091A7E9C94D1C6B5C]"

lemma length_table_39241 [table_lengths]: "length table_39241 = 512"
  by (simp add: table_39241_def length_rows)

definition table_39362 :: bytes where
  "table_39362 = rows [
     0x4DB4C128D3249079B9209D574771C8DD, 0x2D0A6B44E5556747AFA74EE543D48E40,
     0x1B78B153933623C6CF51A3D52E3D944B, 0x0EC539ECC76E0B30343C43B1DD7BFBDE,
     0xDE94526B7D5AEF59E9905EF6AF70EC0D, 0x964542FD2143B07F6DF3901E464927A8,
     0x085EEB9F6ABA7129619D92C438C16BF0, 0x0CD2C612126977DB675B927A05FEDAFC,
     0x06E754C9260427E078EECDE7BEE4F879, 0x86D621481B119F79FDD47484CC094DEF,
     0x37C39CE354E3D9D8A91E83DFD13674B5, 0x86CF7D1AC96F99D055C0371790F36B43,
     0xA7411077468FFF53E18141B2EB8C417E, 0xCC533AD7A6B1A34C72799435BD030E56,
     0x38CD6718E72FDD27BDF343EEEFCBD359, 0x3F44121176FDD52BA5D39B4C9FD813ED,
     0x8ED1BBE1D6DF05811A6033320EB7F8D6, 0x0F2E884E25AFDBB8A8DD3752AB3FB0B2,
     0x481B0ACDC9C2DE65CA5AFB3680CA68BE, 0x523BBF2DC12647EBFC17A2D3906CDB5F,
     0xCF6D1C86785F403BFE9CE0850B657D36, 0x016B5A9D7B3D3FE2636AEA73D157A707,
     0x4B181437B157DE5BF75BB7F16DCC2FFA, 0xF33606C16E7A747C02E6A041378BCFE5,
     0x1634BBC5AA400BA22C36B2B777269409, 0x5CA27439740827E7F71DFE5B1BC8D5DC,
     0x3BBE72DE6ABD0C2BAD866A1CDAB2E49F, 0x9AF9E101AC309A18535EB7BE7588F564,
     0x38C2907785CB708915778CE9FBA00498, 0xEE5629E8D2FF85CADB7CA0E12FF454D2,
     0xDE71DAF34B5AD9E8402F1FA164041CA2, 0x755A2A6A5A34888712BBF07F71B89ED3]"

lemma length_table_39362 [table_lengths]: "length table_39362 = 512"
  by (simp add: table_39362_def length_rows)

definition table_39425 :: bytes where
  "table_39425 = rows [
     0x0DE7602E0E4C2E35A059C7E3CCEBEB99, 0x1C94B2C8D34220B31F914A15D2D7F5C3,
     0x93012411EA0C265CB4796506EA7C0634, 0x115208592A45E34BA0AF6E8DA9F5B984,
     0x8654F6AD852CF41E39DDDA954CC257E6, 0xE19B27FFE7A4CDCF53E68389E3E24356,
     0xDDD4B204E5437ED0753033755D277253, 0x5BCC3C90B7FE8AB5D2CBE2D6062612F4,
     0xEC13AFE9F674F5259A5504FBAE29443F, 0xA33EE39B72FDA42587182D33CB5D1E29,
     0x6AFB5C3FF860CF0922F4A1D4B2E05510, 0xA1A88A85BF130528C2EE0339722E137A,
     0x9DC0C0D83C1ECE69EDAE1F4FA557FAD3, 0xDBC9892214990498BDB1C0E5FCACC8F9,
     0x43EACAC794182D54A2C6AEF4D31681CE, 0x775311B03A3AA387021A397EAECCAB0D,
     0xD69E1CCA3BFACC309F1032EB139BE312, 0xF46309753A9B104D22DF8786A4DAA9C0,
     0x8452C78D202667D0456E51CD7FBE39D9, 0xD6AF1CBA125D63075FF5CBA621E744C7,
     0x05A82CFB563B0DB59E89E460C49F85FA, 0x9FC2630CABD08B9F1A08A3890931676A,
     0x849A6156B6716E1DC6D0F0BD973904B4, 0xB84B591B075DFA2185AB37E599401777,
     0x2037FC5AB552EC5C7A2069EFAADAE70A, 0x141E372131D26DED6EC868D50AA4FD5E,
     0x7D27F656F503FA4C26BAE4F34DE51D39, 0xCE4764D0E5584D95C5BC2B3EC8D63B92,
     0xB8122CA37C9510099452E222ED94EF67, 0x1B243CE1A32618C9BC3D06404436DF2D,
     0xF6C6CD7362D68608904495F397B1EF05, 0x9088A2ED853438E7521C03C984397BDF]"

lemma length_table_39425 [table_lengths]: "length table_39425 = 512"
  by (simp add: table_39425_def length_rows)

definition table_39484 :: bytes where
  "table_39484 = rows [
     0x98AC9EC02830772686E7EE7838943635, 0x2642B018AB8F9CE18B647FA8EDDDCB04,
     0x1118424AB30C5A9A966B6A682EB07317, 0x87600716C6C388AFEFCCD5F3B5DF180C,
     0xC5601DC4450DB24888B3E67875D372FA, 0x66214768F84AD76E4E0C68F70729FA3D,
     0x60ACB11E24A01EF67EAB806BE664C225, 0x5BB5FE0C36A7AFC9B5CBCD4DA665C524,
     0x5B8EA2B00368910D280E8B46807F5EF3, 0x69F74500BAFAE15B2C7696FE9414B847,
     0x46E6A42AA8909E59C53AD0B017CB1035, 0x34C020725E56C36B9A86F37ED2FA12E0,
     0x898EDB374155B776BB919F1D9E340190, 0x9AE65AD35A085A584964ECB631C2A258,
     0x5965A905CEAF40D757E52AE2D769D880, 0x77B2F96382FF7D5BC43DF9F2FF768067,
     0x67309352C025F9C3D5911F36A8A9B4F1, 0xAC452D2AB9B8A2456F05AD18148DBEE9,
     0xC1C7CDE1E25D614F0B5624A07D547F01, 0xF0BE95CCC74FE411D7357344C7541ADD,
     0xA54F766D5A8B8DFEB24D556376D5518B, 0x4B753A8779AC33BC46124252518795D4,
     0xB05B2D7BA20C1DA8BEA46A367867055E, 0x97CDA307A038CAEAE2D8030BD2D4F487,
     0x95E1C7D7C0FAF1B3E74BE08F3FFA54F2, 0x435613E444B8B0A09D454AA4B316F861,
     0xC7C5EFA92461EC270C0671B5D2E1655A, 0x39D9FA642EED4FB532961FE8285FFF9C,
     0x05D5853F5EC62063921CF111057D5B06, 0x0FC4AB47462B555C14056F0C7C192F9B,
     0xCBE036C5777C74F5595D64431A246052, 0x11250D38E28F127C468B86EF9089C63D]"

lemma length_table_39484 [table_lengths]: "length table_39484 = 512"
  by (simp add: table_39484_def length_rows)

definition table_39823 :: bytes where
  "table_39823 = rows [
     0x912729DA64190137281983EAA80ADE5B, 0x77C2ADFAD68404BC2DC169C79E32C392,
     0xD4FDDE4C077517E17986EB74F7F70AC3, 0x11D9BFCC34F5B4A656A505455210A0EA,
     0xDC2524A3AE13936FAD447D3DB46B15AC, 0x33D31165A2CD29AB76DA04D910444982,
     0xA91DF9D73FD1608C7B8926777629AC1B, 0xBBED99D61CC8FC3905629A5A14E84D6C,
     0x06A591D59C534A625D659A4E8AE86F15, 0x51E5CFDA7E78AFC24823F20C9F1B64A5,
     0x594492DF5DFADE23371947A1E75C8C0E, 0xDFA771ACF2F3D553FCA354E81ABE9150,
     0x612B0D96DB99A3E934862409BF2009A2, 0x712EAE44CA51CB6EE5D7AFD35F450FEC,
     0x8CD9835F0E8DA6831A9C10732E3C1AA6, 0x41CE4088C42D73799F8434A9F01A4194,
     0xFBFEDDAC37BE701D72D9E8E9F71D4ADA, 0xD840A5A8BB80257B760CA64FC82BA729,
     0x71CB37036436C1056BD36386FD695701, 0x6ABE002592DFA488B58C9DF1E4894339,
     0xA65DDF4E2CCAAC56AB841189FAD0D474, 0xB205CD694E0811EBDBAF80D0F585E950,
     0x4BFB9F75CCDA27E7C16A93BEDA218BF8, 0x5881E755DE63B8A2ABD6690B59A74F2A,
     0x87A12F93E10CFD96D9EB2D1C9A8F3F0B, 0x08A49872A4106F34052E144FA09A508D,
     0x64DB86F5B512C096F254E760C2D46175, 0xFBE52D8C6A2BF1FCAB97A96C8DEC04B7,
     0x80883E8CA10E15443D29AD32B1F5B26F, 0xC771CDC0D4C43C5D9B80C367E621B501,
     0x6B9C4FA15B03B21728E6A66939ECA08E, 0xF0D7123FF75CB6A54BAD71FC9C202BB9]"

lemma length_table_39823 [table_lengths]: "length table_39823 = 512"
  by (simp add: table_39823_def length_rows)

definition table_39935 :: bytes where
  "table_39935 = rows [
     0xC00697FF53CA73CA7C83FB724D5EEA0B, 0x110A3A2524240CFF028DAF24410BAB30,
     0xC4D2CA8649EBD98087CC5FAD803A36ED, 0x73295F96030ACCD63087EE9126102BC2,
     0xE36492300FD1FD31576443C4EF5A941E, 0xC38387738C406EC7006778C6359FA4F7,
     0xA5D6B94F861D76CFB559E7CF04C74B96, 0x25172BD2E5EC945E3E3AA907705A5C31,
     0xD2EF0BFC486A9659B0B391CB03D36731, 0x37779A75D41D9152BCF2A1D89A7B88E7,
     0x64A17737353C94531B99C8D4491D00F9, 0x78DBEA620F9661D6E494A72B9B8F8C42,
     0xE2A7EDA2260D1A30B3681A7ECF04B1C6, 0x93D38C0025479238D1057B56C97DEA5D,
     0x13F511A98C0061FDBE660E6006D57F76, 0xEFA699B38D694DD950BC813538653D51,
     0xA671BB910BD7C4F6C5A883ACD07BE472, 0xC1E2F47913670CFA6EE97DC443D3AB85,
     0xCABBC6DA1862D05F821874D6D5F3D60D, 0x9F0DF2895B129AFBB4054EBA1CBE021C,
     0x605B8FF2D15E3F6EAAD1287A9CFFE140, 0x6DCF29047E2CD54C60BDEE4EE7037F4B,
     0x0329A90FEEE1699D242801FB276E4E1D, 0x2ECB2CD6F7F6A3D00DE3CFF4A478AA98,
     0x929CE9E77245FFC891A865CDBBDA8AAC, 0x39240751A9AD56B0BE006D06F812CD66,
     0xBF47F048AED91AA2288764F5AE1D4571, 0x089F2202B9E4A5B3535BF724EE8FD6C9,
     0x4F728D98AC6214D9FADCB1A867BA0CEC, 0x24AA0112D8D1513C12B5AD89B60BEEC6,
     0x463FE1F6F90EE984D2B6BB3F45B5CF3C, 0x3808A6FD245502F4A5E13E2E500195DA]"

lemma length_table_39935 [table_lengths]: "length table_39935 = 512"
  by (simp add: table_39935_def length_rows)

definition table_39974 :: bytes where
  "table_39974 = rows [
     0x10EFEC8FF76C5BC71E3564E28F02F380, 0x53D644D39AFA097A85C05ABF403C93B4,
     0x5B84326668DF08267BD1C737B82771E4, 0x50D92040D82405E3B91F7EF71B71B750,
     0x7881ECE39155AB1CF11C4AFC6901E109, 0x8E234DE2FC1092AC888A6573461CAF02,
     0x07DED9D07624B8AEE8A3BDA85B29EBC0, 0xE34D6C2E649E0DA0455E669AEE124822,
     0xF62F46DB6471C0D151EF62AFCD9F9AFF, 0x9D2308EB35990D6AF8F726A440F3A598,
     0xF69E754612B76F3BD42D861F8A142811, 0x5A2DB41CACFE9FF645CB6921C624E8AF,
     0xD8BADAEB8180CBCBE19B6EB2D3E66CB5, 0xABBE351A8C465BCBBC6E19F1D7CDF547,
     0xA498DF4220FADF74E4181B291709FF5E, 0xAD19016349CEF59074845487763D5AED,
     0xC1DEA0986A516E4900CA8C613988A165, 0xCA5DCF7CBE7EB73730796BA1F2914BDE,
     0x447B563B7CD168000DA3B84DD9E2B293, 0x74D8469DB04A68E926AFC89FB62A8E94,
     0xF4FEBF28C280E3F53D8078CAC6DE7905, 0x3042B63E0722914D3AEAB354BF195D88,
     0x9621B16E9632AB8E82114B485AAAAA1D, 0x1D33B73EBC6D59479A1A120CD5CB678B,
     0xFD8E9C9EDDB78F627BF10578887FB90D, 0x8CF34973852FB16750775897FB31B3B0,
     0xC44AAE0069A088152A17631309DF56D2, 0x2EA469E984E36DC55D23B79B588CAC7B,
     0x18678FCE51A44F2483A71137F006E623, 0x03EAB77F9597B99C881AA461F63FEE86,
     0x0D33921E34584388D36C1FC847755C40, 0x1659DFBB35C2B48BBEFF5EF33A3645C2]"

lemma length_table_39974 [table_lengths]: "length table_39974 = 512"
  by (simp add: table_39974_def length_rows)

definition table_40407 :: bytes where
  "table_40407 = rows [
     0x71F88ECB4F13AC8524A55C24CA321CC9, 0x6F28473B31A395C89105228CBBF508BD,
     0xDE1DA6F4560EBC47810DD8ABB915F340, 0x86ED11C72DA1F42F4C5A7AEDC4EC5F76,
     0x3FCAB91EFA049500BE644689ABBD0FC3, 0xCC8878802A2E1A8F2FEBE0423E042469,
     0xC41C5994D053250FDB3BEF9D2DB0D2DC, 0xB786721F2297F1260CE34BE00286CE9E,
     0xF87FDA47E78945086FA3B40AA30A89B6, 0x9A1CDE17A6C3E4817D4B65B351EA9DC9,
     0x9224EF2D80EA83BB41415202F70B8752, 0x80536FB435EEF8AFE2EAF63A40B68EDC,
     0xDA99229F409F1785D6B132C2B07A5DEC, 0xB305CE57965E6A583262C31271FBD15E,
     0xEF65193F3F5CE893AC08A1A28E42069F, 0x4622BD5DC40F28493300BB8D20640ED4,
     0x52BA63E531BF714B72EC635ED14F142D, 0x53C0774B739EB6131997FD28F9FD3CCD,
     0xC18A918714AA262D826AB40C6F400154, 0xC52D15BAFC136025315B9217D7DD444F,
     0xF4F8E462A2FF41077AE6B3C7B48CF4B1, 0xE8A58B5198E78D7F998387A0715EB5DD,
     0x438BAD4ABC909A1AA030020E1C001110, 0x3A79778B4B885FECB4663463A667D98F,
     0x857FF35B35ED8C863063B118F9BD1169, 0xB90544C4DC00D428DFD05A351CC59D4C,
     0xCA9818AA8B3D2BE4B3BE2CFEF6BF8C18, 0x58F6A89A2EDDE5C229FE9154B3D82EEE,
     0x08A65EA927F5CA00652C01B64E376B88, 0xB06A556A93B9267D9CB20682D771308D,
     0x787D6DF8F0E563572CB684D4C3BCFABA, 0xB2001E9184CFC66E9D2C95517880E454]"

lemma length_table_40407 [table_lengths]: "length table_40407 = 512"
  by (simp add: table_40407_def length_rows)

definition table_40570 :: bytes where
  "table_40570 = rows [
     0x7AE10E9FEA5461518746E6724FA7EF71, 0x0DC4965AAC60F3D557E653E1E142D2CF,
     0x5AC23C8FC729EFC8E9BA98803C379ECF, 0x5D0E526DB4AEDCC4B914FA68962CD4C6,
     0xF41B202647BB0B640EE57A42DA1C80B1, 0xECB6FE5E4DAF0C992AA4A4D4F77B4EF9,
     0x82900100B9DAC6B1808C4874FD1FD690, 0xFB3DC6D0400956724B1B243784FC4677,
     0x7FB4ADD063AAC094014C2FAF4948FFBC, 0xC8F3BC01A87E33A03C6B9047C80FC410,
     0x283E3515EA86F34077779ADEA5FF1920, 0xAAAF0C7CEF46F511AB4AC14E36F50834,
     0xDD601C450D7C3858FACB79C384889B09, 0x09F064E18066BE18B73B42DB24157C37,
     0x43C56C2F1D655FC86AA4B0C7EB30E036, 0x07D9904370F0F33F9DBC0001562D3207,
     0xCB432813F8D4FF3513FB992413064419, 0xC6E3D19B1066831F67ED1E2656C26745,
     0xECFACBE24735AA93E674E1184950FB32, 0xE6FA3146691A5E50400A44F2691BD84B,
     0x7737EA9088A744D34D6861FC1428C272, 0x0EF290579E87CBB56D28E0C78A82E7AF,
     0x8F913B92B0E3F217219CEA78337EA42B, 0x372886DD00F1D69A46A666D33D01EDA7,
     0x53398DE8BFE79EEFA330CFAF29C110FB, 0xDF4D042C751248B62A3CDB7F7B1D76B8,
     0x515C2FB013CB2DB30E9F832D59C4E9CE, 0x3F9A15EC2AB197AC01DE685BE31751B0,
     0x44F482D5D8D01D0C45AEE8301B518F85, 0x41EF66971B84ED2480DF6B782F8EAAA9,
     0xF824F406BEF46791418A21F04F16C98C, 0xFF57F3A25F6B822771EBB06A1192CB11]"

lemma length_table_40570 [table_lengths]: "length table_40570 = 512"
  by (simp add: table_40570_def length_rows)

definition table_40763 :: bytes where
  "table_40763 = rows [
     0x5000E5CDEFD0A2BED51A19714B433963, 0x87CB80F3864BBEB8F439559EAB558C77,
     0x368C3E2309292A6786DF072CBC70F817, 0xFB7ADDFA80A8D7AFA5EF3645F8A04694,
     0x1212D676D2659A7A420A3F0057F0122C, 0x71E420D13041122A49E1F0FE012E3DA4,
     0x5382949C4305E8A6CC934B966DD99FCD, 0xE11B1354AA02058A087882FC00520343,
     0xB8A8254CA835504299530B411BE6B1E1, 0x2C70ED8ADF30268894366C9200D732BF,
     0x351976F014EA4E402FD7AC2826C9E50C, 0x8FF5F0516270837D788FA937A6B30717,
     0xDC8822EE312B50CD59BA7420F940D859, 0x5A8EBAA03A0DBBEE5A2C1E7D2B538620,
     0x7A9C64BAE277EEFA41AB543466358BFC, 0xE51E7D417A394FE42A78DEDBA13B0162,
     0x2C7984F9C7E1A954D7BB768235629921, 0x21D378FBD5A12C4EB3F9EA5444E21DE4,
     0x6492C4E91E1B831E05AC3F5290E879EF, 0xED85FB17F6983A27A94F3C2E64D19D8B,
     0xEF366B218579507B1A83B563EA564115, 0x2CC0B8E758E29249A33CB5F1DB0ACFAF,
     0x0EE71AE05480433BB0C39213C453153C, 0x443B85EC6750361B8625C61235D88B55,
     0xC69D70F9562AE194DBF0868960291B27, 0xE97CD01EDC3CE289AE596080B42CC649,
     0x5269F2C834A3C77F37B572DE0D1928CF, 0xE82386E59537EC73568CDCDBE1F885A9,
     0x4AFBBBD1A9B0EE32F0854FE112A3CC9B, 0xCCCA9E94A325DC02358CA1C449EFAC09,
     0x0668182912C1201365222A05341FBD39, 0x3AB4107E4A79CF68EFF09B75F67646A3]"

lemma length_table_40763 [table_lengths]: "length table_40763 = 512"
  by (simp add: table_40763_def length_rows)

definition table_40990 :: bytes where
  "table_40990 = rows [
     0x5FCC2B0BD16EAAAF04BDDB33259645BB, 0xE703BE3CC8E1200760669C9869B6E969,
     0xA6778B854544E214F27AB2C0A195F191, 0x8F33B83CD19AF75F7468125893508C46,
     0x243CC624250A61C7D3A6C0375EA39314, 0x542699D82C68C0A513A2A6EBFF0C3DBC,
     0x98AF7E5E53E3F73A6E1C87F80EA46DC4, 0x77F75262EFCC1315C2B2E837107B5E88,
     0x974302A3BF7B79BBF5374695015DA84F, 0x54968BC832CFDE7D2CDC5C09A456C7FD,
     0xBF1CA5BD42529575572F826D3FE993DB, 0xA1389F49C067BB608546FF051DBDF897,
     0xC6991AC7FAD074EFD75F303E4E8633EB, 0xE6B36C74F5022041481710EC5DAFC868,
     0x0474973A4201FDC14FC78DE43CEA255B, 0xB5002ABCFDF012B488E99760E5D536B6,
     0xFCC9C60F69355726DDBA021CA4839712, 0x0B484D690B6FE997D7B7A3BE0767C7D4,
     0xE8FDA68E440BC9EEC14A49D33C6F0ACF, 0x71FF8FB033C15FEA6E8226CC0EBAFE6B,
     0x2596C06D52A9DEF2A21A9A7B6CA84D01, 0x2EA339FEA0FA337593A586B4EE64C5A4,
     0x269FF8CE575DCC5844F9960F78C72A09, 0x565332576FBCF65D4392A87DDD809008,
     0x3793ADCE56C99FEF9FE6DAB0541292A0, 0xFBBFAF7558B191A9975809B1BEA6AA30,
     0x01CBFA6A248ED1E9211D32405550743A, 0xDB1DD49C58A3A07BEA20846887A237CB,
     0x28F16715426BD90959A4740FD9A5652F, 0xFC35C772116B3518706D2A0B0545CB9D,
     0x99B50510F76816A708C193DF7E4767E2, 0x0354DEA36DDD252DCB2CCFBC27000F24]"

lemma length_table_40990 [table_lengths]: "length table_40990 = 512"
  by (simp add: table_40990_def length_rows)

definition table_41350 :: bytes where
  "table_41350 = rows [
     0x313CFB62B27AD7BE62AE399D04CB8222, 0xFF03A95A07E3355638D065BECF092013,
     0x9A66C03B195F9F17E418FF053757418A, 0x3ACFDA4324846CB140096FDD9E97ADD6,
     0xDFA597A28A86971C31B6A9D364556B50, 0xD5DCBC5F07AC04E9568FDE134429A2A3,
     0xC4FEA73DEA569AC89CB28C21CE87875B, 0xD9320E213B7841FCCEA8D4E10D332D9F,
     0xA0E7179022F0E63B0F7617A6FB9D1275, 0xABA50A66A308AB59EF79F962187E57C4,
     0xAF3969971997ABD7FB90F1B6EA24DA7A, 0xCB111BAC60CD9F48C38220435F21254C,
     0xD6B98677F2701FA7E1FDD908DBC42829, 0xBE60C78D6CB88F706AFD1DB0EC1D3929,
     0x6CDBCB5BAFAF2611E1EB028DD37043F8, 0xAD70489FD785799254AC5EB5CC55C055,
     0xA8B410DD81700C33A026F9AA4168749B, 0x241B150A4D0CE6C6E3F9E46DD30DBDAC,
     0x9EC65B6EA3821FB29A35178A5CAA90E4, 0xCBC34DA5AB3CD1BD228F341F500C694E,
     0xB80C51E3F39C92D1E7CC05E3F5DFF7EE, 0x8B52D01F718B16177C24B102E0958465,
     0xB05FAB9A14D2296CE3DAEE328F484C0D, 0xC78EFA7E7A7EA84C7570B8F3C952F34E,
     0x81675B07A3D7E9AD317F9D8E6EEFF357, 0xAC754FDFC8C605FDE85B8E93FDAD057C,
     0xE8901A5AC37988D19EB5E908AEC0DDB0, 0x7E93487C4D7D54382549333A1E6A0343,
     0x1843389384A73AD5CD9AF2F3B653674E, 0x551FE393B0489A60C9A20EA62C729A17,
     0xE0DB51002819C6BCC9AD1D6657FAF6F8, 0xF670C37C29A65068C813142EAC137A31]"

lemma length_table_41350 [table_lengths]: "length table_41350 = 512"
  by (simp add: table_41350_def length_rows)

definition table_41713 :: bytes where
  "table_41713 = rows [
     0x32764928FD6040C41A703387A68A70B5, 0x64E5C2C7A015FE9D87CA616DC212296D,
     0xCCB15BCA435755F515BF5F993AD367F9, 0xD1D19463A3DBEAE840CDE01C4DBC55E1,
     0x60A5097398AF85EEA72D67F1DC25301C, 0x86EF1601384ECA64E32EF8F9A848D42F,
     0x9C95C3230D8487E805FBE5A7BFA987E4, 0xA9115674308ADF7FA102D4CAF3CF4823,
     0x5A5EC2593FA72D5DF2BF7A96C87F1D00, 0xF7368E15781752BAB97FA224E571BD85,
     0x65129CB997DA2926060F5CB7AC5F1142, 0xEFB2F0B261FCAAFD2A692D583B255084,
     0x97D8AC355267688AACAF8D2869745CD5, 0x5AB54BB8B927E581D9F2CE62008AE858,
     0x02CD830707FF785C8C49E61293BDB8E3, 0x1FF4F62ECD5E7E69F20BF9E57D170EFD,
     0x3A336925007491AA407196B48266D277, 0xE93E346AC25A73E96C5DC12C06EBBF64,
     0x15C164A6594A5E8ADA46FB9F09F7F11F, 0x41E6985062C9E52A094447DE8280908A,
     0x513ACEAE0A624777E8B1E13460DDDF7B, 0x5E6025C0479774120766C48F39005E3E,
     0x8EB6661B4A8433F10AD0B603650FA7B8, 0x98DBF3C196F5A0D659034B57D960B0B6,
     0xCEE50AAFBF941917F4AAB356E2A566D2, 0xB48A278214D9DACC6E26B88B9573190A,
     0x331CD68666F3E42776C827F79D555280, 0x1D14232F72F4F85605AA172BF421C596,
     0xEE7D747E2FA8C00D325766A40A4FB04C, 0x4A8F5179589DE06892809E16064AA3A2,
     0xBED0EA3247BA9379DA29CE0581DCEE54, 0x39347A4C0E68D3C923DF3852C8A44FE4]"

lemma length_table_41713 [table_lengths]: "length table_41713 = 512"
  by (simp add: table_41713_def length_rows)

definition table_42076 :: bytes where
  "table_42076 = rows [
     0x62F5CE3FB07B6C0AC8A684DD46B60A4D, 0x7FDFDFD83782F5E28C930490A070CDC6,
     0x7D68627B1B5A9E1E57FE30AB001E8F5C, 0x7CDCF353775976F80C411A75ACE56ACF,
     0x7F8F95F3FCF015315FBEFF9FF09F79A2, 0x4E201D53F0FA637FADE94C4757798FCD,
     0x458673D441C92E7FC97CC641C83C0814, 0xCF207C63784576A8EB128B461DEBDECA,
     0xCB1A3C28781AF0956F7626302F2A71D3, 0x13B10140DC3E3C1CEF54FBBEB08596F3,
     0x3098E27C5D245F92B2D2F91A4262414E, 0xDA509F6FBBA812E8A403AFFA5D5771D2,
     0x9C0FBE1639E1A47CC4EAFE4E654533F3, 0xACC039D8D9483B00C214E241901A6C57,
     0x481524356F177E3FB7B070997ECDA2AB, 0xC0517417AAE20AA11EA81B81A9F78148,
     0x2E529C055732FBAA2F3CDE7B4E03516E, 0x8EFA8B3CF289A951DBB6F098EA014BDB,
     0x6818698DB842245B014BE85CA5DCDAF9, 0xFA974354693F342B6207CC029D23604F,
     0xEF729D5C8688B0B01A5359CB84690DCD, 0xBAE52FAB081F14E6AE6052A3956A0AD2,
     0x293E92CDCA108591F1F6AEF6B28E8B1D, 0xFDDF88998A0A4C2FBF743F588F426B03,
     0x6829D0602C167A11D64B576564352C60, 0xF99F9D68E0E4997D2618E66C193500E9,
     0xB49B8D52D6ED30BA704AE7AF87666BFC, 0xFF2480BBFDC73B828C24801E7257846F,
     0x651827582D102FDD07902FA774129073, 0x5E2746519F3808ED52C45E59261CB5AC,
     0x1C65299CB2DE3C5F0B27B5C5D928759F, 0x88F1C73124BBCF3C446EEA9D295593D1]"

lemma length_table_42076 [table_lengths]: "length table_42076 = 512"
  by (simp add: table_42076_def length_rows)

definition table_42210 :: bytes where
  "table_42210 = rows [
     0x999D0078BA76EDF1BBCA0572A5297D87, 0x1180D4524A4D7F839C05BB84CFC4C998,
     0x2512085B7247C937BC5D7694B4108969, 0xB9FB81CEC3FD7AADDB193C758B76EA34,
     0x8F6A31B02C10AD137FFACB794CC9643E, 0x40D526D388CE7A35B578E938C266F70D,
     0x9939B76ECC4DA3A8B672C26F51BD7FC6, 0x705CB0E8E4A365F27F513D0D3A66FD5F,
     0xC8135A1AE853A24B6C272AE7AB315214, 0x6A04C5DA4DFB40D4D19DF07030548559,
     0xC579E12C513543BE415F42213FFB1C30, 0x961AB7013A0B460582D9F3C06FDD7786,
     0x38CC34A9451701179EA01A9E6E1A70EE, 0x47BF563AAA01EB677575397B2230403A,
     0xBCAA4BA91DABD141EA460C52EFD95FFF, 0x8A535CAE1DCE617610BA8707CE6C1904,
     0x3D8577F0DE607FF7062E91EB05591C13, 0xD0FBD25AA7603912F051D74C6D4E01B7,
     0x5C3FFA106993EF05CA76618A4B31188F, 0x6CF8023A565C72C19C0229B6E9573FC1,
     0xAB3F7CECF4CD990113CED9E9EBDC9CE4, 0x3B4472C281B210F5C3817AF5F33D034E,
     0xD4AED841B7F72B545180D3D119246D0B, 0xB177BB1FBA2350E718056EC8BE0B0932,
     0x1CD4C075B245853B3B977B4A733EAD90, 0x9B272C3AC9FA91452720694413067012,
     0x5E0A72BC5C88F09FF3CB8E54F2825A85, 0xC6ABF6ED14AAFEA6D101EAA94FE455BB,
     0xDCDBC55E81F2C7DE3E660F70D2F298CB, 0x0D1E4285F31C528D5983C048FC31E3BB,
     0x44630E66B8869C817405EB705981044F, 0xEF120B1BD7E963BC3C52B07AEDB3FED6]"

lemma length_table_42210 [table_lengths]: "length table_42210 = 512"
  by (simp add: table_42210_def length_rows)

definition table_42539 :: bytes where
  "table_42539 = rows [
     0x7F81B1265FCC7B70D68F1E4E37FF9C31, 0xBDC7030416148EA01A66E023F8AB3CEC,
     0x990D9C3552B2766A7A6689A2FF1DC190, 0xD7222C64D958369610D22636FBB17441,
     0x9C6C2E30583299CC8C427BFF9366455C, 0x86F4686FAD47FFA4BA63F4EDCF1E772C,
     0x2B6B642B30EC14329DAFF7B651AF0AA0, 0xF31E3023BD69098617E4CCF01806C37D,
     0x2D6D46E8A4DE7751AEEC2F984C7A7921, 0x1D94110168D95921E3734CD3A4C7237C,
     0x11672F3B50B17C00D265DBFA0B3F3DF7, 0xB146237F352906B409A8A544681A5D20,
     0xD70A9A87BC4B3823561DF50483C4DF0F, 0x74F3F71BCA17E345FD6A41CF16719508,
     0x2EBD000473C0ECCD5F63C4A5AE42EA33, 0x813B17B093AB6F25B7E85FAAF357B9F9,
     0x4DA0CC6E9F899F53E1B5E3B4CC91AE88, 0x6698F7D62C24264175D06FABACA285D6,
     0x25C606EEE949DCE256976BB3118CCC3F, 0x8B44913407251456784F22C1009047C1,
     0xC2BDF774E88459432DCBDFDA566DC0EA, 0xE393C64B02BAB91ABCD41807DF4299AF,
     0xD3B9476B15150F7457F89A8D89994D07, 0xDD1E52E8C0684B228EA04A571E2D18DA,
     0x93B7FE36F728862B7EBD7C0CE9DA2F2A, 0xD71C55C3D14C96D2075D8D1AB73D7E8E,
     0xD25DC69000F323DE36CEA6881C77AD25, 0xCD92467D977AB69736F9BC0BD36A010D,
     0x7D0B4984A429346809311C3CEBCA2A25, 0x2ECBD0AE359CBAEA8A876C9B8BC868AA,
     0x874BFFECAB0B6FD69495C46148656256, 0x1E4D255FB434FA86DC432C1F77F6536D]"

lemma length_table_42539 [table_lengths]: "length table_42539 = 512"
  by (simp add: table_42539_def length_rows)

definition table_42563 :: bytes where
  "table_42563 = rows [
     0x030D012C59E20A822F16C30069E8DC06, 0x266D7D4EC08E2717DB7ECA1335DE5F15,
     0x140CC56AA7A23CE3D50F7DC815A0C01F, 0x24B7FB5457957898228A91E56EA7FDF3,
     0x732E56B2FF9BCA629C919FDFEE3EF208, 0x8A4E33395B37C49E0FAA6E8D69DC940E,
     0x9F41C657A0E64F5233BD15DEB7203001, 0x06327C07CBB81ED6CC156E2A41E0C3FA,
     0xF4BFAB130B889DA102FC3FCD8F4F6E94, 0x69A9B65A87C7A74CE3166955299BF10E,
     0x1C2EF84CEBF9223334E63F938DE4AA31, 0x14C8D05F87DCF0DA4DA779936D831137,
     0x6DD809E41B60F019A8B610A9F9B610D1, 0x9797C60D4D7B06EF0BB0316BF5169817,
     0xC047017AE0F99FBA96B06FC2D56782DC, 0xECBFF86181556E58E13533BCB6BBD6BD,
     0x73B7EF5DBCFE08F5DFA692C5C43581AA, 0x78DFE30646F2845EA67AD74E1A366F8A,
     0xC3D277D2A9E187FEE59434DA68CB1CA6, 0x55A537FA58B8EB346FB9C9A5287C3280,
     0x556183C98FFBC7CC912EA2D339B5E0D4, 0x30CF0EBE017795EC9AF5B70FEE890EDB,
     0xC71B36710081224C7E591343DA75DC85, 0x72856A1660D444C06E341CCCB17A53CA,
     0x2C794357FC7CAB3979D3152A3D0B9A84, 0xF1D89EE0062ECCE9BF6BD75E57182236,
     0xE71C1BF0B48DDE4FBC6DC6B5D61B6596, 0x94B701E84024FD4E9FE77F391959B904,
     0xCAC1E83E8A9C18010760C2C115A945E1, 0x23BE43F075C54379329AAA26F8EE05DB,
     0x1978B301E635B2E1D8F97ECC2930DC46, 0xC4BE11CFC1D7400C96B556D301BB48DC]"

lemma length_table_42563 [table_lengths]: "length table_42563 = 512"
  by (simp add: table_42563_def length_rows)

definition table_42665 :: bytes where
  "table_42665 = rows [
     0x0C0707840201359211DC4BF14373FC72, 0xF85764C0180A8D59A28CE0B3B74AD777,
     0xE47045774D6922CA68ED19D058A89BFC, 0xB2D8E60297536DEB77479D85AF30C214,
     0xC1BFFA91A68B0CAA7811F05ACBD2A870, 0x26B88B88101428A9515A405B4F3B10F7,
     0x1323CA8F2EE196C1C160F0A5BA20D1E6, 0xC4809C505D0BB4CA04CA9E7A01E98462,
     0x6867D0C26336222A48611B93513790B3, 0xE8AF2E4C9262F8426326D5B54CA8917A,
     0xA54516E1B341D943F0F159F5325C494B, 0xDA7EB62C2427DF5E33D296426B2385D7,
     0x793193881B0769768362E8F72996D96E, 0x87392E1B95AC4F5DC1947EE9CEA9E21E,
     0xD479C8166584DBF3DA51881602C3E623, 0x8D18C5AB31DBBAD1BD2497E2CD25417C,
     0x1B8E4B37D26C7A2B248A7F2E90CA106E, 0x7823F2D2A9B984DA5DFEAE772AFFB7F2,
     0x6C02774EC2F455D450D92078FC2A3438, 0x461DA3E44EFA3B93FF209C6A159DDD8C,
     0x981BF6ADAFBD5829DFE2BFF9B9EDF0A2, 0x98F2C91247CC26DF9AE0674CC4105342,
     0xF22D1C0BDCE3E3EBCB1BB3CF535CD91D, 0xAA18A3D842C326E97451B4B49479A14E,
     0xEF1BE98FDE629EB3BE98EA88ECD20EC3, 0x37B4FFA2A997A9EF2B5A49A752B562E3,
     0x38D516E45568F972D0BF3C62FD8FE3F4, 0xB0F77C94BD71392EA87CA199552E8203,
     0x9E697E4174E669CD68CE433053DE26C9, 0xD5D5516FA0CC5B81C1281693385497B7,
     0x60D83800955C5C0015942AB689C2F025, 0x08893A841D9D25E45394EB855EE7C381]"

lemma length_table_42665 [table_lengths]: "length table_42665 = 512"
  by (simp add: table_42665_def length_rows)

definition table_42936 :: bytes where
  "table_42936 = rows [
     0x761CE56F6A383354F8F678B61F5FC930, 0x829084FBFD5413200A9F9B61B5E48965,
     0x9C46F07593C1C9631804B14C45F81DCD, 0xC6CE2224C99C4F3E9A22F8CFD3A616C5,
     0x728D0502142D045041E1415F5788EFA8, 0x3706A666D789D54AAE49164AE9200585,
     0xA8E811226D7D04DDCD6CBD02BBF274B8, 0xFF411498E9392B75F29F36F0D5AB0589,
     0x390F286B687909C858C9A3AEDA18A937, 0xB946718A79BCC7D0A231D71F2F2D8CC0,
     0x6E08BCAE5C6AB8A3636AE817E7775C28, 0x771489FE41A29FB20D5E614D70701804,
     0x68C56C88F82CEBDD9F96E61F2BD0C673, 0x805E27E901DB3ED54BA11C48BC0A7366,
     0x9F75875585F42F62F24CA1232183ADF5, 0x3E4EE734AB7D31AA57CB435E1248AD08,
     0x6B01BE047D640930332A60E8EA080531, 0xC2F5AFCA20FE6F774F1C653B42E46F29,
     0xFFAEA77ED8A5B73A4D830D64F15D8A45, 0x6CF7F447BFEC0A59B95970465E9D2CD0,
     0x1144CCAA1057AFFB2ED34D89861CE988, 0x015905F2A925EE230A6EC9412F1772BB,
     0xAEA502FD7B7093763DE4CFCCC0357271, 0x33835DAA21A3B85006F7F3E9B8408729,
     0x98E922F9AA6EFFA01ED35DD8F129CE81, 0x920448D867F36D0698ED7CB65ACE6F78,
     0x61A85D4BF0A71D74D16F1DAB76F426AD, 0xBC97E4DAD8C6919885AC618C3FC829BE,
     0x49E390B3EB392D0AD8B0F63574032B9B, 0x4A82F2ADC3B27A4C7078CACEC978A88E,
     0x56933B33D459A6B459BFC08E32B59A17, 0x022EDFE1651EA0D7ACCE63702233E396]"

lemma length_table_42936 [table_lengths]: "length table_42936 = 512"
  by (simp add: table_42936_def length_rows)

definition table_43036 :: bytes where
  "table_43036 = rows [
     0x955716DF02150AF92B51E80DCE470129, 0xE22F51D2D2BF1AD53FDBA76CC3CD2AAE,
     0x716D4D87868A4EC3760C492920B72BE3, 0x59C19DF107AB7DA9D9C8E2DB76F773BB,
     0xD8244A90A0A926F07BDCA57FDE2CBC48, 0xD27F413B9F85813CFB8A63FF775CABA7,
     0x5925C75FE48B35604B97D484541276F5, 0x0856AF0A71B3B41279507426908EE1BD,
     0xB49D55EDC38D72BBBC7CA3761139CB47, 0x7E2C51607B670DB6E37C1E342D79D644,
     0xE25A2322FA77B200083151D581285D20, 0x470080AED403B9360670BEA320A3BAF9,
     0x6ABFC8D7EEB4D3683B5DEC9501B7C558, 0x4B6715BFDEBC2BA5B18BEF1AC2012D75,
     0x5DEC898FC8CB4B94C32CD3E2827EE692, 0x464DB869B038C44C7E97A49D98B27868,
     0x5299CBDC56844E7B0C32D708C10FCC65, 0x2A2B9ED6F9F4F7F4E8056270AF8DCF99,
     0xCD947E406B5617CA2D067AD723756956, 0xBA1CD7E3CA0E0EB5C9B2FC9B92A71049,
     0x9D3B62983E85C9CA52F2D81999630B56, 0xE67682DDF3548248926BBDC8361DF956,
     0x02286A9FECE936D892F39994C331FBDC, 0xB63AA372427DA9A6E23A58233B913C00,
     0x897CA0C9C878C637F047E61EAA8BB421, 0x9DAF484931708562AE0A988CA29B99BB,
     0x5177084A312CA7F4FC75BD88327313AA, 0xBC5975304B4DEF21130ADC11CB3BA35E,
     0x5E4F833D9E5A8FDC21183DD86B4FA752, 0x539619A05F0E1A52268DD4E4AC011F3B,
     0xC591D8838FF4DEEE50F4691D8467511B, 0x0D3061B206069236551E46D1CB4E2C01]"

lemma length_table_43036 [table_lengths]: "length table_43036 = 512"
  by (simp add: table_43036_def length_rows)

definition table_43435 :: bytes where
  "table_43435 = rows [
     0x635D2B6233EEFAD33B13D324A5C48BBC, 0x0F788D34C940D29A812A55FBB70DA1E8,
     0xC8E1FE03A77AA5BE0BB577E8C5755E0C, 0x6D0E4C30695B0899D003848F4BEF3E32,
     0x80C1FDB62D596ADB31AD867628B75C30, 0xA735EE719055FFD2584B2C5D1E6323E7,
     0xAE3F0CB3BCF6FB899F3A9F01FD836168, 0x662FCB567BA1F43EBAB7D8373F9F6D30,
     0x4BDFF3D1F0C630BE52A46D301A51BADF, 0x50B9F58BCB09B9DBA0E1E640D9B5CFE6,
     0xBB600C6CA073D24176D2805DAF050ED0, 0x768C463593875ACF18E70D5A128C7494,
     0x9FEC534548FA42B41C15FE39D9AD4C1F, 0x3E2F751A39F34F7237330CCCEB988932,
     0x1469E118E3296B8BEA8987621D494CA7, 0x112E4084F7252846522F84F4B993FF94,
     0xE1C1D93C17F2D869F9EA8AC185CE4F33, 0x957348CA116C28980B34ACD72D16AB8A,
     0x2282280667B19044627E69FF5454F02B, 0xE4460A4E7A966B2D74F44D62990AFAC4,
     0xB85A4A23AA9BF8F4C9EFD04A481159EA, 0x9FAB80935F80E2D0DA36372EF627B80D,
     0xD60CE5D5ACA6219DCCA9D55D8C2A7A59, 0x5768F02083ADCDE069F7B38E6078F46B,
     0xAEEA1B6855FBE3AB4F085DE29484381B, 0x8B968031E416A2B0CC725A58E93F74C5,
     0xFF81A11B9B029B8B237A9F7832E850DD, 0x3849803A5EE1985A059BCC7843FA81C0,
     0x726A775B5B9D84A6DCAA8EDD46CF9946, 0xE8DC87CE6CA838A188CD8EE58F43B38C,
     0x74277E60180E4D5442D62BE4FFC10FCE, 0x4A008805072E5A9C6E33ECD360E861DB]"

lemma length_table_43435 [table_lengths]: "length table_43435 = 512"
  by (simp add: table_43435_def length_rows)

definition table_43515 :: bytes where
  "table_43515 = rows [
     0xEEF80D932631E90DFF07E7FAE8FD3E05, 0xA0A749C75CCC24784D3CDD4B6ABFDF79,
     0xA973A47B9B506CFFA12CFA6C96798F31, 0x6C97749420477009372862464AA383D3,
     0xD4E459AA8513677ED6590A84067C19B1, 0x8AE6EC2AAE01BB2315502C0DF025681C,
     0x15CC06B588EF55F4D0E96D1658680FD4, 0xDF53E7C39D13EE6456E858AB10FADC2A,
     0xC49BE45FDD9F28CA829BC84E37191F34, 0x130600E131A7D47D6EBE95D645C9050B,
     0xB8BD07985C484626CF1B9E2C96B35F9E, 0x3607A56187494D0A79A88F0F9D5EEB07,
     0x0D7EF81BC89F7B2A1D6924814E09C7D1, 0x5400202EE8604C710496034EA59B41B5,
     0x02910B3F84772FCD1900DB23B7BC47BD, 0x623654CD99870F63D974D1D1E25E2BC6,
     0xDA9657289C54F42CB9E12F15CF042EE1, 0xFD4408C3EDE158D4406F261164C85D13,
     0x63AECD4CC01D73F2F94D2D1C9EFBF5EF, 0x8D7851B35423C56648F6CAD0F0FE1897,
     0x88785522A57D33CABD91212DEC1042EF, 0x5CC05E34710A9A14BA9BA4AE3DA2C45F,
     0x02D2678DC72CFEAE34D7A7363B673536, 0x3AE4DA408360DF240E364329B8DA22BA,
     0xA7737FE39AFEBE7CF9A0F792CBDA03A7, 0x7682A29C394086D6024E8BDB11BE8281,
     0x27975332631447C87D3E2104BB4A2624, 0xF584137CBD6D1FB491F12E721CCACCA1,
     0x22365F66C016FB940ED7820D95EF9412, 0x97C0BEBE75799B352277BA8593F02F2E,
     0x3EFC18250FC3E59E8BA96DDBA17E7B2E, 0x3754FA11EC7B830E1F28ED1A751CB96A]"

lemma length_table_43515 [table_lengths]: "length table_43515 = 512"
  by (simp add: table_43515_def length_rows)

definition table_43605 :: bytes where
  "table_43605 = rows [
     0x77F0DFCA531A9E77DD1F0B5EE241A44F, 0xD2935FA904AB4FD1D9D64C76F1D051BA,
     0xD27094D16D012D956770E9F704A38716, 0xCCF77A7DA66A6F25C6EE316307F7263D,
     0x6DC7E77E3368CA010920BD9F6A6C56D0, 0x43BACC5135F78A932CA03162C310F138,
     0x2A38F2B9F0159234027DF14A4B7E22E9, 0x719784F3104E3C1FFDD2BAC7DF31C755,
     0x573586386C75ACD66BE00B67180FC15B, 0x3A35D3C1798733F12F4A667E60D514F8,
     0x914B0540B3B00525E0E03356EC1D04F7, 0xDA01E40E4D8D2D65A5B4338D5DB8C875,
     0x29852A7E7FBED53ECA79774882635947, 0x8BAD0262C78CB3372EBC5569F5A491EB,
     0xC6AE4AC4AF0D1B7077077644073FCFA8, 0xBBCB92182958CAD19AF065FC4ADE73DC,
     0x80B6EED1CA6915C7CB9CE1BBEF94C7A7, 0xDFB45B31CB03A0BEA134F6CC890AEFAC,
     0xBD4C94BE402CCE48C693B460A54A2133, 0x930085B9B470FDECC94C74284E43FA1A,
     0xEBB3A0EB33137325580F73AC470F71D6, 0x3E5BCAD89C7AE486D30B382ACBA5D3C5,
     0x15A90B4F5FE903054CE73AE215D22CF9, 0xF55F5FD7206DB1FFED94144BC0072EC8,
     0x7CF74C1DC15D9A583815713514B3CB89, 0xAB50F02B1B4400956DD66B55DE49B4C7,
     0xBBB4AC284BB52837E3D5EA008220D149, 0xE3DB3C4182892B5EB7A61F29BB7F5AF1,
     0x9AE0737C975F2BA6B51867E67E1934DB, 0x80D6C3DD2227B7B723EAE4459F75C2E1,
     0x9EA3C13B423583F9FD63149BFE8C1E1F, 0xF6DC31A8531C0BC8CEC921A21DE03B08]"

lemma length_table_43605 [table_lengths]: "length table_43605 = 512"
  by (simp add: table_43605_def length_rows)

definition table_44022 :: bytes where
  "table_44022 = rows [
     0xD0288EB1317C7C1C4955B469917627F4, 0x32C832FABB31F83B8B4409C4BE66585C,
     0x063F323B1DF127556CFC22689174991C, 0xEF574D80D0B792279A46B13B645B4F97,
     0x7385291E483FFC7D1F464CC9402D55DF, 0x39C2F3FD0F5526C7B856C89A4D5D94A0,
     0xD959AC81A72053B58ADDE6A8616453B6, 0xB1FDC0FE6EC34B4F625235A445B72F3E,
     0x39448BF60717CDB6F3D41465FDE94D7C, 0x9187EF9562B6D193FA49808D19BFD1EC,
     0xE6D23BBB9214155DC0A0B8D000BB4B16, 0x106E0D98B29DC806E4BBDFB7CEB5575F,
     0x4368B873E5CA602F5FCC9F555F75647F, 0x9A6B7C59181E0B71237A16476C84B2F5,
     0x80339A477019CC20717F96123D0C3548, 0xF8E774B5A953CFB37633061BC939176B,
     0x72C7FB941A1FFA0CF5D481BADEC935FD, 0xC65C7D15EDACEEF1ACB20C4299A4D9BC,
     0xD06BCE9FE58BF8F8F8BC4DE93B52E58A, 0x71DCD7253DE2DD93FBCD476AC93A98A0,
     0xD4C7ACA17AF9A19FDCADD3BCDA9FD2BE, 0x6AE3C06257224D73225F57313FAEBC8C,
     0x0EA3BF56D57E1ABBC0FB587DF62B907C, 0x27FDC1F6D340D12A77B02B80C2E96FD7,
     0xCEDE51CDC421C5DCC0C1A265CBDD1178, 0x1BFB141D8A7783B18C522A572CF7D859,
     0x814CEE13B347840AFD1D4C9EB0DEF319, 0x4A11FD048E3E4C8C5F9AF5987A2BF5B2,
     0x7F8F2BD0916F8B8CF83397641DE12338, 0xDDD9CBDF37A5F4B18EDB1E1CB97349E8,
     0x8524D0745F5D379532CEDD27C77D31FF, 0x13B216F04675467F88A47967453BCC35]"

lemma length_table_44022 [table_lengths]: "length table_44022 = 512"
  by (simp add: table_44022_def length_rows)

definition table_44916 :: bytes where
  "table_44916 = rows [
     0xEEA0AF29C05522F69F070717A559F387, 0x4B97AE8A229A1FA71E72F3C375C390A8,
     0xE610E5A509EF362AE849850BDD62318A, 0xA7E81189AAAE7991F75D6F74942E495C,
     0x4C76D20617CC033792F72908CD775BBD, 0x7F9765C22D1EE718EF90981275B0C264,
     0x05473B038E78BBB5E2F2201C7CA978F7, 0x2789CDF016A748658861EA5FC32E69A3,
     0x38593B21851B1E90A593A2B3780E1927, 0x208B0FAB653D1738805E50775B14CFDA,
     0xC36ACE18CD71ABE7DCDEA9B8B93A6876, 0x0D70DAAD983D1886FB3DF4631070523B,
     0xB214A2D8DE37838DE6262030B86FF77B, 0x9CEC1EFB50358BF4C42ECCD5FF3D256E,
     0x0A885B791359AD9742F56B01AC47ADA5, 0xF5B186DD0E296AC5C46465795975F2E7,
     0xD271CB1D3D7085198F7D730CDAE4F96D, 0x9060642766E970235CA06BD21820A3AA,
     0x8741BD2C1F9E8917E02CDCE22858AD3A, 0x96A2A2F4024CFA61439A1A2B87F2D2C9,
     0xC3B9EBA268F8C6799FFDCB216BF1140F, 0xD4566ADC6BF54C8169C4AEF5F42AC552,
     0xC5D932FE1FE52D72EB8FFDD87C2B0CDC, 0xEFEEE0A27E8CD43EBFD8CFAA19645D57,
     0xD9A54BC9837C5C86BA959E6193D14B1A, 0xF50AD0E8BAEDD7B7ADF23E2AD2526858,
     0xEC2FBDDE81A75B7480832FC19B52365F, 0x918A6C6F9E1DD8523CCC715A9BF78C76,
     0x443A30751AD529932ED7A55C0C4EA44F, 0xA34321C9178DA0C13B6AE8059EA90788,
     0x8EB28245338C57DF4634A0DF4CD0D7E2, 0x1A84136786DE94CD215D9FA94F1763A9]"

lemma length_table_44916 [table_lengths]: "length table_44916 = 512"
  by (simp add: table_44916_def length_rows)

definition table_45214 :: bytes where
  "table_45214 = rows [
     0xF8B0F2217DB94A3F75E51107A794BF14, 0x7A8C07776B406E808BAD28B25B9A329B,
     0x97333738AEDBAD68CBA0B912826D6A5E, 0xD5D1BADF788098CCC6EECFCBBD7E0AE4,
     0x6323092E76333A37DC6B863A69872B8D, 0x32BB89AC1FEC624B83CDBA1F861BAC25,
     0x8B50D6DCE477D24FBA83DA1E7A6DE567, 0xD28FAE8926260073A9573547D768F300,
     0x6BB019DEB92A2FF2A75264C96592EFB1, 0xDB43BE209DC7683106565E2426644703,
     0x3DD4D174A4F3307789CBB43E53D6390A, 0xC2C2DDFE1A993AAE87887B3A8C91E84F,
     0xB61339D8C9774F629BC7D831F3DA9F03, 0x1414C2C0044548EB86F8AB8704CB5690,
     0xD1867E12FE500894D1D83F31FAA2C89A, 0x48CD99CAEC3B649896C79E66DA37E4DA,
     0xC9A9F6C586ABA76E7D09955DCE4C1D6E, 0x16448141331E0D8CDE8B04AE4EB95742,
     0x90F492048537F9F59F5C54D8D191EBD6, 0x2906449C06C780BF4F5895E9F8916F8F,
     0xA646C89BBEFE3F785D719FDB95FC654C, 0x6C6F144933792C095BBB45827062EF9C,
     0x34D6AE05AB62926FCE169487DA2BE99F, 0xA2C869604C33529FB6CFE75F1FEB6F54,
     0x26FAAFE4D6573954E20286EE757AB8AA, 0x1145B7EB7E5CAC6A2CB8E376E7B7095B,
     0xFE23448078C2AB083DFB1874D13A8DBD, 0xD40DE19D514328184A8F7549C3A843D9,
     0xED469B6FE76F4642AACEC7A14298BA22, 0xEAC608EC412C4C071C0AC551757CF16B,
     0xC99EDDF80F4F5CF23110B94786375EDD, 0x6BE9B111C418E5C8C12EA3B8791E83A2]"

lemma length_table_45214 [table_lengths]: "length table_45214 = 512"
  by (simp add: table_45214_def length_rows)

definition table_45420 :: bytes where
  "table_45420 = rows [
     0xA30C8675D72B49F96B8F5CE4E49DCF63, 0x5CEFF2C43DCD76E79615284C465EC355,
     0x65562889370D37E678E077B5B0269B69, 0xB1AD22A6A16A78B748FDBCE34AABD4F1,
     0x35A969644561FE3194AE2C41D2171B6A, 0x898A1C0FE51D288D934E693F25C56DB7,
     0xAB448349158DD4C816FA852F6B0C5CE6, 0x1754BE74AB6DF2AF81263B1B1D364558,
     0xD054CB45FB6E1E9EC2A89699F43A025E, 0xAED2071F77D6077963C49DCD49D9A45C,
     0x8E1C628C966175A237DC357239B20FB0, 0xE350887D7BE265A918E0D06E2EC52D8A,
     0xA610E6C1B3BCF13198D8267969C29763, 0x36F7FCF654F8DBB442DB330B6C5C3EA9,
     0xEF34A6DACAC626842C9775CB8DDECE16, 0xD391A56710F81AF9D48B285049A64FFF,
     0x3142104736B0C3045A621A180C6C1ED3, 0xD871DE16C73100FAC41C37C37489AFAA,
     0xAB5582CF1B0FFD934C5146F620318F38, 0x14E514918268AA3E20CAA31C68DB6DE6,
     0xB901D3637BAB1FE59DCC0F1E9A7B3A95, 0x4B25D0E0DE28ACDEA31BC0F828AE657C,
     0xD8A420FE6C353BAEE8DDB355203AB8A2, 0xFBF61CEA381F4F14FD23291EA225C00B,
     0x9AC2C530C1596440DB83897E7DAD323D, 0x8B8938B2F86F9CFA17406D839C203C8B,
     0xA10FD84A109CCCBF5DAA6F54C913CAEA, 0xA6B9D001C4AFA9283860967DAD0AE3A4,
     0xE6218A47E1EEB333C24AED3780B7C766, 0xB3DC85D14C7F3FA4CEBC28067857F449,
     0x82CD20ACCEC5840DF17704D1C9B45DB9, 0x2E223BE75270264E39640BC279B0BB9A]"

lemma length_table_45420 [table_lengths]: "length table_45420 = 512"
  by (simp add: table_45420_def length_rows)

definition table_45752 :: bytes where
  "table_45752 = rows [
     0xF5D0E78D86D622A2A6EC4BCD724AD48B, 0xC7E45B5525F6EEBEA5241BFA50EF0CE7,
     0xA4A8E4F5972BCFF6BB06756AF461E4F2, 0xCABC7B238749998328FC88B8239CFFB9,
     0x8B897F0842F506ED5D7C986B2E37B2DE, 0xBDAB6579AADA708330A0A44D68FF4B32,
     0x0F970A73DC77671089B6E7BE96D01524, 0x13B67FA818EF5383A09E5029E75E5FAC,
     0x2511A2A26DE2BBE660142507C5B9B137, 0x2C346BC6950473E5D701788E0EDF5D30,
     0xFE1D81C35317B76FF7996EB51912D61F, 0x044882072271390A791B5F6A4CEDF43E,
     0xC78445415FAF7813B0B482D7219C3324, 0x8A54F9C4C91A1E562193EFFC1A5E2F68,
     0x742764ECBD1B0F94FDD7850F836B6FAC, 0xD364FCD06B4EB8868A45AE3155BAAFB6,
     0x505C4EE4F41AE8FCADB6E6BF5F35631A, 0xBDC26CCD28EEB6A26B7AD7BCF3C49FD6,
     0x2DC4B7BFEF44FA3DA97019343288D937, 0x4D782ECB7A11EFCD17DBD6873F7577EA,
     0x0AE1650291D14C1175F03587C6F92247, 0x1596B38DF9D50E877F4733181E75A3C1,
     0xDB32639FA4A1464CB33D441164342701, 0xE5440C166AC777B431F2442AFD7B04F7,
     0xD43D3C800A25C4BFE4346517180254A3, 0xA70040FE10DB2469FDF82E53B1805AF9,
     0x592DA75166D166FC7D15CD88459D6663, 0x79E718100B57731DD5DC3EA68436B2D0,
     0x2552BEFEE177F00B777FF2EDB6D89A32, 0xA1A8ABC3ECE9FD5BF04ECD3DA2BF71AC,
     0x09675E6B44A5C5ECBCC1230B0C705DF2, 0x69597E6EEDEF92A952BCCCEA97FDB4DD]"

lemma length_table_45752 [table_lengths]: "length table_45752 = 512"
  by (simp add: table_45752_def length_rows)

definition table_46137 :: bytes where
  "table_46137 = rows [
     0x395DF51F14B23617428404CBAEC6CEC5, 0x82D3AF975DF28E6EDA1C8666DE78A2FF,
     0xD4BD4BCA3948D94BCA1EDBF987B3B14F, 0x566B46FED4F65CEC034AE21DB4FA6322,
     0x4D3CB72CCAF379F99392BA890E0F9849, 0x7AC6E0960AAC3BFD6E4EC2361CA04B18,
     0x9C744601CE755F34B0266147F9ACA0EA, 0x0D368F34A0065126A8747E92AC32278C,
     0xE541C88FF284139136413A2C241EF094, 0xEDD4C0BC1E6D1E82B1575CFA0B69DFCE,
     0xA4C09E732CB9CAAD053C9AFA23C1ABE2, 0xF2F3AE1CF66ED3793558A6F2C41B5749,
     0x2EBE97740BB466764CAAD469012872A3, 0x40B89A854AAD6CECBA81207D2DB449F4,
     0xDECA5619D6FF4E79F0DB2AFDB611DC51, 0xB4558CADDCFDDA6464E27D7ED205E0C3,
     0xC2D4349DC7D4025FED3114193AF9B73E, 0xE36A4062951A052CF9DCBD8C1F78B185,
     0x0750F693C6089738FF19362431550B51, 0x2F3BD306E0E2DB9B4AF8036CBBCE4EDB,
     0x28646FED730200A8F8251EC64F5649A2, 0x7D7C4A8647741AFE10E8E45E9E466F1C,
     0x12A9E8A05360BCB8F8A0B517AEE14C68, 0xAEE03E49807FAFB9A1FB51BA70F006A3,
     0x72B8A7BEC26DA381A964F06582D3746D, 0xA5033A4548DE68D0D880551AEE9B3CED,
     0x905E997F7ED324562149290FCDC7DACB, 0x1A0AFA6955F3209A86183BEEEB1A734F,
     0x7A3EC42DCF04EF3E63B88F294B6B15BD, 0xFE104C07B11602922B1FA5EE6BD3B990,
     0xDDB2486FC7244574EF7BB7D4585B5E50, 0x4FAFA9CBAD7A7ADDD9B414D7DBA8F587]"

lemma length_table_46137 [table_lengths]: "length table_46137 = 512"
  by (simp add: table_46137_def length_rows)

definition table_46510 :: bytes where
  "table_46510 = rows [
     0x44FF01B0C1D5C90B362DE96B037F0A5A, 0x68B31C67E642B04757A07D7DD4063204,
     0xB4F7B288E0022EBC33FC8473CA928596, 0x9C8771019834C3324D068E436558A830,
     0x871EDD68E902C3E4162FEFB641CB3E54, 0xC91AAB7D579EA2B838EC0884B8657E77,
     0xB24EB984D3D3299816802455DC479039, 0x0252259E84EC2BB454E2A1959DD4E673,
     0x108E571EB2B701C6DEA5897D9EC01A69, 0x38C9EDBE241DB3452D1BE04B4C8D072C,
     0x73EE2F5B2B7421808469FB7D018C95A5, 0x6F7D09E0F8D15BED8B07776427CAA6D8,
     0x82B0D8A9AC9342CCB4B9C9D497DC95F6, 0x3B8CB3A67CA5D4916B3DE7A2C5A5F945,
     0xC723F06527DF3787CFC8AB5764A7C48B, 0x4CBA2E0FFF44B5BAF00B431EF78A68DC,
     0x5DB6832730F2AC25CA07BB252BC12DE0, 0x008AF146E16F41F2628FA38855F70A93,
     0xF77C041E26D6205F7BD74370B235D467, 0xAD37581F5FA986CF1123E052A35B2196,
     0xF5F6E714353BFF812E26921C18698F2B, 0x31A45634E1EA1F52212F23DF52C83900,
     0xB3319E2A521EE7E6E379AB42162773BC, 0x794A4EB86101CDA1AC36261E453D124D,
     0x85E86E20AF71B37FFBFFD445604A4A52, 0x6AE4D732F42CCAC3634475E3907630E9,
     0xE76D03D916A196C08DE7E659BCC2B102, 0xE5BC4EF714EB345895FDA0D13B560A61,
     0x84076A26240AF772A973B75F2EAD8E0F, 0x6E27662CDC8604DDC828EDA342D78DD3,
     0x6835672850CF31B95F7DA3B7CDA9389D, 0x5EE785BDBAD952E31B21BF96E5C58B2F]"

lemma length_table_46510 [table_lengths]: "length table_46510 = 512"
  by (simp add: table_46510_def length_rows)

definition table_46823 :: bytes where
  "table_46823 = rows [
     0x1DA5406854FA6BC95A20B5A36FB8B487, 0x1434CA285400D691164FD41143968932,
     0x8062336209A91776B7F5EF7395A6FB19, 0xA427BB54E8E6D00B4DCE3E8E40D217E3,
     0x4E77E3791C28A1F19A669740E8EDE2E3, 0xCAE5A8A37262A1F6BE2ECAA8E4FAA80E,
     0x6082CF7BE5F229C7DC90C4E80979BA2C, 0x8A49A2FA3ACA1CEC5DEBC99AD811734C,
     0x04F7132971AB5E74FAACB69A38AAE586, 0xD43D128245D176B2CCA786F630595B1A,
     0xED6A2F65B3626E327D8295B82CBF7E5C, 0x7645406D154A77DAFD15560ABA629E84,
     0xA8305DDD1CB8832F2DD0085C1F946CE5, 0x5BDCDE8D4288C7EEC6BDEFF602B1780A,
     0xC7F0A483E8EA108AEAD39EA0F50D602D, 0x4BE4E480018460271E14B8F4AC2D7CB2,
     0x41812F55396416B45D60248074768315, 0x18A0DDF0293EF9D1C5224A23388A0227,
     0xAFB25E8BAC6981F0FA1D76E2F0675351, 0x54BF015B2E265588913FBC9081E8AF02,
     0xAFB15CB955B53358CB15BBF8F59B15D7, 0x42C334EA2471A3E1EA81D5DA0459C788,
     0x1297601FD5FFDB2CBC9841BFC78B06A3, 0x6B3F79E5C992C9822E916E0E81CD88A6,
     0x509E25F5689D43C86EBDC6D62980220C, 0x95BDBB56FCAA09EFCB60C9006C0E076C,
     0x181F62F9955F30A75572D26A55EBBA77, 0xF0C979F3036DDDDA968ED5C1C3BC79BC,
     0xFB4B421C36D65CD167D235CBDAF5C286, 0x1EA2505D31740DF30F02986B3CC97E23,
     0xF3EA15666FD9DA15A632705EEF60227F, 0xFF0EC85991AF9C02EB75D8BFE2A8F3F3]"

lemma length_table_46823 [table_lengths]: "length table_46823 = 512"
  by (simp add: table_46823_def length_rows)

definition table_46836 :: bytes where
  "table_46836 = rows [
     0x08AC867940B6A1C1D35B351ADD4A3422, 0x381A8B0964B91D7BD8A8061E91C76FEA,
     0x846E517939CFE6617A14EA470D0FAA62, 0x152C42FE687C7E87D2FD9168FF85C0EC,
     0x9FDE8844FB5267A5C73F6CA45983823B, 0x1D96C7F0588AA557D7447E7D5D4E2152,
     0x535CCA4E5A1BBF7F595508FEE5557B22, 0xADC2220A3DC591A430CFA7C02E799B80,
     0x86F1C5FCFDAE8E3A805C9F60B7661411, 0x4AF90D7276C735CCCC76110C69EDE6C8,
     0x4FBE9C47627E1E3495E852F60991E33E, 0xB54343FFB017EA24F7EAF9665625722B,
     0x493023CE4E377552E94F2905FD6F9055, 0x9E62D40C81F7E13049F148C3EB019F3E,
     0x248C5621B17458D2C2D3A4C225BF7B0D, 0x39433E0F7088131375B52892805A131D,
     0x7DEC1B9B8F80F5FA20CA55400BBB3DE0, 0xABEF258EF7082F9C7C3AD88EDD05E872,
     0x4896EDA8054B7007517D77633FA04798, 0x0F07A59A61118364F92B43A4688855FE,
     0xD026CEAAD9DA58B7C752BF33946A8660, 0x9ED1B6572C51B5B09572E515C615C4F8,
     0xDFF34779C7C2E142EA5867EBFA01BA10, 0xF677C3525B6FC8FAEF3DAF05996A3AB8,
     0x52007E44243AF0A137B5C1C88B1D2927, 0x62736491EF59111862DC884379FCCD88,
     0x6E01AE805ABBB4A14159FDA94457A7D1, 0x22B6B721F7EE6E9F296C966DDF3DC54C,
     0x90852CF285900D9F69F90885D84188F8, 0x7FF17C5EDADDE7C0CE380F83281E7C55,
     0xF3557A2F158DCE0B91F10ABD692B3DE0, 0x77AB030D99C8D5A3D89547B9A36521B9]"

lemma length_table_46836 [table_lengths]: "length table_46836 = 512"
  by (simp add: table_46836_def length_rows)

definition table_47161 :: bytes where
  "table_47161 = rows [
     0x9678535619E4AE3060D3D18A7491C8A6, 0x7AF2EAB3D968FFC0CFEB931DBE85543A,
     0x123ADADC9EBD173EC8F7BC94148E43A0, 0xB4574C7AFD0F918252767C5DF1A37A2C,
     0x35F1F72711801C1D23B23F55ECAC72D7, 0xB834AF9167CF8766630BBEB2210CD194,
     0x9877F7FFF491FFCB80F77071B87A92CA, 0x8AEB58B40E614B7362EDF35FF94F0316,
     0x440DA84584A2CF360CE5E0D895466D6B, 0xDBD1422EDC79DB119ED78D394B244744,
     0x89A32B64B728B8694C844855EE3478DA, 0x327A54C2554AF5FC364F3101CCC005DC,
     0x923A581815CD49F87A2A2ECD018112E3, 0x424D18C36831C432C3724872610B99AB,
     0x7C3DFE80C5846630F571D57CFFAF831F, 0xB614B4790F3EA95FDFCDCFF056AA21A0,
     0xA8F54E3F56F71407DDC17C52F3E29576, 0xB48734A8630C94A2132CDD1DA518A979,
     0x0963066400EC2AE0654D8C126CB8F18B, 0xCCE006B6C10283E91EA7B61020F40B74,
     0x7F3D37367DFFA678CE04031662E20630, 0x447C1527967CA9B825A3CF32C09EE530,
     0x337E7B4D0ED234FBA42C0112C0275F56, 0x811EA7055A4E9C05ED4F3E5360D0BAA0,
     0xBF4A34F48307BA4089DBBC662A178DFB, 0x0EBBD436F226E1491E6000E117C78FD5,
     0x29338F1E03C992145D757D64BA19F160, 0xEC8488895DC5954E6D8BBFCE285627B4,
     0x24815BEEBE4ED22129E59D2BB83D7F09, 0x52DBF0513A40FD5CCE1F163B1639F921,
     0x3BBD0FAE7CCC60A4403A8DD8E04844B5, 0x552B30AD99B60BEB65224C9108ADF84A]"

lemma length_table_47161 [table_lengths]: "length table_47161 = 512"
  by (simp add: table_47161_def length_rows)

definition table_47452 :: bytes where
  "table_47452 = rows [
     0xD74E895A94F6166DCCDB373DCBBD61DE, 0x5468EE8841C6A40F3FCEA397C390F445,
     0x379E93CCFFA424B6431DEDF3AC057B44, 0xC88EB2DFA19A65236A751BE7B004250D,
     0x0C93121C1D813FA509528D7F31C9B596, 0x7E4E909E891D3C636FD0D1833F8E3933,
     0x3CC7DDD9BC3FFE58B384CB63A77CCCCF, 0x319A8C69D5987F496BAB16445AD08E5F,
     0x6AEA706BB4037A3D9E40FE0942F8B428, 0x919B16F0E0D06841E1B076D17BBC7069,
     0xE4DB77AF32E4D67824B591A2C8954043, 0xC71FF7F8F2B1A17BD683CB1E72EE1AFD,
     0x0AF9B058D664FA958791B62A0228128F, 0xE52283CC9B2CDD23C7C51DC6465F5B65,
     0xAC643AA33A3AEB8409F7EA4F1DF50C28, 0xD2EBF9FCE6FA3B148F66AA8E6AD94AFD,
     0x9A298D0D34377ABADDF17DBDD8582BB7, 0xB58DB9B0DA5256C1A9521B645F0BE16B,
     0x8F2F99C419C72F9C542457E392B1A1D7, 0xC21650963AE25988903CAA06E392490E,
     0xFA81B95905AC213F49A1A9D17465297A, 0x60BE1E315B3751E8C0A5908F31483A2D,
     0x26FFC0C684EEAD3FB4A6AD1FF0CA1B02, 0x5D796A1EE771CA932546B526CC67480E,
     0x95AA043B76734119041BEA2E9F080AB5, 0xF8A9FE88263E049BE556302750FC913F,
     0x22E9DDC52D3E36B3715F30042D935778, 0x0FA0749C028B9D033C98785B0076A1FD,
     0x87DBFEDD1F29C231AC2AF7846AF43949, 0xA47A3A7BD677A9E540503640E79CDD3A,
     0x144526BB67BA33DB8A87AC6E102E9D4A, 0x6A104463BAEA5393F8CBCDC41B12BE75]"

lemma length_table_47452 [table_lengths]: "length table_47452 = 512"
  by (simp add: table_47452_def length_rows)

definition table_47946 :: bytes where
  "table_47946 = rows [
     0x9514A379DC50665D3BAC5AE035D8F10D, 0x91498439AF64AC8FE6AC7443D5FF3DD6,
     0x97561341E8815444B0AAE039619ED300, 0xDC337D8B7F50C5BA98FDF989DF107684,
     0x8A0435E93A910938562BB1BA07E22619, 0xD81AB73261FC4D6ED4250073E6710D49,
     0xBCF06B3506BC23F400280D67F0D77D70, 0x184DCE547A0F9C70B14C36B335760679,
     0xF557783B574183FD386BE41792190701, 0x6CE0D7CA51E72C0E5300866CED8A88BE,
     0xE721AC6C03D945D11740CDC04BF0BD0F, 0x558BDF3E4D4E111DC2BFF920F9F72D3B,
     0xB88BB38694AF0380FCDF6CAD8054BB28, 0xA46C67DC21D79237D2B9E774EEEA727E,
     0x371F879F6888FB7984C1A1239B2FFBE2, 0x86D4D32E485A49310E739A4ECCF4591C,
     0x82398F189C71B4C06D4EB3F621EDB382, 0x23FF4C32816A96A9A792835FCD634AC4,
     0xA03D1BAD38ABC0099325969267038378, 0xFCA6FE04F7C8C6056B306A5FBE649F7F,
     0x6C9F80A287E81E05001697F3238845CE, 0x2C0FF8BC54D41DCA237D43DF05B9FEA9,
     0x7735C36C1176CE9CAD4F00CB5B39CEF2, 0x0503C5AAB6404E1C3E79EE12BB9EE7E0,
     0xF0D53ECDC6EADB3C6B494C515987EAEF, 0xA70F26D6096A6990D4C644D629532DE1,
     0xDFCC2DE5B877E68E6191F587612659FB, 0x4CA32315D47205E113351239E0714D82,
     0x16BFDEF256104398BC16136F79E7F221, 0x320A49709B0B425BA8FDF53AD2F94537,
     0x2F4E627921A4D4FB72134CF72C25D068, 0x9372336F5FFEF26A84922EB5016BA3DC]"

lemma length_table_47946 [table_lengths]: "length table_47946 = 512"
  by (simp add: table_47946_def length_rows)

definition table_49154 :: bytes where
  "table_49154 = rows [
     0x35D4559AC998FFBF9C311B7579FE4AA9, 0xDEEC4D2BD75462E86D20C9DD6F1E5499,
     0x39A21C5363DF1F670DE2842B70B90C21, 0xBDBA0D6AF5B6756CE443CFB86F599DCF,
     0xDC920CB532DD1B157FA7A99CA0DAF65E, 0x83706A3F965E0075333C23A47B1E6EA8,
     0x99438C083F755BDF49EC4A99595D6959, 0x2E47355B9C09BD6B21550D5BE7D29236,
     0x839707AC2DD044B583735DFB9A997717, 0xDA7E0FA29F102764071C88BBFB68E7D9,
     0x3706D66F0BD44208E8B410280331B359, 0xE36F7CE2EF3E39AA3FC25105C06FCA75,
     0x7E3064DAAB4D744EF4F36A8FE4EB49E0, 0x8C1AEF3B4940A4C4B520DF1ECA4A4B5C,
     0xD31A4B31187089C3386153721EA0670D, 0x9F8B86760989960D7E52BB9011D35743,
     0x28E43C67E5EC015C937BEDD075502E94, 0x171E315C7D2FBC8CA2017486F106DA8E,
     0xBE21A0B2556FA5CF822DEBE63F2187F0, 0x78B863EF014E7E944D53677A5D538D8F,
     0x986B50106200EEC54D36F09050D2C0A4, 0x8EB1B3AF61CDA3AC3596825448518FB0,
     0x95952EB344CE16F78D6527177EF143B6, 0xD4D1835DF3C0EDD776B38CA4ED75D2C5,
     0x0B30FE521036272E82A5E9D0B14D45C3, 0xF913006E5FFA6CC9441184C26CEE6755,
     0x57625205E0634F58B0B80EEE9B8B6A0C, 0x79B7B3C755994BE71780AB517D112CD1,
     0x0FF854340A33E4398E8B9FA6B96DDC6E, 0xE570C784E94E24AE387B63BDCA6B7C38,
     0x38DED81C910F79CF71CB01938A072D2F, 0x43C99283AFB10031DD8BAEC3D43586ED]"

lemma length_table_49154 [table_lengths]: "length table_49154 = 512"
  by (simp add: table_49154_def length_rows)

definition table_49656 :: bytes where
  "table_49656 = rows [
     0x60E61A16ED45781C3D4BA3FA8FFDD075, 0x317779B587BEB14160A9CC391712B52D,
     0x16EE88D2F458E39BA871B0D839932FCA, 0xD71B36F57208A84FD31A78DB5787BB72,
     0x1A244DEE1EBA5EF95D3B2097B524D90A, 0x9CAB1B100AD4D576EFFD38401E34FDFF,
     0x9BA5463C25AD82BA5EA2B778E3B6154B, 0x3FC1FCECEF60BCEE0758DCA20BBC0035,
     0x963D39AE00DA826A081E0BFF0F6A3EF6, 0x882DCC3FD879DC8BEBCEAD2826B760D7,
     0x3FC5DFA1ABB262D1A0560C623607A048, 0x0FC4D712CBAD425B3F2ADCCCEE69ABF4,
     0xBE7E4E0B1BF302F7E58A7BBAF4CDFEBC, 0x823005CE6F0B21E6E236E1EE65856F04,
     0xDD6333B9596C3EFD7BF012099835BFD4, 0x03C72674225942B1EC72603A2522B055,
     0xDD4A348DED5B9F8B39703C3CDB8906CC, 0x691F5925561D5DE274ADFF3427BDF4BA,
     0x60FC59F542B12F429B3AF9C6F77D6CAC, 0x3756F345E1B55242081BC4BA27B35F88,
     0x280151E804B9680C3CD45D25A36EE18D, 0xFCA08B6F7113FDD965B201F03DADA2DD,
     0xD710A467B3392189B817615BDB604886, 0x4EAA0EA4AC0FB279F481DDF90F66E27C,
     0x904F639FA39B76020D86A30D7D8CFECA, 0xBDB8522EF366B9C62BC4FE5C23C745D5,
     0x54FAD07DB6C46D553161ECFC28E02890, 0xA5D0B63F5200CC6A881106B08E62D5A6,
     0xAE39723C72806C4FF996A07B821A9657, 0xC48FB60BB8903F6FDFB049DCB82FCE70,
     0x6E37938F9E8086A5AC9E766899E1272E, 0xD84D574DB2F895E2E5D0B74F6D8AEDB1]"

lemma length_table_49656 [table_lengths]: "length table_49656 = 512"
  by (simp add: table_49656_def length_rows)

definition table_50148 :: bytes where
  "table_50148 = rows [
     0xAC707D5D481D111CE80A13C797D7C3DC, 0x6A3CC9E38D997D2F33AAAFA158B7CABD,
     0x0E5879D7FD0A45E8045C97F0C9A9E421, 0xCCCA2DBD573C4D4FF46DB9A2E3807031,
     0x158E0E8BC66642148CC7AD09B94964EC, 0xD18C3CF249FBBCB2C9B46ABA70932766,
     0x08E63A4E436C81DEBA8B1F9B5BD454CF, 0x2AB7EE2FE4DE755A59A48448FD0D5883,
     0x67763C37F277F82933E403A3DF39D78B, 0x04F180A10CC7C4B87A4E2D47E2750BD5,
     0x457DB2B6D167DE5C1EFFC7E3463F8F42, 0x4E436136F08031FC55ABE75A3BE51C22,
     0x1EBB86396BE5AB32AA205B228D1A7E8C, 0x297F6A4400AEF95C27EB6670CA8B9F37,
     0x895412D8DAB5BDABD3661D4129487911, 0x84E41F9ACE2A35A445C8C8D170B0B77A,
     0xD934D87DC27CFA5C6F7E4A962491EFFD, 0xB8C8A3BF47D40099B06006B52A4D8C4D,
     0x142E15AB2DD3780055034ADA4A649438, 0x6E72E1E321DC3169B1A22B1261ADCEFC,
     0xB086AE0210A9657E2623D6BBDC3F701C, 0xDA8C474FA36FE0980422F04948C26A9F,
     0x53CD58FE075553162DA5DABD3C94461C, 0xCF07194F14BCE2289FCCC918FB8C80BF,
     0x46555A190D2C51FDD1211202039D9622, 0x99F56DA798517AF30023E71CCD6B0DF9,
     0x43554F1093EB3A428F6671D6C7FF3648, 0x4A3B87C9068FE71292DE5D95285483D1,
     0xE9AA32E0E764937B7E9F914F8F4D3076, 0x6CFCF2D628259E246EA27D9A22CCFB9E,
     0x5D114D3D4CF126D3BBAA718D28A7B93D, 0x13C12886506D8EC1714F2C0A4FEDFE13]"

lemma length_table_50148 [table_lengths]: "length table_50148 = 512"
  by (simp add: table_50148_def length_rows)

definition table_50483 :: bytes where
  "table_50483 = rows [
     0x098E914754168E96FE99EFE557B34DE3, 0x7AE73EDE2C1298962F00528460A2FAC6,
     0x3CACBA975FA15A3E2AA554E50A48A922, 0x64CB9BC2079821516070B27118756C11,
     0x08CE32C00B2B34D28733F8D843254F90, 0x0D11EA34AD87861EAE3D6C74CC0ED60B,
     0x0EDA87DCA0BEC2177D01043EB649D451, 0xCCFEB301A22B0A1BCC21E1C75B94658B,
     0xCE419EB2FAA451F086021AB826B0808A, 0x04F66BEAD95703E5D6609AEC0E4E1EF3,
     0x837AAF799196D7CF2A99B06610741AA3, 0x72DF7B3DDCD1E87A58818EDA20202C0D,
     0x8340D2CF1C76B2086A5A3B0F9775F227, 0x522C36D107CE4C8812F84302901B29BF,
     0x8D5D3EA3D1C9255725B5260BE4503C02, 0x9DA2C5EA8230D1AE1B61D58936C5F32A,
     0x77D050CEC0EDC1366690436661389203, 0x2A0B7ADADC96E4354690490E67D5AB39,
     0x4DC4BCB8D522054D284E01A840868A63, 0xEE5104948966DCE1B981B14141183413,
     0xCF8F5A565A50F78189B714A260AD4C57, 0x4727E83B3AE5C115644DA5A8305ECB29,
     0x778EF6D103ACF479B85CDAEA9BD60512, 0x9D90671739919365087BABD0D0074F3C,
     0x7D370D03A60BE12563575E2055B35D33, 0x359CC379F5DC2D7228BBB2CC036276B4,
     0xCD8BB1A5554FB81D0050B06638FFE978, 0x252882D4FCE20B64EF16CCF58DF57A78,
     0x9E9C4BAC59DF68478173C559988610B0, 0x3DC2C853F0479FC189741820EE84B450,
     0x149E58EFF4E7E1D04FDC585B9D8C25B8, 0x9CE0A7AE990C53352ADA184E0838D40B]"

lemma length_table_50483 [table_lengths]: "length table_50483 = 512"
  by (simp add: table_50483_def length_rows)

definition table_51575 :: bytes where
  "table_51575 = rows [
     0x87DD69098ED8B7BB1141752C0CDA416B, 0x6F2627C248EB95698E68A99B2B14A892,
     0xD2758037B0BA4049F189AF3515857E40, 0x8BDF2531140E402F8E0373BE8360ECE6,
     0x51FBB652F059E54B5541855F48AE2834, 0xA7A20977B10618B61D1523316BA3247F,
     0x001FF9427556D22270501C69070A1C95, 0x876F4BAFD525C97EA79E42CE8B7DFA01,
     0x6BD4494A4F8D11AC99CFF13DD4138957, 0xC94B3E2E3B444FBF36DADC248EBA121D,
     0xA1D67EA84100BDCD38AACA713472DB40, 0x5D58697089B31621CDF61EABC6AA21B6,
     0x0469FCF2342FF2741EEC3D7E746C82EA, 0xA730F47A50F421332E9FB086389F9C30,
     0x46C5EA5BCAD4289ABAF9F5468F3585C2, 0x350A63D5FBF563DA2534AEE101AFAFB4,
     0x8F8A4CF3273441D228A1D82F1EF2F7C4, 0xE888D3ED7AC6B002B13036A6B51A3107,
     0xE6B7B087B7A9D0172AD0B478A68A4B03, 0x8A2EEB462FCB91907FB32814950A313E,
     0x97D69C42FCD0D87E1EB8577080149CA0, 0xDC8FD4E018EC8F55A6CAF8D10FC48542,
     0xC24B39497236E6F179F28D45EEFE9F57, 0x9D1F39B5262661A31CA666115CCE47D0,
     0xAE41F0234E22590158136CD577402B8E, 0xB997B23495CDC3287D125C4DE64E6F64,
     0x3158DC63762D90C6910D81AA65E82C07, 0x47499E73C773B43919C488ABC4AE0E48,
     0x2494132F8E76CF3DB9DF08BDFF98ACFF, 0xEAFFC9649BF8942E0836C1BB7B1BFEDA,
     0x8CFD0E1757D7081AE886B86FD82974CB, 0x6395D742E864727D497208BB5FA83BE7]"

lemma length_table_51575 [table_lengths]: "length table_51575 = 512"
  by (simp add: table_51575_def length_rows)

definition table_51948 :: bytes where
  "table_51948 = rows [
     0xA3B0E5732D2805ECD1F33289FEEA8151, 0xB2420281743BBF21ED0A7E778282F00A,
     0x18AD4A0179FD0723277B579F4281444B, 0x2D7EC47C316E433D1D6164C1523E07C4,
     0x42BC4E9DCB5CD384FFB371D3F633EB3B, 0x489E152C3C68667A8AA4DE58FC36E420,
     0x707C6B78E95981A93B89F44A2C525674, 0xE68FD72EDA7E1A0AE1F0A154F96B8ADF,
     0x4F1F7D847D7A86B900657546BC3857F0, 0x196FE2B1F8E530E56DA95CF48118399B,
     0x8FBE0900F8F317642EF1B87A75DAB663, 0x997D8F6E67CA5574BE19BF1AD8400570,
     0x570677986609796F62D6AABD37240BE5, 0x10BC51C5EBAAA787EAEC1C60060C29D1,
     0x4875CBC218352597EAB01C1948B67A20, 0xC45AD92C25F4E1DCF93588142CC7535F,
     0xA8582FA040DE923FAF307C780BEE18A1, 0x41C68824E94C1C4647C4F214C1B8CCA3,
     0x77E934A3225CBA5F03F3FB62D39DF2D3, 0xC5E419C1838D537F0AB221AB2C372C31,
     0x06EC5896C785677D89EED9642BABC61E, 0xA8C9598E1F512E5AC7CDC59A877D2C3D,
     0x91A9565CFFFCBA05B0867BA8EB7960A9, 0x568822E1899A4C143C6EB72CDA79EE0A,
     0x052D20B5DDBE15149CEFCB20AF8CE503, 0x1A4CA7FD107217D8BDD8868426B7EC21,
     0x1FA915EB40E1B587C6963E75B00BE381, 0x61496776AF7E6C5074CCBE69A416CCA3,
     0x782C2E692D3DFA58018B1FB5BA6792BE, 0xD32D6D88B8AB99CE76A260E617CCF0B6,
     0x0E83B1EE7B7157B3708B7A2859023FD1, 0x767C5A578D958D410DC2CE4C6E44E003]"

lemma length_table_51948 [table_lengths]: "length table_51948 = 512"
  by (simp add: table_51948_def length_rows)

definition table_52717 :: bytes where
  "table_52717 = rows [
     0xFC7722A43FA3C55D8B1F8BC6BE720246, 0x731DADA9AE53A1E8D14F6243E1B6F7EC,
     0xE2B075C9F62C15B1EC6EDCBC1C41681F, 0x890D9BAE0F08D019D8C313352D54E59A,
     0x7EFE16B91127B64EE0EA9178E230DB0E, 0xCF0DE469539DF9535AA0893570C19764,
     0xB60B1FBB83B5B6243A3E344A5EEF78AF, 0xC4ABFB0B31CF2FEDE02EBD930B72E954,
     0x72612129BA6C8058CE8300886E7B21EB, 0x60C6C6C0AD23D756794E8F566BAC3CA1,
     0x60C7FF44C2287AF82816C2DBFD12F2BD, 0x67AC4110EC6BE7BAA71E0E9556BA497F,
     0x995959A65C4935B2C8F2EC873B9635CC, 0x326533F4DF18383DED78FF3FE9532EE0,
     0xAC4B2B68FBCA98269CC9DF515B0AE1AE, 0xA8E57811E41B283EB4086CC9D5DD4BC5,
     0xA8B3AE58BF14AFFEE737E5B3D9B912DE, 0x11A75FDDDFEF17061EFC4BE0DCBE150A,
     0xE5DD6E8C82177860DB689BEDC6CF06A6, 0xF66156CDF5B8E7439C5926AA62329264,
     0x9D4F8AF1228E9F63E42679D578B79E65, 0x602562FC596D507CD9B81CC5FF6C6F62,
     0xF60DD5A094636792460183667FEBD7D3, 0x4253FFB8D798FADA2566F7FE3BD67234,
     0x7E7427B3919049816A99DBB764E7ADD9, 0xB6895B640DA4513386CF525200946184,
     0xFA9B3CC3B5E1046846229DD22D3B04C3, 0xAED1B1EDDC9A98BFD65B84AE3C918363,
     0x64E72AABE15035B922D679027FBD5C78, 0x18560572118449DBE25DEF98B5143A2E,
     0x6A45BB2C7EE245E88C52363D4BEA85C9, 0x700AF083285776B7FE8C06379AD8AC35]"

lemma length_table_52717 [table_lengths]: "length table_52717 = 512"
  by (simp add: table_52717_def length_rows)

definition table_52926 :: bytes where
  "table_52926 = rows [
     0x03CB40CD0E02DC5F819B70E5317D774E, 0x6DF021E2B08EABEB7FE864507407C6D5,
     0x7E642007D47C4E7E09E4965705049D9E, 0xCC1BC622ADC4E128C44C860CE14373DE,
     0x1B1FA058D4FBBB353A2FAD5F02FAB8CF, 0x0FA27B2158EC023F4D63F48A4A2BACDC,
     0x87414EF479F1B9B7079A80D8C3092E54, 0x33306ABCF1C6BF450F4F9A1EECE1D4D7,
     0xDF3D4F8167B923DDD356DC83E503AACE, 0xAE99A58F7A3FF2D323500CEB98A96A55,
     0xC6CDDCDA41CCA27894FA74AA24D9687A, 0xA191B6F538BA752C12685F7FC7818534,
     0xDCA58B2F4F7E190679398DD3D94CD988, 0x7B91625D8DF68481789DDC339634302B,
     0xFB03E63A1D137E00E047EED3646D0A05, 0xF379A5630BE517F31BB0E471393C3D3B,
     0xEB46237D520E234464DE58AB1B573A97, 0xC037D1B9A10F13F990650EABB728D2CE,
     0xCB44251F5083336FCFD1F333349DBD03, 0xEE23E3B13C06B040A90228BF6BF7AF70,
     0xAA6A08D3FB2E6B88D5307F8E0A6FC47C, 0xAF84C81384D60FC45B509E94CC733CEC,
     0x032EB2DAF0DB57BD5365F67EA2765730, 0x22FD3E66700DDD86660DD7B8441609AF,
     0xBD816EB263C36449C0B0B5285694094C, 0x599C993621C9C578A9C8966D4BDCF85D,
     0xE2CA5F6417FA8BB9E9F91C8A0D2945E4, 0x7A370299017B2D4F97879ADACA7A3E57,
     0xFE56D387F8A68D6AEB1EE8FBBA31FD3C, 0x15CA158736C63CC24193C2CB3B7F6399,
     0x228615E99E6068236B0E97CB07329166, 0x207AA9249A6382A92E92AC4BC9E5B702]"

lemma length_table_52926 [table_lengths]: "length table_52926 = 512"
  by (simp add: table_52926_def length_rows)

definition table_53537 :: bytes where
  "table_53537 = rows [
     0x89481F0AB3618EA99BF2D31C52F9E5DD, 0xC3C138B8C3D15F047A2850EC4DFAA354,
     0x568F0B5108983880974754E990558696, 0x06B1A79DD01755DFE1DD5DAF1CE1C13C,
     0x2A2EE2B8A01C8D86EB4F1A1F92D221A4, 0x84D1B20BBD5F95303D818B14DAFAA9D2,
     0x29F65663C76C99672FD2DF8625C6DF18, 0x85E091C56C380845CE602F497585E208,
     0x9385BDF5D92ADD8349AFE266ACB59FD8, 0xB76ACD08169FA3A63F68BD87ECE57D3D,
     0x608D6C23B36D72E64B553E627B0A702F, 0x2C9DA0C6C51E21200DFE47C70A3E4A3F,
     0x5B42EE75B7391BAC2985473C552147C1, 0x43FCD8A13EEF66F0A7B2529196083746,
     0x92D4E8A019928408810E91FE7D0BE3DF, 0x27A5DF03701EC5A805BEA5F6110804E8,
     0x805036240DD197999992CB8C83425AC2, 0x9E51CCF569EC783F3E7BE6981FCD58AE,
     0xE430B26215A9B9FC4DA652E503655FA9, 0xCE6C50EAC5EE15A3E397D6B03BBC4BFC,
     0x29C3C115E19796BFBCC055BAECCE50CE, 0x55CB466418D82E027DD6919B202AA93B,
     0x66719ACEA3B0D6F24DFDC7B75B0142A8, 0x8B526028401454935CDCA161E19CECEA,
     0xD1446A591CA6DF83E15F79D898D0FDAD, 0x5B40AB3AB689318C8A1F6840DF7E6C6A,
     0xB780541494AB6C348F61D640D9091167, 0x8FC2AEE0C0BDE74F19AEEC9ADB2BED60,
     0x8ADD1BE145029601F5EF3D5B0AE0A4A3, 0xAEE5D7CCD6F224FF41FD7A835EC7C188,
     0xFDB3FC5BA4E39310B1BE385C0EA6B971, 0x521BB13D8A16CEB29602D57B7B880612]"

lemma length_table_53537 [table_lengths]: "length table_53537 = 512"
  by (simp add: table_53537_def length_rows)

definition table_54011 :: bytes where
  "table_54011 = rows [
     0x6EA26489D2CA24FE29BCDEAB8277AE0B, 0x86A018D09DCFF5861E48DEC15F5908ED,
     0x9F67CDBC6940A98FB238BF07E00E230C, 0xE1E461ABD56C9D522D81BAD64E238FE0,
     0x513E26F534F3B975FF5796193A4D0216, 0x2B40877F3E13D4A253C48D4985D36C36,
     0xE06B499F96C2C3DE257739D8E5944E2D, 0x417B44974CA832496656BEA0D5A86EB3,
     0x4BF14F265D9DEDE43168B9253BDB1491, 0x805134349A61DAE877CA4FA0D96D0E47,
     0xB6CACEAE476987BAA26AE1B214C17D61, 0xA86D8FF92B3804924D5A5BB60D83964D,
     0x0D2F122A1D7EA33FE9A8F518E13F8413, 0x61C3FD30E4367267507F04DBAB150F73,
     0x90BCF10E197BD913787F3F73BFA4A0C8, 0x86E73F8331C38A757175D5FF9037CF75,
     0x92D8B8320DBC0AF00E41DF4617D879CC, 0xC3A03071E24AC778EF44580D5281D7A9,
     0x7B38E30AA1AF726D74FE138C0C659A89, 0xB9506E6528AD145E55138E2FEB04BB5B,
     0x2D185B912BE692708535921C01ABF914, 0x3BB8497B10CFAECCFB30CF06A5F1C240,
     0xCA25FAE2C8189CEDEE5AB46478344CA4, 0x1EF722EC0874254DACD6F08266C9B969,
     0x5B915A546B794D3EBD0BC8706B08A707, 0x09CBE1B90C741685A3B4D63B228BD888,
     0x27E87AF2B71848D53975595A4757A0DA, 0xB923BDC491A9A8BA20098951DB4204F6,
     0xCCD4D48AAA6B1778FC855BED9785DC92, 0xE0CF4E36450B96111208986096A911FC,
     0xAA7A18F126659EBC917B0CB7B07063BD, 0x1760C2665637C0E6995FBF6A777A399F]"

lemma length_table_54011 [table_lengths]: "length table_54011 = 512"
  by (simp add: table_54011_def length_rows)

definition table_54052 :: bytes where
  "table_54052 = rows [
     0x60030934BC31936B724443D1C757A70D, 0x2655B0F815414EBBEDAB494C58189523,
     0x85FA92EB566B61C46067DB4E6C3B9443, 0xFF7DF1A62809125273C6F3854933EC5D,
     0x31FF59522ECE95ECCC523DBCCD5FC99B, 0x05C8D2A361099BDF0AE50B27F90E2AEA,
     0xC21F430EF2F9C27A3052221EB025971B, 0x86A1261F8A491D47C9A746CAF307CBD1,
     0x546BE6003EEE4682E6F199649242CB19, 0x853BC88DC2DB04C4104B9BB0F2364E6F,
     0x657B1CA1623D7C62550EC87BD6BAB2FB, 0x07D94504F047E7C3F70252350D97C319,
     0xC08F9210B16BB88DD07846796DA66139, 0x1DF235153D800E5D7F8883C3BD7F3235,
     0x947319DE749C12DA751073B291311763, 0xADA7667421062690230EE7DBDCA4F53F,
     0x0F438413775C23ED8F0E4B99B447B917, 0xC742ECCF66DD07BCD07FEE10F68143C5,
     0x2A50F2F60AD11D4470D563198AB7B990, 0x0C04E5BBA8C03A3B03410BCF80B40ADC,
     0x4070F060B35937459D61E7953C420F40, 0x67528701CAA521646FEF9CDA2E3D8DE7,
     0x1884C37348BA93E4BF9FF90B976B6BEF, 0xA0DD5B35099ABF0FEE2FF87832D070A0,
     0x2A2ED89CF3D7C0B625222D030AF5C11E, 0xA1DE3F9580F6C874FA56DC09D70C564A,
     0x53004E497C5C6FAF5FD0E5CF9981D8AE, 0x211FC58801F6220BD6AB0ABDDCBC739D,
     0xDAA40FB6640643F28AD5D297DE26E3C2, 0x4F837B2BED49FF33E71F96E1B145E450,
     0xF1C33C7BE9783D2F82D171CFBC22514B, 0x6AA2FF2804F59D48F82681015527F529]"

lemma length_table_54052 [table_lengths]: "length table_54052 = 512"
  by (simp add: table_54052_def length_rows)

definition table_54255 :: bytes where
  "table_54255 = rows [
     0x1D02FFF47436A3CB391104DDA1FDA6D6, 0x5BBB45695F3EBA2AC9AFF6341A78A136,
     0x8DBEEE94E049CC3CD3AD0F1F9D4128D5, 0xD4B60953DDC5E104538D13BDBB2E56E0,
     0x67E1261CEC9012402EAD455298C4919B, 0xF7A19E8A8F7D8378ED4502CF94F97FC1,
     0xC241145210B00FA949E1E3FDE3FCE449, 0x5564D883EED1037B8C32FE21B9CEF7EC,
     0x726725D5517026BA9D853014E6C75715, 0xDA2AEAD755DCABB750ADD92BFD3EF3AC,
     0xB8BD2FB4A6C94A7D634F70A0C1648518, 0x719989DE9787A30966A2F176229503BC,
     0x09BBFE7261850C9755D3073A5C57B6D1, 0xE0EF763D7418BA379403CE97DEEBB934,
     0x902A1311E0C87C5DF7BEB2227EBA08B2, 0xF7EC9B2E01BC56A784523406C6732BF0,
     0x5BB5EBC1435E8FB40E064D9C42E4870F, 0x8B7C8E8FCDA698BD85D892B4901C95E0,
     0x4B87C6E68CD10BB7863331D4309106C6, 0xA29E06D3E54D665171DF2120902C76DA,
     0x7150FD71A0444EAB3B9372A14FF5B1EF, 0x78631D13BA760342672C32B9FB069B50,
     0x2621F69AC90A9A30CA0A5D1E8F582981, 0x2E60D0F56555E6DC74568B8145370F0D,
     0x6BDF15DFD73871D216C1402DCDB71B7C, 0xBB5B501BE9E0E3F2ED25B41803F39370,
     0x8F067282A5E8639C6E1D873D1F05BD72, 0x9847D355B2DCFCF7206566C3D2118CD8,
     0x51DC35A9FA6D42F1CBE690684BA0CBA8, 0x2B18094FF42E3AB360CFB7F10F99E508,
     0x65695D81D1498752FD7E98C7543352A4, 0xF78DDF0A29FC90C48273B4CAD405C378]"

lemma length_table_54255 [table_lengths]: "length table_54255 = 512"
  by (simp add: table_54255_def length_rows)

definition table_54983 :: bytes where
  "table_54983 = rows [
     0xA181CD190B13E6C8BB7366D179640696, 0xA113573CB46D185C8A145966597E5C65,
     0x25DF7805A71893EBD64419A53A7357CB, 0x2ABB8D83A16D01FB9B38BE0CF0CA16AB,
     0xF763CEAB6AA13D516975BA0387015C9C, 0x1285D021B7E4834E39FEAE545780A673,
     0xF010DBEFD3C9178AD6A890ADFBE60570, 0x4FDF78D7EA5924BFA09E1932D329DE07,
     0x2303FE7FDC02EBBD7E5AC09A1D89048D, 0xEDCD90D17DC21959EFFB97AA2D2F3C97,
     0x5ADD03760E9530EF6D3DF076E3492798, 0xBAF25C47EDAB848D45CE5710955401F5,
     0x24BD4C47D727ABBAEEFF00C1DD3C55A0, 0x25DD93BF621BA13B284DD6F1A5D89E8E,
     0x16309484E8C868E31580EEDA51DBA070, 0x81FE8729F23A630EB5FC51C455B946A3,
     0x59BAC35BA97F929725203982AA90CF0A, 0x08898907FCFB5214D771EB0F5A5D847A,
     0x72B30795901E0D03F0C601C0488367C3, 0x6B7FD615B9F0D3CD655A38652DB982C3,
     0xB79049CF671571AC93537AFA9703BDA0, 0xD61E3E5D54E3A9C3CC5C33AA830014F1,
     0x7EBDE93A2EF25BFF6E03FD2D691C564E, 0x28F274F917ECDBF80F2BDA2DBA3F0AEC,
     0xBA1A76F29199E5DAE497DCE772348E0E, 0x9E66D6E3F6885FD3FFC9AD6FD2F6EE60,
     0x30BDF4C2C03042BB28CAFE0A78AC595E, 0xDC7D309BE1051F04DAE7998B99465DFA,
     0xBFCF22E9E624BC14E05D84C223FEF1B3, 0xB4F202F0C52AD6576049B1BAB7204604,
     0xF3CCF651DC2D97E2D8F1E1A32D6133F6, 0xBA2CB1C7639D410479827A65206DA227]"

lemma length_table_54983 [table_lengths]: "length table_54983 = 512"
  by (simp add: table_54983_def length_rows)

definition table_55290 :: bytes where
  "table_55290 = rows [
     0x86F04712B7A27857E3208E5AF40BE1D4, 0x7299E3A76E4204165C0540E7197883F1,
     0x8E1AA4224CA7B6E0D046B69D4FA17772, 0x2B233703B652478622B0704C7475F342,
     0x40510392A110DD20F74EDD5C4E72332D, 0x808E525EC3D85FF28949A85913E420A5,
     0x734AFEA9C3156FF45E37C93297662EBA, 0x198064B88CF65DB8947E9457D58742F9,
     0xF4C36E9CE594AAD55A8C7D5A60223650, 0xD1E61409ADAC5A22F66692798B237B14,
     0x1E32F696D7EE245BFD79AEC85ACDAAC5, 0x232854EB5C7F991819FE3DC928E2E00F,
     0xF5AAC046A10360DD1B8C57C870CB8D25, 0x5907F3C2E26EF297320EECDBCEF20FB9,
     0x5A835AB3D3DC5527DD75212411FBE6AB, 0x4E52A8D1BA580B3631D51348BDDBBE88,
     0x08154CC95736DAEE6A4E063D1709B04F, 0xBD33CCC29EC237ED788173D0A75846DA,
     0x9DFE642D33577CB66D5EBC0236AE586A, 0xAADEEA3D1B2AD99DE45BD8B6AC89E539,
     0xF3038D52BB6051943AC839FE0E06DC66, 0x2FB902FAF1DE6538384BA8385EB234C0,
     0x063936BF6DFB69604762543152E1F6F4, 0x03B79D9C3E4A13A6619242E96C7B73BD,
     0x7CC99732EE78AFDD82BF8AF772121B8D, 0x5DE10EF5121C2FD3ED186D8B2AED0455,
     0xF17496C8F1E317479780AF242948A704, 0xCB4E58E42D7151329D8E430AB1137B65,
     0xC82BCF797D36DE2A4BE228CC17DFAC59, 0xB1ACFB55086A2C26502D77547F508018,
     0xABC9162B70650E5ACE7727CBC18AB294, 0xD9D736109DABF28B03141CA8B2F15ECF]"

lemma length_table_55290 [table_lengths]: "length table_55290 = 512"
  by (simp add: table_55290_def length_rows)

definition table_55918 :: bytes where
  "table_55918 = rows [
     0x62FCF8A1D54A7122B97A9345B19D06E0, 0xFFDF6D80A4D9F2EE399660B88549284E,
     0x1E432090EBC4FC2E786087F18B2DB161, 0x152297D7140FA667CF8E884BFFCDA4C3,
     0x55948F0D84453BDCCD0410ADF51C1B40, 0xE38838745AFC795C7A9826F96F4D8A51,
     0xDDB8EDEAF5674BD72D5CB85020828849, 0x64C630A5D452034995AAC54A0ED5B34B,
     0x2DA375B1FF2F8A3C25768B9FB0831B87, 0xB7AD989E673A68F4BEAB16DF4FAAFE33,
     0x223471F6D4335E1A0A6DC696D058DC5F, 0x84B456772676F35315C06ED81C70BB3B,
     0x3325C972FD373BD428D47E44DA0D3AE9, 0x83FE2FC9FADF4AECF93FC8F800924EC0,
     0x2E8345CFD9D905EF04701BCE00C8DB02, 0x615A2117D4898AB00FB07664E3BF42B4,
     0x418E88B73E4DFA281DBA601DD2613B32, 0x8A44CB2DB9B3042E59687AF77647E4B0,
     0xA35B9BA67FB014E391B04C8923E52495, 0x524F7F6DB5E90CF2371B86DE6379E2B5,
     0xA54659172EE261360E14476160F4FCB8, 0xF490AFDF47B0BEA410C11905829E6007,
     0xD2A1B6D31ABBFDC64353066F3AEE91D1, 0xA36DCD396E605B9C70832A89FDC0993C,
     0xF67C3680BDFED866E33E1C95840A18B8, 0x3096C41DDCB1D7ECE71327BAD0032AF3,
     0xB1C969829285EE616FAF859AE6B4FA33, 0x08AA4DA586491B30EE60B5DC5703FA09,
     0x014CEF1481C92F7E6218027D21C6D64F, 0xA5A378DEA307A13C0F0396B792C4B9B3,
     0xEA2E8DA6CD87690DDC7215B37492C5B4, 0x526365066762D07E674730ECCB14F6B3]"

lemma length_table_55918 [table_lengths]: "length table_55918 = 512"
  by (simp add: table_55918_def length_rows)

definition table_56957 :: bytes where
  "table_56957 = rows [
     0xD26BBEC43E793B9144524007E9C77BA0, 0x4F70FC24BBA6546587CB6E5FCD09EC2D,
     0xE2B274CBDA5064D2BD4A2036E5745E85, 0x2501E4789244EFC2E52D7EF891E059A7,
     0xABEF0A6D8A11C9B317D989FA046EDEC3, 0xEF78B90AD753CFC093A2004A3EC70389,
     0x81EF1EE5F143290793142D2DA0FDAE6C, 0x303FCC6A65527F5FA8318A92DCDB2080,
     0x5B82A865C159F8D62F9785BDEEF12AC6, 0x8E289CA6E177F472AADE9338F3B2B1AE,
     0x9295B9A0AB755CA53861B676A72D1C0B, 0xA774F524A6F35DA6360F2E57E272759A,
     0x423A90B82CAA57E5CE4CCD8DCFB6660F, 0x88E0DD9252B2B5C81BC341EF8978EA09,
     0xE559669D522D06DFCE3FB057192CF88A, 0x2732673F76F752C1AF821DF74F78539D,
     0x36401370ED677025BEF705DBA527B8A8, 0xD7F69F1120AD9882D8DB4A8FE7A445EE,
     0x399C9EB7F5E6D39D7880EBEAEF55CC9F, 0xFD97F3F11B925E51124EAD50CC2A4FE8,
     0x48967170E5806E263A9B8F6AAFE433F4, 0x53D5C71D30C27338990544383D2BA106,
     0x55CF0D12CCFFEA4EEB23A48E5EAA6E5C, 0x73799E81197BE0F917A72E25EA97935D,
     0x5C412CC3BAF54964079F1558358DC128, 0x973316F6329286D6227737DE99225082,
     0x5E366B1DDBE4DCDFD6B94AD82BBC3614, 0xFFF6D033A864BAA7581A4583B04A4E0F,
     0xDF261BC0959BC252B3215138FD37F24D, 0x254A8ED72C98A423BBAB765A2EC8F4F1,
     0xF115C5213950FE7A5EBA3F9027AF55A3, 0xF2F74D2B92DCF67677ADBD20236284FA]"

lemma length_table_56957 [table_lengths]: "length table_56957 = 512"
  by (simp add: table_56957_def length_rows)

definition table_57230 :: bytes where
  "table_57230 = rows [
     0xA943DB834E2C99FB357B3EFBE200B7BC, 0x663D5B4D8D301B37268B85D8D99888C1,
     0x1FC5FDA80BFACD940C8C79861CB2B441, 0xF93F87C5CB4FCF114082D1F50B93447B,
     0x99B938405B05AEBAC9624C766609696C, 0xD31993083FAB00F0CEE8E190B14F1EF6,
     0xD62D8BF4D9DECD2A006AD601967EC5E1, 0xE653BB43380F34A29F6E53C0DE50220B,
     0x0F63AF19A0B2A716F61C29527B382CEC, 0x2A54C6A1A9874FD7045A99F939296DA8,
     0xA28617BE4123A37611AFF9856F6A7543, 0xEF77432C1A3180F2F8F6263DCFB0638D,
     0xB7FBDD1B545B7A4A46DDD05142E1E84D, 0xA8F6C221ED9B0A8D9CF8FB075500211A,
     0x128AF10A3A1A5AB4258718765205941D, 0x26089C1C7273195296CF38CAFBCA0A73,
     0x363DE34F8219DDB6247575D448B15356, 0x89CEE9C9A0E5587719A964FC27055D14,
     0x5DC0B859B44265187E0F0E090A9A9BAE, 0x67F59B6CE7B7E8353A99F6F828190171,
     0x480D0E6EBE8D81BE8E87CCFC25D8FCB2, 0xB84421A362EF0C652BF666481F9ED636,
     0x3EC9A1FE12327C7C473FD88AE8704372, 0x2B1C56FFA262E5BBB316DF8A1126D7E8,
     0x036CDB499E0FC216A966286174AA5069, 0x04F4F9D0AAC49AC195908D69073400B7,
     0xE105CE5F5F3A75B03D21BD6358FE164A, 0x34A498EC5E3EE896CEDE7C3EE93EF49C,
     0x704C2B9140C210D9E1E7830DCD334060, 0x29D59634AA8430C748565D1BC3E7E687,
     0x17AFCFBF3C63A5430F1A9549248EC2F6, 0x4AE173D8BEE59489B4A909CF5791D28D]"

lemma length_table_57230 [table_lengths]: "length table_57230 = 512"
  by (simp add: table_57230_def length_rows)

definition table_57796 :: bytes where
  "table_57796 = rows [
     0xB461B31AF16743F92B2C425BBE37F133, 0x12E17F608D4989D06596F3DB8CCCD7C8,
     0xBDC801D579FE8A63E2FF9960E05BB889, 0xEEC2F3413B2CB1255DC0693737A18BF4,
     0x0677C890F412E268D7B7888398E0D839, 0x285A1EA258DD17445FB7FF90DEF668D9,
     0x92D3276CEE2E74267EACBDFDBF1453AE, 0x3B3AECCCCF72254E32EBA35298A7A020,
     0x2EEB7E5DE2C6B477969B16EA0D8B7B25, 0x7C0F849D449B58E541E1CF7C06F2ED29,
     0x93262A133ADB3153CA3B5467A3D87330, 0xDB56D57F22C7BABAF9489E976A7C683C,
     0x91C8BC4805BBA01452AC45C7D9ABC20A, 0xAB62A83FE0382C041ECAABDD347E3AB0,
     0xC177A81AB832F2B04766EA490C3F5683, 0xA4974CAAE1B41C09D737A3F2F356C952,
     0x0B3CCE1F9EF12D344D2308C07833F5F3, 0x6AC6064E1264C43AB5B0ABF43B2750AB,
     0x6337122E0C2768927408B2FD8010DC26, 0xCFAC8A183D31658548EC785576ABD21F,
     0x783F8F9F80DE2B2879E5B8CACCEDD6B3, 0x925B8C827095E0435FD1F1352DB30717,
     0xDE48705D00C27EEB33134C67D1A678B6, 0x6BD3190DFAA4B9511B68A3A48DF203C1,
     0x89D9CE48EA37E8EF107EB95FE412BFCF, 0xD715818F78B6AC8DECF380F2FFBBDBCE,
     0xFAC89DE884F7D126351FC9190C706934, 0xC0892334466CD9CAA329C05AED20223F,
     0xA4EC4C888DAE0CAD53EFC19BBEDB68D1, 0x49C50D67F97EDC836C30DC4C9344855F,
     0xEB80B7F94BB7586F752E6C8730BE7C8E, 0x5B49D29FB86C1F3DF93F0B8C8BBF7F3B]"

lemma length_table_57796 [table_lengths]: "length table_57796 = 512"
  by (simp add: table_57796_def length_rows)

definition table_57979 :: bytes where
  "table_57979 = rows [
     0x5A6B24D12931DB8A9E4EE785A2097734, 0x21739052CB25B3A0C979A6EB6F5A6262,
     0x48371C3C2E8BD6B0CC06F264F7D60191, 0x1055ABBA88742C00E9143985D22C538C,
     0x69669AE08821AD70F7D946A3EE81372C, 0x55273A26F2EA36F0A69CEC667D47D3E9,
     0xE6FB00B793CAC3A40C021C48E17809F8, 0xC82668E9AC54F6A4747B21FE00DC5E5B,
     0x1266CDB7CF2FBA518962F50F40D4182B, 0xA360E0861DDE7221D1C511FEBA81224D,
     0x7321030D4C8FD6FE8039FE7B97636BA2, 0x150FE0E2E45CF04DB87432D2523B407D,
     0x6437E7CFAA0434A850CE5F98621D2948, 0x574E94268E05E11E372746A855138645,
     0xD9EBC3ED42CBF1E07083975BEA351219, 0x4582A38C42261734212B6AAD647469FF,
     0x5755D38075A899E3C84FE480A8B03A91, 0x6963A0FC73F5B2EBA3468E3454B48754,
     0x2006DEEF2A27B86A18602955E45C044B, 0x4B7250E72146471824F0AD76B514B974,
     0x9F529A0A36C0545EA26889D7F5D0BB44, 0xFED6F071EE100952098990061774B427,
     0x102717957224CAA7FE15AD4637B9FC77, 0x073FAF718F67437FF8E28B33BE49E238,
     0x519636AE866330555A21126D0B0DAAB3, 0xF2949522508FED06336B3C78938BE435,
     0x3A4F99C7A1F602E9BAC56E6624D2B1F6, 0x96EA876D653A2A89D1C1AF6FE3BDAEF0,
     0xAFB9254C1315BE68B5199907727ABB2D, 0xB6FCBCE6B2AA6CEA50CB2C9C99FED953,
     0xF02F81925915BE0B05F0134A5F122E6A, 0xBCF8921A41ABFB3F31371B31CF733523]"

lemma length_table_57979 [table_lengths]: "length table_57979 = 512"
  by (simp add: table_57979_def length_rows)

definition table_58155 :: bytes where
  "table_58155 = rows [
     0x9DC35FC245AB7C1F561FF20AFD37173F, 0x597DE85F607EF7A204AA052BA4ABB075,
     0xCCBAFFEB6F68FEC0BEC1E21C1FA7AA18, 0x66CB858DC77EDFEF77FC0148A48288E5,
     0x1D54EFFF3B96C63D3E7C264046835843, 0x3C4CFCA36069A1D1E9B1C2A13E2181F3,
     0x373475E98786368D38767DE37C1320C4, 0x7ED6EA3F99FCA3595F845E4E3779E350,
     0xB08A43ABF28B3705750FD190CE62F3DE, 0x5162B694BF88933E31D13FDB4F9789E4,
     0x1C675B34D967FF273BB89DA290E566AF, 0x453D35EC9D905E4E437D34635C418B44,
     0xD2312A92D69F6743DAB64F9F96764678, 0xAF7C79BE063467E160161777195BF974,
     0xAAA5CE4892D1874BCBA7967DAC65AEAD, 0x392659A1846A153E340512A8729521A9,
     0x9EB2738007C036085E2246CC91A20F9A, 0x4198BB483858FF01184CACAC316CBBE6,
     0x9A4E7270F824B0F08D2343A8F7D542B0, 0xE326AACE349848FEFB727136F22BEDBE,
     0x6F9B70D68BAFD817CB20679D2CC4BD84, 0xF72D38CA1A3DA2FB20798E9CC2D0AD46,
     0x349ECAE61B63423DD1F5819649EFDE77, 0x529B3B7CF9EF71060DA98F7E790908DD,
     0x5D26D5329FEB616F887399786544C8B6, 0x887B3193F8C6683EB541A05A1A2D765A,
     0xCA2340A32567D09A0EEAE346859F6814, 0x4920326978ABACDD5CD283D99CB78DA8,
     0x3FB8A3639C128B1B30637ADF774E27EC, 0xFE2DF93FF43FCA3F42CE50DDEEA1A0F6,
     0x76DAA2FA38334B18835FCB3F73C4931F, 0xBA5A9481E7B269698E75A43D0C184232]"

lemma length_table_58155 [table_lengths]: "length table_58155 = 512"
  by (simp add: table_58155_def length_rows)

definition table_58625 :: bytes where
  "table_58625 = rows [
     0x9142F403D9D79594805CB7B4D2C54297, 0x98E7268A64E6D2D54F0CB5C6490E00FC,
     0x8A3BB3557A01B7CFE540E8B5D7799528, 0xBD86EF5C0C43CCD3CEA48B423D63EE4B,
     0xDCF0FE61ED003878267B8B97587DB38D, 0xFADE0AA61FC9C4BBCA8F32623E35EF25,
     0xCA521C8512369010047E0FB1E422963C, 0x3BE0C8D9DA31F0D14E5AAB3B62DE95A8,
     0x41B6A9E47961871C74BF90C819069BE7, 0x335D1A0FBE5E38BED6E72ABB206856B5,
     0xA71E738EEA926EEAFDA150D5A3E95354, 0xC7018D60CDE609DBF410436ED4C9BFF7,
     0xAC7B8518FEFC1FB77A36D60F27B61D7B, 0x7C37B9D4C791AC1B45E6D46FF9F1D9C3,
     0xB9A803888860FBEE4F9644C041FC6EA2, 0x6D878E8901F11B3FD09B0F1DA6281CBC,
     0x374BF144962BF72ECE55F022979A9E79, 0x4F353DE2D96B7892E81A0865FA9D164E,
     0x47AE93EE9E841C86226F036A72DC4A00, 0x1D7CDB3134FB68E35C7CAFB66D5432CC,
     0xF3FBC09522DEE3C07DAB8624863CF04B, 0x1678892D7A6B8E8A24171280A67E5E55,
     0xEDE3D25E66A9D62EFFBA4BA54EFD704F, 0x5E64A699F66462B5B8E0B90BC62EA113,
     0xA2AD8AAFC8CB4718C0894FE162E92833, 0xDF12AF3FAD6D191153073870378B2E50,
     0xF3E38134A54F6A4CF7179881D8DA9E8F, 0x949454E5B292586B4B76EA0DD08A7025,
     0x744954BA9E151506F24B967A0791F9DE, 0xC2470D9E5834F2DDCF357FA0AE150860,
     0x1E18B47639A326F38B295406BBF8177C, 0xC8F58595BC1E58735A47F95119F3E4A8]"

lemma length_table_58625 [table_lengths]: "length table_58625 = 512"
  by (simp add: table_58625_def length_rows)

definition table_59008 :: bytes where
  "table_59008 = rows [
     0x3B2F203AAF14EE7F0632D4C28228CCDB, 0xF5CDBF6A4A8AB938DF53012FE0DB937E,
     0x56171370A1C78DF9915D1A1CA018EDE8, 0x9C05C6E2096CC125C7B670DD95EB5368,
     0xD8AE35307325909FEFCBD624C4B59B35, 0x944CC5D7A41FB2427253298C0819021C,
     0xD001105BD64ABAE833C83A94D6E08A23, 0x1BA11D3AD90EE602A1DB69132109B798,
     0xB2DA77312B54A51D404A8A41C8EE8DF5, 0xFF15AFF6CACF468931CCA8964759B278,
     0xF6AE0B3DF707428CAF422867275910C5, 0x8D2393368F327F648E21830F15C43104,
     0x1DF7F6A55AADFC5A4A70FDDD78487C11, 0x8613E39BD42A2030CFA1ACE1355D86B6,
     0xBEDBDB3A1B29EA526D16F1D845A995FB, 0xA96445D53EAC09AF22E9774A285219AD,
     0x8DFD346C12DD26BEB1A462C0FB48FB03, 0xD64A964697ADA7AC173CFA25E6C3FC01,
     0x9FA3DDEE35FF5038510159F0243054EA, 0x961102029DBD7F4852520BFCF5D3A035,
     0x13352D04434332F4868AA3D12E516019, 0x25A3391562EA20570D6032A62856BD91,
     0xC72FBD55BC1A66D20A7EAA78A993BC84, 0x1FB6357EEFC310B46045B4E0B8B8972D,
     0xD7F9B45892BF91DA0107C70838BEF944, 0xE64747E7E0653FE70ABE74586B8DDF23,
     0x371579FF9B1D9B668791D4C3845FBBC1, 0x0C3EB7DA2ACD5F5AE7457199CA624307,
     0xD89F9F36F654BA840FABF866DC84BA2B, 0xC349747A1993C20E88C5804CE4B485A8,
     0xF008350BDF686AE05F697BAAA3417FA4, 0xBA777CAD9FC20300DE6C39191CDAC70A]"

lemma length_table_59008 [table_lengths]: "length table_59008 = 512"
  by (simp add: table_59008_def length_rows)

definition table_59573 :: bytes where
  "table_59573 = rows [
     0x77FFF520F22C4443155D481ADF6A0AD2, 0xC51EB3304EA9ABFFC1C89B71AC57E943,
     0x30C95B679C6906AF14140C39B9F2BB29, 0x8F31F5D92B320751F4A38EF0C2CFEF9D,
     0x24F5F929B50037CC1514799A3B33ECE3, 0xE993D3FAA0D75BC0D627721DAB5E9DAB,
     0xC8EE1EC6599043BA58C11E3A0F268549, 0x8EE81CFE0FCD2B2CEFB20EA91D6E2CFB,
     0xC104241380C41F180C4A62B6DC70DA60, 0x2165562B1F1A70AA66D2BCEBDB1318AB,
     0xCF0D01E9CA1F5D1A1FCD6DD7DFF981A0, 0x094DA075AABF323A0642B01BD77F11DF,
     0x4EEFC55BB0F9B5246950451FB7EFC217, 0xD2DA1398ABE63DDECA37E96F35C8E068,
     0xBA853659DA442F52B4DAA2CC2D40DD21, 0x3060558698670286280A67D52B16EBEF,
     0xD7CA6759072346321A4553E586F330EF, 0x8ED7BEAFD3CA9E87777185695C0AAAC8,
     0xD54B4D9C5FA28B98E147BC4694DE4AF4, 0xB153C8D4F969725F4F679F5DEFAA4A13,
     0x57EFF9799A5203C7ADFA28A4E8EA535E, 0xD894E4B815278083EAB08ACF67CD70F3,
     0x8702172991C9BD89841C8B2431EF975D, 0xBC755A4350D9F9F539B95DE132A0BF98,
     0x7B6DBC7B357CD052A36875924AE63F86, 0x49A18F5D6AAA9DE386873EC83E8DC14C,
     0x5A380190563266509876D21FB7E6D843, 0x8A466D574BAED72091D2C71209FAAF8F,
     0x65C2630E35E553633B6FBC33FFA43D21, 0x4D19A05C55816C025621E155401AB9DE,
     0x743D3550719D294F7C7662BE1B691BEB, 0x33EC45CBA174E83BF9A7624F5FFE7C7C]"

lemma length_table_59573 [table_lengths]: "length table_59573 = 512"
  by (simp add: table_59573_def length_rows)

definition table_60038 :: bytes where
  "table_60038 = rows [
     0x5E3E8AFCC127D111AE7D3D8694998EA4, 0xE30DAB20F7A3559AC11F00F6F4516650,
     0xD9F6C481EE736AE7C42F978217F4DFDB, 0xE3B7F0C2201248D28BBC731CD93B8CEC,
     0x2667968134F61392842DB9CEF58175B1, 0x2B5126DB3D7D3B062CBCFF1857429344,
     0xAA57543C06B07F241139183B0375EC49, 0x4220F00AEC61336DDAE90E755167E27F,
     0x55D22FD202E55726BC587B3F9F48E61F, 0x2FD1C50DEE53C5D26D240A1C344EF99C,
     0xAC6B2974C9878483892040D80A7CF3C5, 0x8B5943A532222ADB8D7809F1A7327780,
     0x787D2223C250EE011542B2D011134C42, 0x6C5B5222A107BEF0A7D2F328C6EFF8B0,
     0x4D052B04AEC91253C78B7514E4ED53F1, 0x88FAB5A5A214D8E7BAE62C2F27A60893,
     0x3B139674E40DA2D5C814D48D2D70DEE8, 0x642A8D4E9BF8F47514BED262BE9497FB,
     0x5F9B2862BA426B75D2D6CD30B7621518, 0xB40A2ABE4F8E3B8BD1812F376B702A0D,
     0xD984F09DC83E885C80DEF38F9CBC374A, 0x0684C249ABEDCCCA9A955C503632852C,
     0x5F06CE330026A81E9750089E7144ADB5, 0x5239A7B06294FC3E75D95602E95A5F43,
     0x4EC794D964CF1C3F0C6A781BB4B3757A, 0x3DB73F65A50C11AAECC6B49661FB3833,
     0x4C0DD937712BC4469065C32A2EB34E79, 0x0034C50983D2008E39568970317A9D37,
     0x4D95A393113A9BF7A33F34AA65551801, 0xBBF93ECF63A8327D3FC13A1A60B6D069,
     0xCD12CA653C2EFC05A55AD8A22B2AC4E5, 0x2A9A967A8FC2805742ACBC6CE1303C14]"

lemma length_table_60038 [table_lengths]: "length table_60038 = 512"
  by (simp add: table_60038_def length_rows)

definition table_60360 :: bytes where
  "table_60360 = rows [
     0xE189887ACAC1A25300F1EDA083B08DB2, 0xA4EE2F9A1E6C6930410D67539AE9C127,
     0xBDFD3F3E928F63D2C8292602055ED9D9, 0xBE6AFDD2AEF741258FAEC3AB66EBE49C,
     0xC6832A893EC24EBD89E07E4B76A7D318, 0xEF787E43D1692D786472FAFD51657970,
     0x38203BF26ACE3CEB88AFD974416FB51F, 0x78DA582AB0EF5D399702CA511B4E5865,
     0xC40301DDA7A941E60E677D2C69E3522B, 0x1E1D4CA6F82103DA7E84F8159822BA82,
     0xACBA8D87E1C3A332DE0F751D5E8E85A4, 0xD4687B3B737EDF40985ED2828268AFC4,
     0x5071325B6C9367CAF8B3801FE827724D, 0x1C1608AF54678C408AEF464C64777F01,
     0x9DBCCCCD51DBA425F4A20FF6E3827361, 0xF26688BEF335D0D311D9BAF95A8D6BC9,
     0x6F795CE752896664E0408ADD1D29EFEF, 0x8A60306699A13E154D23B02B467D59C4,
     0x827F415F93DBB4CD601DF74880185DF8, 0x7DBD1FF4B529D745161CFDF033A6F555,
     0xECCC065E5864FF196EAB8BAC89D15AD1, 0x07CA199841BA29613CFBA493B85BFDE4,
     0xB9AF298375F0B3F5519492A2C0FF5224, 0xCBB4CA3AF8BBEF9A45AD6F098E595861,
     0xCA756236035D14F539A0110601546291, 0x2FE8BF0AF2FF581ED480446D46599620,
     0xDBA059312E576E8CDAA578C698F5E35C, 0x1BFC96CE4292EA45EABC046B53859201,
     0x69A5FB703DCB2BC1F0FEB3AE0D9B0833, 0x2A281587438D37EAE53BD3031CCF93A6,
     0x897BD68301629CC58C14E28DD04A1041, 0x56A5312C1AA6EB9DBD86BFC32CEBFCD0]"

lemma length_table_60360 [table_lengths]: "length table_60360 = 512"
  by (simp add: table_60360_def length_rows)

definition table_60547 :: bytes where
  "table_60547 = rows [
     0x907B7B12863AE28039CD45F0816D658D, 0xBF98508CE463BD150374E3D327583EC5,
     0x6AF54C6F9598E1220E6393BCE3BA3294, 0x3A72BC416044295DC771CBC4378D0896,
     0x06B2CD03FE01653A1CA54F37FBB94548, 0x7A55AADBBB70913B63D6274C1E9CBBD5,
     0x6F1297A52906C1F2697003A0CD245ACE, 0x3B590417DA93DC22379C41DE9AE4CBDA,
     0x6FCFF018CBE1C2516E3DA4615AB51613, 0x33118D282FB17857D102BF00E53F2294,
     0x87973901C13F0621DB6DF970419C33F9, 0x94323C775B77886C97034D5094F470A7,
     0xACBA6A89819CF0A9A48A92B79B6EB9E7, 0x727270CB4C417DF87CA2128CCAE53932,
     0x5934C4A2E587D397A1D52762726CD6E1, 0x2FEFAB9B4A70F3C911A869E3720A3555,
     0x290B0D8BED4ADFBC2A6F3F79E7B59238, 0xE1D8B3EC643BCA2DF126824DA617774D,
     0x381BE60A3FA78C8872992182D098884B, 0x7B543C75F8DFF3C8C24063B8D23970BA,
     0x7F771189FA4F96DC7AB8036A78952481, 0xD389B5164B6CC6E2ED95B81F3A728589,
     0x5C5ACA227C8A39A1D649300CFB436D02, 0x387BB94F0496C6EBE89F0E58488515E0,
     0x84B3FBA4F34E023230BFC5E17E53EBAF, 0x1ADC5CB2C5A28CEAB0066DB9CBE29F60,
     0x96E41E31EB3CC32B018E1E111E169775, 0x2A7CD8B1039F79CF316B765C4860B64E,
     0xF133B341D908236B13D35153162A2858, 0x476CBEB1984538B5DA2403EA7A598B46,
     0x597B9904E09439F31B653C227C6D9B87, 0x0B48E6D64A0C264D014B35830D863768]"

lemma length_table_60547 [table_lengths]: "length table_60547 = 512"
  by (simp add: table_60547_def length_rows)

definition table_60993 :: bytes where
  "table_60993 = rows [
     0x6CC39EC82CD9FB344EF2BEABA9BD4422, 0x9E6E71C99BB9331D8DE4DE3243BAAC23,
     0xEE4514DC6F558ADEA53BDB341EE6F91E, 0x67AD5A332716F4E128DD884F88C57D15,
     0x5686FA307D73B2FDAEE3B9AC50786157, 0x25C369CF73C358AAB9CECB22681F3F83,
     0x0044E2A9DAC55545DCC0EA37493D86AE, 0x9D7BFDF1BD68DF89A23D22FA6FFE148E,
     0x0ED4D185616FAC46760A95BAECC1C724, 0xBC730AA0DABC9F79CA3787EEDF95DADA,
     0x7A32801A4574D5DEF688130570367CBA, 0x28E5EA52CCB1C6356BC3413FCB5BAA96,
     0xA1675AA1A8E18BF696B474861EF029E9, 0x2563B4EBFDA01D066665DE7DA0503B3B,
     0xD9EEC8E643A70960EB8655AEDE610DFD, 0x44403B82FADB1F57E464CC0071B041CC,
     0x1002128F96C8043020BD2716CC4ED398, 0x16F5BAEE3C23258CACE936A7EA5C1AA5,
     0x3F405C5A7CE69E1A40E54405C76FED57, 0x67BF660FE32AF1D775FAD1F5650616B6,
     0x618D9FF75A51D26CC3CF9EA6B6EDBEDF, 0x34C3EEC87F667DA3FCCCE68FC8B388E2,
     0x8D284D80542B47C5916F9835441661A8, 0xF45C7C416950C83FD15502A6129B3A44,
     0xFBF445312720371C4D8A61DBE598719A, 0x43FC93937EF48A311BDF4AE36A002C96,
     0x1F69E8E094747DC507C12F864D44C881, 0x8DFCEDFCABABF9751F8D51E7E0B47828,
     0x9F78BEAC3AD27214737C50AF19CBC777, 0x7F66FE48398A8A4A4B1E909BC238568D,
     0xFA01F2C9E45D8CAD036298D57EF49032, 0x0932FDC2EFA40A776D2715B1361A9F73]"

lemma length_table_60993 [table_lengths]: "length table_60993 = 512"
  by (simp add: table_60993_def length_rows)

definition table_61542 :: bytes where
  "table_61542 = rows [
     0xC43E2541845F190DCC10447DF8E332AD, 0x61BE0D9A3C3A1DFC2A92791F7CA184D1,
     0x553ED8B0ED0CF0EE50977860FB0A8074, 0xA6C0EA16A407C556CFD97F66264523A7,
     0x217009773A454AE853D833FA809378F0, 0x1FCCCFF0F239E5473335920B08A26B92,
     0xC58FDA7DF485BDE4D0E1FD19FBFB7A56, 0x01E7F19432DD0E04F6DECF11E503AB45,
     0x57F85BC2D8DA2A2ACB1A551B6E7D0B0B, 0x8238460DBDC43C2A14CE8138D15E6475,
     0x7EDB3155D86C987E5D8E57A095BE939E, 0x8E56A480CF7C2E0819D75C607EA05812,
     0xB1F57ADDDE80CF54F292600468809F00, 0x2C2659653D91E8C7F841C30498BE98F1,
     0xD749EA563DE1BABDC54CB754083017A0, 0x57E5BBEB2CEC8FB1C0D34E5FE15CFBA9,
     0xB33B4AE8E78328DC7861A730809467C8, 0x644381B62AF71F7C28EF5DFA623E425B,
     0x9D05437749940B7780A75F29E16F5B40, 0x72B3A228464609E7F3A88D3BBC974A7B,
     0xA2CFFA6859797AFB5FB26A8CD07481A3, 0x1C6925D994D8B8B397253CA209044A35,
     0x85E50CA4EBFD520BD27A0195A7A61868, 0x871F2119A00EA393E7D74EA9E4A570BB,
     0x2FE6F548076DD17B0FDAEF08257C5EA5, 0x162D4B1EF5F828CC8A8C74EFA02647A4,
     0xEA1CA6606DAE15AE7B124D75E45A4215, 0x218CDB810BA2146FB60FB00C2167E2A0,
     0x783121E88D4563E4597B65D364A2599D, 0xE82AB295B736FCAB0171FBF2DA4D3B3B,
     0xB9E8E6D6B3B38070046B8DAF5DDACBFC, 0x774C01D16C2140BD20446998A595E028]"

lemma length_table_61542 [table_lengths]: "length table_61542 = 512"
  by (simp add: table_61542_def length_rows)

definition table_62065 :: bytes where
  "table_62065 = rows [
     0x6F7FDFF090833129DF8B6777E12BFEDF, 0x13FF0652BC436126B1C05B0DD07A0901,
     0x66B522F09D2B6B87F7565F6E3BBB5987, 0x04EA10E8903036DFB4479819E1125D54,
     0x62E2523BC87D1E580EC75CE2F31992FB, 0x86D7FBF1A6427BD09802DBC48836D389,
     0x96E64046166498F25EE8605576906DF5, 0x9B6BD3A5805908765D59CAC7709EDB8C,
     0x0A317597813AAF74422ED8114CC9A1C6, 0x1A1C40DBA9A5A89DF2CB9E79AD823B46,
     0xF6D234C03B147DAD2D52311BCC0AE123, 0xD3BE3B6D1AE403DE8CDA1356F689706D,
     0x1EA6C8A0F0BE59A7EB270C1228BFE296, 0x230750CBFF5F694DA73C865441067E0C,
     0x92A471AA13B40B2D0BC2A48355921F44, 0x5DBD826E4EB6E7ED098C196AAD705129,
     0x44B6F8BC08339584B51944B65240A4C9, 0x8BB7F8729A71B10AB0B5257E4BFD280C,
     0xA4A7E8775722F2FA8E380EA7DF52A064, 0xAACCFDCB31135B51ADCB232BBCBF5B35,
     0xE825E63F820AC26A8468C3C4FC462EA3, 0x8B921CAF5CCC7B2120F84F7527BBC81B,
     0xE47987F46E00C4E94EC35A9D56108DD6, 0x24FCDE3C23741FD96C92BE452285E1F7,
     0xCC361068A1332E7ED0BEA5E74033AFB4, 0x97A6B858B40182219062338F5729A777,
     0x1F5DABC6E157D91108524F9300340505, 0x551A03E719DC7571138A543C04327E56,
     0x7038BE9224D054144F4571B3AEBE216A, 0xA20EEBBD8EF99983A839DAB9260B4E9F,
     0x891B287759D7804682FBF05D86A7E6F3, 0xE40F8F8A984863D746800BD3B9DB9AD5]"

lemma length_table_62065 [table_lengths]: "length table_62065 = 512"
  by (simp add: table_62065_def length_rows)

definition table_62591 :: bytes where
  "table_62591 = rows [
     0x605091B67DB3FDD77F8DD94A20A71012, 0xEA76659997A1DB7C3FA8CC2D27EF8387,
     0x8FC33966798A6BEE3BDB66B6243E4FE9, 0x9158ABD3B44AD6472F72B9C98C24F927,
     0xA8BE106F793CBFF94CCFD6E8FC19681E, 0x314E47F2826A4A58AB5D40E4A5A46129,
     0x1BD583094676BE0CD6B6744B90960A46, 0x2F50A9A41C22D6A5E488146DAC95B1DB,
     0x9A70710E4F4480748E9C32A8A3889FF3, 0x2F4F78E75B161B72F8C5C8AB247FBAA5,
     0xBCDE579BE5A1484EF1B53A5BAE15E1F9, 0x58BA900FB9594D1452CF1EDE6AD90BB5,
     0xE148D3776FAF8B8908C8EE6EBCD315D9, 0x5F563A68CF12E1E03553DD77CE516564,
     0x9E620513C1FE0A3FF14CDEE563503103, 0x4F74CCFAE94CE591A500FF3D826AE00D,
     0x4A5EC0D966766F3B6A61B077AFC852D3, 0x2B50A0284DA1D6B76B314D308F79BEC1,
     0x4E99F5E52C26AE0D5384A01CFD688D5F, 0x051CCE47CC4526F25ABAC51892B9A55B,
     0x2FA6B3390276F93EEED8D707A4459A91, 0x1FF6F6D219CA383563A61D55C24EFBB3,
     0x8C74702458E52ACB0DA4710579C765D9, 0x3EDC9A6C5D53D33DE74EEE8B0BFD8D2D,
     0x8EFACBDBBB9B7CCD095661B4CA15784A, 0x88B6F227290F94A87065427C28CAECBC,
     0xCFAEA8F6EA6DAB378A1B9181908D1C17, 0x9175C4A4B2E99032F3309B599194BCB2,
     0xFC5B56C769A9A2E22D456F234B0978C6, 0xE4F363FB8F38F3F31B5E953AD52F6A17,
     0x9E25714686897E8DC330ACBD7429B05E, 0x83D6EE0C75CFCD6495E4EE88AD1AE0BD]"

lemma length_table_62591 [table_lengths]: "length table_62591 = 512"
  by (simp add: table_62591_def length_rows)

definition table_62906 :: bytes where
  "table_62906 = rows [
     0x34934E7E28BECD813CCB45331C1CCB8D, 0xCE945F9B2B47DC476015D348ABC8FF38,
     0x884D9DE4E1FDF9A5730D4C42CB5307E8, 0xB3B5102B5E8B8E4E3F30EEB528372ABF,
     0x76D04D94D40F68F61453905B164C77CD, 0x2F159618698647F5B3D3E019C36B8A39,
     0x4A667FF006056A5F91248EB37A263AED, 0xF1A70A27B59F3D8DD899203A443A8001,
     0xB2619158F5624131957423B484F26E91, 0xF8F6DBC6044A36F460F3E721095D4B68,
     0x892363498A4F9961602E4D7C6C9A20E5, 0xD85EE5AF986447212C665B6B03DE2F17,
     0x93C858FDF3CB6B47B1B517619136B9B0, 0x1331AB82C8FE4980CF7CA29BFF85A0D9,
     0xA30FB8A1550CF789C746C3AE7C9C641F, 0xEDB0653D7A5C72B676B2A1AA0F59821A,
     0x2372EDBE1C5A6C44980955330D3EDF24, 0x7E69A6485B3B75AD4C1BD45098105AFF,
     0xB0EF4FF447E5744C79C0825A1AA9D36D, 0x0449745B1F3B9E8D1A1B25D0C9A359DE,
     0x55C187B091CD78D52860B3233C21925E, 0xDFBDE033DBB4D8D5EA5D92EB654F8B81,
     0x5FB621B8C06F0667A9CA7350662B5883, 0x719B7C9BFF32F8B31CE86FF5BD005D4B,
     0x9D5358955DCB58D8FF50353343D7090E, 0x64A201755EC19938AB9171CCEB72F8E2,
     0x73434102A42EA09689B75DD981891EED, 0x2DB34ADD5CDF0E334A809499ACE9B63C,
     0x1F99D7616CA06E00F84617D052F2AE77, 0xA32EC3582490262BE49EF7E960AF8D5F,
     0xCF6DAD4103BFF67E49AC5542A6C84051, 0x308F177AA68B340D451C2B2E73B7922F]"

lemma length_table_62906 [table_lengths]: "length table_62906 = 512"
  by (simp add: table_62906_def length_rows)

definition table_63372 :: bytes where
  "table_63372 = rows [
     0xDA66514E68A5DBE9F1C654A06A280072, 0xAB787EDFF20DE309D828C68B853976BF,
     0xF1BC14FD747340FADA155001F49E836D, 0xCA0AD8DCD9EDF4016F1F418EA92CD42F,
     0xC38FFBF0AD85E80AF7732200C787905D, 0x86CA4C2EC40D7F4FD45F9EC617E4EE53,
     0x20866267A31B8CB68348C30EF53EFD4A, 0x4D305203A33F2AE49BDDD57EC146AC1A,
     0x49726F9BE598F5108E3F73C426C36036, 0xAF1C158D3AB2ABCEEBA07125FBC0B4DD,
     0x18111BF25DD120FAE87BEC18BDEF2C71, 0xFBC3FEFDA543AA72A498F161D89B828B,
     0x6099D07081DD38B12C01A56B7A58D5C5, 0x2E05D416AB6425F60FEA849746B9EB92,
     0x6674212D23E580150B44DECC38250184, 0x320174DEFBF6FE6278C3BFEE50E28F20,
     0x828C71BAE0DD809C0C9D1261A0E3C5EC, 0x61D9F591E12DE64AC6E39786A476D529,
     0x8B540A3937FC72B258A4D99F55229F83, 0xD3E22C09C7CE1B77CE05B57E283D46AF,
     0xCACE334E2A4CD88BF2FCB0935AF708D5, 0x1A6D67580E5B09042FF5398AB919435A,
     0x69C9560CE1834D712762F7C5FC4CF59C, 0x345E0703C1F62B03241F9CBF4741E913,
     0xD00CE5838145ACA8FB76D61925A6D0DE, 0x5CFF8D44BEC14C8D2EA04EA0B7C0A336,
     0x58413DD704C3585B61B3ADE33D0F30D4, 0x2EE652698640085396911F72AA7C4C8B,
     0x06ECD8E2D54552B190C3FAC90D1E3F8D, 0x6BD5CB721CAD2DC91F50BB43D073EF50,
     0xBE69D4ED5D8EC61A0996DDFDF5BA66F4, 0xFA150E2EE870FF03E4B60A642BBF7DB2]"

lemma length_table_63372 [table_lengths]: "length table_63372 = 512"
  by (simp add: table_63372_def length_rows)

definition table_63568 :: bytes where
  "table_63568 = rows [
     0x693AD8EF4E52D6B36570914C1467AC74, 0x57810C43E4CAD339FA6AE6C8DA49AC39,
     0x48FD526D5A88D724639E789D72268AAB, 0x29039BDAF496A91604587F651D33A71D,
     0xFC4B1C663199E4184201931831FF5F88, 0xD5722A0740251EB1129337DCB0DAF204,
     0x8E6114A67642A7B626E8BB3266C7DB39, 0xA6578866A9188793E527891346CAF8DB,
     0xA655F3284C8B7550148A65534E32747E, 0x6371C3E2058C9A1E73BB8FE4127E4A1F,
     0x5640AC8A960511D502237F392EF756BE, 0xF9ED0CA461C7D19E317078A80C8B356C,
     0x774FF70FCDA710AB3E97C8E161C78CBF, 0xAF5948149A1DA749D650D3A063F47A06,
     0x06F898CA5140B40A0C295676092D65F0, 0x136113A2C5B2EDA2586C589CCFE93CB3,
     0x9DFA36356E068F05E32D9571318712F1, 0xB27A335BE2B761DA90C39B56CAF80BE8,
     0x62D246331F7E9F1052750588B1C04D7A, 0x072A689453A33780C88F53F8B80F22D2,
     0xE906413E4F21234D9E740F386AF40B0F, 0x792001F254B94278B377BD71B6A4D001,
     0xB5FA4EEC8A515724EDC123806CAB0D85, 0xCCD7E4E24099EBB3CE58215AC8D8C447,
     0x69B4DC90AAEA83CDE8E989AA8087CB5B, 0xF4833AF3076F27CF4AEF6718AD00F3AD,
     0x36D779B0E585206EAA6CB05B20D9F0BA, 0xC0599FEC69D80AB101EFD31755F518C0,
     0x3FB19FD1EEBB9A4E30B9F26C13ED3D47, 0xF504BECBAF8616EC212DAA56DB1EFC5D,
     0x72F9BBB3969B67241F49BD66FBEE60C3, 0x10E34D98A8BBB820330336E1F85974D4]"

lemma length_table_63568 [table_lengths]: "length table_63568 = 512"
  by (simp add: table_63568_def length_rows)

definition table_63778 :: bytes where
  "table_63778 = rows [
     0xBD5E9573204F5BB9C4DC48CC51C29209, 0xA4B57A068997A24640FE972310AE46DE,
     0x981A1188EE30A00A90CC99CA1CD9C6F5, 0x1FA001DB3ABF884866B5895A2F6FBBBF,
     0x0E8E079E4CD10E8A430D802682A856D6, 0x766762A00BBFC3811A85B5AA0B3F4579,
     0x97B0105CF6332008E94654A66A056C00, 0x2A3460B3CC19C7D289875C87AF72C27A,
     0x0684EB458A4C4E792EE2D240063E7179, 0xC9EC50FD682CC3FC9ED1A927D4229B67,
     0xD9DFB3400AA9DDA1EC3535BCA97D179B, 0x5D29B62DB463E4F95424754AB1A2B50D,
     0xC9D199D705C737D16A89071EA3248A95, 0x7DE607CD7E43AF6122C2563A5A626F61,
     0xDC28A4DD72E1A6834B704F0F03EF0151, 0xBDF00708668B381F32FFFA1263D0955B,
     0x1DA43363924C2602366AFE2ACD8D7E63, 0x8730FB5469C0FBDE800EF234799A2718,
     0xFF3DCF2559DAA17AC099A39F7028FD1A, 0xCC9DA79B437522DA306C1B995711A81B,
     0x5E4F898B5BE981C4EA0E9DFD713DE925, 0x30A88036ADF8164C21EC4AE957364923,
     0x82EF86CA723C159EF0748E7D2923E60B, 0xD424DE85AE85C61B5CFCC82F6436A418,
     0xEFE837368466DC9DDF1EA0061852C5B4, 0x149DFB6464C209476898D2BDE7045CA3,
     0x40E124C94A907B18711BF9F917167F9C, 0xCBBB331A96C93ECFE7DBBF6C5651AEF8,
     0x9D7138A328119465D8AABE939E388F05, 0xF3C8943AF6DF474BD189CE186A1058E8,
     0x621395422C840CB1BF8D3110B56C4DE8, 0x10469EF59C61E3B5D7AEAD1AF1C38133]"

lemma length_table_63778 [table_lengths]: "length table_63778 = 512"
  by (simp add: table_63778_def length_rows)

definition table_63869 :: bytes where
  "table_63869 = rows [
     0x9E7F6185441D18AFE37E6397BF3C883A, 0x4FB8FC0C82A19B632A91AC8596AE89DF,
     0x0662F578B919FBCBA5F99D695A30C2E6, 0x45319BAC2D1C7C4044947BF7AE4750F2,
     0xFB306AFECB306A40081D880157F96287, 0xEE763DA9203D01A443C53540A240715D,
     0x25E19C91CEC8C603EA0E23668C7D90B9, 0x59BA80CDF2B2A06D968E185A42268729,
     0x396C1D4C67D0DAEC9DEBC3B04086D4B3, 0xC8B4007882741C7978901E87C1377817,
     0x443A103DC127FE712383D8ADF99D9C30, 0xAD87FC83466526ECF11A8C507A1DD762,
     0x20DCC1CFC7896ACA2793A3C3ABB7C13C, 0x416CDC37A6204D3519289B2254CA9FAD,
     0xF0A43D5ED459E4F6C478783D0127E1E4, 0xFB44D9ABDB26E23C76608F05BD17E366,
     0x97332F6878AF7B7F00CAA2A6627DE38E, 0xCFE2F74355FC8AA8ACC1A1F24C008553,
     0xDACE7E83496F4519FB99D77769B2EFA8, 0x7C7188430D5817D24732279F05CB0172,
     0xC75C958DF0B2FB43049FF2224CBFC9FF, 0x35963529C725CAFF35602F0C52CD1C12,
     0x31C5A2C51CFC032AADC0FDFB03241707, 0xCD79C42745080BD82579E0FBB44CBA2A,
     0x01D2637910D59C75034AC5A92EE68F2D, 0x4E4030F36F3A8D4CAF968F819BECCA84,
     0xF04BC6D126BE1FFD3038C21685F78BAF, 0x7253C22F2DDDA68CCD8F9E23350932D3,
     0x2AF7A61DE4F9E831672A425AC2F3C940, 0x1C7BB4E1F147B2F21F74104DB1F33FB0,
     0xB23568F3D3F0A133DD393208ABAF4636, 0x0BE5DDC1BB2E1513276C038C796B44E4]"

lemma length_table_63869 [table_lengths]: "length table_63869 = 512"
  by (simp add: table_63869_def length_rows)

definition table_64346 :: bytes where
  "table_64346 = rows [
     0x5C47C85A8A3648AEDC79A7C0DDD1F03E, 0xED5409E7ACAEE43607DE41EB764E433B,
     0xE8B73712696881028830CBFCB55E5FA1, 0x2F174C48B805DF34E32A97379741D00B,
     0x7EE2A83023F66B314EDB0AC7BCA8C85F, 0x4906AE738CA8B33E02A56E554C9CD2F9,
     0x043FD2666526BF90B989ACE9ED4A2D69, 0xDD16965F01223F256B16D632E77795A4,
     0xABDE89DA5BB4FA3E462D98E3802511DE, 0xA86B0F9CA0717A4A37972FD0BF8435FD,
     0x06E95C1A20097B364B354E9B0824C135, 0xD4A0A6D7BA59F75CB5BD613355F01270,
     0x7B3574C5729142B4BDAA58D2F35C4BC4, 0xD0FFA5D93AD068943C4E8EC2B72D1904,
     0x696AAA5260D63BE6DF0C88F8764AE80A, 0x7C3535135BA77305A228696D4ACD3A7E,
     0x7B02CEF5604955821BFCCEB7D173C798, 0xAA2AAEF3F3777682D7ABBC9698A12C64,
     0x829779271B05540E39F2EB9C40C5413A, 0xC517B5C683559E49F3EF3E5B1AE38EDB,
     0x73989CEADE3A6AECF022DC208E5410E6, 0x148791D91BEB9636BDD3E987D79D9445,
     0x3DA206D4D5601BFA9EDDD49F30274634, 0x9B1C33853517DF8DF487F6956F98ADB1,
     0x370797CCF2CF47C1BDAE7833717B256C, 0x389D7A65EEA12D50C682F3C46E9F36BE,
     0x34A9EC4304C6A0152D6879AD552284D1, 0x3EA315FD35F9BF19E2FB6B95110A68A8,
     0xBA42F6C15D5E762005C486113EBC22AC, 0x44333082B1C1A1C18FB9388278661017,
     0x694BBB9B600F06F43FC05652C5E93E6D, 0xFC6424098FC1B9241D3C2A2517043AAE]"

lemma length_table_64346 [table_lengths]: "length table_64346 = 512"
  by (simp add: table_64346_def length_rows)

definition table_64719 :: bytes where
  "table_64719 = rows [
     0xD0974818801F30CBBE2FF19DD6AEC122, 0x4F34603FFDB9414ABE406FE7CC3B1305,
     0x0E172CF0364B0F7891B8BD6C8770B8E5, 0x6D07A5C876D8ADC02F772B1A7C332646,
     0x70D1010D20562A7428166DFFA5C05371, 0x6C923EBDBF9D9567201305A8212F5D48,
     0x79C81D96362127C2949CC82D3E066D1F, 0xAE61269121A80D929FE5459C0E41F041,
     0xC6B87E9BDCE6EDED15E66E9DEC39FE7C, 0x4C681D3289BD27A305F57B8EB0BDC4F1,
     0xD8F1C22CAC52FC07E40A88350B3913AD, 0x344CB9DFF33B3612C0CC0F7B7D9DFBF4,
     0xC4787B46E9262E254FAB63D2189D2E51, 0x94FDAE188E5AC708DAC20104DCCFB33E,
     0x7B6D9517786E6C8F5638E2403CB8E1E1, 0x69F0F5C0B6B7DD4241D24DD32C114FC0,
     0x9A9AA4D43CB5CB97853322E3EE23FAE7, 0x043C86E1D3A884086829196D7CAD8FB8,
     0xE9A26AD5E9D8CD037C2029F2D7694C79, 0x26432AAD2AFD62EF0BB9ACA72A987A6E,
     0x7E365D03368F6D02B5AED8AAB0724358, 0xA6868E0AEE0C6E15C91E53F35DA202BD,
     0x828822A65EE28D72F893DFA8B84F2DA9, 0x681B6D939C2F06C5B48CFBC331D40678,
     0xAD7478F3FF422CC0C52879B13E5FFE03, 0xF0D6F2C7284ED1EDD6E9BBAE15F40E3C,
     0x596C2C339C71E98A62DF123A84FBC034, 0x7F057994CDB8446D17BC4154E40BFDF8,
     0xFB9860215B7788357BECB28527CEDA09, 0xA48D6181BF4FEBD749E0A296CF409C2B,
     0x440C3DBA8AA2ECA7B175805EFBC71841, 0x9BB8B53B364CF8A7D23D5C07F005C811]"

lemma length_table_64719 [table_lengths]: "length table_64719 = 512"
  by (simp add: table_64719_def length_rows)

definition table_65302 :: bytes where
  "table_65302 = rows [
     0x2C5AE85B7E8BA690A1F8FF7A10632B07, 0xFFBD36864E8D9B26402BF87E210BD917,
     0xB375CA6E96EC9EE5E8CCC1EAD69155D5, 0x7840191E025BF575DBA1171313D0DA1F,
     0x7EE4FEDFB4591A45AF70F2C7A9C973B0, 0xBD4975FE6D64290E20320D5D30CD3F97,
     0x08011CB93CFE89ABE8971F0CA4D7C56D, 0x5EE6F8AAEB2B4E9506517938D053A98F,
     0x75681B0502D3AE0DF63E0A51455AE312, 0x136AB24C65996987FA5237BC5BEFE91C,
     0x3093B208F804F4E16CD92DF06B4F9519, 0xD3791B673A5035C56C919578A6037E9B,
     0x2FC53EE248BA5B7F252EDF38DA3F154F, 0x20418DA5B2CD6C5B4FBE250D9CA9EFA4,
     0x6A9E3B68E333B181A6D58747AB00A634, 0x0BCF115D5440C6B64F8F8261905E2418,
     0x11474734D48E1ABEF16FD2F8D72F2DEA, 0x4E41A60480781D1602D8253A22FE5611,
     0xB8F7F98A81873E85EE940486570BEC64, 0xF2F6CCEAEF03914B09525EEF0AF139B6,
     0x47CFCB8B99914EA4655A8E6C8157462A, 0x7B636A94B629332F2185FCF4973C22AF,
     0xD00199A4462A1E00A61D405568F24D21, 0x1752EBFF39C7240145511D93D582C6D5,
     0x308AA69098BD940866807DF354341930, 0xB804F1535B790D761783A3EE985D5BA4,
     0xD6E1ED1A02CE07BFCBF8C3062C2AD17F, 0xF0DB95676C2E34DF0DAF76D2E1D9A45A,
     0x47BFFACCFF1B885EA063A91BEAB4BB55, 0x4C6BCE53B0B2F41282D64BD1C9774F41,
     0x4FDCD10A28F26890F6D3A2017CB8F0A1, 0x489E64BB5EB752EFB3DF1DA728FC8263]"

lemma length_table_65302 [table_lengths]: "length table_65302 = 512"
  by (simp add: table_65302_def length_rows)

definition table_65513 :: bytes where
  "table_65513 = rows [
     0xF32D7E01776768520BD7575A9C048925, 0x6164F75C0CECC2E0674CE9A588B59587,
     0x309F6F9AC3FB6176F021722656ED32C5, 0xA6B60ECF1AE92F7FA08165388A4A1847,
     0x5A587BC95987C6E20B0F9BC9F6767C47, 0xF4D061104352480308F59BD4581BD030,
     0x64D1BDCBE4FDAC9066EB78C4C198A35C, 0xAC544CB414E4E3717F6C8D91F9D2155C,
     0x6D7E38F541C2ACF726A948CB5239BD2A, 0xD6D1D5A2BE9E8FBE0D127BFEEBC4EF5B,
     0x7832E3F6EE6087B2BD823D558E625ADB, 0xFE6AE1C90F112E17797FA0B44D764035,
     0xBC79A533E636B48382FDBB4DE1B56121, 0xC0EDE395C8B14CE0BCEFE47BBDBC28F1,
     0x73F0A0F61E1FC5A284D76032EA658421, 0x8E32DBAF4370551901E93BDAB41662B6,
     0x9191462AC19E23F243A7FFEACB51809F, 0x05FD40CA71D66554D732449DE51E05B0,
     0xEB5A95EDEBD10375D8FDB628BF353038, 0x803B494609E08F11342BE40E149DE1F3,
     0x910F25743D3C7954D46BFFE7A835B015, 0xC5C6AD52DBF829F0ECD87AE568D00BED,
     0xEC4A4413D06F3C0952521B54F0B0A0E6, 0xFFF47055307E6A20752295A191F516C6,
     0x43BD5192545A1874DCF8A1D47693D18A, 0x88F16AD28FCDBFB0D637EDDDFCCE7BCC,
     0xB559132575F28FFB80D0DB02B66FBC19, 0x6620358079459D4B3F1010C4EC72AB66,
     0x5B8AAB1A04267E8970D81313AA69AF87, 0x721C2484E69672EE110EB364C1A31500,
     0x373C0805F2797036FC1595D520493733, 0xF1C8444491B415F00407DF6CDBD26941]"

lemma length_table_65513 [table_lengths]: "length table_65513 = 512"
  by (simp add: table_65513_def length_rows)

definition table_66302 :: bytes where
  "table_66302 = rows [
     0xBEBBB11D8198894B5D12D3E0C2BF79C6, 0x8B4DC90A662EEDED61C09EF92D193162,
     0xFDAE579F70AB2ABFAF61A198A06B6B29, 0x4DAADE7BCB5D04F2CAA8D6DA4497AFAD,
     0x81518954C9DBA4CCB114E174C89CEF5E, 0x5F280BBB1532A07631345D6E6D4E1780,
     0xC92EF94F71170172271FC3DB62BA163E, 0x445DA6C26CABC094FBBFA588D96B5481,
     0x84537FC4448FDAA5240F35D82E25017E, 0x997E58C1BFA17552A55AA6E3CC931199,
     0x86E36B632037E8AB67570AD07552AAF1, 0x25D7775AB238673D6C01050AF2F0488B,
     0xFA162C6122432C9F97669014635ED033, 0xD5B4D3E0CF54C6AD590CDC1D4CCA1C1A,
     0xF2EB59412151455023EB4174C25C5DD8, 0x70368CD54AA856E9ED065D97D89C5F26,
     0x5AF4208A6280B2D0892E1A53E2572890, 0x8175EAC326E4B77880212A2742DC184F,
     0xB22C1FD7D9A64447011BB4A699A8252A, 0x98D4DF2408CE07E4E1436761E177237B,
     0x57434545929402192116168408533FFC, 0xDD0D4BCD4D095EB7DDDDDB3263905DA3,
     0xBF0E9CBE13AFF3E15A44BA8C87AB7A76, 0xEC45D61C76C798A658C976123222A661,
     0xA651307C85940FFC3D0431B5BD35BFE9, 0xF3D7B3AB6DF0895BCEB13B535CDBDFAE,
     0x250727E5A1C07D5892D54E8F5D7C1BBA, 0x50BD2629B0BD655F97A5CEFCD84BC6B8,
     0x58013A52E79B2E3DADEB7DA321D61507, 0x4D7B0E9F53F7471EE8FA7FA8F824D560,
     0xD9963D163544E867EC1C009B5C12D69C, 0x6F16D48E76F6FC5CC140C0F7208657CE]"

lemma length_table_66302 [table_lengths]: "length table_66302 = 512"
  by (simp add: table_66302_def length_rows)

definition table_66607 :: bytes where
  "table_66607 = rows [
     0x42FF3178E8CFE4CDF8D25C4B26A3CA9F, 0x918634BEA7805BE99C32BC8C70865428,
     0x7913E970E85EAD373285CE3A8F0B7F6A, 0x9D02BB3D907BA61BE804DFF2A8357DC7,
     0x1AF9F20DC05075A289B1B4D36628D186, 0x2CC333AA7ED48943D3621C84810E07AD,
     0x03AF11B6EDD79F1AFFCF9418BCB7225A, 0xDDDDC2AA0A60EF178C3915049605CB25,
     0xFEBC568757027EAD4743A77354C5BBA3, 0xDB391364A93A341872450B48F178F37F,
     0x2CB43A4F59CE44D45F39426CED1011E3, 0xDDF83B00670EF38E77D04D5FFBF1376E,
     0x84073234A80C91F327FE78CF9E0C3D80, 0xCFBC4ADA6149A8BF5E1975F1AEF7DA5F,
     0x75774CEDFFA31D2AB1A911C093D63D99, 0x4C73819443368FF3B165D03C4F0AC0B2,
     0x2EFF885A0D7DDF4B4EC446DBF367801F, 0xF2B5C6BC6F2FC95B188829A1F30D6884,
     0xC71A2154A885732C3061171E6FAE2839, 0xB10658B2EA91108A5B9A07C0D2CAAA65,
     0x61E05BB2DF4DF32ED3D47C79FA442715, 0xA3732AAB90425DFD47BC9F9C049C8DE0,
     0xF6A512C75150DC93E7D2E813599028A5, 0xFF8A7F4750694FF27198041BFC780B38,
     0x001A3E5BD24CF9B76A6810F3843614D9, 0x156E4A7ADAADDB069D8CA7375B9A36C6,
     0xA75EABB8FE3F7B5D3CF40615AD9DCC53, 0x5A3B8D429DD0F1432F289FC73E752BAD,
     0xA8A36E4F39CFDDAFDA323673F939468A, 0xC3AB2F57743A2561CA9411A4D0B90FED,
     0xD59214949BCBAD6E4BB83BA19F7E07C3, 0x8DABB011342EE4395E2546642E4ECFA9]"

lemma length_table_66607 [table_lengths]: "length table_66607 = 512"
  by (simp add: table_66607_def length_rows)

definition table_67071 :: bytes where
  "table_67071 = rows [
     0x2AFC93651F20CCCD0BC41B20DFD84722, 0x4A0FB8DC1E2E4AF233ACFE5A40FB8B97,
     0xEDDBA382A045A3154E6D1F72FBAB2245, 0x3CD286E07A3808E6769F935340F4884E,
     0x1A5E1B9DA3F92B459988101FE91EEDC7, 0xA7C91A857F4F9D79CE6007443C1B6497,
     0xB713EBC3D88A17524242D9CD750315C7, 0x866CF8DEB84602A5A85027D30884BEF3,
     0x4FEEDD6CB1504B092F3968727D00C6BB, 0x21CCF032A072C75246677788F50D80C4,
     0xB2B78C9F99E296E42F227ED3F42DF537, 0x7A0788D2216C93989C9497B030C5E43D,
     0x14B34B6B8167A4E4AC690313F3B58B84, 0x43FD01F19A0EE0AA0CE9C48FECA9007C,
     0x86BE5EC145116B4B0C75B58BD9BCED01, 0x4F64B7343030E40B1E9B615E0337302F,
     0xAFD87B631E8778071EE5A01653913BC3, 0xB685829271DD190A4671324E73ADE8D8,
     0x41700D2F9E81811B498D6734ECCE06FE, 0xF274E612BF3AA2D50DCEA5D92778DE69,
     0x87B8E77479BAE31FC15B48743228416B, 0x713F6D3CF007C147C1537A1F16153A61,
     0xE1FB1F4ECAF0FD82C0F3DB229A906AB6, 0x3CADF310487E778605650D1387920CB7,
     0x5525261FB874CB6919DBA69370C61402, 0x65D0892AC52686EB0F381720B38243D3,
     0x62E1F41FBE60BCD3CB212A940403E5BE, 0x504E1C1B404B346217323FD7BB0F95BD,
     0x5BA594AE570A73047E0808F4FC00C6E4, 0x4244A33E26E22FAE377D559A7B4DE4F7,
     0x9B8CFD4D0AABED45C9B3694DB7863399, 0xC1B06391E76E12C6F18649F9FED00DAE]"

lemma length_table_67071 [table_lengths]: "length table_67071 = 512"
  by (simp add: table_67071_def length_rows)

definition table_67664 :: bytes where
  "table_67664 = rows [
     0x5590F622A1A9AAFFC0E27323FF29A702, 0x0BB5C193202C2704F86D2B5866864D2B,
     0x90BC604BA719E328737CC9CBCDF0F01A, 0x3B9631B32C9857CB1DD2480A35E73EA2,
     0x3B0C09730FEE7418D148D176480119A2, 0x50141EF9F9F2E19DFEAAB914D5CB4C05,
     0xE80F8A48616FD80CAD53F7D309E35CDF, 0x1638752609739FE3345C3C08DE457252,
     0x9D30F45950BEEA255800C54BD65747AE, 0x478BC40AC15152E832FD0D3EF081DA70,
     0x13A32A5746A598EFE968BDBA4C984899, 0x996AA2A6699E3EF8675E641215A5FECC,
     0x4004620ECDDE2AA8FA5C97D0A468C891, 0xA313A3AE4FE3E94B9BF0603D5AC6DEC5,
     0xA2FF08AEC6AB60C90CDA2D055F719D22, 0xB38451D20D669DAB97B5EF2806436A7B,
     0x305222789E60FAB9DDD1B3203CD8EAC3, 0xABAB830C8ADDBD7CD59155DE9F233F82,
     0xE008C972995411B41F55358FF07C4B4F, 0xE8544C3DC5ACB62A060FDE1B0CAD0D49,
     0x5943A5760E2037B3F12C863B3ADF46FB, 0xCF5D6CFA1741DA5434D29BDA04B9A091,
     0xFB03472276C2A7422FC5868CF4D85245, 0xF06072056D9E06C8F6D610ADA9A0FF3C,
     0xDD425F23079AE3E33E1CD2297EACAD92, 0x3FC5C80792B2323827736C73C739CFE5,
     0xFD8B3BB432D0410DB10061C91A4F03DC, 0x597C2E022F3652259C3C6D84E191BF62,
     0x1F93CD4F275C5349DEE4BC0BD96C88A6, 0x6635B55B32FA9AC119CF5BA76E5AA25C,
     0x1EBD9F09EDDEDE28AA9E7326D2AEFAF4, 0x87A8C84DB26F18ABD9784ADC99918BCF]"

lemma length_table_67664 [table_lengths]: "length table_67664 = 512"
  by (simp add: table_67664_def length_rows)

definition table_68126 :: bytes where
  "table_68126 = rows [
     0x894F133502A1EB0D3307BC4238ACAC4A, 0x17821AE8E8DD4430B79675F935028DD2,
     0x2FE99AE54AFE461CCBBF1EEB5937BFC2, 0x31B56643861802EA5CBEB17650FB4D20,
     0xA37D9A1162E359D074CF45F0DFFAE1A1, 0xE49BEA8A088BAE2D13A02C0F030E3D3E,
     0x9F2C94315D265E3CE76099211429A68F, 0xAB2743BA63087DA5E59EB1F0B4BCC744,
     0xE31C71F7CB7A20DBD95130F412D8661A, 0x5B8C53B266184878E5E9496CBDA588EC,
     0x2F06F1B324151F270B625F056926C037, 0xA8F4CBAD8049FEEAFAA2B21EB93ACBE8,
     0x1ACF6DFDBBFE60653B7099C40BCB6D38, 0xAB386C60A32C8674A8084BFDF551AA37,
     0xEECD0B32ECF637AD805AB13E5BB2FE7D, 0xC46D049F7C720EC6DFA2090BE6CC2A3F,
     0x6328ED1A618CA4A6ACEE5CB115AB76A7, 0x77A8D593C9CA380F128F4D925CE84F78,
     0x9552FFB668BBE657439D497674F29E9E, 0xEFECB1907D35A63759C11F759E86B562,
     0x145D58F462780257CE7AFA2582760EEA, 0xD1379545DE412EEDD4553A8A1E7EEF05,
     0xBC6D2FA6EF1C7669554D64BBAC4620CE, 0xC99C5D789C231311432FED8D66ACB219,
     0x51E40BBA6F47DEFB776114506597F2B9, 0xAA2474A1A622CB057B85AC4A760B8DE6,
     0x8CFBEA5062BECB2BF82D9CDABB26231B, 0x0E29AA9CD89335D6692D9E387CDE6043,
     0x295C71D10812046E5A2F42D5029CBF38, 0x07D629C1F3D306BED950C3C89BD2F66C,
     0xD77C99E2E4D561E19704A5D097EE9371, 0x30CBF9B2998921204C711454151AB315]"

lemma length_table_68126 [table_lengths]: "length table_68126 = 512"
  by (simp add: table_68126_def length_rows)

definition table_68780 :: bytes where
  "table_68780 = rows [
     0xA0181B6F84B69A3F55248DBD04AFD6D5, 0x6F71C44952CF414EC0D9E94B210BD307,
     0x4A29E62B22CA7094E20699DB1F5919F0, 0xD37029EC9A96CCEF046FDEE76B44D4A3,
     0x628350318C210E4144FC214B8818551D, 0xAE362E7EB4D6753944C9E3F2A995E020,
     0xB71EF66FBDDA7446401321D151CA0B71, 0xD8729488468F66F8DB12E542CAB4D705,
     0x718BF9D233C5C8BC2E259C6C02CBDBD3, 0xF47E54FB0CD2402DB86E12BC5D8C3287,
     0x97D3B473EEF94C2A6A4D81076DB3F5E9, 0xAF13B90E5CE17A05E794914009A3324C,
     0x0B309B2889ECB63736DF89511525D6E1, 0x4D42D6902C66EC4F9695CDBDDB91776F,
     0x20BDF591408502394E0D4045252E0D2C, 0x4A6E3CB1D214DD6C87F4A18A21CF5175,
     0x61FD201D7EF81BD40262E87E942A7673, 0x8B3AF5DE105FC68E99BC7315878A71A5,
     0x1018A3F733BD62907EB132C7AFA2DEE5, 0x396E0534C5BEF5135D9FB713AEA3A8C6,
     0xEBDA8395DA3C25D08EC40F0C23F72C67, 0x98F3F4D9052C0255E364FB90AD3DCD31,
     0x1DF8EC5A8176599BDE57B99FF09512EE, 0x35FA1676799334EADC6B21F6C70804D4,
     0xFDC7CBE6A1EDF0CF415B3DEEDFC56D6C, 0x8DB8655F91135B4CD667579D0179352B,
     0x9BABBC67D4374A451D8AA712381EF6E6, 0xA8E4AC2659CD35260DB3BC5A66F4DB41,
     0x49763B33146873DFA9628F907FA4E6F1, 0x1FDE0A7C32029114608D126C7E111C4C,
     0xFCD5F227355596948D8808B7005901D0, 0x89272DB57638617C4349DD3F0ACDD61B]"

lemma length_table_68780 [table_lengths]: "length table_68780 = 512"
  by (simp add: table_68780_def length_rows)

definition table_69340 :: bytes where
  "table_69340 = rows [
     0xABD8244F3091D3133352845AFB99C96C, 0x6DAD41CB3A096E9C3D9BAB89F22DB60F,
     0x2B55FC473D917460BDE5502AD422666F, 0xEC0782B9648FB43EF44A80244C9A72E2,
     0xC985F9450742F3B2231882DB3A5EC57E, 0x127134B1D572836858B8AAE089C0214B,
     0x3760E217F7CA77879CAC9FEDF75E4BC5, 0x76AB2723B97E26AEB8B7A23246E0A885,
     0xC10D726A438D5DBA77DE65188EDCDB94, 0x6E0244A6A2D4C9E82B485D976A221C58,
     0x97B7719BC56AECE13172B2F98AEEC636, 0x466E61DD78EF6AADCF2FCD1CCAED53E2,
     0x902300CDAA97A4A060639AD2B6EB5C61, 0x347F2671792DE05690B061FAA30C3B8F,
     0x577F955F9D23EE911D155AB96FEDF367, 0xA00B7BD4226262D4D071F5E406F4CFB0,
     0xD505C9495654FED55FF1ADE2A5083768, 0xD57AD018C58DA3649FFE20770377A111,
     0x5F958A5305CB0E02036BFFC8D111E49D, 0xE0184C28679A7CB99D146B7DCDB8D9C2,
     0xC91F4442AF82D319769087AF628D4203, 0x567E41DBC15A4C05933C0F20C151E086,
     0xBAFAA28EFA66DD04A2B635D5BB337AE0, 0x1B46C6B1538880FDB1055DAE518C2BAF,
     0xB1C778DF03919CC220B0471FFB0149A8, 0x028931056AF3D3DC8BC062A92FA82F3F,
     0xFAECAFB275AC0A3F0ECF8F534AFD85FC, 0xDF2D3BB7428A472AC1FE84C2CC31381A,
     0xB6CDCD1581EFE1CECB98098B0D6FAA28, 0x1533EF9242024CEC15AD2620F05BF63D,
     0x7136D58574E239A1A4EDD0A844F4F08F, 0x90508E7E2BE46AE46FFBC96E7842A8AE]"

lemma length_table_69340 [table_lengths]: "length table_69340 = 512"
  by (simp add: table_69340_def length_rows)

definition table_69939 :: bytes where
  "table_69939 = rows [
     0x747C6CB979863273140EBB52D22B9B40, 0x8AAE831370A4C91EDE9654DD5466BD5A,
     0x3B10BB47A10F06184873F7EEFB6CDBB1, 0x7AB1FA0AC83E585F11B409796EF4F509,
     0x58E78EB18609248A6ABC1E9D52035F5D, 0x0F1EA82C38025DC875358F27BB290594,
     0xE41ECBB4B33EAD3A76D8FD2ABF6FB742, 0x66FC6EB1DDCCE1527AA2C263B9368F9A,
     0xD75B362DBC57CC444A57BA451D8F5722, 0x7F275B1AEED6A74E69CD23A7FD8C79C3,
     0xB55F754CC10F7CCBE7BA6BF665380C4D, 0x5D4FA90A989DBB014DF6F8B09E413617,
     0x4DD7448FB339F8E2522414953C445A82, 0x5BA6D48DB31EC4520226F0D7F85A8CF9,
     0xA85581251F6BFA7BB71139F618AD2194, 0x4C38E809D4F42928589D3B13285AB2AD,
     0x3373563A0D6A2079BC5F7DB9FEB12E2B, 0xB254A3F354D91F4ED17A4A342E72F6C0,
     0xF1D05F7968A6FA5C99B1F585DEC6A1F6, 0x3E2D5EFE7F27A6F8007F3620A6BC3421,
     0xBDBAFD0E8A004182A346A49BDC884AD4, 0x975FA4F7F3D9175149C9B10108C3E708,
     0x5F5353FA9F1E9BFA5C58087533C23397, 0xEF034F4C67DC07CE36FD490322219D54,
     0x53A0284BB7C87F46046789BD94FCD018, 0x7CB60AC06EA9F1EEB96065038EAF0603,
     0x6D11A301FFE0104610F9F3A74FFDD242, 0x9BF28CFBADA6E006F98E0ED792F37000,
     0xEBC1608E86CB8DB996F4780AD677986F, 0x8CE5AFA15B4B4C4615F32A1A80EC7ECE,
     0x622AF3AFA9FDBB80880CABA596CD8892, 0x9F08266CAC9896C8B27AC4E74C081393]"

lemma length_table_69939 [table_lengths]: "length table_69939 = 512"
  by (simp add: table_69939_def length_rows)

definition table_70250 :: bytes where
  "table_70250 = rows [
     0x4BFABB774836B30AC8C1FEA45C450662, 0x1870E337FA5DCAABA356A83E948013CD,
     0xA61A4C7318FDBAF39DD1ADF01016760B, 0xBCBFF452E6FA5C46BD177A608CC81F68,
     0xB31E033CC68411E341BCE7C0DB7B384B, 0xCFEBAB401C8731D4E01929F20F8650DF,
     0x933AC4EEFBB0BF15E79A33296992B89F, 0x8FE09CBC216619F97B502187CCF0C6DA,
     0x5E4542A2C9EA0DBEBE037603CEABD221, 0x3D4023B1673E7132ABB21642DBBF0772,
     0x15DBD44EA98B95F95D52E8ABFBB4C280, 0xA4F81A153FFAD88007CFA4522E9DB991,
     0xBB3A8017F556FCA78F7D570524D9AED4, 0x06DC24CE3B934DF30E9EDB45D2862EAC,
     0x1B430430DB71155FE89E12F2CE7533A4, 0xD295F76D58871336AAE5A52B63F198FB,
     0x287D1B099C578156015F856FEDE037EC, 0xF7C7D1D90939FFEFBB973ED1BDE18153,
     0x7F0207F5425053E871008CFA143BDBEE, 0xC77507624B939C1C9B434FFFB878EF1C,
     0xA7BDD5D84241B87DCCEC38E53AA20A5E, 0x15869DE405B3DD31965E6D5DF3087FB0,
     0xABE4018DA1956CB1323EDD669F5B07DE, 0x5FCC4DBAB6E4069763491A9C3BBE20F3,
     0x2CA2C06FEB16369E18C523D700AFA6CB, 0x2F498727E6F300A46D0C08A0A5F2CC2F,
     0xEE6DB8DAF27094ED9743AF443DCF53AA, 0x3E3A03F1810CDB0C7D81F844B3634FBA,
     0x1D2B649DDE4C7AA609378A464120F6E6, 0xAFB1A8214B18FC7B14A0A3582984DE13,
     0x2F63FA2AEBEA8EAD0CC55E98AFCB8D37, 0xFA1E4F7ED9C0365EFC1EC3073E5F06CD]"

lemma length_table_70250 [table_lengths]: "length table_70250 = 512"
  by (simp add: table_70250_def length_rows)

definition table_70665 :: bytes where
  "table_70665 = rows [
     0x6D25AFD4FEE901EF209CE515620F7F32, 0x4175D545CB0FA78B5E0B83E0B593CEEF,
     0x93369493E6E00E73226D293F99C67DB3, 0x0A8B51705FD9B4A61B2476F0FF3F6298,
     0xDF0590042A1ED6AC1C853306F0021F88, 0x1DC2F2ADD276D09757BCB8AB06D77A90,
     0x5FD657D392009999AC50912A962E0789, 0xD1EF3E792E20E793484A881AAB17ABC4,
     0x3ACBADF6C7E83FB90AB70809A7C66111, 0xB88A898C02CE7BB6DA770771FFA5A8EA,
     0x9647BCF89ACED67379C03B6EEE83F8C3, 0x263DB6A159F73259640F29A12082B851,
     0xBDAC647F62870B81E200D59DA65A8ADC, 0x924202FB38740202CFDC1BCE53EA5BD9,
     0xE6991424D8C3E1E620EE1A96515B99FB, 0x058757932C61BF06D7CAB2517AE8EA81,
     0x97BB9E701ADAE4725E75EA99FF2620D8, 0x03E3D3D62E0144FF4F7A594A10C2F208,
     0xE7217768169B65F7EC6F99AEE80CD4A5, 0xC429FCC1EA0FEC9A4974CC6F28E0496C,
     0xCC31818271F31E7289359452603AA6E0, 0xC1019DC3F935A056C8135D24762FE565,
     0xFF95C4DB92945704B997AF972A25FADD, 0xFE0E4FA3D32B33F226748017E17A2057,
     0x38EFAFC945AD35DB3503F4EB0A93034D, 0xF2DA10DAA1CA2A59AC0A9F76993A1C6C,
     0x1CFB17410A89B7D7F7272FE2678EF549, 0x27B7EF1CE7F977D4314BC2ED7D9361B0,
     0xF9926B0D9751A034BA17310CEEE3E2AB, 0x38D0885744CD51E71328ED1785D547E3,
     0x96F56391E603CD38816BCB2C81A49841, 0xDE2ACA1D937DF1C572022A20588E014D]"

lemma length_table_70665 [table_lengths]: "length table_70665 = 512"
  by (simp add: table_70665_def length_rows)

definition table_71213 :: bytes where
  "table_71213 = rows [
     0xDC16EC6D4CFC14DC6EB810250ADB3D1B, 0xB0ED18B4F557DC9153F62260FE2BB962,
     0x3D847B1F839E63DE88D52C0CE2392FE2, 0xBC2071CE8D137BE206495FCF78729E7E,
     0x646E0402C6233790B9BE14EC3E8E945F, 0x6A9A17CADC570E75E8F3C060E5B6D15D,
     0xCF81AD1847AD3639CBBD5E9607C00DBB, 0x5481A800E2322E194A4F51D1463B5B8E,
     0x2128DD8EA38E55AC88451687F4F39E82, 0xA03D2C578BD994AEF753E8D7F8B955D8,
     0x7A0F98AF1C4752009EC864D1DEC81A46, 0x15F412D17E8EEB70359821EFDA408DDF,
     0x44D7250B97716AEDBA140CA1317F7396, 0xEF82D2BD2709297E17B4B5CC624E51C6,
     0x3ABC0B009F757514B6131EB266463094, 0x3448CA691ED376953F6F3C668A87B96D,
     0xB9EA4654D07CCFBD6AAC5ED472D574E2, 0xB4BCC7B823E868C79587E8CBE2A89789,
     0xE7FA9DD3531DCB105B3B05793A099CD2, 0xBA64B7E355D1B7F7AC8B5D05D6F85C1E,
     0xB59DAC48151621A76D898C60352E8A95, 0x6BB198916188742C13DB9C0AE198ECF5,
     0xABBA9E7678F3604CFD4337366C1DFCC8, 0x17F166181AD0091FFA60B9C5FC63456C,
     0x83A72B2AE2E1184AA46FA1A9D2DC26C7, 0xD6D771BDF6AA8F7A892869EB4145AE9F,
     0x8E75DDCE10C4912D0E4D6D4556F5ABA1, 0xBF6D7DE037B4BA554FB91267AB18CAA3,
     0xB2DEEE3B1942CF0F9192FE248177C1E6, 0xC7A307C1F2432834619B705F6429F393,
     0x202906249D994DEDAF39040D09090FB4, 0x6204D46E602823B277FE64AA658EB9FE]"

lemma length_table_71213 [table_lengths]: "length table_71213 = 512"
  by (simp add: table_71213_def length_rows)

definition table_71620 :: bytes where
  "table_71620 = rows [
     0xDD5EA7405F7F6E78AF1E3974F90918DB, 0x62208FCE5558EC418B094AEE6AEA94FF,
     0xAA729F946F7B01C78B9EC853DAB406AF, 0x699C69B4BF0E2952704DCE3BCDC98C6C,
     0xEC0765E0D6E3D736D46E8EFB4F1BDFF1, 0x08A852095C46CE8752C95912F32C3B6D,
     0x8CEB2A3B91A164497085599A0DE651EC, 0x8409FA796BB17629CCFB7800AAD1F07E,
     0x9E6534BA505DA1B33F2AC6AF4C4F2DD6, 0xABBEEFFF8B8BABE6E0AABE83B7128865,
     0xFA2EF2730E9E166E5F712F02DA0DC859, 0x349B3F2A5514C9736024D152BDCC541B,
     0xFFA44D60705FD9BF7C52BA00A91CEBCD, 0x1148EA305801FB60D7327D95AD54D6CD,
     0xF63A13852C518D7A924B8EE8034DE954, 0xC84194B8150DD584AA9A247CBFC11949,
     0x809626D2F80455760690E43C5F7B654E, 0x61ED287AC8F8FC0DAD911E3AF2BB1BFC,
     0xB3DFA12354A6F4447CF0E1C1BDB8133F, 0x218B3BBEA25EE73DF9322E4D3360A630,
     0xAA278D229ACFEA110607C7093E8F1C33, 0x19BFB1E06069743E69E72C160DDCE7A7,
     0x58187287293A1D101DF0344B1979DAFD, 0x2116958A0C78A3ACE819EA39FCB32FAA,
     0xC75D7994BA8ACCA17FA11ABB81AAF064, 0x27A09577E403024EB15C2EFE0794C473,
     0x8CA260B59370E3A84BACA516B562D433, 0xA18DE3E69507334D8C9D1450809AFDBE,
     0xCC6C337EABA580731DE4F51A628BE21C, 0x63D53236653AC954BE4F4BEAEF46EAD0,
     0x0841289C0EEC7A3A00188A69DC0428CF, 0x9D9E310B622D5DEE1A3324D5B601A3C7]"

lemma length_table_71620 [table_lengths]: "length table_71620 = 512"
  by (simp add: table_71620_def length_rows)

definition table_72127 :: bytes where
  "table_72127 = rows [
     0x68A5468A282ADF3B92F6B9A8F13779E8, 0x5692D38108B10172A7F7C51B70064095,
     0xD1E71D317DEC30010C96CCF02A414DD8, 0xF46A7A014D2F62836A7C91E271D5BE96,
     0xB87FED1542EAE904FC40ABFACDB4F295, 0x8444B74B1FC1E28D58ACE1242CFBAC5F,
     0x5745A893F72F20B3AB92FE53B51AC4EE, 0xC7BA216F6617DF8EC1BE8DA59A149DAC,
     0x0AFAF8E4DB02A5D4859E0342C0B21277, 0x2264204B3A64A96A1502725D8FA8DE5A,
     0xA272984794E69739C40C4CC0974596D9, 0xC05F876E77C57116E1DD771F794A86A9,
     0xD808CF5483F6D316F8A8A1E623B3A822, 0x365AFAC4EE89A03D42C7B82F7EDF312D,
     0xDA3BFF5DB8D1970B967145E06621B443, 0x21CB43F6FB7B73C865D262EAE0FCEF85,
     0xB6D22D95A86BD4017D36768533356096, 0x797CCFF4E49191C80E324B94F0776736,
     0x4071A938835FC533FF632B2D6F7935C5, 0x0B3300A19414FDB9D34A022BB67EBF35,
     0x7654998A743EE5A96F127C5DCCD93F53, 0x8D5EC6EA491C1C4412102D42992A9864,
     0x57C71F64229788D4F3535C838A2F3C52, 0xE5F9C7512EB4E23C8EA1DA33E43FDE4C,
     0xA7A11134C40FC7B868C7339A5DFD069F, 0xB484FAE823A9F524D4BDA674AC633784,
     0x68CDCF44B124942748EF096A6A3A5AD8, 0x0167E06982509460B7648E4781723016,
     0xCE1D8EB7614F284C1DDD0FBC9B8B663B, 0xBCFFBDD7377DA5EA333CEBD517A2E45F,
     0xB8B2234CA588FC271A78A2BCBCAC0ABD, 0x8BBFC613FD166EEE1B3A432A5B6A59AF]"

lemma length_table_72127 [table_lengths]: "length table_72127 = 512"
  by (simp add: table_72127_def length_rows)

definition table_73258 :: bytes where
  "table_73258 = rows [
     0x29A891A0DF85035621DC3F787CB3F01B, 0x50471852E47DB81CAF74176D5FD0B50E,
     0xDC554A105ECB9304B0689F335C1D27ED, 0xE767036DE6CEE8E18DAC07A789BFD744,
     0x0F51FE567E2A7A6CB975FFDCC382FF68, 0x512065644BA47EA5E62A29C1BED8B50C,
     0x5C147CD0A0C2BB6F54F22B357ECEBE45, 0x7477613F1270EEAB2C448D4642F54756,
     0xF38E383012B669C72E7A84F38F715B4F, 0x457C996D228B5BEEF6B5128925A73C7D,
     0x0EC0C170D392E36F3404EC1F0404BBE6, 0xDC5CF1E19ED71A8D54D6435C7DDEF5D1,
     0xD7267E7256BD3828DCD80F31571EA426, 0xB0A8B44217602CD53B59020F5F2BC9E7,
     0x2F3C396E19E35E0930EB475BFD24CA14, 0x1C2A6FA1FC062414C270A486DE46A84A,
     0x1E34B5405070E2CA870FDB23F74A0E67, 0xC3B9E4A6086B146BB3946031FC003F37,
     0x91696149BE31F98CDDF4F98652AA1E56, 0x250B503BD8634C66BE42FC232426CEF7,
     0x57707D0310481B7340D5E35818451961, 0x7E7F59F30EF6A09435F07C310B4239C8,
     0x2ED0882CB10147C68BC67225C7373B2A, 0x3CF21DD5147EC6E8C55684D6189DBFC4,
     0x21DFB6E51B1D05AFA9D309D3E07B5DFE, 0x25B93F283A039B3A3A041CE8BC645379,
     0xA2944C7977028643633A44FB2E0F354A, 0x06A61D5A47B555147D34282B1E6A3119,
     0x6D4D71C8FC5759A837C35291836A4B09, 0x10A649F4A3575E209D92BA09F94D83DB,
     0x4952D0AF76B37DADF8CF0A6D917A7447, 0xC544A8FFE3AB2ECC1DF2224CCB5EEC42]"

lemma length_table_73258 [table_lengths]: "length table_73258 = 512"
  by (simp add: table_73258_def length_rows)

definition table_73677 :: bytes where
  "table_73677 = rows [
     0x9BEFFEFBB50FAC43466BC50B19C9D0D1, 0x960A59BA4BD5353C8E5652F5C751CBF5,
     0xF5458133214AD16B77607BBAFA3E55EF, 0x6421261E697E06E0090F3E36832A65EF,
     0x617CB6CC500AE9F44217BCA8687CDF7C, 0x4CF5F620C473E0D95ACB49B198B89F14,
     0xE7FFD7D254D4544F4EA2EAE78D96025E, 0xADFB48CCD3DA9882228C9D091BC55556,
     0xBBCB06C9F8C327298086C116F2D196CE, 0x0DC0482AC0BA1E46EAC18728EC3EF109,
     0x33CF20747BEC945EF8B54F8C46CA9C65, 0x5DFB467FB9B42C2DC4EDEA044920CCB9,
     0x5D8E5009C7B8B75C2C09EB747F30EC6D, 0x94E03BE0657A9A76FE458708D3AB23D5,
     0xB5244B91ABC91E3819045F328661314C, 0xBDBE397D1D7B72C362A3BD33A21B49E0,
     0xDE8F488C39C233EF10BF3562DED84A48, 0xFD0813FEB2298391B4A11098B0C145A6,
     0x020C639CB4B32E3188D335C3101D90D0, 0x596440CE7000F0D75C30D06DB93797A1,
     0xECFEEBEFD18FA70A0ED5756BE532E3B7, 0x74A21C0CA110623707CAF8F543A85781,
     0x7243E40A207D4DEA8B5E16602D42C739, 0x3F444B81F9075CBEB0DEE95AEBD26469,
     0xF3859AA339C214820C1FA2C328F76087, 0x8C4B5892AF204DB3B3C4938E91CB9A8B,
     0x0E597A6E9C544845E23A52F61222E076, 0xBD7CF40192C2FAF7466B51F959E4813D,
     0xF1BF4D21E510C3D37AFB5094B233D4E9, 0xF4040C5DE125ECEB151E249F5D6EE005,
     0x4204394430A4DBE55B2A90C5439E9E87, 0xE5B08EFCB97CDCEBF625851DA345EEC0]"

lemma length_table_73677 [table_lengths]: "length table_73677 = 512"
  by (simp add: table_73677_def length_rows)

definition table_74102 :: bytes where
  "table_74102 = rows [
     0x7A6AE9CFC7CB7B5FB12B10C07B3E02F5, 0xF7FDD36B861F98C7AC220B50F8117546,
     0x77C7F78908C1717E4E063D789D216B22, 0x20401B76853DD83BC67F42F7A5F62912,
     0xEE259625902AC71C0A4DB9B217ED69B1, 0xE4356E974993F40D0194750357DC14E6,
     0xE6F2204D906D1006712D67FE7500AFE6, 0x31E06431F894A6C83473B0612028548A,
     0x523EF963396CD1A8CC84F4A0FFADC9BF, 0xEE3608BE7A62A064352771FF508B3E31,
     0xCFF97DA3A021EF40AC811A298F037035, 0x3D95B3BA52492570B7BFF99EB86AF3DB,
     0x5539A41597809AED3C9DB6AB85A73A56, 0x6F6B06F3CEFEBE243333300E72BD26CF,
     0xE830992FC1EB1E8300835BEFD68F1FBE, 0x2B04E96FB790C928B92F1086A0F2655F,
     0xD7A4F36E2FBBA47CF6562D6F68B0E0FE, 0xD994A04911019B64D95B4BDD553EE571,
     0x1F0F147E89768EEF1B7BA41B83A6E0CE, 0x0255CB40ABEA45E5122889F702A2CD74,
     0x27667669841B81B6CF414452AAE2451C, 0x6C6F6145D91F99E335188B92FFA0CC72,
     0x6D61C970F0CFCBE1F4A1BD4196898BA4, 0x8715A5D4E4456C51BFA2A82FD56ED443,
     0x060A6D9F7613499F06A7577FDDF85B2B, 0x42D0A0234557AF74916932F544E28915,
     0x88FB74C17EB092E8F0FB516BD300E2E3, 0x0AD5014DB9CF81F6142AFEFB428817A0,
     0x15BD5478285741D31C6F3CD3D39B62A3, 0x7B4E12E0ED13574314C9CA6D96FE3071,
     0x19AAB618F5236D8F8979E8AFB1A23327, 0x6D78A370320241CEEF79B3F13F3A5791]"

lemma length_table_74102 [table_lengths]: "length table_74102 = 512"
  by (simp add: table_74102_def length_rows)

definition table_75428 :: bytes where
  "table_75428 = rows [
     0x7636A8F19DC46E291A592D973A554CE1, 0x65454D84C2C812C709099D7B84D694D0,
     0xAA11AF79CE7E7A6BA4700A45CDEC9879, 0x0C95EC2D5F76DA65507E4F862A29AFF4,
     0x78F5D250CFF47B6615D14548B439627C, 0x5ED67C691D417146414DC9E0AC99F7E9,
     0x1EB266B797C67FCDBFACA876BBD9198F, 0xE36F854FB90C431B957148AABA8E7BF3,
     0xA0B34D061C6448DA91F334942061FC61, 0x7A9BAE9064E68B6239DE860894E0AD40,
     0xFE8F4D49AECFF8A2D25714C0BD3A1ABD, 0xAD414508F4C8110BD206759AC8D70DBF,
     0x4A0D38E60BBF49A0834CB4ADAA02342D, 0x6A840B137CE2220C7719021A1E2E1B27,
     0x2D0438CE9EED5C58CB713E24136428EB, 0x14682E126442E574EFD234E8F212862B,
     0x6BECA1018A7BA38C4EAB1D7D516B6480, 0x1CCE085641EB658644429B0A290D7845,
     0x4166D433CEFF03A3D589BF2DC4448896, 0xC0433EC59F78BF16131B1A5DC0834299,
     0x336D2CCC36507A5751F5C16DC9D50C21, 0x561E91F6931EFAD23B9F9C2366B97EF1,
     0x0231808AB2D793A0DBF4AA1EBE9A504B, 0xDD189B8D3783BD8030DE8441CF2C9605,
     0x0EB58E80C842EA01B0BBC604FB59C4D0, 0xD9C63F4145FB31003B7A3AE1C88301A3,
     0xAB35A43C1035FF2EC16FA4C87BD6A7E0, 0x22D22078CC23F2238C1E4B7445CE8A6A,
     0x4AF15E84F24CCF1567599CBA2A8A904E, 0x2B22B39495E95EDAFBE4F94ACD04FBB3,
     0x9A31285742FBEE6755A7BB456EF0798B, 0xE2DB9E28DB36B2D9990ED9D6490D2307]"

lemma length_table_75428 [table_lengths]: "length table_75428 = 512"
  by (simp add: table_75428_def length_rows)

definition table_76333 :: bytes where
  "table_76333 = rows [
     0x92256E5393642C1E6E03235C8920BFA4, 0xBD4C88E940286A54D6BC2001888071F7,
     0x731FC165997B1820F49BEFD96A945CEE, 0x363912EF915DDB79B7A7D65FDF705427,
     0xDF52D0BD6771E18D29DA439228133518, 0xD4C7EB974DEA471EDFCA39678EAC3FD8,
     0x04085B8A95C97BD05B132F1B9556E954, 0x681B011E24BD11B09C89C0E0D2DE874D,
     0x501C25A6C88E0DE06CBCA3C3588F7C00, 0xF91340AE52DFDC223DD31164610837BD,
     0x79AD9C19132F5E981CB54DA320402E86, 0xF90C62F06FB0F41434E804E314733E6C,
     0xE597854843E30887C149CEAEBD3F78A4, 0xF2FEE175C4EE0FBDA2E96E208849C7B8,
     0x73AD0F6B8C798992272DA80D79AFB302, 0x1CE70603AB33E0794623A4CFD431DF1F,
     0x1A0C87DC05B8EF90C6FF6A3FE8FB7C3F, 0xE19E0DEA7EC2ABB788714D12B35D67DF,
     0xD1184770803CDC71D8DFEAD63813B75D, 0x80B3D33F1676E866E26FF2ECD8A300EF,
     0xC7C1A34F862BF0E2E25ABB95C51D17D2, 0xA18316B906F381DA7C7AC65D7E33E519,
     0x796C776814C8C0390722DA5AF17C5BF7, 0xCF3DBAF8442A744B0AB9FEA06B8F1BF7,
     0x3A8A0BE0CC3F59E8F2500B6DFFDAAA2B, 0x28D1E7D168AE772FC1EC491FEC335D2D,
     0xEC4D5A39AE1E4914A17232093D6ED2C2, 0xE0462ED0B6C9FB0EFAC97EF1B37557DE,
     0x9EBF1CC7182FCE7A114AF5E4AA34476B, 0x03E862E323B564F95CE06198C43E097B,
     0xE7A3958E16F7C9BA054E3F343E22F365, 0xFCF9E354517AFBC52A4697DC81675567]"

lemma length_table_76333 [table_lengths]: "length table_76333 = 512"
  by (simp add: table_76333_def length_rows)

definition table_77262 :: bytes where
  "table_77262 = rows [
     0x4179CF5D63D6379741C8B3F9C5883523, 0xFB70AAF0D94F38F4E270E590ED9275C7,
     0x81E0D08C38D906A3661825DCBBC48A72, 0x910F735F58D6A06BC421D10B7934AAB0,
     0x5DCED69CF3DE34D63EF062627F52E516, 0x2C85627B84E76A90F7AED97B93AD452C,
     0x266A19C294CE878652420BAECC7D34CE, 0x904C8C0029DAA46676D803751B4CAAA4,
     0x146BA9A1A3131A5B6BDC9605347CCB25, 0x9123DBD768278684B74E8C032D3E8A0D,
     0xFE3D518273F8DB725D6AC035595A8E23, 0x269D52E16DAA28EC2ABFB0B1B99DE5CA,
     0x165A6F54A7F31C642E23912FA6A08F91, 0x55310C40D130BFFCD4D98EB0E70E4948,
     0xB972EE9129C57A95BCDF83062AA04AE0, 0xB6F3390BCA70F977FFF71691FD2D2C4F,
     0x64C5BDB7BAC5D1884E2A28BD1540EAC6, 0x1AAE688345C5C7BDE5FDCD1D29E55331,
     0x92F1E8FED35A66A77E8619F3E5A98164, 0xAD5E6ECD461404696117925447FFE473,
     0xB030CCDCC347C92B8607DA07AA23F191, 0x5EBAA4F5BC2DBCA70A4E6F04AD797051,
     0x9641F02E57BCC001D6D12B79D8A31450, 0x79573EFAEB0695688544662EB84D93F6,
     0x96AA69F7EA2F8F43F7D704ADAAF9C0D2, 0x888C5097ECA8F72619600CB4B637505F,
     0x8629022ACEE578FA7BF08145789D884B, 0x730BE9B1DE15735186FFA9C2E5F8CFEF,
     0x5FCB86C0379A644ACF2E58E68FDB0B99, 0xE0F0E43417EE1752D0DBFF688DC7A173,
     0x6B23A647944577CBB0D143D7982DF3DC, 0xE5DE438E343DFBFB14AF94218D56BAE3]"

lemma length_table_77262 [table_lengths]: "length table_77262 = 512"
  by (simp add: table_77262_def length_rows)

definition table_78040 :: bytes where
  "table_78040 = rows [
     0x502AF2373CEB237B229E41777CA7D933, 0xCBB283B8B979CE69412AC42794A07F6C,
     0x0480C0EDE35BA607A52010650174A57C, 0x33D077DB87C60557C69DA5BD05F07B13,
     0x50383D82CF346612EB01F779BC80FADE, 0x350CAE8A123CDFD06E749C004FC723AE,
     0x726F41B6803BC11800BF38919020E39B, 0xB7708DFAB7965D42740A3D1C556B4B5F,
     0xD14A6F72CE78CB78F1D9436EBA56180A, 0x5E56A7B45DDF803C9C6301FD9EE4FA9E,
     0x4880A1252C06532DC483E898BCC2826A, 0x57BE25806896E4081ED078703ED0246B,
     0x002E7E4B8BC5391D0DC845177B09380F, 0x4EDFAC40EEFD80CD90FF1C5C20A0B307,
     0x356ED01E5020C9A0A2D3ABFB890831C2, 0x3766EF28A0F042C746B77DE3E3FF11F5,
     0x4B361375D5A3562740351A7166ED086D, 0xB2B603F4434A296374EFC4621B614176,
     0xC98156C710D93A958A3DA57C0BD2163C, 0xD02155556D3808DB5A3B0F6D90A303FE,
     0x3E77E99ED6D8669D8CDD5A208227661E, 0xD624CBC718C8B693986CC23848CC88F4,
     0xAA00665EF9FFD5DBD551C6ADE9E3303B, 0x1B86E53EC48EF8B619480FFF1CAC7D97,
     0x1078D42D25A7AC9840CED7ADA6BA9BB2, 0xC58A265EA28F7AA3CEE756ABB6F7AF6F,
     0x4E3EA319597C41F6737A0A39EA5B2947, 0xADFD289323A39EC0358A15808E7E0676,
     0xAF764B11FE7727DB24C14462EA7BEAED, 0xA673C880E8CB6AE7379FD6D0C32455FD,
     0x97EB494916541B690156E996060B855F, 0x8B2B62C2E1C2510C0A861A4968C8E8B0]"

lemma length_table_78040 [table_lengths]: "length table_78040 = 512"
  by (simp add: table_78040_def length_rows)

definition table_78777 :: bytes where
  "table_78777 = rows [
     0x5EAAA464AE1E7B4CDACA2B48C8070C9E, 0xE2A36A92951BDCFABF43734241AFBE6A,
     0xD81B0CCC4E2222EC7AE0908291CFA818, 0xC5225946EA2642D2826ABD14E1AFA247,
     0x1DF46CC6C23F00F581051B56F5526500, 0x3DD50A2E589D8BF706066B9A2B3F4EAD,
     0x616D27A1BE25FBE74A79A2908A872C6B, 0xD85E1EED8A7C31A5B102C7FA4235EDB9,
     0x6875B4EC9B326FDC455D660165B72369, 0xD14C0D482E498FED11422C23FDDD46CC,
     0x3FAC6D4ECFC898DAF3BB34BB3B263BFC, 0x3121821004C20F8C0EB09B33412F27CF,
     0x7BA509864B5739BD1328646958FBBECF, 0x2DFB24F63D3A60DE18D624B56A9DBA99,
     0x3D15EFD3504D3CCFBDA762247B36DBA0, 0xECC952F0B40E9EE745DD600FC67BD5B5,
     0x00B5BD704ADE8DA8CAE56CE6C50553D9, 0xE64056AE45E2AE0CC9753F481C9719FE,
     0x7BD24AA143CB25ECE407D986B962AF4A, 0x66B2E60E5BD3A28DFE96854EE30C5AB0,
     0xEF8B88A797C529C187B51AE26C033771, 0x5CF378EB7826B8FCE05AE6326292C637,
     0xA1F1B5582FEFE46A0694BB75850FBEAE, 0x2C2EED7A077F7D26F1704BB6A2948D42,
     0xE114B4A9A9DE33891FA2AD50E248DCF2, 0xE0E92DCE8AE87BAC6875B0546B530E30,
     0x950159FA09F7EB9719696D980A63BAF1, 0x58E9ECCF05AD9E8107519B392CBF9EF4,
     0x2EAFB4F9AE31ABEEE64CBA7349869805, 0xE54D2C5AFB013A1CCB3E3591EE83C23D,
     0x3D1D70E087F492D1E743F29CF2F6376B, 0x72993CC57AE4D8D7F37C7CFC72020ED7]"

lemma length_table_78777 [table_lengths]: "length table_78777 = 512"
  by (simp add: table_78777_def length_rows)

definition table_79605 :: bytes where
  "table_79605 = rows [
     0x1DF0F48DDFDCE587993AC10A0E935C86, 0x2E7B08347B87D0CA7D40F3178F15E667,
     0xB40FA5B580D4CC6315BFD1FA1C69D024, 0xC9215FC93806AE4FF66FB9A74A4C1FBD,
     0xEFD58411E17A1C3A44BA1DAE31A81BE5, 0x8B46AA8B8DCF3E4333D7E90510EBD030,
     0x551A5B7E7727BA88CED0A80396A15B88, 0x85B4495DC2E6A0D1BBAEC37B9C9D734B,
     0x49AF3F9E77E404C69B7FC90C44F2BBF7, 0x22C60D65814E1424528AEBBF5E11ED41,
     0xB49387E1D7D889D5E53879724DB5B73F, 0x73EFE621C195BD648FA67C13BE52431B,
     0xE92933638175ED36704B452DE46D1EE9, 0xFC62FC2F496DF69FAAB4D4258C27CD59,
     0x4F1DE4CA1A0FBBE4FF882766DB59BB63, 0xA2C1AED9AFC41DDB43B2969D9BDFB828,
     0x0B74DB30D0F66676CF8D037AA2764357, 0x795A7D237BD3463BA6CE7182F8D285DB,
     0x29665ABEC2AA23E527C9E11D9920DC68, 0xEB636518214F2C58DE815BBE7BBB8516,
     0x43812944A3ECE5DFBB083EF5C05AB282, 0xADAF4C7893A34592205AB4E24E64A045,
     0xB571172D6490BFDED030B1E89C25B771, 0xBE0B45386F4C8FF265BD94CBF54609E8,
     0xD38AF9E887B0747FA5400D6D73C1D0E0, 0xF85840B24E27F2F7B596C2FDD5B5B03A,
     0x298A21CE39E2F103074FBC527BE0B85E, 0x1A08F1F553775ABC628B8A6AAD639EF8,
     0x0156A8AB887D13C5583C81EB929A41B6, 0xD0CC53DD33F84EE0E7D61399FBA962F3,
     0xC902C420B690115806FB3C0AD8DA9E9D, 0x266D880188190D74E4C7E174C20A7F87]"

lemma length_table_79605 [table_lengths]: "length table_79605 = 512"
  by (simp add: table_79605_def length_rows)

definition table_80111 :: bytes where
  "table_80111 = rows [
     0x5028EA47DAD75B512FA13A9282929E24, 0x5F796601AFAE684F2CF1CCE443EC9835,
     0xE4753E7792E0770F02351E4ECFD2071E, 0x30D3C31C02AF8C54CF655B91BB4399E8,
     0x0C95F5C2BAB0D3D9AF650203BEC2AD5C, 0x441454D4427044DCF15565DD1B0BE60F,
     0x29CCE2792419BC69ACC150E522F6A4F7, 0x39F5CE9496E4C2790B71304A5144BD4C,
     0xFB97F671276FC593203466BCE15AFC6D, 0x88B5567B6ED9C1E3DA2D37C0DB855F9F,
     0xAE19134836E2869DB6DDAD0EACB28000, 0x05F86D173C4E41DC569EF8FE8F1F69CF,
     0x8B311D6682484466737A646C57AFD74D, 0x97364B71BC25B86124CEE3CEBF82BAAC,
     0xA5A92A3B92660DDBE3431D4B7032D08C, 0xA9D51E60D0BFE287A78088E96E159590,
     0x92BB491BD84D0CE921464D22D5C6A2C1, 0xEFA2903F5B4CEA5B5D17F8819A6ADE7E,
     0x2A22655A9A46B390FD326CB94A03286E, 0xC96514FBA7B04FE458A6832F45E2A23E,
     0x6BA0BC030CD18F8417BFF8C0302CE7FF, 0x792242B037BC282A26BE2DABFA47AF6B,
     0xC5AE21C2B471C6524BF3EFAA814BD04B, 0xB6A4DF9CD3BF3DD7C1A2E789997E0944,
     0x7A6428146D00E1428019C09CB2210ADF, 0x19E3AB81AD375D055DDA6538C79413A5,
     0x74244F55F824DF40B1F79473921A5310, 0x4EAF42BC237EF02E1D5C57D096387573,
     0xE52B081CD17FC5DBC19ECF2B7EF32112, 0x7F203C5C5C21841388F3FB8DB8C9BD5D,
     0xBC5536EAA88B50C31BB02EDE96583E0E, 0x59D5363EFF193BE76BC05EA55EB1AB6D]"

lemma length_table_80111 [table_lengths]: "length table_80111 = 512"
  by (simp add: table_80111_def length_rows)

definition table_80550 :: bytes where
  "table_80550 = rows [
     0x87D374CEEF528A14220510DBE8CCD58F, 0xEEB5667C012757CD5E1857CA9E48D89C,
     0x6327E17C81834DF70AF1B1C6DAB30C79, 0xCE9A15BADA2DA88A3D9B483A1F258652,
     0x9D4539F2B1C2B60492CB4663B67DE4A2, 0xCB8D631C26E64B44765A8CD31CA5B721,
     0x7A3EDF75CFE0702AE0DE514F203A7E14, 0xC6B53ED3A819E8D8C32EF664A517DF84,
     0x54581D2D8646F864F0B9CA2775AB07C6, 0x1C86F395484C1E8E1AAAE98F85E98AA0,
     0xAF3B978C761305D8355BAC68F7A78B6F, 0xFBDAFB4694B1C29CCF2710B51D5472BD,
     0xE177B7C59B9AF2007FF9AA67A92E5EAD, 0x1EF26397405BB2683625BCDBD791487E,
     0xEF6A6F344E7FD9694AB2AAC2C2390C94, 0x346209468F5A0B16A1F82C716678D14A,
     0xD472474B87AD644EDC5A8F5C4B53983C, 0x5C4096DEE429FF553D5A4BA78A83D86F,
     0x64465FD6D82F6013106B306D8349D2D2, 0xB441D24DAD07E81A7847FC0A6EA12850,
     0x03858505328E803AC1D1B3DEF6020368, 0xBCF7AD396CDA0D43A4158E1914BED6B4,
     0x81CA71DBDA9E62E56428DA8515FAF7BE, 0x91866A7FC692FE8B5DE8F887881DE32B,
     0xC57995DB622BFD456DB0B4922C0DF817, 0xBB0CCB8777C2B384994B900114F2779A,
     0x4CCBC7A15C3CECE543986F5B6AE54825, 0x90360C44ED34535C1FC936C730E68108,
     0x7299CD76B30E7DF8FB09890A0ABCFDDE, 0x57E51583B5494E176C37C95A6AB51730,
     0x3C3E1554827ECB01957766BEB54B2AA4, 0xDEDA35A4353F11230441E7050B537685]"

lemma length_table_80550 [table_lengths]: "length table_80550 = 512"
  by (simp add: table_80550_def length_rows)

definition table_81410 :: bytes where
  "table_81410 = rows [
     0xB3596F0BE5A96C21CD91446E60BB13A0, 0x7425EC5204BDA3618B9529FE915C312A,
     0xA8CCEA5E465DD1D9E67711EB7D94F32C, 0xD0A86623EBC1960FA2EB83215630808B,
     0xEBEB1FA5C96D8919A1FC8A0924A547C3, 0x653059B1306402B8D9322F6B5639B908,
     0xF58F90FC691E551A891950ADD5C23BFB, 0xC1FFA7BFFF939544E382288B863D4531,
     0x71FCC2435AA23E301BA135A46F622A96, 0x6DE8A06D06F3B0A0FA5385955384CE74,
     0x61A70D2963903959483207571A337391, 0x0B9F3D2CE0F22278886E36124F4B4C7F,
     0x580CAD3BB5579076361C1A09A72ADDE7, 0xE32D97FCA00499C1A6A6B261F467DF6E,
     0x027BB1C8F976721DC9A7BA5745BC56FF, 0x6BC867FA2644723A9DD91236BCFB8D59,
     0x0F458871234B60881F9380D7552E0D81, 0xC8564A931CE785413637C7D5B09F1CF3,
     0x670CD73E189FB9B93E54034D23E91918, 0xF9598E423889DCD766B12F237D6C36A6,
     0x041975B8D5B9455D36A5A4809627DB14, 0xBCFF286BE86ED9C3CE85420FEB05470E,
     0xE737760469B54CDCA1763E319F5DCB7F, 0x51D91722D39EA09AE62BF17685E4207F,
     0xCCF02D48B95033931658BF62BCF9BF04, 0xDE53A98FA927FE0003DC43AA1DDF756A,
     0x56B5C146F53D312B9729646214CFCE76, 0xCCF8392F07629FCC4FC71386608F3CBE,
     0x6FEA69A92ADD26AA9C1D6ECE861D9116, 0x8C50D44F4F847B5BE43402413BBE710E,
     0x31C69AC1CB4DDE1DC83E5C9EBC211606, 0x38B14270FC30BFF002B52C3EC8022153]"

lemma length_table_81410 [table_lengths]: "length table_81410 = 512"
  by (simp add: table_81410_def length_rows)

definition table_82693 :: bytes where
  "table_82693 = rows [
     0x1D844B7B02907122B4073F39B2BC9A31, 0x61121D31697D1A2B09F376056D69AF7B,
     0xB4FC32A98A9CCD08769930E9F12D8F89, 0xABADE53FEFF964BBCC767E8085C54D85,
     0x77CB62E9A26333F0B147A4A91F6B45FC, 0x09055935C67EC9CBF5530DC177B7870D,
     0xD308D58764BA29492C5224E7B143785D, 0xCF3E956305D38E2BBB1C505FF1DC228F,
     0xE649683BE717970B4E64699409A5F536, 0xEAACAA0769063371733AC17EEC28E85E,
     0x5B1ACFB7EDB667A7A1FFFEC677663575, 0xCE859B306406E234A1B2D07E2297D402,
     0xD2B61C86617AC5CA084C8B6118D3C7D8, 0xEEC052682F44DEB28A6FD9F3055375EC,
     0x72BCE3ECCB16A1E828FB0E4E31111E76, 0x0967B0D1FD1C0234D2AF60337B285F6F,
     0x1748CEC693E64FE3C166C3D4AF1F54FD, 0x28A4E69CC7078102F7E67731348C83EE,
     0xEFDD6D1AF02E55E6352B2A782266CD9B, 0x9C8AFC55C4BB12DD5974B2207D309433,
     0x4ACC1606FBE60DE48616984A68BE91B9, 0xB44794A0D3B116433E1FBB7C66E523CA,
     0x7D6376466FCDEA693A3F41C03F150371, 0xFB49B5AE8A786FCCE91728272D2FA654,
     0x9953FF4A01E3567867DA40E7D4840C42, 0xF740E35B096913FC620D7987EC710AD3,
     0xF63143B81D7145B6065E9127155A216D, 0x7F659C1D692F8042EA3B0BA4CBC3A753,
     0x3E1CAA8A4FA169F91BD4FFAFE02E7200, 0x3F04D5B6FE828FE53D99FDCE31326AFF,
     0xDAA39CC82D4317B64A7D7D61F4C11D5D, 0xF4853F3BD31B6A9F3DC7288A5AFFAF58]"

lemma length_table_82693 [table_lengths]: "length table_82693 = 512"
  by (simp add: table_82693_def length_rows)

definition table_82920 :: bytes where
  "table_82920 = rows [
     0x5C3970511FAE2190F66A0C88F8972082, 0x36BF6228F784C31565E7D60E23A3D80E,
     0x01EA5723CDE2467F9C604BE43A9CD38A, 0x9FB4099049F15E593443C723203EE3BA,
     0x5E977DECFAFE512353B3B78516A3D76F, 0x4E8D7D1B324FD09AB8A63209989B4C88,
     0x38231E2B07CE288C1ACC0924D55A4893, 0x1BE155671D7876FEECF7EE4217F84546,
     0xE97EF2709E3752A9452E5D770369C763, 0xB40ED8A82B2FCCA4839852834AE6F6A4,
     0xD5EA576E287C25F5CD45119F65911857, 0xA23FEB3983D7CA5CB6BBC60386A58308,
     0xFA93AF19DE5A8AACA88394679551162A, 0x5F846D02474E690AA83B1EC508D9EE1D,
     0x42BDC4905D642B9F249849021F182605, 0x45EC1A7423D44402936166422E9E749A,
     0x238FF99F0DAA1AAB8745A02E1EEDCE7E, 0x7D0BAC21B635D3708326F5B759DFC937,
     0xF27B2298BCFF6EC6ED30D7F4A7A3FCCF, 0x66A5F707BB41DFE561943DF73B609254,
     0xF8DE0789778658F454517B5C1797AE84, 0xC8FB78FC14DEB31BD0DA7BE4839F79CE,
     0x00F621F2CF7E7B668178936C78BE19E2, 0x48093BBCC0FBBD1DA66A1F11788D1E82,
     0xE36C4CE069D2CF7068BAE49040C330CA, 0xEE029C1EBFF04A27E83FF9D40C367BF9,
     0xFC287C9051EA1A3E20A09F4603B83983, 0x5663142C959CE8D35074ABA93DBDC5CE,
     0x80CF4B3B1369813DF652F4ADAF943F9B, 0x12B7CB63391FF5D3F512E7C06B6F2811,
     0x23140C343D967B9B3FA32D950476735A, 0xBB9BA22B4D6E670E783241CE3FE568D1]"

lemma length_table_82920 [table_lengths]: "length table_82920 = 512"
  by (simp add: table_82920_def length_rows)

definition table_83050 :: bytes where
  "table_83050 = rows [
     0x1BEE16CA60250CC086C81248BD16571D, 0x21A49BDC16DF81C88F02AF3637E1D87A,
     0x38837E59A4FA655B319D081A96EC933B, 0x55ADE58516D85E7D227D7E468CBD55DE,
     0x345D6E924BE3A7D2A8437A1EDD6B7197, 0x0F5001F270F7F9A38D1C0E94EEFF7506,
     0x39C023016E38B8078FC65312D56E0BC6, 0xC359BD2A791FE7D30E01B837CF9684AB,
     0xA9FE80B45780225BAA5577F77524F16C, 0x0BBF2E5450DA8E3B5E5063D367F05A89,
     0x2E847AE71AC8F364EF765214C30CB635, 0x6AF6B8719BD6274D383BCCDC16E2394D,
     0x0F72A8F0E24F40B63A558A3F84E77C50, 0xF54D040CB2FC9B0363F19220E0EE68E8,
     0x2A068239106DE0E752C676EC6B9A6B7E, 0xF50DC1529AE45CD81AA65ED8B41FB458,
     0x6098C7048F6771ED816251AE90590E1F, 0xC3E95ABA5C828FD4BC0D09EBDD92D2AB,
     0xED23E8326F56A81B14670D03D2FE7101, 0x59E50D9B7E056D2C7E1018CA9FB06AC0,
     0xB1C46F37CC48740DE0C7C8DFFDBAB859, 0x513B52EC4288CC2C312D9B6CE3D0980C,
     0x1701279A2BE46B0B9DD316E64E2A8101, 0x64D7E4B49775C80F135F950BECA62345,
     0xFAB5DB830B7C91EFB86EA134626A506C, 0x6F8F12204891F0A7E009F926708DF84A,
     0xD4A8F736E2F5CEA64D3DDEEEF57AEFF9, 0x83ACB1D35D3871934565C392711A3BF2,
     0x7CD002E6202034A195181F0FB7E464BC, 0x63546FBDB2C7954C61E30D3FA7D129C0,
     0xEC608D547A1D432EC70CDB4BEBDCD009, 0x4A30630232994613D94C56E714E7D304]"

lemma length_table_83050 [table_lengths]: "length table_83050 = 512"
  by (simp add: table_83050_def length_rows)

definition table_83584 :: bytes where
  "table_83584 = rows [
     0xA6FD064425CAB71B962D6FDBB894A0EE, 0xB93118D81FCFF3C1E9D56C450425BC25,
     0x3317F7DCD0034774EDE4C68ECE832B93, 0x27ACF14969FCAC6700AD1B46E10B3F5F,
     0x5CA6159D8DC853F246EFC51CF9EE7B80, 0x38F81DD496320162F7EF3B3AE60EF28D,
     0x2B9A5B18916A9811C196C5CAB1B2FDE3, 0xC41D3080443F57BE6B15C0F8F84F6CF6,
     0x59E52CFD6D1081313D643660ECBA2249, 0xC500311C02B872D3E60F8C53A36DC53A,
     0xF15D1D2488EC6892AE2FE68CBFF86ABD, 0x650A22F1D0AF83D773A301FE223E51DA,
     0x0EA7B82E5D0D156FF57DE1D7D01B17B3, 0x0A0B4BEC0F3106E9EC07DC79F380A4DB,
     0x4ACD7A48C264530B8CF503324341B1FA, 0x0E32EF8B6A1EB97B0988FF47F37D3D80,
     0x7A724531F12417CC9BEBCB8E297BF3FD, 0x7C2334938AC64AC551CC05ACD4FC7BE8,
     0x915C6AA51C0CB35E26D8B6E6ED25D891, 0x3D206C46724CF6FF65FEA7C439BE7C95,
     0xF5EC3AB2EF250A517BB55A094588DC2D, 0x30FEA4CF1AFE4D83CAA8C2984FD27FE5,
     0xD89196D1E0354A32DCBDD76046307A55, 0x18EC4419C5A82E5A3ACFC0FEBC761C30,
     0x8F65B70BF1B93993C4729D9995DABDF3, 0x222C81926C606BDBA2EBCD2FCC2E4875,
     0x4E9089B501A2508D9FEE20B02C20B960, 0xAEE7D36173C098DE9097D6D6C1735DAD,
     0x2B057BAD5AB88B903D20C95288B970CE, 0xAB751321F1C5FE5F9FF5142BE6CC7130,
     0xE8BE978B42332CB716FF45947815A741, 0xD37D263C0D958E026D8793D3B02D25E4]"

lemma length_table_83584 [table_lengths]: "length table_83584 = 512"
  by (simp add: table_83584_def length_rows)

definition table_84186 :: bytes where
  "table_84186 = rows [
     0xC11A81F17EC47756A5368354F185330A, 0xB8122DD432D16C3A37D53AD29D69D792,
     0x28808E7AD0DF9E7B2F3585E2E8C22198, 0xD40C1F823B07384E18FBA0DBC069FF44,
     0x2A7C94143FA4DD43447A74DB00BDA57E, 0x511C46ABE1E02B9B75EBC87298577DF2,
     0x3FD6A7FF03C6379DA3886C125B4A0028, 0x551C7FC79F561E41D63EC24E1C441619,
     0x6532E3D1850C621D4C9C5920F508D330, 0xA65C516E76944B217ACFDBE48A2C6572,
     0xC21F76C8876623F0213584BA8462550C, 0xB26F99B0DC389D5682A24D831BF2CCEA,
     0xC0F22BDBC71C4252BFC5B696678B61F9, 0x0FA758F9A9DECD544CD5BA758FEA1EA2,
     0x9C15D47AC3C36D22AA25488ADD19D96A, 0xE86CE534BB71CEEFE2E195DF0584305B,
     0xDF5D02040F7A91B69AE8F9C11979B049, 0x4F28FD69773DDCB3AA4DD44D36FFCB81,
     0x135BF8FC6EA0ADFDE48F841294D3703A, 0x0C16DFB0856A7EE61BE30D36C21D9DEA,
     0x6ECC41524D08511CCFC57667A1278BE0, 0x698142248BE81C6C92E264BFE6110142,
     0x90DE979248C6869A1AC32B2352A3A02F, 0x62BEF335B9FD588D86B2107CACDC441A,
     0x9A31AAA87C056B6A24289C1AA8ED828C, 0x0E442D3DFC1DC70C614F7CE20C511638,
     0x06DA727DD75DF8B48319A7EB4EE2C5C8, 0xC3C5C924D97DD75698288B754C44A353,
     0x47CA27B077C65F4552BC4F2E46182D0E, 0x0F646F86640E4668D7BA4AF50A5E6837,
     0x540B5B2A9FFEDC08FD7D7FCD55A429BA, 0x71C04A2A46FA706854C617080614019D]"

lemma length_table_84186 [table_lengths]: "length table_84186 = 512"
  by (simp add: table_84186_def length_rows)

definition table_84997 :: bytes where
  "table_84997 = rows [
     0x3C8935D0D90570AE77B04874B02578E4, 0x0EDC6999C6C18A2DEE8DD3982EE3E239,
     0xEF24E12A99761F9DDF05B965EDB5A4E4, 0x0A3E333B8B4E25281206EA7E4C79DEB4,
     0xB08B200A448BBCC77F42341D19F2D1DC, 0x6FC06E7851F4D866EACA06C2C42BDF15,
     0x71A567F9B054365A7D45E83DEA029ECF, 0x67AF1B356625A823A7079FE98A3CA8F8,
     0x75C85784C6F51740D422E52C1D7AE6AE, 0x380CE7F50533E64775404349F27A0D33,
     0x4206D92C466C4FBFEBD42CAB35BD53AC, 0x5F3D0B0FA0170E004ABC76714171D9BA,
     0xE2AB0A602C9C372DDD20BD796642B14B, 0x9AB7605411467326E20483D70DEC603F,
     0x82CF332983DEEC58D95FB8BC24267A46, 0xE97A0B543F8E8B300640051D14D2BAF6,
     0xB284BA038BD30D0A13022D5F79D047E0, 0x7D477836F1586A1642115D2AA7F9ACA0,
     0xA9D494BB913C636CB723C5EDA2059D59, 0x19BB1F18FCAF8E6E6A912A01B9D65C1A,
     0x71FE08AD90BB293F5746AAF9CA62262B, 0xA37D650AD55E2721A1D537B5444FC6E5,
     0x55DD38417F2026010E727F1A4B28EED0, 0x29904C28C4C7C82ECF5483E291017C95,
     0x33430F7CABBD7C3B5C199D4CC94E3327, 0x04780CB0CAEC96DA8B74E191346D8262,
     0x6B6BC9348B9FC545AD61CB2D850A6765, 0x7F4586ED4D15ED000B3C98471D9FEA31,
     0xC74751243AF301E49E53D72F11B88ACF, 0xEABC78B4AB89804F9AD0A8AD7B0B54D2,
     0x3B1B82E3DC8C15E033A6C689672920DC, 0xF94B28A5717AC4DCC764AD85AB269D2A]"

lemma length_table_84997 [table_lengths]: "length table_84997 = 512"
  by (simp add: table_84997_def length_rows)

definition table_85660 :: bytes where
  "table_85660 = rows [
     0x1DF3F68A832C56747A88AE751B862E4C, 0x74173EC4584E59ACA9ADA011142D0576,
     0x458C5C6C4ACC5BBD8417F5FEC1C4EA46, 0x5F95F5F7DE8DD8C7E1175C54B6A3F7ED,
     0x12710AB1EEF4BF96F6D0B7211075093E, 0xE23F473D8B13B2C26C4E76CA04B8FE9D,
     0x07111390CE518239EA501EE50A343D69, 0x35C99E1DEE2862C2CCCFD909840F917C,
     0x388A528E013B5801807CFDE430F3C8A4, 0x99CE3159247A42FF01B50C55641A2938,
     0x87ADB6D2A1FB543CCB88E742798B3F4A, 0x4AFCAD600424A996AAB79008536A5B83,
     0x0BF8C1A0A2A5CA97325E180520E8AFE1, 0x1CB0FFC477DEF267F8077F93C6C5FA47,
     0x323209C6CB0522977DA6733F24D01210, 0xCEB507B1F4728E18A287D813141226D9,
     0xA0696557AB1B8EC9BF3E977123173E45, 0x9BF9CA1D939F4B4962327A1FABF19593,
     0xFBFD9559FDF9F16F0BFAC90EFA6C5A6E, 0xC29D4FC150D287A44D08334406190918,
     0x7C8A14142C035B43108F409F30CF9208, 0xA4AA883A8DF8C769DB31A68892254EF8,
     0x9752055CBBDD21573C556CD491A3CDD5, 0xD4F9C650F33455FACE80847D44BBA958,
     0x08601D3F4EDCAA62707016A4261690B1, 0x3D0D3427491809B0A49C40223AB47886,
     0x3926DF860761A795972EA80AB52E6BF2, 0xA3829D5CCED1652764249D00CCE96DA6,
     0x55BD823767A2039F4BEC4C03F7D34720, 0x42799D3C0E07051C7FFFF48B399E8DA1,
     0xD8F6525FE2DEE93AD5DAD21115A95F3B, 0xB7B326DA91AF8DDF012260CB3B816D86]"

lemma length_table_85660 [table_lengths]: "length table_85660 = 512"
  by (simp add: table_85660_def length_rows)

definition table_86739 :: bytes where
  "table_86739 = rows [
     0xB8D6311282D83C781CB11413BBCCFD96, 0x25699A6A0AB42F55499527DB3D0670AF,
     0xDBFC56819EFAA26FB4E84EE6AC96D576, 0x17096EDF058AE23F1F994576E2487B3F,
     0xAA0016A01D99ED549ECAE07EBEFA83A2, 0x1EA74D39F73DCF8E35512EF10FDEF733,
     0x562FD0B852DC53203F230CA0E4363237, 0xBBF7E09762998883D0355760B2AEA04A,
     0xB4167B337C9F7CABA959A6B5680EAF21, 0x71B5FF610E27A96DF236A27974C204E2,
     0xFEBE0217A77F7A18DEB0EE5B4AF17782, 0x004FD706C71D1962E45E6EB5C903285B,
     0x6CC6004A75A0394B05B7EB176F792E3B, 0x52437F6A2D09100A6ABEAF88FD68056E,
     0xEFB013ADA6F631A9CE51EABD4E81439D, 0xB5EFD6EFB5422B5FFD19F5FC9CB0EA59,
     0x0B2CA06F899695BE7FA39236A13D30FC, 0xC1314A19B398F37BF07E150D01E04D6A,
     0xE482664E48B0490AB245AACDD1A3E929, 0xA04884E4DBB910227D19779156F72CF1,
     0x9AB02FAEBF7998DC4BA0AF4C7349632A, 0xC234E80ED0BA3C952997133581213B22,
     0xAF763D37899EB01FBC26E24407110BF0, 0xF33118917559A2B00A34C050C106A6C3,
     0x32EAA8C137EDCE4F59DB8F8BBB1CD00F, 0x350B633B873F39B4F8F747343B745DBD,
     0x9A89CDB133394F45086C016CBB797FB0, 0xFF54A5BE97C1F3BB13E3534828BE08E0,
     0x049656E644F3460B501DEDF674B5F93C, 0xC3B25B7766F43CDBDE80451484A7840B,
     0x051EF96C7F15F85A7AAAC6A48B69854D, 0x4E127DC868FE2FA7CB1898535C0055FF]"

lemma length_table_86739 [table_lengths]: "length table_86739 = 512"
  by (simp add: table_86739_def length_rows)

definition table_87506 :: bytes where
  "table_87506 = rows [
     0xA72EAF3767F46C980AC0C9DD21325698, 0x9B96A396ACDF039BD6A42B772B7FE687,
     0xDE185C1EF4555CAEA6E71C342AFD72F5, 0x66706888CD4F21E53DF6FB9F5C6AD957,
     0xA6BEC57F9D4FEA0537684026B0E08180, 0xE0AA3E452CA85701FC8D2A12E669CABF,
     0x4B57104F3BDC78564657D30FF6A39A3D, 0x6432B80ADB17F69C6266F179492D39AA,
     0x4D3417E11D19CAA63BF0CAAFBEFB4A3E, 0xDAF4D07C118BF7CC37614D9CF6F6ABE2,
     0x23532362EF41CDBABDB9AFE94B02B75A, 0xCE5D36FF4664A3B46DDF81765929C5B3,
     0xE216311B68196F33715976D01F0D8079, 0x7393872EA679BCB2477A086AECA56E7C,
     0x511A6D3143EB50E322F5BE2F615DD97B, 0x25B3BA1FFD798110A2F9B70EE9754178,
     0x2D50E9382C2317B4F855210C6EA0FAD9, 0x259C591DAB99B08EDFE272FACD790761,
     0xDB6EAA27EC2399E49E02D0C3C5BCD1C3, 0x9884C8E6A83E3C4C3523D4EE7EFAFFF5,
     0x812A4EA46EBFCBCDE867C6DC2D9BF285, 0x2F420F23B4F7484B7D1F3A0C0A962B74,
     0xE6B0E4045B12611ED5BEA4DA696C4FE1, 0xDBE42BA259CE00DFB539516DBAB39C00,
     0x25C0714858D1BC0B07928CBC5233A58E, 0xE65C0A1783DFA12AB04F153F59A9E27E,
     0xB8571C111B8F67B0A7796CC032D82B27, 0xE67D4968DE281B956B1802B821F62E87,
     0x3FC17C01302DEE7A788C6C86BEAF3F26, 0x710CAFF949BEF7B6AC225B59B0D27640,
     0xE2DC9F145205E5276A7D4BB5B65E9CF1, 0x9C1913570DF1CD9CCF1FAC5B16B3F2BF]"

lemma length_table_87506 [table_lengths]: "length table_87506 = 512"
  by (simp add: table_87506_def length_rows)

definition table_88423 :: bytes where
  "table_88423 = rows [
     0x6F800F44A7C7D875C2EF9C88CDA6130B, 0x5D8A8468FA7C1E9A48EE81AA3A1BBA2B,
     0xDB40018B2B001646487CF7E3C4CE496E, 0x7475A1B28D891B4681D81F6BAF16854A,
     0x594F2102A1FC51C1DB29438872A69EF7, 0xC44FC81B7907B68B76B15F970F379CF6,
     0xBB841F4A7559FE8BDC20B63CE66E64CA, 0x50157D35407565C22CFC30DF3F53F5D6,
     0x2A533411764AF209FD8345938B53941B, 0xCFF07A7D5E362CCB6CF9AB9EABFD315D,
     0xC30F44E41925C9168C6113D6A42A22D1, 0x8C799B96F0D55BDA6BE1EA4BF1CC1BC1,
     0x992309E2A6FFA930DFE42AC77A5C51A7, 0x9D79F3FD2950C137B4AABF46DE203259,
     0x07896CB7BC8D429C217A9412B5A44BDE, 0xD9A23F8BD574AEC13F528935D88BDDBC,
     0xC6941B95807C7A2344922111622A5109, 0x9AF8E1242CF857F637D8159A62EBC654,
     0xBBD31A2D879234CD17BCE5BEE5C04BB5, 0xE0A77E9C38908A1FB04C4F3E18D76E2D,
     0x276C1A72AE62FF7B91B52487221ADB4F, 0xAE33195889A0569DCBEF1D3B1C94B48D,
     0x6FED21C9A1D3CA225BE7939A9E1667A6, 0xF06540F14779ADA69E48D7424664B099,
     0x0DBDD8D45FB3E493BCF8B8A982A553DB, 0xA2709F02250A4CEBC12CEE27C2A11211,
     0x380A3456687ED970A07AD15353A50737, 0xABB535BC7FCF0C9066B6B83702277605,
     0x33B7416087C14DC4A0CE2ECE7823304D, 0x78845FC47FA7E670F277632DB74841B8,
     0x775367A6729914D1712FCBB82B36B12E, 0xACE4DB4CDDF42B399CD04A06440D8663]"

lemma length_table_88423 [table_lengths]: "length table_88423 = 512"
  by (simp add: table_88423_def length_rows)

definition table_88742 :: bytes where
  "table_88742 = rows [
     0x0F725F2721BBB540696BA0062D291550, 0xE57E1B0FD18DDA985304589F81D8923D,
     0x27AA3141C8CB59582E637E4C3F54FA4A, 0x9288D39EDCCDC3B31E070E33AFF0DAC7,
     0x1DBB54BA80363A9208ACC28EB7BD4CBF, 0x7B2040BD37AD7F3A35F19540F41E2AD9,
     0x5D9ED25A77F78AE3D44D29B3AAEB0D99, 0x6284F8405CB86352003F6BD21A22FEA3,
     0x12144A2E83D372A5D08A24888B9A131E, 0x4155E1D5AC9202B4C2B4D1EDB3C846CF,
     0x19488B999D527BD300A4F547F39F7484, 0x53326E405D892C4517A981112287F698,
     0x36D3A061CAF5D5BF5DCEA4E2B3D078C7, 0x52D01BB9178406C8914BB49A932F6C73,
     0x5E7E3C9F718FE484D16426EE13A91F47, 0x28DCCE721801FCC331756A294446B989,
     0x8648F5DFEAF6441251D57FC61E3D5A47, 0x0CD7E5F318EBFDC505482751CDE801F5,
     0xB2A990E32A8990BE78FA61ED59A6400D, 0x4EDB3CB6BF459E0CDFB9E74F4FCD7C70,
     0x792745F3D9B2F2FDEA24D50AD397D92F, 0x891C49BE15CD591DF82B04BC08316570,
     0xED4208665556368C6C5E8336F648DD3C, 0xC4BA05B1A5A51842556499C27B0E1636,
     0x86970E0099F17C1101326DE6FF2E8600, 0xF0E817F49A1C8B6203A211ECC2813F92,
     0xF04B24FD0F21B24D24D399E50F6AFA73, 0xA58E1E2FF05E18A1C1A4786135682315,
     0x4686DB9E1B214F75357F6B66A5CA2CB9, 0x22ED79C5404C4961B61A5DB3CF3372D5,
     0x748E00A5A08B8D11A447289DA3F50357, 0xD783FE26BBE53BF0D25AAF398C8A5B4A]"

lemma length_table_88742 [table_lengths]: "length table_88742 = 512"
  by (simp add: table_88742_def length_rows)

definition table_89353 :: bytes where
  "table_89353 = rows [
     0x23A52C87C56C0256093CAB04EB245814, 0x9892784EB25943F6CA9D5BE36510E77A,
     0x59CCA9C0A0AA6326575158EBD6FCC24C, 0x8F62A735BF059D58498C76EC22CC656D,
     0x8CBC92E0E41AEEC5BC9935BE91058B7B, 0x0506620D3562607E272850F2AC234916,
     0x5128784F30D8C887189195D9C9179B62, 0xD0B5E43719E3E24420A863B480BF8118,
     0x305D0EDF4A973D945FDCB3133DD2602D, 0x0F8C43407F41E546E404DD7050E45B6B,
     0x243D72A87936B66AB9060205C40DAD18, 0x7E1DCA6AA1079718D9FA52A97600A531,
     0x6EBFE21AE378C5106FA65F1ECA239EC6, 0x1725260C90A0AA2A96D36EB7B16E35EA,
     0x31AF0BB8F0EDDA9941CB2B033E6A208E, 0x67F17F4AB3A9BC206989AD485B679B82,
     0xFD8B215E9CE1026C0299BDDC0FFAB0EF, 0x2F0DAD4C56B36F050E66D57731C87AF2,
     0xF742BAA4E9A76906A5E0369EA0733F27, 0xABE81445AD85FF4860A15EC1C8EDC3F5,
     0x58F43463F25E2E4D1DE82294A36FF3FA, 0xAB436C6A8E57B3BE3F98B3B322216B71,
     0x6C8507003498112E2D67558FDC730612, 0x308DB1ED77C65314CC7534EBA967B895,
     0x8018259C74C69EB81F264411A33CCEC8, 0x8331A1CE16B11C1D5898292F2D871990,
     0xD3627CBA0B755ECF281FCB1D0DBA3E5D, 0xBA7D1FC5B01E82152E0D1DF34970235D,
     0xA3B998E74A14D4CFFFEE91EA5E9CF990, 0x07C251545D1B997F5F67EF9B9B1683A3,
     0xA1321601D7336D1808DA72FDCC52F20B, 0xB89C98CA5B20340E80D1F280D6367D30]"

lemma length_table_89353 [table_lengths]: "length table_89353 = 512"
  by (simp add: table_89353_def length_rows)

definition table_90193 :: bytes where
  "table_90193 = rows [
     0x29207E3FD7D0C0F73C570C9EEE74D27A, 0x32C5B48290F15AD1F3828779336AABE9,
     0xD0E18391AF63008F24CBE5D2296EC124, 0xA3FFB9EEFF70894CC9CE299B7F5C6815,
     0x980679FA435B1249F06C67A0A8646B39, 0x0E34B22B3FF3D83CD2D9AE3EA12E4C7E,
     0xB941F151A50B989BC752AE11FDC9C50D, 0xFDC2B3114094362080A6E69F52C924BC,
     0x74C26C45A45C9A4C239C6471553E1D86, 0xB9428A831340D8C9655E481E8098CB82,
     0x08066EABFAA2FE2E56BA8543C140F731, 0xB8066CAC4168F445819989ECBFC8945D,
     0x223F76A68405B22FC998F875248D4263, 0x4D91D890F7427CB4338BF6EC9350B0B7,
     0x19D5F6B0608187A0C10FC4E447C84FB0, 0x90029AB6BB700790ECA8A80658F5F746,
     0xA1B74EF818930DBE5BCE589FA128A793, 0x4BCD653A412DB17B3B14AFFE2D37B15C,
     0x13CF397C826DFB806955AD63B27306B9, 0x0A00A366D077D3467B5F0C9A76817D3B,
     0x2F03E0C9151636FD30F6C3261488DB70, 0x78056915B2DD444965FB65C4B0E5BD16,
     0x2ABE78E3401F655A635B5DDA44721B31, 0x3B4C04BC3920BD8253C64CC352B562EF,
     0xE4393C9F1AE4F1E6960F7ADEE7E5EC60, 0x67D25DA7EBC5BC97E37759EED0340CAE,
     0x211DD2C6DA3B1D828E4AFDD0F9F9CEC4, 0x6333569D70107C7F72B0785B1F72E17B,
     0x9058BDA938D4F81EB6D092D980B0E5FD, 0x4E3049B96825116D8EDF0D35FD461F45,
     0xB5B7E8A97C64FB75F481B83BCBE39119, 0x14B429D4B9CE22137CE5160F73AACDEE]"

lemma length_table_90193 [table_lengths]: "length table_90193 = 512"
  by (simp add: table_90193_def length_rows)

definition table_90774 :: bytes where
  "table_90774 = rows [
     0xCDBFB7BD9505DD003A3DB2794E291340, 0xEDB7DD6453C81A37433A9F5BA58A3EF7,
     0xFA33C2780D8965A07FFDB0C9C6701D92, 0x71FC180CC0D4E1D3461D627D3260B866,
     0xF49362D9090D78898885351F174361A4, 0x0C564E27DE5112A00F35CE44862D9232,
     0x6FC3548DABF3F394AB019E94D591F35B, 0x76763A8B53F72DFEDF3F64F879C39D39,
     0x94B2D0D5C7F681C1F44AC5D7765FB1F9, 0xB827777F81E62D31166F36483A5891A5,
     0x0B4C8C64C4E20603BEDC8E0DC8DB5940, 0x618C1E612B2F5275AF086EE28DE1C6F9,
     0xCE435D8C6E8169B96DAAFE703AB9A38C, 0x438E58659A00AE596184E0FEC3E36170,
     0xDCB0A9FE3A855C95F0EEDF7F84892D66, 0x48ADEDBA4D0B41379278A4ECE07E4B2B,
     0x8D4DC522554F13B38057C1800392A6D3, 0x9AD6D1100BDDCBAE2C0448E52F86B0BB,
     0x944850F1F6EA585EAD1C8DDAF20D33DB, 0xD3462043FF24E339A220C8B3C8CC8114,
     0x2BE16FCDF66A79CB6C902E148B64A8C1, 0x4028557284E14C6AC8F614F5F09A897E,
     0x4D85C337480E94FCA985B4107A93E940, 0x23D71E503D266C1AD82B6673BC28CA6E,
     0xA6A2FA6CC437AB51885CD4DF08AA92CA, 0xF6C80B331AE014D8C21D6FAB5C3CD784,
     0xF3B29A1F5B62AB6C70A47DFFD6B334B8, 0xC23296EF542AECA396B5774CA8AD8D8E,
     0x034B5209A5EB12306BF1F042F6CF562B, 0xC83F773C62029B037947C81E43E1F710,
     0xDB1E5FAC59816D8F7F25DC35148411A7, 0x882D3303F028FF8D5141B8C3748F8DE7]"

lemma length_table_90774 [table_lengths]: "length table_90774 = 512"
  by (simp add: table_90774_def length_rows)

definition table_92111 :: bytes where
  "table_92111 = rows [
     0xF9A7F8455707AEA808CD9E9144240582, 0x1626C234985A53D333408CAA0CE3369D,
     0x43E619EA841153E474379B9A3230DDCA, 0x5D04E6A33B436524DB029D794FA0B9D7,
     0x56A71BF73874C6554E6E16CFAAF2AD59, 0x97FC0C8FE675BE8C2522E0CC78CCED3E,
     0x9F8D7E67A3284CDD74F667F701BC74C9, 0x3FD2F4BD735F0CF067B2D3CF912E20B9,
     0x2DB05E72F2EA4E209795157A3F9B0F61, 0x88A55839CCA1D782BC407485C83A9C98,
     0xA42BDC16074546FC3827D7398652B02C, 0x31E4CA903B97A9A141A98D6447103D7B,
     0xB79C9A005EE4C9B7DDA8C8620EE7F92D, 0x86D53DFAE65214DCC0FF3F744017B1F0,
     0x7F8BFF6B2F8BB2C61BFB3B7ECA1624A6, 0xA380A60A7F538D7412A781A6411DCDC6,
     0xCD7BC2865D1B0B12EC7A2D3B072320CF, 0x2A0AE3C18003A3777E0EDED9B8C31844,
     0x93A9D40DE2E36C34ACB57060C54A7C1F, 0x38F7D4CEAB4C098B3167C48137770761,
     0xEF09BF7BB77C7B3167C0DFEE53D0BF17, 0xB968B3BDE19520DD6D5F1A296E610A00,
     0x798CA89A48FF1F7DD77152945682FF29, 0x07D4154C48F579F3B82B6D58FC6F1C08,
     0xF22FBC6654AC41A1B3AE5F81F429ADC7, 0xFC0803BE6CCCE623EBE3120F8C6593A8,
     0x8A8454D14C7F46C8B7FD72D3B0F22238, 0xB882DCADBC57D12D2B6B561C03FFEDEE,
     0x3C4A76B7E237F97F4B3C3AB79879D353, 0x17FFB87C189EA50E895C8982687C69B3,
     0xB5A5B7CCDE05E3DDBA2390D88D4BBA9D, 0x26433058339A76A53D28DBAA792710CE]"

lemma length_table_92111 [table_lengths]: "length table_92111 = 512"
  by (simp add: table_92111_def length_rows)

definition table_93519 :: bytes where
  "table_93519 = rows [
     0xC2F83AC48F1C171204A32E5A03A0E6BF, 0x336FF742FB309EF865354BCDCD9C9AC5,
     0xA2B130895208B32E571879B7634EB76E, 0x70436B55B815F4539AEDAA08B8D9F1AB,
     0xEC86F34825DC00A828D82F9A4A3F75E0, 0x28D87B06223417189927F17997CCCD53,
     0xE9595341F476931657AE415AEDCF3F6F, 0x0F61D14ABE638ADDC9712C83FCAD3CC4,
     0x7A1EDBE114999240AD06649271261472, 0xE9CDA689D12D6FA558054A65210D7370,
     0xCF24D9F093FD08FE3FCEACE29EAFCCE7, 0xB0D4F0D827F15C8DF0C19DFD9802D5BE,
     0xF35F625ABF5AC9AD91A90DC077A562D5, 0x8F4936168CA0690D296E528C50C6E2FE,
     0xA080F93FBF373E3AD922C5FD1AFC5AC4, 0x26724E77682EB34B90306CA6C4B67CF4,
     0x17448F9A1013C923267401B59CF21D3D, 0x6106DB767C634D72AAD4C813C3E66074,
     0x6E89B75D4095C488C46A4B524087A6EF, 0xEDD266FC8DEC862154797CBF193DE777,
     0x42C9B5BEED13EFE4330F878F7DD1D285, 0xA9726D12347B543FB0EB3048252167A1,
     0xAD0CD6E4BF1C7C97F06374DB729E50FE, 0xF2FB850388BF00F834903028C91FE8C3,
     0xD83A2A65067DCEE9E961FB61D195FEBB, 0x7DD42F81AD66E6EDB95B0D167AAEFEDF,
     0x9DD428DE5AFC3F837DAAA1B5BCAFDEE4, 0x3ED675975318F51B45D2E4161AB67D2F,
     0x1B1A12F6807AAE9EE1A7C46818CEC102, 0x190C8F57D45BD5BC665B3E65DB3B0098,
     0x64BE210F08EF277B7F932686916B1CA2, 0xC0AA280CCEA4BBA9085D9E6D5713BA2E]"

lemma length_table_93519 [table_lengths]: "length table_93519 = 512"
  by (simp add: table_93519_def length_rows)

definition table_94717 :: bytes where
  "table_94717 = rows [
     0xCA5557E83F0A44B38A1C9127750DEA24, 0x455626D08DD14DAD01645DF4CAD918A2,
     0xCD32D3B666303CE709B7DDF45EA01506, 0x2B8D32AA6A32519C8232DDDD6B2867D0,
     0xC529FFDC006A5757FC4AEE56A8AE6AB1, 0xDDCD041A5B3849513BF2C6E425D64CE9,
     0x5873B893C50D2FFA22459689A0144F14, 0xD8556512660F82BFA0DE0278A5FE3601,
     0xF32685A58333D6DEF5DC293FA16EF276, 0xAC09444DCC8010FFE1A27FDC8B84A267,
     0xCCFABF8272092A3C21D4B41BA24056C7, 0x7E80179D6319023D642F366964B1723B,
     0x5CE5F42EA19FBDCE6A575EA1303C1A35, 0xC40D2115E0E5FFCD5C8307B93F7928C6,
     0xAEF6C618E8B5B81F5B3A55D141AE351F, 0x8105401411EB20415910421DEE17B89D,
     0x496502939BFC363AA90999D0D191D018, 0x58320BFC8AD5F3916DDA1285EC620162,
     0xBE9F8DEC1AEA5A5B108144E5500C6F90, 0x30310BB1021A21787FA16F5731DEC4D6,
     0x37F916ACAC592993490D153370D2FD20, 0xA26D756DB1D6A98E1156F756FA8C2AC2,
     0xC778463707D274E21B3B901969558EA6, 0x8855EAF8325AD50997039B889D7C65CA,
     0x55FDE2B433BB9FC11D6AE22EC2B59075, 0x62B6D36330DD6372004618706EDA5873,
     0x9DDFFB922EAF8EDFAFD584B5267F0122, 0x9ADF4F4F29078C37C1B1DB29081736CF,
     0x4828CB62BB0F207132A1D3E91BD14BF3, 0xE7720B9E24B1D341D9FDEAC31428747F,
     0x06CBCB3A9F22FF149ACCB4AD4E696CE5, 0x606D6D665EC82042226B032CEB59E323]"

lemma length_table_94717 [table_lengths]: "length table_94717 = 512"
  by (simp add: table_94717_def length_rows)

definition table_96081 :: bytes where
  "table_96081 = rows [
     0xDCBB3FBE487BE45931A95F0D309FD878, 0xF415AC719C915FCBD041D04B9DDB2FAC,
     0x9A47758DEEF97D8EC4CC647E51CB96C5, 0x248939EA943A734F17D52C65D2E570A6,
     0x718CD8B462D9B43B2F337E23547DBA11, 0x59A80794477F2D98B8BE963465532D1D,
     0x6D0174BAD876A81F6612F4051E755C27, 0x0ECDA20FD957337FADE3F72B0F796722,
     0x5D626D0774E3E37778158172004D50D4, 0x9FEB2DC6FE42CD77047A117A77B1851D,
     0xD88A7BE90024088CD25256D77130B677, 0xDF560B26FA5187472A6EFEFD6A95395C,
     0x671774B8E062CF04D08B78A0C6432D6F, 0x760B7B4204D2E3806013E0A3579BE381,
     0xC8564045CE42AA3531C88E9E318FA426, 0x2B04F3D279B2C5E8B1DFF37320335804,
     0x410AD9C8BA34D88E273BF6B3B54D2A0B, 0xD3EB6E61C4AF780C11E00EF7B09AFED5,
     0xBE42C988E10126D6F30F0938AC64EAA7, 0xD4AB8DABBCBC5AB4EAF181512C4C5973,
     0x99CD8660E6BC71743DE94A67419928A8, 0x0CE0B9AD280E785EFE71663CA80FFB42,
     0xA4BC967C1E7A6127F3B2B3ECFBE3BE9B, 0xD2BB6CB18540E1455801947A21AD79C2,
     0xA1CAD95C0C6CFDE4BEBCC881938F4999, 0xD8DC1BF527D0F3D1DA0E701EBF7EFBEF,
     0x02DA9E07E21292DBC085D4BFD6B7596F, 0x07EB427D4D7BE448F7A74E862FE4369B,
     0xE35963B73F80F0E60BAB89DD34112D6F, 0x7439C6CA1F3B6E0F9EFC8650AB128C7B,
     0xA6BDAED4BCFCFC805A6AC01BD15D5E82, 0xACCC67DDFA1CBD93DC3C8240C71CD4C3]"

lemma length_table_96081 [table_lengths]: "length table_96081 = 512"
  by (simp add: table_96081_def length_rows)

definition table_96894 :: bytes where
  "table_96894 = rows [
     0x5678CDE63EB80300283812C91564209F, 0x9F4B828A63987E5387A7A9E10A5484A1,
     0x5FABAE8B7C8375EFA21FE48845D39B5B, 0x4BA05A0562177C5BE638A9A9F0A7B9D4,
     0x40F4F4D0A77267A0AD56EB1240EB1D49, 0xB2EB9E5187FCDCFA10816BD3B9B9A2F7,
     0x27949A60BC8A05E6CD13713B9957E6F7, 0xC923133D90387A1175E2C02EA31CF662,
     0x6A67C4C6A1F818F217B14A7FB546DDB0, 0x6DE1D487BEA44264C77EB6629308A03E,
     0x16A957DA9B8080157D2FAAA47A9EFB3B, 0x3270B6468634837DE46920C9B163286C,
     0xC0B95C152C602C2FECEE0F7987D176D2, 0x0E345916971FF79F054B25476CFAF7F9,
     0x1ED183FAE11208F5213EEFE0472B0F03, 0xA4ED0ACCD2482E41EF0874F8BFF1863F,
     0x487D6FEC941230075EECB1FF41F08F82, 0x4C36B786AFAE02D98AD6F9A03A151F97,
     0x6FDFA58AD299B5CE89E018E43C284443, 0xCF613FA59B32A3FDE280DF85B324B90C,
     0x822DE45ECD9B2D48035A47AF36EF9A7C, 0x825E4D4126F4834B6AD0556D94309AC6,
     0x5899A046BD06C1C86F133292C4EB81B6, 0x73B78CB6A17B7622D68E659B62D044FD,
     0x41F7BA691E2DBFF3A44A81E7F8D962FF, 0xB271131AAE4163B3ACE7563C5F342FE4,
     0x1749F50E620412AEFB4D584F02BEED92, 0xE1A9B758C881DD9575D959B8C5417C97,
     0xABB7F0B6B9137C2AC2FC3FE39A0A54C0, 0x6E690F50DDF970C257F490EFE3A92AB3,
     0xAD5D8380DCE695FE69E2AE1D3B48226A, 0x822FEA8D00E5064C261054E2B69233CB]"

lemma length_table_96894 [table_lengths]: "length table_96894 = 512"
  by (simp add: table_96894_def length_rows)

definition table_98315 :: bytes where
  "table_98315 = rows [
     0x2A72F720F9C7214E6C6296294D4D6AF2, 0x6659296C09B470380C9163E6BDF9CFE2,
     0xB004CC1CA4FBA56714547E4B347EAC89, 0xE6DA62560DE1917F1EB4A0491BE7B2AA,
     0x3247420B3D74170A05616D5957AEF3EB, 0xA48BB685758B26EC4D6DE1F08432B441,
     0x91FF45AF99CB57C3A2B9C3776DDC7C59, 0xA2207F4202128F3AA57F3A20110D863B,
     0xFC6253EA0FCB88D3AEBA2BEF8CDF1214, 0x82C03FB8B4687A6D86506416316BE3EE,
     0xC96C272D98B8D0545FC3177B8945B20F, 0x305ECA33036607FAD97603C37E2D1CA0,
     0x515BD09E7E97DE7972EC627488F4E2FC, 0xB4074BF640F18332CDAF7BB557AED9CF,
     0x27DE8E3DC19DFA3DABA4E4022D2E21D4, 0x2D95D74B46FBBF42E05EEE7DECA47916,
     0x33FDB986A57D91FFF8F1913ED71351C5, 0x312CED26F25BD74F62879B429674B6DE,
     0x3E782C9FAAF6B8B705D5B5E1CA113AB9, 0x49CAD8F116CD4567B3434AB724CDCF64,
     0x95E5FF1FF4BE4720971B16D44E48F40E, 0x5DECAEA9F0CF96DC0C2E1539BD394A78,
     0x26D3FAF23539C127DCA133A9D344940B, 0xDFD2A0EEA3E5A05A658C3BD3CF01E2D8,
     0x0DB672F4A46367D78D30FCC4301B6E8F, 0xB714B9B1886AEE729D6BF349317CBACB,
     0x9FD8697B4ED99870AE0FFA259E7E0A8E, 0xD8B50135C81383B9351FA3C042EA1963,
     0xB0764EF44DE299B26D96F362A76574A0, 0x31DB75D0910D772F6B594ABACC7D9E41,
     0x493B46C249955ED044EEBDDEC1168303, 0xCD1FBF28EE5D8503CC32D4473B98F1C9]"

lemma length_table_98315 [table_lengths]: "length table_98315 = 512"
  by (simp add: table_98315_def length_rows)

definition table_98576 :: bytes where
  "table_98576 = rows [
     0x1D0A9CCA375647249423A7BAB61BC806, 0x3DE60298CC36CDCE10212F808728E7D2,
     0x71178566B30DBCBE1B4B2F48E2D97C7C, 0x051B9420E9006363AFEF1925CF0B373A,
     0x7E67FE647F1738CB8408960DEE8ECFB2, 0xA5FE742E45DF37AEBBA3ADFD14E3D021,
     0xC087C76F7A16C78F3B776252D83A6109, 0x1F732333C260274A5289D8FC87F9E95C,
     0x7257E0B33D244FC8CF92421222EF25FE, 0x9A4E7AC4EBFC78D09F8300E77E1D9E12,
     0x99FD0AD2FD4EE053F8FF699161561CB2, 0x17A87A0C63D607DA537BBB3BCC63B14C,
     0x92F3313692687C2CC2715CFD3053CCA1, 0xEB9225EA3B8AA1B879222E425EA97190,
     0xDC09505248FD4B37320B3E15047FB7EB, 0x6620B323C3293FB8B4A21F982410E3F6,
     0xA5B35C6BD60BFB722BC07626A207DB1A, 0x4F382101738656B9EDDCDF3F96742F76,
     0x5A016FCE70372942C7FC2E6912F8C8A4, 0x97FE7B3B87465EE56A5E7FB01F33509C,
     0x043DFB3283E9FDCD74276E51C6CFBB79, 0xD4637110F2DB29227F04CFEFBFBD2665,
     0xE07C72BCBDC391EF4EC5C767BC4768E1, 0x7FBA4A56F45FDE1348B5893FF8BAAB8F,
     0xAE022563BA8645A140F8F4DC967BEDF8, 0x99A54DB2997CF04B6C5D913AC37B3241,
     0x265408A7099D959E41B4C6C86589F7BF, 0xC073108FD4CE6905168C32CA727BB9B1,
     0xF96999AF46403D9132A0D61BBE69388A, 0x50076B7B1A06B20F81A762F31DE2C09B,
     0xBFFBEED162F330EBD15971C1B0EC4B67, 0x8A137AAE51002CD2228C017D6EE71626]"

lemma length_table_98576 [table_lengths]: "length table_98576 = 512"
  by (simp add: table_98576_def length_rows)

definition table_98845 :: bytes where
  "table_98845 = rows [
     0x767D00F52205608BCAA199F0B0BB42B5, 0x19BA616085845977E269BAFE9FF16173,
     0xC2EF813C7B2875AF7BF3472E37D425D7, 0xDB903491705E427D8C60D07A30CED185,
     0x0045BA4DF14133F6A6477B507EEA7B07, 0xC0C6DD13D00E231BCBE25AE9B14C0190,
     0x2B316FA9506DF4B79FE5FC57E18F5C86, 0x4E6181D23B434026882D61D6516243B1,
     0x871105ED610AA609887B7F82086DDE80, 0x6E1D7A86011769B76ECC2E1B6A2969D2,
     0x60F7F28D365D0127E4E4BAD8D7FF3759, 0x4135779F1E5F97068F1E47A8FF9DD49E,
     0x71A73E0551BF247DCC4DB47DAB590115, 0x7E36EB941BE6BD82C74489BA43BB1419,
     0x06A8C4E01DD51B65E9740D8F86521DF1, 0xBBE15D470A085707E7DFAFB1D2EDE88E,
     0xB054F74075FE3EC3730B0BF9EBC81AA4, 0x7FB1278DB46731F0EFE1A0794AEFBD06,
     0x973EC91884BF5063E3BE1FC869EE2FEE, 0xAF5C36F665E9FD8CC6C8B7E519505FB6,
     0x4D716BC0DCF6096894DBE0F8B98C6C20, 0x5B13771FED8B1F0BA4BA615A6ECA96C3,
     0x628667042353410A062ABC9A73E26C86, 0xE6E7CCF34388E961921E60ADEBCA03E1,
     0x97FE16D66840F5D74987F84469D4A6B0, 0x8419257C58286E61151A1081F82ABBF0,
     0x07A78965BB1A6263F2839FA8C448A5D5, 0x396AE0F32D26B386387B9796F9E7A677,
     0x42007E54F237C466362BD7676E6DBEDA, 0x29D280EDEA5AA942F8C75013970E3BC9,
     0x7889859A370E7E9CE547F001F1F0296D, 0xED992A929CAD69328BC9ECFFB645B6F8]"

lemma length_table_98845 [table_lengths]: "length table_98845 = 512"
  by (simp add: table_98845_def length_rows)

definition table_99843 :: bytes where
  "table_99843 = rows [
     0xD9E21355B5009E451CF33424F864642F, 0xBBAA771E64AA7BEBDE8ABD95F2032C47,
     0xB6DC1690441BE2925D03A8F5F7AC7711, 0xBACC49FBAFA53E1696B299E035DF8E1A,
     0xD40F56DD233F7B25721FBAFD13F8A902, 0x87D01C3BB47079206B397C01EC4B0DBC,
     0xC0201BBAF5F726D9A97561F75E673811, 0x73155BDCF117657C57471836775C91CF,
     0x9B4844E5529DD9C23FF3521BB533C7E0, 0x38473DA1D888FF7037154DABFD4479EA,
     0x62D42CCB1A5460EB0A92FD820C00E7A0, 0x486EB3FA425F990910C400B9309C3943,
     0x0DCB93DADF1A5ED0D8BA0C14F513BB3B, 0xCB3A0435635C68E901B7946C3A09E7B6,
     0x9932AD481DDDDA27A8C42BF92696CD25, 0xECCCE8A3CAB0EE2F548734F19AB71AFA,
     0x8F1401DC0274884723F3B6BDB3D748E7, 0xF0C4C6B814B5555798BDA7D7C4BF77EB,
     0x138DFD974A846F01237F5A4F945DDF13, 0x28E270C3A9088060242A49ADF50D5354,
     0x5AA93DDD380DC0E353987C0758673958, 0x30D6C1576C96152890BB51312194933D,
     0x75DE42D52431F1E973D0AD9CC8DD5DC0, 0x961D70C2AF8A50295B243AD19081AA53,
     0xD1101C2AFECDA1F77DE4526880E30A3D, 0x28BD759BA739B55E466C796EC5481475,
     0x0D0F5D587F197BAE635CBD49E502A017, 0xAE4BDFE827054C97876B8628A42455A2,
     0xB150920888CC80DA84250F88FB831F2E, 0x896F4BFC3900AC8636D63F4E0E5E67C7,
     0x6B302B9419AA53F96812ADDF8ECCC78A, 0x2BCE0F34F9EE551A174F75BE1CE286CC]"

lemma length_table_99843 [table_lengths]: "length table_99843 = 512"
  by (simp add: table_99843_def length_rows)

definition table_100672 :: bytes where
  "table_100672 = rows [
     0xB4A304ECB70FC8F14871F0FB1D352A39, 0xC68F1C6D9112A77CDDEFBBB462071008,
     0x8A0387D4249371E07B1E3A8B3A155454, 0x28534933992502C2661FBACB99D0691F,
     0x89EA9486A6BFFA1D1A5520FB4130F66D, 0x9D4C8A218BA999A72B12F3FE87CA448F,
     0xD13C7AB2BC5635941CED3FEB44D2B357, 0x752FDE00F237939D579FAEBE5E2BAD32,
     0xC6542FF891113D10D121CC20CA3BC24E, 0xE386C4E724E2ECB87D6B589400D4EB91,
     0xC2579FBD8D18DAB5A382DE2698EC1320, 0xE8A46024CE6CB7F3B3325496C074D887,
     0xE5DDD4261EE4BFFB2AAEB8FD0FFA1305, 0x80384341B075D7BEB85CF220841C1D33,
     0xD90BEFCBAADF0E2BE228FEA8E72F3B97, 0xEECC5E60D2AABFAD53A924CA17CCE64C,
     0xF5AFC90211591260F430069257444484, 0xC469F170711BA911F2ADD331DCE6946A,
     0x99B6A4AAFF3A1CF5DE8EDC6575AC5CEB, 0xF974BCBD79E2783047296C9F0197DA1D,
     0x66A6A3311DF40C243F886037B5673506, 0x965C2E6749FCBBC4AF73179F942A9D69,
     0x33085A5883546591310FF9AA698A47B4, 0xE5CE7C92891C19CF2DDFDD449C65C371,
     0x3945626F4A299CD5ADA6D9AA679CFB71, 0xB927C727405796DC525A5A45C2E54CCC,
     0x6F2F0B442320BF727E5674B4A28572E6, 0x0D19AD2DB3A4C6E546E1DD35DEDF4F21,
     0x870F7849FB0DC5FC0A107669A7BAB786, 0x1DC58D1C6AF3F290FD51EBACF280787B,
     0xCB7BB751132DC6F271364C949C269D48, 0xDA0E748B8AC25F45D9637A24EC0A659B]"

lemma length_table_100672 [table_lengths]: "length table_100672 = 512"
  by (simp add: table_100672_def length_rows)

definition table_101600 :: bytes where
  "table_101600 = rows [
     0xE01DA08DBA0C8347F0B2645E34F10388, 0x6DC16CBA1F92C51611367CA748E65642,
     0x76FBA0B59161C192F74F3A1058171020, 0x27D70CEAF3778E5F75CBD524E4D7A1D3,
     0xA50E36EC2C965618757C287AC42B98BA, 0xCBB4FBBA365F64EB3DEEBD6721A0EE43,
     0x4273AD7A623A2008E26296AF630392C3, 0x1C12BD3E8786D0EC474D11E6C98BDD55,
     0x2D9A107D39ACEED3BDB1CD63012A5A8D, 0x18D2B657CCF4986D7BDC941457B686A1,
     0x83C4B5AA164A6C1FE9698CC4588D78DE, 0x5EA2F201D281B6248505AA5BAAB60DDC,
     0x9C65FAEE6874226642628AD9D97C68CA, 0x575F33FA0D9B95BE4B7020B6DAA97CC1,
     0x627B4BA369D8CA73EEB1A272B93BDDE3, 0xE7FD49447ABB4D821335FAAF2973BBB9,
     0xF14D807CAD9290BF9B4924978194785C, 0xBA12B0A5A6DFE232CE448F86C9F42D08,
     0xE3BF5124D79D942F713387404DF0B46F, 0x636EC5DD1F068A31C8565150AA0702C6,
     0x6C13751E63D3906CF404369146A12635, 0xB0E6CD915609C74CFAE2EDA8548A8942,
     0x6FBD05961DB95812283CF7FBF3151D0F, 0x581B481B8C8939BBA202EE1CBC032288,
     0xD83995F54930A0847D82E563B78CF4AB, 0x7276F4E97B14BCCC07EAF326E3F18C39,
     0x7B0B5BE402623AB2D87AF969E82DDCBD, 0x13788A268E239BE885D1F9C09579462F,
     0x481E0751ED661186A8A3981CB841912B, 0xA9E567195C73E39149DD4A3B817FFCF5,
     0xA2230C6734489353E36CD48643CAF3FA, 0x1ED623396D8D019D92B32B8C2B648170]"

lemma length_table_101600 [table_lengths]: "length table_101600 = 512"
  by (simp add: table_101600_def length_rows)

definition table_102337 :: bytes where
  "table_102337 = rows [
     0xE798FFE923DBC1A89EF4E0C3BEE508B1, 0x0730394D0D7EF21AAAD80D8A1CF39FE5,
     0x1FB2BAA0B272A17D6B7415F36B24256F, 0xB824782AB9F639D1744E31892E63714E,
     0x44BA3B42499E40249119951A0AF0E1D2, 0xF18FE51BEC4C94650E47289C63B38FAD,
     0x307760AC2C059C5F87A07A8DC534F026, 0x614112645359436A3251537A0964164A,
     0x381BB3CFDD8707477F0D0955EE0D83C2, 0x68DD6BE502B7A7438A91CC6557C782D3,
     0x882004E9B34BC7E3152094B1EEA9B214, 0xD35B9458C3336EC8DC5164B50B14BA70,
     0x6B17B30ADD5D974CE9DEE5D5C7237E64, 0x762C005D62D12AAB549E357FA2BF8D67,
     0xE9D44F67AB3AD27459CBFE4315FAE0FD, 0xFD9CF706F19B2F27EB3B7DDB5704BC39,
     0x08B31B18C6EBD1B8D04E9919225CA2B9, 0x2283EE134956891C4944BFC5CF947682,
     0xB13DBD7DED4531BB2B059F415D43F206, 0x171EFCFCEBB5AB214ED72DFD770A3E9C,
     0x4531D19359B826567C58037E7A047675, 0xED569D67D8BD05EA80A80B36D9186645,
     0x71380237F449DEF9C607F3988AA72998, 0x7B737614CD960EE22DA21A030BA1854F,
     0x385C4B2190ABE1BFCD57BB02173E4D29, 0x881EAC20DB1457BB4664245BED872562,
     0x3719FF80E45BDCE6CDA2135D74C0A88C, 0x85123570F16C3D3A009F4761B475BD43,
     0xA0AF47797F21E5C0CA0EC9EABFCDD0EE, 0x3FE489A7882E9708158C2B99D1CC58E1,
     0x56975A388E756FCB1DC05C8D96A02DB5, 0x59775611085E17857B61AA90531C7AAE]"

lemma length_table_102337 [table_lengths]: "length table_102337 = 512"
  by (simp add: table_102337_def length_rows)

definition table_102773 :: bytes where
  "table_102773 = rows [
     0x3DA9C3EB877789B52906C6E5F7031F87, 0x8E43A367E296F491B34BEEFB42855466,
     0xEFF2821C04596B86919F48F9669FF6B8, 0xBFB951CEC6D0778D83B4D74BD7FA8BF0,
     0x42C8E003B6F5378A691E9950B72189F9, 0xC5FECA9C50371A1DA212CDAB00DAAED2,
     0xE448379614FD07FF378E0962BC0B7971, 0x2F2DEEFB456DC73C8A7D97EA5F8DC069,
     0x060A6E335AD254DAD9618475AEF181A9, 0xED5E07A5375745B6BAD77F14E23CF87B,
     0xA28D4CDF994AE051712E71740BEFA522, 0x53CF702B938CDDC4ED30E9F6900B9638,
     0xF69F0E02D70C93CFAAA0D1981BEE683E, 0x1D2C3C8FCA653EF405C5781005F2F59C,
     0xC3D59DF3B70D4C4499BE73A50BCA3B91, 0x29C30168FD9CD53BAAA236E459F16813,
     0x17FD48A664961F5B7917B69C4383C6A3, 0x7161FF5A37FF4FECCC694D94485768C1,
     0x0FF108416C4265587A91A51974AEAD2D, 0x0429A689253650C366DA30C3C075CF8F,
     0xF7957763C7C313F96E3E00DEEA73CC8D, 0x584512BD3F18267B66FC873C238AE937,
     0xC1574A050EBD73D06CEE23EB5695B0C1, 0x946881012F218E67E1CB434FF57A8430,
     0xBD0AC668DF66601F18C1499F077D22F2, 0x8D0C99ED5A1FA67F478A17A1CE709572,
     0xD424B3A38B21B39172F2EDFA03A33A81, 0x81914F4C95A2E96A4F5325850D95727F,
     0xB0B67CC6AE2600E7B9424D35D8B08141, 0x84397012719AE3257979026676D0E7AF,
     0xCF95EAD50B0F3CFB2BA227FD2B4EEFAB, 0x4EF9BDBB12FF0F21605E99D3538820A5]"

lemma length_table_102773 [table_lengths]: "length table_102773 = 512"
  by (simp add: table_102773_def length_rows)

definition table_104319 :: bytes where
  "table_104319 = rows [
     0xF5A11CC6B9CF1FA287510A925720A9BA, 0xE5AEB7C05BDB8B7A5C0DE3140542EDBD,
     0xA2A48B6CBB30C256BD35CCB3EC9A5895, 0x05F6EB5214C2719E5C7E293ED072E949,
     0x50F3BFF61BD27EE75F774F1EB3C84CAE, 0xCEE3CE66E2C9132F6C1916FA8DD848D2,
     0xADC0468FF4C9BB5550CA41BF85FEC258, 0xC712C7DD1EC9B3B8DD899B8B8E6F64F1,
     0xE409939366EE6166CE664A632EC94916, 0x48B7721652578DF0CF9979666CCB82D2,
     0x199DBD389E2B6A7B41D9726488786975, 0x4ECEBE3514450633B3622558AA006EC6,
     0x8A59EE80BE2937BE365CF9120A9A9492, 0xC7316DA4660A7F9194BA474979AF1DE5,
     0x5BCDEFE96695E25AB9EDB8EADAAF2C6D, 0xDFD05A6A504D3739A1E6387B7B89BD42,
     0x32E9E393BC0C0BA0AD192701A3E93840, 0x68B5420CFD27A749082A70E7723B4634,
     0x191994194D6977223EDF77E40C1B5543, 0x16D81419FEA5EF68CB86895B2E52DE36,
     0x13FC604C112FFBF1A7DA2BDB4C4B2C11, 0x9510AB12276A9F590017EFC81DEFCDD7,
     0x8242ED9659CE38F277954D615D7BAACA, 0xD8600BA67F484260A1E537EB1B2E143B,
     0xB5B5E5791DF3941FCEC991F586E05558, 0x731BEF1DEA732F0A69A8EE4F06987A71,
     0x22231043E514E2B53C05DF0E13FC6074, 0x7E33AB11C70E67649DD301DCEB990D5F,
     0xA3CBB54698A88DE8C01491D283BA7527, 0x42CE5F41A12EFB96F716CD227A5A3820,
     0x361CE524B30E0641C6BD14F634F1F7F8, 0x2FD283E3B1260A24E95DE093ABFC69AE]"

lemma length_table_104319 [table_lengths]: "length table_104319 = 512"
  by (simp add: table_104319_def length_rows)

definition table_105760 :: bytes where
  "table_105760 = rows [
     0x16F4B213782F4DA199345EEBF773667D, 0x4271DEB5CB67F9C5F76EC57EC75A76D6,
     0xAA266468CC8A504FB17E45845A19C117, 0x0C79C1D3EEE3C481FB62D1B14819943C,
     0xAA3CECDF0C7013A1617AE07F4EA4F69A, 0x2254A3E769827B58F069E18D5C7ACB42,
     0x554B90730727B5297EEFB0FD02655E62, 0x4C37E29AE546484302E488E7BD791647,
     0x1273CD916AEDA283D14B93BF4E120338, 0x39A223C13346FB5CB143F8867F1D6E45,
     0xBFE0331F8ADE4DDC7674AB26BE81BC22, 0xAA38D73C506AF165B379467FE68A0B15,
     0x94F64275F38DD44BFF152AD7C545635F, 0x62AE2E07B2924B106AFD672776B766F4,
     0x53851FB5C5E026F8E4A01527EED4102E, 0x19264DC984761FBE8F39E0510F0D3645,
     0xF1ABC12A73FF0981AA270F3FC586365D, 0x6E7C057C8C526F3DE002808AC94192E9,
     0xE8ADD84D03E643FD80F0C523FDAAA426, 0xEF24AA8ECDFFC30BC3DE829216D95FF6,
     0xF3968C9A577C01C86C0E3FD8F4A5C42E, 0xE61499CCF27C9804B0481BC587A991D3,
     0x0554FBE7ABDEDA2AE1D7D2D2CDC311A1, 0x22E2FD70A1AE0493792A23318A6CE834,
     0xC604BE632E49E44049DF0EA2833BD3B5, 0x1532545CAD744E825B9B4C556167D8D8,
     0xE4249DB88C8C3D0CC39012F776C189AC, 0x4C0B9AC23C68FFFF35C5606376C645F6,
     0x1B9C73658A508E55957ACA24A6059D9A, 0x4282FF60AF046AE24AB21EF89ECE4A22,
     0xE73974E18D47024FB3618F921F760871, 0xE26EFA5DF9E3191671EAF395521B66C1]"

lemma length_table_105760 [table_lengths]: "length table_105760 = 512"
  by (simp add: table_105760_def length_rows)

definition table_106110 :: bytes where
  "table_106110 = rows [
     0x6860A99CEF7295688FD633B166FA2EE8, 0xD46C6673E44022D463F0DAFDC96F33EB,
     0x4AAA0EB20BA56A2C6D9BD09CD73D00D6, 0x092CE1A9CDEC8DF8750D3919BFABFDFA,
     0x9810AE5BAAF29ED93304566B5281D422, 0x67F87CA4EB62B5EDE5AE945B08195268,
     0x218E6F9D945C17DDFA29D5C3352E3EE5, 0x1C31B995DA45472E69B0DE9464640422,
     0xC45C6376FF1BB8C1768B8F4FC6924421, 0x40CCB2E62008345E39C002B15F4D8B4B,
     0xCBEA36094EE190D27C0C170555E85D3F, 0xB1E0ACEB7EADCF43274A5599C71E9FF8,
     0x9644B4C9C9B3A21356843450E1290EA5, 0x147EFD81E58EBACEC2AD76B4AC1BCE5D,
     0xA727DE22DC5F9F2BF2216B6F87FDD7AD, 0xBF1F0645C3B8893959CFBD0BB948EB9D,
     0xF5986C039B603386CD111C3ABB3D7647, 0x25DE73057649B17D8EDC2447509BBA36,
     0x523415E12038C80812FF6F816181F8E8, 0x7F08BDEC2ED480917E7575A8124DABC9,
     0x41E77AB05ECE271EE9F8877BBE0EA5E2, 0xF71E30410246B242721B9E423FC57C8B,
     0x8210B56912C2B218E64532FAAAB71484, 0x32459AC7F40710D0BACD62A40DC3C3B4,
     0x622279ED0EC7A100F7984705FE4D39C6, 0xDE8210FF328DCBCCF48D6F1512BAE34B,
     0xAFEFC0B9FBE24A84CDDEB2121A1A04A6, 0x4B9BA0F1FAC01C9ED6D81009404D79D6,
     0x1A0823F029243BA9C69A38FFDC9E4181, 0xFD0D74700DE4F4E2E9F3D1B5DE8C5729,
     0x9B6B4A44A72FE061F02F67BC2A1EE6AB, 0xB52498CAC0D7A41DF73E2C3793F290A0]"

lemma length_table_106110 [table_lengths]: "length table_106110 = 512"
  by (simp add: table_106110_def length_rows)

definition table_106400 :: bytes where
  "table_106400 = rows [
     0xCA56F87F62BB074DE66D6B15A4F52337, 0xF9DE77416DC26B9BD61738CB8C331CEC,
     0x8393FAB3A1C2E942EDD73B5281294801, 0xC5D5B06A5E5DDE09F56449563F419E15,
     0x3EE496D3E0E641023D569E330E242F8C, 0x6DA060E303876B819D222DC9F886AF29,
     0x532A9ECD9939362CEBCF0F42B5E61185, 0x6308BF716CB0E3F88D68403794FA1BC5,
     0x2B255E60E2F3813F12F15F664CE4C6C3, 0x6021B0DDFDD3BF728817D2C8A3703515,
     0x79FFB65A05406BCE9EE88E1F823ADAC7, 0x25A0657160DE47BE8DCAA7F79FE53387,
     0x68D8FEFECF6EC7CAC65AD1FA5FEC4E34, 0x85F9706C2D9F3BEF0B51446EBE234084,
     0x89BFE21C4687E2A899E8497933316FA7, 0x68B267F69EC607B8E52A187EBD25381C,
     0xAEC227A30C475F87FD973F4E8BCE8681, 0x9D3B571FDB5A1BA597CA48C146C48161,
     0xE0006A1C13732E3A90D6AE9FD104DF3F, 0x885D3B30DF6FBBE80EBB1CD5E5850458,
     0x76876E9D7CBE975C08538536141DDE28, 0x3ADB5526A4269A62904931A63E624CEF,
     0x470DF9FFBF44143070A8837EFCB537FD, 0xD41487719E64BCD5CC390567BC2BF0DF,
     0x2086C112E96B8B2B16DC428F4DC569C2, 0xF5C3F1BB921C102717376C02F7EB2C22,
     0x9FF2C370096DD7FC8B36800283C36DC8, 0x32DFF08E5419AC6F57A316D252BBFA37,
     0x09CABE17FEF0C49A1D65B46208A3D672, 0xD69BFA841CCD2A7426A9CD1E89B43DA5,
     0x8B945D870F6B85AAF6D4EBA0F91E9742, 0x296CE4E306C0AD1E5F00BE71F7BB06AD]"

lemma length_table_106400 [table_lengths]: "length table_106400 = 512"
  by (simp add: table_106400_def length_rows)

definition table_107076 :: bytes where
  "table_107076 = rows [
     0xA18D86A7F408C661932ECED6BA886CBA, 0xFAD0E89D4B1E2CFFD0AD408DC1C8FCCB,
     0x2F5EF4740A7557D310B9CAE664608F74, 0xA06AE92125FA4FC81422ED9B5BA257AA,
     0x2B76B55470DB0719A2FF883E855EEA60, 0x69E9C21F6FA2A2A5315DD4A5E97BBFEA,
     0xBBD2276E9A9EAAC57ED107AA89A6E451, 0x2895186C48DA8DA22BE3C1EBB1D0E0AD,
     0x1823D0671E6C5BD7BFFBE1345589DA03, 0x7960AC3A2CCDD45DFA22D2BBD9AD26E8,
     0x42E561A3E8C31DC6630DC821EDBB3A29, 0x1BA1759F12CCA047B20296888EA1D9D3,
     0x8E03BD45CADF04120E582E2668D14ACF, 0x05296C6EAFDAA32059DEDCDA27002569,
     0xC267889C94077CA487A0EB05D189C7F7, 0xBBFB9722E99E2286D12F23326C10D1CD,
     0x939E24DA87616FA725B61FDA0618AAEB, 0x33F6409973DAB9E8099CDA905DADA669,
     0x3221C24BFEA24F4218DC062590AA3C4A, 0xBBA07AA7380665C2B5F8ECD046234C4A,
     0xD3CB61C21E09B2BBDCFCB6B0743EC606, 0xE8FCC442E5DF0B7F9D30E6F09E03D12E,
     0x3B989DA2337CDCD1197118BBBB5431F1, 0x1741893FC588521D98ACA1AC0002CA8D,
     0x0023EB101962C82318E3E83D7FE21000, 0x5E7793FC5327294F87386167BE2D64E2,
     0x3DA9474CC3A8D7DFB38380550E03F319, 0xCC74C66BA7B96E0596C0542A19FE273C,
     0x0FF579BEB09623772B7352BDC9171C44, 0x5F65C91B4E778C0EA8EFA5C353C39744,
     0x42A443207170720FC0CD18A177D7865B, 0xA4C89385EE34B8947C63B1A3DCC0224C]"

lemma length_table_107076 [table_lengths]: "length table_107076 = 512"
  by (simp add: table_107076_def length_rows)

definition table_107804 :: bytes where
  "table_107804 = rows [
     0x60D557A72279FABD17571197D7473E36, 0xC18ED6482879B5A36E100223038DC4F9,
     0x0525654F4AAEFE0DC5C03CB2D06224A9, 0xADD1DA4A2411582171354B1D0A241D5E,
     0xE5FFB22CF524EF87E527621D162360D5, 0x9D42C578C6123C3E2E242E06A741B2C5,
     0x0D69CAF637BD5105B6F9FA7FC3539872, 0x26D74384DC3DCF1681CA5A7339113E01,
     0xBFB95DF7C7ED2EBD4ED944CA6474BF28, 0x1F7BF7D82CC039F1120EAC5B1B239479,
     0x9529794EE6AAE4E572E7E5A0390C98D9, 0xD5FE1F910F1DB6F7CF0229F4A876969E,
     0xB8D63CE9A0CF585863E6D43A8D6E02A1, 0xEFC4B22AEBB39FCA771EAE9ADE77FB94,
     0x60DB923DD9491F0534DD0E2795D177F6, 0x5F673344DDEC29E82A2B7DC889762776,
     0x56B0642C29E835A085C00573674DA0B5, 0xCCB21255176954CD5B078AE286240070,
     0x28C708B8598FC0329B3AF24611534153, 0x4C4E956F95545DD07E21F958164DD3E1,
     0xE219827A054DE72300B164321C69F2A5, 0x046B4D973C8390C0BAEB7D0DFA62B6BA,
     0x7FBC8C6FD9FB4EEDBC993BC18D93DFAB, 0xF8A89EB3A529B48B6253B4BAF0131C1D,
     0xE33D57C048021F7ADFA100934EFD7313, 0xC7A91C02BED266AF0F3503B896A70253,
     0xCDC65F571DC5C09664545F44AF91DFD3, 0xB1E2834F36FF50A3AB0048843BC1D940,
     0x76E02E013A6CF300641433D9AB31F64D, 0xB9A14200F021130F1846F47E7612C0BD,
     0x6ED533467F1F6B3C9700B76581B10AAC, 0x05FEC2B16BA5AD93B1D0F5391EDAB1E6]"

lemma length_table_107804 [table_lengths]: "length table_107804 = 512"
  by (simp add: table_107804_def length_rows)

definition table_108097 :: bytes where
  "table_108097 = rows [
     0xD843B16F97D5EC9722E5CC6A7CA90066, 0xEE2C4F87CE49215618EE39942855E8B6,
     0x2A704CCF834EB819B10506342B0B1F30, 0x59262E4DE304F420E2B7DC6AEEFDCDC5,
     0xB303801CF3282942888C63AA873747DA, 0x8C917693A308715B25AA429E1B59BF7E,
     0x03616EB1D8613C2EFC71252E9AD307F9, 0xDFCC0E2747FF4AE04F34483DA4D06AC8,
     0x77B3D26CF29F00B70827342A9352FFCB, 0xA0CB8058A725D5E8C1CDFB9D0E0D79D5,
     0x232D64013F293747115935F1D4C42B01, 0x5B70D5AB85FE99166105568A80974411,
     0xAFF1ACDCDBB0CCCAC1954AAEA91A19FE, 0x00966EDE96AC43D3DFBCD0546337D6EB,
     0x3E800A2FCFC21022A323E6F079467241, 0x44615AB3E1DD017C6F117A80F21671A1,
     0xBF9F54A2C2A66F5C1F57E9C62DEA3CA1, 0x214E64343ED554045A6B4C9EB9175EC7,
     0x9FB286766F95D6DB0A84E777EF2926EA, 0x342B4CE0EB9AF294245384BCADD46669,
     0x8CFBBBE54129B8B2D1BB04B4B6DBAF85, 0x75C77C2D0FEA7BC95F8164EE1D0C6B48,
     0xD3A23E563CD042FDF1BD03829329D83A, 0x51CD41DD271B58B3D8B428EE9F045577,
     0xF96B95EF61AB91C5C0DBDEBFEE213230, 0x6D2634F78484123942C3C86CD9D9C3C4,
     0x3B1D718DC253C813990242D08A5BDBE8, 0x8D3BF1F28659411878366664DB50E222,
     0xDE740D919EBAE99635D042A6F089BA5D, 0x1EC213278C375BC618AFB3D8CB558A33,
     0x2D5D0812CA4993581C0A91D5CE8C69DB, 0xAD4794E941443C915E28790D0D36F244]"

lemma length_table_108097 [table_lengths]: "length table_108097 = 512"
  by (simp add: table_108097_def length_rows)

definition table_109168 :: bytes where
  "table_109168 = rows [
     0xCB08594268E7C9E7344A62B2D2662249, 0x0593093E3232E8826234DDA98B4C3DF9,
     0xFFF2423A3BC78B0BDC739F1A281C01F8, 0xAA7AFD0CC53898E63739E0C6CAB6582D,
     0xB656FE7A1122B5DADE35F2E9E90A4570, 0xE28E1EEDAE490D919F87C63F17B91547,
     0xC8967AA9489FD5310FEEB8DEFA4706FA, 0xA43426B47284BD74612B81B5810E1D2F,
     0x70BFBF28109CBE0809C474553868B82B, 0xAC431DEED91BB9DEE7FFDBF34E048B70,
     0x5FFE2DC84A82AD1DF068E31305328E8C, 0x4B778969AFFC85A6E35670C766ECCBE0,
     0x395906BFBE6F8B83A2F8E3E7747830D9, 0xA596AD737445B407C368E881B9ECF6ED,
     0x120FC9882ACEF126ABFA04BEE77C4A64, 0xF490B8F29CF48C61DA1566DF7CDE282E,
     0xE6027C36FAD4D5E8017D4BDF5F379F51, 0xC516EE30A43AB9FC27964CB8C02DF842,
     0x363A9952FE1FCB1AB83CD83A4905C80E, 0x4938342E132D511B7CACC9381084F64E,
     0xAD45B6871D6AC2F114DEA394D0F21D8C, 0x452AFD5E8F3A1E680426BE8C797F464A,
     0xB66BE299B4116F1DCE3DF9DD006963D4, 0x0E747499665F28F1F9118300758C2B67,
     0x78B063A5239BDF07D5EAABFBA0BDC441, 0xBBE5C8C2128D3F433159017893ECB946,
     0x32FF901DEEA91B53617524671B690577, 0x248522FD8E5EA669FA9410FCC165A995,
     0x6BC00BDE0B03765D01F99D7720DA3687, 0x6EDE9E35E3ADEE8E22D2B444DB4673FB,
     0x1751699DDF2064BCD15469A46B8FA4DB, 0x0D35AE5CF235199AE4A961DB04EB06D2]"

lemma length_table_109168 [table_lengths]: "length table_109168 = 512"
  by (simp add: table_109168_def length_rows)

definition table_109670 :: bytes where
  "table_109670 = rows [
     0xB1EF1F4A2A5FBC94432D122BD31ADD05, 0x716985507B47CDC7067CAF751908127A,
     0x585B4D04B5AACE50988AC37DB1E031DF, 0x8F8718A08A4970917627D854810E71DD,
     0x6B944C4608BDD507C436B158C64A2800, 0xDAFB116898F5F928E7E169F9C62A0375,
     0x4D549B39C48C80ED91E7DADEEB81DB37, 0x92AB79C38520015F7D3320C4F0F5620C,
     0xD74B59C9D5AE6C679C9623A909847806, 0x004AF23CA48BD7335A7AFB6CDEBAF185,
     0x7BDE970DD170D3B5567CDB8B8754715D, 0x567B03ADD9B9A32694862EDBBED145AC,
     0xFEA08457A49F037238028B473737B30F, 0x4D862BEDEE2A5BAD0C125BC7F73A5BA3,
     0x5BDAFC9BBE4A18D44594D5FAD875DFAF, 0x780FFCD7ADE7A7B532004A98139F8347,
     0x59E3A192C7EABF3FDDD94ECC5010B7F8, 0xF16B331498D7ECE44A23FAFE7626361A,
     0x78325A82DE48FB618045E117B784D7FD, 0xFC64BF0AA1F159DB0395D661E61DDAB3,
     0x5B7637A621E67DDA205CDA0BDC198EC9, 0x2BE8D97B2CF6E799BC6A4656F313D0E0,
     0x3D4D0752C3DDD063553528865EB12A20, 0x6DA58D06098A98908C9BC2620304B2F1,
     0x56F757FF7C7DA62C715BF6FB7E2C4883, 0x5FD1809B6F467D7084857CD220C5AD9F,
     0x29AE323F772B11CC644F465CE7502DE2, 0xCAFD6F0F16F62C742FA92A61F09BD7CC,
     0xB6085EC7389FD11A1538731022F10276, 0xF4444B35B52AB85AC3D64476D6CF0A95,
     0x82426141BF927C99A232434F85AC53A9, 0x9926403E8C0E7D813D5598F0D6478819]"

lemma length_table_109670 [table_lengths]: "length table_109670 = 512"
  by (simp add: table_109670_def length_rows)

definition table_109691 :: bytes where
  "table_109691 = rows [
     0x0EF68089EA3759D223B0C3116B504346, 0x50C939B31D54BD483EBF53E5FA8CD01E,
     0x2745A3C9E6832F7E537C3A68A7A04B76, 0x9402BB9C3706A439FF1F4FE0A42FECAF,
     0xC6A3CE9A40FF363C724F9F069B02AFD6, 0xCB818FEA72509C0426588CC818B80B31,
     0x120D0F154DF549EF29B37782B45890E3, 0xA17BE09793F524BC87C3D13D992EB6BC,
     0x5C162E01FDD7F9E93D478A51B9C99B88, 0x126A2DB94570781D3043DE1BEEC05678,
     0x92ABD218F9D40BD08EE53A03F172A8B3, 0x4213E93A939709791ED9DB1676E95F8C,
     0x6B08B4DC5589F813C0272B1F96144028, 0xF6A8AAA498502BD2BD45E0CB1635F28F,
     0x1AA4881F868252AC86E4202F53192FFF, 0x179AE158B3E41BF1A66A5F7C94036C1D,
     0x1093023B6B5DCD7AFE80BC75C7D316E0, 0x3B8221A773D894259EC857434ED0A9B1,
     0x1E524B5CFE51151840CB7989A3DA4BB9, 0x7E10CAF6065B6C6CD84E6E394F8EF210,
     0x8EB91029373C8F331F71C67EC642A8CD, 0xBA6C9F1E6733DA822B5B47C6DEABCDCB,
     0xAD5729DEAE35B0CF4D3DC00938E856A5, 0x031A164522029E0CA3BEB2E367C06D3E,
     0x959F5854ACF1036FB57814543A083A7C, 0x3C20D5FEC0BBBD93AEB63EAF2C8D57FB,
     0x8A7BE6E3430A6DB732C619EB54F2737B, 0x14E32BA8241F07D611D1AABAB6FF3173,
     0x2A8AB1B8C10C861A6D3D151FBE751D7B, 0xA6151A053E069385EBCAAD8BFBDAF0CF,
     0x5BF55995E9736B8864D6CF07BB33E4DF, 0xBB96A789369A1A6BF777A6E8CA60ED8B]"

lemma length_table_109691 [table_lengths]: "length table_109691 = 512"
  by (simp add: table_109691_def length_rows)

definition table_109912 :: bytes where
  "table_109912 = rows [
     0x5BBE9D1BD442BFABB90DE0C1E3DDD19E, 0x8C9F9DE3976A7E3FC7832F78E9436288,
     0x2A96A6446DD21E5A6847051C67FE8BE6, 0xF5DB6C576CB82CBAF732F6BDD2DD03CD,
     0x67A0CF53917B103D3440E87AEAA94920, 0x10136C3121525408F240E2EDBCB5B1FB,
     0x37EF35DADE2E469E4A8912C389A8D356, 0xBA5CADADF3D5BB19939E367F483BDA93,
     0xC4BD13965B51E55F8CCD76BDF48815B9, 0x09FE0C273427BEC67F032CE2246D1DF3,
     0x64AD815AFA66358C038DC1424A907F5D, 0x44C5911CB82A4B886E767FEA44454FCC,
     0x38D2780F6B1D91CC1D512F46122B7823, 0xEBC2E10A1B5DEDF52228819C2012BCDE,
     0x948BBE2C66AA828127C5313A52CC871B, 0x85454D7534BEAF81D5972CD3B2F7F6E1,
     0x2123CC37FFDE36951986D682167043CF, 0xEF6122210A8EEAF50B77AA3FC1FB72F1,
     0xE681ED216B01FDB82014D236F6814BAF, 0x64557C70D3CD66E98DEFD5B2DD5839DC,
     0x14806D4587C8A592CDD8EBAA1572FDDC, 0x859C89E9D444CB2B0B1765A1D702D40C,
     0xE514AC710FE2E2B29254F96A9A57639C, 0xA1DE193B36528E2DBCE1191ECD455E9C,
     0x65C38177C7A7A1210E4751A053225AF4, 0x122D8CCC3F70C8587AB3309C5FF2F6F1,
     0x4AAEF69C9E0D3547CF91F7771A1BE645, 0xD331AD15C3153D1CCD7D13B1BDBB7B1E,
     0x7308DBF23DFD80A954B271B4DC42035B, 0xDB9F349AC7C469316F22FFFD6609222A,
     0x79337890A1B82307A1542A2186ACE7A4, 0x94B45B2E25D709437EA3B58EDE0E0028]"

lemma length_table_109912 [table_lengths]: "length table_109912 = 512"
  by (simp add: table_109912_def length_rows)

definition table_110340 :: bytes where
  "table_110340 = rows [
     0x576C68A5E119334B43876413C252939A, 0xAA0FFB5CD4780EAA6A253BDC9B69B419,
     0x3D746DD8033EE1424E8E160E63F31151, 0x36206380B60F22590DCA4BCA6CE9B4D1,
     0xDC222221AE96DD8A74902C03B5E6C1AB, 0x01A86C2CB853F6453125712A7C86FA61,
     0x51FD70C66CC5010EA72D6F571BAE9A85, 0xBA1017D19C6607AB4CB2D89EA82D2BEF,
     0xC9B004078BBB534E40CE3D235E8AB9BB, 0x8C381ACCE2618366C0872B02BCD7A389,
     0x91A2A009249F3054871FF4A4A42884D9, 0xF6D7A9B24FA350F10F017DF6B8DD8091,
     0xB485A50476A918191178FD9B7ED2F8A2, 0x9B088356FD801B751F370ABD6DB63F81,
     0xE6E85C4C18E0940CE2E4AD20CAF4E04E, 0xD3B541B62516A65A01A69DFFA870DD9B,
     0x82BF8BEDCB6DBBFB41842EEF29799E47, 0x107CBFF4CEA36020441855DBC503E709,
     0x7297BDDC142CA02AAEAAEFE687F009C3, 0x17DA003DA3723D70193561BA45121D07,
     0xE4657234B275019196D6F16114356853, 0x4BEA6DB57F59C5A504E78B537E53EEE3,
     0xED98BEA0B572103C13BF4419F489F1D7, 0xDCE355EA098D38816A344BE765E69413,
     0x6A8422E6FFF7FFB84C137E7E48639403, 0xCCC88FCC2A9CD6F4A6258ED92E6C4802,
     0x7E7EDF33529AC0850D20CE32AF4BF96D, 0xB57CB0CC53AECF441C0C4C48781E3C3F,
     0x78ADA3A4482B62F60CF5BD35A296DF3D, 0xB43126041F09608C3FCF822AAB0CA1B2,
     0x8FB2E0197D5EA3C4DCFC43470F121870, 0xB5CC7E09EB01F155D7452E3CB8EB9458]"

lemma length_table_110340 [table_lengths]: "length table_110340 = 512"
  by (simp add: table_110340_def length_rows)

definition table_111387 :: bytes where
  "table_111387 = rows [
     0x4A7C0C7FEAE219F69AD205DBA410CCD8, 0xD4BD27CB3DC642CBAE8D283CC6657BC8,
     0x4A9F884755CDFC6E1AE1753680757CD0, 0x755DE93E0F039AB63F10E6297C775DDE,
     0xD41FB3FBC33DD5207BEAE3F22CB30DD7, 0x05FE894EC3CFBA1D889E6B3F0BF4B4D9,
     0xECD4BD84FE5FE1004D21D6B4AA5868C6, 0xB27F702500F5EBD8C6AF3C4F678F86F6,
     0x3C891F827EF747B40AA599590734897C, 0x66D1720A955A271F04928DA1B2EFEBBC,
     0xE7846CB1BBEDBABE7C0D16EEC3E9A66E, 0x27AFE2188F6D8EFAD7491C3EB651555F,
     0xE343A13125B81E69637B9E917EAA77E0, 0x818D21276C5CB8257A8F757760B1EFEF,
     0xD873A77FB66FAE2FAC8F34DB9AFA4D12, 0xC06B48F217829E7C03F9B526D4F3BCC5,
     0x43E511E43F88BB669F42D834901130E2, 0x1B13702935D6E13E52BFBF25EEB98A64,
     0x377ADBB773940ED02609D0F7F2145311, 0x44654A30BA9EDB69D730D05B74B1CC54,
     0x5EE9B1570B574C65983C7D4C84FD7379, 0x678F87E59EFCCC0BF7CE8B3517DEACB7,
     0x2C6CB4FE11EA55568B6C7CB647C51332, 0x79D20A59E8F385380E20568EE6264E71,
     0x85400D6153D4527F71738FC3AB3DDE08, 0xCF183D5FB2D703D60C7FC89CCE58D6BF,
     0x6A89A7988441305C234FF28450A7CD70, 0xCE178E5284FB4B5A879780D9881E9AD2,
     0x57C0D605A18BD89EDA619EEA2FA92F63, 0xBBB42C2B3231B4AC86B5F0B305919C6A,
     0x262125EAAC0E9F048BDC166ACD4BBCB0, 0x5AD8B4C6ACE9A84C733ADAAC3CA21283]"

lemma length_table_111387 [table_lengths]: "length table_111387 = 512"
  by (simp add: table_111387_def length_rows)

definition table_111774 :: bytes where
  "table_111774 = rows [
     0x35B092415BDD581F9902AE16CD20B86E, 0xBDFE1032D39DC1E51FAD0CDCDFAA90E7,
     0x2F663FF3D89AC37050B9B7199E4346F0, 0x3D7BA069E39B4CF97D282B7DAE4B9E93,
     0x6B45AA3EF366A58460AF5BA085813CCC, 0xACE81412F932E0435F712E0A20E17465,
     0x58F5D1A6017D06D3B2589E4D63CB72A5, 0xF503559BD787309D7148D6C3C8DF9DF3,
     0x8AD9AABD72B780B94905B9518FA92A47, 0xD570D3CFF16873C33DDA68D332F55FD6,
     0x4C52441C66D9FD70C2DB7CBC58107583, 0xC2FEAE422D5C3834B6AA41A8C514C192,
     0xC0255BAE06FCC916F322C6A38C452FA2, 0xC965107C91731AC559BD28933564C36A,
     0x5B7170C3EDF551531DBA9166458FDD9D, 0xBA5752D013B5F44537839E559E98251F,
     0x1B717857B8A876B3FC0FFFABF789A763, 0x3129DEBDFEF44B0BDE57DB229B890BD2,
     0x03980EFC83535A8462AED207FD9117B4, 0x7B43EF7EC145330BDF53F4C73396B1C1,
     0xBF182C2E775B8681695648FDAAB8EA1B, 0xF0D2B5650DDFA97484B18904AB4CE0A4,
     0x2540034C1D7135B7E195726D9A9C7122, 0xC1E8F76A4DB118DFB9229087AAFE04EA,
     0x230E1E6CE8BC7FF23FAEBA39B9BC7267, 0x4A2137FCB017A2CD7F7ACCBF582DECC0,
     0x90933F074B7771572F3DF78703D2CBAB, 0xADB44824DDEEB7C3E7F1EC59E989A48C,
     0x9C86AF61D4C0BA26B2F4CCE642179722, 0x8D932A8EE833D471479880AD02355254,
     0x67977BFB665B6806CEA86A40CA6EC126, 0x12D2A563D09EE77695CE329351F9BAA0]"

lemma length_table_111774 [table_lengths]: "length table_111774 = 512"
  by (simp add: table_111774_def length_rows)

definition table_112214 :: bytes where
  "table_112214 = rows [
     0x74F34706B0452E370673A33409218665, 0x81411433F2122DDBC51F340B00DBFD0E,
     0xADAFE4B16A59DD6086A28B2377B2769C, 0x11622A86944CD8CB5F9D6479FCDB06E5,
     0xBEF78D3656339BC60E2FB55DD4E1ACDA, 0xFC22528EB534BEEC6C53E5E86D3D9C1A,
     0xC0EB3B22BE82BE0CD7A6B27A17175EB6, 0xC4CAB878FCFF9119CA646F30D53A4B9C,
     0x7EF0B66FF233BA73D9C77811B04A52C6, 0xEB9A738A2CFDCBC340FC8CC5F8B7C7A3,
     0xEE8A5FF41FFA65D7D47132F97BF0F897, 0x6246B1A53C618A8D54C4528B96BD25C5,
     0x008AE52A6CC3783B9C8E07AE94832BA6, 0xA2019A1FA25289A8EE0DDFAE495FE3C8,
     0x6BDB5D0F53D0C8FE6A4E87E0EA3EDF50, 0x81D2A59C4B2E2A7812AF1D223C8B367F,
     0xD058937F640B89C4253012B61B48D8E7, 0xE4622F68AAD47DEFC4DFD8014E935FBC,
     0x774FFDF9FF3C0C495D27B451A86B03C5, 0x7A3C51B552C9E131EE54F04CEB34349A,
     0x17D17DC5EE3E316B393A22FA852AD867, 0x6F685C260540286A3EF708DD1835C174,
     0xA3E630168F27167F0420F1A951D37CC0, 0xD135C33E99FBB815B3FCB9156BDB6341,
     0xCD7BE075680B3A5E0778F0F821FA32B9, 0x903C4E182A170531573DC432B1BEBAB7,
     0xF29718161D5F8D1516D05369C9F2CA0C, 0x0AEDD85B980E7A3E1C2EAD0BCC3B4FA2,
     0x90F4BC69C0BC1D3241628089568BD0D8, 0x76B4C371CC1721134F79D33A523A930D,
     0x47C6D0D615479587161CEB89CE8E3B9F, 0xE26A78DF7C84E402D2AAED95D540C333]"

lemma length_table_112214 [table_lengths]: "length table_112214 = 512"
  by (simp add: table_112214_def length_rows)

definition table_112724 :: bytes where
  "table_112724 = rows [
     0x7111A03181BDE31CD7B641D1D54B9DC7, 0xBC011327E4FC4F82FF48DB96D6A8E9D2,
     0xDFCF08417AFE1D8D37930539A790A9D3, 0x3573222BEFC7C04A9018EEDFDA925E37,
     0x47A19ADE46C0A1096479B06F8C997C38, 0x7E403A23B44041972D9CCB717BAFBCFC,
     0xB83036D1F45BAB306B68758C8B9FBDB6, 0xA70A28EE5E144A8838092FB9080DDBE4,
     0x83B84328CAF5467439A98D58F58864A4, 0xD79EF6B5097CDD8624886FB2B62955EC,
     0xC0F1525A95266D6DF54D7463C409F891, 0x3F81A0E75BD8B3DC7453D801D31BF4B1,
     0xA21B2CD8FA58121EC99527F563A4E1F2, 0xF59E7D434E7AA6DC056E7190F99EB740,
     0x874EBAFFBCF36E7E7F7C3E38DF79267D, 0xAB25A3EEFDC4A6BFB38640AB78B0E16B,
     0xF594C9EE1B2F242E538BC99F32A2FFD6, 0x7846936DFA46A9A2C9C298143519F448,
     0xD4D77FBBA72095FFCDC5CA75B4EAF7BE, 0x17E1C7C6EA96D3AA35E91C0EDE12D1A0,
     0x54A5C1816A852BC68C43881CC58E0D13, 0x986ED52AE0BE96BEAE0C26CDA24A65CF,
     0x39086483F7F9D544EE8227AE74C4AD14, 0xE7FD9B53423FDB709185A914BE7F72AA,
     0xDFFA8255988B41D130A02380EED094CF, 0xF8AB64726A83D2D036B2AF4C8F9C1858,
     0xD03BBA3D5667A7C49E1303CD015CCE26, 0x481318ED37634B16BCC8185942CC61D2,
     0x836644E71B85CC95011E8DD700DD9D19, 0xA6137058F56276A2F0EA77662EF5EFE8,
     0x57AF114A4D52A719BACC902E5DB73146, 0xAE774DCAED3E672154B8CA60536C2319]"

lemma length_table_112724 [table_lengths]: "length table_112724 = 512"
  by (simp add: table_112724_def length_rows)

definition table_113596 :: bytes where
  "table_113596 = rows [
     0x856FD48CB1E15F012E3635B3DDDED123, 0xA60C58895C3FBD9B99A82FB78AB767AD,
     0x5EFF0E222D3E49A48E19500D45CF16A1, 0x79C30422784FEC7D7497BC7816977AB5,
     0x44243ACDD3855E65D0AB7C1670EEBD55, 0x3C36D7B3F35F08A8BBB3BADEB0134122,
     0xF8031823EFE5104EA034E28A0E22B2C8, 0x98E63F926E4E709BAD44D81FD38DBE44,
     0xBE2108A1D2707813F579E8F9CEFDA87F, 0x72A9F9C40852A781F3AECDA9F47D62F2,
     0xFEDACE3AA7C74619418DEADA8E65E706, 0x3334A14F5D371CC327F8C504800A54C8,
     0x254381211C780150579869D584EE05E2, 0xCDDA1A7531D89117C95FC0BD4C13566F,
     0x8C6CA0B274B9D1D4CFDBD310E0463A9A, 0x45650DB95AA09F1CDC2C69AD5200E8BF,
     0x8547B70DECB29EF9A5330E013EE8CB66, 0x1542765BF3A860053D2C02136AD57056,
     0x2D7CB2DFDFC0F86E7CC678A2AD7B2A82, 0x51C8901368F9BC8B345E35DB20D6488D,
     0xE1B59E3DFD5E972CE40C28B27C839A82, 0x5CEDEC85581587781DC308AFBE566CBA,
     0x68640C1C2557B1697518298473B16096, 0xF92CC458FBF350FAAF9A4B7373A1B225,
     0x79DFB247F41A4E71634CE2D5985105C7, 0x7D9FC7190B538E54EE43ABEE698F6ABD,
     0xD15CBAD045A81ED9749E3D76C871CC33, 0x3149C03A64676CB3031BFF877A84B0C7,
     0x510630DD40F917C5BDE506C654BB2F4C, 0xE140B72D6D26801787BA571241A9C091,
     0x9ACAD5EF0A75E3D1E0E9DCC1CC9A7131, 0xE0B5C66E9735656499409B09387D1CC4]"

lemma length_table_113596 [table_lengths]: "length table_113596 = 512"
  by (simp add: table_113596_def length_rows)

definition table_114357 :: bytes where
  "table_114357 = rows [
     0x6CF2CEF9616237C7BF82AD53B3AFDAB5, 0xBE812FFB094CC8858B57BAD7885255B4,
     0x08EE4D4BD5568CF8B040A1E280553173, 0xF2557F779A2745A652F93DB69DD648A3,
     0xCE346D036710E54856E3AAABCD639E45, 0x4C44AA2B3F77C59C3888C2BA757AF967,
     0x9433BD4B6F0868D238626CC8D716A519, 0x07F12AC32F2C6DA7E487F0D531DBF1B7,
     0x01D8D9BCB6AD18DB4215D1508D5F1FEF, 0x6B0D2095D97B847649F721D8D307411F,
     0xA27AC5FED9B527525E0750A781B4AE32, 0x4F3505F50ECAC39AA9356164E244AF78,
     0x8706D97451BED130F2D02C7B7498CB9D, 0x603A2E0E2240CB8F5DBA17B6C4B88963,
     0xEDA361324FE21E71D841F2A7B6CFC83B, 0xA6D0AE42D573DB9982E1BA23253E7A8E,
     0x1D3D787B2783AB917CA47A7C0048AD2B, 0x17343C88C4CAC5C77821628F0B30C36F,
     0x0C29250738E32F0A3F9AF1D735D55CDF, 0xFAF3460007BCCBD054A64327001F736F,
     0xD1D71AF483B291BC854333F2F3C93BB9, 0xE260B9A6ABDF28EDD37947749A33887D,
     0x7D25D326E69BD240CEC97E8B21BCB075, 0x4481D3985C299BA8A97A82623F4434F6,
     0xB20B4528E7A597519F0D7C1A5AF32092, 0x2C1DC62E3E1882BFF1A1001EB456C5F5,
     0x974A275FF26613CE6FBE28513E4CC742, 0xA03365E4EAC9FF6CAA455481BEF6CB2C,
     0x1E6FEB521D2CE410B075537875E1D64C, 0x7C3D9C77CCC8BDDD4D59112B179ABB2E,
     0x35E2F49A10EBA1F035F942FDCD984ECE, 0xD1ED1BEA8CBBDEFAC9B3FF5E264D33C4]"

lemma length_table_114357 [table_lengths]: "length table_114357 = 512"
  by (simp add: table_114357_def length_rows)

definition table_114579 :: bytes where
  "table_114579 = rows [
     0x4EF156DA1C82E7942EF38C0A799EDCFE, 0x89CB7F74D0DC9690E057875C7ABB244A,
     0xEB0989901E9B144FAEE40EAF40426843, 0xD74116DB9FDF11690C90DF1394E6AB56,
     0x75F8E2E1A1E9AA05274762941908E6DD, 0x3EAE2547FAE69593303F0C13080BA74F,
     0x14CC00F0B94FD613F13272A90E5670C1, 0x9772B07D377A2D3B255191FE09A6A099,
     0xCB460B4FE64699E629D780B6A3787EDB, 0x059D9C6B4B6A1489A0357C2D155AA82E,
     0xF4DF359C82274FC9B859A94B7A07C285, 0xAAC83F306A58C57C5DEDF91A5B733335,
     0xD1740B82FE373EA3B3C429C05CC12947, 0xBACA411A6E340936B0D2A1BAE9A8E829,
     0x1D2B1CBC22014CC7EC5EE4F8B9E14D4E, 0xD41279F0BAE23432504F415CAD8EA444,
     0xDDC61D3E8C9CC10A9A397F0ED411DD18, 0x5215CE898E1940BAB47755B5F6CB5185,
     0xA92D6B3883BD47752DBFE3A510A2EE2C, 0x4E0C03E587C48A6F224AA0E68B4F6392,
     0xF19127C7AC70351FCDA94A770B5A3BFA, 0x30B61E9B3DF256FA1613ACDD428979EA,
     0x4560341B1286DABCFC24C04A898183FF, 0x3881B2B5DFA8498FE955A45FDF4FA968,
     0x9E331BA03CD71376281DB0BA09317463, 0x7A086207370819826FD09940848C2FB6,
     0x13360EC4D09FCFF489110FB0DA8D1269, 0xF4973F889F88D459B1D2781171253370,
     0x95DFAB0C03F1D0B733EDDC188C4CA956, 0x47C3FEBD92D0A2C761E5B65CD9A24ECA,
     0x08354CF1FE12C46CE343BEC1E770001C, 0xDCC465CD0ACC008858B7BDA5AD306F91]"

lemma length_table_114579 [table_lengths]: "length table_114579 = 512"
  by (simp add: table_114579_def length_rows)

definition table_115001 :: bytes where
  "table_115001 = rows [
     0xC685DCF13942A32D59BD1FD37AFEF0E2, 0x184354690E11ACC18C201ED0F5986755,
     0x8D383E461FCC3571BA968A677856CAD5, 0xED58774E1E2E4FB9D0AD08A949D9A4AE,
     0x1826D6FC7115CFA72EEDFF29309F2EB1, 0xD44E0476C64EE3A1C0A530D16A9DC2D5,
     0xD5A8F26FF851FB312FCA05CD727CFA8F, 0xDA87F1BDC9704040803D3A7768D85775,
     0xB02FA538177DA9D5A8D8B6F3BD832E9D, 0x8624BE07BAE1B00E72D9AAAE6176B285,
     0xD19AA767095AE9A0D11B547553882A4D, 0x1C6E38E53EB9BC2C6B08CDABB0BEDF78,
     0xEB78297F9656315059383F99AD09CC50, 0x8939E988B824B4B5AD13D901D9856E72,
     0x8928EC32EE7C486A3D306D6397002B8E, 0x4811C175F09DA15CCC6685A7C82F9654,
     0x81148A3B1D72471E44B49B9386D0CF39, 0x2E07495257B6C24CF1A0A1CBBE0C45BF,
     0x87410EC4AAF1E3B9D536ECAFE3F151AA, 0x10C2B53B3D8CE72A50B5F7B731BC6567,
     0xB0C58720F4FA22ABF926C1D495147024, 0xCC123B9C467D3913636F27A77139037C,
     0x3DDCDE7FAD0DA3238BF6F838F7AAD35F, 0xA183BD3ACE698BEF300502171CA4405D,
     0xFD4DAC4870A7BACEAC82A515C9A154D1, 0xDE6C1826AF38792C7BAD726CA43292DF,
     0x74AADE88BFE1BB87D4D2581DDF211FC5, 0x6120B250DAEF6FDB30F232CB07E796BA,
     0x206E8DA5C3674A17CDC7DD6AA75B1C83, 0xEA7E35C73EBF8DCE2E745E03192B3965,
     0xE6014EDEF39C1F3135B6A1ADA5D73B8A, 0xECC0C483A651B2313E8D3D93248C369C]"

lemma length_table_115001 [table_lengths]: "length table_115001 = 512"
  by (simp add: table_115001_def length_rows)

definition keytables :: "(u32 \<times> bytes) list" where
  "keytables = [
     (35328, table_35328), (35455, table_35455), (35780, table_35780), (36473, table_36473), (36859, table_36859),
     (37104, table_37104), (37130, table_37130), (37218, table_37218), (37254, table_37254), (37275, table_37275),
     (37415, table_37415), (37456, table_37456), (37636, table_37636), (37646, table_37646), (37664, table_37664),
     (37703, table_37703), (37734, table_37734), (37755, table_37755), (37793, table_37793), (37865, table_37865),
     (37962, table_37962), (38044, table_38044), (38058, table_38058), (38125, table_38125), (38170, table_38170),
     (38248, table_38248), (38459, table_38459), (38765, table_38765), (38882, table_38882), (39023, table_39023),
     (39028, table_39028), (39083, table_39083), (39103, table_39103), (39241, table_39241), (39362, table_39362),
     (39425, table_39425), (39484, table_39484), (39823, table_39823), (39935, table_39935), (39974, table_39974),
     (40407, table_40407), (40570, table_40570), (40763, table_40763), (40990, table_40990), (41350, table_41350),
     (41713, table_41713), (42076, table_42076), (42210, table_42210), (42539, table_42539), (42563, table_42563),
     (42665, table_42665), (42936, table_42936), (43036, table_43036), (43435, table_43435), (43515, table_43515),
     (43605, table_43605), (44022, table_44022), (44916, table_44916), (45214, table_45214), (45420, table_45420),
     (45752, table_45752), (46137, table_46137), (46510, table_46510), (46823, table_46823), (46836, table_46836),
     (47161, table_47161), (47452, table_47452), (47946, table_47946), (49154, table_49154), (49656, table_49656),
     (50148, table_50148), (50483, table_50483), (51575, table_51575), (51948, table_51948), (52717, table_52717),
     (52926, table_52926), (53537, table_53537), (54011, table_54011), (54052, table_54052), (54255, table_54255),
     (54983, table_54983), (55290, table_55290), (55918, table_55918), (56957, table_56957), (57230, table_57230),
     (57796, table_57796), (57979, table_57979), (58155, table_58155), (58625, table_58625), (59008, table_59008),
     (59573, table_59573), (60038, table_60038), (60360, table_60360), (60547, table_60547), (60993, table_60993),
     (61542, table_61542), (62065, table_62065), (62591, table_62591), (62906, table_62906), (63372, table_63372),
     (63568, table_63568), (63778, table_63778), (63869, table_63869), (64346, table_64346), (64719, table_64719),
     (65302, table_65302), (65513, table_65513), (66302, table_66302), (66607, table_66607), (67071, table_67071),
     (67664, table_67664), (68126, table_68126), (68780, table_68780), (69340, table_69340), (69939, table_69939),
     (70250, table_70250), (70665, table_70665), (71213, table_71213), (71620, table_71620), (72127, table_72127),
     (73258, table_73258), (73677, table_73677), (74102, table_74102), (75428, table_75428), (76333, table_76333),
     (77262, table_77262), (78040, table_78040), (78777, table_78777), (79605, table_79605), (80111, table_80111),
     (80550, table_80550), (81410, table_81410), (82693, table_82693), (82920, table_82920), (83050, table_83050),
     (83584, table_83584), (84186, table_84186), (84997, table_84997), (85660, table_85660), (86739, table_86739),
     (87506, table_87506), (88423, table_88423), (88742, table_88742), (89353, table_89353), (90193, table_90193),
     (90774, table_90774), (92111, table_92111), (93519, table_93519), (94717, table_94717), (96081, table_96081),
     (96894, table_96894), (98315, table_98315), (98576, table_98576), (98845, table_98845), (99843, table_99843),
     (100672, table_100672), (101600, table_101600), (102337, table_102337), (102773, table_102773),
     (104319, table_104319), (105760, table_105760), (106110, table_106110), (106400, table_106400),
     (107076, table_107076), (107804, table_107804), (108097, table_108097), (109168, table_109168),
     (109670, table_109670), (109691, table_109691), (109912, table_109912), (110340, table_110340),
     (111387, table_111387), (111774, table_111774), (112214, table_112214), (112724, table_112724),
     (113596, table_113596), (114357, table_114357), (114579, table_114579), (115001, table_115001)]"

definition builtinKeytables :: "u32 \<Rightarrow> bytes option" where
  "builtinKeytables = map_of keytables"

lemma keytables_length: "\<forall>(b, t) \<in> set keytables. length t = 512"
  by (simp add: keytables_def table_lengths)

end
