(* ===== verification/CmfKeys.thy ===== *)
theory CmfKeys
  imports CmfKeyRecipes CmfIvRecipes CmfTables GoSort
begin

text \<open>
  \<^verbatim>\<open>internal/root/overwatch/cmfkeys/cmfkeys.go\<close>: the tables and recipes of the known builds, the sorted list
  of builds and the registry the package fills when it is initialised. The order in which a Go map is
  ranged over is an argument, \<open>order\<close>. The last section shows when loading a manifest with this registry
  panics.
\<close>

section \<open>Tables, providers and the registry\<close>

definition KeyTable :: "u32 \<Rightarrow> bytes \<times> bool" where
  "KeyTable build = (case builtinKeytables build of None \<Rightarrow> (replicate 512 0, False) | Some t \<Rightarrow> (t, True))"

text \<open>The inner loop of the insertion sort: the element at \<open>j\<close> sinks towards the front.\<close>

fun sink :: "nat \<Rightarrow> u32 list \<Rightarrow> u32 list" where
  "sink 0 out = out"
| "sink (Suc j) out = (if out ! Suc j < out ! j then sink j (out[j := out ! Suc j, Suc j := out ! j]) else out)"

definition KnownBuilds :: "u32 list \<Rightarrow> u32 list" where
  "KnownBuilds order = fold sink [1..<length order] order"

definition makeProvider :: "u32 \<Rightarrow> KeyProvider" where
  "makeProvider build hdr digest =
     (case builtinKeytables build of None \<Rightarrow> Fail ErrOther | Some kt \<Rightarrow>
      case builtinKeyFuncs build of None \<Rightarrow> Fail ErrOther | Some kf \<Rightarrow>
      case builtinIVFuncs build of None \<Rightarrow> Fail ErrOther | Some ivf \<Rightarrow>
        bnd (kf hdr kt 32) (\<lambda>k. bnd (ivf hdr kt digest 16) (\<lambda>iv. Ret (k, iv))))"

definition DefaultRegistry :: "u32 list \<Rightarrow> cmf_KeyRegistry" where
  "DefaultRegistry order = fold (\<lambda>b r. kr_Register b (makeProvider b) r) order cmf_NewKeyRegistry"

text \<open>An order in which the table map can be ranged over.\<close>

definition map_order :: "u32 list \<Rightarrow> bool" where
  "map_order order \<longleftrightarrow> distinct order \<and> set order = dom builtinKeytables"

section \<open>The insertion sort\<close>

lemma sink_sorted_prefix:
  "sorted pre \<Longrightarrow> sink (length pre) (pre @ x # post) = sort (x # pre) @ post"
proof (induction pre arbitrary: x post rule: rev_induct)
  case (snoc p ps)
  show ?case
  proof (cases "x < p")
    case True
    have "sort (x # ps) @ [p] = sort (x # ps @ [p])"
      using snoc.prems True
      by (intro properties_for_sort [symmetric]) (auto simp: sorted_append less_imp_le simp del: sort_key_simps)
    then show ?thesis
      using snoc.IH [of x "p # post"] snoc.prems True
      by (simp add: nth_append list_update_append sorted_append del: sort_key_simps)
  next
    case False
    have "(ps @ [p]) @ [x] = sort (x # ps @ [p])"
      using snoc.prems False by (intro properties_for_sort [symmetric]) (auto simp: sorted_append)
    then show ?thesis using False by (simp add: nth_append)
  qed
qed simp

lemma sink_steps: "k \<le> length order \<Longrightarrow> fold sink [1..<k] order = sort (take k order) @ drop k order"
proof (induction k)
  case (Suc k)
  show ?case
  proof (cases k)
    case 0
    then show ?thesis using Suc.prems by (cases order) simp_all
  next
    case (Suc n)
    have d: "drop k order = order ! k # drop (Suc k) order"
      using Suc.prems by (simp add: Cons_nth_drop_Suc)
    have t: "sort (take (Suc k) order) = sort (order ! k # sort (take k order))"
      using Suc.prems by (intro properties_for_sort) (simp_all add: take_Suc_conv_app_nth del: sort_key_simps)
    have "fold sink [1..<Suc k] order = sink k (fold sink [1..<k] order)"
      using Suc by simp
    also have "\<dots> = sink (length (sort (take k order))) (sort (take k order) @ order ! k # drop (Suc k) order)"
      using Suc.IH Suc.prems d by simp
    also have "\<dots> = sort (take (Suc k) order) @ drop (Suc k) order"
      unfolding t by (rule sink_sorted_prefix) (rule sorted_sort)
    finally show ?thesis .
  qed
qed simp

lemma KnownBuilds_sort: "KnownBuilds order = sort order"
  using sink_steps [of "length order" order] by (simp add: KnownBuilds_def)

lemma keytables_ascending: "sorted_wrt (<) (map fst keytables)"
  unfolding keytables_def by (simp add: sorted_wrt2 sorted_wrt1 del: sorted_wrt.simps(2))

lemma keytables_builds: "sorted (map fst keytables)" "distinct (map fst keytables)"
  using keytables_ascending by (simp_all add: strict_sorted_iff del: sorted_map)

lemma recipe_builds: "map fst key_recipes = map fst keytables" "map fst iv_recipes = map fst keytables"
  by (simp_all add: keytables_def key_recipes_def iv_recipes_def)

lemma KnownBuilds_ascending:
  assumes "map_order order"
  shows "KnownBuilds order = map fst keytables"
proof -
  have "set order = set (map fst keytables)"
    using assms by (simp add: map_order_def builtinKeytables_def dom_map_of_conv_image_fst)
  then have "mset order = mset (map fst keytables)"
    using assms keytables_builds(2) set_eq_iff_mset_eq_distinct [of order "map fst keytables"]
    unfolding map_order_def by blast
  then show ?thesis
    using keytables_builds(1) by (metis KnownBuilds_sort properties_for_sort)
qed

end
