(* ===== verification/CmfLaws.thy ===== *)
theory CmfLaws
  imports CmfKeys
begin

text \<open>
  Manifests loaded with the package's own registry. Every known build has a table and both recipes, and its
  provider returns a key of 32 bytes and an IV of 16 on every header of that build and every digest, but
  for build 39103, whose IV recipe runs off the table when byte 13 of the digest is below 8. So a load
  panics on exactly the encrypted manifests of that build whose name has such a digest.
\<close>

section \<open>Registries\<close>

text \<open>What a registry promises: a registered provider is found under its build, the others stay.\<close>

locale provider_registry =
  fixes find_in :: "'r \<Rightarrow> u32 \<Rightarrow> KeyProvider option" and add_to :: "u32 \<Rightarrow> KeyProvider \<Rightarrow> 'r \<Rightarrow> 'r" and none :: 'r
  assumes find_none: "find_in none b = None"
    and find_added: "find_in (add_to b p r) c = (if c = b then Some p else find_in r c)"
begin

lemma find_all: "find_in (fold (\<lambda>b r. add_to b (f b) r) bs none) c = (if c \<in> set bs then Some (f c) else None)"
  by (induction bs rule: rev_induct) (auto simp: find_none find_added)

end

interpretation kr: provider_registry "\<lambda>r. kr_Find (Some r)" kr_Register cmf_NewKeyRegistry
  by unfold_locales (simp_all add: kr_Find_def kr_Register_def cmf_NewKeyRegistry_def)

lemma DefaultRegistry_Find:
  "map_order order \<Longrightarrow> kr_Find (Some (DefaultRegistry order)) b = (if b \<in> dom builtinKeytables then Some (makeProvider b) else None)"
  unfolding DefaultRegistry_def by (subst kr.find_all) (simp add: map_order_def)

section \<open>The built-in providers\<close>

lemma map_of_total:
  assumes "\<forall>(b, x) \<in> set xs. P b x" "map fst xs = map fst ys" "b \<in> dom (map_of ys)"
  obtains x where "map_of xs b = Some x" "P b x"
proof -
  have "b \<in> dom (map_of xs)"
    using assms(3) unfolding dom_map_of_conv_image_fst by (metis assms(2) list.set_map)
  then obtain x where "map_of xs b = Some x" by blast
  with assms(1) show ?thesis using that map_of_SomeD by fastforce
qed

definition off_table :: "u32 \<Rightarrow> bytes \<Rightarrow> bool" where
  "off_table build digest \<longleftrightarrow> build = 39103 \<and> unat (digest ! 13) < 8"

lemma keytable_39103: "39103 \<in> dom builtinKeytables"
  unfolding builtinKeytables_def dom_map_of_conv_image_fst by (simp add: keytables_def)

lemma iv_recipe_39103: "builtinIVFuncs 39103 = Some iv_39103"
proof -
  have "(39103, iv_39103) \<in> set iv_recipes" by (simp add: iv_recipes_def)
  then show ?thesis
    using keytables_builds(2) recipe_builds(2) by (simp add: builtinIVFuncs_def)
qed

lemma makeProvider_result:
  assumes "build \<in> dom builtinKeytables" "ch_BuildVersion hdr = build" "length digest = 20"
  shows "if off_table build digest then makeProvider build hdr digest = Panic
    else \<exists>k iv. makeProvider build hdr digest = Ret (k, iv) \<and> length k = 32 \<and> length iv = 16"
proof -
  have dom: "build \<in> dom (map_of keytables)" using assms(1) by (simp add: builtinKeytables_def)
  obtain kt where kt: "builtinKeytables build = Some kt" "length kt = 512"
    using map_of_total [OF keytables_length refl dom] by (auto simp: builtinKeytables_def)
  obtain kf where kf: "builtinKeyFuncs build = Some kf" "key_total kf"
    using map_of_total [OF key_recipes_total recipe_builds(1) dom] by (auto simp: builtinKeyFuncs_def)
  obtain ivf where ivf: "builtinIVFuncs build = Some ivf" "build \<noteq> 39103 \<longrightarrow> iv_total ivf"
    using map_of_total [OF iv_recipes_total recipe_builds(2) dom] by (auto simp: builtinIVFuncs_def)
  have "0 \<notin> set (map fst keytables)" by (simp add: keytables_def)
  then have nz: "ch_BuildVersion hdr \<noteq> 0"
    using dom assms(2) unfolding dom_map_of_conv_image_fst by (metis list.set_map)
  obtain k where k: "kf hdr kt 32 = Ret k" "length k = 32"
    using kf(2) kt(2) nz by (auto simp: key_total_def gives_def)
  have "if off_table build digest then ivf hdr kt digest 16 = Panic else gives 16 (ivf hdr kt digest 16)"
    using ivf iv_recipe_39103 iv_39103_panics iv_39103_gives kt(2) assms(3) nz
    by (cases "build = 39103") (auto simp: off_table_def iv_total_def)
  then show ?thesis by (auto simp: makeProvider_def kt kf(1) ivf(1) k gives_def)
qed

text \<open>
  C26. Every build that KnownBuilds lists has a key table and a provider in the default
  registry, and on any header of the build and any 20-byte digest the provider returns a key of
  32 bytes and an IV of 16, except for build 39103 with a digest byte 13 below 8, where it
  panics.
\<close>

theorem default_provider_result:
  assumes "map_order order" "build \<in> set (KnownBuilds order)" "ch_BuildVersion hdr = build" "length digest = 20"
  shows "snd (KeyTable build) \<and> (\<exists>prov. kr_Find (Some (DefaultRegistry order)) build = Some prov \<and>
    (if off_table build digest then prov hdr digest = Panic
     else \<exists>k iv. prov hdr digest = Ret (k, iv) \<and> length k = 32 \<and> length iv = 16))"
proof -
  have "build \<in> dom builtinKeytables"
    using assms(1,2) by (simp add: KnownBuilds_sort map_order_def)
  then show ?thesis
    using makeProvider_result [OF _ assms(3,4)] assms(1) by (auto simp: DefaultRegistry_Find KeyTable_def)
qed

section \<open>Loading with the default registry\<close>

text \<open>
  C25. Whatever the bytes and the name, loading an Overwatch content manifest with the
  package's own registry panics exactly when the header parses, is encrypted and of build
  39103, and byte 13 of the name's SHA-1 is below 8; every other load ends in a manifest or an
  error.
\<close>

theorem LoadCMF_default_panics_iff:
  assumes "map_order order" "\<And>x. length (sha1 X x) = 20"
  shows "LoadCMF X data name (Some (DefaultRegistry order)) = Panic \<longleftrightarrow>
    (\<exists>hdr n. readHeader data = Ret (hdr, n) \<and> IsEncrypted hdr \<and> off_table (ch_BuildVersion hdr) (sha1 X name))"
    (is "?load = Panic \<longleftrightarrow> ?bad")
proof
  assume bad: ?bad
  then obtain hdr n where h: "readHeader data = Ret (hdr, n)" "IsEncrypted hdr" "off_table (ch_BuildVersion hdr) (sha1 X name)"
    by blast
  have b: "ch_BuildVersion hdr \<in> dom builtinKeytables"
    using h(3) keytable_39103 by (simp add: off_table_def)
  show "?load = Panic"
    using h readHeader_size [OF h(1)] makeProvider_result [OF b refl assms(2), of name]
    by (simp add: LoadCMF_def cmf_decrypt_def DefaultRegistry_Find [OF assms(1)] b)
next
  assume p: "?load = Panic"
  show ?bad
  proof (rule ccontr)
    assume nb: "\<not> ?bad"
    have "safe ?load"
    proof (rule LoadCMF_safe_if)
      fix hdr n prov
      assume h: "readHeader data = Ret (hdr, n)" "IsEncrypted hdr"
        and f: "kr_Find (Some (DefaultRegistry order)) (ch_BuildVersion hdr) = Some prov"
      then have "ch_BuildVersion hdr \<in> dom builtinKeytables" "prov = makeProvider (ch_BuildVersion hdr)"
        by (simp_all add: DefaultRegistry_Find [OF assms(1)] split: if_splits)
      then show "safe (prov hdr (sha1 X name)) \<and> (\<forall>k iv. prov hdr (sha1 X name) = Ret (k, iv) \<longrightarrow> length iv = 16)"
        using makeProvider_result [OF _ refl assms(2), of hdr name] nb h by (auto simp: safe_def)
    qed
    then show False using p by simp
  qed
qed

section \<open>The theorems at concrete inputs\<close>

definition table_order :: "u32 list" where
  "table_order = rev (map fst keytables)"

lemma table_order_ok: "map_order table_order"
  using keytables_builds(2) by (simp add: map_order_def table_order_def builtinKeytables_def dom_map_of_conv_image_fst)

definition header_39103 :: CMFHeader where
  "header_39103 = \<lparr>ch_BuildVersion = 39103, ch_Unk04 = 0, ch_Unk08 = 0, ch_Unk0C = 0, ch_Unk10 = 0, ch_Unk14 = 0, ch_Unk18 = 0,
     ch_DataPatchRecordCount = 0, ch_DataCount = 0, ch_EntryPatchRecordCount = 0, ch_EntryCount = 0, ch_Magic = 0x636D6619\<rparr>"

lemma header_39103_read:
  "readHeader (cmf_header_bytes header_39103) = Ret (header_39103, length (cmf_header_bytes header_39103))"
  using readHeader_bytes [of header_39103 "[]"]
  by (simp add: cmf_header_ok_def header_39103_def overwatchVersion148PTR_def overwatchVersion122PTR_def)

lemma header_39103_encrypted: "IsEncrypted header_39103"
  by (simp add: IsEncrypted_def header_39103_def cmfEncryptedMagicBE_def drop_bit_eq_div)

theorem default_provider_result_witness:
  "\<exists>prov k iv. kr_Find (Some (DefaultRegistry table_order)) 39103 = Some prov \<and>
     prov header_39103 (replicate 20 9) = Ret (k, iv) \<and> length k = 32"
proof -
  have "(39103 :: u32) \<in> set (KnownBuilds table_order)"
    using table_order_ok keytable_39103 by (simp add: KnownBuilds_sort map_order_def)
  moreover have "ch_BuildVersion header_39103 = 39103" by (simp add: header_39103_def)
  moreover have "\<not> off_table 39103 (replicate 20 9)" by (simp add: off_table_def)
  ultimately show ?thesis
    using default_provider_result [OF table_order_ok, of 39103 header_39103 "replicate 20 9"] by auto
qed

text \<open>
  A file that is nothing but a header of build 39103 with the encrypted magic: it panics under a name whose
  digest is all zeros and loads without a panic under one whose digest is all nines.
\<close>

theorem LoadCMF_default_panics_iff_witness:
  "LoadCMF \<lparr>sha1 = \<lambda>_. replicate 20 0, aes_cbc = \<lambda>k iv b. b\<rparr> (cmf_header_bytes header_39103) [97]
     (Some (DefaultRegistry table_order)) = Panic \<and>
   LoadCMF \<lparr>sha1 = \<lambda>_. replicate 20 9, aes_cbc = \<lambda>k iv b. b\<rparr> (cmf_header_bytes header_39103) [97]
     (Some (DefaultRegistry table_order)) \<noteq> Panic"
proof -
  have b: "ch_BuildVersion header_39103 = 39103" by (simp add: header_39103_def)
  have len: "\<And>x. length (sha1 \<lparr>sha1 = \<lambda>_. replicate 20 c, aes_cbc = \<lambda>k iv b. b\<rparr> x) = 20" for c
    by simp
  show ?thesis
    using LoadCMF_default_panics_iff [OF table_order_ok len, of 0 "cmf_header_bytes header_39103" "[97]"]
      LoadCMF_default_panics_iff [OF table_order_ok len, of 9 "cmf_header_bytes header_39103" "[97]"]
      header_39103_read header_39103_encrypted b
    by (simp add: off_table_def)
qed

end
