(* ===== verification/PublicApi.thy ===== *)
theory PublicApi
  imports CascStorage
begin

text \<open>
  \<^verbatim>\<open>pkg/casc\<close>: the public storage, its write overlay (write.go), opened files, listing and metadata
  (casc.go) and the variants with a context (context.go). Flush is in the theory \<open>Flush\<close>.
\<close>

section \<open>State\<close>

text \<open>
  A Go map that the code enumerates is an association list with distinct keys; the order in which
  it is enumerated is an argument. \<open>None\<close> for the overlay is the nil map, and a nil \<^verbatim>\<open>removed\<close> map
  reads as the empty one. \<open>None\<close> for \<open>ap_createDir\<close> is the empty string.
\<close>

record Api =
  ap_inner :: "Storage option"
  ap_overlay :: "(bytes \<times> bytes) list option"
  ap_removed :: "bytes \<Rightarrow> bool"
  ap_createDir :: "path option"

definition CreateStorage :: "path option \<Rightarrow> Api" where
  "CreateStorage dir = \<lparr>ap_inner = None, ap_overlay = Some [], ap_removed = (\<lambda>_. False), ap_createDir = dir\<rparr>"

datatype NameType = NameTypeFull | NameTypeDataID | NameTypeCKey | NameTypeEKey

record FileInfo =
  fi_FileName :: bytes
  fi_PlainName :: bytes
  fi_ContentKey :: key
  fi_EncodedKey :: key
  fi_ContentSize :: u64
  fi_EncodedSize :: u64
  fi_FileDataID :: u32
  fi_LocaleFlags :: u32
  fi_ContentFlags :: u32
  fi_TagBitMask :: u64
  fi_SpanCount :: u32
  fi_Available :: bool
  fi_NameType :: NameType

definition zero_info :: FileInfo where
  "zero_info = \<lparr>fi_FileName = [], fi_PlainName = [], fi_ContentKey = zero_key, fi_EncodedKey = zero_key,
     fi_ContentSize = 0, fi_EncodedSize = 0, fi_FileDataID = 0, fi_LocaleFlags = 0, fi_ContentFlags = 0,
     fi_TagBitMask = 0, fi_SpanCount = 0, fi_Available = False, fi_NameType = NameTypeFull\<rparr>"

text \<open>An opened file; the position is an \<^verbatim>\<open>int64\<close>.\<close>

record File =
  fl_content :: bytes
  fl_pos :: u64
  fl_info :: FileInfo

definition new_file :: "bytes \<Rightarrow> FileInfo \<Rightarrow> File" where
  "new_file content info = \<lparr>fl_content = content, fl_pos = 0, fl_info = info\<rparr>"

section \<open>The overlay\<close>

definition slash_byte :: "u8 \<Rightarrow> u8" where
  "slash_byte c = (if c = 0x5C then 0x2F else c)"

definition normalizeOverlayName :: "(bytes \<Rightarrow> bytes) \<Rightarrow> bytes \<Rightarrow> bytes" where
  "normalizeOverlayName uni name = ToLower uni (TrimSpace (map slash_byte name))"

definition the_overlay :: "Api \<Rightarrow> (bytes \<times> bytes) list" where
  "the_overlay s = (case ap_overlay s of None \<Rightarrow> [] | Some ov \<Rightarrow> ov)"

definition drop_name :: "bytes \<Rightarrow> (bytes \<times> bytes) list \<Rightarrow> (bytes \<times> bytes) list" where
  "drop_name name ov = filter (\<lambda>(n, _). n \<noteq> name) ov"

definition AddFile :: "(bytes \<Rightarrow> bytes) \<Rightarrow> bytes \<Rightarrow> bytes \<Rightarrow> Api \<Rightarrow> unit outcome \<times> Api" where
  "AddFile uni name data s =
     (let name = normalizeOverlayName uni name in
      if name = [] then (Fail ErrInvalidParameter, s)
      else
        let ov = the_overlay s; s = s\<lparr>ap_overlay := Some ov\<rparr> in
        if map_of ov name \<noteq> None then (Fail ErrAlreadyExists, s)
        else (Ret (), s\<lparr>ap_overlay := Some (ov @ [(name, data)]), ap_removed := (ap_removed s)(name := False)\<rparr>))"

definition RemoveFile :: "(bytes \<Rightarrow> bytes) \<Rightarrow> bytes \<Rightarrow> Api \<Rightarrow> unit outcome \<times> Api" where
  "RemoveFile uni name s =
     (let name = normalizeOverlayName uni name in
      if name = [] then (Fail ErrInvalidParameter, s)
      else
        (Ret (), s\<lparr>ap_overlay := map_option (drop_name name) (ap_overlay s),
           ap_removed := (ap_removed s)(name := True)\<rparr>))"

datatype overlay_state = Removed | Present bytes | Absent

definition overlayLookup :: "(bytes \<Rightarrow> bytes) \<Rightarrow> bytes \<Rightarrow> Api \<Rightarrow> overlay_state" where
  "overlayLookup uni name s =
     (let k = normalizeOverlayName uni name in
      if ap_removed s k then Removed
      else case map_of (the_overlay s) k of Some data \<Rightarrow> Present data | None \<Rightarrow> Absent)"

section \<open>Opening files\<close>

definition entry_info :: "bytes \<Rightarrow> CKeyEntry \<Rightarrow> FileInfo" where
  "entry_info name e =
     zero_info\<lparr>fi_FileName := name, fi_ContentKey := ce_CKey e, fi_EncodedKey := ce_EKey e,
       fi_ContentSize := ce_ContentSize e, fi_EncodedSize := ce_EncodedSize e, fi_FileDataID := ce_FileDataID e,
       fi_LocaleFlags := ce_LocaleFlags e, fi_ContentFlags := ce_ContentFlags e\<rparr>"

text \<open>The read both kinds of lookup end in; the inner storage is the one behind the pointer.\<close>

definition read_inner ::
  "runtime \<Rightarrow> http \<Rightarrow> cache_faults \<Rightarrow> key \<Rightarrow> Storage \<Rightarrow> Api \<times> fsys \<Rightarrow> bytes outcome \<times> Api \<times> fsys" where
  "read_inner rt http io ek inner = (\<lambda>(s, fs).
     let (r, inner', fs') = ReadByEKeyContext rt http io ek inner fs in (r, s\<lparr>ap_inner := Some inner'\<rparr>, fs'))"

definition wrap_file :: "FileInfo \<Rightarrow> bytes outcome \<times> 's \<Rightarrow> File outcome \<times> 's" where
  "wrap_file info = (\<lambda>(r, t). (bnd r (\<lambda>data. Ret (new_file data info)), t))"

text \<open>A method call on a nil \<^verbatim>\<open>inner\<close> dereferences it.\<close>

definition openFile ::
  "runtime \<Rightarrow> http \<Rightarrow> cache_faults \<Rightarrow> bytes \<Rightarrow> Api \<times> fsys \<Rightarrow> File outcome \<times> Api \<times> fsys" where
  "openFile rt http io name = (\<lambda>(s, fs).
     case overlayLookup (rt_uni rt) name s of
       Removed \<Rightarrow> (Fail ErrFileNotFound, s, fs)
     | Present data \<Rightarrow>
         (Ret (new_file data (zero_info\<lparr>fi_FileName := name, fi_ContentSize := word_of_nat (length data)\<rparr>)), s, fs)
     | Absent \<Rightarrow>
         (case ap_inner s of
            None \<Rightarrow> (Panic, s, fs)
          | Some inner \<Rightarrow>
              (case FindByName inner name of
                 Ret entry \<Rightarrow> wrap_file (entry_info name entry) (read_inner rt http io (ce_EKey entry) inner (s, fs))
               | Fail e \<Rightarrow> (Fail e, s, fs)
               | Panic \<Rightarrow> (Panic, s, fs))))"

definition OpenFile :: "runtime \<Rightarrow> http \<Rightarrow> cache_faults \<Rightarrow> bytes \<Rightarrow> Api \<times> fsys \<Rightarrow> File outcome \<times> Api \<times> fsys" where
  "OpenFile rt http io name = openFile rt http io name"

definition openFileByCKey ::
  "runtime \<Rightarrow> http \<Rightarrow> cache_faults \<Rightarrow> key \<Rightarrow> Api \<times> fsys \<Rightarrow> File outcome \<times> Api \<times> fsys" where
  "openFileByCKey rt http io ckey = (\<lambda>(s, fs).
     case ap_inner s of
       None \<Rightarrow> (Panic, s, fs)
     | Some inner \<Rightarrow>
         (case st_Encoding inner of
            None \<Rightarrow> (Fail ErrNotSupported, s, fs)
          | Some enc \<Rightarrow>
              (case enc_Find enc ckey of
                 None \<Rightarrow> (Fail ErrFileNotFound, s, fs)
               | Some encEntry \<Rightarrow>
                   (case en_EKeys encEntry of
                      [] \<Rightarrow> (Fail ErrFileNotFound, s, fs)
                    | ekey # _ \<Rightarrow>
                        wrap_file (zero_info\<lparr>fi_ContentKey := ckey, fi_EncodedKey := ekey,
                            fi_ContentSize := en_ContentSize encEntry\<rparr>)
                          (read_inner rt http io ekey inner (s, fs))))))"

definition openFileByEKey ::
  "runtime \<Rightarrow> http \<Rightarrow> cache_faults \<Rightarrow> key \<Rightarrow> Api \<times> fsys \<Rightarrow> File outcome \<times> Api \<times> fsys" where
  "openFileByEKey rt http io ekey = (\<lambda>(s, fs).
     case ap_inner s of
       None \<Rightarrow> (Panic, s, fs)
     | Some inner \<Rightarrow> wrap_file (zero_info\<lparr>fi_EncodedKey := ekey\<rparr>) (read_inner rt http io ekey inner (s, fs)))"

text \<open>The entry's own encoded key is read, without a lookup in ENCODING.\<close>

definition openFileByID ::
  "runtime \<Rightarrow> http \<Rightarrow> cache_faults \<Rightarrow> u32 \<Rightarrow> Api \<times> fsys \<Rightarrow> File outcome \<times> Api \<times> fsys" where
  "openFileByID rt http io fileDataID = (\<lambda>(s, fs).
     case ap_inner s of
       None \<Rightarrow> (Panic, s, fs)
     | Some inner \<Rightarrow>
         (case st_Root inner of
            None \<Rightarrow> (Fail ErrNotSupported, s, fs)
          | Some root \<Rightarrow>
              (case rh_LookupByFileDataID root fileDataID of
                 None \<Rightarrow> (Fail ErrFileNotFound, s, fs)
               | Some entry \<Rightarrow> wrap_file (entry_info [] entry) (read_inner rt http io (ce_EKey entry) inner (s, fs)))))"

definition readByCKey ::
  "runtime \<Rightarrow> http \<Rightarrow> cache_faults \<Rightarrow> key \<Rightarrow> Api \<times> fsys \<Rightarrow> bytes outcome \<times> Api \<times> fsys" where
  "readByCKey rt http io ckey = (\<lambda>(s, fs).
     case ap_inner s of
       None \<Rightarrow> (Fail ErrInvalidHandle, s, fs)
     | Some inner \<Rightarrow>
         (case st_Encoding inner of
            None \<Rightarrow> (Fail ErrNotSupported, s, fs)
          | Some enc \<Rightarrow>
              (case enc_Find enc ckey of
                 None \<Rightarrow> (Fail ErrFileNotFound, s, fs)
               | Some encEntry \<Rightarrow>
                   (case en_EKeys encEntry of
                      [] \<Rightarrow> (Fail ErrFileNotFound, s, fs)
                    | ekey # _ \<Rightarrow> read_inner rt http io ekey inner (s, fs)))))"

definition readByEKey ::
  "runtime \<Rightarrow> http \<Rightarrow> cache_faults \<Rightarrow> key \<Rightarrow> Api \<times> fsys \<Rightarrow> bytes outcome \<times> Api \<times> fsys" where
  "readByEKey rt http io ekey = (\<lambda>(s, fs).
     case ap_inner s of
       None \<Rightarrow> (Fail ErrInvalidHandle, s, fs)
     | Some inner \<Rightarrow> read_inner rt http io ekey inner (s, fs))"

text \<open>The variants with a context return its error first; \<open>None\<close> is a live context.\<close>

definition with_context :: "cerr option \<Rightarrow> ('s \<Rightarrow> 'r outcome \<times> 's) \<Rightarrow> 's \<Rightarrow> 'r outcome \<times> 's" where
  "with_context ctxErr f s = (case ctxErr of Some e \<Rightarrow> (Fail e, s) | None \<Rightarrow> f s)"

section \<open>Renaming\<close>

definition RenameFile ::
  "runtime \<Rightarrow> http \<Rightarrow> cache_faults \<Rightarrow> bytes \<Rightarrow> bytes \<Rightarrow> Api \<times> fsys \<Rightarrow> unit outcome \<times> Api \<times> fsys" where
  "RenameFile rt http io oldName newName = (\<lambda>(s, fs).
     let old = normalizeOverlayName (rt_uni rt) oldName; new = normalizeOverlayName (rt_uni rt) newName in
     if old = [] \<or> new = [] then (Fail ErrInvalidParameter, s, fs)
     else if old = new then (Ret (), s, fs)
     else
       let ov = the_overlay s; s = s\<lparr>ap_overlay := Some ov\<rparr> in
       case map_of ov old of
         Some data \<Rightarrow>
           if map_of ov new \<noteq> None then (Fail ErrAlreadyExists, s, fs)
           else
             (Ret (), s\<lparr>ap_overlay := Some (drop_name old (ov @ [(new, data)])),
                ap_removed := (ap_removed s)(new := False, old := True)\<rparr>, fs)
       | None \<Rightarrow>
           (case OpenFile rt http io old (s, fs) of
              (Ret f, s1, fs1) \<Rightarrow>
                let ov1 = the_overlay s1 in
                if map_of ov1 new \<noteq> None then (Fail ErrAlreadyExists, s1, fs1)
                else
                  (Ret (), s1\<lparr>ap_overlay := Some (ov1 @ [(new, fl_content f)]),
                     ap_removed := (ap_removed s1)(old := True)\<rparr>, fs1)
            | (Fail e, s1, fs1) \<Rightarrow> (Fail e, s1, fs1)
            | (Panic, s1, fs1) \<Rightarrow> (Panic, s1, fs1)))"

section \<open>Reading an opened file\<close>

text \<open>\<^verbatim>\<open>Read\<close> with an \<open>n\<close>-byte buffer; \<open>None\<close> is \<^verbatim>\<open>io.EOF\<close>.\<close>

definition file_Read :: "nat \<Rightarrow> File \<Rightarrow> bytes option \<times> File" where
  "file_Read n f =
     (if int (length (fl_content f)) \<le> sint (fl_pos f) then (None, f)
      else
        let got = take n (drop (nat (sint (fl_pos f))) (fl_content f)) in
        (Some got, f\<lparr>fl_pos := fl_pos f + word_of_nat (length got)\<rparr>))"

definition file_Seek :: "u64 \<Rightarrow> int \<Rightarrow> File \<Rightarrow> u64 outcome \<times> File" where
  "file_Seek offset whence f =
     (if whence \<notin> {0, 1, 2} then (Fail ErrInvalidParameter, f)
      else
        let abs = (if whence = 0 then offset
                   else if whence = 1 then fl_pos f + offset
                   else word_of_nat (length (fl_content f)) + offset) in
        if sint abs < 0 then (Fail ErrInvalidParameter, f)
        else (Ret abs, f\<lparr>fl_pos := abs\<rparr>))"

definition file_Close :: "File \<Rightarrow> File" where
  "file_Close f = f\<lparr>fl_content := []\<rparr>"

definition file_Size :: "File \<Rightarrow> nat" where
  "file_Size f = length (fl_content f)"

section \<open>Listing\<close>

text \<open>
  \<open>Match\<close> is \<^verbatim>\<open>filepath.Match\<close>, \<open>None\<close> its error for a malformed pattern. The callback takes the caller's
  state and says whether to go on; \<open>Inl\<close> of the loop's result is a pattern error.
\<close>

type_synonym 's lister = "bytes \<Rightarrow> FileInfo \<Rightarrow> 's \<Rightarrow> bool \<times> 's"

fun overlay_entries ::
  "bytes \<Rightarrow> 's lister \<Rightarrow> (bytes \<times> bytes) list \<Rightarrow> 's \<Rightarrow> unit outcome \<times> 's" where
  "overlay_entries pat fn [] t = (Ret (), t)"
| "overlay_entries pat fn ((name, data) # es) t =
     (let visit = (\<lambda>_::unit. let (more, t') = fn name
             (zero_info\<lparr>fi_FileName := name, fi_ContentSize := word_of_nat (length data)\<rparr>) t
           in if more then overlay_entries pat fn es t' else (Ret (), t')) in
      if pat \<noteq> [] \<and> pat \<noteq> lit ''*'' then
        case Match pat name of
          None \<Rightarrow> (Fail ErrOther, t)
        | Some ok \<Rightarrow> if ok then visit () else overlay_entries pat fn es t
      else visit ())"

definition iterOverlay ::
  "(bytes \<Rightarrow> bytes) \<Rightarrow> ((bytes \<times> bytes) list \<Rightarrow> (bytes \<times> bytes) list) \<Rightarrow>
   bytes \<Rightarrow> 's lister \<Rightarrow> Api \<Rightarrow> 's \<Rightarrow> unit outcome \<times> 's" where
  "iterOverlay uni order pat fn s t = overlay_entries (ToLower uni pat) fn (order (the_overlay s)) t"

definition findOverlayOnly ::
  "(bytes \<Rightarrow> bytes) \<Rightarrow> ((bytes \<times> bytes) list \<Rightarrow> (bytes \<times> bytes) list) \<Rightarrow>
   bytes \<Rightarrow> 's lister \<Rightarrow> Api \<Rightarrow> 's \<Rightarrow> unit outcome \<times> 's" where
  "findOverlayOnly uni order pat fn s t =
     (if ap_overlay s = None then (Fail ErrNotSupported, t) else iterOverlay uni order pat fn s t)"

definition plainName :: "bytes \<Rightarrow> bytes" where
  "plainName name = rev (takeWhile (\<lambda>c. c \<noteq> 0x2F \<and> c \<noteq> 0x5C) (rev name))"

definition has_prefix :: "bytes \<Rightarrow> bytes \<Rightarrow> bool" where
  "has_prefix s p \<longleftrightarrow> take (length p) s = p"

definition classifyName :: "bytes \<Rightarrow> NameType" where
  "classifyName name =
     (if has_prefix name (lit ''FileDataID:'') then NameTypeDataID
      else if has_prefix name (lit ''CKey:'') then NameTypeCKey
      else if has_prefix name (lit ''EKey:'') then NameTypeEKey
      else NameTypeFull)"

definition isAvailable :: "Api \<Rightarrow> key \<Rightarrow> bool" where
  "isAvailable s ek = (case ap_inner s of None \<Rightarrow> False | Some inner \<Rightarrow> FindByEKey inner ek \<noteq> None)"

text \<open>The name and the description of one root entry.\<close>

definition listed_name :: "Storage \<Rightarrow> bytes \<Rightarrow> CKeyEntry \<Rightarrow> bytes" where
  "listed_name inner name e =
     (case st_Listfile inner of
        Some lf \<Rightarrow> if ce_FileNameHash e \<noteq> 0 \<and> lf_Lookup lf (ce_FileNameHash e) \<noteq> [] then lf_Lookup lf (ce_FileNameHash e) else name
      | None \<Rightarrow> name)"

definition listed_info :: "Api \<Rightarrow> Storage \<Rightarrow> bytes \<Rightarrow> CKeyEntry \<Rightarrow> FileInfo" where
  "listed_info s inner name e =
     (let encEntry = Option.bind (st_Encoding inner) (\<lambda>enc. enc_Find enc (ce_CKey e));
          contentSize = (case encEntry of Some x \<Rightarrow> en_ContentSize x | None \<Rightarrow> ce_ContentSize e);
          ek = (case encEntry of Some x \<Rightarrow> (case en_EKeys x of k # _ \<Rightarrow> k | [] \<Rightarrow> ce_EKey e) | None \<Rightarrow> ce_EKey e) in
      zero_info\<lparr>fi_FileName := name, fi_PlainName := plainName name, fi_ContentKey := ce_CKey e,
        fi_EncodedKey := ek, fi_ContentSize := contentSize, fi_EncodedSize := ce_EncodedSize e,
        fi_FileDataID := ce_FileDataID e, fi_LocaleFlags := ce_LocaleFlags e, fi_ContentFlags := ce_ContentFlags e,
        fi_NameType := classifyName name, fi_Available := isAvailable s ek\<rparr>)"

text \<open>The callback \<^verbatim>\<open>FindFiles\<close> hands to the root: the flag of its state is \<^verbatim>\<open>iterErr\<close>.\<close>

definition root_visit ::
  "(bytes \<Rightarrow> bytes) \<Rightarrow> bytes \<Rightarrow> 's lister \<Rightarrow> Api \<Rightarrow> Storage \<Rightarrow>
   bytes \<times> CKeyEntry \<Rightarrow> bool \<times> 's \<Rightarrow> bool \<times> bool \<times> 's" where
  "root_visit uni pat fn s inner = (\<lambda>(rname, e) (err, t).
     let name = listed_name inner rname e;
         visit = (let (more, t') = fn name (listed_info s inner name e) t in (more, err, t')) in
     if overlayLookup uni name s \<noteq> Absent then (True, err, t)
     else if pat \<noteq> [] then
       case Match pat (ToLower uni name) of
         None \<Rightarrow> (False, True, t)
       | Some ok \<Rightarrow> if ok then visit else (True, err, t)
     else visit)"

definition FindFiles ::
  "(bytes \<Rightarrow> bytes) \<Rightarrow> ((bytes \<times> bytes) list \<Rightarrow> (bytes \<times> bytes) list) \<Rightarrow>
   bytes \<Rightarrow> 's lister \<Rightarrow> Api \<Rightarrow> 's \<Rightarrow> unit outcome \<times> 's" where
  "FindFiles uni order pat fn s t =
     (case Option.bind (ap_inner s) (\<lambda>inner. map_option (Pair inner) (st_Root inner)) of
        None \<Rightarrow> findOverlayOnly uni order pat fn s t
      | Some (inner, root) \<Rightarrow>
          (case yield_all (root_visit uni (ToLower uni pat) fn s inner) (rh_All root) (False, t) of
             (True, t') \<Rightarrow> (Fail ErrOther, t')
           | (False, t') \<Rightarrow> iterOverlay uni order pat fn s t'))"

text \<open>
  \<^verbatim>\<open>FindFilesContext\<close> asks the context before the listing and before every call of the callback;
  \<open>ctx i\<close> is its answer the \<open>i\<close>-th time, and the error of a cancelled context is its own.
\<close>

definition ctx_visit :: "(nat \<Rightarrow> bool) \<Rightarrow> 's lister \<Rightarrow> (nat \<times> bool \<times> 's) lister" where
  "ctx_visit ctx fn name info = (\<lambda>(i, err, t).
     if ctx i then (False, i + 1, True, t)
     else let (more, t') = fn name info t in (more, i + 1, err, t'))"

definition FindFilesContext ::
  "(nat \<Rightarrow> bool) \<Rightarrow> (bytes \<Rightarrow> bytes) \<Rightarrow> ((bytes \<times> bytes) list \<Rightarrow> (bytes \<times> bytes) list) \<Rightarrow> bytes \<Rightarrow> 's lister \<Rightarrow> Api \<Rightarrow> 's \<Rightarrow> unit outcome \<times> 's" where
  "FindFilesContext ctx uni order pat fn s t =
     (if ctx 0 then (Fail ErrOther, t)
      else
        let (r, i, err, t') = FindFiles uni order pat (ctx_visit ctx fn) s (1, False, t) in
        (bnd r (\<lambda>_. if err then Fail ErrOther else Ret ()), t'))"

section \<open>Mounting\<close>

record OpenOptions =
  oo_LocaleMask :: u32
  oo_ListfileReader :: "bytes option"
  oo_ListfilePath :: "path option"
  oo_Online :: bool
  oo_CacheDir :: "path option"
  oo_OvercomeEncrypted :: bool

text \<open>A listfile that opens but cannot be read makes its scanner, and so \<^verbatim>\<open>storage.Open\<close>, fail.\<close>

definition OpenStorage ::
  "runtime \<Rightarrow> http \<Rightarrow> nat list \<Rightarrow> cache_faults \<Rightarrow> bytes \<Rightarrow> OpenOptions \<Rightarrow> fsys \<Rightarrow> (Api \<times> fsys) outcome" where
  "OpenStorage rt http arrival io dir opts fs =
     bnd (case (oo_ListfileReader opts, oo_ListfilePath opts) of
            (None, Some p) \<Rightarrow> bnd (read_file fs p) (\<lambda>text. Ret (Some text))
          | (reader, _) \<Rightarrow> Ret reader) (\<lambda>reader.
     bnd (storage_Open rt http arrival io dir
            \<lparr>so_LocaleMask = oo_LocaleMask opts, so_ListfileReader = reader, so_Online = oo_Online opts,
             so_CacheDir = oo_CacheDir opts, so_OvercomeEncrypted = oo_OvercomeEncrypted opts\<rparr> fs) (\<lambda>(inner, fs').
     Ret (\<lparr>ap_inner = Some inner, ap_overlay = None, ap_removed = (\<lambda>_. False), ap_createDir = None\<rparr>, fs')))"

definition api_Close :: "(u32 \<Rightarrow> bool) \<Rightarrow> Api \<Rightarrow> unit outcome \<times> Api" where
  "api_Close close_fails s =
     (case ap_inner s of
        None \<Rightarrow> (Ret (), s)
      | Some inner \<Rightarrow>
          let (r, inner') = storage_Close close_fails inner in (r, s\<lparr>ap_inner := Some inner'\<rparr>))"

definition api_AddEncryptionKey :: "u64 \<Rightarrow> bytes \<Rightarrow> Api \<Rightarrow> unit outcome \<times> Api" where
  "api_AddEncryptionKey name k s =
     (case ap_inner s of
        None \<Rightarrow> (Panic, s)
      | Some inner \<Rightarrow>
          let (r, inner') = AddEncryptionKey name k inner in (r, s\<lparr>ap_inner := Some inner'\<rparr>))"

section \<open>Metadata\<close>

definition StorageFeatureLocale :: u32 where "StorageFeatureLocale = 1"
definition StorageFeatureFileDataIDs :: u32 where "StorageFeatureFileDataIDs = 2"
definition StorageFeatureRootCKey :: u32 where "StorageFeatureRootCKey = 4"
definition StorageFeatureTags :: u32 where "StorageFeatureTags = 8"
definition StorageFeatureOnline :: u32 where "StorageFeatureOnline = 16"

record StorageInfo =
  si_Path :: path
  si_RootType :: bytes
  si_FileCount :: nat
  si_BuildVersion :: bytes
  si_CDNPath :: bytes
  si_Product :: bytes
  si_Region :: bytes
  si_InstalledLocales :: u32
  si_Tags :: "bytes list"
  si_Features :: u32

text \<open>
  The loop of \<^verbatim>\<open>parseTagList\<close>; \<open>cur\<close> is the builder. Ranging over a string decodes it and writing the
  runes back encodes it again; \<open>valid\<close> is that detour for a string that is not ASCII.
\<close>

definition tag_sep :: "u8 \<Rightarrow> bool" where
  "tag_sep c \<longleftrightarrow> c \<in> {0x3F, 0x3A, 0x20, 0x09, 0x2C, 0x3B, 0x7C}"

fun tag_loop :: "bytes \<Rightarrow> bytes \<Rightarrow> bytes list" where
  "tag_loop cur [] = (let t = TrimSpace cur in if t = [] then [] else [t])"
| "tag_loop cur (c # cs) =
     (if tag_sep c then let t = TrimSpace cur in if t = [] then tag_loop [] cs else t # tag_loop [] cs
      else tag_loop (cur @ [c]) cs)"

definition parseTagList :: "(bytes \<Rightarrow> bytes) \<Rightarrow> bytes \<Rightarrow> bytes list" where
  "parseTagList valid s = tag_loop [] (if ascii s then s else valid s)"

definition localeTagToFlag :: "(bytes \<times> u32) list" where
  "localeTagToFlag =
     [(lit ''enus'', 0x2), (lit ''kokr'', 0x4), (lit ''frfr'', 0x10), (lit ''dede'', 0x20), (lit ''zhcn'', 0x40),
      (lit ''eses'', 0x80), (lit ''zhtw'', 0x100), (lit ''engb'', 0x200), (lit ''entw'', 0x800),
      (lit ''esmx'', 0x1000), (lit ''ruru'', 0x2000), (lit ''ptbr'', 0x4000), (lit ''itit'', 0x8000),
      (lit ''ptpt'', 0x10000)]"

definition trim_prefix :: "bytes \<Rightarrow> bytes \<Rightarrow> bytes" where
  "trim_prefix s p = (if has_prefix s p then drop (length p) s else s)"

definition locale_key :: "(bytes \<Rightarrow> bytes) \<Rightarrow> bytes \<Rightarrow> bytes" where
  "locale_key uni t =
     (let k = trim_prefix (ToLower uni (trim_prefix t (lit ''text?''))) (lit ''speech?'');
          i = length (takeWhile (\<lambda>c. c \<noteq> 0x3A \<and> c \<noteq> 0x2D) k) in
      if 0 < i \<and> i < length k then take i k else k)"

definition inferInstalledLocales :: "(bytes \<Rightarrow> bytes) \<Rightarrow> bytes list \<Rightarrow> u32" where
  "inferInstalledLocales uni tags =
     foldl (\<lambda>mask t. case map_of localeTagToFlag (locale_key uni t) of Some f \<Rightarrow> mask OR f | None \<Rightarrow> mask) 0 tags"

text \<open>The features and the count a root contributes.\<close>

definition root_info :: "Handler \<Rightarrow> StorageInfo \<Rightarrow> StorageInfo" where
  "root_info root si =
     (let feats = rh_Features root;
          n = yield_all (\<lambda>_ n. (True, n + 1)) (rh_All root) 0 in
      si\<lparr>si_RootType := rh_Name root, si_FileCount := n,
        si_Features := si_Features si
          OR (if feats AND FeatureFileDataIDs \<noteq> 0 then StorageFeatureFileDataIDs else 0)
          OR (if feats AND FeatureRootCKey \<noteq> 0 then StorageFeatureRootCKey else 0)
          OR (if feats AND FeatureLocaleFlags \<noteq> 0 then StorageFeatureLocale else 0)\<rparr>)"

text \<open>A column of the first row, with a second column to fall back on.\<close>

definition first_cell :: "csv_File \<Rightarrow> bytes \<Rightarrow> bytes \<Rightarrow> bytes outcome" where
  "first_cell bi col alt = bnd (csv_Get bi 0 col) (\<lambda>v. if v = [] then csv_Get bi 0 alt else Ret v)"

definition build_info_part ::
  "(bytes \<Rightarrow> bytes) \<Rightarrow> (bytes \<Rightarrow> bytes) \<Rightarrow> csv_File \<Rightarrow> StorageInfo \<Rightarrow> StorageInfo outcome" where
  "build_info_part uni valid bi si =
     bnd (first_cell bi (lit ''Version'') (lit ''Build Version'')) (\<lambda>version.
     bnd (csv_Get bi 0 (lit ''CDN Path'')) (\<lambda>cdnPath.
     bnd (csv_Get bi 0 (lit ''Product'')) (\<lambda>product.
     bnd (first_cell bi (lit ''Region'') (lit ''Branch'')) (\<lambda>region.
     bnd (first_cell bi (lit ''Tags'') (lit ''Install Tags'')) (\<lambda>tags.
     let si = si\<lparr>si_BuildVersion := version, si_CDNPath := cdnPath, si_Product := product, si_Region := region\<rparr> in
     Ret (if tags = [] then si
          else
            let ts = parseTagList valid tags in
            si\<lparr>si_Tags := ts, si_InstalledLocales := inferInstalledLocales uni ts,
              si_Features := si_Features si OR StorageFeatureTags\<rparr>))))))"

definition GetInfo :: "(bytes \<Rightarrow> bytes) \<Rightarrow> (bytes \<Rightarrow> bytes) \<Rightarrow> Api \<Rightarrow> StorageInfo outcome" where
  "GetInfo uni valid s =
     (case ap_inner s of
        None \<Rightarrow> Panic
      | Some inner \<Rightarrow>
          let si = \<lparr>si_Path = st_Path inner, si_RootType = [], si_FileCount = 0, si_BuildVersion = [],
                si_CDNPath = [], si_Product = [], si_Region = [], si_InstalledLocales = 0, si_Tags = [], si_Features = 0\<rparr>;
              si = (case st_Root inner of None \<Rightarrow> si | Some root \<Rightarrow> root_info root si) in
          bnd (case st_BuildInfo inner of None \<Rightarrow> Ret si | Some bi \<Rightarrow> build_info_part uni valid bi si) (\<lambda>si.
          Ret (if st_CDN inner \<noteq> None then si\<lparr>si_Features := si_Features si OR StorageFeatureOnline\<rparr> else si)))"

end
