(* ===== verification/IndexWriter.thy ===== *)
theory IndexWriter
  imports IndexFile
begin

text \<open>
  \<^verbatim>\<open>internal/index/writer.go\<close>: the V1 index writer, and what reading its output gives. The
  output buffer of the code is written region by region; the model lists the regions in
  order. The header hash is taken, as in the code, over a copy with its own field zeroed.
\<close>

unbundle bit_operations_syntax

record index_WriteOptions =
  iw_BucketIndex :: u8
  iw_SegmentSize :: u64
  iw_Block1Count :: int

record entryFields =
  ef_EKeyLen :: nat
  ef_StoreOffLen :: nat
  ef_EncSizeLen :: nat
  ef_FileOffsBits :: nat

definition writeEntryV1 :: "EKeyEntry \<Rightarrow> entryFields \<Rightarrow> bytes" where
  "writeEntryV1 e f =
     (let storage = push_bit (ef_FileOffsBits f) (ucast (ee_ArchiveIndex e)) OR ucast (ee_ArchiveOffs e)
      in take (ef_EKeyLen f) (ee_EKey e) @
         writeBE (ef_StoreOffLen f) storage @
         writeBE (ef_EncSizeLen f) (ucast (ee_EncodedSize e)))"

definition v1_fields :: entryFields where
  "v1_fields = \<lparr>ef_EKeyLen = 9, ef_StoreOffLen = 5, ef_EncSizeLen = 4, ef_FileOffsBits = 30\<rparr>"

definition index_sort :: "EKeyEntry list \<Rightarrow> EKeyEntry list" where
  "index_sort = sort_slice (\<lambda>x y. ekeyLess (ee_EKey x) (ee_EKey y) 9)"

interpretation index_order: slice_order "\<lambda>x y. ekeyLess (ee_EKey x) (ee_EKey y) 9"
  by (rule slice_order_ekeyLess)

text \<open>How many entries go to the primary key block.\<close>

definition block1_count :: "index_WriteOptions \<Rightarrow> EKeyEntry list \<Rightarrow> nat" where
  "block1_count opts srt =
     (if iw_Block1Count opts \<le> 0 \<or> int (length srt) < iw_Block1Count opts
      then length srt else nat (iw_Block1Count opts))"

text \<open>Bytes 0 to 44 of the header; the four bytes after them are the header hash.\<close>

definition v1_header :: "u8 \<Rightarrow> u64 \<Rightarrow> nat \<Rightarrow> nat \<Rightarrow> u32 \<Rightarrow> u32 \<Rightarrow> bytes" where
  "v1_header bucket seg block1 block2 keysHash1 keysHash2 =
     putLE16 5 @ [bucket, 0] @ putLE32 0 @ putLE64 0x40000000 @ putLE64 seg @ [4, 5, 9, 30] @
     putLE32 (word_of_nat block1) @ putLE32 (word_of_nat block2) @
     putLE32 keysHash1 @ putLE32 keysHash2"

definition EncodeV1 :: "EKeyEntry list \<Rightarrow> index_WriteOptions \<Rightarrow> bytes" where
  "EncodeV1 entries opts =
     (let seg = (if iw_SegmentSize opts = 0 then 0x40000000 else iw_SegmentSize opts);
          srt = index_sort entries;
          block1 = block1_count opts srt;
          block2 = length srt - block1;
          body1 = concat (map (\<lambda>e. writeEntryV1 e v1_fields) (take block1 srt));
          body2 = concat (map (\<lambda>e. writeEntryV1 e v1_fields) (drop block1 srt));
          hdr = v1_header (iw_BucketIndex opts) seg block1 block2
                  (HashLittle body1 0) (HashLittle body2 0);
          headerHash = HashLittle (hdr @ putLE32 0) 0
      in hdr @ putLE32 headerHash @ body1 @ body2)"

section \<open>One entry\<close>

text \<open>An entry whose fields fit the 10 bits and 30 bits the writer gives them.\<close>

definition entry_fits :: "EKeyEntry \<Rightarrow> bool" where
  "entry_fits e \<longleftrightarrow> key_ok (ee_EKey e) \<and> unat (ee_ArchiveIndex e) < 2 ^ 10 \<and>
     unat (ee_ArchiveOffs e) < 2 ^ 30"

text \<open>Only the first nine bytes of the key are stored.\<close>

definition trim_entry :: "EKeyEntry \<Rightarrow> EKeyEntry" where
  "trim_entry e = e\<lparr>ee_EKey := fit 16 (take 9 (ee_EKey e))\<rparr>"

lemma length_writeEntryV1: "key_ok (ee_EKey e) \<Longrightarrow> length (writeEntryV1 e v1_fields) = 18"
  by (simp add: writeEntryV1_def v1_fields_def Let_def writeBE_eq key_ok_def MD5HashSize_def)

lemma unat_storage:
  fixes i o' :: u32
  assumes "unat o' < 2 ^ 30"
  shows "unat (push_bit 30 (ucast i) OR ucast o' :: u64) = unat i * 2 ^ 30 + unat o'"
proof -
  have "unat (take_bit 30 o') = unat o'"
    using assms by (simp add: unsigned_take_bit_eq take_bit_nat_eq_self)
  then have o: "take_bit 30 o' = o'" by (rule unsigned_word_eqI)
  have "\<not> bit o' n" if "30 \<le> n" for n
    using that by (subst o [symmetric]) (simp add: bit_take_bit_iff)
  then have "push_bit 30 (ucast i) AND (ucast o' :: u64) = 0"
    by (intro bit_eqI) (auto simp: bit_simps)
  then have eq: "push_bit 30 (ucast i) OR (ucast o' :: u64) = push_bit 30 (ucast i) + ucast o'"
    by (simp add: disjunctive_add_eq_or)
  have i: "unat i < 2 ^ 32" using unat_bounds(2) [of i] by simp
  have "unat (push_bit 30 (ucast i) :: u64) = unat i * 2 ^ 30"
  proof -
    have "unat (push_bit 30 (ucast i) :: u64) = (unat i * 2 ^ 30) mod 2 ^ 64"
      by (simp add: push_bit_eq_mult unat_word_ariths mult.commute)
    then show ?thesis using i by simp
  qed
  then show ?thesis
    using assms i by (simp add: eq unat_word_ariths)
qed

lemma decodeEntry_writeEntryV1:
  assumes "entry_fits e" "hdr_ok h" "ih_FileOffsetBits h = 30"
  shows "decodeEntry (writeEntryV1 e v1_fields @ rest) h = Ret (trim_entry e)"
proof -
  let ?s = "push_bit 30 (ucast (ee_ArchiveIndex e)) OR (ucast (ee_ArchiveOffs e) :: u64)"
  have k: "length (ee_EKey e) = 16" and i: "unat (ee_ArchiveIndex e) < 1024"
    and o: "unat (ee_ArchiveOffs e) < 2 ^ 30"
    using assms(1) by (simp_all add: entry_fits_def key_ok_def MD5HashSize_def)
  have s: "unat ?s = unat (ee_ArchiveIndex e) * 2 ^ 30 + unat (ee_ArchiveOffs e)"
    by (rule unat_storage [OF o])
  have "unat ?s < 256 ^ 5" using i o by (simp add: s)
  then have rd: "readBE (be_bytes 5 (unat ?s)) = ?s" by (rule readBE_be_bytes_fit)
  have "(ucast (readBE (be_bytes 4 (unat (ucast (ee_EncodedSize e) :: u64)))) :: u32) = ee_EncodedSize e"
    using unat_bounds(2) [of "ee_EncodedSize e"] by (simp add: readBE_be_bytes)
  moreover have "unat (drop_bit 30 ?s) = unat (ee_ArchiveIndex e)"
    using o by (subst unat_drop_bit_eq, subst drop_bit_eq_div) (simp add: s)
  then have "unat (ucast (drop_bit 30 ?s) :: u32) = unat (ee_ArchiveIndex e)"
    using i by (simp only: unsigned_ucast_eq) (simp add: take_bit_nat_eq_self)
  then have "(ucast (drop_bit 30 ?s) :: u32) = ee_ArchiveIndex e" by (rule unsigned_word_eqI)
  moreover have "?s AND (push_bit 30 1 - 1) = take_bit 30 ?s"
    by (simp add: take_bit_eq_mask mask_eq_exp_minus_1)
  then have "unat (?s AND (push_bit 30 1 - 1)) = unat (ee_ArchiveOffs e)"
    using o by (simp only: unsigned_take_bit_eq s) (simp add: take_bit_eq_mod)
  then have "unat (ucast (?s AND (push_bit 30 1 - 1)) :: u32) = unat (ee_ArchiveOffs e)"
    using o by (simp only: unsigned_ucast_eq) (simp add: take_bit_nat_eq_self)
  then have "(ucast (?s AND (push_bit 30 1 - 1)) :: u32) = ee_ArchiveOffs e" by (rule unsigned_word_eqI)
  ultimately show ?thesis
    using assms(2,3) k
    by (simp add: decodeEntry_Ret writeEntryV1_def v1_fields_def Let_def writeBE_eq rd trim_entry_def)
qed

lemma loadEntriesV1_loop_write:
  assumes "\<forall>e\<in>set es. entry_fits e" "hdr_ok h" "ih_FileOffsetBits h = 30"
  shows "loadEntriesV1_loop (length es) (length pre)
           (pre @ concat (map (\<lambda>e. writeEntryV1 e v1_fields) es) @ post) h = Ret (map trim_entry es)"
  using assms(1)
proof (induction es arbitrary: pre)
  case (Cons e es)
  have L: "ih_EntryLength h = 18" using assms(2) by (simp add: hdr_ok_def)
  have len: "length (writeEntryV1 e v1_fields) = 18"
    using Cons.prems by (simp add: length_writeEntryV1 entry_fits_def)
  have "decodeEntry (writeEntryV1 e v1_fields) h = Ret (trim_entry e)"
    using decodeEntry_writeEntryV1 [of e h "[]"] Cons.prems assms(2,3) by simp
  moreover have "loadEntriesV1_loop (length es) (length (pre @ writeEntryV1 e v1_fields))
      ((pre @ writeEntryV1 e v1_fields) @ concat (map (\<lambda>e. writeEntryV1 e v1_fields) es) @ post) h =
      Ret (map trim_entry es)"
    using Cons.prems by (intro Cons.IH) simp
  ultimately show ?case
    by (simp add: L len)
qed simp

lemma length_concat_writeEntryV1:
  "\<forall>e\<in>set es. key_ok (ee_EKey e) \<Longrightarrow>
   length (concat (map (\<lambda>e. writeEntryV1 e v1_fields) es)) = length es * 18"
  by (induction es) (simp_all add: length_writeEntryV1)

section \<open>Reading what was written\<close>

lemma length_v1_header [simp]: "length (v1_header b seg n1 n2 k1 k2) = 44"
  by (simp add: v1_header_def)

lemma parseHeaderV1_written:
  assumes "n1 < 2 ^ 32" "n2 < 2 ^ 32" "length body1 = n1 * 18" "length body2 = n2 * 18"
  shows "parseHeaderV1 (v1_header b seg n1 n2 (HashLittle body1 0) (HashLittle body2 0) @
           putLE32 (HashLittle (v1_header b seg n1 n2 (HashLittle body1 0) (HashLittle body2 0) @ putLE32 0) 0) @
           body1 @ body2) b =
         Ret \<lparr>ih_IndexVersion = 5, ih_BucketIndex = b, ih_StorageOffsetLength = 5,
           ih_EncodedSizeLength = 4, ih_EKeyLength = 9, ih_FileOffsetBits = 30, ih_SegmentSize = seg,
           ih_HeaderLength = 48, ih_HeaderPadding = 0, ih_EntryLength = 18,
           ih_EKeyCount = word_of_nat (n1 + n2)\<rparr>"
proof -
  let ?h = "v1_header b seg n1 n2 (HashLittle body1 0) (HashLittle body2 0)"
  let ?c = "putLE32 (HashLittle (?h @ putLE32 0) 0)"
  have n: "unat (word_of_nat n1 :: u32) = n1" "unat (word_of_nat n2 :: u32) = n2"
    using assms(1,2) by (simp_all add: unat_of_nat)
  have z: "put_at 44 (putLE32 0) (?h @ ?c) = ?h @ putLE32 0"
    by (simp add: put_at_def)
  have "take 48 (?h @ ?c @ body1 @ body2) = ?h @ ?c"
    "take 4 (drop 44 (?h @ ?c @ body1 @ body2)) = ?c"
    "take (n1 * 18) (drop 48 (?h @ ?c @ body1 @ body2)) = body1"
    "take (n2 * 18) (drop (48 + n1 * 18) (?h @ ?c @ body1 @ body2)) = body2"
    using assms(3,4) by simp_all
  moreover have "take 4 (drop 28 (?h @ r)) = putLE32 (word_of_nat n1)"
    "take 4 (drop 32 (?h @ r)) = putLE32 (word_of_nat n2)"
    "take 4 (drop 36 (?h @ r)) = putLE32 (HashLittle body1 0)"
    "take 4 (drop 40 (?h @ r)) = putLE32 (HashLittle body2 0)"
    "take 8 (drop 8 (?h @ r)) = putLE64 0x40000000"
    "take 8 (drop 16 (?h @ r)) = putLE64 seg"
    "take 2 (?h @ r) = putLE16 5"
    "(?h @ r) ! 2 = b" "(?h @ r) ! 24 = 4" "(?h @ r) ! 25 = 5" "(?h @ r) ! 26 = 9" "(?h @ r) ! 27 = 30" for r
    by (simp_all add: v1_header_def nth_append)
  ultimately show ?thesis
    using assms n
    by (simp add: parseHeaderV1_def Let_def z del: take_append drop_append)
qed

lemma set_index_sort [simp]: "set (index_sort es) = set es"
  by (simp add: index_sort_def)

lemma length_index_sort [simp]: "length (index_sort es) = length es"
  by (simp add: index_sort_def)

text \<open>The V2 reader, which is tried first, rejects a V1 file: its ninth and tenth bytes are zero.\<close>

lemma parseHeaderV2_written: "parseHeaderV2 (EncodeV1 es opts) b \<noteq> Ret h"
proof
  assume "parseHeaderV2 (EncodeV1 es opts) b = Ret h"
  then obtain payload n where p: "captureGuardedBlock1 (EncodeV1 es opts) = Ret payload"
    and "rdLE16 payload 0 2 = Ret 7" "16 \<le> length payload"
    by (auto simp: parseHeaderV2_def Let_def bnd_eq_Ret guard_eq_Ret)
  then have le: "(word_of_nat (le_val (take 2 payload)) :: u16) = 7"
    by simp
  from p obtain m where "payload = take m (drop 8 (EncodeV1 es opts))"
    by (auto simp: captureGuardedBlock1_def Let_def bnd_eq_Ret guard_eq_Ret subslice_eq_Ret)
  moreover have "2 \<le> m"
    using calculation \<open>16 \<le> length payload\<close> by simp
  ultimately have "take 2 payload = take 2 (drop 8 (EncodeV1 es opts))"
    by (simp add: min_def)
  also have "\<dots> = [0, 0]"
    by (simp add: EncodeV1_def v1_header_def Let_def putLE64_def le_bytes_numeral)
  finally show False using le by simp
qed

lemma index_readback:
  assumes "\<forall>e\<in>set es. entry_fits e" "length es < 2 ^ 32"
  shows "index_Parse (EncodeV1 es opts) (iw_BucketIndex opts) =
    Ret \<lparr>if_Header = \<lparr>ih_IndexVersion = 5, ih_BucketIndex = iw_BucketIndex opts,
            ih_StorageOffsetLength = 5, ih_EncodedSizeLength = 4, ih_EKeyLength = 9,
            ih_FileOffsetBits = 30,
            ih_SegmentSize = (if iw_SegmentSize opts = 0 then 0x40000000 else iw_SegmentSize opts),
            ih_HeaderLength = 48, ih_HeaderPadding = 0, ih_EntryLength = 18,
            ih_EKeyCount = word_of_nat (length es)\<rparr>,
         if_Entries = map trim_entry (index_sort es)\<rparr>"
proof -
  let ?s = "index_sort es"
  let ?w = "\<lambda>e. writeEntryV1 e v1_fields"
  define n where "n = block1_count opts ?s"
  have n: "n \<le> length ?s"
    by (auto simp: n_def block1_count_def)
  have keys: "\<forall>e\<in>set ?s. key_ok (ee_EKey e)"
    using assms(1) by (simp add: entry_fits_def)
  let ?b1 = "concat (map ?w (take n ?s))" and ?b2 = "concat (map ?w (drop n ?s))"
  have len: "length ?b1 = n * 18" "length ?b2 = (length ?s - n) * 18"
    using n keys by (subst length_concat_writeEntryV1; force dest: in_set_takeD in_set_dropD)+
  have cat: "?b1 @ ?b2 = concat (map ?w ?s)"
    by (metis append_take_drop_id concat_append map_append)
  let ?seg = "if iw_SegmentSize opts = 0 then 0x40000000 else iw_SegmentSize opts"
  let ?h = "v1_header (iw_BucketIndex opts) ?seg n (length ?s - n) (HashLittle ?b1 0) (HashLittle ?b2 0)"
  let ?c = "putLE32 (HashLittle (?h @ putLE32 0) 0)"
  have out: "EncodeV1 es opts = ?h @ ?c @ ?b1 @ ?b2"
    by (simp add: EncodeV1_def Let_def n_def)
  let ?hdr = "\<lparr>ih_IndexVersion = 5, ih_BucketIndex = iw_BucketIndex opts,
            ih_StorageOffsetLength = 5, ih_EncodedSizeLength = 4, ih_EKeyLength = 9,
            ih_FileOffsetBits = 30, ih_SegmentSize = ?seg,
            ih_HeaderLength = 48, ih_HeaderPadding = 0, ih_EntryLength = 18,
            ih_EKeyCount = word_of_nat (n + (length ?s - n))\<rparr>"
  have hdr: "parseHeaderV1 (EncodeV1 es opts) (iw_BucketIndex opts) = Ret ?hdr"
    unfolding out using assms(2) n len by (intro parseHeaderV1_written) auto
  have "loadEntriesV1_loop (length ?s) (length (?h @ ?c)) ((?h @ ?c) @ concat (map ?w ?s) @ []) ?hdr =
      Ret (map trim_entry ?s)"
    using assms(1) by (intro loadEntriesV1_loop_write) (simp_all add: hdr_ok_def)
  then have "loadEntriesV1 (EncodeV1 es opts) ?hdr = Ret (map trim_entry ?s)"
    using n assms(2) length_concat_writeEntryV1 [OF keys]
    by (simp add: out cat loadEntriesV1_def Let_def unat_of_nat guard_def del: of_nat_add)
  then show ?thesis
    using hdr n parseHeaderV2_written [of es opts] safe_parseHeaderV2 [of "EncodeV1 es opts"]
    by (auto simp: index_Parse_def index_parse_v1_def safe_def split: outcome.split)
qed

text \<open>
  C5. Parsing an .idx file written by EncodeV1 verifies its header and block hashes and returns
  the entries sorted by their first nine key bytes, each with its key trimmed to nine bytes and
  its archive index, offset and size unchanged, for entries whose fields fit the 10 and 30 bits
  they are given.
\<close>

theorem index_roundtrip:
  assumes "\<forall>e\<in>set es. entry_fits e" "length es < 2 ^ 32"
  shows "index_Parse (EncodeV1 es opts) (iw_BucketIndex opts) =
    Ret \<lparr>if_Header = \<lparr>ih_IndexVersion = 5, ih_BucketIndex = iw_BucketIndex opts,
            ih_StorageOffsetLength = 5, ih_EncodedSizeLength = 4, ih_EKeyLength = 9,
            ih_FileOffsetBits = 30,
            ih_SegmentSize = (if iw_SegmentSize opts = 0 then 0x40000000 else iw_SegmentSize opts),
            ih_HeaderLength = 48, ih_HeaderPadding = 0, ih_EntryLength = 18,
            ih_EKeyCount = word_of_nat (length es)\<rparr>,
         if_Entries = map trim_entry (index_sort es)\<rparr>"
  by (rule index_readback [OF assms])

theorem index_roundtrip_witness:
  "if_Entries (case index_Parse (EncodeV1
      [\<lparr>ee_EKey = replicate 16 3, ee_ArchiveIndex = 1, ee_ArchiveOffs = 64, ee_EncodedSize = 100\<rparr>,
       \<lparr>ee_EKey = replicate 16 2, ee_ArchiveIndex = 0, ee_ArchiveOffs = 0, ee_EncodedSize = 50\<rparr>]
      \<lparr>iw_BucketIndex = 7, iw_SegmentSize = 0, iw_Block1Count = 1\<rparr>) 7 of Ret f \<Rightarrow> f) =
    map trim_entry
      [\<lparr>ee_EKey = replicate 16 2, ee_ArchiveIndex = 0, ee_ArchiveOffs = 0, ee_EncodedSize = 50\<rparr>,
       \<lparr>ee_EKey = replicate 16 3, ee_ArchiveIndex = 1, ee_ArchiveOffs = 64, ee_EncodedSize = 100\<rparr>]"
proof -
  let ?a = "\<lparr>ee_EKey = replicate 16 3, ee_ArchiveIndex = 1, ee_ArchiveOffs = 64, ee_EncodedSize = 100\<rparr>"
  let ?b = "\<lparr>ee_EKey = replicate 16 2, ee_ArchiveIndex = 0, ee_ArchiveOffs = 0, ee_EncodedSize = 50\<rparr>"
  have srt: "index_sort [?a, ?b] = [?b, ?a]"
    by (simp add: index_sort_def sort_slice_def ekeyLess_def upt_rec)
  show ?thesis
    using index_roundtrip [of "[?a, ?b]" "\<lparr>iw_BucketIndex = 7, iw_SegmentSize = 0, iw_Block1Count = 1\<rparr>"]
    by (simp add: entry_fits_def key_ok_def MD5HashSize_def srt)
qed

end
