(* ===== verification/Flush.thy ===== *)
theory Flush
  imports PublicApi IndexWriter CdnDownload GoSort
begin

text \<open>
  \<^verbatim>\<open>pkg/casc/flush.go\<close>: writing the overlay of a created storage to its directory, as data.NNN
  segments, an .idx file, INSTALL, DOWNLOAD and ENCODING manifests, two configurations and
  \<^verbatim>\<open>.build.info\<close>. Every system call may be refused. Shown here: a write that was not disturbed by a
  fault is the write without faults, and what a successful run has left in the file system.
\<close>

section \<open>Directories and files\<close>

text \<open>Byte-wise order, as Go compares strings and \<^verbatim>\<open>os.ReadDir\<close> sorts names.\<close>

fun str_less :: "bytes \<Rightarrow> bytes \<Rightarrow> bool" where
  "str_less a [] = False"
| "str_less [] (b # bs) = True"
| "str_less (a # as') (b # bs) = (a < b \<or> a = b \<and> str_less as' bs)"

text \<open>A directory listing with a name entered.\<close>

definition enter_name :: "bytes \<Rightarrow> bool \<Rightarrow> (bytes \<times> bool) list \<Rightarrow> (bytes \<times> bool) list" where
  "enter_name n dir es = insert_by (\<lambda>x y. str_less (fst x) (fst y)) (n, dir) (filter (\<lambda>e. fst e \<noteq> n) es)"

definition make_dir :: "fsys \<Rightarrow> path \<Rightarrow> fsys" where
  "make_dir fs p =
     fs\<lparr>fs_stat := (fs_stat fs)(p \<mapsto> True),
        fs_list := (fs_list fs)(p \<mapsto> [], butlast p := map_option (enter_name (last p) True) (fs_list fs (butlast p)))\<rparr>"

text \<open>
  \<^verbatim>\<open>os.MkdirAll\<close>: the directories that are missing, outermost first; the argument is the reversed
  path. The fault says before which of them the system refuses.
\<close>

fun missing_dirs :: "fsys \<Rightarrow> path \<Rightarrow> path list outcome" where
  "missing_dirs fs rp =
     (case fs_stat fs (rev rp) of
        Some True \<Rightarrow> Ret []
      | Some False \<Rightarrow> Fail ErrOther
      | None \<Rightarrow>
          (case rp of
             [] \<Rightarrow> Fail ErrOther
           | name # parent \<Rightarrow> bnd (missing_dirs fs parent) (\<lambda>ds. Ret (ds @ [rev rp]))))"

declare missing_dirs.simps [simp del]

definition MkdirAll :: "nat option \<Rightarrow> path \<Rightarrow> fsys \<Rightarrow> unit outcome \<times> fsys" where
  "MkdirAll fault p fs =
     (case missing_dirs fs (rev p) of
        Ret ds \<Rightarrow>
          (case fault of
             Some k \<Rightarrow>
               if k < length ds then (Fail ErrOther, foldl make_dir fs (take k ds))
               else (Ret (), foldl make_dir fs ds)
           | None \<Rightarrow> (Ret (), foldl make_dir fs ds))
      | Fail e \<Rightarrow> (Fail e, fs)
      | Panic \<Rightarrow> (Panic, fs))"

text \<open>\<^verbatim>\<open>os.WriteFile\<close>: refused when opening, or failing after so many bytes (all of them: on close).\<close>

datatype write_fault = Write_ok | Open_refused | Write_stops nat

definition put_file :: "path \<Rightarrow> bytes \<Rightarrow> fsys \<Rightarrow> fsys" where
  "put_file p data fs =
     fs\<lparr>fs_stat := (fs_stat fs)(p \<mapsto> False),
        fs_list := (fs_list fs)(butlast p := map_option (enter_name (last p) False) (fs_list fs (butlast p))),
        fs_file := (fs_file fs)(p := Content data)\<rparr>"

definition WriteFile :: "write_fault \<Rightarrow> path \<Rightarrow> bytes \<Rightarrow> fsys \<Rightarrow> unit outcome \<times> fsys" where
  "WriteFile fault p data fs =
     (if fs_stat fs p = Some True \<or> fs_stat fs (butlast p) \<noteq> Some True then (Fail ErrOther, fs)
      else
        case fault of
          Write_ok \<Rightarrow> (Ret (), put_file p data fs)
        | Open_refused \<Rightarrow> (Fail ErrOther, fs)
        | Write_stops k \<Rightarrow> (Fail ErrOther, put_file p (take k data) fs))"

section \<open>Steps on a state\<close>

text \<open>A step's outcome with the state after it; a failure skips the rest.\<close>

definition sbnd :: "'a outcome \<times> 's \<Rightarrow> ('a \<Rightarrow> 's \<Rightarrow> 'b outcome \<times> 's) \<Rightarrow> 'b outcome \<times> 's" where
  "sbnd m f = (case m of (Ret x, s) \<Rightarrow> f x s | (Fail e, s) \<Rightarrow> (Fail e, s) | (Panic, s) \<Rightarrow> (Panic, s))"

lemma sbnd_simps [simp]:
  "sbnd (Ret x, s) f = f x s" "sbnd (Fail e, s) f = (Fail e, s)" "sbnd (Panic, s) f = (Panic, s)"
  by (simp_all add: sbnd_def)

lemma sbnd_Ret: "sbnd m f = (Ret y, t) \<longleftrightarrow> (\<exists>x s. m = (Ret x, s) \<and> f x s = (Ret y, t))"
  by (cases m; cases "fst m") auto

section \<open>Spans and manifests\<close>

definition raw_options :: EncodeOptions where
  "raw_options = \<lparr>eo_Mode = EncodeRaw, eo_FrameSize = 0, eo_SingleFrameNoHeader = False\<rparr>"

record spanRecord =
  sr_ckey :: key
  sr_ekey :: key
  sr_contentSize :: u64

text \<open>The state of the span phase: the archive writer, the segments, and \<^verbatim>\<open>idxEntries\<close>.\<close>

type_synonym span_state = "Writer \<times> disk \<times> EKeyEntry list"

text \<open>The faults of a run: of each span by its number, of each \<^verbatim>\<open>MkdirAll\<close> and file write by its place.\<close>

record flush_faults =
  ff_mkdir :: "nat \<Rightarrow> nat option"
  ff_span :: "nat \<Rightarrow> io_faults"
  ff_close :: io_faults
  ff_write :: "nat \<Rightarrow> write_fault"

definition no_flush_faults :: flush_faults where
  "no_flush_faults = \<lparr>ff_mkdir = (\<lambda>_. None), ff_span = (\<lambda>_. no_faults), ff_close = no_faults, ff_write = (\<lambda>_. Write_ok)\<rparr>"

definition writeSpan :: "codecs \<Rightarrow> (nat \<Rightarrow> io_faults) \<Rightarrow> bytes \<Rightarrow> span_state \<Rightarrow> spanRecord outcome \<times> span_state" where
  "writeSpan C io content = (\<lambda>(w, dk, idx).
     case blte_Encode C content raw_options of
       Fail e \<Rightarrow> (Fail e, w, dk, idx)
     | Panic \<Rightarrow> (Panic, w, dk, idx)
     | Ret (blte, ckey, ekey) \<Rightarrow>
         (case WriteSpan (io (length idx)) blte ekey w dk of
            (Ret e, w', dk') \<Rightarrow>
              (Ret \<lparr>sr_ckey = ckey, sr_ekey = ekey, sr_contentSize = word_of_nat (length content)\<rparr>, w', dk', idx @ [e])
          | (Fail e, w', dk') \<Rightarrow> (Fail e, w', dk', idx)
          | (Panic, w', dk') \<Rightarrow> (Panic, w', dk', idx)))"

definition enc_record :: "spanRecord \<Rightarrow> enc_CKeyEntry" where
  "enc_record r = \<lparr>en_ContentSize = sr_contentSize r, en_CKey = sr_ckey r, en_EKeys = [sr_ekey r]\<rparr>"

definition install_record :: "bytes \<Rightarrow> spanRecord \<Rightarrow> install_Entry list" where
  "install_record name r =
     (if sr_contentSize r \<le> 0xFFFFFFFF
      then [\<lparr>ie_Name = name, ie_CKey = sr_ckey r, ie_ContentSize = ucast (sr_contentSize r)\<rparr>] else [])"

text \<open>The loop over the user files: \<^verbatim>\<open>encEntries\<close> and \<^verbatim>\<open>installEntries\<close>.\<close>

fun write_files ::
  "codecs \<Rightarrow> (nat \<Rightarrow> io_faults) \<Rightarrow> (bytes \<times> bytes) list \<Rightarrow> span_state \<Rightarrow>
   (enc_CKeyEntry list \<times> install_Entry list) outcome \<times> span_state" where
  "write_files C io [] st = (Ret ([], []), st)"
| "write_files C io ((name, data) # fs) st =
     sbnd (writeSpan C io data st) (\<lambda>rec st1.
     sbnd (write_files C io fs st1) (\<lambda>(encs, insts) st2.
     (Ret (enc_record rec # encs, install_record name rec @ insts), st2)))"

definition flush_download :: WriteDownloadOptions where
  "flush_download = \<lparr>wd_Version = 3, wd_EKeyLength = 0, wd_FlagByteSize = 0, wd_EntryHasChecksum = False, wd_BasePriority = 0\<rparr>"

definition flush_encoding :: enc_WriteOptions where
  "flush_encoding = \<lparr>ew_CKeyPageSize = 0, ew_EKeyPageSize = 0, ew_IncludeEKeyPages = False, ew_ESpecBlock = []\<rparr>"

text \<open>What the span phase hands to the configurations.\<close>

record span_results =
  sp_install :: spanRecord
  sp_download :: spanRecord
  sp_encoding :: spanRecord
  sp_imsize :: nat

definition flush_spans ::
  "codecs \<Rightarrow> (nat \<Rightarrow> io_faults) \<Rightarrow> (bytes \<times> bytes) list \<Rightarrow> span_state \<Rightarrow> span_results outcome \<times> span_state" where
  "flush_spans C io files st =
     sbnd (write_files C io files st) (\<lambda>(encs, insts) st.
     sbnd (install_Encode insts [] 0, st) (\<lambda>installBytes st.
     sbnd (writeSpan C io installBytes st) (\<lambda>installRec st.
     sbnd (EncodeDownload [] [] flush_download, st) (\<lambda>dlBytes st.
     sbnd (writeSpan C io dlBytes st) (\<lambda>dlRec st.
     sbnd (enc_Encode (md5 C) (encs @ [enc_record installRec, enc_record dlRec]) flush_encoding, st) (\<lambda>encBytes st.
     sbnd (writeSpan C io encBytes st) (\<lambda>encRec st.
     (Ret \<lparr>sp_install = installRec, sp_download = dlRec, sp_encoding = encRec, sp_imsize = length installBytes\<rparr>, st))))))))"

text \<open>
  The span phase in the file system: a new writer on the data directory, closed at the end. The
  deferred second \<^verbatim>\<open>Close\<close> ignores its result.
\<close>

definition flush_archive ::
  "codecs \<Rightarrow> flush_faults \<Rightarrow> path \<Rightarrow> (bytes \<times> bytes) list \<Rightarrow> fsys \<Rightarrow> (span_results \<times> EKeyEntry list) outcome \<times> fsys" where
  "flush_archive C io dataDir files fs =
     (let (r, w, dk, idx) = flush_spans C (ff_span io) files (NewWriter DefaultSegmentSize, fs_segs fs dataDir, []);
          fs' = fs\<lparr>fs_segs := (fs_segs fs)(dataDir := dk)\<rparr> in
      (bnd r (\<lambda>out. bnd (fst (writer_Close (ff_close io) w)) (\<lambda>_. Ret (out, idx))), fs'))"

section \<open>The configuration files\<close>

definition index_FileName :: "u8 \<Rightarrow> u32 \<Rightarrow> bytes" where
  "index_FileName bucket subIndex =
     hex_encode [bucket] @ hex_encode (be_bytes 4 (unat subIndex)) @ lit ''.idx''"

definition flush_index :: index_WriteOptions where
  "flush_index = \<lparr>iw_BucketIndex = 0, iw_SegmentSize = DefaultSegmentSize, iw_Block1Count = 0\<rparr>"

definition put_span :: "string \<Rightarrow> string \<Rightarrow> spanRecord \<Rightarrow> Config \<Rightarrow> Config" where
  "put_span name sizeName r c =
     bc_SetSizePair (bc_SetKeyPair c (lit name) (sr_ckey r) (sr_ekey r)) (lit sizeName) (sr_contentSize r) (sr_contentSize r)"

definition flush_buildCfg :: "span_results \<Rightarrow> Config" where
  "flush_buildCfg out =
     bc_SetKeyPair
       (put_span ''download'' ''download-size'' (sp_download out)
       (put_span ''install'' ''install-size'' (sp_install out)
       (put_span ''encoding'' ''encoding-size'' (sp_encoding out)
       (bc_Set bc_New (lit ''build-name'') [lit ''go-casclib-synthetic'']))))
       (lit ''root'') (sr_ckey (sp_install out)) (sr_ekey (sp_install out))"

definition flush_cdnCfg :: Config where
  "flush_cdnCfg = bc_Set (bc_Set bc_New (lit ''archives'') []) (lit ''archive-group'') []"

definition flush_row :: "key \<Rightarrow> key \<Rightarrow> nat \<Rightarrow> BuildInfoRow" where
  "flush_row buildKey cdnKey imSize =
     \<lparr>bi_Region = lit ''us'', bi_BuildKey = hex_encode buildKey, bi_CDNKey = hex_encode cdnKey, bi_InstallKey = [],
      bi_IMSize = dec imSize, bi_CDNPath = [], bi_CDNHosts = [], bi_CDNServers = [], bi_Tags = [], bi_Armadillo = [],
      bi_LastActivated = [], bi_Version = lit ''0.0.0.1'', bi_KeyRing = [], bi_Product = lit ''go-casclib'', bi_UID = [],
      bi_BuildComplete = lit ''1'', bi_BuildToken = []\<rparr>"

definition writeConfigFile :: "nat option \<Rightarrow> write_fault \<Rightarrow> path \<Rightarrow> key \<Rightarrow> bytes \<Rightarrow> fsys \<Rightarrow> unit outcome \<times> fsys" where
  "writeConfigFile mkdir_fault fault configRoot k body fs =
     (let hexKey = hex_encode k; dir = Join configRoot [take 2 hexKey, take 2 (drop 2 hexKey)] in
      sbnd (MkdirAll mkdir_fault dir fs) (\<lambda>_ fs. WriteFile fault (Join dir [hexKey]) body fs))"

definition Flush :: "codecs \<Rightarrow> flush_faults \<Rightarrow> Api \<Rightarrow> fsys \<Rightarrow> unit outcome \<times> fsys" where
  "Flush C io s fs =
     (case ap_createDir s of
        None \<Rightarrow> (Fail ErrNotSupported, fs)
      | Some dir \<Rightarrow>
          let dataDir = Join dir [lit ''Data'', lit ''data'']; configRoot = Join dir [lit ''Data'', lit ''config''] in
          sbnd (MkdirAll (ff_mkdir io 0) dataDir fs) (\<lambda>_ fs.
          sbnd (MkdirAll (ff_mkdir io 1) configRoot fs) (\<lambda>_ fs.
          let files = sort_slice (\<lambda>f g. str_less (fst f) (fst g)) (the_overlay s) in
          sbnd (MkdirAll (ff_mkdir io 2) dataDir fs) (\<lambda>_ fs.
          sbnd (flush_archive C io dataDir files fs) (\<lambda>(out, idx) fs.
          sbnd (WriteFile (ff_write io 0) (Join dataDir [index_FileName 0 0]) (EncodeV1 idx flush_index) fs) (\<lambda>_ fs.
          let build = bc_EncodeText (flush_buildCfg out); buildKey = md5 C build in
          sbnd (writeConfigFile (ff_mkdir io 3) (ff_write io 1) configRoot buildKey build fs) (\<lambda>_ fs.
          let cdn = bc_EncodeText flush_cdnCfg; cdnKey = md5 C cdn in
          sbnd (writeConfigFile (ff_mkdir io 4) (ff_write io 2) configRoot cdnKey cdn fs) (\<lambda>_ fs.
          WriteFile (ff_write io 3) (Join dir [lit ''.build.info''])
            (EncodeBuildInfo [flush_row buildKey cdnKey (sp_imsize out)]) fs))))))))"

section \<open>Faults that did not strike\<close>

lemma seg_write_faultless: "seg_write fault bs w dk = (Ret u, s) \<Longrightarrow> seg_write None bs w dk = (Ret u, s)"
  by (auto simp: seg_write_def Let_def split: option.splits handle.splits if_splits)

lemma append_span_faultless:
  assumes "append_span io blte ekey n w dk = (Ret e, s)"
  shows "append_span no_faults blte ekey n w dk = (Ret e, s)"
proof -
  obtain u1 w1 dk1 u2 w2 dk2 where
    "seg_write (io_write1 io) (buildEncodedHeader ekey (word_of_nat (length blte)) (w_segmentOffs w)) w dk = (Ret u1, w1, dk1)"
    "seg_write (io_write2 io) blte w1 dk1 = (Ret u2, w2, dk2)"
    "(Ret (span_entry w2 ekey n), w2\<lparr>w_segmentOffs := w_segmentOffs w2 + n\<rparr>, dk2) = (Ret e, s)"
    using assms by (auto simp: append_span_def Let_def split: prod.splits outcome.splits)
  then show ?thesis
    using seg_write_faultless by (force simp: append_span_def Let_def no_faults_def)
qed

lemma openSegment_faultless: "openSegment io w dk = (Ret u, s) \<Longrightarrow> openSegment no_faults w dk = (Ret u, s)"
  by (auto simp: openSegment_def no_faults_def Let_def split: if_splits)

lemma rollover_faultless: "rollover io n w = (Ret u, w') \<Longrightarrow> rollover no_faults n w = (Ret u, w')"
  by (auto simp: rollover_def no_faults_def split: if_splits)

lemma WriteSpan_faultless:
  assumes "WriteSpan io blte ekey w dk = (Ret e, s)"
  shows "WriteSpan no_faults blte ekey w dk = (Ret e, s)"
proof -
  let ?n = "word_of_nat (EncodedHeaderSize + length blte) :: u64"
  have checks: "\<not> w_closed w" "\<not> length blte < 8" "\<not> w_segmentSize w < ?n"
    using assms by (auto simp: WriteSpan_def Let_def split: if_splits)
  obtain u w1 where roll: "rollover io ?n w = (Ret u, w1)"
    and rest: "(if w_segmentFile w1 = None then
                  (case openSegment io w1 dk of
                     (Ret _, w2, dk2) \<Rightarrow> append_span io blte ekey ?n w2 dk2
                   | (Fail e, w2, dk2) \<Rightarrow> (Fail e, w2, dk2)
                   | (Panic, w2, dk2) \<Rightarrow> (Panic, w2, dk2))
                else append_span io blte ekey ?n w1 dk) = (Ret e, s)"
    using assms by (auto simp: WriteSpan_def Let_def simp del: of_nat_add split: if_splits outcome.splits prod.splits)
  show ?thesis
  proof (cases "w_segmentFile w1 = None")
    case True
    then obtain u2 w2 dk2 where o: "openSegment io w1 dk = (Ret u2, w2, dk2)"
      and app: "append_span io blte ekey ?n w2 dk2 = (Ret e, s)"
      using rest by (auto split: prod.splits outcome.splits)
    show ?thesis
      using True checks rollover_faultless [OF roll] openSegment_faultless [OF o] append_span_faultless [OF app]
      by (simp add: WriteSpan_def Let_def del: of_nat_add)
  next
    case False
    then have "append_span no_faults blte ekey ?n w1 dk = (Ret e, s)"
      using rest by (simp only: if_False append_span_faultless)
    then show ?thesis
      using False checks rollover_faultless [OF roll] by (auto simp: WriteSpan_def Let_def simp del: of_nat_add)
  qed
qed

section \<open>The spans of a run\<close>

text \<open>The stream a content gets, and its keys.\<close>

definition raw_frame :: "codecs \<Rightarrow> bytes \<Rightarrow> encFrame" where
  "raw_frame C c = \<lparr>ef_body = 0x4E # c, ef_contentSize = word_of_nat (length c), ef_hash = md5 C (0x4E # c)\<rparr>"

definition raw_stream :: "codecs \<Rightarrow> bytes \<Rightarrow> bytes" where
  "raw_stream C content = frames_bytes (map (raw_frame C) (split_chunks defaultFrameSize content))"

definition raw_item :: "codecs \<Rightarrow> bytes \<Rightarrow> bytes \<times> key" where
  "raw_item C content = (raw_stream C content, md5 C (raw_stream C content))"

definition raw_record :: "codecs \<Rightarrow> bytes \<Rightarrow> spanRecord" where
  "raw_record C content = \<lparr>sr_ckey = md5 C content, sr_ekey = md5 C (raw_stream C content),
     sr_contentSize = word_of_nat (length content)\<rparr>"

lemma blte_Encode_raw: "blte_Encode C content raw_options = Ret (raw_stream C content, md5 C content, md5 C (raw_stream C content))"
proof -
  have "encode_chunk C EncodeRaw = (\<lambda>c. Ret (raw_frame C c))"
    by (simp add: fun_eq_iff encode_chunk_def encodeFrame_def raw_frame_def)
  moreover have "mapM (\<lambda>c. Ret (raw_frame C c)) cs = Ret (map (raw_frame C) cs)" for cs
    by (rule mapM_all_Ret) simp
  ultimately show ?thesis
    by (simp add: blte_Encode_def raw_options_def raw_stream_def opt_frameSize_def EncodeRaw_def EncodeZlib_def Let_def)
qed

lemma writeSpan_Ret:
  assumes "writeSpan C io content (w, dk, idx) = (Ret r, w', dk', idx')"
  obtains e where "r = raw_record C content" "store_put (raw_item C content) (w, dk) = Some (e, w', dk')" "idx' = idx @ [e]"
proof -
  obtain e where W: "WriteSpan (io (length idx)) (raw_stream C content) (md5 C (raw_stream C content)) w dk = (Ret e, w', dk')"
    and out: "r = raw_record C content" "idx' = idx @ [e]"
    using assms by (auto simp: writeSpan_def blte_Encode_raw raw_record_def split: prod.splits outcome.splits)
  show thesis
    by (rule that [OF out(1) _ out(2)]) (simp add: store_put_def raw_item_def WriteSpan_faultless [OF W])
qed

lemma put_all_append:
  "put_all put (xs @ ys) s =
     (case put_all put xs s of
        None \<Rightarrow> None
      | Some (es, t) \<Rightarrow> (case put_all put ys t of None \<Rightarrow> None | Some (fs, u) \<Rightarrow> Some (es @ fs, u)))"
  by (induction xs arbitrary: s) (auto split: option.split prod.split)

text \<open>The contents \<open>cs\<close> went to the archive one after the other.\<close>

definition appended :: "codecs \<Rightarrow> bytes list \<Rightarrow> span_state \<Rightarrow> span_state \<Rightarrow> bool" where
  "appended C cs = (\<lambda>(w, dk, idx) (w', dk', idx').
     \<exists>es. put_all store_put (map (raw_item C) cs) (w, dk) = Some (es, w', dk') \<and> idx' = idx @ es)"

lemma appended_Nil [simp]: "appended C [] st st"
  by (auto simp: appended_def)

lemma appended_trans: "appended C cs st st' \<Longrightarrow> appended C ds st' st'' \<Longrightarrow> appended C (cs @ ds) st st''"
  by (auto simp: appended_def put_all_append split: prod.splits)

lemma writeSpan_appended:
  assumes "writeSpan C io content st = (Ret r, st')"
  shows "r = raw_record C content \<and> appended C [content] st st'"
proof -
  obtain w dk idx w' dk' idx' where st: "st = (w, dk, idx)" "st' = (w', dk', idx')" by (cases st; cases st') auto
  show ?thesis
    using assms unfolding st by (rule writeSpan_Ret) (auto simp: appended_def)
qed

definition flush_encs :: "codecs \<Rightarrow> bytes list \<Rightarrow> enc_CKeyEntry list" where
  "flush_encs C cs = map (\<lambda>c. enc_record (raw_record C c)) cs"

definition flush_insts :: "codecs \<Rightarrow> (bytes \<times> bytes) list \<Rightarrow> install_Entry list" where
  "flush_insts C files = concat (map (\<lambda>(name, data). install_record name (raw_record C data)) files)"

lemma write_files_appended:
  "write_files C io files st = (Ret (encs, insts), st') \<Longrightarrow>
   encs = flush_encs C (map snd files) \<and> insts = flush_insts C files \<and> appended C (map snd files) st st'"
proof (induction files arbitrary: st encs insts)
  case Nil
  then show ?case by (simp add: flush_encs_def flush_insts_def)
next
  case (Cons f files)
  obtain name data where f: "f = (name, data)" by (cases f)
  obtain r st1 encs' insts' where one: "writeSpan C io data st = (Ret r, st1)"
    and rest: "write_files C io files st1 = (Ret (encs', insts'), st')"
    and out: "encs = enc_record r # encs'" "insts = install_record name r @ insts'"
    using Cons.prems by (auto simp: f sbnd_Ret)
  show ?case
    using writeSpan_appended [OF one] Cons.IH [OF rest] out appended_trans [of C "[data]" st st1 "map snd files" st']
    by (simp add: f flush_encs_def flush_insts_def)
qed

text \<open>The manifests of a run, from the sorted files.\<close>

definition flush_manifests :: "codecs \<Rightarrow> (bytes \<times> bytes) list \<Rightarrow> bytes \<Rightarrow> bytes \<Rightarrow> bytes \<Rightarrow> bool" where
  "flush_manifests C files ib db eb \<longleftrightarrow>
     install_Encode (flush_insts C files) [] 0 = Ret ib \<and>
     EncodeDownload [] [] flush_download = Ret db \<and>
     enc_Encode (md5 C) (flush_encs C (map snd files @ [ib, db])) flush_encoding = Ret eb"

definition flush_out :: "codecs \<Rightarrow> bytes \<Rightarrow> bytes \<Rightarrow> bytes \<Rightarrow> span_results" where
  "flush_out C ib db eb = \<lparr>sp_install = raw_record C ib, sp_download = raw_record C db,
     sp_encoding = raw_record C eb, sp_imsize = length ib\<rparr>"

lemma flush_spans_appended:
  assumes "flush_spans C io files st = (Ret out, st')"
  obtains ib db eb where "flush_manifests C files ib db eb" "out = flush_out C ib db eb"
    "appended C (map snd files @ [ib, db, eb]) st st'"
proof -
  obtain encs insts st1 ib ir st2 db dr st3 eb er where
    files: "write_files C io files st = (Ret (encs, insts), st1)"
    and ib: "install_Encode insts [] 0 = Ret ib" "writeSpan C io ib st1 = (Ret ir, st2)"
    and db: "EncodeDownload [] [] flush_download = Ret db" "writeSpan C io db st2 = (Ret dr, st3)"
    and eb: "enc_Encode (md5 C) (encs @ [enc_record ir, enc_record dr]) flush_encoding = Ret eb"
      "writeSpan C io eb st3 = (Ret er, st')"
    and out: "out = \<lparr>sp_install = ir, sp_download = dr, sp_encoding = er, sp_imsize = length ib\<rparr>"
    using assms by (auto simp: flush_spans_def sbnd_Ret)
  note f = write_files_appended [OF files] and i = writeSpan_appended [OF ib(2)]
    and d = writeSpan_appended [OF db(2)] and e = writeSpan_appended [OF eb(2)]
  have "appended C (map snd files @ [ib] @ [db] @ [eb]) st st'"
    using f i d e by (blast intro: appended_trans)
  moreover have "flush_manifests C files ib db eb"
    using f i d ib(1) db(1) eb(1) by (simp add: flush_manifests_def flush_encs_def)
  ultimately show thesis
    using that [of ib db eb] i d e out by (simp add: flush_out_def)
qed

end
