(* ===== verification/StorageLaws.thy ===== *)
theory StorageLaws
  imports CascStorage IndexWriter
begin

text \<open>
  The storage of \<^verbatim>\<open>internal/storage\<close> does what it should: the key map answers with the first entry
  of the loaded indexes, opening a directory does not panic outside the archives, and the cache of
  CDN blobs changes no result.
\<close>

section \<open>Paths\<close>

text \<open>A name that \<^verbatim>\<open>filepath.Join\<close> takes as it is.\<close>

definition plain_name :: "bytes \<Rightarrow> bool" where
  "plain_name n \<longleftrightarrow> 0x2F \<notin> set n \<and> n \<noteq> [] \<and> n \<noteq> lit ''.'' \<and> n \<noteq> lit ''..''"

lemma split_from_none: "sep \<notin> set s \<Longrightarrow> split_from sep cur s = [cur @ s]"
  by (induction s arbitrary: cur) auto

lemma Join_Nil [simp]: "Join p [] = p"
  by (simp add: Join_def)

lemma Join_plain: "list_all plain_name ns \<Longrightarrow> Join p ns = p @ ns"
proof (induction ns arbitrary: p)
  case (Cons n ns)
  have "Join p (n # ns) = Join (p @ [n]) ns"
    using Cons.prems by (simp add: Join_def splitLine_def split_from_none plain_name_def path_step_def)
  then show ?case using Cons by simp
qed simp

lemma plain_name_hex:
  assumes "bs \<noteq> []"
  shows "plain_name (hex_encode bs)"
proof -
  have "list_all (\<lambda>n. hex_digit n \<noteq> 0x2F \<and> hex_digit n \<noteq> 0x2E) [0..<16]" by code_simp
  then have digit: "hex_digit n \<noteq> 0x2F \<and> hex_digit n \<noteq> 0x2E" if "n < 16" for n
    using that by (simp add: list_all_iff)
  have "0x2F \<notin> set (hex_encode xs) \<and> 0x2E \<notin> set (hex_encode xs)" for xs
  proof (induction xs)
    case (Cons b xs)
    have "unat b div 16 < 16" using unat_u8_lt [of b] by simp
    then show ?case using Cons digit [of "unat b div 16"] digit [of "unat b mod 16"] by auto
  qed simp
  note chars = this [of bs]
  moreover have "hex_encode bs \<noteq> []" using assms by (cases bs) auto
  moreover have "lit ''.'' = [0x2E]" "lit ''..'' = [0x2E, 0x2E]" by (simp_all add: lit_def)
  ultimately show ?thesis by (auto simp: plain_name_def)
qed

lemma ekeyHex_hex_encode: "ekeyHex e = hex_encode e"
proof (induction e)
  case (Cons b e)
  have "list_all (\<lambda>n. lit ''0123456789abcdef'' ! n = hex_digit n) [0..<16]" by code_simp
  then have digit: "lit ''0123456789abcdef'' ! n = hex_digit n" if "n < 16" for n
    using that by (simp add: list_all_iff)
  have "unat b div 16 < 16" using unat_u8_lt [of b] by simp
  moreover have "unat (drop_bit 4 b) = unat b div 16"
    by (simp add: unat_drop_bit_eq drop_bit_eq_div unat_div)
  moreover have "unat (b AND 0x0F) = unat b mod 16"
  proof -
    have "b AND 0x0F = take_bit 4 b" by (simp add: take_bit_eq_mask mask_eq_exp_minus_1)
    then show ?thesis by (simp add: unsigned_take_bit_eq take_bit_eq_mod unat_mod)
  qed
  ultimately show ?case using Cons by (simp add: digit Let_def)
qed simp

section \<open>The key map\<close>

lemma add_ekeys: "foldl add_ekey m es k =
    (case m k of Some e \<Rightarrow> Some e | None \<Rightarrow> find (\<lambda>e. EKeyOf (ee_EKey e) = k) es)"
proof (induction es arbitrary: m)
  case (Cons e es)
  then show ?case by (auto simp: add_ekey_def Let_def split: option.split)
qed (simp split: option.split)

lemma find_append:
  "find P (xs @ ys) = (case find P xs of Some x \<Rightarrow> Some x | None \<Rightarrow> find P ys)"
  by (induction xs) auto

lemma FindByEKey_first:
  "FindByEKey (buildEKeyMap s) e =
     find (\<lambda>x. EKeyOf (ee_EKey x) = EKeyOf e) (concat (map if_Entries (st_Indexes s)))"
proof -
  have "foldl (\<lambda>m idx. foldl add_ekey m (if_Entries idx)) m idxs k =
      (case m k of Some e \<Rightarrow> Some e | None \<Rightarrow> find (\<lambda>x. EKeyOf (ee_EKey x) = k) (concat (map if_Entries idxs)))"
    for m k idxs
    by (induction idxs arbitrary: m) (auto simp: add_ekeys find_append split: option.splits)
  from this [of "\<lambda>_. None" "st_Indexes s" "EKeyOf e"] show ?thesis
    by (simp add: FindByEKey_def buildEKeyMap_def)
qed

section \<open>The cache\<close>

definition cache_path_of :: "path \<Rightarrow> key \<Rightarrow> path" where
  "cache_path_of dir e = dir @ [take 2 (hex_encode e), take 2 (drop 2 (hex_encode e)), hex_encode e]"

lemma hex_encode_inject: "hex_encode a = hex_encode b \<longleftrightarrow> a = b"
proof
  assume "hex_encode a = hex_encode b"
  then have "hex_decode (hex_encode a) = hex_decode (hex_encode b)" by simp
  then show "a = b" by simp
qed simp

lemma cachePath_key:
  assumes "key_ok e"
  shows "cachePath dir (ekeyHex e) = cache_path_of dir e"
proof -
  obtain a b r where e: "e = a # b # r"
    using assms by (cases e; cases "tl e") (auto simp: key_ok_def MD5HashSize_def)
  have parts: "take 2 (hex_encode e) = hex_encode [a]" "take 2 (drop 2 (hex_encode e)) = hex_encode [b]"
    by (simp_all add: e)
  have "Join dir [hex_encode [a], hex_encode [b], hex_encode e] = dir @ [hex_encode [a], hex_encode [b], hex_encode e]"
    using plain_name_hex [of e] plain_name_hex [of "[a]"] plain_name_hex [of "[b]"] e
    by (intro Join_plain) simp
  moreover have "length (hex_encode e) = 32" using assms by (simp add: key_ok_def MD5HashSize_def)
  ultimately show ?thesis
    unfolding cachePath_def ekeyHex_hex_encode cache_path_of_def parts by simp
qed

lemma cache_path_inject: "cache_path_of dir e = cache_path_of dir e' \<longleftrightarrow> e = e'"
  by (auto simp: cache_path_of_def hex_encode_inject)

text \<open>The fetch when no archive holds the key: the blob comes from the cache or from the network.\<close>

definition flat_key :: "Storage \<Rightarrow> key \<Rightarrow> bool" where
  "flat_key s e \<longleftrightarrow> Option.bind (st_CDNArchives s) (\<lambda>archives. aset_Lookup archives e) = None"

text \<open>
  C36. Once the blob of a key that no archive index holds was fetched with a cache directory
  set, and the cache file was written without an error of the operating system, the same key is
  served with the same content whatever the network answers afterwards, and nothing is written
  again.
\<close>

theorem cache_offline:
  assumes "fetchByEKeyViaArchives rt http no_cache_faults e s fs = (Ret content, fs')"
    and "flat_key s e" "so_CacheDir (st_opts s) = Some dir" "key_ok e"
  shows "fetchByEKeyViaArchives rt http' io' e s fs' = (Ret content, fs')"
proof -
  obtain c where c: "st_CDN s = Some c"
    using assms(1) by (cases "st_CDN s") (simp_all add: fetchByEKeyViaArchives_def)
  show ?thesis
  proof (cases "\<exists>b. cacheRead fs s (ekeyHex e) = Ret b")
    case True
    then show ?thesis
      using assms(1,2) c by (auto simp: fetchByEKeyViaArchives_def flat_key_def)
  next
    case False
    then obtain body where body: "client_Fetch (rt_uni rt) http c (lit ''data'') (ekeyHex e) = Ret body"
      "decode_blob rt s body = Ret content"
      "fs' = fs\<lparr>fs_file := (fs_file fs)(cachePath dir (ekeyHex e) := Content body)\<rparr>"
      using assms(1-3) c
      by (auto simp: fetchByEKeyViaArchives_def flat_key_def cacheWrite_def no_cache_faults_def
          split: outcome.splits)
    then have "cacheRead fs' s (ekeyHex e) = Ret body"
      by (simp add: cacheRead_def assms(3) read_file_def)
    then show ?thesis
      using assms(2) c body(2) by (simp add: fetchByEKeyViaArchives_def flat_key_def)
  qed
qed

text \<open>The cache holds nothing but what the network serves.\<close>

definition cache_true :: "runtime \<Rightarrow> http \<Rightarrow> Storage \<Rightarrow> fsys \<Rightarrow> bool" where
  "cache_true rt http s fs \<longleftrightarrow>
     (\<forall>dir c e b. so_CacheDir (st_opts s) = Some dir \<longrightarrow> st_CDN s = Some c \<longrightarrow> key_ok e \<longrightarrow>
        fs_file fs (cache_path_of dir e) = Content b \<longrightarrow>
        client_Fetch (rt_uni rt) http c (lit ''data'') (ekeyHex e) = Ret b)"

definition without_cache :: "Storage \<Rightarrow> Storage" where
  "without_cache s = s\<lparr>st_opts := (st_opts s)\<lparr>so_CacheDir := None\<rparr>\<rparr>"

text \<open>One read at a time, the results in order.\<close>

fun read_keys ::
  "runtime \<Rightarrow> http \<Rightarrow> cache_faults \<Rightarrow> key list \<Rightarrow> Storage \<Rightarrow> fsys \<Rightarrow> bytes outcome list \<times> Storage \<times> fsys" where
  "read_keys rt http io [] s fs = ([], s, fs)"
| "read_keys rt http io (e # es) s fs =
     (let (r, s', fs') = ReadByEKeyContext rt http io e s fs;
          (rs, t) = read_keys rt http io es s' fs'
      in (r # rs, t))"

lemma cache_true_write:
  assumes "cache_true rt http s fs" "st_CDN s = Some c" "key_ok e"
    and "client_Fetch (rt_uni rt) http c (lit ''data'') (ekeyHex e) = Ret body"
  shows "cache_true rt http s (snd (cacheWrite io s (ekeyHex e) body fs))"
  using assms by (auto simp: cache_true_def cacheWrite_def cachePath_key cache_path_inject split: option.splits)

lemma fetch_without_cache: "snd (fetchByEKeyViaArchives rt http io e (without_cache s) fs) = fs"
  by (auto simp: fetchByEKeyViaArchives_def cacheWrite_def without_cache_def split: option.split outcome.split)

text \<open>Two file systems that differ in the contents of files only, as a write to the cache leaves them.\<close>

definition same_dirs :: "fsys \<Rightarrow> fsys \<Rightarrow> bool" where
  "same_dirs fs2 fs \<longleftrightarrow> fs_segs fs2 = fs_segs fs \<and> fs_stat fs2 = fs_stat fs \<and> fs_list fs2 = fs_list fs"

lemma fetch_uncached:
  assumes "cache_true rt http s fs" "key_ok e"
  shows "fst (fetchByEKeyViaArchives rt http io e s fs) =
      fst (fetchByEKeyViaArchives rt http io' e (without_cache s) fs2)"
    and "cache_true rt http s (snd (fetchByEKeyViaArchives rt http io e s fs))"
    and "same_dirs (snd (fetchByEKeyViaArchives rt http io e s fs)) fs"
proof -
  have dec: "decode_blob rt (without_cache s) = decode_blob rt s"
    by (simp add: fun_eq_iff decode_blob_def decode_opts_def without_cache_def)
  have none: "cacheRead fs2 (without_cache s) h = Fail ErrOther" for h
    by (simp add: cacheRead_def without_cache_def)
  have hit: "client_Fetch (rt_uni rt) http c (lit ''data'') (ekeyHex e) = Ret b"
    if "cacheRead fs s (ekeyHex e) = Ret b" "st_CDN s = Some c" for c b
    using assms that by (auto simp: cacheRead_def cache_true_def read_file_def cachePath_key split: option.splits fnode.splits)
  have same: "st_CDN (without_cache s) = st_CDN s" "st_CDNArchives (without_cache s) = st_CDNArchives s"
    by (simp_all add: without_cache_def)
  show "fst (fetchByEKeyViaArchives rt http io e s fs) =
      fst (fetchByEKeyViaArchives rt http io' e (without_cache s) fs2)"
    using hit by (auto simp: fetchByEKeyViaArchives_def same dec none split: option.split outcome.split)
  show "cache_true rt http s (snd (fetchByEKeyViaArchives rt http io e s fs))"
    using assms(1) cache_true_write [OF assms(1) _ assms(2)]
    by (auto simp: fetchByEKeyViaArchives_def split: option.split outcome.split)
  show "same_dirs (snd (fetchByEKeyViaArchives rt http io e s fs)) fs"
    by (auto simp: same_dirs_def fetchByEKeyViaArchives_def cacheWrite_def split: option.split outcome.split)
qed

text \<open>The two storages differ in the cache directory only, the two file systems in cached files only.\<close>

definition cache_sim :: "runtime \<Rightarrow> http \<Rightarrow> Storage \<times> fsys \<Rightarrow> Storage \<times> fsys \<Rightarrow> bool" where
  "cache_sim rt http = (\<lambda>(s, fs) (s2, fs2).
     s2 = without_cache s \<and> cache_true rt http s fs \<and> same_dirs fs2 fs)"

lemma without_cache_simps [simp]:
  "st_ekeys (without_cache s) = st_ekeys s" "st_pool (without_cache s) = st_pool s"
  "st_Path (without_cache s) = st_Path s" "st_dataDir (without_cache s) = st_dataDir s"
  "st_Keys (without_cache s) = st_Keys s" "decode_opts (without_cache s) = decode_opts s"
  "FindByEKey (without_cache s) e = FindByEKey s e"
  "(without_cache s)\<lparr>st_pool := p\<rparr> = without_cache (s\<lparr>st_pool := p\<rparr>)"
  "(without_cache s)\<lparr>st_dataDir := d\<rparr> = without_cache (s\<lparr>st_dataDir := d\<rparr>)"
  by (simp_all add: without_cache_def decode_opts_def FindByEKey_def)

lemma cache_true_simps [simp]:
  "cache_true rt http (s\<lparr>st_pool := p\<rparr>) fs = cache_true rt http s fs"
  "cache_true rt http (s\<lparr>st_pool := p, st_dataDir := d\<rparr>) fs = cache_true rt http s fs"
  by (simp_all add: cache_true_def)

lemma archivePool_without:
  assumes "same_dirs fs2 fs"
  shows "archivePool fs2 (without_cache s) = map_prod id without_cache (archivePool fs s)"
proof -
  have "has_segments fs2 = has_segments fs" 
    using assms by (intro ext) (simp add: has_segments_def Readdirnames_def [abs_def] same_dirs_def)
  then show ?thesis
    by (auto simp: archivePool_def locateDataDir_def split: option.split outcome.split)
qed

lemma archivePool_state:
  "archivePool fs s = (r, s') \<Longrightarrow> \<exists>p d. s' = s \<or> s' = s\<lparr>st_pool := p, st_dataDir := d\<rparr>"
  by (auto simp: archivePool_def split: option.splits outcome.splits)

lemma ReadByEKey_sim:
  assumes "cache_sim rt http (s, fs) (s2, fs2)" "key_ok e"
    and "ReadByEKeyContext rt http io e s fs = (r, s', fs')"
    and "ReadByEKeyContext rt http io e s2 fs2 = (r2, s2', fs2')"
  shows "r2 = r \<and> cache_sim rt http (s', fs') (s2', fs2')"
proof -
  have sim: "s2 = without_cache s" "cache_true rt http s fs" "same_dirs fs2 fs"
    using assms(1) by (simp_all add: cache_sim_def)
  have fetch: "r2 = r \<and> cache_sim rt http (s1, fs') (without_cache s1, fs2')"
    if "cache_true rt http s1 fs" "fetchByEKeyViaArchives rt http io e s1 fs = (r, fs')"
      "fetchByEKeyViaArchives rt http io e (without_cache s1) fs2 = (r2, fs2')" for s1
    using fetch_uncached(1) [OF that(1) assms(2), of io io fs2] fetch_uncached(2,3) [OF that(1) assms(2), of io]
      fetch_without_cache [of rt http io e s1 fs2] that(2,3) sim(3)
    by (simp add: cache_sim_def same_dirs_def)
  show ?thesis
  proof (cases "FindByEKey s e")
    case None
    then show ?thesis
      using assms(3,4) sim fetch [of s] by (auto simp: ReadByEKeyContext_def split: prod.splits)
  next
    case (Some entry)
    obtain pr s1 where pool: "archivePool fs s = (pr, s1)" by fastforce
    have true1: "cache_true rt http s1 fs"
      using archivePool_state [OF pool] sim(2) by auto
    have pool2: "archivePool fs2 s2 = (pr, without_cache s1)"
      using archivePool_without [OF sim(3), of s] pool by (simp add: sim(1))
    show ?thesis
    proof (cases pr)
      case (Ret p)
      then show ?thesis
        using assms(3,4) Some pool pool2 sim true1
        by (auto simp: ReadByEKeyContext_def cache_sim_def same_dirs_def split: prod.splits)
    next
      case (Fail err)
      then show ?thesis
        using assms(3,4) Some pool pool2 sim fetch [OF true1]
        by (auto simp: ReadByEKeyContext_def split: prod.splits)
    next
      case Panic
      then show ?thesis
        using assms(3,4) Some pool pool2 sim fetch [OF true1]
        by (auto simp: ReadByEKeyContext_def split: prod.splits)
    qed
  qed
qed

text \<open>
  C35. Any sequence of reads by encoded key, local or online, returns the same results with a
  cache directory as without one, as long as the cache starts out holding only blobs the
  network serves; writes to the cache may fail.
\<close>

theorem cache_transparent:
  assumes "cache_true rt http s fs" "\<forall>e\<in>set es. key_ok e"
  shows "fst (read_keys rt http io es s fs) = fst (read_keys rt http io es (without_cache s) fs)"
proof -
  have "fst (read_keys rt http io es s fs) = fst (read_keys rt http io es s2 fs2)"
    if "cache_sim rt http (s, fs) (s2, fs2)" "\<forall>e\<in>set es. key_ok e" for s fs s2 fs2
    using that
  proof (induction es arbitrary: s fs s2 fs2)
    case (Cons e es)
    obtain r s' fs' where 1: "ReadByEKeyContext rt http io e s fs = (r, s', fs')" by (metis prod_cases3)
    obtain r2 s2' fs2' where 2: "ReadByEKeyContext rt http io e s2 fs2 = (r2, s2', fs2')" by (metis prod_cases3)
    have "r2 = r" "cache_sim rt http (s', fs') (s2', fs2')"
      using ReadByEKey_sim [OF Cons.prems(1) _ 1 2] Cons.prems(2) by simp_all
    then show ?case using Cons.IH [of s' fs' s2' fs2'] Cons.prems(2) 1 2 by (simp add: split_beta)
  qed simp
  moreover have "cache_sim rt http (s, fs) (without_cache s, fs)"
    using assms(1) by (simp add: cache_sim_def same_dirs_def)
  ultimately show ?thesis using assms(2) by blast
qed

section \<open>Opening does not panic\<close>

lemma safe_csv_Parse: "safe (csv_Parse data)"
  by (auto simp: csv_Parse_def csv_ParseSep_def split: prod.split)

lemma safe_build_info_from: "safe (build_info_from fs ps)"
  by (induction fs ps rule: build_info_from.induct) (auto simp: safe_bnd safe_csv_Parse split: fnode.split)

lemma safe_load_idx_files: "safe (load_idx_files fs p es)"
proof (induction fs p es rule: load_idx_files.induct)
  case (2 fs p name isDir es)
  have "safe (read_file fs q)" for q by (auto simp: read_file_def split: fnode.split)
  then show ?case
    using 2 by (auto simp: safe_bnd index_Parse_safe split: option.split)
qed simp

lemma safe_indexes_from: "safe (indexes_from fs ps)"
  by (induction fs ps rule: indexes_from.induct) (auto simp: safe_bnd safe_load_idx_files split: option.split)

lemma safe_firstColumnValue: "safe (firstColumnValue f name)"
proof -
  have "safe (foldr (\<lambda>row rest. bnd (csv_Get f (int row) name) (\<lambda>v. if v \<noteq> [] then Ret v else rest)) rows (Ret []))"
    for rows by (induction rows) (auto simp: safe_bnd safe_csv_Get)
  then show ?thesis by (simp add: firstColumnValue_def)
qed

lemma safe_config_from: "safe (config_from fs ps)"
  by (induction fs ps rule: config_from.induct) (auto simp: bc_Parse_def split: fnode.split prod.split)

lemma safe_decodeKey16: "safe (decodeKey16 s)"
  by (auto simp: decodeKey16_def safe_guard split: option.split)

lemma safe_bc_LookupCKey: "safe (bc_LookupCKey c name)"
  using safe_decodeKey16
  by (auto simp: bc_LookupCKey_def safe_bnd Let_def split: list.split outcome.split) (metis safe_simps(3))

lemma safe_readConfigFile: "safe (readConfigFile fs root hash)"
  by (simp add: readConfigFile_def safe_guard safe_bnd safe_subslice Let_def safe_config_from del: config_from.simps)

lemma safe_load_configs:
  "safe (resolve_keys cfg s)" "safe (load_build_config fs dir bk s)" "safe (load_cdn_config fs dir ck s)"
  "safe (go_online rt http arrival bi s)"
proof -
  show keys: "safe (resolve_keys cfg s)" for cfg s
    by (simp add: resolve_keys_def safe_bnd safe_bc_LookupCKey)
  show "safe (load_build_config fs dir bk s)" "safe (load_cdn_config fs dir ck s)"
    by (auto simp: load_build_config_def load_cdn_config_def safe_bnd safe_readConfigFile keys split: option.split)
  have "safe (bc_Archives cfg)" for cfg
    by (auto simp: bc_Archives_def intro: safe_mapM safe_decodeKey16)
  then have "safe (loadCDNArchiveIndexes rt http arrival s)" for s
    by (auto simp: loadCDNArchiveIndexes_def safe_bnd fetchAndMerge_safe split: option.split)
  then show "safe (go_online rt http arrival bi s)"
    by (auto simp: go_online_def initCDNClient_def safe_bnd safe_firstColumnValue)
qed

text \<open>
  C37. Whatever the directory holds, however its name is spelt and whatever the network
  answers, reading .build.info, loading the local indexes and loading the configurations and
  archive indexes ends in a value or an error, never in a panic.
\<close>

theorem open_steps_safe:
  "safe (loadBuildInfo fs dir) \<and> safe (loadLocalIndexes fs p) \<and> safe (loadConfigs rt http arrival fs dir s)"
  by (auto simp: loadBuildInfo_def loadLocalIndexes_def loadConfigs_def safe_bnd safe_build_info_from
      safe_indexes_from safe_firstColumnValue safe_load_configs
      simp del: build_info_from.simps indexes_from.simps split: option.split)

text \<open>Blobs, cached files and segments below 1.5 MiB, the size from which a frame table can overrun memory.\<close>

definition blob_limit :: nat where
  "blob_limit = 24 * 2 ^ 16"

definition small_world :: "http \<Rightarrow> fsys \<Rightarrow> bool" where
  "small_world http fs \<longleftrightarrow>
     (\<forall>u r st b. http u r = Reply st b \<longrightarrow> length b < blob_limit) \<and>
     (\<forall>p b. fs_file fs p = Content b \<longrightarrow> length b < blob_limit) \<and>
     (\<forall>p i. length (seg_content (fs_segs fs p) i) < blob_limit)"

text \<open>The names in the archive set are the hexadecimal forms it was built with.\<close>

definition archives_named :: "Storage \<Rightarrow> bool" where
  "archives_named s \<longleftrightarrow>
     (\<forall>set k loc. st_CDNArchives s = Some set \<longrightarrow> set k = Some loc \<longrightarrow> ascii (al_ArchiveHashHex loc))"

lemma fetch_hosts_small:
  "\<forall>u r st b. http u r = Reply st b \<longrightarrow> length b < n \<Longrightarrow> fetch_hosts http path rng hosts = Ret body \<Longrightarrow>
   length body < n"
  by (induction hosts) (auto split: reply.splits if_splits)

lemma client_fetch_small:
  assumes "small_world http fs" "client_fetch uni http c ctype h off len = Ret body"
  shows "length body < blob_limit"
  using assms fetch_hosts_small [of http blob_limit]
  by (auto simp: small_world_def client_fetch_def outcome_simps)

lemma read_at_length: "read_at file off n = Ret buf \<Longrightarrow> length buf \<le> length file"
  by (auto simp: read_at_def split: if_splits)

lemma pool_open_content: "pool_open dk i p = (Ret f, p') \<Longrightarrow> f = seg_content dk i"
  by (auto simp: pool_open_def seg_content_def split: option.splits if_splits)

lemma safe_pool_open: "safe (fst (pool_open dk i p))"
  by (auto simp: pool_open_def split: option.splits)

lemma safe_read_at: "safe (read_at file off n)"
  by (simp add: read_at_def)

lemma archivePool_safe: "archivePool fs s = (r, s') \<Longrightarrow> r \<noteq> Panic"
  by (auto simp: archivePool_def locateDataDir_def split: option.splits outcome.splits)

text \<open>
  C38. Reading any encoded key never panics while segments, cached files and network replies
  stay below 1.5 MiB.
\<close>

theorem read_safe:
  assumes "codecs_safe (rt_codecs rt)" "lzma_safe (rt_lzma rt)" "registry_ok (st_Keys s)"
    and "small_world http fs" "archives_named s"
  shows "safe (fst (ReadByEKeyContext rt http io e s fs))"
proof -
  have dec: "safe (decode_blob rt s' b)" if "length b < blob_limit" "st_Keys s' = st_Keys s" for s' b
    using assms(1-3) that by (simp add: decode_blob_def safe_DecodeSpan keys_ok_def blob_limit_def)
  have fetch: "safe (fst (fetchByEKeyViaArchives rt http io e s' fs))"
    if "st_Keys s' = st_Keys s" "st_CDNArchives s' = st_CDNArchives s" for s'
  proof -
    have "safe (bnd (client_FetchRange (rt_uni rt) http c (lit ''data'') (al_ArchiveHashHex loc) off len)
        (decode_blob rt s'))"
      if "Option.bind (st_CDNArchives s') (\<lambda>archives. aset_Lookup archives e) = Some loc" for c loc off len
    proof -
      have "ascii (al_ArchiveHashHex loc)"
        using that assms(5) \<open>st_CDNArchives s' = _\<close>
        by (auto simp: archives_named_def aset_Lookup_def bind_eq_Some_conv)
      then show ?thesis
        using dec client_fetch_small [OF assms(4)] \<open>st_Keys s' = _\<close>
        by (auto simp: safe_bnd client_FetchRange_def safe_guard safe_client_fetch guard_eq_Ret)
    qed
    moreover have "safe (client_Fetch (rt_uni rt) http c (lit ''data'') (ekeyHex e))" for c
      by (simp add: client_Fetch_def ekeyHex_hex_encode safe_client_fetch ascii_hex)
    moreover have "safe (decode_blob rt s' b)" if "cacheRead fs s' h = Ret b" for h b
      using that assms(4) dec [of b s'] \<open>st_Keys s' = _\<close>
      by (auto simp: cacheRead_def read_file_def small_world_def split: option.splits fnode.splits)
    moreover have "safe (decode_blob rt s' b)" if "client_Fetch (rt_uni rt) http c (lit ''data'') h = Ret b" for c h b
      using that dec [of b s'] client_fetch_small [OF assms(4)] \<open>st_Keys s' = _\<close> by (auto simp: client_Fetch_def)
    ultimately show ?thesis
      by (auto simp: fetchByEKeyViaArchives_def split: option.split outcome.split) (metis safe_simps(3))+
  qed
  show ?thesis
  proof (cases "FindByEKey s e")
    case None
    then show ?thesis using fetch [of s] by (simp add: ReadByEKeyContext_def split_beta)
  next
    case (Some entry)
    obtain pr s1 where pool: "archivePool fs s = (pr, s1)" by fastforce
    have same: "st_Keys s1 = st_Keys s" "st_CDNArchives s1 = st_CDNArchives s"
      using archivePool_state [OF pool] by auto
    have "safe (fst (ReadSpanWithOptions (rt_codecs rt) (rt_lzma rt) dk entry (Some (st_Keys s1)) opts p))"
      if small: "\<forall>i. length (seg_content dk i) < blob_limit" for dk opts p
    proof -
      obtain r p' where o: "pool_open dk (ee_ArchiveIndex entry) p = (r, p')" by fastforce
      have "safe (DecodeSpanWithOptions (rt_codecs rt) (rt_lzma rt) buf (Some (st_Keys s1)) opts)"
        if "r = Ret f" "read_at f off n = Ret buf" for f off n buf
        using that assms(1-3) small o same read_at_length [OF that(2)]
        by (intro safe_DecodeSpan) (auto simp: keys_ok_def blob_limit_def dest!: pool_open_content intro: le_less_trans)
      moreover have "safe r" using safe_pool_open [of dk "ee_ArchiveIndex entry" p] o by simp
      ultimately show ?thesis
        using safe_read_at
        by (auto simp: ReadSpanWithOptions_def o safe_bnd safe_guard split: outcome.split) (metis safe_simps(3))
    qed
    then have "safe (fst (ReadSpanWithOptions (rt_codecs rt) (rt_lzma rt) (fs_segs fs (st_dataDir s1)) entry
        (Some (st_Keys s1)) (decode_opts s1) p))" for p
      using assms(4) by (simp add: small_world_def)
    then show ?thesis
      using Some pool archivePool_safe [OF pool] fetch [OF same]
      by (auto simp: ReadByEKeyContext_def split_beta split: outcome.split)
  qed
qed

section \<open>An older index wins\<close>

text \<open>
  The comment on \<^verbatim>\<open>buildEKeyMap\<close> speaks of the largest version; the files come in the order of their
  names, and the first one that has the key is used.
\<close>

definition two_versions :: "bytes \<Rightarrow> bytes \<Rightarrow> fsys" where
  "two_versions old new =
     \<lparr>fs_stat = (\<lambda>_. Some True),
      fs_list = [[lit ''Data'', lit ''data''] \<mapsto>
        [(lit ''0000000001.idx'', False), (lit ''0000000002.idx'', False)]],
      fs_file = (\<lambda>_. NoFile)
        ([lit ''Data'', lit ''data'', lit ''0000000001.idx''] := Content old,
         [lit ''Data'', lit ''data'', lit ''0000000002.idx''] := Content new),
      fs_segs = (\<lambda>_ _. None)\<rparr>"

text \<open>
  C40. With two versions of a bucket's index in the data directory, a key that both hold
  resolves to the entry of the older version, because the files load in name order and the
  first entry of a key is kept.
\<close>

theorem older_index_wins:
  assumes "list_all entry_fits old" "list_all entry_fits new" "length old < 2 ^ 32" "length new < 2 ^ 32"
    and "iw_BucketIndex opts = 0"
    and "find (\<lambda>x. EKeyOf (ee_EKey x) = EKeyOf e) (map trim_entry (index_sort old)) = Some entry"
  shows "\<exists>idxs. loadLocalIndexes (two_versions (EncodeV1 old opts) (EncodeV1 new opts)) [] = Ret idxs
    \<and> FindByEKey (buildEKeyMap (s\<lparr>st_Indexes := idxs\<rparr>)) e = Some entry"
proof -
  let ?fs = "two_versions (EncodeV1 old opts) (EncodeV1 new opts)"
  let ?dir = "[lit ''Data'', lit ''data'']"
  obtain i where i: "index_Parse (EncodeV1 old opts) 0 = Ret i" "if_Entries i = map trim_entry (index_sort old)"
    using index_readback [of old opts] assms(1,3,5) by (simp add: list_all_iff)
  obtain j where j: "index_Parse (EncodeV1 new opts) 0 = Ret j"
    using index_readback [of new opts] assms(2,4,5) by (simp add: list_all_iff)
  have names: "Join [] ?dir = ?dir" "Join ?dir [lit ''0000000001.idx''] = ?dir @ [lit ''0000000001.idx'']"
    "Join ?dir [lit ''0000000002.idx''] = ?dir @ [lit ''0000000002.idx'']"
    "is_idx (lit ''0000000001.idx'')" "is_idx (lit ''0000000002.idx'')"
    "scan_bucket (lit ''0000000001.idx'') = Some 0" "scan_bucket (lit ''0000000002.idx'') = Some 0"
    "lit ''0000000001.idx'' \<noteq> lit ''0000000002.idx''"
    by code_simp+
  have files: "read_file ?fs (?dir @ [lit ''0000000001.idx'']) = Ret (EncodeV1 old opts)"
    "read_file ?fs (?dir @ [lit ''0000000002.idx'']) = Ret (EncodeV1 new opts)"
    using names(8) by (simp_all add: two_versions_def read_file_def)
  have "load_idx_files ?fs ?dir [(lit ''0000000001.idx'', False), (lit ''0000000002.idx'', False)] = Ret [i, j]"
    using i(1) j files by (simp add: names)
  moreover have "fs_list ?fs ?dir = Some [(lit ''0000000001.idx'', False), (lit ''0000000002.idx'', False)]"
    by (simp add: two_versions_def)
  ultimately have "loadLocalIndexes ?fs [] = Ret [i, j]"
    by (simp add: loadLocalIndexes_def names(1))
  moreover have "FindByEKey (buildEKeyMap (s\<lparr>st_Indexes := [i, j]\<rparr>)) e = Some entry"
    using assms(6) by (simp add: FindByEKey_first find_append i(2))
  ultimately show ?thesis by blast
qed

section \<open>The theorems at work\<close>

definition sample_entry_at :: "u32 \<Rightarrow> EKeyEntry" where
  "sample_entry_at off = \<lparr>ee_EKey = zero_key, ee_ArchiveIndex = 0, ee_ArchiveOffs = off, ee_EncodedSize = 100\<rparr>"

definition sample_options :: Options where
  "sample_options = \<lparr>so_LocaleMask = 0, so_ListfileReader = None, so_Online = True,
     so_CacheDir = Some [lit ''cache''], so_OvercomeEncrypted = False\<rparr>"

theorem older_index_wins_witness:
  "\<exists>idxs. loadLocalIndexes (two_versions (EncodeV1 [sample_entry_at 0] \<lparr>iw_BucketIndex = 0, iw_SegmentSize = 0, iw_Block1Count = 0\<rparr>)
        (EncodeV1 [sample_entry_at 64] \<lparr>iw_BucketIndex = 0, iw_SegmentSize = 0, iw_Block1Count = 0\<rparr>)) [] = Ret idxs
    \<and> FindByEKey (buildEKeyMap ((new_storage [] sample_options)\<lparr>st_Indexes := idxs\<rparr>)) zero_key = Some (trim_entry (sample_entry_at 0))"
proof (rule older_index_wins)
  have "index_sort [sample_entry_at 0] = [sample_entry_at 0]"
    by (simp add: index_sort_def sort_slice_def)
  then show "find (\<lambda>x. EKeyOf (ee_EKey x) = EKeyOf zero_key) (map trim_entry (index_sort [sample_entry_at 0])) =
      Some (trim_entry (sample_entry_at 0))"
    by (simp add: trim_entry_def sample_entry_at_def EKeyOf_def EKeySize_def zero_key_def MD5HashSize_def fit_def
        numeral_eq_Suc)
qed (simp_all add: entry_fits_def sample_entry_at_def)

definition sample_blob :: bytes where
  "sample_blob = [0x42, 0x4C, 0x54, 0x45, 0, 0, 0, 0, 0x4E, 1, 2, 3]"

definition sample_net :: http where
  "sample_net = one_blob (lit ''http://h/b/data/00/00/00000000000000000000000000000000'') sample_blob"

definition sample_runtime :: runtime where
  "sample_runtime = \<lparr>rt_codecs = run_codecs, rt_lzma = None, rt_uni = id, rt_probes = []\<rparr>"

definition online_sample :: Storage where
  "online_sample = (new_storage [] sample_options)\<lparr>st_CDN := Some (NewClient [lit ''h''] (lit ''b''))\<rparr>"

definition empty_fs :: fsys where
  "empty_fs = \<lparr>fs_stat = (\<lambda>_. Some True), fs_list = (\<lambda>_. None), fs_file = (\<lambda>_. NoFile), fs_segs = (\<lambda>_ _. None)\<rparr>"

lemma sample_decodes: "decode_blob sample_runtime s sample_blob = Ret [1, 2, 3]"
proof -
  have "DecodeSpanWithOptions run_codecs None (single_bytes [0x4E, 1, 2, 3]) keys opts = Ret [1, 2, 3]" for keys opts
    by (rule DecodeSpan_single_bytes [where mode = EncodeRaw])
      (simp_all add: encodeFrame_def EncodeRaw_def EncodeZlib_def run_codecs_ok)
  moreover have "single_bytes [0x4E, 1, 2, 3] = sample_blob"
    by (simp add: single_bytes_def sample_blob_def putLE32_def BLTESignature_def le_bytes_numeral four_zeros)
  ultimately show ?thesis by (simp add: decode_blob_def sample_runtime_def)
qed

lemma sample_fetch: "client_Fetch id sample_net (NewClient [lit ''h''] (lit ''b'')) (lit ''data'') (ekeyHex zero_key) = Ret sample_blob"
proof -
  have p: "PathFor id (lit ''b'') (lit ''data'') (ekeyHex zero_key) =
      Ret (lit ''b/data/00/00/00000000000000000000000000000000'')"
    "lit ''http://'' @ lit ''h'' @ [0x2F] @ lit ''b/data/00/00/00000000000000000000000000000000'' =
      lit ''http://h/b/data/00/00/00000000000000000000000000000000''"
    "lit ''b/data/00/00/00000000000000000000000000000000'' \<noteq> []"
    by code_simp+
  show ?thesis
    by (simp only: client_Fetch_def client_fetch_def NewClient_def p sample_net_def one_blob_def
        Client.simps bnd.simps fetch_hosts.simps guard_def reply.case if_True if_False simp_thms list.simps)
qed

lemma sample_first_read:
  "fetchByEKeyViaArchives sample_runtime sample_net no_cache_faults zero_key online_sample empty_fs =
    (Ret [1, 2, 3], empty_fs\<lparr>fs_file := (fs_file empty_fs)(cache_path_of [lit ''cache''] zero_key := Content sample_blob)\<rparr>)"
proof -
  have "rt_uni sample_runtime = id" "st_CDN online_sample = Some (NewClient [lit ''h''] (lit ''b''))"
    "st_CDNArchives online_sample = None" "so_CacheDir (st_opts online_sample) = Some [lit ''cache'']"
    by (simp_all add: sample_runtime_def online_sample_def new_storage_def sample_options_def)
  moreover from this(4) have "cacheRead empty_fs online_sample h = Fail ErrOther" for h
    by (simp add: cacheRead_def empty_fs_def read_file_def)
  ultimately show ?thesis
    using sample_decodes [of online_sample] sample_fetch cachePath_key [OF key_ok_zero]
    by (simp add: fetchByEKeyViaArchives_def cacheWrite_def no_cache_faults_def)
qed

theorem cache_offline_witness:
  "\<exists>fs'. fetchByEKeyViaArchives sample_runtime sample_net no_cache_faults zero_key online_sample empty_fs = (Ret [1, 2, 3], fs')
    \<and> fetchByEKeyViaArchives sample_runtime (\<lambda>_ _. NoReply) no_cache_faults zero_key online_sample fs' = (Ret [1, 2, 3], fs')"
  using cache_offline [OF sample_first_read, of "[lit ''cache'']" "\<lambda>_ _. NoReply" no_cache_faults] sample_first_read
  by (simp add: flat_key_def online_sample_def new_storage_def sample_options_def)

theorem cache_transparent_witness:
  "fst (read_keys sample_runtime sample_net no_cache_faults [zero_key, zero_key] online_sample empty_fs) =
     fst (read_keys sample_runtime sample_net no_cache_faults [zero_key, zero_key] (without_cache online_sample) empty_fs)
   \<and> cache_true sample_runtime sample_net online_sample empty_fs"
proof -
  have "cache_true sample_runtime sample_net online_sample empty_fs"
    by (simp add: cache_true_def empty_fs_def)
  then show ?thesis using cache_transparent [of sample_runtime sample_net online_sample empty_fs "[zero_key, zero_key]"]
    by simp
qed

theorem read_safe_witness:
  "safe (fst (ReadByEKeyContext sample_runtime sample_net no_cache_faults zero_key online_sample empty_fs))"
proof (rule read_safe)
  show "small_world sample_net empty_fs"
    by (simp add: small_world_def sample_net_def one_blob_def empty_fs_def blob_limit_def sample_blob_def seg_content_def)
  show "codecs_safe (rt_codecs sample_runtime)" using run_codecs_safe by (simp add: sample_runtime_def)
qed (simp_all add: sample_runtime_def lzma_safe_def online_sample_def new_storage_def registry_ok_def NewKeyRegistry_def
    archives_named_def)

end
