(* ===== verification/FlushLaws.thy ===== *)
theory FlushLaws
  imports Flush StorageLaws
begin

text \<open>
  What a successful \<^verbatim>\<open>Flush\<close> has written, and that \<^verbatim>\<open>OpenStorage\<close> on the directory serves every file of
  the overlay again: archive, .idx, ENCODING, INSTALL, configurations and \<^verbatim>\<open>.build.info\<close> together.
\<close>

section \<open>The file system after a step\<close>

lemma missing_dirs_Ret:
  "missing_dirs fs rp = Ret ds \<Longrightarrow>
   (\<forall>d\<in>set ds. fs_stat fs d = None \<and> (\<exists>n. d = take n (rev rp))) \<and>
   (fs_stat fs (rev rp) = Some True \<and> ds = [] \<or> rp \<noteq> [] \<and> (\<exists>es. ds = es @ [rev rp]))"
proof (induction rp arbitrary: ds)
  case Nil
  then show ?case by (subst (asm) missing_dirs.simps) (auto split: option.splits bool.splits)
next
  case (Cons name parent)
  show ?case
  proof (cases "fs_stat fs (rev (name # parent))")
    case None
    then obtain es where es: "missing_dirs fs parent = Ret es" "ds = es @ [rev (name # parent)]"
      using Cons.prems by (subst (asm) missing_dirs.simps) (auto simp: bnd_eq_Ret)
    have "fs_stat fs d = None \<and> (\<exists>n. d = take n (rev (name # parent)))" if d: "d \<in> set ds" for d
    proof (cases "d \<in> set es")
      case True
      then obtain n where "fs_stat fs d = None" "d = take n (rev parent)" using Cons.IH [OF es(1)] by blast
      then show ?thesis by (intro conjI exI [of _ "min n (length parent)"]) (auto simp: min_def)
    next
      case False
      then show ?thesis using d es(2) None by (intro conjI exI [of _ "length parent + 1"]) auto
    qed
    then show ?thesis using es(2) by blast
  next
    case (Some isDir)
    then show ?thesis using Cons.prems by (subst (asm) missing_dirs.simps) (cases isDir; simp)
  qed
qed

lemma make_dirs_file [simp]: "fs_file (foldl make_dir fs ds) = fs_file fs" "fs_segs (foldl make_dir fs ds) = fs_segs fs"
  by (induction ds arbitrary: fs) (simp_all add: make_dir_def)

lemma make_dirs_stat: "fs_stat (foldl make_dir fs ds) q = (if q \<in> set ds then Some True else fs_stat fs q)"
  by (induction ds arbitrary: fs) (simp_all add: make_dir_def)

lemma make_dirs_list:
  "\<forall>d\<in>set ds. d \<noteq> q \<and> butlast d \<noteq> q \<Longrightarrow> fs_list (foldl make_dir fs ds) q = fs_list fs q"
  by (induction ds arbitrary: fs) (auto simp: make_dir_def)

lemma MkdirAll_Ret:
  assumes "MkdirAll f p fs = (Ret u, fs')"
  shows "fs_file fs' = fs_file fs" "fs_segs fs' = fs_segs fs" "fs_stat fs' p = Some True"
    and "fs_stat fs q = Some b \<Longrightarrow> fs_stat fs' q = Some b"
    and "fs_stat fs p = None \<Longrightarrow> fs_list fs' p = Some []"
    and "\<forall>n. q \<noteq> take n p \<Longrightarrow> fs_list fs' q = fs_list fs q"
    and "\<forall>n. q \<noteq> take n p \<Longrightarrow> fs_stat fs' q = fs_stat fs q"
    and "fs_stat fs' q = Some False \<Longrightarrow> fs_stat fs q = Some False"
proof -
  obtain ds where ds: "missing_dirs fs (rev p) = Ret ds" and fs': "fs' = foldl make_dir fs ds"
    using assms by (auto simp: MkdirAll_def split: outcome.splits option.splits if_splits)
  note m = missing_dirs_Ret [OF ds, simplified]
  show "fs_file fs' = fs_file fs" "fs_segs fs' = fs_segs fs" "fs_stat fs' p = Some True"
    using m by (auto simp: fs' make_dirs_stat)
  show "fs_stat fs q = Some b \<Longrightarrow> fs_stat fs' q = Some b"
    using m by (auto simp: fs' make_dirs_stat)
  show "fs_stat fs p = None \<Longrightarrow> fs_list fs' p = Some []"
  proof -
    assume "fs_stat fs p = None"
    then obtain es where "ds = es @ [p]" "p \<noteq> []" using m by auto
    moreover have "p \<noteq> butlast p"
      using calculation(2) by (metis append_butlast_last_id not_Cons_self2 self_append_conv)
    ultimately show ?thesis by (simp add: fs' make_dir_def)
  qed
  show "fs_list fs' q = fs_list fs q" if q: "\<forall>n. q \<noteq> take n p"
  proof -
    have "butlast (take n p) = take (min n (length p) - 1) p" for n
      by (auto simp: butlast_conv_take min_def)
    then have "\<forall>d\<in>set ds. d \<noteq> q \<and> butlast d \<noteq> q" using m q by metis
    then show ?thesis unfolding fs' by (rule make_dirs_list)
  qed
  show "fs_stat fs' q = fs_stat fs q" if q: "\<forall>n. q \<noteq> take n p"
    using m q by (auto simp: fs' make_dirs_stat)
  show "fs_stat fs' q = Some False \<Longrightarrow> fs_stat fs q = Some False"
    by (auto simp: fs' make_dirs_stat split: if_splits)
qed

lemma MkdirAll_there: "fs_stat fs p = Some True \<Longrightarrow> MkdirAll f p fs = (r, fs') \<Longrightarrow> fs' = fs"
  by (auto simp: MkdirAll_def missing_dirs.simps [of fs "rev p"] split: option.splits)

lemma WriteFile_Ret:
  assumes "WriteFile f p data fs = (Ret u, fs')"
  shows "fs' = put_file p data fs" "fs_stat fs p \<noteq> Some True" "fs_stat fs (butlast p) = Some True"
  using assms by (auto simp: WriteFile_def split: if_splits write_fault.splits)

lemma put_file_simps:
  "fs_file (put_file p data fs) = (fs_file fs)(p := Content data)" "fs_segs (put_file p data fs) = fs_segs fs"
  "q \<noteq> p \<Longrightarrow> fs_stat (put_file p data fs) q = fs_stat fs q"
  "fs_list (put_file p data fs) q =
     (if q = butlast p then map_option (enter_name (last p) False) (fs_list fs q) else fs_list fs q)"
  by (simp_all add: put_file_def)

lemma enter_name_empty: "enter_name n d [] = [(n, d)]"
  by (simp add: enter_name_def)

lemma lit_plain:
  "plain_name (lit ''Data'')" "plain_name (lit ''data'')" "plain_name (lit ''config'')" "plain_name (lit ''.build.info'')"
  by (simp_all add: plain_name_def lit_def)

definition data_dir :: "path \<Rightarrow> path" where
  "data_dir dir = dir @ [lit ''Data'', lit ''data'']"

definition config_dir :: "path \<Rightarrow> path" where
  "config_dir dir = dir @ [lit ''Data'', lit ''config'']"

lemma Join_dirs [simp]:
  "Join dir [lit ''Data'', lit ''data''] = data_dir dir" "Join dir [lit ''Data'', lit ''config''] = config_dir dir"
  "Join p [lit ''.build.info''] = p @ [lit ''.build.info'']"
  by (simp_all add: Join_plain lit_plain data_dir_def config_dir_def)

lemma data_not_in_config: "data_dir dir \<noteq> take n (cache_path_of (config_dir dir) k)" "data_dir dir \<noteq> take n (config_dir dir)"
proof -
  have "data_dir dir \<noteq> take n (config_dir dir @ r)" for r
  proof
    assume d: "data_dir dir = take n (config_dir dir @ r)"
    have "length (take n (config_dir dir @ r)) = length dir + 2"
      by (simp only: d [symmetric]) (simp add: data_dir_def)
    then have "length dir + 2 \<le> n" by simp
    moreover have "data_dir dir ! (length dir + 1) = take n (config_dir dir @ r) ! (length dir + 1)"
      by (simp only: d)
    ultimately have "lit ''data'' = lit ''config''" by (simp add: data_dir_def config_dir_def nth_append)
    then show False by (simp add: lit_def)
  qed
  from this [of "[]"] this [of "[take 2 (hex_encode k), take 2 (drop 2 (hex_encode k)), hex_encode k]"]
  show "data_dir dir \<noteq> take n (cache_path_of (config_dir dir) k)" "data_dir dir \<noteq> take n (config_dir dir)"
    by (simp_all add: cache_path_of_def)
qed

lemma hex_plain:
  assumes "key_ok k"
  shows "plain_name (hex_encode k)" "plain_name (take 2 (hex_encode k))" "plain_name (take 2 (drop 2 (hex_encode k)))"
proof -
  obtain a b r where e: "k = a # b # r"
    using assms by (cases k; cases "tl k") (auto simp: key_ok_def MD5HashSize_def)
  have parts: "take 2 (hex_encode k) = hex_encode [a]" "take 2 (drop 2 (hex_encode k)) = hex_encode [b]"
    by (simp_all add: e)
  show "plain_name (hex_encode k)" "plain_name (take 2 (hex_encode k))" "plain_name (take 2 (drop 2 (hex_encode k)))"
    unfolding parts using e by (intro plain_name_hex; simp)+
qed

lemma hex_parts:
  assumes "key_ok k"
  shows "Join p [take 2 (hex_encode k), take 2 (drop 2 (hex_encode k))] @ [hex_encode k] = cache_path_of p k"
  using hex_plain [OF assms] by (simp add: cache_path_of_def Join_plain)

lemma writeConfigFile_Ret:
  assumes "writeConfigFile mf f root k body fs = (Ret u, fs')" "key_ok k"
  shows "fs_file fs' = (fs_file fs)(cache_path_of root k := Content body)" "fs_segs fs' = fs_segs fs"
    and "fs_stat fs q = Some b \<Longrightarrow> q \<noteq> cache_path_of root k \<Longrightarrow> fs_stat fs' q = Some b"
    and "\<forall>n. q \<noteq> take n (cache_path_of root k) \<Longrightarrow> fs_list fs' q = fs_list fs q"
proof -
  let ?d = "Join root [take 2 (hex_encode k), take 2 (drop 2 (hex_encode k))]"
  note path = hex_parts [OF assms(2)] hex_plain(1) [OF assms(2)]
  obtain u1 fs1 where mk: "MkdirAll mf ?d fs = (Ret u1, fs1)"
    and wr: "WriteFile f (?d @ [hex_encode k]) body fs1 = (Ret u, fs')"
    using assms(1) path(2) by (auto simp: writeConfigFile_def Let_def sbnd_Ret Join_plain)
  note m = MkdirAll_Ret [OF mk] and w = WriteFile_Ret [OF wr]
  have fs': "fs' = put_file (cache_path_of root k) body fs1" using w(1) path(1) [of root] by simp
  show "fs_file fs' = (fs_file fs)(cache_path_of root k := Content body)" "fs_segs fs' = fs_segs fs"
    by (simp_all add: fs' put_file_simps m(1,2))
  show "fs_stat fs q = Some b \<Longrightarrow> q \<noteq> cache_path_of root k \<Longrightarrow> fs_stat fs' q = Some b"
    by (simp add: fs' put_file_simps m(4))
  have pre: "?d = take (length ?d) (cache_path_of root k)" "take n ?d = take (min n (length ?d)) (cache_path_of root k)" for n
    unfolding path(1) [of root, symmetric] by (simp_all add: min_def)
  show "fs_list fs' q = fs_list fs q" if "\<forall>n. q \<noteq> take n (cache_path_of root k)"
  proof -
    have "q \<noteq> butlast (cache_path_of root k)" using that by (simp add: butlast_conv_take)
    moreover have "\<forall>n. q \<noteq> take n ?d" using that pre(2) by metis
    ultimately show ?thesis using m(6) by (simp add: fs' put_file_simps)
  qed
qed

section \<open>What a run leaves behind\<close>

text \<open>A directory that exists and is empty.\<close>

definition fresh_dir :: "path \<Rightarrow> fsys \<Rightarrow> bool" where
  "fresh_dir dir fs \<longleftrightarrow> fs_stat fs dir = Some True \<and>
     (\<forall>r. r \<noteq> [] \<longrightarrow> fs_stat fs (dir @ r) = None \<and> fs_segs fs (dir @ r) = (\<lambda>_. None))"

definition index_name :: bytes where
  "index_name = lit ''0000000000.idx''"

lemma index_FileName_zero: "index_FileName 0 0 = index_name"
  by code_simp

lemma plain_index_name: "plain_name index_name"
  by (simp add: plain_name_def index_name_def lit_def)

text \<open>
  \<open>ib\<close>, \<open>db\<close> and \<open>eb\<close> are the INSTALL, DOWNLOAD and ENCODING manifests, \<open>es\<close> the archive entries of the files
  and of the three manifests.
\<close>

definition flushed ::
  "codecs \<Rightarrow> (bytes \<times> bytes) list \<Rightarrow> path \<Rightarrow> fsys \<Rightarrow> bytes \<Rightarrow> bytes \<Rightarrow> bytes \<Rightarrow> EKeyEntry list \<Rightarrow> bool" where
  "flushed C files dir fs ib db eb es \<longleftrightarrow>
     flush_manifests C files ib db eb \<and>
     (\<exists>w. put_all store_put (map (raw_item C) (map snd files @ [ib, db, eb])) (NewWriter DefaultSegmentSize, \<lambda>_. None) =
        Some (es, w, fs_segs fs (data_dir dir))) \<and>
     fs_stat fs dir = Some True \<and> fs_stat fs (data_dir dir) = Some True \<and>
     fs_list fs (data_dir dir) = Some [(index_name, False)] \<and>
     fs_file fs (data_dir dir @ [index_name]) = Content (EncodeV1 es flush_index) \<and>
     (let build = bc_EncodeText (flush_buildCfg (flush_out C ib db eb)); cdn = bc_EncodeText flush_cdnCfg in
      fs_file fs (cache_path_of (config_dir dir) (md5 C build)) = Content build \<and>
      fs_file fs (cache_path_of (config_dir dir) (md5 C cdn)) = Content cdn \<and>
      fs_file fs (dir @ [lit ''.build.info'']) =
        Content (EncodeBuildInfo [flush_row (md5 C build) (md5 C cdn) (length ib)]))"

text \<open>The files of an overlay in the order they are written.\<close>

definition flush_order :: "Api \<Rightarrow> (bytes \<times> bytes) list" where
  "flush_order s = sort_slice (\<lambda>f g. str_less (fst f) (fst g)) (the_overlay s)"

lemma Flush_written:
  assumes "Flush C io s fs = (Ret (), fs')" "ap_createDir s = Some dir" "fresh_dir dir fs" "codecs_ok C"
    and "\<And>ib db eb. flush_manifests C (flush_order s) ib db eb \<Longrightarrow>
      md5 C (bc_EncodeText (flush_buildCfg (flush_out C ib db eb))) \<noteq> md5 C (bc_EncodeText flush_cdnCfg)"
  obtains ib db eb es where "flushed C (flush_order s) dir fs' ib db eb es"
proof -
  define files where "files = flush_order s"
  obtain fs1 fs2 fs3 out idx fs4 fs5 fs6 fs7 where
    m0: "MkdirAll (ff_mkdir io 0) (data_dir dir) fs = (Ret (), fs1)"
    and m1: "MkdirAll (ff_mkdir io 1) (config_dir dir) fs1 = (Ret (), fs2)"
    and m2: "MkdirAll (ff_mkdir io 2) (data_dir dir) fs2 = (Ret (), fs3)"
    and ar: "flush_archive C io (data_dir dir) files fs3 = (Ret (out, idx), fs4)"
    and w0: "WriteFile (ff_write io 0) (data_dir dir @ [index_name]) (EncodeV1 idx flush_index) fs4 = (Ret (), fs5)"
    and c1: "writeConfigFile (ff_mkdir io 3) (ff_write io 1) (config_dir dir) (md5 C (bc_EncodeText (flush_buildCfg out)))
      (bc_EncodeText (flush_buildCfg out)) fs5 = (Ret (), fs6)"
    and c2: "writeConfigFile (ff_mkdir io 4) (ff_write io 2) (config_dir dir) (md5 C (bc_EncodeText flush_cdnCfg))
      (bc_EncodeText flush_cdnCfg) fs6 = (Ret (), fs7)"
    and w3: "WriteFile (ff_write io 3) (dir @ [lit ''.build.info'']) (EncodeBuildInfo [flush_row
      (md5 C (bc_EncodeText (flush_buildCfg out))) (md5 C (bc_EncodeText flush_cdnCfg)) (sp_imsize out)]) fs7 = (Ret (), fs')"
    using assms(1,2)
    by (auto simp: Flush_def Let_def sbnd_Ret Join_plain plain_index_name index_FileName_zero files_def flush_order_def)
  note k0 = MkdirAll_Ret [OF m0] and k1 = MkdirAll_Ret [OF m1]
  have fresh: "fs_stat fs dir = Some True" "fs_stat fs (data_dir dir) = None" "fs_segs fs (data_dir dir) = (\<lambda>_. None)"
    using assms(3) by (simp_all add: fresh_dir_def data_dir_def)
  have fs3: "fs3 = fs2" using MkdirAll_there [OF _ m2] k0(3) k1(4) by simp
  have two: "fs_list fs2 (data_dir dir) = Some []" "fs_stat fs2 dir = Some True" "fs_segs fs2 (data_dir dir) = (\<lambda>_. None)"
    "fs_stat fs2 (data_dir dir) = Some True"
    using k0(2-5) k1(2,4,6) fresh data_not_in_config(2) by simp_all
  obtain w dk where sp: "flush_spans C (ff_span io) files (NewWriter DefaultSegmentSize, \<lambda>_. None, []) = (Ret out, w, dk, idx)"
    and fs4: "fs4 = fs2\<lparr>fs_segs := (fs_segs fs2)(data_dir dir := dk)\<rparr>"
    using ar two(3) by (auto simp: flush_archive_def fs3 Let_def bnd_eq_Ret split: prod.splits)
  obtain ib db eb where man: "flush_manifests C files ib db eb" and out: "out = flush_out C ib db eb"
    and app: "appended C (map snd files @ [ib, db, eb]) (NewWriter DefaultSegmentSize, \<lambda>_. None, []) (w, dk, idx)"
    using sp by (rule flush_spans_appended)
  have keys: "key_ok (md5 C x)" for x using assms(4) by (simp add: codecs_ok_def key_ok_def MD5HashSize_def)
  let ?build = "bc_EncodeText (flush_buildCfg (flush_out C ib db eb))" and ?cdn = "bc_EncodeText flush_cdnCfg"
  have fs5: "fs5 = put_file (data_dir dir @ [index_name]) (EncodeV1 idx flush_index) fs4"
    and fs': "fs' = put_file (dir @ [lit ''.build.info'']) (EncodeBuildInfo [flush_row (md5 C ?build) (md5 C ?cdn) (length ib)]) fs7"
    using WriteFile_Ret(1) [OF w0] WriteFile_Ret(1) [OF w3] by (simp_all add: out flush_out_def)
  note r1 = writeConfigFile_Ret [OF c1 keys] and r2 = writeConfigFile_Ret [OF c2 keys]
  have stat: "fs_stat fs4 dir = Some True" "fs_stat fs5 dir = Some True" "fs_stat fs5 (data_dir dir) = Some True"
    using two(2,4) by (simp_all add: fs4 fs5 put_file_simps data_dir_def)
  have paths: "dir \<noteq> cache_path_of (config_dir dir) k" "data_dir dir @ [index_name] \<noteq> cache_path_of (config_dir dir) k"
    "dir @ [lit ''.build.info''] \<noteq> cache_path_of (config_dir dir) k" "data_dir dir \<noteq> dir" "data_dir dir @ [n] \<noteq> dir @ [m]"
    "data_dir dir \<noteq> cache_path_of (config_dir dir) k" "data_dir dir \<noteq> dir @ [n]" for k n m
    by (simp_all add: cache_path_of_def config_dir_def data_dir_def)
  have ends: "fs_stat fs' dir = Some True" "fs_segs fs' (data_dir dir) = dk" "fs_stat fs' (data_dir dir) = Some True"
    using stat r1(2,3) r2(2,3) paths(1,6,7) by (simp_all add: fs' fs5 fs4 put_file_simps)
  have list: "fs_list fs' (data_dir dir) = Some [(index_name, False)]"
    using r1(4) r2(4) data_not_in_config(1) paths(4) two(1)
    by (simp add: fs' fs5 fs4 put_file_simps enter_name_empty)
  have files': "fs_file fs' (data_dir dir @ [index_name]) = Content (EncodeV1 idx flush_index)"
    "fs_file fs' (cache_path_of (config_dir dir) (md5 C ?build)) = Content ?build"
    "fs_file fs' (cache_path_of (config_dir dir) (md5 C ?cdn)) = Content ?cdn"
    "fs_file fs' (dir @ [lit ''.build.info'']) = Content (EncodeBuildInfo [flush_row (md5 C ?build) (md5 C ?cdn) (length ib)])"
    using r1(1) r2(1) paths paths(3) [symmetric] assms(5) man
    by (simp_all add: fs' fs5 put_file_simps out cache_path_inject files_def del: append_Cons append_assoc append_eq_append_conv)
  show thesis
    using man app ends list files'
    by (intro that [of ib db eb idx]) (simp add: flushed_def files_def appended_def Let_def)
qed

section \<open>A run without faults succeeds\<close>

lemma missing_dirs_clear:
  assumes "fs_stat fs (rev rp) \<noteq> Some False"
    and "\<And>n. m \<le> n \<Longrightarrow> fs_stat fs (take n (rev rp)) \<noteq> Some False" "fs_stat fs (take m (rev rp)) = Some True" "m \<le> length rp"
  shows "\<exists>ds. missing_dirs fs rp = Ret ds"
  using assms
proof (induction rp)
  case Nil
  then show ?case by (subst missing_dirs.simps) simp
next
  case (Cons name parent)
  show ?case
  proof (cases "m \<le> length parent")
    case True
    have "fs_stat fs (take n (rev parent)) \<noteq> Some False" if "m \<le> n" for n
    proof -
      have "take n (rev parent) = take (min n (length parent)) (rev (name # parent))" by (simp add: min_def)
      then show ?thesis using Cons.prems(2) [of "min n (length parent)"] True that by (simp only:) simp
    qed
    moreover have "fs_stat fs (take m (rev parent)) = Some True" using Cons.prems(3) True by simp
    ultimately obtain ds where "missing_dirs fs parent = Ret ds"
      using Cons.IH True Cons.prems(2) [of "length parent"] by auto
    then show ?thesis
      using Cons.prems(1) by (subst missing_dirs.simps) (auto split: option.split bool.split)
  next
    case False
    then have "m = Suc (length parent)" using Cons.prems(4) by simp
    then have "fs_stat fs (rev (name # parent)) = Some True" using Cons.prems(3) by simp
    then show ?thesis by (subst missing_dirs.simps) simp
  qed
qed

text \<open>The places of directories and files below the storage directory, and a file system that respects them.\<close>

definition dir_place :: "path \<Rightarrow> bool" where
  "dir_place r \<longleftrightarrow> r = [] \<or> r = [lit ''Data''] \<or> r = [lit ''Data'', lit ''data''] \<or> r = [lit ''Data'', lit ''config''] \<or>
     (\<exists>a. r = [lit ''Data'', lit ''config'', a]) \<or> (\<exists>a b. r = [lit ''Data'', lit ''config'', a, b])"

definition file_place :: "path \<Rightarrow> bool" where
  "file_place r \<longleftrightarrow> r = [lit ''.build.info''] \<or> r = [lit ''Data'', lit ''data'', index_name] \<or>
     (\<exists>a b c. r = [lit ''Data'', lit ''config'', a, b, c])"

lemma places_apart: "dir_place r \<Longrightarrow> \<not> file_place r"
proof -
  have "lit ''.build.info'' \<noteq> lit ''Data''" "lit ''config'' \<noteq> lit ''data''" by (simp_all add: lit_def)
  then show "dir_place r \<Longrightarrow> \<not> file_place r"
    unfolding dir_place_def file_place_def by auto
qed

lemma dir_place_take: "dir_place r \<Longrightarrow> dir_place (take n r)"
  unfolding dir_place_def by (elim disjE exE) (auto simp: take_Cons split: nat.split)

definition shaped :: "path \<Rightarrow> fsys \<Rightarrow> bool" where
  "shaped dir fs \<longleftrightarrow> fs_stat fs dir = Some True \<and> (\<forall>r. dir_place r \<longrightarrow> fs_stat fs (dir @ r) \<noteq> Some False) \<and>
     (\<forall>r. file_place r \<longrightarrow> fs_stat fs (dir @ r) \<noteq> Some True)"

lemma fresh_shaped: "fresh_dir dir fs \<Longrightarrow> shaped dir fs"
proof -
  assume f: "fresh_dir dir fs"
  have "fs_stat fs (dir @ r) \<noteq> Some False" for r using f by (cases "r = []") (auto simp: fresh_dir_def)
  moreover have "file_place r \<Longrightarrow> r \<noteq> []" for r by (auto simp: file_place_def)
  ultimately show ?thesis using f by (auto simp: shaped_def fresh_dir_def)
qed

lemma MkdirAll_shaped:
  assumes "shaped dir fs" "dir_place r"
  obtains fs' where "MkdirAll None (dir @ r) fs = (Ret (), fs')" "shaped dir fs'" "fs_stat fs' (dir @ r) = Some True"
    "fs_segs fs' = fs_segs fs"
proof -
  have "\<exists>ds. missing_dirs fs (rev (dir @ r)) = Ret ds"
  proof (rule missing_dirs_clear [where m = "length dir"])
    show "fs_stat fs (rev (rev (dir @ r))) \<noteq> Some False" using assms by (simp add: shaped_def)
    show "fs_stat fs (take n (rev (rev (dir @ r)))) \<noteq> Some False" if "length dir \<le> n" for n
      using assms that dir_place_take by (simp add: shaped_def)
  qed (use assms in \<open>simp_all add: shaped_def\<close>)
  then obtain ds where ds: "missing_dirs fs (rev (dir @ r)) = Ret ds" by blast
  define fs' where "fs' = foldl make_dir fs ds"
  have mk: "MkdirAll None (dir @ r) fs = (Ret (), fs')" using ds by (simp add: MkdirAll_def fs'_def)
  note m = MkdirAll_Ret [OF mk]
  have "shaped dir fs'"
    unfolding shaped_def
  proof (intro conjI allI impI)
    show "fs_stat fs' dir = Some True" using assms(1) m(4) by (simp add: shaped_def)
    show "fs_stat fs' (dir @ q) \<noteq> Some False" if "dir_place q" for q
      using assms(1) that m(8) by (auto simp: shaped_def)
    show "fs_stat fs' (dir @ q) \<noteq> Some True" if q: "file_place q" for q
    proof -
      have "dir @ q \<noteq> take n (dir @ r)" for n
      proof
        assume eq: "dir @ q = take n (dir @ r)"
        then have "length dir \<le> n \<or> q = []" by (cases "length dir \<le> n") (auto dest: arg_cong [of _ _ length])
        moreover have "q \<noteq> []" using q by (auto simp: file_place_def)
        ultimately have "q = take (n - length dir) r" using eq by simp
        then show False using places_apart [OF dir_place_take [OF assms(2)]] q by blast
      qed
      then show ?thesis using m(7) assms(1) q by (simp add: shaped_def)
    qed
  qed
  then show thesis using mk m(2,3) by (intro that [of fs']) simp_all
qed

lemma WriteFile_shaped:
  assumes "shaped dir fs" "file_place r" "fs_stat fs (butlast (dir @ r)) = Some True"
  shows "WriteFile Write_ok (dir @ r) data fs = (Ret (), put_file (dir @ r) data fs)" "shaped dir (put_file (dir @ r) data fs)"
proof -
  have r: "r \<noteq> []" using assms(2) by (auto simp: file_place_def)
  show "WriteFile Write_ok (dir @ r) data fs = (Ret (), put_file (dir @ r) data fs)"
    using assms by (simp add: WriteFile_def shaped_def)
  show "shaped dir (put_file (dir @ r) data fs)"
    using assms r places_apart [of r] by (auto simp: shaped_def put_file_def)
qed

text \<open>An open writer takes every span that fits a segment.\<close>

lemma WriteSpan_succeeds:
  assumes "run_inv cap n w dk" "\<not> w_closed w" "8 \<le> length blte" "30 + length blte \<le> seg_cap cap" "seg_cap cap < 2 ^ 63"
  obtains e w' dk' where "WriteSpan no_faults blte ekey w dk = (Ret e, w', dk')" "\<not> w_closed w'"
proof -
  let ?n = "word_of_nat (EncodedHeaderSize + length blte) :: u64"
  have inv: "writer_ok w dk" "w_segmentFile w \<noteq> Some ClosedHandle" "unat (w_segmentSize w) = seg_cap cap"
    using assms(1) by (auto simp: run_inv_def)
  have "unat ?n = 30 + length blte"
    using assms(4,5) by (simp only: EncodedHeaderSize_def) (intro unat_word_of_nat, simp)
  then have small: "\<not> w_segmentSize w < ?n" using inv(3) assms(4) by (simp add: word_less_nat_alt del: of_nat_add)
  have "\<exists>w1. rollover no_faults ?n w = (Ret (), w1) \<and> \<not> w_closed w1 \<and> (w_segmentFile w1 = None \<or> w1 = w \<and> w_segmentFile w \<noteq> None)"
    using inv(2) assms(2) unfolding rollover_def no_faults_def
    by (cases "w_segmentFile w"; cases "w_segmentSize w < w_segmentOffs w + ?n") (simp_all del: of_nat_add)
  then obtain w1 where roll: "rollover no_faults ?n w = (Ret (), w1)" and c1: "\<not> w_closed w1"
    and w1: "w_segmentFile w1 = None \<or> w1 = w \<and> w_segmentFile w \<noteq> None"
    by blast
  have "\<exists>e w' dk'. WriteSpan no_faults blte ekey w dk = (Ret e, w', dk') \<and> \<not> w_closed w'"
  proof (cases "w_segmentFile w1 = None")
    case True
    obtain w2 dk2 where o: "openSegment no_faults w1 dk = (Ret (), w2, dk2)"
      by (auto simp: openSegment_def no_faults_def Let_def)
    note a = at_end_openSegment [OF o]
    show ?thesis
      using True roll small assms(2,3) o append_span_end [OF a(1), of blte ekey ?n] a(5) c1
      by (simp add: WriteSpan_def Let_def del: of_nat_add)
  next
    case False
    then have w: "w1 = w" "w_segmentFile w \<noteq> None" using w1 by auto
    then obtain old where "at_end w dk old"
      using inv(1,2) unfolding writer_ok_def at_end_def by (metis handle.exhaust option.exhaust)
    moreover obtain h where "w_segmentFile w = Some h" using w(2) by blast
    ultimately show ?thesis
      using False w roll small assms(2,3) append_span_end [of w dk old blte ekey ?n]
      by (simp add: WriteSpan_def Let_def del: of_nat_add)
  qed
  then show thesis using that by blast
qed

definition span_open :: "nat \<Rightarrow> span_state \<Rightarrow> bool" where
  "span_open n = (\<lambda>(w, dk, idx). run_inv DefaultSegmentSize n w dk \<and> \<not> w_closed w)"

definition stream_fits :: "codecs \<Rightarrow> bytes \<Rightarrow> bool" where
  "stream_fits C c \<longleftrightarrow> 30 + length (raw_stream C c) \<le> 2 ^ 30"

lemma raw_stream_min: "8 \<le> length (raw_stream C c)"
  by (simp add: raw_stream_def frames_bytes_def Let_def)

lemma writeSpan_succeeds:
  assumes "span_open n st" "stream_fits C c" "Suc n < 2 ^ 32" "codecs_ok C"
  obtains st' where "writeSpan C (\<lambda>_. no_faults) c st = (Ret (raw_record C c), st')" "span_open (Suc n) st'"
proof -
  obtain w dk idx where st: "st = (w, dk, idx)" by (cases st) auto
  have cap: "seg_cap DefaultSegmentSize = 2 ^ 30" by (simp add: seg_cap_def DefaultSegmentSize_def)
  have inv: "run_inv DefaultSegmentSize n w dk" "\<not> w_closed w" using assms(1) by (simp_all add: span_open_def st)
  obtain e w' dk' where W: "WriteSpan no_faults (raw_stream C c) (md5 C (raw_stream C c)) w dk = (Ret e, w', dk')" "\<not> w_closed w'"
    by (rule WriteSpan_succeeds [OF inv raw_stream_min]) (use assms(2) cap in \<open>simp_all add: stream_fits_def\<close>)
  have "length (md5 C (raw_stream C c)) = 16" using assms(4) by (simp add: codecs_ok_def)
  then have "run_inv DefaultSegmentSize (Suc n) w' dk'"
    using inv(1) assms(2,3) W(1) cap by (intro run_inv_write) (auto simp: stream_fits_def)
  then show thesis
    using W by (intro that [of "(w', dk', idx @ [e])"]) (simp_all add: st writeSpan_def blte_Encode_raw raw_record_def span_open_def)
qed

lemma write_files_succeeds:
  assumes "span_open n st" "\<forall>f\<in>set files. stream_fits C (snd f)" "n + length files < 2 ^ 32" "codecs_ok C"
  shows "\<exists>st'. write_files C (\<lambda>_. no_faults) files st = (Ret (flush_encs C (map snd files), flush_insts C files), st') \<and>
    span_open (n + length files) st'"
  using assms
proof (induction files arbitrary: n st)
  case Nil
  then show ?case by (simp add: flush_encs_def flush_insts_def)
next
  case (Cons f files)
  obtain name data where f: "f = (name, data)" by (cases f)
  obtain st1 where one: "writeSpan C (\<lambda>_. no_faults) data st = (Ret (raw_record C data), st1)" "span_open (Suc n) st1"
    by (rule writeSpan_succeeds [OF Cons.prems(1)]) (use Cons.prems in \<open>auto simp: f\<close>)
  then show ?case
    using Cons.IH [OF one(2)] Cons.prems by (auto simp: f flush_encs_def flush_insts_def)
qed

text \<open>Every stream of the run fits a segment.\<close>

definition flush_fits :: "codecs \<Rightarrow> (bytes \<times> bytes) list \<Rightarrow> bool" where
  "flush_fits C files \<longleftrightarrow> length files < 2 ^ 31 \<and>
     (\<forall>ib db eb. flush_manifests C files ib db eb \<longrightarrow> (\<forall>c\<in>set (map snd files @ [ib, db, eb]). stream_fits C c))"

lemma flush_manifests_exist: "\<exists>ib db eb. flush_manifests C files ib db eb"
  by (simp add: flush_manifests_def install_Encode_def EncodeDownload_def flush_download_def wd_version_def wd_keylen_def
      MD5HashSize_def enc_Encode_def flush_encoding_def default_page_def Let_def)

lemma flush_spans_succeeds:
  assumes "span_open 0 st" "flush_fits C files" "codecs_ok C"
  obtains out w dk idx where "flush_spans C (\<lambda>_. no_faults) files st = (Ret out, w, dk, idx)" "w_segmentFile w \<noteq> Some ClosedHandle"
proof -
  obtain ib db eb where man: "flush_manifests C files ib db eb" using flush_manifests_exist by blast
  have fits: "\<forall>f\<in>set files. stream_fits C (snd f)" "stream_fits C ib" "stream_fits C db" "stream_fits C eb" "length files < 2 ^ 31"
    using man assms(2) by (auto simp: flush_fits_def)
  obtain st1 where f: "write_files C (\<lambda>_. no_faults) files st = (Ret (flush_encs C (map snd files), flush_insts C files), st1)"
    "span_open (length files) st1"
    using write_files_succeeds [OF assms(1) fits(1) _ assms(3)] fits(5) by auto
  obtain st2 where i: "writeSpan C (\<lambda>_. no_faults) ib st1 = (Ret (raw_record C ib), st2)" "span_open (Suc (length files)) st2"
    by (rule writeSpan_succeeds [OF f(2) fits(2) _ assms(3)]) (use fits(5) in auto)
  obtain st3 where d: "writeSpan C (\<lambda>_. no_faults) db st2 = (Ret (raw_record C db), st3)" "span_open (Suc (Suc (length files))) st3"
    by (rule writeSpan_succeeds [OF i(2) fits(3) _ assms(3)]) (use fits(5) in auto)
  obtain st4 where e: "writeSpan C (\<lambda>_. no_faults) eb st3 = (Ret (raw_record C eb), st4)" "span_open (Suc (Suc (Suc (length files)))) st4"
    by (rule writeSpan_succeeds [OF d(2) fits(4) _ assms(3)]) (use fits(5) in auto)
  have "enc_Encode (md5 C) (flush_encs C (map snd files) @ [enc_record (raw_record C ib), enc_record (raw_record C db)])
      flush_encoding = Ret eb"
    using man by (simp add: flush_manifests_def flush_encs_def)
  then have "\<exists>out. flush_spans C (\<lambda>_. no_faults) files st = (Ret out, st4)"
    using f(1) i(1) d(1) e(1) man by (simp add: flush_spans_def flush_manifests_def)
  then show thesis using e(2) that by (cases st4) (auto simp: span_open_def run_inv_def)
qed

lemma flush_archive_succeeds:
  assumes "fs_segs fs dataDir = (\<lambda>_. None)" "flush_fits C files" "codecs_ok C"
  obtains out idx dk where "flush_archive C no_flush_faults dataDir files fs =
    (Ret (out, idx), fs\<lparr>fs_segs := (fs_segs fs)(dataDir := dk)\<rparr>)"
proof -
  have "span_open 0 (NewWriter DefaultSegmentSize, fs_segs fs dataDir, [])"
    using run_inv_new [of DefaultSegmentSize] by (simp add: assms(1) span_open_def) (simp add: NewWriter_def)
  then obtain out w dk idx where
    "flush_spans C (\<lambda>_. no_faults) files (NewWriter DefaultSegmentSize, fs_segs fs dataDir, []) = (Ret out, w, dk, idx)"
    "w_segmentFile w \<noteq> Some ClosedHandle"
    using assms(2,3) by (rule flush_spans_succeeds)
  then show thesis
    by (intro that) (auto simp: flush_archive_def no_flush_faults_def writer_Close_def no_faults_def split: option.split)
qed

lemma writeConfigFile_succeeds:
  assumes "shaped dir fs" "key_ok k"
  obtains fs' where "writeConfigFile None Write_ok (config_dir dir) k body fs = (Ret (), fs')" "shaped dir fs'"
proof -
  let ?h = "hex_encode k"
  let ?d = "[lit ''Data'', lit ''config'', take 2 ?h, take 2 (drop 2 ?h)]"
  have join: "Join (config_dir dir) [take 2 ?h, take 2 (drop 2 ?h)] = dir @ ?d" "Join (dir @ ?d) [?h] = dir @ (?d @ [?h])"
    using hex_plain [OF assms(2)] by (simp_all add: Join_plain config_dir_def)
  have "dir_place ?d" "file_place (?d @ [?h])" by (simp_all add: dir_place_def file_place_def)
  moreover obtain fs1 where mk: "MkdirAll None (dir @ ?d) fs = (Ret (), fs1)" "shaped dir fs1" "fs_stat fs1 (dir @ ?d) = Some True"
    using assms(1) calculation(1) by (rule MkdirAll_shaped)
  moreover have "butlast (dir @ (?d @ [?h])) = dir @ ?d" by (simp add: butlast_append)
  ultimately have "WriteFile Write_ok (dir @ (?d @ [?h])) body fs1 = (Ret (), put_file (dir @ (?d @ [?h])) body fs1)"
    "shaped dir (put_file (dir @ (?d @ [?h])) body fs1)"
    using WriteFile_shaped [OF mk(2), of "?d @ [?h]" body] by simp_all
  then show thesis
    using mk(1) by (intro that) (simp_all add: writeConfigFile_def Let_def join del: append_assoc append_Cons)
qed

lemma put_file_dir: "fs_stat fs q = Some True \<Longrightarrow> q \<noteq> p \<Longrightarrow> fs_stat (put_file p data fs) q = Some True"
  by (simp add: put_file_simps)

lemma Flush_runs:
  assumes "ap_createDir s = Some dir" "fresh_dir dir fs" "codecs_ok C" "flush_fits C (flush_order s)"
  shows "fst (Flush C no_flush_faults s fs) = Ret ()"
proof -
  have places: "dir_place [lit ''Data'', lit ''data'']" "dir_place [lit ''Data'', lit ''config'']"
    "file_place [lit ''Data'', lit ''data'', index_name]" "file_place [lit ''.build.info'']"
    by (simp_all add: dir_place_def file_place_def)
  obtain fs1 where m0: "MkdirAll None (data_dir dir) fs = (Ret (), fs1)" "shaped dir fs1" "fs_stat fs1 (data_dir dir) = Some True"
      "fs_segs fs1 = fs_segs fs"
    using MkdirAll_shaped [OF fresh_shaped [OF assms(2)] places(1)] unfolding data_dir_def by blast
  obtain fs2 where m1: "MkdirAll None (config_dir dir) fs1 = (Ret (), fs2)" "shaped dir fs2" "fs_segs fs2 = fs_segs fs1"
    using MkdirAll_shaped [OF m0(2) places(2)] unfolding config_dir_def by blast
  have d2: "fs_stat fs2 (data_dir dir) = Some True" using MkdirAll_Ret(4) [OF m1(1) m0(3)] .
  obtain fs3 where m2: "MkdirAll None (data_dir dir) fs2 = (Ret (), fs3)"
    using MkdirAll_shaped [OF m1(2) places(1)] unfolding data_dir_def by blast
  have fs3: "fs3 = fs2" by (rule MkdirAll_there [OF d2 m2])
  have "fs_segs fs2 (data_dir dir) = (\<lambda>_. None)"
    using assms(2) m0(4) m1(3) by (simp add: fresh_dir_def data_dir_def)
  then obtain out idx dk where ar: "flush_archive C no_flush_faults (data_dir dir) (flush_order s) fs2 =
      (Ret (out, idx), fs2\<lparr>fs_segs := (fs_segs fs2)(data_dir dir := dk)\<rparr>)"
    using assms(4,3) by (rule flush_archive_succeeds)
  define fs4 where "fs4 = fs2\<lparr>fs_segs := (fs_segs fs2)(data_dir dir := dk)\<rparr>"
  have s4: "shaped dir fs4" "fs_stat fs4 (data_dir dir) = Some True" using m1(2) d2 by (simp_all add: fs4_def shaped_def)
  define fs5 where "fs5 = put_file (data_dir dir @ [index_name]) (EncodeV1 idx flush_index) fs4"
  have w0: "WriteFile Write_ok (data_dir dir @ [index_name]) (EncodeV1 idx flush_index) fs4 = (Ret (), fs5)" "shaped dir fs5"
    using WriteFile_shaped [OF s4(1) places(3)] s4(2) by (simp_all add: fs5_def data_dir_def butlast_append)
  have keys: "key_ok (md5 C x)" for x using assms(3) by (simp add: codecs_ok_def key_ok_def MD5HashSize_def)
  let ?build = "bc_EncodeText (flush_buildCfg out)" and ?cdn = "bc_EncodeText flush_cdnCfg"
  obtain fs6 where c1: "writeConfigFile None Write_ok (config_dir dir) (md5 C ?build) ?build fs5 = (Ret (), fs6)" "shaped dir fs6"
    by (rule writeConfigFile_succeeds [OF w0(2) keys])
  obtain fs7 where c2: "writeConfigFile None Write_ok (config_dir dir) (md5 C ?cdn) ?cdn fs6 = (Ret (), fs7)" "shaped dir fs7"
    by (rule writeConfigFile_succeeds [OF c1(2) keys])
  have "WriteFile Write_ok (dir @ [lit ''.build.info'']) data fs7 = (Ret (), put_file (dir @ [lit ''.build.info'']) data fs7)" for data
    using WriteFile_shaped(1) [OF c2(2) places(4)] c2(2) by (simp add: shaped_def)
  then show ?thesis
    using assms(1) m0(1) m1(1) m2 ar w0(1) c1(1) c2(1)
    by (simp add: Flush_def Let_def no_flush_faults_def [symmetric] Join_plain plain_index_name index_FileName_zero fs3
        flush_order_def [symmetric] fs4_def [symmetric])
      (simp add: no_flush_faults_def)
qed

text \<open>
  C2. On an empty directory, with no call refused by the operating system, Flush runs to its
  end and reports success: any overlay of fewer than 2^31 files whose streams and manifests
  each fit a segment is written out.
\<close>

theorem flush_succeeds:
  assumes "ap_createDir s = Some dir" "fresh_dir dir fs" "codecs_ok C" "flush_fits C (flush_order s)"
  shows "fst (Flush C no_flush_faults s fs) = Ret ()"
  by (rule Flush_runs [OF assms])

end
