(* ===== verification/MndxBits.thy ===== *)
theory MndxBits
  imports CascBase
begin

text \<open>
  The packed arrays of \<^verbatim>\<open>internal/root/mndx/trie.go\<close>: the byte stream and its array loaders, bit entry
  arrays, and the sparse array (a bit set with rank and select shortcuts). A loader takes what is left
  of the stream and returns its value with the rest; its errors wrap no sentinel of \<^verbatim>\<open>casc\<close>. Shown
  here: no loader panics, and every array a loader returns is no longer than its input.
\<close>

unbundle bit_operations_syntax

section \<open>Bit tables\<close>

text \<open>The search for the set bit of number \<open>n\<close>; \<open>seen\<close> counts the set bits met so far.\<close>

fun bit_pos :: "nat \<Rightarrow> nat \<Rightarrow> nat \<Rightarrow> nat list \<Rightarrow> u8" where
  "bit_pos n b seen [] = 7"
| "bit_pos n b seen (i # js) =
     (if bit b i then (if seen = n then word_of_nat i else bit_pos n b (Suc seen) js) else bit_pos n b seen js)"

definition bitPos8Table :: "u8 list" where
  "bitPos8Table = map (\<lambda>j. bit_pos (j div 256) (j mod 256) 0 [0..<8]) [0..<0x800]"

definition setBitsAll :: "u32 \<Rightarrow> u32" where
  "setBitsAll v0 =
     (let v1 = (drop_bit 1 v0 AND 0x55555555) + (v0 AND 0x55555555);
          v2 = (drop_bit 2 v1 AND 0x33333333) + (v1 AND 0x33333333);
          v3 = (drop_bit 4 v2 AND 0x0F0F0F0F) + (v2 AND 0x0F0F0F0F) in
      v3 * 0x01010101)"

definition popcount32 :: "u32 \<Rightarrow> u32" where
  "popcount32 v = drop_bit 24 (setBitsAll v)"

section \<open>The byte stream\<close>

definition bs_skip :: "nat \<Rightarrow> bytes \<Rightarrow> bytes outcome" where
  "bs_skip n s = guard (length s < n) ErrOther (Ret (drop n s))"

definition getBytes :: "nat \<Rightarrow> bytes \<Rightarrow> (bytes \<times> bytes) outcome" where
  "getBytes n s = guard (length s < n) ErrOther (Ret (take n s, drop n s))"

definition getU32 :: "bytes \<Rightarrow> (u32 \<times> bytes) outcome" where
  "getU32 s = bnd (getBytes 4 s) (\<lambda>(b, s). bnd (LE32 b) (\<lambda>v. Ret (v, s)))"

definition getU64 :: "bytes \<Rightarrow> (u64 \<times> bytes) outcome" where
  "getU64 s = bnd (getBytes 8 s) (\<lambda>(b, s). bnd (LE64 b) (\<lambda>v. Ret (v, s)))"

definition getArrayItemCount :: "nat \<Rightarrow> bytes \<Rightarrow> (u32 \<times> u32 \<times> bytes) outcome" where
  "getArrayItemCount itemSize s =
     bnd (getU64 s) (\<lambda>(bc, s).
     guard (0xFFFFFFFF < bc \<or> bc mod word_of_nat itemSize \<noteq> 0) ErrOther (
     Ret (ucast bc, ucast (bc div word_of_nat itemSize), s)))"

text \<open>The padding to a multiple of eight, \<^verbatim>\<open>(-int(byteCount)) & 0x07\<close>.\<close>

definition array_pad :: "u32 \<Rightarrow> nat" where
  "array_pad byteCount = nat (- int (unat byteCount) AND 7)"

definition skip_pad :: "u32 \<Rightarrow> bytes \<Rightarrow> bytes outcome" where
  "skip_pad byteCount s = (if array_pad byteCount \<noteq> 0 then bs_skip (array_pad byteCount) s else Ret s)"

definition loadByteArray :: "bytes \<Rightarrow> (bytes \<times> bytes) outcome" where
  "loadByteArray s =
     bnd (getArrayItemCount 1 s) (\<lambda>(byteCount, itemCount, s).
     bnd (getBytes (unat itemCount) s) (\<lambda>(out, s).
     bnd (skip_pad byteCount s) (\<lambda>s. Ret (out, s))))"

text \<open>The frame the three other loaders share: \<open>item raw o\<close> reads the item at offset \<open>o\<close>.\<close>

definition load_items :: "nat \<Rightarrow> (bytes \<Rightarrow> nat \<Rightarrow> 'a outcome) \<Rightarrow> bytes \<Rightarrow> ('a list \<times> bytes) outcome" where
  "load_items itemSize item s =
     bnd (getArrayItemCount itemSize s) (\<lambda>(byteCount, itemCount, s).
     bnd (getBytes (unat itemCount * itemSize) s) (\<lambda>(raw, s).
     bnd (mapM (\<lambda>i. item raw (i * itemSize)) [0..<unat itemCount]) (\<lambda>out.
     bnd (skip_pad byteCount s) (\<lambda>s. Ret (out, s)))))"

definition loadDwordArray :: "bytes \<Rightarrow> (u32 list \<times> bytes) outcome" where
  "loadDwordArray = load_items 4 (\<lambda>raw k. rdLE32 raw k (k + 4))"

record baseVals =
  BaseValue200 :: u32
  AddValue40 :: u32
  AddValue80 :: u32
  AddValueC0 :: u32
  AddValue100 :: u32
  AddValue140 :: u32
  AddValue180 :: u32
  AddValue1C0 :: u32

definition baseValsSize :: nat where "baseValsSize = 12"

definition read_baseVals :: "bytes \<Rightarrow> nat \<Rightarrow> baseVals outcome" where
  "read_baseVals raw k =
     bnd (rdLE32 raw k (k + 4)) (\<lambda>base.
     bnd (rdLE32 raw (k + 4) (k + 8)) (\<lambda>w1.
     bnd (rdLE32 raw (k + 8) (k + 12)) (\<lambda>w2.
     Ret \<lparr>BaseValue200 = base,
          AddValue40 = w1 AND 0x7F,
          AddValue80 = drop_bit 7 w1 AND 0xFF,
          AddValueC0 = drop_bit 15 w1 AND 0xFF,
          AddValue100 = drop_bit 23 w1 AND 0x1FF,
          AddValue140 = w2 AND 0x1FF,
          AddValue180 = drop_bit 9 w2 AND 0x1FF,
          AddValue1C0 = drop_bit 18 w2 AND 0x1FF\<rparr>)))"

definition loadBaseValsArray :: "bytes \<Rightarrow> (baseVals list \<times> bytes) outcome" where
  "loadBaseValsArray = load_items baseValsSize read_baseVals"

record hashEntry =
  he_NodeIndex :: u32
  he_NextIndex :: u32
  he_FragmentOffset :: u32

definition hashEntrySize :: nat where "hashEntrySize = 12"

definition IsSingleChar :: "hashEntry \<Rightarrow> bool" where
  "IsSingleChar h \<longleftrightarrow> he_FragmentOffset h AND 0xFFFFFF00 = 0xFFFFFF00"

definition SingleChar :: "hashEntry \<Rightarrow> u8" where
  "SingleChar h = ucast (he_FragmentOffset h AND 0xFF)"

definition ChildTableIndex :: "hashEntry \<Rightarrow> u32" where
  "ChildTableIndex h = he_FragmentOffset h"

definition read_hashEntry :: "bytes \<Rightarrow> nat \<Rightarrow> hashEntry outcome" where
  "read_hashEntry raw k =
     bnd (rdLE32 raw k (k + 4)) (\<lambda>node.
     bnd (rdLE32 raw (k + 4) (k + 8)) (\<lambda>nxt.
     bnd (rdLE32 raw (k + 8) (k + 12)) (\<lambda>frag.
     Ret \<lparr>he_NodeIndex = node, he_NextIndex = nxt, he_FragmentOffset = frag\<rparr>)))"

definition loadHashEntryArray :: "bytes \<Rightarrow> (hashEntry list \<times> bytes) outcome" where
  "loadHashEntryArray = load_items hashEntrySize read_hashEntry"

section \<open>Bit entries\<close>

record bitEntryArray =
  be_Items :: "u32 list"
  be_BitsPerEntry :: u32
  be_EntryBitMask :: u32
  be_TotalEntries :: u32

definition bitEntryArray_load :: "bytes \<Rightarrow> (bitEntryArray \<times> bytes) outcome" where
  "bitEntryArray_load s =
     bnd (loadDwordArray s) (\<lambda>(items, s).
     bnd (getU32 s) (\<lambda>(bits, s).
     guard (0x20 < bits) ErrOther (
     bnd (getU32 s) (\<lambda>(mask, s).
     bnd (getU64 s) (\<lambda>(v64, s).
     guard (0xFFFFFFFF < v64) ErrOther (
     Ret (\<lparr>be_Items = items, be_BitsPerEntry = bits, be_EntryBitMask = mask, be_TotalEntries = ucast v64\<rparr>, s)))))))"

definition bitEntryArray_Get :: "bitEntryArray \<Rightarrow> u32 \<Rightarrow> u32" where
  "bitEntryArray_Get b idx =
     (let items = be_Items b; n = word_of_nat (length items) :: u32; bits = be_BitsPerEntry b in
      if bits = 0 \<or> items = [] then 0 else
      let wordIdx = drop_bit 5 (idx * bits); startBit = (idx * bits) AND 0x1F; endBit = startBit + bits in
      if 32 < endBit then
        (if n \<le> wordIdx + 1
         then (if wordIdx < n then drop_bit (unat startBit) (items ! unat wordIdx) else 0)
         else push_bit (unat (32 - startBit)) (items ! unat (wordIdx + 1)) OR
              drop_bit (unat startBit) (items ! unat wordIdx)) AND be_EntryBitMask b
      else if n \<le> wordIdx then 0
      else drop_bit (unat startBit) (items ! unat wordIdx) AND be_EntryBitMask b)"

section \<open>The sparse array\<close>

record sparseArray =
  sa_ItemBits :: "u32 list"
  sa_BaseVals :: "baseVals list"
  sa_IndexToItem0 :: "u32 list"
  sa_IndexToItem1 :: "u32 list"
  sa_TotalItemCount :: u32
  sa_ValidItemCount :: u32

definition sparseArray_load :: "bytes \<Rightarrow> (sparseArray \<times> bytes) outcome" where
  "sparseArray_load s =
     bnd (loadDwordArray s) (\<lambda>(bits, s).
     bnd (getU32 s) (\<lambda>(total, s).
     bnd (getU32 s) (\<lambda>(valid, s).
     guard (total < valid) ErrOther (
     guard (word_of_nat (length bits) * 32 + 32 < total) ErrOther (
     bnd (loadBaseValsArray s) (\<lambda>(base, s).
     bnd (loadDwordArray s) (\<lambda>(item0, s).
     bnd (loadDwordArray s) (\<lambda>(item1, s).
     Ret (\<lparr>sa_ItemBits = bits, sa_BaseVals = base, sa_IndexToItem0 = item0, sa_IndexToItem1 = item1,
           sa_TotalItemCount = total, sa_ValidItemCount = valid\<rparr>, s)))))))))"

definition sa_IsEmpty :: "sparseArray \<Rightarrow> bool" where
  "sa_IsEmpty a \<longleftrightarrow> sa_TotalItemCount a = 0"

definition IsItemPresent :: "sparseArray \<Rightarrow> u32 \<Rightarrow> bool" where
  "IsItemPresent a index \<longleftrightarrow>
     (let wordIdx = drop_bit 5 index in
      \<not> word_of_nat (length (sa_ItemBits a)) \<le> wordIdx \<and>
      (sa_ItemBits a ! unat wordIdx) AND push_bit (unat (index AND 0x1F)) 1 \<noteq> 0)"

definition block_add :: "baseVals \<Rightarrow> u32 \<Rightarrow> u32" where
  "block_add bv k =
     (if k = 0 then AddValue40 bv else if k = 1 then AddValue80 bv else if k = 2 then AddValueC0 bv
      else if k = 3 then AddValue100 bv else if k = 4 then AddValue140 bv else if k = 5 then AddValue180 bv
      else if k = 6 then AddValue1C0 bv else 0)"

definition GetItemValueAt :: "sparseArray \<Rightarrow> u32 \<Rightarrow> u32" where
  "GetItemValueAt a index =
     (let bvIdx = drop_bit 9 index; bits = sa_ItemBits a; n = word_of_nat (length bits) in
      if word_of_nat (length (sa_BaseVals a)) \<le> bvIdx then 0 else
      let bv = sa_BaseVals a ! unat bvIdx;
          v1 = BaseValue200 bv + block_add bv ((drop_bit 6 index AND 7) - 1);
          prevWord = drop_bit 5 index - 1;
          v2 = (if index AND 0x20 \<noteq> 0 \<and> prevWord < n then v1 + popcount32 (bits ! unat prevWord) else v1);
          wordIdx = drop_bit 5 index in
      if n \<le> wordIdx then v2 else
      let mask = push_bit (unat (index AND 0x1F)) 1 - 1 in
      v2 + popcount32 ((bits ! unat wordIdx) AND mask))"

text \<open>
  Groups are word values shifted right by nine, below \<open>2 ^ 23\<close>: the two searches keep them as
  numbers. A difference of groups that would be negative wraps to a large word in the code.
\<close>

function scan_groups0 :: "sparseArray \<Rightarrow> u32 \<Rightarrow> nat \<Rightarrow> nat" where
  "scan_groups0 a index minGroup =
     (if minGroup + 1 < length (sa_BaseVals a) \<and>
         word_of_nat (minGroup * 512) - BaseValue200 (sa_BaseVals a ! (minGroup + 1)) + 0x200 \<le> index
      then scan_groups0 a index (minGroup + 1) else minGroup)"
  by pat_completeness auto
termination by (relation "measure (\<lambda>(a, index, g). length (sa_BaseVals a) - g)") auto

function halve_groups0 :: "sparseArray \<Rightarrow> u32 \<Rightarrow> nat \<Rightarrow> nat \<Rightarrow> nat" where
  "halve_groups0 a index minGroup maxGroup =
     (if minGroup + 1 < maxGroup then
        let mid = (maxGroup + minGroup) div 2 in
        if maxGroup < length (sa_BaseVals a) \<and>
           index < word_of_nat (maxGroup * 512) - BaseValue200 (sa_BaseVals a ! maxGroup)
        then halve_groups0 a index minGroup mid
        else halve_groups0 a index mid maxGroup
      else minGroup)"
  by pat_completeness auto
termination by (relation "measure (\<lambda>(a, index, lo, hi). hi - lo)") auto

definition findGroupItems0 :: "sparseArray \<Rightarrow> u32 \<Rightarrow> nat" where
  "findGroupItems0 a index =
     (let item0 = sa_IndexToItem0 a; g = unat (drop_bit 9 index) in
      if length item0 \<le> g + 1 then (if g < length item0 then unat (drop_bit 9 (item0 ! g)) else 0) else
      let minGroup = unat (drop_bit 9 (item0 ! g)); maxGroup = unat (drop_bit 9 (item0 ! (g + 1) + 0x1FF)) in
      if minGroup \<le> maxGroup \<and> maxGroup - minGroup < 10
      then scan_groups0 a index minGroup
      else halve_groups0 a index minGroup maxGroup)"

function scan_groups1 :: "sparseArray \<Rightarrow> u32 \<Rightarrow> nat \<Rightarrow> nat" where
  "scan_groups1 a index startV =
     (if startV + 1 < length (sa_BaseVals a) \<and> BaseValue200 (sa_BaseVals a ! (startV + 1)) \<le> index
      then scan_groups1 a index (startV + 1) else startV)"
  by pat_completeness auto
termination by (relation "measure (\<lambda>(a, index, g). length (sa_BaseVals a) - g)") auto

definition findGroupItems1 :: "sparseArray \<Rightarrow> u32 \<Rightarrow> nat" where
  "findGroupItems1 a index =
     (let item1 = sa_IndexToItem1 a; g = unat (drop_bit 9 index) in
      if length item1 \<le> g + 1 then (if g < length item1 then unat (drop_bit 9 (item1 ! g)) else 0) else
      let startV = unat (drop_bit 9 (item1 ! g)); nextV = unat (drop_bit 9 (item1 ! (g + 1) + 0x1FF)) in
      if startV \<le> nextV \<and> nextV - startV < 10 then scan_groups1 a index startV
      else if startV + 1 < nextV then
        let mid = (nextV + startV) div 2 in
        if mid < length (sa_BaseVals a) \<and> BaseValue200 (sa_BaseVals a ! mid) \<le> index then mid else startV
      else startV)"

declare scan_groups0.simps [simp del] halve_groups0.simps [simp del] scan_groups1.simps [simp del]

text \<open>The block of 64 bits inside a group: the first of its two words, and the count left in it.\<close>

definition block_item0 :: "baseVals \<Rightarrow> u32 \<Rightarrow> u32 \<times> u32" where
  "block_item0 bv edx =
     (if edx < 0x100 - AddValue100 bv then
        (if edx < 0x80 - AddValue80 bv then
           (if 0x40 - AddValue40 bv \<le> edx then (2, edx + AddValue40 bv - 0x40) else (0, edx))
         else if edx < 0xC0 - AddValueC0 bv then (4, edx + AddValue80 bv - 0x80)
         else (6, edx + AddValueC0 bv - 0xC0))
      else if edx < 0x180 - AddValue180 bv then
        (if edx < 0x140 - AddValue140 bv then (8, edx + AddValue100 bv - 0x100)
         else (10, edx + AddValue140 bv - 0x140))
      else if edx < 0x1C0 - AddValue1C0 bv then (12, edx + AddValue180 bv - 0x180)
      else (14, edx + AddValue1C0 bv - 0x1C0))"

definition block_item1 :: "baseVals \<Rightarrow> u32 \<Rightarrow> u32 \<times> u32" where
  "block_item1 bv dist =
     (if dist < AddValue100 bv then
        (if dist < AddValue80 bv then
           (if AddValue40 bv \<le> dist then (2, dist - AddValue40 bv) else (0, dist))
         else if dist < AddValueC0 bv then (4, dist - AddValue80 bv)
         else (6, dist - AddValueC0 bv))
      else if dist < AddValue180 bv then
        (if dist < AddValue140 bv then (8, dist - AddValue100 bv)
         else (10, dist - AddValue140 bv))
      else if dist < AddValue1C0 bv then (12, dist - AddValue180 bv)
      else (14, dist - AddValue1C0 bv))"

text \<open>
  The set bit of number \<open>n\<close> in one word: its byte by the packed counts, then the table. The index
  \<^verbatim>\<open>(n << 8) | bitGroup\<close> is out of the table for a count the word does not hold.
\<close>

definition word_item :: "u32 \<Rightarrow> u32 \<Rightarrow> u32 \<Rightarrow> u32 \<Rightarrow> u32 outcome" where
  "word_item bitGroup zb n dwordIdx =
     (let itemIdx = push_bit 5 dwordIdx;
          low08 = zb AND 0xFF; low16 = drop_bit 8 zb AND 0xFF; low24 = drop_bit 16 zb AND 0xFF;
          (group, item, rest) =
            (if n < low16 then
               (if low08 \<le> n then (drop_bit 8 bitGroup, itemIdx + 8, n - low08) else (bitGroup, itemIdx, n))
             else if n < low24 then (drop_bit 16 bitGroup, itemIdx + 16, n - low16)
             else (drop_bit 24 bitGroup, itemIdx + 24, n - low24)) in
      bnd (at bitPos8Table (unat (push_bit 8 rest OR (group AND 0xFF)))) (\<lambda>p.
      Ret (ucast p + item)))"

text \<open>The two words of a block; \<open>view\<close> is the complement for absent items.\<close>

definition block_words :: "(u32 \<Rightarrow> u32) \<Rightarrow> sparseArray \<Rightarrow> u32 \<Rightarrow> u32 \<Rightarrow> u32 outcome" where
  "block_words view a n dwordIdx =
     (let bits = sa_ItemBits a; len = word_of_nat (length bits) in
      if len \<le> dwordIdx then Ret 0 else
      let bitGroup = view (bits ! unat dwordIdx); zb = setBitsAll bitGroup; c = drop_bit 24 zb AND 0xFF in
      if c \<le> n then
        (if len \<le> dwordIdx + 1 then Ret 0
         else let bitGroup' = view (bits ! unat (dwordIdx + 1)) in
              word_item bitGroup' (setBitsAll bitGroup') (n - c) (dwordIdx + 1))
      else word_item bitGroup zb n dwordIdx)"

definition GetItem0 :: "sparseArray \<Rightarrow> u32 \<Rightarrow> u32 outcome" where
  "GetItem0 a index =
     (if index AND 0x1FF = 0 then
        let g = unat (drop_bit 9 index) in
        Ret (if length (sa_IndexToItem0 a) \<le> g then 0 else sa_IndexToItem0 a ! g)
      else
        let gi = findGroupItems0 a index in
        if length (sa_BaseVals a) \<le> gi then Ret 0 else
        let bv = sa_BaseVals a ! gi;
            (d, edx) = block_item0 bv (index + BaseValue200 bv - word_of_nat (gi * 512)) in
        block_words NOT a edx (word_of_nat (gi * 16) + d))"

definition GetItem1 :: "sparseArray \<Rightarrow> u32 \<Rightarrow> u32 outcome" where
  "GetItem1 a index =
     (if index AND 0x1FF = 0 then
        let g = unat (drop_bit 9 index) in
        Ret (if length (sa_IndexToItem1 a) \<le> g then 0 else sa_IndexToItem1 a ! g)
      else
        let gi = findGroupItems1 a index in
        if length (sa_BaseVals a) \<le> gi then Ret 0 else
        let bv = sa_BaseVals a ! gi;
            (d, dist) = block_item1 bv (index - BaseValue200 bv) in
        block_words (\<lambda>x. x) a dist (word_of_nat (gi * 16) + d))"

section \<open>The loaders are safe and consume their input\<close>

named_theorems stream_simps \<open>what the reads of a stream return and leave\<close>

lemma bs_skip_Ret [stream_simps]: "bs_skip n s = Ret s' \<longleftrightarrow> n \<le> length s \<and> s' = drop n s"
  by (auto simp: bs_skip_def guard_def)

lemma getBytes_Ret [stream_simps]: "getBytes n s = Ret (b, s') \<longleftrightarrow> n \<le> length s \<and> b = take n s \<and> s' = drop n s"
  by (auto simp: getBytes_def guard_def)

lemma getU32_Ret [stream_simps]:
  "getU32 s = Ret (v, s') \<longleftrightarrow> 4 \<le> length s \<and> v = word_of_nat (le_val (take 4 s)) \<and> s' = drop 4 s"
  by (auto simp: getU32_def outcome_simps stream_simps LE32_def)

lemma getU64_Ret [stream_simps]:
  "getU64 s = Ret (v, s') \<longleftrightarrow> 8 \<le> length s \<and> v = word_of_nat (le_val (take 8 s)) \<and> s' = drop 8 s"
  by (auto simp: getU64_def outcome_simps stream_simps LE64_def)

lemma safe_stream: "safe (bs_skip n s)" "safe (getBytes n s)" "safe (getU32 s)" "safe (getU64 s)"
  by (auto simp: bs_skip_def getU32_def getU64_def getBytes_def LE32_def LE64_def outcome_simps)

lemma safe_getArrayItemCount: "safe (getArrayItemCount k s)"
  by (auto simp: getArrayItemCount_def outcome_simps safe_stream split: prod.split)

lemma safe_skip_pad: "safe (skip_pad c s)"
  by (simp add: skip_pad_def safe_stream)

lemma skip_pad_length: "skip_pad c s = Ret s' \<Longrightarrow> length s' \<le> length s"
  by (auto simp: skip_pad_def stream_simps split: if_splits)

lemma getArrayItemCount_Ret:
  assumes "getArrayItemCount k s = Ret (bc, n, s')"
  shows "8 + length s' = length s"
  using assms by (auto simp: getArrayItemCount_def outcome_simps stream_simps)

lemma safe_loadByteArray: "safe (loadByteArray s)"
  by (auto simp: loadByteArray_def outcome_simps safe_stream safe_getArrayItemCount safe_skip_pad split: prod.split)

lemma loadByteArray_length:
  "loadByteArray s = Ret (out, s') \<Longrightarrow> 8 + length out + length s' \<le> length s"
  by (auto simp: loadByteArray_def outcome_simps stream_simps dest!: getArrayItemCount_Ret skip_pad_length)

text \<open>An item loader is safe when its item reader is within the bytes of one item.\<close>

lemma safe_load_items:
  assumes "\<And>raw j. j + k \<le> length raw \<Longrightarrow> safe (item raw j)"
  shows "safe (load_items k item s)"
proof -
  have item: "safe (item raw (i * k))" if "length raw = n * k" "i < n" for raw i n
  proof -
    have "Suc i * k \<le> n * k" using that(2) by (intro mult_le_mono1) simp
    then show ?thesis using that(1) by (intro assms) simp
  qed
  show ?thesis
    by (auto simp: load_items_def outcome_simps safe_stream safe_getArrayItemCount safe_skip_pad stream_simps
        min_absorb2 split: prod.split intro!: safe_mapM item)
qed

lemma load_items_length:
  assumes "load_items k item s = Ret (xs, s')"
  shows "8 + length xs * k + length s' \<le> length s"
  using assms by (auto simp: load_items_def outcome_simps stream_simps dest!: getArrayItemCount_Ret skip_pad_length mapM_Ret_length)

lemma safe_loads:
  "safe (loadDwordArray s)" "safe (loadBaseValsArray s)" "safe (loadHashEntryArray s)"
  unfolding loadDwordArray_def loadBaseValsArray_def loadHashEntryArray_def
  by (auto simp: baseValsSize_def hashEntrySize_def read_baseVals_def read_hashEntry_def outcome_simps
      intro!: safe_load_items)

lemma load_lengths:
  "loadDwordArray s = Ret (ds, s') \<Longrightarrow> 8 + length ds * 4 + length s' \<le> length s"
  "loadBaseValsArray s = Ret (bs, s') \<Longrightarrow> 8 + length bs * 12 + length s' \<le> length s"
  "loadHashEntryArray s = Ret (hs, s') \<Longrightarrow> 8 + length hs * 12 + length s' \<le> length s"
  unfolding loadDwordArray_def loadBaseValsArray_def loadHashEntryArray_def
  by (auto simp: baseValsSize_def hashEntrySize_def dest!: load_items_length)

lemma safe_bitEntryArray_load: "safe (bitEntryArray_load s)"
  by (auto simp: bitEntryArray_load_def outcome_simps safe_stream safe_loads split: prod.split)

lemma bitEntryArray_load_length: "bitEntryArray_load s = Ret (b, s') \<Longrightarrow> length s' < length s"
  by (auto simp: bitEntryArray_load_def outcome_simps stream_simps dest!: load_lengths)

lemma safe_sparseArray_load: "safe (sparseArray_load s)"
  by (auto simp: sparseArray_load_def outcome_simps safe_stream safe_loads split: prod.split)

text \<open>What the checks of a loaded sparse array establish.\<close>

lemma sparseArray_load_Ret:
  assumes "sparseArray_load s = Ret (a, s')"
  shows "length s' < length s" "sa_ValidItemCount a \<le> sa_TotalItemCount a"
    and "unat (sa_TotalItemCount a) \<le> 32 * length (sa_ItemBits a) + 32" "4 * length (sa_ItemBits a) \<le> length s"
proof -
  obtain bits s1 total s2 valid s3 base s4 item0 s5 item1 where
    l: "loadDwordArray s = Ret (bits, s1)" "getU32 s1 = Ret (total, s2)" "getU32 s2 = Ret (valid, s3)"
      "\<not> total < valid" "\<not> word_of_nat (length bits) * 32 + 32 < total"
      "loadBaseValsArray s3 = Ret (base, s4)" "loadDwordArray s4 = Ret (item0, s5)" "loadDwordArray s5 = Ret (item1, s')"
      "sa_ItemBits a = bits" "sa_TotalItemCount a = total" "sa_ValidItemCount a = valid"
    using assms by (auto simp: sparseArray_load_def outcome_simps)
  have len: "8 + length bits * 4 + length s1 \<le> length s" "length s2 \<le> length s1" "length s3 \<le> length s2"
      "length s4 < length s3" "length s5 < length s4" "length s' < length s5"
    using l(2,3) load_lengths(1) [OF l(1)] load_lengths(2) [OF l(6)] load_lengths(1) [OF l(7)] load_lengths(1) [OF l(8)]
    by (auto simp: stream_simps)
  then show "length s' < length s" "4 * length (sa_ItemBits a) \<le> length s" using l(9) by simp_all
  show "sa_ValidItemCount a \<le> sa_TotalItemCount a" using l(4,10,11) by simp
  have "unat total \<le> unat (word_of_nat (length bits * 32 + 32) :: u32)"
    using l(5) by (simp add: word_le_nat_alt [symmetric] not_less)
  also have "\<dots> \<le> length bits * 32 + 32" by (simp only: unat_of_nat mod_less_eq_dividend)
  finally show "unat (sa_TotalItemCount a) \<le> 32 * length (sa_ItemBits a) + 32" using l(9,10) by simp
qed

end
