(* ===== verification/MndxTrie.thy ===== *)
theory MndxTrie
  imports MndxBits
begin

text \<open>
  The name tries of \<^verbatim>\<open>internal/root/mndx/trie.go\<close>: path fragment tables, the search state, the name
  database with its nested child, its loader, the copy and compare routines and the incremental search
  \<^verbatim>\<open>doSearch\<close>. Positions in a fragment table and in a search mask are numbers; they are compared with
  the lengths before use, as in the code, or make the access panic.

  A routine whose loop may run forever has its outcome in \<^verbatim>\<open>option\<close>; the routines bounded by
  \<^verbatim>\<open>maxTrieSteps\<close> are total functions.
\<close>

unbundle bit_operations_syntax

section \<open>Path fragments\<close>

record pathFragmentTable =
  pf_PathFragments :: bytes
  pf_PathMarks :: sparseArray

definition pathFragmentTable_load :: "bytes \<Rightarrow> (pathFragmentTable \<times> bytes) outcome" where
  "pathFragmentTable_load s =
     bnd (loadByteArray s) (\<lambda>(pf, s).
     bnd (sparseArray_load s) (\<lambda>(marks, s).
     Ret (\<lparr>pf_PathFragments = pf, pf_PathMarks = marks\<rparr>, s)))"

text \<open>What \<^verbatim>\<open>copyPathFragment\<close> appends to the path buffer.\<close>

fun copy_marked :: "sparseArray \<Rightarrow> bytes \<Rightarrow> u32 \<Rightarrow> bytes" where
  "copy_marked marks [] off = []"
| "copy_marked marks (b # bs) off = b # (if IsItemPresent marks off then [] else copy_marked marks bs (off + 1))"

definition copyPathFragment :: "pathFragmentTable \<Rightarrow> u32 \<Rightarrow> bytes" where
  "copyPathFragment p off =
     (let rest = drop (unat off) (pf_PathFragments p) in
      if sa_IsEmpty (pf_PathMarks p) then takeWhile (\<lambda>b. b \<noteq> 0) rest else copy_marked (pf_PathMarks p) rest off)"

text \<open>
  The comparisons of a fragment with the search mask from position \<open>pl\<close>. They give the result and the
  new position, the copying ones also the bytes appended.
\<close>

function compare_plain :: "bytes \<Rightarrow> bytes \<Rightarrow> nat \<Rightarrow> nat \<Rightarrow> bool \<times> nat" where
  "compare_plain frags sm off pl =
     (if off < length frags \<and> pl < length sm \<and> frags ! off = sm ! pl then
        (if length frags \<le> off + 1 then (False, pl + 1)
         else if frags ! (off + 1) = 0 then (True, pl + 1)
         else if length sm \<le> pl + 1 then (False, pl + 1)
         else compare_plain frags sm (off + 1) (pl + 1))
      else (False, pl))"
  by pat_completeness auto
termination by (relation "measure (\<lambda>(frags, sm, off, pl). length sm - pl)") auto

function compare_marked :: "bytes \<Rightarrow> sparseArray \<Rightarrow> bytes \<Rightarrow> nat \<Rightarrow> nat \<Rightarrow> bool \<times> nat" where
  "compare_marked frags marks sm off pl =
     (if off < length frags \<and> pl < length sm \<and> frags ! off = sm ! pl then
        (if IsItemPresent marks (word_of_nat off) then (True, pl + 1)
         else if length sm \<le> off + 1 then (False, pl + 1)
         else compare_marked frags marks sm (off + 1) (pl + 1))
      else (False, pl))"
  by pat_completeness auto
termination by (relation "measure (\<lambda>(frags, marks, sm, off, pl). length sm - pl)") auto

definition table_comparePathFragment :: "pathFragmentTable \<Rightarrow> bytes \<Rightarrow> u32 \<Rightarrow> nat \<Rightarrow> bool \<times> nat" where
  "table_comparePathFragment p sm off pl =
     (if sa_IsEmpty (pf_PathMarks p) then compare_plain (pf_PathFragments p) sm (unat off) pl
      else compare_marked (pf_PathFragments p) (pf_PathMarks p) sm (unat off) pl)"

function compare_copy_plain :: "bytes \<Rightarrow> bytes \<Rightarrow> nat \<Rightarrow> nat \<Rightarrow> bytes \<Rightarrow> bool \<times> bytes \<times> nat" where
  "compare_copy_plain frags sm off pl out =
     (if pl < length sm then
        (if length frags \<le> off then (False, out, pl)
         else if frags ! off \<noteq> sm ! pl then (False, out, pl)
         else if length frags \<le> off + 1 then (True, out @ [frags ! off], pl + 1)
         else if frags ! (off + 1) = 0 then (True, out @ [frags ! off], pl + 1)
         else compare_copy_plain frags sm (off + 1) (pl + 1) (out @ [frags ! off]))
      else (True, out @ takeWhile (\<lambda>b. b \<noteq> 0) (drop off frags), pl))"
  by pat_completeness auto
termination by (relation "measure (\<lambda>(frags, sm, off, pl, out). length sm - pl)") auto

text \<open>The last loop of the marked variant has no bounds check: past the last mark it panics.\<close>

function copy_to_mark :: "bytes \<Rightarrow> sparseArray \<Rightarrow> nat \<Rightarrow> bytes \<Rightarrow> bytes outcome" where
  "copy_to_mark frags marks off out =
     (if IsItemPresent marks (word_of_nat off) then Ret out
      else if off < length frags then copy_to_mark frags marks (off + 1) (out @ [frags ! off])
      else Panic)"
  by pat_completeness auto
termination by (relation "measure (\<lambda>(frags, marks, off, out). length frags - off)") auto

function compare_copy_marked ::
  "bytes \<Rightarrow> sparseArray \<Rightarrow> bytes \<Rightarrow> nat \<Rightarrow> nat \<Rightarrow> bytes \<Rightarrow> (bool \<times> bytes \<times> nat) outcome" where
  "compare_copy_marked frags marks sm off pl out =
     (if pl < length sm then
        bnd (at frags off) (\<lambda>b.
        if b \<noteq> sm ! pl then Ret (False, out, pl)
        else if IsItemPresent marks (word_of_nat off) then Ret (True, out @ [b], pl + 1)
        else compare_copy_marked frags marks sm (off + 1) (pl + 1) (out @ [b]))
      else bnd (copy_to_mark frags marks off out) (\<lambda>out. Ret (True, out, pl)))"
  by pat_completeness auto
termination by (relation "measure (\<lambda>(frags, marks, sm, off, pl, out). length sm - pl)") auto

declare compare_plain.simps [simp del] compare_marked.simps [simp del] compare_copy_plain.simps [simp del]
  copy_to_mark.simps [simp del] compare_copy_marked.simps [simp del]

definition table_compareAndCopyPathFragment ::
  "pathFragmentTable \<Rightarrow> bytes \<Rightarrow> u32 \<Rightarrow> nat \<Rightarrow> bytes \<Rightarrow> (bool \<times> bytes \<times> nat) outcome" where
  "table_compareAndCopyPathFragment p sm off pl out =
     (if sa_IsEmpty (pf_PathMarks p) then Ret (compare_copy_plain (pf_PathFragments p) sm (unat off) pl out)
      else compare_copy_marked (pf_PathFragments p) (pf_PathMarks p) sm (unat off) pl out)"

section \<open>The search state\<close>

definition searchInit :: u32 where "searchInit = 0"
definition searchSearching :: u32 where "searchSearching = 2"
definition searchFinished :: u32 where "searchFinished = 4"
definition invalidIndex :: u32 where "invalidIndex = 0xFFFFFFFF"

record pathStop =
  ps_LoBitsIndex :: u32
  ps_Field4 :: u32
  ps_Count :: u32
  ps_HiBitsIndexPathFragment :: u32
  ps_Field10 :: u32

definition newPathStop :: "u32 \<Rightarrow> u32 \<Rightarrow> u32 \<Rightarrow> pathStop" where
  "newPathStop a b c = \<lparr>ps_LoBitsIndex = a, ps_Field4 = b, ps_Count = c,
     ps_HiBitsIndexPathFragment = invalidIndex, ps_Field10 = invalidIndex\<rparr>"

record searchState =
  ss_PathStops :: "pathStop list"
  ss_PathBuffer :: bytes
  ss_NodeIndex :: u32
  ss_PathLength :: u32
  ss_ItemCount :: u32
  ss_SearchPhase :: u32

definition BeginSearch :: "searchState \<Rightarrow> searchState" where
  "BeginSearch s = s\<lparr>ss_PathBuffer := [], ss_PathStops := [], ss_PathLength := 0, ss_NodeIndex := 0,
     ss_ItemCount := 0, ss_SearchPhase := searchSearching\<rparr>"

definition CalcHashValue :: "searchState \<Rightarrow> bytes \<Rightarrow> u32 outcome" where
  "CalcHashValue s sm =
     bnd (at sm (unat (ss_PathLength s))) (\<lambda>c.
     Ret (ucast c XOR push_bit 5 (ss_NodeIndex s) XOR ss_NodeIndex s))"

record mndxSearch =
  ms_state :: searchState
  ms_searchMask :: bytes
  ms_foundPath :: bytes
  ms_foundIndex :: u32
  ms_totalSteps :: nat

definition new_search :: "bytes \<Rightarrow> mndxSearch" where
  "new_search sm = \<lparr>ms_state = \<lparr>ss_PathStops = [], ss_PathBuffer = [], ss_NodeIndex = 0, ss_PathLength = 0,
     ss_ItemCount = 0, ss_SearchPhase = searchInit\<rparr>, ms_searchMask = sm, ms_foundPath = [], ms_foundIndex = 0, ms_totalSteps = 0\<rparr>"

definition on_state :: "(searchState \<Rightarrow> searchState) \<Rightarrow> mndxSearch \<Rightarrow> mndxSearch" where
  "on_state f sr = sr\<lparr>ms_state := f (ms_state sr)\<rparr>"

definition push_path :: "bytes \<Rightarrow> mndxSearch \<Rightarrow> mndxSearch" where
  "push_path bs = on_state (\<lambda>s. s\<lparr>ss_PathBuffer := ss_PathBuffer s @ bs\<rparr>)"

definition set_length :: "nat \<Rightarrow> mndxSearch \<Rightarrow> mndxSearch" where
  "set_length pl = on_state (\<lambda>s. s\<lparr>ss_PathLength := word_of_nat pl\<rparr>)"

definition set_node :: "u32 \<Rightarrow> mndxSearch \<Rightarrow> mndxSearch" where
  "set_node i = on_state (\<lambda>s. s\<lparr>ss_NodeIndex := i\<rparr>)"

definition one_step :: "mndxSearch \<Rightarrow> mndxSearch" where
  "one_step sr = sr\<lparr>ms_totalSteps := ms_totalSteps sr + 1\<rparr>"

abbreviation mask_pos :: "mndxSearch \<Rightarrow> nat" where
  "mask_pos sr \<equiv> unat (ss_PathLength (ms_state sr))"

abbreviation mask_byte :: "mndxSearch \<Rightarrow> u8 outcome" where
  "mask_byte sr \<equiv> at (ms_searchMask sr) (mask_pos sr)"

lemma steps_simps [simp]:
  "ms_totalSteps (on_state f sr) = ms_totalSteps sr" "ms_totalSteps (push_path bs sr) = ms_totalSteps sr"
  "ms_totalSteps (set_length pl sr) = ms_totalSteps sr" "ms_totalSteps (set_node i sr) = ms_totalSteps sr"
  "ms_totalSteps (one_step sr) = ms_totalSteps sr + 1"
  by (simp_all add: on_state_def push_path_def set_length_def set_node_def one_step_def)

section \<open>The name database\<close>

datatype fileNameDB = FileNameDB
  (db_CollisionTable: sparseArray)
  (db_FileNameIndexes: sparseArray)
  (db_CollisionHiBitsIndexes: sparseArray)
  (db_LoBitsTable: bytes)
  (db_HiBitsTable: bitEntryArray)
  (db_PathFragmentTable: pathFragmentTable)
  (db_ChildDB: "fileNameDB option")
  (db_HashTable: "hashEntry list")
  (db_HashTableMask: u32)
  (db_Field214: u32)

lemma size_child [termination_simp]: "db_ChildDB d = Some c \<Longrightarrow> size c < size d"
  by (cases d) simp

lemma pathFragmentTable_load_length: "pathFragmentTable_load s = Ret (p, s') \<Longrightarrow> length s' < length s"
  by (auto simp: pathFragmentTable_load_def outcome_simps dest!: loadByteArray_length sparseArray_load_Ret(1))

lemma safe_pathFragmentTable_load: "safe (pathFragmentTable_load s)"
  by (auto simp: pathFragmentTable_load_def outcome_simps safe_loadByteArray safe_sparseArray_load split: prod.split)

function loadFromStream :: "bytes \<Rightarrow> (fileNameDB \<times> bytes) outcome" where
  "loadFromStream s =
     bnd (sparseArray_load s) (\<lambda>(collision, s1).
     bnd (sparseArray_load s1) (\<lambda>(names, s2).
     bnd (sparseArray_load s2) (\<lambda>(hiBits, s3).
     bnd (loadByteArray s3) (\<lambda>(lo, s4).
     bnd (bitEntryArray_load s4) (\<lambda>(hi, s5).
     bnd (pathFragmentTable_load s5) (\<lambda>(frags, s6).
     bnd (if sa_ValidItemCount hiBits \<noteq> 0 \<and> pf_PathFragments frags = []
          then bnd (loadFromStream s6) (\<lambda>(c, s7). Ret (Some c, s7)) else Ret (None, s6)) (\<lambda>(child, s7).
     bnd (loadHashEntryArray s7) (\<lambda>(hashTbl, s8).
     bnd (getU32 s8) (\<lambda>(field214, s9).
     bnd (getU32 s9) (\<lambda>(_, s10).
     Ret (FileNameDB collision names hiBits lo hi frags child hashTbl
            (if hashTbl = [] then 0 else word_of_nat (length hashTbl) - 1) field214, s10)))))))))))"
  by pat_completeness auto
termination
proof (relation "measure length", goal_cases)
  case (2 s x1 a s1 x2 b s2 x3 c s3 x4 d s4 x5 e s5 x6 f s6)
  then show ?case
    by (auto dest!: sparseArray_load_Ret(1) loadByteArray_length bitEntryArray_load_length pathFragmentTable_load_length)
qed simp

declare loadFromStream.simps [simp del]

definition marMagic :: u32 where "marMagic = 0x0052414D"

definition db_load :: "bytes \<Rightarrow> fileNameDB outcome" where
  "db_load data =
     bnd (getU32 data) (\<lambda>(sig, s).
     guard (sig \<noteq> marMagic) ErrOther (
     bnd (loadFromStream s) (\<lambda>(d, _). Ret d)))"

text \<open>Loading never panics, whatever the bytes.\<close>

lemma safe_loadFromStream: "safe (loadFromStream s)"
proof (induction s rule: loadFromStream.induct)
  case (1 s)
  show ?case
    by (subst loadFromStream.simps)
      (auto simp: outcome_simps safe_stream safe_loads safe_sparseArray_load safe_loadByteArray safe_bitEntryArray_load
        safe_pathFragmentTable_load 1 split: prod.split)
qed

lemma safe_db_load: "safe (db_load data)"
  by (auto simp: db_load_def outcome_simps safe_stream safe_loadFromStream split: prod.split)

definition isPathFragmentString :: "fileNameDB \<Rightarrow> u32 \<Rightarrow> bool" where
  "isPathFragmentString d idx \<longleftrightarrow> IsItemPresent (db_CollisionHiBitsIndexes d) idx"

definition lo_bits :: "fileNameDB \<Rightarrow> u32 \<Rightarrow> u8" where
  "lo_bits d i = (if unat i < length (db_LoBitsTable d) then db_LoBitsTable d ! unat i else 0)"

definition getPathFragmentOffset1 :: "fileNameDB \<Rightarrow> u32 \<Rightarrow> u32" where
  "getPathFragmentOffset1 d i =
     push_bit 8 (bitEntryArray_Get (db_HiBitsTable d) (GetItemValueAt (db_CollisionHiBitsIndexes d) i)) OR ucast (lo_bits d i)"

definition getPathFragmentOffset2 :: "fileNameDB \<Rightarrow> u32 \<Rightarrow> u32 \<Rightarrow> u32 \<times> u32" where
  "getPathFragmentOffset2 d hiBits i =
     (let hi = (if hiBits = invalidIndex then GetItemValueAt (db_CollisionHiBitsIndexes d) i else hiBits + 1) in
      (hi, push_bit 8 (bitEntryArray_Get (db_HiBitsTable d) hi) OR ucast (lo_bits d i)))"

definition hash_entry :: "fileNameDB \<Rightarrow> u32 \<Rightarrow> hashEntry outcome" where
  "hash_entry d i = at (db_HashTable d) (unat (i AND db_HashTableMask d))"

section \<open>Copying a fragment through the tables\<close>

definition maxTrieSteps :: nat where "maxTrieSteps = 65536"

text \<open>
  The recursion into the child is on a smaller database, the loop takes a step each time round; that a
  child never takes steps back is shown before termination.
\<close>

function copyPathFragmentByIndex :: "fileNameDB \<Rightarrow> u32 \<Rightarrow> mndxSearch \<Rightarrow> mndxSearch outcome" where
  "copyPathFragmentByIndex d tableIdx sr =
     (if maxTrieSteps \<le> ms_totalSteps sr then Ret sr else
      bnd (hash_entry d tableIdx) (\<lambda>he.
      if tableIdx = he_NextIndex he then
        bnd (if IsSingleChar he then Ret (push_path [SingleChar he] sr)
             else case db_ChildDB d of
               Some c \<Rightarrow> copyPathFragmentByIndex c (ChildTableIndex he) sr
             | None \<Rightarrow> Ret (push_path (copyPathFragment (db_PathFragmentTable d) (he_FragmentOffset he)) sr)) (\<lambda>sr'.
        if he_NodeIndex he = 0 then Ret sr'
        else copyPathFragmentByIndex d (he_NodeIndex he) (one_step sr'))
      else
        bnd (if isPathFragmentString d tableIdx then
               case db_ChildDB d of
                 Some c \<Rightarrow> copyPathFragmentByIndex c (getPathFragmentOffset1 d tableIdx) sr
               | None \<Rightarrow> Ret (push_path (copyPathFragment (db_PathFragmentTable d) (getPathFragmentOffset1 d tableIdx)) sr)
             else if unat tableIdx < length (db_LoBitsTable d) then Ret (push_path [lo_bits d tableIdx] sr)
             else Ret sr) (\<lambda>sr'.
        if tableIdx \<le> db_Field214 d then Ret sr'
        else bnd (GetItem1 (db_CollisionTable d) tableIdx) (\<lambda>item.
             copyPathFragmentByIndex d (0xFFFFFFFF - tableIdx + item) (one_step sr')))))"
  by pat_completeness auto

lemma copy_steps_dom:
  "copyPathFragmentByIndex_dom (d, i, sr) \<Longrightarrow> copyPathFragmentByIndex d i sr = Ret sr' \<Longrightarrow>
     ms_totalSteps sr \<le> ms_totalSteps sr'"
proof (induction d i sr arbitrary: sr' rule: copyPathFragmentByIndex.pinduct)
  case (1 d i sr)
  note run = "1.prems" [unfolded copyPathFragmentByIndex.psimps [OF "1.hyps"]]
  show ?case
  proof (cases "maxTrieSteps \<le> ms_totalSteps sr")
    case False
    then obtain he where he: "hash_entry d i = Ret he" using run by (auto simp: bnd_eq_Ret)
    show ?thesis
    proof (cases "i = he_NextIndex he")
      case True
      then obtain sr1 where one: "(if IsSingleChar he then Ret (push_path [SingleChar he] sr)
             else case db_ChildDB d of
               Some c \<Rightarrow> copyPathFragmentByIndex c (ChildTableIndex he) sr
             | None \<Rightarrow> Ret (push_path (copyPathFragment (db_PathFragmentTable d) (he_FragmentOffset he)) sr)) = Ret sr1"
          "(if he_NodeIndex he = 0 then Ret sr1 else copyPathFragmentByIndex d (he_NodeIndex he) (one_step sr1)) = Ret sr'"
        using run False he by (auto simp: bnd_eq_Ret)
      have "ms_totalSteps sr \<le> ms_totalSteps sr1"
        using one(1) "1.IH"(1) [OF False he True] by (auto split: if_splits option.splits)
      moreover have "ms_totalSteps sr1 \<le> ms_totalSteps sr'"
        using one(2) "1.IH"(2) [OF False he True one(1)] by (auto split: if_splits)
      ultimately show ?thesis by simp
    next
      case ne: False
      then obtain sr1 where one: "(if isPathFragmentString d i then
               case db_ChildDB d of
                 Some c \<Rightarrow> copyPathFragmentByIndex c (getPathFragmentOffset1 d i) sr
               | None \<Rightarrow> Ret (push_path (copyPathFragment (db_PathFragmentTable d) (getPathFragmentOffset1 d i)) sr)
             else if unat i < length (db_LoBitsTable d) then Ret (push_path [lo_bits d i] sr)
             else Ret sr) = Ret sr1"
          "(if i \<le> db_Field214 d then Ret sr1 else bnd (GetItem1 (db_CollisionTable d) i) (\<lambda>item.
             copyPathFragmentByIndex d (0xFFFFFFFF - i + item) (one_step sr1))) = Ret sr'"
        using run False he by (auto simp: bnd_eq_Ret)
      have "ms_totalSteps sr \<le> ms_totalSteps sr1"
        using one(1) "1.IH"(3) [OF False he ne] by (auto split: if_splits option.splits)
      moreover have "ms_totalSteps sr1 \<le> ms_totalSteps sr'"
        using one(2) "1.IH"(4) [OF False he ne one(1)] by (fastforce simp: bnd_eq_Ret split: if_splits dest: Suc_leD)
      ultimately show ?thesis by simp
    qed
  qed (use run in simp)
qed

text \<open>The lexicographic order of the nesting depth and the steps left.\<close>

definition step_order :: "((fileNameDB \<times> u32 \<times> mndxSearch) \<times> (fileNameDB \<times> u32 \<times> mndxSearch)) set" where
  "step_order = inv_image (less_than <*lex*> less_than) (\<lambda>(d, i, sr). (size d, maxTrieSteps - ms_totalSteps sr))"

lemma wf_step_order: "wf step_order"
  unfolding step_order_def by (intro wf_inv_image wf_lex_prod wf_less_than)

lemma step_orderI:
  "db_ChildDB d = Some c \<Longrightarrow> ((c, i, sr), (d, j, sr')) \<in> step_order"
  "\<not> maxTrieSteps \<le> ms_totalSteps sr' \<Longrightarrow> ms_totalSteps sr' < ms_totalSteps sr \<Longrightarrow> ((d, i, sr), (d, j, sr')) \<in> step_order"
  by (auto simp: step_order_def size_child)

lemma copy_total: "All copyPathFragmentByIndex_dom"
proof (relation step_order, goal_cases)
  case 1
  show ?case by (rule wf_step_order)
next
  case (2 d i sr he c)
  then show ?case by (intro step_orderI(1))
next
  case (3 d i sr he sr')
  then have "ms_totalSteps sr \<le> ms_totalSteps sr'" using copy_steps_dom by (auto split: if_splits option.splits)
  then show ?case using 3 by (intro step_orderI(2)) auto
next
  case (4 d i sr he c)
  then show ?case by (intro step_orderI(1))
next
  case (5 d i sr he sr' item)
  then have "ms_totalSteps sr \<le> ms_totalSteps sr'" using copy_steps_dom by (auto split: if_splits option.splits)
  then show ?case using 5 by (intro step_orderI(2)) auto
qed

termination copyPathFragmentByIndex
  by (rule copy_total)

declare copyPathFragmentByIndex.simps [simp del]

lemma copy_steps: "copyPathFragmentByIndex d i sr = Ret sr' \<Longrightarrow> ms_totalSteps sr \<le> ms_totalSteps sr'"
  by (rule copy_steps_dom [OF copy_total [rule_format]])

section \<open>Comparing with the search mask\<close>

text \<open>One character against the mask: \<^verbatim>\<open>!=\<close> ends the comparison, otherwise it is copied.\<close>

definition mask_char :: "u8 \<Rightarrow> mndxSearch \<Rightarrow> (bool \<times> mndxSearch) outcome" where
  "mask_char c sr =
     bnd (mask_byte sr) (\<lambda>m.
     if c \<noteq> m then Ret (False, sr) else Ret (True, set_length (mask_pos sr + 1) (push_path [c] sr)))"

definition table_compare_copy :: "fileNameDB \<Rightarrow> u32 \<Rightarrow> mndxSearch \<Rightarrow> (bool \<times> mndxSearch) outcome" where
  "table_compare_copy d off sr =
     bnd (table_compareAndCopyPathFragment (db_PathFragmentTable d) (ms_searchMask sr) off (mask_pos sr) []) (\<lambda>(ok, out, pl).
     Ret (ok, set_length pl (push_path out sr)))"

definition copied :: "fileNameDB \<Rightarrow> u32 \<Rightarrow> mndxSearch \<Rightarrow> (bool \<times> mndxSearch) outcome" where
  "copied d i sr = bnd (copyPathFragmentByIndex d i sr) (\<lambda>sr. Ret (True, sr))"

lemma compare_steps:
  "mask_char c sr = Ret (ok, sr') \<Longrightarrow> ms_totalSteps sr' = ms_totalSteps sr"
  "table_compare_copy d off sr = Ret (ok, sr') \<Longrightarrow> ms_totalSteps sr' = ms_totalSteps sr"
  "copied d i sr = Ret (ok, sr') \<Longrightarrow> ms_totalSteps sr \<le> ms_totalSteps sr'"
  by (auto simp: mask_char_def table_compare_copy_def copied_def bnd_eq_Ret copy_steps split: if_splits)

function compareAndCopyPathFragmentByIndex :: "fileNameDB \<Rightarrow> u32 \<Rightarrow> mndxSearch \<Rightarrow> (bool \<times> mndxSearch) outcome" where
  "compareAndCopyPathFragmentByIndex d tableIdx sr =
     (if maxTrieSteps \<le> ms_totalSteps sr then copied d tableIdx sr else
      bnd (hash_entry d tableIdx) (\<lambda>he.
      if tableIdx = he_NextIndex he then
        bnd (if IsSingleChar he then mask_char (SingleChar he) sr
             else case db_ChildDB d of
               Some c \<Rightarrow> compareAndCopyPathFragmentByIndex c (ChildTableIndex he) sr
             | None \<Rightarrow> table_compare_copy d (he_FragmentOffset he) sr) (\<lambda>r.
        if \<not> fst r then Ret r
        else if he_NodeIndex he = 0 then Ret r
        else if length (ms_searchMask sr) \<le> mask_pos (snd r) then copied d (he_NodeIndex he) (snd r)
        else compareAndCopyPathFragmentByIndex d (he_NodeIndex he) (one_step (snd r)))
      else
        bnd (if isPathFragmentString d tableIdx then
               case db_ChildDB d of
                 Some c \<Rightarrow> compareAndCopyPathFragmentByIndex c (getPathFragmentOffset1 d tableIdx) sr
               | None \<Rightarrow> table_compare_copy d (getPathFragmentOffset1 d tableIdx) sr
             else if length (db_LoBitsTable d) \<le> unat tableIdx then Ret (False, sr)
             else mask_char (lo_bits d tableIdx) sr) (\<lambda>r.
        if \<not> fst r then Ret r
        else if tableIdx \<le> db_Field214 d then Ret r
        else bnd (GetItem1 (db_CollisionTable d) tableIdx) (\<lambda>item.
             let i = 0xFFFFFFFF - tableIdx + item in
             if length (ms_searchMask sr) \<le> mask_pos (snd r) then copied d i (snd r)
             else compareAndCopyPathFragmentByIndex d i (one_step (snd r))))))"
  by pat_completeness auto

lemma compare_copy_steps_dom:
  "compareAndCopyPathFragmentByIndex_dom (d, i, sr) \<Longrightarrow> compareAndCopyPathFragmentByIndex d i sr = Ret r \<Longrightarrow>
     ms_totalSteps sr \<le> ms_totalSteps (snd r)"
proof (induction d i sr arbitrary: r rule: compareAndCopyPathFragmentByIndex.pinduct)
  case (1 d i sr)
  note run = "1.prems" [unfolded compareAndCopyPathFragmentByIndex.psimps [OF "1.hyps"]]
  show ?case
  proof (cases "maxTrieSteps \<le> ms_totalSteps sr")
    case True
    then show ?thesis using run compare_steps(3) by (cases r) auto
  next
    case False
    then obtain he where he: "hash_entry d i = Ret he" using run by (auto simp: bnd_eq_Ret)
    show ?thesis
    proof (cases "i = he_NextIndex he")
      case True
      then obtain r1 where one: "(if IsSingleChar he then mask_char (SingleChar he) sr
             else case db_ChildDB d of
               Some c \<Rightarrow> compareAndCopyPathFragmentByIndex c (ChildTableIndex he) sr
             | None \<Rightarrow> table_compare_copy d (he_FragmentOffset he) sr) = Ret r1"
          "(if \<not> fst r1 then Ret r1
        else if he_NodeIndex he = 0 then Ret r1
        else if length (ms_searchMask sr) \<le> mask_pos (snd r1) then copied d (he_NodeIndex he) (snd r1)
        else compareAndCopyPathFragmentByIndex d (he_NodeIndex he) (one_step (snd r1))) = Ret r"
        using run False he by (auto simp: bnd_eq_Ret)
      have "ms_totalSteps sr \<le> ms_totalSteps (snd r1)"
        using one(1) "1.IH"(1) [OF False he True] compare_steps(1,2) by (cases r1) (fastforce split: if_splits option.splits)
      moreover have "ms_totalSteps (snd r1) \<le> ms_totalSteps (snd r)"
        using one(2) "1.IH"(2) [OF False he True one(1)] compare_steps(3) by (cases r) (fastforce split: if_splits)
      ultimately show ?thesis by simp
    next
      case ne: False
      then obtain r1 where one: "(if isPathFragmentString d i then
               case db_ChildDB d of
                 Some c \<Rightarrow> compareAndCopyPathFragmentByIndex c (getPathFragmentOffset1 d i) sr
               | None \<Rightarrow> table_compare_copy d (getPathFragmentOffset1 d i) sr
             else if length (db_LoBitsTable d) \<le> unat i then Ret (False, sr)
             else mask_char (lo_bits d i) sr) = Ret r1"
          "(if \<not> fst r1 then Ret r1
        else if i \<le> db_Field214 d then Ret r1
        else bnd (GetItem1 (db_CollisionTable d) i) (\<lambda>item.
             let j = 0xFFFFFFFF - i + item in
             if length (ms_searchMask sr) \<le> mask_pos (snd r1) then copied d j (snd r1)
             else compareAndCopyPathFragmentByIndex d j (one_step (snd r1)))) = Ret r"
        using run False he by (auto simp: bnd_eq_Ret)
      have "ms_totalSteps sr \<le> ms_totalSteps (snd r1)"
        using one(1) "1.IH"(3) [OF False he ne] compare_steps(1,2) by (cases r1) (fastforce split: if_splits option.splits)
      moreover have "ms_totalSteps (snd r1) \<le> ms_totalSteps (snd r)"
        using one(2) "1.IH"(4) [OF False he ne one(1)] compare_steps(3)
        by (cases r) (fastforce simp: bnd_eq_Ret Let_def split: if_splits)
      ultimately show ?thesis by simp
    qed
  qed
qed

lemma compare_copy_total: "All compareAndCopyPathFragmentByIndex_dom"
proof (relation step_order, goal_cases)
  case 1
  show ?case by (rule wf_step_order)
next
  case (2 d i sr he c)
  then show ?case by (intro step_orderI(1))
next
  case (3 d i sr he r)
  have "ms_totalSteps sr \<le> ms_totalSteps (snd r)"
    using 3 compare_copy_steps_dom compare_steps(1,2) by (cases r) (fastforce split: if_splits option.splits)
  then show ?case using 3 by (intro step_orderI(2)) auto
next
  case (4 d i sr he c)
  then show ?case by (intro step_orderI(1))
next
  case (5 d i sr he r item)
  have "ms_totalSteps sr \<le> ms_totalSteps (snd r)"
    using 5 compare_copy_steps_dom compare_steps(1,2) by (cases r) (fastforce split: if_splits option.splits)
  then show ?case using 5 by (intro step_orderI(2)) auto
qed

termination compareAndCopyPathFragmentByIndex
  by (rule compare_copy_total)

declare compareAndCopyPathFragmentByIndex.simps [simp del]

section \<open>Calls that may not return\<close>

text \<open>The sequence of two such calls: \<open>None\<close> is a run without end.\<close>

definition obnd :: "'a outcome option \<Rightarrow> ('a \<Rightarrow> 'b outcome option) \<Rightarrow> 'b outcome option" where
  "obnd m f = Option.bind m (\<lambda>r. case r of Ret x \<Rightarrow> f x | Fail e \<Rightarrow> Some (Fail e) | Panic \<Rightarrow> Some Panic)"

lemma obnd_simps [simp]:
  "obnd (Some (Ret x)) f = f x" "obnd (Some (Fail e)) f = Some (Fail e)" "obnd (Some Panic) f = Some Panic" "obnd None f = None"
  by (simp_all add: obnd_def)

lemma obnd_mono [partial_function_mono]:
  assumes "mono_option m" "\<And>x. mono_option (\<lambda>g. f x g)"
  shows "mono_option (\<lambda>g. obnd (m g) (\<lambda>x. f x g))"
  unfolding obnd_def
proof (rule bind_mono [OF assms(1)])
  fix r
  show "mono_option (\<lambda>g. case r of Ret x \<Rightarrow> f x g | Fail e \<Rightarrow> Some (Fail e) | Panic \<Rightarrow> Some Panic)"
    using assms(2) by (cases r) (simp_all add: option.const_mono)
qed

definition table_compare :: "fileNameDB \<Rightarrow> u32 \<Rightarrow> mndxSearch \<Rightarrow> bool \<times> mndxSearch" where
  "table_compare d off sr =
     (let (ok, pl) = table_comparePathFragment (db_PathFragmentTable d) (ms_searchMask sr) off (mask_pos sr) in (ok, set_length pl sr))"

definition mask_match :: "u8 \<Rightarrow> mndxSearch \<Rightarrow> (bool \<times> mndxSearch) outcome" where
  "mask_match c sr =
     bnd (mask_byte sr) (\<lambda>m. Ret (if m \<noteq> c then (False, sr) else (True, set_length (mask_pos sr + 1) sr)))"

partial_function (option) comparePathFragmentByIndex :: "fileNameDB \<Rightarrow> u32 \<Rightarrow> mndxSearch \<Rightarrow> (bool \<times> mndxSearch) outcome option" where
  "comparePathFragmentByIndex d tableIdx sr =
     obnd (Some (hash_entry d tableIdx)) (\<lambda>he.
     if tableIdx = he_NextIndex he then
       obnd (if IsSingleChar he then Some (mask_match (SingleChar he) sr)
             else case db_ChildDB d of
               Some c \<Rightarrow> comparePathFragmentByIndex c (ChildTableIndex he) sr
             | None \<Rightarrow> Some (Ret (table_compare d (he_FragmentOffset he) sr))) (\<lambda>r.
       if \<not> fst r then Some (Ret (False, snd r))
       else if he_NodeIndex he = 0 then Some (Ret (True, snd r))
       else if length (ms_searchMask sr) \<le> mask_pos (snd r) then Some (Ret (False, snd r))
       else comparePathFragmentByIndex d (he_NodeIndex he) (snd r))
     else
       obnd (if isPathFragmentString d tableIdx then
               case db_ChildDB d of
                 Some c \<Rightarrow> comparePathFragmentByIndex c (getPathFragmentOffset1 d tableIdx) sr
               | None \<Rightarrow> Some (Ret (table_compare d (getPathFragmentOffset1 d tableIdx) sr))
             else Some (bnd (at (db_LoBitsTable d) (unat tableIdx)) (\<lambda>c. mask_match c sr))) (\<lambda>r.
       if \<not> fst r then Some (Ret (False, snd r))
       else if tableIdx \<le> db_Field214 d then Some (Ret (True, snd r))
       else if length (ms_searchMask sr) \<le> mask_pos (snd r) then Some (Ret (False, snd r))
       else obnd (Some (GetItem1 (db_CollisionTable d) tableIdx)) (\<lambda>eax.
            comparePathFragmentByIndex d (eax - tableIdx - 1) (snd r))))"

text \<open>The loop over the children of a node; \<open>hiBits\<close> counts the fragment strings met.\<close>

partial_function (option) compare_children :: "fileNameDB \<Rightarrow> u32 \<Rightarrow> u32 \<Rightarrow> mndxSearch \<Rightarrow> (bool \<times> mndxSearch) outcome option" where
  "compare_children d colTblIdx hiBits sr =
     (let node = ss_NodeIndex (ms_state sr) in
      if \<not> IsItemPresent (db_CollisionTable d) colTblIdx then Some (Ret (False, sr))
      else if isPathFragmentString d node then
        (let (hiBits', fragOff) = getPathFragmentOffset2 d hiBits node in
         obnd (case db_ChildDB d of
                 Some c \<Rightarrow> comparePathFragmentByIndex c fragOff sr
               | None \<Rightarrow> Some (Ret (table_compare d fragOff sr))) (\<lambda>r.
         if fst r then Some (Ret (True, snd r))
         else if mask_pos (snd r) \<noteq> mask_pos sr then Some (Ret (False, snd r))
         else compare_children d (colTblIdx + 1) hiBits' (set_node (ss_NodeIndex (ms_state (snd r)) + 1) (snd r))))
      else obnd (Some (bnd (at (db_LoBitsTable d) (unat node)) (\<lambda>c. mask_match c sr))) (\<lambda>r.
           if fst r then Some (Ret r)
           else compare_children d (colTblIdx + 1) hiBits (set_node (node + 1) (snd r))))"

definition comparePathFragment :: "fileNameDB \<Rightarrow> mndxSearch \<Rightarrow> (bool \<times> mndxSearch) outcome option" where
  "comparePathFragment d sr =
     obnd (Some (CalcHashValue (ms_state sr) (ms_searchMask sr))) (\<lambda>h.
     obnd (Some (hash_entry d h)) (\<lambda>he.
     let node = ss_NodeIndex (ms_state sr) in
     if he_NodeIndex he = node then
       obnd (if IsSingleChar he then Some (Ret (True, set_length (mask_pos sr + 1) sr))
             else case db_ChildDB d of
               Some c \<Rightarrow> comparePathFragmentByIndex c (ChildTableIndex he) sr
             | None \<Rightarrow> Some (Ret (table_compare d (he_FragmentOffset he) sr))) (\<lambda>r.
       Some (Ret (if fst r then (True, set_node (he_NextIndex he) (snd r)) else r)))
     else
       obnd (Some (GetItem0 (db_CollisionTable d) node)) (\<lambda>item.
       compare_children d (item + 1) invalidIndex (set_node (item + 1 - node - 1) sr))))"

text \<open>The same with copying; the array access of the character loop is guarded here.\<close>

partial_function (option) compare_copy_children :: "fileNameDB \<Rightarrow> u32 \<Rightarrow> u32 \<Rightarrow> mndxSearch \<Rightarrow> (bool \<times> mndxSearch) outcome option" where
  "compare_copy_children d colTblIdx hiBits sr =
     (let node = ss_NodeIndex (ms_state sr) in
      if \<not> IsItemPresent (db_CollisionTable d) colTblIdx then Some (Ret (False, sr))
      else if isPathFragmentString d node then
        (let (hiBits', fragOff) = getPathFragmentOffset2 d hiBits node in
         obnd (Some (case db_ChildDB d of
                 Some c \<Rightarrow> compareAndCopyPathFragmentByIndex c fragOff sr
               | None \<Rightarrow> table_compare_copy d fragOff sr)) (\<lambda>r.
         if fst r then Some (Ret (True, snd r))
         else if mask_pos (snd r) \<noteq> mask_pos sr then Some (Ret (False, snd r))
         else compare_copy_children d (colTblIdx + 1) hiBits' (set_node (ss_NodeIndex (ms_state (snd r)) + 1) (snd r))))
      else obnd (Some (if unat node < length (db_LoBitsTable d) then mask_char (lo_bits d node) sr else Ret (False, sr))) (\<lambda>r.
           if fst r then Some (Ret r)
           else compare_copy_children d (colTblIdx + 1) hiBits (set_node (node + 1) (snd r))))"

definition compareAndCopyPathFragment :: "fileNameDB \<Rightarrow> mndxSearch \<Rightarrow> (bool \<times> mndxSearch) outcome option" where
  "compareAndCopyPathFragment d sr =
     obnd (Some (CalcHashValue (ms_state sr) (ms_searchMask sr))) (\<lambda>h.
     obnd (Some (hash_entry d h)) (\<lambda>he.
     let node = ss_NodeIndex (ms_state sr) in
     if node = he_NodeIndex he then
       obnd (Some (if IsSingleChar he then Ret (True, set_length (mask_pos sr + 1) (push_path [SingleChar he] sr))
             else case db_ChildDB d of
               Some c \<Rightarrow> compareAndCopyPathFragmentByIndex c (ChildTableIndex he) sr
             | None \<Rightarrow> table_compare_copy d (he_FragmentOffset he) sr)) (\<lambda>r.
       Some (Ret (if fst r then (True, set_node (he_NextIndex he) (snd r)) else r)))
     else
       obnd (Some (GetItem0 (db_CollisionTable d) node)) (\<lambda>item.
       compare_copy_children d (item + 1) invalidIndex (set_node (item + 1 - node - 1) sr))))"

partial_function (option) match_mask :: "fileNameDB \<Rightarrow> mndxSearch \<Rightarrow> (bool \<times> mndxSearch) outcome option" where
  "match_mask d sr =
     (if length (ms_searchMask sr) \<le> mask_pos sr then Some (Ret (True, sr))
      else obnd (comparePathFragment d sr) (\<lambda>r. if fst r then match_mask d (snd r) else Some (Ret r)))"

definition findFileInDatabase :: "fileNameDB \<Rightarrow> mndxSearch \<Rightarrow> (bool \<times> mndxSearch) outcome option" where
  "findFileInDatabase d sr =
     obnd (match_mask d (on_state (\<lambda>s. s\<lparr>ss_NodeIndex := 0, ss_PathLength := 0, ss_SearchPhase := searchInit\<rparr>) sr)) (\<lambda>(ok, sr).
     Some (Ret (
       if \<not> ok then (False, sr)
       else let node = ss_NodeIndex (ms_state sr) in
         if \<not> IsItemPresent (db_FileNameIndexes d) node then (False, sr)
         else (True, sr\<lparr>ms_foundPath := ms_searchMask sr, ms_foundIndex := GetItemValueAt (db_FileNameIndexes d) node\<rparr>))))"

section \<open>The incremental search\<close>

definition set_phase :: "u32 \<Rightarrow> mndxSearch \<Rightarrow> mndxSearch" where
  "set_phase ph = on_state (\<lambda>s. s\<lparr>ss_SearchPhase := ph\<rparr>)"

definition set_stop :: "u32 \<Rightarrow> pathStop \<Rightarrow> mndxSearch \<Rightarrow> mndxSearch" where
  "set_stop k ps = on_state (\<lambda>s. s\<lparr>ss_PathStops := (ss_PathStops s)[unat k := ps]\<rparr>)"

definition set_count :: "u32 \<Rightarrow> mndxSearch \<Rightarrow> mndxSearch" where
  "set_count n = on_state (\<lambda>s. s\<lparr>ss_ItemCount := n\<rparr>)"

lemma steps_more [simp]:
  "ms_totalSteps (set_phase ph sr) = ms_totalSteps sr" "ms_totalSteps (set_stop k ps sr) = ms_totalSteps sr"
  "ms_totalSteps (set_count n sr) = ms_totalSteps sr"
  by (simp_all add: set_phase_def set_stop_def set_count_def)

definition report :: "u32 \<Rightarrow> mndxSearch \<Rightarrow> mndxSearch" where
  "report idx sr = sr\<lparr>ms_foundPath := ss_PathBuffer (ms_state sr), ms_foundIndex := idx\<rparr>"

text \<open>A new stop for the children of the last one, when the path has come to the end of the stops.\<close>

definition grow_stops :: "fileNameDB \<Rightarrow> searchState \<Rightarrow> searchState outcome" where
  "grow_stops d s =
     (let stops = ss_PathStops s in
      if ss_ItemCount s \<noteq> word_of_nat (length stops) then Ret s else
      bnd (at (rev stops) 0) (\<lambda>last.
      bnd (GetItem0 (db_CollisionTable d) (ps_LoBitsIndex last)) (\<lambda>item.
      let colIdx = item + 1 in
      Ret (s\<lparr>ss_PathStops := stops @ [newPathStop (colIdx - ps_LoBitsIndex last - 1) colIdx 0]\<rparr>))))"

text \<open>The name of the node of \<open>ps\<close> is appended to the path; \<open>ps\<close> keeps the count of fragment strings.\<close>

definition append_node :: "fileNameDB \<Rightarrow> pathStop \<Rightarrow> mndxSearch \<Rightarrow> (pathStop \<times> mndxSearch) outcome" where
  "append_node d ps sr =
     (let lo = ps_LoBitsIndex ps in
      if isPathFragmentString d lo then
        let (hi, fragOff) = getPathFragmentOffset2 d (ps_HiBitsIndexPathFragment ps) lo in
        bnd (case db_ChildDB d of
               Some c \<Rightarrow> copyPathFragmentByIndex c fragOff sr
             | None \<Rightarrow> Ret (push_path (copyPathFragment (db_PathFragmentTable d) fragOff) sr)) (\<lambda>sr.
        Ret (ps\<lparr>ps_HiBitsIndexPathFragment := hi\<rparr>, sr))
      else Ret (ps, if unat lo < length (db_LoBitsTable d) then push_path [lo_bits d lo] sr else sr))"

lemma append_node_steps: "append_node d ps sr = Ret (ps', sr') \<Longrightarrow> ms_totalSteps sr \<le> ms_totalSteps sr'"
  by (auto simp: append_node_def Let_def bnd_eq_Ret split: prod.splits if_splits option.splits dest: copy_steps)

text \<open>Back to the parent: the next sibling is due, the path is cut to the parent's.\<close>

definition leave_node :: "mndxSearch \<Rightarrow> mndxSearch outcome" where
  "leave_node sr =
     (let k = ss_ItemCount (ms_state sr) in
      bnd (at (ss_PathStops (ms_state sr)) (unat (k - 1))) (\<lambda>p.
      let sr1 = set_stop (k - 1) (p\<lparr>ps_LoBitsIndex := ps_LoBitsIndex p + 1\<rparr>) sr in
      bnd (at (ss_PathStops (ms_state sr1)) (unat (k - 2))) (\<lambda>q.
      bnd (subslice (ss_PathBuffer (ms_state sr1)) 0 (unat (ps_Count q))) (\<lambda>path.
      Ret (set_count (k - 1) (on_state (\<lambda>s. s\<lparr>ss_PathBuffer := path\<rparr>) sr1))))))"

lemma leave_node_steps: "leave_node sr = Ret sr' \<Longrightarrow> ms_totalSteps sr' = ms_totalSteps sr"
  by (auto simp: leave_node_def Let_def bnd_eq_Ret)

text \<open>\<^verbatim>\<open>FileNameIndexes\<close> has the node: its index is the rank, counted on from the stop's last one.\<close>

definition next_index_of :: "fileNameDB \<Rightarrow> pathStop \<Rightarrow> u32" where
  "next_index_of d ps =
     (if ps_Field10 ps = 0xFFFFFFFF then GetItemValueAt (db_FileNameIndexes d) (ps_LoBitsIndex ps) else ps_Field10 ps + 1)"

function search_loop :: "fileNameDB \<Rightarrow> mndxSearch \<Rightarrow> (bool \<times> mndxSearch) outcome" where
  "search_loop d sr =
     (if maxTrieSteps \<le> ms_totalSteps sr then Ret (False, set_phase searchFinished sr) else
      bnd (grow_stops d (ms_state sr)) (\<lambda>st.
      let k = ss_ItemCount st in
      bnd (at (ss_PathStops st) (unat k)) (\<lambda>ps0.
      let cur = ps_Field4 ps0; ps = ps0\<lparr>ps_Field4 := cur + 1\<rparr>;
          sr1 = set_stop k ps (on_state (\<lambda>_. st) sr) in
      if IsItemPresent (db_CollisionTable d) cur then
        bnd (append_node d ps (set_count (k + 1) sr1)) (\<lambda>r.
        let ps1 = (fst r)\<lparr>ps_Count := word_of_nat (length (ss_PathBuffer (ms_state (snd r))))\<rparr> in
        if IsItemPresent (db_FileNameIndexes d) (ps_LoBitsIndex ps1) then
          let idx = next_index_of d ps1 in
          Ret (True, report idx (set_stop k (ps1\<lparr>ps_Field10 := idx\<rparr>) (snd r)))
        else search_loop d (one_step (set_stop k ps1 (snd r))))
      else if k = 1 then Ret (False, set_phase searchFinished sr1)
      else bnd (leave_node sr1) (\<lambda>sr2. search_loop d (one_step sr2)))))"
  by pat_completeness auto
termination
proof (relation "measure (\<lambda>(d, sr). maxTrieSteps - ms_totalSteps sr)", goal_cases)
  case (2 d sr st k ps0 cur ps sr1 r ps1)
  then have "ms_totalSteps sr \<le> ms_totalSteps (snd r)" using append_node_steps by (cases r) fastforce
  then show ?case using 2 by simp
next
  case (3 d sr st k ps0 cur ps sr1 sr2)
  then show ?case using leave_node_steps by simp
qed simp

declare search_loop.simps [simp del]

partial_function (option) descend_mask :: "fileNameDB \<Rightarrow> mndxSearch \<Rightarrow> (bool \<times> mndxSearch) outcome option" where
  "descend_mask d sr =
     (if length (ms_searchMask sr) \<le> mask_pos sr then Some (Ret (True, sr))
      else obnd (compareAndCopyPathFragment d sr) (\<lambda>r. if fst r then descend_mask d (snd r) else Some (Ret r)))"

definition doSearch :: "fileNameDB \<Rightarrow> mndxSearch \<Rightarrow> (bool \<times> mndxSearch) outcome option" where
  "doSearch d sr =
     (if ss_SearchPhase (ms_state sr) = searchInit then
        obnd (descend_mask d (on_state BeginSearch sr)) (\<lambda>(ok, sr).
        if \<not> ok then Some (Ret (False, set_phase searchFinished sr)) else
        let st = ms_state sr; node = ss_NodeIndex st;
            ps = newPathStop node 0 (word_of_nat (length (ss_PathBuffer st)));
            sr1 = on_state (\<lambda>s. s\<lparr>ss_PathStops := ss_PathStops s @ [ps], ss_ItemCount := 1\<rparr>) sr in
        if IsItemPresent (db_FileNameIndexes d) node
        then Some (Ret (True, report (GetItemValueAt (db_FileNameIndexes d) node) sr1))
        else Some (search_loop d sr1))
      else if ss_SearchPhase (ms_state sr) = searchSearching then Some (search_loop d sr)
      else Some (Ret (False, sr)))"

section \<open>MAR files\<close>

text \<open>A \<^verbatim>\<open>marFile\<close> is its database, or none before \<^verbatim>\<open>load\<close>.\<close>

record marFile =
  mf_db :: "fileNameDB option"

definition marFile_load :: "bytes \<Rightarrow> marFile outcome" where
  "marFile_load data = bnd (db_load data) (\<lambda>d. Ret \<lparr>mf_db = Some d\<rparr>)"

definition searchFile :: "marFile \<Rightarrow> bytes \<Rightarrow> (u32 \<times> bool) outcome option" where
  "searchFile m sm =
     (case mf_db m of
        None \<Rightarrow> Some (Ret (0, False))
      | Some d \<Rightarrow> obnd (findFileInDatabase d (new_search sm)) (\<lambda>(ok, sr).
          Some (Ret (if ok then (ms_foundIndex sr, True) else (0, False)))))"

text \<open>The callback is given its own state and may panic.\<close>

partial_function (option) enumerate_loop ::
  "fileNameDB \<Rightarrow> (bytes \<Rightarrow> u32 \<Rightarrow> 's \<Rightarrow> (bool \<times> 's) outcome) \<Rightarrow> 's \<Rightarrow> mndxSearch \<Rightarrow> 's outcome option" where
  "enumerate_loop d fn acc sr =
     obnd (doSearch d sr) (\<lambda>r.
     if \<not> fst r then Some (Ret acc)
     else obnd (Some (fn (ms_foundPath (snd r)) (ms_foundIndex (snd r)) acc)) (\<lambda>(more, acc').
          if more then enumerate_loop d fn acc' (snd r) else Some (Ret acc')))"

definition mar_enumerate :: "marFile \<Rightarrow> (bytes \<Rightarrow> u32 \<Rightarrow> 's \<Rightarrow> (bool \<times> 's) outcome) \<Rightarrow> 's \<Rightarrow> 's outcome option" where
  "mar_enumerate m fn acc =
     (case mf_db m of None \<Rightarrow> Some (Ret acc) | Some d \<Rightarrow> enumerate_loop d fn acc (new_search []))"

definition fileNameCount :: "marFile \<Rightarrow> u32" where
  "fileNameCount m = (case mf_db m of None \<Rightarrow> 0 | Some d \<Rightarrow> sa_ValidItemCount (db_FileNameIndexes d))"

end
