(* ===== verification/RootMndx.thy ===== *)
theory RootMndx
  imports MndxTrie Roots
begin

text \<open>
  The MNDX root of \<^verbatim>\<open>internal/root/mndx/mndx.go\<close>: header, MAR table and entry table, the MAR files, and
  the index from names to entries that two enumerations of the tries fill. An enumeration may run
  forever, so \<^verbatim>\<open>Parse\<close> has its outcome in \<^verbatim>\<open>option\<close>.
\<close>

unbundle bit_operations_syntax

section \<open>The tables\<close>

definition mndxCKeyEntrySz :: nat where "mndxCKeyEntrySz = 24"
definition mndxMarInfoSz :: nat where "mndxMarInfoSz = 20"
definition mndxLastCKey :: u32 where "mndxLastCKey = 0x80000000"
definition marPackageNames :: nat where "marPackageNames = 0"
definition marStrippedNames :: nat where "marStrippedNames = 1"
definition marCount :: nat where "marCount = 3"

record mndx_Info =
  mi_HeaderVersion :: u32
  mi_FormatVersion :: u32
  mi_Field1C :: u32
  mi_Field20 :: u32
  mi_MarInfoOffset :: u32
  mi_MarInfoCount :: u32
  mi_MarInfoSize :: u32
  mi_CKeyEntriesOffset :: u32
  mi_CKeyEntriesCount :: u32
  mi_FileNameCount :: u32
  mi_CKeyEntrySize :: u32

record MarInfo =
  mr_MarIndex :: u32
  mr_MarDataSize :: u32
  mr_MarDataSizeHi :: u32
  mr_MarDataOffset :: u32
  mr_MarDataOffsetHi :: u32

record mndx_CKeyEntry =
  mc_Flags :: u32
  mc_CKey :: key
  mc_ContentSize :: u32
  mc_IsLast :: bool
  mc_PackageIndex :: u32

record mndx_Handler =
  mx_info :: mndx_Info
  mx_mars :: "MarInfo list"
  mx_entries :: "mndx_CKeyEntry list"
  mx_marFiles :: "marFile option list"
  mx_packages :: "bytes list"
  mx_fileNameIdxToEntry :: "u32 list"
  mx_names :: "bytes \<Rightarrow> nat option"
  mx_orderedNames :: "bytes list"

text \<open>The header and the info tail; a version 2 header has two more fields.\<close>

definition mndx_info :: "bytes \<Rightarrow> mndx_Info outcome" where
  "mndx_info data =
     guard (length data < 12) ErrBadFormat (
     bnd (rdLE32 data 0 4) (\<lambda>sig.
     guard (sig \<noteq> mndxMagic) ErrBadFormat (
     bnd (rdLE32 data 4 8) (\<lambda>headerVersion.
     bnd (rdLE32 data 8 12) (\<lambda>formatVersion.
     guard (headerVersion < 1 \<or> 2 < headerVersion) ErrNotSupported (
     bnd (if headerVersion = 2 then
            guard (length data < 12 + 8) ErrBadFormat (
            bnd (rdLE32 data 12 16) (\<lambda>a. bnd (rdLE32 data 16 20) (\<lambda>b. Ret (a, b, 20))))
          else Ret (0, 0, 12)) (\<lambda>(field1C, field20, off).
     guard (length data < off + 0x1C) ErrBadFormat (
     bnd (rdLE32 data off (off + 4)) (\<lambda>marOffset.
     bnd (rdLE32 data (off + 4) (off + 8)) (\<lambda>marCnt.
     bnd (rdLE32 data (off + 8) (off + 12)) (\<lambda>marSize.
     bnd (rdLE32 data (off + 12) (off + 16)) (\<lambda>keOffset.
     bnd (rdLE32 data (off + 16) (off + 20)) (\<lambda>keCount.
     bnd (rdLE32 data (off + 20) (off + 24)) (\<lambda>nameCount.
     bnd (rdLE32 data (off + 24) (off + 28)) (\<lambda>keSize.
     guard (unat marSize \<noteq> mndxMarInfoSz) ErrBadFormat (
     guard (unat keSize \<noteq> mndxCKeyEntrySz) ErrBadFormat (
     guard (8 < marCnt) ErrBadFormat (
     Ret \<lparr>mi_HeaderVersion = headerVersion, mi_FormatVersion = formatVersion, mi_Field1C = field1C, mi_Field20 = field20,
          mi_MarInfoOffset = marOffset, mi_MarInfoCount = marCnt, mi_MarInfoSize = marSize, mi_CKeyEntriesOffset = keOffset,
          mi_CKeyEntriesCount = keCount, mi_FileNameCount = nameCount, mi_CKeyEntrySize = keSize\<rparr>))))))))))))))))))"

definition read_MarInfo :: "bytes \<Rightarrow> nat \<Rightarrow> MarInfo outcome" where
  "read_MarInfo data k =
     bnd (rdLE32 data k (k + 4)) (\<lambda>idx.
     bnd (rdLE32 data (k + 4) (k + 8)) (\<lambda>sz.
     bnd (rdLE32 data (k + 8) (k + 12)) (\<lambda>szHi.
     bnd (rdLE32 data (k + 12) (k + 16)) (\<lambda>pos.
     bnd (rdLE32 data (k + 16) (k + 20)) (\<lambda>posHi.
     let mi = \<lparr>mr_MarIndex = idx, mr_MarDataSize = sz, mr_MarDataSizeHi = szHi, mr_MarDataOffset = pos, mr_MarDataOffsetHi = posHi\<rparr> in
     if unat pos + 4 \<le> length data then
       bnd (rdLE32 data (unat pos) (unat pos + 4)) (\<lambda>magic. guard (magic \<noteq> marMagic) ErrBadFormat (Ret mi))
     else Ret mi)))))"

definition read_mars :: "bytes \<Rightarrow> mndx_Info \<Rightarrow> MarInfo list outcome" where
  "read_mars data info =
     (let marStart = unat (mi_MarInfoOffset info); n = unat (mi_MarInfoCount info) in
      guard (length data < marStart + n * mndxMarInfoSz) ErrBadFormat (
      mapM (\<lambda>i. read_MarInfo data (marStart + i * mndxMarInfoSz)) [0..<n]))"

definition read_mndx_entry :: "bytes \<Rightarrow> nat \<Rightarrow> mndx_CKeyEntry outcome" where
  "read_mndx_entry data k =
     bnd (rdLE32 data k (k + 4)) (\<lambda>flags.
     bnd (subslice data (k + 4) (k + 20)) (\<lambda>ck.
     bnd (rdLE32 data (k + 20) (k + 24)) (\<lambda>sz.
     Ret \<lparr>mc_Flags = flags, mc_CKey = ck, mc_ContentSize = sz, mc_IsLast = (flags AND mndxLastCKey \<noteq> 0),
          mc_PackageIndex = flags AND 0x00FFFFFF\<rparr>)))"

definition read_mndx_entries :: "bytes \<Rightarrow> mndx_Info \<Rightarrow> mndx_CKeyEntry list outcome" where
  "read_mndx_entries data info =
     (let keStart = unat (mi_CKeyEntriesOffset info); n = unat (mi_CKeyEntriesCount info) in
      guard (length data < keStart + n * mndxCKeyEntrySz) ErrBadFormat (
      mapM (\<lambda>i. read_mndx_entry data (keStart + i * mndxCKeyEntrySz)) [0..<n]))"

text \<open>
  The loop over the first three MAR infos. A file that does not load is skipped; one that loads is
  stored at its \<^verbatim>\<open>MarIndex\<close>, which nothing has checked.
\<close>

fun load_mars :: "bytes \<Rightarrow> MarInfo list \<Rightarrow> marFile option list \<Rightarrow> marFile option list outcome" where
  "load_mars data [] files = Ret files"
| "load_mars data (mi # mis) files =
     (let off = unat (mr_MarDataOffset mi); stop = off + unat (mr_MarDataSize mi) in
      if length data < stop then load_mars data mis files else
      bnd (subslice data off stop) (\<lambda>blob.
      case marFile_load blob of
        Panic \<Rightarrow> Panic
      | Fail _ \<Rightarrow> load_mars data mis files
      | Ret mf \<Rightarrow>
          if unat (mr_MarIndex mi) < length files
          then load_mars data mis (files[unat (mr_MarIndex mi) := Some mf])
          else Panic))"

section \<open>The name index\<close>

definition group_starts :: "mndx_CKeyEntry list \<Rightarrow> u32 list" where
  "group_starts es =
     (if es = [] then [] else
      0 # List.map_filter (\<lambda>(i, e). if mc_IsLast e then Some (word_of_nat (i + 1)) else None) (enumerate 0 es))"

definition package_fn :: "bytes \<Rightarrow> u32 \<Rightarrow> bytes list \<Rightarrow> (bool \<times> bytes list) outcome" where
  "package_fn name idx packages =
     Ret (True, if idx < word_of_nat (length packages) then packages[unat idx := name] else packages)"

text \<open>One entry of a group: the first entry of a full name stays.\<close>

definition add_name :: "mndx_Handler \<Rightarrow> bytes \<Rightarrow> nat \<Rightarrow> mndx_Handler outcome" where
  "add_name h name i =
     bnd (at (mx_entries h) i) (\<lambda>e.
     if word_of_nat (length (mx_packages h)) \<le> mc_PackageIndex e then Ret h else
     bnd (at (mx_packages h) (unat (mc_PackageIndex e))) (\<lambda>pkg.
     let full = pkg @ lit ''/'' @ name in
     if mx_names h full = None
     then Ret (h\<lparr>mx_names := (mx_names h)(full \<mapsto> i), mx_orderedNames := mx_orderedNames h @ [full]\<rparr>)
     else Ret h))"

fun add_names :: "bytes \<Rightarrow> nat list \<Rightarrow> mndx_Handler \<Rightarrow> mndx_Handler outcome" where
  "add_names name [] h = Ret h"
| "add_names name (i # js) h = bnd (add_name h name i) (add_names name js)"

definition name_fn :: "bytes \<Rightarrow> u32 \<Rightarrow> mndx_Handler \<Rightarrow> (bool \<times> mndx_Handler) outcome" where
  "name_fn name idx h =
     (let starts = mx_fileNameIdxToEntry h; n = word_of_nat (length starts) in
      if n - 1 \<le> idx then Ret (True, h) else
      bnd (at starts (unat idx)) (\<lambda>start.
      bnd (if idx + 1 < n then at starts (unat (idx + 1)) else Ret (word_of_nat (length (mx_entries h)))) (\<lambda>stop.
      bnd (add_names name [unat start..<unat stop] h) (\<lambda>h. Ret (True, h)))))"

definition list_packages :: "mndx_Handler \<Rightarrow> mndx_Handler outcome option" where
  "list_packages h =
     obnd (Some (at (mx_marFiles h) marPackageNames)) (\<lambda>pkg.
     case pkg of
       None \<Rightarrow> Some (Ret h)
     | Some m \<Rightarrow>
         let n = min (fileNameCount m) (word_of_nat (length (mx_entries h))) in
         obnd (mar_enumerate m package_fn (replicate (unat n) [])) (\<lambda>packages.
         Some (Ret (h\<lparr>mx_packages := packages\<rparr>))))"

definition buildNameIndex :: "mndx_Handler \<Rightarrow> mndx_Handler outcome option" where
  "buildNameIndex h0 =
     obnd (list_packages (h0\<lparr>mx_fileNameIdxToEntry := group_starts (mx_entries h0)\<rparr>)) (\<lambda>h.
     obnd (Some (at (mx_marFiles h) marStrippedNames)) (\<lambda>stripped.
     case stripped of
       None \<Rightarrow> Some (Ret h)
     | Some m \<Rightarrow>
         if mx_packages h = [] then Some (Ret h)
         else mar_enumerate m name_fn (h\<lparr>mx_names := (\<lambda>_. None)\<rparr>)))"

text \<open>\<^verbatim>\<open>Parse\<close>: everything up to the name index, which is the only part that may not return.\<close>

definition mndx_tables :: "bytes \<Rightarrow> mndx_Handler outcome" where
  "mndx_tables data =
     bnd (mndx_info data) (\<lambda>info.
     bnd (read_mars data info) (\<lambda>mars.
     bnd (read_mndx_entries data info) (\<lambda>entries.
     bnd (load_mars data (take marCount mars) (replicate marCount None)) (\<lambda>marFiles.
     Ret \<lparr>mx_info = info, mx_mars = mars, mx_entries = entries, mx_marFiles = marFiles, mx_packages = [],
          mx_fileNameIdxToEntry = [], mx_names = (\<lambda>_. None), mx_orderedNames = []\<rparr>))))"

definition mndx_Parse :: "bytes \<Rightarrow> mndx_Handler outcome option" where
  "mndx_Parse data = obnd (Some (mndx_tables data)) buildNameIndex"

section \<open>The handler\<close>

definition mndx_entry :: "mndx_Handler \<Rightarrow> nat \<Rightarrow> CKeyEntry" where
  "mndx_entry h i =
     (let e = mx_entries h ! i in
      zero_entry\<lparr>ce_CKey := mc_CKey e, ce_ContentSize := ucast (mc_ContentSize e), ce_FileDataID := word_of_nat i,
        ce_Flags := CEFlagHasCKey\<rparr>)"

definition mndx_LookupByName :: "mndx_Handler \<Rightarrow> bytes \<Rightarrow> CKeyEntry option" where
  "mndx_LookupByName h name = map_option (mndx_entry h) (mx_names h name)"

definition mndx_LookupByFileDataID :: "mndx_Handler \<Rightarrow> u32 \<Rightarrow> CKeyEntry option" where
  "mndx_LookupByFileDataID h i =
     (if word_of_nat (length (mx_entries h)) \<le> i then None else Some (mndx_entry h (unat i)))"

definition mndx_All :: "mndx_Handler \<Rightarrow> (bytes \<times> CKeyEntry) list" where
  "mndx_All h =
     (if mx_orderedNames h \<noteq> []
      then map (\<lambda>n. (n, mndx_entry h (case mx_names h n of None \<Rightarrow> 0 | Some i \<Rightarrow> i))) (mx_orderedNames h)
      else map (\<lambda>i. (lit ''FileDataID:'' @ dec i, mndx_entry h i)) [0..<length (mx_entries h)])"

definition mndx_Features :: u32 where
  "mndx_Features = FeatureFileDataIDs OR FeatureRootCKey"

definition mndx_iface :: "mndx_Handler \<Rightarrow> Handler" where
  "mndx_iface h = \<lparr>rh_Name = lit ''MNDX'', rh_LookupByName = mndx_LookupByName h,
     rh_LookupByFileDataID = mndx_LookupByFileDataID h, rh_All = mndx_All h, rh_Features = mndx_Features\<rparr>"

text \<open>The parser the MNDX probe runs. A parse that does not end is like one that panics: the caller is not returned to.\<close>

definition mndx_root :: "bytes \<Rightarrow> Handler outcome" where
  "mndx_root data = (case mndx_Parse data of None \<Rightarrow> Panic | Some r \<Rightarrow> bnd r (\<lambda>h. Ret (mndx_iface h)))"

end
