(* ===== verification/MndxRank.thy ===== *)
theory MndxRank
  imports MndxBits
begin

text \<open>
  The bit tricks of the MNDX sparse array against their reference definitions: the packed counts of
  \<^verbatim>\<open>setBitsAll\<close>, the rank of \<^verbatim>\<open>GetItemValueAt\<close> and the selects of \<^verbatim>\<open>GetItem0\<close> and \<^verbatim>\<open>GetItem1\<close>, for
  arrays whose shortcut tables agree with their bits.
\<close>

unbundle bit_operations_syntax

section \<open>Counting set bits in parallel\<close>

text \<open>The digits of a number in lanes of \<open>w\<close> bits.\<close>

definition lane :: "nat \<Rightarrow> nat \<Rightarrow> nat \<Rightarrow> nat" where
  "lane w j x = take_bit w (drop_bit (w * j) x)"

lemma lane_lt: "lane w j x < 2 ^ w"
  by (simp add: lane_def take_bit_eq_mod)

lemma lane_Suc: "lane w (Suc j) x = lane w j (drop_bit w x)"
  by (simp add: lane_def algebra_simps)

lemma lane_add:
  assumes "\<And>i. i \<le> j \<Longrightarrow> lane w i p + lane w i q < 2 ^ w"
  shows "lane w j (p + q) = lane w j p + lane w j q"
  using assms
proof (induction j arbitrary: p q)
  case 0
  have "p mod 2 ^ w + q mod 2 ^ w < 2 ^ w" using 0 [of 0] by (simp add: lane_def take_bit_eq_mod)
  then show ?case by (simp add: lane_def take_bit_eq_mod mod_add_eq [symmetric, of p q])
next
  case (Suc j)
  have low: "p mod 2 ^ w + q mod 2 ^ w < 2 ^ w" using Suc.prems [of 0] by (simp add: lane_def take_bit_eq_mod)
  have "(p + q) div 2 ^ w = p div 2 ^ w + q div 2 ^ w"
    using low by (subst div_add1_eq) simp
  then have "drop_bit w (p + q) = drop_bit w p + drop_bit w q" by (simp add: drop_bit_eq_div)
  moreover have "lane w j (drop_bit w p + drop_bit w q) = lane w j (drop_bit w p) + lane w j (drop_bit w q)"
  proof (rule Suc.IH)
    fix i
    assume "i \<le> j"
    then show "lane w i (drop_bit w p) + lane w i (drop_bit w q) < 2 ^ w"
      using Suc.prems [of "Suc i"] by (simp only: lane_Suc Suc_le_mono)
  qed
  ultimately show ?case by (simp add: lane_Suc)
qed

text \<open>One stage: neighbouring lanes are added into lanes of twice the width.\<close>

lemma lane_stage:
  assumes "0 < w" "\<And>i. i \<le> j \<Longrightarrow> lane (2 * w) i m = mask w"
  shows "lane (2 * w) j ((drop_bit w x AND m) + (x AND m)) = lane w (2 * j + 1) x + lane w (2 * j) x"
proof -
  have masked: "lane (2 * w) i (y AND m) = take_bit w (drop_bit (2 * w * i) y)" if "i \<le> j" for i y
  proof -
    have "lane (2 * w) i (y AND m) = lane (2 * w) i y AND lane (2 * w) i m"
      by (simp only: lane_def take_bit_and drop_bit_and)
    also have "\<dots> = take_bit w (lane (2 * w) i y)" by (simp only: assms(2) [OF that] take_bit_eq_mask)
    finally show ?thesis by (simp add: lane_def min_absorb1)
  qed
  have even: "lane (2 * w) i (x AND m) = lane w (2 * i) x" if "i \<le> j" for i
    by (subst masked [OF that]) (simp add: lane_def ac_simps)
  have odd: "lane (2 * w) i (drop_bit w x AND m) = lane w (2 * i + 1) x" if "i \<le> j" for i
    by (subst masked [OF that]) (simp add: lane_def algebra_simps)
  have "2 * 2 ^ w \<le> (2 ^ (2 * w) :: nat)"
    using power_increasing [of "Suc w" "2 * w" "2 :: nat"] assms(1) by simp
  then have "lane w (2 * i + 1) x + lane w (2 * i) x < 2 ^ (2 * w)" for i
    using lane_lt [of w "2 * i + 1" x] lane_lt [of w "2 * i" x] by linarith
  then show ?thesis using even odd by (subst lane_add) simp_all
qed

definition count_bits :: "nat \<Rightarrow> u32 \<Rightarrow> nat" where
  "count_bits n v = length (filter (bit v) [0..<n])"

lemma count_bits_Suc [simp]: "count_bits (Suc n) v = count_bits n v + of_bool (bit v n)"
  by (simp add: count_bits_def)

lemma count_bits_0 [simp]: "count_bits 0 v = 0"
  by (simp add: count_bits_def)

lemma lane_1: "lane 1 j (unat v) = of_bool (bit v j)"
proof -
  have "lane 1 j (unat v) = of_bool (bit (unat v) j)"
    by (simp add: lane_def bit_iff_odd drop_bit_eq_div take_bit_eq_mod of_bool_odd_eq_mod_2)
  then show ?thesis by (simp add: bit_unsigned_iff bit_imp_le_length)
qed

lemma stage_masks:
  "i < 16 \<Longrightarrow> lane 2 i 0x55555555 = mask 1"
  "i < 8 \<Longrightarrow> lane 4 i 0x33333333 = mask 2"
  "i < 4 \<Longrightarrow> lane 8 i 0x0F0F0F0F = mask 4"
proof -
  have "list_all (\<lambda>i. lane 2 i 0x55555555 = mask 1) [0..<16]" "list_all (\<lambda>i. lane 4 i 0x33333333 = mask 2) [0..<8]"
    "list_all (\<lambda>i. lane 8 i 0x0F0F0F0F = mask 4) [0..<4]"
    by (simp_all add: upt_rec lane_def mask_eq_exp_minus_1 drop_bit_eq_div take_bit_eq_mod)
  then show "i < 16 \<Longrightarrow> lane 2 i 0x55555555 = mask 1" "i < 8 \<Longrightarrow> lane 4 i 0x33333333 = mask 2"
    "i < 4 \<Longrightarrow> lane 8 i 0x0F0F0F0F = mask 4"
    by (simp_all only: list_all_iff) simp_all
qed

lemma unat_stage:
  fixes v m :: u32
  assumes "2 * unat m < 2 ^ 32"
  shows "unat ((drop_bit w v AND m) + (v AND m)) = (drop_bit w (unat v) AND unat m) + (unat v AND unat m)"
proof -
  have le: "unat (x AND m) \<le> unat m" for x using word_and_le1 [of x m] by (simp only: word_le_nat_alt)
  have "unat ((drop_bit w v AND m) + (v AND m)) = unat (drop_bit w v AND m) + unat (v AND m)"
    using le [of "drop_bit w v"] le [of v] assms by (intro unat_add_lem [THEN iffD1]) simp
  then show ?thesis by (simp add: unsigned_and_eq unat_drop_bit_eq)
qed

lemma times_ones:
  fixes v :: u32
  assumes "unat v = a + 256 * b + 65536 * c + 16777216 * d" "a + b + c + d < 256"
  shows "unat (v * 0x01010101) = a + 256 * (a + b) + 65536 * (a + b + c) + 16777216 * (a + b + c + d)"
proof -
  let ?r = "a + 256 * (a + b) + 65536 * (a + b + c) + 16777216 * (a + b + c + d)"
  have "unat (v * 0x01010101) = (unat v * 0x01010101) mod 2 ^ 32" by (simp add: unat_word_ariths)
  also have "unat v * 0x01010101 = ?r + 2 ^ 32 * (b + c + d + 256 * (c + d) + 65536 * d)"
    by (simp add: assms(1) algebra_simps)
  also have "\<dots> mod 2 ^ 32 = ?r mod 2 ^ 32" by (rule mod_mult_self2)
  also have "?r mod 2 ^ 32 = ?r" using assms(2) by (intro mod_less) simp
  finally show ?thesis .
qed

lemma bytes_of: "x < 2 ^ 32 \<Longrightarrow> x = lane 8 0 x + 256 * lane 8 1 x + 65536 * lane 8 2 x + 16777216 * lane 8 3 x" for x :: nat
proof -
  assume "x < 2 ^ 32"
  then have top: "x div 16777216 mod 256 = x div 16777216" by simp
  have lanes: "lane 8 0 x = x mod 256" "lane 8 1 x = x div 256 mod 256" "lane 8 2 x = x div 65536 mod 256"
    "lane 8 3 x = x div 16777216 mod 256"
    by (simp_all add: lane_def take_bit_eq_mod drop_bit_eq_div)
  have divs: "x div 65536 = x div 256 div 256" "x div 16777216 = x div 256 div 256 div 256"
    by (simp_all flip: div_mult2_eq)
  have "x = x mod 256 + 256 * (x div 256)" "x div 256 = x div 256 mod 256 + 256 * (x div 256 div 256)"
    "x div 256 div 256 = x div 256 div 256 mod 256 + 256 * (x div 256 div 256 div 256)"
    by simp_all
  then show ?thesis unfolding lanes top unfolding divs by linarith
qed

text \<open>Byte \<open>k\<close> of the result counts the set bits below \<open>8 * (k + 1)\<close>.\<close>

lemma setBitsAll_value:
  "unat (setBitsAll v) = count_bits 8 v + 256 * count_bits 16 v + 65536 * count_bits 24 v + 16777216 * count_bits 32 v"
proof -
  define v1 where "v1 = (drop_bit 1 v AND 0x55555555) + (v AND 0x55555555)"
  define v2 where "v2 = (drop_bit 2 v1 AND 0x33333333) + (v1 AND 0x33333333)"
  define v3 where "v3 = (drop_bit 4 v2 AND 0x0F0F0F0F) + (v2 AND 0x0F0F0F0F)"
  define f :: "nat \<Rightarrow> nat" where "f j = of_bool (bit v j)" for j
  have f1: "f j \<le> 1" for j by (simp add: f_def)
  have l1: "lane 2 j (unat v1) = f (2 * j + 1) + f (2 * j)" if "j < 16" for j
    using lane_stage [of 1 j "0x55555555" "unat v"] stage_masks(1) that
    unfolding v1_def f_def by (subst unat_stage) (simp_all add: lane_1 [unfolded One_nat_def])
  have l2: "lane 4 j (unat v2) = lane 2 (2 * j + 1) (unat v1) + lane 2 (2 * j) (unat v1)" if "j < 8" for j
    using lane_stage [of 2 j "0x33333333" "unat v1"] stage_masks(2) that
    unfolding v2_def by (subst unat_stage) simp_all
  have l3: "lane 8 j (unat v3) = lane 4 (2 * j + 1) (unat v2) + lane 4 (2 * j) (unat v2)" if "j < 4" for j
    using lane_stage [of 4 j "0x0F0F0F0F" "unat v2"] stage_masks(3) that
    unfolding v3_def by (subst unat_stage) simp_all
  have "count_bits (n + 8) v = count_bits n v + (f n + f (n + 1) + f (n + 2) + f (n + 3) + f (n + 4) + f (n + 5) + f (n + 6) + f (n + 7))" for n
    by (simp add: numeral_eq_Suc f_def)
  note count = this [of 0] this [of 8] this [of 16] this [of 24]
  have lanes: "lane 8 0 (unat v3) = count_bits 8 v" "lane 8 1 (unat v3) = count_bits 16 v - count_bits 8 v"
    "lane 8 2 (unat v3) = count_bits 24 v - count_bits 16 v" "lane 8 3 (unat v3) = count_bits 32 v - count_bits 24 v"
    using count by (simp_all add: l1 l2 l3 flip: numeral_2_eq_2)
  have mono: "count_bits 8 v \<le> count_bits 16 v" "count_bits 16 v \<le> count_bits 24 v" "count_bits 24 v \<le> count_bits 32 v"
    using count by simp_all
  have "count_bits 32 v \<le> 32" using length_filter_le [of "bit v" "[0..<32]"] by (simp add: count_bits_def)
  have "unat v3 < 2 ^ 32" using unsigned_less [of v3] by simp
  from times_ones [OF bytes_of [OF this, unfolded lanes]] mono \<open>count_bits 32 v \<le> 32\<close>
  have "unat (v3 * 0x01010101) = count_bits 8 v + 256 * count_bits 16 v + 65536 * count_bits 24 v + 16777216 * count_bits 32 v"
    by simp
  then show ?thesis by (simp add: setBitsAll_def Let_def v1_def v2_def v3_def)
qed

lemma count_bits_le: "count_bits n v \<le> n"
  using length_filter_le [of "bit v" "[0..<n]"] by (simp add: count_bits_def)

lemma count_bits_mono: "m \<le> n \<Longrightarrow> count_bits m v \<le> count_bits n v"
  by (rule lift_Suc_mono_le) simp_all

lemma unat_low: "n < 32 \<Longrightarrow> unat ((w :: u32) AND mask n) = unat w mod 2 ^ n"
  unfolding take_bit_eq_mask [symmetric] unsigned_take_bit_eq by (rule take_bit_eq_mod)

lemma unat_shift: "unat (drop_bit n w) = unat w div 2 ^ n" for w :: "'a::len word"
  unfolding unat_drop_bit_eq by (rule drop_bit_eq_div)

lemma masks_numeral: "(0xFF :: u32) = mask 8" "(0x1F :: u32) = mask 5" "(0x1FF :: u32) = mask 9" "(7 :: u32) = mask 3"
  by (simp_all add: mask_eq_exp_minus_1)

lemma low_byte: "(w :: u32) AND 0xFF = word_of_nat (unat w mod 256)"
proof (rule unsigned_word_eqI)
  have "unat w mod 256 mod 2 ^ 32 = unat w mod 256" by (rule mod_less) (simp add: less_trans [OF mod_less_divisor])
  then show "unat (w AND 0xFF) = unat (word_of_nat (unat w mod 256) :: u32)"
    unfolding masks_numeral by (subst unat_low) (simp_all add: unat_of_nat)
qed

lemma packed_counts:
  "setBitsAll v AND 0xFF = word_of_nat (count_bits 8 v)"
  "drop_bit 8 (setBitsAll v) AND 0xFF = word_of_nat (count_bits 16 v)"
  "drop_bit 16 (setBitsAll v) AND 0xFF = word_of_nat (count_bits 24 v)"
  "drop_bit 24 (setBitsAll v) AND 0xFF = word_of_nat (count_bits 32 v)"
  "popcount32 v = word_of_nat (count_bits 32 v)"
proof -
  have le: "count_bits 8 v < 256" "count_bits 16 v < 256" "count_bits 24 v < 256" "count_bits 32 v < 256"
    using count_bits_le [of 8 v] count_bits_le [of 16 v] count_bits_le [of 24 v] count_bits_le [of 32 v] by simp_all
  have div: "(a + 256 * b + 65536 * c + 16777216 * d) mod 256 = a"
    "(a + 256 * b + 65536 * c + 16777216 * d) div 256 mod 256 = b"
    "(a + 256 * b + 65536 * c + 16777216 * d) div 65536 mod 256 = c"
    "(a + 256 * b + 65536 * c + 16777216 * d) div 16777216 = d"
    if "a < 256" "b < 256" "c < 256" for a b c d :: nat
  proof -
    have n: "a + 256 * b + 65536 * c + 16777216 * d = a + 256 * (b + 256 * (c + 256 * d))" by simp
    have one: "(x + 256 * y) mod 256 = x" "(x + 256 * y) div 256 = y" if "x < 256" for x y :: nat using that by simp_all
    have divs: "x div 65536 = x div 256 div 256" "x div 16777216 = x div 256 div 256 div 256" for x :: nat
      by (simp_all flip: div_mult2_eq)
    show "(a + 256 * b + 65536 * c + 16777216 * d) mod 256 = a"
      "(a + 256 * b + 65536 * c + 16777216 * d) div 256 mod 256 = b"
      "(a + 256 * b + 65536 * c + 16777216 * d) div 65536 mod 256 = c"
      "(a + 256 * b + 65536 * c + 16777216 * d) div 16777216 = d"
      by (simp_all only: n divs one that)
  qed
  have top: "unat (drop_bit 24 (setBitsAll v)) = count_bits 32 v"
    using div(4) [OF le(1-3)] by (simp only: unat_shift setBitsAll_value) simp
  show "setBitsAll v AND 0xFF = word_of_nat (count_bits 8 v)"
    by (simp only: low_byte setBitsAll_value div(1) [OF le(1-3)])
  show "drop_bit 8 (setBitsAll v) AND 0xFF = word_of_nat (count_bits 16 v)"
    using div(2) [OF le(1-3)] by (simp only: low_byte unat_shift setBitsAll_value) simp
  show "drop_bit 16 (setBitsAll v) AND 0xFF = word_of_nat (count_bits 24 v)"
    using div(3) [OF le(1-3)] by (simp only: low_byte unat_shift setBitsAll_value) simp
  show "drop_bit 24 (setBitsAll v) AND 0xFF = word_of_nat (count_bits 32 v)"
    using le(4) by (simp only: low_byte top) simp
  show "popcount32 v = word_of_nat (count_bits 32 v)"
    by (simp only: popcount32_def top [symmetric]) simp
qed

theorem setBitsAll_counts:
  "setBitsAll v AND 0xFF = word_of_nat (count_bits 8 v) \<and>
   drop_bit 8 (setBitsAll v) AND 0xFF = word_of_nat (count_bits 16 v) \<and>
   drop_bit 16 (setBitsAll v) AND 0xFF = word_of_nat (count_bits 24 v) \<and>
   popcount32 v = word_of_nat (count_bits 32 v)"
  using packed_counts by simp

lemma count_bits_mask:
  assumes "r < 32"
  shows "count_bits 32 (v AND (push_bit r 1 - 1)) = count_bits r v"
proof -
  have "push_bit r 1 - 1 = (mask r :: u32)" by (simp add: mask_eq_exp_minus_1 push_bit_eq_mult)
  then have "bit (v AND (push_bit r 1 - 1)) j \<longleftrightarrow> bit v j \<and> j < r" for j
    using assms by (auto simp: bit_and_iff bit_mask_iff)
  then have "count_bits n (v AND (push_bit r 1 - 1)) = count_bits (min n r) v" for n
    by (induction n) (auto simp: min_def not_le less_Suc_eq)
  then show ?thesis using assms by simp
qed

section \<open>The bits of an array\<close>

definition item_bit :: "sparseArray \<Rightarrow> nat \<Rightarrow> bool" where
  "item_bit a j \<longleftrightarrow> j div 32 < length (sa_ItemBits a) \<and> bit (sa_ItemBits a ! (j div 32)) (j mod 32)"

text \<open>The number of positions below \<open>n\<close> with the property \<open>P\<close>.\<close>

definition rank :: "(nat \<Rightarrow> bool) \<Rightarrow> nat \<Rightarrow> nat" where
  "rank P n = length (filter P [0..<n])"

lemma rank_Suc [simp]: "rank P (Suc n) = rank P n + of_bool (P n)"
  by (simp add: rank_def)

lemma rank_0 [simp]: "rank P 0 = 0"
  by (simp add: rank_def)

lemma rank_mono: "m \<le> n \<Longrightarrow> rank P m \<le> rank P n"
  by (rule lift_Suc_mono_le) simp_all

lemma rank_le: "rank P n \<le> n"
  using length_filter_le [of P "[0..<n]"] by (simp add: rank_def)

lemma rank_diff_le: "m \<le> n \<Longrightarrow> rank P n \<le> rank P m + (n - m)"
proof (induction n rule: dec_induct)
  case (step n)
  then show ?case by (simp add: Suc_diff_le)
qed simp

text \<open>At a position that has the property, the ranks tell what is above it.\<close>

lemma rank_less_iff: "P p \<Longrightarrow> rank P p < rank P q \<longleftrightarrow> p < q"
proof
  assume P: "P p"
  show "p < q" if "rank P p < rank P q" using rank_mono [of q p P] that by linarith
  show "rank P p < rank P q" if "p < q" using rank_mono [of "Suc p" q P] that P by simp
qed

lemma rank_not: "rank (\<lambda>j. \<not> P j) n = n - rank P n"
proof (induction n)
  case (Suc n)
  then show ?case using rank_le [of P n] by auto
qed simp

lemma rank_word:
  assumes "\<And>j. j < n \<Longrightarrow> P (32 * w + j) \<longleftrightarrow> bit v j"
  shows "rank P (32 * w + n) = rank P (32 * w) + count_bits n v"
  using assms by (induction n) simp_all

lemma IsItemPresent_bit:
  assumes "length (sa_ItemBits a) < 2 ^ 32"
  shows "IsItemPresent a i \<longleftrightarrow> item_bit a (unat i)"
proof -
  have len: "word_of_nat (length (sa_ItemBits a)) \<le> drop_bit 5 i \<longleftrightarrow> length (sa_ItemBits a) \<le> unat i div 32"
    using assms by (simp only: word_le_nat_alt unat_shift unat_of_nat) simp
  have low: "unat (i AND 0x1F) = unat i mod 32" using unat_low [of 5 i] by (simp add: masks_numeral)
  have "v AND push_bit n 1 \<noteq> 0 \<longleftrightarrow> bit v n" if "n < 32" for v :: u32 and n
    using that by (simp add: bit_iff_and_push_bit_not_eq_0)
  then show ?thesis
    unfolding IsItemPresent_def item_bit_def Let_def len low unat_shift by (simp add: not_le)
qed

lemma rank_item_word:
  assumes "m \<le> 32"
  shows "rank (item_bit a) (32 * w + m) = rank (item_bit a) (32 * w) +
    (if w < length (sa_ItemBits a) then count_bits m (sa_ItemBits a ! w) else 0)"
proof (cases "w < length (sa_ItemBits a)")
  case True
  have "item_bit a (32 * w + j) \<longleftrightarrow> bit (sa_ItemBits a ! w) j" if "j < m" for j
    using True assms that by (simp add: item_bit_def)
  then have "rank (item_bit a) (32 * w + m) = rank (item_bit a) (32 * w) + count_bits m (sa_ItemBits a ! w)"
    by (rule rank_word)
  then show ?thesis using True by simp
next
  case False
  have "item_bit a (32 * w + j) \<longleftrightarrow> bit (0 :: u32) j" if "j < m" for j
    using False assms that by (simp add: item_bit_def)
  then have "rank (item_bit a) (32 * w + m) = rank (item_bit a) (32 * w) + count_bits m 0"
    by (rule rank_word)
  then show ?thesis using False by (simp add: count_bits_def)
qed

section \<open>Rank\<close>

text \<open>The base values of every group of 512 positions agree with the bits.\<close>

definition base_vals_ok :: "sparseArray \<Rightarrow> bool" where
  "base_vals_ok a \<longleftrightarrow> length (sa_ItemBits a) < 2 ^ 27 \<and> length (sa_BaseVals a) \<le> 2 ^ 23 \<and>
     (\<forall>g<length (sa_BaseVals a).
        unat (BaseValue200 (sa_BaseVals a ! g)) = rank (item_bit a) (512 * g) \<and>
        (\<forall>k<7. unat (block_add (sa_BaseVals a ! g) (word_of_nat k)) =
           rank (item_bit a) (512 * g + 64 * (k + 1)) - rank (item_bit a) (512 * g)))"

lemma base_vals_block:
  assumes "base_vals_ok a" "g < length (sa_BaseVals a)" "0 < k" "k < 8"
  shows "unat (block_add (sa_BaseVals a ! g) (word_of_nat k - 1)) =
    rank (item_bit a) (512 * g + 64 * k) - rank (item_bit a) (512 * g)"
proof -
  obtain j where k: "k = Suc j" using assms(3) by (cases k) auto
  then show ?thesis using assms(1,2,4) by (simp add: base_vals_ok_def)
qed

lemma block_base:
  assumes "base_vals_ok a" "g < length (sa_BaseVals a)" "k < 8"
  shows "BaseValue200 (sa_BaseVals a ! g) + block_add (sa_BaseVals a ! g) (word_of_nat k - 1) =
    word_of_nat (rank (item_bit a) (512 * g + 64 * k))"
proof -
  let ?bv = "sa_BaseVals a ! g" and ?r = "rank (item_bit a)"
  have base: "BaseValue200 ?bv = word_of_nat (?r (512 * g))"
    using assms(1,2) by (metis base_vals_ok_def of_nat_unat ucast_id)
  show ?thesis
  proof (cases "k = 0")
    case True
    then show ?thesis by (simp add: base block_add_def)
  next
    case False
    then have "block_add ?bv (word_of_nat k - 1) = word_of_nat (?r (512 * g + 64 * k) - ?r (512 * g))"
      using base_vals_block [OF assms(1,2) _ assms(3)] by (metis gr0I of_nat_unat ucast_id)
    moreover have "?r (512 * g) \<le> ?r (512 * g + 64 * k)" by (rule rank_mono) simp
    ultimately show ?thesis by (simp add: base flip: of_nat_add)
  qed
qed

lemma lt_length_word: "n < 2 ^ 32 \<Longrightarrow> (word_of_nat n \<le> (w :: u32)) \<longleftrightarrow> n \<le> unat w"
  by (simp add: word_le_nat_alt unat_of_nat)

lemma GetItemValueAt_is_rank:
  assumes "base_vals_ok a" "unat i < 512 * length (sa_BaseVals a)"
  shows "GetItemValueAt a i = word_of_nat (rank (item_bit a) (unat i))"
proof -
  define n where "n = unat i"
  let ?bits = "sa_ItemBits a" and ?r = "rank (item_bit a)"
  let ?w = "n div 32"
  have len: "length ?bits < 2 ^ 32" "length (sa_BaseVals a) < 2 ^ 32" using assms(1) by (simp_all add: base_vals_ok_def)
  have g: "n div 512 < length (sa_BaseVals a)" using assms(2) by (simp add: n_def less_mult_imp_div_less mult.commute)
  have fields: "unat (drop_bit 9 i) = n div 512" "unat (drop_bit 5 i) = ?w" "unat (i AND 0x1F) = n mod 32"
    "drop_bit 6 i AND 7 = word_of_nat (n div 64 mod 8)"
    "i AND 0x20 \<noteq> 0 \<longleftrightarrow> odd ?w"
  proof -
    show "unat (drop_bit 9 i) = n div 512" "unat (drop_bit 5 i) = ?w" by (simp_all only: unat_shift n_def) simp_all
    show "unat (i AND 0x1F) = n mod 32" using unat_low [of 5 i] by (simp add: masks_numeral n_def)
    have "unat (drop_bit 6 i AND 7) = n div 64 mod 8"
      using unat_low [of 3 "drop_bit 6 i"] by (simp only: masks_numeral unat_shift n_def) simp
    then show "drop_bit 6 i AND 7 = word_of_nat (n div 64 mod 8)" by (metis of_nat_unat ucast_id)
    have "i AND 0x20 \<noteq> 0 \<longleftrightarrow> bit i 5"
      by (simp add: bit_iff_and_push_bit_not_eq_0 push_bit_eq_mult)
    moreover have "bit i 5 \<longleftrightarrow> bit n 5" by (simp add: n_def bit_unsigned_iff)
    ultimately show "i AND 0x20 \<noteq> 0 \<longleftrightarrow> odd ?w" by (simp add: bit_iff_odd)
  qed
  let ?bv = "sa_BaseVals a ! (n div 512)"
  define v1 where "v1 = BaseValue200 ?bv + block_add ?bv ((drop_bit 6 i AND 7) - 1)"
  define v2 where "v2 = (if i AND 0x20 \<noteq> 0 \<and> drop_bit 5 i - 1 < word_of_nat (length ?bits)
    then v1 + popcount32 (?bits ! unat (drop_bit 5 i - 1)) else v1)"
  have "512 * (n div 512) + 64 * (n div 64 mod 8) = 64 * (n div 64)"
  proof -
    have "n div 512 = n div 64 div 8" by (simp flip: div_mult2_eq)
    then show ?thesis using mult_div_mod_eq [of 8 "n div 64"] by linarith
  qed
  then have v1: "v1 = word_of_nat (?r (64 * (n div 64)))"
    unfolding v1_def fields(4) by (subst block_base [OF assms(1) g]) simp_all
  have half: "n div 64 = ?w div 2" by (simp flip: div_mult2_eq)
  have v2: "v2 = word_of_nat (?r (32 * ?w))"
  proof (cases "odd ?w")
    case True
    define u where "u = 2 * (n div 64)"
    have w: "?w = Suc u" using odd_two_times_div_two_succ [OF True] by (simp add: u_def half)
    have "unat (drop_bit 5 i - 1) = u" using fields(2) w by (simp add: unat_sub_if')
    then have "v2 = v1 + (if u < length ?bits then word_of_nat (count_bits 32 (?bits ! u)) else 0)"
      using True len(1) by (simp add: v2_def fields(5) lt_length_word packed_counts(5) flip: not_le)
    moreover have "?r (32 * ?w) = ?r (32 * u) + (if u < length ?bits then count_bits 32 (?bits ! u) else 0)"
      using rank_item_word [of 32 a u] by (simp add: w algebra_simps)
    ultimately show ?thesis by (simp add: v1 u_def)
  next
    case False
    then have "64 * (n div 64) = 32 * ?w" using half dvd_mult_div_cancel [of 2 ?w] by simp
    then have "v1 = word_of_nat (?r (32 * ?w))" using v1 by (simp only:)
    then show ?thesis using False by (simp add: v2_def fields(5))
  qed
  have "GetItemValueAt a i = v2 + (if ?w < length ?bits then word_of_nat (count_bits (n mod 32) (?bits ! ?w)) else 0)"
    unfolding GetItemValueAt_def Let_def fields(1)
    unfolding v1_def [symmetric]
    unfolding v2_def [symmetric]
    unfolding fields(2,3) lt_length_word [OF len(1)] lt_length_word [OF len(2)] packed_counts(5)
    using g count_bits_mask [of "n mod 32"] by (simp only: fields(1,2) not_le split: if_split) simp
  also have "\<dots> = word_of_nat (?r (32 * ?w + n mod 32))"
    by (subst rank_item_word) (simp_all add: v2 less_imp_le)
  finally show ?thesis by (simp add: n_def)
qed

text \<open>
  C22. For an array whose base values agree with its bits, GetItemValueAt of a position below
  the groups it has is the number of set bits before the position: the shortcut tables and the
  multiplication trick compute the rank.
\<close>

theorem GetItemValueAt_rank:
  assumes "base_vals_ok a" "unat i < 512 * length (sa_BaseVals a)"
  shows "GetItemValueAt a i = word_of_nat (rank (item_bit a) (unat i))"
  by (rule GetItemValueAt_is_rank [OF assms])

section \<open>Select in a word\<close>

lemma count_bits_rank: "count_bits n v = rank (bit v) n"
  by (simp add: count_bits_def rank_def)

lemma bit_pos_select:
  assumes "bit b r" "r < 8" "rank (bit b) r = c" "s \<le> r"
  shows "bit_pos c b (rank (bit b) s) [s..<8] = word_of_nat r"
  using assms(4)
proof (induction rule: inc_induct)
  case base
  then show ?case using assms(1-3) by (simp add: upt_conv_Cons)
next
  case (step s)
  have "rank (bit b) (Suc s) \<le> c" using rank_mono [of "Suc s" r "bit b"] step.hyps assms(3) by simp
  then show ?case using step assms(2) by (auto simp: upt_conv_Cons)
qed

lemma table_select:
  assumes "bit b r" "r < 8" "b < 256"
  shows "at bitPos8Table (256 * rank (bit b) r + b) = Ret (word_of_nat r)"
proof -
  have "rank (bit b) r < 8" using rank_le [of "bit b" r] assms(2) by simp
  then have "256 * rank (bit b) r + b < 0x800" using assms(3) by simp
  then show ?thesis
    using assms bit_pos_select [OF assms(1,2) refl, of 0] by (simp add: bitPos8Table_def)
qed

lemma widen_small: "n < 256 \<Longrightarrow> (ucast (word_of_nat n :: u8) :: u32) = word_of_nat n"
proof -
  assume "n < 256"
  then have "unat (ucast (word_of_nat n :: u8) :: u32) = n"
    by (simp add: unsigned_ucast_eq unat_of_nat take_bit_eq_mod)
  then show ?thesis by (metis of_nat_unat ucast_id)
qed

lemma byte_select:
  assumes "bit (v :: u32) (8 * k + r)" "r < 8" "k < 4"
  shows "at bitPos8Table (unat (push_bit 8 (word_of_nat (count_bits (8 * k + r) v - count_bits (8 * k) v)) OR
    (drop_bit (8 * k) v AND 0xFF))) = Ret (word_of_nat r)"
proof -
  define b where "b = unat (drop_bit (8 * k) v AND 0xFF)"
  have b: "b < 256" unfolding b_def masks_numeral by (subst unat_low) simp_all
  have bits: "bit b j \<longleftrightarrow> bit v (8 * k + j)" if "j < 8" for j
    using that by (simp add: b_def bit_unsigned_iff masks_numeral bit_simps)
  have "rank (bit v) (8 * k + j) = rank (bit v) (8 * k) + rank (bit b) j" if "j \<le> r" for j
    using that assms(2) bits by (induction j) simp_all
  then have c: "count_bits (8 * k + r) v - count_bits (8 * k) v = rank (bit b) r" by (simp add: count_bits_rank)
  have "rank (bit b) r < 8" using rank_le [of "bit b" r] assms(2) by simp
  then have "unat (256 * word_of_nat (rank (bit b) r) + word_of_nat b :: u32) = 256 * rank (bit b) r + b"
    using b by (simp add: unat_word_ariths unat_of_nat)
  moreover have "word_of_nat b = (ucast (word_of_nat b :: u8) :: u32)" using widen_small [OF b] by (rule sym)
  then have "push_bit 8 (word_of_nat (rank (bit b) r)) OR word_of_nat b = 256 * word_of_nat (rank (bit b) r) + (word_of_nat b :: u32)"
    by (simp only: shl8_or)
  moreover have "drop_bit (8 * k) v AND 0xFF = word_of_nat b" by (simp add: b_def)
  ultimately show ?thesis
    using table_select [of b r] bits [OF assms(2)] assms(1,2) b by (simp add: c)
qed

lemma word_item_select:
  assumes "bit v r" "r < 32"
  shows "word_item v (setBitsAll v) (word_of_nat (count_bits r v)) dw = Ret (word_of_nat r + push_bit 5 dw)"
proof -
  let ?n = "word_of_nat (count_bits r v) :: u32"
  have lt: "?n < word_of_nat (count_bits m v) \<longleftrightarrow> r < m" "word_of_nat (count_bits m v) \<le> ?n \<longleftrightarrow> m \<le> r" if "m \<le> 32" for m
  proof -
    have "count_bits m v < 2 ^ 32" "count_bits r v < 2 ^ 32"
      using count_bits_le [of m v] count_bits_le [of r v] that assms(2) by simp_all
    then show "?n < word_of_nat (count_bits m v) \<longleftrightarrow> r < m"
      using rank_less_iff [of "bit v" r m] assms(1) by (simp add: word_less_nat_alt unat_of_nat count_bits_rank)
    then show "word_of_nat (count_bits m v) \<le> ?n \<longleftrightarrow> m \<le> r" by (simp flip: not_less)
  qed
  have diff: "?n - word_of_nat (count_bits m v) = word_of_nat (count_bits r v - count_bits m v)" if "m \<le> r" for m
    using count_bits_mono [OF that, of v] by (simp add: of_nat_diff)
  define k where "k = r div 8"
  have k: "r = 8 * k + r mod 8" "k < 4" using assms(2) by (simp_all add: k_def)
  then have sel: "at bitPos8Table (unat (push_bit 8 (word_of_nat (count_bits r v - count_bits (8 * k) v)) OR
      (drop_bit (8 * k) v AND 0xFF))) = Ret (word_of_nat (r mod 8))"
    using byte_select [of v k "r mod 8"] assms(1) by simp
  have "r mod 8 < 256" by (rule less_trans [OF mod_less_divisor]) simp_all
  then have p: "(ucast (word_of_nat (r mod 8) :: u8) :: u32) = word_of_nat (r mod 8)" by (rule widen_small)
  have r: "(word_of_nat r :: u32) = 8 * word_of_nat k + word_of_nat (r mod 8)"
    by (metis k(1) of_nat_add of_nat_mult of_nat_numeral)
  consider "k = 0" "r < 8" | "k = 1" "8 \<le> r" "r < 16" | "k = 2" "16 \<le> r" "r < 24" | "k = 3" "24 \<le> r"
    using k by linarith
  then show ?thesis
  proof cases
    case 1
    then show ?thesis using sel r lt [of 8] lt [of 16] p by (simp add: word_item_def packed_counts Let_def)
  next
    case 2
    then show ?thesis using sel r lt [of 8] lt [of 16] p diff [of 8] by (simp add: word_item_def packed_counts Let_def)
  next
    case 3
    then show ?thesis using sel r lt [of 16] lt [of 24] p diff [of 16] by (simp add: word_item_def packed_counts Let_def)
  next
    case 4
    then show ?thesis using sel r lt [of 16] lt [of 24] p diff [of 24] by (simp add: word_item_def packed_counts Let_def)
  qed
qed

section \<open>Select in an array\<close>

text \<open>The bits an array is searched for: those of its words under \<open>view\<close>.\<close>

definition seen_as :: "(u32 \<Rightarrow> u32) \<Rightarrow> (nat \<Rightarrow> bool) \<Rightarrow> sparseArray \<Rightarrow> bool" where
  "seen_as view P a \<longleftrightarrow> (\<forall>w<length (sa_ItemBits a). \<forall>j<32. P (32 * w + j) \<longleftrightarrow> bit (view (sa_ItemBits a ! w)) j)"

lemma seen_as_items: "seen_as (\<lambda>x. x) (item_bit a) a" "seen_as NOT (\<lambda>j. \<not> item_bit a j) a"
  by (auto simp: seen_as_def item_bit_def bit_not_iff)

lemma rank_seen:
  assumes "seen_as view P a" "w < length (sa_ItemBits a)" "m \<le> 32"
  shows "rank P (32 * w + m) = rank P (32 * w) + count_bits m (view (sa_ItemBits a ! w))"
  using assms by (intro rank_word) (simp add: seen_as_def)

lemma count_word_less: "word_of_nat (count_bits m v) \<le> (word_of_nat n :: u32) \<longleftrightarrow> count_bits m v \<le> n" if "m \<le> 32" "n < 2 ^ 32"
  using count_bits_le [of m v] that by (simp add: word_le_nat_alt unat_of_nat)

lemma word_of_nat_split: "(word_of_nat r + word_of_nat w * 32 :: u32) = word_of_nat (32 * w + r)"
  by simp

lemma halves: "(w :: nat) = 2 * (w div 2) \<or> w = Suc (2 * (w div 2))"
  by presburger

lemma block_words_select:
  assumes "seen_as view P a" "P p" "p div 32 < length (sa_ItemBits a)" "length (sa_ItemBits a) < 2 ^ 27"
  shows "block_words view a (word_of_nat (rank P p - rank P (64 * (p div 64)))) (word_of_nat (2 * (p div 64))) = Ret (word_of_nat p)"
proof -
  define B where "B = p div 64"
  let ?v = "\<lambda>w. view (sa_ItemBits a ! w)" and ?w = "p div 32" and ?r = "p mod 32"
  have p: "p = 32 * ?w + ?r" by simp
  then have "bit (?v ?w) ?r" using assms(1-3) unfolding seen_as_def by (metis mod_less_divisor zero_less_numeral)
  then have sel: "word_item (?v ?w) (setBitsAll (?v ?w)) (word_of_nat (count_bits ?r (?v ?w))) (word_of_nat ?w) = Ret (word_of_nat p)"
    using word_of_nat_split [of ?r ?w] by (subst word_item_select) (simp_all add: push_bit_eq_mult)
  have rp: "rank P p = rank P (32 * ?w) + count_bits ?r (?v ?w)"
    using rank_seen [OF assms(1,3), of ?r] p by simp
  have n: "rank P p - rank P (64 * B) < 2 ^ 32" 
  proof -
    have "p < 32 * 2 ^ 27" using assms(3,4) by (simp add: div_less_iff_less_mult) 
    then show ?thesis using rank_le [of P p] by simp
  qed
  define u where "u = 2 * B"
  have "B = ?w div 2" by (simp add: B_def flip: div_mult2_eq)
  then have w: "?w = u \<or> ?w = Suc u" using halves [of ?w] by (simp only: u_def)
  then have u: "Suc u < 2 ^ 32" using assms(3,4) by auto
  have "unat (word_of_nat (Suc u) :: u32) = Suc u" using u by (intro unat_word_of_nat) simp
  then have words: "unat (word_of_nat u + 1 :: u32) = Suc u" "unat (1 + word_of_nat u :: u32) = Suc u"
    by (simp_all add: add.commute)
  have word: "unat (word_of_nat u :: u32) = u" using u by (intro unat_word_of_nat) simp
  have len: "unat (word_of_nat (length (sa_ItemBits a)) :: u32) = length (sa_ItemBits a)"
    using assms(4) by (intro unat_word_of_nat) simp
  have r64: "64 * B = 32 * u" by (simp add: u_def)
  have "block_words view a (word_of_nat (rank P p - rank P (32 * u))) (word_of_nat u) = Ret (word_of_nat p)"
  proof (cases "?w = u")
    case True
    have "count_bits ?r (?v ?w) < count_bits 32 (?v ?w)"
      using \<open>bit (?v ?w) ?r\<close> rank_less_iff [of "bit (?v ?w)" ?r 32] by (simp add: count_bits_rank)
    then show ?thesis
      using True sel rp u assms(3) n [unfolded r64]
      by (simp add: block_words_def Let_def word_le_nat_alt [of "word_of_nat (length _)"] words word len packed_counts count_word_less)
  next
    case False
    then have w1: "?w = Suc u" using w by simp
    have "rank P (32 * ?w) = rank P (32 * u) + count_bits 32 (?v u)"
      using rank_seen [OF assms(1), of u 32] w1 assms(3) by (simp add: add.commute)
    then have d: "rank P p - rank P (32 * u) = count_bits 32 (?v u) + count_bits ?r (?v ?w)" using rp by simp
    then have "word_of_nat (count_bits 32 (?v u)) \<le> (word_of_nat (count_bits 32 (?v u)) + word_of_nat (count_bits ?r (?v ?w)) :: u32)"
      using n [unfolded r64] count_word_less [of 32 "count_bits 32 (?v u) + count_bits ?r (?v ?w)" "?v u"] by simp
    moreover have "(word_of_nat ?w :: u32) = word_of_nat u + 1" using w1 by (simp add: add.commute)
    ultimately show ?thesis
      using sel assms(3) w1 d
      by (simp add: block_words_def Let_def word_le_nat_alt [of "word_of_nat (length _)"] words word len packed_counts del: of_nat_Suc)
  qed
  then show ?thesis by (simp only: B_def [symmetric] u_def [symmetric] r64)
qed

text \<open>The nested comparisons pick the last of the eight blocks that starts at or before the position.\<close>

lemma block_add_numeral:
  "block_add bv 0 = AddValue40 bv" "block_add bv 1 = AddValue80 bv" "block_add bv 2 = AddValueC0 bv"
  "block_add bv 3 = AddValue100 bv" "block_add bv 4 = AddValue140 bv" "block_add bv 5 = AddValue180 bv"
  "block_add bv 6 = AddValue1C0 bv"
  by (simp_all add: block_add_def)

lemma eight_blocks:
  "q < 512 \<Longrightarrow> q div 64 = 0 \<and> 0 \<le> q \<and> q < 64 \<or>
    q div 64 = 1 \<and> 64 \<le> q \<and> q < 128 \<or>
    q div 64 = 2 \<and> 128 \<le> q \<and> q < 192 \<or>
    q div 64 = 3 \<and> 192 \<le> q \<and> q < 256 \<or>
    q div 64 = 4 \<and> 256 \<le> q \<and> q < 320 \<or>
    q div 64 = 5 \<and> 320 \<le> q \<and> q < 384 \<or>
    q div 64 = 6 \<and> 384 \<le> q \<and> q < 448 \<or>
    q div 64 = 7 \<and> 448 \<le> q \<and> q < 512" for q :: nat
proof -
  assume "q < 512"
  define m where "m = q div 64"
  have "m < 8" using \<open>q < 512\<close> by (simp add: m_def less_mult_imp_div_less)
  then have "m = 0 \<or> m = 1 \<or> m = 2 \<or> m = 3 \<or> m = 4 \<or> m = 5 \<or> m = 6 \<or> m = 7" by presburger
  moreover have "64 * m \<le> q" "q < 64 * m + 64"
    using mult_div_mod_eq [of 64 q] mod_less_divisor [of 64 q] unfolding m_def by simp_all
  ultimately show ?thesis unfolding m_def [symmetric] by (elim disjE) simp_all
qed

lemma block_item1_pick:
  assumes "\<And>k. 0 < k \<Longrightarrow> k < 8 \<Longrightarrow> dist < block_add bv (word_of_nat k - 1) \<longleftrightarrow> q < 64 * k" "q < 512"
  shows "block_item1 bv dist = (word_of_nat (2 * (q div 64)), dist - (if q < 64 then 0 else block_add bv (word_of_nat (q div 64) - 1)))"
proof -
  have lt: "dist < AddValue40 bv \<longleftrightarrow> q < 64"
    "dist < AddValue80 bv \<longleftrightarrow> q < 128"
    "dist < AddValueC0 bv \<longleftrightarrow> q < 192"
    "dist < AddValue100 bv \<longleftrightarrow> q < 256"
    "dist < AddValue140 bv \<longleftrightarrow> q < 320"
    "dist < AddValue180 bv \<longleftrightarrow> q < 384"
    "dist < AddValue1C0 bv \<longleftrightarrow> q < 448"
    using assms(1) [of 1] assms(1) [of 2] assms(1) [of 3] assms(1) [of 4] assms(1) [of 5] assms(1) [of 6] assms(1) [of 7]
    by (simp_all add: block_add_numeral)
  have le: "AddValue40 bv \<le> dist \<longleftrightarrow> 64 \<le> q" using lt(1) by (simp only: not_less [symmetric])
  show ?thesis
    using eight_blocks [OF assms(2)]
    by (elim disjE conjE) (simp_all add: block_item1_def lt le block_add_numeral algebra_simps)
qed

lemma block_item0_pick:
  assumes "\<And>k. 0 < k \<Longrightarrow> k < 8 \<Longrightarrow> edx < 64 * word_of_nat k - block_add bv (word_of_nat k - 1) \<longleftrightarrow> q < 64 * k" "q < 512"
  shows "block_item0 bv edx = (word_of_nat (2 * (q div 64)), edx - (if q < 64 then 0 else 64 * word_of_nat (q div 64) - block_add bv (word_of_nat (q div 64) - 1)))"
proof -
  have lt: "edx < 0x40 - AddValue40 bv \<longleftrightarrow> q < 64"
    "edx < 0x80 - AddValue80 bv \<longleftrightarrow> q < 128"
    "edx < 0xc0 - AddValueC0 bv \<longleftrightarrow> q < 192"
    "edx < 0x100 - AddValue100 bv \<longleftrightarrow> q < 256"
    "edx < 0x140 - AddValue140 bv \<longleftrightarrow> q < 320"
    "edx < 0x180 - AddValue180 bv \<longleftrightarrow> q < 384"
    "edx < 0x1c0 - AddValue1C0 bv \<longleftrightarrow> q < 448"
    using assms(1) [of 1] assms(1) [of 2] assms(1) [of 3] assms(1) [of 4] assms(1) [of 5] assms(1) [of 6] assms(1) [of 7]
    by (simp_all add: block_add_numeral)
  have le: "0x40 - AddValue40 bv \<le> edx \<longleftrightarrow> 64 \<le> q" using lt(1) by (simp only: not_less [symmetric])
  show ?thesis
    using eight_blocks [OF assms(2)]
    by (elim disjE conjE) (simp_all add: block_item0_def lt le block_add_numeral algebra_simps)
qed

lemma word_rank_less:
  assumes "P p" "m \<le> p" "m \<le> q" "p < 2 ^ 32" "q \<le> m + 512"
  shows "(word_of_nat (rank P p - rank P m) :: u32) < word_of_nat (rank P q - rank P m) \<longleftrightarrow> p < q"
proof -
  have "rank P p - rank P m < 2 ^ 32" using rank_le [of P p] assms(4) by linarith
  moreover have "rank P q - rank P m \<le> 512" using rank_diff_le [OF assms(3), of P] assms(5) by linarith
  then have "rank P q - rank P m < 2 ^ 32" by simp
  ultimately have "(word_of_nat (rank P p - rank P m) :: u32) < word_of_nat (rank P q - rank P m) \<longleftrightarrow>
      rank P p - rank P m < rank P q - rank P m"
    by (simp add: word_less_nat_alt unat_of_nat)
  also have "\<dots> \<longleftrightarrow> rank P p < rank P q"
    using rank_mono [OF assms(2), of P] rank_mono [OF assms(3), of P] by linarith
  finally show ?thesis using rank_less_iff [of P p q] assms(1) by simp
qed

lemma block_number: "p div 64 = 8 * (p div 512) + p mod 512 div 64" for p :: nat
proof -
  have "p div 512 = p div 64 div 8" by (simp flip: div_mult2_eq)
  moreover have "p mod 512 div 64 = p div 64 mod 8"
    using mod_mult2_eq [of p 64 8] by simp
  ultimately show ?thesis using mult_div_mod_eq [of 8 "p div 64"] by linarith
qed

lemma word_diff_diff: "a \<le> b \<Longrightarrow> b \<le> x \<Longrightarrow> word_of_nat (x - a) - word_of_nat (b - a) = (word_of_nat (x - b) :: u32)"
  by (simp add: of_nat_diff)

text \<open>The last steps of both selects, from the block to the position.\<close>

lemma block_select:
  assumes "seen_as view P a" "P p" "p div 32 < length (sa_ItemBits a)" "length (sa_ItemBits a) < 2 ^ 27"
    and "n = word_of_nat (rank P p - rank P (64 * (p div 64)))"
  shows "block_words view a n (word_of_nat (p div 512 * 16) + word_of_nat (2 * (p mod 512 div 64))) = Ret (word_of_nat p)"
proof -
  have "p div 512 * 16 + 2 * (p mod 512 div 64) = 2 * (p div 64)" using block_number [of p] by linarith
  then have "word_of_nat (p div 512 * 16) + word_of_nat (2 * (p mod 512 div 64)) = (word_of_nat (2 * (p div 64)) :: u32)"
    by (metis of_nat_add)
  then show ?thesis using block_words_select [OF assms(1-4)] by (simp only: assms(5))
qed

lemma scan_groups1_select:
  assumes "base_vals_ok a" "item_bit a p" "p div 512 < length (sa_BaseVals a)" "p < 2 ^ 32" "s \<le> p div 512"
  shows "scan_groups1 a (word_of_nat (rank (item_bit a) p)) s = p div 512"
  using assms(5)
proof (induction rule: inc_induct)
  case base
  let ?g = "p div 512"
  have "\<not> BaseValue200 (sa_BaseVals a ! (?g + 1)) \<le> word_of_nat (rank (item_bit a) p)" if "?g + 1 < length (sa_BaseVals a)"
  proof -
    have "p < 512 * (?g + 1)" using mult_div_mod_eq [of 512 p] mod_less_divisor [of 512 p] by simp
    then have "rank (item_bit a) p < rank (item_bit a) (512 * (?g + 1))" using rank_less_iff [of "item_bit a" p] assms(2) by simp
    also have "\<dots> = unat (BaseValue200 (sa_BaseVals a ! (?g + 1)))" using assms(1) that unfolding base_vals_ok_def by (metis (no_types))
    finally show ?thesis using rank_le [of "item_bit a" p] assms(4) by (simp add: word_le_nat_alt unat_of_nat)
  qed
  then show ?case by (subst scan_groups1.simps) auto
next
  case (step s)
  have "512 * (s + 1) \<le> p" using step.hyps mult_div_mod_eq [of 512 p] by (simp add: less_eq_div_iff_mult_less_eq [symmetric] mult.commute)
  then have "rank (item_bit a) (512 * (s + 1)) \<le> rank (item_bit a) p" by (rule rank_mono)
  moreover have "unat (BaseValue200 (sa_BaseVals a ! (s + 1))) = rank (item_bit a) (512 * (s + 1))"
    using assms(1,3) step.hyps unfolding base_vals_ok_def by (metis (no_types) Suc_eq_plus1 Suc_lessI less_trans less_SucI Suc_leI le_less_trans)
  ultimately have "BaseValue200 (sa_BaseVals a ! (s + 1)) \<le> word_of_nat (rank (item_bit a) p)"
    using rank_le [of "item_bit a" p] assms(4) by (simp add: word_le_nat_alt unat_of_nat)
  then show ?case using step assms(3) by (subst scan_groups1.simps) simp
qed

text \<open>
  The index table \<open>items\<close> of a kind of bit: for every 512th bit of the kind its position, an entry after
  it, and fewer than ten groups between the two.
\<close>

definition index_ok :: "u32 list \<Rightarrow> (nat \<Rightarrow> bool) \<Rightarrow> sparseArray \<Rightarrow> bool" where
  "index_ok items P a \<longleftrightarrow>
     (\<forall>g. 512 * g < rank P (32 * length (sa_ItemBits a)) \<longrightarrow>
        g + 1 < length items \<and> P (unat (items ! g)) \<and> rank P (unat (items ! g)) = 512 * g \<and>
        unat (items ! g) div 512 \<le> unat (drop_bit 9 (items ! (g + 1) + 0x1FF)) \<and>
        unat (drop_bit 9 (items ! (g + 1) + 0x1FF)) - unat (items ! g) div 512 < 10)"

lemma index_entry:
  assumes "index_ok items P a" "P p" "p < 32 * length (sa_ItemBits a)"
  defines "g \<equiv> rank P p div 512"
  shows "g + 1 < length items" "unat (items ! g) \<le> p" "rank P p mod 512 = 0 \<Longrightarrow> unat (items ! g) = p"
    "unat (items ! g) div 512 \<le> unat (drop_bit 9 (items ! (g + 1) + 0x1FF))"
    "unat (drop_bit 9 (items ! (g + 1) + 0x1FF)) - unat (items ! g) div 512 < 10"
proof -
  have "512 * g \<le> rank P p" by (simp add: g_def)
  moreover have "rank P p < rank P (32 * length (sa_ItemBits a))" using rank_less_iff [of P p] assms(2,3) by simp
  ultimately have e: "g + 1 < length items \<and> P (unat (items ! g)) \<and> rank P (unat (items ! g)) = 512 * g \<and>
      unat (items ! g) div 512 \<le> unat (drop_bit 9 (items ! (g + 1) + 0x1FF)) \<and>
      unat (drop_bit 9 (items ! (g + 1) + 0x1FF)) - unat (items ! g) div 512 < 10"
    using assms(1) unfolding index_ok_def by (meson le_less_trans)
  then show "g + 1 < length items" "unat (items ! g) div 512 \<le> unat (drop_bit 9 (items ! (g + 1) + 0x1FF))"
    "unat (drop_bit 9 (items ! (g + 1) + 0x1FF)) - unat (items ! g) div 512 < 10"
    by blast+
  show le: "unat (items ! g) \<le> p"
    using e \<open>512 * g \<le> rank P p\<close> rank_less_iff [of P p "unat (items ! g)"] assms(2) by (metis leI not_less)
  show "unat (items ! g) = p" if "rank P p mod 512 = 0"
  proof -
    have "rank P p = 512 * g" using that mult_div_mod_eq [of 512 "rank P p"] by (simp only: g_def)
    then have "\<not> unat (items ! g) < p" using e rank_less_iff [of P "unat (items ! g)" p] by simp
    then show ?thesis using le by simp
  qed
qed

lemma index_fields:
  assumes "n < 2 ^ 32"
  shows "unat (drop_bit 9 (word_of_nat n :: u32)) = n div 512" "(word_of_nat n :: u32) AND 0x1FF = 0 \<longleftrightarrow> n mod 512 = 0"
proof -
  have n: "unat (word_of_nat n :: u32) = n" using assms by (intro unat_word_of_nat) simp
  show "unat (drop_bit 9 (word_of_nat n :: u32)) = n div 512" by (simp only: unat_shift n) simp
  show "(word_of_nat n :: u32) AND 0x1FF = 0 \<longleftrightarrow> n mod 512 = 0"
    using unat_low [of 9 "word_of_nat n"] n by (simp only: masks_numeral unat_eq_zero [symmetric]) simp
qed

lemma shift9: "unat (drop_bit 9 w) = unat w div 512" for w :: u32
  by (simp only: unat_shift) simp

text \<open>Once the group is found, the comparisons of a block search lead to the position.\<close>

lemma group_select:
  fixes p :: nat
  defines "g \<equiv> p div 512" and "q \<equiv> p mod 512"
  assumes "seen_as view P a" "P p" "p div 32 < length (sa_ItemBits a)" "length (sa_ItemBits a) < 2 ^ 27"
    and add: "\<And>k. 0 < k \<Longrightarrow> k < 8 \<Longrightarrow> T k = word_of_nat (rank P (512 * g + 64 * k) - rank P (512 * g))"
    and dist: "dist = word_of_nat (rank P p - rank P (512 * g))"
    and pick: "(\<And>k. 0 < k \<Longrightarrow> k < 8 \<Longrightarrow> dist < T k \<longleftrightarrow> q < 64 * k) \<Longrightarrow> q < 512 \<Longrightarrow>
      pick = (word_of_nat (2 * (q div 64)), dist - (if q < 64 then 0 else T (q div 64)))"
  shows "(case pick of (d, n) \<Rightarrow> block_words view a n (word_of_nat (g * 16) + d)) = Ret (word_of_nat p)"
proof -
  let ?r = "rank P"
  have p32: "p < 2 ^ 32" using assms(5,6) by (simp add: div_less_iff_less_mult)
  have q: "q < 512" "512 * g + q = p" "512 * g \<le> p" by (simp_all add: g_def q_def)
  have "dist < T k \<longleftrightarrow> q < 64 * k" if "0 < k" "k < 8" for k
  proof -
    have "dist < T k \<longleftrightarrow> p < 512 * g + 64 * k"
      unfolding add [OF that] dist by (rule word_rank_less) (use assms(4) p32 q(3) that in simp_all)
    also have "\<dots> \<longleftrightarrow> 512 * g + q < 512 * g + 64 * k" by (simp only: q(2))
    finally show ?thesis by (simp only: add_less_cancel_left)
  qed
  note pk = pick [OF this q(1)]
  have num: "p div 64 = 8 * g + q div 64" unfolding g_def q_def by (rule block_number)
  have "dist - (if q < 64 then 0 else T (q div 64)) = word_of_nat (?r p - ?r (64 * (p div 64)))"
  proof (cases "q < 64")
    case True
    then have "64 * (p div 64) = 512 * g" using num by simp
    then show ?thesis using True by (simp only: dist if_True diff_zero)
  next
    case False
    have b: "64 * (p div 64) = 512 * g + 64 * (q div 64)" using num by linarith
    have "64 * (p div 64) \<le> p" by simp
    then have "?r (512 * g + 64 * (q div 64)) \<le> ?r p" unfolding b by (rule rank_mono)
    moreover have "?r (512 * g) \<le> ?r (512 * g + 64 * (q div 64))" by (rule rank_mono) simp
    moreover have "0 < q div 64" "q div 64 < 8" using False q(1) by (simp_all add: less_mult_imp_div_less div_greater_zero_iff)
    ultimately show ?thesis using False by (simp only: dist add b if_False word_diff_diff)
  qed
  then show ?thesis
    using block_select [OF assms(3-6)] by (simp only: pk prod.case g_def q_def)
qed

lemma base_value:
  assumes "base_vals_ok a" "g < length (sa_BaseVals a)"
  shows "BaseValue200 (sa_BaseVals a ! g) = word_of_nat (rank (item_bit a) (512 * g))"
  using assms unfolding base_vals_ok_def by (metis of_nat_unat ucast_id)

lemma base_block:
  assumes "base_vals_ok a" "g < length (sa_BaseVals a)" "0 < k" "k < 8"
  shows "block_add (sa_BaseVals a ! g) (word_of_nat k - 1) =
    word_of_nat (rank (item_bit a) (512 * g + 64 * k) - rank (item_bit a) (512 * g))"
  using base_vals_block [OF assms] by (metis of_nat_unat ucast_id)

lemma GetItem1_is_select:
  assumes "base_vals_ok a" "index_ok (sa_IndexToItem1 a) (item_bit a) a" "item_bit a p" "p < 512 * length (sa_BaseVals a)"
  shows "GetItem1 a (word_of_nat (rank (item_bit a) p)) = Ret (word_of_nat p)"
proof -
  let ?r = "rank (item_bit a)" and ?items = "sa_IndexToItem1 a" and ?g = "p div 512"
  have len: "length (sa_ItemBits a) < 2 ^ 27" "p div 32 < length (sa_ItemBits a)"
    using assms(1,3) by (simp_all add: base_vals_ok_def item_bit_def)
  then have p: "p < 32 * length (sa_ItemBits a)" "p < 2 ^ 32" by (simp_all add: div_less_iff_less_mult mult.commute)
  have n: "?r p < 2 ^ 32" using rank_le [of "item_bit a" p] p(2) by simp
  then have nat_of: "unat (word_of_nat (?r p) :: u32) = ?r p" by (intro unat_word_of_nat) simp
  have g: "?g < length (sa_BaseVals a)" using assms(4) by (simp add: less_mult_imp_div_less mult.commute)
  note e = index_entry [OF assms(2,3) p(1)]
  show ?thesis
  proof (cases "?r p mod 512 = 0")
    case True
    then have "?items ! (?r p div 512) = word_of_nat p" using e(3) by (metis of_nat_unat ucast_id)
    then show ?thesis using True e(1) index_fields [OF n] by (simp add: GetItem1_def Let_def)
  next
    case False
    have "unat (?items ! (?r p div 512)) div 512 \<le> ?g" using e(2) by (rule div_le_mono)
    then have scan: "scan_groups1 a (word_of_nat (?r p)) (unat (?items ! (?r p div 512)) div 512) = ?g"
      by (rule scan_groups1_select [OF assms(1,3) g p(2)])
    have find: "findGroupItems1 a (word_of_nat (?r p)) = ?g"
      using e(1,4,5) unfolding findGroupItems1_def Let_def shift9 nat_of
      by (simp only: not_le [symmetric] simp_thms if_False if_True scan)
    have "word_of_nat (?r p) - BaseValue200 (sa_BaseVals a ! ?g) = word_of_nat (?r p - ?r (512 * ?g))"
      using rank_mono [of "512 * ?g" p "item_bit a"] by (simp add: base_value [OF assms(1) g] of_nat_diff)
    note group_select [OF seen_as_items(1) assms(3) len(2,1) base_block [OF assms(1) g] this block_item1_pick]
    then show ?thesis
      using False g by (simp add: GetItem1_def Let_def index_fields [OF n] find)
  qed
qed

text \<open>Absent items: their counts are the distances less the counts of the present ones.\<close>

abbreviation absent :: "sparseArray \<Rightarrow> nat \<Rightarrow> bool" where
  "absent a \<equiv> \<lambda>j. \<not> item_bit a j"

lemma absent_diff:
  assumes "m \<le> n"
  shows "rank (absent a) n - rank (absent a) m = (n - m) - (rank (item_bit a) n - rank (item_bit a) m)"
  using rank_mono [OF assms, of "item_bit a"] rank_diff_le [OF assms, of "item_bit a"] rank_le [of "item_bit a" n]
    rank_le [of "item_bit a" m] assms by (simp add: rank_not)

lemma absent_word:
  "word_of_nat (512 * g) - word_of_nat (rank (item_bit a) (512 * g)) = (word_of_nat (rank (absent a) (512 * g)) :: u32)"
  using rank_le [of "item_bit a" "512 * g"] by (simp only: rank_not of_nat_diff)

lemma group_bound0:
  assumes "base_vals_ok a" "s + 1 < length (sa_BaseVals a)"
  shows "word_of_nat (s * 512) - BaseValue200 (sa_BaseVals a ! (s + 1)) + 0x200 = word_of_nat (rank (absent a) (512 * (s + 1)))"
  using absent_word [of "s + 1" a] base_value [OF assms] by (simp add: algebra_simps)

lemma scan_groups0_select:
  assumes "base_vals_ok a" "absent a p" "p div 512 < length (sa_BaseVals a)" "p < 2 ^ 32" "s \<le> p div 512"
  shows "scan_groups0 a (word_of_nat (rank (absent a) p)) s = p div 512"
proof -
  have le: "(word_of_nat (rank (absent a) (512 * (t + 1))) :: u32) \<le> word_of_nat (rank (absent a) p) \<longleftrightarrow> 512 * (t + 1) \<le> p"
    if "t + 1 < length (sa_BaseVals a)" for t
  proof -
    have "512 * (t + 1) < 2 ^ 32" using that assms(1) by (simp add: base_vals_ok_def)
    then have "rank (absent a) (512 * (t + 1)) < 2 ^ 32" using rank_le [of "absent a" "512 * (t + 1)"] by linarith
    moreover have "rank (absent a) p < 2 ^ 32" using rank_le [of "absent a" p] assms(4) by linarith
    ultimately have "(word_of_nat (rank (absent a) (512 * (t + 1))) :: u32) \<le> word_of_nat (rank (absent a) p) \<longleftrightarrow>
        rank (absent a) (512 * (t + 1)) \<le> rank (absent a) p"
      by (simp add: word_le_nat_alt unat_of_nat)
    then show ?thesis using rank_less_iff [of "absent a", OF assms(2), of "512 * (t + 1)"] by (simp only: not_less [symmetric])
  qed
  show ?thesis using assms(5)
  proof (induction rule: inc_induct)
    case base
    have "p < 512 * (p div 512 + 1)" using mult_div_mod_eq [of 512 p] mod_less_divisor [of 512 p] by simp
    then show ?case using le [of "p div 512"] group_bound0 [OF assms(1), of "p div 512"] by (subst scan_groups0.simps) auto
  next
    case (step s)
    have "512 * (s + 1) \<le> p" using step.hyps mult_div_mod_eq [of 512 p] by (simp add: less_eq_div_iff_mult_less_eq [symmetric] mult.commute)
    then show ?case
      using step assms(3) le [of s] group_bound0 [OF assms(1), of s] by (subst scan_groups0.simps) simp
  qed
qed

lemma absent_block:
  assumes "base_vals_ok a" "g < length (sa_BaseVals a)" "0 < k" "k < 8"
  shows "64 * word_of_nat k - block_add (sa_BaseVals a ! g) (word_of_nat k - 1) =
    word_of_nat (rank (absent a) (512 * g + 64 * k) - rank (absent a) (512 * g))"
proof -
  let ?d = "rank (item_bit a) (512 * g + 64 * k) - rank (item_bit a) (512 * g)"
  have "?d \<le> 64 * k" using rank_diff_le [of "512 * g" "512 * g + 64 * k" "item_bit a"] by simp
  moreover have "rank (absent a) (512 * g + 64 * k) - rank (absent a) (512 * g) = 64 * k - ?d"
    using absent_diff [of "512 * g" "512 * g + 64 * k" a] by simp
  ultimately show ?thesis by (simp only: base_block [OF assms] of_nat_diff) simp
qed

lemma GetItem0_is_select:
  assumes "base_vals_ok a" "index_ok (sa_IndexToItem0 a) (absent a) a" "absent a p"
    and "p < 32 * length (sa_ItemBits a)" "p < 512 * length (sa_BaseVals a)"
  shows "GetItem0 a (word_of_nat (rank (absent a) p)) = Ret (word_of_nat p)"
proof -
  let ?r = "rank (absent a)" and ?items = "sa_IndexToItem0 a" and ?g = "p div 512"
  have len: "length (sa_ItemBits a) < 2 ^ 27" "p div 32 < length (sa_ItemBits a)"
    using assms(1,4) by (simp_all add: base_vals_ok_def less_mult_imp_div_less mult.commute)
  have p: "p < 2 ^ 32" using assms(4) len(1) by simp
  have n: "?r p < 2 ^ 32" using rank_le [of "absent a" p] p by linarith
  then have nat_of: "unat (word_of_nat (?r p) :: u32) = ?r p" by (intro unat_word_of_nat) simp
  have g: "?g < length (sa_BaseVals a)" using assms(5) by (simp add: less_mult_imp_div_less mult.commute)
  note e = index_entry [OF assms(2), OF assms(3,4)]
  show ?thesis
  proof (cases "?r p mod 512 = 0")
    case True
    then have "?items ! (?r p div 512) = word_of_nat p" using e(3) by (metis of_nat_unat ucast_id)
    then show ?thesis using True e(1) index_fields [OF n] by (simp add: GetItem0_def Let_def)
  next
    case False
    have "unat (?items ! (?r p div 512)) div 512 \<le> ?g" using e(2) by (rule div_le_mono)
    then have scan: "scan_groups0 a (word_of_nat (?r p)) (unat (?items ! (?r p div 512)) div 512) = ?g"
      by (rule scan_groups0_select [OF assms(1,3) g p])
    have find: "findGroupItems0 a (word_of_nat (?r p)) = ?g"
      using e(1,4,5) unfolding findGroupItems0_def Let_def shift9 nat_of
      by (simp only: not_le [symmetric] simp_thms if_False if_True scan)
    have "word_of_nat (?r p) + BaseValue200 (sa_BaseVals a ! ?g) - word_of_nat (?g * 512) =
        (word_of_nat (?r p) - (word_of_nat (512 * ?g) - word_of_nat (rank (item_bit a) (512 * ?g))) :: u32)"
      by (simp add: base_value [OF assms(1) g] algebra_simps)
    also have "\<dots> = word_of_nat (?r p - ?r (512 * ?g))"
      using rank_mono [of "512 * ?g" p "absent a"] by (simp only: absent_word of_nat_diff)
    finally have dist: "word_of_nat (?r p) + BaseValue200 (sa_BaseVals a ! ?g) - word_of_nat (?g * 512) =
        (word_of_nat (?r p - ?r (512 * ?g)) :: u32)" .
    note group_select [OF seen_as_items(2) assms(3) len(2,1) absent_block [OF assms(1) g] dist block_item0_pick]
    then show ?thesis
      using False g by (simp add: GetItem0_def Let_def index_fields [OF n] find)
  qed
qed

text \<open>
  C23. For an array whose base values and index tables agree with its bits, and whose runs of
  512 items each span fewer than ten groups, GetItem1 of the rank of a present position and
  GetItem0 of the rank of an absent one return the position.
\<close>

theorem GetItem_select:
  assumes "base_vals_ok a" "index_ok (sa_IndexToItem1 a) (item_bit a) a" "index_ok (sa_IndexToItem0 a) (absent a) a"
    and "p < 512 * length (sa_BaseVals a)" "p < 32 * length (sa_ItemBits a)"
  shows "if item_bit a p then GetItem1 a (word_of_nat (rank (item_bit a) p)) = Ret (word_of_nat p)
    else GetItem0 a (word_of_nat (rank (absent a) p)) = Ret (word_of_nat p)"
  using GetItem1_is_select [OF assms(1,2) _ assms(4)] GetItem0_is_select [OF assms(1,3) _ assms(5,4)] by simp

section \<open>Samples\<close>

definition five_array :: sparseArray where
  "five_array = \<lparr>sa_ItemBits = [5],
     sa_BaseVals = [\<lparr>BaseValue200 = 0, AddValue40 = 2, AddValue80 = 2, AddValueC0 = 2, AddValue100 = 2,
        AddValue140 = 2, AddValue180 = 2, AddValue1C0 = 2\<rparr>],
     sa_IndexToItem0 = [1, 0x200], sa_IndexToItem1 = [0, 0x200], sa_TotalItemCount = 32, sa_ValidItemCount = 2\<rparr>"

lemma five_fields [simp]:
  "sa_ItemBits five_array = [5]" "sa_IndexToItem0 five_array = [1, 0x200]" "sa_IndexToItem1 five_array = [0, 0x200]"
  "length (sa_BaseVals five_array) = 1"
  by (simp_all add: five_array_def)

lemma five_bits: "item_bit five_array j \<longleftrightarrow> j = 0 \<or> j = 2"
proof -
  have "list_all (\<lambda>r. bit (5 :: u32) r \<longleftrightarrow> r = 0 \<or> r = 2) [0..<32]" by code_simp
  then have "bit (5 :: u32) r \<longleftrightarrow> r = 0 \<or> r = 2" if "r < 32" for r using that by (simp only: list_all_iff) simp
  then show ?thesis by (cases "j < 32") (auto simp: item_bit_def div_less)
qed

lemma five_rank: "rank (item_bit five_array) 0 = 0" "rank (item_bit five_array) 1 = 1" "rank (item_bit five_array) 2 = 1"
  "3 \<le> n \<Longrightarrow> rank (item_bit five_array) n = 2"
proof -
  show "rank (item_bit five_array) 0 = 0" "rank (item_bit five_array) 1 = 1" "rank (item_bit five_array) 2 = 1"
    by (simp_all add: rank_def five_bits upt_rec)
  show "3 \<le> n \<Longrightarrow> rank (item_bit five_array) n = 2"
  proof (induction n rule: dec_induct)
    case base
    then show ?case by (simp add: numeral_3_eq_3 five_bits)
  next
    case (step n)
    then show ?case by (simp add: five_bits)
  qed
qed

lemma five_ok: "base_vals_ok five_array" "index_ok (sa_IndexToItem1 five_array) (item_bit five_array) five_array"
  "index_ok (sa_IndexToItem0 five_array) (absent five_array) five_array"
proof -
  have "block_add (sa_BaseVals five_array ! 0) (word_of_nat k) = 2" if "k < 7" for k
  proof -
    have "k = 0 \<or> k = 1 \<or> k = 2 \<or> k = 3 \<or> k = 4 \<or> k = 5 \<or> k = 6" using that by presburger
    then show ?thesis by (elim disjE) (simp_all add: block_add_numeral five_array_def)
  qed
  moreover have "BaseValue200 (sa_BaseVals five_array ! 0) = 0" by (simp add: five_array_def)
  ultimately show "base_vals_ok five_array" by (simp add: base_vals_ok_def five_rank)
  have g: "g = 0" if "512 * g < 32" for g :: nat using that by simp
  have r: "rank P (32 * length (sa_ItemBits five_array)) \<le> 32" for P using rank_le [of P 32] by simp
  have zero: "\<forall>g. 512 * g < rank P (32 * length (sa_ItemBits five_array)) \<longrightarrow> Q g" if "Q 0" for P Q
    using r [of P] g that by (metis less_le_trans)
  show "index_ok (sa_IndexToItem1 five_array) (item_bit five_array) five_array"
    "index_ok (sa_IndexToItem0 five_array) (absent five_array) five_array"
    unfolding index_ok_def by (rule zero; simp add: five_bits five_rank rank_not shift9)+
qed

theorem GetItemValueAt_rank_witness: "GetItemValueAt five_array 17 = 2"
  using GetItemValueAt_rank [OF five_ok(1), of 17] by (simp add: five_rank)

theorem GetItem_select_witness: "GetItem1 five_array 1 = Ret 2 \<and> GetItem0 five_array 5 = Ret 7"
proof -
  have "word_of_nat (rank (item_bit five_array) 2) = (1 :: u32)" "word_of_nat (rank (absent five_array) 7) = (5 :: u32)"
    by (simp_all add: five_rank rank_not)
  then show ?thesis
    using GetItem_select [OF five_ok, of 2] GetItem_select [OF five_ok, of 7] by (simp add: five_bits)
qed

section \<open>A select that goes wrong\<close>

text \<open>Twelve groups with 32 items each, at the start of the group.\<close>

definition far_array :: sparseArray where
  "far_array = \<lparr>sa_ItemBits = concat (replicate 12 (0xFFFFFFFF # replicate 15 0)),
     sa_BaseVals = map (\<lambda>g. \<lparr>BaseValue200 = word_of_nat (32 * g), AddValue40 = 32, AddValue80 = 32, AddValueC0 = 32,
        AddValue100 = 32, AddValue140 = 32, AddValue180 = 32, AddValue1C0 = 32\<rparr>) [0..<12],
     sa_IndexToItem0 = map (\<lambda>g. word_of_nat (512 * g + 32 * (g + 1))) [0..<13],
     sa_IndexToItem1 = [0, 0x1800], sa_TotalItemCount = 0x1800, sa_ValidItemCount = 384\<rparr>"

lemma nth_concat_replicate: "i < n * length xs \<Longrightarrow> concat (replicate n xs) ! i = xs ! (i mod length xs)"
proof (induction n arbitrary: i)
  case (Suc n)
  then show ?case by (cases "i < length xs") (auto simp: nth_append le_mod_geq)
qed simp

lemma far_fields [simp]:
  "length (sa_ItemBits far_array) = 192" "length (sa_BaseVals far_array) = 12" "sa_IndexToItem1 far_array = [0, 0x1800]"
  by (simp_all add: far_array_def length_concat sum_list_replicate)

lemma far_word: "w < 192 \<Longrightarrow> sa_ItemBits far_array ! w = (if w mod 16 = 0 then 0xFFFFFFFF else 0)"
  using nth_concat_replicate [of w 12 "0xFFFFFFFF # replicate 15 0"]
  by (cases "w mod 16") (auto simp: far_array_def nth_Cons')

lemma next_group: "(Suc w + 15) div 16 = (w + 15) div 16 + (if w mod 16 = 0 then 1 else 0)"
proof -
  define b where "b = w mod 16"
  have w: "w = 16 * (w div 16) + b" and b: "b < 16" by (simp_all add: b_def)
  have "(16 * (w div 16) + b + 15) div 16 = w div 16 + (b + 15) div 16" by simp
  moreover have "(b + 15) div 16 = (if b = 0 then 0 else 1)" using b by (auto intro: div_nat_eqI)
  ultimately have "(w + 15) div 16 = w div 16 + (if b = 0 then 0 else 1)" using w by simp
  moreover have "(Suc w + 15) div 16 = w div 16 + 1" by simp
  ultimately show ?thesis by (simp add: b_def)
qed

lemma count_ones: "n \<le> 32 \<Longrightarrow> count_bits n 0xFFFFFFFF = n"
proof -
  assume "n \<le> 32"
  then have "count_bits n (mask 32) = n" by (induction n) (simp_all add: bit_mask_iff)
  then show ?thesis by (simp add: mask_eq_exp_minus_1)
qed

lemma far_rank_words: "w \<le> 192 \<Longrightarrow> rank (item_bit far_array) (32 * w) = 32 * ((w + 15) div 16)"
proof (induction w)
  case (Suc w)
  from count_ones [of 32]
  have c: "count_bits 32 (sa_ItemBits far_array ! w) = (if w mod 16 = 0 then 32 else 0)"
    using far_word [of w] Suc.prems by (simp add: count_bits_def)
  have "rank (item_bit far_array) (32 * Suc w) = rank (item_bit far_array) (32 * w) + (if w mod 16 = 0 then 32 else 0)"
    using rank_item_word [of 32 far_array w] Suc.prems by (simp add: c algebra_simps)
  also have "\<dots> = 32 * ((w + 15) div 16 + (if w mod 16 = 0 then 1 else 0))" using Suc by simp
  also have "(w + 15) div 16 + (if w mod 16 = 0 then 1 else 0) = (Suc w + 15) div 16" using next_group [of w] by simp
  finally show ?case .
qed simp

text \<open>
  C24. The search for the group of a present item takes one step where it needs a loop: on an
  array whose base values agree with its bits, position 520 is present and has rank 40, and
  GetItem1 of 40 panics.
\<close>

theorem GetItem1_far_panics:
  "base_vals_ok far_array \<and> item_bit far_array 520 \<and> rank (item_bit far_array) 520 = 40 \<and> GetItem1 far_array 40 = Panic"
proof -
  have base: "BaseValue200 (sa_BaseVals far_array ! g) = word_of_nat (32 * g)"
    "k < 7 \<Longrightarrow> block_add (sa_BaseVals far_array ! g) (word_of_nat k) = 32" if "g < 12" for g k
  proof -
    show "BaseValue200 (sa_BaseVals far_array ! g) = word_of_nat (32 * g)" using that by (simp add: far_array_def)
    assume "k < 7"
    then have "k = 0 \<or> k = 1 \<or> k = 2 \<or> k = 3 \<or> k = 4 \<or> k = 5 \<or> k = 6" by presburger
    then show "block_add (sa_BaseVals far_array ! g) (word_of_nat k) = 32"
      using that by (elim disjE) (simp_all add: block_add_numeral far_array_def)
  qed
  have r: "rank (item_bit far_array) (512 * g) = 32 * g" if "g < 12" for g
    using far_rank_words [of "16 * g"] that by simp
  have r': "rank (item_bit far_array) (512 * g + 64 * (k + 1)) = 32 * g + 32" if "g < 12" "k < 7" for g k
  proof -
    have "(2 * k + 17) div 16 = 1" using that(2) by (intro div_nat_eqI) simp_all
    moreover have "(16 * g + 2 * (k + 1) + 15) div 16 = g + (2 * k + 17) div 16" using div_mult_self3 [of 16 g "2 * k + 17"] by simp
    ultimately show ?thesis using far_rank_words [of "16 * g + 2 * (k + 1)"] that by (simp add: ac_simps)
  qed
  have "unat (word_of_nat (32 * g) :: u32) = 32 * g" if "g < 12" for g using that by (intro unat_word_of_nat) simp
  then have ok: "base_vals_ok far_array" using base r r' by (simp add: base_vals_ok_def del: of_nat_mult)
  have b: "bit (0xFFFFFFFF :: u32) j" if "j < 32" for j
    using that bit_mask_iff [of 32 j, where 'a = u32] by (simp add: mask_eq_exp_minus_1)
  then have bit: "item_bit far_array 520" by (simp add: item_bit_def far_word)
  have rank: "rank (item_bit far_array) 520 = 40"
    using count_ones [of 8] rank_item_word [of 8 far_array 16] far_rank_words [of 16] by (simp add: far_word)
  have "findGroupItems1 far_array 40 = 0" using base(1) [of 6] by (simp add: findGroupItems1_def)
  moreover have "block_item1 (sa_BaseVals far_array ! 0) 40 = (14, 8)" by (simp add: block_item1_def far_array_def)
  moreover have "at bitPos8Table 2048 = Panic" by (simp add: at_def bitPos8Table_def)
  ultimately have "GetItem1 far_array 40 = Panic"
    using base(1) [of 0] by (simp add: GetItem1_def Let_def block_words_def far_word setBitsAll_def word_item_def push_bit_eq_mult)
  then show ?thesis using ok bit rank by blast
qed

end
