(* ===== verification/MndxLouds.thy ===== *)
theory MndxLouds
  imports MndxTrie MndxRank
begin

text \<open>
  What the incremental search enumerates. The collision table of a name database is the level-order
  unary encoding of a tree: node \<open>v\<close> is the one-bit of number \<open>v\<close>, its children are the run of one-bits
  after the zero of number \<open>v\<close>. For a database whose tables are right and whose tree fits the step limit,
  \<^verbatim>\<open>enumerate\<close> gives the names of the tree in preorder.
\<close>

unbundle bit_operations_syntax

section \<open>Copying does the same from every state\<close>

definition advance :: "bytes \<Rightarrow> nat \<Rightarrow> mndxSearch \<Rightarrow> mndxSearch" where
  "advance bs k sr = push_path bs (sr\<lparr>ms_totalSteps := ms_totalSteps sr + k\<rparr>)"

lemma advance_simps [simp]:
  "advance [] 0 sr = sr" "push_path bs sr = advance bs 0 sr" "one_step sr = advance [] 1 sr"
  "advance bs' k' (advance bs k sr) = advance (bs @ bs') (k + k') sr"
  "ms_totalSteps (advance bs k sr) = ms_totalSteps sr + k"
  by (simp_all add: advance_def push_path_def one_step_def on_state_def ac_simps)

declare advance_simps(2,3) [simp del]

text \<open>\<open>f\<close> appends \<open>bs\<close> in \<open>k\<close> steps whenever the limit is not met on the way.\<close>

definition copies :: "(mndxSearch \<Rightarrow> mndxSearch outcome) \<Rightarrow> bytes \<Rightarrow> nat \<Rightarrow> bool" where
  "copies f bs k \<longleftrightarrow> (\<forall>sr. ms_totalSteps sr + k < maxTrieSteps \<longrightarrow> f sr = Ret (advance bs k sr))"

lemma copies_push: "copies (\<lambda>sr. Ret (push_path bs sr)) bs 0"
  by (simp add: copies_def advance_simps)

lemma copies_same: "copies Ret [] 0"
  by (simp add: copies_def)

lemma copies_seq:
  assumes "copies f bs k" "copies g bs' k'"
  shows "copies (\<lambda>sr. bnd (f sr) (\<lambda>sr'. g (one_step sr'))) (bs @ bs') (k + 1 + k')"
  using assms by (auto simp: copies_def advance_simps)

lemma copy_copies:
  assumes "copyPathFragmentByIndex d i sr = Ret sr'" "ms_totalSteps sr' < maxTrieSteps"
  shows "\<exists>bs k. sr' = advance bs k sr \<and> copies (copyPathFragmentByIndex d i) bs k"
  using assms
proof (induction d i sr arbitrary: sr' rule: copyPathFragmentByIndex.induct)
  case (1 d i sr)
  have lt: "\<not> maxTrieSteps \<le> ms_totalSteps sr" using copy_steps [OF "1.prems"(1)] "1.prems"(2) by simp
  note run = "1.prems"(1) [unfolded copyPathFragmentByIndex.simps [of d i sr]]
  obtain he where he: "hash_entry d i = Ret he" using run lt by (auto simp: bnd_eq_Ret)
  define part where "part = (\<lambda>t. if i = he_NextIndex he then
        (if IsSingleChar he then Ret (push_path [SingleChar he] t)
             else case db_ChildDB d of
               Some c \<Rightarrow> copyPathFragmentByIndex c (ChildTableIndex he) t
             | None \<Rightarrow> Ret (push_path (copyPathFragment (db_PathFragmentTable d) (he_FragmentOffset he)) t))
      else if isPathFragmentString d i then
               case db_ChildDB d of
                 Some c \<Rightarrow> copyPathFragmentByIndex c (getPathFragmentOffset1 d i) t
               | None \<Rightarrow> Ret (push_path (copyPathFragment (db_PathFragmentTable d) (getPathFragmentOffset1 d i)) t)
             else if unat i < length (db_LoBitsTable d) then Ret (push_path [lo_bits d i] t)
             else Ret t)"
  define rest where "rest = (if i = he_NextIndex he then (if he_NodeIndex he = 0 then None else Some (Ret (he_NodeIndex he)))
      else if i \<le> db_Field214 d then None
      else Some (bnd (GetItem1 (db_CollisionTable d) i) (\<lambda>item. Ret (0xFFFFFFFF - i + item))))"
  have loop: "copyPathFragmentByIndex d i t = bnd (part t) (\<lambda>t'. case rest of None \<Rightarrow> Ret t'
      | Some r \<Rightarrow> bnd r (\<lambda>j. copyPathFragmentByIndex d j (one_step t')))"
    if "ms_totalSteps t < maxTrieSteps" for t
    using that he by (subst copyPathFragmentByIndex.simps) (auto simp: part_def rest_def bnd_assoc)
  obtain sr1 where s1: "part sr = Ret sr1"
    and s2: "(case rest of None \<Rightarrow> Ret sr1 | Some r \<Rightarrow> bnd r (\<lambda>j. copyPathFragmentByIndex d j (one_step sr1))) = Ret sr'"
    using "1.prems"(1) loop [of sr] lt by (auto simp: bnd_eq_Ret)
  have "ms_totalSteps sr1 \<le> ms_totalSteps sr'"
    using s2 copy_steps by (fastforce simp: bnd_eq_Ret split: option.splits)
  then have lt1: "ms_totalSteps sr1 < maxTrieSteps" using "1.prems"(2) by simp
  have "\<exists>bs k. sr1 = advance bs k sr \<and> copies part bs k"
  proof (cases "i = he_NextIndex he")
    case True
    show ?thesis
      using s1 "1.IH"(1) [OF lt he True _ _ _ lt1] True
      by (cases "IsSingleChar he"; cases "db_ChildDB d") (auto simp: part_def advance_simps(2) copies_def)
  next
    case False
    note branch = s1 [unfolded part_def if_not_P [OF False]]
    show ?thesis
    proof (cases "isPathFragmentString d i")
      case True
      then show ?thesis
        using branch "1.IH"(3) [OF lt he False True _ _ lt1] False
        by (cases "db_ChildDB d") (auto simp: part_def advance_simps(2) copies_def)
    next
      case no: False
      show ?thesis
      proof (cases "unat i < length (db_LoBitsTable d)")
        case True
        then show ?thesis using branch no False by (auto simp: part_def advance_simps(2) copies_def)
      next
        case out: False
        then have "part = Ret" using no False by (auto simp: part_def)
        moreover have "sr1 = advance [] 0 sr" using branch no out by simp
        ultimately show ?thesis using copies_same by metis
      qed
    qed
  qed
  then obtain bs k where one: "sr1 = advance bs k sr" "copies part bs k" by blast
  show ?case
  proof (cases rest)
    case None
    then have "copies (copyPathFragmentByIndex d i) bs k" using one(2) loop by (auto simp: copies_def)
    then show ?thesis using s2 None one(1) by auto
  next
    case (Some r)
    then obtain j where j: "r = Ret j" "copyPathFragmentByIndex d j (one_step sr1) = Ret sr'"
      using s2 by (auto simp: bnd_eq_Ret)
    have "\<exists>bs2 k2. sr' = advance bs2 k2 (one_step sr1) \<and> copies (copyPathFragmentByIndex d j) bs2 k2"
    proof (cases "i = he_NextIndex he")
      case True
      then show ?thesis
        using "1.IH"(2) [OF lt he True s1 [unfolded part_def if_P [OF True]] _ _ "1.prems"(2)] Some j
        by (auto simp: rest_def split: if_splits)
    next
      case False
      then show ?thesis
        using "1.IH"(4) [OF lt he False s1 [unfolded part_def if_not_P [OF False]] _ _ _ "1.prems"(2)] Some j
        by (auto simp: rest_def bnd_eq_Ret split: if_splits)
    qed
    then obtain bs2 k2 where two: "sr' = advance bs2 k2 (one_step sr1)" "copies (copyPathFragmentByIndex d j) bs2 k2" by blast
    have "copies (copyPathFragmentByIndex d i) (bs @ bs2) (k + 1 + k2)"
      using copies_seq [OF one(2) two(2)] loop Some j(1) by (auto simp: copies_def)
    moreover have "sr' = advance (bs @ bs2) (k + 1 + k2) sr" by (simp add: two(1) one(1) advance_simps(3))
    ultimately show ?thesis by blast
  qed
qed

section \<open>The tree of a database\<close>

text \<open>The positions of the zeros of the collision table; node \<open>v\<close> has as children the nodes of \<open>kids\<close>.\<close>

definition zeros :: "sparseArray \<Rightarrow> nat list" where
  "zeros a = filter (absent a) [0..<32 * length (sa_ItemBits a)]"

definition zpos :: "fileNameDB \<Rightarrow> nat \<Rightarrow> nat" where
  "zpos d v = zeros (db_CollisionTable d) ! v"

definition first_kid :: "fileNameDB \<Rightarrow> nat \<Rightarrow> nat" where
  "first_kid d v = zpos d v - v"

definition last_kid :: "fileNameDB \<Rightarrow> nat \<Rightarrow> nat" where
  "last_kid d v = first_kid d (v + 1)"

lemma nth_filter_rank: "i < length (filter P [0..<m]) \<Longrightarrow>
    P (filter P [0..<m] ! i) \<and> rank P (filter P [0..<m] ! i) = i \<and> filter P [0..<m] ! i < m"
proof (induction m)
  case (Suc m)
  then show ?case by (cases "i < length (filter P [0..<m])") (auto simp: nth_append rank_def less_Suc_eq)
qed simp

lemma zpos_facts:
  assumes "v < length (zeros (db_CollisionTable d))"
  shows "absent (db_CollisionTable d) (zpos d v)" "rank (absent (db_CollisionTable d)) (zpos d v) = v"
    "zpos d v < 32 * length (sa_ItemBits (db_CollisionTable d))" "v \<le> zpos d v"
  using nth_filter_rank [of v "absent (db_CollisionTable d)"] assms rank_le [of "absent (db_CollisionTable d)" "zpos d v"]
  by (simp_all add: zpos_def zeros_def)

lemma zpos_less:
  assumes "v + 1 < length (zeros (db_CollisionTable d))"
  shows "zpos d v < zpos d (v + 1)"
  using rank_less_iff [of "absent (db_CollisionTable d)", OF zpos_facts(1) [of v d], of "zpos d (v + 1)"]
    zpos_facts(2) [of v d] zpos_facts(2) [OF assms] assms by simp

lemma between_zeros:
  assumes "v + 1 < length (zeros (db_CollisionTable d))" "zpos d v < j" "j < zpos d (v + 1)"
  shows "item_bit (db_CollisionTable d) j"
proof (rule ccontr)
  let ?P = "absent (db_CollisionTable d)"
  assume "\<not> item_bit (db_CollisionTable d) j"
  then have "rank ?P (zpos d v) < rank ?P j" "rank ?P j < rank ?P (zpos d (v + 1))"
    using rank_less_iff [of ?P, OF zpos_facts(1) [of v d], of j] rank_less_iff [of ?P j "zpos d (v + 1)"] assms by auto
  then show False using zpos_facts(2) [of v d] zpos_facts(2) [OF assms(1)] assms(1) by simp
qed

text \<open>What is appended for a node, and in how many steps: a run of the code from a fresh search.\<close>

definition label_run :: "fileNameDB \<Rightarrow> nat \<Rightarrow> (pathStop \<times> mndxSearch) outcome" where
  "label_run d u = append_node d (newPathStop (word_of_nat u) 0 0) (new_search [])"

definition label_ok :: "fileNameDB \<Rightarrow> nat \<Rightarrow> bool" where
  "label_ok d u \<longleftrightarrow> (case label_run d u of Ret r \<Rightarrow> ms_totalSteps (snd r) < maxTrieSteps | _ \<Rightarrow> False)"

definition label_of :: "fileNameDB \<Rightarrow> nat \<Rightarrow> bytes" where
  "label_of d u = (case label_run d u of Ret r \<Rightarrow> ss_PathBuffer (ms_state (snd r)) | _ \<Rightarrow> [])"

definition label_steps :: "fileNameDB \<Rightarrow> nat \<Rightarrow> nat" where
  "label_steps d u = (case label_run d u of Ret r \<Rightarrow> ms_totalSteps (snd r) | _ \<Rightarrow> 0)"

text \<open>
  The names below node \<open>v\<close>, whose own path is \<open>path\<close>, in preorder with their numbers, and the steps
  the search takes for them: those of the labels, one to come to a node without a name, one to leave it.
\<close>

definition is_name :: "fileNameDB \<Rightarrow> nat \<Rightarrow> bool" where
  "is_name d u = item_bit (db_FileNameIndexes d) u"

definition name_index :: "fileNameDB \<Rightarrow> nat \<Rightarrow> u32" where
  "name_index d u = word_of_nat (rank (is_name d) u)"

definition name_here :: "fileNameDB \<Rightarrow> nat \<Rightarrow> bytes \<Rightarrow> (bytes \<times> u32) list" where
  "name_here d u path = (if is_name d u then [(path, name_index d u)] else [])"

function names_below :: "fileNameDB \<Rightarrow> nat \<Rightarrow> nat \<Rightarrow> bytes \<Rightarrow> (bytes \<times> u32) list" where
  "names_below d n v path =
     (if v < n then
        concat (map (\<lambda>u. if v < u then name_here d u (path @ label_of d u) @ names_below d n u (path @ label_of d u) else [])
          [first_kid d v..<last_kid d v])
      else [])"
  by pat_completeness auto
termination by (relation "measure (\<lambda>(d, n, v, path). n - v)") auto

function steps_below :: "fileNameDB \<Rightarrow> nat \<Rightarrow> nat \<Rightarrow> nat" where
  "steps_below d n v =
     (if v < n then
        sum_list (map (\<lambda>u. if v < u then label_steps d u + of_bool (\<not> is_name d u) + steps_below d n u + 1 else 0)
          [first_kid d v..<last_kid d v])
      else 0)"
  by pat_completeness auto
termination by (relation "measure (\<lambda>(d, n, v). n - v)") auto

declare names_below.simps [simp del] steps_below.simps [simp del]

definition trie_names :: "fileNameDB \<Rightarrow> nat \<Rightarrow> (bytes \<times> u32) list" where
  "trie_names d n = name_here d 0 [] @ names_below d n 0 []"

text \<open>A database of \<open>n\<close> nodes whose tables are right.\<close>

definition rank_ok :: "sparseArray \<Rightarrow> bool" where
  "rank_ok a \<longleftrightarrow> base_vals_ok a \<and> length (sa_ItemBits a) \<le> 16 * length (sa_BaseVals a)"

definition trie_ok :: "fileNameDB \<Rightarrow> nat \<Rightarrow> bool" where
  "trie_ok d n \<longleftrightarrow>
     rank_ok (db_CollisionTable d) \<and> rank_ok (db_FileNameIndexes d) \<and> rank_ok (db_CollisionHiBitsIndexes d) \<and>
     index_ok (sa_IndexToItem0 (db_CollisionTable d)) (absent (db_CollisionTable d)) (db_CollisionTable d) \<and>
     0 < n \<and> n < length (zeros (db_CollisionTable d)) \<and> zpos d n \<le> 2 * n \<and>
     (\<forall>v<n. 2 * v < zpos d v) \<and> (\<forall>v<n. 0 < v \<longrightarrow> label_ok d v) \<and>
     sum_list (map (\<lambda>v. length (label_of d v)) [1..<n]) < 2 ^ 32"

section \<open>The state of a search\<close>

text \<open>
  A hint of a path stop is invalid or the number before that of the next node. The stops above the
  current level belong to the nodes of the path, \<open>vs\<close> from the last one up to the root; those from
  the current level on are where the search goes on, level by level.
\<close>

definition hint_ok :: "(nat \<Rightarrow> bool) \<Rightarrow> u32 \<Rightarrow> nat \<Rightarrow> bool" where
  "hint_ok P h u \<longleftrightarrow> h = invalidIndex \<or> h + 1 = word_of_nat (rank P u)"

definition hints_ok :: "fileNameDB \<Rightarrow> pathStop \<Rightarrow> nat \<Rightarrow> bool" where
  "hints_ok d ps u \<longleftrightarrow> hint_ok (item_bit (db_CollisionHiBitsIndexes d)) (ps_HiBitsIndexPathFragment ps) u \<and>
     hint_ok (is_name d) (ps_Field10 ps) u"

fun path_of :: "fileNameDB \<Rightarrow> nat list \<Rightarrow> bytes" where
  "path_of d (v # w # vs) = path_of d (w # vs) @ label_of d v"
| "path_of d _ = []"

fun above_ok :: "fileNameDB \<Rightarrow> nat \<Rightarrow> nat list \<Rightarrow> pathStop list \<Rightarrow> bool" where
  "above_ok d n [v] [ps] \<longleftrightarrow> v = 0 \<and> ps_Count ps = 0 \<and> ps_LoBitsIndex ps = 0"
| "above_ok d n (v # w # vs) (ps # ds) \<longleftrightarrow>
     v < n \<and> length vs + 2 \<le> v + 1 \<and> first_kid d w \<le> v \<and> v < last_kid d w \<and> w < v \<and>
     ps_LoBitsIndex ps = word_of_nat v \<and> ps_Field4 ps = word_of_nat (v + w + 2) \<and>
     ps_Count ps = word_of_nat (length (path_of d (v # w # vs))) \<and> hints_ok d ps (v + 1) \<and> above_ok d n (w # vs) ds"
| "above_ok d n _ _ \<longleftrightarrow> False"

fun below_ok :: "fileNameDB \<Rightarrow> nat \<Rightarrow> nat \<Rightarrow> pathStop list \<Rightarrow> bool" where
  "below_ok d v c [] \<longleftrightarrow> True"
| "below_ok d v c (ps # us) \<longleftrightarrow> ps_LoBitsIndex ps = word_of_nat c \<and> ps_Field4 ps = word_of_nat (c + v + 1) \<and>
     hints_ok d ps c \<and> below_ok d c (first_kid d c) us"

text \<open>The search is at the children of \<open>v\<close>, and \<open>c\<close> is the next one.\<close>

definition search_at :: "fileNameDB \<Rightarrow> nat \<Rightarrow> nat list \<Rightarrow> nat \<Rightarrow> mndxSearch \<Rightarrow> bool" where
  "search_at d n vs c sr \<longleftrightarrow>
     (let s = ms_state sr in
      ss_SearchPhase s = searchSearching \<and> ss_ItemCount s = word_of_nat (length vs) \<and> ss_PathBuffer s = path_of d vs \<and>
      (\<exists>ds us. ss_PathStops s = rev ds @ us \<and> above_ok d n vs ds \<and> below_ok d (hd vs) c us \<and>
         (us = [] \<longrightarrow> c = first_kid d (hd vs)) \<and> length us + length vs \<le> n + 1))"

section \<open>One step of the search\<close>

lemma trie_zpos:
  assumes "trie_ok d n" "v \<le> w" "w \<le> n"
  shows "zpos d v + (w - v) \<le> zpos d w"
  using assms(2,3)
proof (induction w rule: dec_induct)
  case (step w)
  then show ?case using zpos_less [of w d] assms(1) by (simp add: trie_ok_def)
qed simp

lemma kids:
  assumes "trie_ok d n" "v < n"
  shows "v < first_kid d v" "first_kid d v \<le> last_kid d v" "last_kid d v \<le> n" "last_kid d v + v + 1 = zpos d (v + 1)"
    "zpos d (v + 1) < 2 ^ 32" "first_kid d v + v = zpos d v" "n + 1 < 2 ^ 32"
proof -
  have z: "n < length (zeros (db_CollisionTable d))" "2 * v < zpos d v" "zpos d n \<le> 2 * n"
    "length (sa_ItemBits (db_CollisionTable d)) < 2 ^ 27"
    using assms by (simp_all add: trie_ok_def rank_ok_def base_vals_ok_def)
  have step: "zpos d v < zpos d (v + 1)" "zpos d (v + 1) + (n - (v + 1)) \<le> zpos d n"
    using trie_zpos [OF assms(1), of v "v + 1"] trie_zpos [OF assms(1), of "v + 1" n] assms(2) by simp_all
  show "v < first_kid d v" "first_kid d v \<le> last_kid d v" "last_kid d v \<le> n" "first_kid d v + v = zpos d v"
    "last_kid d v + v + 1 = zpos d (v + 1)"
    using z step assms(2) by (auto simp: first_kid_def last_kid_def)
  show "zpos d (v + 1) < 2 ^ 32" using zpos_facts(3) [of "v + 1" d] z(1,4) assms(2) by simp
  have "n - 1 < length (zeros (db_CollisionTable d))" using z(1) by simp
  then have "zpos d (n - 1) < 2 ^ 32" using zpos_facts(3) [of "n - 1" d] z(4) by simp
  moreover have "2 * (n - 1) < zpos d (n - 1)" using assms by (simp add: trie_ok_def)
  ultimately show "n + 1 < 2 ^ 32" by simp
qed

lemma kid_present:
  assumes "trie_ok d n" "v < n" "first_kid d v \<le> c" "c \<le> last_kid d v"
  shows "IsItemPresent (db_CollisionTable d) (word_of_nat (c + v + 1)) \<longleftrightarrow> c < last_kid d v"
proof -
  note k = kids [OF assms(1,2)]
  have len: "v + 1 < length (zeros (db_CollisionTable d))" "length (sa_ItemBits (db_CollisionTable d)) < 2 ^ 32"
    using assms(1,2) by (simp_all add: trie_ok_def rank_ok_def base_vals_ok_def)
  have "unat (word_of_nat (c + v + 1) :: u32) = c + v + 1"
    using k(4,5) assms(4) by (intro unat_word_of_nat) simp
  then have "IsItemPresent (db_CollisionTable d) (word_of_nat (c + v + 1)) \<longleftrightarrow> item_bit (db_CollisionTable d) (c + v + 1)"
    using IsItemPresent_bit [OF len(2), of "word_of_nat (c + v + 1)"] by simp
  also have "\<dots> \<longleftrightarrow> c < last_kid d v"
  proof (cases "c < last_kid d v")
    case True
    then show ?thesis using between_zeros [OF len(1), of "c + v + 1"] k(4,6) assms(3) by simp
  next
    case False
    then have "c + v + 1 = zpos d (v + 1)" using k(4) assms(4) by simp
    then show ?thesis using zpos_facts(1) [OF len(1)] False by (simp only:)
  qed
  finally show ?thesis .
qed

lemma ranked:
  assumes "rank_ok a" "u < 2 ^ 32" "item_bit a u"
  shows "GetItemValueAt a (word_of_nat u) = word_of_nat (rank (item_bit a) u)"
proof -
  have u: "unat (word_of_nat u :: u32) = u" using assms(2) by (intro unat_word_of_nat) simp
  have "u div 32 < 16 * length (sa_BaseVals a)" using assms(1,3) by (simp add: rank_ok_def item_bit_def)
  then have "u < 512 * length (sa_BaseVals a)" by (simp add: div_less_iff_less_mult)
  then show ?thesis using GetItemValueAt_is_rank [of a "word_of_nat u"] assms(1) by (simp only: u rank_ok_def)
qed

lemma present:
  assumes "rank_ok a" "u < 2 ^ 32"
  shows "IsItemPresent a (word_of_nat u) \<longleftrightarrow> item_bit a u"
proof -
  have "unat (word_of_nat u :: u32) = u" using assms(2) by (intro unat_word_of_nat) simp
  then show ?thesis using IsItemPresent_bit [of a "word_of_nat u"] assms(1) by (simp add: rank_ok_def base_vals_ok_def)
qed

lemma hint_next:
  assumes "hint_ok P h u"
  shows "\<not> P u \<Longrightarrow> hint_ok P h (u + 1)" "P u \<Longrightarrow> hint_ok P (word_of_nat (rank P u)) (u + 1)"
  using assms by (auto simp: hint_ok_def)

lemma offset2:
  assumes "rank_ok (db_CollisionHiBitsIndexes d)" "u < 2 ^ 32" "item_bit (db_CollisionHiBitsIndexes d) u"
    and "hint_ok (item_bit (db_CollisionHiBitsIndexes d)) h u"
  shows "getPathFragmentOffset2 d h (word_of_nat u) = getPathFragmentOffset2 d invalidIndex (word_of_nat u)"
    "fst (getPathFragmentOffset2 d h (word_of_nat u)) = word_of_nat (rank (item_bit (db_CollisionHiBitsIndexes d)) u)"
  using assms(4) ranked [OF assms(1-3)] by (auto simp: getPathFragmentOffset2_def hint_ok_def Let_def)

lemma append_label:
  assumes "rank_ok (db_CollisionHiBitsIndexes d)" "u < 2 ^ 32" "label_ok d u" "ps_LoBitsIndex ps = word_of_nat u"
    and "hint_ok (item_bit (db_CollisionHiBitsIndexes d)) (ps_HiBitsIndexPathFragment ps) u"
    and "ms_totalSteps sr + label_steps d u < maxTrieSteps"
  shows "\<exists>h. append_node d ps sr = Ret (ps\<lparr>ps_HiBitsIndexPathFragment := h\<rparr>, advance (label_of d u) (label_steps d u) sr) \<and>
    hint_ok (item_bit (db_CollisionHiBitsIndexes d)) h (u + 1)"
proof -
  let ?H = "db_CollisionHiBitsIndexes d" and ?h = "ps_HiBitsIndexPathFragment ps" and ?u = "word_of_nat u :: u32"
  define fragOff where "fragOff = snd (getPathFragmentOffset2 d invalidIndex ?u)"
  obtain ps0 sr0 where run: "label_run d u = Ret (ps0, sr0)" "ms_totalSteps sr0 < maxTrieSteps"
    using assms(3) by (auto simp: label_ok_def split: outcome.splits)
  have label: "label_of d u = ss_PathBuffer (ms_state sr0)" "label_steps d u = ms_totalSteps sr0"
    using run by (simp_all add: label_of_def label_steps_def)
  have fresh: "ss_PathBuffer (ms_state (advance bs k (new_search []))) = bs" "ms_totalSteps (advance bs k (new_search [])) = k" for bs k
    by (simp_all add: advance_def push_path_def on_state_def new_search_def)
  show ?thesis
  proof (cases "item_bit ?H u")
    case True
    then have str: "isPathFragmentString d ?u" using present [OF assms(1,2)] by (simp add: isPathFragmentString_def)
    note off = offset2 [OF assms(1,2) True assms(5)]
    define copy where "copy = (\<lambda>t. case db_ChildDB d of Some c \<Rightarrow> copyPathFragmentByIndex c fragOff t
      | None \<Rightarrow> Ret (push_path (copyPathFragment (db_PathFragmentTable d) fragOff) t))"
    have app: "append_node d ps' t = bnd (copy t) (\<lambda>t. Ret (ps'\<lparr>ps_HiBitsIndexPathFragment := word_of_nat (rank (item_bit ?H) u)\<rparr>, t))"
      if "ps_LoBitsIndex ps' = ?u" "hint_ok (item_bit ?H) (ps_HiBitsIndexPathFragment ps') u" for ps' t
      using offset2 [OF assms(1,2) True that(2)] that(1) str
      by (cases "getPathFragmentOffset2 d invalidIndex ?u") (simp add: append_node_def Let_def copy_def fragOff_def split: option.split)
    have "hint_ok (item_bit ?H) invalidIndex u" by (simp add: hint_ok_def)
    then have "copy (new_search []) = Ret sr0"
      using run(1) app [of "newPathStop ?u 0 0"] by (auto simp: label_run_def newPathStop_def bnd_eq_Ret)
    then have "\<exists>bs k. sr0 = advance bs k (new_search []) \<and> copies copy bs k"
      using copy_copies [OF _ run(2)] by (cases "db_ChildDB d") (auto simp: copy_def copies_def advance_simps(2))
    then have "copies copy (label_of d u) (label_steps d u)" using label fresh by auto
    then have "copy sr = Ret (advance (label_of d u) (label_steps d u) sr)" using assms(6) by (simp add: copies_def)
    then show ?thesis using app [OF assms(4,5)] hint_next(2) [OF assms(5) True] by auto
  next
    case False
    then have str: "\<not> isPathFragmentString d ?u" using present [OF assms(1,2)] by (simp add: isPathFragmentString_def)
    let ?bs = "if u < length (db_LoBitsTable d) then [lo_bits d ?u] else []"
    have u: "unat ?u = u" using assms(2) by (intro unat_word_of_nat) simp
    have app: "append_node d ps' t = Ret (ps', advance ?bs 0 t)" if "ps_LoBitsIndex ps' = ?u" for ps' t
      using that str by (simp add: append_node_def Let_def u advance_simps(2))
    have "sr0 = advance ?bs 0 (new_search [])" using run(1) app [of "newPathStop ?u 0 0"] by (simp add: label_run_def newPathStop_def)
    then have "label_of d u = ?bs" "label_steps d u = 0" using label fresh by simp_all
    then show ?thesis
      using app [OF assms(4), of sr] hint_next(1) [OF assms(5) False] by (intro exI [of _ ?h]) simp
  qed
qed

lemma above_facts:
  assumes "above_ok d n vs ds" "trie_ok d n"
  shows "length ds = length vs" "vs \<noteq> []" "length vs \<le> hd vs + 1" "hd vs < n" "ps_LoBitsIndex (hd ds) = word_of_nat (hd vs)"
proof -
  have "0 < n" using assms(2) by (simp add: trie_ok_def)
  then show "length ds = length vs" "vs \<noteq> []" "length vs \<le> hd vs + 1" "hd vs < n" "ps_LoBitsIndex (hd ds) = word_of_nat (hd vs)"
    using assms(1) by (induction d n vs ds rule: above_ok.induct) auto
qed

lemma GetItem0_zpos:
  assumes "trie_ok d n" "v < n"
  shows "GetItem0 (db_CollisionTable d) (word_of_nat v) = Ret (word_of_nat (zpos d v))"
proof -
  let ?a = "db_CollisionTable d"
  have v: "v < length (zeros ?a)" and ok: "rank_ok ?a" "index_ok (sa_IndexToItem0 ?a) (absent ?a) ?a"
    using assms by (simp_all add: trie_ok_def)
  have "zpos d v < 512 * length (sa_BaseVals ?a)" using zpos_facts(3) [OF v] ok(1) by (simp add: rank_ok_def)
  then show ?thesis
    using GetItem0_is_select [of ?a, OF _ ok(2) zpos_facts(1,3) [OF v]] ok(1) by (simp add: zpos_facts(2) [OF v] rank_ok_def)
qed

lemma grown:
  assumes "trie_ok d n" "search_at d n vs c sr"
  obtains ds ps us where "grow_stops d (ms_state sr) = Ret (ms_state sr\<lparr>ss_PathStops := rev ds @ ps # us\<rparr>)"
    "above_ok d n vs ds" "below_ok d (hd vs) c (ps # us)" "length us + length vs \<le> n"
proof -
  obtain ds us where at: "ss_PathStops (ms_state sr) = rev ds @ us" "above_ok d n vs ds" "below_ok d (hd vs) c us"
      "us = [] \<Longrightarrow> c = first_kid d (hd vs)" "length us + length vs \<le> n + 1"
    and k: "ss_ItemCount (ms_state sr) = word_of_nat (length vs)"
    using assms(2) by (auto simp: search_at_def Let_def)
  note a = above_facts [OF at(2) assms(1)]
  note n = kids(7) [OF assms(1) a(4)]
  show ?thesis
  proof (cases us)
    case Nil
    let ?v = "hd vs"
    have v: "?v \<le> zpos d ?v" "first_kid d ?v + ?v = zpos d ?v" using kids(1,6) [OF assms(1) a(4)] by simp_all
    have "at (rev (rev ds)) 0 = Ret (hd ds)" using a(1,2) by (cases ds) (auto simp: at_def)
    moreover have "word_of_nat (zpos d ?v) - word_of_nat ?v = (word_of_nat (first_kid d ?v) :: u32)"
      using v(1) by (simp add: first_kid_def of_nat_diff)
    ultimately have "grow_stops d (ms_state sr) = Ret (ms_state sr\<lparr>ss_PathStops := rev ds @
        [newPathStop (word_of_nat (first_kid d ?v)) (word_of_nat (zpos d ?v) + 1) 0]\<rparr>)"
      using at(1) Nil k a(1,5) GetItem0_zpos [OF assms(1) a(4)] by (simp add: grow_stops_def Let_def)
    then show ?thesis
      using that [of ds "newPathStop (word_of_nat (first_kid d ?v)) (word_of_nat (zpos d ?v) + 1) 0" "[]"] at(2,4) Nil a(3,4) v(2)
      by (simp add: newPathStop_def hints_ok_def hint_ok_def add.commute flip: v(2))
  next
    case (Cons ps us')
    have "(word_of_nat (length vs) :: u32) \<noteq> word_of_nat (length vs + length us)"
    proof
      assume "(word_of_nat (length vs) :: u32) = word_of_nat (length vs + length us)"
      then have "unat (word_of_nat (length vs) :: u32) = unat (word_of_nat (length vs + length us) :: u32)" by (rule arg_cong)
      moreover have "unat (word_of_nat (length vs) :: u32) = length vs" "unat (word_of_nat (length vs + length us) :: u32) = length vs + length us"
        using at(5) n by (simp_all only: unat_of_nat) (simp_all add: mod_less)
      ultimately show False using Cons by simp
    qed
    then have "grow_stops d (ms_state sr) = Ret (ms_state sr)" using at(1) a(1) k by (simp add: grow_stops_def Let_def)
    moreover have "ms_state sr = ms_state sr\<lparr>ss_PathStops := rev ds @ ps # us'\<rparr>" using at(1) Cons by simp
    ultimately show ?thesis using that [of ds ps us'] at(2,3,5) Cons by simp
  qed
qed

lemma stop_update: "length ds = k \<Longrightarrow> (rev ds @ ps # us)[k := q] = rev (q # ds) @ us" "length ds = k \<Longrightarrow> (rev ds @ ps # us) ! k = ps"
  by (auto simp: list_update_append nth_append)

lemma next_index:
  assumes "rank_ok (db_FileNameIndexes d)" "u < 2 ^ 32" "is_name d u" "ps_LoBitsIndex ps = word_of_nat u" "hint_ok (is_name d) (ps_Field10 ps) u"
  shows "next_index_of d ps = name_index d u"
proof -
  have "is_name d = item_bit (db_FileNameIndexes d)" by (rule ext) (simp add: is_name_def)
  then show ?thesis
    using assms(3-5) ranked [OF assms(1,2)] by (auto simp: next_index_of_def name_index_def hint_ok_def invalidIndex_def)
qed

lemma state_simps [simp]:
  "ms_state (set_stop k ps sr) = (ms_state sr)\<lparr>ss_PathStops := (ss_PathStops (ms_state sr))[unat k := ps]\<rparr>"
  "ms_state (set_count j sr) = (ms_state sr)\<lparr>ss_ItemCount := j\<rparr>"
  "ms_state (advance bs m sr) = (ms_state sr)\<lparr>ss_PathBuffer := ss_PathBuffer (ms_state sr) @ bs\<rparr>"
  "ms_state (on_state f sr) = f (ms_state sr)" "ms_state (one_step sr) = ms_state sr" "ms_state (report i sr) = ms_state sr"
  "ms_totalSteps (report i sr) = ms_totalSteps sr" "ms_foundIndex (report i sr) = i"
  "ms_foundPath (report i sr) = ss_PathBuffer (ms_state sr)"
  by (simp_all add: set_stop_def set_count_def advance_def push_path_def on_state_def one_step_def report_def)

lemma search_loop_down:
  assumes "\<not> maxTrieSteps \<le> ms_totalSteps sr" "grow_stops d (ms_state sr) = Ret st"
    and "ss_ItemCount st = k" "at (ss_PathStops st) (unat k) = Ret ps" "IsItemPresent (db_CollisionTable d) (ps_Field4 ps)"
    and "append_node d (ps\<lparr>ps_Field4 := ps_Field4 ps + 1\<rparr>)
      (set_count (k + 1) (set_stop k (ps\<lparr>ps_Field4 := ps_Field4 ps + 1\<rparr>) (on_state (\<lambda>_. st) sr))) = Ret (ps1, sr2)"
    and "ps2 = ps1\<lparr>ps_Count := word_of_nat (length (ss_PathBuffer (ms_state sr2)))\<rparr>"
  shows "search_loop d sr = (if IsItemPresent (db_FileNameIndexes d) (ps_LoBitsIndex ps2)
      then Ret (True, report (next_index_of d ps2) (set_stop k (ps2\<lparr>ps_Field10 := next_index_of d ps2\<rparr>) sr2))
      else search_loop d (one_step (set_stop k ps2 sr2)))"
  using assms by (subst search_loop.simps) (simp add: Let_def)

lemma step_down:
  assumes "trie_ok d n" "search_at d n (v # vs) c sr" "first_kid d v \<le> c" "c < last_kid d v"
    and "length (path_of d (c # v # vs)) < 2 ^ 32" "ms_totalSteps sr + label_steps d c < maxTrieSteps"
  shows "\<exists>sr1. search_at d n (c # v # vs) (first_kid d c) sr1 \<and>
    ms_totalSteps sr1 = ms_totalSteps sr + label_steps d c + of_bool (\<not> is_name d c) \<and>
    search_loop d sr = (if is_name d c then Ret (True, sr1) else search_loop d sr1) \<and>
    (is_name d c \<longrightarrow> ms_foundPath sr1 = path_of d (c # v # vs) \<and> ms_foundIndex sr1 = name_index d c)"
proof -
  define k where "k = (word_of_nat (length (v # vs)) :: u32)"
  obtain ds ps us where g: "grow_stops d (ms_state sr) = Ret (ms_state sr\<lparr>ss_PathStops := rev ds @ ps # us\<rparr>)"
      "above_ok d n (v # vs) ds" "below_ok d v c (ps # us)" "length us + length (v # vs) \<le> n"
    using grown [OF assms(1,2)] by (metis list.sel(1))
  note a = above_facts [OF g(2) assms(1)]
  have v: "v < n" using a(4) by simp
  note kv = kids [OF assms(1) v]
  have c: "c < n" "v < c" using kv(1,3) assms(3,4) by simp_all
  have small: "length (v # vs) < 2 ^ 32" "c < 2 ^ 32" "unat k = length (v # vs)"
    using a(3) v kv(7) c unfolding k_def by (simp_all only: unat_of_nat) (simp_all add: mod_less)
  have len: "length ds = unat k" using a(1) small(3) by simp
  have st: "ss_SearchPhase (ms_state sr) = searchSearching" "ss_ItemCount (ms_state sr) = k"
    "ss_PathBuffer (ms_state sr) = path_of d (v # vs)"
    using assms(2) unfolding k_def by (simp_all only: search_at_def Let_def)
  have ok: "rank_ok (db_CollisionHiBitsIndexes d)" "rank_ok (db_FileNameIndexes d)" "label_ok d c"
    using assms(1) c by (simp_all add: trie_ok_def)
  define ps' where "ps' = ps\<lparr>ps_Field4 := ps_Field4 ps + 1\<rparr>"
  have ps: "ps_LoBitsIndex ps = word_of_nat c" "ps_Field4 ps = word_of_nat (c + v + 1)" "hints_ok d ps c"
    and us: "below_ok d c (first_kid d c) us" using g(3) by simp_all
  define sr1 where "sr1 = set_count (k + 1) (set_stop k ps' (on_state (\<lambda>_. ms_state sr\<lparr>ss_PathStops := rev ds @ ps # us\<rparr>) sr))"
  have "ms_totalSteps sr1 = ms_totalSteps sr" by (simp add: sr1_def)
  then obtain h where h: "append_node d ps' sr1 = Ret (ps'\<lparr>ps_HiBitsIndexPathFragment := h\<rparr>, advance (label_of d c) (label_steps d c) sr1)"
      "hint_ok (item_bit (db_CollisionHiBitsIndexes d)) h (c + 1)"
    using append_label [OF ok(1) small(2) ok(3), of ps' sr1] ps assms(6) by (auto simp: ps'_def hints_ok_def)
  define sr2 where "sr2 = advance (label_of d c) (label_steps d c) sr1"
  define ps1 where "ps1 = ps'\<lparr>ps_HiBitsIndexPathFragment := h, ps_Count := word_of_nat (length (path_of d (c # v # vs)))\<rparr>"
  have stop: "at (rev ds @ ps # us) (unat k) = Ret ps" using stop_update(2) [OF len] by (simp add: at_def len)
  have here: "IsItemPresent (db_CollisionTable d) (ps_Field4 ps)"
    using kid_present [OF assms(1) v assms(3)] assms(4) ps(2) by simp
  have name: "IsItemPresent (db_FileNameIndexes d) (ps_LoBitsIndex ps1) \<longleftrightarrow> is_name d c"
    using present [OF ok(2) small(2)] ps(1) by (simp add: ps1_def ps'_def is_name_def)
  have buffer: "ss_PathBuffer (ms_state sr2) = path_of d (c # v # vs)" by (simp add: sr2_def sr1_def st(3))
  have limit: "\<not> maxTrieSteps \<le> ms_totalSteps sr" using assms(6) by simp
  define idx where "idx = next_index_of d ps1"
  define sr3 where "sr3 = (if is_name d c then report idx (set_stop k (ps1\<lparr>ps_Field10 := idx\<rparr>) sr2) else one_step (set_stop k ps1 sr2))"
  have "search_loop d sr = (if IsItemPresent (db_FileNameIndexes d) (ps_LoBitsIndex ps1)
      then Ret (True, report (next_index_of d ps1) (set_stop k (ps1\<lparr>ps_Field10 := next_index_of d ps1\<rparr>) sr2))
      else search_loop d (one_step (set_stop k ps1 sr2)))"
    using h(1) buffer unfolding sr1_def sr2_def ps'_def ps1_def
    by (intro search_loop_down [OF limit g(1)]) (simp_all add: st(2) stop here)
  then have "search_loop d sr = (if is_name d c then Ret (True, sr3) else search_loop d sr3)"
    by (simp only: name sr3_def idx_def if_cancel split: if_split) simp
  moreover have "ms_totalSteps sr3 = ms_totalSteps sr + label_steps d c + of_bool (\<not> is_name d c)"
    by (simp add: sr3_def sr2_def sr1_def)
  moreover have "idx = name_index d c" if "is_name d c"
    unfolding idx_def using ps by (intro next_index [OF ok(2) small(2) that]) (simp_all add: ps1_def ps'_def hints_ok_def)
  moreover have "search_at d n (c # v # vs) (first_kid d c) sr3"
  proof -
    define q where "q = (if is_name d c then ps1\<lparr>ps_Field10 := idx\<rparr> else ps1)"
    have stops: "ss_PathStops (ms_state sr3) = rev (q # ds) @ us"
      by (simp add: sr3_def sr2_def sr1_def q_def stop_update(1) [OF len])
    have "hint_ok (is_name d) (ps_Field10 q) (c + 1)"
      using hint_next [of "is_name d" "ps_Field10 ps" c] ps(3) calculation(3)
      by (auto simp: q_def ps1_def ps'_def hints_ok_def name_index_def)
    then have "above_ok d n (c # v # vs) (q # ds)"
      using c a(3) assms(3,4) ps h(2) g(2) by (simp add: q_def ps1_def ps'_def hints_ok_def add.commute)
    moreover have "ss_SearchPhase (ms_state sr3) = searchSearching" "ss_ItemCount (ms_state sr3) = k + 1"
      "ss_PathBuffer (ms_state sr3) = path_of d (c # v # vs)"
      using st(1) buffer by (simp_all add: sr3_def sr2_def sr1_def)
    moreover have "k + 1 = word_of_nat (length (c # v # vs))" by (simp add: k_def)
    ultimately show ?thesis
      using stops us g(4) unfolding search_at_def Let_def by (intro conjI exI [of _ "q # ds"] exI [of _ us]) simp_all
  qed
  ultimately show ?thesis using buffer by (intro exI [of _ sr3]) (auto simp: sr3_def)
qed

lemma search_loop_up:
  assumes "\<not> maxTrieSteps \<le> ms_totalSteps sr" "grow_stops d (ms_state sr) = Ret st"
    and "ss_ItemCount st = k" "at (ss_PathStops st) (unat k) = Ret ps" "\<not> IsItemPresent (db_CollisionTable d) (ps_Field4 ps)"
  shows "search_loop d sr = (let sr1 = set_stop k (ps\<lparr>ps_Field4 := ps_Field4 ps + 1\<rparr>) (on_state (\<lambda>_. st) sr) in
      if k = 1 then Ret (False, set_phase searchFinished sr1)
      else bnd (leave_node sr1) (\<lambda>sr2. search_loop d (one_step sr2)))"
  using assms by (subst search_loop.simps) (simp add: Let_def)

lemma stop_parents:
  "length ds = k \<Longrightarrow> (rev (q # ds) @ us) ! k = q" "length ds = k \<Longrightarrow> (rev (q # ds) @ us)[k := q'] = rev ds @ q' # us"
  "length ds = k \<Longrightarrow> (rev (p # q # ds) @ us) ! k = q"
  by (auto simp: list_update_append nth_append)

lemma above_count: "above_ok d n vs ds \<Longrightarrow> ds \<noteq> [] \<and> vs \<noteq> [] \<and> ps_Count (hd ds) = word_of_nat (length (path_of d vs))"
  by (induction d n vs ds rule: above_ok.induct) auto

lemma step_up:
  assumes "trie_ok d n" "search_at d n (c # v # vs) (last_kid d c) sr"
    and "length (path_of d (v # vs)) < 2 ^ 32" "ms_totalSteps sr < maxTrieSteps"
  shows "\<exists>sr1. search_at d n (v # vs) (c + 1) sr1 \<and> ms_totalSteps sr1 = ms_totalSteps sr + 1 \<and> search_loop d sr = search_loop d sr1"
proof -
  define j where "j = length vs"
  obtain ds0 ps us where g: "grow_stops d (ms_state sr) = Ret (ms_state sr\<lparr>ss_PathStops := rev ds0 @ ps # us\<rparr>)"
      "above_ok d n (c # v # vs) ds0" "below_ok d c (last_kid d c) (ps # us)" "length us + length (c # v # vs) \<le> n"
    using grown [OF assms(1,2)] by (metis list.sel(1))
  note a = above_facts [OF g(2) assms(1)]
  obtain q ds1 where ds0: "ds0 = q # ds1" using a(1) by (cases ds0) auto
  then have q: "ps_LoBitsIndex q = word_of_nat c" "ps_Field4 q = word_of_nat (c + v + 2)" "hints_ok d q (c + 1)"
    and above: "above_ok d n (v # vs) ds1" using g(2) by simp_all
  obtain q2 ds where ds1: "ds1 = q2 # ds" using above_count [OF above] by (cases ds1) auto
  then have q2: "ps_Count q2 = word_of_nat (length (path_of d (v # vs)))" using above_count [OF above] by simp
  have c: "c < n" using a(4) by simp
  have len: "length ds = j" using a(1) by (simp add: ds0 ds1 j_def)
  define k where "k = (word_of_nat (j + 2) :: u32)"
  have "j + 2 < 2 ^ 32" using a(3) c kids(7) [OF assms(1) c] by (simp add: j_def)
  then have small: "unat k = j + 2" "unat (k - 1) = j + 1" "unat (k - 2) = j" "k \<noteq> 1"
  proof -
    assume *: "j + 2 < 2 ^ 32"
    have "k - 1 = word_of_nat (j + 1)" "k - 2 = word_of_nat j" by (simp_all add: k_def)
    then show "unat k = j + 2" "unat (k - 1) = j + 1" "unat (k - 2) = j"
      using * by (simp_all only: k_def unat_of_nat) (simp_all add: mod_less)
    then show "k \<noteq> 1" by auto
  qed
  have st: "ss_SearchPhase (ms_state sr) = searchSearching" "ss_ItemCount (ms_state sr) = k"
    "ss_PathBuffer (ms_state sr) = path_of d (c # v # vs)"
    using assms(2) by (simp_all add: search_at_def Let_def k_def j_def)
  define ps' where "ps' = ps\<lparr>ps_Field4 := ps_Field4 ps + 1\<rparr>"
  define q' where "q' = q\<lparr>ps_LoBitsIndex := ps_LoBitsIndex q + 1\<rparr>"
  have ps: "ps_LoBitsIndex ps = word_of_nat (last_kid d c)" "ps_Field4 ps = word_of_nat (last_kid d c + c + 1)" "hints_ok d ps (last_kid d c)"
    and us: "below_ok d (last_kid d c) (first_kid d (last_kid d c)) us" using g(3) by simp_all
  define sr1 where "sr1 = set_stop k ps' (on_state (\<lambda>_. ms_state sr\<lparr>ss_PathStops := rev ds0 @ ps # us\<rparr>) sr)"
  have len0: "length ds0 = unat k" using len by (simp add: ds0 ds1 small)
  have stop: "at (rev ds0 @ ps # us) (unat k) = Ret ps" using stop_update(2) [OF len0] by (simp add: at_def len0)
  have gone: "\<not> IsItemPresent (db_CollisionTable d) (ps_Field4 ps)"
    using kid_present [OF assms(1) c, of "last_kid d c"] kids(2) [OF assms(1) c] ps(2) by simp
  have stops: "ss_PathStops (ms_state sr1) = rev (q # q2 # ds) @ ps' # us"
    using stop_update(1) [OF len0] by (simp add: sr1_def ds0 ds1)
  have len1: "length (q2 # ds) = j + 1" using len by simp
  have at1: "at (ss_PathStops (ms_state sr1)) (unat (k - 1)) = Ret q"
    using stop_parents(1) [OF len1] len by (simp add: stops small at_def)
  define sr2 where "sr2 = set_stop (k - 1) q' sr1"
  have stops2: "ss_PathStops (ms_state sr2) = rev (q2 # ds) @ q' # ps' # us"
    using stop_parents(2) [OF len1] by (simp add: sr2_def stops small)
  have at2: "at (ss_PathStops (ms_state sr2)) (unat (k - 2)) = Ret q2"
    using stop_parents(1) [OF len] len by (simp add: stops2 small at_def)
  have cut: "subslice (ss_PathBuffer (ms_state sr2)) 0 (unat (ps_Count q2)) = Ret (path_of d (v # vs))"
  proof -
    have "unat (ps_Count q2) = length (path_of d (v # vs))" using assms(3) by (simp only: q2 unat_of_nat) simp
    then show ?thesis by (simp add: sr2_def sr1_def st(3) subslice_def)
  qed
  define sr3 where "sr3 = one_step (set_count (k - 1) (on_state (\<lambda>s. s\<lparr>ss_PathBuffer := path_of d (v # vs)\<rparr>) sr2))"
  have count1: "ss_ItemCount (ms_state sr1) = k" by (simp add: sr1_def st(2))
  have "leave_node sr1 = Ret (set_count (k - 1) (on_state (\<lambda>s. s\<lparr>ss_PathBuffer := path_of d (v # vs)\<rparr>) sr2))"
    unfolding leave_node_def Let_def count1 at1 bnd.simps q'_def [symmetric] sr2_def [symmetric] at2 cut by (rule refl)
  then have "search_loop d sr = search_loop d sr3"
    using search_loop_up [OF _ g(1) _ _ gone, of k] stop small(4) assms(4) st(2)
    by (simp add: Let_def ps'_def [symmetric] sr1_def [symmetric] sr3_def)
  moreover have "ms_totalSteps sr3 = ms_totalSteps sr + 1" by (simp add: sr3_def sr2_def sr1_def)
  moreover have "search_at d n (v # vs) (c + 1) sr3"
  proof -
    have "below_ok d v (c + 1) (q' # ps' # us)"
      using q ps us by (simp add: q'_def ps'_def hints_ok_def add.commute last_kid_def)
    moreover have "ss_PathStops (ms_state sr3) = rev ds1 @ q' # ps' # us" by (simp add: sr3_def stops2 ds1)
    moreover have "ss_SearchPhase (ms_state sr3) = searchSearching" "ss_ItemCount (ms_state sr3) = k - 1"
      "ss_PathBuffer (ms_state sr3) = path_of d (v # vs)"
      using st(1) by (simp_all add: sr3_def sr2_def sr1_def)
    moreover have "k - 1 = word_of_nat (length (v # vs))" by (simp add: k_def j_def)
    ultimately show ?thesis
      using above g(4) unfolding search_at_def Let_def by (intro conjI exI [of _ ds1] exI [of _ "q' # ps' # us"]) simp_all
  qed
  ultimately show ?thesis by blast
qed

lemma step_end:
  assumes "trie_ok d n" "search_at d n [0] (last_kid d 0) sr" "ms_totalSteps sr < maxTrieSteps"
  shows "\<exists>sr1. search_loop d sr = Ret (False, sr1)"
proof -
  obtain ds ps us where g: "grow_stops d (ms_state sr) = Ret (ms_state sr\<lparr>ss_PathStops := rev ds @ ps # us\<rparr>)"
      "above_ok d n [0] ds" "below_ok d 0 (last_kid d 0) (ps # us)"
    using grown [OF assms(1,2)] by (metis list.sel(1))
  note a = above_facts [OF g(2) assms(1)]
  have "length ds = 1" using a(1) by simp
  then have "at (rev ds @ ps # us) 1 = Ret ps" using stop_update(2) [of ds 1] by (simp add: at_def)
  moreover have "\<not> IsItemPresent (db_CollisionTable d) (ps_Field4 ps)"
    using kid_present [OF assms(1), of 0 "last_kid d 0"] kids(2) [OF assms(1), of 0] g(3) a(4) by simp
  ultimately show ?thesis
    using search_loop_up [OF _ g(1), of 1] assms(2,3) by (simp add: Let_def search_at_def)
qed

section \<open>The enumeration\<close>

text \<open>A callback over a list of names: it stops when the callback says so, fails or panics.\<close>

fun visit :: "(bytes \<Rightarrow> u32 \<Rightarrow> 's \<Rightarrow> (bool \<times> 's) outcome) \<Rightarrow> (bytes \<times> u32) list \<Rightarrow> 's \<Rightarrow> 's outcome" where
  "visit fn [] acc = Ret acc"
| "visit fn (p # ps) acc = bnd (fn (fst p) (snd p) acc) (\<lambda>(more, acc'). if more then visit fn ps acc' else Ret acc')"

fun visit_then ::
  "(bytes \<Rightarrow> u32 \<Rightarrow> 's \<Rightarrow> (bool \<times> 's) outcome) \<Rightarrow> (bytes \<times> u32) list \<Rightarrow> ('s \<Rightarrow> 's outcome option) \<Rightarrow> 's \<Rightarrow> 's outcome option" where
  "visit_then fn [] K acc = K acc"
| "visit_then fn (p # ps) K acc = obnd (Some (fn (fst p) (snd p) acc)) (\<lambda>(more, acc'). if more then visit_then fn ps K acc' else Some (Ret acc'))"

lemma obnd_cong: "m = m' \<Longrightarrow> (\<And>x. m' = Some (Ret x) \<Longrightarrow> f x = f' x) \<Longrightarrow> obnd m f = obnd m' f'"
  by (cases m') (auto simp: obnd_def split: outcome.split)

lemma visit_then_append: "visit_then fn (ps @ qs) K = visit_then fn ps (visit_then fn qs K)"
proof
  show "visit_then fn (ps @ qs) K acc = visit_then fn ps (visit_then fn qs K) acc" for acc
    by (induction ps arbitrary: acc) (auto intro!: obnd_cong)
qed

lemma visit_then_Ret: "visit_then fn ps (\<lambda>acc. Some (Ret acc)) acc = Some (visit fn ps acc)"
  by (induction ps arbitrary: acc) (auto simp: obnd_def split: outcome.split)

lemma enumerate_stay:
  assumes "search_loop d sr = search_loop d sr'" "search_at d n vs c sr" "search_at d n vs' c' sr'"
  shows "enumerate_loop d fn acc sr = enumerate_loop d fn acc sr'"
proof -
  have "doSearch d sr = doSearch d sr'"
    using assms by (simp add: doSearch_def search_at_def Let_def searchSearching_def searchInit_def)
  then show ?thesis by (subst (1 2) enumerate_loop.simps) simp
qed

lemma enumerate_found:
  assumes "search_loop d sr = Ret (True, sr')" "search_at d n vs c sr"
  shows "enumerate_loop d fn acc sr = visit_then fn [(ms_foundPath sr', ms_foundIndex sr')] (\<lambda>acc. enumerate_loop d fn acc sr') acc"
  using assms by (subst enumerate_loop.simps) (simp add: doSearch_def search_at_def Let_def searchSearching_def searchInit_def cong: if_cong)

definition names_from :: "fileNameDB \<Rightarrow> nat \<Rightarrow> bytes \<Rightarrow> nat list \<Rightarrow> (bytes \<times> u32) list" where
  "names_from d n path us = concat (map (\<lambda>u. name_here d u (path @ label_of d u) @ names_below d n u (path @ label_of d u)) us)"

definition steps_from :: "fileNameDB \<Rightarrow> nat \<Rightarrow> nat list \<Rightarrow> nat" where
  "steps_from d n us = sum_list (map (\<lambda>u. label_steps d u + of_bool (\<not> is_name d u) + steps_below d n u + 1) us)"

lemma below_from:
  assumes "trie_ok d n" "v < n"
  shows "names_below d n v path = names_from d n path [first_kid d v..<last_kid d v]"
    "steps_below d n v = steps_from d n [first_kid d v..<last_kid d v]"
proof -
  show "names_below d n v path = names_from d n path [first_kid d v..<last_kid d v]"
    using assms(2) kids(1) [OF assms] by (subst names_below.simps) (auto simp: names_from_def intro!: arg_cong [of _ _ concat])
  show "steps_below d n v = steps_from d n [first_kid d v..<last_kid d v]"
    using assms(2) kids(1) [OF assms] by (subst steps_below.simps) (auto simp: steps_from_def intro!: arg_cong [of _ _ sum_list])
qed

definition walked ::
  "fileNameDB \<Rightarrow> nat \<Rightarrow> (bytes \<Rightarrow> u32 \<Rightarrow> 's \<Rightarrow> (bool \<times> 's) outcome) \<Rightarrow> nat list \<Rightarrow> nat list \<Rightarrow> mndxSearch \<Rightarrow> mndxSearch \<Rightarrow> bool" where
  "walked d n fn vs us sr sr' \<longleftrightarrow> search_at d n vs (last_kid d (hd vs)) sr' \<and>
     ms_totalSteps sr' = ms_totalSteps sr + steps_from d n us \<and>
     (\<forall>acc. enumerate_loop d fn acc sr = visit_then fn (names_from d n (path_of d vs) us) (\<lambda>acc. enumerate_loop d fn acc sr') acc)"

definition room :: "fileNameDB \<Rightarrow> nat \<Rightarrow> nat list \<Rightarrow> bool" where
  "room d n vs \<longleftrightarrow> length (path_of d vs) + sum_list (map (\<lambda>w. length (label_of d w)) [hd vs + 1..<n]) < 2 ^ 32"

lemma room_kid:
  assumes "room d n (v # vs)" "v < u" "u < n"
  shows "room d n (u # v # vs)" "length (path_of d (u # v # vs)) < 2 ^ 32" "length (path_of d (v # vs)) < 2 ^ 32"
proof -
  have "[v + 1..<n] = [v + 1..<u] @ u # [u + 1..<n]"
    using assms(2,3) upt_add_eq_append [of "v + 1" u "n - u"] by (simp add: upt_conv_Cons)
  then show "room d n (u # v # vs)" "length (path_of d (u # v # vs)) < 2 ^ 32" "length (path_of d (v # vs)) < 2 ^ 32"
    using assms(1) by (simp_all add: room_def)
qed

text \<open>One child: down to it, through what is below it, and up again.\<close>

lemma walk_kid:
  assumes "trie_ok d n" "v < n" "search_at d n (v # vs) c sr" "first_kid d v \<le> c" "c < last_kid d v" "room d n (v # vs)"
    and "ms_totalSteps sr + steps_from d n [c] < maxTrieSteps"
    and "\<And>sr. search_at d n (c # v # vs) (first_kid d c) sr \<Longrightarrow> room d n (c # v # vs) \<Longrightarrow>
      ms_totalSteps sr + steps_from d n [first_kid d c..<last_kid d c] < maxTrieSteps \<Longrightarrow>
      \<exists>sr'. walked d n fn (c # v # vs) [first_kid d c..<last_kid d c] sr sr'"
  shows "\<exists>sr3. search_at d n (v # vs) (c + 1) sr3 \<and> ms_totalSteps sr3 = ms_totalSteps sr + steps_from d n [c] \<and>
    (\<forall>acc. enumerate_loop d fn acc sr =
       visit_then fn (names_from d n (path_of d (v # vs)) [c]) (\<lambda>acc. enumerate_loop d fn acc sr3) acc)"
proof -
  let ?path = "path_of d (c # v # vs)"
  have c: "v < c" "c < n" using kids(1,3) [OF assms(1,2)] assms(4,5) by simp_all
  note room = room_kid [OF assms(6) c]
  note below = below_from [OF assms(1) c(2)]
  have cost: "steps_from d n [c] = label_steps d c + of_bool (\<not> is_name d c) + steps_below d n c + 1"
    by (simp add: steps_from_def)
  obtain sr1 where one: "search_at d n (c # v # vs) (first_kid d c) sr1"
      "ms_totalSteps sr1 = ms_totalSteps sr + label_steps d c + of_bool (\<not> is_name d c)"
      "search_loop d sr = (if is_name d c then Ret (True, sr1) else search_loop d sr1)"
      "is_name d c \<Longrightarrow> ms_foundPath sr1 = ?path \<and> ms_foundIndex sr1 = name_index d c"
    using step_down [OF assms(1,3,4,5) room(2)] assms(7) cost by auto
  have down: "enumerate_loop d fn acc sr = visit_then fn (name_here d c ?path) (\<lambda>acc. enumerate_loop d fn acc sr1) acc" for acc
  proof (cases "is_name d c")
    case True
    then show ?thesis using enumerate_found [OF _ assms(3), of sr1] one(3,4) by (simp add: name_here_def)
  next
    case False
    then show ?thesis using enumerate_stay [OF _ assms(3) one(1)] one(3) by (simp add: name_here_def)
  qed
  have "ms_totalSteps sr1 + steps_from d n [first_kid d c..<last_kid d c] < maxTrieSteps"
    using assms(7) one(2) below(2) cost by simp
  then obtain sr2 where two: "walked d n fn (c # v # vs) [first_kid d c..<last_kid d c] sr1 sr2"
    using assms(8) [OF one(1) room(1)] by blast
  then have at2: "search_at d n (c # v # vs) (last_kid d c) sr2"
    "ms_totalSteps sr2 = ms_totalSteps sr1 + steps_below d n c" by (simp_all add: walked_def below(2))
  then have "ms_totalSteps sr2 < maxTrieSteps" using assms(7) one(2) cost by simp
  then obtain sr3 where three: "search_at d n (v # vs) (c + 1) sr3" "ms_totalSteps sr3 = ms_totalSteps sr2 + 1"
      "search_loop d sr2 = search_loop d sr3"
    using step_up [OF assms(1) at2(1) room(3)] by blast
  have "enumerate_loop d fn acc sr1 = visit_then fn (names_below d n c ?path) (\<lambda>acc. enumerate_loop d fn acc sr3) acc" for acc
    using two enumerate_stay [OF three(3) at2(1) three(1), where fn = fn] by (simp add: walked_def below(1))
  then have "enumerate_loop d fn acc sr =
      visit_then fn (names_from d n (path_of d (v # vs)) [c]) (\<lambda>acc. enumerate_loop d fn acc sr3) acc" for acc
    by (simp add: down names_from_def visit_then_append)
  then show ?thesis using three(1,2) at2(2) one(2) cost by auto
qed

lemma walk:
  assumes "trie_ok d n"
  shows "search_at d n (v # vs) c sr \<Longrightarrow> v < n \<Longrightarrow> first_kid d v \<le> c \<Longrightarrow> c \<le> last_kid d v \<Longrightarrow> room d n (v # vs) \<Longrightarrow>
    ms_totalSteps sr + steps_from d n [c..<last_kid d v] < maxTrieSteps \<Longrightarrow>
    \<exists>sr'. walked d n fn (v # vs) [c..<last_kid d v] sr sr'"
proof (induction "n - v" arbitrary: v vs c sr rule: less_induct)
  case less
  from less.prems show ?case
  proof (induction "last_kid d v - c" arbitrary: c sr)
    case 0
    then show ?case by (intro exI [of _ sr]) (simp add: walked_def names_from_def steps_from_def)
  next
    case (Suc m)
    have c: "c < last_kid d v" using Suc.hyps(2) by simp
    then have cn: "v < c" "c < n" using kids(1,3) [OF assms Suc.prems(2)] Suc.prems(3) by simp_all
    have us: "[c..<last_kid d v] = [c] @ [c + 1..<last_kid d v]" using c by (simp add: upt_conv_Cons)
    have cost: "steps_from d n [c..<last_kid d v] = steps_from d n [c] + steps_from d n [c + 1..<last_kid d v]"
      unfolding us by (simp add: steps_from_def)
    have "\<exists>sr'. walked d n fn (c # v # vs) [first_kid d c..<last_kid d c] sr sr'"
      if "search_at d n (c # v # vs) (first_kid d c) sr" "room d n (c # v # vs)"
        "ms_totalSteps sr + steps_from d n [first_kid d c..<last_kid d c] < maxTrieSteps" for sr
      using less.hyps [of c, OF _ that(1) cn(2) le_refl kids(2) [OF assms cn(2)] that(2,3)] cn by simp
    then obtain sr1 where one: "search_at d n (v # vs) (c + 1) sr1" "ms_totalSteps sr1 = ms_totalSteps sr + steps_from d n [c]"
        "\<And>acc. enumerate_loop d fn acc sr =
          visit_then fn (names_from d n (path_of d (v # vs)) [c]) (\<lambda>acc. enumerate_loop d fn acc sr1) acc"
      using walk_kid [OF assms Suc.prems(2,1,3) c Suc.prems(5), of fn] Suc.prems(6) cost by auto
    have "\<exists>sr'. walked d n fn (v # vs) [c + 1..<last_kid d v] sr1 sr'"
      using Suc.hyps(1) [OF _ one(1)] Suc.hyps(2) Suc.prems c one(2) cost by simp
    then obtain sr2 where two: "walked d n fn (v # vs) [c + 1..<last_kid d v] sr1 sr2" ..
    have "names_from d n (path_of d (v # vs)) [c..<last_kid d v] =
        names_from d n (path_of d (v # vs)) [c] @ names_from d n (path_of d (v # vs)) [c + 1..<last_kid d v]"
      unfolding us by (simp add: names_from_def)
    then show ?case
      using two one(2,3) cost by (intro exI [of _ sr2]) (simp add: walked_def visit_then_append)
  qed
qed

lemma root_at:
  assumes "trie_ok d n" "0 < n"
    and "ss_SearchPhase (ms_state sr) = searchSearching" "ss_ItemCount (ms_state sr) = 1" "ss_PathBuffer (ms_state sr) = []"
    and "ss_PathStops (ms_state sr) = [newPathStop 0 0 0]"
  shows "search_at d n [0] (first_kid d 0) sr"
  using assms unfolding search_at_def Let_def
  by (intro conjI exI [of _ "[newPathStop 0 0 0]"] exI [of _ "[]"]) (simp_all add: newPathStop_def)

lemma descend_nothing: "ms_searchMask sr = [] \<Longrightarrow> descend_mask d sr = Some (Ret (True, sr))"
  by (subst descend_mask.simps) simp

lemma enumerate_is_visit:
  assumes "trie_ok d n" "steps_below d n 0 < maxTrieSteps"
  shows "mar_enumerate \<lparr>mf_db = Some d\<rparr> fn acc = Some (visit fn (trie_names d n) acc)"
proof -
  have n: "0 < n" "rank_ok (db_FileNameIndexes d)" using assms(1) by (simp_all add: trie_ok_def)
  note below = below_from [OF assms(1) n(1)]
  define sr where "sr = on_state (\<lambda>s. BeginSearch s\<lparr>ss_PathStops := [newPathStop 0 0 0], ss_ItemCount := 1\<rparr>) (new_search [])"
  define sr0 where "sr0 = (if is_name d 0 then report (name_index d 0) sr else sr)"
  have start: "ms_state sr0 = BeginSearch (ms_state sr0)\<lparr>ss_PathStops := [newPathStop 0 0 0], ss_ItemCount := 1\<rparr>" "ms_totalSteps sr0 = 0"
    by (simp_all add: sr0_def sr_def new_search_def BeginSearch_def on_state_def report_def)
  have "search_at d n [0] (first_kid d 0) sr0"
    by (rule root_at [OF assms(1) n(1)]; subst start(1)) (simp_all add: BeginSearch_def)
  moreover have "room d n [0]" using assms(1) by (simp add: room_def trie_ok_def)
  ultimately obtain sr' where w: "walked d n fn [0] [first_kid d 0..<last_kid d 0] sr0 sr'"
    using walk [OF assms(1) _ n(1) le_refl kids(2) [OF assms(1) n(1)], where vs = "[]" and sr = sr0] assms(2) start(2) below(2) by auto
  then have at: "search_at d n [0] (last_kid d 0) sr'" "ms_totalSteps sr' < maxTrieSteps"
    using assms(2) start(2) below(2) by (simp_all add: walked_def)
  then obtain sr1 where "search_loop d sr' = Ret (False, sr1)" using step_end [OF assms(1)] by blast
  then have fin: "enumerate_loop d fn acc sr' = Some (Ret acc)" for acc
    using at(1) by (subst enumerate_loop.simps) (simp add: doSearch_def search_at_def Let_def searchSearching_def searchInit_def)
  have loop: "enumerate_loop d fn acc sr0 = Some (visit fn (names_below d n 0 []) acc)" for acc
    using w by (simp add: walked_def below(1) fin visit_then_Ret)
  have named: "IsItemPresent (db_FileNameIndexes d) 0 \<longleftrightarrow> is_name d 0"
    "is_name d 0 \<Longrightarrow> GetItemValueAt (db_FileNameIndexes d) 0 = name_index d 0"
    using present [OF n(2), of 0] ranked [OF n(2), of 0] by (simp_all add: is_name_def name_index_def)
  have search: "doSearch d (new_search []) = (if is_name d 0 then Some (Ret (True, sr0)) else Some (search_loop d sr0))"
    by (simp add: doSearch_def new_search_def on_state_def BeginSearch_def descend_nothing Let_def named sr0_def sr_def)
  show ?thesis
  proof (cases "is_name d 0")
    case True
    have "ms_foundPath sr0 = []" "ms_foundIndex sr0 = name_index d 0"
      using True by (simp_all add: sr0_def sr_def new_search_def BeginSearch_def on_state_def report_def)
    then show ?thesis
      using True search loop unfolding mar_enumerate_def
      by (simp, subst enumerate_loop.simps) (auto simp: trie_names_def name_here_def obnd_def split: outcome.split)
  next
    case False
    have "doSearch d (new_search []) = doSearch d sr0"
      using search False start(1) by (simp add: doSearch_def searchSearching_def searchInit_def BeginSearch_def sr0_def sr_def on_state_def)
    then have "enumerate_loop d fn acc (new_search []) = enumerate_loop d fn acc sr0"
      by (subst (1 2) enumerate_loop.simps) simp
    then show ?thesis using loop False by (simp add: mar_enumerate_def trie_names_def name_here_def)
  qed
qed

text \<open>
  C17. For a name database whose rank and select tables agree with their bits, whose collision
  table encodes a tree in level order, and whose steps stay below the limit, enumerate calls
  the callback with exactly the names of the tree, in preorder and numbered by rank, until the
  callback stops: the incremental search, with its path stops and hints, refines a walk over
  the tree.
\<close>

theorem enumerate_trie:
  assumes "trie_ok d n" "steps_below d n 0 < maxTrieSteps"
  shows "mar_enumerate \<lparr>mf_db = Some d\<rparr> fn acc = Some (visit fn (trie_names d n) acc)"
  using assms by (rule enumerate_is_visit)

section \<open>Samples\<close>

text \<open>Arrays of one word, \<open>p\<close> the first position that is absent.\<close>

definition word_array :: "u32 \<Rightarrow> u32 \<Rightarrow> sparseArray" where
  "word_array w p = (let c = popcount32 w in
     \<lparr>sa_ItemBits = [w],
      sa_BaseVals = [\<lparr>BaseValue200 = 0, AddValue40 = c, AddValue80 = c, AddValueC0 = c, AddValue100 = c,
        AddValue140 = c, AddValue180 = c, AddValue1C0 = c\<rparr>],
      sa_IndexToItem0 = [p, 0x200], sa_IndexToItem1 = [], sa_TotalItemCount = 32, sa_ValidItemCount = c\<rparr>)"

definition no_items :: sparseArray where
  "no_items = \<lparr>sa_ItemBits = [], sa_BaseVals = [], sa_IndexToItem0 = [], sa_IndexToItem1 = [], sa_TotalItemCount = 0, sa_ValidItemCount = 0\<rparr>"

lemma word_array_bit: "item_bit (word_array w p) j \<longleftrightarrow> j < 32 \<and> bit w j"
  by (cases "j < 32") (auto simp: item_bit_def word_array_def Let_def div_less)

lemma no_items_bit: "\<not> item_bit no_items j"
  by (simp add: item_bit_def no_items_def)

lemma word_array_rank: "32 \<le> m \<Longrightarrow> rank (item_bit (word_array w p)) m = count_bits 32 w"
proof (induction m rule: dec_induct)
  case base
  then show ?case using rank_item_word [of 32 "word_array w p" 0] by (simp add: word_array_def Let_def)
qed (simp add: word_array_bit)

lemma word_array_ok: "rank_ok (word_array w p)" "rank_ok no_items"
proof -
  let ?a = "word_array w p"
  have c: "unat (popcount32 w) = count_bits 32 w" using count_bits_le [of 32 w] by (simp add: packed_counts unat_of_nat)
  have "block_add (sa_BaseVals ?a ! 0) (word_of_nat k) = popcount32 w" if "k < 7" for k
  proof -
    have "k = 0 \<or> k = 1 \<or> k = 2 \<or> k = 3 \<or> k = 4 \<or> k = 5 \<or> k = 6" using that by presburger
    then show ?thesis by (elim disjE) (simp_all add: block_add_numeral word_array_def Let_def)
  qed
  moreover have "BaseValue200 (sa_BaseVals ?a ! 0) = 0" "length (sa_ItemBits ?a) = 1" "length (sa_BaseVals ?a) = 1"
    by (simp_all add: word_array_def Let_def)
  ultimately show "rank_ok ?a" by (simp add: rank_ok_def base_vals_ok_def word_array_rank c)
  show "rank_ok no_items" by (simp add: rank_ok_def base_vals_ok_def no_items_def)
qed

lemma word_array_index:
  assumes "absent (word_array w p) (unat p)" "rank (absent (word_array w p)) (unat p) = 0" "unat p < 32"
  shows "index_ok (sa_IndexToItem0 (word_array w p)) (absent (word_array w p)) (word_array w p)"
proof -
  have f: "sa_IndexToItem0 (word_array w p) = [p, 0x200]" "length (sa_ItemBits (word_array w p)) = 1"
    by (simp_all add: word_array_def Let_def)
  have "g = 0" if "512 * g < rank (absent (word_array w p)) 32" for g
    using that rank_le [of "absent (word_array w p)" 32] by simp
  note first = this
  show ?thesis unfolding index_ok_def f
  proof (intro allI impI)
    fix g assume "512 * g < rank (absent (word_array w p)) (32 * 1)"
    then have "g = 0" using first by simp
    then show "g + 1 < length [p, 0x200] \<and> absent (word_array w p) (unat ([p, 0x200] ! g)) \<and>
        rank (absent (word_array w p)) (unat ([p, 0x200] ! g)) = 512 * g \<and>
        unat ([p, 0x200] ! g) div 512 \<le> unat (drop_bit 9 ([p, 0x200] ! (g + 1) + 0x1FF)) \<and>
        unat (drop_bit 9 ([p, 0x200] ! (g + 1) + 0x1FF)) - unat ([p, 0x200] ! g) div 512 < 10"
      using assms by (simp add: shift9)
  qed
qed

definition letters_db :: "u32 \<Rightarrow> u32 \<Rightarrow> u32 \<Rightarrow> bytes \<Rightarrow> fileNameDB" where
  "letters_db tree p names letters = FileNameDB (word_array tree p) (word_array names 0) no_items letters
     \<lparr>be_Items = [], be_BitsPerEntry = 0, be_EntryBitMask = 0, be_TotalEntries = 0\<rparr>
     \<lparr>pf_PathFragments = [], pf_PathMarks = no_items\<rparr> None [] 0 0"

lemma letters_fields [simp]:
  "db_CollisionTable (letters_db t p m ls) = word_array t p" "db_FileNameIndexes (letters_db t p m ls) = word_array m 0"
  "db_CollisionHiBitsIndexes (letters_db t p m ls) = no_items" "db_LoBitsTable (letters_db t p m ls) = ls"
  by (simp_all add: letters_db_def)

lemma letters_append: "append_node (letters_db t p m ls) ps sr =
    Ret (ps, advance (if unat (ps_LoBitsIndex ps) < length ls then [ls ! unat (ps_LoBitsIndex ps)] else []) 0 sr)"
  by (simp add: append_node_def Let_def isPathFragmentString_def IsItemPresent_def no_items_def lo_bits_def advance_simps(2))

lemma letters_label:
  assumes "u < 2 ^ 32"
  shows "label_ok (letters_db t p m ls) u" "label_of (letters_db t p m ls) u = (if u < length ls then [ls ! u] else [])"
    "label_steps (letters_db t p m ls) u = 0"
proof -
  have "unat (word_of_nat u :: u32) = u" using assms by (intro unat_word_of_nat) simp
  then have "label_run (letters_db t p m ls) u =
      Ret (newPathStop (word_of_nat u) 0 0, advance (if u < length ls then [ls ! u] else []) 0 (new_search []))"
    by (simp add: label_run_def letters_append newPathStop_def)
  then show "label_ok (letters_db t p m ls) u" "label_of (letters_db t p m ls) u = (if u < length ls then [ls ! u] else [])"
    "label_steps (letters_db t p m ls) u = 0"
    by (simp_all add: label_ok_def label_of_def label_steps_def advance_def push_path_def on_state_def new_search_def maxTrieSteps_def)
qed

text \<open>The tree with \<open>ac\<close> and \<open>b\<close>: node 1 is \<open>a\<close>, node 2 is \<open>b\<close>, node 3 is \<open>c\<close>.\<close>

definition small_db :: fileNameDB where
  "small_db = letters_db 45 1 12 [0, 97, 98, 99]"

lemma small_bits: "r < 32 \<Longrightarrow> bit (45 :: u32) r \<longleftrightarrow> r = 0 \<or> r = 2 \<or> r = 3 \<or> r = 5"
  "r < 32 \<Longrightarrow> bit (12 :: u32) r \<longleftrightarrow> r = 2 \<or> r = 3"
proof -
  have "list_all (\<lambda>r. bit (45 :: u32) r \<longleftrightarrow> r = 0 \<or> r = 2 \<or> r = 3 \<or> r = 5) [0..<32]"
    "list_all (\<lambda>r. bit (12 :: u32) r \<longleftrightarrow> r = 2 \<or> r = 3) [0..<32]" by code_simp+
  then show "r < 32 \<Longrightarrow> bit (45 :: u32) r \<longleftrightarrow> r = 0 \<or> r = 2 \<or> r = 3 \<or> r = 5"
    "r < 32 \<Longrightarrow> bit (12 :: u32) r \<longleftrightarrow> r = 2 \<or> r = 3" by (simp_all only: list_all_iff) simp_all
qed

lemma small_present: "item_bit (word_array 45 1) j \<longleftrightarrow> j = 0 \<or> j = 2 \<or> j = 3 \<or> j = 5" "is_name small_db j \<longleftrightarrow> j = 2 \<or> j = 3"
  unfolding is_name_def small_db_def letters_fields word_array_bit using small_bits [of j] by auto

lemma small_zeros: "\<exists>zs. zeros (word_array 45 1) = 1 # 4 # 6 # 7 # 8 # zs"
proof -
  have "length (sa_ItemBits (word_array 45 1)) = 1" by (simp add: word_array_def Let_def)
  then have "zeros (word_array 45 1) = filter (\<lambda>j. j \<noteq> 0 \<and> j \<noteq> 2 \<and> j \<noteq> 3 \<and> j \<noteq> 5) [0..<32]"
    by (simp add: zeros_def small_present)
  then show ?thesis by (simp add: upt_rec)
qed

lemma small_zpos: "zpos small_db 0 = 1" "zpos small_db 1 = 4" "zpos small_db 2 = 6" "zpos small_db 3 = 7" "zpos small_db 4 = 8"
  "4 < length (zeros (word_array 45 1))"
  using small_zeros by (auto simp: zpos_def small_db_def numeral_eq_Suc)

lemma small_label: "u < 4 \<Longrightarrow> label_of small_db u = [[0, 97, 98, 99] ! u]" "u < 4 \<Longrightarrow> label_steps small_db u = 0"
  using letters_label [of u 45 1 12 "[0, 97, 98, 99]"] by (simp_all add: small_db_def not_le)

lemma small_ok: "trie_ok small_db 4"
proof -
  have four: "(\<forall>v<4. P v) \<longleftrightarrow> P 0 \<and> P 1 \<and> P 2 \<and> P 3" for P :: "nat \<Rightarrow> bool" by (auto simp: numeral_eq_Suc less_Suc_eq)
  have c: "db_CollisionTable small_db = word_array 45 1" "db_FileNameIndexes small_db = word_array 12 0"
    "db_CollisionHiBitsIndexes small_db = no_items" by (simp_all add: small_db_def)
  have "label_ok small_db v" if "v < 4" for v using that letters_label(1) [of v] by (simp add: small_db_def)
  moreover have "index_ok (sa_IndexToItem0 (word_array 45 1)) (absent (word_array 45 1)) (word_array 45 1)"
    by (rule word_array_index) (simp_all add: small_present rank_def)
  ultimately show ?thesis
    unfolding trie_ok_def c using small_zpos by (simp add: word_array_ok four small_label upt_rec)
qed

lemma small_kids: "[first_kid small_db 0..<last_kid small_db 0] = [1, 2]" "[first_kid small_db 1..<last_kid small_db 1] = [3]"
  "[first_kid small_db 2..<last_kid small_db 2] = []" "[first_kid small_db 3..<last_kid small_db 3] = []"
  using small_zpos by (simp_all add: first_kid_def last_kid_def upt_rec numeral_eq_Suc)

lemma small_names: "trie_names small_db 4 = [([97, 99], 1), ([98], 0)]" "steps_below small_db 4 0 = 4"
proof -
  have r: "rank (is_name small_db) 2 = 0" "rank (is_name small_db) 3 = 1" by (simp_all add: rank_def small_present upt_rec)
  have leaf: "names_below small_db 4 2 path = []" "names_below small_db 4 3 path = []"
    "steps_below small_db 4 2 = 0" "steps_below small_db 4 3 = 0" for path
    by (subst names_below.simps steps_below.simps, simp add: small_kids)+
  have one: "names_below small_db 4 1 path = [(path @ [99], 1)]" "steps_below small_db 4 1 = 1" for path
    by (subst names_below.simps steps_below.simps,
        simp only: small_kids list.map concat.simps sum_list_simps leaf small_label name_here_def small_present name_index_def r, simp add: small_label)+
  have "names_below small_db 4 0 [] = [([97, 99], 1), ([98], 0)]"
    by (subst names_below.simps steps_below.simps,
        simp only: small_kids list.map concat.simps sum_list_simps leaf one small_label name_here_def small_present name_index_def r, simp add: small_label)+
  then show "trie_names small_db 4 = [([97, 99], 1), ([98], 0)]" by (simp add: trie_names_def name_here_def small_present)
  show "steps_below small_db 4 0 = 4"
    by (subst names_below.simps steps_below.simps,
        simp only: small_kids list.map concat.simps sum_list_simps leaf one small_label name_here_def small_present name_index_def r, simp add: small_label)+
qed

theorem enumerate_trie_witness:
  "mar_enumerate \<lparr>mf_db = Some small_db\<rparr> (\<lambda>name idx acc. Ret (True, acc @ [(name, idx)])) [] =
     Some (Ret [([97, 99], 1), ([98], 0)])"
  using enumerate_trie [OF small_ok, of "\<lambda>name idx acc. Ret (True, acc @ [(name, idx)])" "[]"]
  by (simp add: small_names maxTrieSteps_def)

section \<open>The step limit does not limit the names\<close>

text \<open>A root that is its own child and has a name: every search finds it again before it takes a step.\<close>

definition loop_db :: fileNameDB where
  "loop_db = letters_db 2 0 1 [97]"

definition looping :: "nat \<Rightarrow> mndxSearch \<Rightarrow> bool" where
  "looping j sr \<longleftrightarrow> ms_totalSteps sr = 0 \<and>
     (let s = ms_state sr in ss_SearchPhase s = searchSearching \<and> ss_ItemCount s = word_of_nat (j + 1) \<and>
        length (ss_PathStops s) = j + 1 \<and> ps_LoBitsIndex (last (ss_PathStops s)) = 0)"

lemma loop_step:
  assumes "looping j sr" "j + 2 < 2 ^ 32"
  shows "\<exists>sr'. search_loop loop_db sr = Ret (True, sr') \<and> looping (j + 1) sr'"
proof -
  define k where "k = (word_of_nat (j + 1) :: u32)"
  define st where "st = (ms_state sr)\<lparr>ss_PathStops := ss_PathStops (ms_state sr) @ [newPathStop 0 1 0]\<rparr>"
  have s: "ms_totalSteps sr = 0" "ss_SearchPhase (ms_state sr) = searchSearching" "ss_ItemCount (ms_state sr) = k"
    "length (ss_PathStops (ms_state sr)) = j + 1" "ps_LoBitsIndex (last (ss_PathStops (ms_state sr))) = 0"
    using assms(1) by (simp_all add: looping_def Let_def k_def)
  have k: "unat k = j + 1" unfolding k_def using assms(2) by (intro unat_word_of_nat) simp
  have "at (rev (ss_PathStops (ms_state sr))) 0 = Ret (last (ss_PathStops (ms_state sr)))"
    using s(4) by (simp add: at_def hd_rev [symmetric] hd_conv_nth [symmetric] flip: length_greater_0_conv)
  moreover have "GetItem0 (db_CollisionTable loop_db) 0 = Ret 0" by (simp add: GetItem0_def loop_db_def word_array_def Let_def)
  ultimately have grow: "grow_stops loop_db (ms_state sr) = Ret st"
    using s(3,4,5) by (simp add: grow_stops_def Let_def st_def k_def)
  have stop: "at (ss_PathStops st) (unat k) = Ret (newPathStop 0 1 0)" by (simp add: st_def k at_def nth_append s(4))
  have bits: "IsItemPresent (word_array 2 0) 1" "IsItemPresent (word_array 1 0) 0"
    by (simp_all add: IsItemPresent_def word_array_def Let_def)
  define sr1 where "sr1 = set_count (k + 1) (set_stop k (newPathStop 0 2 0) (on_state (\<lambda>_. st) sr))"
  define ps2 where "ps2 = (newPathStop 0 2 0)\<lparr>ps_Count := word_of_nat (length (ss_PathBuffer (ms_state (advance [97] 0 sr1))))\<rparr>"
  define sr2 where "sr2 = report (next_index_of loop_db ps2) (set_stop k (ps2\<lparr>ps_Field10 := next_index_of loop_db ps2\<rparr>) (advance [97] 0 sr1))"
  have "append_node loop_db (newPathStop 0 2 0) sr1 = Ret (newPathStop 0 2 0, advance [97] 0 sr1)"
    unfolding loop_db_def letters_append by (simp add: newPathStop_def)
  then have "search_loop loop_db sr = (if IsItemPresent (db_FileNameIndexes loop_db) (ps_LoBitsIndex ps2)
      then Ret (True, sr2) else search_loop loop_db (one_step (set_stop k ps2 (advance [97] 0 sr1))))"
    unfolding sr2_def using s(1) bits(1)
    by (intro search_loop_down [OF _ grow _ stop _ _ ps2_def]) (simp_all add: st_def s(3) sr1_def newPathStop_def loop_db_def maxTrieSteps_def)
  then have "search_loop loop_db sr = Ret (True, sr2)" using bits(2) by (simp add: loop_db_def ps2_def newPathStop_def)
  moreover have "(ss_PathStops (ms_state sr) @ [x])[unat k := q] = ss_PathStops (ms_state sr) @ [q]" for x q
    by (simp only: k s(4) [symmetric] list_update_length)
  then have "looping (j + 1) sr2"
    using s(1,2,4) k_def unfolding looping_def by (simp add: sr2_def sr1_def st_def ps2_def newPathStop_def Let_def)
  ultimately show ?thesis by blast
qed

lemma loop_enumerate:
  fixes N :: nat
  assumes "looping j sr" "i + m < N" "j + m + 2 < 2 ^ 32"
  shows "\<exists>sr'. looping (j + m) sr' \<and> enumerate_loop loop_db (\<lambda>_ _ i. Ret (i + 1 < N, i + 1)) i sr =
    enumerate_loop loop_db (\<lambda>_ _ i. Ret (i + 1 < N, i + 1)) (i + m) sr'"
  using assms
proof (induction m arbitrary: i j sr)
  case (Suc m)
  obtain sr1 where one: "search_loop loop_db sr = Ret (True, sr1)" "looping (j + 1) sr1"
    using loop_step [OF Suc.prems(1)] Suc.prems(3) by auto
  then have "enumerate_loop loop_db (\<lambda>_ _ i. Ret (i + 1 < N, i + 1)) i sr =
      enumerate_loop loop_db (\<lambda>_ _ i. Ret (i + 1 < N, i + 1)) (i + 1) sr1"
    using Suc.prems(1,2)
    by (subst enumerate_loop.simps) (simp add: doSearch_def looping_def Let_def searchSearching_def searchInit_def)
  then show ?case using Suc.IH [OF one(2), of "i + 1"] Suc.prems(2,3) by auto
qed auto

text \<open>
  The step limit does not bound an enumeration: on the database whose root is its own child, enumerate
  calls a callback that wants \<open>N\<close> names \<open>N\<close> times, for every \<open>N\<close> from 1 up to almost \<open>2 ^ 32\<close>.
\<close>

theorem enumerate_unlimited:
  fixes N :: nat
  assumes "0 < N" "N + 2 < 2 ^ 32"
  shows "mar_enumerate \<lparr>mf_db = Some loop_db\<rparr> (\<lambda>_ _ i. Ret (i + 1 < N, i + 1)) 0 = Some (Ret N)"
proof -
  let ?fn = "\<lambda>(_ :: bytes) (_ :: u32) i. Ret (i + 1 < N, i + 1)"
  have "IsItemPresent (word_array 1 0) 0" by (simp add: IsItemPresent_def word_array_def Let_def)
  then obtain sr where first: "doSearch loop_db (new_search []) = Some (Ret (True, sr))" "looping 0 sr"
    by (auto simp: doSearch_def new_search_def on_state_def BeginSearch_def descend_nothing Let_def loop_db_def report_def
        looping_def newPathStop_def)
  then have start: "enumerate_loop loop_db ?fn 0 (new_search []) = (if 1 < N then enumerate_loop loop_db ?fn 1 sr else Some (Ret 1))"
    by (subst enumerate_loop.simps) simp
  show ?thesis
  proof (cases "1 < N")
    case True
    then obtain sr' where last: "looping (N - 2) sr'" "enumerate_loop loop_db ?fn 1 sr = enumerate_loop loop_db ?fn (N - 1) sr'"
      using loop_enumerate [OF first(2), of 1 "N - 2" N] assms(2) by (auto simp: Suc_diff_Suc numeral_2_eq_2)
    have "N - 2 + 2 < 2 ^ 32" using assms(2) True by simp
    then obtain sr2 where "search_loop loop_db sr' = Ret (True, sr2)" using loop_step [OF last(1)] by blast
    then have "enumerate_loop loop_db ?fn (N - 1) sr' = Some (Ret N)"
      using last(1) True
      by (subst enumerate_loop.simps) (simp add: doSearch_def looping_def Let_def searchSearching_def searchInit_def)
    then show ?thesis using start last(2) True by (simp add: mar_enumerate_def)
  next
    case False
    then have "N = 1" using assms(1) by simp
    then show ?thesis using start by (simp add: mar_enumerate_def)
  qed
qed

theorem enumerate_unlimited_witness:
  "mar_enumerate \<lparr>mf_db = Some loop_db\<rparr> (\<lambda>_ _ i. Ret (i + 1 < (4000000000 :: nat), i + 1)) 0 = Some (Ret 4000000000) \<and>
   maxTrieSteps < 4000000000"
  using enumerate_unlimited [of 4000000000] by (simp add: maxTrieSteps_def)

end
