(* ===== verification/MndxLaws.thy ===== *)
theory MndxLaws
  imports RootMndx MndxLouds
begin

text \<open>
  Properties of the MNDX root: what a parse that returns leaves in the handler, when it cannot panic, and
  what the name index holds when the two name tries are well-formed.
\<close>

section \<open>Invariants through an enumeration\<close>

lemma obnd_eq_Ret: "obnd m f = Some (Ret y) \<longleftrightarrow> (\<exists>x. m = Some (Ret x) \<and> f x = Some (Ret y))"
  by (cases m) (auto simp: obnd_def split: outcome.split)

lemma enumerate_loop_keeps:
  assumes "enumerate_loop d fn acc sr = Some r"
  shows "(\<forall>p i s go s'. P s \<longrightarrow> fn p i s = Ret (go, s') \<longrightarrow> P s') \<Longrightarrow> P acc \<Longrightarrow> r = Ret s \<Longrightarrow> P s"
  using assms
proof (induction rule: enumerate_loop.raw_induct [rotated 1, consumes 1, case_names step])
  case (step rec d fn acc sr r)
  obtain x where x: "doSearch d sr = Some (Ret x)"
      "(if \<not> fst x then Some (Ret acc)
        else obnd (Some (fn (ms_foundPath (snd x)) (ms_foundIndex (snd x)) acc))
          (\<lambda>(go, acc'). if go then rec d fn acc' (snd x) else Some (Ret acc'))) = Some (Ret s)"
    using step.hyps unfolding step.prems(3) obnd_eq_Ret by blast
  show ?case
  proof (cases "fst x")
    case True
    then obtain go acc' where f: "fn (ms_foundPath (snd x)) (ms_foundIndex (snd x)) acc = Ret (go, acc')"
        "(if go then rec d fn acc' (snd x) else Some (Ret acc')) = Some (Ret s)"
      using x(2) by (auto simp: obnd_eq_Ret)
    have kept: "P acc'" using step.prems(1,2) f(1) by blast
    show ?thesis
    proof (cases go)
      case True
      then show ?thesis using step.IH [OF _ step.prems(1) kept refl] f(2) by simp
    qed (use f(2) kept in simp)
  qed (use x(2) step.prems(2) in simp)
qed

lemma enumerate_keeps:
  assumes "mar_enumerate m fn acc = Some (Ret acc')" "\<And>p i s go s'. P s \<Longrightarrow> fn p i s = Ret (go, s') \<Longrightarrow> P s'" "P acc"
  shows "P acc'"
  using assms enumerate_loop_keeps [of _ fn acc _ "Ret acc'" P acc'] unfolding mar_enumerate_def by (auto split: option.splits)

section \<open>The handler\<close>

text \<open>The ordered names are the names of the map, each once, and the map gives indices of entries.\<close>

definition index_inv :: "mndx_CKeyEntry list \<Rightarrow> mndx_Handler \<Rightarrow> bool" where
  "index_inv es h \<longleftrightarrow> mx_entries h = es \<and> distinct (mx_orderedNames h) \<and> set (mx_orderedNames h) = dom (mx_names h) \<and>
     (\<forall>n i. mx_names h n = Some i \<longrightarrow> i < length es)"

lemma add_name_inv:
  assumes "index_inv es h" "add_name h name i = Ret h'"
  shows "index_inv es h'"
proof -
  have "i < length es" using assms by (auto simp: add_name_def index_inv_def bnd_eq_Ret at_def split: if_splits)
  then show ?thesis
    using assms by (auto simp: add_name_def index_inv_def bnd_eq_Ret Let_def dom_def split: if_splits)
qed

lemma add_names_inv: "index_inv es h \<Longrightarrow> add_names name js h = Ret h' \<Longrightarrow> index_inv es h'"
  by (induction name js h rule: add_names.induct) (auto simp: bnd_eq_Ret intro: add_name_inv)

lemma name_fn_inv: "index_inv es h \<Longrightarrow> name_fn name idx h = Ret (go, h') \<Longrightarrow> index_inv es h'"
  by (auto simp: name_fn_def Let_def bnd_eq_Ret split: if_splits intro: add_names_inv)

lemma mndx_tables_Ret:
  assumes "mndx_tables data = Ret h"
  obtains info es where "mndx_info data = Ret info" "read_mndx_entries data info = Ret es" "mx_entries h = es" "mx_info h = info"
    "mx_names h = (\<lambda>_. None)" "mx_orderedNames h = []" "length (mx_marFiles h) = marCount"
proof -
  have "length files' = length files" if "load_mars data mis files = Ret files'" for mis files files'
    using that
    by (induction data mis files rule: load_mars.induct)
      (auto simp: Let_def bnd_eq_Ret split: if_splits outcome.splits)
  then show ?thesis using assms that by (fastforce simp: mndx_tables_def bnd_eq_Ret)
qed

lemma name_fn_info: "name_fn p i h = Ret (go, h') \<Longrightarrow> mx_info h' = mx_info h"
proof -
  have add: "mx_info h' = mx_info h" if "add_name h name i = Ret h'" for h name i h'
    using that by (auto simp: add_name_def bnd_eq_Ret Let_def split: if_splits)
  have "mx_info h' = mx_info h" if "add_names name js h = Ret h'" for h name js h'
    using that by (induction name js h rule: add_names.induct) (auto simp: bnd_eq_Ret dest: add)
  then show "name_fn p i h = Ret (go, h') \<Longrightarrow> mx_info h' = mx_info h"
    by (auto simp: name_fn_def Let_def bnd_eq_Ret split: if_splits)
qed

lemma buildNameIndex_inv:
  assumes "buildNameIndex h0 = Some (Ret h)" "mx_names h0 = (\<lambda>_. None)" "mx_orderedNames h0 = []"
  shows "index_inv (mx_entries h0) h \<and> mx_info h = mx_info h0"
proof -
  obtain h1 where h1: "list_packages (h0\<lparr>mx_fileNameIdxToEntry := group_starts (mx_entries h0)\<rparr>) = Some (Ret h1)"
      and h: "h = h1 \<or> (\<exists>m. mar_enumerate m name_fn (h1\<lparr>mx_names := (\<lambda>_. None)\<rparr>) = Some (Ret h))"
    using assms(1) unfolding buildNameIndex_def by (auto simp: obnd_eq_Ret split: option.splits if_splits)
  have h1': "index_inv (mx_entries h0) h1 \<and> mx_orderedNames h1 = [] \<and> mx_info h1 = mx_info h0"
    using h1 assms(2,3) unfolding list_packages_def
    by (auto simp: obnd_eq_Ret Let_def index_inv_def split: option.splits)
  then have "index_inv (mx_entries h0) (h1\<lparr>mx_names := (\<lambda>_. None)\<rparr>)" by (auto simp: index_inv_def)
  then show ?thesis
    using h h1' name_fn_inv name_fn_info
    by (auto elim!: enumerate_keeps [where P = "\<lambda>h. index_inv (mx_entries h0) h \<and> mx_info h = mx_info h0"])
qed

lemma mndx_Parse_inv:
  assumes "mndx_Parse data = Some (Ret h)"
  obtains h0 where "mndx_tables data = Ret h0" "index_inv (mx_entries h0) h" "mx_info h = mx_info h0"
proof -
  obtain h0 where h0: "mndx_tables data = Ret h0" "buildNameIndex h0 = Some (Ret h)"
    using assms by (auto simp: mndx_Parse_def obnd_eq_Ret)
  have "mx_names h0 = (\<lambda>_. None)" "mx_orderedNames h0 = []" using mndx_tables_Ret [OF h0(1)] by metis+
  then show ?thesis using that h0 buildNameIndex_inv by blast
qed

text \<open>
  C19. When building the name index of a freshly parsed MNDX root returns, whatever its tries
  enumerate, and names were resolved, the enumeration lists each name once and LookupByName
  answers as the association list of the enumeration does, names that are not listed included.
\<close>

theorem mndx_names_consistent:
  assumes "buildNameIndex h0 = Some (Ret h)" "mx_names h0 = (\<lambda>_. None)" "mx_orderedNames h0 = []" "mx_orderedNames h \<noteq> []"
  shows "distinct (map fst (mndx_All h)) \<and> (\<forall>n. mndx_LookupByName h n = map_of (mndx_All h) n)"
proof -
  have inv: "distinct (mx_orderedNames h)" "set (mx_orderedNames h) = dom (mx_names h)"
    using buildNameIndex_inv [OF assms(1-3)] by (simp_all add: index_inv_def)
  have all: "mndx_All h = map (\<lambda>n. (n, mndx_entry h (case mx_names h n of None \<Rightarrow> 0 | Some i \<Rightarrow> i))) (mx_orderedNames h)"
    using assms(4) by (simp add: mndx_All_def)
  have "mndx_LookupByName h n = map_of (mndx_All h) n" for n
  proof (cases "mx_names h n")
    case None
    then have "n \<notin> fst ` set (mndx_All h)" using inv(2) unfolding all by auto
    then have "map_of (mndx_All h) n = None" by (rule map_of_eq_None_iff [THEN iffD2])
    then show ?thesis using None by (simp add: mndx_LookupByName_def)
  next
    case (Some i)
    then have "n \<in> set (mx_orderedNames h)" using inv(2) by auto
    then show ?thesis using Some inv(1) unfolding all by (simp add: mndx_LookupByName_def map_of_map_restrict)
  qed
  then show ?thesis using inv(1) by (simp add: all comp_def)
qed

section \<open>Reading the entries\<close>

lemma read_entries_facts:
  assumes "read_mndx_entries data info = Ret es"
  shows "length es = unat (mi_CKeyEntriesCount info)"
    "i < length es \<Longrightarrow> read_mndx_entry data (unat (mi_CKeyEntriesOffset info) + i * mndxCKeyEntrySz) = Ret (es ! i)"
    "unat (mi_CKeyEntriesOffset info) + length es * mndxCKeyEntrySz \<le> length data"
proof -
  let ?f = "\<lambda>i. read_mndx_entry data (unat (mi_CKeyEntriesOffset info) + i * mndxCKeyEntrySz)"
  have es: "mapM ?f [0..<unat (mi_CKeyEntriesCount info)] = Ret es"
    "unat (mi_CKeyEntriesOffset info) + unat (mi_CKeyEntriesCount info) * mndxCKeyEntrySz \<le> length data"
    using assms by (auto simp: read_mndx_entries_def Let_def outcome_simps)
  show len: "length es = unat (mi_CKeyEntriesCount info)" using mapM_Ret_length [OF es(1)] by simp
  show "i < length es \<Longrightarrow> ?f i = Ret (es ! i)" using mapM_Ret_nth [OF es(1), of i] by (simp add: len)
  show "unat (mi_CKeyEntriesOffset info) + length es * mndxCKeyEntrySz \<le> length data" using es(2) len by simp
qed

lemma read_entry_Ret:
  "read_mndx_entry data k = Ret e \<Longrightarrow>
     mc_CKey e = take 16 (drop (k + 4) data) \<and> mc_ContentSize e = word_of_nat (le_val (take 4 (drop (k + 20) data)))"
  by (auto simp: read_mndx_entry_def rdLE32_def subslice_def LE32_def outcome_simps split: if_splits)

text \<open>
  C20. Whatever the bytes, when the MNDX parser returns, a lookup by file data id reads the
  entry table: below the count of the header it gives the key and the size of that row of the
  file, from the count on nothing.
\<close>

theorem mndx_lookup_reads_rows:
  assumes "mndx_Parse data = Some (Ret h)"
  shows "\<exists>info. mndx_info data = Ret info \<and>
    (\<forall>i. mndx_LookupByFileDataID h i =
       (if i < mi_CKeyEntriesCount info then
          let row = unat (mi_CKeyEntriesOffset info) + 24 * unat i in
          Some (zero_entry\<lparr>ce_CKey := take 16 (drop (row + 4) data),
            ce_ContentSize := word_of_nat (le_val (take 4 (drop (row + 20) data))), ce_FileDataID := i, ce_Flags := CEFlagHasCKey\<rparr>)
        else None))"
proof -
  obtain h0 where h0: "mndx_tables data = Ret h0" "index_inv (mx_entries h0) h" using mndx_Parse_inv [OF assms] by metis
  obtain info es where info: "mndx_info data = Ret info" "read_mndx_entries data info = Ret es" "mx_entries h0 = es"
    using mndx_tables_Ret [OF h0(1)] by metis
  have es: "mx_entries h = es" using h0(2) info(3) by (simp add: index_inv_def)
  note facts = read_entries_facts [OF info(2)]
  have count: "word_of_nat (length es) = mi_CKeyEntriesCount info" by (simp add: facts(1))
  have row: "mc_CKey (es ! i) = take 16 (drop (unat (mi_CKeyEntriesOffset info) + 24 * i + 4) data) \<and>
      mc_ContentSize (es ! i) = word_of_nat (le_val (take 4 (drop (unat (mi_CKeyEntriesOffset info) + 24 * i + 20) data)))"
    if "i < length es" for i
    using read_entry_Ret [OF facts(2) [OF that]] by (simp add: mndxCKeyEntrySz_def mult.commute)
  have size: "ucast (word_of_nat (le_val (take 4 xs)) :: u32) = (word_of_nat (le_val (take 4 xs)) :: u64)" for xs :: bytes
  proof -
    have "le_val (take 4 xs) < 256 ^ length (take 4 xs)" by (rule le_val_lt)
    also have "(256 :: nat) ^ length (take 4 xs) \<le> 256 ^ 4" by (rule power_increasing) simp_all
    finally have "unat (word_of_nat (le_val (take 4 xs)) :: u32) = le_val (take 4 xs)" by (intro unat_word_of_nat) simp
    then show ?thesis by (metis of_nat_unat ucast_id unsigned_of_nat unsigned_ucast_eq)
  qed
  have "mndx_LookupByFileDataID h i =
       (if i < mi_CKeyEntriesCount info then
          let row = unat (mi_CKeyEntriesOffset info) + 24 * unat i in
          Some (zero_entry\<lparr>ce_CKey := take 16 (drop (row + 4) data),
            ce_ContentSize := word_of_nat (le_val (take 4 (drop (row + 20) data))), ce_FileDataID := i, ce_Flags := CEFlagHasCKey\<rparr>)
        else None)" for i
  proof (cases "i < mi_CKeyEntriesCount info")
    case True
    then have "unat i < length es" by (simp add: facts(1) word_less_nat_alt)
    from row [OF this] True show ?thesis
      by (simp add: mndx_LookupByFileDataID_def mndx_entry_def es count Let_def size)
  next
    case False
    then show ?thesis by (simp add: mndx_LookupByFileDataID_def es count)
  qed
  then show ?thesis using info(1) by blast
qed

section \<open>Panics\<close>

lemma safe_marFile_load: "safe (marFile_load blob)"
  by (auto simp: marFile_load_def outcome_simps safe_db_load)

lemma safe_mndx_info: "safe (mndx_info data)"
  by (auto simp: mndx_info_def outcome_simps split: if_splits prod.splits)

lemma safe_read_MarInfo: "k + 20 \<le> length data \<Longrightarrow> safe (read_MarInfo data k)"
  by (auto simp: read_MarInfo_def outcome_simps Let_def)

lemma safe_rows:
  assumes "\<not> length data < start + n * sz" "\<And>k. k + sz \<le> length data \<Longrightarrow> safe (f k)"
  shows "safe (mapM (\<lambda>i. f (start + i * sz)) [0..<n])"
proof (rule safe_mapM)
  fix i
  assume "i \<in> set [0..<n]"
  then have "Suc i * sz \<le> n * sz" by (intro mult_le_mono1) simp
  then show "safe (f (start + i * sz))" using assms(1) by (intro assms(2)) simp
qed

lemma safe_load_mars:
  "(\<And>mi. mi \<in> set mis \<Longrightarrow> unat (mr_MarIndex mi) < length files) \<Longrightarrow> safe (load_mars data mis files)"
proof (induction data mis files rule: load_mars.induct)
  case (2 data mi mis files)
  then show ?case using safe_marFile_load by (auto simp: Let_def outcome_simps split: outcome.split) (simp add: safe_def)
qed simp

lemma safe_read_entry: "k + 24 \<le> length data \<Longrightarrow> safe (read_mndx_entry data k)"
  by (auto simp: read_mndx_entry_def outcome_simps)

text \<open>
  C21. Reading the tables and loading the name tries of an MNDX root never panics on a file
  whose first three MAR infos carry an index below three, whatever else its bytes are.
\<close>

theorem mndx_tables_safe:
  assumes "\<And>info mars mi. mndx_info data = Ret info \<Longrightarrow> read_mars data info = Ret mars \<Longrightarrow>
    mi \<in> set (take marCount mars) \<Longrightarrow> unat (mr_MarIndex mi) < marCount"
  shows "safe (mndx_tables data)"
proof -
  have "safe (read_mars data info)" "safe (read_mndx_entries data info)" for info
    using safe_rows [of data "unat (mi_MarInfoOffset info)" "unat (mi_MarInfoCount info)" mndxMarInfoSz "read_MarInfo data"]
      safe_rows [of data "unat (mi_CKeyEntriesOffset info)" "unat (mi_CKeyEntriesCount info)" mndxCKeyEntrySz "read_mndx_entry data"]
      safe_read_MarInfo safe_read_entry
    by (auto simp: read_mars_def read_mndx_entries_def Let_def outcome_simps mndxMarInfoSz_def mndxCKeyEntrySz_def)
  moreover have "safe (load_mars data (take marCount mars) (replicate marCount None))"
    if "mndx_info data = Ret info" "read_mars data info = Ret mars" for info mars
    using assms [OF that] by (intro safe_load_mars) simp
  ultimately show ?thesis by (auto simp: mndx_tables_def outcome_simps safe_mndx_info)
qed

text \<open>A file of one MAR info and no entries; the MAR file, from byte 60 on, is an empty name database.\<close>

definition one_mar :: "u8 \<Rightarrow> bytes" where
  "one_mar idx = [0x4D, 0x4E, 0x44, 0x58, 1, 0, 0, 0, 1, 0, 0, 0] @
     [40, 0, 0, 0, 1, 0, 0, 0, 20, 0, 0, 0, 60, 0, 0, 0, 0, 0, 0, 0, 0, 0, 0, 0, 24, 0, 0, 0] @
     [idx, 0, 0, 0, 220, 0, 0, 0, 0, 0, 0, 0, 60, 0, 0, 0, 0, 0, 0, 0] @ [0x4D, 0x41, 0x52, 0] @ replicate 216 0"

lemma le_val_zeros: "le_val (replicate n 0) = 0"
  by (induction n) simp_all

lemma zeros_stream:
  "k \<le> n \<Longrightarrow> getBytes k (replicate n 0) = Ret (replicate k 0, replicate (n - k) 0)"
  "4 \<le> n \<Longrightarrow> getU32 (replicate n 0) = Ret (0, replicate (n - 4) 0)"
  "8 \<le> n \<Longrightarrow> getU64 (replicate n 0) = Ret (0, replicate (n - 8) 0)"
  "8 \<le> n \<Longrightarrow> loadByteArray (replicate n 0) = Ret ([], replicate (n - 8) 0)"
  "8 \<le> n \<Longrightarrow> load_items k f (replicate n 0) = Ret ([], replicate (n - 8) 0)"
  by (simp_all add: getBytes_def getU32_def getU64_def getArrayItemCount_def loadByteArray_def load_items_def skip_pad_def
      array_pad_def LE32_def LE64_def le_val_zeros min_def)

lemma zeros_arrays:
  "40 \<le> n \<Longrightarrow> sparseArray_load (replicate n 0) = Ret (no_items, replicate (n - 40) 0)"
  "24 \<le> n \<Longrightarrow> bitEntryArray_load (replicate n 0) =
     Ret (\<lparr>be_Items = [], be_BitsPerEntry = 0, be_EntryBitMask = 0, be_TotalEntries = 0\<rparr>, replicate (n - 24) 0)"
  by (simp_all add: sparseArray_load_def bitEntryArray_load_def loadDwordArray_def loadBaseValsArray_def zeros_stream no_items_def)

lemma zeros_load: "\<exists>d. loadFromStream (replicate 216 0) = Ret (d, [])"
  by (subst loadFromStream.simps)
    (simp add: zeros_arrays zeros_stream pathFragmentTable_load_def loadHashEntryArray_def no_items_def)

lemma one_mar_blob: "\<exists>mf. marFile_load ([0x4D, 0x41, 0x52, 0] @ replicate 216 0) = Ret mf"
proof -
  obtain d where "loadFromStream (replicate 216 0) = Ret (d, [])" using zeros_load by blast
  then show ?thesis by (simp add: marFile_load_def db_load_def getU32_def getBytes_def LE32_def marMagic_def)
qed

lemma one_mar_tables:
  "mndx_tables (one_mar idx) = Panic \<longleftrightarrow> 3 \<le> unat idx"
  "safe (mndx_tables (one_mar idx)) \<longleftrightarrow> unat idx < 3"
  "mndx_info (one_mar idx) = Ret info \<Longrightarrow> read_mars (one_mar idx) info = Ret mars \<Longrightarrow> mi \<in> set mars \<Longrightarrow> unat (mr_MarIndex mi) = unat idx"
proof -
  let ?info = "\<lparr>mi_HeaderVersion = 1, mi_FormatVersion = 1, mi_Field1C = 0, mi_Field20 = 0, mi_MarInfoOffset = 40, mi_MarInfoCount = 1,
     mi_MarInfoSize = 20, mi_CKeyEntriesOffset = 60, mi_CKeyEntriesCount = 0, mi_FileNameCount = 0, mi_CKeyEntrySize = 24\<rparr>"
  let ?mi = "\<lparr>mr_MarIndex = word_of_nat (unat idx), mr_MarDataSize = 220, mr_MarDataSizeHi = 0, mr_MarDataOffset = 60, mr_MarDataOffsetHi = 0\<rparr>"
  have info: "mndx_info (one_mar idx) = Ret ?info"
    by (simp add: mndx_info_def one_mar_def mndxMagic_def mndxMarInfoSz_def mndxCKeyEntrySz_def)
  have mars: "read_mars (one_mar idx) ?info = Ret [?mi]"
    by (simp add: read_mars_def read_MarInfo_def one_mar_def mndxMarInfoSz_def marMagic_def Let_def)
  have es: "read_mndx_entries (one_mar idx) ?info = Ret []"
    by (simp add: read_mndx_entries_def one_mar_def mndxCKeyEntrySz_def)
  obtain mf where mf: "marFile_load ([0x4D, 0x41, 0x52, 0] @ replicate 216 0) = Ret mf" using one_mar_blob by blast
  have "subslice (one_mar idx) 60 280 = Ret ([0x4D, 0x41, 0x52, 0] @ replicate 216 0)"
    by (simp add: one_mar_def subslice_def)
  moreover have "length (one_mar idx) = 280" by (simp add: one_mar_def)
  moreover have "unat (word_of_nat (unat idx) :: u32) = unat idx"
    using unsigned_less [of idx, where 'a = nat] by (intro unat_word_of_nat) simp
  ultimately have load: "load_mars (one_mar idx) [?mi] (replicate marCount None) =
      (if unat idx < 3 then Ret ((replicate marCount None)[unat idx := Some mf]) else Panic)"
    using mf by (simp add: marCount_def)
  show "mndx_tables (one_mar idx) = Panic \<longleftrightarrow> 3 \<le> unat idx" "safe (mndx_tables (one_mar idx)) \<longleftrightarrow> unat idx < 3"
    using load by (simp_all add: mndx_tables_def info mars es marCount_def)
  show "mndx_info (one_mar idx) = Ret info \<Longrightarrow> read_mars (one_mar idx) info = Ret mars \<Longrightarrow> mi \<in> set mars \<Longrightarrow> unat (mr_MarIndex mi) = unat idx"
    using info mars \<open>unat (word_of_nat (unat idx) :: u32) = unat idx\<close> by auto
qed

theorem mndx_tables_safe_witness: "safe (mndx_tables (one_mar 2))"
proof (rule mndx_tables_safe)
  fix info mars mi
  assume "mndx_info (one_mar 2) = Ret info" "read_mars (one_mar 2) info = Ret mars" "mi \<in> set (take marCount mars)"
  then show "unat (mr_MarIndex mi) < marCount" using one_mar_tables(3) by (fastforce simp: marCount_def dest: in_set_takeD)
qed

text \<open>
  The MAR index of the file is used unchecked: the file whose one MAR info loads and carries an index
  \<open>idx\<close> of three or more makes Parse panic.
\<close>

theorem mndx_mar_index_panics: "3 \<le> unat idx \<Longrightarrow> mndx_Parse (one_mar idx) = Some Panic"
  using one_mar_tables(1) [of idx] by (simp add: mndx_Parse_def)

theorem mndx_mar_index_panics_witness: "mndx_Parse (one_mar 3) = Some Panic"
  by (rule mndx_mar_index_panics) simp

section \<open>Detection\<close>

text \<open>
  C31. Detecting the root format of any byte string shorter than four gigabytes, with any of
  the probes registered in any order, ends in a handler or an error in all cases but one: it
  panics exactly when the MNDX probe is reached, the string starts with the MNDX signature and
  has a header's 12 bytes, and the MNDX parser itself panics on it or does not end. No other
  probe or parser can panic.
\<close>

theorem root_Detect_panics_iff:
  assumes "length data < 2 ^ 32" "set ps \<subseteq> set (root_probes uni order mndx_root)"
  shows "Detect (registered ps) data = Panic \<longleftrightarrow>
    (\<exists>qs rs. ps = qs @ mndx_Probe mndx_root # rs \<and> (\<forall>q\<in>set qs. \<exists>e. q data = Fail e))
    \<and> 12 \<le> length data \<and> rdLE32 data 0 4 = Ret mndxMagic \<and> (mndx_Parse data = None \<or> mndx_Parse data = Some Panic)"
proof -
  have root: "mndx_root data = Panic \<longleftrightarrow> mndx_Parse data = None \<or> mndx_Parse data = Some Panic"
    by (auto simp: mndx_root_def bnd_eq_Panic split: option.split)
  have "p = mndx_Probe mndx_root" if "ps = qs @ p # rs" "p data = Panic" for qs p rs
    using root_probe_panics [OF assms(1)] assms(2) that by auto
  then show ?thesis
    using mndx_Probe_panics [of mndx_root data] unfolding registered_id Detect_Panic_iff root by blast
qed

theorem root_Detect_panics_iff_witness:
  "Detect (registered (root_probes id (\<lambda>_. []) mndx_root)) (one_mar 3) = Panic"
proof -
  let ?d = "one_mar 3"
  have m: "rdLE32 ?d 0 4 = Ret mndxMagic" by (simp add: one_mar_def mndxMagic_def)
  have len: "length ?d = 280" by (simp add: one_mar_def)
  have "\<exists>e. probe_as d3_iface d3_Probe ?d = Fail e" "\<exists>e. probe_as install_iface install_Probe ?d = Fail e"
    by (simp_all add: probe_as_def d3_Probe_def install_Probe_def one_mar_def guard_def rootSignature_def
        subdirSignature_def MagicInstall_def)
  then have "\<forall>q\<in>set [probe_as d3_iface d3_Probe, probe_as install_iface install_Probe]. \<exists>e. q ?d = Fail e" by auto
  moreover have "\<exists>rs. root_probes id (\<lambda>_. []) mndx_root =
      [probe_as d3_iface d3_Probe, probe_as install_iface install_Probe] @ mndx_Probe mndx_root # rs"
    by (simp add: root_probes_def)
  ultimately have "\<exists>qs rs. root_probes id (\<lambda>_. []) mndx_root = qs @ mndx_Probe mndx_root # rs \<and>
      (\<forall>q\<in>set qs. \<exists>e. q ?d = Fail e)" by blast
  moreover have "mndx_Parse ?d = Some Panic" using one_mar_tables(1) [of 3] by (simp add: mndx_Parse_def)
  ultimately show ?thesis
    using m len by (subst root_Detect_panics_iff [OF _ subset_refl]) simp_all
qed

section \<open>Names from the two tries\<close>

lemma visit_keeps:
  assumes "\<And>p i s. (p, i) \<in> set ps \<Longrightarrow> P s \<Longrightarrow> \<exists>s'. fn p i s = Ret (True, s') \<and> P s'"
  shows "P acc \<Longrightarrow> \<exists>s'. visit fn ps acc = Ret s' \<and> P s'"
  using assms
proof (induction ps arbitrary: acc)
  case (Cons q qs)
  then obtain s1 where "fn (fst q) (snd q) acc = Ret (True, s1)" "P s1" by (metis list.set_intros(1) prod.collapse)
  then show ?case using Cons.IH [of s1] Cons.prems(2) by simp
qed simp

lemma visit_reaches:
  assumes "\<And>p i s. (p, i) \<in> set ps \<Longrightarrow> P s \<Longrightarrow> \<exists>s'. fn p i s = Ret (True, s') \<and> P s'"
    and "\<And>s s'. P s \<Longrightarrow> fn p i s = Ret (True, s') \<Longrightarrow> R s'"
    and "\<And>q j s s'. (q, j) \<in> set ps \<Longrightarrow> P s \<Longrightarrow> R s \<Longrightarrow> fn q j s = Ret (True, s') \<Longrightarrow> R s'"
    and "(p, i) \<in> set ps" "P acc"
  shows "\<exists>s'. visit fn ps acc = Ret s' \<and> P s' \<and> R s'"
  using assms
proof (induction ps arbitrary: acc)
  case (Cons q qs)
  have total: "\<exists>s'. fn p' j s = Ret (True, s') \<and> P s' \<and> R s'" if "(p', j) \<in> set qs" "P s \<and> R s" for p' j s
    using Cons.prems(1) [of p' j s] Cons.prems(3) [of p' j s] that by fastforce
  obtain s1 where s1: "fn (fst q) (snd q) acc = Ret (True, s1)" "P s1"
    using Cons.prems(1) [of "fst q" "snd q" acc] Cons.prems(5) by auto
  show ?case
  proof (cases "q = (p, i)")
    case True
    then have "P s1 \<and> R s1" using s1 Cons.prems(2,5) by auto
    then show ?thesis using visit_keeps [of qs "\<lambda>s. P s \<and> R s" fn s1, OF total] s1(1) by auto
  next
    case False
    then have "(p, i) \<in> set qs" using Cons.prems(4) by auto
    then have "\<exists>s'. visit fn qs s1 = Ret s' \<and> P s' \<and> R s'"
      by (intro Cons.IH [OF Cons.prems(1) [OF list.set_intros(2)] Cons.prems(2) Cons.prems(3) [OF list.set_intros(2)] _ s1(2)])
    then show ?thesis using s1(1) by simp
  qed
qed simp

text \<open>Group \<open>g\<close> holds the entries from its start up to the next one; the entries after the last mark are in none.\<close>

definition in_group :: "mndx_CKeyEntry list \<Rightarrow> nat \<Rightarrow> nat \<Rightarrow> bool" where
  "in_group es g i \<longleftrightarrow> g + 1 < length (group_starts es) \<and> unat (group_starts es ! g) \<le> i \<and> i < unat (group_starts es ! (g + 1))"

lemma group_starts_facts:
  assumes "length es + 1 < 2 ^ 32"
  shows "x \<in> set (group_starts es) \<Longrightarrow> unat x \<le> length es" "length (group_starts es) < 2 ^ 32"
proof -
  have "set (List.map_filter f (List.enumerate 0 es)) \<subseteq> word_of_nat ` {..length es}"
    if "\<And>i e. f (i, e) = None \<or> f (i, e) = Some (word_of_nat (i + 1))" for f :: "nat \<times> mndx_CKeyEntry \<Rightarrow> u32 option"
  proof
    fix x
    assume "x \<in> set (List.map_filter f (List.enumerate 0 es))"
    then obtain i e where "(i, e) \<in> set (List.enumerate 0 es)" "f (i, e) = Some x" by (auto simp: map_filter_def)
    moreover from this have "i < length es" by (auto simp: in_set_enumerate_eq)
    ultimately show "x \<in> word_of_nat ` {..length es}" using that [of i e] by (auto intro!: image_eqI [of _ _ "i + 1"])
  qed
  then have "set (group_starts es) \<subseteq> word_of_nat ` {..length es}"
    by (auto simp: group_starts_def intro!: image_eqI [of _ _ 0])
  moreover have "unat (word_of_nat i :: u32) = i" if "i \<le> length es" for i using that assms by (intro unat_word_of_nat) simp
  ultimately show "x \<in> set (group_starts es) \<Longrightarrow> unat x \<le> length es" by auto
  have "length (List.map_filter f xs) \<le> length xs" for f :: "nat \<times> mndx_CKeyEntry \<Rightarrow> u32 option" and xs
    by (simp add: map_filter_def)
  from this [of _ "List.enumerate 0 es"] have "length (group_starts es) \<le> length es + 1"
    by (simp add: group_starts_def)
  then show "length (group_starts es) < 2 ^ 32" using assms by simp
qed

text \<open>The handler while names are added: \<open>seen\<close> are the names of the trie with their numbers.\<close>

definition full_name :: "mndx_Handler \<Rightarrow> bytes \<Rightarrow> nat \<Rightarrow> bytes" where
  "full_name h name i = mx_packages h ! unat (mc_PackageIndex (mx_entries h ! i)) @ lit ''/'' @ name"

definition named_by :: "mndx_Handler \<Rightarrow> bytes \<Rightarrow> nat \<Rightarrow> bool" where
  "named_by h name i \<longleftrightarrow> unat (mc_PackageIndex (mx_entries h ! i)) < length (mx_packages h) \<and> i < length (mx_entries h)"

definition resolved :: "(bytes \<times> nat) set \<Rightarrow> mndx_Handler \<Rightarrow> bool" where
  "resolved S h \<longleftrightarrow> (\<forall>n i. mx_names h n = Some i \<longrightarrow> (\<exists>name. (name, i) \<in> S \<and> named_by h name i \<and> n = full_name h name i))"

definition same_tables :: "mndx_Handler \<Rightarrow> mndx_Handler \<Rightarrow> bool" where
  "same_tables h h' \<longleftrightarrow> mx_entries h' = mx_entries h \<and> mx_packages h' = mx_packages h \<and>
     mx_fileNameIdxToEntry h' = mx_fileNameIdxToEntry h \<and> mx_names h \<subseteq>\<^sub>m mx_names h'"

lemma same_trans: "same_tables h1 h2 \<Longrightarrow> same_tables h2 h3 \<Longrightarrow> same_tables h1 h3"
  by (auto simp: same_tables_def intro: map_le_trans)

lemma add_name_adds:
  assumes "i < length (mx_entries h)" "(name, i) \<in> S" "resolved S h" "length (mx_packages h) < 2 ^ 32"
  shows "\<exists>h'. add_name h name i = Ret h' \<and> same_tables h h' \<and> resolved S h' \<and>
    (named_by h name i \<longrightarrow> mx_names h' (full_name h name i) \<noteq> None)"
proof -
  have pkg: "word_of_nat (length (mx_packages h)) \<le> mc_PackageIndex e \<longleftrightarrow> length (mx_packages h) \<le> unat (mc_PackageIndex e)"
    for e :: mndx_CKeyEntry
    using lt_length_word [OF assms(4)] by simp
  have res: "resolved S (h\<lparr>mx_names := (mx_names h)(full_name h name i \<mapsto> i), mx_orderedNames := xs\<rparr>)" if "named_by h name i" for xs
    using assms(2,3) that by (auto simp: resolved_def named_by_def full_name_def)
  show ?thesis
  proof (cases "named_by h name i \<and> mx_names h (full_name h name i) = None")
    case True
    let ?h = "h\<lparr>mx_names := (mx_names h)(full_name h name i \<mapsto> i), mx_orderedNames := mx_orderedNames h @ [full_name h name i]\<rparr>"
    have "add_name h name i = Ret ?h"
      using True assms(1) pkg by (auto simp: add_name_def at_def named_by_def full_name_def Let_def not_le)
    then show ?thesis using True res by (auto simp: same_tables_def map_le_def)
  next
    case False
    then have "add_name h name i = Ret h"
      using assms(1) pkg by (auto simp: add_name_def at_def named_by_def full_name_def Let_def not_le)
    then show ?thesis using False assms(3) by (auto simp: same_tables_def)
  qed
qed

lemma add_names_adds:
  assumes "\<And>i. i \<in> set js \<Longrightarrow> i < length (mx_entries h) \<and> (name, i) \<in> S" "resolved S h" "length (mx_packages h) < 2 ^ 32"
  shows "\<exists>h'. add_names name js h = Ret h' \<and> same_tables h h' \<and> resolved S h' \<and>
    (\<forall>i\<in>set js. named_by h name i \<longrightarrow> mx_names h' (full_name h name i) \<noteq> None)"
  using assms
proof (induction js arbitrary: h)
  case Nil
  then show ?case by (simp add: same_tables_def)
next
  case (Cons j js)
  obtain h1 where h1: "add_name h name j = Ret h1" "same_tables h h1" "resolved S h1"
      "named_by h name j \<Longrightarrow> mx_names h1 (full_name h name j) \<noteq> None"
    using add_name_adds [of j h name S] Cons.prems by auto
  have same: "mx_entries h1 = mx_entries h" "mx_packages h1 = mx_packages h" using h1(2) by (simp_all add: same_tables_def)
  obtain h2 where h2: "add_names name js h1 = Ret h2" "same_tables h1 h2" "resolved S h2"
      "\<forall>i\<in>set js. named_by h1 name i \<longrightarrow> mx_names h2 (full_name h1 name i) \<noteq> None"
    using Cons.IH [of h1] Cons.prems h1(3) same by auto
  have "mx_names h2 (full_name h name j) \<noteq> None" if "named_by h name j"
    using h1(4) [OF that] h2(2) by (auto simp: same_tables_def map_le_def dom_def)
  then show ?case
    using h1(1) h2 same_trans [OF h1(2) h2(2)] same by (auto simp: named_by_def full_name_def)
qed

definition group_names :: "mndx_CKeyEntry list \<Rightarrow> (bytes \<times> u32) list \<Rightarrow> (bytes \<times> nat) set" where
  "group_names es names = {(name, i). \<exists>idx. (name, idx) \<in> set names \<and> in_group es (unat idx) i}"

lemma name_fn_adds:
  assumes "(name, idx) \<in> set names" "mx_entries h = es" "mx_fileNameIdxToEntry h = group_starts es" "length es + 1 < 2 ^ 32"
    and "length (mx_packages h) < 2 ^ 32" "resolved (group_names es names) h" "es \<noteq> []"
  shows "\<exists>h'. name_fn name idx h = Ret (True, h') \<and> same_tables h h' \<and> resolved (group_names es names) h' \<and>
    (\<forall>i. in_group es (unat idx) i \<and> named_by h name i \<longrightarrow> mx_names h' (full_name h name i) \<noteq> None)"
proof -
  let ?starts = "group_starts es"
  note starts = group_starts_facts [OF assms(4)]
  have pos: "?starts \<noteq> []" using assms(7) by (simp add: group_starts_def)
  have n: "(word_of_nat (length ?starts) :: u32) - 1 \<le> idx \<longleftrightarrow> length ?starts \<le> unat idx + 1"
  proof -
    have "(word_of_nat (length ?starts) :: u32) - 1 = word_of_nat (length ?starts - 1)" using pos by (cases ?starts) auto
    then show ?thesis using lt_length_word [of "length ?starts - 1" idx] starts(2) by auto
  qed
  show ?thesis
  proof (cases "length ?starts \<le> unat idx + 1")
    case True
    then have "name_fn name idx h = Ret (True, h)" using n assms(3) by (simp add: name_fn_def Let_def)
    then show ?thesis using assms(6) True by (auto simp: same_tables_def in_group_def)
  next
    case False
    have suc: "unat (idx + 1) = unat idx + 1" using False starts(2) by (simp add: unat_word_ariths)
    have small: "idx + 1 < word_of_nat (length ?starts)"
      using lt_length_word [OF starts(2), of "idx + 1"] False by (simp add: suc not_le [symmetric])
    let ?js = "[unat (?starts ! unat idx)..<unat (?starts ! (unat idx + 1))]"
    have run: "name_fn name idx h = bnd (add_names name ?js h) (\<lambda>h. Ret (True, h))"
      using False n small assms(3) suc by (simp add: name_fn_def Let_def at_def)
    have "i < length es \<and> (name, i) \<in> group_names es names \<and> in_group es (unat idx) i" if "i \<in> set ?js" for i
      using that False assms(1) starts(1) [of "?starts ! (unat idx + 1)"] by (auto simp: group_names_def in_group_def)
    then obtain h' where "add_names name ?js h = Ret h'" "same_tables h h'" "resolved (group_names es names) h'"
        "\<forall>i\<in>set ?js. named_by h name i \<longrightarrow> mx_names h' (full_name h name i) \<noteq> None"
      using add_names_adds [of ?js h name, OF _ assms(6,5)] assms(2) by blast
    then show ?thesis using run by (auto simp: in_group_def)
  qed
qed

lemma package_fn_keeps: "length pk < 2 ^ 32 \<Longrightarrow> \<exists>pk'. package_fn name i pk = Ret (True, pk') \<and> length pk' = length pk"
  by (simp add: package_fn_def)

text \<open>The packages of two well-formed tries, then the names: what \<^verbatim>\<open>buildNameIndex\<close> does, without the trie code.\<close>

lemma buildNameIndex_visits:
  assumes "length (mx_marFiles h0) = 3" "mx_marFiles h0 ! 0 = Some \<lparr>mf_db = Some dp\<rparr>" "mx_marFiles h0 ! 1 = Some \<lparr>mf_db = Some ds\<rparr>"
    and "trie_ok dp np" "steps_below dp np 0 < maxTrieSteps" "trie_ok ds ns" "steps_below ds ns 0 < maxTrieSteps"
    and "visit package_fn (trie_names dp np)
      (replicate (unat (min (sa_ValidItemCount (db_FileNameIndexes dp)) (word_of_nat (length (mx_entries h0))))) []) = Ret packages"
    and "packages \<noteq> []"
  shows "buildNameIndex h0 = Some (visit name_fn (trie_names ds ns)
    (h0\<lparr>mx_fileNameIdxToEntry := group_starts (mx_entries h0), mx_packages := packages, mx_names := (\<lambda>_. None)\<rparr>))"
  using assms(1-3,8,9)
  by (simp add: buildNameIndex_def list_packages_def marPackageNames_def marStrippedNames_def at_def Let_def fileNameCount_def
      enumerate_is_visit [OF assms(4,5)] enumerate_is_visit [OF assms(6,7)])

lemma names_resolve:
  assumes "length (mx_marFiles h0) = 3" "mx_marFiles h0 ! 0 = Some \<lparr>mf_db = Some dp\<rparr>" "mx_marFiles h0 ! 1 = Some \<lparr>mf_db = Some ds\<rparr>"
    and "trie_ok dp np" "steps_below dp np 0 < maxTrieSteps" "trie_ok ds ns" "steps_below ds ns 0 < maxTrieSteps"
    and es: "mx_entries h0 = es" "length es + 1 < 2 ^ 32"
    and pkg: "(pkg, p) \<in> set (trie_names dp np)" "\<And>q. (q, p) \<in> set (trie_names dp np) \<Longrightarrow> q = pkg"
      "p < min (sa_ValidItemCount (db_FileNameIndexes dp)) (word_of_nat (length es))"
    and name: "(name, idx) \<in> set (trie_names ds ns)" "in_group es (unat idx) i" "mc_PackageIndex (es ! i) = p"
  shows "\<exists>h j. buildNameIndex h0 = Some (Ret h) \<and> mx_entries h = es \<and> mx_names h (pkg @ lit ''/'' @ name) = Some j \<and>
    (\<exists>name'. (name', j) \<in> group_names es (trie_names ds ns) \<and> named_by h name' j \<and> pkg @ lit ''/'' @ name = full_name h name' j)"
proof -
  define n where "n = unat (min (sa_ValidItemCount (db_FileNameIndexes dp)) (word_of_nat (length es)))"
  have n: "unat p < n" "n \<le> length es" "n < 2 ^ 32"
  proof -
    show "unat p < n" using pkg(3) by (simp only: n_def word_less_nat_alt)
    have "unat (word_of_nat (length es) :: u32) = length es" using es(2) by (intro unat_word_of_nat) simp
    moreover have "n \<le> unat (word_of_nat (length es) :: u32)" unfolding n_def by (simp add: word_le_nat_alt [symmetric])
    ultimately show "n \<le> length es" "n < 2 ^ 32" using es(2) by simp_all
  qed
  have "\<exists>pk. visit package_fn (trie_names dp np) (replicate n []) = Ret pk \<and> length pk = n \<and> pk ! unat p = pkg"
  proof (rule visit_reaches [OF _ _ _ pkg(1)])
    show "\<exists>s'. package_fn q j s = Ret (True, s') \<and> length s' = n" if "length s = n" for q j s
      using package_fn_keeps [of s q j] that n(3) by simp
    show "s' ! unat p = pkg" if "length s = n" "package_fn pkg p s = Ret (True, s')" for s s'
      using that lt_length_word [OF n(3), of p] n(1) by (auto simp: package_fn_def not_le [symmetric])
    show "s' ! unat p = pkg" if "(q, j) \<in> set (trie_names dp np)" "s ! unat p = pkg" "length s = n" "package_fn q j s = Ret (True, s')" for q j s s'
      using that pkg(2) n(1) by (cases "j = p") (auto simp: package_fn_def nth_list_update word_unat_eq_iff split: if_splits)
  qed simp
  then obtain pk where pk: "visit package_fn (trie_names dp np) (replicate n []) = Ret pk" "length pk = n" "pk ! unat p = pkg" by blast
  define h1 where "h1 = h0\<lparr>mx_fileNameIdxToEntry := group_starts es, mx_packages := pk, mx_names := (\<lambda>_. None)\<rparr>"
  have "pk \<noteq> []" using pk(2) n(1) by auto
  then have run: "buildNameIndex h0 = Some (visit name_fn (trie_names ds ns) h1)"
    using buildNameIndex_visits [OF assms(1-7), of pk] pk n(1) es(1) by (auto simp: n_def h1_def)
  have i: "i < length es" 
    using name(2) group_starts_facts(1) [OF es(2), of "group_starts es ! (unat idx + 1)"] by (simp add: in_group_def)
  define P where "P = (\<lambda>h. mx_entries h = es \<and> mx_packages h = pk \<and> mx_fileNameIdxToEntry h = group_starts es \<and>
    resolved (group_names es (trie_names ds ns)) h)"
  have step: "\<exists>h'. name_fn q j h = Ret (True, h') \<and> P h' \<and> mx_names h \<subseteq>\<^sub>m mx_names h' \<and>
      (\<forall>i. in_group es (unat j) i \<and> named_by h q i \<longrightarrow> mx_names h' (full_name h q i) \<noteq> None)"
    if "(q, j) \<in> set (trie_names ds ns)" "P h" for q j h
    using name_fn_adds [OF that(1), of h es] that(2) es(2) n pk(2) i by (fastforce simp: P_def same_tables_def)
  have full: "named_by h name i \<and> full_name h name i = pkg @ lit ''/'' @ name" if "P h" for h
    using that name(3) n(1) pk i by (simp add: P_def named_by_def full_name_def)
  have "\<exists>h. visit name_fn (trie_names ds ns) h1 = Ret h \<and> P h \<and> mx_names h (pkg @ lit ''/'' @ name) \<noteq> None"
  proof (rule visit_reaches [OF _ _ _ name(1)])
    show "\<exists>s'. name_fn q j s = Ret (True, s') \<and> P s'" if "(q, j) \<in> set (trie_names ds ns)" "P s" for q j s
      using step [OF that] by blast
    show "mx_names s' (pkg @ lit ''/'' @ name) \<noteq> None" if "P s" "name_fn name idx s = Ret (True, s')" for s s'
      using step [OF name(1) that(1)] full [OF that(1)] name(2) that(2) by auto
    show "mx_names s' (pkg @ lit ''/'' @ name) \<noteq> None"
      if "(q, j) \<in> set (trie_names ds ns)" "P s" "mx_names s (pkg @ lit ''/'' @ name) \<noteq> None" "name_fn q j s = Ret (True, s')" for q j s s'
      using step [OF that(1,2)] that(3,4) by (auto simp: map_le_def dom_def)
    show "P h1" using es(1) by (simp add: P_def h1_def resolved_def)
  qed
  then show ?thesis using run by (force simp: P_def resolved_def)
qed

text \<open>
  C18. When the package trie and the name trie of an MNDX root with fewer than 2^32 - 1 entries
  are well-formed and fit the step limit, the name index is built. For a package that alone has
  its number, when that number is below both the items of the package trie's table and the
  number of entries, and for a name and an entry of the name's group that carries the package,
  the lookup of package/name gives an entry: one of the group of a name of the trie whose
  package and name make up the same path.
\<close>

theorem mndx_names_resolve:
  assumes "length (mx_marFiles h0) = 3" "mx_marFiles h0 ! 0 = Some \<lparr>mf_db = Some dp\<rparr>" "mx_marFiles h0 ! 1 = Some \<lparr>mf_db = Some ds\<rparr>"
    and "trie_ok dp np" "steps_below dp np 0 < maxTrieSteps" "trie_ok ds ns" "steps_below ds ns 0 < maxTrieSteps"
    and "mx_entries h0 = es" "length es + 1 < 2 ^ 32"
    and "(pkg, p) \<in> set (trie_names dp np)" "\<And>q. (q, p) \<in> set (trie_names dp np) \<Longrightarrow> q = pkg"
    and "p < min (sa_ValidItemCount (db_FileNameIndexes dp)) (word_of_nat (length es))"
    and "(name, idx) \<in> set (trie_names ds ns)" "in_group es (unat idx) i" "mc_PackageIndex (es ! i) = p"
  shows "\<exists>h j. buildNameIndex h0 = Some (Ret h) \<and> mndx_LookupByName h (pkg @ lit ''/'' @ name) = Some (mndx_entry h j) \<and>
    (\<exists>name'. (name', j) \<in> group_names es (trie_names ds ns) \<and> pkg @ lit ''/'' @ name = full_name h name' j)"
  using names_resolve [OF assms] by (fastforce simp: mndx_LookupByName_def)

text \<open>Two entries, each a group of its own; the small tree of \<open>MndxLouds\<close> both as packages and as names.\<close>

definition two_entries :: "mndx_CKeyEntry list" where
  "two_entries = [
     \<lparr>mc_Flags = 0x80000001, mc_CKey = replicate 16 7, mc_ContentSize = 5, mc_IsLast = True, mc_PackageIndex = 1\<rparr>,
     \<lparr>mc_Flags = 0x80000000, mc_CKey = replicate 16 8, mc_ContentSize = 6, mc_IsLast = True, mc_PackageIndex = 0\<rparr>]"

definition two_names :: mndx_Handler where
  "two_names = \<lparr>mx_info = \<lparr>mi_HeaderVersion = 1, mi_FormatVersion = 1, mi_Field1C = 0, mi_Field20 = 0, mi_MarInfoOffset = 40,
       mi_MarInfoCount = 2, mi_MarInfoSize = 20, mi_CKeyEntriesOffset = 60, mi_CKeyEntriesCount = 2, mi_FileNameCount = 2, mi_CKeyEntrySize = 24\<rparr>,
     mx_mars = [], mx_entries = two_entries, mx_marFiles = [Some \<lparr>mf_db = Some small_db\<rparr>, Some \<lparr>mf_db = Some small_db\<rparr>, None],
     mx_packages = [], mx_fileNameIdxToEntry = [], mx_names = (\<lambda>_. None), mx_orderedNames = []\<rparr>"

lemma two_names_facts:
  "length (mx_marFiles two_names) = 3" "mx_marFiles two_names ! 0 = Some \<lparr>mf_db = Some small_db\<rparr>"
  "mx_marFiles two_names ! 1 = Some \<lparr>mf_db = Some small_db\<rparr>" "trie_ok small_db 4" "steps_below small_db 4 0 < maxTrieSteps"
  "mx_entries two_names = two_entries" "length two_entries + 1 < 2 ^ 32"
  "([97, 99], 1) \<in> set (trie_names small_db 4)" "\<And>q. (q, 1) \<in> set (trie_names small_db 4) \<Longrightarrow> q = [97, 99]"
  "1 < min (sa_ValidItemCount (db_FileNameIndexes small_db)) (word_of_nat (length two_entries))"
  "([98], 0) \<in> set (trie_names small_db 4)" "in_group two_entries (unat (0 :: u32)) 0" "mc_PackageIndex (two_entries ! 0) = 1"
proof -
  have starts: "group_starts two_entries = [0, 1, 2]"
    by (simp add: group_starts_def two_entries_def map_filter_def numeral_2_eq_2)
  have "count_bits 32 12 = 2" by (simp add: count_bits_def upt_rec small_bits)
  then have count: "sa_ValidItemCount (db_FileNameIndexes small_db) = 2"
    by (simp add: small_db_def word_array_def Let_def packed_counts)
  show "length (mx_marFiles two_names) = 3" "mx_marFiles two_names ! 0 = Some \<lparr>mf_db = Some small_db\<rparr>"
    "mx_marFiles two_names ! 1 = Some \<lparr>mf_db = Some small_db\<rparr>" "trie_ok small_db 4" "steps_below small_db 4 0 < maxTrieSteps"
    "mx_entries two_names = two_entries" "length two_entries + 1 < 2 ^ 32"
    "([97, 99], 1) \<in> set (trie_names small_db 4)" "\<And>q. (q, 1) \<in> set (trie_names small_db 4) \<Longrightarrow> q = [97, 99]"
    "1 < min (sa_ValidItemCount (db_FileNameIndexes small_db)) (word_of_nat (length two_entries))"
    "([98], 0) \<in> set (trie_names small_db 4)" "in_group two_entries (unat (0 :: u32)) 0" "mc_PackageIndex (two_entries ! 0) = 1"
    by (simp_all add: two_names_def two_entries_def small_ok small_names maxTrieSteps_def count in_group_def starts [unfolded two_entries_def])
qed

lemma two_names_resolve:
  "\<exists>h j. buildNameIndex two_names = Some (Ret h) \<and> mx_names h (lit ''ac/b'') = Some j"
proof -
  have "lit ''ac/b'' = [97, 99] @ lit ''/'' @ [98]" by (simp add: lit_def)
  then show ?thesis
    using names_resolve [OF two_names_facts(1-5) two_names_facts(4-13)] by metis
qed

theorem mndx_names_resolve_witness:
  "\<exists>h j. buildNameIndex two_names = Some (Ret h) \<and> mndx_LookupByName h (lit ''ac/b'') = Some (mndx_entry h j)"
proof -
  have "lit ''ac/b'' = [97, 99] @ lit ''/'' @ [98]" by (simp add: lit_def)
  then show ?thesis
    using mndx_names_resolve [OF two_names_facts(1-5) two_names_facts(4-13)] by metis
qed

theorem mndx_names_consistent_witness:
  "\<exists>h. buildNameIndex two_names = Some (Ret h) \<and> mx_names h (lit ''ac/b'') \<noteq> None \<and>
     mndx_LookupByName h (lit ''ac/b'') = map_of (mndx_All h) (lit ''ac/b'') \<and> distinct (map fst (mndx_All h))"
proof -
  obtain h where h: "buildNameIndex two_names = Some (Ret h)" "mx_names h (lit ''ac/b'') \<noteq> None"
    using two_names_resolve by auto
  have start: "mx_names two_names = (\<lambda>_. None)" "mx_orderedNames two_names = []" by (simp_all add: two_names_def)
  have "mx_orderedNames h \<noteq> []" using buildNameIndex_inv [OF h(1) start] h(2) by (auto simp: index_inv_def)
  then show ?thesis using mndx_names_consistent [OF h(1) start] h by auto
qed

text \<open>A file without MAR files and with one entry.\<close>

definition one_entry :: bytes where
  "one_entry = [0x4D, 0x4E, 0x44, 0x58, 1, 0, 0, 0, 1, 0, 0, 0] @
     [40, 0, 0, 0, 0, 0, 0, 0, 20, 0, 0, 0, 40, 0, 0, 0, 1, 0, 0, 0, 0, 0, 0, 0, 24, 0, 0, 0] @
     [0, 0, 0, 0x80] @ replicate 16 7 @ [5, 1, 0, 0]"

theorem mndx_lookup_reads_rows_witness:
  "\<exists>h. mndx_Parse one_entry = Some (Ret h) \<and>
     mndx_LookupByFileDataID h 0 = Some (zero_entry\<lparr>ce_CKey := replicate 16 7, ce_ContentSize := 261, ce_FileDataID := 0, ce_Flags := CEFlagHasCKey\<rparr>) \<and>
     mndx_LookupByFileDataID h 1 = None"
proof -
  let ?info = "\<lparr>mi_HeaderVersion = 1, mi_FormatVersion = 1, mi_Field1C = 0, mi_Field20 = 0, mi_MarInfoOffset = 40, mi_MarInfoCount = 0,
     mi_MarInfoSize = 20, mi_CKeyEntriesOffset = 40, mi_CKeyEntriesCount = 1, mi_FileNameCount = 0, mi_CKeyEntrySize = 24\<rparr>"
  have info: "mndx_info one_entry = Ret ?info"
    by (simp add: mndx_info_def one_entry_def mndxMagic_def mndxMarInfoSz_def mndxCKeyEntrySz_def)
  have "read_mars one_entry ?info = Ret []" by (simp add: read_mars_def one_entry_def mndxMarInfoSz_def)
  moreover have "\<exists>es. read_mndx_entries one_entry ?info = Ret es"
    by (simp add: read_mndx_entries_def read_mndx_entry_def one_entry_def mndxCKeyEntrySz_def)
  ultimately obtain h where h: "mndx_Parse one_entry = Some (Ret h)"
    by (auto simp: mndx_Parse_def mndx_tables_def info buildNameIndex_def list_packages_def marCount_def marPackageNames_def
        marStrippedNames_def at_def numeral_3_eq_3)
  from mndx_lookup_reads_rows [OF h] obtain info where rows: "mndx_info one_entry = Ret info"
    "\<And>i. mndx_LookupByFileDataID h i =
       (if i < mi_CKeyEntriesCount info then
          let row = unat (mi_CKeyEntriesOffset info) + 24 * unat i in
          Some (zero_entry\<lparr>ce_CKey := take 16 (drop (row + 4) one_entry),
            ce_ContentSize := word_of_nat (le_val (take 4 (drop (row + 20) one_entry))), ce_FileDataID := i, ce_Flags := CEFlagHasCKey\<rparr>)
        else None)" by blast
  have "info = ?info" using rows(1) info by simp
  then have "mndx_LookupByFileDataID h 0 = Some (zero_entry\<lparr>ce_CKey := replicate 16 7, ce_ContentSize := 261, ce_FileDataID := 0, ce_Flags := CEFlagHasCKey\<rparr>)"
    "mndx_LookupByFileDataID h 1 = None"
    by (simp_all add: rows(2) one_entry_def Let_def)
  then show ?thesis using h by blast
qed

end
