(* ===== verification/OverlayLaws.thy ===== *)
theory OverlayLaws
  imports PublicApi StorageLaws
begin

text \<open>
  The write overlay of \<^verbatim>\<open>pkg/casc\<close> against the plain map from names to contents it stands for, the
  reader of opened files, the listing, and the inputs on which they go wrong.
\<close>

section \<open>Names\<close>

lemma trim_prefix_ascii: "ascii s \<Longrightarrow> trim_with space_prefix s = dropWhile ascii_space s"
proof (induction s)
  case (Cons b s)
  have p: "space_prefix (b # s) = (if ascii_space b then 1 else 0)"
    using Cons.prems by (cases "b # s" rule: space_prefix.cases) (auto simp: ascii_def)
  show ?case using Cons by (subst trim_with.simps) (simp add: p ascii_def)
qed (simp add: trim_with.simps)

lemma trim_suffix_ascii: "ascii s \<Longrightarrow> trim_with space_suffix s = dropWhile ascii_space s"
proof (induction s)
  case (Cons b s)
  have p: "space_suffix (b # s) = (if ascii_space b then 1 else 0)"
    using Cons.prems by (cases "b # s" rule: space_suffix.cases) (auto simp: ascii_def)
  show ?case using Cons by (subst trim_with.simps) (simp add: p ascii_def)
qed (simp add: trim_with.simps)

lemma ascii_sub: "ascii s \<Longrightarrow> set t \<subseteq> set s \<Longrightarrow> ascii t"
  by (auto simp: ascii_def list_all_iff)

lemma TrimSpace_ascii:
  assumes "ascii s"
  shows "TrimSpace s = rev (dropWhile ascii_space (rev (dropWhile ascii_space s)))"
proof -
  have "ascii (rev (dropWhile ascii_space s))"
    using assms by (rule ascii_sub) (auto dest: set_dropWhileD)
  then show ?thesis by (simp add: TrimSpace_def trim_prefix_ascii [OF assms] trim_suffix_ascii)
qed

lemma ascii_TrimSpace: "ascii s \<Longrightarrow> ascii (TrimSpace s)"
  by (rule ascii_sub) (auto simp: TrimSpace_ascii dest!: set_dropWhileD)

lemma TrimSpace_idem:
  assumes "ascii s"
  shows "TrimSpace (TrimSpace s) = TrimSpace s"
proof -
  let ?t = "TrimSpace s"
  have "?t = [] \<or> \<not> ascii_space (hd ?t) \<and> \<not> ascii_space (last ?t)"
  proof (cases "?t = []")
    case False
    let ?d = "dropWhile ascii_space s"
    have "?d \<noteq> []"
    proof
      assume "?d = []"
      then show False using False by (simp only: TrimSpace_ascii [OF assms]) simp
    qed
    then have hd: "\<not> ascii_space (hd ?d)" by (rule hd_dropWhile)
    obtain u where u: "?d = ?t @ u"
    proof
      show "?d = ?t @ rev (takeWhile ascii_space (rev ?d))"
        by (simp add: TrimSpace_ascii [OF assms] flip: rev_append)
    qed
    have "hd ?d = hd ?t" using False by (subst u) simp
    moreover have "\<not> ascii_space (last ?t)"
      using False hd_dropWhile [of ascii_space "rev ?d"] by (simp add: TrimSpace_ascii [OF assms] last_rev)
    ultimately show ?thesis using hd by simp
  qed simp
  then have "dropWhile ascii_space ?t = ?t" "dropWhile ascii_space (rev ?t) = rev ?t"
    by (auto simp: dropWhile_eq_self_iff hd_rev)
  then show ?thesis by (simp add: TrimSpace_ascii [OF ascii_TrimSpace [OF assms]])
qed

lemma byte_unat:
  "unat (lower_byte c) = (if 65 \<le> unat c \<and> unat c \<le> 90 then unat c + 32 else unat c)"
  "unat (slash_byte c) = (if unat c = 92 then 47 else unat c)"
  "ascii_space c \<longleftrightarrow> unat c \<in> {9, 10, 11, 12, 13, 32}"
proof -
  have "unat (c + 32) = unat c + 32" if "unat c \<le> 90"
    using that by (simp add: unat_word_ariths)
  then show "unat (lower_byte c) = (if 65 \<le> unat c \<and> unat c \<le> 90 then unat c + 32 else unat c)"
    by (simp add: lower_byte_def word_le_nat_alt)
qed (simp_all add: slash_byte_def ascii_space_def word_unat_eq_iff)

lemma lower_byte_simps:
  "lower_byte (lower_byte c) = lower_byte c"
  "ascii_space (lower_byte c) \<longleftrightarrow> ascii_space c" "lower_byte c < 0x80 \<longleftrightarrow> c < 0x80"
  "slash_byte c < 0x80 \<longleftrightarrow> c < 0x80" "slash_byte (lower_byte (slash_byte c)) = lower_byte (slash_byte c)"
  by (auto simp: word_unat_eq_iff word_less_nat_alt byte_unat)

lemma ascii_map:
  "ascii (map slash_byte s) \<longleftrightarrow> ascii s" "ascii (map lower_byte s) \<longleftrightarrow> ascii s"
  by (simp_all add: ascii_def list_all_iff lower_byte_simps)

lemma TrimSpace_map_lower:
  assumes "ascii s"
  shows "TrimSpace (map lower_byte s) = map lower_byte (TrimSpace s)"
proof -
  have "(ascii_space \<circ> lower_byte) = ascii_space" by (simp add: fun_eq_iff lower_byte_simps)
  then show ?thesis
    using assms by (simp add: TrimSpace_ascii ascii_map dropWhile_map rev_map)
qed

lemma normalize_ascii:
  "ascii name \<Longrightarrow> normalizeOverlayName uni name = map lower_byte (TrimSpace (map slash_byte name))"
  by (simp add: normalizeOverlayName_def ToLower_def ascii_TrimSpace ascii_map)

lemma normalize_idem:
  assumes "ascii name"
  shows "normalizeOverlayName uni (normalizeOverlayName uni name) = normalizeOverlayName uni name"
    and "ascii (normalizeOverlayName uni name)"
proof -
  let ?t = "TrimSpace (map slash_byte name)"
  have t: "ascii ?t" using assms by (simp add: ascii_TrimSpace ascii_map)
  have n: "normalizeOverlayName uni name = map lower_byte ?t" using assms by (rule normalize_ascii)
  show a: "ascii (normalizeOverlayName uni name)" using t by (simp add: n ascii_map)
  have "set ?t \<subseteq> slash_byte ` set name"
    using assms by (auto simp: TrimSpace_ascii ascii_map dest!: set_dropWhileD)
  then have sl: "map slash_byte (map lower_byte ?t) = map lower_byte ?t"
    by (auto simp: lower_byte_simps)
  have "normalizeOverlayName uni (map lower_byte ?t) = map lower_byte (TrimSpace (map slash_byte (map lower_byte ?t)))"
    by (rule normalize_ascii) (simp add: ascii_map t)
  also have "\<dots> = map lower_byte ?t"
    unfolding sl using assms t by (simp add: TrimSpace_map_lower TrimSpace_idem ascii_map lower_byte_simps comp_def)
  finally show "normalizeOverlayName uni (normalizeOverlayName uni name) = normalizeOverlayName uni name"
    by (simp add: n)
qed

section \<open>A created storage is a map\<close>

text \<open>The operations a client has, and what a map from normal names to contents answers to them.\<close>

datatype overlay_op = OpAdd bytes bytes | OpRemove bytes | OpRename bytes bytes | OpOpen bytes

type_synonym answer = "bytes outcome"

definition spec_op :: "(bytes \<Rightarrow> bytes) \<Rightarrow> overlay_op \<Rightarrow> (bytes \<Rightarrow> bytes option) \<Rightarrow> answer \<times> (bytes \<Rightarrow> bytes option)" where
  "spec_op uni op m =
     (case op of
        OpAdd name data \<Rightarrow>
          let n = normalizeOverlayName uni name in
          if n = [] then (Fail ErrInvalidParameter, m)
          else if m n \<noteq> None then (Fail ErrAlreadyExists, m)
          else (Ret [], m(n \<mapsto> data))
      | OpRemove name \<Rightarrow>
          let n = normalizeOverlayName uni name in
          if n = [] then (Fail ErrInvalidParameter, m) else (Ret [], m(n := None))
      | OpRename oldName newName \<Rightarrow>
          let old = normalizeOverlayName uni oldName; new = normalizeOverlayName uni newName in
          if old = [] \<or> new = [] then (Fail ErrInvalidParameter, m)
          else if old = new then (Ret [], m)
          else
            (case m old of
               None \<Rightarrow> (Fail ErrFileNotFound, m)
             | Some data \<Rightarrow> if m new \<noteq> None then (Fail ErrAlreadyExists, m) else (Ret [], m(new \<mapsto> data, old := None)))
      | OpOpen name \<Rightarrow>
          (case m (normalizeOverlayName uni name) of
             None \<Rightarrow> (Fail ErrFileNotFound, m)
           | Some data \<Rightarrow> (Ret data, m)))"

text \<open>The same operations on the storage.\<close>

definition unit_answer :: "unit outcome \<times> 's \<Rightarrow> answer \<times> 's" where
  "unit_answer = (\<lambda>(r, s). (bnd r (\<lambda>_. Ret []), s))"

definition api_op :: "runtime \<Rightarrow> http \<Rightarrow> cache_faults \<Rightarrow> overlay_op \<Rightarrow> Api \<times> fsys \<Rightarrow> answer \<times> Api \<times> fsys" where
  "api_op rt http io op = (\<lambda>(s, fs).
     case op of
       OpAdd name data \<Rightarrow> let (r, s') = unit_answer (AddFile (rt_uni rt) name data s) in (r, s', fs)
     | OpRemove name \<Rightarrow> let (r, s') = unit_answer (RemoveFile (rt_uni rt) name s) in (r, s', fs)
     | OpRename oldName newName \<Rightarrow> unit_answer (RenameFile rt http io oldName newName (s, fs))
     | OpOpen name \<Rightarrow> (case OpenFile rt http io name (s, fs) of (r, t) \<Rightarrow> (bnd r (\<lambda>f. Ret (fl_content f)), t)))"

fun run_ops :: "('op \<Rightarrow> 's \<Rightarrow> 'r \<times> 's) \<Rightarrow> 'op list \<Rightarrow> 's \<Rightarrow> 'r list \<times> 's" where
  "run_ops step [] s = ([], s)"
| "run_ops step (op # ops) s =
     (let (r, s') = step op s; (rs, t) = run_ops step ops s' in (r # rs, t))"

text \<open>The map an overlay without a storage below it stands for.\<close>

definition overlay_map :: "Api \<Rightarrow> bytes \<Rightarrow> bytes option" where
  "overlay_map s = (\<lambda>n. if ap_removed s n then None else map_of (the_overlay s) n)"

definition overlay_ok :: "Api \<Rightarrow> bool" where
  "overlay_ok s \<longleftrightarrow> distinct (map fst (the_overlay s)) \<and> (\<forall>n. ap_removed s n \<longrightarrow> map_of (the_overlay s) n = None)"

definition created :: "Api \<times> fsys \<Rightarrow> (bytes \<Rightarrow> bytes option) \<Rightarrow> bool" where
  "created = (\<lambda>(s, fs) m. ap_inner s = None \<and> overlay_ok s \<and> m = overlay_map s)"

fun op_names :: "overlay_op \<Rightarrow> bytes list" where
  "op_names (OpAdd name data) = [name]"
| "op_names (OpRemove name) = [name]"
| "op_names (OpRename oldName newName) = [oldName, newName]"
| "op_names (OpOpen name) = [name]"

lemma overlay_ok_map: "overlay_ok s \<Longrightarrow> overlay_map s n = map_of (the_overlay s) n"
  by (auto simp: overlay_ok_def overlay_map_def)

lemma map_of_drop_name: "map_of (drop_name n ov) = (map_of ov)(n := None)"
  by (induction ov) (auto simp: drop_name_def fun_eq_iff)

lemma distinct_drop_name: "distinct (map fst ov) \<Longrightarrow> distinct (map fst (drop_name n ov))"
  unfolding drop_name_def by (rule distinct_map_filter)

lemma map_of_snoc: "map_of ov n = None \<Longrightarrow> map_of (ov @ [(n, d)]) = (map_of ov)(n \<mapsto> d)"
  by (auto simp: fun_eq_iff map_of_append map_add_def split: option.split)

lemma the_overlay_upd [simp]: "the_overlay (s\<lparr>ap_overlay := Some ov\<rparr>) = ov"
  "the_overlay (s\<lparr>ap_overlay := Some ov, ap_removed := rm\<rparr>) = ov"
  "the_overlay (s\<lparr>ap_removed := rm\<rparr>) = the_overlay s"
  by (simp_all add: the_overlay_def)

lemma overlay_map_upd:
  "overlay_map (s\<lparr>ap_overlay := Some ov, ap_removed := rm\<rparr>) = (\<lambda>n. if rm n then None else map_of ov n)"
  "overlay_map (s\<lparr>ap_overlay := Some ov\<rparr>) = (\<lambda>n. if ap_removed s n then None else map_of ov n)"
  by (simp_all add: overlay_map_def fun_eq_iff)

lemma created_iff:
  "created (s, fs) m \<longleftrightarrow> ap_inner s = None \<and> distinct (map fst (the_overlay s)) \<and> m = map_of (the_overlay s) \<and>
     (\<forall>n. ap_removed s n \<longrightarrow> map_of (the_overlay s) n = None)"
proof -
  have "overlay_ok s \<Longrightarrow> overlay_map s = map_of (the_overlay s)" by (simp add: fun_eq_iff overlay_ok_map)
  then show ?thesis unfolding created_def by (auto simp: overlay_ok_def)
qed

lemma created_openFile:
  assumes "created (s, fs) m"
  shows "snd (openFile rt http io name (s, fs)) = (s, fs)"
    and "fst (openFile rt http io name (s, fs)) = Panic \<or>
      (case m (normalizeOverlayName (rt_uni rt) name) of
         None \<Rightarrow> fst (openFile rt http io name (s, fs)) = Fail ErrFileNotFound
       | Some data \<Rightarrow> \<exists>info. fst (openFile rt http io name (s, fs)) = Ret (new_file data info))"
  using assms by (auto simp: openFile_def overlayLookup_def created_iff Let_def split: option.split)

lemma created_add:
  assumes "created (s, fs) m" "m n = None"
  shows "created (s\<lparr>ap_overlay := Some (the_overlay s @ [(n, data)]), ap_removed := (ap_removed s)(n := False)\<rparr>, fs)
    (m(n \<mapsto> data))"
proof -
  have "n \<notin> fst ` set (the_overlay s)" using assms by (auto simp: created_iff map_of_eq_None_iff)
  then show ?thesis
    using assms map_of_snoc [of "the_overlay s" n data] by (auto simp: created_iff)
qed

lemma created_move:
  assumes "created (s, fs) m" "m old = Some data" "m new = None"
  shows "created (s\<lparr>ap_overlay := Some (drop_name old (the_overlay s @ [(new, data)])),
      ap_removed := (ap_removed s)(new := False, old := True)\<rparr>, fs) (m(new \<mapsto> data, old := None))"
proof -
  have "new \<notin> fst ` set (the_overlay s)" using assms by (auto simp: created_iff map_of_eq_None_iff)
  then have "distinct (map fst (the_overlay s @ [(new, data)]))" using assms(1) by (auto simp: created_iff)
  then show ?thesis
    using assms map_of_snoc [of "the_overlay s" new data] distinct_drop_name
    by (auto simp: created_iff map_of_drop_name)
qed

lemma created_remove:
  assumes "created (s, fs) m"
  shows "created (s\<lparr>ap_overlay := map_option (drop_name n) (ap_overlay s), ap_removed := (ap_removed s)(n := True)\<rparr>, fs)
    (m(n := None))"
proof -
  have "the_overlay (s\<lparr>ap_overlay := map_option (drop_name n) (ap_overlay s), ap_removed := rm\<rparr>) =
      drop_name n (the_overlay s)" for rm
    by (simp add: the_overlay_def drop_name_def split: option.split)
  then show ?thesis
    using assms distinct_drop_name [of "the_overlay s" n] unfolding created_iff by (simp add: map_of_drop_name)
qed

lemma created_same: "created (s, fs) m \<Longrightarrow> created (s\<lparr>ap_overlay := Some (the_overlay s)\<rparr>, fs) m"
  by (simp add: created_iff)

lemma created_step:
  assumes "created (s, fs) m" "\<forall>n\<in>set (op_names op). ascii n" "fst (api_op rt http io op (s, fs)) \<noteq> Panic"
  shows "fst (api_op rt http io op (s, fs)) = fst (spec_op (rt_uni rt) op m)
    \<and> created (snd (api_op rt http io op (s, fs))) (snd (spec_op (rt_uni rt) op m))"
proof -
  let ?norm = "normalizeOverlayName (rt_uni rt)"
  have m: "map_of (the_overlay s) = m" using assms(1) by (simp add: created_iff)
  show ?thesis
  proof (cases op)
    case (OpAdd name data)
    then show ?thesis
      using assms(1) created_same [OF assms(1)] created_add [OF assms(1), of "?norm name" data]
      by (cases "?norm name = []"; cases "m (?norm name)")
        (simp_all add: api_op_def unit_answer_def AddFile_def spec_op_def Let_def m)
  next
    case (OpRemove name)
    then show ?thesis
      using assms(1) created_remove [OF assms(1), of "?norm name"]
      by (cases "?norm name = []") (simp_all add: api_op_def unit_answer_def RemoveFile_def spec_op_def Let_def)
  next
    case (OpOpen name)
    obtain r where "openFile rt http io name (s, fs) = (r, s, fs)"
      using created_openFile(1) [OF assms(1), of rt http io name] by (metis prod.collapse)
    then show ?thesis
      using assms created_openFile(2) [OF assms(1), of rt http io name] OpOpen
      by (auto simp: api_op_def OpenFile_def spec_op_def new_file_def split: option.splits)
  next
    case (OpRename oldName newName)
    let ?old = "?norm oldName" and ?new = "?norm newName"
    have idem: "?norm ?old = ?old" using assms(2) normalize_idem(1) [of oldName "rt_uni rt"] OpRename by simp
    note same = created_same [OF assms(1)]
    show ?thesis
    proof (cases "?old = [] \<or> ?new = [] \<or> ?old = ?new")
      case True
      then show ?thesis
        using assms(1) OpRename by (auto simp: api_op_def unit_answer_def RenameFile_def spec_op_def Let_def)
    next
      case False
      show ?thesis
      proof (cases "m ?old")
        case (Some data)
        then show ?thesis
          using False same created_move [OF assms(1) Some, of ?new] OpRename
          by (cases "m ?new") (simp_all add: api_op_def unit_answer_def RenameFile_def spec_op_def Let_def m)
      next
        case None
        let ?s = "s\<lparr>ap_overlay := Some (the_overlay s)\<rparr>"
        obtain r where o: "openFile rt http io ?old (?s, fs) = (r, ?s, fs)"
          using created_openFile(1) [OF same, of rt http io ?old] by (metis prod.collapse)
        then show ?thesis
          using assms(3) created_openFile(2) [OF same, of rt http io ?old] same False None OpRename idem
          by (auto simp: api_op_def unit_answer_def RenameFile_def OpenFile_def spec_op_def Let_def m)
      qed
    qed
  qed
qed

text \<open>
  C32. On a created storage any sequence of adding, removing, renaming and opening files with
  ASCII names answers as a map from normalised names to contents does, errors included, up to
  the first operation that panics.
\<close>

theorem created_storage_is_map:
  assumes "\<forall>op\<in>set ops. \<forall>n\<in>set (op_names op). ascii n"
    and "Panic \<notin> set (fst (run_ops (api_op rt http io) ops (CreateStorage dir, fs)))"
  shows "fst (run_ops (api_op rt http io) ops (CreateStorage dir, fs)) =
    fst (run_ops (spec_op (rt_uni rt)) ops (\<lambda>_. None))"
proof -
  have "fst (run_ops (api_op rt http io) ops t) = fst (run_ops (spec_op (rt_uni rt)) ops m)"
    if "created t m" "\<forall>op\<in>set ops. \<forall>n\<in>set (op_names op). ascii n"
      "Panic \<notin> set (fst (run_ops (api_op rt http io) ops t))" for t m
    using that
  proof (induction ops arbitrary: t m)
    case (Cons op ops)
    obtain s fs' where t: "t = (s, fs')" by (cases t)
    let ?a = "api_op rt http io op t" and ?b = "spec_op (rt_uni rt) op m"
    have np: "fst ?a \<noteq> Panic" "Panic \<notin> set (fst (run_ops (api_op rt http io) ops (snd ?a)))"
      using Cons.prems(3) by (auto simp: split_beta)
    then have "fst ?a = fst ?b" "created (snd ?a) (snd ?b)"
      using created_step [of s fs' m op rt http io] Cons.prems(1,2) by (auto simp: t)
    then show ?case using Cons.IH [of "snd ?a" "snd ?b"] Cons.prems(2) np(2) by (simp add: split_beta)
  qed simp
  moreover have "created (CreateStorage dir, fs) (\<lambda>_. None)"
    by (simp add: created_iff CreateStorage_def the_overlay_def fun_eq_iff)
  ultimately show ?thesis using assms by blast
qed

section \<open>Names that were never added\<close>

text \<open>
  A created storage has no storage below the overlay, and \<^verbatim>\<open>openFile\<close> calls a method on it without
  asking: looking for a file that is not there takes the program down.
\<close>

theorem created_open_unknown_panics:
  "fst (OpenFile rt http io name (CreateStorage dir, fs)) = Panic"
  by (simp add: OpenFile_def openFile_def CreateStorage_def overlayLookup_def the_overlay_def Let_def)

section \<open>Renaming onto a removed name\<close>

text \<open>
  The branch of \<^verbatim>\<open>RenameFile\<close> for files of the underlying storage leaves the mark on the new name:
  the rename succeeds, the overlay holds the content, and no name reaches it any more.
\<close>

theorem rename_onto_removed_hides_file:
  assumes "ascii oldName" "ascii newName" "OpenFile rt http io (normalizeOverlayName (rt_uni rt) oldName) (s, fs) = (Ret f, s1, fs1)"
    and "map_of (the_overlay s) (normalizeOverlayName (rt_uni rt) oldName) = None"
    and "normalizeOverlayName (rt_uni rt) oldName \<noteq> []" "normalizeOverlayName (rt_uni rt) newName \<noteq> []"
    and "normalizeOverlayName (rt_uni rt) oldName \<noteq> normalizeOverlayName (rt_uni rt) newName"
    and "ap_removed s (normalizeOverlayName (rt_uni rt) newName)" "overlay_ok s" "ap_overlay s \<noteq> None"
  shows "\<exists>s2. RenameFile rt http io oldName newName (s, fs) = (Ret (), s2, fs1)
    \<and> map_of (the_overlay s2) (normalizeOverlayName (rt_uni rt) newName) = Some (fl_content f)
    \<and> fst (OpenFile rt http io newName (s2, fs1)) = Fail ErrFileNotFound"
proof -
  let ?old = "normalizeOverlayName (rt_uni rt) oldName" and ?new = "normalizeOverlayName (rt_uni rt) newName"
  have s: "s\<lparr>ap_overlay := Some (the_overlay s)\<rparr> = s"
    using assms(10) by (cases s) (auto simp: the_overlay_def)
  have keep: "the_overlay s1 = the_overlay s \<and> ap_removed s1 = ap_removed s"
    using assms(3)
    by (auto simp: OpenFile_def openFile_def wrap_file_def read_inner_def the_overlay_def
        split: overlay_state.splits option.splits outcome.splits prod.splits)
  have none: "map_of (the_overlay s) ?new = None" using assms(8,9) by (simp add: overlay_ok_def)
  let ?s2 = "s1\<lparr>ap_overlay := Some (the_overlay s @ [(?new, fl_content f)]), ap_removed := (ap_removed s)(?old := True)\<rparr>"
  have "RenameFile rt http io oldName newName (s, fs) = (Ret (), ?s2, fs1)"
    using assms(3-7) s keep none by (simp add: RenameFile_def Let_def)
  moreover have "map_of (the_overlay ?s2) ?new = Some (fl_content f)"
    using map_of_snoc [OF none] by (simp del: map_of_append)
  moreover have "fst (OpenFile rt http io newName (?s2, fs1)) = Fail ErrFileNotFound"
    using assms(7,8) by (simp add: OpenFile_def openFile_def overlayLookup_def Let_def)
  ultimately show ?thesis by blast
qed

section \<open>Reading an opened file\<close>

text \<open>What a series of reads with buffers of the given sizes delivers, up to the end of the file.\<close>

fun read_chunks :: "nat list \<Rightarrow> File \<Rightarrow> bytes \<times> File" where
  "read_chunks [] f = ([], f)"
| "read_chunks (n # ns) f =
     (case file_Read n f of
        (None, f') \<Rightarrow> ([], f')
      | (Some got, f') \<Rightarrow> let (rest, f'') = read_chunks ns f' in (got @ rest, f''))"

lemma sint_small: "n < 2 ^ 63 \<Longrightarrow> sint (word_of_nat n :: u64) = int n"
  by (simp add: signed_of_nat signed_take_bit_int_eq_self)

text \<open>
  C34. After a seek to any position, reads with buffers of any sizes deliver consecutive bytes
  of the content from there, and nothing past its end.
\<close>

theorem reads_give_content:
  assumes "length (fl_content f) < 2 ^ 63" "k < 2 ^ 63"
  shows "fst (read_chunks ns (snd (file_Seek (word_of_nat k) 0 f))) = take (sum_list ns) (drop k (fl_content f))"
proof -
  have read: "fst (read_chunks ns g) = take (sum_list ns) (drop p (fl_content f))"
    if "fl_content g = fl_content f" "fl_pos g = word_of_nat p" "p < 2 ^ 63" for g p
    using that
  proof (induction ns arbitrary: g p)
    case (Cons n ns)
    show ?case
    proof (cases "length (fl_content f) \<le> p")
      case True
      then show ?thesis using Cons.prems by (simp add: file_Read_def sint_small)
    next
      case False
      let ?got = "take n (drop p (fl_content f))"
      let ?g = "g\<lparr>fl_pos := word_of_nat (p + length ?got)\<rparr>"
      have r: "file_Read n g = (Some ?got, ?g)"
        using Cons.prems False by (simp add: file_Read_def sint_small del: of_nat_min)
      have "fst (read_chunks ns ?g) = take (sum_list ns) (drop (p + length ?got) (fl_content f))"
        using Cons.prems False assms(1) by (intro Cons.IH) auto
      then show ?thesis
        using False by (simp add: r split_beta take_add min_def add.commute)
    qed
  qed simp
  have "snd (file_Seek (word_of_nat k) 0 f) = f\<lparr>fl_pos := word_of_nat k\<rparr>"
    using assms(2) by (simp add: file_Seek_def sint_small Let_def)
  then show ?thesis using read [of "f\<lparr>fl_pos := word_of_nat k\<rparr>" k] assms(2) by simp
qed

section \<open>Listing\<close>

text \<open>A caller that collects all names.\<close>

definition collect :: "(bytes \<times> FileInfo) list lister" where
  "collect name info t = (True, t @ [(name, info)])"

definition overlay_item :: "bytes \<times> bytes \<Rightarrow> bytes \<times> FileInfo" where
  "overlay_item = (\<lambda>(name, data).
     (name, zero_info\<lparr>fi_FileName := name, fi_ContentSize := word_of_nat (length data)\<rparr>))"

lemma overlay_entries_all:
  "overlay_entries [] collect es t = (Ret (), t @ map overlay_item es)"
  by (induction es arbitrary: t) (auto simp: collect_def overlay_item_def)

text \<open>
  What a listing is, said of the storage's own data: the listfile's name of the entry's hash when there is one,
  the ENCODING entry of its content key when there is one, and the overlay's names as shadows.
\<close>

definition name_spec :: "Storage \<Rightarrow> bytes \<Rightarrow> CKeyEntry \<Rightarrow> bytes \<Rightarrow> bool" where
  "name_spec inner rname e name \<longleftrightarrow>
     name = (case Option.bind (st_Listfile inner) (\<lambda>lf. lf_byHash lf (ce_FileNameHash e)) of
        Some real \<Rightarrow> if ce_FileNameHash e = 0 \<or> real = [] then rname else real
      | None \<Rightarrow> rname)"

definition shadowed :: "(bytes \<Rightarrow> bytes) \<Rightarrow> Api \<Rightarrow> bytes \<Rightarrow> bool" where
  "shadowed uni s name \<longleftrightarrow>
     ap_removed s (normalizeOverlayName uni name) \<or> (\<exists>data. (normalizeOverlayName uni name, data) \<in> set (the_overlay s))"

definition keys_spec :: "Storage \<Rightarrow> CKeyEntry \<Rightarrow> FileInfo \<Rightarrow> bool" where
  "keys_spec inner e i \<longleftrightarrow>
     fi_ContentKey i = ce_CKey e \<and>
     (case Option.bind (st_Encoding inner) (\<lambda>enc. enf_Entries enc (ce_CKey e)) of
        Some x \<Rightarrow> fi_ContentSize i = en_ContentSize x \<and> fi_EncodedKey i = hd (en_EKeys x @ [ce_EKey e])
      | None \<Rightarrow> fi_ContentSize i = ce_ContentSize e \<and> fi_EncodedKey i = ce_EKey e) \<and>
     (fi_Available i \<longleftrightarrow> (\<exists>idx. st_ekeys inner = Some idx \<and> idx (take EKeySize (fi_EncodedKey i)) \<noteq> None))"

definition info_spec :: "Storage \<Rightarrow> CKeyEntry \<Rightarrow> bytes \<Rightarrow> FileInfo \<Rightarrow> bool" where
  "info_spec inner e name i \<longleftrightarrow>
     fi_FileName i = name \<and>
     (\<exists>dir. name = dir @ fi_PlainName i \<and> (dir = [] \<or> last dir = 0x2F \<or> last dir = 0x5C)) \<and>
     0x2F \<notin> set (fi_PlainName i) \<and> 0x5C \<notin> set (fi_PlainName i) \<and>
     keys_spec inner e i \<and>
     fi_EncodedSize i = ce_EncodedSize e \<and> fi_FileDataID i = ce_FileDataID e \<and>
     fi_LocaleFlags i = ce_LocaleFlags e \<and> fi_ContentFlags i = ce_ContentFlags e \<and>
     (fi_NameType i = NameTypeDataID \<longleftrightarrow> (\<exists>r. name = lit ''FileDataID:'' @ r)) \<and>
     (fi_NameType i = NameTypeCKey \<longleftrightarrow> (\<exists>r. name = lit ''CKey:'' @ r)) \<and>
     (fi_NameType i = NameTypeEKey \<longleftrightarrow> (\<exists>r. name = lit ''EKey:'' @ r))"

inductive listing :: "(bytes \<Rightarrow> bytes) \<Rightarrow> Api \<Rightarrow> Storage \<Rightarrow> (bytes \<times> CKeyEntry) list \<Rightarrow> (bytes \<times> FileInfo) list \<Rightarrow> bool"
  for uni s inner where
  listing_Nil: "listing uni s inner [] []"
| listing_shadowed: "name_spec inner rname e name \<Longrightarrow> shadowed uni s name \<Longrightarrow> listing uni s inner es items \<Longrightarrow>
    listing uni s inner ((rname, e) # es) items"
| listing_listed: "name_spec inner rname e name \<Longrightarrow> \<not> shadowed uni s name \<Longrightarrow> info_spec inner e name i \<Longrightarrow>
    listing uni s inner es items \<Longrightarrow> listing uni s inner ((rname, e) # es) ((name, i) # items)"

inductive_cases listing_NilE: "listing uni s inner [] items"
inductive_cases listing_ConsE: "listing uni s inner ((rname, e) # es) items"

lemma listed_name_spec: "name_spec inner rname e (listed_name inner rname e)"
  by (auto simp: name_spec_def listed_name_def lf_Lookup_def split: option.split)

lemma shadowed_iff: "overlayLookup uni name s \<noteq> Absent \<longleftrightarrow> shadowed uni s name"
proof (cases "map_of (the_overlay s) (normalizeOverlayName uni name)")
  case None
  then have "\<nexists>data. (normalizeOverlayName uni name, data) \<in> set (the_overlay s)" by (force simp: map_of_eq_None_iff)
  then show ?thesis using None by (simp add: overlayLookup_def shadowed_def Let_def)
next
  case (Some data)
  then show ?thesis using map_of_SomeD [OF Some] by (auto simp: overlayLookup_def shadowed_def Let_def)
qed

lemma plainName_spec:
  "\<exists>dir. name = dir @ plainName name \<and> (dir = [] \<or> last dir = 0x2F \<or> last dir = 0x5C)"
  "0x2F \<notin> set (plainName name)" "0x5C \<notin> set (plainName name)"
proof -
  let ?P = "\<lambda>c :: u8. c \<noteq> 0x2F \<and> c \<noteq> 0x5C"
  have "rev name = takeWhile ?P (rev name) @ dropWhile ?P (rev name)" by simp
  then have "name = rev (dropWhile ?P (rev name)) @ plainName name"
    unfolding plainName_def by (metis rev_append rev_rev_ident)
  moreover have "\<not> ?P (last (rev (dropWhile ?P (rev name))))" if "dropWhile ?P (rev name) \<noteq> []"
    using hd_dropWhile [OF that] that by (simp add: last_rev)
  ultimately show "\<exists>dir. name = dir @ plainName name \<and> (dir = [] \<or> last dir = 0x2F \<or> last dir = 0x5C)"
    by (intro exI [of _ "rev (dropWhile ?P (rev name))"]) auto
  show "0x2F \<notin> set (plainName name)" "0x5C \<notin> set (plainName name)"
    by (auto simp: plainName_def dest: set_takeWhileD)
qed

lemma has_prefix_iff: "has_prefix name p \<longleftrightarrow> (\<exists>r. name = p @ r)"
  by (auto simp: has_prefix_def intro: exI [of _ "drop (length p) name"]) (metis append_take_drop_id)

lemma classifyName_spec:
  "classifyName name = NameTypeDataID \<longleftrightarrow> (\<exists>r. name = lit ''FileDataID:'' @ r)"
  "classifyName name = NameTypeCKey \<longleftrightarrow> (\<exists>r. name = lit ''CKey:'' @ r)"
  "classifyName name = NameTypeEKey \<longleftrightarrow> (\<exists>r. name = lit ''EKey:'' @ r)"
  unfolding has_prefix_iff [symmetric]
  by (auto simp: classifyName_def has_prefix_iff lit_def)

lemma listed_info_spec:
  assumes "ap_inner s = Some inner"
  shows "info_spec inner e name (listed_info s inner name e)"
proof -
  have "keys_spec inner e (listed_info s inner name e)"
    using assms
    by (auto simp: keys_spec_def listed_info_def enc_Find_def isAvailable_def FindByEKey_def EKeyOf_def Let_def
        split: option.splits list.splits bind_splits)
  then show ?thesis
    using plainName_spec [of name] classifyName_spec [of name] by (simp add: info_spec_def) (simp add: listed_info_def Let_def)
qed

lemma yield_listing:
  assumes "ap_inner s = Some inner"
  shows "\<exists>items. listing uni s inner es items \<and>
    yield_all (root_visit uni [] collect s inner) es (False, t) = (False, t @ items)"
proof (induction es arbitrary: t)
  case Nil
  then show ?case by (auto intro: listing_Nil)
next
  case (Cons ne es)
  obtain rname e where ne: "ne = (rname, e)" by (cases ne)
  let ?name = "listed_name inner rname e"
  let ?i = "listed_info s inner ?name e"
  show ?case
  proof (cases "shadowed uni s ?name")
    case True
    obtain items where "listing uni s inner es items"
      "yield_all (root_visit uni [] collect s inner) es (False, t) = (False, t @ items)" using Cons by blast
    then show ?thesis
      using True listed_name_spec [of inner rname e] shadowed_iff [of uni ?name s]
      by (auto simp: ne root_visit_def Let_def intro: listing_shadowed)
  next
    case False
    obtain items where "listing uni s inner es items"
      "yield_all (root_visit uni [] collect s inner) es (False, t @ [(?name, ?i)]) = (False, (t @ [(?name, ?i)]) @ items)"
      using Cons by blast
    then show ?thesis
      using False listed_name_spec [of inner rname e] shadowed_iff [of uni ?name s] listed_info_spec [OF assms, of e ?name]
      by (intro exI [of _ "(?name, ?i) # items"]) (auto simp: ne root_visit_def collect_def Let_def intro: listing_listed)
  qed
qed

text \<open>
  C33. Without a pattern FindFiles hands the callback the root's entries in the root's order
  and then the overlay's. An entry goes by the name the listfile has for its hash, when there
  is one, and is left out when the overlay holds or has removed that name. Its description has
  the size and the first encoded key of the ENCODING entry of its content key, when there is
  one, and its own otherwise; it is marked available exactly when the local index has the
  encoded key.
\<close>

theorem FindFiles_lists_all:
  assumes "ap_inner s = Some inner" "st_Root inner = Some root"
  shows "\<exists>items. listing uni s inner (rh_All root) items
    \<and> FindFiles uni order [] collect s [] =
      (Ret (), items @ map (\<lambda>(name, data). (name, zero_info\<lparr>fi_FileName := name, fi_ContentSize := word_of_nat (length data)\<rparr>))
        (order (the_overlay s)))"
proof -
  have "ToLower uni [] = []" by (simp add: ToLower_def ascii_def)
  moreover have "overlay_item = (\<lambda>(name, data). (name, zero_info\<lparr>fi_FileName := name, fi_ContentSize := word_of_nat (length data)\<rparr>))"
    by (rule ext) (simp add: overlay_item_def split: prod.split)
  ultimately show ?thesis
    using yield_listing [OF assms(1), of uni "rh_All root" "[]"] assms by (auto simp: FindFiles_def iterOverlay_def overlay_entries_all)
qed

text \<open>
  A callback that returns false ends the listing of the root only: the first overlay entry is
  still handed to it.
\<close>

definition take_one :: "bytes list lister" where
  "take_one name info t = (False, t @ [name])"

theorem FindFiles_continues_after_stop:
  assumes "ap_inner s = Some inner" "st_Root inner = Some root" "rh_All root = (n, e) # rest"
    and "overlayLookup uni (listed_name inner n e) s = Absent" "order (the_overlay s) = (name, data) # es"
  shows "FindFiles uni order [] take_one s [] = (Ret (), [listed_name inner n e, name])"
proof -
  have "ToLower uni [] = []" by (simp add: ToLower_def ascii_def)
  then show ?thesis
    using assms by (simp add: FindFiles_def iterOverlay_def root_visit_def take_one_def Let_def)
qed

section \<open>The theorems at work\<close>

definition sample_ops :: "overlay_op list" where
  "sample_ops = [OpAdd (lit '' A/B '') [1, 2], OpAdd (lit ''a/b'') [3], OpRename (lit ''a/b'') (lit ''C''), OpOpen (lit ''c''),
     OpRemove (lit ''c''), OpOpen (lit ''C'')]"

theorem created_storage_is_map_witness:
  "fst (run_ops (api_op sample_runtime sample_net no_cache_faults) sample_ops (CreateStorage None, empty_fs)) =
     fst (run_ops (spec_op id) sample_ops (\<lambda>_. None))
   \<and> fst (run_ops (spec_op id) sample_ops (\<lambda>_. None)) =
     [Ret [], Fail ErrAlreadyExists, Ret [], Ret [1, 2], Ret [], Fail ErrFileNotFound]"
proof
  have "list_all (\<lambda>op. list_all ascii (op_names op)) sample_ops" by code_simp
  then have "\<forall>op\<in>set sample_ops. \<forall>n\<in>set (op_names op). ascii n" by (simp add: list_all_iff)
  moreover have "fst (run_ops (api_op sample_runtime sample_net no_cache_faults) sample_ops (CreateStorage None, empty_fs)) =
      [Ret [], Fail ErrAlreadyExists, Ret [], Ret [1, 2], Ret [], Fail ErrFileNotFound]"
    by code_simp
  ultimately show "fst (run_ops (api_op sample_runtime sample_net no_cache_faults) sample_ops (CreateStorage None, empty_fs)) =
     fst (run_ops (spec_op id) sample_ops (\<lambda>_. None))"
    using created_storage_is_map [of sample_ops sample_runtime sample_net no_cache_faults None empty_fs]
    by (simp add: sample_runtime_def)
  show "fst (run_ops (spec_op id) sample_ops (\<lambda>_. None)) =
     [Ret [], Fail ErrAlreadyExists, Ret [], Ret [1, 2], Ret [], Fail ErrFileNotFound]"
    by code_simp
qed

theorem reads_give_content_witness:
  "fst (read_chunks [2, 5] (snd (file_Seek (word_of_nat 1) 0 (new_file [7, 8, 9, 10] zero_info)))) = [8, 9, 10]"
  using reads_give_content [of "new_file [7, 8, 9, 10] zero_info" 1 "[2, 5]"] by (simp add: new_file_def)

text \<open>An online storage whose root names one file, the sample blob, and knows no other.\<close>

definition one_file_root :: Handler where
  "one_file_root = \<lparr>rh_Name = lit ''Text'',
     rh_LookupByName = (\<lambda>n. if n = lit ''a'' then Some (named_entry n zero_key) else None),
     rh_LookupByFileDataID = (\<lambda>_. None), rh_All = [(lit ''a'', named_entry (lit ''a'') zero_key)], rh_Features = 0\<rparr>"

definition sample_api :: Api where
  "sample_api = \<lparr>ap_inner = Some (online_sample\<lparr>st_Root := Some one_file_root\<rparr>), ap_overlay = Some [],
     ap_removed = (\<lambda>n. n = lit ''b''), ap_createDir = None\<rparr>"

lemma sample_api_opens:
  "\<exists>f s1 fs1. OpenFile sample_runtime sample_net no_cache_faults (lit ''a'') (sample_api, empty_fs) = (Ret f, s1, fs1)
    \<and> fl_content f = [1, 2, 3]"
proof -
  let ?inner = "online_sample\<lparr>st_Root := Some one_file_root\<rparr>"
  have n: "normalizeOverlayName id (lit ''a'') = lit ''a''" "lit ''a'' \<noteq> lit ''b''" by code_simp+
  have ek: "ce_EKey (named_entry n k) = zero_key" for n k by (simp add: named_entry_def zero_entry_def)
  have look: "overlayLookup (rt_uni sample_runtime) (lit ''a'') sample_api = Absent"
    using n by (simp add: overlayLookup_def sample_api_def the_overlay_def sample_runtime_def Let_def)
  have find: "FindByName ?inner (lit ''a'') = Ret (named_entry (lit ''a'') zero_key)"
    by (simp add: FindByName_def one_file_root_def online_sample_def new_storage_def)
  have dec: "decode_blob rt (s\<lparr>st_Root := r\<rparr>) = decode_blob rt s" for rt s r
    by (simp add: fun_eq_iff decode_blob_def decode_opts_def)
  have same: "fetchByEKeyViaArchives rt http io e (s\<lparr>st_Root := r\<rparr>) fs = fetchByEKeyViaArchives rt http io e s fs"
    for rt http io e s r fs
    by (auto simp: fetchByEKeyViaArchives_def cacheRead_def cacheWrite_def dec split: option.split outcome.split)
  have "ReadByEKeyContext sample_runtime sample_net no_cache_faults zero_key ?inner empty_fs =
      (Ret [1, 2, 3], ?inner, empty_fs\<lparr>fs_file := (fs_file empty_fs)(cache_path_of [lit ''cache''] zero_key := Content sample_blob)\<rparr>)"
  proof -
    have "st_ekeys ?inner = None" by (simp add: online_sample_def new_storage_def)
    then show ?thesis using sample_first_read by (simp add: ReadByEKeyContext_def FindByEKey_def same)
  qed
  then show ?thesis
    using look find ek by (simp add: OpenFile_def openFile_def sample_api_def read_inner_def wrap_file_def new_file_def)
qed

theorem rename_onto_removed_hides_file_witness:
  "\<exists>s2 fs2. RenameFile sample_runtime sample_net no_cache_faults (lit ''a'') (lit ''b'') (sample_api, empty_fs) = (Ret (), s2, fs2)
    \<and> map_of (the_overlay s2) (lit ''b'') = Some [1, 2, 3]
    \<and> fst (OpenFile sample_runtime sample_net no_cache_faults (lit ''b'') (s2, fs2)) = Fail ErrFileNotFound"
proof -
  have n: "normalizeOverlayName id (lit ''a'') = lit ''a''" "normalizeOverlayName id (lit ''b'') = lit ''b''"
    "lit ''a'' \<noteq> []" "lit ''b'' \<noteq> []" "lit ''a'' \<noteq> lit ''b''" "ascii (lit ''a'')" "ascii (lit ''b'')"
    by code_simp+
  have u: "rt_uni sample_runtime = id" by (simp add: sample_runtime_def)
  obtain f s1 fs1 where o: "OpenFile sample_runtime sample_net no_cache_faults (lit ''a'') (sample_api, empty_fs) = (Ret f, s1, fs1)"
    "fl_content f = [1, 2, 3]"
    using sample_api_opens by blast
  have "\<exists>s2. RenameFile sample_runtime sample_net no_cache_faults (lit ''a'') (lit ''b'') (sample_api, empty_fs) = (Ret (), s2, fs1)
    \<and> map_of (the_overlay s2) (normalizeOverlayName (rt_uni sample_runtime) (lit ''b'')) = Some (fl_content f)
    \<and> fst (OpenFile sample_runtime sample_net no_cache_faults (lit ''b'') (s2, fs1)) = Fail ErrFileNotFound"
    by (rule rename_onto_removed_hides_file)
      (use n o(1) in \<open>simp_all add: u sample_api_def overlay_ok_def the_overlay_def\<close>)
  then show ?thesis using o(2) n by (auto simp: u)
qed

text \<open>The same storage with a listfile that names the file, and an ENCODING that knows its content key.\<close>

definition listed_inner :: Storage where
  "listed_inner = online_sample\<lparr>st_Root := Some one_file_root,
     st_Listfile := Some \<lparr>lf_byHash = [lf_HashFileName (lit ''a'') \<mapsto> lit ''dir/real'']\<rparr>,
     st_Encoding := Some \<lparr>enf_Header = \<lparr>eh_Version = 1, eh_CKeyLength = 16, eh_EKeyLength = 16, eh_CKeyPageSize = 4,
       eh_EKeyPageSize = 4, eh_CKeyPageCount = 1, eh_EKeyPageCount = 0, eh_ESpecBlockSize = 0\<rparr>, enf_Entries =
       [zero_key \<mapsto> \<lparr>en_ContentSize = 7, en_CKey = zero_key, en_EKeys = [replicate 16 1]\<rparr>]\<rparr>\<rparr>"

theorem FindFiles_lists_all_witness:
  "\<exists>i. FindFiles id id [] collect
      (sample_api\<lparr>ap_inner := Some listed_inner, ap_overlay := Some [(lit ''c'', [5])]\<rparr>) [] =
    (Ret (), [(lit ''dir/real'', i), (lit ''c'', zero_info\<lparr>fi_FileName := lit ''c'', fi_ContentSize := 1\<rparr>)])
    \<and> fi_ContentSize i = 7 \<and> fi_EncodedKey i = replicate 16 1 \<and> \<not> fi_Available i"
proof -
  let ?s = "sample_api\<lparr>ap_inner := Some listed_inner, ap_overlay := Some [(lit ''c'', [5])]\<rparr>"
  have n: "normalizeOverlayName id (lit ''dir/real'') = lit ''dir/real''"
    "lit ''dir/real'' \<noteq> lit ''b''" "lit ''dir/real'' \<noteq> lit ''c''" "lf_HashFileName (lit ''a'') \<noteq> 0" "lit ''dir/real'' \<noteq> []"
    by code_simp+
  let ?e = "named_entry (lit ''a'') zero_key"
  have name: "name_spec listed_inner (lit ''a'') ?e m \<longleftrightarrow> m = lit ''dir/real''" for m
    using n(4,5) by (simp add: name_spec_def listed_inner_def named_entry_def)
  have sh: "\<not> shadowed id ?s (lit ''dir/real'')"
    using n(1-3) by (simp add: shadowed_def sample_api_def the_overlay_def)
  obtain items where l: "listing id ?s listed_inner (rh_All one_file_root) items"
    and f: "FindFiles id id [] collect ?s [] = (Ret (), items @ map (\<lambda>(name, data).
      (name, zero_info\<lparr>fi_FileName := name, fi_ContentSize := word_of_nat (length data)\<rparr>)) (id (the_overlay ?s)))"
    using FindFiles_lists_all [of ?s listed_inner one_file_root id id] by (auto simp: listed_inner_def)
  obtain i where "items = [(lit ''dir/real'', i)]" "info_spec listed_inner ?e (lit ''dir/real'') i"
    using l sh by (auto simp: one_file_root_def name elim!: listing_ConsE listing_NilE)
  then show ?thesis
    using f by (auto simp: the_overlay_def info_spec_def keys_spec_def listed_inner_def named_entry_def zero_entry_def
        online_sample_def new_storage_def)
qed

theorem FindFiles_continues_after_stop_witness:
  "FindFiles id id [] take_one (sample_api\<lparr>ap_overlay := Some [(lit ''c'', [5])]\<rparr>) [] = (Ret (), [lit ''a'', lit ''c''])"
proof -
  let ?inner = "online_sample\<lparr>st_Root := Some one_file_root\<rparr>" and ?s = "sample_api\<lparr>ap_overlay := Some [(lit ''c'', [5])]\<rparr>"
  have n: "normalizeOverlayName id (lit ''a'') = lit ''a''" "lit ''a'' \<noteq> lit ''b''" "lit ''a'' \<noteq> lit ''c''" by code_simp+
  have name: "listed_name ?inner (lit ''a'') e = lit ''a''" for e
    by (simp add: listed_name_def online_sample_def new_storage_def)
  have look: "overlayLookup id (lit ''a'') ?s = Absent"
    using n by (simp add: overlayLookup_def sample_api_def the_overlay_def Let_def)
  have all: "rh_All one_file_root = [(lit ''a'', named_entry (lit ''a'') zero_key)]" by (simp add: one_file_root_def)
  have ov: "id (the_overlay ?s) = [(lit ''c'', [5])]" by simp
  have "FindFiles id id [] take_one ?s [] = (Ret (), [listed_name ?inner (lit ''a'') (named_entry (lit ''a'') zero_key), lit ''c''])"
    using look by (intro FindFiles_continues_after_stop [where order = id, OF _ _ all _ ov])
      (simp_all add: sample_api_def name)
  then show ?thesis by (simp add: name)
qed

end
