(* ===== verification/Remount.thy ===== *)
theory Remount
  imports FlushLaws
begin

text \<open>
  \<^verbatim>\<open>OpenStorage\<close> on a directory a successful \<^verbatim>\<open>Flush\<close> filled: every file of the overlay is served again,
  through \<^verbatim>\<open>.build.info\<close>, the configurations, the .idx file, the archive, ENCODING and the INSTALL root.
\<close>

section \<open>The archive of a run\<close>

lemma store_put_run:
  assumes "run_inv cap n w dk" "Suc n < 2 ^ 32" "seg_cap cap < 2 ^ 32" "span_ok k" "length (fst k) < 2 ^ 63"
    and "store_put k (w, dk) = Some (e, w', dk')"
  shows "run_inv cap (Suc n) w' dk'" "ee_EKey e = snd k" "dk' (ee_ArchiveIndex e) \<noteq> None"
    and "unat (ee_ArchiveOffs e) < seg_cap cap" "dk i \<noteq> None \<Longrightarrow> dk' i \<noteq> None"
proof -
  have W: "WriteSpan no_faults (fst k) (snd k) w dk = (Ret e, w', dk')"
    using assms(6) by (auto simp: store_put_def split: prod.splits outcome.splits)
  have k: "length (snd k) = 16" using assms(4) by (simp add: span_ok_def)
  show inv: "run_inv cap (Suc n) w' dk'"
    using assms(1-3,5) k W by (intro run_inv_write) auto
  have "writer_ok w dk" using assms(1) by (simp add: run_inv_def)
  then show "ee_EKey e = snd k" "dk' (ee_ArchiveIndex e) \<noteq> None" "unat (ee_ArchiveOffs e) < seg_cap cap"
    "dk i \<noteq> None \<Longrightarrow> dk' i \<noteq> None"
  proof (atomize (full), rule WriteSpan_Ret [OF W], goal_cases)
    case (1 old)
    have "length (seg_content dk' (w_segmentIndex w')) \<le> seg_cap cap"
      using inv by (simp add: run_inv_def)
    then have "length old < seg_cap cap" using 1 k by simp
    moreover have "unat (word_of_nat (length old) :: u32) = length old"
      using calculation assms(3) by (intro unat_word_of_nat) simp
    ultimately show ?case using 1 by simp
  qed
qed

lemma put_all_run:
  assumes "run_inv cap n w dk" "n + length ks < 2 ^ 32" "seg_cap cap < 2 ^ 32"
    and "\<forall>k\<in>set ks. span_ok k \<and> length (fst k) < 2 ^ 63"
    and "put_all store_put ks (w, dk) = Some (es, w', dk')"
  shows "run_inv cap (n + length ks) w' dk' \<and> (\<forall>i. dk i \<noteq> None \<longrightarrow> dk' i \<noteq> None) \<and>
    list_all2 (\<lambda>k e. ee_EKey e = snd k \<and> dk' (ee_ArchiveIndex e) \<noteq> None \<and> unat (ee_ArchiveOffs e) < seg_cap cap) ks es"
  using assms
proof (induction ks arbitrary: n w dk es)
  case (Cons k ks)
  from Cons.prems(5) obtain e w1 dk1 es' where
    one: "store_put k (w, dk) = Some (e, w1, dk1)" "put_all store_put ks (w1, dk1) = Some (es', w', dk')" "es = e # es'"
    by (auto split: option.splits prod.splits)
  have s: "run_inv cap (Suc n) w1 dk1" "ee_EKey e = snd k" "dk1 (ee_ArchiveIndex e) \<noteq> None"
    "unat (ee_ArchiveOffs e) < seg_cap cap" "\<And>i. dk i \<noteq> None \<Longrightarrow> dk1 i \<noteq> None"
    using store_put_run [OF Cons.prems(1) _ Cons.prems(3) _ _ one(1)] Cons.prems(2,4) by simp_all
  show ?case
    using Cons.IH [OF s(1) _ Cons.prems(3) _ one(2)] Cons.prems(2,4) s(2-5) one(3) by auto
qed simp

text \<open>Each span opens at most one more segment.\<close>

lemma put_all_segments:
  assumes "run_inv cap n w dk" "n + length ks < 2 ^ 32" "seg_cap cap < 2 ^ 32"
    and "\<forall>k\<in>set ks. span_ok k \<and> length (fst k) < 2 ^ 63"
    and "put_all store_put ks (w, dk) = Some (es, w', dk')"
  shows "dk' i \<noteq> None \<Longrightarrow> dk i \<noteq> None \<or> unat i \<le> n + length ks"
  using assms
proof (induction ks arbitrary: n w dk es)
  case (Cons k ks)
  from Cons.prems(6) obtain e w1 dk1 es' where
    one: "store_put k (w, dk) = Some (e, w1, dk1)" "put_all store_put ks (w1, dk1) = Some (es', w', dk')"
    by (auto split: option.splits prod.splits)
  have inv: "run_inv cap (Suc n) w1 dk1"
    using store_put_run(1) [OF Cons.prems(2) _ Cons.prems(4) _ _ one(1)] Cons.prems(3,5) by simp
  have "WriteSpan no_faults (fst k) (snd k) w dk = (Ret e, w1, dk1)" "writer_ok w dk"
    using one(1) Cons.prems(2) by (auto simp: store_put_def run_inv_def split: prod.splits outcome.splits)
  then obtain f where "dk1 = dk(w_segmentIndex w1 := Some f)" by (rule WriteSpan_Ret) blast
  moreover have "dk1 i \<noteq> None \<or> unat i \<le> Suc n + length ks"
    using Cons.IH [OF Cons.prems(1) inv _ Cons.prems(4) _ one(2)] Cons.prems(3,5) by simp
  ultimately show ?case using inv by (auto simp: run_inv_def split: if_splits)
qed simp

text \<open>The first span of a run goes to data.000.\<close>

lemma put_all_first:
  assumes "put_all store_put (k # ks) (NewWriter cap, \<lambda>_. None) = Some (es, w, dk)" "span_ok k"
    and "\<forall>k\<in>set ks. span_ok k \<and> length (fst k) < 2 ^ 63" "length (fst k) < 2 ^ 63"
    and "Suc (length ks) < 2 ^ 32" "seg_cap cap < 2 ^ 32"
  shows "dk 0 \<noteq> None"
proof -
  from assms(1) obtain e w1 dk1 es' where
    one: "store_put k (NewWriter cap, \<lambda>_. None) = Some (e, w1, dk1)" "put_all store_put ks (w1, dk1) = Some (es', w, dk)"
    by (auto split: option.splits prod.splits)
  have "WriteSpan no_faults (fst k) (snd k) (NewWriter cap) (\<lambda>_. None) = (Ret e, w1, dk1)"
    using one(1) by (auto simp: store_put_def split: prod.splits outcome.splits)
  then have "dk1 0 \<noteq> None"
    by (rule WriteSpan_Ret [OF _ writer_ok_new]) (simp add: next_index_def NewWriter_def)
  moreover have "run_inv cap 1 w1 dk1"
    using store_put_run(1) [OF run_inv_new _ assms(6) assms(2) assms(4) one(1)] by simp
  ultimately show ?thesis
    using put_all_run [OF _ _ assms(6) assms(3) one(2), of 1] assms(5) by simp
qed

section \<open>Reading from the mounted archive\<close>

text \<open>The limits under which the spans of a run are told apart and addressed.\<close>

definition no_collision :: "codecs \<Rightarrow> bytes list \<Rightarrow> bool" where
  "no_collision C cs \<longleftrightarrow>
     (\<forall>c\<in>set cs. length c < 2 ^ 32 - 1 \<and> \<not> ekey_like_blte (md5 C (raw_stream C c))) \<and>
     inj_on (md5 C) (set cs) \<and> inj_on (\<lambda>c. take 9 (md5 C (raw_stream C c))) (set cs)"

text \<open>The contents \<open>cs\<close> lie in \<open>dk\<close> under the entries \<open>es\<close>.\<close>

definition archived :: "codecs \<Rightarrow> bytes list \<Rightarrow> disk \<Rightarrow> EKeyEntry list \<Rightarrow> bool" where
  "archived C cs dk es \<longleftrightarrow> cs \<noteq> [] \<and> length cs < 2 ^ 32 \<and> no_collision C cs \<and>
     (\<exists>w. put_all store_put (map (raw_item C) cs) (NewWriter DefaultSegmentSize, \<lambda>_. None) = Some (es, w, dk)) \<and>
     (\<forall>i. dk i \<noteq> None \<longrightarrow> unat i < 1024)"

lemma raw_stream_length:
  assumes "codecs_ok C" "length c < 2 ^ 32 - 1"
  shows "length (raw_stream C c) < 2 ^ 63"
proof -
  let ?cs = "split_chunks defaultFrameSize c"
  have "(262143 + length c) div 262144 \<le> (262144 * (length c + 1)) div 262144"
    by (rule div_le_mono) simp
  then have "length ?cs \<le> length c + 1"
    by (simp add: split_chunks_def length_chunks_loop defaultFrameSize_def)
  moreover have "length (concat (map frame_entry (map (raw_frame C) ?cs))) = 24 * length ?cs"
    by (subst length_concat_const [where k = 24]) auto
  moreover have "length (concat (map ef_body (map (raw_frame C) xs))) = length (concat xs) + length xs" for xs
    by (induction xs) (simp_all add: raw_frame_def)
  ultimately show ?thesis
    using assms(2) concat_split_chunks [of defaultFrameSize c]
    by (simp add: raw_stream_def frames_bytes_def Let_def defaultFrameSize_def)
qed

lemma archived_items:
  assumes "archived C cs dk es" "codecs_ok C"
  shows "list_all2 (\<lambda>c e. ee_EKey e = md5 C (raw_stream C c) \<and> entry_fits e) cs es" "dk 0 \<noteq> None" "length es = length cs"
proof -
  obtain w where put: "put_all store_put (map (raw_item C) cs) (NewWriter DefaultSegmentSize, \<lambda>_. None) = Some (es, w, dk)"
    using assms(1) by (auto simp: archived_def)
  have cs: "cs \<noteq> []" "length cs < 2 ^ 32" "\<forall>c\<in>set cs. length c < 2 ^ 32 - 1" "\<forall>i. dk i \<noteq> None \<longrightarrow> unat i < 1024"
    using assms(1) by (auto simp: archived_def no_collision_def)
  have keys: "key_ok (md5 C x)" for x using assms(2) by (simp add: codecs_ok_def key_ok_def MD5HashSize_def)
  have items: "\<forall>k\<in>set (map (raw_item C) cs). span_ok k \<and> length (fst k) < 2 ^ 63"
    using cs(3) raw_stream_length [OF assms(2)] keys by (auto simp: raw_item_def span_ok_def key_ok_def MD5HashSize_def)
  have cap: "seg_cap DefaultSegmentSize < 2 ^ 32" "seg_cap DefaultSegmentSize = 2 ^ 30"
    by (simp_all add: seg_cap_def DefaultSegmentSize_def)
  have ents: "list_all2 (\<lambda>k e. ee_EKey e = snd k \<and> dk (ee_ArchiveIndex e) \<noteq> None \<and> unat (ee_ArchiveOffs e) < seg_cap DefaultSegmentSize)
      (map (raw_item C) cs) es"
    using put_all_run [OF run_inv_new _ cap(1) items put] cs(2) by simp
  then show "list_all2 (\<lambda>c e. ee_EKey e = md5 C (raw_stream C c) \<and> entry_fits e) cs es"
    using cs(4) keys by (auto simp: list_all2_map1 raw_item_def entry_fits_def cap(2) intro!: list_all2_mono [OF ents [unfolded list_all2_map1]])
  show "length es = length cs" using list_all2_lengthD [OF ents] by simp
  obtain c ds where "cs = c # ds" using cs(1) by (cases cs) auto
  then show "dk 0 \<noteq> None"
    using put_all_first [of "raw_item C c" "map (raw_item C) ds" DefaultSegmentSize es w dk] put items cs(2) cap(1) by simp
qed

lemma ReadSpan_trim: "ReadSpanWithOptions C lzma dk (trim_entry e) keys dopts p = ReadSpanWithOptions C lzma dk e keys dopts p"
  by (simp add: ReadSpanWithOptions_def trim_entry_def)

lemma archived_reads:
  assumes "archived C cs dk es" "codecs_ok C" "\<not> LZMARegistered lzma" "pool_files p \<noteq> None"
  shows "list_all2 (\<lambda>c e. fst (ReadSpanWithOptions C lzma dk e keys dopts p) = Ret c) cs es"
proof -
  obtain w where put: "put_all store_put (map (raw_item C) cs) (NewWriter DefaultSegmentSize, \<lambda>_. None) = Some (es, w, dk)"
    using assms(1) by (auto simp: archived_def)
  have cs: "length cs < 2 ^ 32" "\<forall>c\<in>set cs. length c < 2 ^ 32 - 1 \<and> \<not> ekey_like_blte (md5 C (raw_stream C c))"
    using assms(1) by (auto simp: archived_def no_collision_def)
  have item: "encode_item C raw_options c = Ret (raw_item C c)" for c
    by (simp add: encode_item_def blte_Encode_raw raw_item_def)
  have "mapM (encode_item C raw_options) cs = Ret (map (raw_item C) cs)"
    by (rule mapM_all_Ret) (rule item)
  moreover have "\<forall>k\<in>set (map (raw_item C) cs). span_ok k \<and> length (fst k) < 2 ^ 63"
    using cs(2) raw_stream_length [OF assms(2)] assms(2) by (auto simp: raw_item_def span_ok_def codecs_ok_def)
  then have "run_inv DefaultSegmentSize (0 + length (map (raw_item C) cs)) w dk"
    using put_all_run [OF run_inv_new _ _ _ put] cs(1) by (simp add: seg_cap_def DefaultSegmentSize_def)
  then have "segments_fit (w, dk)"
    by (auto simp: run_inv_def segments_fit_def seg_cap_def DefaultSegmentSize_def intro: le_less_trans)
  ultimately show ?thesis
    using cs(2) by (intro archive_stored [OF _ assms(2,3) _ _ put _ assms(4)])
      (auto simp: raw_item_def opt_frameSize_def raw_options_def defaultFrameSize_def)
qed

text \<open>A storage whose key map and data directory are those of the run.\<close>

definition mounted :: "codecs \<Rightarrow> bytes list \<Rightarrow> path \<Rightarrow> fsys \<Rightarrow> EKeyEntry list \<Rightarrow> Storage \<Rightarrow> bool" where
  "mounted C cs dir fs es s \<longleftrightarrow> archived C cs (fs_segs fs (data_dir dir)) es \<and> st_Path s = dir \<and>
     plain_path dir \<and> fs_stat fs (data_dir dir) = Some True \<and>
     (\<forall>e. FindByEKey s e = find (\<lambda>x. EKeyOf (ee_EKey x) = EKeyOf e) (map trim_entry (index_sort es))) \<and>
     (case st_pool s of None \<Rightarrow> True | Some p \<Rightarrow> pool_files p \<noteq> None \<and> st_dataDir s = data_dir dir)"

lemma EKeyOf_trim: "key_ok (ee_EKey e) \<Longrightarrow> EKeyOf (ee_EKey (trim_entry e)) = take 9 (ee_EKey e)"
  by (simp add: EKeyOf_def trim_entry_def EKeySize_def fit_def key_ok_def MD5HashSize_def)

lemma find_in: "find P xs = Some x \<Longrightarrow> P x \<and> x \<in> set xs"
  by (induction xs) (auto split: if_splits)

text \<open>The entry found for a content's key is one whose span holds that content.\<close>

lemma mounted_lookup:
  assumes "mounted C cs dir fs es s" "codecs_ok C" "c \<in> set cs"
  obtains e where "FindByEKey s (md5 C (raw_stream C c)) = Some (trim_entry e)"
    "(c, e) \<in> set (zip cs es)"
proof -
  let ?k = "md5 C (raw_stream C c)" and ?P = "\<lambda>x. EKeyOf (ee_EKey x) = EKeyOf (md5 C (raw_stream C c))"
  have ar: "archived C cs (fs_segs fs (data_dir dir)) es"
    and fnd: "FindByEKey s ?k = find ?P (map trim_entry (index_sort es))"
    using assms(1) by (simp_all add: mounted_def)
  note items = archived_items(1,3) [OF ar assms(2)]
  have key9: "EKeyOf x = take 9 x" for x by (simp add: EKeyOf_def EKeySize_def)
  have ent: "ee_EKey (es ! i) = md5 C (raw_stream C (cs ! i))" "key_ok (ee_EKey (es ! i))" if "i < length cs" for i
    using items that by (auto simp: list_all2_conv_all_nth entry_fits_def)
  obtain i where i: "i < length cs" "cs ! i = c" using assms(3) by (auto simp: in_set_conv_nth)
  have "?P (trim_entry (es ! i))" using ent [OF i(1)] i(2) EKeyOf_trim [of "es ! i"] by (simp add: key9)
  moreover have "trim_entry (es ! i) \<in> set (map trim_entry (index_sort es))" using i(1) items(2) by simp
  ultimately obtain x where x: "find ?P (map trim_entry (index_sort es)) = Some x"
    using find_None_iff [of ?P "map trim_entry (index_sort es)"] by (cases "find ?P (map trim_entry (index_sort es))") auto
  then have "?P x" "x \<in> set (map trim_entry (index_sort es))" using find_in [OF x] by simp_all
  then obtain j where j: "j < length cs" "x = trim_entry (es ! j)" using items(2) by (auto simp: in_set_conv_nth [of _ es])
  have "take 9 (md5 C (raw_stream C (cs ! j))) = take 9 ?k"
    using \<open>?P x\<close> ent [OF j(1)] EKeyOf_trim [of "es ! j"] by (simp add: j(2) key9)
  moreover have "inj_on (\<lambda>c. take 9 (md5 C (raw_stream C c))) (set cs)"
    using ar by (simp add: archived_def no_collision_def)
  ultimately have "cs ! j = c" using inj_onD [of _ _ "cs ! j" c] j(1) assms(3) by fastforce
  then show thesis
    using fnd x j items(2) by (intro that [of "es ! j"]) (auto simp: in_set_zip)
qed

lemma pool_open_keeps: "pool_open dk i p = (r, p') \<Longrightarrow> pool_files p \<noteq> None \<Longrightarrow> pool_files p' \<noteq> None"
  by (auto simp: pool_open_def split: option.splits if_splits)

lemma ReadSpan_keeps:
  assumes "ReadSpanWithOptions C lzma dk e keys dopts p = (r, p')" "pool_files p \<noteq> None"
  shows "pool_files p' \<noteq> None"
  using assms pool_open_keeps by (auto simp: ReadSpanWithOptions_def split: prod.splits)

lemma mounted_pool:
  assumes "mounted C cs dir fs es s" "codecs_ok C"
  obtains p where "archivePool fs s = (Ret p, s\<lparr>st_pool := Some p, st_dataDir := data_dir dir\<rparr>)" "pool_files p \<noteq> None"
proof (cases "st_pool s")
  case None
  have "archived C cs (fs_segs fs (data_dir dir)) es" "st_Path s = dir" "plain_path dir" "fs_stat fs (data_dir dir) = Some True"
    using assms(1) by (simp_all add: mounted_def)
  then have "fs_segs fs (data_dir dir) (word_of_nat 0) \<noteq> None" using archived_items(2) [OF _ assms(2)] by simp
  moreover have "plain_path (data_dir dir)"
    using \<open>plain_path dir\<close> by (simp add: plain_path_def data_dir_def lit_def)
  ultimately have "has_segments fs (data_dir dir)"
    using has_segments_plain [of "data_dir dir" fs 0] \<open>fs_stat fs (data_dir dir) = Some True\<close> by simp
  then show ?thesis
    using None \<open>st_Path s = dir\<close> by (intro that [of NewPool]) (simp_all add: archivePool_def locateDataDir_def NewPool_def)
next
  case (Some p)
  then show ?thesis
    using assms(1) by (intro that [of p]) (cases s, simp_all add: archivePool_def mounted_def)
qed

lemma read_mounted:
  assumes "mounted (rt_codecs rt) cs dir fs es s" "codecs_ok (rt_codecs rt)" "\<not> LZMARegistered (rt_lzma rt)" "c \<in> set cs"
  obtains p where
    "ReadByEKeyContext rt http io (md5 (rt_codecs rt) (raw_stream (rt_codecs rt) c)) s fs =
       (Ret c, s\<lparr>st_pool := Some p, st_dataDir := data_dir dir\<rparr>, fs)"
    "mounted (rt_codecs rt) cs dir fs es (s\<lparr>st_pool := Some p, st_dataDir := data_dir dir\<rparr>)"
proof -
  let ?C = "rt_codecs rt"
  have ar: "archived ?C cs (fs_segs fs (data_dir dir)) es" using assms(1) by (simp add: mounted_def)
  obtain p where pool: "archivePool fs s = (Ret p, s\<lparr>st_pool := Some p, st_dataDir := data_dir dir\<rparr>)" "pool_files p \<noteq> None"
    using assms(1,2) by (rule mounted_pool)
  obtain e where e: "FindByEKey s (md5 ?C (raw_stream ?C c)) = Some (trim_entry e)" "(c, e) \<in> set (zip cs es)"
    using assms(1,2,4) by (rule mounted_lookup)
  let ?s = "s\<lparr>st_pool := Some p, st_dataDir := data_dir dir\<rparr>"
  let ?r = "ReadSpanWithOptions ?C (rt_lzma rt) (fs_segs fs (data_dir dir)) e (Some (st_Keys s)) (decode_opts ?s) p"
  have "fst ?r = Ret c"
    using archived_reads [OF ar assms(2,3) pool(2)] e(2) by (fastforce simp: list_all2_iff)
  then obtain p' where r: "?r = (Ret c, p')" by (cases ?r) simp
  show thesis
  proof (rule that [of p'])
    show "ReadByEKeyContext rt http io (md5 ?C (raw_stream ?C c)) s fs =
       (Ret c, s\<lparr>st_pool := Some p', st_dataDir := data_dir dir\<rparr>, fs)"
      using e(1) pool(1) r by (simp add: ReadByEKeyContext_def Let_def ReadSpan_trim)
    show "mounted ?C cs dir fs es (s\<lparr>st_pool := Some p', st_dataDir := data_dir dir\<rparr>)"
      using assms(1) ReadSpan_keeps [OF r pool(2)] by (simp add: mounted_def FindByEKey_def)
  qed
qed

section \<open>The manifests of a run\<close>

lemma raw_keys: "codecs_ok C \<Longrightarrow> key_ok (md5 C x)"
  by (simp add: codecs_ok_def key_ok_def MD5HashSize_def)

lemma raw_size: "length c < 2 ^ 32 - 1 \<Longrightarrow> unat (word_of_nat (length c) :: u64) = length c"
  by (intro unat_word_of_nat) simp

lemma flush_encoding_parsed:
  assumes "flush_manifests C files ib db eb" "no_collision C (map snd files @ [ib, db, eb])" "codecs_ok C"
    and "length files < 2 ^ 31"
  obtains enc where "enc_Parse eb = Ret enc"
    "\<And>c. c \<in> set (map snd files @ [ib, db]) \<Longrightarrow> enc_Find enc (md5 C c) = Some (enc_record (raw_record C c))"
proof -
  let ?cs = "map snd files @ [ib, db]"
  have e: "enc_Encode (md5 C) (flush_encs C ?cs) flush_encoding = Ret eb"
    using assms(1) by (simp add: flush_manifests_def)
  have page: "default_page (ew_CKeyPageSize flush_encoding) = 4096"
    by (simp add: flush_encoding_def default_page_def)
  have len: "\<forall>c\<in>set ?cs. length c < 2 ^ 32 - 1" and inj: "inj_on (md5 C) (set ?cs)"
    using assms(2) unfolding no_collision_def by (auto simp: inj_on_def)
  have "enc_entry_ok (unat (4096 :: u32)) (enc_record (raw_record C c))" if "c \<in> set ?cs" for c
  proof -
    have "length c < 2 ^ 32 - 1" using len that by blast
    then show ?thesis
      using raw_keys [OF assms(3)] raw_size [of c]
      by (simp add: enc_entry_ok_def enc_record_def raw_record_def recordHdr_def MD5HashSize_def)
  qed
  then have "\<forall>e\<in>set (flush_encs C ?cs). enc_entry_ok (unat (4096 :: u32)) e"
    by (auto simp: flush_encs_def)
  moreover have "inj_on en_CKey (set (flush_encs C ?cs))"
  proof (rule inj_onI)
    fix x y
    assume "x \<in> set (flush_encs C ?cs)" "y \<in> set (flush_encs C ?cs)" and eq: "en_CKey x = en_CKey y"
    then obtain c d where cd: "c \<in> set ?cs" "d \<in> set ?cs" "x = enc_record (raw_record C c)" "y = enc_record (raw_record C d)"
      unfolding flush_encs_def set_map by blast
    then have "md5 C c = md5 C d" using eq by (simp add: enc_record_def raw_record_def)
    then show "x = y" using inj_onD [OF inj _ cd(1,2)] cd(3,4) by blast
  qed
  moreover have "length (flush_encs C ?cs) < 2 ^ 32" "length (ew_ESpecBlock flush_encoding) < 2 ^ 32"
    using assms(4) by (simp_all add: flush_encs_def flush_encoding_def)
  ultimately obtain enc where enc: "enc_Parse eb = Ret enc"
      "\<And>k e. enc_Find enc k = Some e \<longleftrightarrow> e \<in> set (flush_encs C ?cs) \<and> en_CKey e = k"
    using enc_readback [OF e page] by auto
  show thesis
  proof (rule that [OF enc(1)])
    fix c
    assume "c \<in> set ?cs"
    then have "enc_record (raw_record C c) \<in> set (flush_encs C ?cs)"
      unfolding flush_encs_def set_map by (rule imageI)
    moreover have "en_CKey (enc_record (raw_record C c)) = md5 C c"
      by (simp add: enc_record_def raw_record_def)
    ultimately show "enc_Find enc (md5 C c) = Some (enc_record (raw_record C c))"
      using enc(2) by blast
  qed
qed

lemma flush_insts_eq:
  assumes "\<forall>f\<in>set files. length (snd f) < 2 ^ 32 - 1"
  shows "flush_insts C files =
    map (\<lambda>f. \<lparr>ie_Name = fst f, ie_CKey = md5 C (snd f), ie_ContentSize = word_of_nat (length (snd f))\<rparr>) files"
  using assms
proof (induction files)
  case (Cons f files)
  have u: "unat (word_of_nat (length (snd f)) :: u64) = length (snd f)" using Cons.prems by (intro raw_size) simp
  have "length (snd f) < 2 ^ 32 - 1" using Cons.prems by simp
  then have "(word_of_nat (length (snd f)) :: u64) \<le> 0xFFFFFFFF"
    unfolding word_le_nat_alt u by simp
  then show ?case
    using Cons by (cases f) (simp add: flush_insts_def install_record_def raw_record_def ucast_word_of_nat_64_32)
qed (simp add: flush_insts_def)

lemma flush_install_parsed:
  assumes "flush_manifests C files ib db eb" "no_collision C (map snd files @ [ib, db, eb])" "codecs_ok C"
    and "length files < 2 ^ 31" "distinct (map fst files)" "\<forall>f\<in>set files. 0 \<notin> set (fst f)"
  obtains h where "install_Parse ib = Ret h"
    "\<And>n d. (n, d) \<in> set files \<Longrightarrow>
      install_LookupByName h n = Some (install_entry n (md5 C d) (word_of_nat (length d)))"
proof -
  have "\<forall>f\<in>set files. length (snd f) < 2 ^ 32 - 1"
    using assms(2) by (auto simp: no_collision_def)
  note insts = flush_insts_eq [OF this, of C]
  have e: "install_Encode (flush_insts C files) [] 0 = Ret ib" using assms(1) by (simp add: flush_manifests_def)
  have "\<forall>e\<in>set (flush_insts C files). 0 \<notin> set (ie_Name e) \<and> length (ie_CKey e) = 16"
    using assms(3,6) by (auto simp: insts codecs_ok_def)
  moreover have "length (flush_insts C files) < 2 ^ 32 - 7" "distinct (map ie_Name (flush_insts C files))"
    using assms(4,5) by (simp_all add: insts comp_def)
  ultimately obtain h where h: "install_Parse ib = Ret h"
    "\<forall>e\<in>set (flush_insts C files). install_LookupByName h (ie_Name e) = Some (snd (read_entry 16 e))"
    using install_readback [OF e] by auto
  show thesis
  proof (rule that [OF h(1)])
    fix n d
    assume "(n, d) \<in> set files"
    then have "\<lparr>ie_Name = n, ie_CKey = md5 C d, ie_ContentSize = word_of_nat (length d)\<rparr> \<in> set (flush_insts C files)"
      by (force simp: insts)
    then show "install_LookupByName h n = Some (install_entry n (md5 C d) (word_of_nat (length d)))"
      using h(2) raw_keys [OF assms(3), of d] by (fastforce simp: read_entry_def key_ok_def MD5HashSize_def)
  qed
qed

section \<open>The configurations of a run\<close>

lemma length_dec: "n < 10 ^ Suc k \<Longrightarrow> length (dec n) \<le> Suc k"
proof (induction k arbitrary: n)
  case (Suc k)
  then have "n div 10 < 10 ^ Suc k" by (simp add: less_mult_imp_div_less)
  then show ?case using Suc.IH [of "n div 10"] by (subst dec.simps) simp
qed (simp add: dec.simps)

lemma length_dec_u64: "length (dec (unat (w :: u64))) \<le> 20"
  using unsigned_less [of w, where ?'a = nat] length_dec [of "unat w" 19] by simp

lemma config_ok_put:
  assumes "config_ok c" "name_ok n" "\<forall>v\<in>set vs. token v" "length n + 3 + length (join [0x20] vs) < bc_max_line"
  shows "config_ok (bc_put c n vs)"
proof -
  have "name_ok m \<and> (\<forall>v\<in>set (bc_All (bc_put c n vs) m). token v) \<and> length (bc_line_text (bc_put c n vs) m) < bc_max_line"
    if "m \<in> set (bc_order (bc_put c n vs))" for m
  proof (cases "m = n")
    case True
    then show ?thesis using assms(2-4) by (simp add: bc_All_put bc_line_text_def lit_eq)
  next
    case False
    then have "m \<in> set (bc_order c)" using that by (auto simp: bc_put_def split: if_splits)
    then show ?thesis using assms(1) False by (simp add: config_ok_def bc_All_put bc_line_text_def)
  qed
  then show ?thesis using assms(1) bc_wf_put by (auto simp: config_ok_def)
qed

definition span_keys_ok :: "spanRecord \<Rightarrow> bool" where
  "span_keys_ok r \<longleftrightarrow> key_ok (sr_ckey r) \<and> key_ok (sr_ekey r)"

lemma key_token: "key_ok k \<Longrightarrow> token (hex_encode k) \<and> length (hex_encode k) = 32"
  using hex_token [of k] by (cases k) (simp_all add: key_ok_def MD5HashSize_def)

lemma config_ok_pair:
  assumes "config_ok c" "name_ok n" "length n < 100" "key_ok a" "key_ok b"
  shows "config_ok (bc_SetKeyPair c n a b)"
  unfolding bc_SetKeyPair_def bc_Set_def
  using assms key_token by (intro config_ok_put) (auto simp: bc_max_line_def)

lemma config_ok_span:
  assumes "config_ok c" "name_ok (lit n)" "name_ok (lit m)" "length n < 100" "length m < 100" "span_keys_ok r"
  shows "config_ok (put_span n m r c)"
proof -
  have "config_ok (bc_SetKeyPair c (lit n) (sr_ckey r) (sr_ekey r))"
    using assms by (intro config_ok_pair) (simp_all add: span_keys_ok_def lit_def)
  then show ?thesis
    unfolding put_span_def bc_SetSizePair_def bc_Set_def
    using assms(3,5) length_dec_u64 [of "sr_contentSize r"] dec_token
    by (intro config_ok_put) (auto simp: bc_max_line_def lit_def)
qed

lemma flush_names:
  "name_ok (lit ''build-name'')" "name_ok (lit ''encoding'')" "name_ok (lit ''encoding-size'')" "name_ok (lit ''install'')"
  "name_ok (lit ''install-size'')" "name_ok (lit ''download'')" "name_ok (lit ''download-size'')" "name_ok (lit ''root'')"
  "token (lit ''go-casclib-synthetic'')"
  by (simp_all add: name_ok_def token_def lit_def plain_byte_def ascii_space_def)

lemma flush_buildCfg_ok:
  assumes "span_keys_ok (sp_install out)" "span_keys_ok (sp_download out)" "span_keys_ok (sp_encoding out)"
  shows "config_ok (flush_buildCfg out)"
proof -
  have "config_ok bc_New" by (simp add: config_ok_def) (simp add: bc_New_def)
  then have "config_ok (bc_Set bc_New (lit ''build-name'') [lit ''go-casclib-synthetic''])"
    unfolding bc_Set_def using flush_names by (intro config_ok_put) (simp_all add: bc_max_line_def lit_def)
  then show ?thesis
    unfolding flush_buildCfg_def using assms flush_names
    by (intro config_ok_pair config_ok_span) (auto simp: span_keys_ok_def lit_def)
qed

text \<open>The keys the storage looks up in it.\<close>

lemma put_span_lookup:
  "other \<noteq> lit n \<Longrightarrow> other \<noteq> lit m \<Longrightarrow> bc_LookupCKey (put_span n m r c) other = bc_LookupCKey c other"
  "lit m \<noteq> lit n \<Longrightarrow> span_keys_ok r \<Longrightarrow> bc_LookupCKey (put_span n m r c) (lit n) =
     Ret \<lparr>bk_CKey = sr_ckey r, bk_EKey = sr_ekey r, bk_HasEKey = True, bk_ContentSize = 0\<rparr>"
  by (simp_all add: put_span_def bc_SetSizePair_def bc_SetKeyPair_def bc_Set_def config_other
      config_keys(1) [unfolded bc_SetKeyPair_def bc_Set_def] span_keys_ok_def)

definition span_key :: "spanRecord \<Rightarrow> bc_CKeyEntry" where
  "span_key r = \<lparr>bk_CKey = sr_ckey r, bk_EKey = sr_ekey r, bk_HasEKey = True, bk_ContentSize = 0\<rparr>"

lemma lit_inject: "lit a = lit b \<longleftrightarrow> map of_char a = (map of_char b :: bytes)"
  by (simp add: lit_def)

lemma flush_buildCfg_keys:
  assumes "span_keys_ok (sp_install out)" "span_keys_ok (sp_download out)" "span_keys_ok (sp_encoding out)"
  shows "bc_LookupCKey (flush_buildCfg out) (lit ''encoding'') = Ret (span_key (sp_encoding out))"
    and "bc_LookupCKey (flush_buildCfg out) (lit ''root'') = Ret (span_key (sp_install out))"
    and "bc_LookupCKey (flush_buildCfg out) (lit ''install'') = Ret (span_key (sp_install out))"
    and "bc_LookupCKey (flush_buildCfg out) (lit ''download'') = Ret (span_key (sp_download out))"
    and "bc_LookupCKey (flush_buildCfg out) (lit ''size'') = Fail ErrFileNotFound"
proof -
  have pair: "bc_LookupCKey (bc_SetKeyPair c (lit ''root'') a b) other = bc_LookupCKey c other" if "other \<noteq> lit ''root''" for c a b other
    using that by (simp add: bc_SetKeyPair_def bc_Set_def config_other)
  have ne: "lit ''encoding'' \<noteq> lit ''root''" "lit ''install'' \<noteq> lit ''root''" "lit ''download'' \<noteq> lit ''root''" "lit ''size'' \<noteq> lit ''root''"
    "lit ''encoding'' \<noteq> lit ''install''" "lit ''encoding'' \<noteq> lit ''install-size''" "lit ''encoding'' \<noteq> lit ''download''"
    "lit ''encoding'' \<noteq> lit ''download-size''" "lit ''encoding-size'' \<noteq> lit ''encoding''"
    "lit ''install'' \<noteq> lit ''download''" "lit ''install'' \<noteq> lit ''download-size''" "lit ''install-size'' \<noteq> lit ''install''"
    "lit ''download-size'' \<noteq> lit ''download''"
    "lit ''size'' \<noteq> lit ''install''" "lit ''size'' \<noteq> lit ''install-size''" "lit ''size'' \<noteq> lit ''download''"
    "lit ''size'' \<noteq> lit ''download-size''" "lit ''size'' \<noteq> lit ''encoding''" "lit ''size'' \<noteq> lit ''encoding-size''"
    "lit ''size'' \<noteq> lit ''build-name''"
    by (simp_all add: lit_def)
  note lookups = flush_buildCfg_def pair put_span_lookup span_key_def ne
  show "bc_LookupCKey (flush_buildCfg out) (lit ''encoding'') = Ret (span_key (sp_encoding out))"
    "bc_LookupCKey (flush_buildCfg out) (lit ''install'') = Ret (span_key (sp_install out))"
    "bc_LookupCKey (flush_buildCfg out) (lit ''download'') = Ret (span_key (sp_download out))"
    using assms by (simp_all add: lookups)
  show "bc_LookupCKey (flush_buildCfg out) (lit ''root'') = Ret (span_key (sp_install out))"
    using assms by (simp add: flush_buildCfg_def config_keys span_keys_ok_def span_key_def)
  show "bc_LookupCKey (flush_buildCfg out) (lit ''size'') = Fail ErrFileNotFound"
    by (simp add: lookups bc_Set_def config_other) (simp add: bc_LookupCKey_def bc_All_def bc_New_def)
qed

text \<open>The row of \<^verbatim>\<open>.build.info\<close>.\<close>

lemma flush_row_ok:
  assumes "key_ok a" "key_ok b" "n < 10 ^ 20"
  shows "row_ok 0x7C (buildInfo_fields (flush_row a b n))"
proof -
  have "list_all (\<lambda>n. (word_of_nat (0x30 + n) :: u8) \<noteq> 0x7C) [0..<10]" by code_simp
  then have digit: "(word_of_nat (0x30 + n) :: u8) \<noteq> 0x7C" if "n < 10" for n
    using that by (simp only: list_all_iff) simp
  have "0x7C \<notin> set (dec n)" for n
  proof (induction n rule: dec.induct)
    case (1 n)
    then show ?case using digit [of n] digit [of "n mod 10"] by (subst dec.simps) auto
  qed
  then have d: "cell_ok 0x7C (dec n)" using token_no_newline [OF dec_token] by (simp add: cell_ok_def)
  have k: "cell_ok 0x7C (hex_encode k) \<and> length (hex_encode k) = 32 \<and> hex_encode k \<noteq> []" if "key_ok k" for k
  proof -
    have "0x7C \<notin> set (hex_encode k)" using hex_encode_plain by blast
    then show ?thesis using key_token [OF that] token_no_newline [of "hex_encode k"] by (auto simp: cell_ok_def token_def)
  qed
  have "cell_ok 0x7C (lit ''us'')" "cell_ok 0x7C (lit ''1'')" "cell_ok 0x7C (lit ''go-casclib'')" "cell_ok 0x7C (lit ''0.0.0.1'')"
    "cell_ok 0x7C []"
    by (simp_all add: cell_ok_def lit_def)
  moreover have "length (dec n) \<le> 20" using length_dec [of n 19] assms(3) by simp
  then have "length (join [0x7C] (buildInfo_fields (flush_row a b n))) < csv_max_line"
    using k [OF assms(1)] k [OF assms(2)] by (simp add: buildInfo_fields_def flush_row_def csv_max_line_def lit_def)
  ultimately show ?thesis
    using d k [OF assms(1)] k [OF assms(2)] by (simp add: row_ok_def buildInfo_fields_def flush_row_def)
qed

section \<open>Opening\<close>

lemma index_name_facts: "scan_bucket index_name = Some 0" "is_idx index_name"
  by code_simp+

lemma flushed_indexes:
  assumes "flushed C files dir fs ib db eb es" "\<forall>e\<in>set es. entry_fits e" "length es < 2 ^ 32"
  obtains idx where "loadLocalIndexes fs dir = Ret [idx]" "if_Entries idx = map trim_entry (index_sort es)"
proof -
  have f: "fs_list fs (data_dir dir) = Some [(index_name, False)]"
    "fs_file fs (data_dir dir @ [index_name]) = Content (EncodeV1 es flush_index)"
    using assms(1) by (simp_all add: flushed_def)
  obtain idx where idx: "index_Parse (EncodeV1 es flush_index) 0 = Ret idx" "if_Entries idx = map trim_entry (index_sort es)"
    using index_readback [OF assms(2,3), of flush_index] by (auto simp: flush_index_def)
  have "load_idx_files fs (data_dir dir) [(index_name, False)] = Ret [idx]"
    using f(2) idx(1) by (simp add: index_name_facts Join_plain plain_index_name read_file_def)
  then show thesis
    using f(1) idx(2) by (intro that [of idx]) (simp_all add: loadLocalIndexes_def)
qed

lemma flushed_build_info:
  assumes "flushed C files dir fs ib db eb es" "codecs_ok C" "length ib < 2 ^ 32 - 1"
  defines "build \<equiv> bc_EncodeText (flush_buildCfg (flush_out C ib db eb))"
  obtains bi where "\<And>spelt. Clean spelt = dir \<Longrightarrow> loadBuildInfo fs spelt = Ret (Some bi)"
    "firstColumnValue bi (lit ''Build Key'') = Ret (hex_encode (md5 C build))"
    "\<exists>ck. firstColumnValue bi (lit ''CDN Key'') = Ret ck"
    "firstColumnValue bi (lit ''CDN Hosts'') = Ret []"
    "firstColumnValue bi (lit ''CDN Path'') = Ret []"
proof -
  let ?cdn = "bc_EncodeText flush_cdnCfg"
  let ?row = "flush_row (md5 C build) (md5 C ?cdn) (length ib)"
  let ?bi = "buildInfo_table [?row]"
  have "fs_file fs (dir @ [lit ''.build.info'']) = Content (EncodeBuildInfo [?row])"
    using assms(1) by (simp add: flushed_def build_def Let_def)
  moreover have "csv_Parse (EncodeBuildInfo [?row]) = Ret ?bi"
    using flush_row_ok raw_keys [OF assms(2)] assms(3) by (intro build_info_parsed) simp
  ultimately have "loadBuildInfo fs spelt = Ret (Some ?bi)" if "Clean spelt = dir" for spelt
    using that by (simp add: loadBuildInfo_def)
  moreover have one: "firstColumnValue ?bi name = bnd (csv_Get ?bi 0 name) Ret" for name
    by (simp add: firstColumnValue_def buildInfo_table_def) (cases "csv_Get ?bi 0 name"; simp add: buildInfo_table_def)
  ultimately show thesis
    using build_info_columns(1-4) [of 0 "[?row]"] by (intro that [of ?bi]) (simp_all add: one flush_row_def)
qed

lemma flushed_config:
  assumes "flushed C files dir fs ib db eb es" "codecs_ok C" "Clean spelt = dir"
  defines "cfg \<equiv> flush_buildCfg (flush_out C ib db eb)"
  shows "readConfigFile fs spelt (hex_encode (md5 C (bc_EncodeText cfg))) = Ret cfg"
    and "resolve_keys cfg s = Ret (s\<lparr>st_BuildConfig := Some cfg, st_EncodingCKey := Some (span_key (raw_record C eb)),
      st_RootCKey := Some (span_key (raw_record C ib)), st_InstallCKey := Some (span_key (raw_record C ib)),
      st_DownloadCKey := Some (span_key (raw_record C db)), st_SizeCKey := None\<rparr>)"
proof -
  have keys: "span_keys_ok (raw_record C c)" for c
    using raw_keys [OF assms(2)] by (simp add: span_keys_ok_def raw_record_def)
  have out: "sp_install (flush_out C ib db eb) = raw_record C ib" "sp_download (flush_out C ib db eb) = raw_record C db"
    "sp_encoding (flush_out C ib db eb) = raw_record C eb"
    by (simp_all add: flush_out_def)
  show "resolve_keys cfg s = Ret (s\<lparr>st_BuildConfig := Some cfg, st_EncodingCKey := Some (span_key (raw_record C eb)),
      st_RootCKey := Some (span_key (raw_record C ib)), st_InstallCKey := Some (span_key (raw_record C ib)),
      st_DownloadCKey := Some (span_key (raw_record C db)), st_SizeCKey := None\<rparr>)"
    using flush_buildCfg_keys [of "flush_out C ib db eb"] keys by (simp add: resolve_keys_def cfg_def out)
  let ?k = "md5 C (bc_EncodeText cfg)"
  have "config_ok cfg" using flush_buildCfg_ok [of "flush_out C ib db eb"] keys by (simp add: cfg_def out)
  then have parse: "bc_Parse (bc_EncodeText cfg) = Ret cfg" by (rule config_readback)
  have "Join dir (lit ''Data'' # [lit ''config'', take 2 (hex_encode ?k), take 2 (drop 2 (hex_encode ?k)), hex_encode ?k]) =
      cache_path_of (config_dir dir) ?k"
    using hex_plain [OF raw_keys [OF assms(2)], of "bc_EncodeText cfg"]
    by (simp add: Join_plain lit_plain cache_path_of_def config_dir_def)
  moreover have "fs_file fs (cache_path_of (config_dir dir) ?k) = Content (bc_EncodeText cfg)"
    using assms(1) by (simp add: flushed_def cfg_def Let_def)
  ultimately show "readConfigFile fs spelt (hex_encode ?k) = Ret cfg"
    using parse assms(3) key_token [OF raw_keys [OF assms(2)], of "bc_EncodeText cfg"]
    by (simp add: readConfigFile_def Let_def)
qed

lemma flushed_loadConfigs:
  assumes "flushed (rt_codecs rt) files dir fs ib db eb es" "codecs_ok (rt_codecs rt)" "length ib < 2 ^ 32 - 1"
    and "Clean spelt = dir" "loadBuildInfo fs spelt = Ret (st_BuildInfo s)" "st_CDN s = None"
  obtains s' where "loadConfigs rt http arrival fs spelt s = Ret s'"
    "st_EncodingCKey s' = Some (span_key (raw_record (rt_codecs rt) eb))"
    "st_RootCKey s' = Some (span_key (raw_record (rt_codecs rt) ib))"
    "st_ekeys s' = st_ekeys s" "st_pool s' = st_pool s" "st_Path s' = st_Path s"
proof -
  let ?C = "rt_codecs rt"
  let ?cfg = "flush_buildCfg (flush_out ?C ib db eb)"
  obtain bi ck where bi: "loadBuildInfo fs spelt = Ret (Some bi)"
    "firstColumnValue bi (lit ''Build Key'') = Ret (hex_encode (md5 ?C (bc_EncodeText ?cfg)))"
    "firstColumnValue bi (lit ''CDN Key'') = Ret ck"
    "firstColumnValue bi (lit ''CDN Hosts'') = Ret []"
    "firstColumnValue bi (lit ''CDN Path'') = Ret []"
    using flushed_build_info [OF assms(1-3)] assms(4) by metis
  have bs: "st_BuildInfo s = Some bi" using bi(1) assms(5) by simp
  define s1 where "s1 = s\<lparr>st_BuildConfig := Some ?cfg, st_EncodingCKey := Some (span_key (raw_record ?C eb)),
      st_RootCKey := Some (span_key (raw_record ?C ib)), st_InstallCKey := Some (span_key (raw_record ?C ib)),
      st_DownloadCKey := Some (span_key (raw_record ?C db)), st_SizeCKey := None\<rparr>"
  have ne: "hex_encode (md5 ?C (bc_EncodeText ?cfg)) \<noteq> []"
    using key_token [OF raw_keys [OF assms(2)], of "bc_EncodeText ?cfg"] by (auto simp: token_def)
  have build: "load_build_config fs spelt (hex_encode (md5 ?C (bc_EncodeText ?cfg))) s = Ret s1"
    using flushed_config [OF assms(1,2,4)] ne by (simp add: load_build_config_def s1_def)
  obtain c where cdn: "load_cdn_config fs spelt ck s1 = Ret (s1\<lparr>st_CDNConfig := c\<rparr>)"
  proof -
    have "readConfigFile fs spelt ck \<noteq> Panic" using safe_readConfigFile [of fs spelt ck] by (simp add: safe_def)
    then have "\<exists>c. load_cdn_config fs spelt ck s1 = Ret (s1\<lparr>st_CDNConfig := c\<rparr>)"
      by (auto simp: load_cdn_config_def attempt_def split: option.splits outcome.splits intro: exI [of _ "st_CDNConfig s1"])
    then show thesis using that by blast
  qed
  have "go_online rt http arrival bi (s1\<lparr>st_CDNConfig := c\<rparr>) = Ret (s1\<lparr>st_CDNConfig := c\<rparr>)"
    using bi(4,5) assms(6) by (simp add: go_online_def initCDNClient_def loadCDNArchiveIndexes_def s1_def)
  then have "loadConfigs rt http arrival fs spelt s = Ret (s1\<lparr>st_CDNConfig := c\<rparr>)"
    using bi(2,3) build cdn by (simp add: loadConfigs_def bs)
  then show thesis by (rule that) (simp_all add: s1_def)
qed

lemma mounted_update:
  assumes "mounted C cs dir fs es s" "st_ekeys s' = st_ekeys s" "st_pool s' = st_pool s" "st_Path s' = st_Path s"
    and "st_dataDir s' = st_dataDir s \<or> st_pool s = None"
  shows "mounted C cs dir fs es s'"
  using assms by (auto simp: mounted_def FindByEKey_def split: option.splits)

text \<open>What has to hold of the files and the probes for the remount to succeed.\<close>

definition flush_limits :: "codecs \<Rightarrow> (bytes \<times> bytes) list \<Rightarrow> bool" where
  "flush_limits C files \<longleftrightarrow> length files < 2 ^ 31 \<and> distinct (map fst files) \<and> (\<forall>f\<in>set files. 0 \<notin> set (fst f)) \<and>
     (\<forall>ib db eb. flush_manifests C files ib db eb \<longrightarrow> no_collision C (map snd files @ [ib, db, eb]) \<and>
        md5 C (bc_EncodeText (flush_buildCfg (flush_out C ib db eb))) \<noteq> md5 C (bc_EncodeText flush_cdnCfg))"

lemma flushed_LoadAll:
  assumes "flush_manifests (rt_codecs rt) files ib db eb" "flush_limits (rt_codecs rt) files"
    and "codecs_ok (rt_codecs rt)" "\<not> LZMARegistered (rt_lzma rt)"
    and "set (rt_probes rt) = set (root_probes uni order mndx)"
    and "mounted (rt_codecs rt) (map snd files @ [ib, db, eb]) dir fs es s"
    and "st_EncodingCKey s = Some (span_key (raw_record (rt_codecs rt) eb))"
    and "st_RootCKey s = Some (span_key (raw_record (rt_codecs rt) ib))"
  obtains s' enc h where "LoadAll rt http io s fs = (Ret (), s', fs)"
    "mounted (rt_codecs rt) (map snd files @ [ib, db, eb]) dir fs es s'"
    "st_Encoding s' = Some enc" "st_Root s' = Some (install_iface h)"
    "\<And>c. c \<in> set (map snd files @ [ib, db]) \<Longrightarrow>
       enc_Find enc (md5 (rt_codecs rt) c) = Some (enc_record (raw_record (rt_codecs rt) c))"
    "\<And>n d. (n, d) \<in> set files \<Longrightarrow>
       install_LookupByName h n = Some (install_entry n (md5 (rt_codecs rt) d) (word_of_nat (length d)))"
proof -
  let ?C = "rt_codecs rt" and ?cs = "map snd files @ [ib, db, eb]"
  have lim: "no_collision ?C ?cs" "length files < 2 ^ 31" "distinct (map fst files)" "\<forall>f\<in>set files. 0 \<notin> set (fst f)"
    using assms(1,2) unfolding flush_limits_def by blast+
  obtain enc where enc: "enc_Parse eb = Ret enc"
    "\<And>c. c \<in> set (map snd files @ [ib, db]) \<Longrightarrow> enc_Find enc (md5 ?C c) = Some (enc_record (raw_record ?C c))"
    using assms(1) lim(1) assms(3) lim(2) by (rule flush_encoding_parsed) blast
  obtain h where h: "install_Parse ib = Ret h"
    "\<And>n d. (n, d) \<in> set files \<Longrightarrow> install_LookupByName h n = Some (install_entry n (md5 ?C d) (word_of_nat (length d)))"
    using assms(1) lim(1) assms(3) lim(2-4) by (rule flush_install_parsed) blast
  obtain p where read: "ReadByEKeyContext rt http io (md5 ?C (raw_stream ?C eb)) s fs =
      (Ret eb, s\<lparr>st_pool := Some p, st_dataDir := data_dir dir\<rparr>, fs)"
    and m: "mounted ?C ?cs dir fs es (s\<lparr>st_pool := Some p, st_dataDir := data_dir dir\<rparr>)"
    by (rule read_mounted [OF assms(6,3,4), of eb]) auto
  define s1 where "s1 = s\<lparr>st_pool := Some p, st_dataDir := data_dir dir, st_Encoding := Some enc\<rparr>"
  have e: "LoadEncoding rt http io s fs = (Ret (), s1, fs)"
    using assms(7) read enc(1) by (simp add: LoadEncoding_def span_key_def raw_record_def s1_def)
  have m1: "mounted ?C ?cs dir fs es s1" by (rule mounted_update [OF m]) (simp_all add: s1_def)
  obtain q where read': "ReadByEKeyContext rt http io (md5 ?C (raw_stream ?C ib)) s1 fs =
      (Ret ib, s1\<lparr>st_pool := Some q, st_dataDir := data_dir dir\<rparr>, fs)"
    and m2: "mounted ?C ?cs dir fs es (s1\<lparr>st_pool := Some q, st_dataDir := data_dir dir\<rparr>)"
    by (rule read_mounted [OF m1 assms(3,4), of ib]) auto
  let ?s2 = "s1\<lparr>st_pool := Some q, st_dataDir := data_dir dir, st_Root := Some (install_iface h)\<rparr>"
  have ib: "enc_Find enc (md5 ?C ib) = Some (enc_record (raw_record ?C ib))" by (rule enc(2)) simp
  have det: "Detect (registered (rt_probes rt)) ib = Ret (install_iface h)"
    using install_detected [OF _ h(1) assms(5)] assms(1) unfolding flush_manifests_def registered_id by blast
  have "LoadRoot rt http io s1 fs = (Ret (), ?s2, fs)"
    using assms(8) read' ib det
    by (simp add: LoadRoot_def s1_def span_key_def raw_record_def enc_record_def)
  then have "LoadAll rt http io s fs = (Ret (), ?s2, fs)" using e by (simp add: LoadAll_def)
  moreover have "mounted ?C ?cs dir fs es ?s2" by (rule mounted_update [OF m2]) simp_all
  ultimately show thesis
    by (rule that [of _ enc h]) (use enc(2) h(2) in \<open>simp_all add: s1_def\<close>)
qed

lemma flushed_archived:
  assumes "flushed C files dir fs ib db eb es" "flush_limits C files"
    and "\<forall>i. fs_segs fs (data_dir dir) i \<noteq> None \<longrightarrow> unat i < 1024"
  shows "archived C (map snd files @ [ib, db, eb]) (fs_segs fs (data_dir dir)) es"
  using assms by (auto simp: flushed_def flush_limits_def archived_def)

lemma flushed_Open:
  assumes "flushed (rt_codecs rt) files dir fs ib db eb es" "flush_limits (rt_codecs rt) files"
    and "codecs_ok (rt_codecs rt)" "\<not> LZMARegistered (rt_lzma rt)"
    and "set (rt_probes rt) = set (root_probes uni order mndx)"
    and "\<forall>i. fs_segs fs (data_dir dir) i \<noteq> None \<longrightarrow> unat i < 1024" "so_ListfileReader opts = None"
    and "Clean spelt = dir" "plain_path dir"
  obtains s enc h where "storage_Open rt http arrival io spelt opts fs = Ret (s, fs)"
    "mounted (rt_codecs rt) (map snd files @ [ib, db, eb]) dir fs es s"
    "st_Encoding s = Some enc" "st_Root s = Some (install_iface h)"
    "\<And>c. c \<in> set (map snd files @ [ib, db]) \<Longrightarrow>
       enc_Find enc (md5 (rt_codecs rt) c) = Some (enc_record (raw_record (rt_codecs rt) c))"
    "\<And>n d. (n, d) \<in> set files \<Longrightarrow>
       install_LookupByName h n = Some (install_entry n (md5 (rt_codecs rt) d) (word_of_nat (length d)))"
proof -
  let ?C = "rt_codecs rt" and ?cs = "map snd files @ [ib, db, eb]"
  have man: "flush_manifests ?C files ib db eb" and root: "fs_stat fs dir = Some True" "fs_stat fs (data_dir dir) = Some True"
    using assms(1) by (simp_all add: flushed_def)
  have lim: "no_collision ?C ?cs" "length files < 2 ^ 31"
    using man assms(2) unfolding flush_limits_def by blast+
  have len: "length ib < 2 ^ 32 - 1" using lim(1) by (simp add: no_collision_def)
  have ar: "archived ?C ?cs (fs_segs fs (data_dir dir)) es" by (rule flushed_archived [OF assms(1,2,6)])
  note items = archived_items(1,3) [OF ar assms(3)]
  have "\<forall>e\<in>set es. entry_fits e" using items(1) by (auto simp: list_all2_conv_all_nth in_set_conv_nth)
  moreover have "length es < 2 ^ 32" using items(2) lim(2) by simp
  ultimately obtain idx where idx: "loadLocalIndexes fs dir = Ret [idx]" "if_Entries idx = map trim_entry (index_sort es)"
    using flushed_indexes [OF assms(1)] by blast
  obtain bi where bi: "loadBuildInfo fs spelt = Ret (Some bi)"
    using flushed_build_info [OF assms(1,3) len] assms(8) by metis
  define s0 where "s0 = buildEKeyMap ((new_storage dir opts)\<lparr>st_Listfile := None, st_BuildInfo := Some bi, st_Indexes := [idx]\<rparr>)"
  have s0: "st_pool s0 = None" "st_Path s0 = dir" "st_BuildInfo s0 = Some bi" "st_CDN s0 = None"
    by (simp_all add: s0_def buildEKeyMap_def new_storage_def)
  have "FindByEKey s0 e = find (\<lambda>x. EKeyOf (ee_EKey x) = EKeyOf e) (map trim_entry (index_sort es))" for e
    by (simp add: s0_def FindByEKey_first idx(2))
  then have m0: "mounted ?C ?cs dir fs es s0" using ar s0 root(2) assms(9) by (simp add: mounted_def)
  obtain s1 where s1: "loadConfigs rt http arrival fs spelt s0 = Ret s1"
    "st_EncodingCKey s1 = Some (span_key (raw_record ?C eb))" "st_RootCKey s1 = Some (span_key (raw_record ?C ib))"
    "st_ekeys s1 = st_ekeys s0" "st_pool s1 = st_pool s0" "st_Path s1 = st_Path s0"
    by (rule flushed_loadConfigs [OF assms(1,3) len assms(8)]) (use bi s0 in auto)
  have m1: "mounted ?C ?cs dir fs es s1" using s1(4-6) s0(1) by (intro mounted_update [OF m0]) simp_all
  show thesis
  proof (rule flushed_LoadAll [OF man assms(2-5) m1 s1(2,3), of http io])
    fix s2 enc h
    assume all: "LoadAll rt http io s1 fs = (Ret (), s2, fs)" "mounted ?C ?cs dir fs es s2" "st_Encoding s2 = Some enc"
      "st_Root s2 = Some (install_iface h)"
      "\<And>c. c \<in> set (map snd files @ [ib, db]) \<Longrightarrow> enc_Find enc (md5 ?C c) = Some (enc_record (raw_record ?C c))"
      "\<And>n d. (n, d) \<in> set files \<Longrightarrow> install_LookupByName h n = Some (install_entry n (md5 ?C d) (word_of_nat (length d)))"
    have "storage_Open rt http arrival io spelt opts fs = Ret (s2, fs)"
      using root bi idx(1) s1(1) all(1) assms(7,8) by (simp add: storage_Open_def s0_def [symmetric] Let_def)
    then show thesis using all(2-6) by (rule that)
  qed
qed

section \<open>Flush, open, read\<close>

lemma the_overlay_closed: "overlayLookup uni n \<lparr>ap_inner = i, ap_overlay = None, ap_removed = (\<lambda>_. False), ap_createDir = None\<rparr> = Absent"
  by (simp add: overlayLookup_def the_overlay_def Let_def)

definition local_options :: "OpenOptions \<Rightarrow> bool" where
  "local_options opts \<longleftrightarrow> oo_ListfileReader opts = None \<and> oo_ListfilePath opts = None"

lemma flushed_reads:
  assumes "flushed (rt_codecs rt) files dir fs ib db eb es" "flush_limits (rt_codecs rt) files"
    and "codecs_ok (rt_codecs rt)" "\<not> LZMARegistered (rt_lzma rt)"
    and "set (rt_probes rt) = set (root_probes uni order mndx)"
    and "\<forall>i. fs_segs fs (data_dir dir) i \<noteq> None \<longrightarrow> unat i < 1024" "local_options opts"
    and "Clean spelt = dir" "plain_path dir"
  shows "\<exists>api. OpenStorage rt http arrival io spelt opts fs = Ret (api, fs) \<and>
    (\<forall>(name, data)\<in>set files. \<exists>f api'. OpenFile rt http io name (api, fs) = (Ret f, api', fs) \<and> fl_content f = data)"
proof -
  let ?C = "rt_codecs rt"
  let ?opts = "\<lparr>so_LocaleMask = oo_LocaleMask opts, so_ListfileReader = None, so_Online = oo_Online opts,
             so_CacheDir = oo_CacheDir opts, so_OvercomeEncrypted = oo_OvercomeEncrypted opts\<rparr>"
  obtain s enc h where o: "storage_Open rt http arrival io spelt ?opts fs = Ret (s, fs)"
    "mounted ?C (map snd files @ [ib, db, eb]) dir fs es s"
    "st_Encoding s = Some enc" "st_Root s = Some (install_iface h)"
    "\<And>c. c \<in> set (map snd files @ [ib, db]) \<Longrightarrow> enc_Find enc (md5 ?C c) = Some (enc_record (raw_record ?C c))"
    "\<And>n d. (n, d) \<in> set files \<Longrightarrow> install_LookupByName h n = Some (install_entry n (md5 ?C d) (word_of_nat (length d)))"
    by (rule flushed_Open [OF assms(1-6) _ assms(8,9), of ?opts http arrival io]) simp_all
  let ?api = "\<lparr>ap_inner = Some s, ap_overlay = None, ap_removed = (\<lambda>_. False), ap_createDir = None\<rparr>"
  have "\<exists>f api'. OpenFile rt http io name (?api, fs) = (Ret f, api', fs) \<and> fl_content f = data"
    if f: "(name, data) \<in> set files" for name data
  proof -
    have data: "data \<in> set (map snd files @ [ib, db])" using f by force
    obtain e where fnd: "FindByName s name = Ret e" "ce_EKey e = md5 ?C (raw_stream ?C data)"
      using o(3,4) o(5) [OF data] o(6) [OF f]
      by (simp add: FindByName_def install_iface_def install_entry_def enc_record_def raw_record_def)
    obtain p where "ReadByEKeyContext rt http io (md5 ?C (raw_stream ?C data)) s fs =
        (Ret data, s\<lparr>st_pool := Some p, st_dataDir := data_dir dir\<rparr>, fs)"
      by (rule read_mounted [OF o(2) assms(3,4), of data]) (use data in auto)
    then show ?thesis
      using fnd by (simp add: OpenFile_def openFile_def the_overlay_closed read_inner_def wrap_file_def new_file_def)
  qed
  then show ?thesis
    using o(1) assms(7) by (auto simp: OpenStorage_def local_options_def)
qed

text \<open>
  C1. When Flush reports success on an empty directory, whatever calls the operating system
  refused on the way, OpenStorage, given the directory in any spelling, mounts it and OpenFile
  returns, for every name of the overlay, the content it had. This holds when the path of the
  directory has no glob metacharacter (* ? [ or a backslash), the names are distinct and free
  of NUL bytes, there are fewer than 2^31 files and 1024 segments, MD5 tells the contents and
  manifests apart on the nine bytes an index keeps, no encoded key imitates the BLTE signature,
  no content reaches four gigabytes, and no LZMA decoder or listfile is set.
\<close>

theorem flush_open_read:
  assumes "Flush (rt_codecs rt) faults s fs = (Ret (), fs')" "ap_createDir s = Some dir" "fresh_dir dir fs"
    and "codecs_ok (rt_codecs rt)" "\<not> LZMARegistered (rt_lzma rt)"
    and "set (rt_probes rt) = set (root_probes uni order mndx)"
    and "flush_limits (rt_codecs rt) (flush_order s)"
    and "\<forall>i. fs_segs fs' (data_dir dir) i \<noteq> None \<longrightarrow> unat i < 1024" "local_options opts"
    and "Clean spelt = dir" "plain_path dir"
  shows "\<exists>api. OpenStorage rt http arrival io spelt opts fs' = Ret (api, fs') \<and>
    (\<forall>(name, data)\<in>set (the_overlay s).
       \<exists>f api'. OpenFile rt http io name (api, fs') = (Ret f, api', fs') \<and> fl_content f = data)"
proof -
  obtain ib db eb es where "flushed (rt_codecs rt) (flush_order s) dir fs' ib db eb es"
    using Flush_written [OF assms(1-4)] assms(7) unfolding flush_limits_def by metis
  from flushed_reads [OF this assms(7,4-6,8-11)] show ?thesis by (simp add: flush_order_def)
qed

section \<open>The theorem at work\<close>

text \<open>With fewer than 1020 files the segment numbers stay in range whatever the sizes.\<close>

lemma flushed_segments:
  assumes "flushed C files dir fs ib db eb es" "flush_limits C files" "codecs_ok C" "length files < 1020"
  shows "\<forall>i. fs_segs fs (data_dir dir) i \<noteq> None \<longrightarrow> unat i < 1024"
proof (intro allI impI)
  fix i
  assume i: "fs_segs fs (data_dir dir) i \<noteq> None"
  let ?cs = "map snd files @ [ib, db, eb]"
  obtain w where put: "put_all store_put (map (raw_item C) ?cs) (NewWriter DefaultSegmentSize, \<lambda>_. None) =
      Some (es, w, fs_segs fs (data_dir dir))"
    and man: "flush_manifests C files ib db eb"
    using assms(1) by (auto simp: flushed_def)
  have "\<forall>c\<in>set ?cs. length c < 2 ^ 32 - 1"
    using man assms(2) unfolding flush_limits_def no_collision_def by blast
  then have items: "\<forall>k\<in>set (map (raw_item C) ?cs). span_ok k \<and> length (fst k) < 2 ^ 63"
    using raw_stream_length [OF assms(3)] raw_keys [OF assms(3)]
    by (auto simp: raw_item_def span_ok_def key_ok_def MD5HashSize_def)
  have "unat i \<le> 0 + length (map (raw_item C) ?cs)"
    using put_all_segments [OF run_inv_new _ _ items put i] assms(4) by (simp add: seg_cap_def DefaultSegmentSize_def)
  then show "unat i < 1024" using assms(4) by simp
qed

text \<open>A stand-in for MD5 that is the length of its argument.\<close>

definition length_codecs :: codecs where
  "length_codecs = run_codecs\<lparr>md5 := \<lambda>x. le_bytes 8 (length x) @ replicate 8 0\<rparr>"

lemma length_codecs_ok: "codecs_ok length_codecs"
  using run_codecs_ok by (simp add: codecs_ok_def length_codecs_def)

lemma le_bytes_8_inject:
  assumes "le_bytes 8 a = le_bytes 8 b" "a < 2 ^ 64" "b < 2 ^ 64"
  shows "a = b"
proof -
  have "le_val (le_bytes 8 a) = le_val (le_bytes 8 b)" by (simp only: assms(1))
  then show ?thesis using assms(2,3) by (simp only: le_val_le_bytes) simp
qed

lemma one_frame_stream: "length c \<le> 262144 \<Longrightarrow> length (raw_stream C c) = 37 + length c"
proof -
  assume c: "length c \<le> 262144"
  have "split_chunks defaultFrameSize c = [c]"
    using c by (auto simp: split_chunks_def chunks_loop.simps [of _ c] chunks_loop.simps [of _ "[]"] defaultFrameSize_def)
  then show ?thesis by (simp add: raw_stream_def frames_bytes_def Let_def raw_frame_def frame_entry_def)
qed

definition sample_overlay :: Api where
  "sample_overlay = (CreateStorage (Some []))\<lparr>ap_overlay := Some [(lit ''a'', [1, 2, 3])]\<rparr>"

definition bare_fs :: fsys where
  "bare_fs = \<lparr>fs_stat = [[] \<mapsto> True], fs_list = [[] \<mapsto> []], fs_file = (\<lambda>_. NoFile), fs_segs = (\<lambda>_ _. None)\<rparr>"

lemma fill_all:
  "off + 38 * length es \<le> 4096 \<Longrightarrow> \<forall>e\<in>set es. length (en_EKeys e) = 1 \<Longrightarrow> snd (fill_ckey_page 4096 off es) = []"
proof (induction es arbitrary: off)
  case (Cons e es)
  have "clip_record 4096 e = (38, e)" using Cons.prems(2) by (simp add: clip_record_def recordHdr_def MD5HashSize_def)
  moreover have "snd (fill_ckey_page 4096 (off + 38) es) = []" using Cons.prems by (intro Cons.IH) simp_all
  ultimately show ?case using Cons.prems(1) by (cases "fill_ckey_page 4096 (off + 38) es") (simp add: Let_def)
qed simp

abbreviation sample_files :: "(bytes \<times> bytes) list" where
  "sample_files \<equiv> [(lit ''a'', [1, 2, 3])]"

lemma sample_manifests:
  assumes "flush_manifests C sample_files ib db eb" "codecs_ok C"
  shows "length ib = 32" "length db = 16" "length eb = 4150"
proof -
  have insts: "flush_insts C sample_files = [\<lparr>ie_Name = lit ''a'', ie_CKey = md5 C [1, 2, 3], ie_ContentSize = 3\<rparr>]"
    by (subst flush_insts_eq) simp_all
  have k: "length (md5 C x) = 16" for x using assms(2) by (simp add: codecs_ok_def)
  have a: "length (lit ''a'') = 1" by (simp add: lit_def)
  show "length ib = 32"
    using assms(1) k a by (auto simp: flush_manifests_def insts install_Encode_def MD5HashSize_def install_entry_bytes_def)
  show "length db = 16"
    using assms(1) by (auto simp: flush_manifests_def EncodeDownload_def flush_download_def wd_version_def wd_keylen_def
      MD5HashSize_def download_header_bytes_def Let_def putBE_eq)
  let ?es = "enc_sort (flush_encs C (map snd sample_files @ [ib, db]))"
  have es: "length ?es = 3" "\<forall>e\<in>set ?es. length (en_EKeys e) = 1"
    by (simp_all add: enc_sort_def flush_encs_def enc_record_def)
  obtain bs where fill: "fill_ckey_page 4096 0 ?es = (bs, [])"
    using fill_all [of 0 ?es] es by (cases "fill_ckey_page 4096 0 ?es") simp
  have "ckey_pages 4096 ?es = [(en_CKey (hd ?es), fit 4096 bs)]"
    using es(1) fill by (subst ckey_pages.simps) (auto simp: ckey_pages.simps [of _ "[]"])
  then show "length eb = 4150"
    using assms(1) by (auto simp: flush_manifests_def enc_Encode_def flush_encoding_def default_page_def Let_def
      enc_header_bytes_def putBE_eq)
qed

lemma length_md5: "md5 length_codecs x = le_bytes 8 (length x) @ replicate 8 0"
  by (simp add: length_codecs_def)

lemma length_keys:
  assumes "\<forall>c\<in>set cs. length c \<le> 262144" "inj_on length (set cs)"
  shows "no_collision length_codecs cs"
proof -
  have md: "x = y" if "md5 length_codecs x = md5 length_codecs y" "x \<in> set cs" "y \<in> set cs" for x y
  proof -
    have "le_bytes 8 (length x) = le_bytes 8 (length y)" using that(1) by (simp add: length_md5)
    moreover have "length x < 2 ^ 64" "length y < 2 ^ 64" using assms(1) that(2,3) by force+
    ultimately show ?thesis using assms(2) that(2,3) le_bytes_8_inject by (metis inj_onD)
  qed
  have ek: "x = y" if "take 9 (md5 length_codecs (raw_stream length_codecs x)) = take 9 (md5 length_codecs (raw_stream length_codecs y))"
    "x \<in> set cs" "y \<in> set cs" for x y
  proof -
    have "le_bytes 8 (37 + length x) = le_bytes 8 (37 + length y)"
      using that assms(1) one_frame_stream by (simp add: length_md5)
    moreover have "37 + length x < 2 ^ 64" "37 + length y < 2 ^ 64" using assms(1) that(2,3) by force+
    ultimately have "37 + length x = 37 + length y" by (rule le_bytes_8_inject)
    then show ?thesis using assms(2) that(2,3) by (auto simp: inj_on_def)
  qed
  have "\<not> ekey_like_blte (md5 length_codecs x)" for x
    by (simp add: ekey_like_blte_def length_md5 four_zeros)
  moreover have "\<forall>c\<in>set cs. length c < 2 ^ 32 - 1" using assms(1) by force
  moreover have "inj_on (md5 length_codecs) (set cs)" using md by (rule inj_onI)
  moreover have "inj_on (\<lambda>c. take 9 (md5 length_codecs (raw_stream length_codecs c))) (set cs)" using ek by (rule inj_onI)
  ultimately show ?thesis unfolding no_collision_def by blast
qed

lemma config_text_length: "config_ok c \<Longrightarrow> length (bc_EncodeText c) \<le> length (bc_order c) * bc_max_line"
proof -
  assume c: "config_ok c"
  have "length (concat (map (\<lambda>name. bc_line_text c name @ [10]) ns)) \<le> length ns * bc_max_line"
    if "set ns \<subseteq> set (bc_order c)" for ns
    using that
  proof (induction ns)
    case (Cons n ns)
    then have "length (bc_line_text c n) < bc_max_line" using c by (simp add: config_ok_def)
    then show ?case using Cons by simp
  qed simp
  then show ?thesis by (simp add: bc_EncodeText_def)
qed

lemma bc_order_put: "set (bc_order c) \<subseteq> set (bc_order (bc_put c n vs))" "length (bc_order (bc_put c n vs)) \<le> Suc (length (bc_order c))"
  by (auto simp: bc_put_def)

lemma build_length:
  assumes "codecs_ok C"
  shows "34 \<le> length (bc_EncodeText (flush_buildCfg (flush_out C ib db eb)))"
    and "length (bc_EncodeText (flush_buildCfg (flush_out C ib db eb))) < 2 ^ 64"
proof -
  let ?cfg = "flush_buildCfg (flush_out C ib db eb)"
  let ?build = "bc_EncodeText ?cfg"
  let ?c0 = "bc_put bc_New (lit ''build-name'') [lit ''go-casclib-synthetic'']"
  note puts = flush_buildCfg_def put_span_def bc_SetKeyPair_def bc_SetSizePair_def bc_Set_def
  have ne: "lit ''build-name'' \<noteq> lit ''encoding''" "lit ''build-name'' \<noteq> lit ''encoding-size''" "lit ''build-name'' \<noteq> lit ''install''"
    "lit ''build-name'' \<noteq> lit ''install-size''" "lit ''build-name'' \<noteq> lit ''download''" "lit ''build-name'' \<noteq> lit ''download-size''"
    "lit ''build-name'' \<noteq> lit ''root''"
    by (simp_all add: lit_def)
  have "set (bc_order ?c0) \<subseteq> set (bc_order ?cfg)" unfolding puts by (intro subset_trans [OF _ bc_order_put(1)] subset_refl)
  then have "lit ''build-name'' \<in> set (bc_order ?cfg)" by (simp add: bc_put_def bc_New_def)
  then obtain xs ys where "bc_order ?cfg = xs @ lit ''build-name'' # ys" by (meson split_list)
  moreover have "bc_All ?cfg (lit ''build-name'') = [lit ''go-casclib-synthetic'']"
    using ne unfolding puts by (simp add: bc_All_put)
  then have "length (bc_line_text ?cfg (lit ''build-name'')) = 33"
    by (simp add: bc_line_text_def lit_def)
  ultimately show "34 \<le> length ?build" by (simp add: bc_EncodeText_def)
  have "length (bc_order ?cfg) \<le> Suc (Suc (Suc (Suc (Suc (Suc (Suc (length (bc_order ?c0))))))))"
    unfolding puts by (rule bc_order_put(2) le_trans [OF bc_order_put(2)] Suc_le_mono [THEN iffD2])+
  then have "length (bc_order ?cfg) \<le> 8" by (simp add: bc_put_def bc_New_def)
  moreover have "config_ok ?cfg"
    using raw_keys [OF assms(1)] by (intro flush_buildCfg_ok) (simp_all add: flush_out_def span_keys_ok_def raw_record_def)
  then have "length ?build \<le> length (bc_order ?cfg) * bc_max_line" by (rule config_text_length)
  moreover have "length (bc_order ?cfg) * bc_max_line \<le> 8 * bc_max_line" using calculation(1) by (rule mult_le_mono1)
  ultimately show "length ?build < 2 ^ 64" by (simp add: bc_max_line_def)
qed

lemma cdn_short: "length (bc_EncodeText flush_cdnCfg) = 29"
  by code_simp

lemma sample_limits: "flush_limits length_codecs sample_files" "flush_fits length_codecs sample_files"
proof -
  have cs: "no_collision length_codecs (map snd sample_files @ [ib, db, eb])"
    "\<forall>c\<in>set (map snd sample_files @ [ib, db, eb]). stream_fits length_codecs c"
    if man: "flush_manifests length_codecs sample_files ib db eb" for ib db eb
  proof -
    note len = sample_manifests [OF man length_codecs_ok]
    show "no_collision length_codecs (map snd sample_files @ [ib, db, eb])"
      using len by (intro length_keys) (auto simp: inj_on_def)
    show "\<forall>c\<in>set (map snd sample_files @ [ib, db, eb]). stream_fits length_codecs c"
      using len by (auto simp: stream_fits_def one_frame_stream)
  qed
  have "md5 length_codecs (bc_EncodeText (flush_buildCfg (flush_out length_codecs ib db eb))) \<noteq>
      md5 length_codecs (bc_EncodeText flush_cdnCfg)" (is "md5 _ ?build \<noteq> _") for ib db eb
  proof
    assume "md5 length_codecs ?build = md5 length_codecs (bc_EncodeText flush_cdnCfg)"
    then have "le_bytes 8 (length ?build) = le_bytes 8 29" by (simp add: length_md5 cdn_short)
    then have "length ?build = 29" using build_length(2) [OF length_codecs_ok] by (rule le_bytes_8_inject) simp
    then show False using build_length(1) [OF length_codecs_ok, of ib db eb] by simp
  qed
  then show "flush_limits length_codecs sample_files"
    using cs(1) by (auto simp: flush_limits_def lit_def)
  show "flush_fits length_codecs sample_files" using cs(2) by (auto simp: flush_fits_def)
qed

lemma sample_overlay_facts:
  "ap_createDir sample_overlay = Some []" "fresh_dir [] bare_fs" "the_overlay sample_overlay = sample_files"
  "flush_order sample_overlay = sample_files"
  by (simp_all add: sample_overlay_def CreateStorage_def the_overlay_def fresh_dir_def bare_fs_def flush_order_def)

theorem flush_succeeds_witness:
  "fst (Flush length_codecs no_flush_faults sample_overlay bare_fs) = Ret ()"
  using flush_succeeds [OF sample_overlay_facts(1,2) length_codecs_ok] sample_limits(2)
  by (simp add: sample_overlay_facts(4))

definition raw_runtime :: runtime where
  "raw_runtime = \<lparr>rt_codecs = length_codecs, rt_lzma = None, rt_uni = (\<lambda>x. x),
     rt_probes = root_probes (\<lambda>x. x) (\<lambda>_. []) (\<lambda>_. Fail ErrBadFormat)\<rparr>"

definition local_open :: OpenOptions where
  "local_open = \<lparr>oo_LocaleMask = 0, oo_ListfileReader = None, oo_ListfilePath = None, oo_Online = False,
     oo_CacheDir = None, oo_OvercomeEncrypted = False\<rparr>"

theorem flush_open_read_witness:
  "\<exists>fs. Flush length_codecs no_flush_faults sample_overlay bare_fs = (Ret (), fs) \<and>
     (\<exists>api. OpenStorage raw_runtime (\<lambda>_ _. NoReply) [] no_cache_faults (lit ''/'') local_open fs = Ret (api, fs) \<and>
       (\<exists>f api'. OpenFile raw_runtime (\<lambda>_ _. NoReply) no_cache_faults (lit ''a'') (api, fs) = (Ret f, api', fs) \<and>
          fl_content f = [1, 2, 3]))"
proof -
  obtain fs where run: "Flush length_codecs no_flush_faults sample_overlay bare_fs = (Ret (), fs)"
    using Flush_runs [OF sample_overlay_facts(1,2) length_codecs_ok] sample_limits(2)
    by (cases "Flush length_codecs no_flush_faults sample_overlay bare_fs") (simp add: sample_overlay_facts(4))
  have limits: "flush_limits length_codecs (flush_order sample_overlay)"
    using sample_limits(1) by (simp add: sample_overlay_facts(4))
  then obtain ib db eb es where "flushed length_codecs sample_files [] fs ib db eb es"
    using Flush_written [OF run sample_overlay_facts(1,2) length_codecs_ok]
    unfolding flush_limits_def sample_overlay_facts(4) by metis
  then have segs: "\<forall>i. fs_segs fs (data_dir []) i \<noteq> None \<longrightarrow> unat i < 1024"
    using sample_limits(1) length_codecs_ok by (rule flushed_segments) simp
  have "\<exists>api. OpenStorage raw_runtime (\<lambda>_ _. NoReply) [] no_cache_faults (lit ''/'') local_open fs = Ret (api, fs) \<and>
    (\<forall>(name, data)\<in>set (the_overlay sample_overlay).
       \<exists>f api'. OpenFile raw_runtime (\<lambda>_ _. NoReply) no_cache_faults name (api, fs) = (Ret f, api', fs) \<and> fl_content f = data)"
    by (rule flush_open_read [OF _ sample_overlay_facts(1,2), of raw_runtime no_flush_faults fs "\<lambda>x. x" "\<lambda>_. []" "\<lambda>_. Fail ErrBadFormat"])
      (use run limits segs length_codecs_ok in \<open>simp_all add: raw_runtime_def LZMARegistered_def local_options_def local_open_def
        Clean_def Join_def splitLine_def lit_def path_step_def plain_path_def\<close>)
  then show ?thesis using run by (auto simp: sample_overlay_facts(3))
qed

end
