(* ===== verification/SalsaSpec.thy ===== *)
theory SalsaSpec
  imports Decrypt GoText
begin

text \<open>
  The Salsa20 stream cipher as its specification gives it (quarter, row and column rounds on sixteen
  words, the expansion of a 16-byte key, the counter as eight little-endian bytes), and the proof
  that \<^verbatim>\<open>salsa20XOR\<close> computes it: the 32 assignments of \<^verbatim>\<open>salsa20Block\<close> are a double round, and the running
  counter of the loop is the block number.
\<close>

unbundle bit_operations_syntax

section \<open>The specification\<close>

type_synonym quad = "u32 \<times> u32 \<times> u32 \<times> u32"

definition quarterround :: "u32 \<Rightarrow> u32 \<Rightarrow> u32 \<Rightarrow> u32 \<Rightarrow> quad" where
  "quarterround y0 y1 y2 y3 =
     (let z1 = y1 XOR word_rotl 7 (y0 + y3);
          z2 = y2 XOR word_rotl 9 (z1 + y0);
          z3 = y3 XOR word_rotl 13 (z2 + z1);
          z0 = y0 XOR word_rotl 18 (z3 + z2)
      in (z0, z1, z2, z3))"

text \<open>The four diagonals of a square of words, each starting at its diagonal element.\<close>

definition columnround :: "u32 list \<Rightarrow> u32 list" where
  "columnround x =
     (let (y0, y4, y8, y12) = quarterround (x ! 0) (x ! 4) (x ! 8) (x ! 12);
          (y5, y9, y13, y1) = quarterround (x ! 5) (x ! 9) (x ! 13) (x ! 1);
          (y10, y14, y2, y6) = quarterround (x ! 10) (x ! 14) (x ! 2) (x ! 6);
          (y15, y3, y7, y11) = quarterround (x ! 15) (x ! 3) (x ! 7) (x ! 11)
      in [y0, y1, y2, y3, y4, y5, y6, y7, y8, y9, y10, y11, y12, y13, y14, y15])"

definition rowround :: "u32 list \<Rightarrow> u32 list" where
  "rowround y =
     (let (z0, z1, z2, z3) = quarterround (y ! 0) (y ! 1) (y ! 2) (y ! 3);
          (z5, z6, z7, z4) = quarterround (y ! 5) (y ! 6) (y ! 7) (y ! 4);
          (z10, z11, z8, z9) = quarterround (y ! 10) (y ! 11) (y ! 8) (y ! 9);
          (z15, z12, z13, z14) = quarterround (y ! 15) (y ! 12) (y ! 13) (y ! 14)
      in [z0, z1, z2, z3, z4, z5, z6, z7, z8, z9, z10, z11, z12, z13, z14, z15])"

definition doubleround :: "u32 list \<Rightarrow> u32 list" where
  "doubleround x = rowround (columnround x)"

text \<open>The words of a run of bytes, the core function, and the expansion of a 16-byte key.\<close>

definition words_of :: "bytes \<Rightarrow> u32 list" where
  "words_of b = map (\<lambda>i. word_of_nat (le_val (take 4 (drop (4 * i) b)))) [0..<length b div 4]"

definition salsa_core :: "bytes \<Rightarrow> bytes" where
  "salsa_core b =
     (let x = words_of b in concat (map (\<lambda>(z, y). le_bytes 4 (unat (z + y))) (zip ((doubleround ^^ 10) x) x)))"

definition salsa_block :: "bytes \<Rightarrow> bytes \<Rightarrow> nat \<Rightarrow> bytes" where
  "salsa_block k nonce n =
     salsa_core (lit ''expa'' @ k @ lit ''nd 1'' @ nonce @ le_bytes 8 n @ lit ''6-by'' @ k @ lit ''te k'')"

definition salsa_encrypt :: "bytes \<Rightarrow> bytes \<Rightarrow> bytes \<Rightarrow> bytes" where
  "salsa_encrypt k nonce m =
     map (\<lambda>j. m ! j XOR salsa_block k nonce (j div 64) ! (j mod 64)) [0..<length m]"

text \<open>
  The nonce of a frame: the IV padded to eight bytes, its first four bytes combined with the bytes
  of the frame index, low byte first.
\<close>

definition frame_nonce :: "bytes \<Rightarrow> nat \<Rightarrow> bytes" where
  "frame_nonce ivb frameIndex =
     map (\<lambda>j. (if j < length ivb then ivb ! j else 0) XOR (if j < 4 then word_of_nat (frameIndex div 256 ^ j) else 0)) [0..<8]"

section \<open>The rounds of the code\<close>

lemma rol32_rotl:
  assumes "0 < n" "n < 32"
  shows "rol32 x n = word_rotl n x"
proof (rule bit_word_eqI)
  fix k assume "k < LENGTH(32)"
  then have k: "k < 32" by simp
  have "bit (word_rotl n x) k \<longleftrightarrow> bit x ((k + (LENGTH(32) - n mod LENGTH(32))) mod LENGTH(32))"
    using k by (simp only: bit_word_rotl_iff) simp
  also have "(k + (LENGTH(32) - n mod LENGTH(32))) mod LENGTH(32) = (if n \<le> k then k - n else k + 32 - n)"
    using k assms by (auto simp: mod_if)
  also have "bit x (if n \<le> k then k - n else k + 32 - n) \<longleftrightarrow> bit (rol32 x n) k"
    using k assms by (auto simp: rol32_def bit_simps add.commute dest: bit_imp_le_length)
  finally show "bit (rol32 x n) k = bit (word_rotl n x) k" by (rule sym)
qed

lemma rol32_rotls:
  "rol32 x 7 = word_rotl 7 x" "rol32 x 9 = word_rotl 9 x" "rol32 x 13 = word_rotl 13 x" "rol32 x 18 = word_rotl 18 x"
  by (simp_all add: rol32_rotl)

text \<open>Four assignments of the code are one quarter round.\<close>

definition quarter :: "nat \<Rightarrow> nat \<Rightarrow> nat \<Rightarrow> nat \<Rightarrow> (nat \<times> nat \<times> nat \<times> nat) list" where
  "quarter a b c d = [(b, a, d, 7), (c, b, a, 9), (d, c, b, 13), (a, d, c, 18)]"

lemma fold_quarter:
  assumes "quarterround (x ! a) (x ! b) (x ! c) (x ! d) = (z0, z1, z2, z3)"
    and "distinct [a, b, c, d]" "a < length x" "b < length x" "c < length x" "d < length x"
  shows "fold salsa_step (quarter a b c d) x = x[b := z1, c := z2, d := z3, a := z0]"
proof -
  have z: "z1 = x ! b XOR rol32 (x ! a + x ! d) 7" "z2 = x ! c XOR rol32 (z1 + x ! a) 9"
    "z3 = x ! d XOR rol32 (z2 + z1) 13" "z0 = x ! a XOR rol32 (z3 + z2) 18"
    using assms(1) by (auto simp: quarterround_def Let_def rol32_rotls)
  show ?thesis using assms(2-6) by (simp add: quarter_def z [symmetric])
qed

lemma salsa_round_quarters:
  "salsa_round = quarter 0 4 8 12 @ quarter 5 9 13 1 @ quarter 10 14 2 6 @ quarter 15 3 7 11 @
     quarter 0 1 2 3 @ quarter 5 6 7 4 @ quarter 10 11 8 9 @ quarter 15 12 13 14"
  by (simp add: salsa_round_def quarter_def)


lemma length_16: "length x = 16 \<Longrightarrow> \<exists>x0 x1 x2 x3 x4 x5 x6 x7 x8 x9 x10 x11 x12 x13 x14 x15.
    x = [x0, x1, x2, x3, x4, x5, x6, x7, x8, x9, x10, x11, x12, x13, x14, x15]"
  by (simp add: numeral_eq_Suc length_Suc_conv) blast

lemma column_quarters:
  assumes "length x = 16"
  shows "fold salsa_step (quarter 0 4 8 12 @ quarter 5 9 13 1 @ quarter 10 14 2 6 @ quarter 15 3 7 11) x = columnround x"
proof -
  obtain x0 x1 x2 x3 x4 x5 x6 x7 x8 x9 x10 x11 x12 x13 x14 x15
    where x: "x = [x0, x1, x2, x3, x4, x5, x6, x7, x8, x9, x10, x11, x12, x13, x14, x15]"
    using length_16 [OF assms] by blast
  obtain y0 y4 y8 y12 where 0: "quarterround x0 x4 x8 x12 = (y0, y4, y8, y12)" by (metis prod_cases4)
  obtain y5 y9 y13 y1 where 5: "quarterround x5 x9 x13 x1 = (y5, y9, y13, y1)" by (metis prod_cases4)
  obtain y10 y14 y2 y6 where 10: "quarterround x10 x14 x2 x6 = (y10, y14, y2, y6)" by (metis prod_cases4)
  obtain y15 y3 y7 y11 where 15: "quarterround x15 x3 x7 x11 = (y15, y3, y7, y11)" by (metis prod_cases4)
  show ?thesis
    by (simp add: x fold_quarter 0 5 10 15 columnround_def)
qed

lemma row_quarters:
  assumes "length y = 16"
  shows "fold salsa_step (quarter 0 1 2 3 @ quarter 5 6 7 4 @ quarter 10 11 8 9 @ quarter 15 12 13 14) y = rowround y"
proof -
  obtain y0 y1 y2 y3 y4 y5 y6 y7 y8 y9 y10 y11 y12 y13 y14 y15
    where y: "y = [y0, y1, y2, y3, y4, y5, y6, y7, y8, y9, y10, y11, y12, y13, y14, y15]"
    using length_16 [OF assms] by blast
  obtain z0 z1 z2 z3 where 0: "quarterround y0 y1 y2 y3 = (z0, z1, z2, z3)" by (metis prod_cases4)
  obtain z5 z6 z7 z4 where 5: "quarterround y5 y6 y7 y4 = (z5, z6, z7, z4)" by (metis prod_cases4)
  obtain z10 z11 z8 z9 where 10: "quarterround y10 y11 y8 y9 = (z10, z11, z8, z9)" by (metis prod_cases4)
  obtain z15 z12 z13 z14 where 15: "quarterround y15 y12 y13 y14 = (z15, z12, z13, z14)" by (metis prod_cases4)
  show ?thesis
    by (simp add: y fold_quarter 0 5 10 15 rowround_def)
qed

lemma salsa_round_double: "length x = 16 \<Longrightarrow> fold salsa_step salsa_round x = doubleround x"
  using column_quarters [of x] row_quarters [of "columnround x"]
  by (simp add: salsa_round_quarters doubleround_def columnround_def split: prod.split)


section \<open>The blocks of the code\<close>

lemma funpow_double: "length x = 16 \<Longrightarrow> (fold salsa_step salsa_round ^^ n) x = (doubleround ^^ n) x"
proof (induction n)
  case (Suc n)
  moreover have "length ((doubleround ^^ n) x) = 16" using Suc by (metis length_rounds)
  ultimately show ?case using salsa_round_double by simp
qed simp

lemma salsa20Block_core: "length (words_of b) = 16 \<Longrightarrow> salsa20Block (words_of b) = salsa_core b"
  by (simp add: salsa20Block_def salsa_core_def Let_def funpow_double putLE32_def comp_def case_prod_unfold)

text \<open>The state of the code before block \<open>n\<close>, and the bytes it stands for.\<close>

definition state_at :: "bytes \<Rightarrow> bytes \<Rightarrow> nat \<Rightarrow> u32 list" where
  "state_at k nonce n =
     (salsa_init k nonce)[8 := word_of_nat n, 9 := word_of_nat (n div 2 ^ 32)]"

lemma drop_le_bytes: "drop k (le_bytes (k + m) n) = le_bytes m (n div 256 ^ k)"
  by (induction k arbitrary: n) (simp_all add: div_mult2_eq)

lemma take_le_bytes: "take k (le_bytes (k + m) n) = le_bytes k n"
  by (induction k arbitrary: n) simp_all

lemma words_of_append:
  assumes "length a = 4 * m"
  shows "words_of (a @ b) = words_of a @ words_of b"
proof -
  have w: "take 4 (drop (4 * i) (a @ b)) = take 4 (drop (4 * i) a)" if "i < m" for i
    using that assms by simp
  have "words_of (a @ b) = map (\<lambda>i. word_of_nat (le_val (take 4 (drop (4 * i) (a @ b))))) ([0..<m] @ [m..<m + length b div 4])"
    using assms upt_add_eq_append [of 0 m "length b div 4"] by (simp add: words_of_def)
  also have "\<dots> = words_of a @ map (\<lambda>i. word_of_nat (le_val (take 4 (drop (4 * i) (a @ b))))) [m..<m + length b div 4]"
    using assms w by (simp add: words_of_def del: take_append drop_append cong: map_cong)
  also have "[m..<m + length b div 4] = map (\<lambda>i. i + m) [0..<length b div 4]"
    by (simp add: map_add_upt add.commute)
  finally show ?thesis using assms by (simp add: words_of_def comp_def algebra_simps)
qed

lemma words_of_4: "length a = 4 \<Longrightarrow> words_of a = [u32_at a 0]"
  by (simp add: words_of_def u32_at_def)

lemma words_of_8: "length a = 8 \<Longrightarrow> words_of a = [u32_at a 0, u32_at a 4]"
  by (simp add: words_of_def u32_at_def upt_rec)

lemma words_of_16: "length a = 16 \<Longrightarrow> words_of a = [u32_at a 0, u32_at a 4, u32_at a 8, u32_at a 12]"
  by (simp add: words_of_def u32_at_def upt_rec)

lemma word32_le_bytes: "word_of_nat (le_val (le_bytes 4 m)) = (word_of_nat m :: u32)"
proof -
  have "(word_of_nat (m mod 2 ^ LENGTH(32)) :: u32) = word_of_nat m"
    by (simp only: word_of_nat_eq_iff take_bit_eq_mod mod_mod_trivial)
  then show ?thesis by (simp add: le_val_le_bytes)
qed

lemma words_of_counter: "words_of (le_bytes 8 n) = [word_of_nat n, word_of_nat (n div 2 ^ 32)]"
  using drop_le_bytes [of 4 4 n] take_le_bytes [of 4 4 n] word32_le_bytes [of n] word32_le_bytes [of "n div 2 ^ 32"]
  by (simp add: words_of_8 u32_at_def)

lemma sigma_words:
  "u32_at (lit ''expa'') 0 = u32_at tau 0" "u32_at (lit ''nd 1'') 0 = u32_at tau 4"
  "u32_at (lit ''6-by'') 0 = u32_at tau 8" "u32_at (lit ''te k'') 0 = u32_at tau 12"
  by (simp_all add: u32_at_def tau_def lit_def)

lemma words_of_block:
  assumes "length k = 16" "length nonce = 8"
  shows "words_of (lit ''expa'' @ k @ lit ''nd 1'' @ nonce @ le_bytes 8 n @ lit ''6-by'' @ k @ lit ''te k'') = state_at k nonce n"
proof -
  have "length (lit ''expa'') = 4 * 1" "length (lit ''nd 1'') = 4 * 1" "length (lit ''6-by'') = 4 * 1" "length (lit ''te k'') = 4"
    "length k = 4 * 4" "length nonce = 4 * 2" "length (le_bytes 8 n) = 4 * 2"
    using assms by (simp_all add: lit_def)
  then show ?thesis
    using assms
    by (simp add: words_of_append words_of_4 words_of_8 [of nonce] words_of_16 words_of_counter sigma_words state_at_def salsa_init_def)
qed

lemma state_at_0: "length k = 16 \<Longrightarrow> salsa_init k nonce = state_at k nonce 0"
  by (simp add: state_at_def salsa_init_def)

lemma bump_state: "bump_counter (state_at k nonce n) = state_at k nonce (n + 1)"
proof -
  have s: "(word_of_nat (n + 1) :: u32) = word_of_nat n + 1" by simp
  have z: "(word_of_nat n + 1 :: u32) = 0 \<longleftrightarrow> (n + 1) mod 2 ^ 32 = 0"
    unfolding s [symmetric] by (simp add: word_of_nat_eq_0_iff mod_eq_0_iff_dvd del: of_nat_Suc of_nat_add)
  have "(n + 1) div 2 ^ 32 = (if (n + 1) mod 2 ^ 32 = 0 then n div 2 ^ 32 + 1 else n div 2 ^ 32)"
    using div_Suc [of n "2 ^ 32"] mod_Suc [of n "2 ^ 32"] by simp
  then show ?thesis
    using z by (simp add: bump_counter_def state_at_def Let_def salsa_init_def add.commute split: prod.split)
qed


lemma length_state_at [simp]: "length (state_at k nonce n) = 16"
  by (simp add: state_at_def)

lemma salsa20Block_at:
  assumes "length k = 16" "length nonce = 8"
  shows "salsa20Block (state_at k nonce n) = salsa_block k nonce n"
  using salsa20Block_core [of "lit ''expa'' @ k @ lit ''nd 1'' @ nonce @ le_bytes 8 n @ lit ''6-by'' @ k @ lit ''te k''"] assms
  by (simp add: salsa_block_def words_of_block)

lemma length_salsa_block: "length k = 16 \<Longrightarrow> length nonce = 8 \<Longrightarrow> length (salsa_block k nonce n) = 64"
  using length_salsa20Block [of "state_at k nonce n"] by (simp add: salsa20Block_at)

section \<open>The cipher of the code\<close>

lemma salsa_loop_nth:
  assumes "length k = 16" "length nonce = 8"
  shows "j < length src \<Longrightarrow> salsa_loop (state_at k nonce n) src ! j = src ! j XOR salsa_block k nonce (n + j div 64) ! (j mod 64)"
proof (induction j arbitrary: n src rule: less_induct)
  case (less j)
  let ?b = "salsa20Block (state_at k nonce n)"
  have b: "?b = salsa_block k nonce n" "length ?b = 64"
    using salsa20Block_at length_salsa_block assms by simp_all
  have l: "salsa_loop (state_at k nonce n) src =
      map2 (XOR) (take 64 src) (take (length (take 64 src)) ?b) @ salsa_loop (state_at k nonce (n + 1)) (drop 64 src)"
    using less.prems by (subst salsa_loop.simps) (auto simp: bump_state)
  show ?case
  proof (cases "j < 64")
    case True
    then show ?thesis using less.prems b by (simp add: l nth_append)
  next
    case False
    then obtain i where i: "j = 64 + i" by (metis le_add_diff_inverse not_less)
    have "salsa_loop (state_at k nonce (n + 1)) (drop 64 src) ! i = drop 64 src ! i XOR salsa_block k nonce (n + 1 + i div 64) ! (i mod 64)"
      by (rule less.IH) (use i less.prems in auto)
    moreover have "(64 + i) div 64 = Suc (i div 64)" by simp
    ultimately show ?thesis using False less.prems b by (simp add: l nth_append i)
  qed
qed

lemma salsa20XOR_spec:
  assumes "length k = 16" "length nonce = 8"
  shows "salsa20XOR src k nonce = Ret (salsa_encrypt k nonce src)"
proof -
  have "salsa_loop (state_at k nonce 0) src = salsa_encrypt k nonce src"
    using salsa_loop_nth [OF assms, of _ src 0]
    by (intro nth_equalityI) (simp_all add: salsa_encrypt_def length_salsa_loop)
  then show ?thesis using assms by (simp add: salsa20XOR_def state_at_0)
qed

section \<open>Frames\<close>

lemma frame_iv_nonce:
  assumes "length ivb = 4 \<or> length ivb = 8"
  shows "take 8 (frame_iv ivb i) = frame_nonce ivb i"
proof (rule nth_equalityI)
  fix j assume "j < length (take 8 (frame_iv ivb i))"
  then have j: "j < 8" by simp
  have "fit 16 ivb ! j = (if j < length ivb then ivb ! j else 0)" using assms j by (auto simp: fit_def nth_append)
  moreover have "le_bytes 4 i ! j = word_of_nat (i div 256 ^ j)" if "j < 4" using that by (simp add: le_bytes_map)
  ultimately show "take 8 (frame_iv ivb i) ! j = frame_nonce ivb i ! j"
    using j by (simp add: frame_iv_def Let_def frame_nonce_def nth_append)
qed (simp add: frame_nonce_def)

text \<open>
  C8. DecryptFrame undoes Salsa20 as its specification defines it: a frame body in the Salsa20
  form (key name, IV of four or eight bytes, payload) whose payload is the specified encryption
  of a plaintext, under the registered key and the IV with its first four bytes combined with
  the frame index, decrypts to the plaintext. The specification is written from quarter rounds,
  row and column rounds and a 64-bit block counter.
\<close>

theorem DecryptFrame_salsa_spec:
  assumes "registry_ok r" "registry_Find r keyName = Some key" "length ivb = 4 \<or> length ivb = 8"
  shows "DecryptFrame C r (salsa_frame keyName ivb (salsa_encrypt key (frame_nonce ivb i) plain)) i = Ret plain"
proof (rule salsa_frame_decrypts [OF assms(2,3)])
  have "length key = 16" using assms(1,2) by (auto simp: registry_ok_def registry_Find_def)
  then show "salsa20XOR plain key (take 8 (frame_iv ivb i)) = Ret (salsa_encrypt key (frame_nonce ivb i) plain)"
    using frame_iv_nonce [OF assms(3)] by (simp add: salsa20XOR_spec frame_nonce_def)
qed


section \<open>A known answer\<close>

text \<open>
  The first keystream block of the eSTREAM vector that the repository's tests check: key 80 00 .. 00, nonce zero.
\<close>

definition kat_key :: bytes where "kat_key = 0x80 # replicate 15 0"

definition kat_block :: bytes where
  "kat_block =
    [0x4D, 0xFA, 0x5E, 0x48, 0x1D, 0xA2, 0x3E, 0xA0, 0x9A, 0x31, 0x02, 0x20, 0x50, 0x85, 0x99, 0x36,
     0xDA, 0x52, 0xFC, 0xEE, 0x21, 0x80, 0x05, 0x16, 0x4F, 0x26, 0x7C, 0xB6, 0x5F, 0x5C, 0xFD, 0x7F,
     0x2B, 0x4F, 0x97, 0xE0, 0xFF, 0x16, 0x92, 0x4A, 0x52, 0xDF, 0x26, 0x95, 0x15, 0x11, 0x0A, 0x07,
     0xF9, 0xE4, 0x60, 0xBC, 0x65, 0xEF, 0x95, 0xDA, 0x58, 0xF7, 0x40, 0xB7, 0xD1, 0xDB, 0xB0, 0xAA]"

lemma quarter_eval:
  "quarterround y0 y1 y2 y3 =
     (let z1 = y1 XOR rol32 (y0 + y3) 7; z2 = y2 XOR rol32 (z1 + y0) 9; z3 = y3 XOR rol32 (z2 + z1) 13 in
      (y0 XOR rol32 (z3 + z2) 18, z1, z2, z3))"
  by (simp add: quarterround_def rol32_rotls Let_def)

lemma zeros_val: "le_val (replicate n 0) = 0"
  by (induction n) simp_all

lemma kat_state: "state_at kat_key (replicate 8 0) 0 =
   [0x61707865, 0x80, 0, 0, 0, 0x3120646E, 0, 0, 0, 0, 0x79622D36, 0x80, 0, 0, 0, 0x6B206574]"
  by (simp add: state_at_def salsa_init_def kat_key_def u32_at_def tau_def zeros_val)

lemma kat_rounds:
  "doubleround [0x61707865, 0x80, 0, 0, 0, 0x3120646E, 0, 0, 0, 0, 0x79622D36, 0x80, 0, 0, 0, 0x6B206574] =
   [0x877140ED, 0xBC61B44D, 0x60AF1C4E, 0x8A219997, 0xDFA36B55, 0x9DC00F65, 0xE245EFC8, 0xECE54D32, 0x72A63AAC, 0xC0DC93D7, 0xA1CD6536, 0xB3D44CCB, 0x8EBD332B, 0xC4022FA0, 0x5D4FF16B, 0x65F222E]"
  "doubleround [0x877140ED, 0xBC61B44D, 0x60AF1C4E, 0x8A219997, 0xDFA36B55, 0x9DC00F65, 0xE245EFC8, 0xECE54D32, 0x72A63AAC, 0xC0DC93D7, 0xA1CD6536, 0xB3D44CCB, 0x8EBD332B, 0xC4022FA0, 0x5D4FF16B, 0x65F222E] =
   [0x1DFF67E3, 0x39538859, 0x717137D4, 0xB935012, 0xF279FF60, 0x26098B57, 0x4CC2CC68, 0x752F0A9C, 0xF62FEF8B, 0xA3028DE7, 0x74C726E7, 0x42BBAA73, 0x85D7AE1B, 0x36E9C191, 0x791019B1, 0x82263E6A]"
  "doubleround [0x1DFF67E3, 0x39538859, 0x717137D4, 0xB935012, 0xF279FF60, 0x26098B57, 0x4CC2CC68, 0x752F0A9C, 0xF62FEF8B, 0xA3028DE7, 0x74C726E7, 0x42BBAA73, 0x85D7AE1B, 0x36E9C191, 0x791019B1, 0x82263E6A] =
   [0xBC9CFFBC, 0x33EF9DAA, 0x8057F2B9, 0x896B4878, 0x705AE8B, 0xD14227C3, 0x64A13629, 0x112FC18C, 0xBFE180AD, 0xEAF359A0, 0x68467F43, 0xA365BB13, 0x6B1E849, 0xE6CC8032, 0x70E6C3FE, 0xCB0A55BB]"
  "doubleround [0xBC9CFFBC, 0x33EF9DAA, 0x8057F2B9, 0x896B4878, 0x705AE8B, 0xD14227C3, 0x64A13629, 0x112FC18C, 0xBFE180AD, 0xEAF359A0, 0x68467F43, 0xA365BB13, 0x6B1E849, 0xE6CC8032, 0x70E6C3FE, 0xCB0A55BB] =
   [0x27885144, 0x2D2A552B, 0xF3F9BF1B, 0x33EBEB6B, 0x104B8B7A, 0xA96110E, 0x9ACB26AE, 0x9DBA5B23, 0xBE384F78, 0x4CDF3AFC, 0xEF04B59D, 0xF0B9A6FE, 0xAE50A69B, 0x6C6EA81, 0xF11FE33A, 0x5ABCB2AE]"
  "doubleround [0x27885144, 0x2D2A552B, 0xF3F9BF1B, 0x33EBEB6B, 0x104B8B7A, 0xA96110E, 0x9ACB26AE, 0x9DBA5B23, 0xBE384F78, 0x4CDF3AFC, 0xEF04B59D, 0xF0B9A6FE, 0xAE50A69B, 0x6C6EA81, 0xF11FE33A, 0x5ABCB2AE] =
   [0x6D52785F, 0x5D421F38, 0xD44F5A20, 0xA7EC3B7C, 0xC6A5C6CB, 0xF2A38ECA, 0xC45BEAE, 0x69415FF, 0x93BBC87E, 0xCAD09B7B, 0xC4627081, 0x55276967, 0x3E13C4D8, 0xAA4E20F4, 0x2A485BF2, 0xBCDBFC61]"
  "doubleround [0x6D52785F, 0x5D421F38, 0xD44F5A20, 0xA7EC3B7C, 0xC6A5C6CB, 0xF2A38ECA, 0xC45BEAE, 0x69415FF, 0x93BBC87E, 0xCAD09B7B, 0xC4627081, 0x55276967, 0x3E13C4D8, 0xAA4E20F4, 0x2A485BF2, 0xBCDBFC61] =
   [0x5E0CA897, 0x175E6C47, 0x7A1E9674, 0x609AD5A, 0xAC25229B, 0x49DE7BAE, 0x370E70C, 0xF8BDE5E7, 0x21F81AB3, 0xE6130800, 0x9E2A3E8F, 0x70EED5F1, 0xD0FBB239, 0xD78A8EA6, 0xB644390A, 0x2C582E03]"
  "doubleround [0x5E0CA897, 0x175E6C47, 0x7A1E9674, 0x609AD5A, 0xAC25229B, 0x49DE7BAE, 0x370E70C, 0xF8BDE5E7, 0x21F81AB3, 0xE6130800, 0x9E2A3E8F, 0x70EED5F1, 0xD0FBB239, 0xD78A8EA6, 0xB644390A, 0x2C582E03] =
   [0x25571A99, 0x3197DBEE, 0x50A1C7D7, 0x91F0E753, 0x2528837D, 0x56153F81, 0x287F5022, 0x270918E4, 0x42764FA3, 0xFEA16E5B, 0x9EC649FE, 0xA4E5E669, 0x8734B3D9, 0x6FC1AE8A, 0xB79A8A04, 0xAF160A85]"
  "doubleround [0x25571A99, 0x3197DBEE, 0x50A1C7D7, 0x91F0E753, 0x2528837D, 0x56153F81, 0x287F5022, 0x270918E4, 0x42764FA3, 0xFEA16E5B, 0x9EC649FE, 0xA4E5E669, 0x8734B3D9, 0x6FC1AE8A, 0xB79A8A04, 0xAF160A85] =
   [0x3D87B380, 0x5F9D893A, 0xC676CD97, 0xE6D2B4B8, 0x7D6CA34A, 0x1DC97A79, 0xE3DE94B, 0xBCCB03CD, 0x12E2A81B, 0x23B00E62, 0x74D433A6, 0xACEDB4CB, 0x6E34FE34, 0xF4C034E4, 0xB3349639, 0xF6AC0473]"
  "doubleround [0x3D87B380, 0x5F9D893A, 0xC676CD97, 0xE6D2B4B8, 0x7D6CA34A, 0x1DC97A79, 0xE3DE94B, 0xBCCB03CD, 0x12E2A81B, 0x23B00E62, 0x74D433A6, 0xACEDB4CB, 0x6E34FE34, 0xF4C034E4, 0xB3349639, 0xF6AC0473] =
   [0xE9FB1DD3, 0x80E4F86D, 0x2BF2E408, 0xD1809E73, 0x20872C8D, 0xD93BC116, 0x9012E00C, 0x1C813D8E, 0x45AA03AE, 0x7136CBA6, 0xA6B85FC3, 0x9E2D048A, 0x48013F9E, 0x1F2853D3, 0x854C21D, 0xB9CDFB3C]"
  "doubleround [0xE9FB1DD3, 0x80E4F86D, 0x2BF2E408, 0xD1809E73, 0x20872C8D, 0xD93BC116, 0x9012E00C, 0x1C813D8E, 0x45AA03AE, 0x7136CBA6, 0xA6B85FC3, 0x9E2D048A, 0x48013F9E, 0x1F2853D3, 0x854C21D, 0xB9CDFB3C] =
   [0xE6EE81E8, 0xA03EA19D, 0x2002319A, 0x36998550, 0xEEFC52DA, 0xE4E51BB3, 0xB67C264F, 0x7FFD5C5F, 0xE0974F2B, 0x4A9216FF, 0x1BC4B21C, 0x70A1095, 0xBC60E4F9, 0xDA95EF65, 0xB740F758, 0x3F90765D]"
  by (simp_all add: doubleround_def columnround_def rowround_def quarter_eval Let_def rol32_def)

lemma replicate_8: "replicate 8 x = [x, x, x, x, x, x, x, x]"
  by (simp add: numeral_eq_Suc)

lemma funpow_10: "(f ^^ 10) x = f (f (f (f (f (f (f (f (f (f x)))))))))"
  by (simp add: numeral_eq_Suc)

lemma le_bytes_words: "le_bytes 4 n = [word_of_nat n, word_of_nat (n div 256), word_of_nat (n div 65536), word_of_nat (n div 16777216)]"
  by (simp add: le_bytes_numeral flip: div_mult2_eq)

lemma kat_salsa_block: "salsa_block kat_key (replicate 8 0) 0 = kat_block"
proof -
  let ?b = "lit ''expa'' @ kat_key @ lit ''nd 1'' @ replicate 8 0 @ le_bytes 8 0 @ lit ''6-by'' @ kat_key @ lit ''te k''"
  have w: "words_of ?b = state_at kat_key (replicate 8 0) 0"
    using words_of_block [of kat_key "replicate 8 0" 0] by (simp add: kat_key_def)
  have "salsa_core ?b = concat (map (\<lambda>(z, y). le_bytes 4 (unat (z + y)))
      (zip ((doubleround ^^ 10) (state_at kat_key (replicate 8 0) 0)) (state_at kat_key (replicate 8 0) 0)))"
    by (simp only: salsa_core_def Let_def w)
  also have "(doubleround ^^ 10) (state_at kat_key (replicate 8 0) 0) =
   [0xE6EE81E8, 0xA03EA19D, 0x2002319A, 0x36998550, 0xEEFC52DA, 0xE4E51BB3, 0xB67C264F, 0x7FFD5C5F, 0xE0974F2B, 0x4A9216FF, 0x1BC4B21C, 0x70A1095, 0xBC60E4F9, 0xDA95EF65, 0xB740F758, 0x3F90765D]"
    by (simp only: funpow_10 kat_state kat_rounds)
  also have "concat (map (\<lambda>(z, y). le_bytes 4 (unat (z + y)))
      (zip [0xE6EE81E8, 0xA03EA19D, 0x2002319A, 0x36998550, 0xEEFC52DA, 0xE4E51BB3, 0xB67C264F, 0x7FFD5C5F, 0xE0974F2B, 0x4A9216FF, 0x1BC4B21C, 0x70A1095, 0xBC60E4F9, 0xDA95EF65, 0xB740F758, 0x3F90765D]
        (state_at kat_key (replicate 8 0) 0))) = kat_block"
    by (simp add: kat_state kat_block_def le_bytes_words)
  finally show ?thesis by (simp add: salsa_block_def)
qed

text \<open>A frame whose payload is that block decrypts to 64 zeros; frame 258 needs the IV 2, 1 for the same nonce.\<close>

theorem DecryptFrame_salsa_spec_witness:
  "DecryptFrame run_codecs [5 \<mapsto> kat_key] (salsa_frame 5 [2, 1, 0, 0] kat_block) 258 = Ret (replicate 64 0)"
proof -
  have r: "registry_ok [5 \<mapsto> kat_key]" by (simp add: registry_ok_def kat_key_def)
  have n: "frame_nonce [2, 1, 0, 0] 258 = replicate 8 0"
    by (simp add: frame_nonce_def upt_rec replicate_8)
  have "salsa_encrypt kat_key (replicate 8 0) (replicate 64 0) = kat_block"
  proof (rule nth_equalityI)
    show "length (salsa_encrypt kat_key (replicate 8 0) (replicate 64 0)) = length kat_block"
      by (simp add: salsa_encrypt_def kat_block_def)
    fix j assume "j < length (salsa_encrypt kat_key (replicate 8 0) (replicate 64 0))"
    then show "salsa_encrypt kat_key (replicate 8 0) (replicate 64 0) ! j = kat_block ! j"
      by (simp add: salsa_encrypt_def kat_salsa_block)
  qed
  then show ?thesis
    using DecryptFrame_salsa_spec [OF r, of 5 kat_key "[2, 1, 0, 0]" run_codecs 258 "replicate 64 0"]
    by (simp add: registry_Find_def n)
qed

end
