(* ===== verification/Spec2Isabelle.thy ===== *)
theory Spec2Isabelle
  imports
    Archive ArchiveStore Blte BuildCfg CascBase CascStorage CdnClient CdnDownload
    CdnIndex Cmf CmfIvRecipes CmfKeyRecipes CmfKeys CmfLaws CmfRuntime CmfTables
    Compress Csv Decrypt Encoding Flush FlushLaws GoGlob GoSort GoText IndexFile
    IndexWriter Jenkins Listfile MndxBits MndxLaws MndxLouds MndxRank MndxTrie
    OverlayLaws Prelude PublicApi Remount RootBase RootDiablo3 RootInstall RootMndx
    RootText RootTvfs RootWow Roots SalsaSpec StorageLaws
begin

text \<open>
  A model of go-casclib, a Go library that reads and writes CASC storages: game data kept as
  content-addressed, compressed spans in segment files. The development follows the
  repository's packages; each theory translates one or two of them function by function and
  proves what makes them correct.

  The parts and how they interact. A file's content is split into frames, compressed and put
  behind a frame table (\<^verbatim>\<open>internal/datafile\<close>, with \<^verbatim>\<open>internal/compress\<close>); the stream's MD5 is its
  encoded key. \<^verbatim>\<open>internal/archive\<close> appends the stream to a data.NNN segment and returns an entry
  (segment, offset, size) that \<^verbatim>\<open>internal/index\<close> stores under the key in an .idx file. The ENCODING
  manifest (\<^verbatim>\<open>internal/encoding\<close>) maps content keys to encoded keys, and a root manifest
  (\<^verbatim>\<open>internal/root/*\<close>) maps names to content keys. Reading goes the other way, and decrypts frames
  with \<^verbatim>\<open>internal/decrypt\<close> where a key is registered. CDN storages use \<^verbatim>\<open>internal/cdn\<close>: archive
  indexes in place of local ones, and a DOWNLOAD manifest.

  Theories.
  \<^item> \<open>Prelude\<close>: outcomes of Go calls (value, error, panic) and their combinators, bounds-checked
    slices, byte-order codecs. \<open>GoText\<close>: the line scanner, trimming and hexadecimal coding of
    the standard library. \<open>GoGlob\<close>: \<^verbatim>\<open>filepath.Match\<close> and \<^verbatim>\<open>filepath.Glob\<close>, where the path of a directory is
    itself a pattern. \<open>GoSort\<close>: \<^verbatim>\<open>sort.Slice\<close> as the locale \<open>slice_order\<close>; where equal elements
    are equal, its result is unique.
  \<^item> \<open>CascBase\<close>: \<^verbatim>\<open>internal/casc\<close>, the constants and integer helpers, each shown to be the byte-order
    codec it stands for. \<open>Jenkins\<close>: \<^verbatim>\<open>internal/hashes\<close>.
  \<^item> \<open>Compress\<close>, \<open>Decrypt\<close>, \<open>Blte\<close>: \<^verbatim>\<open>internal/compress\<close>, \<^verbatim>\<open>internal/decrypt\<close> (with Salsa20 written out)
    and \<^verbatim>\<open>internal/datafile\<close>: frame decoding is safe and bounded in depth, each frame decodes to
    its chunk, the frame table reads back. \<open>SalsaSpec\<close>: the Salsa20 specification, quarter rounds and block
    counter, and that the code's unrolled assignments compute it; a known keystream block is evaluated.
  \<^item> \<open>Archive\<close>, \<open>ArchiveStore\<close>: \<^verbatim>\<open>internal/archive\<close>. \<open>Archive\<close> has the decoder, the span header, the
    writer and the reader pool; \<open>ArchiveStore\<close> puts them together: the locale \<open>append_log\<close> states
    what an append-only store promises and is interpreted by \<^verbatim>\<open>WriteSpan\<close> and \<^verbatim>\<open>ReadSpan\<close>'s data path.
  \<^item> \<open>IndexFile\<close>, \<open>IndexWriter\<close>: \<^verbatim>\<open>internal/index\<close>, parser and writer. \<open>Encoding\<close>: \<^verbatim>\<open>internal/encoding\<close>.
  \<^item> \<open>CdnIndex\<close>, \<open>CdnDownload\<close>: \<^verbatim>\<open>internal/cdn\<close>. \<open>Listfile\<close>, \<open>RootInstall\<close>: \<^verbatim>\<open>internal/listfile\<close> and
    \<^verbatim>\<open>internal/root/install\<close>.
  \<^item> \<open>RootBase\<close>: the probe registry of \<^verbatim>\<open>internal/root\<close> and the locale \<open>hashed_root\<close> of roots that index
    entries by name hash; \<open>RootText\<close> interprets it for \<^verbatim>\<open>internal/root/text\<close> and \<^verbatim>\<open>internal/root/overwatch\<close>.
    \<open>RootWow\<close>, \<open>RootTvfs\<close>, \<open>RootDiablo3\<close>: the packages of those names, each with its writer where
    the code has one. \<open>Csv\<close>, \<open>BuildCfg\<close>: \<^verbatim>\<open>internal/csv\<close> and \<^verbatim>\<open>internal/buildcfg\<close>. \<open>Roots\<close>: all probes
    registered, as \<^verbatim>\<open>pkg/casc\<close> does on import, and detection over them, in which only the MNDX probe can panic.
  \<^item> \<open>MndxBits\<close>, \<open>MndxTrie\<close>, \<open>RootMndx\<close>: \<^verbatim>\<open>internal/root/mndx\<close>, the packed arrays and the tries of trie.go, and
    mndx.go. \<open>MndxRank\<close>: the shortcut tables and bit tricks compute rank and select. \<open>MndxLouds\<close>: the
    incremental search enumerates the tree that the collision table encodes in level order; a search is a
    state with the stops above and below the current node, \<open>search_at\<close>. \<open>MndxLaws\<close>: safety of the loaders,
    exactly when detection panics, the entry table, and the name index over two well-formed tries.
  \<^item> \<open>CdnClient\<close>: the HTTP client of \<^verbatim>\<open>internal/cdn\<close> and the concurrent loading of archive indexes.
    \<open>CascStorage\<close>, \<open>StorageLaws\<close>: \<^verbatim>\<open>internal/storage\<close>, opening, the key map, reading through archives, cache
    and network, and its properties (the cache is transparent; reading does not panic).
  \<^item> \<open>PublicApi\<close>, \<open>OverlayLaws\<close>: \<^verbatim>\<open>pkg/casc\<close>, files, listing, metadata and the write overlay; the overlay
    refines a map from names to contents. \<open>Flush\<close>, \<open>FlushLaws\<close>, \<open>Remount\<close>: \<^verbatim>\<open>pkg/casc/flush.go\<close> over a file
    system whose calls may fail; a flush without faults succeeds, and a storage that was flushed with success
    opens again and every file reads back.
  \<^item> \<open>Cmf\<close>: \<^verbatim>\<open>internal/root/overwatch/cmf.go\<close>, content manifests and APM files. \<open>CmfRuntime\<close>, \<open>CmfKeyRecipes\<close>,
    \<open>CmfIvRecipes\<close>, \<open>CmfTables\<close>: \<^verbatim>\<open>internal/root/overwatch/cmfkeys\<close>, the runtime helpers, the recipes and the
    key tables, definitions in the order of the generated files, each recipe with the fact that it does not
    panic. \<open>CmfKeys\<close>: the registry of \<^verbatim>\<open>cmfkeys.go\<close> and the sort of the known builds. \<open>CmfLaws\<close>: exactly
    which manifests make a load with that registry panic.
  How state is modelled. Structs are records with the fields of the source under a prefix;
  methods with pointer receivers take the record and return it updated. Go maps are functions
  to options. The data directory is a map from segment numbers to file contents, a file handle
  is a position in it, and an \<open>io_faults\<close> argument lets any system call of a write fail. A mutex
  held for a whole method makes the method one step. An error is the sentinel of
  \<^verbatim>\<open>internal/casc/errors.go\<close> that the error wraps, a run-time panic is the outcome \<open>Panic\<close>.

  What the lemmas show. Every parser is safe: its outcome is never a panic, on any input (the
  exceptions are stated and shown to be exceptions). Every writer is inverted by its parser
  under stated bounds on counts and widths, and the theorems that fail the bounds on purpose
  record what the code does there. Loops are recursive functions with termination proofs.

  Parameters and limits. MD5, zlib, bzip2 and AES belong to Go's standard library and enter as
  the record \<open>codecs\<close>, with the hypotheses \<open>codecs_ok\<close> (MD5 sums have 16 bytes, zlib streams start
  with the byte 0x78 and inflate to what was deflated) and \<open>codecs_safe\<close> (the readers do not
  panic); \<open>run_codecs\<close> meets both and serves the witnesses. The LZMA decoder is the hook a client
  may register. A slice's capacity is its length. A Go \<^verbatim>\<open>int\<close> is a natural number where it is a
  length, an offset or a widened field; arithmetic that can wrap is on words. \<^verbatim>\<open>sort.Slice\<close> is an
  insertion sort, one of the results its contract allows. A \<^verbatim>\<open>make\<close> whose size comes from the input
  panics above \<open>2 ^ 48\<close> bytes where the program has one that large (the span decoder); smaller
  allocations are assumed to succeed.

  A path is a list of names below the root, so a directory is absolute; the string a caller opens is split
  and cleaned as \<^verbatim>\<open>filepath\<close> does. The directories that cache writes make are left out of the listings: they
  hold neither segments nor indexes.

  Not modelled: the HTTP exchange and the operating system's file calls, whose answers are arguments,
  the wording of error messages, and the command-line tools that compare listings with the C++ library.
\<close>

end
